(* ===== verification/Prelude.thy ===== *)
theory Prelude
  imports Main "HOL-Library.Char_ord" "HOL-Library.List_Lexorder" "HOL-Library.Sublist"
    "HOL-Library.AList" "HOL-Library.Multiset"
begin

text \<open>
  Shared foundations: Go byte strings and nil-able byte slices, the error values of the
  program, the state-and-error computations every stateful operation is written in, and the
  generic lemmas on lists and sorted key lists that the components share.

  A Go \<^verbatim>\<open>string\<close> or non-nil \<^verbatim>\<open>[]byte\<close> is a list of bytes, and an Isabelle \<open>char\<close> is
  exactly one byte, so both are \<open>string\<close>. A \<^verbatim>\<open>[]byte\<close> that may be nil is \<open>string option\<close>
  (\<open>gobytes\<close>), with nil as \<open>None\<close>.
\<close>

section \<open>Bytes\<close>

type_synonym gobytes = "string option"

definition bstr :: "gobytes \<Rightarrow> string" where
  "bstr b = (case b of None \<Rightarrow> [] | Some s \<Rightarrow> s)"

abbreviation glen :: "gobytes \<Rightarrow> nat" where
  "glen b \<equiv> length (bstr b)"

lemma bstr_simps [simp]: "bstr None = []" "bstr (Some s) = s"
  by (simp_all add: bstr_def)

lemma bstr_nonempty: "bstr b \<noteq> [] \<Longrightarrow> b = Some (bstr b)"
  by (cases b) auto

section \<open>Errors\<close>

text \<open>
  The error values of the program. \<open>Err m\<close> is \<^verbatim>\<open>errors.Errorf(m)\<close>; the named sentinels are
  the package-level error variables; \<open>Wrapped m e\<close> is \<^verbatim>\<open>errors.Wrapf(e, m)\<close>; \<open>HTTPError c m\<close>
  is an error of the HTTP client and \<open>ErrHTTP c m\<close> one of the server, with a status code;
  \<open>ErrStatus c m\<close> is a gRPC status with its code; \<open>Panic m\<close> is a run-time panic; \<open>LibErr m\<close> is an
  error value returned by a library the source calls.
\<close>

datatype err =
    Err string
  | LibErr string
  | Panic string
  | Wrapped string err
  | HTTPError nat string
  | ErrHTTP nat string
  | ErrStatus string string
  | ErrNotOpen
  | ErrAlreadyOpen
  | ErrLocked
  | ErrInvalidAuth
  | ErrAlreadySetup
  | ErrItemValueTooLarge
  | ErrNotFound string
  | ErrVaultNotFound
  | ErrVaultDeleted

fun cause :: "err \<Rightarrow> err" where
  "cause (Wrapped m e) = cause e"
| "cause e = e"

text \<open>A panic unwinds the stack: no code that looks at an error value sees it.\<close>

fun isPanic :: "err \<Rightarrow> bool" where
  "isPanic (Panic m) = True"
| "isPanic e = False"

section \<open>Computations with state and errors\<close>

text \<open>
  A Go method with receiver state \<open>'s\<close> that returns \<^verbatim>\<open>(a, error)\<close> is a function from the
  state to the result and the new state. State changes made before an error are kept, as in
  the code.
\<close>

type_synonym ('s, 'a) op = "'s \<Rightarrow> (err + 'a) \<times> 's"

named_theorems op_simps \<open>evaluation of the state-and-error combinators\<close>
named_theorems op_iff \<open>inversion of successful runs\<close>

definition ret :: "'a \<Rightarrow> ('s, 'a) op" where
  "ret x = (\<lambda>s. (Inr x, s))"

definition fail :: "err \<Rightarrow> ('s, 'a) op" where
  "fail e = (\<lambda>s. (Inl e, s))"

definition bnd :: "('s, 'a) op \<Rightarrow> ('a \<Rightarrow> ('s, 'b) op) \<Rightarrow> ('s, 'b) op" where
  "bnd m f = (\<lambda>s. case m s of (Inl e, s') \<Rightarrow> (Inl e, s') | (Inr x, s') \<Rightarrow> f x s')"

definition gets :: "('s \<Rightarrow> 'a) \<Rightarrow> ('s, 'a) op" where
  "gets f = (\<lambda>s. (Inr (f s), s))"

definition modify :: "('s \<Rightarrow> 's) \<Rightarrow> ('s, unit) op" where
  "modify f = (\<lambda>s. (Inr (), f s))"

definition lift :: "err + 'a \<Rightarrow> ('s, 'a) op" where
  "lift r = (\<lambda>s. (r, s))"

text \<open>\<^verbatim>\<open>if c { return error }\<close> before the rest of the body.\<close>

definition failIf :: "bool \<Rightarrow> err \<Rightarrow> ('s, unit) op" where
  "failIf c e = (if c then fail e else ret ())"

text \<open>\<^verbatim>\<open>if err := m; err != nil { return errors.Wrapf(err, w) }\<close>\<close>

definition wrapErr :: "string \<Rightarrow> ('s, 'a) op \<Rightarrow> ('s, 'a) op" where
  "wrapErr w m = (\<lambda>s. case m s of (Inl e, s') \<Rightarrow> (Inl (if isPanic e then e else Wrapped w e), s') | (Inr x, s') \<Rightarrow> (Inr x, s'))"

text \<open>The same with any other error value in its place.\<close>

definition mapErr :: "(err \<Rightarrow> err) \<Rightarrow> ('s, 'a) op \<Rightarrow> ('s, 'a) op" where
  "mapErr h m = (\<lambda>s. case m s of (Inl e, s') \<Rightarrow> (Inl (if isPanic e then e else h e), s') | (Inr x, s') \<Rightarrow> (Inr x, s'))"

text \<open>\<^verbatim>\<open>x, err := m; if err != nil { return h(err) }\<close> before the rest of the body, \<open>k\<close>.\<close>

definition orElse :: "('s, 'a) op \<Rightarrow> (err \<Rightarrow> ('s, 'b) op) \<Rightarrow> ('a \<Rightarrow> ('s, 'b) op) \<Rightarrow> ('s, 'b) op" where
  "orElse m h k = (\<lambda>s. case m s of (Inl e, s') \<Rightarrow> if isPanic e then (Inl e, s') else h e s' | (Inr x, s') \<Rightarrow> k x s')"

text \<open>Running an operation of a component on the part of the state that component owns.\<close>

definition zoom :: "('s \<Rightarrow> 't) \<Rightarrow> ('t \<Rightarrow> 's \<Rightarrow> 's) \<Rightarrow> ('t, 'a) op \<Rightarrow> ('s, 'a) op" where
  "zoom get put m = (\<lambda>s. case m (get s) of (r, t) \<Rightarrow> (r, put t s))"

text \<open>\<^verbatim>\<open>for _, x := range xs { body }\<close>, leaving at the first error.\<close>

primrec forEach :: "'a list \<Rightarrow> ('a \<Rightarrow> ('s, unit) op) \<Rightarrow> ('s, unit) op" where
  "forEach [] f = ret ()"
| "forEach (x # xs) f = bnd (f x) (\<lambda>_. forEach xs f)"

text \<open>The same loop appending one optional result per round to a slice.\<close>

primrec collect :: "'a list \<Rightarrow> ('a \<Rightarrow> ('s, 'b option) op) \<Rightarrow> ('s, 'b list) op" where
  "collect [] f = ret []"
| "collect (x # xs) f =
     bnd (f x) (\<lambda>y. bnd (collect xs f) (\<lambda>ys. ret (case y of None \<Rightarrow> ys | Some z \<Rightarrow> z # ys)))"

text \<open>Operations that need not end, which is \<open>None\<close>.\<close>

definition liftP :: "('s, 'a) op \<Rightarrow> 's \<Rightarrow> ((err + 'a) \<times> 's) option" where
  "liftP m s = Some (m s)"

definition bndP ::
  "('s \<Rightarrow> ((err + 'a) \<times> 's) option) \<Rightarrow> ('a \<Rightarrow> 's \<Rightarrow> ((err + 'b) \<times> 's) option) \<Rightarrow> 's \<Rightarrow> ((err + 'b) \<times> 's) option" where
  "bndP m f s = (case m s of None \<Rightarrow> None | Some (Inl e, s') \<Rightarrow> Some (Inl e, s') | Some (Inr x, s') \<Rightarrow> f x s')"

definition wrapErrP :: "string \<Rightarrow> ('s \<Rightarrow> ((err + 'a) \<times> 's) option) \<Rightarrow> 's \<Rightarrow> ((err + 'a) \<times> 's) option" where
  "wrapErrP w m s =
     (case m s of None \<Rightarrow> None
      | Some (Inl e, s') \<Rightarrow> Some (Inl (if isPanic e then e else Wrapped w e), s')
      | Some (Inr x, s') \<Rightarrow> Some (Inr x, s'))"

lemma ret_run [op_simps]: "ret x s = (Inr x, s)"
  by (simp add: ret_def)

lemma fail_run [op_simps]: "fail e s = (Inl e, s)"
  by (simp add: fail_def)

lemma gets_run [op_simps]: "gets f s = (Inr (f s), s)"
  by (simp add: gets_def)

lemma modify_run [op_simps]: "modify f s = (Inr (), f s)"
  by (simp add: modify_def)

lemma lift_run [op_simps]: "lift r s = (r, s)"
  by (simp add: lift_def)

lemma failIf_run [op_simps]: "failIf c e s = (if c then Inl e else Inr (), s)"
  by (simp add: failIf_def op_simps)

lemma bnd_run_Inr [op_simps]: "m s = (Inr x, s') \<Longrightarrow> bnd m f s = f x s'"
  by (simp add: bnd_def)

lemma bnd_run_bool [op_simps]:
  "m s = (Inr True, s') \<Longrightarrow> bnd m f s = f True s'"
  "m s = (Inr False, s') \<Longrightarrow> bnd m f s = f False s'"
  by (simp_all add: bnd_def)

lemma bnd_run_Inl [op_simps]: "m s = (Inl e, s') \<Longrightarrow> bnd m f s = (Inl e, s')"
  by (simp add: bnd_def)

lemma bnd_simps [op_simps]:
  "bnd (ret x) f s = f x s"
  "bnd (fail e) f s = (Inl e, s)"
  "bnd (gets g) f s = f (g s) s"
  "bnd (lift (Inl e)) f s = (Inl e, s)"
  "bnd (lift (Inr y)) f s = f y s"
  by (simp_all add: bnd_def ret_def fail_def gets_def lift_def)

lemma bnd_unit_simps [op_simps]:
  "bnd (modify h) k s = k () (h s)"
  "bnd (failIf c e) k s = (if c then (Inl e, s) else k () s)"
  by (simp_all add: bnd_def ret_def fail_def gets_def modify_def failIf_def lift_def)

lemma bnd_assoc: "bnd (bnd m f) g = bnd m (\<lambda>x. bnd (f x) g)"
  by (auto simp: bnd_def fun_eq_iff split: prod.splits sum.splits)

lemma bnd_assoc_run [op_simps]: "bnd (bnd m f) g s = bnd m (\<lambda>x. bnd (f x) g) s"
  by (simp add: bnd_assoc)

lemma bnd_if_run [op_simps]: "bnd (if c then m else n) f s = (if c then bnd m f s else bnd n f s)"
  by simp

lemma bnd_Inr_iff [op_iff]:
  "bnd m f s = (Inr y, s'') \<longleftrightarrow> (\<exists>x s'. m s = (Inr x, s') \<and> f x s' = (Inr y, s''))"
  by (auto simp: bnd_def split: prod.splits sum.splits)

lemma bnd_Inl_iff:
  "bnd m f s = (Inl e, s'') \<longleftrightarrow>
     m s = (Inl e, s'') \<or> (\<exists>x s'. m s = (Inr x, s') \<and> f x s' = (Inl e, s''))"
  by (auto simp: bnd_def split: prod.splits sum.splits)

lemma simple_Inr_iff [op_iff]:
  "ret x s = (Inr y, s') \<longleftrightarrow> y = x \<and> s' = s"
  "fail e s = (Inr y, s') \<longleftrightarrow> False"
  "gets g s = (Inr y, s') \<longleftrightarrow> y = g s \<and> s' = s"
  "lift r s = (Inr y, s') \<longleftrightarrow> r = Inr y \<and> s' = s"
  by (auto simp: ret_def fail_def gets_def lift_def)

lemma unit_Inr_iff [op_iff]:
  "modify h s = (Inr u, s') \<longleftrightarrow> s' = h s"
  "failIf c e s = (Inr u, s') \<longleftrightarrow> \<not> c \<and> s' = s"
  by (auto simp: modify_def failIf_def ret_def fail_def)

lemma wrapErr_Inr_iff [op_iff]: "wrapErr w m s = (Inr y, s') \<longleftrightarrow> m s = (Inr y, s')"
  by (auto simp: wrapErr_def split: prod.splits sum.splits)

lemma wrapErr_run [op_simps]:
  "m s = (Inr x, s') \<Longrightarrow> wrapErr w m s = (Inr x, s')"
  "m s = (Inl e, s') \<Longrightarrow> \<not> isPanic e \<Longrightarrow> wrapErr w m s = (Inl (Wrapped w e), s')"
  by (simp_all add: wrapErr_def)

lemma mapErr_run [op_simps]:
  "m s = (Inr x, s') \<Longrightarrow> mapErr h m s = (Inr x, s')"
  "m s = (Inl e, s') \<Longrightarrow> \<not> isPanic e \<Longrightarrow> mapErr h m s = (Inl (h e), s')"
  by (simp_all add: mapErr_def)

lemma orElse_run [op_simps]:
  "m s = (Inr x, s') \<Longrightarrow> orElse m h k s = k x s'"
  "m s = (Inl e, s') \<Longrightarrow> \<not> isPanic e \<Longrightarrow> orElse m h k s = h e s'"
  "m s = (Inl (Panic p), s') \<Longrightarrow> orElse m h k s = (Inl (Panic p), s')"
  by (simp_all add: orElse_def)

lemma orElse_bool [op_simps]:
  "m s = (Inr True, s') \<Longrightarrow> orElse m h k s = k True s'"
  "m s = (Inr False, s') \<Longrightarrow> orElse m h k s = k False s'"
  by (simp_all add: orElse_def)

lemma zoom_run [op_simps]: "m (get s) = (r, t) \<Longrightarrow> zoom get put m s = (r, put t s)"
  by (simp add: zoom_def)

lemma zoom_Inr_iff [op_iff]:
  "zoom get put m s = (Inr x, s') \<longleftrightarrow> (\<exists>t. m (get s) = (Inr x, t) \<and> s' = put t s)"
  by (auto simp: zoom_def split: prod.splits)

lemma forEach_append: "forEach (xs @ ys) f = bnd (forEach xs f) (\<lambda>_. forEach ys f)"
proof (induction xs)
  case Nil
  show ?case by (auto simp: bnd_def ret_def fun_eq_iff)
next
  case (Cons x xs)
  then show ?case by (simp add: bnd_assoc)
qed

text \<open>
  A loop whose body keeps an invariant and succeeds under it: the loop succeeds and the
  invariant, indexed by the elements done so far, holds of the final state.
\<close>

lemma forEach_inv:
  assumes step: "\<And>done x rest s. xs = done @ x # rest \<Longrightarrow> I done s \<Longrightarrow>
      \<exists>s'. f x s = (Inr (), s') \<and> I (done @ [x]) s'"
    and start: "I [] s"
  shows "\<exists>s'. forEach xs f s = (Inr (), s') \<and> I xs s'"
proof -
  have "\<exists>s'. forEach ys f s = (Inr (), s') \<and> I (zs @ ys) s'"
    if "xs = zs @ ys" "I zs s" for zs ys s
    using that
  proof (induction ys arbitrary: zs s)
    case Nil
    then show ?case by (simp add: op_simps)
  next
    case (Cons y ys)
    obtain t where t: "f y s = (Inr (), t)" and inv: "I (zs @ [y]) t"
      using step[OF Cons.prems(1,2)] by blast
    have "xs = (zs @ [y]) @ ys" using Cons.prems(1) by simp
    from Cons.IH[OF this inv] t show ?case by (auto simp: op_simps)
  qed
  from this[of "[]" xs s] start show ?thesis by simp
qed

text \<open>An invariant kept by every step of a loop, whether or not the loop succeeds.\<close>

lemma forEach_keeps:
  assumes step: "\<And>x s r s'. x \<in> set xs \<Longrightarrow> f x s = (r, s') \<Longrightarrow> P s \<Longrightarrow> P s'"
    and run: "forEach xs f s = (r, s')" and start: "P s"
  shows "P s'"
  using assms
proof (induction xs arbitrary: s)
  case Nil
  then show ?case by (simp add: op_simps)
next
  case (Cons x xs)
  obtain q t where q: "f x s = (q, t)" by fastforce
  have "P t" using Cons.prems(1)[OF _ q Cons.prems(3)] by simp
  show ?case
  proof (cases q)
    case (Inl e)
    with Cons.prems(2) q \<open>P t\<close> show ?thesis by (simp add: op_simps)
  next
    case (Inr u)
    with Cons.prems(2) q have "forEach xs f t = (r, s')" by (simp add: op_simps)
    from Cons.IH[OF _ this \<open>P t\<close>] Cons.prems(1) show ?thesis by auto
  qed
qed

text \<open>
  A read-only loop that computes one optional result per element is the list comprehension.
\<close>

lemma collect_pure:
  assumes "\<And>x. x \<in> set xs \<Longrightarrow> f x s = (Inr (g x), s)"
  shows "collect xs f s = (Inr (List.map_filter g xs), s)"
  using assms by (induction xs) (auto simp: op_simps map_filter_simps split: option.splits)

text \<open>Filtering by a function depends only on the list of its values.\<close>

lemma map_filter_map: "List.map_filter f xs = List.map_filter id (map f xs)"
  by (induction xs) (auto simp: map_filter_simps split: option.splits)

lemma mem_map_filter: "y \<in> set (List.map_filter f xs) \<longleftrightarrow> (\<exists>x \<in> set xs. f x = Some y)"
  by (induction xs) (auto simp: map_filter_simps split: option.splits)

section \<open>Sorted key lists\<close>

lemma sorted_distinct_unique:
  fixes xs ys :: "'a::linorder list"
  assumes "sorted xs" "distinct xs" "sorted ys" "distinct ys" "set xs = set ys"
  shows "xs = ys"
  using assms by (rule sorted_distinct_set_unique)

text \<open>The keys of a finite map that start with a prefix, in increasing order.\<close>

definition keysWith :: "string \<Rightarrow> (string \<rightharpoonup> 'v) \<Rightarrow> string list" where
  "keysWith pre m = sorted_list_of_set {p \<in> dom m. prefix pre p}"

lemma keysWith_set [simp]: "finite (dom m) \<Longrightarrow> set (keysWith pre m) = {p \<in> dom m. prefix pre p}"
  by (simp add: keysWith_def)

lemma keysWith_sorted [simp]: "sorted (keysWith pre m)"
  by (simp add: keysWith_def)

lemma keysWith_distinct [simp]: "distinct (keysWith pre m)"
  by (simp add: keysWith_def)

lemma keysWith_update_other:
  assumes "\<not> prefix pre p"
  shows "keysWith pre (m(p \<mapsto> v)) = keysWith pre m"
proof -
  have "{q \<in> dom (m(p \<mapsto> v)). prefix pre q} = {q \<in> dom m. prefix pre q}"
    using assms by auto
  then show ?thesis by (simp add: keysWith_def)
qed

lemma keysWith_delete_other:
  assumes "\<not> prefix pre p"
  shows "keysWith pre (m(p := None)) = keysWith pre m"
proof -
  have "{q \<in> dom (m(p := None)). prefix pre q} = {q \<in> dom m. prefix pre q}"
    using assms by auto
  then show ?thesis by (simp add: keysWith_def)
qed

text \<open>A new key above all the existing ones is appended.\<close>

lemma keysWith_append:
  assumes fin: "finite (dom m)" and pre: "prefix pre p"
    and above: "\<And>q. q \<in> dom m \<Longrightarrow> prefix pre q \<Longrightarrow> q < p"
  shows "keysWith pre (m(p \<mapsto> v)) = keysWith pre m @ [p]"
proof (rule sorted_distinct_unique)
  have below: "\<forall>q \<in> set (keysWith pre m). q < p"
    using fin above by simp
  then show "sorted (keysWith pre m @ [p])"
    by (auto simp: sorted_append less_imp_le)
  show "distinct (keysWith pre m @ [p])"
    using below by auto
  show "set (keysWith pre (m(p \<mapsto> v))) = set (keysWith pre m @ [p])"
    using fin pre by auto
qed simp_all

end
