(* ===== verification/GoStd.thy ===== *)
theory GoStd
  imports Prelude
begin

text \<open>
  What the source uses of the Go language and its standard library: 64-bit signed integers,
  \<^verbatim>\<open>strconv.FormatInt/ParseInt\<close>, the \<^verbatim>\<open>%015d\<close> verb, \<^verbatim>\<open>time.Time\<close> and \<^verbatim>\<open>time.Duration\<close>, and the
  functions of package \<^verbatim>\<open>strings\<close>. The main facts: parsing undoes formatting on every int64,
  and zero-padded decimals of one width are ordered (bytewise) as the numbers are.
\<close>

section \<open>int64\<close>

definition int64_ok :: "int \<Rightarrow> bool" where
  "int64_ok n \<longleftrightarrow> - (2 ^ 63) \<le> n \<and> n < 2 ^ 63"

definition i64 :: "int \<Rightarrow> int" where
  "i64 n = (n + 2 ^ 63) mod 2 ^ 64 - 2 ^ 63"

lemma i64_id [simp]: "int64_ok n \<Longrightarrow> i64 n = n"
  by (simp add: int64_ok_def i64_def)

lemma i64_0 [simp]: "i64 0 = 0"
  by (simp add: i64_def)

lemma i64_ok [simp]: "int64_ok (i64 n)"
proof -
  have "0 \<le> (n + 2 ^ 63) mod 2 ^ 64" "(n + 2 ^ 63) mod 2 ^ 64 < 2 ^ 64"
    by (simp_all add: pos_mod_bound)
  then show ?thesis unfolding int64_ok_def i64_def by simp
qed

section \<open>Decimal numbers\<close>

definition digit :: "nat \<Rightarrow> char" where
  "digit d = char_of (48 + d)"

definition isDigit :: "char \<Rightarrow> bool" where
  "isDigit c \<longleftrightarrow> 48 \<le> (of_char c :: nat) \<and> (of_char c :: nat) \<le> 57"

definition digitVal :: "char \<Rightarrow> nat" where
  "digitVal c = of_char c - 48"

fun natStr :: "nat \<Rightarrow> string" where
  "natStr n = (if n < 10 then [digit n] else natStr (n div 10) @ [digit (n mod 10)])"

declare natStr.simps [simp del]

definition formatInt :: "int \<Rightarrow> string" where
  "formatInt n = (if n < 0 then CHR ''-'' # natStr (nat (- n)) else natStr (nat n))"

fun parseDigits :: "nat \<Rightarrow> string \<Rightarrow> nat option" where
  "parseDigits acc [] = Some acc"
| "parseDigits acc (c # cs) =
     (if isDigit c then parseDigits (10 * acc + digitVal c) cs else None)"

definition parseUint :: "string \<Rightarrow> nat option" where
  "parseUint s = (if s = [] then None else parseDigits 0 s)"

text \<open>\<^verbatim>\<open>strconv.ParseInt(s, 10, 64)\<close>: optional sign, at least one digit, range check.\<close>

definition parseInt :: "string \<Rightarrow> err + int" where
  "parseInt s =
     (let neg = (s \<noteq> [] \<and> hd s = CHR ''-'');
          body = (if s \<noteq> [] \<and> (hd s = CHR ''-'' \<or> hd s = CHR ''+'') then tl s else s)
      in case parseUint body of
           None \<Rightarrow> Inl (LibErr ''invalid syntax'')
         | Some n \<Rightarrow>
             (if neg then (if n \<le> 2 ^ 63 then Inr (- int n) else Inl (LibErr ''value out of range''))
              else (if n < 2 ^ 63 then Inr (int n) else Inl (LibErr ''value out of range''))))"

text \<open>\<^verbatim>\<open>fmt.Sprintf("%0wd", n)\<close>: the sign counts towards the width.\<close>

definition zeroPad :: "nat \<Rightarrow> int \<Rightarrow> string" where
  "zeroPad w n =
     (let ds = natStr (nat \<bar>n\<bar>); sg = (if n < 0 then ''-'' else [])
      in sg @ replicate (w - (length sg + length ds)) (CHR ''0'') @ ds)"

lemma of_char_digit: "d < 10 \<Longrightarrow> (of_char (digit d) :: nat) = 48 + d"
  by (simp add: digit_def)

lemma isDigit_digit [simp]: "d < 10 \<Longrightarrow> isDigit (digit d)"
  by (simp add: isDigit_def of_char_digit)

lemma digitVal_digit [simp]: "d < 10 \<Longrightarrow> digitVal (digit d) = d"
  by (simp add: digitVal_def of_char_digit)

lemma digit_less: "a < b \<Longrightarrow> b < 10 \<Longrightarrow> digit a < digit b"
  by (simp add: less_char_def of_char_digit)

lemma digit_0: "digit 0 = CHR ''0''"
proof -
  have "(of_char (digit 0) :: nat) = of_char (CHR ''0'')" by (simp add: of_char_digit)
  then show ?thesis by (simp only: of_char_eq_iff)
qed

lemma natStr_small: "n < 10 \<Longrightarrow> natStr n = [digit n]"
  by (simp add: natStr.simps)

lemma natStr_nonempty [simp]: "natStr n \<noteq> []"
  by (subst natStr.simps) simp

lemma natStr_digits: "c \<in> set (natStr n) \<Longrightarrow> isDigit c"
proof (induction n rule: natStr.induct)
  case (1 n)
  then show ?case by (subst (asm) (2) natStr.simps) (auto split: if_splits)
qed

lemma parseDigits_append:
  "parseDigits acc (xs @ ys) = (case parseDigits acc xs of None \<Rightarrow> None | Some a \<Rightarrow> parseDigits a ys)"
  by (induction xs arbitrary: acc) auto

lemma parseDigits_natStr: "parseDigits 0 (natStr n) = Some n"
proof (induction n rule: natStr.induct)
  case (1 n)
  show ?case
  proof (cases "n < 10")
    case True
    then show ?thesis by (simp add: natStr_small)
  next
    case False
    with 1 have "parseDigits 0 (natStr (n div 10)) = Some (n div 10)" by simp
    with False show ?thesis
      by (subst natStr.simps) (simp add: parseDigits_append)
  qed
qed

lemma parseUint_natStr [simp]: "parseUint (natStr n) = Some n"
  by (simp add: parseUint_def parseDigits_natStr)

lemma natStr_hd: "hd (natStr n) \<noteq> CHR ''-''" "hd (natStr n) \<noteq> CHR ''+''"
proof -
  have "isDigit (hd (natStr n))" by (rule natStr_digits[of _ n]) simp
  then show "hd (natStr n) \<noteq> CHR ''-''" "hd (natStr n) \<noteq> CHR ''+''"
    by (auto simp: isDigit_def)
qed

lemma parseInt_formatInt [simp]: "int64_ok n \<Longrightarrow> parseInt (formatInt n) = Inr n"
  by (auto simp: parseInt_def formatInt_def int64_ok_def Let_def natStr_hd)

lemma formatInt_nonempty [simp]: "formatInt n \<noteq> []"
  by (simp add: formatInt_def)

text \<open>The value a digit string denotes bounds it and orders it against others of its length.\<close>

fun digitsVal :: "string \<Rightarrow> nat" where
  "digitsVal [] = 0"
| "digitsVal (c # cs) = digitVal c * 10 ^ length cs + digitsVal cs"

lemma digitsVal_append: "digitsVal (xs @ ys) = digitsVal xs * 10 ^ length ys + digitsVal ys"
  by (induction xs) (auto simp: power_add algebra_simps)

lemma digitsVal_natStr: "digitsVal (natStr n) = n"
proof (induction n rule: natStr.induct)
  case (1 n)
  then show ?case
    by (subst natStr.simps) (auto simp: digitsVal_append)
qed

lemma digitsVal_zeros: "digitsVal (replicate k (CHR ''0'') @ ds) = digitsVal ds"
  by (induction k) (simp_all add: digitVal_def)

lemma digitsVal_bound: "\<forall>c \<in> set ds. isDigit c \<Longrightarrow> digitsVal ds < 10 ^ length ds"
proof (induction ds)
  case (Cons c cs)
  then have "digitVal c \<le> 9" "digitsVal cs < 10 ^ length cs"
    by (auto simp: isDigit_def digitVal_def)
  then have "digitVal c * 10 ^ length cs + digitsVal cs < 9 * 10 ^ length cs + 10 ^ length cs"
    by (intro add_le_less_mono mult_le_mono1)
  then show ?case by simp
qed simp

lemma digit_char_less:
  assumes "isDigit c" "isDigit d" "digitVal c < digitVal d"
  shows "c < d"
  using assms by (simp add: isDigit_def digitVal_def less_char_def)

lemma digit_char_eq:
  assumes "isDigit c" "isDigit d" "digitVal c = digitVal d"
  shows "c = d"
proof -
  have "(of_char c :: nat) = of_char d"
    using assms unfolding isDigit_def digitVal_def by linarith
  then show ?thesis by (simp only: of_char_eq_iff)
qed

lemma digits_order:
  assumes "length xs = length ys" "\<forall>c \<in> set xs. isDigit c" "\<forall>c \<in> set ys. isDigit c"
    and "digitsVal xs < digitsVal ys"
  shows "xs < ys"
  using assms
proof (induction xs ys rule: list_induct2)
  case (Cons x xs y ys)
  have bx: "digitsVal xs < 10 ^ length xs" and byy: "digitsVal ys < 10 ^ length ys"
    using Cons.prems by (simp_all add: digitsVal_bound)
  have "digitVal x \<le> digitVal y"
  proof (rule ccontr)
    assume "\<not> digitVal x \<le> digitVal y"
    then have "digitVal y * 10 ^ length ys + 10 ^ length ys \<le> digitVal x * 10 ^ length xs"
      using Cons.hyps by (metis Suc_leI add.commute mult_Suc mult_le_mono1 not_le)
    with byy Cons.prems(3) show False by simp
  qed
  then consider "digitVal x < digitVal y" | "digitVal x = digitVal y" by linarith
  then show ?case
  proof cases
    case 1
    then have "x < y" using Cons.prems by (simp add: digit_char_less)
    then show ?thesis by simp
  next
    case 2
    then have "x = y" using Cons.prems by (simp add: digit_char_eq)
    moreover have "xs < ys"
      using Cons 2 by simp
    ultimately show ?thesis by simp
  qed
qed simp

lemma natStr_length: "n < 10 ^ k \<Longrightarrow> 0 < k \<Longrightarrow> length (natStr n) \<le> k"
proof (induction n arbitrary: k rule: natStr.induct)
  case (1 n)
  show ?case
  proof (cases "n < 10")
    case True
    with 1 show ?thesis by (simp add: natStr_small)
  next
    case False
    then obtain j where k: "k = Suc j"
      using 1 by (cases k) auto
    with False 1 have "0 < j" by (cases j) auto
    have "n div 10 < 10 ^ j"
      using 1 k by (simp add: less_mult_imp_div_less mult.commute)
    with 1 False \<open>0 < j\<close> have "length (natStr (n div 10)) \<le> j" by simp
    with False k show ?thesis by (subst natStr.simps) simp
  qed
qed

lemma zeroPad_digits: "0 \<le> n \<Longrightarrow> c \<in> set (zeroPad w n) \<Longrightarrow> isDigit c"
  by (auto simp: zeroPad_def Let_def natStr_digits isDigit_def split: if_splits)
    (use natStr_digits isDigit_def in blast)+

lemma zeroPad_length: "0 \<le> n \<Longrightarrow> n < 10 ^ w \<Longrightarrow> 0 < w \<Longrightarrow> length (zeroPad w n) = w"
  using natStr_length[of "nat n" w]
  by (simp add: zeroPad_def Let_def nat_less_iff)

lemma zeroPad_val: "0 \<le> n \<Longrightarrow> digitsVal (zeroPad w n) = nat n"
  by (simp add: zeroPad_def Let_def digitsVal_zeros digitsVal_natStr)

lemma zeroPad_mono:
  assumes "0 \<le> a" "a < b" "b < 10 ^ w" "0 < w"
  shows "zeroPad w a < zeroPad w b"
proof (rule digits_order)
  show "length (zeroPad w a) = length (zeroPad w b)"
    using assms by (simp add: zeroPad_length)
  show "\<forall>c\<in>set (zeroPad w a). isDigit c" "\<forall>c\<in>set (zeroPad w b). isDigit c"
    using assms by (auto intro: zeroPad_digits[of a _ w] zeroPad_digits[of b _ w])
  show "digitsVal (zeroPad w a) < digitsVal (zeroPad w b)"
    using assms by (simp add: zeroPad_val)
qed

lemma zeroPad_inj:
  assumes "0 \<le> a" "0 \<le> b" "zeroPad w a = zeroPad w b"
  shows "a = b"
  using arg_cong[OF assms(3), of digitsVal] assms(1,2) by (simp add: zeroPad_val)

section \<open>Time\<close>

text \<open>
  A \<^verbatim>\<open>time.Time\<close> is the number of nanoseconds since 1 January of year 1 UTC, the instant of
  the zero \<^verbatim>\<open>Time{}\<close>; a \<^verbatim>\<open>time.Duration\<close> is an int64 number of nanoseconds.
  \<^verbatim>\<open>Sub\<close> saturates at the ends of the int64 range.
\<close>

type_synonym gotime = int
type_synonym duration = int

definition isZeroTime :: "gotime \<Rightarrow> bool" where
  "isZeroTime t \<longleftrightarrow> t = 0"

definition timeSub :: "gotime \<Rightarrow> gotime \<Rightarrow> duration" where
  "timeSub t u = max (- (2 ^ 63)) (min (2 ^ 63 - 1) (t - u))"

definition second :: duration where "second = 1000000000"
definition minute :: duration where "minute = 60 * second"
definition hour :: duration where "hour = 60 * minute"

section \<open>Package strings\<close>

text \<open>\<^verbatim>\<open>strings.HasPrefix(s, p)\<close> is \<open>prefix p s\<close>.\<close>

definition trimPrefix :: "string \<Rightarrow> string \<Rightarrow> string" where
  "trimPrefix s p = (if prefix p s then drop (length p) s else s)"

fun splitOn :: "char \<Rightarrow> string \<Rightarrow> string list" where
  "splitOn c [] = [[]]"
| "splitOn c (x # xs) =
     (if x = c then [] # splitOn c xs
      else (case splitOn c xs of [] \<Rightarrow> [[x]] | w # ws \<Rightarrow> (x # w) # ws))"

definition contains :: "string \<Rightarrow> string \<Rightarrow> bool" where
  "contains s sub = sublist sub s"

text \<open>\<^verbatim>\<open>strings.TrimSpace\<close> on ASCII.\<close>

definition isSpace :: "char \<Rightarrow> bool" where
  "isSpace c \<longleftrightarrow> c = CHR '' '' \<or> (9 \<le> (of_char c :: nat) \<and> (of_char c :: nat) \<le> 13)"

definition trimSpace :: "string \<Rightarrow> string" where
  "trimSpace s = rev (dropWhile isSpace (rev (dropWhile isSpace s)))"

lemma splitOn_nonempty [simp]: "splitOn c s \<noteq> []"
  by (induction s) (auto split: list.splits)

lemma splitOn_none: "c \<notin> set s \<Longrightarrow> splitOn c s = [s]"
  by (induction s) auto

lemma splitOn_first: "c \<notin> set w \<Longrightarrow> splitOn c (w @ c # s) = w # splitOn c s"
  by (induction w) auto

end
