(* ===== verification/Deps.thy ===== *)
theory Deps
  imports GoStd
begin

text \<open>
  The data the vault stores and sends (\<^verbatim>\<open>vault.Item\<close>, \<^verbatim>\<open>vault.Provision\<close>, \<^verbatim>\<open>vault.Event\<close>,
  \<^verbatim>\<open>vault.Remote\<close>, \<^verbatim>\<open>api.Event\<close>) and the third-party functions the code calls on it, which are
  not part of the repository: \<^verbatim>\<open>github.com/keys-pub/keys\<close> (paths, keys, randomness, time),
  \<^verbatim>\<open>nacl/secretbox\<close>, \<^verbatim>\<open>vmihailenco/msgpack\<close>. They are the fields of one record \<open>ext\<close>, an
  argument of every definition that uses one of them, and the documented behaviour the code
  relies on is stated by the predicates \<open>dstore_ok\<close>, \<open>secretbox_ok\<close>, \<open>msgpack_ok\<close>, \<dots>,
  which the theorems take as hypotheses.
\<close>

section \<open>Data\<close>

record item =
  iID :: string
  iData :: gobytes
  iType :: string
  iTime :: gotime

record provision =
  pvID :: string
  pvType :: string
  pvCreatedAt :: gotime
  pvAAGUID :: string
  pvSalt :: gobytes
  pvNoPin :: bool

record vevent =
  evPath :: string
  evData :: gobytes
  evRemoteIndex :: int
  evRemoteTime :: gotime

record aevent =
  aeData :: gobytes
  aeIndex :: int
  aeTs :: int

text \<open>
  The body of a vault listing: \<^verbatim>\<open>vault.Response\<close> and \<^verbatim>\<open>server.VaultResponse\<close>, the same JSON.
  A null array element is a nil pointer.
\<close>

record vresp =
  vrVault :: "aevent option list"
  vrIndex :: int
  vrTruncated :: bool

text \<open>An \<^verbatim>\<open>EdX25519Key\<close> is its private key bytes.\<close>

type_synonym edkey = string

record remote =
  rmURL :: "string option"
  rmKey :: edkey
  rmSalt :: gobytes

section \<open>Third-party functions\<close>

record ext =
  \<comment> \<open>keys/dstore paths\<close>
  xPath :: "string list \<Rightarrow> string"
  xPathFrom :: "string \<Rightarrow> nat \<Rightarrow> string"
  xPathFirst :: "string \<Rightarrow> string"
  xPathLast :: "string \<Rightarrow> string"
  xPathComponents :: "string \<Rightarrow> string list"
  \<comment> \<open>nacl/secretbox: message, nonce, key\<close>
  xSeal :: "string \<Rightarrow> string \<Rightarrow> string \<Rightarrow> string"
  xOpen :: "string \<Rightarrow> string \<Rightarrow> string \<Rightarrow> string option"
  \<comment> \<open>keys.RandBytes: draw number, length\<close>
  xRand :: "nat \<Rightarrow> nat \<Rightarrow> string"
  \<comment> \<open>keys.HKDFSHA256 (secret, length, salt, info), keys.KeyForPassword, edx25519 keys\<close>
  xHKDF :: "string \<Rightarrow> nat \<Rightarrow> string \<Rightarrow> string \<Rightarrow> string"
  xKeyForPassword :: "string \<Rightarrow> string \<Rightarrow> err + string"
  xEdKeyFromSeed :: "string \<Rightarrow> edkey"
  xKeyID :: "edkey \<Rightarrow> string"
  xBase62 :: "string \<Rightarrow> string"
  \<comment> \<open>keys.BoxSeal / BoxOpen to oneself: draw number, message, key\<close>
  xBoxSeal :: "nat \<Rightarrow> string \<Rightarrow> edkey \<Rightarrow> string"
  xBoxOpen :: "string \<Rightarrow> edkey \<Rightarrow> err + string"
  \<comment> \<open>the vault's clock and \<^verbatim>\<open>time.Now\<close>, by reading number; keys/tsutil\<close>
  xClock :: "nat \<Rightarrow> gotime"
  xNow :: "nat \<Rightarrow> gotime"
  xMillis :: "gotime \<Rightarrow> int"
  xParseMillis :: "int \<Rightarrow> gotime"
  \<comment> \<open>msgpack.Marshal / Unmarshal at the types the vault uses\<close>
  xItemM :: "item \<Rightarrow> err + string"
  xItemU :: "string \<Rightarrow> err + item"
  xProvM :: "provision \<Rightarrow> err + string"
  xProvU :: "string \<Rightarrow> err + provision"
  xEventM :: "vevent \<Rightarrow> err + string"
  xEventU :: "string \<Rightarrow> err + vevent"
  xApiEventU :: "string \<Rightarrow> err + aevent"
  \<comment> \<open>json.Marshal / Unmarshal of the bodies of the vault API: \<^verbatim>\<open>[]*api.Data\<close> and the listing\<close>
  xDatasM :: "gobytes list \<Rightarrow> string"
  xDatasU :: "string \<Rightarrow> err + gobytes option list"
  xRespM :: "vresp \<Rightarrow> string"
  xRespU :: "string \<Rightarrow> err + vresp"

section \<open>Documented behaviour: paths\<close>

text \<open>
  \<^verbatim>\<open>dstore.Path\<close> joins components and paths, with or without a leading slash, into \<^verbatim>\<open>/a/b/c\<close>; \<^verbatim>\<open>PathComponents\<close> splits such a
  path; \<^verbatim>\<open>PathFrom(p, n)\<close> drops \<open>n\<close> components; \<^verbatim>\<open>PathFirst\<close>/\<^verbatim>\<open>PathLast\<close> give the outer
  components. A plain component is non-empty and has no slash.
\<close>

definition plain :: "string \<Rightarrow> bool" where
  "plain c \<longleftrightarrow> c \<noteq> [] \<and> CHR ''/'' \<notin> set c"

primrec canon :: "string list \<Rightarrow> string" where
  "canon [] = []"
| "canon (c # cs) = CHR ''/'' # c @ canon cs"

definition plains :: "string list \<Rightarrow> bool" where
  "plains cs \<longleftrightarrow> cs \<noteq> [] \<and> list_all plain cs"

definition pathArg :: "string \<Rightarrow> string list \<Rightarrow> bool" where
  "pathArg p cs \<longleftrightarrow> plains cs \<and> (p = canon cs \<or> p = tl (canon cs))"

definition dstore_ok :: "'z ext_scheme \<Rightarrow> bool" where
  "dstore_ok X \<longleftrightarrow>
     (\<forall>ps css. ps \<noteq> [] \<longrightarrow> list_all2 pathArg ps css \<longrightarrow> xPath X ps = canon (concat css)) \<and>
     (\<forall>cs. plains cs \<longrightarrow> xPathComponents X (canon cs) = cs) \<and>
     (\<forall>cs n. plains cs \<longrightarrow> n < length cs \<longrightarrow> xPathFrom X (canon cs) n = canon (drop n cs)) \<and>
     (\<forall>cs. plains cs \<longrightarrow> xPathFirst X (canon cs) = hd cs) \<and>
     (\<forall>cs. plains cs \<longrightarrow> xPathLast X (canon cs) = last cs)"

lemma plainI: "c \<noteq> [] \<Longrightarrow> CHR ''/'' \<notin> set c \<Longrightarrow> plain c"
  by (simp add: plain_def)

lemma plains_simps [simp]:
  "plains [] = False"
  "plains (c # cs) = (plain c \<and> (cs = [] \<or> plains cs))"
  by (auto simp: plains_def)

lemma canon_append: "canon (xs @ ys) = canon xs @ canon ys"
  by (induction xs) auto

lemma canon_nonempty [simp]: "canon (c # cs) \<noteq> []"
  by simp

lemma canon_eq_Nil [simp]: "canon cs = [] \<longleftrightarrow> cs = []"
  by (cases cs) auto

lemma list_all2_single [simp]: "list_all2 P [x] ys \<longleftrightarrow> (\<exists>y. ys = [y] \<and> P x y)"
  by (cases ys) auto

lemma xPath_args:
  "dstore_ok X \<Longrightarrow> ps \<noteq> [] \<Longrightarrow> list_all2 pathArg ps css \<Longrightarrow> xPath X ps = canon (concat css)"
  unfolding dstore_ok_def by simp

lemma xPath_one: "dstore_ok X \<Longrightarrow> plain a \<Longrightarrow> xPath X [a] = canon [a]"
  using xPath_args[of X "[a]" "[[a]]"] by (simp add: pathArg_def)

lemma xPath_two: "dstore_ok X \<Longrightarrow> plain a \<Longrightarrow> plain b \<Longrightarrow> xPath X [a, b] = canon [a, b]"
  using xPath_args[of X "[a, b]" "[[a], [b]]"] by (simp add: pathArg_def)

lemma xPath_canon: "dstore_ok X \<Longrightarrow> plains cs \<Longrightarrow> xPath X [canon cs] = canon cs"
  using xPath_args[of X "[canon cs]" "[cs]"] by (simp add: pathArg_def)

lemma xPath_log:
  "dstore_ok X \<Longrightarrow> plain a \<Longrightarrow> plain b \<Longrightarrow> plains cs \<Longrightarrow>
     xPath X [a, b, canon cs] = canon (a # b # cs)"
  using xPath_args[of X "[a, b, canon cs]" "[[a], [b], cs]"] by (simp add: pathArg_def)

lemma xPathFrom_canon:
  "dstore_ok X \<Longrightarrow> plains cs \<Longrightarrow> n < length cs \<Longrightarrow> xPathFrom X (canon cs) n = canon (drop n cs)"
  unfolding dstore_ok_def by simp

lemma xPathLast_canon: "dstore_ok X \<Longrightarrow> plains cs \<Longrightarrow> xPathLast X (canon cs) = last cs"
  unfolding dstore_ok_def by simp

lemma xPathFirst_canon: "dstore_ok X \<Longrightarrow> plains cs \<Longrightarrow> xPathFirst X (canon cs) = hd cs"
  unfolding dstore_ok_def by simp

lemma xPathComponents_canon: "dstore_ok X \<Longrightarrow> plains cs \<Longrightarrow> xPathComponents X (canon cs) = cs"
  unfolding dstore_ok_def by simp

text \<open>Canonical paths are split at their slashes, so they determine their components.\<close>

lemma splitOn_canon: "list_all plain cs \<Longrightarrow> splitOn (CHR ''/'') (canon cs) = [] # cs"
proof (induction cs)
  case (Cons c cs)
  then have c: "CHR ''/'' \<notin> set c" by (simp add: plain_def)
  show ?case
  proof (cases cs)
    case Nil
    with c show ?thesis by (simp add: splitOn_none)
  next
    case (Cons d ds)
    with c Cons.IH Cons.prems show ?thesis
      by (simp add: splitOn_first[where w = c])
  qed
qed simp

lemma canon_inj: "list_all plain cs \<Longrightarrow> list_all plain ds \<Longrightarrow> canon cs = canon ds \<Longrightarrow> cs = ds"
  by (drule arg_cong[of _ _ "splitOn (CHR ''/'')"]) (simp only: splitOn_canon list.inject)

text \<open>
  A string prefix of a canonical path that ends inside its first component: the string
  prefix test the code uses is a test on the first component only when that component ends
  there.
\<close>

lemma prefix_canon_Cons: "plain a \<Longrightarrow> prefix (canon [a]) (canon (b # cs)) \<longleftrightarrow> prefix a (b @ canon cs)"
  by simp

lemma prefix_canon_first:
  assumes "plain a" "plain b" "prefix (canon [a]) (canon (b # cs))"
  shows "prefix a b"
proof -
  from assms(3) have "prefix a (b @ canon cs)" by simp
  then consider "prefix a b" | us where "a = b @ us" "prefix us (canon cs)"
    unfolding prefix_append by blast
  then show ?thesis
  proof cases
    case 2
    have "us = []"
    proof (cases us)
      case (Cons d ds)
      with 2(2) have "d = CHR ''/''" by (cases cs) auto
      with 2(1) Cons assms(1) show ?thesis by (simp add: plain_def)
    qed
    with 2(1) show ?thesis by simp
  qed
qed

section \<open>Documented behaviour: randomness, secretbox, msgpack\<close>

definition rand_ok :: "'z ext_scheme \<Rightarrow> bool" where
  "rand_ok X \<longleftrightarrow> (\<forall>i n. length (xRand X i n) = n)"

text \<open>A box opens under the nonce and key it was sealed with.\<close>

definition secretbox_ok :: "'z ext_scheme \<Rightarrow> bool" where
  "secretbox_ok X \<longleftrightarrow> (\<forall>m n k. length n = 24 \<longrightarrow> length k = 32 \<longrightarrow> xOpen X (xSeal X m n k) n k = Some m)"

text \<open>Authenticity: a box does not open under another key.\<close>

definition secretbox_auth :: "'z ext_scheme \<Rightarrow> bool" where
  "secretbox_auth X \<longleftrightarrow>
     (\<forall>m n k n' k'. length n = 24 \<longrightarrow> length k = 32 \<longrightarrow> length n' = 24 \<longrightarrow> length k' = 32 \<longrightarrow>
        k \<noteq> k' \<longrightarrow> xOpen X (xSeal X m n k) n' k' = None)"

text \<open>
  Msgpack round trips. An item and an event keep their fields; a nil byte slice may come
  back empty. The remote index and timestamp of an event are tagged \<^verbatim>\<open>msgpack:"-"\<close> and come
  back zero. An \<^verbatim>\<open>api.Event\<close> read from an encoded \<^verbatim>\<open>vault.Event\<close> takes its data (the two
  structs share the tag \<^verbatim>\<open>dat\<close>).
\<close>

definition sameItem :: "item \<Rightarrow> item \<Rightarrow> bool" where
  "sameItem a b \<longleftrightarrow> iID a = iID b \<and> bstr (iData a) = bstr (iData b) \<and> iType a = iType b \<and> iTime a = iTime b"

definition msgpack_ok :: "'z ext_scheme \<Rightarrow> bool" where
  "msgpack_ok X \<longleftrightarrow>
     (\<forall>i. \<exists>b i'. xItemM X i = Inr b \<and> xItemU X b = Inr i' \<and> sameItem i' i) \<and>
     (\<forall>p. \<exists>b. xProvM X p = Inr b \<and> b \<noteq> [] \<and> xProvU X b = Inr p) \<and>
     (\<forall>e. \<exists>b e' a. xEventM X e = Inr b \<and> b \<noteq> [] \<and>
        xEventU X b = Inr e' \<and> evPath e' = evPath e \<and> bstr (evData e') = bstr (evData e) \<and>
        evRemoteIndex e' = 0 \<and> evRemoteTime e' = 0 \<and>
        xApiEventU X b = Inr a \<and> bstr (aeData a) = bstr (evData e))"

lemma sameItem_refl [simp]: "sameItem i i"
  by (simp add: sameItem_def)

lemma msgpack_item:
  "msgpack_ok X \<Longrightarrow> \<exists>b i'. xItemM X i = Inr b \<and> xItemU X b = Inr i' \<and> sameItem i' i"
  unfolding msgpack_ok_def by blast

lemma msgpack_prov: "msgpack_ok X \<Longrightarrow> \<exists>b. xProvM X p = Inr b \<and> b \<noteq> [] \<and> xProvU X b = Inr p"
  unfolding msgpack_ok_def by blast

lemma msgpack_event:
  "msgpack_ok X \<Longrightarrow> \<exists>b e' a. xEventM X e = Inr b \<and> b \<noteq> [] \<and>
        xEventU X b = Inr e' \<and> evPath e' = evPath e \<and> bstr (evData e') = bstr (evData e) \<and>
        evRemoteIndex e' = 0 \<and> evRemoteTime e' = 0 \<and>
        xApiEventU X b = Inr a \<and> bstr (aeData a) = bstr (evData e)"
  unfolding msgpack_ok_def by blast

text \<open>
  \<^verbatim>\<open>tsutil.Millis\<close> gives an int64, zero for the zero time.
\<close>

definition tsutil_ok :: "'z ext_scheme \<Rightarrow> bool" where
  "tsutil_ok X \<longleftrightarrow> (\<forall>t. int64_ok (xMillis X t)) \<and> xMillis X 0 = 0"

text \<open>\<^verbatim>\<open>keys.BoxOpen\<close> inverts \<^verbatim>\<open>keys.BoxSeal\<close>; sealed data is never empty (it carries a nonce).\<close>

definition box_ok :: "'z ext_scheme \<Rightarrow> bool" where
  "box_ok X \<longleftrightarrow> (\<forall>r m k. xBoxOpen X (xBoxSeal X r m k) k = Inr m \<and> xBoxSeal X r m k \<noteq> [])"

text \<open>JSON round trips of the bodies: the numbers are int64 values and kept.\<close>

definition json_ok :: "'z ext_scheme \<Rightarrow> bool" where
  "json_ok X \<longleftrightarrow> (\<forall>ds. xDatasU X (xDatasM X ds) = Inr (map Some ds)) \<and> (\<forall>r. xRespU X (xRespM X r) = Inr r)"

end
