(* ===== verification/Fire.thy ===== *)
theory Fire
  imports Deps
begin

text \<open>
  The document and event store of the server, the interface \<^verbatim>\<open>Fire\<close> of \<^verbatim>\<open>http/server/server.go\<close>
  (\<^verbatim>\<open>dstore.Documents\<close> with \<^verbatim>\<open>events.Events\<close>, of which the record has the methods the server
  calls). An iterator over events is the list of the events it yields before it ends, with the
  error it ends on, if any. The locale \<open>fire\<close> is its contract: documents exist or not, and
  every path has an append-only list of events numbered from 1.
\<close>

datatype fval = FInt int | FBytes string | FStr string

type_synonym fields = "string \<rightharpoonup> fval"

text \<open>\<^verbatim>\<open>err.Error()\<close>.\<close>

fun errText :: "err \<Rightarrow> string" where
  "errText (Err m) = m"
| "errText (LibErr m) = m"
| "errText (Panic m) = m"
| "errText (Wrapped m e) = m @ '': '' @ errText e"
| "errText (HTTPError code m) = m @ '' ('' @ natStr code @ '')''"
| "errText (ErrHTTP code m) = m"
| "errText ErrNotOpen = ''not open''"
| "errText ErrAlreadyOpen = ''already open''"
| "errText ErrLocked = ''vault is locked''"
| "errText ErrInvalidAuth = ''invalid auth''"
| "errText ErrAlreadySetup = ''vault is already setup''"
| "errText ErrItemValueTooLarge = ''item value is too large''"
| "errText (ErrNotFound s) = s @ '' not found''"
| "errText ErrVaultNotFound = ''vault not found''"
| "errText ErrVaultDeleted = ''vault was deleted''"

record document =
  doPath :: string
  doFields :: fields
  doCreatedAt :: gotime
  doUpdatedAt :: gotime

record fevent =
  feFields :: fields
  feIndex :: int
  feTs :: int

text \<open>The options of a listing of documents: the condition is a field, an operator and a value.\<close>

record iterOpts =
  ioPrefix :: string
  ioWhere :: "(string \<times> string \<times> fval) option"
  ioIndex :: int
  ioLimit :: int
  ioNoData :: bool

definition prefixOpts :: "string \<Rightarrow> iterOpts" where
  "prefixOpts p = \<lparr>ioPrefix = p, ioWhere = None, ioIndex = 0, ioLimit = 0, ioNoData = False\<rparr>"

record 'f fire_ops =
  fEventsAdd :: "string \<Rightarrow> fields list \<Rightarrow> ('f, int) op"
  \<comment> \<open>path, index, limit, ascending\<close>
  fEvents :: "string \<Rightarrow> int \<Rightarrow> int \<Rightarrow> bool \<Rightarrow> ('f, fevent list \<times> err option) op"
  fEventsDelete :: "string \<Rightarrow> ('f, bool) op"
  fIncrement :: "string \<Rightarrow> string \<Rightarrow> int \<Rightarrow> ('f, int \<times> int) op"
  fGet :: "string \<Rightarrow> ('f, document option) op"
  fExists :: "string \<Rightarrow> ('f, bool) op"
  fSet :: "string \<Rightarrow> fields \<Rightarrow> ('f, unit) op"
  fCreate :: "string \<Rightarrow> fields \<Rightarrow> ('f, unit) op"
  \<comment> \<open>the documents an iterator yields, and the error it ends on\<close>
  fDocs :: "string \<Rightarrow> iterOpts \<Rightarrow> ('f, document list \<times> err option) op"

text \<open>The paths the server keeps vaults under.\<close>

definition docPath :: "string \<Rightarrow> bool" where
  "docPath p \<longleftrightarrow> (\<exists>c i. plain c \<and> plain i \<and> p = canon [c, i])"

text \<open>The fields of a path's document: the numbers the store keeps there are numbers, and the
  fields of other types of document are absent.\<close>

definition headDoc :: "fields \<Rightarrow> bool" where
  "headDoc f \<longleftrightarrow> f ''id'' = None \<and> f ''ts'' = None \<and>
     (f ''idx'' = None \<or> (\<exists>n. f ''idx'' = Some (FInt n))) \<and> (f ''usage'' = None \<or> (\<exists>n. f ''usage'' = Some (FInt n)))"

lemma headDoc_upd [simp]: "headDoc f \<Longrightarrow> headDoc (f(''idx'' \<mapsto> FInt n))" "headDoc f \<Longrightarrow> headDoc (f(''usage'' \<mapsto> FInt n))"
  by (simp_all add: headDoc_def)

locale fire =
  fixes F :: "'f fire_ops"
    and fevents :: "'f \<Rightarrow> string \<Rightarrow> fields list"
    and fdocs :: "'f \<Rightarrow> string \<Rightarrow> bool"
    and fready :: "'f \<Rightarrow> bool"
  assumes add_ok: "fready f \<Longrightarrow> docPath p \<Longrightarrow> ds \<noteq> [] \<Longrightarrow> int64_ok (int (length (fevents f p) + length ds)) \<Longrightarrow>
      \<exists>f'. fEventsAdd F p ds f = (Inr (int (length (fevents f p) + length ds)), f') \<and> fready f' \<and>
        fdocs f' = (fdocs f)(p := True) \<and>
        (\<exists>es. fevents f' = (fevents f)(p := fevents f p @ es) \<and> length es = length ds \<and>
          (\<forall>i < length ds. \<forall>x. x \<noteq> ''idx'' \<longrightarrow> (es ! i) x = (ds ! i) x))"
    and list_ok: "fready f \<Longrightarrow> docPath p \<Longrightarrow> 0 < limit \<Longrightarrow>
      \<exists>f' ts. fEvents F p (int i) limit True f =
          (Inr (map (\<lambda>t. \<lparr>feFields = fevents f p ! t, feIndex = int t + 1, feTs = ts t\<rparr>)
             (take (nat limit) [i..<length (fevents f p)]), None), f') \<and>
        fready f' \<and> fevents f' = fevents f \<and> fdocs f' = fdocs f"
    and delete_ok: "fready f \<Longrightarrow> docPath p \<Longrightarrow>
      \<exists>f'. fEventsDelete F p f = (Inr (fdocs f p), f') \<and> fready f' \<and>
        fdocs f' = (fdocs f)(p := False) \<and> fevents f' = (fevents f)(p := [])"
    and increment_ok: "fready f \<Longrightarrow> docPath p \<Longrightarrow> fdocs f p \<Longrightarrow> 0 < n \<Longrightarrow>
      \<exists>r f'. fIncrement F p ''usage'' n f = (r, f') \<and> (\<exists>x. r = Inr x) \<and> fready f' \<and> fevents f' = fevents f \<and> fdocs f' = fdocs f"
    and get_ok: "fready f \<Longrightarrow> docPath p \<Longrightarrow>
      \<exists>d f'. fGet F p f = (Inr d, f') \<and> (d \<noteq> None \<longleftrightarrow> fdocs f p) \<and>
        (\<forall>doc. d = Some doc \<longrightarrow> headDoc (doFields doc)) \<and> fready f' \<and> fevents f' = fevents f \<and> fdocs f' = fdocs f"
    and exists_ok: "fready f \<Longrightarrow> docPath p \<Longrightarrow>
      \<exists>f'. fExists F p f = (Inr (fdocs f p), f') \<and> fready f' \<and> fevents f' = fevents f \<and> fdocs f' = fdocs f"
    and set_ok: "fready f \<Longrightarrow> docPath p \<Longrightarrow> fevents f p = [] \<Longrightarrow> headDoc x \<Longrightarrow> x ''idx'' = None \<Longrightarrow>
      \<exists>f'. fSet F p x f = (Inr (), f') \<and> fready f' \<and> fevents f' = fevents f \<and> fdocs f' = (fdocs f)(p := True)"

end
