(* ===== verification/Web.thy ===== *)
theory Web
  imports Fire
begin

text \<open>
  HTTP messages, the parts of \<^verbatim>\<open>net/url\<close> the client and the server use (query escaping and
  parsing, with its round trip), UTF-8 validity, and the third-party functions behind the web
  API as the record \<open>web\<close>: request authorization of \<^verbatim>\<open>keys/http\<close>, \<^verbatim>\<open>keys.ParseID\<close>,
  event data of \<^verbatim>\<open>keys/dstore\<close>, the JSON of error responses and the router of \<^verbatim>\<open>labstack/echo\<close>.
\<close>

section \<open>Messages\<close>

record hreq =
  hrMethod :: string
  hrURL :: string
  hrHeaders :: "(string \<times> string) list"
  hrBody :: string

record hresp =
  hsStatus :: nat
  hsHeaders :: "(string \<times> string) list"
  hsBody :: string

text \<open>\<^verbatim>\<open>Header.Get\<close> (empty when absent) and \<^verbatim>\<open>Header.Set\<close>.\<close>

definition headerGet :: "(string \<times> string) list \<Rightarrow> string \<Rightarrow> string" where
  "headerGet hs name = (case map_of hs name of None \<Rightarrow> [] | Some v \<Rightarrow> v)"

definition headerSet :: "string \<Rightarrow> string \<Rightarrow> (string \<times> string) list \<Rightarrow> (string \<times> string) list" where
  "headerSet name v hs = AList.update name v hs"

lemma headerGet_set [simp]: "headerGet (headerSet n v hs) m = (if m = n then v else headerGet hs m)"
  by (simp add: headerGet_def headerSet_def update_conv')

section \<open>Package net/url\<close>

definition unreserved :: "char \<Rightarrow> bool" where
  "unreserved c \<longleftrightarrow> (let n = of_char c :: nat in
     48 \<le> n \<and> n \<le> 57 \<or> 65 \<le> n \<and> n \<le> 90 \<or> 97 \<le> n \<and> n \<le> 122 \<or> c \<in> {CHR ''-'', CHR ''_'', CHR ''.'', CHR ''~''})"

definition hexDigit :: "nat \<Rightarrow> char" where
  "hexDigit n = (if n < 10 then char_of (48 + n) else char_of (55 + n))"

definition hexVal :: "char \<Rightarrow> nat option" where
  "hexVal c = (let n = of_char c :: nat in
     if 48 \<le> n \<and> n \<le> 57 then Some (n - 48)
     else if 65 \<le> n \<and> n \<le> 70 then Some (n - 55)
     else if 97 \<le> n \<and> n \<le> 102 then Some (n - 87) else None)"

text \<open>\<^verbatim>\<open>url.QueryEscape\<close> and \<^verbatim>\<open>url.QueryUnescape\<close>.\<close>

primrec queryEscape :: "string \<Rightarrow> string" where
  "queryEscape [] = []"
| "queryEscape (c # cs) =
     (if unreserved c then [c]
      else if c = CHR '' '' then ''+''
      else [CHR ''%'', hexDigit (of_char c div 16), hexDigit (of_char c mod 16)]) @ queryEscape cs"

fun queryUnescape :: "string \<Rightarrow> string option" where
  "queryUnescape [] = Some []"
| "queryUnescape (c # cs) =
     (if c = CHR ''%'' then
        (case cs of a # b # r \<Rightarrow>
           (case (hexVal a, hexVal b) of
              (Some x, Some y) \<Rightarrow> map_option (\<lambda>s. char_of (16 * x + y) # s) (queryUnescape r)
            | _ \<Rightarrow> None)
         | _ \<Rightarrow> None)
      else map_option (\<lambda>s. (if c = CHR ''+'' then CHR '' '' else c) # s) (queryUnescape cs))"

text \<open>\<^verbatim>\<open>Values.Encode\<close>: pairs joined in the order of their keys. \<^verbatim>\<open>URL.Query\<close>: pairs that do
  not unescape are left out.\<close>

definition encodePair :: "string \<times> string \<Rightarrow> string" where
  "encodePair kv = queryEscape (fst kv) @ ''='' @ queryEscape (snd kv)"

fun joinWith :: "char \<Rightarrow> string list \<Rightarrow> string" where
  "joinWith c [] = []"
| "joinWith c [x] = x"
| "joinWith c (x # y # ys) = x @ c # joinWith c (y # ys)"

definition encodeQuery :: "(string \<times> string) list \<Rightarrow> string" where
  "encodeQuery ps = joinWith (CHR ''&'') (map encodePair (sort_key fst ps))"

definition cut :: "char \<Rightarrow> string \<Rightarrow> string \<times> string" where
  "cut c s = (takeWhile (\<lambda>x. x \<noteq> c) s, drop 1 (dropWhile (\<lambda>x. x \<noteq> c) s))"

definition parsePair :: "string \<Rightarrow> (string \<times> string) option" where
  "parsePair s = (if s = [] then None
     else case cut (CHR ''='') s of (k, v) \<Rightarrow>
       (case (queryUnescape k, queryUnescape v) of (Some k', Some v') \<Rightarrow> Some (k', v') | _ \<Rightarrow> None))"

definition parseQuery :: "string \<Rightarrow> (string \<times> string) list" where
  "parseQuery s = List.map_filter parsePair (splitOn (CHR ''&'') s)"

text \<open>\<^verbatim>\<open>Query().Get(name)\<close>: the first value, or empty.\<close>

definition queryGet :: "(string \<times> string) list \<Rightarrow> string \<Rightarrow> string" where
  "queryGet q name = (case map_of q name of None \<Rightarrow> [] | Some v \<Rightarrow> v)"

text \<open>The path and the query of a URL without a fragment.\<close>

definition urlPath :: "string \<Rightarrow> string" where
  "urlPath u = fst (cut (CHR ''?'') u)"

definition urlQuery :: "string \<Rightarrow> (string \<times> string) list" where
  "urlQuery u = parseQuery (snd (cut (CHR ''?'') u))"

lemma unreserved_special [simp]:
  "\<not> unreserved (CHR ''%'')" "\<not> unreserved (CHR ''+'')" "\<not> unreserved (CHR '' '')"
  "\<not> unreserved (CHR ''&'')" "\<not> unreserved (CHR ''='')" "\<not> unreserved (CHR ''?'')"
  by (simp_all add: unreserved_def)

lemma unreserved_slash [simp]: "\<not> unreserved (CHR ''/'')"
  by (simp add: unreserved_def)

lemma hexVal_hexDigit: "n < 16 \<Longrightarrow> hexVal (hexDigit n) = Some n"
  by (auto simp: hexVal_def hexDigit_def Let_def)

lemma byte_hex: "char_of (16 * (of_char c div 16) + of_char c mod 16 :: nat) = c"
  by simp

lemma of_char_div [simp]: "(of_char c :: nat) div 16 < 16"
proof -
  have "(of_char c :: nat) < 256" by simp
  then show ?thesis by linarith
qed

lemma queryUnescape_hex:
  "queryUnescape (CHR ''%'' # hexDigit (of_char c div 16) # hexDigit (of_char c mod 16) # r) =
     map_option (\<lambda>s. c # s) (queryUnescape r)"
proof -
  have "hexVal (hexDigit (of_char c div 16)) = Some (of_char c div 16)"
    "hexVal (hexDigit (of_char c mod 16)) = Some (of_char c mod 16)"
    by (simp_all add: hexVal_hexDigit)
  then show ?thesis using byte_hex[of c] by simp
qed

lemma queryUnescape_escape [simp]: "queryUnescape (queryEscape s) = Some s"
proof (induction s)
  case (Cons c s)
  show ?case
  proof (cases "unreserved c")
    case True
    then have "c \<noteq> CHR ''%''" "c \<noteq> CHR ''+''" by auto
    with Cons True show ?thesis by simp
  next
    case False
    with Cons show ?thesis
      by (cases "c = CHR '' ''") (simp_all add: queryUnescape_hex del: queryUnescape.simps(2), simp)
  qed
qed simp

lemma hexDigit_unreserved: "n < 16 \<Longrightarrow> unreserved (hexDigit n)"
  by (auto simp: unreserved_def hexDigit_def Let_def)

lemma queryEscape_chars: "x \<in> set (queryEscape s) \<Longrightarrow> unreserved x \<or> x = CHR ''+'' \<or> x = CHR ''%''"
proof (induction s)
  case (Cons c s)
  have "unreserved (hexDigit (of_char c div 16))" "unreserved (hexDigit (of_char c mod 16))"
    by (rule hexDigit_unreserved, simp)+
  with Cons show ?case by (auto split: if_splits)
qed simp

lemma queryEscape_no:
  "CHR ''='' \<notin> set (queryEscape s)" "CHR ''&'' \<notin> set (queryEscape s)" "CHR ''?'' \<notin> set (queryEscape s)"
  using queryEscape_chars[of _ s] by fastforce+

lemma queryEscape_unreserved: "list_all unreserved s \<Longrightarrow> queryEscape s = s"
  by (induction s) auto

lemma cut_at: "c \<notin> set a \<Longrightarrow> cut c (a @ c # b) = (a, b)"
  by (induction a) (auto simp: cut_def)

lemma cut_none: "c \<notin> set a \<Longrightarrow> cut c a = (a, [])"
  by (induction a) (auto simp: cut_def)

lemma parsePair_encode: "parsePair (encodePair kv) = Some kv"
  by (simp add: parsePair_def encodePair_def cut_at queryEscape_no)

lemma splitOn_join: "ws \<noteq> [] \<Longrightarrow> \<forall>w \<in> set ws. c \<notin> set w \<Longrightarrow> splitOn c (joinWith c ws) = ws"
  by (induction c ws rule: joinWith.induct) (auto simp: splitOn_none splitOn_first)

lemma parse_encodePairs: "parseQuery (joinWith (CHR ''&'') (map encodePair ps)) = ps"
proof (cases "ps = []")
  case False
  have "splitOn (CHR ''&'') (joinWith (CHR ''&'') (map encodePair ps)) = map encodePair ps"
    using False by (intro splitOn_join) (auto simp: encodePair_def queryEscape_no)
  moreover have "List.map_filter parsePair (map encodePair ps) = ps"
    by (induction ps) (simp_all add: map_filter_simps parsePair_encode)
  ultimately show ?thesis by (simp add: parseQuery_def)
qed (simp add: parseQuery_def map_filter_simps parsePair_def)

lemma parseQuery_encode: "parseQuery (encodeQuery ps) = sort_key fst ps"
  by (simp add: encodeQuery_def parse_encodePairs)

lemma map_of_filter: "map_of ps k = map_of (filter (\<lambda>p. fst p = k) ps) k"
  by (induction ps) auto

text \<open>What a server reads of an encoded query is what the client put into it.\<close>

lemma queryGet_encode [simp]: "queryGet (parseQuery (encodeQuery ps)) name = queryGet ps name"
  using map_of_filter[of "sort_key fst ps" name] map_of_filter[of ps name]
  by (simp add: queryGet_def parseQuery_encode sort_key_stable)

section \<open>Third-party functions of the web API\<close>

text \<open>\<^verbatim>\<open>http.AuthRequest\<close>, without the nonce check, which is an argument of \<^verbatim>\<open>http.Authorize\<close>.\<close>

record auth_request =
  arMethod :: string
  arURL :: string
  arKID :: string
  arAuth :: string
  arContentHash :: string
  arNow :: gotime

text \<open>\<^verbatim>\<open>http.Authorize\<close>: verifies the request and runs the nonce check; returns the key id.\<close>

type_synonym 's authorize = "auth_request \<Rightarrow> (string \<Rightarrow> ('s, unit) op) \<Rightarrow> ('s, string) op"

record web =
  \<comment> \<open>keys/http: the nonce of a draw; signing of (nonce, method, url, content hash, time, key) to
     the URL to request and the header; content hash\<close>
  wNonce :: "nat \<Rightarrow> string"
  wSign :: "string \<Rightarrow> string \<Rightarrow> string \<Rightarrow> string \<Rightarrow> gotime \<Rightarrow> edkey \<Rightarrow> err + string \<times> string"
  wContentHash :: "string \<Rightarrow> string"
  \<comment> \<open>keys.ParseID\<close>
  wParseID :: "string \<Rightarrow> err + string"
  \<comment> \<open>dstore.Data and the event's Data()\<close>
  wData :: "gobytes \<Rightarrow> fields"
  wEventData :: "fields \<Rightarrow> gobytes"
  \<comment> \<open>Document.To a \<^verbatim>\<open>Vault\<close>: the error, if any\<close>
  wVaultTo :: "fields \<Rightarrow> err option"
  \<comment> \<open>JSON of an error response, and the client's reading of its message\<close>
  wErrM :: "nat \<Rightarrow> string \<Rightarrow> string"
  wErrU :: "string \<Rightarrow> err + string option"
  \<comment> \<open>time.Parse(tsutil.RFC3339Milli, s)\<close>
  wParseTime :: "string \<Rightarrow> err + gotime"
  \<comment> \<open>echo's router: the routes as methods and patterns, a method and a path to the number of
     the route and the parameters\<close>
  wRoute :: "(string \<times> string) list \<Rightarrow> string \<Rightarrow> string \<Rightarrow> (nat \<times> (string \<times> string) list) option"

text \<open>
  \<^verbatim>\<open>ParseID\<close> accepts the ids of keys, and an id is one path component with no need of
  escaping; data stored in an event come back whatever index is stored beside them; the
  message of an error response comes back; \<^verbatim>\<open>Document.To\<close> reads numbers into a \<^verbatim>\<open>Vault\<close>.
\<close>

definition web_ok :: "'z ext_scheme \<Rightarrow> web \<Rightarrow> bool" where
  "web_ok X W \<longleftrightarrow>
     (\<forall>k. wParseID W (xKeyID X k) = Inr (xKeyID X k)) \<and>
     (\<forall>b f. (\<forall>x. x \<noteq> ''idx'' \<longrightarrow> f x = wData W (Some b) x) \<longrightarrow> wEventData W f = Some b) \<and>
     (\<forall>b. headDoc (wData W b) \<and> wData W b ''idx'' = None) \<and>
     (\<forall>f. headDoc f \<longrightarrow> wVaultTo W f = None) \<and>
     (\<forall>c m. wErrU W (wErrM W c m) = Inr (Some m) \<and> wErrM W c m \<noteq> [])"

text \<open>
  The router: a route whose pattern matches the path component by component is found with its
  parameters, provided its first component is literal and no other route of that method with a
  literal first component matches (echo prefers literals to parameters).
\<close>

primrec matchComps :: "string list \<Rightarrow> string list \<Rightarrow> (string \<times> string) list option" where
  "matchComps [] cs = (if cs = [] then Some [] else None)"
| "matchComps (p # ps) cs =
     (case cs of [] \<Rightarrow> None
      | c # cs' \<Rightarrow>
          if prefix '':'' p then map_option (\<lambda>b. (tl p, c) # b) (matchComps ps cs')
          else if p = c then matchComps ps cs' else None)"

definition literal :: "string list \<Rightarrow> bool" where
  "literal ps \<longleftrightarrow> ps \<noteq> [] \<and> \<not> prefix '':'' (hd ps)"

definition pattern :: "string \<Rightarrow> string list" where
  "pattern p = tl (splitOn (CHR ''/'') p)"

definition route_ok :: "web \<Rightarrow> bool" where
  "route_ok W \<longleftrightarrow> (\<forall>t i m p cs b. i < length t \<longrightarrow> t ! i = (m, p) \<longrightarrow> plains cs \<longrightarrow> literal (pattern p) \<longrightarrow>
     matchComps (pattern p) cs = Some b \<longrightarrow>
     (\<forall>j < length t. j \<noteq> i \<longrightarrow> fst (t ! j) = m \<longrightarrow> literal (pattern (snd (t ! j))) \<longrightarrow> matchComps (pattern (snd (t ! j))) cs = None) \<longrightarrow>
     wRoute W t m (canon cs) = Some (i, b))"

lemma route_okD:
  "route_ok W \<Longrightarrow> i < length t \<Longrightarrow> t ! i = (m, p) \<Longrightarrow> plains cs \<Longrightarrow> literal (pattern p) \<Longrightarrow>
     matchComps (pattern p) cs = Some b \<Longrightarrow>
     (\<And>j. j < length t \<Longrightarrow> j \<noteq> i \<Longrightarrow> fst (t ! j) = m \<Longrightarrow> literal (pattern (snd (t ! j))) \<Longrightarrow> matchComps (pattern (snd (t ! j))) cs = None) \<Longrightarrow>
     wRoute W t m (canon cs) = Some (i, b)"
  unfolding route_ok_def by blast

text \<open>
  Signing adds the nonce and the time to the query of the URL and leaves the rest of it as it
  is; \<^verbatim>\<open>Authorize\<close> accepts what was signed with the key of the expected id, for the same method,
  URL and content, within the time allowed (here a minute), if the nonce check does.
\<close>

definition urlChar :: "char \<Rightarrow> bool" where
  "urlChar c \<longleftrightarrow> unreserved c \<or> c = CHR ''/'' \<or> c = CHR '':''"

definition withQuery :: "string \<Rightarrow> (string \<times> string) list \<Rightarrow> string" where
  "withQuery a ps = (if encodeQuery ps = [] then a else a @ ''?'' @ encodeQuery ps)"

definition sign_ok :: "web \<Rightarrow> bool" where
  "sign_ok W \<longleftrightarrow> (\<forall>nonce m a ps hash t k. list_all urlChar a \<longrightarrow>
     (\<exists>h q. wSign W nonce m (withQuery a ps) hash t k = Inr (a @ ''?'' @ q, h) \<and> h \<noteq> [] \<and>
        (\<forall>n. n \<noteq> ''nonce'' \<longrightarrow> n \<noteq> ''ts'' \<longrightarrow> queryGet (parseQuery q) n = queryGet ps n)))"

definition auth_ok :: "'z ext_scheme \<Rightarrow> web \<Rightarrow> 's authorize \<Rightarrow> bool" where
  "auth_ok X W auth \<longleftrightarrow> (\<forall>nonce m url hash t k u h now nc s.
     wSign W nonce m url hash t k = Inr (u, h) \<longrightarrow> \<bar>now - t\<bar> \<le> minute \<longrightarrow>
     auth \<lparr>arMethod = m, arURL = u, arKID = xKeyID X k, arAuth = h, arContentHash = hash, arNow = now\<rparr> nc s =
       (case nc nonce s of (Inl e, s') \<Rightarrow> (Inl e, s') | (Inr _, s') \<Rightarrow> (Inr (xKeyID X k), s')))"

lemma web_okD:
  assumes "web_ok X W"
  shows "wParseID W (xKeyID X k) = Inr (xKeyID X k)"
    "(\<And>x. x \<noteq> ''idx'' \<Longrightarrow> f x = wData W (Some b) x) \<Longrightarrow> wEventData W f = Some b"
    "headDoc (wData W d)" "wData W d ''idx'' = None" "headDoc f \<Longrightarrow> wVaultTo W f = None"
    "wErrU W (wErrM W c m) = Inr (Some m)" "wErrM W c m \<noteq> []"
  using assms unfolding web_ok_def by simp_all

text \<open>The bytes in a list of data.\<close>

definition totalLen :: "gobytes list \<Rightarrow> nat" where
  "totalLen ds = sum_list (map glen ds)"

text \<open>A page of a listing: the events \<open>i + 1, \<dots>, j\<close>, with their indices.\<close>

definition isPage :: "gobytes list \<Rightarrow> nat \<Rightarrow> nat \<Rightarrow> vresp \<Rightarrow> bool" where
  "isPage bs i j r \<longleftrightarrow> i \<le> j \<and> j \<le> length bs \<and>
     (\<exists>ts. vrVault r = map (\<lambda>t. Some \<lparr>aeData = bs ! t, aeIndex = int t + 1, aeTs = ts t\<rparr>) [i..<j]) \<and>
     vrIndex r = int j \<and> (vrTruncated r \<longrightarrow> i < j) \<and> (\<not> vrTruncated r \<longrightarrow> j = length bs)"

end
