(* ===== verification/Redis.thy ===== *)
theory Redis
  imports GoStd
begin

text \<open>
  The key-value service of the server, \<^verbatim>\<open>http/server/redis.go\<close>: the interface \<^verbatim>\<open>Redis\<close> as a
  record of operations, its in-memory implementation \<^verbatim>\<open>rdsTest\<close>, and the nonce check of
  \<^verbatim>\<open>http/server/auth.go\<close> that uses it. The locale \<open>redis\<close> is the contract the nonce check
  relies on; a nonce is accepted once (\<open>nonce_replay\<close>).
\<close>

record 'r redis_ops =
  rdGet :: "string \<Rightarrow> ('r, string) op"
  rdSet :: "string \<Rightarrow> string \<Rightarrow> ('r, unit) op"
  rdDelete :: "string \<Rightarrow> ('r, unit) op"
  rdExpire :: "string \<Rightarrow> duration \<Rightarrow> ('r, unit) op"
  rdIncrement :: "string \<Rightarrow> ('r, int) op"
  rdPublish :: "string \<Rightarrow> string \<Rightarrow> ('r, unit) op"

section \<open>The in-memory implementation\<close>

record rdsEntry =
  reValue :: string
  reExpire :: gotime

text \<open>The clock is read by number, \<open>rtTicks\<close> readings have been taken.\<close>

record rdsTest =
  rtKV :: "string \<rightharpoonup> rdsEntry"
  rtTicks :: nat

definition newRedis :: rdsTest where
  "newRedis = \<lparr>rtKV = Map.empty, rtTicks = 0\<rparr>"

definition rtNow :: "(nat \<Rightarrow> gotime) \<Rightarrow> (rdsTest, gotime) op" where
  "rtNow clk = (\<lambda>r. (Inr (clk (rtTicks r)), r\<lparr>rtTicks := Suc (rtTicks r)\<rparr>))"

definition rtEntry :: "(nat \<Rightarrow> gotime) \<Rightarrow> string \<Rightarrow> (rdsTest, rdsEntry option) op" where
  "rtEntry clk k =
     bnd (gets (\<lambda>r. rtKV r k)) (\<lambda>e.
     case e of None \<Rightarrow> ret None
     | Some e \<Rightarrow>
         if isZeroTime (reExpire e) then ret (Some e)
         else bnd (rtNow clk) (\<lambda>now. ret (if reExpire e \<le> now then None else Some e)))"

definition rtPut :: "string \<Rightarrow> rdsEntry \<Rightarrow> (rdsTest, unit) op" where
  "rtPut k e = modify (\<lambda>r. r\<lparr>rtKV := (rtKV r)(k \<mapsto> e)\<rparr>)"

definition rtGet :: "(nat \<Rightarrow> gotime) \<Rightarrow> string \<Rightarrow> (rdsTest, string) op" where
  "rtGet clk k = bnd (rtEntry clk k) (\<lambda>e. ret (case e of None \<Rightarrow> [] | Some e \<Rightarrow> reValue e))"

text \<open>\<^verbatim>\<open>Expire\<close> and \<^verbatim>\<open>Increment\<close> use the entry without looking whether there is one.\<close>

definition rtExpire :: "(nat \<Rightarrow> gotime) \<Rightarrow> string \<Rightarrow> duration \<Rightarrow> (rdsTest, unit) op" where
  "rtExpire clk k dt =
     bnd (rtNow clk) (\<lambda>now.
     let t = now + dt
     in bnd (rtEntry clk k) (\<lambda>e.
        case e of None \<Rightarrow> fail (Panic ''nil pointer'')
        | Some e \<Rightarrow> rtPut k (e\<lparr>reExpire := t\<rparr>)))"

definition rtDelete :: "string \<Rightarrow> (rdsTest, unit) op" where
  "rtDelete k = modify (\<lambda>r. r\<lparr>rtKV := (rtKV r)(k := None)\<rparr>)"

definition rtSet :: "string \<Rightarrow> string \<Rightarrow> (rdsTest, unit) op" where
  "rtSet k v = rtPut k \<lparr>reValue = v, reExpire = 0\<rparr>"

definition rtIncrement :: "(nat \<Rightarrow> gotime) \<Rightarrow> string \<Rightarrow> (rdsTest, int) op" where
  "rtIncrement clk k =
     bnd (rtEntry clk k) (\<lambda>e.
     case e of None \<Rightarrow> fail (Panic ''nil pointer'')
     | Some e \<Rightarrow>
         bnd (lift (parseInt (reValue e))) (\<lambda>n.
         let n = i64 (n + 1)
         in bnd (rtPut k (e\<lparr>reValue := formatInt n\<rparr>)) (\<lambda>_. ret n)))"

definition rtPublish :: "string \<Rightarrow> string \<Rightarrow> (rdsTest, unit) op" where
  "rtPublish k b = ret ()"

definition NewRedisTest :: "(nat \<Rightarrow> gotime) \<Rightarrow> rdsTest redis_ops" where
  "NewRedisTest clk = \<lparr>rdGet = rtGet clk, rdSet = rtSet, rdDelete = rtDelete, rdExpire = rtExpire clk,
     rdIncrement = rtIncrement clk, rdPublish = rtPublish\<rparr>"

section \<open>The nonce check\<close>

definition nonceCheck :: "'r redis_ops \<Rightarrow> string \<Rightarrow> ('r, unit) op" where
  "nonceCheck D nonce =
     bnd (rdGet D nonce) (\<lambda>val.
     bnd (failIf (val \<noteq> []) (Err ''nonce collision'')) (\<lambda>_.
     bnd (rdSet D nonce ''1'') (\<lambda>_.
     rdExpire D nonce hour)))"

locale redis =
  fixes D :: "'r redis_ops"
    and used :: "'r \<Rightarrow> string \<Rightarrow> bool"
  assumes get_new: "\<not> used r k \<Longrightarrow> \<exists>r'. rdGet D k r = (Inr [], r') \<and> used r' = used r"
    and rset_ok: "\<exists>r'. rdSet D k v r = (Inr (), r') \<and> used r' = (used r)(k := True)"
    and expire_set: "rdSet D k v r = (Inr (), r') \<Longrightarrow> \<exists>r''. rdExpire D k dt r' = (Inr (), r'') \<and> used r'' = used r'"
begin

lemma nonceCheck_new: "\<not> used r k \<Longrightarrow> \<exists>r'. nonceCheck D k r = (Inr (), r') \<and> used r' = (used r)(k := True)"
proof -
  assume k: "\<not> used r k"
  obtain r1 where r1: "rdGet D k r = (Inr [], r1)" "used r1 = used r" using get_new[OF k] by blast
  obtain r2 where r2: "rdSet D k ''1'' r1 = (Inr (), r2)" "used r2 = (used r1)(k := True)" using rset_ok by blast
  obtain r3 where r3: "rdExpire D k hour r2 = (Inr (), r3)" "used r3 = used r2" using expire_set[OF r2(1)] by blast
  show ?thesis using r1 r2 r3 by (simp add: nonceCheck_def op_simps)
qed

end

definition rtUsed :: "rdsTest \<Rightarrow> string \<Rightarrow> bool" where
  "rtUsed r k \<longleftrightarrow> rtKV r k \<noteq> None"

interpretation rdsTest: redis "NewRedisTest clk" rtUsed
proof
  fix r k v dt r'
  show "\<exists>r'. rdGet (NewRedisTest clk) k r = (Inr [], r') \<and> rtUsed r' = rtUsed r" if "\<not> rtUsed r k"
    using that by (auto simp: NewRedisTest_def rtGet_def rtEntry_def op_simps rtUsed_def)
  show "\<exists>r'. rdSet (NewRedisTest clk) k v r = (Inr (), r') \<and> rtUsed r' = (rtUsed r)(k := True)"
    by (auto simp: NewRedisTest_def rtSet_def rtPut_def op_simps rtUsed_def fun_eq_iff)
  assume "rdSet (NewRedisTest clk) k v r = (Inr (), r')"
  then have "r' = r\<lparr>rtKV := (rtKV r)(k \<mapsto> \<lparr>reValue = v, reExpire = 0\<rparr>)\<rparr>"
    by (simp add: NewRedisTest_def rtSet_def rtPut_def op_simps)
  then show "\<exists>r''. rdExpire (NewRedisTest clk) k dt r' = (Inr (), r'') \<and> rtUsed r'' = rtUsed r'"
    by (auto simp: NewRedisTest_def rtExpire_def rtEntry_def rtNow_def rtPut_def isZeroTime_def Let_def op_simps bnd_def rtUsed_def fun_eq_iff)
qed

text \<open>The entry of an accepted nonce, and what a check of it again does while it has not expired.\<close>

lemma nonceCheck_entry:
  assumes "nonceCheck (NewRedisTest clk) k r = (Inr (), r')"
  shows "\<exists>t. rtKV r' k = Some \<lparr>reValue = ''1'', reExpire = clk t + hour\<rparr> \<and> rtTicks r \<le> t \<and> rtTicks r' = Suc t \<and>
    (\<forall>q. q \<noteq> k \<longrightarrow> rtKV r' q = rtKV r q)"
proof -
  obtain v r1 where v: "rtGet clk k r = (v, r1)" by fastforce
  have r1: "rtKV r1 = rtKV r" "rtTicks r \<le> rtTicks r1"
    using v by (auto simp: rtGet_def rtEntry_def bnd_def gets_def ret_def rtNow_def split: option.splits if_splits)
  show ?thesis
    using assms v r1
    by (auto simp: nonceCheck_def NewRedisTest_def op_iff rtSet_def rtPut_def rtExpire_def rtEntry_def rtNow_def isZeroTime_def
        Let_def op_simps bnd_def split: sum.splits if_splits)
qed

lemma nonceCheck_again:
  assumes e: "rtKV r k = Some e" "reValue e \<noteq> []" "reExpire e \<noteq> 0" and now: "clk (rtTicks r) < reExpire e"
  shows "fst (nonceCheck (NewRedisTest clk) k r) = Inl (Err ''nonce collision'')"
  using assms by (simp add: nonceCheck_def NewRedisTest_def rtGet_def rtEntry_def rtNow_def isZeroTime_def bnd_def gets_def ret_def failIf_def fail_def)

lemma rtEntry_kv: "rtEntry clk k r = (x, r') \<Longrightarrow> rtKV r' = rtKV r"
  by (auto simp: rtEntry_def bnd_def gets_def ret_def rtNow_def split: option.splits if_splits)

lemma nonceCheck_other:
  assumes "nonceCheck (NewRedisTest clk) q r = (x, r')" "k \<noteq> q"
  shows "rtKV r' k = rtKV r k"
proof -
  obtain v r1 where v: "rtEntry clk q r = (v, r1)" by fastforce
  have r1: "rtKV r1 = rtKV r" using rtEntry_kv[OF v] .
  have ex: "rtKV r3 k = rtKV r2 k" if "rtExpire clk q d r2 = (y, r3)" for d r2 y r3
    using that assms(2) rtEntry_kv[of clk q]
    by (fastforce simp: rtExpire_def rtNow_def rtPut_def bnd_def modify_def fail_def Let_def split: sum.splits option.splits prod.splits)
  show ?thesis
    using assms v r1
    by (auto simp: nonceCheck_def NewRedisTest_def rtGet_def rtSet_def rtPut_def bnd_def failIf_def fail_def ret_def modify_def
        split: sum.splits if_splits prod.splits dest!: ex)
qed

text \<open>C6. A nonce the server has accepted is refused when it is sent again before an hour of the
  clock has passed, whatever other nonces were checked in between.\<close>

theorem nonce_replay:
  assumes "nonceCheck (NewRedisTest clk) k r = (Inr (), r1)"
    and "forEach others (nonceCheck (NewRedisTest clk)) r1 = (x, r2)" "k \<notin> set others"
    and "0 < clk (rtTicks r1 - 1)" "clk (rtTicks r2) < clk (rtTicks r1 - 1) + hour"
  shows "fst (nonceCheck (NewRedisTest clk) k r2) = Inl (Err ''nonce collision'')"
proof -
  obtain t where t: "rtKV r1 k = Some \<lparr>reValue = ''1'', reExpire = clk t + hour\<rparr>" "rtTicks r1 = Suc t"
    using nonceCheck_entry[OF assms(1)] by blast
  have r2: "rtKV r2 k = Some \<lparr>reValue = ''1'', reExpire = clk t + hour\<rparr>"
    using forEach_keeps[OF _ assms(2), of "\<lambda>r. rtKV r k = Some \<lparr>reValue = ''1'', reExpire = clk t + hour\<rparr>"]
      nonceCheck_other[of clk _ _ _ _ k] assms(3) t(1) by metis
  have "0 < clk t" "clk (rtTicks r2) < clk t + hour" "0 < hour"
    using assms(4,5) t(2) by (simp_all add: hour_def minute_def second_def)
  then show ?thesis using nonceCheck_again[OF r2, of clk] by simp
qed

theorem nonce_replay_witness:
  "\<exists>r1 r2. nonceCheck (NewRedisTest (\<lambda>i. int i + 1)) ''a'' newRedis = (Inr (), r1) \<and>
     forEach [''b''] (nonceCheck (NewRedisTest (\<lambda>i. int i + 1))) r1 = (Inr (), r2) \<and>
     fst (nonceCheck (NewRedisTest (\<lambda>i. int i + 1)) ''a'' r2) = Inl (Err ''nonce collision'')"
proof -
  let ?c = "\<lambda>i. int i + 1" let ?D = "NewRedisTest ?c"
  obtain r1 where r1: "nonceCheck ?D ''a'' newRedis = (Inr (), r1)" "rtTicks r1 = 1" "rtKV r1 ''b'' = None"
    by (auto simp: nonceCheck_def NewRedisTest_def newRedis_def rtGet_def rtSet_def rtPut_def rtEntry_def rtNow_def rtExpire_def isZeroTime_def Let_def op_simps bnd_def)
  obtain r2 where r2: "forEach [''b''] (nonceCheck ?D) r1 = (Inr (), r2)" "rtTicks r2 = 2"
    using r1(2,3) by (auto simp: nonceCheck_def NewRedisTest_def newRedis_def rtGet_def rtSet_def rtPut_def rtEntry_def rtNow_def rtExpire_def isZeroTime_def Let_def op_simps bnd_def)
  have "fst (nonceCheck ?D ''a'' r2) = Inl (Err ''nonce collision'')"
    by (rule nonce_replay[OF r1(1) r2(1)]) (simp_all add: r1(2) r2(2) hour_def minute_def second_def)
  with r1(1) r2(1) show ?thesis by blast
qed

end
