(* ===== verification/Server.thy ===== *)
theory Server
  imports Web Redis
begin

text \<open>
  The vault API of the server: responses (\<^verbatim>\<open>http/server/error.go\<close>, \<^verbatim>\<open>server.go\<close>), request
  authorization (\<^verbatim>\<open>auth.go\<close>), parameters (\<^verbatim>\<open>param.go\<close>), event listings (\<^verbatim>\<open>events.go\<close>), the
  vault handlers (\<^verbatim>\<open>vault.go\<close>) and the routes. The server's fields that never change are the
  record \<open>env\<close>; its stores are the state \<open>server\<close>. A handler's result is the response it writes;
  an error it returns goes to \<open>ErrorHandler\<close>.
\<close>

section \<open>State\<close>

record ('f, 'r) server =
  srvFire :: 'f
  srvRedis :: 'r
  srvTicks :: nat
  srvDraws :: nat

record ('f, 'r) env =
  enFire :: "'f fire_ops"
  enRedis :: "'r redis_ops"
  enAuthorize :: "('f, 'r) server authorize"
  enClock :: "nat \<Rightarrow> gotime"
  enURL :: string

text \<open>A request in its \<^verbatim>\<open>echo.Context\<close>: the URL is path and query.\<close>

record ctx =
  cxMethod :: string
  cxURL :: string
  cxParams :: "(string \<times> string) list"
  cxHeaders :: "(string \<times> string) list"
  cxBody :: gobytes

type_synonym ('f, 'r) handler = "ctx \<Rightarrow> (('f, 'r) server, hresp) op"

definition cxParam :: "ctx \<Rightarrow> string \<Rightarrow> string" where
  "cxParam c name = queryGet (cxParams c) name"

definition cxQueryParam :: "ctx \<Rightarrow> string \<Rightarrow> string" where
  "cxQueryParam c name = queryGet (urlQuery (cxURL c)) name"

definition onFire :: "('f, 'a) op \<Rightarrow> (('f, 'r) server, 'a) op" where
  "onFire m = zoom srvFire (\<lambda>f s. s\<lparr>srvFire := f\<rparr>) m"

definition onRedis :: "('r, 'a) op \<Rightarrow> (('f, 'r) server, 'a) op" where
  "onRedis m = zoom srvRedis (\<lambda>r s. s\<lparr>srvRedis := r\<rparr>) m"

definition srvNow :: "('f, 'r) env \<Rightarrow> (('f, 'r) server, gotime) op" where
  "srvNow V = (\<lambda>s. (Inr (enClock V (srvTicks s)), s\<lparr>srvTicks := Suc (srvTicks s)\<rparr>))"

lemma onFire_run [op_simps]: "m (srvFire s) = (r, f) \<Longrightarrow> onFire m s = (r, s\<lparr>srvFire := f\<rparr>)"
  by (simp add: onFire_def op_simps)

lemma onRedis_run [op_simps]: "m (srvRedis s) = (r, f) \<Longrightarrow> onRedis m s = (r, s\<lparr>srvRedis := f\<rparr>)"
  by (simp add: onRedis_def op_simps)

lemma srvNow_run [op_simps]: "srvNow V s = (Inr (enClock V (srvTicks s)), s\<lparr>srvTicks := Suc (srvTicks s)\<rparr>)"
  by (simp add: srvNow_def)

section \<open>Responses\<close>

definition jsonType :: string where
  "jsonType = ''application/json; charset=UTF-8''"

text \<open>\<^verbatim>\<open>JSON\<close> on encoded bytes, and \<^verbatim>\<open>NoContent\<close>.\<close>

definition JSON :: "nat \<Rightarrow> string \<Rightarrow> hresp" where
  "JSON status b = \<lparr>hsStatus = status, hsHeaders = [(''Content-Type'', jsonType)], hsBody = b\<rparr>"

definition NoContent :: "nat \<Rightarrow> hresp" where
  "NoContent status = \<lparr>hsStatus = status, hsHeaders = [], hsBody = []\<rparr>"

definition newError :: "nat \<Rightarrow> err \<Rightarrow> err" where
  "newError code e = (let msg = (if code \<ge> 500 then ''internal error'' else errText e) in ErrHTTP code msg)"

definition errJSON :: "web \<Rightarrow> nat \<Rightarrow> string \<Rightarrow> hresp" where
  "errJSON W code msg = JSON code (wErrM W code msg)"

definition ErrResponse :: "web \<Rightarrow> err \<Rightarrow> hresp" where
  "ErrResponse W e =
     (case e of ErrHTTP code msg \<Rightarrow> errJSON W code msg
      | _ \<Rightarrow> (case newError 500 e of ErrHTTP code msg \<Rightarrow> errJSON W 500 msg | _ \<Rightarrow> errJSON W 500 []))"

definition ErrBadRequest :: "web \<Rightarrow> err \<Rightarrow> hresp" where
  "ErrBadRequest W e = ErrResponse W (newError 400 e)"

definition ErrEntityTooLarge :: "web \<Rightarrow> err \<Rightarrow> hresp" where
  "ErrEntityTooLarge W e = ErrResponse W (newError 413 e)"

definition ErrForbidden :: "web \<Rightarrow> err \<Rightarrow> hresp" where
  "ErrForbidden W e = ErrResponse W (newError 403 e)"

definition ErrTooManyRequests :: "web \<Rightarrow> err \<Rightarrow> hresp" where
  "ErrTooManyRequests W e = ErrResponse W (newError 429 e)"

definition ErrConflict :: "web \<Rightarrow> err \<Rightarrow> hresp" where
  "ErrConflict W e = ErrResponse W (newError 409 e)"

definition errNotFound :: "web \<Rightarrow> err option \<Rightarrow> hresp" where
  "errNotFound W e = ErrResponse W (newError 404 (case e of None \<Rightarrow> Err ''resource not found'' | Some e \<Rightarrow> e))"

text \<open>\<^verbatim>\<open>strings.ToLower\<close> on ASCII.\<close>

definition toLower :: "string \<Rightarrow> string" where
  "toLower s = map (\<lambda>c. let n = of_char c :: nat in if 65 \<le> n \<and> n \<le> 90 then char_of (n + 32) else c) s"

text \<open>\<open>he\<close> is the code and message of an \<^verbatim>\<open>*echo.HTTPError\<close>.\<close>

definition ErrorHandler :: "web \<Rightarrow> string \<Rightarrow> (nat \<times> string) option \<Rightarrow> hresp" where
  "ErrorHandler W method he =
     (case (case he of Some (code, msg) \<Rightarrow> (code, toLower msg) | None \<Rightarrow> (500, toLower ''Internal Server Error'')) of
        (code, msg) \<Rightarrow> if method = ''HEAD'' then NoContent code else errJSON W code msg)"

lemma hsStatus_JSON [simp]: "hsStatus (JSON n b) = n" "hsBody (JSON n b) = b" "hsStatus (NoContent n) = n"
  by (simp_all add: JSON_def NoContent_def)

section \<open>Authorization\<close>

record authRequest =
  auHeader :: string
  auParam :: string
  auContent :: gobytes
  auBaseURL :: string
  auNow :: gotime

definition newAuthRequest :: "string \<Rightarrow> string \<Rightarrow> gobytes \<Rightarrow> authRequest" where
  "newAuthRequest header param content =
     \<lparr>auHeader = header, auParam = param, auContent = content, auBaseURL = [], auNow = 0\<rparr>"

definition authKID :: "web \<Rightarrow> ctx \<Rightarrow> authRequest \<Rightarrow> err + string" where
  "authKID W c a =
     (if auParam a = [] then Inr []
      else case wParseID W (cxParam c (auParam a)) of
             Inl e \<Rightarrow> Inl (Wrapped ''invalid param'' e) | Inr k \<Rightarrow> Inr k)"

definition newHTTPAuthRequest :: "web \<Rightarrow> ctx \<Rightarrow> authRequest \<Rightarrow> err + auth_request" where
  "newHTTPAuthRequest W c a =
     (let url = auBaseURL a @ cxURL c; contentHash = wContentHash W (bstr (auContent a))
      in case authKID W c a of
           Inl e \<Rightarrow> Inl e
         | Inr kid \<Rightarrow>
             if auHeader a = [] then Inl (Err ''no auth header name, specified'')
             else let val = headerGet (cxHeaders c) (auHeader a)
                  in if val = [] then Inl (Err (''missing '' @ auHeader a @ '' header''))
                     else Inr \<lparr>arMethod = cxMethod c, arURL = url, arKID = kid, arAuth = val,
                               arContentHash = contentHash, arNow = auNow a\<rparr>)"

definition srvAuth :: "web \<Rightarrow> ('f, 'r) env \<Rightarrow> ctx \<Rightarrow> authRequest \<Rightarrow> (('f, 'r) server, string) op" where
  "srvAuth W V c a =
     bnd (if isZeroTime (auNow a) then srvNow V else ret (auNow a)) (\<lambda>now.
     let baseURL = (if auBaseURL a = [] then enURL V else auBaseURL a)
     in bnd (lift (newHTTPAuthRequest W c (a\<lparr>auNow := now, auBaseURL := baseURL\<rparr>))) (\<lambda>authReq.
        enAuthorize V authReq (\<lambda>nonce. onRedis (nonceCheck (enRedis V) nonce))))"

section \<open>Parameters and event listings\<close>

definition queryParamInt :: "ctx \<Rightarrow> string \<Rightarrow> int \<Rightarrow> err + int" where
  "queryParamInt c name dft =
     (let param = cxQueryParam c name
      in if param = [] then Inr dft
         else case parseInt param of
                Inl e \<Rightarrow> Inl (Wrapped (''invalid '' @ name) e) | Inr i \<Rightarrow> Inr i)"

definition asError :: "nat \<Rightarrow> ('s, 'a) op \<Rightarrow> ('s, 'a) op" where
  "asError code m = orElse m (\<lambda>e. fail (newError code e)) ret"

lemma asError_run [op_simps]:
  "m s = (Inr x, s') \<Longrightarrow> asError code m s = (Inr x, s')"
  "m s = (Inl e, s') \<Longrightarrow> \<not> isPanic e \<Longrightarrow> asError code m s = (Inl (newError code e), s')"
  by (simp_all add: asError_def op_simps)

definition srvEvents :: "web \<Rightarrow> ('f, 'r) env \<Rightarrow> ctx \<Rightarrow> string \<Rightarrow> int \<Rightarrow> (('f, 'r) server, aevent option list \<times> int) op" where
  "srvEvents W V c path maxLimit =
     bnd (asError 400 (lift (queryParamInt c ''idx'' 0))) (\<lambda>index.
     bnd (asError 400 (lift (queryParamInt c ''limit'' 0))) (\<lambda>limit0.
     let limit = (if limit0 = 0 \<or> limit0 > maxLimit then maxLimit else limit0);
         order = cxQueryParam c ''order'';
         pdir = (if order = [] then ''asc'' else order)
     in bnd (asError 400 (lift (if pdir = ''asc'' then Inr True else if pdir = ''desc'' then Inr False
                                else Inl (Err ''invalid order'')))) (\<lambda>asc.
        bnd (asError 500 (onFire (fEvents (enFire V) path index limit asc))) (\<lambda>(es, end).
        case end of Some e \<Rightarrow> fail (newError 500 e)
        | None \<Rightarrow>
            ret (map (\<lambda>e. Some \<lparr>aeData = wEventData W (feFields e), aeIndex = feIndex e, aeTs = feTs e\<rparr>) es,
                 if es = [] then index else feIndex (last es))))))"

section \<open>The vault handlers\<close>

definition isVaultDeleted :: "'z ext_scheme \<Rightarrow> ('f, 'r) env \<Rightarrow> string \<Rightarrow> (('f, 'r) server, bool) op" where
  "isVaultDeleted X V kid = onFire (fExists (enFire V) (xPath X [''vaults-rm'', kid]))"

definition setVaultDeleted :: "'z ext_scheme \<Rightarrow> web \<Rightarrow> ('f, 'r) env \<Rightarrow> string \<Rightarrow> (('f, 'r) server, unit) op" where
  "setVaultDeleted X W V kid = onFire (fSet (enFire V) (xPath X [''vaults-rm'', kid]) (wData W (Some [])))"

text \<open>The start every vault handler shares: who asks, and is the vault deleted.\<close>

definition vaultAuth ::
  "'z ext_scheme \<Rightarrow> web \<Rightarrow> ('f, 'r) env \<Rightarrow> ctx \<Rightarrow> gobytes \<Rightarrow> (string \<Rightarrow> (('f, 'r) server, hresp) op) \<Rightarrow> (('f, 'r) server, hresp) op" where
  "vaultAuth X W V c content k =
     orElse (srvAuth W V c (newAuthRequest ''Authorization'' ''vid'' content)) (\<lambda>e. ret (ErrForbidden W e)) (\<lambda>kid.
     orElse (isVaultDeleted X V kid) (\<lambda>e. ret (ErrResponse W e)) (\<lambda>deleted.
     if deleted then ret (errNotFound W (Some ErrVaultDeleted)) else k kid))"

definition listVault :: "'z ext_scheme \<Rightarrow> web \<Rightarrow> ('f, 'r) env \<Rightarrow> ('f, 'r) handler" where
  "listVault X W V c =
     vaultAuth X W V c None (\<lambda>kid.
     let limit = 1000; path = xPath X [''vaults'', kid]
     in orElse (srvEvents W V c path limit) (\<lambda>e. ret (ErrResponse W e)) (\<lambda>(es, index).
        if length es = 0 \<and> index = 0 then ret (errNotFound W (Some ErrVaultNotFound))
        else let truncated = (int (length es) \<ge> limit)
             in ret (JSON 200 (xRespM X \<lparr>vrVault = es, vrIndex = index, vrTruncated = truncated\<rparr>))))"

primrec dataDocs :: "web \<Rightarrow> gobytes option list \<Rightarrow> err + fields list" where
  "dataDocs W [] = Inr []"
| "dataDocs W (d # ds) =
     (case d of None \<Rightarrow> Inl (Panic ''nil pointer'')
      | Some b \<Rightarrow> (case dataDocs W ds of Inl e \<Rightarrow> Inl e | Inr fs \<Rightarrow> Inr (wData W b # fs)))"

definition dataTotal :: "gobytes option list \<Rightarrow> int" where
  "dataTotal ds = foldl (\<lambda>total d. i64 (total + (case d of None \<Rightarrow> 0 | Some b \<Rightarrow> int (glen b)))) 0 ds"

definition postVault :: "'z ext_scheme \<Rightarrow> web \<Rightarrow> ('f, 'r) env \<Rightarrow> ('f, 'r) handler" where
  "postVault X W V c =
     (case cxBody c of
        None \<Rightarrow> ret (ErrBadRequest W (Err ''no body data''))
      | Some b \<Rightarrow>
          vaultAuth X W V c (Some b) (\<lambda>kid.
          orElse (lift (xDatasU X b)) (\<lambda>e. ret (ErrBadRequest W e)) (\<lambda>req.
          bnd (lift (dataDocs W req)) (\<lambda>docs.
          let path = xPath X [''vaults'', kid]
          in bnd (onFire (fEventsAdd (enFire V) path docs)) (\<lambda>_.
             orElse (onFire (fIncrement (enFire V) path ''usage'' (dataTotal req))) (\<lambda>e. ret (ErrResponse W e)) (\<lambda>_.
             orElse (onFire (fGet (enFire V) path)) (\<lambda>e. ret (ErrResponse W e)) (\<lambda>doc.
             ret (case (case doc of None \<Rightarrow> None | Some d \<Rightarrow> wVaultTo W (doFields d)) of
                    Some e \<Rightarrow> ErrResponse W e | None \<Rightarrow> JSON 200 ''{}'')))))))) "

definition deleteVault :: "'z ext_scheme \<Rightarrow> web \<Rightarrow> ('f, 'r) env \<Rightarrow> ('f, 'r) handler" where
  "deleteVault X W V c =
     vaultAuth X W V c None (\<lambda>kid.
     orElse (setVaultDeleted X W V kid) (\<lambda>e. ret (ErrResponse W e)) (\<lambda>_.
     let cpath = xPath X [''vaults'', kid]
     in orElse (onFire (fEventsDelete (enFire V) cpath)) (\<lambda>e. ret (ErrResponse W e)) (\<lambda>exists.
        if \<not> exists then ret (errNotFound W (Some ErrVaultNotFound)) else ret (JSON 200 ''{}''))))"

definition headVault :: "'z ext_scheme \<Rightarrow> web \<Rightarrow> ('f, 'r) env \<Rightarrow> ('f, 'r) handler" where
  "headVault X W V c =
     vaultAuth X W V c None (\<lambda>kid.
     let path = xPath X [''vaults'', kid]
     in orElse (onFire (fEvents (enFire V) path 0 1 True)) (\<lambda>e. ret (ErrResponse W e)) (\<lambda>(es, end).
        case es of
          [] \<Rightarrow> (case end of Some e \<Rightarrow> ret (ErrResponse W e) | None \<Rightarrow> ret (errNotFound W (Some ErrVaultNotFound)))
        | _ \<Rightarrow> ret (NoContent 200)))"

section \<open>Routes\<close>

datatype route =
    GetSigchainStatement | PutSigchainStatement | GetSigchain | Check | GetUserSearch | GetUser
  | TaskCheck | CronCheck | PostVault | ListVault | DeleteVault | HeadVault
  | PutDisco | GetDisco | DeleteDisco | PostInviteCode | GetInviteCode | GetShare | PutShare
  | PostBatch | CheckTwitter | AdminCheck
  | GetSigchainAliased | GetSigchainStatementAliased | PutSigchainStatementAliased

definition AddRoutes :: "(string \<times> string \<times> route) list" where
  "AddRoutes =
    [(''GET'', ''/sigchain/:kid/:seq'', GetSigchainStatement),
     (''PUT'', ''/sigchain/:kid/:seq'', PutSigchainStatement),
     (''GET'', ''/sigchain/:kid'', GetSigchain),
     (''POST'', ''/check'', Check),
     (''GET'', ''/user/search'', GetUserSearch),
     (''GET'', ''/user/:user'', GetUser),
     (''POST'', ''/task/check/:kid'', TaskCheck),
     (''POST'', ''/cron/check'', CronCheck),
     (''POST'', ''/vault/:vid'', PostVault),
     (''GET'', ''/vault/:vid'', ListVault),
     (''DELETE'', ''/vault/:vid'', DeleteVault),
     (''HEAD'', ''/vault/:vid'', HeadVault),
     (''PUT'', ''/disco/:kid/:rid/:type'', PutDisco),
     (''GET'', ''/disco/:kid/:rid/:type'', GetDisco),
     (''DELETE'', ''/disco/:kid/:rid'', DeleteDisco),
     (''POST'', ''/invite/code/:kid/:rid'', PostInviteCode),
     (''GET'', ''/invite/code/:code'', GetInviteCode),
     (''GET'', ''/share/:kid'', GetShare),
     (''PUT'', ''/share/:kid'', PutShare),
     (''POST'', ''/batch'', PostBatch),
     (''GET'', ''/twitter/:kid/:name/:id'', CheckTwitter),
     (''POST'', ''/admin/check/:kid'', AdminCheck),
     (''GET'', ''/:kid'', GetSigchainAliased),
     (''GET'', ''/:kid/:seq'', GetSigchainStatementAliased),
     (''PUT'', ''/:kid/:seq'', PutSigchainStatementAliased)]"

text \<open>The handler of a route; \<open>other\<close> has the handlers that are not modelled.\<close>

definition dispatch :: "'z ext_scheme \<Rightarrow> web \<Rightarrow> ('f, 'r) env \<Rightarrow> (route \<Rightarrow> ('f, 'r) handler) \<Rightarrow> route \<Rightarrow> ('f, 'r) handler" where
  "dispatch X W V other r =
     (case r of PostVault \<Rightarrow> postVault X W V | ListVault \<Rightarrow> listVault X W V
      | DeleteVault \<Rightarrow> deleteVault X W V | HeadVault \<Rightarrow> headVault X W V | _ \<Rightarrow> other r)"

text \<open>A request served: an error returned by the handler is turned into a response, a panic ends
  the connection without one.\<close>

definition serveHTTP ::
  "'z ext_scheme \<Rightarrow> web \<Rightarrow> ('f, 'r) env \<Rightarrow> (route \<Rightarrow> ('f, 'r) handler) \<Rightarrow> hreq \<Rightarrow> (('f, 'r) server, hresp) op" where
  "serveHTTP X W V other req =
     (case wRoute W (map (\<lambda>(m, p, _). (m, p)) AddRoutes) (hrMethod req) (urlPath (hrURL req)) of
        None \<Rightarrow> ret (ErrorHandler W (hrMethod req) (Some (404, ''Not Found'')))
      | Some (i, params) \<Rightarrow>
          orElse (dispatch X W V other (snd (snd (AddRoutes ! i)))
                    \<lparr>cxMethod = hrMethod req, cxURL = hrURL req, cxParams = params, cxHeaders = hrHeaders req,
                     cxBody = Some (hrBody req)\<rparr>)
            (\<lambda>e. ret (ErrorHandler W (hrMethod req) None)) ret)"

end
