(* ===== verification/ServerProofs.thy ===== *)
theory ServerProofs
  imports Server
begin

text \<open>
  What the vault handlers do, over any store and nonce service that keep their contracts: per
  key id an append-only list of data (\<open>kidBlobs\<close>) and whether it was deleted for good
  (\<open>kidGone\<close>). The locale \<open>vault_service\<close> combines the contracts of \<open>fire\<close> and \<open>redis\<close> with the
  documented behaviour of the third-party functions.
\<close>

lemma take_upt_min: "take n [i..<m] = [i..<min (i + n) m]"
  by (cases "i + n \<le> m") (simp_all add: min_def)

text \<open>A request signed with a key: the context the handlers get.\<close>

definition signed ::
  "'z ext_scheme \<Rightarrow> web \<Rightarrow> ('f, 'r) env \<Rightarrow> ctx \<Rightarrow> string \<Rightarrow> string \<Rightarrow> gotime \<Rightarrow> edkey \<Rightarrow> bool" where
  "signed X W V c content nonce t k \<longleftrightarrow>
     cxParam c ''vid'' = xKeyID X k \<and> headerGet (cxHeaders c) ''Authorization'' \<noteq> [] \<and>
     (\<exists>url. wSign W nonce (cxMethod c) url (wContentHash W content) t k =
        Inr (enURL V @ cxURL c, headerGet (cxHeaders c) ''Authorization''))"

text \<open>The server's data for a key id, in its store.\<close>

definition vaultDoc :: "string \<Rightarrow> string" where
  "vaultDoc kid = canon [''vaults'', kid]"

definition goneDoc :: "string \<Rightarrow> string" where
  "goneDoc kid = canon [''vaults-rm'', kid]"

definition serverBlobs :: "web \<Rightarrow> ('f \<Rightarrow> string \<Rightarrow> fields list) \<Rightarrow> string \<Rightarrow> ('f, 'r) server \<Rightarrow> gobytes list" where
  "serverBlobs W fevents kid s = map (wEventData W) (fevents (srvFire s) (vaultDoc kid))"

definition serverGone :: "('f \<Rightarrow> string \<Rightarrow> bool) \<Rightarrow> string \<Rightarrow> ('f, 'r) server \<Rightarrow> bool" where
  "serverGone fdocs kid s = fdocs (srvFire s) (goneDoc kid)"

definition serverInv :: "('f \<Rightarrow> string \<Rightarrow> fields list) \<Rightarrow> ('f \<Rightarrow> string \<Rightarrow> bool) \<Rightarrow> ('f \<Rightarrow> bool) \<Rightarrow> ('f, 'r) server \<Rightarrow> bool" where
  "serverInv fevents fdocs fready s \<longleftrightarrow> fready (srvFire s) \<and> (\<forall>kid. plain kid \<longrightarrow> fevents (srvFire s) (goneDoc kid) = [] \<and>
     (fevents (srvFire s) (vaultDoc kid) \<noteq> [] \<longrightarrow> fdocs (srvFire s) (vaultDoc kid)))"

locale vault_service =
  fire "enFire V" fevents fdocs fready + redis "enRedis V" used
  for V :: "('f, 'r) env" and fevents :: "'f \<Rightarrow> string \<Rightarrow> fields list" and fdocs fready
    and used :: "'r \<Rightarrow> string \<Rightarrow> bool" +
  fixes X :: "'z ext_scheme" and W :: web
  assumes dstore: "dstore_ok X" and json: "json_ok X" and web: "web_ok X W"
    and authorize: "auth_ok X W (enAuthorize V)" and clock: "enClock V i \<noteq> 0"
begin

abbreviation kidBlobs :: "string \<Rightarrow> ('f, 'r) server \<Rightarrow> gobytes list" where
  "kidBlobs \<equiv> serverBlobs W fevents"

abbreviation kidGone :: "string \<Rightarrow> ('f, 'r) server \<Rightarrow> bool" where
  "kidGone \<equiv> serverGone fdocs"

abbreviation srvInv :: "('f, 'r) server \<Rightarrow> bool" where
  "srvInv \<equiv> serverInv fevents fdocs fready"

text \<open>The data are as they were, and one nonce is used up.\<close>

definition sameData :: "('f, 'r) server \<Rightarrow> ('f, 'r) server \<Rightarrow> bool" where
  "sameData s s' \<longleftrightarrow> fready (srvFire s') \<and> fevents (srvFire s') = fevents (srvFire s) \<and> fdocs (srvFire s') = fdocs (srvFire s)"

definition spent :: "string \<Rightarrow> ('f, 'r) server \<Rightarrow> ('f, 'r) server \<Rightarrow> bool" where
  "spent nonce s s' \<longleftrightarrow> used (srvRedis s') = (used (srvRedis s))(nonce := True)"

lemma sameData_inv: "sameData s s' \<Longrightarrow> srvInv s \<Longrightarrow> srvInv s'"
  by (simp add: sameData_def serverInv_def)

lemma sameData_blobs: "sameData s s' \<Longrightarrow> kidBlobs kid s' = kidBlobs kid s \<and> kidGone kid s' = kidGone kid s"
  by (simp add: sameData_def serverBlobs_def serverGone_def)

lemma docPaths: "plain kid \<Longrightarrow> docPath (vaultDoc kid)" "plain kid \<Longrightarrow> docPath (goneDoc kid)"
proof -
  assume kid: "plain kid"
  have "plain ''vaults''" "plain ''vaults-rm''" by (simp_all add: plain_def)
  with kid show "docPath (vaultDoc kid)" "docPath (goneDoc kid)"
    unfolding docPath_def vaultDoc_def goneDoc_def by blast+
qed

lemma xPath_docs:
  "plain kid \<Longrightarrow> xPath X [''vaults'', kid] = vaultDoc kid" "plain kid \<Longrightarrow> xPath X [''vaults-rm'', kid] = goneDoc kid"
  using xPath_two[OF dstore, of "''vaults''" kid] xPath_two[OF dstore, of "''vaults-rm''" kid]
  by (simp_all add: vaultDoc_def goneDoc_def plain_def)

lemma vaultDoc_inj: "vaultDoc a = vaultDoc b \<longleftrightarrow> a = b"
  by (auto simp: vaultDoc_def)

lemma goneDoc_inj: "goneDoc a = goneDoc b \<longleftrightarrow> a = b"
  by (auto simp: goneDoc_def)

lemma vaultDoc_goneDoc: "vaultDoc a \<noteq> goneDoc b"
  by (simp add: vaultDoc_def goneDoc_def)

text \<open>Authorization of a signed request, and the check for deletion.\<close>

lemma srvAuth_ok:
  assumes "signed X W V c (bstr content) nonce t k" "\<bar>enClock V (srvTicks s) - t\<bar> \<le> minute" "\<not> used (srvRedis s) nonce"
  shows "\<exists>s'. srvAuth W V c (newAuthRequest ''Authorization'' ''vid'' content) s = (Inr (xKeyID X k), s') \<and>
    srvFire s' = srvFire s \<and> spent nonce s s' \<and> srvTicks s' = Suc (srvTicks s)"
proof -
  let ?now = "enClock V (srvTicks s)" let ?s = "s\<lparr>srvTicks := Suc (srvTicks s)\<rparr>"
  let ?h = "headerGet (cxHeaders c) ''Authorization''"
  obtain url where url: "wSign W nonce (cxMethod c) url (wContentHash W (bstr content)) t k = Inr (enURL V @ cxURL c, ?h)"
    using assms(1) by (auto simp: signed_def)
  obtain r where r: "nonceCheck (enRedis V) nonce (srvRedis s) = (Inr (), r)" "used r = (used (srvRedis s))(nonce := True)"
    using nonceCheck_new[OF assms(3)] by blast
  have nc: "onRedis (nonceCheck (enRedis V) nonce) ?s = (Inr (), ?s\<lparr>srvRedis := r\<rparr>)"
    using r(1) by (simp add: op_simps)
  have "enAuthorize V \<lparr>arMethod = cxMethod c, arURL = enURL V @ cxURL c, arKID = xKeyID X k, arAuth = ?h,
      arContentHash = wContentHash W (bstr content), arNow = ?now\<rparr> (\<lambda>n. onRedis (nonceCheck (enRedis V) n)) ?s =
      (Inr (xKeyID X k), ?s\<lparr>srvRedis := r\<rparr>)"
    using authorize[unfolded auth_ok_def, rule_format, OF url assms(2), of "\<lambda>n. onRedis (nonceCheck (enRedis V) n)" ?s]
    unfolding nc by simp
  then have "srvAuth W V c (newAuthRequest ''Authorization'' ''vid'' content) s = (Inr (xKeyID X k), ?s\<lparr>srvRedis := r\<rparr>)"
    using assms(1) web_okD(1)[OF web, of k]
    by (simp add: srvAuth_def newAuthRequest_def isZeroTime_def op_simps newHTTPAuthRequest_def authKID_def signed_def Let_def)
  with r(2) show ?thesis by (simp add: spent_def)
qed

lemma vaultAuth_ok:
  assumes "signed X W V c (bstr content) nonce t k" "\<bar>enClock V (srvTicks s) - t\<bar> \<le> minute" "\<not> used (srvRedis s) nonce"
    and inv: "srvInv s" and kid: "plain (xKeyID X k)"
  shows "\<exists>s'. vaultAuth X W V c content K s =
      (if kidGone (xKeyID X k) s then (Inr (errNotFound W (Some ErrVaultDeleted)), s') else K (xKeyID X k) s') \<and>
    sameData s s' \<and> spent nonce s s' \<and> srvTicks s' = Suc (srvTicks s)"
proof -
  obtain s1 where s1: "srvAuth W V c (newAuthRequest ''Authorization'' ''vid'' content) s = (Inr (xKeyID X k), s1)"
      "srvFire s1 = srvFire s" "spent nonce s s1" "srvTicks s1 = Suc (srvTicks s)"
    using srvAuth_ok[OF assms(1-3)] by blast
  have "fready (srvFire s1)" using inv s1(2) by (simp add: serverInv_def)
  then obtain f where f: "fExists (enFire V) (goneDoc (xKeyID X k)) (srvFire s1) = (Inr (fdocs (srvFire s1) (goneDoc (xKeyID X k))), f)"
      "fready f" "fevents f = fevents (srvFire s1)" "fdocs f = fdocs (srvFire s1)"
    using exists_ok[OF _ docPaths(2)[OF kid]] by blast
  have "isVaultDeleted X V (xKeyID X k) s1 = (Inr (kidGone (xKeyID X k) s), s1\<lparr>srvFire := f\<rparr>)"
    using f(1) s1(2) xPath_docs(2)[OF kid] by (simp add: isVaultDeleted_def op_simps serverGone_def)
  then have "vaultAuth X W V c content K s = (if kidGone (xKeyID X k) s then (Inr (errNotFound W (Some ErrVaultDeleted)), s1\<lparr>srvFire := f\<rparr>)
      else K (xKeyID X k) (s1\<lparr>srvFire := f\<rparr>))"
    using s1(1) by (simp add: vaultAuth_def op_simps)
  then show ?thesis
    using f(2-4) s1(2-4) by (intro exI[of _ "s1\<lparr>srvFire := f\<rparr>"]) (simp add: sameData_def spent_def)
qed

section \<open>Listing\<close>

lemma srvEvents_ok:
  assumes q: "cxQueryParam c ''idx'' = (if i = 0 then [] else formatInt (int i))" "cxQueryParam c ''limit'' = []"
      "cxQueryParam c ''order'' = []" and i: "int64_ok (int i)" and f: "fready (srvFire s)" "docPath p"
  shows "\<exists>f' ts. srvEvents W V c p 1000 s =
      (Inr (map (\<lambda>t. Some \<lparr>aeData = map (wEventData W) (fevents (srvFire s) p) ! t, aeIndex = int t + 1, aeTs = ts t\<rparr>)
              (take 1000 [i..<length (fevents (srvFire s) p)]),
            int (max i (min (i + 1000) (length (fevents (srvFire s) p))))), s\<lparr>srvFire := f'\<rparr>) \<and>
    fready f' \<and> fevents f' = fevents (srvFire s) \<and> fdocs f' = fdocs (srvFire s)"
proof -
  let ?es = "fevents (srvFire s) p" let ?l = "take 1000 [i..<length (fevents (srvFire s) p)]"
  obtain f' ts where f': "fEvents (enFire V) p (int i) 1000 True (srvFire s) =
      (Inr (map (\<lambda>t. \<lparr>feFields = ?es ! t, feIndex = int t + 1, feTs = ts t\<rparr>) ?l, None), f')"
      "fready f'" "fevents f' = fevents (srvFire s)" "fdocs f' = fdocs (srvFire s)"
    using list_ok[OF f, of 1000 i] by auto
  have idx: "queryParamInt c ''idx'' 0 = Inr (int i)" "queryParamInt c ''limit'' 0 = Inr 0"
    using q(1,2) i by (simp_all add: queryParamInt_def)
  have data: "map (\<lambda>t. Some \<lparr>aeData = wEventData W (?es ! t), aeIndex = int t + 1, aeTs = ts t\<rparr>) ?l =
      map (\<lambda>t. Some \<lparr>aeData = map (wEventData W) ?es ! t, aeIndex = int t + 1, aeTs = ts t\<rparr>) ?l"
    by (auto dest: in_set_takeD)
  have last: "(if ?l = [] then int i else int (last ?l) + 1) = int (max i (min (i + 1000) (length ?es)))"
    by (auto simp: last_conv_nth)
  have "srvEvents W V c p 1000 s =
      (Inr (map (\<lambda>t. Some \<lparr>aeData = wEventData W (?es ! t), aeIndex = int t + 1, aeTs = ts t\<rparr>) ?l,
        if ?l = [] then int i else int (last ?l) + 1), s\<lparr>srvFire := f'\<rparr>)"
    using idx q(3) f'(1) by (simp add: srvEvents_def op_simps Let_def comp_def last_map)
  then show ?thesis using f'(2-4) unfolding data last by blast
qed

lemma listVault_ok:
  assumes c: "signed X W V c [] nonce t k" "\<bar>enClock V (srvTicks s) - t\<bar> \<le> minute" "\<not> used (srvRedis s) nonce"
    and inv: "srvInv s" and kid: "plain (xKeyID X k)"
    and q: "cxQueryParam c ''idx'' = (if i = 0 then [] else formatInt (int i))" "cxQueryParam c ''limit'' = []"
      "cxQueryParam c ''order'' = []" and i: "int64_ok (int i)" "i \<le> length (kidBlobs (xKeyID X k) s)"
  shows "\<exists>s'. sameData s s' \<and> spent nonce s s' \<and> srvTicks s' = Suc (srvTicks s) \<and>
    (if kidGone (xKeyID X k) s then listVault X W V c s = (Inr (errNotFound W (Some ErrVaultDeleted)), s')
     else if kidBlobs (xKeyID X k) s = [] then listVault X W V c s = (Inr (errNotFound W (Some ErrVaultNotFound)), s')
     else \<exists>r j. listVault X W V c s = (Inr (JSON 200 (xRespM X r)), s') \<and> isPage (kidBlobs (xKeyID X k) s) i j r)"
proof -
  let ?kid = "xKeyID X k" let ?p = "vaultDoc ?kid" let ?bs = "kidBlobs ?kid s"
  define K :: "string \<Rightarrow> (('f, 'r) server, hresp) op" where "K = (\<lambda>kid. let limit = 1000; path = xPath X [''vaults'', kid]
     in orElse (srvEvents W V c path limit) (\<lambda>e. ret (ErrResponse W e)) (\<lambda>(es, index).
        if length es = 0 \<and> index = 0 then ret (errNotFound W (Some ErrVaultNotFound))
        else let truncated = (int (length es) \<ge> limit)
             in ret (JSON 200 (xRespM X \<lparr>vrVault = es, vrIndex = index, vrTruncated = truncated\<rparr>))))"
  have list: "listVault X W V c = vaultAuth X W V c None K" by (simp add: listVault_def K_def)
  obtain s1 where s1: "vaultAuth X W V c None K s = (if kidGone ?kid s then (Inr (errNotFound W (Some ErrVaultDeleted)), s1) else K ?kid s1)"
      "sameData s s1" "spent nonce s s1" "srvTicks s1 = Suc (srvTicks s)"
    using vaultAuth_ok[OF _ c(2,3) inv kid, of c None K] c(1) by auto
  have f: "fready (srvFire s1)" "fevents (srvFire s1) = fevents (srvFire s)" using s1(2) by (simp_all add: sameData_def)
  obtain f' ts where f': "srvEvents W V c ?p 1000 s1 =
      (Inr (map (\<lambda>t. Some \<lparr>aeData = ?bs ! t, aeIndex = int t + 1, aeTs = ts t\<rparr>) (take 1000 [i..<length ?bs]),
            int (max i (min (i + 1000) (length ?bs)))), s1\<lparr>srvFire := f'\<rparr>)"
      "fready f'" "fevents f' = fevents (srvFire s1)" "fdocs f' = fdocs (srvFire s1)"
    using srvEvents_ok[OF q i(1) f(1) docPaths(1)[OF kid]] unfolding f(2) serverBlobs_def by auto
  let ?s' = "s1\<lparr>srvFire := f'\<rparr>" let ?j = "min (i + 1000) (length ?bs)"
  define r where "r = \<lparr>vrVault = map (\<lambda>t. Some \<lparr>aeData = ?bs ! t, aeIndex = int t + 1, aeTs = ts t\<rparr>) (take 1000 [i..<length ?bs]),
     vrIndex = int ?j, vrTruncated = 1000 \<le> int (length (take 1000 [i..<length ?bs]))\<rparr>"
  have j: "max i ?j = ?j" using i(2) by simp
  have keep: "sameData s ?s'" "spent nonce s ?s'" "srvTicks ?s' = Suc (srvTicks s)"
    using s1(2-4) f'(2-4) by (simp_all add: sameData_def spent_def)
  have j0: "?j = 0 \<longleftrightarrow> ?bs = []" by (auto simp: min_def)
  have K: "K ?kid s1 = (if ?bs = [] then Inr (errNotFound W (Some ErrVaultNotFound)) else Inr (JSON 200 (xRespM X r)), ?s')"
    using f'(1) i(2) unfolding K_def Let_def xPath_docs(1)[OF kid] j r_def using j0 by (cases "?bs = []") (simp_all add: op_simps min_def split: if_splits)
  have page: "isPage ?bs i ?j r"
    using i(2) by (auto simp: isPage_def take_upt_min r_def intro!: exI[of _ ts])
  show ?thesis
  proof (cases "kidGone ?kid s")
    case True
    with s1 list show ?thesis by auto
  next
    case False
    then have run: "listVault X W V c s = K ?kid s1" using s1(1) list by simp
    show ?thesis
      using False keep page unfolding run K by (intro exI[of _ ?s']) auto
  qed
qed

lemma listVault_gone:
  assumes c: "signed X W V c [] nonce t k" "\<bar>enClock V (srvTicks s) - t\<bar> \<le> minute" "\<not> used (srvRedis s) nonce"
    and inv: "srvInv s" and kid: "plain (xKeyID X k)" and gone: "kidGone (xKeyID X k) s"
  shows "\<exists>s'. listVault X W V c s = (Inr (errNotFound W (Some ErrVaultDeleted)), s') \<and> sameData s s' \<and> spent nonce s s'"
  unfolding listVault_def using vaultAuth_ok[OF _ c(2,3) inv kid, of c None] c(1) gone by fastforce

section \<open>Posting\<close>

lemma dataDocs_some: "dataDocs W (map Some ds) = Inr (map (wData W) ds)"
  by (induction ds) simp_all

lemma dataTotal_some: "int64_ok (int (totalLen ds)) \<Longrightarrow> dataTotal (map Some ds) = int (totalLen ds)"
proof -
  have "foldl (\<lambda>total d. i64 (total + (case d of None \<Rightarrow> 0 | Some b \<Rightarrow> int (glen b)))) a (map Some ds) = a + int (totalLen ds)"
    if "0 \<le> a" "int64_ok (a + int (totalLen ds))" for a
    using that
  proof (induction ds arbitrary: a)
    case (Cons d ds)
    then have "int64_ok (a + int (glen d))" by (auto simp: int64_ok_def totalLen_def)
    with Cons.IH[of "a + int (glen d)"] Cons.prems show ?case by (simp add: totalLen_def add.assoc)
  qed (simp add: totalLen_def)
  from this[of 0] show "int64_ok (int (totalLen ds)) \<Longrightarrow> dataTotal (map Some ds) = int (totalLen ds)"
    by (simp add: dataTotal_def)
qed

lemma eventData_list:
  assumes "length es = length ds" "list_all (\<lambda>d. d \<noteq> None) ds"
    "\<forall>i < length ds. \<forall>x. x \<noteq> ''idx'' \<longrightarrow> (es ! i) x = (map (wData W) ds ! i) x"
  shows "map (wEventData W) es = ds"
proof (rule nth_equalityI)
  fix i assume "i < length (map (wEventData W) es)"
  then have i: "i < length ds" using assms(1) by simp
  then obtain b where "ds ! i = Some b" using assms(2) by (fastforce simp: list_all_length)
  with i assms(1,3) web_okD(2)[OF web, of "es ! i" b] show "map (wEventData W) es ! i = ds ! i" by simp
qed (simp add: assms(1))

lemma postVault_ok:
  assumes c: "signed X W V c (xDatasM X ds) nonce t k" "\<bar>enClock V (srvTicks s) - t\<bar> \<le> minute" "\<not> used (srvRedis s) nonce"
    and inv: "srvInv s" and kid: "plain (xKeyID X k)" and body: "cxBody c = Some (xDatasM X ds)"
    and gone: "\<not> kidGone (xKeyID X k) s" and ds: "ds \<noteq> []" "list_all (\<lambda>d. d \<noteq> None) ds"
    and sz: "int64_ok (int (length (kidBlobs (xKeyID X k) s) + length ds))" "0 < totalLen ds" "int64_ok (int (totalLen ds))"
  shows "\<exists>s'. postVault X W V c s = (Inr (JSON 200 ''{}''), s') \<and> srvInv s' \<and> spent nonce s s' \<and> srvTicks s' = Suc (srvTicks s) \<and>
    kidBlobs (xKeyID X k) s' = kidBlobs (xKeyID X k) s @ ds \<and>
    (\<forall>q. q \<noteq> xKeyID X k \<longrightarrow> kidBlobs q s' = kidBlobs q s) \<and> (\<forall>q. kidGone q s' = kidGone q s)"
proof -
  let ?kid = "xKeyID X k" let ?p = "vaultDoc ?kid" let ?docs = "map (wData W) ds" let ?req = "map Some ds"
  note dp = docPaths(1)[OF kid]
  define K :: "string \<Rightarrow> (('f, 'r) server, hresp) op" where "K = (\<lambda>kid. orElse (lift (xDatasU X (xDatasM X ds))) (\<lambda>e. ret (ErrBadRequest W e)) (\<lambda>req.
          bnd (lift (dataDocs W req)) (\<lambda>docs.
          let path = xPath X [''vaults'', kid]
          in bnd (onFire (fEventsAdd (enFire V) path docs)) (\<lambda>_.
             orElse (onFire (fIncrement (enFire V) path ''usage'' (dataTotal req))) (\<lambda>e. ret (ErrResponse W e)) (\<lambda>_.
             orElse (onFire (fGet (enFire V) path)) (\<lambda>e. ret (ErrResponse W e)) (\<lambda>doc.
             ret (case (case doc of None \<Rightarrow> None | Some d \<Rightarrow> wVaultTo W (doFields d)) of
                    Some e \<Rightarrow> ErrResponse W e | None \<Rightarrow> JSON 200 ''{}'')))))))"
  have post: "postVault X W V c = vaultAuth X W V c (Some (xDatasM X ds)) K" using body by (simp add: postVault_def K_def)
  obtain s1 where s1: "vaultAuth X W V c (Some (xDatasM X ds)) K s = K ?kid s1" "sameData s s1" "spent nonce s s1" "srvTicks s1 = Suc (srvTicks s)"
    using vaultAuth_ok[OF _ c(2,3) inv kid, of c "Some (xDatasM X ds)" K] c(1) gone by auto
  have f: "fready (srvFire s1)" "fevents (srvFire s1) = fevents (srvFire s)" "fdocs (srvFire s1) = fdocs (srvFire s)"
    using s1(2) by (simp_all add: sameData_def)
  have "int64_ok (int (length (fevents (srvFire s1) ?p) + length ?docs))" using sz(1) f(2) by (simp add: serverBlobs_def)
  then obtain f1 es where f1: "fEventsAdd (enFire V) ?p ?docs (srvFire s1) = (Inr (int (length (fevents (srvFire s1) ?p) + length ?docs)), f1)"
      "fready f1" "fdocs f1 = (fdocs (srvFire s1))(?p := True)" "fevents f1 = (fevents (srvFire s1))(?p := fevents (srvFire s1) ?p @ es)"
      "length es = length ?docs" "\<forall>i < length ?docs. \<forall>x. x \<noteq> ''idx'' \<longrightarrow> (es ! i) x = (?docs ! i) x"
    using add_ok[OF f(1) dp, of ?docs] ds(1) by auto
  obtain x f2 where f2: "fIncrement (enFire V) ?p ''usage'' (int (totalLen ds)) f1 = (Inr x, f2)" "fready f2" "fevents f2 = fevents f1" "fdocs f2 = fdocs f1"
    using increment_ok[OF f1(2) dp, of "int (totalLen ds)"] f1(3) sz(2) by auto
  obtain d f3 where f3: "fGet (enFire V) ?p f2 = (Inr d, f3)" "\<forall>doc. d = Some doc \<longrightarrow> headDoc (doFields doc)"
      "fready f3" "fevents f3 = fevents f2" "fdocs f3 = fdocs f2"
    using get_ok[OF f2(2) dp] by auto
  let ?s' = "s1\<lparr>srvFire := f3\<rparr>"
  have u: "xDatasU X (xDatasM X ds) = Inr ?req" using json by (simp add: json_ok_def)
  have "(case d of None \<Rightarrow> None | Some d \<Rightarrow> wVaultTo W (doFields d)) = None"
    using f3(2) web_okD(5)[OF web] by (auto split: option.splits)
  then have "K ?kid s1 = (Inr (JSON 200 ''{}''), ?s')"
    using f1(1) f2(1) f3(1)
    unfolding K_def Let_def xPath_docs(1)[OF kid] u by (simp add: op_simps dataDocs_some dataTotal_some[OF sz(3)])
  then have run: "postVault X W V c s = (Inr (JSON 200 ''{}''), ?s')" using s1(1) by (simp add: post)
  have ev: "fevents f3 = (fevents (srvFire s))(?p := fevents (srvFire s) ?p @ es)" "fdocs f3 = (fdocs (srvFire s))(?p := True)"
    using f1(3,4) f2(3,4) f3(4,5) f(2,3) by simp_all
  have "map (wEventData W) es = ds" using eventData_list[OF _ ds(2)] f1(5,6) by simp
  then have "kidBlobs ?kid ?s' = kidBlobs ?kid s @ ds" by (simp add: serverBlobs_def ev(1))
  moreover have "srvInv ?s'"
    using inv f3(3) vaultDoc_goneDoc[symmetric] by (simp add: serverInv_def ev)
  moreover have "kidBlobs q ?s' = kidBlobs q s" if "q \<noteq> ?kid" for q
    using that vaultDoc_inj by (simp add: serverBlobs_def ev(1))
  moreover have "kidGone q ?s' = kidGone q s" for q
    using vaultDoc_goneDoc[symmetric, of q ?kid] by (simp add: serverGone_def ev(2))
  moreover have "spent nonce s ?s'" "srvTicks ?s' = Suc (srvTicks s)" using s1(3,4) by (simp_all add: spent_def)
  ultimately show ?thesis using run by blast
qed

lemma postVault_gone:
  assumes c: "signed X W V c b nonce t k" "\<bar>enClock V (srvTicks s) - t\<bar> \<le> minute" "\<not> used (srvRedis s) nonce"
    and inv: "srvInv s" and kid: "plain (xKeyID X k)" and body: "cxBody c = Some b" and gone: "kidGone (xKeyID X k) s"
  shows "\<exists>s'. postVault X W V c s = (Inr (errNotFound W (Some ErrVaultDeleted)), s') \<and> sameData s s' \<and> spent nonce s s' \<and>
    srvTicks s' = Suc (srvTicks s)"
  using vaultAuth_ok[OF _ c(2,3) inv kid, of c "Some b"] c(1) gone body by (auto simp: postVault_def)

section \<open>Deleting\<close>

lemma deleteVault_ok:
  assumes c: "signed X W V c [] nonce t k" "\<bar>enClock V (srvTicks s) - t\<bar> \<le> minute" "\<not> used (srvRedis s) nonce"
    and inv: "srvInv s" and kid: "plain (xKeyID X k)" and gone: "\<not> kidGone (xKeyID X k) s"
  shows "\<exists>s'. deleteVault X W V c s =
      (Inr (if fdocs (srvFire s) (vaultDoc (xKeyID X k)) then JSON 200 ''{}'' else errNotFound W (Some ErrVaultNotFound)), s') \<and>
    srvInv s' \<and> spent nonce s s' \<and> srvTicks s' = Suc (srvTicks s) \<and>
    kidGone (xKeyID X k) s' \<and> kidBlobs (xKeyID X k) s' = [] \<and>
    (\<forall>q. q \<noteq> xKeyID X k \<longrightarrow> kidBlobs q s' = kidBlobs q s \<and> kidGone q s' = kidGone q s)"
proof -
  let ?kid = "xKeyID X k" let ?p = "vaultDoc ?kid" let ?g = "goneDoc ?kid"
  define K :: "string \<Rightarrow> (('f, 'r) server, hresp) op" where "K = (\<lambda>kid. orElse (setVaultDeleted X W V kid) (\<lambda>e. ret (ErrResponse W e)) (\<lambda>_.
     let cpath = xPath X [''vaults'', kid]
     in orElse (onFire (fEventsDelete (enFire V) cpath)) (\<lambda>e. ret (ErrResponse W e)) (\<lambda>exists.
        if \<not> exists then ret (errNotFound W (Some ErrVaultNotFound)) else ret (JSON 200 ''{}''))))"
  have del: "deleteVault X W V c = vaultAuth X W V c None K" by (simp add: deleteVault_def K_def)
  obtain s1 where s1: "vaultAuth X W V c None K s = K ?kid s1" "sameData s s1" "spent nonce s s1" "srvTicks s1 = Suc (srvTicks s)"
    using vaultAuth_ok[OF _ c(2,3) inv kid, of c None K] c(1) gone by auto
  have f: "fready (srvFire s1)" "fevents (srvFire s1) = fevents (srvFire s)" "fdocs (srvFire s1) = fdocs (srvFire s)"
    using s1(2) by (simp_all add: sameData_def)
  have g: "fevents (srvFire s1) ?g = []" using inv kid f(2) by (simp add: serverInv_def)
  obtain f1 where f1: "fSet (enFire V) ?g (wData W (Some [])) (srvFire s1) = (Inr (), f1)" "fready f1"
      "fevents f1 = fevents (srvFire s1)" "fdocs f1 = (fdocs (srvFire s1))(?g := True)"
    using set_ok[OF f(1) docPaths(2)[OF kid] g web_okD(3)[OF web] web_okD(4)[OF web]] by blast
  obtain f2 where f2: "fEventsDelete (enFire V) ?p f1 = (Inr (fdocs f1 ?p), f2)" "fready f2"
      "fdocs f2 = (fdocs f1)(?p := False)" "fevents f2 = (fevents f1)(?p := [])"
    using delete_ok[OF f1(2) docPaths(1)[OF kid]] by blast
  let ?s' = "s1\<lparr>srvFire := f2\<rparr>"
  have ex: "fdocs f1 ?p = fdocs (srvFire s) ?p" using f1(4) f(3) vaultDoc_goneDoc by simp
  have "K ?kid s1 = (Inr (if fdocs (srvFire s) ?p then JSON 200 ''{}'' else errNotFound W (Some ErrVaultNotFound)), ?s')"
    using f1(1) f2(1) unfolding K_def setVaultDeleted_def Let_def xPath_docs[OF kid] ex by (simp add: op_simps)
  then have run: "deleteVault X W V c s = (Inr (if fdocs (srvFire s) ?p then JSON 200 ''{}'' else errNotFound W (Some ErrVaultNotFound)), ?s')"
    using s1(1) by (simp add: del)
  have ev: "fevents f2 = (fevents (srvFire s))(?p := [])" "fdocs f2 = (fdocs (srvFire s))(?g := True, ?p := False)"
    using f1(3,4) f2(3,4) f(2,3) by simp_all
  have "srvInv ?s'"
    using inv f2(2) vaultDoc_goneDoc[symmetric] vaultDoc_goneDoc vaultDoc_inj by (simp add: serverInv_def ev)
  moreover have "kidGone ?kid ?s'" "kidBlobs ?kid ?s' = []"
    using vaultDoc_goneDoc[symmetric] by (simp_all add: serverGone_def serverBlobs_def ev)
  moreover have "kidBlobs q ?s' = kidBlobs q s \<and> kidGone q ?s' = kidGone q s" if "q \<noteq> ?kid" for q
    using that vaultDoc_inj goneDoc_inj vaultDoc_goneDoc[symmetric, of q]
    by (simp add: serverBlobs_def serverGone_def ev)
  moreover have "spent nonce s ?s'" "srvTicks ?s' = Suc (srvTicks s)" using s1(3,4) by (simp_all add: spent_def)
  ultimately show ?thesis using run by blast
qed

end

end
