(* ===== verification/Store.thy ===== *)
theory Store
  imports Deps
begin

text \<open>
  The storage interface of the vault, \<^verbatim>\<open>vault/store.go\<close>: an interface value is the record of
  its methods (\<open>store_ops\<close>) and a state. \<open>deleteAll\<close> and \<open>Collections\<close> are the helpers of
  that file. The locale \<open>store\<close> is the contract: a finite map from paths to bytes, listed in
  path order; the lemmas about its clients are proved in it, and both implementations
  (\<open>Mem\<close>, \<open>LevelDB\<close>) are shown to provide it.
\<close>

section \<open>The interface\<close>

record entry =
  ePath :: string
  eData :: gobytes

record listOpts =
  loPrefix :: string
  loNoData :: bool
  loLimit :: int

definition noOpts :: listOpts where
  "noOpts = \<lparr>loPrefix = [], loNoData = False, loLimit = 0\<rparr>"

definition withPrefix :: "string \<Rightarrow> listOpts" where
  "withPrefix p = noOpts\<lparr>loPrefix := p\<rparr>"

record 's store_ops =
  sName :: string
  sGet :: "string \<Rightarrow> ('s, gobytes) op"
  sSet :: "string \<Rightarrow> gobytes \<Rightarrow> ('s, unit) op"
  sDelete :: "string \<Rightarrow> ('s, bool) op"
  sList :: "listOpts option \<Rightarrow> ('s, entry list) op"
  sOpen :: "('s, unit) op"
  sClose :: "('s, unit) op"
  sReset :: "('s, unit) op"

text \<open>A nil \<^verbatim>\<open>*ListOptions\<close> is replaced by the zero options.\<close>

definition optsOf :: "listOpts option \<Rightarrow> listOpts" where
  "optsOf o' = (case o' of None \<Rightarrow> noOpts | Some x \<Rightarrow> x)"

definition limitTo :: "int \<Rightarrow> 'a list \<Rightarrow> 'a list" where
  "limitTo n xs = (if n > 0 \<and> int (length xs) > n then take (nat n) xs else xs)"

section \<open>Helpers of store.go\<close>

definition deleteAll :: "'s store_ops \<Rightarrow> string list \<Rightarrow> ('s, unit) op" where
  "deleteAll I paths = forEach paths (\<lambda>p. bnd (sDelete I p) (\<lambda>_. ret ()))"

primrec firstCols :: "'z ext_scheme \<Rightarrow> string \<Rightarrow> string list \<Rightarrow> entry list \<Rightarrow> string list" where
  "firstCols X parent cols [] = []"
| "firstCols X parent cols (e # es) =
     (let col = xPath X [xPathFirst X (trimPrefix (ePath e) parent)]
      in if col \<in> set cols then firstCols X parent cols es
         else col # firstCols X parent (col # cols) es)"

definition Collections :: "'z ext_scheme \<Rightarrow> 's store_ops \<Rightarrow> string \<Rightarrow> ('s, string list) op" where
  "Collections X I parent =
     bnd (sList I (Some \<lparr>loPrefix = parent, loNoData = True, loLimit = 0\<rparr>)) (\<lambda>entries.
     ret (firstCols X parent [] entries))"

lemma optsOf_simps [simp]: "optsOf None = noOpts" "optsOf (Some x) = x"
  by (simp_all add: optsOf_def)

lemma opts_simps [simp]:
  "loPrefix noOpts = []" "loNoData noOpts = False" "loLimit noOpts = 0"
  "loPrefix (withPrefix p) = p" "loNoData (withPrefix p) = False" "loLimit (withPrefix p) = 0"
  by (simp_all add: noOpts_def withPrefix_def)

lemma limitTo_zero [simp]: "limitTo 0 xs = xs"
  by (simp add: limitTo_def)

lemma limitTo_one: "limitTo 1 xs = take 1 xs"
  by (auto simp: limitTo_def)

lemma limitTo_map: "limitTo n (map f xs) = map f (limitTo n xs)"
  by (simp add: limitTo_def take_map)

lemma set_limitTo: "x \<in> set (limitTo n xs) \<Longrightarrow> x \<in> set xs"
  by (auto simp: limitTo_def split: if_splits dest: in_set_takeD)

lemma firstCols_set:
  "set (firstCols X parent cols es) =
     (\<lambda>e. xPath X [xPathFirst X (trimPrefix (ePath e) parent)]) ` set es - set cols"
  by (induction es arbitrary: cols) (auto simp: Let_def)

lemma firstCols_distinct: "distinct (firstCols X parent cols es)"
  by (induction es arbitrary: cols) (auto simp: Let_def firstCols_set)

section \<open>The contract\<close>

text \<open>
  \<open>contents s\<close> is the map a ready store holds; an entry stored with nil data counts as
  empty. Reading changes nothing, writing and deleting act on the map, and listing gives
  the entries with a prefix in path order, cut at a positive limit.
\<close>

locale store =
  fixes I :: "'s store_ops"
    and contents :: "'s \<Rightarrow> string \<Rightarrow> string option"
    and ready :: "'s \<Rightarrow> bool"
  assumes contents_finite: "ready s \<Longrightarrow> finite (dom (contents s))"
    and get_ok: "ready s \<Longrightarrow> p \<noteq> [] \<Longrightarrow>
      \<exists>b. sGet I p s = (Inr b, s) \<and> (case contents s p of None \<Rightarrow> b = None | Some c \<Rightarrow> bstr b = c)"
    and set_ok: "ready s \<Longrightarrow> p \<noteq> [] \<Longrightarrow>
      \<exists>s'. sSet I p b s = (Inr (), s') \<and> ready s' \<and> contents s' = (contents s)(p \<mapsto> bstr b)"
    and delete_ok: "ready s \<Longrightarrow> p \<noteq> [] \<Longrightarrow>
      \<exists>s'. sDelete I p s = (Inr (contents s p \<noteq> None), s') \<and> ready s' \<and> contents s' = (contents s)(p := None)"
    and list_ok: "ready s \<Longrightarrow>
      \<exists>es. sList I o' s = (Inr es, s) \<and>
        map ePath es = limitTo (loLimit (optsOf o')) (keysWith (loPrefix (optsOf o')) (contents s)) \<and>
        (\<not> loNoData (optsOf o') \<longrightarrow> (\<forall>e \<in> set es. contents s (ePath e) = Some (bstr (eData e))))"
begin

lemma get_absent: "ready s \<Longrightarrow> p \<noteq> [] \<Longrightarrow> contents s p = None \<Longrightarrow> sGet I p s = (Inr None, s)"
  using get_ok[of s p] by auto

lemma get_present:
  "ready s \<Longrightarrow> p \<noteq> [] \<Longrightarrow> contents s p = Some c \<Longrightarrow> \<exists>b. sGet I p s = (Inr b, s) \<and> bstr b = c"
  using get_ok[of s p] by auto

lemma get_nonempty:
  "ready s \<Longrightarrow> p \<noteq> [] \<Longrightarrow> contents s p = Some c \<Longrightarrow> c \<noteq> [] \<Longrightarrow> sGet I p s = (Inr (Some c), s)"
  using get_present[of s p c] bstr_nonempty by fastforce

lemma set_get:
  assumes "ready s" "p \<noteq> []" "q \<noteq> []" "c \<noteq> []" "sSet I p (Some c) s = (Inr (), s')"
  shows "sGet I q s' = (if q = p then (Inr (Some c), s') else (fst (sGet I q s'), s'))"
proof -
  obtain t where t: "sSet I p (Some c) s = (Inr (), t)" "ready t" "contents t = (contents s)(p \<mapsto> c)"
    using set_ok[OF assms(1,2), of "Some c"] by auto
  with assms(5) have "t = s'" by simp
  with t get_nonempty[of s' p c] get_ok[of s' q] assms(2-4) show ?thesis by auto
qed

text \<open>Deleting a list of paths succeeds and removes exactly those paths.\<close>

lemma deleteAll_ok:
  assumes "ready s" "\<forall>p \<in> set ps. p \<noteq> []"
  shows "\<exists>s'. deleteAll I ps s = (Inr (), s') \<and> ready s' \<and> contents s' = (contents s) |` (- set ps)"
  using assms
proof (induction ps arbitrary: s)
  case Nil
  then show ?case by (simp add: deleteAll_def op_simps restrict_map_def)
next
  case (Cons p ps)
  obtain t where t: "sDelete I p s = (Inr (contents s p \<noteq> None), t)" "ready t"
      "contents t = (contents s)(p := None)"
    using delete_ok[of s p] Cons.prems by auto
  obtain s' where s': "deleteAll I ps t = (Inr (), s')" "ready s'"
      "contents s' = contents t |` (- set ps)"
    using Cons.IH[OF t(2)] Cons.prems by auto
  have "contents s' = contents s |` (- set (p # ps))"
    using s'(3) t(3) by (auto simp: restrict_map_def fun_eq_iff)
  moreover have "deleteAll I (p # ps) s = (Inr (), s')"
    using t(1) s'(1) by (simp add: deleteAll_def op_simps)
  ultimately show ?case using s'(2) by auto
qed

text \<open>Listing a prefix with data gives exactly the entries of the map under it.\<close>

lemma list_prefix:
  assumes "ready s"
  shows "\<exists>es. sList I (Some (withPrefix pre)) s = (Inr es, s) \<and>
    map ePath es = keysWith pre (contents s) \<and>
    (\<forall>e \<in> set es. contents s (ePath e) = Some (bstr (eData e)))"
  using list_ok[OF assms, of "Some (withPrefix pre)"] by simp

text \<open>Listing with the given options succeeds, whatever the options.\<close>

lemma list_succeeds: "ready s \<Longrightarrow> \<exists>es. sList I o' s = (Inr es, s)"
  using list_ok[of s o'] by blast

lemma Collections_ok:
  assumes "ready s"
  shows "\<exists>cs. Collections X I parent s = (Inr cs, s) \<and> distinct cs \<and>
    set cs = (\<lambda>p. xPath X [xPathFirst X (trimPrefix p parent)]) ` {p \<in> dom (contents s). prefix parent p}"
proof -
  obtain es where es: "sList I (Some \<lparr>loPrefix = parent, loNoData = True, loLimit = 0\<rparr>) s = (Inr es, s)"
      "map ePath es = keysWith parent (contents s)"
    using list_ok[OF assms, of "Some \<lparr>loPrefix = parent, loNoData = True, loLimit = 0\<rparr>"] by auto
  have keys: "ePath ` set es = {p \<in> dom (contents s). prefix parent p}"
    using arg_cong[OF es(2), of set] contents_finite[OF assms] by simp
  have "set (firstCols X parent [] es) =
      (\<lambda>p. xPath X [xPathFirst X (trimPrefix p parent)]) ` (ePath ` set es)"
    by (simp add: firstCols_set image_image)
  then have "set (firstCols X parent [] es) =
      (\<lambda>p. xPath X [xPathFirst X (trimPrefix p parent)]) ` {p \<in> dom (contents s). prefix parent p}"
    by (simp only: keys)
  then show ?thesis
    using es(1) firstCols_distinct[of X parent "[]" es]
    by (simp add: Collections_def op_simps)
qed

end

end
