(* ===== verification/Mem.thy ===== *)
theory Mem
  imports Store
begin

text \<open>
  The in-memory store, \<^verbatim>\<open>vault/mem.go\<close>. The Go map of entries is an association list with
  distinct keys; its random iteration order is invisible because \<open>List\<close> sorts by path. Nil
  data is kept as nil. The file's methods are translated one by one, packed into the
  interface record \<open>memOps\<close>, and shown to provide the contract \<open>store\<close> while open.
\<close>

record mem =
  mOpen :: bool
  mEntries :: "(string \<times> gobytes) list"

definition NewMem :: mem where
  "NewMem = \<lparr>mOpen = False, mEntries = []\<rparr>"

definition memOpen :: "(mem, unit) op" where
  "memOpen = bnd (gets mOpen) (\<lambda>o'.
     bnd (failIf o' ErrAlreadyOpen) (\<lambda>_.
     modify (\<lambda>m. m\<lparr>mOpen := True\<rparr>)))"

definition memClose :: "(mem, unit) op" where
  "memClose = modify (\<lambda>m. m\<lparr>mOpen := False\<rparr>)"

definition memReset :: "(mem, unit) op" where
  "memReset = modify (\<lambda>m. m\<lparr>mEntries := []\<rparr>)"

text \<open>The two guards every access starts with.\<close>

definition memCheck :: "string \<Rightarrow> (mem, unit) op" where
  "memCheck path = bnd (gets mOpen) (\<lambda>o'.
     bnd (failIf (\<not> o') ErrNotOpen) (\<lambda>_.
     failIf (path = []) (Err ''invalid path'')))"

definition memGet :: "string \<Rightarrow> (mem, gobytes) op" where
  "memGet path = bnd (memCheck path) (\<lambda>_.
     gets (\<lambda>m. case map_of (mEntries m) path of Some b \<Rightarrow> b | None \<Rightarrow> None))"

definition memSet :: "string \<Rightarrow> gobytes \<Rightarrow> (mem, unit) op" where
  "memSet path b = bnd (memCheck path) (\<lambda>_.
     modify (\<lambda>m. m\<lparr>mEntries := AList.update path b (mEntries m)\<rparr>))"

definition memExists :: "string \<Rightarrow> (mem, bool) op" where
  "memExists path = bnd (memCheck path) (\<lambda>_.
     gets (\<lambda>m. map_of (mEntries m) path \<noteq> None))"

definition memDelete :: "string \<Rightarrow> (mem, bool) op" where
  "memDelete path = bnd (memCheck path) (\<lambda>_.
     bnd (gets (\<lambda>m. map_of (mEntries m) path \<noteq> None)) (\<lambda>ok.
     if ok then bnd (modify (\<lambda>m. m\<lparr>mEntries := AList.delete path (mEntries m)\<rparr>)) (\<lambda>_. ret True)
     else ret False))"

definition memList :: "listOpts option \<Rightarrow> (mem, entry list) op" where
  "memList o' = bnd (gets mOpen) (\<lambda>op.
     bnd (failIf (\<not> op) ErrNotOpen) (\<lambda>_.
     gets (\<lambda>m.
       let opts = optsOf o';
           out = map (\<lambda>(p, b). \<lparr>ePath = p, eData = b\<rparr>) (filter (\<lambda>(p, b). prefix (loPrefix opts) p) (mEntries m));
           sorted = sort_key ePath out
       in limitTo (loLimit opts) sorted)))"

definition memOps :: "mem store_ops" where
  "memOps = \<lparr>sName = ''mem'', sGet = memGet, sSet = memSet, sDelete = memDelete, sList = memList,
     sOpen = memOpen, sClose = memClose, sReset = memReset\<rparr>"

lemma memOps_simps [simp]:
  "sName memOps = ''mem''" "sGet memOps = memGet" "sSet memOps = memSet" "sDelete memOps = memDelete"
  "sList memOps = memList" "sOpen memOps = memOpen" "sClose memOps = memClose" "sReset memOps = memReset"
  by (simp_all add: memOps_def)

section \<open>The contract\<close>

definition memContents :: "mem \<Rightarrow> string \<Rightarrow> string option" where
  "memContents m = map_option bstr \<circ> map_of (mEntries m)"

definition memReady :: "mem \<Rightarrow> bool" where
  "memReady m \<longleftrightarrow> mOpen m \<and> distinct (map fst (mEntries m))"

lemma memCheck_run: "mOpen m \<Longrightarrow> path \<noteq> [] \<Longrightarrow> memCheck path m = (Inr (), m)"
  by (simp add: memCheck_def op_simps)

lemma dom_memContents: "dom (memContents m) = fst ` set (mEntries m)"
  by (simp add: memContents_def dom_map_option_comp dom_map_of_conv_image_fst)

lemma memContents_update:
  "memContents (m\<lparr>mEntries := AList.update p b (mEntries m)\<rparr>) = (memContents m)(p \<mapsto> bstr b)"
  by (auto simp: memContents_def update_conv' fun_eq_iff)

lemma memContents_delete:
  "memContents (m\<lparr>mEntries := AList.delete p (mEntries m)\<rparr>) = (memContents m)(p := None)"
  by (auto simp: memContents_def delete_conv' fun_eq_iff)

lemma memContents_absent: "memContents m p = None \<Longrightarrow> (memContents m)(p := None) = memContents m"
  by (rule fun_upd_idem)

lemma memContents_present: "map_of (mEntries m) p = None \<longleftrightarrow> memContents m p = None"
  by (simp add: memContents_def)

lemma memList_run:
  assumes "memReady m"
  shows "\<exists>es. memList o' m = (Inr es, m) \<and>
    map ePath es = limitTo (loLimit (optsOf o')) (keysWith (loPrefix (optsOf o')) (memContents m)) \<and>
    (\<forall>e \<in> set es. map_of (mEntries m) (ePath e) = Some (eData e))"
proof -
  define flt where "flt = filter (\<lambda>(p, b). prefix (loPrefix (optsOf o')) p) (mEntries m)"
  define out where "out = map (\<lambda>(p, b). \<lparr>ePath = p, eData = b\<rparr>) flt"
  define srt where "srt = sort_key ePath out"
  have dist: "distinct (map fst flt)"
    using assms by (simp add: memReady_def flt_def distinct_map_filter)
  have paths: "map ePath out = map fst flt"
    by (auto simp: out_def)
  have keys: "map ePath srt = keysWith (loPrefix (optsOf o')) (memContents m)"
  proof (rule sorted_distinct_unique)
    show "sorted (map ePath srt)" by (simp add: srt_def)
    have "mset (map ePath srt) = image_mset ePath (mset out)" by (simp add: srt_def)
    then have "mset (map ePath srt) = mset (map ePath out)" by simp
    then show "distinct (map ePath srt)" using dist paths mset_eq_imp_distinct_iff by metis
    have "set (map ePath srt) = fst ` set flt" using arg_cong[OF paths, of set] by (simp add: srt_def)
    then show "set (map ePath srt) = set (keysWith (loPrefix (optsOf o')) (memContents m))"
      by (force simp: dom_memContents flt_def)
  qed simp_all
  have data: "map_of (mEntries m) (ePath e) = Some (eData e)" if "e \<in> set srt" for e
  proof -
    from that have "(ePath e, eData e) \<in> set (mEntries m)"
      by (auto simp: srt_def out_def flt_def)
    then show ?thesis using assms by (simp add: memReady_def)
  qed
  have "memList o' m = (Inr (limitTo (loLimit (optsOf o')) srt), m)"
    using assms by (simp add: memList_def op_simps memReady_def srt_def out_def flt_def Let_def)
  then show ?thesis
    using keys data by (auto simp: limitTo_map[symmetric] dest: set_limitTo)
qed

interpretation memStore: store memOps memContents memReady
proof
  fix s :: mem assume r: "memReady s"
  then show "finite (dom (memContents s))" by (simp add: dom_memContents)
  fix p :: string assume p: "p \<noteq> []"
  from r p show "\<exists>b. sGet memOps p s = (Inr b, s) \<and>
      (case memContents s p of None \<Rightarrow> b = None | Some c \<Rightarrow> bstr b = c)"
    by (auto simp: memGet_def op_simps memCheck_run memReady_def memContents_def split: option.splits)
  show "\<exists>s'. sSet memOps p b s = (Inr (), s') \<and> memReady s' \<and> memContents s' = (memContents s)(p \<mapsto> bstr b)" for b
    using r p by (simp add: memSet_def op_simps memCheck_run memReady_def memContents_update distinct_update)
  show "\<exists>s'. sDelete memOps p s = (Inr (memContents s p \<noteq> None), s') \<and> memReady s' \<and>
      memContents s' = (memContents s)(p := None)"
    using r p
    by (cases "memContents s p")
      (simp_all add: memDelete_def op_simps memCheck_run memReady_def memContents_delete distinct_delete
        memContents_absent memContents_present)
next
  fix s :: mem and o' assume "memReady s"
  from memList_run[OF this, of o'] show "\<exists>es. sList memOps o' s = (Inr es, s) \<and>
        map ePath es = limitTo (loLimit (optsOf o')) (keysWith (loPrefix (optsOf o')) (memContents s)) \<and>
        (\<not> loNoData (optsOf o') \<longrightarrow> (\<forall>e \<in> set es. memContents s (ePath e) = Some (bstr (eData e))))"
    by (auto simp: memContents_def)
qed

section \<open>Lifecycle\<close>

lemma mem_closed_errors:
  assumes "\<not> mOpen m"
  shows "memGet p m = (Inl ErrNotOpen, m)" "memSet p b m = (Inl ErrNotOpen, m)"
    "memDelete p m = (Inl ErrNotOpen, m)" "memExists p m = (Inl ErrNotOpen, m)"
    "memList o' m = (Inl ErrNotOpen, m)"
  using assms
  by (simp_all add: memGet_def memSet_def memDelete_def memExists_def memList_def memCheck_def op_simps)

lemma mem_opened_ready: "memOpen NewMem = (Inr (), m) \<Longrightarrow> memReady m \<and> memContents m = Map.empty"
  by (auto simp: memOpen_def NewMem_def op_simps memReady_def memContents_def)

end
