(* ===== verification/VaultState.thy ===== *)
theory VaultState
  imports Mem
begin

text \<open>
  The \<^verbatim>\<open>Vault\<close> struct of \<^verbatim>\<open>vault/vault.go\<close> with what its methods act on: the store behind the
  \<^verbatim>\<open>Store\<close> interface, the network behind its client, the random draws and the clock readings
  made so far. Items, \<^verbatim>\<open>vault/item.go\<close>, and their encryption, \<^verbatim>\<open>vault/secretbox.go\<close>.
  The vault's mutexes are not part of the state: each method is modelled as one atomic step.
\<close>

section \<open>State\<close>

record ('s, 'n) vault =
  vStore :: 's
  vHasClient :: bool
  vNet :: 'n
  vMk :: "string option"
  vRemote :: "remote option"
  vAuto :: bool
  vCheckedAt :: gotime
  vDraws :: nat
  vTicks :: nat

definition vaultNew :: "'s \<Rightarrow> 'n \<Rightarrow> ('s, 'n) vault" where
  "vaultNew st net = \<lparr>vStore = st, vHasClient = False, vNet = net, vMk = None, vRemote = None,
     vAuto = False, vCheckedAt = 0, vDraws = 0, vTicks = 0\<rparr>"

definition SetClient :: "bool \<Rightarrow> (('s, 'n) vault, unit) op" where
  "SetClient c = modify (\<lambda>v. v\<lparr>vHasClient := c\<rparr>)"

definition MasterKey :: "('s, 'n) vault \<Rightarrow> string option" where
  "MasterKey v = vMk v"

definition Remote :: "('s, 'n) vault \<Rightarrow> remote option" where
  "Remote v = vRemote v"

definition onStore :: "('s, 'a) op \<Rightarrow> (('s, 'n) vault, 'a) op" where
  "onStore m = zoom vStore (\<lambda>s v. v\<lparr>vStore := s\<rparr>) m"

text \<open>\<^verbatim>\<open>keys.RandBytes\<close>, \<^verbatim>\<open>v.clock.Now\<close>, \<^verbatim>\<open>time.Now\<close>.\<close>

definition randBytes :: "'z ext_scheme \<Rightarrow> nat \<Rightarrow> (('s, 'n) vault, string) op" where
  "randBytes X n = (\<lambda>v. (Inr (xRand X (vDraws v) n), v\<lparr>vDraws := Suc (vDraws v)\<rparr>))"

definition clockNow :: "'z ext_scheme \<Rightarrow> (('s, 'n) vault, gotime) op" where
  "clockNow X = (\<lambda>v. (Inr (xClock X (vTicks v)), v\<lparr>vTicks := Suc (vTicks v)\<rparr>))"

definition timeNow :: "'z ext_scheme \<Rightarrow> (('s, 'n) vault, gotime) op" where
  "timeNow X = (\<lambda>v. (Inr (xNow X (vTicks v)), v\<lparr>vTicks := Suc (vTicks v)\<rparr>))"

lemma vStore_update_inject [simp]: "v\<lparr>vStore := a\<rparr> = v\<lparr>vStore := b\<rparr> \<longleftrightarrow> a = b"
  by (cases v) simp

lemma onStore_run [op_simps]: "m (vStore v) = (r, s) \<Longrightarrow> onStore m v = (r, v\<lparr>vStore := s\<rparr>)"
  by (simp add: onStore_def op_simps)

lemma bnd_env_simps [op_simps]:
  "bnd (randBytes X n) f v = f (xRand X (vDraws v) n) (v\<lparr>vDraws := Suc (vDraws v)\<rparr>)"
  "bnd (clockNow X) g v = g (xClock X (vTicks v)) (v\<lparr>vTicks := Suc (vTicks v)\<rparr>)"
  "bnd (timeNow X) h v = h (xNow X (vTicks v)) (v\<lparr>vTicks := Suc (vTicks v)\<rparr>)"
  by (simp_all add: bnd_def randBytes_def clockNow_def timeNow_def)

section \<open>secretbox.go\<close>

definition secretBoxSealWithNonce :: "'z ext_scheme \<Rightarrow> string \<Rightarrow> string \<Rightarrow> string \<Rightarrow> string" where
  "secretBoxSealWithNonce X b nonce key = nonce @ xSeal X b nonce key"

definition secretBoxSeal :: "'z ext_scheme \<Rightarrow> string \<Rightarrow> string \<Rightarrow> (('s, 'n) vault, string) op" where
  "secretBoxSeal X b key = bnd (randBytes X 24) (\<lambda>nonce. ret (secretBoxSealWithNonce X b nonce key))"

definition secretBoxOpen :: "'z ext_scheme \<Rightarrow> string \<Rightarrow> string option \<Rightarrow> string option" where
  "secretBoxOpen X encrypted secretKey =
     (case secretKey of None \<Rightarrow> None
      | Some k \<Rightarrow> if length encrypted < 24 then None
                  else xOpen X (drop 24 encrypted) (take 24 encrypted) k)"

lemma secretBox_roundtrip:
  assumes "secretbox_ok X" "length nonce = 24" "length k = 32"
  shows "secretBoxOpen X (secretBoxSealWithNonce X b nonce k) (Some k) = Some b"
  using assms by (simp add: secretBoxOpen_def secretBoxSealWithNonce_def secretbox_ok_def)

lemma secretBox_wrong_key:
  assumes "secretbox_auth X" "length nonce = 24" "length k = 32" "length k' = 32" "k' \<noteq> k"
  shows "secretBoxOpen X (secretBoxSealWithNonce X b nonce k) (Some k') = None"
  using assms unfolding secretbox_auth_def
  by (auto simp: secretBoxOpen_def secretBoxSealWithNonce_def)

section \<open>item.go\<close>

definition NewItem :: "string \<Rightarrow> gobytes \<Rightarrow> string \<Rightarrow> gotime \<Rightarrow> item" where
  "NewItem i b typ ts = \<lparr>iID = i, iData = b, iType = typ, iTime = ts\<rparr>"

definition encryptItem :: "'z ext_scheme \<Rightarrow> item \<Rightarrow> string option \<Rightarrow> (('s, 'n) vault, gobytes) op" where
  "encryptItem X item mk =
     (case mk of None \<Rightarrow> fail ErrLocked
      | Some k \<Rightarrow>
          bnd (failIf (iID item = []) (Err ''invalid id'')) (\<lambda>_.
          bnd (failIf (glen (iData item) > 32 * 1024) ErrItemValueTooLarge) (\<lambda>_.
          bnd (lift (xItemM X item)) (\<lambda>b.
          bnd (secretBoxSeal X b k) (\<lambda>out.
          ret (Some out))))))"

definition decryptItem :: "'z ext_scheme \<Rightarrow> gobytes \<Rightarrow> string option \<Rightarrow> string \<Rightarrow> err + item" where
  "decryptItem X b mk ad =
     (case mk of None \<Rightarrow> Inl ErrLocked
      | Some k \<Rightarrow>
          (case b of None \<Rightarrow> Inl (Err ''nothing to decrypt'')
           | Some enc \<Rightarrow>
               (case secretBoxOpen X enc (Some k) of None \<Rightarrow> Inl ErrInvalidAuth
                | Some decrypted \<Rightarrow>
                    (case xItemU X decrypted of Inl e \<Rightarrow> Inl e
                     | Inr item \<Rightarrow>
                         if ad \<noteq> [] \<and> iID item \<noteq> ad then Inl (Err ''invalid associated data'')
                         else Inr item))))"

text \<open>The two item limits the code enforces.\<close>

definition itemOk :: "item \<Rightarrow> bool" where
  "itemOk item \<longleftrightarrow> iID item \<noteq> [] \<and> glen (iData item) \<le> 32 * 1024"

text \<open>An encrypted item: sealed under the key, and it decodes to the item.\<close>

definition encOf :: "'z ext_scheme \<Rightarrow> string \<Rightarrow> item \<Rightarrow> string \<Rightarrow> bool" where
  "encOf X k item enc \<longleftrightarrow>
     (\<exists>b nonce i'. enc = secretBoxSealWithNonce X b nonce k \<and> length nonce = 24 \<and>
        xItemM X item = Inr b \<and> xItemU X b = Inr i' \<and> sameItem i' item)"

lemma encryptItem_run:
  assumes "msgpack_ok X" "rand_ok X" "itemOk item"
  shows "\<exists>enc. encryptItem X item (Some k) v = (Inr (Some enc), v\<lparr>vDraws := Suc (vDraws v)\<rparr>) \<and>
    encOf X k item enc"
proof -
  obtain b i' where b: "xItemM X item = Inr b" "xItemU X b = Inr i'" "sameItem i' item"
    using msgpack_item[OF assms(1)] by blast
  have "length (xRand X (vDraws v) 24) = 24" using assms(2) by (simp add: rand_ok_def)
  with b have "encOf X k item (secretBoxSealWithNonce X b (xRand X (vDraws v) 24) k)"
    unfolding encOf_def by blast
  moreover have "encryptItem X item (Some k) v =
      (Inr (Some (secretBoxSealWithNonce X b (xRand X (vDraws v) 24) k)), v\<lparr>vDraws := Suc (vDraws v)\<rparr>)"
    using assms(3) b(1) by (simp add: encryptItem_def secretBoxSeal_def itemOk_def op_simps)
  ultimately show ?thesis by blast
qed

lemma encryptItem_errors:
  "encryptItem X item None v = (Inl ErrLocked, v)"
  "iID item = [] \<Longrightarrow> encryptItem X item (Some k) v = (Inl (Err ''invalid id''), v)"
  "iID item \<noteq> [] \<Longrightarrow> glen (iData item) > 32 * 1024 \<Longrightarrow>
     encryptItem X item (Some k) v = (Inl ErrItemValueTooLarge, v)"
  by (simp_all add: encryptItem_def op_simps)

lemma decryptItem_encOf:
  assumes "secretbox_ok X" "length k = 32" "encOf X k item enc" "ad = [] \<or> ad = iID item"
  shows "\<exists>i'. decryptItem X (Some enc) (Some k) ad = Inr i' \<and> sameItem i' item"
  using assms by (auto simp: encOf_def decryptItem_def secretBox_roundtrip sameItem_def)

lemma decryptItem_wrong_key:
  assumes "secretbox_auth X" "length k = 32" "length k' = 32" "k' \<noteq> k" "encOf X k item enc"
  shows "decryptItem X (Some enc) (Some k') ad = Inl ErrInvalidAuth"
  using assms by (auto simp: encOf_def decryptItem_def secretBox_wrong_key)

lemma decryptItem_ad:
  assumes "secretbox_ok X" "length k = 32" "encOf X k item enc" "ad \<noteq> []" "ad \<noteq> iID item"
  shows "decryptItem X (Some enc) (Some k) ad = Inl (Err ''invalid associated data'')"
  using assms by (auto simp: encOf_def decryptItem_def secretBox_roundtrip sameItem_def)

lemma encOf_nonempty: "encOf X k item enc \<Longrightarrow> enc \<noteq> []"
  by (auto simp: encOf_def secretBoxSealWithNonce_def)

text \<open>
  The configuration values the vault keeps in its store, \<^verbatim>\<open>vault/cfg.go\<close>, and the accessors
  \<^verbatim>\<open>vault/sync.go\<close> builds on them (pull and push index, last sync, remote salt). An integer is
  stored in decimal, zero by removing the key. The lemmas give the functional behaviour on a
  ready store and the round trips.
\<close>

section \<open>cfg.go\<close>

definition setValue :: "'z ext_scheme \<Rightarrow> 's store_ops \<Rightarrow> string \<Rightarrow> gobytes \<Rightarrow> (('s, 'n) vault, unit) op" where
  "setValue X I key value =
     (let path = xPath X [key]
      in case value of
           None \<Rightarrow> bnd (onStore (sDelete I path)) (\<lambda>_. ret ())
         | Some _ \<Rightarrow> onStore (sSet I path value))"

definition setInt64 :: "'z ext_scheme \<Rightarrow> 's store_ops \<Rightarrow> string \<Rightarrow> int \<Rightarrow> (('s, 'n) vault, unit) op" where
  "setInt64 X I key n =
     (if n = 0 then setValue X I key None else setValue X I key (Some (formatInt n)))"

definition setBool :: "'z ext_scheme \<Rightarrow> 's store_ops \<Rightarrow> string \<Rightarrow> bool \<Rightarrow> (('s, 'n) vault, unit) op" where
  "setBool X I key b = setValue X I key (Some (if b then ''1'' else ''0''))"

definition setTime :: "'z ext_scheme \<Rightarrow> 's store_ops \<Rightarrow> string \<Rightarrow> gotime \<Rightarrow> (('s, 'n) vault, unit) op" where
  "setTime X I key t = setInt64 X I key (xMillis X t)"

definition getValue :: "'s store_ops \<Rightarrow> string \<Rightarrow> (('s, 'n) vault, gobytes) op" where
  "getValue I key = onStore (sGet I key)"

definition getInt64 :: "'s store_ops \<Rightarrow> string \<Rightarrow> (('s, 'n) vault, int) op" where
  "getInt64 I key = bnd (getValue I key) (\<lambda>b.
     if bstr b = [] then ret 0 else lift (parseInt (bstr b)))"

definition getTime :: "'z ext_scheme \<Rightarrow> 's store_ops \<Rightarrow> string \<Rightarrow> (('s, 'n) vault, gotime) op" where
  "getTime X I key = bnd (getInt64 I key) (\<lambda>n. if n = 0 then ret 0 else ret (xParseMillis X n))"

definition getBool :: "'s store_ops \<Rightarrow> string \<Rightarrow> (('s, 'n) vault, bool) op" where
  "getBool I key = bnd (getValue I key) (\<lambda>b. ret (bstr b = ''1''))"

definition pad :: "int \<Rightarrow> err + string" where
  "pad n = (if n > 999999999999999 then Inl (Panic ''int too large for padding'') else Inr (zeroPad 15 n))"

section \<open>Accessors of sync.go\<close>

definition pullIndex :: "'s store_ops \<Rightarrow> (('s, 'n) vault, int) op" where
  "pullIndex I = getInt64 I ''/sync/pull''"

definition setPullIndex :: "'z ext_scheme \<Rightarrow> 's store_ops \<Rightarrow> int \<Rightarrow> (('s, 'n) vault, unit) op" where
  "setPullIndex X I n = setInt64 X I ''/sync/pull'' n"

definition pushIndex :: "'s store_ops \<Rightarrow> (('s, 'n) vault, int) op" where
  "pushIndex I = getInt64 I ''/sync/push''"

definition setPushIndex :: "'z ext_scheme \<Rightarrow> 's store_ops \<Rightarrow> int \<Rightarrow> (('s, 'n) vault, unit) op" where
  "setPushIndex X I n = setInt64 X I ''/sync/push'' n"

definition pushIndexNext :: "'z ext_scheme \<Rightarrow> 's store_ops \<Rightarrow> (('s, 'n) vault, int) op" where
  "pushIndexNext X I = bnd (pushIndex I) (\<lambda>n.
     let n' = i64 (n + 1)
     in bnd (setPushIndex X I n') (\<lambda>_. ret n'))"

definition autoSyncDisabled :: "'s store_ops \<Rightarrow> (('s, 'n) vault, bool) op" where
  "autoSyncDisabled I = getBool I ''/sync/autoDisabled''"

definition lastSync :: "'z ext_scheme \<Rightarrow> 's store_ops \<Rightarrow> (('s, 'n) vault, gotime) op" where
  "lastSync X I = getTime X I ''/sync/lastSync''"

definition setLastSync :: "'z ext_scheme \<Rightarrow> 's store_ops \<Rightarrow> gotime \<Rightarrow> (('s, 'n) vault, unit) op" where
  "setLastSync X I tm = setTime X I ''/sync/lastSync'' tm"

definition setRemoteSalt :: "'z ext_scheme \<Rightarrow> 's store_ops \<Rightarrow> gobytes \<Rightarrow> (('s, 'n) vault, unit) op" where
  "setRemoteSalt X I b = setValue X I ''/sync/rsalt'' b"

definition getRemoteSalt :: "'z ext_scheme \<Rightarrow> 's store_ops \<Rightarrow> bool \<Rightarrow> (('s, 'n) vault, gobytes) op" where
  "getRemoteSalt X I init = bnd (getValue I ''/sync/rsalt'') (\<lambda>salt.
     if salt = None \<and> init
     then bnd (randBytes X 32) (\<lambda>r. bnd (setRemoteSalt X I (Some r)) (\<lambda>_. ret (Some r)))
     else ret salt)"

section \<open>Reading the configuration off the contents\<close>

text \<open>The integer stored under a key, \<open>None\<close> when the stored bytes do not parse.\<close>

definition intOf :: "(string \<rightharpoonup> string) \<Rightarrow> string \<Rightarrow> int option" where
  "intOf m key = (case m key of None \<Rightarrow> Some 0
     | Some s \<Rightarrow> if s = [] then Some 0 else (case parseInt s of Inr n \<Rightarrow> Some n | Inl _ \<Rightarrow> None))"

definition putInt :: "string \<Rightarrow> int \<Rightarrow> (string \<rightharpoonup> string) \<Rightarrow> (string \<rightharpoonup> string)" where
  "putInt key n m = m(key := if n = 0 then None else Some (formatInt n))"

lemma intOf_putInt [simp]: "int64_ok n \<Longrightarrow> intOf (putInt key n m) key = Some n"
  by (simp add: intOf_def putInt_def)

lemma intOf_other [simp]: "key' \<noteq> key \<Longrightarrow> intOf (m(key := x)) key' = intOf m key'"
  by (simp add: intOf_def)

lemma intOf_putInt_other [simp]: "key' \<noteq> key \<Longrightarrow> intOf (putInt key n m) key' = intOf m key'"
  by (simp add: putInt_def)

lemma putInt_other [simp]: "p \<noteq> key \<Longrightarrow> putInt key n m p = m p"
  by (simp add: putInt_def)

lemma plain_sync [simp]:
  "plain ''sync''" "plain ''pull''" "plain ''push''" "plain ''lastSync''" "plain ''autoDisabled''"
  "plain ''rsalt''" "plain ''item''" "plain ''auth''" "plain ''provision''" "plain ''config''" "plain ''salt''"
  by (simp_all add: plain_def)

text \<open>The paths of the configuration values.\<close>

lemma sync_paths:
  "''/sync/pull'' = canon [''sync'', ''pull'']" "''/sync/push'' = canon [''sync'', ''push'']"
  "''/sync/lastSync'' = canon [''sync'', ''lastSync'']" "''/sync/rsalt'' = canon [''sync'', ''rsalt'']"
  by simp_all

lemma xPath_sync:
  assumes "dstore_ok X"
  shows "xPath X [''/sync/pull''] = ''/sync/pull''" "xPath X [''/sync/push''] = ''/sync/push''"
    "xPath X [''/sync/lastSync''] = ''/sync/lastSync''" "xPath X [''/sync/rsalt''] = ''/sync/rsalt''"
  using xPath_canon[OF assms, of "[''sync'', ''pull'']"] xPath_canon[OF assms, of "[''sync'', ''push'']"]
    xPath_canon[OF assms, of "[''sync'', ''lastSync'']"] xPath_canon[OF assms, of "[''sync'', ''rsalt'']"]
  by simp_all

section \<open>pad\<close>

abbreviation maxIndex :: int where
  "maxIndex \<equiv> 999999999999999"

lemma pad_ok: "n \<le> maxIndex \<Longrightarrow> pad n = Inr (zeroPad 15 n)"
  by (simp add: pad_def)

lemma zeroPad_plain:
  assumes "0 \<le> n" "n \<le> maxIndex"
  shows "plain (zeroPad 15 n)"
proof (rule plainI)
  show "zeroPad 15 n \<noteq> []" using zeroPad_length[of n 15] assms by auto
  show "CHR ''/'' \<notin> set (zeroPad 15 n)"
    using zeroPad_digits[OF assms(1), of "CHR ''/''" 15] by (auto simp: isDigit_def)
qed

section \<open>On a ready store\<close>

context store
begin

lemma setValue_ok:
  assumes "ready (vStore v)" "xPath X [key] = key" "key \<noteq> []"
  shows "\<exists>s'. setValue X I key b v = (Inr (), v\<lparr>vStore := s'\<rparr>) \<and> ready s' \<and>
    contents s' = (contents (vStore v))(key := map_option (\<lambda>_. bstr b) b)"
proof (cases b)
  case None
  obtain s' where "sDelete I key (vStore v) = (Inr (contents (vStore v) key \<noteq> None), s')"
      "ready s'" "contents s' = (contents (vStore v))(key := None)"
    using delete_ok[OF assms(1,3)] by blast
  with None assms(2) show ?thesis by (simp add: setValue_def Let_def op_simps)
next
  case (Some c)
  obtain s' where "sSet I key (Some c) (vStore v) = (Inr (), s')"
      "ready s'" "contents s' = (contents (vStore v))(key \<mapsto> c)"
    using set_ok[OF assms(1,3), of "Some c"] by auto
  with Some assms(2) show ?thesis by (simp add: setValue_def Let_def op_simps)
qed

lemma setInt64_ok:
  assumes "ready (vStore v)" "xPath X [key] = key" "key \<noteq> []"
  shows "\<exists>s'. setInt64 X I key n v = (Inr (), v\<lparr>vStore := s'\<rparr>) \<and> ready s' \<and>
    contents s' = putInt key n (contents (vStore v))"
  using setValue_ok[OF assms, of None] setValue_ok[OF assms, of "Some (formatInt n)"]
  by (auto simp: setInt64_def putInt_def)

lemma getValue_ok:
  assumes "ready (vStore v)" "key \<noteq> []"
  shows "\<exists>b. getValue I key v = (Inr b, v) \<and>
    (case contents (vStore v) key of None \<Rightarrow> b = None | Some c \<Rightarrow> bstr b = c)"
  using get_ok[OF assms] by (auto simp: getValue_def op_simps)

lemma getInt64_ok:
  assumes "ready (vStore v)" "key \<noteq> []" "intOf (contents (vStore v)) key = Some n"
  shows "getInt64 I key v = (Inr n, v)"
proof -
  obtain b where b: "getValue I key v = (Inr b, v)"
    "case contents (vStore v) key of None \<Rightarrow> b = None | Some c \<Rightarrow> bstr b = c"
    using getValue_ok[OF assms(1,2)] by blast
  with assms(3) show ?thesis
    by (auto simp: getInt64_def op_simps intOf_def split: option.splits if_splits sum.splits)
qed

lemma getInt64_bad:
  assumes "ready (vStore v)" "key \<noteq> []" "intOf (contents (vStore v)) key = None"
  shows "\<exists>e. getInt64 I key v = (Inl e, v)"
proof -
  obtain b where b: "getValue I key v = (Inr b, v)"
    "case contents (vStore v) key of None \<Rightarrow> b = None | Some c \<Rightarrow> bstr b = c"
    using getValue_ok[OF assms(1,2)] by blast
  with assms(3) show ?thesis
    by (auto simp: getInt64_def op_simps intOf_def split: option.splits if_splits sum.splits)
qed

lemma getTime_ok:
  assumes "ready (vStore v)" "key \<noteq> []" "intOf (contents (vStore v)) key = Some n"
  shows "getTime X I key v = (Inr (if n = 0 then 0 else xParseMillis X n), v)"
  using getInt64_ok[OF assms] by (simp add: getTime_def op_simps)

lemmas pullIndex_ok = getInt64_ok[where key = "''/sync/pull''", folded pullIndex_def, simplified]
lemmas pushIndex_ok = getInt64_ok[where key = "''/sync/push''", folded pushIndex_def, simplified]

lemma setPullIndex_ok:
  assumes "dstore_ok X" "ready (vStore v)"
  shows "\<exists>s'. setPullIndex X I n v = (Inr (), v\<lparr>vStore := s'\<rparr>) \<and> ready s' \<and>
    contents s' = putInt ''/sync/pull'' n (contents (vStore v))"
  using setInt64_ok[OF assms(2) xPath_sync(1)[OF assms(1)]] by (simp add: setPullIndex_def)

lemma setPushIndex_ok:
  assumes "dstore_ok X" "ready (vStore v)"
  shows "\<exists>s'. setPushIndex X I n v = (Inr (), v\<lparr>vStore := s'\<rparr>) \<and> ready s' \<and>
    contents s' = putInt ''/sync/push'' n (contents (vStore v))"
  using setInt64_ok[OF assms(2) xPath_sync(2)[OF assms(1)]] by (simp add: setPushIndex_def)

lemma setLastSync_ok:
  assumes "dstore_ok X" "ready (vStore v)"
  shows "\<exists>s'. setLastSync X I t v = (Inr (), v\<lparr>vStore := s'\<rparr>) \<and> ready s' \<and>
    contents s' = putInt ''/sync/lastSync'' (xMillis X t) (contents (vStore v))"
  using setInt64_ok[OF assms(2) xPath_sync(3)[OF assms(1)]] by (simp add: setLastSync_def setTime_def)

lemma setRemoteSalt_ok:
  assumes "dstore_ok X" "ready (vStore v)"
  shows "\<exists>s'. setRemoteSalt X I b v = (Inr (), v\<lparr>vStore := s'\<rparr>) \<and> ready s' \<and>
    contents s' = (contents (vStore v))(''/sync/rsalt'' := map_option (\<lambda>_. bstr b) b)"
  using setValue_ok[OF assms(2) xPath_sync(4)[OF assms(1)]] by (simp add: setRemoteSalt_def)

lemma pushIndexNext_ok:
  assumes "dstore_ok X" "ready (vStore v)" "intOf (contents (vStore v)) ''/sync/push'' = Some n"
    "0 \<le> n" "n < maxIndex"
  shows "\<exists>s'. pushIndexNext X I v = (Inr (n + 1), v\<lparr>vStore := s'\<rparr>) \<and> ready s' \<and>
    contents s' = putInt ''/sync/push'' (n + 1) (contents (vStore v))"
proof -
  have n: "i64 (n + 1) = n + 1" using assms(4,5) by (intro i64_id) (simp add: int64_ok_def)
  obtain s' where "setPushIndex X I (n + 1) v = (Inr (), v\<lparr>vStore := s'\<rparr>)" "ready s'"
      "contents s' = putInt ''/sync/push'' (n + 1) (contents (vStore v))"
    using setPushIndex_ok[OF assms(1,2)] by blast
  with pushIndex_ok[OF assms(2,3)] n show ?thesis
    by (simp add: pushIndexNext_def op_simps Let_def)
qed

text \<open>What is written is read back.\<close>

lemma setInt64_getInt64:
  assumes "ready (vStore v)" "xPath X [key] = key" "key \<noteq> []" "int64_ok n"
    and set: "setInt64 X I key n v = (Inr (), v')"
  shows "getInt64 I key v' = (Inr n, v')"
proof -
  obtain s' where "setInt64 X I key n v = (Inr (), v\<lparr>vStore := s'\<rparr>)" "ready s'"
    "contents s' = putInt key n (contents (vStore v))"
    using setInt64_ok[OF assms(1-3)] by blast
  with set assms(3,4) show ?thesis by (auto intro!: getInt64_ok)
qed

end

end
