(* ===== verification/VaultCore.thy ===== *)
theory VaultCore
  imports VaultState
begin

text \<open>
  The item operations of \<^verbatim>\<open>vault/vault.go\<close>: opening and closing, \<^verbatim>\<open>Set\<close>, \<^verbatim>\<open>Get\<close>, \<^verbatim>\<open>Delete\<close>,
  \<^verbatim>\<open>Items\<close> and the pending log every local change is appended to. The contents of the store
  are described by \<open>pushed\<close> (one change appended to the log), the log invariant \<open>logOK\<close> and
  the pending list \<open>keysWith ''/push''\<close>, whose order is the order of the changes.
\<close>

section \<open>Operations\<close>

definition vaultOpen :: "'s store_ops \<Rightarrow> (('s, 'n) vault, unit) op" where
  "vaultOpen I = wrapErr ''failed to open vault'' (onStore (sOpen I))"

definition vaultClose :: "'s store_ops \<Rightarrow> (('s, 'n) vault, unit) op" where
  "vaultClose I = bnd (modify (\<lambda>v. v\<lparr>vAuto := False\<rparr>)) (\<lambda>_.
     wrapErr ''failed to close vault'' (onStore (sClose I)))"

definition addToPush :: "'z ext_scheme \<Rightarrow> 's store_ops \<Rightarrow> string \<Rightarrow> gobytes \<Rightarrow> (('s, 'n) vault, unit) op" where
  "addToPush X I path b =
     bnd (pushIndexNext X I) (\<lambda>inc.
     bnd (lift (pad inc)) (\<lambda>padded.
     bnd (onStore (sSet I (xPath X [''push'', padded, path]) b)) (\<lambda>_.
     modify (\<lambda>v. v\<lparr>vAuto := True\<rparr>))))"

text \<open>\<^verbatim>\<open>Vault.set\<close>, \<^verbatim>\<open>Vault.setItem\<close> and the exported \<^verbatim>\<open>Vault.Set\<close>.\<close>

definition vaultSetPath :: "'z ext_scheme \<Rightarrow> 's store_ops \<Rightarrow> string \<Rightarrow> gobytes \<Rightarrow> bool \<Rightarrow> (('s, 'n) vault, unit) op" where
  "vaultSetPath X I path b toPush =
     bnd (onStore (sSet I path b)) (\<lambda>_.
     if toPush then addToPush X I path b else ret ())"

definition setItem :: "'z ext_scheme \<Rightarrow> 's store_ops \<Rightarrow> item \<Rightarrow> bool \<Rightarrow> (('s, 'n) vault, unit) op" where
  "setItem X I item toPush =
     bnd (gets vMk) (\<lambda>mk.
     bnd (encryptItem X item mk) (\<lambda>b.
     vaultSetPath X I (xPath X [''item'', iID item]) b toPush))"

definition vaultSet :: "'z ext_scheme \<Rightarrow> 's store_ops \<Rightarrow> item \<Rightarrow> (('s, 'n) vault, unit) op" where
  "vaultSet X I item = setItem X I item True"

definition vaultGet :: "'z ext_scheme \<Rightarrow> 's store_ops \<Rightarrow> string \<Rightarrow> (('s, 'n) vault, item option) op" where
  "vaultGet X I id' =
     bnd (failIf (id' = []) (Err ''empty id'')) (\<lambda>_.
     bnd (onStore (sGet I (xPath X [''item'', id']))) (\<lambda>b.
     if b = None then ret None
     else bnd (gets vMk) (\<lambda>mk.
       bnd (lift (decryptItem X b mk id')) (\<lambda>item.
       bnd (failIf (iID item \<noteq> id') (Err ''item id mismatch'')) (\<lambda>_.
       if glen (iData item) = 0 then ret None else ret (Some item))))))"

definition vaultDelete :: "'z ext_scheme \<Rightarrow> 's store_ops \<Rightarrow> string \<Rightarrow> (('s, 'n) vault, bool) op" where
  "vaultDelete X I id' =
     bnd (vaultGet X I id') (\<lambda>r.
     case r of None \<Rightarrow> ret False
     | Some item \<Rightarrow> bnd (setItem X I (item\<lparr>iData := None\<rparr>) True) (\<lambda>_. ret True))"

definition vaultItems :: "'z ext_scheme \<Rightarrow> 's store_ops \<Rightarrow> (('s, 'n) vault, item list) op" where
  "vaultItems X I =
     bnd (onStore (sList I (Some (withPrefix (xPath X [''item'']))))) (\<lambda>ds.
     bnd (gets vMk) (\<lambda>mk.
     collect ds (\<lambda>doc.
       bnd (lift (decryptItem X (eData doc) mk (xPathLast X (ePath doc)))) (\<lambda>item.
       ret (if glen (iData item) = 0 then None else Some item)))))"

definition vaultIsEmpty :: "'s store_ops \<Rightarrow> (('s, 'n) vault, bool) op" where
  "vaultIsEmpty I =
     bnd (onStore (sList I (Some \<lparr>loPrefix = [], loNoData = False, loLimit = 1\<rparr>))) (\<lambda>docs.
     ret (length docs = 0))"

section \<open>Log paths\<close>

definition logPath :: "string \<Rightarrow> int \<Rightarrow> string list \<Rightarrow> string" where
  "logPath k n cs = canon (k # zeroPad 15 n # cs)"

text \<open>The paths of user data, as opposed to the log and the configuration.\<close>

definition userPath :: "string list \<Rightarrow> bool" where
  "userPath cs \<longleftrightarrow> cs = [''config'', ''salt''] \<or>
     (length cs = 2 \<and> plains cs \<and> hd cs \<in> {''item'', ''auth'', ''provision''})"

lemma userPath_item [simp]: "plain c \<Longrightarrow> userPath [''item'', c]"
  and userPath_auth [simp]: "plain c \<Longrightarrow> userPath [''auth'', c]"
  and userPath_provision [simp]: "plain c \<Longrightarrow> userPath [''provision'', c]"
  and userPath_salt [simp]: "userPath [''config'', ''salt'']"
  by (simp_all add: userPath_def)

lemma userPath_plains: "userPath cs \<Longrightarrow> plains cs"
  by (auto simp: userPath_def)

lemma userPath_hd: "userPath cs \<Longrightarrow> hd cs \<in> {''item'', ''auth'', ''provision'', ''config''}"
  by (auto simp: userPath_def)

lemma userPath_nonempty: "userPath cs \<Longrightarrow> canon cs \<noteq> []"
  by (auto simp: userPath_def)

lemma plains_list_all: "plains cs \<Longrightarrow> list_all plain cs"
  by (simp add: plains_def)

lemma userPath_neq_sync:
  assumes "userPath cs" "list_all plain ds" "ds \<noteq> []" "hd ds \<notin> {''item'', ''auth'', ''provision'', ''config''}"
  shows "canon cs \<noteq> canon ds"
  using canon_inj[OF plains_list_all[OF userPath_plains[OF assms(1)]] assms(2)] userPath_hd[OF assms(1)] assms(4)
  by blast

lemma userPath_not_sync [simp]:
  assumes "userPath cs"
  shows "canon cs \<noteq> ''/sync/push''" "canon cs \<noteq> ''/sync/pull''"
  using userPath_neq_sync[OF assms, of "[''sync'', ''push'']"] userPath_neq_sync[OF assms, of "[''sync'', ''pull'']"]
  by simp_all

lemma prefix_slash: "prefix (CHR ''/'' # k) (canon (c # cs)) \<longleftrightarrow> prefix k (c @ canon cs)"
  by simp

lemma userPath_not_log [simp]:
  assumes "userPath cs"
  shows "\<not> prefix ''/push'' (canon cs)" "\<not> prefix ''/pull'' (canon cs)"
  using userPath_hd[OF assms] by (cases cs; auto)+

lemma sync_not_log [simp]:
  "\<not> prefix ''/push'' ''/sync/push''" "\<not> prefix ''/push'' ''/sync/pull''"
  "\<not> prefix ''/pull'' ''/sync/push''" "\<not> prefix ''/pull'' ''/sync/pull''"
  by simp_all

lemma logPath_prefix [simp]:
  "prefix ''/push'' (logPath ''push'' n cs)" "prefix ''/pull'' (logPath ''pull'' n cs)"
  "\<not> prefix ''/pull'' (logPath ''push'' n cs)" "\<not> prefix ''/push'' (logPath ''pull'' n cs)"
  by (simp_all add: logPath_def)

lemma logPath_nonempty [simp]: "logPath k n cs \<noteq> []"
  by (simp add: logPath_def)

lemma logPath_neq [simp]:
  "logPath ''push'' n cs \<noteq> ''/sync/push''" "logPath ''push'' n cs \<noteq> ''/sync/pull''"
  "logPath ''pull'' n cs \<noteq> ''/sync/push''" "logPath ''pull'' n cs \<noteq> ''/sync/pull''"
  by (simp_all add: logPath_def)

lemma userPath_neq_log [simp]:
  assumes "userPath cs"
  shows "canon cs \<noteq> logPath ''push'' n ds" "canon cs \<noteq> logPath ''pull'' n ds"
  using userPath_not_log[OF assms] logPath_prefix(1,2) by metis+

lemmas log_neqs [simp] =
  userPath_not_sync [THEN not_sym] logPath_neq [THEN not_sym] userPath_neq_log [THEN not_sym]

lemma less_append: "length xs = length ys \<Longrightarrow> xs < ys \<Longrightarrow> xs @ us < ys @ vs"
  for xs :: "'a::linorder list"
  by (induction xs ys rule: list_induct2) auto

lemma less_append_common [simp]: "us @ xs < us @ ys \<longleftrightarrow> xs < ys"
  for xs :: "'a::linorder list"
  by (induction us) auto

lemma logPath_less:
  assumes "0 \<le> i" "i < j" "j \<le> maxIndex"
  shows "logPath k i cs < logPath k j ds"
proof -
  have "zeroPad 15 i @ canon cs < zeroPad 15 j @ canon ds"
  proof (rule less_append)
    show "length (zeroPad 15 i) = length (zeroPad 15 j)"
      using assms by (simp add: zeroPad_length)
    show "zeroPad 15 i < zeroPad 15 j"
      using assms by (simp add: zeroPad_mono)
  qed
  then show ?thesis by (simp add: logPath_def)
qed

lemma logPath_plains: "plain k \<Longrightarrow> 0 \<le> n \<Longrightarrow> n \<le> maxIndex \<Longrightarrow> plains cs \<Longrightarrow> plains (k # zeroPad 15 n # cs)"
  by (simp add: zeroPad_plain)

lemma logPath_inj:
  assumes "plain k" "0 \<le> i" "i \<le> maxIndex" "0 \<le> j" "j \<le> maxIndex" "plains cs" "plains ds"
    and "logPath k i cs = logPath k j ds"
  shows "i = j \<and> cs = ds"
proof -
  have "k # zeroPad 15 i # cs = k # zeroPad 15 j # ds"
    using assms by (intro canon_inj) (auto simp: logPath_def zeroPad_plain plains_list_all)
  then show ?thesis using zeroPad_inj[of i j 15] assms by auto
qed

lemma logPath_from:
  assumes "dstore_ok X" "plain k" "0 \<le> n" "n \<le> maxIndex" "plains cs"
  shows "xPathFrom X (logPath k n cs) 2 = canon cs"
  using assms xPathFrom_canon[OF assms(1) logPath_plains[OF assms(2-5)], of 2]
  by (cases cs) (simp_all add: logPath_def)

lemma xPath_logPath:
  assumes "dstore_ok X" "plain k" "0 \<le> n" "n \<le> maxIndex" "plains cs"
  shows "xPath X [k, zeroPad 15 n, canon cs] = logPath k n cs"
  using assms by (simp add: logPath_def xPath_log zeroPad_plain)

section \<open>The pending log\<close>

text \<open>Appending a change: the index is advanced and the change stored under the new index.\<close>

definition pushed :: "int \<Rightarrow> string list \<Rightarrow> string \<Rightarrow> (string \<rightharpoonup> string) \<Rightarrow> (string \<rightharpoonup> string)" where
  "pushed n cs c m = (putInt ''/sync/push'' n m)(logPath ''push'' n cs \<mapsto> c)"

definition logOK :: "string \<Rightarrow> int \<Rightarrow> (string \<rightharpoonup> string) \<Rightarrow> bool" where
  "logOK k n m \<longleftrightarrow> (\<forall>p \<in> dom m. prefix (canon [k]) p \<longrightarrow>
     (\<exists>i cs. plains cs \<and> 0 < i \<and> i \<le> n \<and> p = logPath k i cs))"

text \<open>
  The invariant of a vault's contents: the push index is stored as a number that bounds the
  indices of the pending log.
\<close>

definition pushOK :: "int \<Rightarrow> (string \<rightharpoonup> string) \<Rightarrow> bool" where
  "pushOK n m \<longleftrightarrow> intOf m ''/sync/push'' = Some n \<and> 0 \<le> n \<and> logOK ''push'' n m"

lemma pushOK_empty: "pushOK 0 Map.empty"
  by (simp add: pushOK_def intOf_def logOK_def)

lemma logOK_other: "logOK k n m \<Longrightarrow> \<not> prefix (canon [k]) p \<Longrightarrow> logOK k n (m(p := x))"
  by (auto simp: logOK_def)

lemma logOK_mono: "logOK k n m \<Longrightarrow> n \<le> n' \<Longrightarrow> logOK k n' m"
  by (fastforce simp: logOK_def)

lemma logOK_delete: "logOK k n m \<Longrightarrow> logOK k n (m |` A)"
  by (auto simp: logOK_def restrict_map_def split: if_splits)

lemma logOK_add: "logOK k n m \<Longrightarrow> n < j \<Longrightarrow> 0 < j \<Longrightarrow> plains cs \<Longrightarrow> logOK k j (m(logPath k j cs \<mapsto> c))"
  unfolding logOK_def by (fastforce split: if_splits)

lemma logOK_putInt: "logOK k n m \<Longrightarrow> \<not> prefix (canon [k]) key \<Longrightarrow> logOK k n (putInt key x m)"
  by (simp add: putInt_def logOK_other del: canon.simps)

lemma pushOK_user: "pushOK n m \<Longrightarrow> userPath cs \<Longrightarrow> pushOK n (m(canon cs := x))"
  by (auto simp: pushOK_def intro!: logOK_other)

lemma pushOK_pushed:
  assumes "pushOK n m" "plains cs" "n < maxIndex"
  shows "pushOK (n + 1) (pushed (n + 1) cs c m)"
proof -
  have "logOK ''push'' n (putInt ''/sync/push'' (n + 1) m)"
    using assms(1) by (intro logOK_putInt) (simp_all add: pushOK_def)
  then have "logOK ''push'' (n + 1) (pushed (n + 1) cs c m)"
    using assms by (simp add: pushed_def logOK_add pushOK_def)
  moreover have "int64_ok (n + 1)"
    using assms by (simp add: pushOK_def int64_ok_def)
  ultimately show ?thesis
    using assms by (simp add: pushOK_def pushed_def)
qed

lemma pushOK_below:
  assumes "pushOK n m" "q \<in> dom m" "prefix ''/push'' q" "n < j" "j \<le> maxIndex"
  shows "q < logPath ''push'' j cs"
proof -
  obtain i ds where q: "q = logPath ''push'' i ds" "0 < i" "i \<le> n"
    using assms(1-3) unfolding pushOK_def logOK_def by fastforce
  then show ?thesis using logPath_less[of i j] assms(4,5) by simp
qed

text \<open>The pending list: the order of the log is the order in which the changes were made.\<close>

lemma keysWith_pushed:
  assumes "pushOK n m" "finite (dom m)" "n < maxIndex"
  shows "keysWith ''/push'' (pushed (n + 1) cs c m) =
    keysWith ''/push'' m @ [logPath ''push'' (n + 1) cs]"
proof -
  let ?m = "putInt ''/sync/push'' (n + 1) m"
  have dom: "dom ?m \<subseteq> insert ''/sync/push'' (dom m)" and fin: "finite (dom ?m)"
    using assms(2) by (auto simp: putInt_def)
  have "keysWith ''/push'' (?m(logPath ''push'' (n + 1) cs \<mapsto> c)) =
      keysWith ''/push'' ?m @ [logPath ''push'' (n + 1) cs]"
  proof (rule keysWith_append[OF fin logPath_prefix(1)])
    fix q assume "q \<in> dom ?m" "prefix ''/push'' q"
    then have "q \<in> dom m" using dom by auto
    then show "q < logPath ''push'' (n + 1) cs"
      using pushOK_below[OF assms(1) _ \<open>prefix ''/push'' q\<close>] assms(3) by simp
  qed
  moreover have "keysWith ''/push'' ?m = keysWith ''/push'' m"
    by (auto simp: putInt_def keysWith_update_other keysWith_delete_other)
  ultimately show ?thesis by (simp add: pushed_def)
qed

lemma pushed_other [simp]:
  "p \<noteq> ''/sync/push'' \<Longrightarrow> p \<noteq> logPath ''push'' n cs \<Longrightarrow> pushed n cs c m p = m p"
  by (simp add: pushed_def)

lemma pushed_user [simp]: "userPath ds \<Longrightarrow> pushed n cs c m (canon ds) = m (canon ds)"
  by simp

end
