(* ===== verification/Tables.thy ===== *)
theory Tables
  imports VaultCore
begin

text \<open>
  The vault keeps its items, auths and provisions as tables: one directory of the store per
  table, one entry per id. \<open>tableRep c P m t\<close> says that the directory \<open>c\<close> of the contents
  \<open>m\<close> holds exactly the abstract table \<open>t\<close>, each row encoded as \<open>P\<close> allows. The lemmas are the
  table's reads, writes, deletion and listing, shared by the three tables.
\<close>

definition rowPath :: "string \<Rightarrow> string \<Rightarrow> string" where
  "rowPath c i = canon [c, i]"

definition tableRep ::
  "string \<Rightarrow> (string \<Rightarrow> 'a \<Rightarrow> string \<Rightarrow> bool) \<Rightarrow> (string \<rightharpoonup> string) \<Rightarrow> (string \<rightharpoonup> 'a) \<Rightarrow> bool" where
  "tableRep c P m t \<longleftrightarrow>
     (\<forall>p \<in> dom m. prefix (canon [c]) p \<longrightarrow> (\<exists>i. plain i \<and> p = rowPath c i)) \<and>
     (\<forall>i. case t i of
        None \<Rightarrow> plain i \<longrightarrow> m (rowPath c i) = None
      | Some x \<Rightarrow> plain i \<and> (\<exists>b. m (rowPath c i) = Some b \<and> P i x b))"

lemma rowPath_inj [simp]: "rowPath c i = rowPath c j \<longleftrightarrow> i = j"
  by (simp add: rowPath_def)

lemma rowPath_prefix [simp]: "prefix (canon [c]) (rowPath c i)"
  by (simp add: rowPath_def)

lemma rowPath_nonempty [simp]: "rowPath c i \<noteq> []"
  by (simp add: rowPath_def)

lemma rowPath_less [simp]: "rowPath c i < rowPath c j \<longleftrightarrow> i < j"
  by (simp add: rowPath_def)

lemma rowPath_other [simp]:
  "\<not> prefix ''/item'' (rowPath ''auth'' i)" "\<not> prefix ''/item'' (rowPath ''provision'' i)"
  "\<not> prefix ''/auth'' (rowPath ''item'' i)" "\<not> prefix ''/auth'' (rowPath ''provision'' i)"
  "\<not> prefix ''/provision'' (rowPath ''item'' i)" "\<not> prefix ''/provision'' (rowPath ''auth'' i)"
  by (simp_all add: rowPath_def)

lemma xPath_row: "dstore_ok X \<Longrightarrow> plain c \<Longrightarrow> plain i \<Longrightarrow> xPath X [c, i] = rowPath c i"
  by (simp add: rowPath_def xPath_two)

lemma rowPath_last: "dstore_ok X \<Longrightarrow> plain c \<Longrightarrow> plain i \<Longrightarrow> xPathLast X (rowPath c i) = i"
  using xPathLast_canon[of X "[c, i]"] by (simp add: rowPath_def)

lemma tableRep_path:
  "tableRep c P m t \<Longrightarrow> p \<in> dom m \<Longrightarrow> prefix (canon [c]) p \<Longrightarrow> \<exists>i. plain i \<and> p = rowPath c i"
  unfolding tableRep_def by blast

lemma tableRep_case:
  "tableRep c P m t \<Longrightarrow> (case t i of
        None \<Rightarrow> plain i \<longrightarrow> m (rowPath c i) = None
      | Some x \<Rightarrow> plain i \<and> (\<exists>b. m (rowPath c i) = Some b \<and> P i x b))"
  unfolding tableRep_def by blast

lemma tableRep_Some:
  assumes "tableRep c P m t" "t i = Some x"
  shows "plain i \<and> (\<exists>b. m (rowPath c i) = Some b \<and> P i x b)"
  using tableRep_case[OF assms(1), of i] assms(2) by simp

lemma tableRep_None:
  assumes "tableRep c P m t" "t i = None" "plain i"
  shows "m (rowPath c i) = None"
  using tableRep_case[OF assms(1), of i] assms(2,3) by simp

lemma tableRepI:
  assumes "\<And>p. p \<in> dom m \<Longrightarrow> prefix (canon [c]) p \<Longrightarrow> \<exists>i. plain i \<and> p = rowPath c i"
    and "\<And>i. t i = None \<Longrightarrow> plain i \<Longrightarrow> m (rowPath c i) = None"
    and "\<And>i x. t i = Some x \<Longrightarrow> plain i \<and> (\<exists>b. m (rowPath c i) = Some b \<and> P i x b)"
  shows "tableRep c P m t"
  unfolding tableRep_def
proof (intro conjI ballI impI allI)
  show "\<exists>i. plain i \<and> p = rowPath c i" if "p \<in> dom m" "prefix (canon [c]) p" for p
    using assms(1) that .
  show "case t i of None \<Rightarrow> plain i \<longrightarrow> m (rowPath c i) = None
      | Some x \<Rightarrow> plain i \<and> (\<exists>b. m (rowPath c i) = Some b \<and> P i x b)" for i
    using assms(2)[of i] assms(3)[of i] by (cases "t i") simp_all
qed

lemma tableRep_empty: "(\<forall>p \<in> dom m. \<not> prefix (canon [c]) p) \<Longrightarrow> tableRep c P m Map.empty"
proof (rule tableRepI)
  show "m (rowPath c i) = None" if "\<forall>p \<in> dom m. \<not> prefix (canon [c]) p" for i
    using that rowPath_prefix[of c i] by (cases "m (rowPath c i)") (blast intro: domI)+
qed blast+

lemma tableRep_dom: "tableRep c P m t \<Longrightarrow> {p \<in> dom m. prefix (canon [c]) p} = rowPath c ` dom t"
proof -
  assume r: "tableRep c P m t"
  have "p \<in> rowPath c ` dom t" if p: "p \<in> dom m" "prefix (canon [c]) p" for p
  proof -
    obtain i where i: "plain i" "p = rowPath c i" using tableRep_path[OF r p] by blast
    have "t i \<noteq> None"
    proof
      assume "t i = None"
      with tableRep_None[OF r this i(1)] p(1) i(2) show False by (simp add: domIff)
    qed
    with i(2) show ?thesis by blast
  qed
  moreover have "rowPath c i \<in> dom m" if "i \<in> dom t" for i
    using that tableRep_Some[OF r, of i] by auto
  ultimately show ?thesis using rowPath_prefix by blast
qed

lemma tableRep_set:
  assumes r: "tableRep c P m t" and i: "plain i" "P i x b"
  shows "tableRep c P (m(rowPath c i \<mapsto> b)) (t(i \<mapsto> x))"
proof (rule tableRepI)
  fix p assume "p \<in> dom (m(rowPath c i \<mapsto> b))" "prefix (canon [c]) p"
  then show "\<exists>j. plain j \<and> p = rowPath c j"
    using tableRep_path[OF r, of p] i(1) by (cases "p = rowPath c i") auto
next
  fix j assume "(t(i \<mapsto> x)) j = None" "plain j"
  then show "(m(rowPath c i \<mapsto> b)) (rowPath c j) = None"
    using tableRep_None[OF r, of j] by (auto split: if_splits)
next
  fix j y assume "(t(i \<mapsto> x)) j = Some y"
  then show "plain j \<and> (\<exists>e. (m(rowPath c i \<mapsto> b)) (rowPath c j) = Some e \<and> P j y e)"
    using tableRep_Some[OF r, of j y] i by (auto split: if_splits)
qed

lemma tableRep_del:
  assumes r: "tableRep c P m t"
  shows "tableRep c P (m(rowPath c i := None)) (t(i := None))"
proof (rule tableRepI)
  fix p assume "p \<in> dom (m(rowPath c i := None))" "prefix (canon [c]) p"
  then show "\<exists>j. plain j \<and> p = rowPath c j"
    using tableRep_path[OF r, of p] by (simp add: domIff split: if_splits)
next
  fix j assume "(t(i := None)) j = None" "plain j"
  then show "(m(rowPath c i := None)) (rowPath c j) = None"
    using tableRep_None[OF r, of j] by (auto split: if_splits)
next
  fix j y assume "(t(i := None)) j = Some y"
  then show "plain j \<and> (\<exists>e. (m(rowPath c i := None)) (rowPath c j) = Some e \<and> P j y e)"
    using tableRep_Some[OF r, of j y] by (auto split: if_splits)
qed

lemma tableRep_other:
  assumes r: "tableRep c P m t" and p: "\<not> prefix (canon [c]) p"
  shows "tableRep c P (m(p := x)) t"
proof (rule tableRepI)
  fix q assume "q \<in> dom (m(p := x))" "prefix (canon [c]) q"
  then show "\<exists>i. plain i \<and> q = rowPath c i"
    using tableRep_path[OF r, of q] p by (cases "q = p") (simp_all add: domIff split: if_splits)
next
  have ne: "rowPath c i \<noteq> p" for i using p rowPath_prefix by metis
  show "(m(p := x)) (rowPath c i) = None" if "t i = None" "plain i" for i
    using tableRep_None[OF r that] ne by simp
  show "plain i \<and> (\<exists>b. (m(p := x)) (rowPath c i) = Some b \<and> P i y b)" if "t i = Some y" for i y
    using tableRep_Some[OF r that] ne by simp
qed

text \<open>Tables are independent of the configuration and of the pending log.\<close>

definition tableDir :: "string \<Rightarrow> bool" where
  "tableDir c \<longleftrightarrow> c \<in> {''item'', ''auth'', ''provision''}"

lemma tableDir_simps [simp]: "tableDir ''item''" "tableDir ''auth''" "tableDir ''provision''"
  by (simp_all add: tableDir_def)

lemma tableDir_plain: "tableDir c \<Longrightarrow> plain c"
  by (auto simp: tableDir_def)

lemma tableDir_not_log:
  "tableDir c \<Longrightarrow> \<not> prefix (canon [c]) (logPath ''push'' n cs)"
  "tableDir c \<Longrightarrow> \<not> prefix (canon [c]) (logPath ''pull'' n cs)"
  "tableDir c \<Longrightarrow> \<not> prefix (canon [c]) (canon (''sync'' # cs))"
  "tableDir c \<Longrightarrow> \<not> prefix (canon [c]) (canon (''config'' # cs))"
  by (auto simp: tableDir_def logPath_def)

lemma tableDir_not_sync:
  "tableDir c \<Longrightarrow> \<not> prefix (canon [c]) ''/sync/push''"
  "tableDir c \<Longrightarrow> \<not> prefix (canon [c]) ''/sync/pull''"
  "tableDir c \<Longrightarrow> \<not> prefix (canon [c]) ''/sync/rsalt''"
  "tableDir c \<Longrightarrow> \<not> prefix (canon [c]) ''/sync/lastSync''"
  by (auto simp: tableDir_def)

lemma tableDir_userPath: "tableDir c \<Longrightarrow> plain i \<Longrightarrow> userPath [c, i]"
  by (auto simp: tableDir_def)

lemma tableRep_pushed: "tableDir c \<Longrightarrow> tableRep c P m t \<Longrightarrow> tableRep c P (pushed n cs b m) t"
  unfolding pushed_def putInt_def
  by (intro tableRep_other tableDir_not_log tableDir_not_sync)

lemma tableRep_row_other:
  "tableDir c \<Longrightarrow> tableDir d \<Longrightarrow> c \<noteq> d \<Longrightarrow> tableRep c P m t \<Longrightarrow> tableRep c P (m(rowPath d i := x)) t"
  by (rule tableRep_other) (auto simp: tableDir_def rowPath_def)

lemma tableRep_finite:
  assumes "tableRep c P m t" "finite (dom m)"
  shows "finite (dom t)"
proof -
  have "finite {p \<in> dom m. prefix (canon [c]) p}" using assms(2) by simp
  then have "finite (rowPath c ` dom t)" by (simp only: tableRep_dom[OF assms(1)])
  then show ?thesis by (rule finite_imageD) (simp add: inj_on_def)
qed

lemma rowPath_sorted: "sorted xs \<Longrightarrow> sorted (map (rowPath c) xs)"
  by (induction xs) (auto simp: le_less)

lemma tableRep_keys:
  assumes "tableRep c P m t" "finite (dom m)"
  shows "keysWith (canon [c]) m = map (rowPath c) (sorted_list_of_set (dom t))"
proof (rule sorted_distinct_unique)
  show "set (keysWith (canon [c]) m) = set (map (rowPath c) (sorted_list_of_set (dom t)))"
    using tableRep_dom[OF assms(1)] assms(2) tableRep_finite[OF assms] by (simp del: canon.simps)
  show "sorted (map (rowPath c) (sorted_list_of_set (dom t)))"
    by (intro rowPath_sorted) simp
  show "distinct (map (rowPath c) (sorted_list_of_set (dom t)))"
    by (simp add: distinct_map inj_on_def)
qed simp_all

context store
begin

text \<open>Listing a table: its rows in the order of their ids, each with its encoding.\<close>

lemma table_list:
  assumes "ready s" "tableRep c P (contents s) t"
  shows "\<exists>es. sList I (Some (withPrefix (canon [c]))) s = (Inr es, s) \<and>
    map ePath es = map (rowPath c) (sorted_list_of_set (dom t)) \<and>
    (\<forall>e \<in> set es. \<exists>i x. plain i \<and> t i = Some x \<and> ePath e = rowPath c i \<and> P i x (bstr (eData e)))"
proof -
  obtain es where es: "sList I (Some (withPrefix (canon [c]))) s = (Inr es, s)"
      "map ePath es = keysWith (canon [c]) (contents s)"
      "\<forall>e \<in> set es. contents s (ePath e) = Some (bstr (eData e))"
    using list_prefix[OF assms(1)] by blast
  have keys: "map ePath es = map (rowPath c) (sorted_list_of_set (dom t))"
    using es(2) tableRep_keys[OF assms(2) contents_finite[OF assms(1)]] by simp
  have "\<exists>i x. plain i \<and> t i = Some x \<and> ePath e = rowPath c i \<and> P i x (bstr (eData e))"
    if e: "e \<in> set es" for e
  proof -
    have "ePath e \<in> set (map ePath es)" using e by simp
    then have "ePath e \<in> rowPath c ` dom t"
      unfolding keys using tableRep_finite[OF assms(2) contents_finite[OF assms(1)]] by simp
    then obtain i x where i: "ePath e = rowPath c i" "t i = Some x" by blast
    obtain b where "plain i" "contents s (rowPath c i) = Some b" "P i x b"
      using tableRep_Some[OF assms(2) i(2)] by blast
    moreover have "contents s (ePath e) = Some (bstr (eData e))" using es(3) e by blast
    ultimately show ?thesis using i by auto
  qed
  with es(1) keys show ?thesis by blast
qed

lemma table_get_absent:
  assumes "ready s" "tableRep c P (contents s) t" "plain i" "t i = None"
  shows "sGet I (rowPath c i) s = (Inr None, s)"
  using get_absent[OF assms(1) rowPath_nonempty tableRep_None[OF assms(2,4,3)]] .

lemma table_get_present:
  assumes "ready s" "tableRep c P (contents s) t" "t i = Some x"
  shows "\<exists>b. sGet I (rowPath c i) s = (Inr b, s) \<and> P i x (bstr b)"
proof -
  obtain b where "contents s (rowPath c i) = Some b" "P i x b"
    using tableRep_Some[OF assms(2,3)] by blast
  with get_present[OF assms(1) rowPath_nonempty this(1)] show ?thesis by blast
qed

end

end
