(* ===== verification/Log.thy ===== *)
theory Log
  imports Tables
begin

text \<open>
  The changes of a vault as events. An event is a path and the bytes stored there, no bytes
  for a deletion; \<open>replay\<close> applies a list of events the way \<^verbatim>\<open>Vault.saveRemoteVault\<close> does.
  \<open>pendEvents\<close> reads the pending log of a store's contents in order, and \<open>logInv\<close> is the
  invariant that makes synchronisation correct: the user data are what the pulled events
  followed by the pending ones give. Last-writer-wins facts about \<open>replay\<close> are at the end.
\<close>

section \<open>Events\<close>

type_synonym event = "string \<times> string"

definition applyEvent :: "event \<Rightarrow> (string \<rightharpoonup> string) \<Rightarrow> (string \<rightharpoonup> string)" where
  "applyEvent e m = (if snd e = [] then m(fst e := None) else m(fst e \<mapsto> snd e))"

definition replay :: "event list \<Rightarrow> (string \<rightharpoonup> string) \<Rightarrow> (string \<rightharpoonup> string)" where
  "replay es m = fold applyEvent es m"

lemma replay_simps [simp]:
  "replay [] m = m" "replay (e # es) m = replay es (applyEvent e m)"
  "replay (es @ fs) m = replay fs (replay es m)"
  by (simp_all add: replay_def)

lemma applyEvent_at: "applyEvent e m p = (if p = fst e then (if snd e = [] then None else Some (snd e)) else m p)"
  by (simp add: applyEvent_def)

lemma replay_other: "p \<notin> fst ` set es \<Longrightarrow> replay es m p = m p"
  by (induction es arbitrary: m) (auto simp: applyEvent_at)

text \<open>The value at a path depends on the start only when no event has that path.\<close>

lemma replay_cong: "p \<in> fst ` set es \<or> m p = m' p \<Longrightarrow> replay es m p = replay es m' p"
proof (induction es arbitrary: m m')
  case (Cons e es)
  have "p \<in> fst ` set es \<or> applyEvent e m p = applyEvent e m' p"
    using Cons.prems by (auto simp: applyEvent_at)
  from Cons.IH[of "applyEvent e m" "applyEvent e m'", OF this] show ?case by simp
qed simp

text \<open>
  Last writer wins: events that were applied early and are applied again later leave no
  trace of the early application.
\<close>

lemma replay_again: "replay (as @ ps @ bs @ ps) m = replay (as @ bs @ ps) m"
proof
  fix p
  show "replay (as @ ps @ bs @ ps) m p = replay (as @ bs @ ps) m p"
  proof (cases "p \<in> fst ` set ps")
    case True
    then show ?thesis
      using replay_cong[of p ps "replay bs (replay ps (replay as m))" "replay bs (replay as m)"] by simp
  next
    case False
    have "replay bs (replay ps (replay as m)) p = replay bs (replay as m) p"
      by (rule replay_cong) (simp add: replay_other[OF False])
    then show ?thesis using replay_other[OF False] by simp
  qed
qed

section \<open>The pending events\<close>

text \<open>Every log path has the same length up to the path it logs: \<open>6 + 15\<close> characters.\<close>

definition unlog :: "string \<Rightarrow> string" where
  "unlog p = drop 21 p"

lemma unlog_logPath [simp]:
  assumes "0 \<le> n" "n \<le> maxIndex"
  shows "unlog (logPath ''push'' n cs) = canon cs" "unlog (logPath ''pull'' n cs) = canon cs"
  using zeroPad_length[of n 15] assms by (simp_all add: unlog_def logPath_def)

definition pendEvents :: "(string \<rightharpoonup> string) \<Rightarrow> event list" where
  "pendEvents m = map (\<lambda>p. (unlog p, the (m p))) (keysWith ''/push'' m)"

lemma pendEvents_pushed:
  assumes "pushOK n m" "finite (dom m)" "n < maxIndex" "plains cs"
  shows "pendEvents (pushed (n + 1) cs c m) = pendEvents m @ [(canon cs, c)]"
proof -
  have "pushed (n + 1) cs c m p = m p" if "p \<in> set (keysWith ''/push'' m)" for p
  proof -
    have "p \<in> dom m" "prefix ''/push'' p" using that assms(2) by auto
    then have "p < logPath ''push'' (n + 1) cs" using pushOK_below[OF assms(1)] assms(3) by simp
    moreover have "p \<noteq> ''/sync/push''" using \<open>prefix ''/push'' p\<close> by auto
    ultimately show ?thesis by auto
  qed
  moreover have "pushed (n + 1) cs c m (logPath ''push'' (n + 1) cs) = Some c"
    by (simp add: pushed_def)
  moreover have "unlog (logPath ''push'' (n + 1) cs) = canon cs"
    using assms by (simp add: pushOK_def)
  ultimately show ?thesis
    using keysWith_pushed[OF assms(1-3)] by (simp add: pendEvents_def)
qed

lemma pendEvents_other: "\<not> prefix ''/push'' p \<Longrightarrow> finite (dom m) \<Longrightarrow> pendEvents (m(p := x)) = pendEvents m"
proof -
  assume a: "\<not> prefix ''/push'' p" "finite (dom m)"
  have "keysWith ''/push'' (m(p := x)) = keysWith ''/push'' m"
    using a by (cases x) (simp_all add: keysWith_update_other keysWith_delete_other)
  moreover have "q \<noteq> p" if "q \<in> set (keysWith ''/push'' m)" for q using that a by auto
  ultimately show ?thesis by (simp add: pendEvents_def)
qed

section \<open>The log invariant\<close>

text \<open>\<open>base\<close> are the events the vault has pulled. Every event changes user data.\<close>

definition userEvent :: "event \<Rightarrow> bool" where
  "userEvent e \<longleftrightarrow> (\<exists>cs. userPath cs \<and> fst e = canon cs)"

definition logInv :: "event list \<Rightarrow> (string \<rightharpoonup> string) \<Rightarrow> bool" where
  "logInv base m \<longleftrightarrow>
     list_all userEvent (base @ pendEvents m) \<and>
     (\<forall>cs. userPath cs \<longrightarrow> m (canon cs) = replay (base @ pendEvents m) Map.empty (canon cs))"

text \<open>A local change of a user path: the new contents, with the change in the log.\<close>

definition changed :: "int \<Rightarrow> string list \<Rightarrow> string \<Rightarrow> (string \<rightharpoonup> string) \<Rightarrow> (string \<rightharpoonup> string)" where
  "changed n cs c m = pushed (n + 1) cs c (applyEvent (canon cs, c) m)"

lemma changed_set: "c \<noteq> [] \<Longrightarrow> changed n cs c m = pushed (n + 1) cs c (m(canon cs \<mapsto> c))"
  by (simp add: changed_def applyEvent_def)

lemma changed_del: "changed n cs [] m = pushed (n + 1) cs [] (m(canon cs := None))"
  by (simp add: changed_def applyEvent_def)

lemma changed_at: "userPath cs \<Longrightarrow> userPath ds \<Longrightarrow>
  changed n cs c m (canon ds) = applyEvent (canon cs, c) m (canon ds)"
  by (simp add: changed_def)

lemma finite_applyEvent: "finite (dom m) \<Longrightarrow> finite (dom (applyEvent e m))"
  by (simp add: applyEvent_def)

lemma applyEvent_pushOK: "pushOK n m \<Longrightarrow> userPath cs \<Longrightarrow> pushOK n (applyEvent (canon cs, c) m)"
  by (simp add: applyEvent_def pushOK_user)

lemma pushOK_changed:
  "pushOK n m \<Longrightarrow> userPath cs \<Longrightarrow> n < maxIndex \<Longrightarrow> pushOK (n + 1) (changed n cs c m)"
  unfolding changed_def by (intro pushOK_pushed applyEvent_pushOK userPath_plains)

lemma pendEvents_changed:
  assumes "pushOK n m" "finite (dom m)" "n < maxIndex" "userPath cs"
  shows "pendEvents (changed n cs c m) = pendEvents m @ [(canon cs, c)]"
proof -
  have "pendEvents (applyEvent (canon cs, c) m) = pendEvents m"
    using assms by (simp add: applyEvent_def pendEvents_other)
  with pendEvents_pushed[OF applyEvent_pushOK[OF assms(1,4)] finite_applyEvent[OF assms(2)]] assms
  show ?thesis by (simp add: changed_def userPath_plains)
qed

lemma logInv_changed:
  assumes "pushOK n m" "finite (dom m)" "n < maxIndex" "userPath cs" "logInv base m"
  shows "logInv base (changed n cs c m)"
  unfolding logInv_def
proof (intro allI impI conjI)
  show "list_all userEvent (base @ pendEvents (changed n cs c m))"
    using assms(4,5) by (auto simp: pendEvents_changed[OF assms(1-4)] logInv_def userEvent_def)
  fix ds assume ds: "userPath ds"
  have "changed n cs c m (canon ds) = applyEvent (canon cs, c) m (canon ds)"
    using changed_at assms(4) ds by simp
  also have "\<dots> = applyEvent (canon cs, c) (replay (base @ pendEvents m) Map.empty) (canon ds)"
    using assms(5) ds by (simp add: logInv_def applyEvent_at)
  finally show "changed n cs c m (canon ds) =
      replay (base @ pendEvents (changed n cs c m)) Map.empty (canon ds)"
    using pendEvents_changed[OF assms(1-4)] by simp
qed

lemma logInv_other:
  assumes "logInv base m" "finite (dom m)" "\<not> prefix ''/push'' p" "\<And>cs. userPath cs \<Longrightarrow> canon cs \<noteq> p"
  shows "logInv base (m(p := x))"
  using assms pendEvents_other[OF assms(3,2)] by (auto simp: logInv_def)

lemma tableRep_changed_set:
  "tableDir c \<Longrightarrow> tableRep c P m t \<Longrightarrow> plain i \<Longrightarrow> P i x b \<Longrightarrow> b \<noteq> [] \<Longrightarrow>
     tableRep c P (changed n [c, i] b m) (t(i \<mapsto> x))"
  unfolding changed_set rowPath_def[symmetric] by (intro tableRep_pushed tableRep_set)

lemma tableRep_changed_del:
  "tableDir c \<Longrightarrow> tableRep c P m t \<Longrightarrow> tableRep c P (changed n [c, i] [] m) (t(i := None))"
  unfolding changed_del rowPath_def[symmetric] by (intro tableRep_pushed tableRep_del)

lemma tableRep_changed_other:
  "tableDir c \<Longrightarrow> tableDir d \<Longrightarrow> c \<noteq> d \<Longrightarrow> tableRep c P m t \<Longrightarrow> tableRep c P (changed n [d, i] b m) t"
  unfolding changed_def applyEvent_def rowPath_def[symmetric]
  by (auto intro!: tableRep_pushed tableRep_row_other)

lemma tableRep_changed_config:
  "tableDir c \<Longrightarrow> tableRep c P m t \<Longrightarrow> tableRep c P (changed n (''config'' # cs) b m) t"
  unfolding changed_def applyEvent_def
  by (auto intro!: tableRep_pushed tableRep_other tableDir_not_log(4) simp del: canon.simps)

section \<open>Local changes on a ready store\<close>

context store
begin

lemma addToPush_ok:
  assumes "dstore_ok X" "ready (vStore v)" "pushOK n (contents (vStore v))" "n < maxIndex" "plains cs"
  shows "\<exists>s'. addToPush X I (canon cs) b v = (Inr (), v\<lparr>vStore := s', vAuto := True\<rparr>) \<and> ready s' \<and>
    contents s' = pushed (n + 1) cs (bstr b) (contents (vStore v))"
proof -
  have n: "0 \<le> n" "intOf (contents (vStore v)) ''/sync/push'' = Some n"
    using assms(3) by (simp_all add: pushOK_def)
  obtain t where t: "pushIndexNext X I v = (Inr (n + 1), v\<lparr>vStore := t\<rparr>)" "ready t"
      "contents t = putInt ''/sync/push'' (n + 1) (contents (vStore v))"
    using pushIndexNext_ok[OF assms(1,2) n(2,1) assms(4)] by blast
  have path: "xPath X [''push'', zeroPad 15 (n + 1), canon cs] = logPath ''push'' (n + 1) cs"
    using n assms by (intro xPath_logPath) simp_all
  obtain s' where s': "sSet I (logPath ''push'' (n + 1) cs) b t = (Inr (), s')" "ready s'"
      "contents s' = (contents t)(logPath ''push'' (n + 1) cs \<mapsto> bstr b)"
    using set_ok[OF t(2), of "logPath ''push'' (n + 1) cs" b] by auto
  have pad: "pad (n + 1) = Inr (zeroPad 15 (n + 1))"
    using assms(4) by (simp add: pad_ok)
  have "addToPush X I (canon cs) b v = (Inr (), v\<lparr>vStore := s', vAuto := True\<rparr>)"
    using t(1) s'(1) by (simp add: addToPush_def op_simps pad path)
  with s' t(3) show ?thesis by (auto simp: pushed_def)
qed

lemma vaultSetPath_ok:
  assumes "dstore_ok X" "ready (vStore v)" "pushOK n (contents (vStore v))" "n < maxIndex" "userPath cs"
    and b: "bstr b \<noteq> []"
  shows "\<exists>s'. vaultSetPath X I (canon cs) b True v = (Inr (), v\<lparr>vStore := s', vAuto := True\<rparr>) \<and> ready s' \<and>
    contents s' = changed n cs (bstr b) (contents (vStore v))"
proof -
  obtain t where t: "sSet I (canon cs) b (vStore v) = (Inr (), t)" "ready t"
      "contents t = (contents (vStore v))(canon cs \<mapsto> bstr b)"
    using set_ok[OF assms(2) userPath_nonempty[OF assms(5)], of b] by blast
  obtain s' where s': "addToPush X I (canon cs) b (v\<lparr>vStore := t\<rparr>) = (Inr (), v\<lparr>vStore := s', vAuto := True\<rparr>)"
      "ready s'" "contents s' = pushed (n + 1) cs (bstr b) (contents t)"
    using addToPush_ok[OF assms(1), of "v\<lparr>vStore := t\<rparr>" n cs b] t assms(3-5)
    by (auto simp: pushOK_user userPath_plains)
  with t b show ?thesis by (auto simp: vaultSetPath_def op_simps changed_set)
qed

text \<open>Deleting an entry and logging the deletion.\<close>

lemma deletePush_ok:
  assumes "dstore_ok X" "ready (vStore v)" "pushOK n (contents (vStore v))" "n < maxIndex" "userPath cs"
  shows "\<exists>s' t. sDelete I (canon cs) (vStore v) = (Inr (contents (vStore v) (canon cs) \<noteq> None), t) \<and>
    addToPush X I (canon cs) None (v\<lparr>vStore := t\<rparr>) = (Inr (), v\<lparr>vStore := s', vAuto := True\<rparr>) \<and> ready s' \<and>
    contents s' = changed n cs [] (contents (vStore v))"
proof -
  obtain t where t: "sDelete I (canon cs) (vStore v) = (Inr (contents (vStore v) (canon cs) \<noteq> None), t)"
      "ready t" "contents t = (contents (vStore v))(canon cs := None)"
    using delete_ok[OF assms(2) userPath_nonempty[OF assms(5)]] by blast
  obtain s' where s': "addToPush X I (canon cs) None (v\<lparr>vStore := t\<rparr>) = (Inr (), v\<lparr>vStore := s', vAuto := True\<rparr>)"
      "ready s'" "contents s' = pushed (n + 1) cs [] (contents t)"
    using addToPush_ok[OF assms(1), of "v\<lparr>vStore := t\<rparr>" n cs None] t assms(3-5)
    by (auto simp: pushOK_user userPath_plains)
  with t show ?thesis by (auto simp: changed_del)
qed

end

end
