(* ===== verification/VaultAuth.thy ===== *)
theory VaultAuth
  imports Log
begin

text \<open>
  Authentication, \<^verbatim>\<open>vault/auth.go\<close>, provisions, \<^verbatim>\<open>vault/provision.go\<close>, and the operations of
  \<^verbatim>\<open>vault/vault.go\<close> that manage the master key and the remote derived from it. The master key
  is generated at setup and stored once per auth method, sealed with that method's key;
  unlocking tries the stored auths in path order. This theory holds the operations and their
  behaviour on errors; \<open>AuthRefine\<close> relates them to an abstract vault.
\<close>

section \<open>auth.go\<close>

definition UnknownAuth :: string where "UnknownAuth = []"
definition PaperKeyAuth :: string where "PaperKeyAuth = ''paper-key''"
definition PasswordAuth :: string where "PasswordAuth = ''password''"
definition FIDO2HMACSecretAuth :: string where "FIDO2HMACSecretAuth = ''fido2-hmac-secret''"

datatype status = Unknown | SetupNeeded | Unlocked | Locked

definition Salt :: "'z ext_scheme \<Rightarrow> 's store_ops \<Rightarrow> (('s, 'n) vault, gobytes) op" where
  "Salt X I =
     (let path = xPath X [''config'', ''salt'']
      in bnd (onStore (sGet I path)) (\<lambda>salt.
         if salt = None
         then bnd (randBytes X 32) (\<lambda>r. bnd (vaultSetPath X I path (Some r) True) (\<lambda>_. ret (Some r)))
         else ret salt))"

definition hasAuth :: "'z ext_scheme \<Rightarrow> 's store_ops \<Rightarrow> (('s, 'n) vault, bool) op" where
  "hasAuth X I =
     bnd (onStore (sList I (Some \<lparr>loPrefix = xPath X [''auth''], loNoData = True, loLimit = 1\<rparr>))) (\<lambda>entries.
     ret (length entries > 0))"

definition Status :: "'z ext_scheme \<Rightarrow> 's store_ops \<Rightarrow> (('s, 'n) vault, status) op" where
  "Status X I =
     bnd (gets vMk) (\<lambda>mk.
     if mk \<noteq> None then ret Unlocked
     else bnd (hasAuth X I) (\<lambda>authed. ret (if \<not> authed then SetupNeeded else Locked)))"

definition authCreate ::
  "'z ext_scheme \<Rightarrow> 's store_ops \<Rightarrow> string \<Rightarrow> string option \<Rightarrow> string option \<Rightarrow> (('s, 'n) vault, unit) op" where
  "authCreate X I id' key mk =
     (case mk of None \<Rightarrow> fail ErrLocked
      | Some m \<Rightarrow>
          bnd (failIf (id' = []) (Err ''no auth id'')) (\<lambda>_.
          bnd (clockNow X) (\<lambda>now.
          bnd (encryptItem X (NewItem id' (Some m) [] now) key) (\<lambda>b.
          vaultSetPath X I (xPath X [''auth'', id']) b True))))"

definition authSetup ::
  "'z ext_scheme \<Rightarrow> 's store_ops \<Rightarrow> string \<Rightarrow> string option \<Rightarrow> (('s, 'n) vault, string) op" where
  "authSetup X I id' key =
     bnd (failIf (id' = []) (Err ''no auth id'')) (\<lambda>_.
     bnd (randBytes X 32) (\<lambda>mk.
     bnd (authCreate X I id' key (Some mk)) (\<lambda>_. ret mk)))"

definition authDelete :: "'z ext_scheme \<Rightarrow> 's store_ops \<Rightarrow> string \<Rightarrow> (('s, 'n) vault, bool) op" where
  "authDelete X I id' =
     bnd (failIf (id' = []) (Err ''no auth id'')) (\<lambda>_.
     let path = xPath X [''auth'', id']
     in bnd (onStore (sGet I path)) (\<lambda>b.
        if b = None then ret False
        else bnd (onStore (sDelete I path)) (\<lambda>ok.
          if \<not> ok then ret False
          else bnd (addToPush X I (xPath X [''auth'', id']) None) (\<lambda>_. ret True))))"

text \<open>\<^verbatim>\<open>convertID\<close> of \<^verbatim>\<open>vault/convert.go\<close>.\<close>

definition convertID :: "string \<Rightarrow> string" where
  "convertID id' =
     (if id' = ''#auth'' then ''v0''
      else if prefix ''#auth-'' id' then drop 6 id'
      else id')"

text \<open>The loop of \<^verbatim>\<open>authUnlock\<close>: the first entry the key opens that holds 32 bytes.\<close>

primrec tryAuths :: "'z ext_scheme \<Rightarrow> string option \<Rightarrow> entry list \<Rightarrow> string \<times> string option" where
  "tryAuths X key [] = ([], None)"
| "tryAuths X key (e # es) =
     (case decryptItem X (eData e) key [] of
        Inl _ \<Rightarrow> tryAuths X key es
      | Inr item \<Rightarrow>
          if glen (iData item) \<noteq> 32 then tryAuths X key es
          else (convertID (iID item), Some (bstr (iData item))))"

definition authUnlock ::
  "'z ext_scheme \<Rightarrow> 's store_ops \<Rightarrow> string option \<Rightarrow> (('s, 'n) vault, string \<times> string option) op" where
  "authUnlock X I key =
     bnd (onStore (sList I (Some (withPrefix (xPath X [''auth'']))))) (\<lambda>entries.
     ret (tryAuths X key entries))"

section \<open>The master key and the remote\<close>

definition remoteFor :: "'z ext_scheme \<Rightarrow> string \<Rightarrow> gobytes \<Rightarrow> remote" where
  "remoteFor X mk rsalt =
     (let seed = xHKDF X mk 32 (bstr rsalt) ''keys.pub/rk''
      in \<lparr>rmURL = None, rmKey = xEdKeyFromSeed X seed, rmSalt = rsalt\<rparr>)"

definition setAuthFromMasterKey :: "'z ext_scheme \<Rightarrow> 's store_ops \<Rightarrow> string \<Rightarrow> (('s, 'n) vault, unit) op" where
  "setAuthFromMasterKey X I mk =
     bnd (getRemoteSalt X I True) (\<lambda>rsalt.
     bnd (gets vRemote) (\<lambda>old.
     bnd (failIf (old \<noteq> None \<and> old \<noteq> Some (remoteFor X mk rsalt))
            (Err ''remote auth is different than expected'')) (\<lambda>_.
     modify (\<lambda>v. v\<lparr>vRemote := Some (remoteFor X mk rsalt)\<rparr>))))"

definition setMasterKey :: "'z ext_scheme \<Rightarrow> 's store_ops \<Rightarrow> string \<Rightarrow> (('s, 'n) vault, unit) op" where
  "setMasterKey X I mk =
     bnd (setAuthFromMasterKey X I mk) (\<lambda>_. modify (\<lambda>v. v\<lparr>vMk := Some mk\<rparr>))"

definition clearRemote :: "'z ext_scheme \<Rightarrow> 's store_ops \<Rightarrow> (('s, 'n) vault, unit) op" where
  "clearRemote X I =
     bnd (modify (\<lambda>v. v\<lparr>vRemote := None\<rparr>)) (\<lambda>_.
     bnd (setRemoteSalt X I None) (\<lambda>_.
     bnd (gets vMk) (\<lambda>mk.
     case mk of None \<Rightarrow> ret () | Some k \<Rightarrow> setAuthFromMasterKey X I k)))"

text \<open>\<^verbatim>\<open>Vault.Reset\<close>.\<close>

definition vaultReset :: "'z ext_scheme \<Rightarrow> 's store_ops \<Rightarrow> (('s, 'n) vault, unit) op" where
  "vaultReset X I =
     bnd (Status X I) (\<lambda>st.
     bnd (failIf (st = Unlocked) (Err ''failed to reset: vault is unlocked'')) (\<lambda>_.
     wrapErr ''failed to reset vault'' (onStore (sReset I))))"

section \<open>provision.go\<close>

definition NewProvision :: "'z ext_scheme \<Rightarrow> string \<Rightarrow> (('s, 'n) vault, provision) op" where
  "NewProvision X typ =
     bnd (randBytes X 32) (\<lambda>r.
     bnd (timeNow X) (\<lambda>now.
     ret \<lparr>pvID = xBase62 X r, pvType = typ, pvCreatedAt = now, pvAAGUID = [], pvSalt = None, pvNoPin = False\<rparr>))"

definition provisionSave :: "'z ext_scheme \<Rightarrow> 's store_ops \<Rightarrow> provision \<Rightarrow> (('s, 'n) vault, unit) op" where
  "provisionSave X I p =
     bnd (lift (xProvM X p)) (\<lambda>b.
     vaultSetPath X I (xPath X [''provision'', pvID p]) (Some b) True)"

definition ProvisionSave :: "'z ext_scheme \<Rightarrow> 's store_ops \<Rightarrow> provision \<Rightarrow> (('s, 'n) vault, unit) op" where
  "ProvisionSave X I p = provisionSave X I p"

definition provisionGet :: "'z ext_scheme \<Rightarrow> 's store_ops \<Rightarrow> string \<Rightarrow> (('s, 'n) vault, provision option) op" where
  "provisionGet X I id' =
     bnd (onStore (sGet I (xPath X [''provision'', id']))) (\<lambda>b.
     if glen b = 0 then ret None
     else bnd (lift (xProvU X (bstr b))) (\<lambda>p. ret (Some p)))"

definition provisionDelete :: "'z ext_scheme \<Rightarrow> 's store_ops \<Rightarrow> string \<Rightarrow> (('s, 'n) vault, bool) op" where
  "provisionDelete X I id' =
     bnd (onStore (sDelete I (xPath X [''provision'', id']))) (\<lambda>ok.
     if \<not> ok then ret False
     else bnd (addToPush X I (xPath X [''provision'', id']) None) (\<lambda>_. ret True))"

text \<open>
  \<^verbatim>\<open>sort.Slice\<close> by time; the order it gives equal times is unspecified, and the model takes
  the order of the entries.
\<close>

definition Provisions :: "'z ext_scheme \<Rightarrow> 's store_ops \<Rightarrow> (('s, 'n) vault, provision list) op" where
  "Provisions X I =
     bnd (onStore (sList I (Some (withPrefix (xPath X [''provision'']))))) (\<lambda>entries.
     bnd (collect entries (\<lambda>e. bnd (lift (xProvU X (bstr (eData e)))) (\<lambda>p. ret (Some p)))) (\<lambda>ps.
     ret (sort_key pvCreatedAt ps)))"

definition isLastAuth :: "'z ext_scheme \<Rightarrow> 's store_ops \<Rightarrow> string \<Rightarrow> (('s, 'n) vault, bool) op" where
  "isLastAuth X I id' =
     bnd (Provisions X I) (\<lambda>ps. ret (length ps = 1 \<and> pvID (hd ps) = id'))"

definition Provision :: "'z ext_scheme \<Rightarrow> 's store_ops \<Rightarrow> string option \<Rightarrow> provision option \<Rightarrow> (('s, 'n) vault, unit) op" where
  "Provision X I key p' =
     bnd (gets vMk) (\<lambda>mk.
     bnd (failIf (mk = None) ErrLocked) (\<lambda>_.
     case p' of None \<Rightarrow> fail (Err ''no provision'')
     | Some p \<Rightarrow>
         bnd (authCreate X I (pvID p) key mk) (\<lambda>_.
         provisionSave X I p)))"

definition Deprovision :: "'z ext_scheme \<Rightarrow> 's store_ops \<Rightarrow> string \<Rightarrow> bool \<Rightarrow> (('s, 'n) vault, bool) op" where
  "Deprovision X I id' force =
     bnd (isLastAuth X I id') (\<lambda>l.
     bnd (failIf (\<not> force \<and> l) (Err ''failed to deprovision: last auth'')) (\<lambda>_.
     bnd (provisionDelete X I id') (\<lambda>_.
     authDelete X I id')))"

section \<open>Setup and unlocking\<close>

definition Setup :: "'z ext_scheme \<Rightarrow> 's store_ops \<Rightarrow> string option \<Rightarrow> provision option \<Rightarrow> (('s, 'n) vault, unit) op" where
  "Setup X I key p' =
     bnd (Status X I) (\<lambda>st.
     bnd (failIf (st \<noteq> SetupNeeded) ErrAlreadySetup) (\<lambda>_.
     case p' of None \<Rightarrow> fail (Err ''no provision'')
     | Some p \<Rightarrow>
         bnd (authSetup X I (pvID p) key) (\<lambda>_.
         provisionSave X I p)))"

definition Unlock :: "'z ext_scheme \<Rightarrow> 's store_ops \<Rightarrow> string option \<Rightarrow> (('s, 'n) vault, provision) op" where
  "Unlock X I key =
     bnd (authUnlock X I key) (\<lambda>(id', mk').
     case mk' of None \<Rightarrow> fail ErrInvalidAuth
     | Some mk \<Rightarrow>
         bnd (setMasterKey X I mk) (\<lambda>_.
         bnd (provisionGet X I id') (\<lambda>p.
         ret (case p of Some q \<Rightarrow> q
              | None \<Rightarrow> \<lparr>pvID = id', pvType = UnknownAuth, pvCreatedAt = 0, pvAAGUID = [], pvSalt = None,
                         pvNoPin = False\<rparr>))))"

definition Lock :: "(('s, 'n) vault, unit) op" where
  "Lock = modify (\<lambda>v. v\<lparr>vMk := None, vRemote := None\<rparr>)"

definition UnlockWithPassword ::
  "'z ext_scheme \<Rightarrow> 's store_ops \<Rightarrow> string \<Rightarrow> bool \<Rightarrow> (('s, 'n) vault, unit) op" where
  "UnlockWithPassword X I password setup =
     bnd (failIf (password = []) (Err ''empty password'')) (\<lambda>_.
     bnd (Salt X I) (\<lambda>salt.
     bnd (lift (xKeyForPassword X password (bstr salt))) (\<lambda>key.
     bnd (if setup
          then bnd (NewProvision X PasswordAuth) (\<lambda>p. Setup X I (Some key) (Some p))
          else ret ()) (\<lambda>_.
     bnd (Unlock X I (Some key)) (\<lambda>_. ret ())))))"

end
