(* ===== verification/VaultSpec.thy ===== *)
theory VaultSpec
  imports VaultAuth
begin

text \<open>
  The abstract vault, what \<^verbatim>\<open>package vault\<close> promises: a master key, the auth methods that open
  it, their provisions and the items, with one operation per exported method, each returning
  its result or the error the code returns. \<open>vaultRep\<close> relates a vault to an abstract one
  through the contents of its store.
\<close>

section \<open>The abstract vault\<close>

record avault =
  aOpen :: bool
  aMk :: string
  aAuths :: "string \<rightharpoonup> string"
  aProvs :: "string \<rightharpoonup> provision"
  aItems :: "string \<rightharpoonup> item"

text \<open>A deleted item stays as an item without data.\<close>

definition live :: "item \<Rightarrow> bool" where
  "live item \<longleftrightarrow> bstr (iData item) \<noteq> []"

definition lookupLive :: "string \<Rightarrow> (string \<rightharpoonup> item) \<Rightarrow> item option" where
  "lookupLive i its = (case its i of None \<Rightarrow> None | Some item \<Rightarrow> if live item then Some item else None)"

definition rowIds :: "(string \<rightharpoonup> 'a) \<Rightarrow> string list" where
  "rowIds t = sorted_list_of_set (dom t)"

definition absSet :: "item \<Rightarrow> (avault, unit) op" where
  "absSet item = bnd (gets aOpen) (\<lambda>o'.
     bnd (failIf (\<not> o') ErrLocked) (\<lambda>_.
     bnd (failIf (iID item = []) (Err ''invalid id'')) (\<lambda>_.
     bnd (failIf (glen (iData item) > 32 * 1024) ErrItemValueTooLarge) (\<lambda>_.
     modify (\<lambda>A. A\<lparr>aItems := (aItems A)(iID item \<mapsto> item)\<rparr>)))))"

definition absGet :: "string \<Rightarrow> (avault, item option) op" where
  "absGet i = bnd (failIf (i = []) (Err ''empty id'')) (\<lambda>_.
     bnd (gets (\<lambda>A. (aOpen A, aItems A))) (\<lambda>(o', its).
     bnd (failIf (its i \<noteq> None \<and> \<not> o') ErrLocked) (\<lambda>_. ret (lookupLive i its))))"

definition absDelete :: "string \<Rightarrow> (avault, bool) op" where
  "absDelete i = bnd (absGet i) (\<lambda>r. case r of None \<Rightarrow> ret False
     | Some item \<Rightarrow> bnd (modify (\<lambda>A. A\<lparr>aItems := (aItems A)(i \<mapsto> item\<lparr>iData := None\<rparr>)\<rparr>)) (\<lambda>_. ret True))"

definition absItems :: "(avault, item list) op" where
  "absItems = bnd (gets (\<lambda>A. (aOpen A, aItems A))) (\<lambda>(o', its).
     bnd (failIf (its \<noteq> Map.empty \<and> \<not> o') ErrLocked) (\<lambda>_.
     ret (List.map_filter (\<lambda>i. lookupLive i its) (rowIds its))))"

definition absStatus :: "(avault, status) op" where
  "absStatus = gets (\<lambda>A. if aOpen A then Unlocked else if aAuths A = Map.empty then SetupNeeded else Locked)"

text \<open>The ids of the auths that a key opens, in order; unlocking reports the first.\<close>

definition opensWith :: "string \<Rightarrow> (string \<rightharpoonup> string) \<Rightarrow> string list" where
  "opensWith key auths = filter (\<lambda>i. auths i = Some key) (rowIds auths)"

definition bareProvision :: "string \<Rightarrow> provision" where
  "bareProvision i = \<lparr>pvID = i, pvType = UnknownAuth, pvCreatedAt = 0, pvAAGUID = [], pvSalt = None, pvNoPin = False\<rparr>"

definition absUnlock :: "string \<Rightarrow> (avault, provision) op" where
  "absUnlock key = bnd (gets (\<lambda>A. (opensWith key (aAuths A), aProvs A))) (\<lambda>(ids, ps).
     case ids of [] \<Rightarrow> fail ErrInvalidAuth
     | i # _ \<Rightarrow> bnd (modify (\<lambda>A. A\<lparr>aOpen := True\<rparr>)) (\<lambda>_.
         ret (case ps i of Some p \<Rightarrow> p | None \<Rightarrow> bareProvision i)))"

definition absLock :: "(avault, unit) op" where
  "absLock = modify (\<lambda>A. A\<lparr>aOpen := False\<rparr>)"

definition absAddAuth :: "string \<Rightarrow> provision \<Rightarrow> (avault, unit) op" where
  "absAddAuth key p = modify (\<lambda>A. A\<lparr>aAuths := (aAuths A)(pvID p \<mapsto> key), aProvs := (aProvs A)(pvID p \<mapsto> p)\<rparr>)"

definition absProvision :: "string \<Rightarrow> provision \<Rightarrow> (avault, unit) op" where
  "absProvision key p = bnd (gets aOpen) (\<lambda>o'.
     bnd (failIf (\<not> o') ErrLocked) (\<lambda>_. absAddAuth key p))"

definition absProvisions :: "(avault, provision list) op" where
  "absProvisions = gets (\<lambda>A. sort_key pvCreatedAt (List.map_filter (aProvs A) (rowIds (aProvs A))))"

definition absDeprovision :: "string \<Rightarrow> bool \<Rightarrow> (avault, bool) op" where
  "absDeprovision i force = bnd (gets (\<lambda>A. (aAuths A, aProvs A))) (\<lambda>(auths, ps).
     bnd (failIf (\<not> force \<and> rowIds ps = [i]) (Err ''failed to deprovision: last auth'')) (\<lambda>_.
     bnd (modify (\<lambda>A. A\<lparr>aAuths := auths(i := None), aProvs := ps(i := None)\<rparr>)) (\<lambda>_.
     ret (auths i \<noteq> None))))"

section \<open>Representation\<close>

definition itemRow :: "'z ext_scheme \<Rightarrow> string \<Rightarrow> string \<Rightarrow> item \<Rightarrow> string \<Rightarrow> bool" where
  "itemRow X mk i item enc \<longleftrightarrow> iID item = i \<and> glen (iData item) \<le> 32 * 1024 \<and> encOf X mk item enc"

text \<open>An auth holds the master key, under a name that converts to its id.\<close>

definition authRow :: "'z ext_scheme \<Rightarrow> string \<Rightarrow> string \<Rightarrow> string \<Rightarrow> string \<Rightarrow> bool" where
  "authRow X mk i key enc \<longleftrightarrow> length key = 32 \<and>
     (\<exists>item. encOf X key item enc \<and> bstr (iData item) = mk \<and> convertID (iID item) = i)"

definition provRow :: "'z ext_scheme \<Rightarrow> string \<Rightarrow> provision \<Rightarrow> string \<Rightarrow> bool" where
  "provRow X i p b \<longleftrightarrow> pvID p = i \<and> b \<noteq> [] \<and> xProvU X b = Inr p"

definition contRep ::
  "'z ext_scheme \<Rightarrow> int \<Rightarrow> event list \<Rightarrow> (string \<rightharpoonup> string) \<Rightarrow> avault \<Rightarrow> bool" where
  "contRep X n base m A \<longleftrightarrow>
     finite (dom m) \<and> pushOK n m \<and> logInv base m \<and> length (aMk A) = 32 \<and> m ''/sync/rsalt'' \<noteq> Some [] \<and>
     tableRep ''item'' (itemRow X (aMk A)) m (aItems A) \<and>
     tableRep ''auth'' (authRow X (aMk A)) m (aAuths A) \<and>
     tableRep ''provision'' (provRow X) m (aProvs A)"

text \<open>An open vault has a remote; a remote is the one derived from the master key and the salt.\<close>

definition remoteRep :: "'z ext_scheme \<Rightarrow> (string \<rightharpoonup> string) \<Rightarrow> remote option \<Rightarrow> avault \<Rightarrow> bool" where
  "remoteRep X m r A \<longleftrightarrow> (aOpen A \<longrightarrow> r \<noteq> None) \<and>
     (r \<noteq> None \<longrightarrow> m ''/sync/rsalt'' \<noteq> None \<and> r = Some (remoteFor X (aMk A) (m ''/sync/rsalt'')))"

definition vaultRep ::
  "'z ext_scheme \<Rightarrow> ('s \<Rightarrow> string \<Rightarrow> string option) \<Rightarrow> ('s \<Rightarrow> bool) \<Rightarrow> int \<Rightarrow> event list \<Rightarrow>
   ('s, 'n) vault \<Rightarrow> avault \<Rightarrow> bool" where
  "vaultRep X contents ready n base v A \<longleftrightarrow>
     ready (vStore v) \<and> contRep X n base (contents (vStore v)) A \<and>
     vMk v = (if aOpen A then Some (aMk A) else None) \<and>
     remoteRep X (contents (vStore v)) (vRemote v) A"

text \<open>The documented behaviour of the libraries that the vault relies on.\<close>

definition libs_ok :: "'z ext_scheme \<Rightarrow> bool" where
  "libs_ok X \<longleftrightarrow> dstore_ok X \<and> msgpack_ok X \<and> rand_ok X \<and> secretbox_ok X \<and> secretbox_auth X"

lemma libs_okD:
  "libs_ok X \<Longrightarrow> dstore_ok X" "libs_ok X \<Longrightarrow> msgpack_ok X" "libs_ok X \<Longrightarrow> rand_ok X"
  "libs_ok X \<Longrightarrow> secretbox_ok X" "libs_ok X \<Longrightarrow> secretbox_auth X"
  by (simp_all add: libs_ok_def)

lemma contRepD:
  assumes "contRep X n base m A"
  shows "finite (dom m)" "pushOK n m" "logInv base m" "length (aMk A) = 32" "m ''/sync/rsalt'' \<noteq> Some []"
    "tableRep ''item'' (itemRow X (aMk A)) m (aItems A)"
    "tableRep ''auth'' (authRow X (aMk A)) m (aAuths A)"
    "tableRep ''provision'' (provRow X) m (aProvs A)"
  using assms by (simp_all add: contRep_def)

lemma vaultRepD:
  assumes "vaultRep X contents ready n base v A"
  shows "ready (vStore v)" "contRep X n base (contents (vStore v)) A"
    "vMk v = (if aOpen A then Some (aMk A) else None)"
    "remoteRep X (contents (vStore v)) (vRemote v) A"
  using assms by (simp_all add: vaultRep_def)

lemma finite_changed: "finite (dom m) \<Longrightarrow> finite (dom (changed n cs c m))"
  by (simp add: changed_def pushed_def putInt_def finite_applyEvent)

lemma changed_rsalt [simp]: "userPath cs \<Longrightarrow> changed n cs c m ''/sync/rsalt'' = m ''/sync/rsalt''"
  using userPath_neq_sync[of cs "[''sync'', ''rsalt'']"]
  by (auto simp: changed_def pushed_def putInt_def applyEvent_def logPath_def)

lemma changed_salt [simp]: "plain i \<Longrightarrow> d \<in> {''item'', ''auth'', ''provision''} \<Longrightarrow>
    changed n [d, i] c m ''/config/salt'' = m ''/config/salt''"
  using changed_at[of "[d, i]" "[''config'', ''salt'']" n c m]
  by (auto simp: applyEvent_def userPath_def)

text \<open>
  Every local change keeps the representation, with the tables it does not touch: what
  remains to show of an operation is its own table.
\<close>

lemma contRep_changed:
  assumes rep: "contRep X n base m A" and n: "n < maxIndex" and c: "userPath cs"
    and mk: "length (aMk B) = 32"
    and tabs: "tableRep ''item'' (itemRow X (aMk B)) (changed n cs b m) (aItems B)"
      "tableRep ''auth'' (authRow X (aMk B)) (changed n cs b m) (aAuths B)"
      "tableRep ''provision'' (provRow X) (changed n cs b m) (aProvs B)"
  shows "contRep X (n + 1) base (changed n cs b m) B"
  using contRepD(1-5)[OF rep] n c mk tabs
  by (simp add: contRep_def finite_changed pushOK_changed logInv_changed)

lemma remoteRep_cong:
  "remoteRep X m r A \<Longrightarrow> m' ''/sync/rsalt'' = m ''/sync/rsalt'' \<Longrightarrow> aOpen B = aOpen A \<Longrightarrow> aMk B = aMk A \<Longrightarrow>
     remoteRep X m' r B"
  by (simp add: remoteRep_def)

lemma sameItem_live:
  assumes "sameItem a b" "live b"
  shows "a = b"
proof -
  have "bstr (iData a) \<noteq> []" "bstr (iData b) \<noteq> []" "bstr (iData a) = bstr (iData b)"
    using assms by (auto simp: sameItem_def live_def)
  then have "iData a = iData b" using bstr_nonempty[of "iData a"] bstr_nonempty[of "iData b"] by simp
  with assms(1) show ?thesis by (simp add: sameItem_def)
qed

lemma sameItem_dead: "sameItem a b \<Longrightarrow> glen (iData a) = 0 \<longleftrightarrow> \<not> live b"
  by (auto simp: sameItem_def live_def)

text \<open>Reading a row: the stored bytes decode to the item, and only under its key.\<close>

lemma decrypt_itemRow:
  assumes "libs_ok X" "length mk = 32" "itemRow X mk i item (bstr b)" "ad = [] \<or> ad = i"
  shows "\<exists>item'. decryptItem X b (Some mk) ad = Inr item' \<and> sameItem item' item"
proof -
  have enc: "encOf X mk item (bstr b)" "iID item = i" using assms(3) by (simp_all add: itemRow_def)
  have "b = Some (bstr b)" using bstr_nonempty encOf_nonempty[OF enc(1)] by simp
  with decryptItem_encOf[OF libs_okD(4)[OF assms(1)] assms(2) enc(1)] enc(2) assms(4) show ?thesis by metis
qed

lemma decrypt_authRow:
  assumes "libs_ok X" "length mk = 32" "authRow X mk i key (bstr b)"
  shows "\<exists>item. decryptItem X b (Some key) [] = Inr item \<and> bstr (iData item) = mk \<and> convertID (iID item) = i"
proof -
  obtain item where enc: "length key = 32" "encOf X key item (bstr b)" "bstr (iData item) = mk"
      "convertID (iID item) = i"
    using assms(3) unfolding authRow_def by blast
  have "b = Some (bstr b)" using bstr_nonempty encOf_nonempty[OF enc(2)] by simp
  with decryptItem_encOf[OF libs_okD(4)[OF assms(1)] enc(1,2), of "[]"] enc(3,4) show ?thesis
    by (auto simp: sameItem_def)
qed

lemma decrypt_authRow_other:
  assumes "libs_ok X" "authRow X mk i key (bstr b)" "length k = 32" "k \<noteq> key"
  shows "decryptItem X b (Some k) [] = Inl ErrInvalidAuth"
proof -
  obtain item where enc: "length key = 32" "encOf X key item (bstr b)"
    using assms(2) unfolding authRow_def by blast
  have "b = Some (bstr b)" using bstr_nonempty encOf_nonempty[OF enc(2)] by simp
  with decryptItem_wrong_key[OF libs_okD(5)[OF assms(1)] enc(1) assms(3,4) enc(2)] show ?thesis by metis
qed

end
