(* ===== verification/HttpClient.thy ===== *)
theory HttpClient
  imports Web
begin

text \<open>
  The HTTP client, \<^verbatim>\<open>http/client/client.go\<close>. The transport (\<^verbatim>\<open>net/http\<close>'s \<^verbatim>\<open>Client.Do\<close>), the
  clock and the nonces of \<^verbatim>\<open>http.NewAuthRequest\<close> act on the state of the network and are the
  operations of the record \<open>client\<close>. The progress callback of a request is left out: it only
  observes how much of the body was read.
\<close>

record request =
  rqMethod :: string
  rqPath :: string
  rqParams :: "(string \<times> string) list"
  rqBody :: string
  rqKey :: "edkey option"
  rqHeaders :: "(string \<times> string) list"

record response =
  rsData :: string
  rsCreatedAt :: gotime
  rsUpdatedAt :: gotime

type_synonym 'n http_client = "request \<Rightarrow> ('n, response option) op"

record 'n client =
  clURL :: string
  clDo :: "hreq \<Rightarrow> ('n, hresp) op"
  clNow :: "('n, gotime) op"
  clNonce :: "('n, string) op"

section \<open>Package utf8\<close>

definition byteIn :: "nat \<Rightarrow> nat \<Rightarrow> char \<Rightarrow> bool" where
  "byteIn lo hi c \<longleftrightarrow> lo \<le> of_char c \<and> of_char c \<le> hi"

fun utf8Valid :: "string \<Rightarrow> bool" where
  "utf8Valid [] = True"
| "utf8Valid (c # r) =
     (let n = of_char c :: nat
      in if n < 128 then utf8Valid r
         else if 194 \<le> n \<and> n \<le> 223 then (case r of x # r1 \<Rightarrow> byteIn 128 191 x \<and> utf8Valid r1 | _ \<Rightarrow> False)
         else if 224 \<le> n \<and> n \<le> 239 then
           (case r of x # y # r2 \<Rightarrow>
              byteIn (if n = 224 then 160 else 128) (if n = 237 then 159 else 191) x \<and> byteIn 128 191 y \<and> utf8Valid r2
            | _ \<Rightarrow> False)
         else if 240 \<le> n \<and> n \<le> 244 then
           (case r of x # y # z # r3 \<Rightarrow>
              byteIn (if n = 240 then 144 else 128) (if n = 244 then 143 else 191) x \<and> byteIn 128 191 y \<and>
              byteIn 128 191 z \<and> utf8Valid r3
            | _ \<Rightarrow> False)
         else False)"

section \<open>Requests\<close>

text \<open>The error of a response that is not a success.\<close>

definition checkResponse :: "web \<Rightarrow> hresp \<Rightarrow> err + unit" where
  "checkResponse W resp =
     (if 200 \<le> hsStatus resp \<and> hsStatus resp < 300 then Inr ()
      else let b = hsBody resp
           in if b = [] then Inl (HTTPError (hsStatus resp) [])
              else case wErrU W b of
                     Inl e \<Rightarrow> if utf8Valid b then Inl (Err b) else Inl (Err ''error response not valid utf8'')
                   | Inr m \<Rightarrow> Inl (HTTPError (hsStatus resp) (case m of None \<Rightarrow> [] | Some msg \<Rightarrow> msg)))"

definition urlFor :: "'n client \<Rightarrow> string \<Rightarrow> (string \<times> string) list \<Rightarrow> err + string" where
  "urlFor C path params =
     (if prefix ''http://'' path \<or> prefix ''https://'' path then Inl (Err ''req accepts a path, not an url'')
      else let urs = clURL C @ path; query = encodeQuery params
           in Inr (if query \<noteq> [] then urs @ ''?'' @ query else urs))"

definition headerTime :: "web \<Rightarrow> hresp \<Rightarrow> string \<Rightarrow> err + gotime" where
  "headerTime W resp name =
     (let h = headerGet (hsHeaders resp) name in if h = [] then Inr 0 else wParseTime W h)"

definition httpResponse :: "web \<Rightarrow> hresp \<Rightarrow> err + response" where
  "httpResponse W resp =
     (case headerTime W resp ''CreatedAt-RFC3339M'' of Inl e \<Rightarrow> Inl e
      | Inr createdAt \<Rightarrow>
          (case headerTime W resp ''Last-Modified-RFC3339M'' of Inl e \<Rightarrow> Inl e
           | Inr updatedAt \<Rightarrow> Inr \<lparr>rsData = hsBody resp, rsCreatedAt = createdAt, rsUpdatedAt = updatedAt\<rparr>))"

text \<open>\<^verbatim>\<open>http.NewAuthRequest\<close> or \<^verbatim>\<open>http.NewRequest\<close>.\<close>

definition newRequest :: "web \<Rightarrow> 'n client \<Rightarrow> request \<Rightarrow> string \<Rightarrow> ('n, hreq) op" where
  "newRequest W C req urs =
     (case rqKey req of
        Some key \<Rightarrow>
          bnd (clNow C) (\<lambda>now.
          bnd (clNonce C) (\<lambda>nonce.
          bnd (lift (wSign W nonce (rqMethod req) urs (wContentHash W (rqBody req)) now key)) (\<lambda>(u, auth).
          ret \<lparr>hrMethod = rqMethod req, hrURL = u, hrHeaders = [(''Authorization'', auth)], hrBody = rqBody req\<rparr>)))
      | None \<Rightarrow> ret \<lparr>hrMethod = rqMethod req, hrURL = urs, hrHeaders = [], hrBody = rqBody req\<rparr>)"

definition Request :: "web \<Rightarrow> 'n client \<Rightarrow> 'n http_client" where
  "Request W C req =
     bnd (lift (urlFor C (rqPath req) (rqParams req))) (\<lambda>urs.
     bnd (newRequest W C req urs) (\<lambda>httpReq.
     let httpReq = httpReq\<lparr>hrHeaders := foldl (\<lambda>hs (n, v). headerSet n v hs) (hrHeaders httpReq) (rqHeaders req)\<rparr>
     in bnd (clDo C httpReq) (\<lambda>resp.
        if (rqMethod req = ''GET'' \<or> rqMethod req = ''HEAD'') \<and> hsStatus resp = 404 then ret None
        else bnd (lift (checkResponse W resp)) (\<lambda>_.
             bnd (lift (httpResponse W resp)) (\<lambda>r. ret (Some r))))))"

text \<open>\<open>ctxErr\<close> gives what the context says each time it is asked: at the start of an attempt and
  while waiting for the next one.\<close>

function retryOnConflict ::
  "web \<Rightarrow> 'n client \<Rightarrow> (nat \<Rightarrow> err option) \<Rightarrow> request \<Rightarrow> nat \<Rightarrow> nat \<Rightarrow> ('n, response option) op" where
  "retryOnConflict W C ctxErr req attempt maxAttempts =
     (case ctxErr (2 * attempt) of
        Some e \<Rightarrow> fail e
      | None \<Rightarrow>
          orElse (Request W C req)
            (\<lambda>e. if attempt < maxAttempts \<and> (case cause e of HTTPError code _ \<Rightarrow> code = 409 | _ \<Rightarrow> False)
                  then case ctxErr (2 * attempt + 1) of
                         Some e' \<Rightarrow> fail e'
                       | None \<Rightarrow> retryOnConflict W C ctxErr req (attempt + 1) maxAttempts
                  else fail e)
            ret)"
  by pat_completeness auto
termination
  by (relation "measure (\<lambda>(W, C, ctxErr, req, attempt, maxAttempts). maxAttempts - attempt)") auto

declare retryOnConflict.simps [simp del]

text \<open>A request that succeeds.\<close>

lemma checkResponse_200 [simp]: "hsStatus resp = 200 \<Longrightarrow> checkResponse W resp = Inr ()"
  by (simp add: checkResponse_def)

lemma checkResponse_error:
  "web_ok X W \<Longrightarrow> 300 \<le> code \<Longrightarrow> hsStatus resp = code \<Longrightarrow> hsBody resp = wErrM W c m \<Longrightarrow>
     checkResponse W resp = Inl (HTTPError code m)"
  by (simp add: checkResponse_def web_ok_def Let_def)

end
