(* ===== verification/VaultSync.thy ===== *)
theory VaultSync
  imports VaultSpec HttpClient
begin

text \<open>
  The vault's remote side: the client of the vault API, \<^verbatim>\<open>vault/api.go\<close>, pushing and pulling,
  \<^verbatim>\<open>vault/vault.go\<close>, synchronisation, \<^verbatim>\<open>vault/sync.go\<close>, and cloning, \<^verbatim>\<open>vault/remote.go\<close>. The
  HTTP client is a parameter: \<open>R\<close> is \<^verbatim>\<open>client.Client.Request\<close> on the state of the network.
  \<^verbatim>\<open>Vault.pull\<close> is a loop that the server can keep going, so it and what calls it return an
  option, \<open>None\<close> for a run that does not end.
\<close>

section \<open>Requests\<close>

definition onNet :: "('n, 'a) op \<Rightarrow> (('s, 'n) vault, 'a) op" where
  "onNet m = zoom vNet (\<lambda>n v. v\<lparr>vNet := n\<rparr>) m"

lemma onNet_run [op_simps]: "m (vNet v) = (r, n) \<Longrightarrow> onNet m v = (r, v\<lparr>vNet := n\<rparr>)"
  by (simp add: onNet_def op_simps)

section \<open>api.go\<close>

record vevents =
  vesEvents :: "vevent list"
  vesIndex :: int
  vesTruncated :: bool

definition NewEvent :: "string \<Rightarrow> gobytes \<Rightarrow> vevent" where
  "NewEvent path b = \<lparr>evPath = path, evData = b, evRemoteIndex = 0, evRemoteTime = 0\<rparr>"

text \<open>\<^verbatim>\<open>vaultEncrypt\<close> draws a nonce.\<close>

definition vaultEncrypt :: "'z ext_scheme \<Rightarrow> string \<Rightarrow> edkey \<Rightarrow> (('s, 'n) vault, string) op" where
  "vaultEncrypt X b key = (\<lambda>v. (Inr (xBoxSeal X (vDraws v) b key), v\<lparr>vDraws := Suc (vDraws v)\<rparr>))"

definition vaultDecrypt :: "'z ext_scheme \<Rightarrow> gobytes \<Rightarrow> edkey \<Rightarrow> err + string" where
  "vaultDecrypt X b key = xBoxOpen X (bstr b) key"

definition sendData :: "'z ext_scheme \<Rightarrow> edkey \<Rightarrow> vevent \<Rightarrow> (('s, 'n) vault, gobytes option) op" where
  "sendData X key event =
     bnd (failIf (evRemoteTime event \<noteq> 0) (Err ''remote timestamp should be omitted on send'')) (\<lambda>_.
     bnd (failIf (evRemoteIndex event \<noteq> 0) (Err ''remote index should be omitted on send'')) (\<lambda>_.
     bnd (lift (xEventM X event)) (\<lambda>b.
     bnd (vaultEncrypt X b key) (\<lambda>d. ret (Some (Some d))))))"

definition VaultSend :: "'z ext_scheme \<Rightarrow> 'n http_client \<Rightarrow> edkey \<Rightarrow> vevent list \<Rightarrow> (('s, 'n) vault, unit) op" where
  "VaultSend X R key events =
     bnd (collect events (sendData X key)) (\<lambda>out.
     bnd (onNet (R \<lparr>rqMethod = ''POST'', rqPath = xPath X [''vault'', xKeyID X key], rqParams = [],
                   rqBody = xDatasM X out, rqKey = Some key, rqHeaders = []\<rparr>)) (\<lambda>_.
     ret ()))"

primrec decryptEvents :: "'z ext_scheme \<Rightarrow> edkey \<Rightarrow> aevent option list \<Rightarrow> err + vevent list" where
  "decryptEvents X key [] = Inr []"
| "decryptEvents X key (r # rs) =
     (case r of None \<Rightarrow> Inl (Panic ''nil pointer'')
      | Some revent \<Rightarrow>
          (case vaultDecrypt X (aeData revent) key of Inl e \<Rightarrow> Inl e
           | Inr decrypted \<Rightarrow>
               (case xEventU X decrypted of Inl e \<Rightarrow> Inl e
                | Inr event \<Rightarrow>
                    (case decryptEvents X key rs of Inl e \<Rightarrow> Inl e
                     | Inr out \<Rightarrow> Inr (event\<lparr>evRemoteTime := xParseMillis X (aeTs revent),
                                        evRemoteIndex := aeIndex revent\<rparr> # out)))))"

definition vaultDecryptResponse :: "'z ext_scheme \<Rightarrow> vresp \<Rightarrow> edkey \<Rightarrow> err + vevents" where
  "vaultDecryptResponse X resp key =
     (case decryptEvents X key (vrVault resp) of Inl e \<Rightarrow> Inl e
      | Inr out \<Rightarrow> Inr \<lparr>vesEvents = out, vesIndex = vrIndex resp, vesTruncated = vrTruncated resp\<rparr>)"

text \<open>\<^verbatim>\<open>Client.Vault\<close>: the events after an index, \<open>None\<close> (nil) when the vault is not found.\<close>

definition clientVault :: "'z ext_scheme \<Rightarrow> 'n http_client \<Rightarrow> edkey \<Rightarrow> int \<Rightarrow> (('s, 'n) vault, vevents option) op" where
  "clientVault X R key index =
     (let params = (if index \<noteq> 0 then [(''idx'', formatInt index)] else [])
      in bnd (onNet (R \<lparr>rqMethod = ''GET'', rqPath = xPath X [''vault'', xKeyID X key], rqParams = params,
                       rqBody = [], rqKey = Some key, rqHeaders = []\<rparr>)) (\<lambda>resp.
         case resp of None \<Rightarrow> ret None
         | Some r \<Rightarrow>
             bnd (lift (xRespU X (rsData r))) (\<lambda>out.
             bnd (lift (vaultDecryptResponse X out key)) (\<lambda>es. ret (Some es)))))"

definition VaultDelete :: "'z ext_scheme \<Rightarrow> 'n http_client \<Rightarrow> edkey \<Rightarrow> (('s, 'n) vault, unit) op" where
  "VaultDelete X R key =
     bnd (onNet (R \<lparr>rqMethod = ''DELETE'', rqPath = xPath X [''vault'', xKeyID X key], rqParams = [],
                   rqBody = [], rqKey = Some key, rqHeaders = []\<rparr>)) (\<lambda>_. ret ())"

definition VaultExists :: "'z ext_scheme \<Rightarrow> 'n http_client \<Rightarrow> edkey \<Rightarrow> (('s, 'n) vault, bool) op" where
  "VaultExists X R key =
     bnd (onNet (R \<lparr>rqMethod = ''HEAD'', rqPath = xPath X [''vault'', xKeyID X key], rqParams = [],
                   rqBody = [], rqKey = Some key, rqHeaders = []\<rparr>)) (\<lambda>resp. ret (resp \<noteq> None))"

section \<open>Push and pull\<close>

definition vaultPush :: "'z ext_scheme \<Rightarrow> 's store_ops \<Rightarrow> 'n http_client \<Rightarrow> (('s, 'n) vault, unit) op" where
  "vaultPush X I R =
     bnd (gets (\<lambda>v. (vHasClient v, vRemote v))) (\<lambda>(cl, rem).
     bnd (failIf (\<not> cl) (Err ''no vault client set'')) (\<lambda>_.
     case rem of None \<Rightarrow> fail (Err ''no remote set'')
     | Some r \<Rightarrow>
         bnd (onStore (sList I (Some (withPrefix (xPath X [''push'']))))) (\<lambda>ds.
         let paths = map ePath ds;
             events = map (\<lambda>doc. NewEvent (xPathFrom X (ePath doc) 2) (eData doc)) ds
         in if events \<noteq> []
            then bnd (VaultSend X R (rmKey r) events) (\<lambda>_. onStore (deleteAll I paths))
            else ret ())))"

text \<open>The body of the loop of \<^verbatim>\<open>saveRemoteVault\<close>: apply the event, then keep it in the pull log.\<close>

definition applyPulled :: "'s store_ops \<Rightarrow> vevent \<Rightarrow> (('s, 'n) vault, unit) op" where
  "applyPulled I event =
     (if glen (evData event) = 0
      then bnd (onStore (sDelete I (evPath event))) (\<lambda>_. ret ())
      else onStore (sSet I (evPath event) (evData event)))"

definition savePulled :: "'z ext_scheme \<Rightarrow> 's store_ops \<Rightarrow> vevent \<Rightarrow> (('s, 'n) vault, unit) op" where
  "savePulled X I event =
     bnd (failIf (evPath event = []) (Err ''invalid event (no path)'')) (\<lambda>_.
     bnd (applyPulled I event) (\<lambda>_.
     bnd (lift (pad (evRemoteIndex event))) (\<lambda>padded.
     let pull = xPath X [''pull'', padded, evPath event]
     in bnd (lift (xEventM X event)) (\<lambda>eb.
        onStore (sSet I pull (Some eb))))))"

definition saveRemoteVault :: "'z ext_scheme \<Rightarrow> 's store_ops \<Rightarrow> vevents option \<Rightarrow> (('s, 'n) vault, unit) op" where
  "saveRemoteVault X I vault' =
     (case vault' of None \<Rightarrow> fail (Err ''vault not found'')
      | Some es \<Rightarrow>
          bnd (forEach (vesEvents es) (savePulled X I)) (\<lambda>_.
          setPullIndex X I (vesIndex es)))"

definition pullNext :: "'z ext_scheme \<Rightarrow> 's store_ops \<Rightarrow> 'n http_client \<Rightarrow> (('s, 'n) vault, bool) op" where
  "pullNext X I R =
     bnd (gets (\<lambda>v. (vHasClient v, vRemote v))) (\<lambda>(cl, rem).
     bnd (failIf (\<not> cl) (Err ''no vault client set'')) (\<lambda>_.
     case rem of None \<Rightarrow> fail (Err ''no remote set'')
     | Some r \<Rightarrow>
         bnd (pullIndex I) (\<lambda>index.
         bnd (clientVault X R (rmKey r) index) (\<lambda>es.
         bnd (saveRemoteVault X I es) (\<lambda>_.
         ret (case es of None \<Rightarrow> False | Some e \<Rightarrow> vesTruncated e))))))"

partial_function (option) vaultPull ::
  "'z ext_scheme \<Rightarrow> 's store_ops \<Rightarrow> 'n http_client \<Rightarrow> ('s, 'n) vault \<Rightarrow> ((err + unit) \<times> ('s, 'n) vault) option" where
  "vaultPull X I R v =
     (case pullNext X I R v of
        (Inl e, v') \<Rightarrow> Some (Inl e, v')
      | (Inr truncated, v') \<Rightarrow> if truncated then vaultPull X I R v' else Some (Inr (), v'))"

section \<open>sync.go\<close>

text \<open>\<open>ctxErr\<close> is what \<^verbatim>\<open>ctx.Err()\<close> returns between the push and the pull.\<close>

definition Sync ::
  "'z ext_scheme \<Rightarrow> 's store_ops \<Rightarrow> 'n http_client \<Rightarrow> err option \<Rightarrow> ('s, 'n) vault \<Rightarrow> ((err + unit) \<times> ('s, 'n) vault) option" where
  "Sync X I R ctxErr v =
     (case wrapErr ''failed to push vault'' (vaultPush X I R) v of
        (Inl e, v1) \<Rightarrow> Some (Inl e, v1)
      | (Inr _, v1) \<Rightarrow>
          (case ctxErr of Some e \<Rightarrow> Some (Inl e, v1)
           | None \<Rightarrow>
               (case vaultPull X I R v1 of
                  None \<Rightarrow> None
                | Some (Inl e, v2) \<Rightarrow> Some (Inl (if isPanic e then e else Wrapped ''failed to pull vault'' e), v2)
                | Some (Inr _, v2) \<Rightarrow> Some (bnd (timeNow X) (setLastSync X I) v2))))"

record syncStatus =
  ssKID :: string
  ssSalt :: gobytes
  ssSyncedAt :: gotime

definition SyncStatus :: "'z ext_scheme \<Rightarrow> 's store_ops \<Rightarrow> (('s, 'n) vault, syncStatus option) op" where
  "SyncStatus X I =
     bnd (lastSync X I) (\<lambda>l.
     if l = 0 then ret None
     else bnd (gets vRemote) (\<lambda>rem.
       case rem of None \<Rightarrow> ret None
       | Some r \<Rightarrow> ret (Some \<lparr>ssKID = xKeyID X (rmKey r), ssSalt = rmSalt r, ssSyncedAt = l\<rparr>)))"

text \<open>One round of each loop of \<^verbatim>\<open>resetLog\<close>, with the running index.\<close>

primrec pushToEnd :: "'z ext_scheme \<Rightarrow> 's store_ops \<Rightarrow> int \<Rightarrow> entry list \<Rightarrow> (('s, 'n) vault, unit) op" where
  "pushToEnd X I index [] = ret ()"
| "pushToEnd X I index (doc # docs) =
     bnd (lift (pad (i64 (index + 1)))) (\<lambda>padded.
     bnd (onStore (sSet I (xPath X [''push'', padded, xPathFrom X (ePath doc) 2]) (eData doc))) (\<lambda>_.
     pushToEnd X I (i64 (index + 1)) docs))"

primrec pullToPush :: "'z ext_scheme \<Rightarrow> 's store_ops \<Rightarrow> int \<Rightarrow> entry list \<Rightarrow> (('s, 'n) vault, unit) op" where
  "pullToPush X I index [] = ret ()"
| "pullToPush X I index (doc # docs) =
     bnd (lift (xApiEventU X (bstr (eData doc)))) (\<lambda>event.
     bnd (lift (pad (i64 (index + 1)))) (\<lambda>padded.
     bnd (onStore (sSet I (xPath X [''push'', padded, xPathFrom X (ePath doc) 2]) (aeData event))) (\<lambda>_.
     bnd (onStore (sDelete I (ePath doc))) (\<lambda>_.
     pullToPush X I (i64 (index + 1)) docs))))"

definition resetLog :: "'z ext_scheme \<Rightarrow> 's store_ops \<Rightarrow> (('s, 'n) vault, unit) op" where
  "resetLog X I =
     bnd (onStore (sList I (Some (withPrefix (xPath X [''push'']))))) (\<lambda>push.
     bnd (onStore (sList I (Some (withPrefix (xPath X [''pull'']))))) (\<lambda>pull.
     if length pull = 0 then ret ()
     else bnd (setPushIndex X I (int (length pull + length push))) (\<lambda>_.
       bnd (pushToEnd X I (int (length pull)) push) (\<lambda>_.
       pullToPush X I 0 pull))))"

definition Unsync :: "'z ext_scheme \<Rightarrow> 's store_ops \<Rightarrow> 'n http_client \<Rightarrow> (('s, 'n) vault, unit) op" where
  "Unsync X I R =
     bnd (gets (\<lambda>v. (vRemote v, vMk v, vHasClient v))) (\<lambda>(rem, mk, cl).
     case rem of None \<Rightarrow> fail (Err ''no remote set'')
     | Some r \<Rightarrow>
         bnd (failIf (mk = None) (Err ''vault is locked'')) (\<lambda>_.
         bnd (failIf (\<not> cl) (Panic ''nil pointer'')) (\<lambda>_.
         bnd (VaultDelete X R (rmKey r)) (\<lambda>_.
         bnd (resetLog X I) (\<lambda>_.
         bnd (setLastSync X I 0) (\<lambda>_.
         bnd (setPullIndex X I 0) (\<lambda>_.
         clearRemote X I)))))))"

definition SyncEnabled :: "'z ext_scheme \<Rightarrow> 's store_ops \<Rightarrow> (('s, 'n) vault, bool) op" where
  "SyncEnabled X I =
     bnd (autoSyncDisabled I) (\<lambda>disabled.
     if disabled then ret False
     else bnd (lastSync X I) (\<lambda>l. ret (l \<noteq> 0)))"

definition shouldCheck :: "'z ext_scheme \<Rightarrow> 's store_ops \<Rightarrow> duration \<Rightarrow> (('s, 'n) vault, bool) op" where
  "shouldCheck X I expire =
     bnd (SyncEnabled X I) (\<lambda>enabled.
     if \<not> enabled then ret False
     else bnd (clockNow X) (\<lambda>now.
       bnd (gets vCheckedAt) (\<lambda>checkedAt.
       let diffCheck = timeSub now checkedAt
       in if diffCheck \<ge> 0 \<and> diffCheck < expire then ret False
          else bnd (clockNow X) (\<lambda>now'.
            bnd (modify (\<lambda>v. v\<lparr>vCheckedAt := now'\<rparr>)) (\<lambda>_.
            bnd (lastSync X I) (\<lambda>l.
            bnd (clockNow X) (\<lambda>now''.
            let diffLast = timeSub now'' l
            in ret (\<not> (diffLast \<ge> 0 \<and> diffLast < expire)))))))))"

definition CheckSync ::
  "'z ext_scheme \<Rightarrow> 's store_ops \<Rightarrow> 'n http_client \<Rightarrow> err option \<Rightarrow> duration \<Rightarrow> ('s, 'n) vault \<Rightarrow>
   ((err + bool) \<times> ('s, 'n) vault) option" where
  "CheckSync X I R ctxErr expire v =
     (case shouldCheck X I expire v of
        (Inl e, v1) \<Rightarrow> Some (Inl e, v1)
      | (Inr enabled, v1) \<Rightarrow>
          if \<not> enabled then Some (Inr False, v1)
          else (case Sync X I R ctxErr v1 of
                  None \<Rightarrow> None
                | Some (Inl e, v2) \<Rightarrow> Some (Inl e, v2)
                | Some (Inr _, v2) \<Rightarrow> Some (Inr True, v2)))"

section \<open>remote.go\<close>

definition NewRemote :: "string option \<Rightarrow> edkey \<Rightarrow> gobytes \<Rightarrow> remote" where
  "NewRemote url key salt = \<lparr>rmURL = url, rmKey = key, rmSalt = salt\<rparr>"

definition Clone :: "'z ext_scheme \<Rightarrow> 's store_ops \<Rightarrow> 'n http_client \<Rightarrow> remote option \<Rightarrow> (('s, 'n) vault, unit) op" where
  "Clone X I R remote' =
     (case remote' of None \<Rightarrow> fail (Err ''nil remote'')
      | Some r \<Rightarrow>
          bnd (failIf (rmURL r \<noteq> None) (Err ''url not supported'')) (\<lambda>_.
          bnd (gets vHasClient) (\<lambda>cl.
          bnd (failIf (\<not> cl) (Err ''no vault client set'')) (\<lambda>_.
          bnd (vaultIsEmpty I) (\<lambda>empty.
          bnd (failIf (\<not> empty) (Err ''vault not empty, can only be initialized if empty'')) (\<lambda>_.
          bnd (failIf (glen (rmSalt r) = 0) (Err ''no remote salt'')) (\<lambda>_.
          bnd (clientVault X R (rmKey r) 0) (\<lambda>events.
          bnd (setRemoteSalt X I (rmSalt r)) (\<lambda>_.
          bnd (saveRemoteVault X I events) (\<lambda>_.
          bnd (timeNow X) (\<lambda>now.
          bnd (setLastSync X I now) (\<lambda>_.
          modify (\<lambda>v. v\<lparr>vRemote := Some r\<rparr>)))))))))))))"

end
