(* ===== verification/SyncSpec.thy ===== *)
theory SyncSpec
  imports VaultSync
begin

text \<open>
  What synchronisation relies on and what it keeps. The locale \<open>vault_server\<close> is the contract
  of the remote: per vault id an append-only list of encrypted events, listed in pages from an
  index. \<open>syncRep\<close> is the invariant of a vault's store with respect to the events it has
  pulled, and \<open>dataIs\<close> says that the user data are what a list of events gives.
\<close>

section \<open>The contract of the remote\<close>

definition vaultReq :: "'z ext_scheme \<Rightarrow> string \<Rightarrow> edkey \<Rightarrow> (string \<times> string) list \<Rightarrow> string \<Rightarrow> request" where
  "vaultReq X method k params body =
     \<lparr>rqMethod = method, rqPath = xPath X [''vault'', xKeyID X k], rqParams = params, rqBody = body, rqKey = Some k, rqHeaders = []\<rparr>"

definition idxParams :: "int \<Rightarrow> (string \<times> string) list" where
  "idxParams index = (if index \<noteq> 0 then [(''idx'', formatInt index)] else [])"

locale vault_server =
  fixes X :: "'z ext_scheme"
    and R :: "'n http_client"
    and okKey :: "edkey \<Rightarrow> bool"
    and up :: "'n \<Rightarrow> bool"
    and blobs :: "string \<Rightarrow> 'n \<Rightarrow> gobytes list"
    and gone :: "string \<Rightarrow> 'n \<Rightarrow> bool"
  assumes post_ok: "up n \<Longrightarrow> okKey k \<Longrightarrow> \<not> gone (xKeyID X k) n \<Longrightarrow> ds \<noteq> [] \<Longrightarrow> list_all (\<lambda>d. bstr d \<noteq> []) ds \<Longrightarrow>
      int (length (blobs (xKeyID X k) n) + length ds) \<le> maxIndex \<Longrightarrow> int64_ok (int (totalLen ds)) \<Longrightarrow>
      \<exists>resp n'. R (vaultReq X ''POST'' k [] (xDatasM X ds)) n = (Inr resp, n') \<and> up n' \<and>
        (\<forall>i. blobs i n' = (if i = xKeyID X k then blobs i n @ ds else blobs i n)) \<and> (\<forall>i. gone i n' = gone i n)"
    and get_none: "up n \<Longrightarrow> okKey k \<Longrightarrow> \<not> gone (xKeyID X k) n \<Longrightarrow> blobs (xKeyID X k) n = [] \<Longrightarrow>
      \<exists>n'. R (vaultReq X ''GET'' k [] []) n = (Inr None, n') \<and> up n' \<and> (\<forall>q. blobs q n' = blobs q n) \<and> (\<forall>q. gone q n' = gone q n)"
    and get_page: "up n \<Longrightarrow> okKey k \<Longrightarrow> \<not> gone (xKeyID X k) n \<Longrightarrow> blobs (xKeyID X k) n \<noteq> [] \<Longrightarrow>
      i \<le> length (blobs (xKeyID X k) n) \<Longrightarrow> int i \<le> maxIndex \<Longrightarrow>
      \<exists>resp r j n'. R (vaultReq X ''GET'' k (idxParams (int i)) []) n = (Inr (Some resp), n') \<and>
        rsData resp = xRespM X r \<and> isPage (blobs (xKeyID X k) n) i j r \<and>
        up n' \<and> (\<forall>q. blobs q n' = blobs q n) \<and> (\<forall>q. gone q n' = gone q n)"
    and remove_ok: "up n \<Longrightarrow> okKey k \<Longrightarrow> \<not> gone (xKeyID X k) n \<Longrightarrow> blobs (xKeyID X k) n \<noteq> [] \<Longrightarrow>
      \<exists>resp n'. R (vaultReq X ''DELETE'' k [] []) n = (Inr resp, n') \<and> up n' \<and> gone (xKeyID X k) n'"
    and gone_post: "up n \<Longrightarrow> okKey k \<Longrightarrow> gone (xKeyID X k) n \<Longrightarrow>
      \<exists>e n'. R (vaultReq X ''POST'' k [] body) n = (Inl e, n') \<and> up n' \<and> (\<forall>q. blobs q n' = blobs q n) \<and> (\<forall>q. gone q n' = gone q n)"
    and gone_get: "up n \<Longrightarrow> okKey k \<Longrightarrow> gone (xKeyID X k) n \<Longrightarrow>
      \<exists>n'. R (vaultReq X ''GET'' k (idxParams j) []) n = (Inr None, n') \<and> up n' \<and> (\<forall>q. blobs q n' = blobs q n) \<and> (\<forall>q. gone q n' = gone q n)"

section \<open>Events of the remote\<close>

text \<open>The sealed forms of events, and the bound on what is sent in one request: the total size
  is an int64 on the server.\<close>

definition sealedAs :: "'z ext_scheme \<Rightarrow> edkey \<Rightarrow> gobytes \<Rightarrow> event \<Rightarrow> bool" where
  "sealedAs X k b e \<longleftrightarrow> (\<exists>r m pe. b = Some (xBoxSeal X r m k) \<and> xEventM X pe = Inr m \<and> (evPath pe, bstr (evData pe)) = e)"

definition sendFits :: "'z ext_scheme \<Rightarrow> edkey \<Rightarrow> event list \<Rightarrow> bool" where
  "sendFits X k es \<longleftrightarrow> (\<forall>bs. list_all2 (sealedAs X k) bs es \<longrightarrow> int64_ok (int (totalLen bs)))"

lemma sendFits_Nil [simp]: "sendFits X k []"
  by (simp add: sendFits_def totalLen_def int64_ok_def)

definition blobEvent :: "'z ext_scheme \<Rightarrow> edkey \<Rightarrow> gobytes \<Rightarrow> event option" where
  "blobEvent X k b = (case xBoxOpen X (bstr b) k of Inl e \<Rightarrow> None
     | Inr d \<Rightarrow> (case xEventU X d of Inl e \<Rightarrow> None | Inr e \<Rightarrow> Some (evPath e, bstr (evData e))))"

definition serverLog :: "'z ext_scheme \<Rightarrow> edkey \<Rightarrow> gobytes list \<Rightarrow> event list \<Rightarrow> bool" where
  "serverLog X k bs evs \<longleftrightarrow> map (blobEvent X k) bs = map Some evs"

definition evOf :: "vevent \<Rightarrow> event" where
  "evOf e = (evPath e, bstr (evData e))"

lemma serverLog_append: "serverLog X k bs evs \<Longrightarrow> serverLog X k ds fs \<Longrightarrow> serverLog X k (bs @ ds) (evs @ fs)"
  by (simp add: serverLog_def)

lemma serverLog_length: "serverLog X k bs evs \<Longrightarrow> length bs = length evs"
  unfolding serverLog_def by (drule arg_cong[where f = length]) simp

lemma serverLog_nth: "serverLog X k bs evs \<Longrightarrow> t < length bs \<Longrightarrow> blobEvent X k (bs ! t) = Some (evs ! t)"
proof -
  assume s: "serverLog X k bs evs" and t: "t < length bs"
  then have "map (blobEvent X k) bs ! t = map Some evs ! t" by (simp add: serverLog_def)
  with t serverLog_length[OF s] show ?thesis by simp
qed

section \<open>User data\<close>

definition dataIs :: "(string \<rightharpoonup> string) \<Rightarrow> event list \<Rightarrow> bool" where
  "dataIs m es \<longleftrightarrow> (\<forall>cs. userPath cs \<longrightarrow> m (canon cs) = replay es Map.empty (canon cs))"

lemma logInv_dataIs: "logInv base m \<longleftrightarrow> list_all userEvent (base @ pendEvents m) \<and> dataIs m (base @ pendEvents m)"
  by (simp add: logInv_def dataIs_def)

lemma dataIs_cong: "(\<And>cs. userPath cs \<Longrightarrow> m' (canon cs) = m (canon cs)) \<Longrightarrow> dataIs m es \<Longrightarrow> dataIs m' es"
  by (simp add: dataIs_def)

lemma dataIs_apply: "dataIs m es \<Longrightarrow> dataIs (applyEvent e m) (es @ [e])"
  by (simp add: dataIs_def applyEvent_at)

text \<open>The directories of the tables hold nothing but rows.\<close>

definition cleanDirs :: "(string \<rightharpoonup> string) \<Rightarrow> bool" where
  "cleanDirs m \<longleftrightarrow> (\<forall>c p. tableDir c \<longrightarrow> p \<in> dom m \<longrightarrow> prefix (canon [c]) p \<longrightarrow> (\<exists>i. plain i \<and> p = rowPath c i))"

lemma userPath_cases:
  assumes "userPath cs"
  obtains c i where "tableDir c" "plain i" "canon cs = rowPath c i" | "canon cs = ''/config/salt''"
proof -
  have "cs = [''config'', ''salt''] \<or> (\<exists>c i. cs = [c, i] \<and> tableDir c \<and> plain i)"
    using assms by (auto simp: userPath_def tableDir_def length_Suc_conv numeral_2_eq_2)
  then show thesis using that by (auto simp: rowPath_def)
qed

lemma tableDir_neq_prefix: "tableDir c \<Longrightarrow> tableDir d \<Longrightarrow> prefix (canon [c]) (rowPath d i) \<Longrightarrow> c = d"
  by (auto simp: tableDir_def rowPath_def)

lemma cleanDirs_apply:
  assumes "cleanDirs m" "userEvent e"
  shows "cleanDirs (applyEvent e m)"
proof -
  obtain cs where cs: "userPath cs" "fst e = canon cs" using assms(2) by (auto simp: userEvent_def)
  have "\<exists>i. plain i \<and> p = rowPath c i"
    if p: "tableDir c" "p \<in> dom (applyEvent e m)" "prefix (canon [c]) p" for c p
  proof (cases "p = fst e")
    case False
    with p assms(1) show ?thesis
      unfolding cleanDirs_def by (auto simp: applyEvent_at domIff)
  next
    case True
    show ?thesis
      using cs(1)
    proof (cases rule: userPath_cases)
      case (1 d i)
      with True cs(2) p tableDir_neq_prefix[of c d i] show ?thesis by auto
    next
      case 2
      with True cs(2) p(1,3) show ?thesis by (auto simp: tableDir_def)
    qed
  qed
  then show ?thesis unfolding cleanDirs_def by blast
qed

lemma cleanDirs_other:
  assumes "cleanDirs m" "\<And>c. tableDir c \<Longrightarrow> \<not> prefix (canon [c]) p"
  shows "cleanDirs (m(p := x))"
  unfolding cleanDirs_def
proof (intro allI impI)
  fix c q assume q: "tableDir c" "q \<in> dom (m(p := x))" "prefix (canon [c]) q"
  then have "q \<noteq> p" using assms(2) by blast
  with q(2) have "q \<in> dom m" by (simp add: domIff split: if_splits)
  with q assms(1) show "\<exists>i. plain i \<and> q = rowPath c i" unfolding cleanDirs_def by blast
qed

lemma cleanDirs_restrict: "cleanDirs m \<Longrightarrow> cleanDirs (m |` S)"
  unfolding cleanDirs_def by auto

lemma cleanDirs_replay: "cleanDirs m \<Longrightarrow> list_all userEvent es \<Longrightarrow> cleanDirs (replay es m)"
  by (induction es arbitrary: m) (simp_all add: cleanDirs_apply)

lemma cleanDirs_empty [simp]: "cleanDirs Map.empty"
  by (simp add: cleanDirs_def)

lemma tableRep_clean:
  assumes "tableRep ''item'' P m t" "tableRep ''auth'' Q m u" "tableRep ''provision'' S m w"
  shows "cleanDirs m"
  unfolding cleanDirs_def tableDir_def
  using tableRep_path[OF assms(1)] tableRep_path[OF assms(2)] tableRep_path[OF assms(3)] by blast

text \<open>Two clean contents with the same user data hold the same tables.\<close>

lemma tableRep_transfer:
  assumes "tableRep c P m t" "tableDir c" "cleanDirs m'" "\<And>i. plain i \<Longrightarrow> m' (rowPath c i) = m (rowPath c i)"
  shows "tableRep c P m' t"
proof (rule tableRepI)
  show "\<exists>i. plain i \<and> p = rowPath c i" if "p \<in> dom m'" "prefix (canon [c]) p" for p
    using assms(2,3) that unfolding cleanDirs_def by blast
  show "m' (rowPath c i) = None" if "t i = None" "plain i" for i
    using assms(4) tableRep_None[OF assms(1) that] that(2) by simp
  show "plain i \<and> (\<exists>b. m' (rowPath c i) = Some b \<and> P i x b)" if "t i = Some x" for i x
    using tableRep_Some[OF assms(1) that] assms(4) by auto
qed

lemma dataIs_rows: "dataIs m es \<Longrightarrow> tableDir c \<Longrightarrow> plain i \<Longrightarrow> m (rowPath c i) = replay es Map.empty (rowPath c i)"
  using tableDir_userPath[of c i] unfolding dataIs_def rowPath_def by blast

section \<open>The pull log\<close>

definition pullEvents :: "'z ext_scheme \<Rightarrow> (string \<rightharpoonup> string) \<Rightarrow> event list" where
  "pullEvents X m = map (\<lambda>p. (unlog p, case xApiEventU X (the (m p)) of Inl e \<Rightarrow> [] | Inr a \<Rightarrow> bstr (aeData a)))
     (keysWith ''/pull'' m)"

text \<open>
  The invariant of the store of a vault that has pulled \<open>base\<close>: the pull index and the pull
  log say so, the pending log is in order, the tables hold rows only.
\<close>

definition syncRep :: "'z ext_scheme \<Rightarrow> int \<Rightarrow> event list \<Rightarrow> (string \<rightharpoonup> string) \<Rightarrow> bool" where
  "syncRep X n base m \<longleftrightarrow> finite (dom m) \<and> pushOK n m \<and> cleanDirs m \<and>
     intOf m ''/sync/pull'' = Some (int (length base)) \<and> logOK ''pull'' (int (length base)) m \<and>
     pullEvents X m = base \<and> list_all userEvent base \<and> int (length base) \<le> maxIndex"

lemma syncRepD:
  assumes "syncRep X n base m"
  shows "finite (dom m)" "pushOK n m" "cleanDirs m" "intOf m ''/sync/pull'' = Some (int (length base))"
    "logOK ''pull'' (int (length base)) m" "pullEvents X m = base" "list_all userEvent base"
    "int (length base) \<le> maxIndex"
  using assms by (simp_all add: syncRep_def)

lemma pullEvents_other: "\<not> prefix ''/pull'' p \<Longrightarrow> finite (dom m) \<Longrightarrow> pullEvents X (m(p := x)) = pullEvents X m"
proof -
  assume a: "\<not> prefix ''/pull'' p" "finite (dom m)"
  have "keysWith ''/pull'' (m(p := x)) = keysWith ''/pull'' m"
    using a by (cases x) (simp_all add: keysWith_update_other keysWith_delete_other)
  moreover have "q \<noteq> p" if "q \<in> set (keysWith ''/pull'' m)" for q using that a by auto
  ultimately show ?thesis by (simp add: pullEvents_def)
qed

lemma pullEvents_apply: "userEvent e \<Longrightarrow> finite (dom m) \<Longrightarrow> pullEvents X (applyEvent e m) = pullEvents X m"
  by (auto simp: applyEvent_def userEvent_def pullEvents_other)

lemma pendEvents_apply: "userEvent e \<Longrightarrow> finite (dom m) \<Longrightarrow> pendEvents (applyEvent e m) = pendEvents m"
  by (auto simp: applyEvent_def userEvent_def pendEvents_other)

text \<open>An event saved in the pull log under the next index comes last.\<close>

lemma pullEvents_saved:
  assumes fin: "finite (dom m)" and ok: "logOK ''pull'' n m" and n: "0 \<le> n" "n < maxIndex" and cs: "plains cs"
    and eb: "xApiEventU X eb = Inr a"
  shows "pullEvents X (m(logPath ''pull'' (n + 1) cs \<mapsto> eb)) = pullEvents X m @ [(canon cs, bstr (aeData a))]"
proof -
  have below: "q < logPath ''pull'' (n + 1) cs" if q: "q \<in> dom m" "prefix ''/pull'' q" for q
  proof -
    obtain i ds where "q = logPath ''pull'' i ds" "0 < i" "i \<le> n"
      using ok q unfolding logOK_def by fastforce
    then show ?thesis using logPath_less[of i "n + 1"] n(2) by simp
  qed
  have keys: "keysWith ''/pull'' (m(logPath ''pull'' (n + 1) cs \<mapsto> eb)) = keysWith ''/pull'' m @ [logPath ''pull'' (n + 1) cs]"
    by (rule keysWith_append[OF fin logPath_prefix(2) below])
  have "q \<noteq> logPath ''pull'' (n + 1) cs" if "q \<in> set (keysWith ''/pull'' m)" for q
    using below[of q] that fin by auto
  with n eb show ?thesis by (simp add: pullEvents_def keys)
qed

text \<open>
  A vault ready to synchronise: it has pulled \<open>base\<close>, a prefix of the remote's events \<open>evs\<close>,
  and has its changes since in the pending log.
\<close>

definition syncable ::
  "'z ext_scheme \<Rightarrow> ('s \<Rightarrow> string \<Rightarrow> string option) \<Rightarrow> ('s \<Rightarrow> bool) \<Rightarrow> (edkey \<Rightarrow> bool) \<Rightarrow> ('n \<Rightarrow> bool) \<Rightarrow>
   (string \<Rightarrow> 'n \<Rightarrow> gobytes list) \<Rightarrow> (string \<Rightarrow> 'n \<Rightarrow> bool) \<Rightarrow>
   edkey \<Rightarrow> int \<Rightarrow> event list \<Rightarrow> event list \<Rightarrow> ('s, 'n) vault \<Rightarrow> bool" where
  "syncable X contents ready okKey up blobs gone k n base evs v \<longleftrightarrow>
     ready (vStore v) \<and> vHasClient v \<and> (\<exists>r. vRemote v = Some r \<and> rmKey r = k) \<and> okKey k \<and> up (vNet v) \<and>
     \<not> gone (xKeyID X k) (vNet v) \<and> serverLog X k (blobs (xKeyID X k) (vNet v)) evs \<and> list_all userEvent evs \<and>
     (\<exists>rest. evs = base @ rest) \<and> syncRep X n base (contents (vStore v)) \<and> logInv base (contents (vStore v)) \<and>
     n \<le> maxIndex \<and> int (length evs + length (pendEvents (contents (vStore v)))) \<le> maxIndex \<and>
     sendFits X k (pendEvents (contents (vStore v)))"

end
