(* ===== verification/Loopback.thy ===== *)
theory Loopback
  imports ServerProofs SyncSpec
begin

text \<open>
  Client and server connected: a network that delivers the client's requests to the server's
  handler, as the repository's tests do with \<^verbatim>\<open>httptest\<close>. Over it the HTTP client provides the
  contract \<open>vault_server\<close> that synchronisation relies on (\<open>loopback_server\<close>).
\<close>

record ('f, 'r) net =
  ntServer :: "('f, 'r) server"
  ntClock :: nat
  ntDraws :: nat

definition netDo ::
  "'z ext_scheme \<Rightarrow> web \<Rightarrow> ('f, 'r) env \<Rightarrow> (route \<Rightarrow> ('f, 'r) handler) \<Rightarrow> hreq \<Rightarrow> (('f, 'r) net, hresp) op" where
  "netDo X W V other req n =
     (if \<not> prefix (enURL V) (hrURL req) then (Inl (LibErr ''no such host''), n)
      else case serveHTTP X W V other (req\<lparr>hrURL := drop (length (enURL V)) (hrURL req)\<rparr>) (ntServer n) of
             (Inl e, s) \<Rightarrow> (Inl (LibErr ''EOF''), n\<lparr>ntServer := s\<rparr>)
           | (Inr resp, s) \<Rightarrow> (Inr (if hrMethod req = ''HEAD'' then resp\<lparr>hsBody := []\<rparr> else resp), n\<lparr>ntServer := s\<rparr>))"

definition netClient ::
  "'z ext_scheme \<Rightarrow> web \<Rightarrow> ('f, 'r) env \<Rightarrow> (route \<Rightarrow> ('f, 'r) handler) \<Rightarrow> (nat \<Rightarrow> gotime) \<Rightarrow> ('f, 'r) net client" where
  "netClient X W V other clk =
     \<lparr>clURL = enURL V, clDo = netDo X W V other,
      clNow = (\<lambda>n. (Inr (clk (ntClock n)), n\<lparr>ntClock := Suc (ntClock n)\<rparr>)),
      clNonce = (\<lambda>n. (Inr (wNonce W (ntDraws n)), n\<lparr>ntDraws := Suc (ntDraws n)\<rparr>))\<rparr>"

text \<open>The route of a vault request.\<close>

definition vaultRoute :: "string \<Rightarrow> route option" where
  "vaultRoute m = map_of [(''POST'', PostVault), (''GET'', ListVault), (''DELETE'', DeleteVault), (''HEAD'', HeadVault)] m"

lemma vaultRoute_cases:
  assumes "vaultRoute m = Some r"
  shows "(m, r) \<in> {(''POST'', PostVault), (''GET'', ListVault), (''DELETE'', DeleteVault), (''HEAD'', HeadVault)}"
  using assms by (auto simp: vaultRoute_def split: if_splits)

lemma pattern_vault: "pattern ''/vault/:vid'' = [''vault'', '':vid'']"
  by (simp add: pattern_def)

definition matches :: "string list \<Rightarrow> string \<Rightarrow> bool" where
  "matches cs p \<longleftrightarrow> (let ps = pattern p in literal ps \<and> matchComps ps cs \<noteq> None)"

lemma routes_literal:
  assumes "(m, p, r) \<in> set AddRoutes" "matches [''vault'', kid] p"
  shows "p = ''/vault/:vid''"
proof -
  have "list_all (\<lambda>(m, p, r). matches [''vault'', kid] p \<longrightarrow> p = ''/vault/:vid'') AddRoutes"
    unfolding AddRoutes_def
    by (simp only: list.pred_inject prod.case matches_def pattern_def Let_def) (simp add: literal_def)
  with assms show ?thesis by (auto simp: list_all_iff)
qed

lemma route_vault:
  assumes W: "route_ok W" and kid: "plain kid" and m: "vaultRoute m = Some r"
  shows "\<exists>i. wRoute W (map (\<lambda>(m, p, _). (m, p)) AddRoutes) m (canon [''vault'', kid]) = Some (i, [(''vid'', kid)]) \<and>
    snd (snd (AddRoutes ! i)) = r"
proof -
  let ?t = "map (\<lambda>(m, p, _). (m, p)) AddRoutes"
  define i where "i = (if m = ''POST'' then 8 else if m = ''GET'' then 9 else if m = ''DELETE'' then 10 else 11 :: nat)"
  have i: "i < length ?t" "?t ! i = (m, ''/vault/:vid'')" "snd (snd (AddRoutes ! i)) = r"
    using vaultRoute_cases[OF m] by (auto simp: i_def AddRoutes_def)
  have uniq: "matchComps (pattern (snd (?t ! j))) [''vault'', kid] = None"
    if j: "j < length ?t" "j \<noteq> i" "fst (?t ! j) = m" "literal (pattern (snd (?t ! j)))" for j
  proof (rule ccontr)
    assume c: "\<not> ?thesis"
    obtain m' p' r' where e: "AddRoutes ! j = (m', p', r')" using prod_cases3 by blast
    with j(1,3,4) c have "(m, p', r') \<in> set AddRoutes" "matches [''vault'', kid] p'"
      using nth_mem[of j AddRoutes] by (auto simp: matches_def)
    then have "p' = ''/vault/:vid''" using routes_literal by blast
    then have "?t ! j = (m, ''/vault/:vid'')" using e j(1,3) by simp
    moreover have "distinct ?t" by (simp add: AddRoutes_def)
    ultimately show False using i(1,2) j(1,2) nth_eq_iff_index_eq by metis
  qed
  have "plains [''vault'', kid]" using kid by (simp add: plain_def)
  then have "wRoute W ?t m (canon [''vault'', kid]) = Some (i, [(''vid'', kid)])"
    using uniq by (intro route_okD[OF W i(1,2)]) (simp_all add: pattern_vault literal_def del: canon.simps)
  with i(3) show ?thesis by blast
qed

text \<open>Keys whose id is a component of a URL path, and the state of the network: the server is in
  order, and the nonces still to be drawn are new to it.\<close>

definition keyOk :: "'z ext_scheme \<Rightarrow> edkey \<Rightarrow> bool" where
  "keyOk X k \<longleftrightarrow> xKeyID X k \<noteq> [] \<and> list_all unreserved (xKeyID X k)"

definition networkUp ::
  "web \<Rightarrow> ('f \<Rightarrow> string \<Rightarrow> fields list) \<Rightarrow> ('f \<Rightarrow> string \<Rightarrow> bool) \<Rightarrow> ('f \<Rightarrow> bool) \<Rightarrow> ('r \<Rightarrow> string \<Rightarrow> bool) \<Rightarrow> ('f, 'r) net \<Rightarrow> bool" where
  "networkUp W fevents fdocs fready used n \<longleftrightarrow> serverInv fevents fdocs fready (ntServer n) \<and>
     (\<forall>i \<ge> ntDraws n. \<not> used (srvRedis (ntServer n)) (wNonce W i))"

definition networkBlobs :: "web \<Rightarrow> ('f \<Rightarrow> string \<Rightarrow> fields list) \<Rightarrow> string \<Rightarrow> ('f, 'r) net \<Rightarrow> gobytes list" where
  "networkBlobs W fevents kid n = serverBlobs W fevents kid (ntServer n)"

definition networkGone :: "('f \<Rightarrow> string \<Rightarrow> bool) \<Rightarrow> string \<Rightarrow> ('f, 'r) net \<Rightarrow> bool" where
  "networkGone fdocs kid n = serverGone fdocs kid (ntServer n)"

text \<open>The contract of a client and a server with clocks that agree to a minute.\<close>

locale loopback = vault_service V fevents fdocs fready used X W
  for V :: "('f, 'r) env" and fevents :: "'f \<Rightarrow> string \<Rightarrow> fields list" and fdocs fready
    and used :: "'r \<Rightarrow> string \<Rightarrow> bool" and X :: "'z ext_scheme" and W +
  fixes other :: "route \<Rightarrow> ('f, 'r) handler" and clk :: "nat \<Rightarrow> gotime"
  assumes sign: "sign_ok W" and route: "route_ok W" and nonces: "inj (wNonce W)"
    and clocks: "\<bar>enClock V i - clk j\<bar> \<le> minute" and baseURL: "list_all urlChar (enURL V)"
begin

abbreviation "C \<equiv> netClient X W V other clk"

abbreviation okKey :: "edkey \<Rightarrow> bool" where
  "okKey \<equiv> keyOk X"

abbreviation netUp :: "('f, 'r) net \<Rightarrow> bool" where
  "netUp \<equiv> networkUp W fevents fdocs fready used"

abbreviation netBlobs :: "string \<Rightarrow> ('f, 'r) net \<Rightarrow> gobytes list" where
  "netBlobs \<equiv> networkBlobs W fevents"

abbreviation netGone :: "string \<Rightarrow> ('f, 'r) net \<Rightarrow> bool" where
  "netGone \<equiv> networkGone fdocs"

text \<open>What the client makes of a response.\<close>

definition reading :: "string \<Rightarrow> hresp \<Rightarrow> err + response option" where
  "reading m resp =
     (if (m = ''GET'' \<or> m = ''HEAD'') \<and> hsStatus resp = 404 then Inr None
      else case checkResponse W resp of Inl e \<Rightarrow> Inl e
           | Inr _ \<Rightarrow> (case httpResponse W resp of Inl e \<Rightarrow> Inl e | Inr r \<Rightarrow> Inr (Some r)))"

lemma okKey_plain: "okKey k \<Longrightarrow> plain (xKeyID X k)"
  unfolding keyOk_def plain_def list_all_iff using unreserved_slash by fastforce

lemma vaultURL:
  assumes "okKey k"
  shows "list_all urlChar (enURL V @ canon [''vault'', xKeyID X k])" "CHR ''?'' \<notin> set (canon [''vault'', xKeyID X k])"
    "\<not> prefix ''http://'' (canon [''vault'', xKeyID X k])" "\<not> prefix ''https://'' (canon [''vault'', xKeyID X k])"
proof -
  have "list_all urlChar (xKeyID X k)" using assms by (auto simp: keyOk_def urlChar_def list_all_iff)
  then show "list_all urlChar (enURL V @ canon [''vault'', xKeyID X k])" using baseURL by (simp add: urlChar_def unreserved_def)
  show "CHR ''?'' \<notin> set (canon [''vault'', xKeyID X k])"
    using assms unreserved_special(6) by (auto simp: keyOk_def list_all_iff)
qed simp_all

text \<open>A vault request reaches its handler as a request signed with the key.\<close>

lemma Request_vault:
  assumes k: "okKey k" and r: "vaultRoute m = Some r"
  shows "\<exists>c. signed X W V c b (wNonce W (ntDraws n)) (clk (ntClock n)) k \<and> cxBody c = Some b \<and>
    (\<forall>name. name \<noteq> ''nonce'' \<longrightarrow> name \<noteq> ''ts'' \<longrightarrow> cxQueryParam c name = queryGet ps name) \<and>
    (\<forall>resp s. dispatch X W V other r c (ntServer n) = (Inr resp, s) \<longrightarrow>
       Request W C (vaultReq X m k ps b) n =
         (reading m (if m = ''HEAD'' then resp\<lparr>hsBody := []\<rparr> else resp),
          n\<lparr>ntClock := Suc (ntClock n), ntDraws := Suc (ntDraws n), ntServer := s\<rparr>))"
proof -
  let ?kid = "xKeyID X k" let ?path = "canon [''vault'', ?kid]" let ?a = "enURL V @ ?path"
  have kid: "plain ?kid" using okKey_plain[OF k] .
  have path: "xPath X [''vault'', ?kid] = ?path" using xPath_two[OF dstore, of "''vault''" ?kid] kid by (simp add: plain_def)
  obtain h q where hq: "wSign W (wNonce W (ntDraws n)) m (withQuery ?a ps) (wContentHash W b) (clk (ntClock n)) k = Inr (?a @ ''?'' @ q, h)"
      "h \<noteq> []" "\<forall>x. x \<noteq> ''nonce'' \<longrightarrow> x \<noteq> ''ts'' \<longrightarrow> queryGet (parseQuery q) x = queryGet ps x"
    using sign[unfolded sign_ok_def, rule_format, OF vaultURL(1)[OF k], of "wNonce W (ntDraws n)" m ps "wContentHash W b" "clk (ntClock n)" k]
    by blast
  obtain i where i: "wRoute W (map (\<lambda>(m, p, _). (m, p)) AddRoutes) m ?path = Some (i, [(''vid'', ?kid)])" "snd (snd (AddRoutes ! i)) = r"
    using route_vault[OF route kid r] by blast
  define req where "req = \<lparr>hrMethod = m, hrURL = ?a @ ''?'' @ q, hrHeaders = [(''Authorization'', h)], hrBody = b\<rparr>"
  define c where "c = \<lparr>cxMethod = m, cxURL = ?path @ ''?'' @ q, cxParams = [(''vid'', ?kid)], cxHeaders = [(''Authorization'', h)], cxBody = Some b\<rparr>"
  let ?n = "n\<lparr>ntClock := Suc (ntClock n), ntDraws := Suc (ntDraws n)\<rparr>"
  have url: "urlPath (?path @ ''?'' @ q) = ?path" "urlQuery (?path @ ''?'' @ q) = parseQuery q"
    using cut_at[OF vaultURL(2)[OF k], of q] by (simp_all add: urlPath_def urlQuery_def del: canon.simps)
  have "urlFor C ?path ps = Inr (withQuery ?a ps)"
    using vaultURL(3,4)[OF k] by (simp add: urlFor_def netClient_def withQuery_def Let_def del: canon.simps)
  moreover have "newRequest W C (vaultReq X m k ps b) (withQuery ?a ps) n = (Inr req, ?n)"
    using hq(1) by (simp add: newRequest_def vaultReq_def netClient_def bnd_def lift_def ret_def req_def del: canon.simps)
  moreover have "netDo X W V other req ?n = (Inr (if m = ''HEAD'' then resp\<lparr>hsBody := []\<rparr> else resp), ?n\<lparr>ntServer := s\<rparr>)"
    if "dispatch X W V other r c (ntServer n) = (Inr resp, s)" for resp s
    using that i url(1) unfolding c_def by (simp add: netDo_def req_def serveHTTP_def op_simps del: canon.simps)
  ultimately have run: "Request W C (vaultReq X m k ps b) n =
      (reading m (if m = ''HEAD'' then resp\<lparr>hsBody := []\<rparr> else resp), ?n\<lparr>ntServer := s\<rparr>)"
    if "dispatch X W V other r c (ntServer n) = (Inr resp, s)" for resp s
    using that path
    by (auto simp: Request_def vaultReq_def bnd_def lift_def netClient_def ret_def Let_def reading_def req_def
        simp del: canon.simps split: sum.splits)
  have sg: "signed X W V c b (wNonce W (ntDraws n)) (clk (ntClock n)) k"
    using hq(1,2) by (auto simp: signed_def c_def cxParam_def queryGet_def headerGet_def simp del: canon.simps)
  have "cxQueryParam c name = queryGet ps name" if "name \<noteq> ''nonce''" "name \<noteq> ''ts''" for name
    using hq(3) that url(2) by (simp add: cxQueryParam_def c_def del: canon.simps)
  with run sg show ?thesis by (intro exI[of _ c]) (simp add: c_def del: canon.simps)
qed

lemma reading_simps:
  "reading m (JSON 200 b) = Inr (Some \<lparr>rsData = b, rsCreatedAt = 0, rsUpdatedAt = 0\<rparr>)"
  "reading ''GET'' (errNotFound W (Some e)) = Inr None"
  "m \<noteq> ''GET'' \<Longrightarrow> m \<noteq> ''HEAD'' \<Longrightarrow> \<exists>x. reading m (errNotFound W (Some e)) = Inl x"
  using web_okD(6,7)[OF web]
  by (auto simp: reading_def httpResponse_def headerTime_def headerGet_def JSON_def errNotFound_def ErrResponse_def errJSON_def newError_def
      checkResponse_def Let_def)

lemma netUp_step:
  assumes "netUp n" "srvInv s" "spent (wNonce W (ntDraws n)) (ntServer n) s"
  shows "netUp (n\<lparr>ntClock := t, ntDraws := Suc (ntDraws n), ntServer := s\<rparr>)"
  using assms nonces by (auto simp: networkUp_def spent_def inj_eq)

lemma netUpD: "netUp n \<Longrightarrow> srvInv (ntServer n)" "netUp n \<Longrightarrow> \<not> used (srvRedis (ntServer n)) (wNonce W (ntDraws n))"
  by (simp_all add: networkUp_def)

lemma queryGet_idx: "queryGet (idxParams (int i)) ''idx'' = (if i = 0 then [] else formatInt (int i))"
    "queryGet (idxParams (int i)) ''limit'' = []" "queryGet (idxParams (int i)) ''order'' = []"
  by (simp_all add: idxParams_def queryGet_def)

text \<open>A listing, whatever the state of the vault.\<close>

lemma net_list:
  assumes n: "netUp n" "okKey k" and i: "int64_ok (int i)" "i \<le> length (netBlobs (xKeyID X k) n)"
  shows "\<exists>n'. netUp n' \<and> (\<forall>q. netBlobs q n' = netBlobs q n) \<and> (\<forall>q. netGone q n' = netGone q n) \<and>
    (if netGone (xKeyID X k) n \<or> netBlobs (xKeyID X k) n = []
     then Request W C (vaultReq X ''GET'' k (idxParams (int i)) []) n = (Inr None, n')
     else \<exists>r j resp. Request W C (vaultReq X ''GET'' k (idxParams (int i)) []) n = (Inr (Some resp), n') \<and>
       rsData resp = xRespM X r \<and> isPage (netBlobs (xKeyID X k) n) i j r)"
proof -
  let ?s = "ntServer n"
  obtain c where c: "signed X W V c [] (wNonce W (ntDraws n)) (clk (ntClock n)) k"
      "\<forall>name. name \<noteq> ''nonce'' \<longrightarrow> name \<noteq> ''ts'' \<longrightarrow> cxQueryParam c name = queryGet (idxParams (int i)) name"
      "\<forall>resp s. listVault X W V c ?s = (Inr resp, s) \<longrightarrow>
       Request W C (vaultReq X ''GET'' k (idxParams (int i)) []) n =
         (reading ''GET'' resp, n\<lparr>ntClock := Suc (ntClock n), ntDraws := Suc (ntDraws n), ntServer := s\<rparr>)"
    using Request_vault[OF n(2), of "''GET''" ListVault "[]" n "idxParams (int i)"] by (auto simp: vaultRoute_def dispatch_def)
  have q: "cxQueryParam c ''idx'' = (if i = 0 then [] else formatInt (int i))" "cxQueryParam c ''limit'' = []" "cxQueryParam c ''order'' = []"
    using c(2) queryGet_idx by simp_all
  obtain s where s: "sameData ?s s" "spent (wNonce W (ntDraws n)) ?s s"
    "if kidGone (xKeyID X k) ?s then listVault X W V c ?s = (Inr (errNotFound W (Some ErrVaultDeleted)), s)
     else if kidBlobs (xKeyID X k) ?s = [] then listVault X W V c ?s = (Inr (errNotFound W (Some ErrVaultNotFound)), s)
     else \<exists>r j. listVault X W V c ?s = (Inr (JSON 200 (xRespM X r)), s) \<and> isPage (kidBlobs (xKeyID X k) ?s) i j r"
    using listVault_ok[OF c(1) clocks netUpD(2)[OF n(1)] netUpD(1)[OF n(1)] okKey_plain[OF n(2)] q i(1)] i(2)
    unfolding networkBlobs_def by blast
  let ?n = "n\<lparr>ntClock := Suc (ntClock n), ntDraws := Suc (ntDraws n), ntServer := s\<rparr>"
  have up: "netUp ?n" using netUp_step[OF n(1) sameData_inv[OF s(1) netUpD(1)[OF n(1)]] s(2)] .
  have same: "\<forall>q. netBlobs q ?n = netBlobs q n" "\<forall>q. netGone q ?n = netGone q n"
    using sameData_blobs[OF s(1)] by (simp_all add: networkBlobs_def networkGone_def)
  have run: "Request W C (vaultReq X ''GET'' k (idxParams (int i)) []) n = (reading ''GET'' resp, ?n)"
    if "listVault X W V c ?s = (Inr resp, s)" for resp using c(3) that by blast
  consider (none) "netGone (xKeyID X k) n \<or> netBlobs (xKeyID X k) n = []"
    | (page) r j where "\<not> (netGone (xKeyID X k) n \<or> netBlobs (xKeyID X k) n = [])"
        "listVault X W V c ?s = (Inr (JSON 200 (xRespM X r)), s)" "isPage (netBlobs (xKeyID X k) n) i j r"
    using s(3) by (auto simp: networkGone_def networkBlobs_def split: if_splits)
  then show ?thesis
  proof cases
    case none
    then obtain e where "listVault X W V c ?s = (Inr (errNotFound W (Some e)), s)"
      using s(3) by (auto simp: networkGone_def networkBlobs_def split: if_splits)
    from run[OF this] none up same show ?thesis by (intro exI[of _ ?n]) (simp add: reading_simps)
  next
    case page
    from run[OF page(2)] page(1,3) up same show ?thesis
      by (intro exI[of _ ?n]) (auto simp: reading_simps)
  qed
qed

text \<open>A post to a vault, deleted or not, and a delete.\<close>

lemma net_post:
  assumes n: "netUp n" "okKey k" "\<not> netGone (xKeyID X k) n" and ds: "ds \<noteq> []" "list_all (\<lambda>d. bstr d \<noteq> []) ds"
    and sz: "int64_ok (int (length (netBlobs (xKeyID X k) n) + length ds))" "int64_ok (int (totalLen ds))"
  shows "\<exists>resp n'. Request W C (vaultReq X ''POST'' k [] (xDatasM X ds)) n = (Inr resp, n') \<and> netUp n' \<and>
    (\<forall>q. netBlobs q n' = (if q = xKeyID X k then netBlobs q n @ ds else netBlobs q n)) \<and> (\<forall>q. netGone q n' = netGone q n)"
proof -
  obtain c where c: "signed X W V c (xDatasM X ds) (wNonce W (ntDraws n)) (clk (ntClock n)) k" "cxBody c = Some (xDatasM X ds)"
      "\<forall>resp s. postVault X W V c (ntServer n) = (Inr resp, s) \<longrightarrow>
       Request W C (vaultReq X ''POST'' k [] (xDatasM X ds)) n =
         (reading ''POST'' resp, n\<lparr>ntClock := Suc (ntClock n), ntDraws := Suc (ntDraws n), ntServer := s\<rparr>)"
    using Request_vault[OF n(2), of "''POST''" PostVault "xDatasM X ds" n "[]"] by (auto simp: vaultRoute_def dispatch_def)
  have "0 < totalLen ds" using ds by (cases ds) (auto simp: totalLen_def)
  moreover have "list_all (\<lambda>d. d \<noteq> None) ds" using ds(2) by (rule list.pred_mono_strong) (auto dest: bstr_nonempty)
  ultimately obtain s where s: "postVault X W V c (ntServer n) = (Inr (JSON 200 ''{}''), s)" "srvInv s"
      "spent (wNonce W (ntDraws n)) (ntServer n) s" "kidBlobs (xKeyID X k) s = kidBlobs (xKeyID X k) (ntServer n) @ ds"
      "\<forall>q. q \<noteq> xKeyID X k \<longrightarrow> kidBlobs q s = kidBlobs q (ntServer n)" "\<forall>q. kidGone q s = kidGone q (ntServer n)"
    using postVault_ok[OF c(1) clocks netUpD(2)[OF n(1)] netUpD(1)[OF n(1)] okKey_plain[OF n(2)] c(2) _ ds(1)] n(3) sz
    unfolding networkBlobs_def networkGone_def by blast
  show ?thesis
    using c(3) s netUp_step[OF n(1) s(2,3)]
    by (intro exI conjI) (auto simp: reading_simps networkBlobs_def networkGone_def)
qed

lemma net_post_gone:
  assumes n: "netUp n" "okKey k" "netGone (xKeyID X k) n"
  shows "\<exists>e n'. Request W C (vaultReq X ''POST'' k [] body) n = (Inl e, n') \<and> netUp n' \<and>
    (\<forall>q. netBlobs q n' = netBlobs q n) \<and> (\<forall>q. netGone q n' = netGone q n)"
proof -
  obtain c where c: "signed X W V c body (wNonce W (ntDraws n)) (clk (ntClock n)) k" "cxBody c = Some body"
      "\<forall>resp s. postVault X W V c (ntServer n) = (Inr resp, s) \<longrightarrow>
       Request W C (vaultReq X ''POST'' k [] body) n =
         (reading ''POST'' resp, n\<lparr>ntClock := Suc (ntClock n), ntDraws := Suc (ntDraws n), ntServer := s\<rparr>)"
    using Request_vault[OF n(2), of "''POST''" PostVault body n "[]"] by (auto simp: vaultRoute_def dispatch_def)
  obtain s where s: "postVault X W V c (ntServer n) = (Inr (errNotFound W (Some ErrVaultDeleted)), s)" "sameData (ntServer n) s"
      "spent (wNonce W (ntDraws n)) (ntServer n) s"
    using postVault_gone[OF c(1) clocks netUpD(2)[OF n(1)] netUpD(1)[OF n(1)] okKey_plain[OF n(2)] c(2)] n(3)
    unfolding networkGone_def by blast
  obtain x where "reading ''POST'' (errNotFound W (Some ErrVaultDeleted)) = Inl x" using reading_simps(3)[of "''POST''"] by auto
  with c(3) s netUp_step[OF n(1) sameData_inv[OF s(2) netUpD(1)[OF n(1)]] s(3)] sameData_blobs[OF s(2)]
  show ?thesis by (intro exI conjI) (auto simp: networkBlobs_def networkGone_def)
qed

lemma net_list_gone:
  assumes n: "netUp n" "okKey k" "netGone (xKeyID X k) n"
  shows "\<exists>n'. Request W C (vaultReq X ''GET'' k ps []) n = (Inr None, n') \<and> netUp n' \<and>
    (\<forall>q. netBlobs q n' = netBlobs q n) \<and> (\<forall>q. netGone q n' = netGone q n)"
proof -
  obtain c where c: "signed X W V c [] (wNonce W (ntDraws n)) (clk (ntClock n)) k"
      "\<forall>resp s. listVault X W V c (ntServer n) = (Inr resp, s) \<longrightarrow>
       Request W C (vaultReq X ''GET'' k ps []) n =
         (reading ''GET'' resp, n\<lparr>ntClock := Suc (ntClock n), ntDraws := Suc (ntDraws n), ntServer := s\<rparr>)"
    using Request_vault[OF n(2), of "''GET''" ListVault "[]" n ps] by (auto simp: vaultRoute_def dispatch_def)
  obtain s where s: "listVault X W V c (ntServer n) = (Inr (errNotFound W (Some ErrVaultDeleted)), s)" "sameData (ntServer n) s"
      "spent (wNonce W (ntDraws n)) (ntServer n) s"
    using listVault_gone[OF c(1) clocks netUpD(2)[OF n(1)] netUpD(1)[OF n(1)] okKey_plain[OF n(2)]] n(3)
    unfolding networkGone_def by blast
  from c(2) s netUp_step[OF n(1) sameData_inv[OF s(2) netUpD(1)[OF n(1)]] s(3)] sameData_blobs[OF s(2)]
  show ?thesis by (intro exI conjI) (auto simp: reading_simps networkBlobs_def networkGone_def)
qed

lemma net_delete:
  assumes n: "netUp n" "okKey k" "\<not> netGone (xKeyID X k) n" "netBlobs (xKeyID X k) n \<noteq> []"
  shows "\<exists>resp n'. Request W C (vaultReq X ''DELETE'' k [] []) n = (Inr resp, n') \<and> netUp n' \<and> netGone (xKeyID X k) n'"
proof -
  let ?kid = "xKeyID X k"
  obtain c where c: "signed X W V c [] (wNonce W (ntDraws n)) (clk (ntClock n)) k"
      "\<forall>resp s. deleteVault X W V c (ntServer n) = (Inr resp, s) \<longrightarrow>
       Request W C (vaultReq X ''DELETE'' k [] []) n =
         (reading ''DELETE'' resp, n\<lparr>ntClock := Suc (ntClock n), ntDraws := Suc (ntDraws n), ntServer := s\<rparr>)"
    using Request_vault[OF n(2), of "''DELETE''" DeleteVault "[]" n "[]"] by (auto simp: vaultRoute_def dispatch_def)
  have "fdocs (srvFire (ntServer n)) (vaultDoc ?kid)"
    using netUpD(1)[OF n(1)] n(4) okKey_plain[OF n(2)] by (simp add: serverInv_def networkBlobs_def serverBlobs_def)
  then obtain s where s: "deleteVault X W V c (ntServer n) = (Inr (JSON 200 ''{}''), s)" "srvInv s"
      "spent (wNonce W (ntDraws n)) (ntServer n) s" "kidGone ?kid s"
    using deleteVault_ok[OF c(1) clocks netUpD(2)[OF n(1)] netUpD(1)[OF n(1)] okKey_plain[OF n(2)]] n(3)
    unfolding networkGone_def by auto
  show ?thesis
    using c(2) s netUp_step[OF n(1) s(2,3)]
    by (intro exI conjI) (auto simp: reading_simps networkGone_def)
qed

end

sublocale loopback \<subseteq> server: vault_server X "Request W C" okKey netUp netBlobs netGone
proof
  fix n k ds
  assume n: "netUp n" "okKey k" "\<not> netGone (xKeyID X k) n" "ds \<noteq> []" "list_all (\<lambda>d. bstr d \<noteq> []) ds"
    and sz: "int (length (netBlobs (xKeyID X k) n) + length ds) \<le> maxIndex" "int64_ok (int (totalLen ds))"
  have "int64_ok (int (length (netBlobs (xKeyID X k) n) + length ds))" using sz(1) by (simp add: int64_ok_def)
  from net_post[OF n this sz(2)] show "\<exists>resp n'. Request W C (vaultReq X ''POST'' k [] (xDatasM X ds)) n = (Inr resp, n') \<and> netUp n' \<and>
    (\<forall>i. netBlobs i n' = (if i = xKeyID X k then netBlobs i n @ ds else netBlobs i n)) \<and> (\<forall>i. netGone i n' = netGone i n)" .
next
  fix n k
  assume "netUp n" "okKey k" "netBlobs (xKeyID X k) n = []"
  with net_list[of n k 0] show "\<exists>n'. Request W C (vaultReq X ''GET'' k [] []) n = (Inr None, n') \<and> netUp n' \<and>
    (\<forall>q. netBlobs q n' = netBlobs q n) \<and> (\<forall>q. netGone q n' = netGone q n)"
    by (auto simp: idxParams_def int64_ok_def)
next
  fix n k i
  assume a: "netUp n" "okKey k" "\<not> netGone (xKeyID X k) n" "netBlobs (xKeyID X k) n \<noteq> []"
    "i \<le> length (netBlobs (xKeyID X k) n)" "int i \<le> maxIndex"
  have "int64_ok (int i)" using a(6) by (simp add: int64_ok_def)
  from net_list[OF a(1,2) this a(5)] a(3,4) show "\<exists>resp r j n'. Request W C (vaultReq X ''GET'' k (idxParams (int i)) []) n = (Inr (Some resp), n') \<and>
    rsData resp = xRespM X r \<and> isPage (netBlobs (xKeyID X k) n) i j r \<and>
    netUp n' \<and> (\<forall>q. netBlobs q n' = netBlobs q n) \<and> (\<forall>q. netGone q n' = netGone q n)"
    by auto
next
  fix n k
  assume "netUp n" "okKey k" "\<not> netGone (xKeyID X k) n" "netBlobs (xKeyID X k) n \<noteq> []"
  then show "\<exists>resp n'. Request W C (vaultReq X ''DELETE'' k [] []) n = (Inr resp, n') \<and> netUp n' \<and> netGone (xKeyID X k) n'"
    by (rule net_delete)
next
  fix n k body
  assume "netUp n" "okKey k" "netGone (xKeyID X k) n"
  then show "\<exists>e n'. Request W C (vaultReq X ''POST'' k [] body) n = (Inl e, n') \<and> netUp n' \<and>
    (\<forall>q. netBlobs q n' = netBlobs q n) \<and> (\<forall>q. netGone q n' = netGone q n)"
    by (rule net_post_gone)
next
  fix n k j
  assume a: "netUp n" "okKey k" "netGone (xKeyID X k) n"
  show "\<exists>n'. Request W C (vaultReq X ''GET'' k (idxParams j) []) n = (Inr None, n') \<and> netUp n' \<and>
    (\<forall>q. netBlobs q n' = netBlobs q n) \<and> (\<forall>q. netGone q n' = netGone q n)"
    using net_list_gone[OF a] .
qed

context loopback
begin

lemma server_contract: "vault_server X (Request W C) okKey netUp netBlobs netGone"
  by (rule server.vault_server_axioms)

end

end
