(* ===== verification/Firestore.thy ===== *)
theory Firestore
  imports Fire
begin

text \<open>
  The Firestore implementation of \<^verbatim>\<open>Fire\<close>: \<^verbatim>\<open>firestore/firestore.go\<close>, \<^verbatim>\<open>firestore/events.go\<close>
  and \<^verbatim>\<open>firestore/iterator.go\<close>. The client library of Google Cloud Firestore is a parameter:
  the record \<open>cloud\<close> has the calls the code makes on it, and \<open>cloud_ok\<close> states their
  documented behaviour with respect to the map of documents it holds.
\<close>

section \<open>The client library\<close>

record cdoc =
  cdFields :: fields
  cdCreated :: gotime
  cdUpdated :: gotime

record 'c cloud =
  \<comment> \<open>\<^verbatim>\<open>Doc(path).Get\<close>, \<open>None\<close> for \<^verbatim>\<open>codes.NotFound\<close>\<close>
  cGet :: "string \<Rightarrow> 'c \<Rightarrow> err + cdoc option"
  \<comment> \<open>\<^verbatim>\<open>Doc(path).Create\<close>, \<open>False\<close> for \<^verbatim>\<open>codes.AlreadyExists\<close>\<close>
  cCreate :: "string \<Rightarrow> fields \<Rightarrow> ('c, bool) op"
  \<comment> \<open>\<^verbatim>\<open>Doc(path).Set\<close>, merging or not\<close>
  cSet :: "string \<Rightarrow> fields \<Rightarrow> bool \<Rightarrow> ('c, unit) op"
  cDelete :: "string \<Rightarrow> ('c, unit) op"
  \<comment> \<open>a committed batch of deletes\<close>
  cBatchDelete :: "string list \<Rightarrow> ('c, unit) op"
  \<comment> \<open>the documents of a collection, at most so many, as ids\<close>
  cIds :: "string \<Rightarrow> nat \<Rightarrow> 'c \<Rightarrow> string list \<times> err option"
  \<comment> \<open>the documents of a collection ordered by \<^verbatim>\<open>idx\<close>, ascending or not, beyond a bound if given\<close>
  cQuery :: "string \<Rightarrow> bool \<Rightarrow> int option \<Rightarrow> 'c \<Rightarrow> cdoc list \<times> err option"
  \<comment> \<open>\<^verbatim>\<open>client.GetAll\<close>: the full path of each document and the document, if it exists\<close>
  cGetAll :: "string list \<Rightarrow> 'c \<Rightarrow> err + (string \<times> cdoc option) list"
  \<comment> \<open>the documents of a collection by id: from an id on, a condition, offset and limit\<close>
  cDocs :: "string \<Rightarrow> string \<Rightarrow> (string \<times> string \<times> fval) option \<Rightarrow> nat \<Rightarrow> nat option \<Rightarrow> 'c \<Rightarrow>
     (string \<times> cdoc) list \<times> err option"
  \<comment> \<open>the ids of the root collections\<close>
  cCols :: "'c \<Rightarrow> string list \<times> err option"
  \<comment> \<open>JSON decoding of an error text: the member \<^verbatim>\<open>Error\<close>, \<open>None\<close> when it does not decode\<close>
  cErrorU :: "string \<Rightarrow> string option"
  \<comment> \<open>how often the next transaction is aborted and run again\<close>
  cAborts :: "'c \<Rightarrow> nat"
  \<comment> \<open>\<^verbatim>\<open>encoding.MustEncode(keys.RandBytes(32), encoding.Base62)\<close>\<close>
  cNewID :: "('c, string) op"

text \<open>\<^verbatim>\<open>PathComponents\<close> and \<^verbatim>\<open>Path\<close> on the paths used here.\<close>

definition normalizePath :: "'z ext_scheme \<Rightarrow> string \<Rightarrow> string" where
  "normalizePath X p = trimPrefix (xPath X [p]) ''/''"

definition checkPath :: "'z ext_scheme \<Rightarrow> string \<Rightarrow> err + string" where
  "checkPath X p =
     (let path = xPath X [p]
      in if length (xPathComponents X path) mod 2 \<noteq> 0 then Inl (Err ''invalid path'')
         else if path = ''/'' then Inl (Err ''invalid path /'')
         else Inr path)"

section \<open>firestore.go\<close>

definition fsGetDoc :: "'z ext_scheme \<Rightarrow> 'c cloud \<Rightarrow> string \<Rightarrow> ('c, cdoc option) op" where
  "fsGetDoc X C path = bnd (gets (cGet C (normalizePath X path))) lift"

definition fsExists :: "'z ext_scheme \<Rightarrow> 'c cloud \<Rightarrow> string \<Rightarrow> ('c, bool) op" where
  "fsExists X C path = bnd (fsGetDoc X C path) (\<lambda>d. ret (d \<noteq> None))"

definition fsGet :: "'z ext_scheme \<Rightarrow> 'c cloud \<Rightarrow> string \<Rightarrow> ('c, document option) op" where
  "fsGet X C p =
     bnd (lift (checkPath X p)) (\<lambda>path.
     bnd (fsGetDoc X C path) (\<lambda>d.
     ret (case d of None \<Rightarrow> None
          | Some doc \<Rightarrow> Some \<lparr>doPath = path, doFields = cdFields doc, doCreatedAt = cdCreated doc,
                            doUpdatedAt = cdUpdated doc\<rparr>)))"

definition processError :: "'c cloud \<Rightarrow> err \<Rightarrow> err" where
  "processError C ferr =
     (if prefix ''{'' (errText ferr)
      then case cErrorU C (errText ferr) of
             Some m \<Rightarrow> if m \<noteq> [] then Err (''firestore error: '' @ m) else ferr
           | None \<Rightarrow> ferr
      else ferr)"

text \<open>\<^verbatim>\<open>Create\<close> and \<^verbatim>\<open>Set\<close>, one attempt of \<^verbatim>\<open>keys.RetryE\<close>: it runs the function again only when a
  temporary network error comes back.\<close>

definition fsCreate :: "'z ext_scheme \<Rightarrow> 'c cloud \<Rightarrow> string \<Rightarrow> fields \<Rightarrow> ('c, unit) op" where
  "fsCreate X C p values =
     bnd (lift (checkPath X p)) (\<lambda>path.
     bnd (mapErr (\<lambda>e. Wrapped ''failed to create firestore document'' (processError C e))
            (cCreate C (normalizePath X path) values)) (\<lambda>created.
     failIf (\<not> created) (LibErr (''path already exists '' @ path))))"

definition fsSet :: "'z ext_scheme \<Rightarrow> 'c cloud \<Rightarrow> string \<Rightarrow> fields \<Rightarrow> bool \<Rightarrow> ('c, unit) op" where
  "fsSet X C p values mergeAll =
     bnd (lift (checkPath X p)) (\<lambda>path.
     mapErr (\<lambda>e. Wrapped ''failed to set firestore document'' (processError C e))
       (cSet C (normalizePath X path) values mergeAll))"

definition fsDelete :: "'z ext_scheme \<Rightarrow> 'c cloud \<Rightarrow> string \<Rightarrow> ('c, bool) op" where
  "fsDelete X C p =
     (let path = normalizePath X p
      in bnd (failIf (length (xPathComponents X path) mod 2 \<noteq> 0) (Err ''invalid path'')) (\<lambda>_.
         bnd (fsExists X C path) (\<lambda>exists.
         if \<not> exists then ret False
         else bnd (cDelete C path) (\<lambda>_. ret True))))"

definition fsDeleteAll :: "'z ext_scheme \<Rightarrow> 'c cloud \<Rightarrow> string list \<Rightarrow> ('c, unit) op" where
  "fsDeleteAll X C paths = forEach paths (\<lambda>p. bnd (fsDelete X C p) (\<lambda>_. ret ()))"

text \<open>Several documents at once; those that do not exist are left out.\<close>

definition fsGetAll :: "'z ext_scheme \<Rightarrow> 'c cloud \<Rightarrow> string list \<Rightarrow> ('c, document list) op" where
  "fsGetAll X C paths =
     bnd (gets (cGetAll C (map (normalizePath X) paths))) (\<lambda>r.
     bnd (lift r) (\<lambda>res.
     ret (List.map_filter (\<lambda>(ref, d). case d of None \<Rightarrow> None
            | Some doc \<Rightarrow> Some \<lparr>doPath = xPath X (drop 5 (xPathComponents X ref)), doFields = cdFields doc,
                             doCreatedAt = cdCreated doc, doUpdatedAt = cdUpdated doc\<rparr>) res)))"

text \<open>\<^verbatim>\<open>DocumentIterator\<close>: the documents still to come, the error after them, and the options.\<close>

record docsIter =
  diDocs :: "(string \<times> cdoc) list"
  diErr :: "err option"
  diPrefix :: string
  diParent :: string
  diPathOnly :: bool

definition fsDocumentIterator :: "'z ext_scheme \<Rightarrow> 'c cloud \<Rightarrow> string \<Rightarrow> iterOpts \<Rightarrow> ('c, docsIter) op" where
  "fsDocumentIterator X C parent opts =
     (let path = normalizePath X parent
      in bnd (failIf (path = []) (Err ''list root not supported'')) (\<lambda>_.
         bnd (gets (cDocs C path (ioPrefix opts) (ioWhere opts)
                      (if ioIndex opts > 0 then nat (ioIndex opts) else 0)
                      (if ioLimit opts > 0 then Some (nat (ioLimit opts)) else None))) (\<lambda>(ds, e).
         ret \<lparr>diDocs = ds, diErr = e, diPrefix = ioPrefix opts, diParent = path, diPathOnly = ioNoData opts\<rparr>)))"

text \<open>\<^verbatim>\<open>Next\<close>: a document, nil at the end or at the first id without the prefix, or an error.\<close>

definition docsNext :: "'z ext_scheme \<Rightarrow> (docsIter, document option) op" where
  "docsNext X i =
     (case diDocs i of
        [] \<Rightarrow> (case diErr i of Some e \<Rightarrow> Inl e | None \<Rightarrow> Inr None, i)
      | (k, doc) # rest \<Rightarrow>
          (if diPrefix i \<noteq> [] \<and> \<not> prefix (diPrefix i) k then Inr None
           else Inr (Some \<lparr>doPath = xPath X [diParent i, k],
                  doFields = (if diPathOnly i then Map.empty else cdFields doc),
                  doCreatedAt = cdCreated doc, doUpdatedAt = cdUpdated doc\<rparr>),
           i\<lparr>diDocs := rest\<rparr>))"

text \<open>What a caller gets that runs the iterator until it returns nil or an error.\<close>

function docsAll :: "'z ext_scheme \<Rightarrow> docsIter \<Rightarrow> document list \<times> err option" where
  "docsAll X i =
     (case docsNext X i of
        (Inl e, _) \<Rightarrow> ([], Some e)
      | (Inr None, _) \<Rightarrow> ([], None)
      | (Inr (Some d), i') \<Rightarrow> (case docsAll X i' of (ds, e) \<Rightarrow> (d # ds, e)))"
  by pat_completeness auto
termination
  by (relation "measure (\<lambda>(X, i). length (diDocs i))")
    (auto simp: docsNext_def split: list.splits prod.splits option.splits if_splits)

declare docsAll.simps [simp del]

definition fsIterate :: "'z ext_scheme \<Rightarrow> 'c cloud \<Rightarrow> string \<Rightarrow> iterOpts \<Rightarrow> ('c, document list \<times> err option) op" where
  "fsIterate X C parent opts = bnd (fsDocumentIterator X C parent opts) (\<lambda>i. ret (docsAll X i))"

text \<open>\<^verbatim>\<open>Documents\<close> itself is not supported.\<close>

definition fsDocuments :: "string \<Rightarrow> iterOpts \<Rightarrow> ('c, document list) op" where
  "fsDocuments parent opts = fail (Err ''unsupported: use DocumentIterator instead'')"

definition fsCollections :: "'z ext_scheme \<Rightarrow> 'c cloud \<Rightarrow> string \<Rightarrow> ('c, string list) op" where
  "fsCollections X C parent =
     bnd (failIf (xPath X [parent] \<noteq> ''/'') (Err ''only root collections supported'')) (\<lambda>_.
     bnd (gets (cCols C)) (\<lambda>(ids, e).
     case e of Some err \<Rightarrow> fail err | None \<Rightarrow> ret (map (\<lambda>i. xPath X [i]) ids)))"

section \<open>Transactions\<close>

text \<open>
  \<^verbatim>\<open>RunTransaction\<close> runs the function again after each abort, on the documents as they are;
  nothing the function wrote is kept then, nor when it returns an error. \<open>v\<close> is the variable
  the function shares with its caller (\<^verbatim>\<open>index\<close>), which keeps the value the last run gave it.
\<close>

fun runTransaction :: "nat \<Rightarrow> ('v \<Rightarrow> ('c, 'v) op) \<Rightarrow> 'v \<Rightarrow> ('c, 'v) op" where
  "runTransaction 0 f v c = (case f v c of (Inl e, _) \<Rightarrow> (Inl e, c) | (Inr v', c') \<Rightarrow> (Inr v', c'))"
| "runTransaction (Suc n) f v c = (case f v c of (Inl e, _) \<Rightarrow> (Inl e, c) | (Inr v', _) \<Rightarrow> runTransaction n f v' c)"

definition intField :: "fields \<Rightarrow> string \<Rightarrow> int \<Rightarrow> err + int" where
  "intField d name dft = (case d name of None \<Rightarrow> Inr dft | Some (FInt i) \<Rightarrow> Inr i | Some _ \<Rightarrow> Inl (Panic ''interface conversion''))"

text \<open>The start of both transactions: the stored number, or a new document.\<close>

definition txIndex :: "'z ext_scheme \<Rightarrow> 'c cloud \<Rightarrow> string \<Rightarrow> string \<Rightarrow> int \<Rightarrow> ('c, int) op" where
  "txIndex X C path name index =
     bnd (fsGetDoc X C path) (\<lambda>res.
     case res of
       Some d \<Rightarrow> lift (intField (cdFields d) name index)
     | None \<Rightarrow> bnd (cCreate C path [name \<mapsto> FInt 0]) (\<lambda>created.
         bnd (failIf (\<not> created) (Err ''already exists'')) (\<lambda>_. ret index)))"

primrec txWrite :: "'z ext_scheme \<Rightarrow> 'c cloud \<Rightarrow> string \<Rightarrow> fields list \<Rightarrow> int \<Rightarrow> ('c, int) op" where
  "txWrite X C path [] index = ret index"
| "txWrite X C path (doc # docs) index =
     bnd (cNewID C) (\<lambda>id'.
     let lpath = xPath X [path, ''log'', id']; index' = i64 (index + 1)
     in bnd (cCreate C (normalizePath X lpath) (doc(''idx'' \<mapsto> FInt index'))) (\<lambda>created.
        bnd (failIf (\<not> created) (Err ''already exists'')) (\<lambda>_.
        txWrite X C path docs index')))"

definition txSetIndex :: "'c cloud \<Rightarrow> string \<Rightarrow> string \<Rightarrow> int \<Rightarrow> ('c, int) op" where
  "txSetIndex C path name index = bnd (cSet C path [name \<mapsto> FInt index] True) (\<lambda>_. ret index)"

section \<open>events.go\<close>

definition writeAll :: "'z ext_scheme \<Rightarrow> 'c cloud \<Rightarrow> string \<Rightarrow> fields list \<Rightarrow> ('c, int) op" where
  "writeAll X C path docs =
     bnd (failIf (length docs > 498) (Err ''too many events (max 498)'')) (\<lambda>_.
     bnd (gets (cAborts C)) (\<lambda>aborts.
     runTransaction aborts (\<lambda>index.
       bnd (txIndex X C path ''idx'' index) (\<lambda>index.
       bnd (txWrite X C path docs index) (\<lambda>index.
       txSetIndex C path ''idx'' index))) 0))"

record position =
  poPath :: string
  poIndex :: int
  poTimestamp :: int

definition fsEventPositions :: "'z ext_scheme \<Rightarrow> 'c cloud \<Rightarrow> string list \<Rightarrow> ('c, string \<rightharpoonup> position) op" where
  "fsEventPositions X C paths =
     bnd (fsGetAll X C paths) (\<lambda>docs.
     ret (map_of (rev (map (\<lambda>d.
       (doPath d, \<lparr>poPath = doPath d, poIndex = (case doFields d ''idx'' of Some (FInt n) \<Rightarrow> n | _ \<Rightarrow> 0),
                   poTimestamp = xMillis X (doUpdatedAt d)\<rparr>)) docs))))"

definition fsEventPosition :: "'z ext_scheme \<Rightarrow> 'c cloud \<Rightarrow> string \<Rightarrow> ('c, position option) op" where
  "fsEventPosition X C path = bnd (fsEventPositions X C [path]) (\<lambda>res. ret (res path))"

text \<open>The chunks of at most 498 documents; \<open>idx\<close> is the index of the last batch.\<close>

function fsWriteChunks :: "'z ext_scheme \<Rightarrow> 'c cloud \<Rightarrow> string \<Rightarrow> fields list \<Rightarrow> int \<Rightarrow> ('c, int) op" where
  "fsWriteChunks X C path docs idx =
     (if docs = [] then ret idx
      else bnd (wrapErr ''failed to write'' (writeAll X C (normalizePath X path) (take 498 docs))) (\<lambda>bidx.
           fsWriteChunks X C path (drop 498 docs) bidx))"
  by pat_completeness auto
termination
  by (relation "measure (\<lambda>(X, C, path, docs, idx). length docs)") auto

declare fsWriteChunks.simps [simp del]

definition fsEventsAdd :: "'z ext_scheme \<Rightarrow> 'c cloud \<Rightarrow> string \<Rightarrow> fields list \<Rightarrow> ('c, int) op" where
  "fsEventsAdd X C path docs = fsWriteChunks X C path docs 0"

definition fsEventAdd :: "'z ext_scheme \<Rightarrow> 'c cloud \<Rightarrow> string \<Rightarrow> fields \<Rightarrow> ('c, int) op" where
  "fsEventAdd X C path doc = fsEventsAdd X C path [doc]"

text \<open>
  \<^verbatim>\<open>Events\<close> and the iterator's \<^verbatim>\<open>Next\<close> until it ends: at the limit, at the end of the query or at
  an error.
\<close>

primrec fsNexts :: "'z ext_scheme \<Rightarrow> nat option \<Rightarrow> cdoc list \<Rightarrow> err option \<Rightarrow> fevent list \<times> err option" where
  "fsNexts X lim [] e = ([], e)"
| "fsNexts X lim (d # ds) e =
     (if lim = Some 0 then ([], None)
      else case cdFields d ''idx'' of
             Some (FInt idx) \<Rightarrow>
               (case fsNexts X (map_option (\<lambda>n. n - 1) lim) ds e of (es, e') \<Rightarrow>
                  (\<lparr>feFields = cdFields d, feIndex = idx, feTs = xMillis X (cdCreated d)\<rparr> # es, e'))
           | _ \<Rightarrow> ([], Some (Panic ''interface conversion'')))"

definition fsEvents :: "'z ext_scheme \<Rightarrow> 'c cloud \<Rightarrow> string \<Rightarrow> int \<Rightarrow> int \<Rightarrow> bool \<Rightarrow> ('c, fevent list \<times> err option) op" where
  "fsEvents X C path index limit asc =
     (let log = normalizePath X (xPath X [path, ''log'']);
          bound = (if index = 0 then None else Some index);
          lim = (if limit = 0 then None else Some (nat limit))
      in bnd (gets (cQuery C log asc bound)) (\<lambda>(ds, e). ret (fsNexts X lim ds e)))"

partial_function (option) deleteCollection ::
  "'z ext_scheme \<Rightarrow> 'c cloud \<Rightarrow> string \<Rightarrow> nat \<Rightarrow> 'c \<Rightarrow> ((err + unit) \<times> 'c) option" where
  "deleteCollection X C path batchSize c =
     (case cIds C (normalizePath X path) batchSize c of
        (ids, Some e) \<Rightarrow> Some (Inl e, c)
      | (ids, None) \<Rightarrow>
          if ids = [] then Some (Inr (), c)
          else (case cBatchDelete C (map (\<lambda>i. normalizePath X path @ ''/'' @ i) ids) c of
                  (Inl e, c') \<Rightarrow> Some (Inl e, c')
                | (Inr _, c') \<Rightarrow> deleteCollection X C path batchSize c'))"

text \<open>The interface has no value for a run that does not end, so \<open>Panic\<close> stands for it here;
  \<open>deleteCollection_ok\<close> shows it does not happen.\<close>

definition fsEventsDelete :: "'z ext_scheme \<Rightarrow> 'c cloud \<Rightarrow> string \<Rightarrow> ('c, bool) op" where
  "fsEventsDelete X C path =
     bnd (\<lambda>c. case deleteCollection X C (xPath X [path, ''log'']) 100 c of
            None \<Rightarrow> (Inl (Panic ''does not end''), c) | Some r \<Rightarrow> r) (\<lambda>_.
     bnd (fsExists X C path) (\<lambda>exists.
     if \<not> exists then ret False
     else bnd (cDelete C (normalizePath X path)) (\<lambda>_. ret True)))"

definition fsIncrement :: "'z ext_scheme \<Rightarrow> 'c cloud \<Rightarrow> string \<Rightarrow> string \<Rightarrow> int \<Rightarrow> ('c, int \<times> int) op" where
  "fsIncrement X C p name n =
     bnd (failIf (n < 1) (Err ''increment by at least 1'')) (\<lambda>_.
     let path = normalizePath X p
     in bnd (gets (cAborts C)) (\<lambda>aborts.
        bnd (runTransaction aborts (\<lambda>index.
               bnd (txIndex X C path name index) (\<lambda>index.
               txSetIndex C path name (i64 (index + n)))) 0) (\<lambda>index.
        ret (index, i64 (index - n + 1)))))"

definition firestoreOps :: "'z ext_scheme \<Rightarrow> 'c cloud \<Rightarrow> 'c fire_ops" where
  "firestoreOps X C = \<lparr>fEventsAdd = fsEventsAdd X C, fEvents = fsEvents X C, fEventsDelete = fsEventsDelete X C,
     fIncrement = fsIncrement X C, fGet = fsGet X C, fExists = fsExists X C, fSet = (\<lambda>p v. fsSet X C p v False),
     fCreate = fsCreate X C, fDocs = fsIterate X C\<rparr>"

end
