(* ===== verification/FirestoreProofs.thy ===== *)
theory FirestoreProofs
  imports Firestore
begin

text \<open>
  The Firestore implementation over a client library that behaves as documented, whatever number of
  times it runs a transaction again. \<open>fsInvAt\<close> is the invariant of the stored documents: the events of a
  path are numbered without gaps and the path's document holds the last number; the number before
  the first is a parameter, since a transaction that is run again on a path without a number starts from
  where its last run stopped. When no transaction is run again (\<open>calm\<close>) it stays 0, which is \<open>fsInv\<close>, and the
  implementation provides the contract \<open>fire\<close> (\<open>firestore_fire\<close>).
\<close>

section \<open>Paths\<close>

definition relPath :: "string list \<Rightarrow> string" where
  "relPath cs = tl (canon cs)"

lemma canon_relPath: "plains cs \<Longrightarrow> canon cs = CHR ''/'' # relPath cs"
  by (cases cs) (simp_all add: relPath_def)

lemma relPath_inj: "plains cs \<Longrightarrow> plains ds \<Longrightarrow> relPath cs = relPath ds \<Longrightarrow> cs = ds"
  using canon_inj[of cs ds] canon_relPath by (simp add: plains_def)

lemma normalizePath_canon:
  assumes "dstore_ok X" "plains cs"
  shows "normalizePath X (canon cs) = relPath cs"
  using xPath_canon[OF assms] canon_relPath[OF assms(2)] by (simp add: normalizePath_def trimPrefix_def)

lemma normalizePath_rel:
  assumes "dstore_ok X" "plains cs"
  shows "normalizePath X (relPath cs) = relPath cs"
proof -
  have "pathArg (relPath cs) cs" using assms(2) by (simp add: pathArg_def relPath_def)
  then have "xPath X [relPath cs] = canon cs"
    using xPath_args[OF assms(1), of "[relPath cs]" "[cs]"] by simp
  then show ?thesis using canon_relPath[OF assms(2)] by (simp add: normalizePath_def trimPrefix_def)
qed

lemma xPath_logOf:
  assumes "dstore_ok X" "plain c" "plain i"
  shows "xPath X [canon [c, i], ''log''] = canon [c, i, ''log'']"
  using xPath_args[OF assms(1), of "[canon [c, i], ''log'']" "[[c, i], [''log'']]"] assms(2,3)
  by (simp add: pathArg_def plain_def)

lemma xPath_newEvent:
  assumes "dstore_ok X" "plain c" "plain i" "plain k"
  shows "xPath X [relPath [c, i], ''log'', k] = canon [c, i, ''log'', k]"
  using xPath_args[OF assms(1), of "[relPath [c, i], ''log'', k]" "[[c, i], [''log''], [k]]"] assms(2-4)
  by (simp add: pathArg_def plain_def relPath_def)

lemma checkPath_doc:
  assumes "dstore_ok X" "plain c" "plain i"
  shows "checkPath X (canon [c, i]) = Inr (canon [c, i])"
proof -
  have "plains [c, i]" using assms(2,3) by simp
  from xPath_canon[OF assms(1) this] xPathComponents_canon[OF assms(1) this] assms(2)
  show ?thesis by (auto simp: checkPath_def Let_def plain_def)
qed

lemma plain_log [simp]: "plain ''log''"
  by (simp add: plain_def)

text \<open>The collection of a path's events, and the path of one of them.\<close>

definition logCol :: "string \<Rightarrow> string \<Rightarrow> string" where
  "logCol c i = relPath [c, i, ''log'']"

definition logDoc :: "string \<Rightarrow> string \<Rightarrow> string \<Rightarrow> string" where
  "logDoc c i k = relPath [c, i, ''log'', k]"

lemma logDoc_eq: "logCol c i @ ''/'' @ k = logDoc c i k"
  by (cases c) (simp_all add: logCol_def logDoc_def relPath_def)

lemma logDoc_inj:
  "plain c \<Longrightarrow> plain i \<Longrightarrow> plain k \<Longrightarrow> plain c' \<Longrightarrow> plain i' \<Longrightarrow> plain k' \<Longrightarrow>
     logDoc c i k = logDoc c' i' k' \<longleftrightarrow> c = c' \<and> i = i' \<and> k = k'"
  using relPath_inj[of "[c, i, ''log'', k]" "[c', i', ''log'', k']"] by (auto simp: logDoc_def)

lemma logDoc_doc:
  "plain c \<Longrightarrow> plain i \<Longrightarrow> plain k \<Longrightarrow> plain c' \<Longrightarrow> plain i' \<Longrightarrow> logDoc c i k \<noteq> relPath [c', i']"
  using relPath_inj[of "[c, i, ''log'', k]" "[c', i']"] by (auto simp: logDoc_def)

lemma relPath_doc_inj: "plain c \<Longrightarrow> plain i \<Longrightarrow> plain c' \<Longrightarrow> plain i' \<Longrightarrow>
  relPath [c, i] = relPath [c', i'] \<longleftrightarrow> c = c' \<and> i = i'"
  using relPath_inj[of "[c, i]" "[c', i']"] by auto

section \<open>Documented behaviour of the client library\<close>

definition kids :: "(string \<rightharpoonup> cdoc) \<Rightarrow> string \<Rightarrow> string set" where
  "kids m col = {k. plain k \<and> m (col @ ''/'' @ k) \<noteq> None}"

definition idxOf :: "cdoc \<Rightarrow> int" where
  "idxOf d = (case cdFields d ''idx'' of Some (FInt n) \<Rightarrow> n | _ \<Rightarrow> 0)"

definition cloud_ok :: "'c cloud \<Rightarrow> ('c \<Rightarrow> string \<Rightarrow> cdoc option) \<Rightarrow> ('c \<Rightarrow> bool) \<Rightarrow> bool" where
  "cloud_ok C cm up \<longleftrightarrow> (\<forall>c. up c \<longrightarrow>
     finite (dom (cm c)) \<and>
     (\<forall>p. cGet C p c = Inr (cm c p)) \<and>
     (\<exists>pr db. plain pr \<and> plain db \<and> (\<forall>ps. cGetAll C ps c =
        Inr (map (\<lambda>p. (relPath [''projects'', pr, ''databases'', db, ''documents''] @ ''/'' @ p, cm c p)) ps))) \<and>
     (\<forall>p v. cm c p \<noteq> None \<longrightarrow> cCreate C p v c = (Inr False, c)) \<and>
     (\<forall>p v. cm c p = None \<longrightarrow> (\<exists>c' t. cCreate C p v c = (Inr True, c') \<and> up c' \<and>
        cm c' = (cm c)(p \<mapsto> \<lparr>cdFields = v, cdCreated = t, cdUpdated = t\<rparr>))) \<and>
     (\<forall>p v mg. \<exists>c' d. cSet C p v mg c = (Inr (), c') \<and> up c' \<and> cm c' = (cm c)(p \<mapsto> d) \<and>
        cdFields d = (if mg then (case cm c p of None \<Rightarrow> v | Some o' \<Rightarrow> cdFields o' ++ v) else v)) \<and>
     (\<forall>p. \<exists>c'. cDelete C p c = (Inr (), c') \<and> up c' \<and> cm c' = (cm c)(p := None)) \<and>
     (\<forall>ps. \<exists>c'. cBatchDelete C ps c = (Inr (), c') \<and> up c' \<and> cm c' = cm c |` (- set ps)) \<and>
     (\<forall>col n. \<exists>ids. cIds C col n c = (ids, None) \<and> set ids \<subseteq> kids (cm c) col \<and>
        (0 < n \<longrightarrow> ids = [] \<longrightarrow> kids (cm c) col = {})) \<and>
     (\<forall>col. \<exists>ds. cQuery C col True None c = (ds, None) \<and> sorted (map idxOf ds) \<and>
        mset ds = image_mset (\<lambda>k. the (cm c (col @ ''/'' @ k)))
          (mset_set {k \<in> kids (cm c) col. cdFields (the (cm c (col @ ''/'' @ k))) ''idx'' \<noteq> None})) \<and>
     (\<forall>col b. cQuery C col True (Some b) c = (filter (\<lambda>d. b < idxOf d) (fst (cQuery C col True None c)), None)) \<and>
     (\<forall>col pre off. cDocs C col pre None off None c =
        (map (\<lambda>k. (k, the (cm c (col @ ''/'' @ k)))) (drop off (filter (\<lambda>k. pre \<le> k) (sorted_list_of_set (kids (cm c) col)))), None)) \<and>
     (\<exists>k c'. cNewID C c = (Inr k, c') \<and> up c' \<and> cm c' = cm c \<and> plain k \<and> (\<forall>c i. cm c' (logDoc c i k) = None)))"

lemma cloud_okD:
  assumes "cloud_ok C cm up" "up c"
  shows "finite (dom (cm c))" "cm c p \<noteq> None \<Longrightarrow> cCreate C p v c = (Inr False, c)" "cGet C p c = Inr (cm c p)"
    "cm c p = None \<Longrightarrow> \<exists>c' t. cCreate C p v c = (Inr True, c') \<and> up c' \<and>
        cm c' = (cm c)(p \<mapsto> \<lparr>cdFields = v, cdCreated = t, cdUpdated = t\<rparr>)"
    "\<exists>c' d. cSet C p v mg c = (Inr (), c') \<and> up c' \<and> cm c' = (cm c)(p \<mapsto> d) \<and>
        cdFields d = (if mg then (case cm c p of None \<Rightarrow> v | Some o' \<Rightarrow> cdFields o' ++ v) else v)"
    "\<exists>c'. cDelete C p c = (Inr (), c') \<and> up c' \<and> cm c' = (cm c)(p := None)"
    "\<exists>c'. cBatchDelete C ps c = (Inr (), c') \<and> up c' \<and> cm c' = cm c |` (- set ps)"
    "\<exists>ids. cIds C col n c = (ids, None) \<and> set ids \<subseteq> kids (cm c) col \<and> (0 < n \<longrightarrow> ids = [] \<longrightarrow> kids (cm c) col = {})"
    "\<exists>ds. cQuery C col True None c = (ds, None) \<and> sorted (map idxOf ds) \<and>
        mset ds = image_mset (\<lambda>k. the (cm c (col @ ''/'' @ k)))
          (mset_set {k \<in> kids (cm c) col. cdFields (the (cm c (col @ ''/'' @ k))) ''idx'' \<noteq> None})"
    "cQuery C col True (Some b) c = (filter (\<lambda>d. b < idxOf d) (fst (cQuery C col True None c)), None)"
    "\<exists>k c'. cNewID C c = (Inr k, c') \<and> up c' \<and> cm c' = cm c \<and> plain k \<and> (\<forall>c i. cm c' (logDoc c i k) = None)"
    "\<exists>pr db. plain pr \<and> plain db \<and> (\<forall>ps. cGetAll C ps c =
        Inr (map (\<lambda>p. (relPath [''projects'', pr, ''databases'', db, ''documents''] @ ''/'' @ p, cm c p)) ps))"
  using assms unfolding cloud_ok_def by simp_all

text \<open>No transaction is run again.\<close>

definition calm :: "'c cloud \<Rightarrow> ('c \<Rightarrow> bool) \<Rightarrow> bool" where
  "calm C up \<longleftrightarrow> (\<forall>c. up c \<longrightarrow> cAborts C c = 0)"

section \<open>The events of a path\<close>

text \<open>The documents of a path's events, by index; they depend on the documents of its collection only.\<close>

definition logOf :: "'c cloud \<Rightarrow> string \<Rightarrow> string \<Rightarrow> 'c \<Rightarrow> cdoc list" where
  "logOf C c i s = fst (cQuery C (logCol c i) True None s)"

definition logKids :: "(string \<rightharpoonup> cdoc) \<Rightarrow> string \<Rightarrow> string \<Rightarrow> string set" where
  "logKids m c i = {k. plain k \<and> m (logDoc c i k) \<noteq> None}"

text \<open>What the documents of one path have to satisfy; \<open>b\<close> is the number before the first.\<close>

definition pathInv :: "int \<Rightarrow> (string \<rightharpoonup> cdoc) \<Rightarrow> string \<Rightarrow> string \<Rightarrow> cdoc list \<Rightarrow> bool" where
  "pathInv b m c i ds \<longleftrightarrow>
     0 \<le> b \<and>
     map idxOf ds = map (\<lambda>t. b + int t + 1) [0..<length ds] \<and>
     (\<forall>d \<in> set ds. \<exists>n. cdFields d ''idx'' = Some (FInt n)) \<and>
     mset ds = image_mset (\<lambda>k. the (m (logDoc c i k))) (mset_set (logKids m c i)) \<and>
     (case m (relPath [c, i]) of
        None \<Rightarrow> ds = []
      | Some d \<Rightarrow> (cdFields d ''idx'' = Some (FInt (b + int (length ds))) \<or> cdFields d ''idx'' = None \<and> ds = []) \<and>
          headDoc (cdFields d))"

definition fsInvAt :: "(string \<times> string \<Rightarrow> int) \<Rightarrow> 'c cloud \<Rightarrow> ('c \<Rightarrow> string \<Rightarrow> cdoc option) \<Rightarrow> ('c \<Rightarrow> bool) \<Rightarrow> 'c \<Rightarrow> bool" where
  "fsInvAt B C cm up s \<longleftrightarrow> up s \<and> (\<forall>c i. plain c \<longrightarrow> plain i \<longrightarrow> pathInv (B (c, i)) (cm s) c i (logOf C c i s))"

abbreviation fsInv :: "'c cloud \<Rightarrow> ('c \<Rightarrow> string \<Rightarrow> cdoc option) \<Rightarrow> ('c \<Rightarrow> bool) \<Rightarrow> 'c \<Rightarrow> bool" where
  "fsInv \<equiv> fsInvAt (\<lambda>_. 0)"

lemma finite_logKids: "finite (dom m) \<Longrightarrow> plain c \<Longrightarrow> plain i \<Longrightarrow> finite (logKids m c i)"
proof -
  assume fin: "finite (dom m)" and c: "plain c" "plain i"
  have "logDoc c i ` logKids m c i \<subseteq> dom m" by (auto simp: logKids_def)
  then have "finite (logDoc c i ` logKids m c i)" using fin finite_subset by blast
  then show ?thesis by (rule finite_imageD) (auto simp: inj_on_def logKids_def logDoc_inj c)
qed

text \<open>A list sorted by distinct indices is determined by its elements.\<close>

lemma sorted_by_idx_unique:
  assumes "sorted (map f xs)" "sorted (map f ys)" "distinct (map f ys)" "mset xs = mset ys"
  shows "xs = ys"
proof -
  have "mset (map f xs) = mset (map f ys)" using assms(4) by simp
  then have "distinct (map f xs)" using assms(3) mset_eq_imp_distinct_iff[of "map f xs" "map f ys"] by simp
  moreover have eq: "set xs = set ys" using assms(4) by (rule mset_eq_setD)
  moreover have "inj_on f (set xs \<union> set ys)" using assms(3) unfolding eq by (simp add: distinct_map)
  ultimately show ?thesis
    using assms(1-3) by (intro map_sorted_distinct_set_unique[of f])
qed

lemma idx_sorted: "map idxOf ds = map (\<lambda>t. b + int t + 1) [0..<length ds] \<Longrightarrow> sorted (map idxOf ds) \<and> distinct (map idxOf ds)"
  by (simp add: distinct_map inj_on_def sorted_iff_nth_mono_less)

text \<open>The list of a state is the one that satisfies the invariant.\<close>

lemma logOf_unique:
  assumes C: "cloud_ok C cm up" and up: "up s" and c: "plain c" "plain i" and inv: "pathInv b (cm s) c i ds"
  shows "logOf C c i s = ds"
proof -
  obtain qs where q: "cQuery C (logCol c i) True None s = (qs, None)" "sorted (map idxOf qs)"
      "mset qs = image_mset (\<lambda>k. the (cm s (logCol c i @ ''/'' @ k)))
          (mset_set {k \<in> kids (cm s) (logCol c i). cdFields (the (cm s (logCol c i @ ''/'' @ k))) ''idx'' \<noteq> None})"
    using cloud_okD(9)[OF C up] by blast
  have ds: "mset ds = image_mset (\<lambda>k. the (cm s (logDoc c i k))) (mset_set (logKids (cm s) c i))"
    "\<forall>d \<in> set ds. \<exists>n. cdFields d ''idx'' = Some (FInt n)"
    using inv by (simp_all add: pathInv_def)
  have fin: "finite (logKids (cm s) c i)" using finite_logKids[OF cloud_okD(1)[OF C up] c] .
  have "the (cm s (logDoc c i k)) \<in> set ds" if "k \<in> logKids (cm s) c i" for k
    using arg_cong[OF ds(1), of set_mset] fin that by simp
  then have eq: "{k \<in> kids (cm s) (logCol c i). cdFields (the (cm s (logDoc c i k))) ''idx'' \<noteq> None} = logKids (cm s) c i"
    using ds(2) unfolding kids_def logKids_def logDoc_eq by fastforce
  have "mset qs = mset ds" using q(3) unfolding logDoc_eq eq ds(1) .
  moreover have "sorted (map idxOf ds) \<and> distinct (map idxOf ds)" using inv by (intro idx_sorted[of _ b]) (simp add: pathInv_def)
  ultimately have "qs = ds" using sorted_by_idx_unique[OF q(2)] by blast
  with q(1) show ?thesis by (simp add: logOf_def)
qed

section \<open>Writing events\<close>

definition logBag :: "(string \<rightharpoonup> cdoc) \<Rightarrow> string \<Rightarrow> string \<Rightarrow> cdoc multiset" where
  "logBag m c i = image_mset (\<lambda>k. the (m (logDoc c i k))) (mset_set (logKids m c i))"

lemma logBag_cong: "(\<And>k. plain k \<Longrightarrow> m' (logDoc c i k) = m (logDoc c i k)) \<Longrightarrow> logBag m' c i = logBag m c i"
proof -
  assume a: "\<And>k. plain k \<Longrightarrow> m' (logDoc c i k) = m (logDoc c i k)"
  then have k: "logKids m' c i = logKids m c i" by (auto simp: logKids_def)
  show ?thesis unfolding logBag_def k
    by (rule image_mset_cong) (cases "finite (logKids m c i)"; auto simp: logKids_def a)
qed

lemma pathInv_cong:
  assumes "\<And>k. plain k \<Longrightarrow> m' (logDoc c i k) = m (logDoc c i k)" "m' (relPath [c, i]) = m (relPath [c, i])"
  shows "pathInv b m' c i ds = pathInv b m c i ds"
  using logBag_cong[of m' c i m, OF assms(1)] assms(2) unfolding pathInv_def logBag_def by simp

lemma logBag_add:
  assumes fin: "finite (dom m)" and c: "plain c" "plain i" "plain k" and new: "m (logDoc c i k) = None"
  shows "logBag (m(logDoc c i k \<mapsto> d)) c i = add_mset d (logBag m c i)"
proof -
  let ?m = "m(logDoc c i k \<mapsto> d)"
  have kids: "logKids ?m c i = insert k (logKids m c i)" "k \<notin> logKids m c i"
    using c new by (auto simp: logKids_def logDoc_inj)
  have fk: "finite (logKids m c i)" using finite_logKids[OF fin c(1,2)] .
  have "image_mset (\<lambda>j. the (?m (logDoc c i j))) (mset_set (logKids m c i)) =
      image_mset (\<lambda>j. the (m (logDoc c i j))) (mset_set (logKids m c i))"
    using kids(2) fk by (intro image_mset_cong) (auto simp: logKids_def logDoc_inj c)
  then show ?thesis using kids fk by (simp add: logBag_def)
qed

text \<open>The documents outside one path's collection are untouched.\<close>

definition outside :: "string \<Rightarrow> string \<Rightarrow> (string \<rightharpoonup> cdoc) \<Rightarrow> (string \<rightharpoonup> cdoc) \<Rightarrow> bool" where
  "outside c i m m' \<longleftrightarrow> (\<forall>p. (\<forall>k. plain k \<longrightarrow> p \<noteq> logDoc c i k) \<longrightarrow> m' p = m p)"

definition eventDoc :: "fields \<Rightarrow> int \<Rightarrow> cdoc \<Rightarrow> bool" where
  "eventDoc doc n d \<longleftrightarrow> cdFields d = doc(''idx'' \<mapsto> FInt (n + 1))"

lemma txWrite_ok:
  assumes X: "dstore_ok X" and C: "cloud_ok C cm up" and c: "plain c" "plain i"
  shows "up s \<Longrightarrow> 0 \<le> n \<Longrightarrow> int64_ok (n + int (length docs)) \<Longrightarrow>
    \<exists>s' new. txWrite X C (relPath [c, i]) docs n s = (Inr (n + int (length docs)), s') \<and> up s' \<and>
      outside c i (cm s) (cm s') \<and> length new = length docs \<and>
      (\<forall>j < length docs. eventDoc (docs ! j) (n + int j) (new ! j)) \<and> logBag (cm s') c i = logBag (cm s) c i + mset new"
proof (induction docs arbitrary: n s)
  case Nil
  then show ?case by (intro exI[of _ s] exI[of _ "[]"]) (simp add: op_simps outside_def)
next
  case (Cons doc docs)
  have n: "i64 (n + 1) = n + 1" using Cons.prems(2,3) by (simp add: int64_ok_def)
  obtain k t where k: "cNewID C s = (Inr k, t)" "up t" "cm t = cm s" "plain k" "cm t (logDoc c i k) = None"
    using cloud_okD(11)[OF C Cons.prems(1)] by blast
  have path: "normalizePath X (xPath X [relPath [c, i], ''log'', k]) = logDoc c i k"
    using xPath_newEvent[OF X c k(4)] normalizePath_canon[OF X, of "[c, i, ''log'', k]"] c k(4)
    by (simp add: logDoc_def del: canon.simps)
  obtain u ts where u: "cCreate C (logDoc c i k) (doc(''idx'' \<mapsto> FInt (n + 1))) t = (Inr True, u)" "up u"
      "cm u = (cm t)(logDoc c i k \<mapsto> \<lparr>cdFields = doc(''idx'' \<mapsto> FInt (n + 1)), cdCreated = ts, cdUpdated = ts\<rparr>)"
    using cloud_okD(4)[OF C k(2,5)] by blast
  obtain s' new where s': "txWrite X C (relPath [c, i]) docs (n + 1) u = (Inr (n + 1 + int (length docs)), s')" "up s'"
      "outside c i (cm u) (cm s')" "length new = length docs"
      "\<forall>j < length docs. eventDoc (docs ! j) (n + 1 + int j) (new ! j)" "logBag (cm s') c i = logBag (cm u) c i + mset new"
    using Cons.IH[OF u(2), of "n + 1"] Cons.prems(2,3) by (auto simp: algebra_simps)
  let ?d = "\<lparr>cdFields = doc(''idx'' \<mapsto> FInt (n + 1)), cdCreated = ts, cdUpdated = ts\<rparr>"
  have "logBag (cm u) c i = add_mset ?d (logBag (cm s) c i)"
    using logBag_add[OF cloud_okD(1)[OF C k(2)] c k(4,5)] u(3) k(3) by simp
  moreover have "eventDoc ((doc # docs) ! j) (n + int j) ((?d # new) ! j)" if "j < Suc (length docs)" for j
    using s'(5) that by (cases j) (auto simp: eventDoc_def algebra_simps)
  moreover have "outside c i (cm s) (cm s')"
    using s'(3) u(3) k(3,4) unfolding outside_def by auto
  moreover have "txWrite X C (relPath [c, i]) (doc # docs) n s = (Inr (n + int (length (doc # docs))), s')"
    using k(1) u(1) s'(1) path n by (simp add: op_simps Let_def algebra_simps)
  ultimately show ?case using s'(2,4,6) by (intro exI[of _ s'] exI[of _ "?d # new"]) simp
qed

lemma intField_simps [simp]:
  "d name = None \<Longrightarrow> intField d name x = Inr x" "d name = Some (FInt n) \<Longrightarrow> intField d name x = Inr n"
  by (simp_all add: intField_def)

text \<open>The index a transaction starts from, and the document it leaves.\<close>

lemma txIndex_ok:
  assumes X: "dstore_ok X" and C: "cloud_ok C cm up" and c: "plain c" "plain i" and up: "up s"
    and int: "\<And>d. cm s (relPath [c, i]) = Some d \<Longrightarrow> \<exists>n. cdFields d name = None \<or> cdFields d name = Some (FInt n)"
  shows "\<exists>s' x. txIndex X C (relPath [c, i]) name v s = (Inr x, s') \<and> up s' \<and>
    (case cm s (relPath [c, i]) of
       Some d \<Rightarrow> s' = s \<and> intField (cdFields d) name v = Inr x
     | None \<Rightarrow> x = v \<and> (\<exists>t. cm s' = (cm s)(relPath [c, i] \<mapsto> \<lparr>cdFields = [name \<mapsto> FInt 0], cdCreated = t, cdUpdated = t\<rparr>)))"
proof -
  have get: "fsGetDoc X C (relPath [c, i]) s = (Inr (cm s (relPath [c, i])), s)"
    using normalizePath_rel[OF X, of "[c, i]"] c cloud_okD(3)[OF C up] by (simp add: fsGetDoc_def op_simps)
  show ?thesis
  proof (cases "cm s (relPath [c, i])")
    case None
    obtain s' t where "cCreate C (relPath [c, i]) [name \<mapsto> FInt 0] s = (Inr True, s')" "up s'"
        "cm s' = (cm s)(relPath [c, i] \<mapsto> \<lparr>cdFields = [name \<mapsto> FInt 0], cdCreated = t, cdUpdated = t\<rparr>)"
      using cloud_okD(4)[OF C up None] by blast
    with None get show ?thesis by (auto simp: txIndex_def op_simps)
  next
    case (Some d)
    then obtain x where "intField (cdFields d) name v = Inr x" using int[OF Some] by (auto simp: intField_def)
    with Some get up show ?thesis by (auto simp: txIndex_def op_simps)
  qed
qed

text \<open>
  The frame rule: a step that changes the documents of one path only keeps the invariant if
  that path is in order afterwards.
\<close>

definition othersSame :: "'c cloud \<Rightarrow> ('c \<Rightarrow> string \<Rightarrow> cdoc option) \<Rightarrow> string \<Rightarrow> string \<Rightarrow> 'c \<Rightarrow> 'c \<Rightarrow> bool" where
  "othersSame C cm c i s s' \<longleftrightarrow> (\<forall>c' i'. plain c' \<longrightarrow> plain i' \<longrightarrow> (c', i') \<noteq> (c, i) \<longrightarrow>
     logOf C c' i' s' = logOf C c' i' s \<and> cm s' (relPath [c', i']) = cm s (relPath [c', i']))"

lemma othersSame_refl [simp]: "othersSame C cm c i s s"
  by (simp add: othersSame_def)

lemma othersSame_trans: "othersSame C cm c i s t \<Longrightarrow> othersSame C cm c i t u \<Longrightarrow> othersSame C cm c i s u"
  by (simp add: othersSame_def)

lemma fsInv_frame:
  assumes C: "cloud_ok C cm up" and c: "plain c" "plain i" and inv: "fsInvAt B C cm up s" and up: "up s'"
    and other: "\<And>q. q \<noteq> relPath [c, i] \<Longrightarrow> \<forall>k. plain k \<longrightarrow> q \<noteq> logDoc c i k \<Longrightarrow> cm s' q = cm s q"
    and here: "pathInv b (cm s') c i ds"
  shows "fsInvAt (B((c, i) := b)) C cm up s'" "logOf C c i s' = ds" "othersSame C cm c i s s'"
proof -
  have p2: "pathInv (B (c', i')) (cm s') c' i' (logOf C c' i' s)" "cm s' (relPath [c', i']) = cm s (relPath [c', i'])"
    if c': "plain c'" "plain i'" "(c', i') \<noteq> (c, i)" for c' i'
  proof -
    have l: "cm s' (logDoc c' i' k) = cm s (logDoc c' i' k)" if "plain k" for k
      using logDoc_inj[OF c'(1,2) that c] logDoc_doc[OF c'(1,2) that c] c'(3) by (intro other) auto
    show d: "cm s' (relPath [c', i']) = cm s (relPath [c', i'])"
      using relPath_doc_inj[OF c'(1,2) c] logDoc_doc[OF c _ c'(1,2)] c'(3) by (intro other) (auto dest: not_sym)
    have "pathInv (B (c', i')) (cm s) c' i' (logOf C c' i' s)" using inv c'(1,2) by (simp add: fsInvAt_def)
    then show "pathInv (B (c', i')) (cm s') c' i' (logOf C c' i' s)" using pathInv_cong[OF l d] by simp
  qed
  show l1: "logOf C c i s' = ds" using logOf_unique[OF C up c here] .
  have l2: "logOf C c' i' s' = logOf C c' i' s" if "plain c'" "plain i'" "(c', i') \<noteq> (c, i)" for c' i'
    using logOf_unique[OF C up that(1,2) p2(1)[OF that]] .
  show "othersSame C cm c i s s'" using l2 p2(2) by (simp add: othersSame_def)
  have "pathInv ((B((c, i) := b)) (c', i')) (cm s') c' i' (logOf C c' i' s')" if "plain c'" "plain i'" for c' i'
  proof (cases "(c', i') = (c, i)")
    case True
    with here l1 show ?thesis by simp
  next
    case False
    from l2[OF that False] p2(1)[OF that False] False show ?thesis by (simp only: fun_upd_other not_False_eq_True)
  qed
  then show "fsInvAt (B((c, i) := b)) C cm up s'" using up by (simp add: fsInvAt_def)
qed

text \<open>The number a run of a transaction starts from: the stored one, or the shared variable's.\<close>

definition txStart :: "(string \<rightharpoonup> cdoc) \<Rightarrow> string \<Rightarrow> string \<Rightarrow> int \<Rightarrow> int" where
  "txStart m p name v =
     (case m p of None \<Rightarrow> v | Some d \<Rightarrow> (case cdFields d name of Some (FInt x) \<Rightarrow> x | _ \<Rightarrow> v))"

lemma txStart_cases:
  obtains x where "\<And>v. txStart m p name v = x" | "\<And>v. txStart m p name v = v"
proof (cases "m p")
  case (Some d)
  show ?thesis
  proof (cases "cdFields d name")
    case (Some f)
    with \<open>m p = Some d\<close> that show ?thesis by (cases f) (simp_all add: txStart_def)
  qed (use Some that(2) in \<open>simp add: txStart_def\<close>)
qed (use that(2) in \<open>simp add: txStart_def\<close>)

lemma rerun_last:
  "(\<And>j. j < a \<Longrightarrow> \<exists>t. f (w j) s = (Inr (w (Suc j)), t)) \<Longrightarrow> f (w a) s = (Inr v', s') \<Longrightarrow>
     runTransaction a f (w 0) s = (Inr v', s')"
proof (induction a arbitrary: w)
  case (Suc a)
  obtain t where "f (w 0) s = (Inr (w (Suc 0)), t)" using Suc.prems(1)[of 0] by auto
  moreover have "runTransaction a f (w (Suc 0)) s = (Inr v', s')"
    using Suc.IH[of "\<lambda>j. w (Suc j)"] Suc.prems by auto
  ultimately show ?case by simp
qed simp

text \<open>A transaction that adds \<open>k\<close> to the number: run again, it starts from what the runs before added
  when there is no stored number.\<close>

lemma rerun_start:
  assumes one: "\<And>v. 0 \<le> txStart m p name v \<Longrightarrow> int64_ok (txStart m p name v + int k) \<Longrightarrow>
      \<exists>t. f v s = (Inr (txStart m p name v + int k), t)"
    and ok: "0 \<le> txStart m p name (int (a * k))" "int64_ok (txStart m p name (int (a * k)) + int k)"
  obtains v where "txStart m p name v = txStart m p name (int (a * k))"
    "\<And>y s'. f v s = (Inr y, s') \<Longrightarrow> runTransaction a f 0 s = (Inr y, s')"
proof (rule txStart_cases[of m p name])
  fix x assume x: "\<And>v. txStart m p name v = x"
  let ?w = "\<lambda>j. if j = 0 then 0 else x + int k"
  have "\<exists>t. f (?w j) s = (Inr (?w (Suc j)), t)" for j
    using one[of "?w j"] ok x by simp
  from rerun_last[of a f ?w, OF this] x that[of "?w a"] show ?thesis by simp
next
  assume x: "\<And>v. txStart m p name v = v"
  have "\<exists>t. f (int (j * k)) s = (Inr (int (Suc j * k)), t)" if "j < a" for j
  proof -
    have "Suc j * k \<le> a * k" using that by (intro mult_le_mono1) simp
    then have "int (j * k + k) \<le> int (a * k)" by (simp only: of_nat_le_iff) simp
    then have "int (j * k) + int k \<le> int (a * k) + int k" by linarith
    then have "int64_ok (int (j * k) + int k)" using ok(2) unfolding x int64_ok_def by linarith
    with one[of "int (j * k)"] x show ?thesis by (simp add: algebra_simps)
  qed
  from rerun_last[of a f "\<lambda>j. int (j * k)", OF this] x that[of "int (a * k)"] show ?thesis by simp
qed

text \<open>One run of the transaction that writes a batch: the events are appended, and nothing else changes.\<close>

definition writeRun :: "'z ext_scheme \<Rightarrow> 'c cloud \<Rightarrow> string \<Rightarrow> fields list \<Rightarrow> int \<Rightarrow> ('c, int) op" where
  "writeRun X C path docs = (\<lambda>index. bnd (txIndex X C path ''idx'' index) (\<lambda>index.
     bnd (txWrite X C path docs index) (\<lambda>index. txSetIndex C path ''idx'' index)))"

lemma writeRun_ok:
  assumes X: "dstore_ok X" and C: "cloud_ok C cm up" and c: "plain c" "plain i" and inv: "fsInvAt B C cm up s"
    and x: "x = txStart (cm s) (relPath [c, i]) ''idx'' v" "0 \<le> x" "int64_ok (x + int (length docs))" and docs: "docs \<noteq> []"
  shows "\<exists>s' new d. writeRun X C (relPath [c, i]) docs v s = (Inr (x + int (length docs)), s') \<and>
    fsInvAt (B((c, i) := x - int (length (logOf C c i s)))) C cm up s' \<and>
    logOf C c i s' = logOf C c i s @ new \<and> length new = length docs \<and>
    (\<forall>j < length docs. eventDoc (docs ! j) (x + int j) (new ! j)) \<and>
    cm s' (relPath [c, i]) = Some d \<and> cdFields d ''idx'' = Some (FInt (x + int (length docs))) \<and> othersSame C cm c i s s'"
proof -
  let ?p = "relPath [c, i]" and ?ds = "logOf C c i s" let ?n = "length ?ds" and ?k = "int (length docs)" and ?b = "B (c, i)"
  have up: "up s" and pin: "pathInv ?b (cm s) c i ?ds" using inv c by (simp_all add: fsInvAt_def)
  have hd: "case cm s ?p of None \<Rightarrow> ?ds = []
      | Some d \<Rightarrow> (cdFields d ''idx'' = Some (FInt (?b + int ?n)) \<or> cdFields d ''idx'' = None \<and> ?ds = []) \<and>
          headDoc (cdFields d)"
    using pin by (simp add: pathInv_def)
  have xn: "?ds = [] \<or> x = ?b + int ?n" using hd x(1) by (auto simp: txStart_def split: option.splits)
  obtain t where t: "txIndex X C ?p ''idx'' v s = (Inr x, t)" "up t"
      "case cm s ?p of Some d \<Rightarrow> t = s
       | None \<Rightarrow> \<exists>w. cm t = (cm s)(?p \<mapsto> \<lparr>cdFields = [''idx'' \<mapsto> FInt 0], cdCreated = w, cdUpdated = w\<rparr>)"
  proof -
    obtain t y where t: "txIndex X C ?p ''idx'' v s = (Inr y, t)" "up t"
      "case cm s ?p of Some d \<Rightarrow> t = s \<and> intField (cdFields d) ''idx'' v = Inr y
       | None \<Rightarrow> y = v \<and> (\<exists>w. cm t = (cm s)(?p \<mapsto> \<lparr>cdFields = [''idx'' \<mapsto> FInt 0], cdCreated = w, cdUpdated = w\<rparr>))"
      using txIndex_ok[OF X C c up, of "''idx''" v] hd by (fastforce split: option.splits)
    have "y = x" using t(3) hd x(1) by (auto simp: txStart_def split: option.splits)
    with t that[of t] show ?thesis by (auto split: option.splits)
  qed
  have tm: "cm t q = cm s q" if "q \<noteq> ?p" for q using t(3) that by (auto split: option.splits)
  obtain hdr where hdr: "cm t ?p = Some hdr" "headDoc (cdFields hdr)"
    using t(3) hd by (cases "cm s ?p") (auto simp: headDoc_def)
  obtain u new where u: "txWrite X C ?p docs x t = (Inr (x + ?k), u)" "up u"
      "outside c i (cm t) (cm u)" "length new = length docs"
      "\<forall>j < length docs. eventDoc (docs ! j) (x + int j) (new ! j)" "logBag (cm u) c i = logBag (cm t) c i + mset new"
    using txWrite_ok[OF X C c t(2) x(2,3)] by blast
  have ndoc: "?p \<noteq> logDoc c' i' k" if "plain c'" "plain i'" "plain k" for c' i' k
    using logDoc_doc[OF that c] by metis
  have up': "cm u ?p = Some hdr" using u(3) hdr(1) ndoc[OF c] unfolding outside_def by simp
  obtain s' d where s': "cSet C ?p [''idx'' \<mapsto> FInt (x + ?k)] True u = (Inr (), s')" "up s'"
      "cm s' = (cm u)(?p \<mapsto> d)" "cdFields d = cdFields hdr ++ [''idx'' \<mapsto> FInt (x + ?k)]"
    using cloud_okD(5)[OF C u(2), of ?p _ True] up' by fastforce
  have run: "writeRun X C ?p docs v s = (Inr (x + ?k), s')"
    using t(1) u(1) s'(1) by (simp add: writeRun_def op_simps txSetIndex_def)
  have bag0: "logBag (cm t) c i = logBag (cm s) c i"
    using tm ndoc[OF c] by (intro logBag_cong) metis
  have bag1: "logBag (cm s') c i = logBag (cm u) c i"
    using s'(3) logDoc_doc[OF c _ c] by (intro logBag_cong) simp
  have idx: "idxOf (new ! j) = x + int j + 1" "cdFields (new ! j) ''idx'' = Some (FInt (x + int j + 1))" if "j < length new" for j
    using u(4,5) that by (simp_all add: eventDoc_def idxOf_def)
  have p1: "pathInv (x - int ?n) (cm s') c i (?ds @ new)"
    unfolding pathInv_def
  proof (intro conjI)
    show "0 \<le> x - int ?n" using xn x(2) pin by (auto simp: pathInv_def)
    show "map idxOf (?ds @ new) = map (\<lambda>t. x - int ?n + int t + 1) [0..<length (?ds @ new)]"
    proof (rule nth_equalityI)
      fix j assume j: "j < length (map idxOf (?ds @ new))"
      have "idxOf (?ds ! j) = x - int ?n + int j + 1" if "j < ?n"
      proof -
        have "map idxOf ?ds ! j = map (\<lambda>t. ?b + int t + 1) [0..<?n] ! j" using pin by (simp add: pathInv_def)
        with that xn show ?thesis by auto
      qed
      with j idx(1)[of "j - ?n"] show "map idxOf (?ds @ new) ! j = map (\<lambda>t. x - int ?n + int t + 1) [0..<length (?ds @ new)] ! j"
        by (auto simp: nth_append)
    qed simp
    show "\<forall>d \<in> set (?ds @ new). \<exists>n. cdFields d ''idx'' = Some (FInt n)"
      using pin idx(2) by (auto simp: pathInv_def in_set_conv_nth)
    have "mset ?ds = logBag (cm s) c i" using pin by (simp add: pathInv_def logBag_def)
    then show "mset (?ds @ new) = {#the (cm s' (logDoc c i k)). k \<in># mset_set (logKids (cm s') c i)#}"
      unfolding logBag_def[symmetric] bag1 u(6) bag0 by simp
    show "case cm s' ?p of None \<Rightarrow> ?ds @ new = []
      | Some d \<Rightarrow> (cdFields d ''idx'' = Some (FInt (x - int ?n + int (length (?ds @ new)))) \<or> cdFields d ''idx'' = None \<and> ?ds @ new = []) \<and>
          headDoc (cdFields d)"
      using s'(3,4) hdr(2) u(4) by simp
  qed
  have other: "cm s' q = cm s q" if "q \<noteq> ?p" "\<forall>k. plain k \<longrightarrow> q \<noteq> logDoc c i k" for q
    using s'(3) u(3) tm that unfolding outside_def by simp
  note fr = fsInv_frame[OF C c inv s'(2) other p1]
  show ?thesis using run fr u(4,5) s'(3,4) by (intro exI[of _ s'] exI[of _ new] exI[of _ d]) simp
qed

lemma txStart_nonneg:
  assumes "fsInvAt B C cm up s" "plain c" "plain i" "0 \<le> v"
  shows "0 \<le> txStart (cm s) (relPath [c, i]) ''idx'' v"
proof -
  have "pathInv (B (c, i)) (cm s) c i (logOf C c i s)" using assms(1-3) by (simp add: fsInvAt_def)
  then show ?thesis using assms(4) by (auto simp: pathInv_def txStart_def split: option.splits)
qed

text \<open>A batch, however often its transaction is run.\<close>

lemma writeAll_ok:
  assumes X: "dstore_ok X" and C: "cloud_ok C cm up" and c: "plain c" "plain i" and inv: "fsInvAt B C cm up s"
    and docs: "docs \<noteq> []" "length docs \<le> 498"
    and x: "x = txStart (cm s) (relPath [c, i]) ''idx'' (int (cAborts C s * length docs))" "int64_ok (x + int (length docs))"
  shows "\<exists>s' new d. writeAll X C (relPath [c, i]) docs s = (Inr (x + int (length docs)), s') \<and>
    fsInvAt (B((c, i) := x - int (length (logOf C c i s)))) C cm up s' \<and>
    logOf C c i s' = logOf C c i s @ new \<and> length new = length docs \<and>
    (\<forall>j < length docs. eventDoc (docs ! j) (x + int j) (new ! j)) \<and>
    cm s' (relPath [c, i]) = Some d \<and> cdFields d ''idx'' = Some (FInt (x + int (length docs))) \<and> othersSame C cm c i s s'"
proof -
  let ?f = "writeRun X C (relPath [c, i]) docs" and ?m = "cm s" and ?p = "relPath [c, i]"
  have x0: "0 \<le> x" unfolding x(1) by (rule txStart_nonneg[OF inv c]) simp
  have one: "\<exists>t. ?f v s = (Inr (txStart ?m ?p ''idx'' v + int (length docs)), t)"
    if "0 \<le> txStart ?m ?p ''idx'' v" "int64_ok (txStart ?m ?p ''idx'' v + int (length docs))" for v
    using writeRun_ok[OF X C c inv refl that docs(1)] by blast
  obtain v where v: "txStart ?m ?p ''idx'' v = x"
      "\<And>y s'. ?f v s = (Inr y, s') \<Longrightarrow> runTransaction (cAborts C s) ?f 0 s = (Inr y, s')"
    using rerun_start[of ?m ?p "''idx''" "length docs" ?f s "cAborts C s", OF one] x x0 by metis
  have run: "writeAll X C ?p docs s = runTransaction (cAborts C s) ?f 0 s"
    using docs(2) by (simp add: writeAll_def writeRun_def op_simps)
  from writeRun_ok[OF X C c inv v(1)[symmetric] x0 x(2) docs(1)] show ?thesis
    unfolding run using v(2) by blast
qed


text \<open>Appending any number of events, in chunks: only the transaction of the first can find no number.\<close>

definition addStart :: "'c cloud \<Rightarrow> ('c \<Rightarrow> string \<Rightarrow> cdoc option) \<Rightarrow> string \<Rightarrow> string \<Rightarrow> nat \<Rightarrow> 'c \<Rightarrow> int" where
  "addStart C cm c i k s = txStart (cm s) (relPath [c, i]) ''idx'' (int (cAborts C s * min 498 k))"

lemma txStart_stored: "m p = Some d \<Longrightarrow> cdFields d name = Some (FInt x) \<Longrightarrow> txStart m p name v = x"
  by (simp add: txStart_def)

lemma fsWriteChunks_ok:
  assumes X: "dstore_ok X" and C: "cloud_ok C cm up" and c: "plain c" "plain i"
  shows "fsInvAt B C cm up s \<Longrightarrow> x = addStart C cm c i (length docs) s \<Longrightarrow> int64_ok (x + int (length docs)) \<Longrightarrow> docs \<noteq> [] \<Longrightarrow>
    \<exists>s' new d. fsWriteChunks X C (canon [c, i]) docs idx s = (Inr (x + int (length docs)), s') \<and>
      fsInvAt (B((c, i) := x - int (length (logOf C c i s)))) C cm up s' \<and>
      logOf C c i s' = logOf C c i s @ new \<and> length new = length docs \<and>
      (\<forall>j < length docs. eventDoc (docs ! j) (x + int j) (new ! j)) \<and>
      cm s' (relPath [c, i]) = Some d \<and> cdFields d ''idx'' = Some (FInt (x + int (length docs))) \<and> othersSame C cm c i s s'"
proof (induction "length docs" arbitrary: docs s idx x B rule: less_induct)
  case less
  let ?n = "length (logOf C c i s)" let ?a = "take 498 docs" let ?b = "drop 498 docs" and ?p = "relPath [c, i]"
  have a: "?a \<noteq> []" "length ?a \<le> 498" "length ?a + length ?b = length docs"
    using less.prems(4) by auto
  have xa: "x = txStart (cm s) ?p ''idx'' (int (cAborts C s * length ?a))" "int64_ok (x + int (length ?a))"
  proof -
    show x: "x = txStart (cm s) ?p ''idx'' (int (cAborts C s * length ?a))"
      using less.prems(2) by (simp add: addStart_def min.commute)
    have "0 \<le> x" unfolding x by (rule txStart_nonneg[OF less.prems(1) c]) simp
    then show "int64_ok (x + int (length ?a))" using less.prems(3) by (simp add: int64_ok_def)
  qed
  obtain t new1 d1 where t: "writeAll X C ?p ?a s = (Inr (x + int (length ?a)), t)"
      "fsInvAt (B((c, i) := x - int ?n)) C cm up t" "logOf C c i t = logOf C c i s @ new1" "length new1 = length ?a"
      "\<forall>j < length ?a. eventDoc (?a ! j) (x + int j) (new1 ! j)" "cm t ?p = Some d1"
      "cdFields d1 ''idx'' = Some (FInt (x + int (length ?a)))" "othersSame C cm c i s t"
    using writeAll_ok[OF X C c less.prems(1) a(1,2) xa] by blast
  have np: "normalizePath X (canon [c, i]) = ?p" using c by (intro normalizePath_canon[OF X]) simp
  have step: "fsWriteChunks X C (canon [c, i]) docs idx s = fsWriteChunks X C (canon [c, i]) ?b (x + int (length ?a)) t"
    using less.prems(4) np t(1) by (subst fsWriteChunks.simps) (simp add: op_simps del: canon.simps)
  show ?case
  proof (cases "?b = []")
    case True
    then have "fsWriteChunks X C (canon [c, i]) docs idx s = (Inr (x + int (length docs)), t)" "?a = docs"
      unfolding step using a(3) by (simp_all add: fsWriteChunks.simps op_simps)
    with t show ?thesis by (intro exI[of _ t] exI[of _ new1] exI[of _ d1]) simp
  next
    case False
    let ?x = "x + int (length ?a)"
    have start: "?x = addStart C cm c i (length ?b) t" using txStart_stored[of "cm t" ?p, OF t(6,7)] by (simp add: addStart_def)
    have ok: "int64_ok (?x + int (length ?b))" using less.prems(3) a(3) by (metis add.assoc of_nat_add)
    have len: "length ?b < length docs" using less.prems(4) by simp
    have bx: "?x - int (length (logOf C c i t)) = x - int ?n" using t(3,4) by simp
    obtain s' new2 d where s': "fsWriteChunks X C (canon [c, i]) ?b ?x t = (Inr (?x + int (length ?b)), s')"
        "fsInvAt (B((c, i) := x - int ?n)) C cm up s'" "logOf C c i s' = logOf C c i t @ new2" "length new2 = length ?b"
        "\<forall>j < length ?b. eventDoc (?b ! j) (?x + int j) (new2 ! j)"
        "cm s' ?p = Some d" "cdFields d ''idx'' = Some (FInt (?x + int (length ?b)))" "othersSame C cm c i t s'"
      using less.hyps[OF len t(2) start ok False, of ?x, unfolded bx fun_upd_upd] by blast
    have sum: "?x + int (length ?b) = x + int (length docs)" using a(3) by (metis add.assoc of_nat_add)
    have ev: "eventDoc (docs ! j) (x + int j) ((new1 @ new2) ! j)" if j: "j < length docs" for j
    proof (cases "j < length ?a")
      case True
      with t(4,5) show ?thesis by (simp add: nth_append)
    next
      case False
      then have "498 \<le> j" "j - length ?a < length ?b" "length ?a = 498" using j by auto
      with s'(5)[rule_format, of "j - length ?a"] t(4) False show ?thesis by (simp add: nth_append)
    qed
    show ?thesis
      using step s' t(3,4) ev othersSame_trans[OF t(8) s'(8)] a(3) unfolding sum
      by (intro exI[of _ s'] exI[of _ "new1 @ new2"] exI[of _ d]) simp
  qed
qed

section \<open>Listing events\<close>

lemma fsNexts_all:
  assumes "\<forall>d \<in> set ds. \<exists>n. cdFields d ''idx'' = Some (FInt n)"
  shows "fsNexts X (Some n) ds None =
    (map (\<lambda>d. \<lparr>feFields = cdFields d, feIndex = idxOf d, feTs = xMillis X (cdCreated d)\<rparr>) (take n ds), None)"
  using assms
proof (induction ds arbitrary: n)
  case (Cons d ds)
  then obtain x where "cdFields d ''idx'' = Some (FInt x)" by auto
  with Cons show ?case by (cases n) (simp_all add: idxOf_def)
qed simp

lemma filter_index:
  assumes "map f ds = map (\<lambda>t. b + int t + 1) [0..<length ds]"
  shows "filter (\<lambda>d. i < f d) ds = drop (nat (i - b)) ds"
proof -
  have at: "f (ds ! t) = b + int t + 1" if "t < length ds" for t
    using that arg_cong[OF assms, of "\<lambda>l. l ! t"] by simp
  have "filter (\<lambda>d. i < f d) (take (nat (i - b)) ds) = []"
    using at by (auto simp: filter_empty_conv in_set_conv_nth)
  moreover have "filter (\<lambda>d. i < f d) (drop (nat (i - b)) ds) = drop (nat (i - b)) ds"
    using at by (auto simp: filter_id_conv in_set_conv_nth)
  ultimately show ?thesis
    by (metis append_Nil append_take_drop_id filter_append)
qed

lemma fsEvents_ok:
  assumes X: "dstore_ok X" and C: "cloud_ok C cm up" and c: "plain c" "plain i" and inv: "fsInvAt B C cm up s"
    and l: "0 < limit" "0 \<le> n"
  shows "fsEvents X C (canon [c, i]) n limit True s =
    (Inr (map (\<lambda>t. \<lparr>feFields = cdFields (logOf C c i s ! t), feIndex = B (c, i) + int t + 1, feTs = xMillis X (cdCreated (logOf C c i s ! t))\<rparr>)
       (take (nat limit) [nat (n - B (c, i))..<length (logOf C c i s)]), None), s)"
proof -
  let ?ds = "logOf C c i s" and ?b = "B (c, i)"
  have pin: "pathInv ?b (cm s) c i ?ds" and up: "up s" using inv c by (simp_all add: fsInvAt_def)
  have col: "normalizePath X (xPath X [canon [c, i], ''log'']) = logCol c i"
    using xPath_logOf[OF X c] normalizePath_canon[OF X, of "[c, i, ''log'']"] c by (simp add: logCol_def del: canon.simps)
  have ix: "map idxOf ?ds = map (\<lambda>t. ?b + int t + 1) [0..<length ?ds]" and b: "0 \<le> ?b" using pin by (simp_all add: pathInv_def)
  have q: "cQuery C (logCol c i) True (if n = 0 then None else Some n) s = (drop (nat (n - ?b)) ?ds, None)"
  proof (cases "n = 0")
    case True
    then show ?thesis using b cloud_okD(9)[OF C up, of "logCol c i"] by (auto simp: logOf_def)
  next
    case False
    then show ?thesis
      using cloud_okD(10)[OF C up, of "logCol c i" n] filter_index[OF ix, of n] by (simp add: logOf_def)
  qed
  have at: "idxOf (?ds ! t) = ?b + int t + 1" if "t < length ?ds" for t
    using that arg_cong[OF ix, of "\<lambda>l. l ! t"] by simp
  have "\<forall>d \<in> set (drop (nat (n - ?b)) ?ds). \<exists>x. cdFields d ''idx'' = Some (FInt x)"
    using pin by (auto simp: pathInv_def dest: in_set_dropD)
  note nx = fsNexts_all[OF this, of X "nat limit"]
  have "map (\<lambda>d. \<lparr>feFields = cdFields d, feIndex = idxOf d, feTs = xMillis X (cdCreated d)\<rparr>) (take (nat limit) (drop (nat (n - ?b)) ?ds)) =
    map (\<lambda>t. \<lparr>feFields = cdFields (?ds ! t), feIndex = ?b + int t + 1, feTs = xMillis X (cdCreated (?ds ! t))\<rparr>)
       (take (nat limit) [nat (n - ?b)..<length ?ds])"
    using at by (intro nth_equalityI) auto
  then show ?thesis
    using l col q nx by (simp add: fsEvents_def op_simps Let_def del: canon.simps)
qed

section \<open>Deleting events\<close>

text \<open>The loop ends, because a batch deletes at least one document.\<close>

lemma deleteCollection_ok:
  assumes X: "dstore_ok X" and C: "cloud_ok C cm up" and c: "plain c" "plain i" and n: "0 < n"
  shows "up s \<Longrightarrow> \<exists>s'. deleteCollection X C (canon [c, i, ''log'']) n s = Some (Inr (), s') \<and> up s' \<and>
    outside c i (cm s) (cm s') \<and> logKids (cm s') c i = {}"
proof (induction "card (logKids (cm s) c i)" arbitrary: s rule: less_induct)
  case less
  have np: "normalizePath X (canon [c, i, ''log'']) = logCol c i"
    using normalizePath_canon[OF X, of "[c, i, ''log'']"] c by (simp add: logCol_def del: canon.simps)
  have kl: "kids m (logCol c i) = logKids m c i" for m
    unfolding kids_def logKids_def logDoc_eq ..
  obtain ids where ids: "cIds C (logCol c i) n s = (ids, None)" "set ids \<subseteq> logKids (cm s) c i"
      "ids = [] \<longrightarrow> logKids (cm s) c i = {}"
    using cloud_okD(8)[OF C less.prems, of "logCol c i" n] n unfolding kl by blast
  show ?case
  proof (cases "ids = []")
    case True
    then have "deleteCollection X C (canon [c, i, ''log'']) n s = Some (Inr (), s)"
      using np ids(1) by (subst deleteCollection.simps) (simp del: canon.simps)
    with True ids(3) less.prems show ?thesis by (intro exI[of _ s]) (simp add: outside_def)
  next
    case False
    let ?ps = "map (\<lambda>k. logCol c i @ ''/'' @ k) ids"
    obtain t where t: "cBatchDelete C ?ps s = (Inr (), t)" "up t" "cm t = cm s |` (- set ?ps)"
      using cloud_okD(7)[OF C less.prems] by blast
    have mem: "p \<in> set ?ps \<longleftrightarrow> (\<exists>k \<in> set ids. p = logDoc c i k)" for p
      using logDoc_eq by (force simp: image_iff)
    have pl: "plain k" if "k \<in> set ids" for k using that ids(2) by (auto simp: logKids_def)
    have kt: "logKids (cm t) c i = logKids (cm s) c i - set ids"
      using mem pl logDoc_inj[OF c _ c] unfolding logKids_def t(3) by (auto simp: restrict_map_def split: if_splits)
    have "card (logKids (cm t) c i) < card (logKids (cm s) c i)"
      unfolding kt using False ids(2) finite_logKids[OF cloud_okD(1)[OF C less.prems] c]
      by (intro psubset_card_mono) (auto simp: neq_Nil_conv)
    from less.hyps[OF this t(2)] obtain s' where s': "deleteCollection X C (canon [c, i, ''log'']) n t = Some (Inr (), s')"
        "up s'" "outside c i (cm t) (cm s')" "logKids (cm s') c i = {}"
      by blast
    have "deleteCollection X C (canon [c, i, ''log'']) n s = Some (Inr (), s')"
      using False np ids(1) t(1) s'(1) by (subst deleteCollection.simps) (simp del: canon.simps)
    moreover have "outside c i (cm s) (cm s')"
      using s'(3) mem pl unfolding outside_def t(3) by (auto simp: restrict_map_def)
    ultimately show ?thesis using s'(2,4) by blast
  qed
qed

lemma fsGetDoc_run:
  assumes "dstore_ok X" "cloud_ok C cm up" "up s" "plain c" "plain i"
  shows "fsGetDoc X C (canon [c, i]) s = (Inr (cm s (relPath [c, i])), s)"
    "fsGetDoc X C (relPath [c, i]) s = (Inr (cm s (relPath [c, i])), s)"
  using normalizePath_canon[OF assms(1), of "[c, i]"] normalizePath_rel[OF assms(1), of "[c, i]"] assms(4,5)
    cloud_okD(3)[OF assms(2,3)]
  by (simp_all add: fsGetDoc_def op_simps del: canon.simps)

lemma fsEventsDelete_ok:
  assumes X: "dstore_ok X" and C: "cloud_ok C cm up" and c: "plain c" "plain i" and inv: "fsInvAt B C cm up s"
  shows "\<exists>s'. fsEventsDelete X C (canon [c, i]) s = (Inr (cm s (relPath [c, i]) \<noteq> None), s') \<and>
    fsInvAt B C cm up s' \<and> logOf C c i s' = [] \<and> cm s' (relPath [c, i]) = None \<and> othersSame C cm c i s s'"
proof -
  let ?p = "relPath [c, i]"
  have up: "up s" using inv by (simp add: fsInvAt_def)
  obtain t where t: "deleteCollection X C (canon [c, i, ''log'']) 100 s = Some (Inr (), t)" "up t"
      "outside c i (cm s) (cm t)" "logKids (cm t) c i = {}"
    using deleteCollection_ok[OF X C c _ up, of 100] by auto
  have nd: "?p \<noteq> logDoc c i k" if "plain k" for k using logDoc_doc[OF c that c] by metis
  have pt: "cm t ?p = cm s ?p" using t(3) nd by (simp add: outside_def)
  obtain u where u: "cDelete C ?p t = (Inr (), u)" "up u" "cm u = (cm t)(?p := None)"
    using cloud_okD(6)[OF C t(2)] by blast
  have np: "normalizePath X (canon [c, i]) = ?p" using c by (intro normalizePath_canon[OF X]) simp
  define s' where "s' = (if cm s ?p = None then t else u)"
  have run: "fsEventsDelete X C (canon [c, i]) s = (Inr (cm s ?p \<noteq> None), s')"
  proof -
    have ex: "fsExists X C (canon [c, i]) t = (Inr (cm s ?p \<noteq> None), t)"
      using fsGetDoc_run(1)[OF X C t(2) c] pt by (simp add: fsExists_def op_simps)
    show ?thesis
      unfolding fsEventsDelete_def xPath_logOf[OF X c] bnd_def np t(1)
      by (simp only: prod.case sum.case option.case ex u(1) ret_def s'_def split: if_split) simp
  qed
  have at: "cm s' ?p = None" "up s'" using pt u(2,3) t(2) by (auto simp: s'_def)
  have keep: "cm s' q = cm t q" if "q \<noteq> ?p" for q using u(3) that by (simp add: s'_def)
  have "cm s' (logDoc c i k) = cm t (logDoc c i k)" if "plain k" for k
    using nd[OF that] by (intro keep) (rule not_sym)
  then have "logKids (cm s') c i = logKids (cm t) c i" by (auto simp: logKids_def)
  then have "logKids (cm s') c i = {}" using t(4) by simp
  then have here: "pathInv (B (c, i)) (cm s') c i []" using at(1) inv c by (simp add: pathInv_def fsInvAt_def)
  have "cm s' q = cm s q" if "q \<noteq> ?p" "\<forall>k. plain k \<longrightarrow> q \<noteq> logDoc c i k" for q
    using keep[OF that(1)] t(3) that(2) by (simp add: outside_def)
  from fsInv_frame[OF C c inv at(2) this here] run at(1) show ?thesis by auto
qed

section \<open>Documents\<close>

text \<open>A change of the path's document that leaves its number and its events alone.\<close>

lemma fsInv_setDoc:
  assumes C: "cloud_ok C cm up" and c: "plain c" "plain i" and inv: "fsInvAt B C cm up s" and up: "up s'"
    and cm': "cm s' = (cm s)(relPath [c, i] \<mapsto> d)"
    and d: "cdFields d ''idx'' = (case cm s (relPath [c, i]) of None \<Rightarrow> None | Some o' \<Rightarrow> cdFields o' ''idx'') \<or>
      cdFields d ''idx'' = None \<and> logOf C c i s = []"
      "headDoc (cdFields d)"
  shows "fsInvAt B C cm up s'" "logOf C c i s' = logOf C c i s" "othersSame C cm c i s s'"
proof -
  let ?p = "relPath [c, i]" let ?ds = "logOf C c i s"
  have nd: "logDoc c i k \<noteq> ?p" if "plain k" for k using logDoc_doc[OF c that c] .
  have pin: "pathInv (B (c, i)) (cm s) c i ?ds" using inv c by (simp add: fsInvAt_def)
  have bag: "logBag (cm s') c i = logBag (cm s) c i" using cm' nd by (intro logBag_cong) simp
  have "mset ?ds = logBag (cm s') c i" using pin unfolding bag by (simp add: pathInv_def logBag_def)
  then have "pathInv (B (c, i)) (cm s') c i ?ds"
    using pin d cm' unfolding pathInv_def logBag_def by (auto split: option.splits)
  from fsInv_frame[OF C c inv up _ this] cm' show "fsInvAt B C cm up s'" "logOf C c i s' = ?ds" "othersSame C cm c i s s'"
    by simp_all
qed

lemma fsIncrement_ok:
  assumes X: "dstore_ok X" and C: "cloud_ok C cm up" and c: "plain c" "plain i" and inv: "fsInvAt B C cm up s"
    and doc: "cm s (relPath [c, i]) \<noteq> None" and n: "0 < n" and calm: "calm C up"
  shows "\<exists>r s'. fsIncrement X C (canon [c, i]) ''usage'' n s = (Inr r, s') \<and> fsInvAt B C cm up s' \<and>
    logOf C c i s' = logOf C c i s \<and> cm s' (relPath [c, i]) \<noteq> None \<and> othersSame C cm c i s s'"
proof -
  let ?p = "relPath [c, i]"
  have up: "up s" and pin: "pathInv (B (c, i)) (cm s) c i (logOf C c i s)" using inv c by (simp_all add: fsInvAt_def)
  obtain d where d: "cm s ?p = Some d" using doc by blast
  have us: "headDoc (cdFields d)" using pin d by (simp add: pathInv_def)
  obtain x where tx: "txIndex X C ?p ''usage'' 0 s = (Inr x, s)"
    using txIndex_ok[OF X C c up, of "''usage''"] us d by (fastforce simp: headDoc_def)
  obtain s' d' where s': "cSet C ?p [''usage'' \<mapsto> FInt (i64 (x + n))] True s = (Inr (), s')" "up s'"
      "cm s' = (cm s)(?p \<mapsto> d')" "cdFields d' = cdFields d ++ [''usage'' \<mapsto> FInt (i64 (x + n))]"
    using cloud_okD(5)[OF C up, of ?p "[''usage'' \<mapsto> FInt (i64 (x + n))]" True] d by auto
  have np: "normalizePath X (canon [c, i]) = ?p" using c by (intro normalizePath_canon[OF X]) simp
  have run: "\<exists>r. fsIncrement X C (canon [c, i]) ''usage'' n s = (Inr r, s')"
    using n np calm up tx s'(1)
    by (simp add: fsIncrement_def calm_def op_simps txSetIndex_def Let_def del: canon.simps)
  have "cdFields d' ''idx'' = (case cm s ?p of None \<Rightarrow> None | Some o' \<Rightarrow> cdFields o' ''idx'')"
    "headDoc (cdFields d')"
    using s'(4) d us by (simp_all add: headDoc_def)
  then have "fsInvAt B C cm up s'" "logOf C c i s' = logOf C c i s" "othersSame C cm c i s s'"
    using fsInv_setDoc[OF C c inv s'(2,3)] by simp_all
  with run s'(3) show ?thesis by auto
qed

lemma fsSet_ok:
  assumes X: "dstore_ok X" and C: "cloud_ok C cm up" and c: "plain c" "plain i" and inv: "fsInvAt B C cm up s"
    and x: "logOf C c i s = []" "headDoc x" "x ''idx'' = None"
  shows "\<exists>s'. fsSet X C (canon [c, i]) x False s = (Inr (), s') \<and> fsInvAt B C cm up s' \<and>
    logOf C c i s' = logOf C c i s \<and> cm s' (relPath [c, i]) \<noteq> None \<and> othersSame C cm c i s s'"
proof -
  let ?p = "relPath [c, i]"
  have up: "up s" using inv by (simp add: fsInvAt_def)
  obtain s' d where s': "cSet C ?p x False s = (Inr (), s')" "up s'" "cm s' = (cm s)(?p \<mapsto> d)" "cdFields d = x"
    using cloud_okD(5)[OF C up, of ?p x False] by auto
  have np: "normalizePath X (canon [c, i]) = ?p" using c by (intro normalizePath_canon[OF X]) simp
  have "fsSet X C (canon [c, i]) x False s = (Inr (), s')"
    using np s'(1) checkPath_doc[OF X c] by (simp add: fsSet_def op_simps del: canon.simps)
  moreover have "fsInvAt B C cm up s'" "logOf C c i s' = logOf C c i s" "othersSame C cm c i s s'"
    using fsInv_setDoc[OF C c inv s'(2,3)] x s'(4) by simp_all
  ultimately show ?thesis using s'(3) by auto
qed

lemma fsGet_ok:
  assumes X: "dstore_ok X" and C: "cloud_ok C cm up" and c: "plain c" "plain i" and up: "up s"
  shows "\<exists>d. fsGet X C (canon [c, i]) s = (Inr d, s) \<and> (d \<noteq> None \<longleftrightarrow> cm s (relPath [c, i]) \<noteq> None) \<and>
      (\<forall>doc. d = Some doc \<longrightarrow> (\<exists>cd. cm s (relPath [c, i]) = Some cd \<and> doFields doc = cdFields cd))"
    "fsExists X C (canon [c, i]) s = (Inr (cm s (relPath [c, i]) \<noteq> None), s)"
  using checkPath_doc[OF X c] fsGetDoc_run(1)[OF X C up c]
  by (auto simp: fsGet_def fsExists_def op_simps simp del: canon.simps split: option.splits)


text \<open>A counter, however often its transaction is run: it goes on from the stored number, or from what
  the runs before added; the document is made when there is none.\<close>

lemma fsIncrement_exact:
  assumes X: "dstore_ok X" and C: "cloud_ok C cm up" and c: "plain c" "plain i" and inv: "fsInvAt B C cm up s"
    and n: "0 < n" and x: "x = txStart (cm s) (relPath [c, i]) ''usage'' (int (cAborts C s * nat n))" "0 \<le> x" "int64_ok (x + n)"
  shows "\<exists>s' d. fsIncrement X C (canon [c, i]) ''usage'' n s = (Inr (x + n, x + 1), s') \<and> fsInvAt B C cm up s' \<and>
    logOf C c i s' = logOf C c i s \<and> cm s' (relPath [c, i]) = Some d \<and>
    cdFields d = (case cm s (relPath [c, i]) of None \<Rightarrow> Map.empty | Some o' \<Rightarrow> cdFields o')(''usage'' \<mapsto> FInt (x + n)) \<and>
    othersSame C cm c i s s'"
proof -
  let ?p = "relPath [c, i]" and ?f = "\<lambda>index. bnd (txIndex X C (relPath [c, i]) ''usage'' index) (\<lambda>index.
     txSetIndex C (relPath [c, i]) ''usage'' (i64 (index + n)))"
  let ?old = "case cm s ?p of None \<Rightarrow> Map.empty | Some o' \<Rightarrow> cdFields o'"
  have up: "up s" and pin: "pathInv (B (c, i)) (cm s) c i (logOf C c i s)" using inv c by (simp_all add: fsInvAt_def)
  have hd: "headDoc (cdFields d)" if "cm s ?p = Some d" for d using pin that by (simp add: pathInv_def)
  have one: "\<exists>s' d. ?f v s = (Inr (y + n), s') \<and> up s' \<and> cm s' = (cm s)(?p \<mapsto> d) \<and> cdFields d = ?old(''usage'' \<mapsto> FInt (y + n))"
    if y: "txStart (cm s) ?p ''usage'' v = y" "int64_ok (y + n)" for v y
  proof -
    obtain t z where t: "txIndex X C ?p ''usage'' v s = (Inr z, t)" "up t"
      "case cm s ?p of Some d \<Rightarrow> t = s \<and> intField (cdFields d) ''usage'' v = Inr z
       | None \<Rightarrow> z = v \<and> (\<exists>w. cm t = (cm s)(?p \<mapsto> \<lparr>cdFields = [''usage'' \<mapsto> FInt 0], cdCreated = w, cdUpdated = w\<rparr>))"
      using txIndex_ok[OF X C c up, of "''usage''" v] hd by (fastforce simp: headDoc_def)
    have z: "z = y" using t(3) y(1) hd by (auto simp: txStart_def headDoc_def split: option.splits)
    obtain s' d where s': "cSet C ?p [''usage'' \<mapsto> FInt (y + n)] True t = (Inr (), s')" "up s'" "cm s' = (cm t)(?p \<mapsto> d)"
        "cdFields d = (case cm t ?p of None \<Rightarrow> [''usage'' \<mapsto> FInt (y + n)] | Some o' \<Rightarrow> cdFields o' ++ [''usage'' \<mapsto> FInt (y + n)])"
      using cloud_okD(5)[OF C t(2), of ?p "[''usage'' \<mapsto> FInt (y + n)]" True] by auto
    have "i64 (y + n) = y + n" using y(2) by simp
    then have "?f v s = (Inr (y + n), s')" using t(1) z s'(1) by (simp add: txSetIndex_def op_simps)
    moreover have "cm s' = (cm s)(?p \<mapsto> d)" "cdFields d = ?old(''usage'' \<mapsto> FInt (y + n))"
      using t(3) s'(3,4) by (auto split: option.splits)
    ultimately show ?thesis using s'(2) by blast
  qed
  have nn: "int (nat n) = n" using n by simp
  have one': "\<exists>t. ?f v s = (Inr (txStart (cm s) ?p ''usage'' v + int (nat n)), t)"
    if "0 \<le> txStart (cm s) ?p ''usage'' v" "int64_ok (txStart (cm s) ?p ''usage'' v + int (nat n))" for v
    using one[OF refl, of v] that(2) unfolding nn by blast
  obtain v where v: "txStart (cm s) ?p ''usage'' v = x"
      "\<And>y s'. ?f v s = (Inr y, s') \<Longrightarrow> runTransaction (cAborts C s) ?f 0 s = (Inr y, s')"
    using rerun_start[of "cm s" ?p "''usage''" "nat n" ?f s "cAborts C s", OF one'] x unfolding nn by metis
  obtain s' d where s': "?f v s = (Inr (x + n), s')" "up s'" "cm s' = (cm s)(?p \<mapsto> d)" "cdFields d = ?old(''usage'' \<mapsto> FInt (x + n))"
    using one[OF v(1) x(3)] by blast
  have np: "normalizePath X (canon [c, i]) = ?p" using c by (intro normalizePath_canon[OF X]) simp
  have "i64 (x + 1) = x + 1" using x(2,3) n by (intro i64_id) (simp add: int64_ok_def)
  then have run: "fsIncrement X C (canon [c, i]) ''usage'' n s = (Inr (x + n, x + 1), s')"
    using n np v(2)[OF s'(1)] by (simp add: fsIncrement_def op_simps Let_def algebra_simps del: canon.simps)
  have "cdFields d ''idx'' = (case cm s ?p of None \<Rightarrow> None | Some o' \<Rightarrow> cdFields o' ''idx'')" "headDoc (cdFields d)"
    using s'(4) hd by (auto simp: headDoc_def split: option.splits)
  then have "fsInvAt B C cm up s'" "logOf C c i s' = logOf C c i s" "othersSame C cm c i s s'"
    using fsInv_setDoc[OF C c inv s'(2,3)] by simp_all
  with run s'(3,4) show ?thesis by auto
qed

text \<open>\<^verbatim>\<open>PathComponents\<close> takes a path without a leading slash too.\<close>

definition relative_ok :: "'z ext_scheme \<Rightarrow> bool" where
  "relative_ok X \<longleftrightarrow> (\<forall>cs. plains cs \<longrightarrow> xPathComponents X (relPath cs) = cs)"

lemma fsCreate_ok:
  assumes X: "dstore_ok X" and C: "cloud_ok C cm up" and c: "plain c" "plain i" and up: "up s"
  shows "cm s (relPath [c, i]) \<noteq> None \<Longrightarrow>
      fsCreate X C (canon [c, i]) v s = (Inl (LibErr (''path already exists '' @ canon [c, i])), s)"
    "cm s (relPath [c, i]) = None \<Longrightarrow> \<exists>s' t. fsCreate X C (canon [c, i]) v s = (Inr (), s') \<and> up s' \<and>
      cm s' = (cm s)(relPath [c, i] \<mapsto> \<lparr>cdFields = v, cdCreated = t, cdUpdated = t\<rparr>)"
proof -
  have np: "normalizePath X (canon [c, i]) = relPath [c, i]" using c by (intro normalizePath_canon[OF X]) simp
  show "fsCreate X C (canon [c, i]) v s = (Inl (LibErr (''path already exists '' @ canon [c, i])), s)"
    if "cm s (relPath [c, i]) \<noteq> None"
    using np checkPath_doc[OF X c] cloud_okD(2)[OF C up that] by (simp add: fsCreate_def op_simps mapErr_def del: canon.simps)
  show "\<exists>s' t. fsCreate X C (canon [c, i]) v s = (Inr (), s') \<and> up s' \<and>
      cm s' = (cm s)(relPath [c, i] \<mapsto> \<lparr>cdFields = v, cdCreated = t, cdUpdated = t\<rparr>)"
    if "cm s (relPath [c, i]) = None"
    using np checkPath_doc[OF X c] cloud_okD(4)[OF C up that, of v] by (auto simp: fsCreate_def op_simps mapErr_def simp del: canon.simps)
qed

lemma fsDelete_ok:
  assumes X: "dstore_ok X" "relative_ok X" and C: "cloud_ok C cm up" and c: "plain c" "plain i" and up: "up s"
  shows "\<exists>s'. fsDelete X C (canon [c, i]) s = (Inr (cm s (relPath [c, i]) \<noteq> None), s') \<and> up s' \<and>
    cm s' = (cm s)(relPath [c, i] := None)"
proof -
  have np: "normalizePath X (canon [c, i]) = relPath [c, i]" using c by (intro normalizePath_canon[OF X(1)]) simp
  have "xPathComponents X (relPath [c, i]) = [c, i]" using X(2) c by (simp add: relative_ok_def)
  moreover have "fsExists X C (relPath [c, i]) s = (Inr (cm s (relPath [c, i]) \<noteq> None), s)"
    using fsGetDoc_run(2)[OF X(1) C up c] by (simp add: fsExists_def op_simps)
  moreover obtain u where "cDelete C (relPath [c, i]) s = (Inr (), u)" "up u" "cm u = (cm s)(relPath [c, i] := None)"
    using cloud_okD(6)[OF C up] by blast
  ultimately show ?thesis
    using np up by (cases "cm s (relPath [c, i])") (auto simp: fsDelete_def op_simps Let_def fun_upd_idem simp del: canon.simps)
qed

text \<open>The positions of several paths: for each that has a document its number.\<close>

definition positionOf :: "'z ext_scheme \<Rightarrow> string \<Rightarrow> cdoc \<Rightarrow> position" where
  "positionOf X p d = \<lparr>poPath = p, poIndex = idxOf d, poTimestamp = xMillis X (cdUpdated d)\<rparr>"

lemma fsEventPositions_ok:
  assumes X: "dstore_ok X" "relative_ok X" and C: "cloud_ok C cm up" and up: "up s"
    and ps: "\<forall>(c, i) \<in> set ps. plain c \<and> plain i"
  shows "\<exists>r. fsEventPositions X C (map (\<lambda>(c, i). canon [c, i]) ps) s = (Inr r, s) \<and>
    (\<forall>(c, i) \<in> set ps. r (canon [c, i]) = map_option (positionOf X (canon [c, i])) (cm s (relPath [c, i])))"
proof -
  obtain pr db where root: "plain pr" "plain db" "\<And>qs. cGetAll C qs s =
      Inr (map (\<lambda>p. (relPath [''projects'', pr, ''databases'', db, ''documents''] @ ''/'' @ p, cm s p)) qs)"
    using cloud_okD(12)[OF C up] by blast
  let ?root = "[''projects'', pr, ''databases'', db, ''documents'']"
  have path: "xPath X (drop 5 (xPathComponents X (relPath ?root @ ''/'' @ relPath [c, i]))) = canon [c, i]"
    "normalizePath X (canon [c, i]) = relPath [c, i]" if "plain c" "plain i" for c i
  proof -
    have "plains (?root @ [c, i])" using root that by (simp add: plain_def)
    moreover have "relPath ?root @ ''/'' @ relPath [c, i] = relPath (?root @ [c, i])" by (simp add: relPath_def)
    ultimately have "xPathComponents X (relPath ?root @ ''/'' @ relPath [c, i]) = ?root @ [c, i]"
      using X(2) by (simp only: relative_ok_def)
    then show "xPath X (drop 5 (xPathComponents X (relPath ?root @ ''/'' @ relPath [c, i]))) = canon [c, i]"
      using xPath_args[OF X(1), of "[c, i]" "[[c], [i]]"] that by (simp add: pathArg_def)
    show "normalizePath X (canon [c, i]) = relPath [c, i]" using that by (intro normalizePath_canon[OF X(1)]) simp
  qed
  let ?entry = "\<lambda>(c, i). map_option (\<lambda>d. (canon [c, i], positionOf X (canon [c, i]) d)) (cm s (relPath [c, i]))"
  have run: "fsEventPositions X C (map (\<lambda>(c, i). canon [c, i]) ps) s = (Inr (map_of (rev (List.map_filter ?entry ps))), s)"
  proof -
    have norm: "map (normalizePath X) (map (\<lambda>(c, i). canon [c, i]) ps) = map (\<lambda>(c, i). relPath [c, i]) ps"
      using ps path(2) by (auto simp del: canon.simps)
    have docs: "map (\<lambda>d. (doPath d, \<lparr>poPath = doPath d, poIndex = (case doFields d ''idx'' of Some (FInt n) \<Rightarrow> n | _ \<Rightarrow> 0),
            poTimestamp = xMillis X (doUpdatedAt d)\<rparr>))
        (List.map_filter (\<lambda>(ref, d). case d of None \<Rightarrow> None
            | Some doc \<Rightarrow> Some \<lparr>doPath = xPath X (drop 5 (xPathComponents X ref)), doFields = cdFields doc,
                             doCreatedAt = cdCreated doc, doUpdatedAt = cdUpdated doc\<rparr>)
          (map (\<lambda>(c, i). (relPath ?root @ ''/'' @ relPath [c, i], cm s (relPath [c, i]))) ps)) = List.map_filter ?entry ps"
      using ps
    proof (induction ps)
      case (Cons q ps)
      obtain c i where q: "q = (c, i)" by (cases q)
      with Cons path(1)[of c i] show ?case
        by (cases "cm s (relPath [c, i])") (simp_all add: map_filter_simps positionOf_def idxOf_def del: canon.simps)
    qed (simp add: map_filter_simps)
    show ?thesis
      unfolding fsEventPositions_def fsGetAll_def norm
      using docs by (simp add: op_simps root(3) comp_def case_prod_unfold del: canon.simps)
  qed
  have "map_of (rev (List.map_filter ?entry ps)) (canon [c, i]) = map_option (positionOf X (canon [c, i])) (cm s (relPath [c, i]))"
    if ci: "(c, i) \<in> set ps" for c i
  proof -
    have same: "(c', i') = (c, i)" if "(c', i') \<in> set ps" "canon [c', i'] = canon [c, i]" for c' i'
    proof -
      have "plain c'" "plain i'" "plain c" "plain i" using ps that(1) ci by auto
      then have "plains [c', i']" "plains [c, i]" by simp_all
      with that(2) show ?thesis using canon_inj[of "[c', i']" "[c, i]"] by (simp add: plains_def del: canon.simps)
    qed
    have mem: "(canon [c, i], v) \<in> set (List.map_filter ?entry ps) \<longleftrightarrow> (\<exists>d. cm s (relPath [c, i]) = Some d \<and> v = positionOf X (canon [c, i]) d)" for v
    proof
      assume "(canon [c, i], v) \<in> set (List.map_filter ?entry ps)"
      then obtain q' where q': "q' \<in> set ps" "?entry q' = Some (canon [c, i], v)"
        unfolding mem_map_filter by blast
      obtain c' i' where "q' = (c', i')" by (cases q')
      with q' have q: "(c', i') \<in> set ps" "?entry (c', i') = Some (canon [c, i], v)" by simp_all
      then obtain d where d: "cm s (relPath [c', i']) = Some d" "canon [c', i'] = canon [c, i]" "v = positionOf X (canon [c', i']) d"
        using q(2) by (cases "cm s (relPath [c', i'])") (simp_all del: canon.simps)
      from same[OF q(1) d(2)] d(1,3) show "\<exists>d. cm s (relPath [c, i]) = Some d \<and> v = positionOf X (canon [c, i]) d"
        by (simp del: canon.simps)
    next
      assume "\<exists>d. cm s (relPath [c, i]) = Some d \<and> v = positionOf X (canon [c, i]) d"
      then show "(canon [c, i], v) \<in> set (List.map_filter ?entry ps)"
        unfolding mem_map_filter by (intro bexI[OF _ ci]) (auto simp del: canon.simps)
    qed
    show ?thesis
    proof (cases "cm s (relPath [c, i])")
      case None
      have "map_of (rev (List.map_filter ?entry ps)) (canon [c, i]) = None"
      proof (rule ccontr)
        assume "map_of (rev (List.map_filter ?entry ps)) (canon [c, i]) \<noteq> None"
        then obtain v where "map_of (rev (List.map_filter ?entry ps)) (canon [c, i]) = Some v" by blast
        from map_of_SomeD[OF this] mem[of v] None show False unfolding set_rev by simp
      qed
      then show ?thesis using None by (simp del: canon.simps)
    next
      case (Some d)
      have "(canon [c, i], positionOf X (canon [c, i]) d) \<in> set (rev (List.map_filter ?entry ps))"
        unfolding set_rev mem using Some by blast
      from weak_map_of_SomeI[OF this] obtain v where v: "map_of (rev (List.map_filter ?entry ps)) (canon [c, i]) = Some v"
        by blast
      from map_of_SomeD[OF this] mem[of v] Some show ?thesis unfolding v set_rev by simp
    qed
  qed
  with run show ?thesis by blast
qed

text \<open>Adding events, with the position of the path afterwards.\<close>

lemma eventsAdd_ok:
  assumes "dstore_ok X" "relative_ok X" "cloud_ok C cm up" "fsInvAt B C cm up s" "plain c" "plain i"
    and "x = addStart C cm c i (length ds) s" "int64_ok (x + int (length ds))" "ds \<noteq> []"
  shows "\<exists>s' new d. fsEventsAdd X C (canon [c, i]) ds s = (Inr (x + int (length ds)), s') \<and>
    fsInvAt (B((c, i) := x - int (length (logOf C c i s)))) C cm up s' \<and>
    logOf C c i s' = logOf C c i s @ new \<and> length new = length ds \<and>
    (\<forall>j < length ds. eventDoc (ds ! j) (x + int j) (new ! j)) \<and> othersSame C cm c i s s' \<and>
    cm s' (relPath [c, i]) = Some d \<and> idxOf d = x + int (length ds) \<and>
    fsEventPosition X C (canon [c, i]) s' =
      (Inr (Some \<lparr>poPath = canon [c, i], poIndex = x + int (length ds), poTimestamp = xMillis X (cdUpdated d)\<rparr>), s')"
proof -
  from fsWriteChunks_ok[OF assms(1,3,5,6,4,7-9), of 0] obtain s' new d where
    s: "fsEventsAdd X C (canon [c, i]) ds s = (Inr (x + int (length ds)), s')"
      "fsInvAt (B((c, i) := x - int (length (logOf C c i s)))) C cm up s'"
      "logOf C c i s' = logOf C c i s @ new" "length new = length ds"
      "\<forall>j < length ds. eventDoc (ds ! j) (x + int j) (new ! j)"
      "cm s' (relPath [c, i]) = Some d" "cdFields d ''idx'' = Some (FInt (x + int (length ds)))" "othersSame C cm c i s s'"
    unfolding fsEventsAdd_def by blast
  have d: "idxOf d = x + int (length ds)" using s(7) by (simp add: idxOf_def)
  have "up s'" using s(2) by (simp add: fsInvAt_def)
  from fsEventPositions_ok[OF assms(1-3) this, of "[(c, i)]"] assms(5,6) obtain r where
    "fsEventPositions X C [canon [c, i]] s' = (Inr r, s')"
    "r (canon [c, i]) = map_option (positionOf X (canon [c, i])) (cm s' (relPath [c, i]))"
    by (auto simp del: canon.simps)
  then have "fsEventPosition X C (canon [c, i]) s' =
      (Inr (Some \<lparr>poPath = canon [c, i], poIndex = x + int (length ds), poTimestamp = xMillis X (cdUpdated d)\<rparr>), s')"
    using s(6) d by (simp add: fsEventPosition_def op_simps positionOf_def del: canon.simps)
  with s d show ?thesis by blast
qed

section \<open>The contract\<close>

text \<open>The events and the documents of the interface, read off the stored documents.\<close>

definition fsLog :: "'c cloud \<Rightarrow> 'c \<Rightarrow> string \<Rightarrow> fields list" where
  "fsLog C s p = (if docPath p then map cdFields (fst (cQuery C (tl p @ ''/log'') True None s)) else [])"

definition fsDoc :: "('c \<Rightarrow> string \<Rightarrow> cdoc option) \<Rightarrow> 'c \<Rightarrow> string \<Rightarrow> bool" where
  "fsDoc cm s p \<longleftrightarrow> docPath p \<and> cm s (tl p) \<noteq> None"

lemma docPath_canon: "plain c \<Longrightarrow> plain i \<Longrightarrow> docPath (canon [c, i])"
  by (auto simp: docPath_def simp del: canon.simps)

lemma fsLog_at: "plain c \<Longrightarrow> plain i \<Longrightarrow> fsLog C s (canon [c, i]) = map cdFields (logOf C c i s)"
  using docPath_canon[of c i] by (simp add: fsLog_def logOf_def logCol_def relPath_def)

lemma fsDoc_at: "plain c \<Longrightarrow> plain i \<Longrightarrow> fsDoc cm s (canon [c, i]) \<longleftrightarrow> cm s (relPath [c, i]) \<noteq> None"
  using docPath_canon[of c i] by (simp add: fsDoc_def relPath_def)

lemma fs_changed:
  assumes c: "plain c" "plain i" and o: "othersSame C cm c i s s'"
  shows "fsLog C s' = (fsLog C s)(canon [c, i] := map cdFields (logOf C c i s'))"
    "fsDoc cm s' = (fsDoc cm s)(canon [c, i] := cm s' (relPath [c, i]) \<noteq> None)"
proof -
  have "fsLog C s' p = ((fsLog C s)(canon [c, i] := map cdFields (logOf C c i s'))) p \<and>
      fsDoc cm s' p = ((fsDoc cm s)(canon [c, i] := cm s' (relPath [c, i]) \<noteq> None)) p" for p
  proof (cases "docPath p")
    case False
    with docPath_canon[OF c] have "p \<noteq> canon [c, i]" by blast
    with False show ?thesis by (simp add: fsLog_def fsDoc_def)
  next
    case True
    then obtain c' i' where p: "plain c'" "plain i'" "p = canon [c', i']" unfolding docPath_def by blast
    show ?thesis
    proof (cases "(c', i') = (c, i)")
      case True
      with p fsLog_at[OF c, of C s'] fsDoc_at[OF c, of cm s'] show ?thesis by (simp del: canon.simps)
    next
      case False
      then have "p \<noteq> canon [c, i]" using p c canon_inj[of "[c', i']" "[c, i]"] by auto
      with p False o fsLog_at[OF p(1,2), of C] fsDoc_at[OF p(1,2), of cm] show ?thesis
        by (simp add: othersSame_def del: canon.simps)
    qed
  qed
  then show "fsLog C s' = (fsLog C s)(canon [c, i] := map cdFields (logOf C c i s'))"
    "fsDoc cm s' = (fsDoc cm s)(canon [c, i] := cm s' (relPath [c, i]) \<noteq> None)"
    by blast+
qed

lemma eventDoc_other: "eventDoc doc n d \<Longrightarrow> x \<noteq> ''idx'' \<Longrightarrow> cdFields d x = doc x"
  by (simp add: eventDoc_def)

lemma addStart_calm:
  assumes "calm C up" "fsInv C cm up s" "plain c" "plain i"
  shows "addStart C cm c i k s = int (length (logOf C c i s))"
proof -
  have "pathInv 0 (cm s) c i (logOf C c i s)" "cAborts C s = 0" using assms by (simp_all add: fsInvAt_def calm_def)
  then show ?thesis by (auto simp: addStart_def pathInv_def txStart_def split: option.splits)
qed

theorem firestore_fire:
  assumes X: "dstore_ok X" and C: "cloud_ok C cm up" and calm: "calm C up"
  shows "fire (firestoreOps X C) (fsLog C) (fsDoc cm) (fsInv C cm up)"
proof
  fix f p and ds :: "fields list"
  assume inv: "fsInv C cm up f" and p: "docPath p" and ds: "ds \<noteq> []" and i: "int64_ok (int (length (fsLog C f p) + length ds))"
  obtain c i where c: "plain c" "plain i" "p = canon [c, i]" using p unfolding docPath_def by blast
  note at = fsLog_at[OF c(1,2), folded c(3)]
  have zero: "(\<lambda>_. 0)((c, i) := 0) = (\<lambda>_. 0 :: int)" by auto
  have start: "addStart C cm c i (length ds) f = int (length (logOf C c i f))" by (rule addStart_calm[OF calm inv c(1,2)])
  have "int64_ok (int (length (logOf C c i f)) + int (length ds))" using i at[of C f] by simp
  from fsWriteChunks_ok[OF X C c(1,2) inv start[symmetric] this ds, of 0] obtain s' new where
    s: "fsEventsAdd X C p ds f = (Inr (int (length (logOf C c i f) + length ds)), s')" "fsInv C cm up s'"
      "logOf C c i s' = logOf C c i f @ new" "length new = length ds"
      "\<forall>j < length ds. eventDoc (ds ! j) (int (length (logOf C c i f)) + int j) (new ! j)"
      "cm s' (relPath [c, i]) \<noteq> None" "othersSame C cm c i f s'"
    unfolding fsEventsAdd_def c(3)[symmetric] diff_self zero by auto
  have "\<forall>j < length ds. \<forall>x. x \<noteq> ''idx'' \<longrightarrow> (map cdFields new ! j) x = (ds ! j) x"
    using s(4,5) eventDoc_other by fastforce
  then show "\<exists>f'. fEventsAdd (firestoreOps X C) p ds f = (Inr (int (length (fsLog C f p) + length ds)), f') \<and>
      fsInv C cm up f' \<and> fsDoc cm f' = (fsDoc cm f)(p := True) \<and>
      (\<exists>es. fsLog C f' = (fsLog C f)(p := fsLog C f p @ es) \<and> length es = length ds \<and>
        (\<forall>i < length ds. \<forall>x. x \<noteq> ''idx'' \<longrightarrow> (es ! i) x = (ds ! i) x))"
    using s(1,2,3,4,6) fs_changed[OF c(1,2) s(7), folded c(3)] at[of C f]
    by (intro exI[of _ s'] conjI exI[of _ "map cdFields new"]) (simp_all add: firestoreOps_def)
next
  fix f p limit i
  assume inv: "fsInv C cm up f" and p: "docPath p" and l: "(0::int) < limit"
  obtain c k where c: "plain c" "plain k" "p = canon [c, k]" using p unfolding docPath_def by blast
  have "map (\<lambda>t. \<lparr>feFields = cdFields (logOf C c k f ! t), feIndex = int t + 1, feTs = xMillis X (cdCreated (logOf C c k f ! t))\<rparr>)
      (take (nat limit) [i..<length (logOf C c k f)]) =
    map (\<lambda>t. \<lparr>feFields = fsLog C f p ! t, feIndex = int t + 1, feTs = xMillis X (cdCreated (logOf C c k f ! t))\<rparr>)
      (take (nat limit) [i..<length (fsLog C f p)])"
    using fsLog_at[OF c(1,2), of C f, folded c(3)] by (auto dest: in_set_takeD)
  then show "\<exists>f' ts. fEvents (firestoreOps X C) p (int i) limit True f =
      (Inr (map (\<lambda>t. \<lparr>feFields = fsLog C f p ! t, feIndex = int t + 1, feTs = ts t\<rparr>)
         (take (nat limit) [i..<length (fsLog C f p)]), None), f') \<and>
      fsInv C cm up f' \<and> fsLog C f' = fsLog C f \<and> fsDoc cm f' = fsDoc cm f"
    using fsEvents_ok[OF X C c(1,2) inv l, of "int i", folded c(3)] inv
    by (intro exI[of _ f] exI[of _ "\<lambda>t. xMillis X (cdCreated (logOf C c k f ! t))"]) (simp add: firestoreOps_def)
next
  fix f p
  assume inv: "fsInv C cm up f" and p: "docPath p"
  obtain c i where c: "plain c" "plain i" "p = canon [c, i]" using p unfolding docPath_def by blast
  obtain s' where s: "fsEventsDelete X C p f = (Inr (cm f (relPath [c, i]) \<noteq> None), s')" "fsInv C cm up s'"
      "logOf C c i s' = []" "cm s' (relPath [c, i]) = None" "othersSame C cm c i f s'"
    using fsEventsDelete_ok[OF X C c(1,2) inv, folded c(3)] by blast
  show "\<exists>f'. fEventsDelete (firestoreOps X C) p f = (Inr (fsDoc cm f p), f') \<and> fsInv C cm up f' \<and>
      fsDoc cm f' = (fsDoc cm f)(p := False) \<and> fsLog C f' = (fsLog C f)(p := [])"
    using s(1-4) fs_changed[OF c(1,2) s(5), folded c(3)] fsDoc_at[OF c(1,2), of cm f, folded c(3)]
    by (intro exI[of _ s']) (simp add: firestoreOps_def)
next
  fix f p n
  assume inv: "fsInv C cm up f" and p: "docPath p" and d: "fsDoc cm f p" and n: "(0::int) < n"
  obtain c i where c: "plain c" "plain i" "p = canon [c, i]" using p unfolding docPath_def by blast
  note at = fsLog_at[OF c(1,2), of C f, folded c(3)] fsDoc_at[OF c(1,2), of cm f, folded c(3)]
  obtain r s' where s: "fsIncrement X C p ''usage'' n f = (Inr r, s')" "fsInv C cm up s'"
      "logOf C c i s' = logOf C c i f" "cm s' (relPath [c, i]) \<noteq> None" "othersSame C cm c i f s'"
    using fsIncrement_ok[OF X C c(1,2) inv, of n, folded c(3)] calm d n at(2) by blast
  show "\<exists>r f'. fIncrement (firestoreOps X C) p ''usage'' n f = (r, f') \<and> (\<exists>x. r = Inr x) \<and> fsInv C cm up f' \<and>
      fsLog C f' = fsLog C f \<and> fsDoc cm f' = fsDoc cm f"
    using s(1-4) fs_changed[OF c(1,2) s(5), folded c(3)] d at
    by (intro exI[of _ "Inr r"] exI[of _ s']) (simp add: firestoreOps_def fun_upd_idem)
next
  fix f p
  assume inv: "fsInv C cm up f" and p: "docPath p"
  obtain c i where c: "plain c" "plain i" "p = canon [c, i]" using p unfolding docPath_def by blast
  have up: "up f" using inv by (simp add: fsInvAt_def)
  have "\<forall>cd. cm f (relPath [c, i]) = Some cd \<longrightarrow> headDoc (cdFields cd)"
    using inv c(1,2) by (auto simp: fsInvAt_def pathInv_def split: option.splits)
  then show "\<exists>d f'. fGet (firestoreOps X C) p f = (Inr d, f') \<and> (d \<noteq> None \<longleftrightarrow> fsDoc cm f p) \<and>
      (\<forall>doc. d = Some doc \<longrightarrow> headDoc (doFields doc)) \<and> fsInv C cm up f' \<and> fsLog C f' = fsLog C f \<and> fsDoc cm f' = fsDoc cm f"
    using fsGet_ok(1)[OF X C c(1,2) up, folded c(3)] fsDoc_at[OF c(1,2), of cm f, folded c(3)] inv
    by (fastforce simp: firestoreOps_def)
next
  fix f p
  assume inv: "fsInv C cm up f" and p: "docPath p"
  obtain c i where c: "plain c" "plain i" "p = canon [c, i]" using p unfolding docPath_def by blast
  have up: "up f" using inv by (simp add: fsInvAt_def)
  show "\<exists>f'. fExists (firestoreOps X C) p f = (Inr (fsDoc cm f p), f') \<and> fsInv C cm up f' \<and>
      fsLog C f' = fsLog C f \<and> fsDoc cm f' = fsDoc cm f"
    using fsGet_ok(2)[OF X C c(1,2) up, folded c(3)] fsDoc_at[OF c(1,2), of cm f, folded c(3)] inv
    by (simp add: firestoreOps_def)
next
  fix f p and x :: fields
  assume inv: "fsInv C cm up f" and p: "docPath p" and l: "fsLog C f p = []" and x: "headDoc x" "x ''idx'' = None"
  obtain c i where c: "plain c" "plain i" "p = canon [c, i]" using p unfolding docPath_def by blast
  have l': "logOf C c i f = []" using l fsLog_at[OF c(1,2), of C f, folded c(3)] by simp
  obtain s' where s: "fsSet X C p x False f = (Inr (), s')" "fsInv C cm up s'" "logOf C c i s' = logOf C c i f"
      "cm s' (relPath [c, i]) \<noteq> None" "othersSame C cm c i f s'"
    using fsSet_ok[OF X C c(1,2) inv l' x, folded c(3)] by blast
  show "\<exists>f'. fSet (firestoreOps X C) p x f = (Inr (), f') \<and> fsInv C cm up f' \<and> fsLog C f' = fsLog C f \<and>
      fsDoc cm f' = (fsDoc cm f)(p := True)"
    using s(1-4) fs_changed[OF c(1,2) s(5), folded c(3)] l l' by (intro exI[of _ s']) (simp add: firestoreOps_def fun_upd_idem)
qed

section \<open>Listing documents\<close>

text \<open>In byte order the strings with a prefix follow each other.\<close>

lemma prefix_block:
  fixes pre :: string
  shows "pre \<le> k \<Longrightarrow> \<not> prefix pre k \<Longrightarrow> k \<le> k' \<Longrightarrow> \<not> prefix pre k'"
proof (induction pre arbitrary: k k')
  case (Cons c pre)
  then show ?case by (cases k; cases k') (auto split: if_splits)
qed simp

lemma prefix_le: "prefix pre k \<Longrightarrow> pre \<le> (k :: string)"
proof (induction pre arbitrary: k)
  case (Cons c pre)
  then show ?case by (cases k) auto
qed simp

lemma takeWhile_prefix:
  fixes ks :: "string list"
  assumes "sorted ks"
  shows "takeWhile (prefix pre) (filter (\<lambda>k. pre \<le> k) ks) = filter (prefix pre) ks"
  using assms
proof (induction ks)
  case (Cons k ks)
  show ?case
  proof (cases "pre \<le> k \<and> \<not> prefix pre k")
    case True
    then have "\<forall>k' \<in> set ks. \<not> prefix pre k'" using Cons.prems prefix_block[of pre k] by auto
    with True show ?thesis by (simp add: filter_empty_conv)
  next
    case False
    with Cons prefix_le[of pre k] show ?thesis by auto
  qed
qed simp

definition listed :: "string \<Rightarrow> string \<Rightarrow> cdoc \<Rightarrow> document" where
  "listed col k d = \<lparr>doPath = canon [col, k], doFields = cdFields d, doCreatedAt = cdCreated d, doUpdatedAt = cdUpdated d\<rparr>"

lemma docsAll_prefix:
  assumes "\<forall>d \<in> set ds. xPath X [parent, fst d] = canon [col, fst d]"
  shows "docsAll X \<lparr>diDocs = ds, diErr = None, diPrefix = pre, diParent = parent, diPathOnly = False\<rparr> =
    (map (\<lambda>d. listed col (fst d) (snd d)) (takeWhile (\<lambda>d. prefix pre (fst d)) ds), None)"
  using assms
proof (induction ds)
  case Nil
  then show ?case by (simp add: docsAll.simps docsNext_def)
next
  case (Cons d ds)
  obtain k doc where d: "d = (k, doc)" by (cases d)
  then have path: "xPath X [parent, k] = canon [col, k]" using Cons.prems by simp
  show ?case
  proof (cases "prefix pre k")
    case True
    with Cons path show ?thesis unfolding d by (subst docsAll.simps) (simp add: docsNext_def listed_def)
  next
    case False
    then have "pre \<noteq> []" by auto
    with False show ?thesis unfolding d by (subst docsAll.simps) (simp add: docsNext_def)
  qed
qed

lemma cloud_docs:
  "cloud_ok C cm up \<Longrightarrow> up c \<Longrightarrow> cDocs C col pre None off None c =
    (map (\<lambda>k. (k, the (cm c (col @ ''/'' @ k)))) (drop off (filter (\<lambda>k. pre \<le> k) (sorted_list_of_set (kids (cm c) col)))), None)"
  unfolding cloud_ok_def by blast

lemma fsIterate_ok:
  assumes X: "dstore_ok X" and C: "cloud_ok C cm up" and up: "up c" and col: "plain col" and p: "pathArg p [col]"
  shows "fsIterate X C p (prefixOpts pre) c =
    (Inr (map (\<lambda>k. listed col k (the (cm c (col @ ''/'' @ k)))) (filter (prefix pre) (sorted_list_of_set (kids (cm c) col))), None), c)"
proof -
  let ?ks = "sorted_list_of_set (kids (cm c) col)" and ?f = "\<lambda>k. (k, the (cm c (col @ ''/'' @ k)))"
  have rel: "relPath [col] = col" by (simp add: relPath_def)
  have "xPath X [p] = canon [col]" using xPath_args[OF X, of "[p]" "[[col]]"] p by simp
  then have path: "normalizePath X p = col" by (simp add: normalizePath_def trimPrefix_def)
  have "inj_on (\<lambda>k. col @ ''/'' @ k) (kids (cm c) col)" by (simp add: inj_on_def)
  moreover have "(\<lambda>k. col @ ''/'' @ k) ` kids (cm c) col \<subseteq> dom (cm c)" by (auto simp: kids_def)
  moreover have "finite (dom (cm c))" using C up unfolding cloud_ok_def by blast
  ultimately have fin: "finite (kids (cm c) col)" using finite_imageD finite_subset by metis
  have args: "xPath X [col, k] = canon [col, k]" if "plain k" for k
    using xPath_args[OF X, of "[col, k]" "[[col], [k]]"] col that by (simp add: pathArg_def)
  have docs: "cDocs C col pre None 0 None c = (map ?f (filter (\<lambda>k. pre \<le> k) ?ks), None)"
    using cloud_docs[OF C up, of col pre 0] by simp
  have "\<forall>d \<in> set (map ?f (filter (\<lambda>k. pre \<le> k) ?ks)). xPath X [col, fst d] = canon [col, fst d]"
    using args fin by (auto simp: kids_def)
  note all = docsAll_prefix[OF this, of pre]
  have "takeWhile (\<lambda>d. prefix pre (fst d)) (map ?f (filter (\<lambda>k. pre \<le> k) ?ks)) = map ?f (filter (prefix pre) ?ks)"
    using takeWhile_prefix[of ?ks pre] by (simp add: takeWhile_map comp_def)
  then have "docsAll X \<lparr>diDocs = map ?f (filter (\<lambda>k. pre \<le> k) ?ks), diErr = None, diPrefix = pre, diParent = col, diPathOnly = False\<rparr> =
      (map (\<lambda>k. listed col k (the (cm c (col @ ''/'' @ k)))) (filter (prefix pre) ?ks), None)"
    unfolding all by simp
  moreover have "col \<noteq> []" using col by (simp add: plain_def)
  ultimately show ?thesis
    by (simp add: fsIterate_def fsDocumentIterator_def path docs prefixOpts_def op_simps Let_def)
qed

end
