(* ===== verification/Instance.thy ===== *)
theory Instance
  imports Deps
begin

text \<open>
  A concrete instance of the third-party functions, \<open>stdX\<close>, that meets their documented
  behaviour: paths are split at slashes, a box carries its key and nonce, encodings are
  length-prefixed. It shows that the laws of \<open>Deps\<close> can hold together, and the theorems that
  take them as hypotheses are applied to it.
\<close>

section \<open>Paths\<close>

definition pathComps :: "string \<Rightarrow> string list" where
  "pathComps p = filter (\<lambda>c. c \<noteq> []) (splitOn (CHR ''/'') p)"

definition stdPath :: "string list \<Rightarrow> string" where
  "stdPath ps = canon (concat (map pathComps ps))"

lemma filter_plain: "list_all plain cs \<Longrightarrow> filter (\<lambda>c. c \<noteq> []) cs = cs"
  by (induction cs) (auto simp: plain_def)

lemma pathComps_canon: "plains cs \<Longrightarrow> pathComps (canon cs) = cs"
  by (simp add: pathComps_def splitOn_canon plains_def filter_plain)

lemma pathComps_rel:
  assumes "plains cs"
  shows "pathComps (tl (canon cs)) = cs"
proof -
  obtain t where t: "canon cs = CHR ''/'' # t" using assms by (cases cs) auto
  have "splitOn (CHR ''/'') (canon cs) = [] # cs" using assms by (intro splitOn_canon) (simp add: plains_def)
  with t have "splitOn (CHR ''/'') t = cs" by simp
  with t assms show ?thesis by (simp add: pathComps_def plains_def filter_plain)
qed

lemma pathComps_arg: "pathArg p cs \<Longrightarrow> pathComps p = cs"
  using pathComps_canon pathComps_rel by (auto simp: pathArg_def)

lemma stdPath_args: "list_all2 pathArg ps css \<Longrightarrow> stdPath ps = canon (concat css)"
  unfolding stdPath_def by (induction rule: list_all2_induct) (simp_all add: pathComps_arg canon_append)

section \<open>Length-prefixed encodings\<close>

definition encStr :: "string \<Rightarrow> string" where
  "encStr s = replicate (length s) (CHR ''1'') @ CHR ''0'' # s"

definition decStr :: "string \<Rightarrow> (string \<times> string) option" where
  "decStr b =
     (let n = length (takeWhile (\<lambda>c. c = CHR ''1'') b); r = drop (Suc n) b
      in if length r < n \<or> length b \<le> n then None else Some (take n r, drop n r))"

definition encBytes :: "gobytes \<Rightarrow> string" where
  "encBytes b = (case b of None \<Rightarrow> ''n'' | Some s \<Rightarrow> CHR ''b'' # encStr s)"

definition decBytes :: "string \<Rightarrow> (gobytes \<times> string) option" where
  "decBytes b = (case b of [] \<Rightarrow> None
     | c # r \<Rightarrow> if c = CHR ''n'' then Some (None, r)
                else (case decStr r of None \<Rightarrow> None | Some (s, r') \<Rightarrow> Some (Some s, r')))"

definition encInt :: "int \<Rightarrow> string" where
  "encInt n = (if n < 0 then CHR ''-'' else CHR ''+'') # encStr (natStr (nat \<bar>n\<bar>))"

definition decInt :: "string \<Rightarrow> (int \<times> string) option" where
  "decInt b = (case b of [] \<Rightarrow> None
     | c # r \<Rightarrow> (case decStr r of None \<Rightarrow> None
        | Some (s, r') \<Rightarrow> (case parseUint s of None \<Rightarrow> None
            | Some n \<Rightarrow> Some (if c = CHR ''-'' then - int n else int n, r'))))"

lemma takeWhile_ones: "takeWhile (\<lambda>c. c = CHR ''1'') (replicate n (CHR ''1'') @ CHR ''0'' # s) = replicate n (CHR ''1'')"
  by (induction n) simp_all

lemma decStr_encStr [simp]: "decStr (encStr s @ r) = Some (s, r)"
  by (simp add: decStr_def encStr_def takeWhile_ones Let_def)

lemma decBytes_encBytes [simp]: "decBytes (encBytes b @ r) = Some (b, r)"
  by (cases b) (simp_all add: decBytes_def encBytes_def)

lemma decInt_encInt [simp]: "decInt (encInt n @ r) = Some (n, r)"
  by (simp add: decInt_def encInt_def)

section \<open>Messages\<close>

definition stdErr :: "err + 'a" where
  "stdErr = Inl (LibErr ''msgpack'')"

definition stdItemM :: "item \<Rightarrow> err + string" where
  "stdItemM i = Inr (encStr (iID i) @ encBytes (iData i) @ encStr (iType i) @ encInt (iTime i))"

definition stdItemU :: "string \<Rightarrow> err + item" where
  "stdItemU b = (case decStr b of None \<Rightarrow> stdErr | Some (i, b1) \<Rightarrow>
     (case decBytes b1 of None \<Rightarrow> stdErr | Some (d, b2) \<Rightarrow>
     (case decStr b2 of None \<Rightarrow> stdErr | Some (t, b3) \<Rightarrow>
     (case decInt b3 of None \<Rightarrow> stdErr | Some (ts, _) \<Rightarrow>
       Inr \<lparr>iID = i, iData = d, iType = t, iTime = ts\<rparr>))))"

definition stdProvM :: "provision \<Rightarrow> err + string" where
  "stdProvM p = Inr (encStr (pvID p) @ encStr (pvType p) @ encInt (pvCreatedAt p) @ encStr (pvAAGUID p) @
     encBytes (pvSalt p) @ (if pvNoPin p then ''1'' else ''0''))"

definition stdProvU :: "string \<Rightarrow> err + provision" where
  "stdProvU b = (case decStr b of None \<Rightarrow> stdErr | Some (i, b1) \<Rightarrow>
     (case decStr b1 of None \<Rightarrow> stdErr | Some (t, b2) \<Rightarrow>
     (case decInt b2 of None \<Rightarrow> stdErr | Some (ts, b3) \<Rightarrow>
     (case decStr b3 of None \<Rightarrow> stdErr | Some (g, b4) \<Rightarrow>
     (case decBytes b4 of None \<Rightarrow> stdErr | Some (s, b5) \<Rightarrow>
       Inr \<lparr>pvID = i, pvType = t, pvCreatedAt = ts, pvAAGUID = g, pvSalt = s, pvNoPin = (b5 = ''1'')\<rparr>)))))"

definition stdEventM :: "vevent \<Rightarrow> err + string" where
  "stdEventM e = Inr (encStr (evPath e) @ encBytes (evData e))"

definition stdEventU :: "string \<Rightarrow> err + vevent" where
  "stdEventU b = (case decStr b of None \<Rightarrow> stdErr | Some (p, b1) \<Rightarrow>
     (case decBytes b1 of None \<Rightarrow> stdErr | Some (d, _) \<Rightarrow>
       Inr \<lparr>evPath = p, evData = d, evRemoteIndex = 0, evRemoteTime = 0\<rparr>))"

definition stdApiEventU :: "string \<Rightarrow> err + aevent" where
  "stdApiEventU b = (case stdEventU b of Inl e \<Rightarrow> Inl e
     | Inr e \<Rightarrow> Inr \<lparr>aeData = evData e, aeIndex = 0, aeTs = 0\<rparr>)"

section \<open>Bodies\<close>

definition encList :: "('a \<Rightarrow> string) \<Rightarrow> 'a list \<Rightarrow> string" where
  "encList enc xs = encInt (int (length xs)) @ concat (map enc xs)"

primrec decN :: "(string \<Rightarrow> ('a \<times> string) option) \<Rightarrow> nat \<Rightarrow> string \<Rightarrow> ('a list \<times> string) option" where
  "decN dec 0 b = Some ([], b)"
| "decN dec (Suc n) b = (case dec b of None \<Rightarrow> None
     | Some (x, r) \<Rightarrow> (case decN dec n r of None \<Rightarrow> None | Some (xs, r') \<Rightarrow> Some (x # xs, r')))"

definition decList :: "(string \<Rightarrow> ('a \<times> string) option) \<Rightarrow> string \<Rightarrow> ('a list \<times> string) option" where
  "decList dec b = (case decInt b of None \<Rightarrow> None | Some (n, r) \<Rightarrow> decN dec (nat n) r)"

lemma decN_map: "(\<And>x r. dec (enc x @ r) = Some (f x, r)) \<Longrightarrow>
  decN dec (length xs) (concat (map enc xs) @ r) = Some (map f xs, r)"
  by (induction xs) simp_all

lemma decList_encList: "(\<And>x r. dec (enc x @ r) = Some (f x, r)) \<Longrightarrow>
  decList dec (encList enc xs @ r) = Some (map f xs, r)"
  by (simp add: decList_def encList_def decN_map)

definition encEvent :: "aevent option \<Rightarrow> string" where
  "encEvent e = (case e of None \<Rightarrow> encInt 0
     | Some a \<Rightarrow> encInt 1 @ encBytes (aeData a) @ encInt (aeIndex a) @ encInt (aeTs a))"

definition decEvent :: "string \<Rightarrow> (aevent option \<times> string) option" where
  "decEvent b = (case decInt b of None \<Rightarrow> None | Some (t, b1) \<Rightarrow>
     if t = 0 then Some (None, b1)
     else (case decBytes b1 of None \<Rightarrow> None | Some (d, b2) \<Rightarrow>
       (case decInt b2 of None \<Rightarrow> None | Some (i, b3) \<Rightarrow>
       (case decInt b3 of None \<Rightarrow> None | Some (ts, b4) \<Rightarrow>
         Some (Some \<lparr>aeData = d, aeIndex = i, aeTs = ts\<rparr>, b4)))))"

lemma decEvent_encEvent: "decEvent (encEvent e @ r) = Some (e, r)"
  by (cases e) (simp_all add: decEvent_def encEvent_def)

definition stdRespM :: "vresp \<Rightarrow> string" where
  "stdRespM r = encList encEvent (vrVault r) @ encInt (vrIndex r) @ (if vrTruncated r then ''1'' else ''0'')"

definition stdRespU :: "string \<Rightarrow> err + vresp" where
  "stdRespU b = (case decList decEvent b of None \<Rightarrow> stdErr | Some (es, b1) \<Rightarrow>
     (case decInt b1 of None \<Rightarrow> stdErr | Some (i, b2) \<Rightarrow>
       Inr \<lparr>vrVault = es, vrIndex = i, vrTruncated = (b2 = ''1'')\<rparr>))"

definition stdDatasU :: "string \<Rightarrow> err + gobytes option list" where
  "stdDatasU b = (case decList decBytes b of None \<Rightarrow> stdErr | Some (ds, _) \<Rightarrow> Inr (map Some ds))"

section \<open>The instance\<close>

definition stdX :: ext where
  "stdX = \<lparr>
     xPath = stdPath,
     xPathFrom = (\<lambda>p n. canon (drop n (pathComps p))),
     xPathFirst = (\<lambda>p. case pathComps p of [] \<Rightarrow> [] | c # _ \<Rightarrow> c),
     xPathLast = (\<lambda>p. if pathComps p = [] then [] else last (pathComps p)),
     xPathComponents = pathComps,
     xSeal = (\<lambda>m n k. k @ n @ m),
     xOpen = (\<lambda>c n k. if prefix (k @ n) c then Some (drop (length (k @ n)) c) else None),
     xRand = (\<lambda>i n. replicate n (char_of (97 + i mod 26))),
     xHKDF = (\<lambda>secret n salt info. take n (salt @ info @ secret @ replicate n (CHR ''.''))),
     xKeyForPassword = (\<lambda>pw salt. if pw = [] then Inl (LibErr ''empty password'')
        else Inr (take 32 (pw @ salt @ replicate 32 (CHR ''.'')))),
     xEdKeyFromSeed = (\<lambda>seed. seed),
     xKeyID = (\<lambda>k. ''kex'' @ k),
     xBase62 = (\<lambda>b. b),
     xBoxSeal = (\<lambda>r m k. CHR ''b'' # encStr k @ m),
     xBoxOpen = (\<lambda>c k. if prefix (CHR ''b'' # encStr k) c then Inr (drop (length (CHR ''b'' # encStr k)) c)
        else Inl (LibErr ''box'')),
     xClock = (\<lambda>i. int i * 1000000),
     xNow = (\<lambda>i. int i * 1000000),
     xMillis = (\<lambda>t. i64 (t div 1000000)),
     xParseMillis = (\<lambda>n. n * 1000000),
     xItemM = stdItemM, xItemU = stdItemU,
     xProvM = stdProvM, xProvU = stdProvU,
     xEventM = stdEventM, xEventU = stdEventU,
     xApiEventU = stdApiEventU,
     xDatasM = encList encBytes, xDatasU = stdDatasU,
     xRespM = stdRespM, xRespU = stdRespU\<rparr>"

lemma std_dstore [simp]: "dstore_ok stdX"
  by (auto simp: dstore_ok_def stdX_def stdPath_args pathComps_canon plains_def hd_conv_nth
      split: list.splits)

lemma std_rand [simp]: "rand_ok stdX"
  by (simp add: rand_ok_def stdX_def)

lemma std_secretbox [simp]: "secretbox_ok stdX"
  by (simp add: secretbox_ok_def stdX_def)

lemma std_auth [simp]: "secretbox_auth stdX"
  by (auto simp: secretbox_auth_def stdX_def prefix_def)

lemma encStr_nonempty [simp]: "encStr s \<noteq> []"
  by (simp add: encStr_def)

lemma decStr_encStr_end [simp]: "decStr (encStr s) = Some (s, [])"
  using decStr_encStr[of s "[]"] by simp

lemma decBytes_encBytes_end [simp]: "decBytes (encBytes s) = Some (s, [])"
  using decBytes_encBytes[of s "[]"] by simp

lemma decInt_encInt_end [simp]: "decInt (encInt s) = Some (s, [])"
  using decInt_encInt[of s "[]"] by simp

lemma std_msgpack [simp]: "msgpack_ok stdX"
  by (auto simp: msgpack_ok_def stdX_def stdItemM_def stdItemU_def stdProvM_def stdProvU_def
      stdEventM_def stdEventU_def stdApiEventU_def sameItem_def)

lemma std_tsutil [simp]: "tsutil_ok stdX"
  by (simp add: tsutil_ok_def stdX_def)

lemma std_box [simp]: "box_ok stdX"
  by (simp add: box_ok_def stdX_def)

lemma std_json [simp]: "json_ok stdX"
proof -
  have "stdDatasU (encList encBytes ds) = Inr (map Some ds)" for ds
    using decList_encList[of decBytes encBytes "\<lambda>x. x" ds "[]"] by (simp add: stdDatasU_def)
  moreover have "stdRespU (stdRespM r) = Inr r" for r
    using decList_encList[of decEvent encEvent "\<lambda>x. x" "vrVault r"]
    by (simp add: stdRespU_def stdRespM_def decEvent_encEvent)
  ultimately show ?thesis by (simp add: json_ok_def stdX_def)
qed

end
