(* ===== verification/MemCloud.thy ===== *)
theory MemCloud
  imports FirestoreProofs Instance
begin

text \<open>
  A cloud that keeps its documents in memory, \<open>memCloud\<close>. It behaves as \<open>cloud_ok\<close> documents,
  so the Firestore implementation over it provides the contract \<open>fire\<close>; theorems that take
  \<open>cloud_ok\<close> as a hypothesis are applied to it.
\<close>

record memcloud =
  mcDocs :: "(string \<times> cdoc) list"
  mcTick :: nat

definition mcMap :: "memcloud \<Rightarrow> string \<Rightarrow> cdoc option" where
  "mcMap c = map_of (mcDocs c)"

definition mcUp :: "memcloud \<Rightarrow> bool" where
  "mcUp c \<longleftrightarrow> distinct (map fst (mcDocs c))"

definition mcPut :: "string \<Rightarrow> fields \<Rightarrow> memcloud \<Rightarrow> memcloud" where
  "mcPut p v c = \<lparr>mcDocs = AList.update p \<lparr>cdFields = v, cdCreated = int (mcTick c), cdUpdated = int (mcTick c)\<rparr> (mcDocs c),
     mcTick = Suc (mcTick c)\<rparr>"

definition mcCreate :: "string \<Rightarrow> fields \<Rightarrow> (memcloud, bool) op" where
  "mcCreate p v c = (if map_of (mcDocs c) p = None then (Inr True, mcPut p v c) else (Inr False, c))"

definition mcSet :: "string \<Rightarrow> fields \<Rightarrow> bool \<Rightarrow> (memcloud, unit) op" where
  "mcSet p v mg c =
     (Inr (), mcPut p (if mg then (case map_of (mcDocs c) p of None \<Rightarrow> v | Some d \<Rightarrow> cdFields d ++ v) else v) c)"

definition mcDrop :: "string list \<Rightarrow> (memcloud, unit) op" where
  "mcDrop ps c = (Inr (), c\<lparr>mcDocs := filter (\<lambda>d. fst d \<notin> set ps) (mcDocs c)\<rparr>)"

text \<open>The id of a document of a collection.\<close>

definition idIn :: "string \<Rightarrow> string \<Rightarrow> string option" where
  "idIn col p = (let k = drop (Suc (length col)) p
     in if prefix (col @ ''/'') p \<and> plain k then Some k else None)"

definition mcIdsAll :: "string \<Rightarrow> memcloud \<Rightarrow> string list" where
  "mcIdsAll col c = List.map_filter (\<lambda>d. idIn col (fst d)) (mcDocs c)"

definition mcQueryAll :: "string \<Rightarrow> memcloud \<Rightarrow> cdoc list" where
  "mcQueryAll col c = sort_key idxOf (filter (\<lambda>d. cdFields d ''idx'' \<noteq> None)
     (map (\<lambda>k. the (map_of (mcDocs c) (col @ ''/'' @ k))) (mcIdsAll col c)))"

definition mcQuery :: "string \<Rightarrow> bool \<Rightarrow> int option \<Rightarrow> memcloud \<Rightarrow> cdoc list \<times> err option" where
  "mcQuery col asc b c =
     (let ds = (case b of None \<Rightarrow> mcQueryAll col c
                | Some n \<Rightarrow> filter (\<lambda>d. if asc then n < idxOf d else idxOf d < n) (mcQueryAll col c))
      in (if asc then ds else rev ds, None))"

text \<open>An id longer than every path stored is new everywhere.\<close>

definition mcFresh :: "memcloud \<Rightarrow> string" where
  "mcFresh c = replicate (Suc (fold (\<lambda>d n. max (length (fst d)) n) (mcDocs c) 0)) (CHR ''k'')"

definition mcList :: "string \<Rightarrow> string \<Rightarrow> (string \<times> string \<times> fval) option \<Rightarrow> nat \<Rightarrow> nat option \<Rightarrow> memcloud \<Rightarrow>
    (string \<times> cdoc) list \<times> err option" where
  "mcList col pre wh off lim c =
     (let ds = map (\<lambda>k. (k, the (map_of (mcDocs c) (col @ ''/'' @ k)))) (filter (\<lambda>k. pre \<le> k) (sort (mcIdsAll col c)));
          ok = (\<lambda>d. case wh of None \<Rightarrow> True | Some (n, _, v) \<Rightarrow> cdFields (snd d) n = Some v);
          out = drop off (filter ok ds)
      in (case lim of None \<Rightarrow> out | Some n \<Rightarrow> take n out, None))"

definition memCloud :: "memcloud cloud" where
  "memCloud = \<lparr>cGet = (\<lambda>p c. Inr (map_of (mcDocs c) p)), cCreate = mcCreate, cSet = mcSet,
     cDelete = (\<lambda>p. mcDrop [p]), cBatchDelete = mcDrop,
     cIds = (\<lambda>col n c. (take n (mcIdsAll col c), None)), cQuery = mcQuery,
     cGetAll = (\<lambda>ps c. Inr (map (\<lambda>p. (''projects/p/databases/d/documents/'' @ p, map_of (mcDocs c) p)) ps)),
     cDocs = mcList, cCols = (\<lambda>c. ([], None)), cErrorU = (\<lambda>_. None), cAborts = (\<lambda>_. 0),
     cNewID = (\<lambda>c. (Inr (mcFresh c), c))\<rparr>"

lemma mcPut_map: "mcMap (mcPut p v c) = (mcMap c)(p \<mapsto> \<lparr>cdFields = v, cdCreated = int (mcTick c), cdUpdated = int (mcTick c)\<rparr>)"
  by (simp add: mcPut_def mcMap_def update_conv')

lemma mcPut_up: "mcUp c \<Longrightarrow> mcUp (mcPut p v c)"
  by (simp add: mcPut_def mcUp_def distinct_update)

lemma mcDrop_map: "mcMap (snd (mcDrop ps c)) = mcMap c |` (- set ps)"
proof -
  have "map_of (filter (\<lambda>d. fst d \<notin> set ps) l) q = (map_of l |` (- set ps)) q" for l :: "(string \<times> cdoc) list" and q
    by (induction l) (auto simp: restrict_map_def)
  then show ?thesis by (auto simp: mcDrop_def mcMap_def)
qed

lemma mcDrop_up: "mcUp c \<Longrightarrow> mcUp (snd (mcDrop ps c))"
  by (simp add: mcDrop_def mcUp_def distinct_map_filter)

lemma idIn_iff: "idIn col p = Some k \<longleftrightarrow> plain k \<and> p = col @ ''/'' @ k"
  by (auto simp: idIn_def Let_def prefix_def)

lemma mcIds_set: "set (mcIdsAll col c) = kids (mcMap c) col"
proof -
  have "set (mcIdsAll col c) = {k. \<exists>p \<in> fst ` set (mcDocs c). idIn col p = Some k}"
    by (force simp: mcIdsAll_def mem_map_filter)
  also have "\<dots> = kids (mcMap c) col"
    by (auto simp: idIn_iff kids_def mcMap_def domIff[symmetric] dom_map_of_conv_image_fst simp del: not_None_eq)
  finally show ?thesis .
qed

lemma mcIds_distinct:
  assumes "mcUp c"
  shows "distinct (mcIdsAll col c)"
proof -
  have "distinct (List.map_filter (\<lambda>d. idIn col (fst d)) l)" if "distinct (map fst l)" for l :: "(string \<times> cdoc) list"
    using that
  proof (induction l)
    case (Cons d l)
    have "k \<notin> set (List.map_filter (\<lambda>d. idIn col (fst d)) l)" if "idIn col (fst d) = Some k" for k
      using Cons.prems that by (auto simp: mem_map_filter idIn_iff image_iff)
    with Cons show ?case by (simp add: map_filter_simps split: option.splits)
  qed (simp add: map_filter_simps)
  then show ?thesis using assms by (simp add: mcUp_def mcIdsAll_def)
qed

lemma mcFresh_new: "mcMap c (logDoc a b (mcFresh c)) = None"
proof -
  have ge: "(n::nat) \<le> fold (\<lambda>d n. max (length (fst d)) n) l n" for l :: "(string \<times> cdoc) list" and n
  proof (induction l arbitrary: n)
    case (Cons e l)
    show ?case using Cons.IH[of "max (length (fst e)) n"] by simp
  qed simp
  have "length (fst d) \<le> fold (\<lambda>d n. max (length (fst d)) n) l n" if "d \<in> set l" for l :: "(string \<times> cdoc) list" and n d
    using that
  proof (induction l arbitrary: n)
    case (Cons e l)
    then show ?case using ge[of "max (length (fst e)) n" l] by auto
  qed simp
  moreover have "length (mcFresh c) \<le> length (logDoc a b (mcFresh c))"
    by (simp add: logDoc_eq[symmetric])
  ultimately have "length (fst d) < length (logDoc a b (mcFresh c))" if "d \<in> set (mcDocs c)" for d
    using that unfolding mcFresh_def length_replicate by (meson less_Suc_eq_le order_less_le_trans)
  then have "logDoc a b (mcFresh c) \<notin> fst ` set (mcDocs c)" by fastforce
  then show ?thesis by (simp add: mcMap_def map_of_eq_None_iff)
qed

lemma memCloud_ok: "cloud_ok memCloud mcMap mcUp"
  unfolding cloud_ok_def
proof (intro allI impI conjI)
  fix c assume up: "mcUp c"
  show "finite (dom (mcMap c))" by (simp add: mcMap_def finite_dom_map_of)
  show "cGet memCloud p c = Inr (mcMap c p)" for p by (simp add: memCloud_def mcMap_def)
  show "\<exists>pr db. plain pr \<and> plain db \<and> (\<forall>ps. cGetAll memCloud ps c =
      Inr (map (\<lambda>p. (relPath [''projects'', pr, ''databases'', db, ''documents''] @ ''/'' @ p, mcMap c p)) ps))"
    by (intro exI[of _ "''p''"] exI[of _ "''d''"]) (simp add: memCloud_def mcMap_def relPath_def plain_def)
  show "cCreate memCloud p v c = (Inr False, c)" if "mcMap c p \<noteq> None" for p v
    using that by (simp add: memCloud_def mcCreate_def mcMap_def)
  show "\<exists>c' t. cCreate memCloud p v c = (Inr True, c') \<and> mcUp c' \<and>
      mcMap c' = (mcMap c)(p \<mapsto> \<lparr>cdFields = v, cdCreated = t, cdUpdated = t\<rparr>)" if "mcMap c p = None" for p v
    using that up mcPut_up[OF up, of p v] mcPut_map[of p v c] by (auto simp: memCloud_def mcCreate_def mcMap_def)
  show "\<exists>c' d. cSet memCloud p v mg c = (Inr (), c') \<and> mcUp c' \<and> mcMap c' = (mcMap c)(p \<mapsto> d) \<and>
      cdFields d = (if mg then (case mcMap c p of None \<Rightarrow> v | Some o' \<Rightarrow> cdFields o' ++ v) else v)" for p v mg
    using mcPut_up[OF up] mcPut_map
    by (intro exI[of _ "snd (mcSet p v mg c)"] exI[of _ "the (mcMap (snd (mcSet p v mg c)) p)"])
      (simp add: memCloud_def mcSet_def mcMap_def[symmetric])
  show "\<exists>c'. cDelete memCloud p c = (Inr (), c') \<and> mcUp c' \<and> mcMap c' = (mcMap c)(p := None)" for p
    using mcDrop_up[OF up, of "[p]"] mcDrop_map[of "[p]" c]
    by (auto simp: memCloud_def mcDrop_def restrict_complement_singleton_eq)
  show "\<exists>c'. cBatchDelete memCloud ps c = (Inr (), c') \<and> mcUp c' \<and> mcMap c' = mcMap c |` (- set ps)" for ps
    using mcDrop_up[OF up, of ps] mcDrop_map[of ps c] by (auto simp: memCloud_def mcDrop_def)
  show "\<exists>ids. cIds memCloud col n c = (ids, None) \<and> set ids \<subseteq> kids (mcMap c) col \<and>
      (0 < n \<longrightarrow> ids = [] \<longrightarrow> kids (mcMap c) col = {})" for col n
    using mcIds_set[of col c] by (auto simp: memCloud_def dest: in_set_takeD)
  show "\<exists>ds. cQuery memCloud col True None c = (ds, None) \<and> sorted (map idxOf ds) \<and>
      mset ds = image_mset (\<lambda>k. the (mcMap c (col @ ''/'' @ k)))
        (mset_set {k \<in> kids (mcMap c) col. cdFields (the (mcMap c (col @ ''/'' @ k))) ''idx'' \<noteq> None})" for col
  proof -
    let ?f = "\<lambda>k. the (mcMap c (col @ ''/'' @ k))"
    have "mset (mcIdsAll col c) = mset_set (kids (mcMap c) col)"
      using mcIds_distinct[OF up, of col] mcIds_set[of col c] mset_set_set by metis
    moreover have "finite (kids (mcMap c) col)" unfolding mcIds_set[symmetric] by (rule finite_set)
    ultimately have "mset (filter (\<lambda>k. cdFields (?f k) ''idx'' \<noteq> None) (mcIdsAll col c)) =
        mset_set {k \<in> kids (mcMap c) col. cdFields (?f k) ''idx'' \<noteq> None}"
      by (simp only: mset_filter filter_mset_mset_set)
    then have "mset (mcQueryAll col c) = image_mset ?f (mset_set {k \<in> kids (mcMap c) col. cdFields (?f k) ''idx'' \<noteq> None})"
      unfolding mcQueryAll_def mset_sort filter_map comp_def mset_map mcMap_def by (rule arg_cong)
    then show ?thesis by (simp add: memCloud_def mcQuery_def mcQueryAll_def)
  qed
  show "cQuery memCloud col True (Some b) c = (filter (\<lambda>d. b < idxOf d) (fst (cQuery memCloud col True None c)), None)" for col b
    by (simp add: memCloud_def mcQuery_def Let_def)
  show "cDocs memCloud col pre None off None c =
      (map (\<lambda>k. (k, the (mcMap c (col @ ''/'' @ k)))) (drop off (filter (\<lambda>k. pre \<le> k) (sorted_list_of_set (kids (mcMap c) col)))), None)" for col pre off
  proof -
    have "sorted_list_of_set (kids (mcMap c) col) = sort (mcIdsAll col c)"
      using mcIds_distinct[OF up, of col] mcIds_set[of col c] sorted_list_of_set_sort_remdups[of "mcIdsAll col c"]
      by (simp add: distinct_remdups_id)
    then show ?thesis by (simp add: memCloud_def mcList_def mcMap_def drop_map Let_def)
  qed
  show "\<exists>k c'. cNewID memCloud c = (Inr k, c') \<and> mcUp c' \<and> mcMap c' = mcMap c \<and> plain k \<and>
      (\<forall>c i. mcMap c' (logDoc c i k) = None)"
    using up mcFresh_new[of c] by (auto simp: memCloud_def plain_def mcFresh_def)
qed

lemma memCloud_calm: "calm memCloud mcUp"
  by (simp add: calm_def memCloud_def)

interpretation memFire: fire "firestoreOps stdX memCloud" "fsLog memCloud" "fsDoc mcMap" "fsInv memCloud mcMap mcUp"
  by (rule firestore_fire[OF std_dstore memCloud_ok memCloud_calm])

text \<open>The same cloud with transactions that are each run again \<open>a\<close> times.\<close>

definition restless :: "nat \<Rightarrow> memcloud cloud" where
  "restless a = memCloud\<lparr>cAborts := (\<lambda>_. a)\<rparr>"

lemma restless_ok: "cloud_ok (restless a) mcMap mcUp"
  using memCloud_ok unfolding cloud_ok_def restless_def by simp

lemma std_relative: "relative_ok stdX"
  by (simp add: relative_ok_def relPath_def stdX_def pathComps_rel)

definition mcEmpty :: memcloud where
  "mcEmpty = \<lparr>mcDocs = [], mcTick = 0\<rparr>"

lemma restless_log: "logOf (restless a) c i s = logOf memCloud c i s"
  by (simp add: logOf_def restless_def)

lemma mcEmpty_logOf: "logOf memCloud c i mcEmpty = []"
  by (simp add: logOf_def memCloud_def mcQuery_def mcQueryAll_def mcIdsAll_def mcEmpty_def map_filter_simps)

lemma mcEmpty_inv: "fsInv memCloud mcMap mcUp mcEmpty"
  unfolding fsInvAt_def mcEmpty_logOf by (simp add: pathInv_def mcUp_def mcMap_def mcEmpty_def logKids_def)

end
