(* ===== verification/SyncProofs.thy ===== *)
theory SyncProofs
  imports SyncSpec
begin

text \<open>
  Synchronisation is correct: pushing appends the pending events to the remote and empties the
  log, pulling brings the vault to the end of the remote's list and ends, and a vault that has
  synchronised holds exactly what the remote's events give, whatever it and others had
  changed before.
\<close>

section \<open>Emptying the pending log\<close>

definition dropPush :: "(string \<rightharpoonup> string) \<Rightarrow> (string \<rightharpoonup> string)" where
  "dropPush m = m |` (- set (keysWith ''/push'' m))"

lemma dropPush_other: "\<not> prefix ''/push'' p \<Longrightarrow> finite (dom m) \<Longrightarrow> dropPush m p = m p"
  by (simp add: dropPush_def restrict_map_def)

lemma keysWith_cong: "finite (dom m) \<Longrightarrow> finite (dom m') \<Longrightarrow>
  {p \<in> dom m'. prefix pre p} = {p \<in> dom m. prefix pre p} \<Longrightarrow> keysWith pre m' = keysWith pre m"
  by (simp add: keysWith_def)

lemma dropPush_pend: "finite (dom m) \<Longrightarrow> pendEvents (dropPush m) = []"
proof -
  assume fin: "finite (dom m)"
  have "{p \<in> dom (dropPush m). prefix ''/push'' p} = {}"
    using fin by (auto simp: dropPush_def restrict_map_def split: if_splits)
  then have "keysWith ''/push'' (dropPush m) = []" unfolding keysWith_def by (simp only: sorted_list_of_set_empty)
  then show ?thesis by (simp add: pendEvents_def)
qed

lemma dropPush_data: "finite (dom m) \<Longrightarrow> dataIs m es \<Longrightarrow> dataIs (dropPush m) es"
  by (erule dataIs_cong[rotated]) (simp add: dropPush_other)

lemma finite_dropPush: "finite (dom m) \<Longrightarrow> finite (dom (dropPush m))"
  by (simp add: dropPush_def)

lemma pull_keys_dropPush:
  assumes fin: "finite (dom m)"
  shows "keysWith ''/pull'' (dropPush m) = keysWith ''/pull'' m"
proof (rule keysWith_cong[OF fin finite_dropPush[OF fin]])
  have "dropPush m p = m p" if "prefix ''/pull'' p" for p
    using that by (intro dropPush_other fin) (auto simp: prefix_def)
  then show "{p \<in> dom (dropPush m). prefix ''/pull'' p} = {p \<in> dom m. prefix ''/pull'' p}"
    by (auto simp: domIff)
qed

lemma syncRep_dropPush:
  assumes rep: "syncRep X n base m"
  shows "syncRep X n base (dropPush m)"
proof -
  note r = syncRepD[OF rep]
  have at: "dropPush m p = m p" if "\<not> prefix ''/push'' p" for p
    using dropPush_other[OF that r(1)] .
  have "pullEvents X (dropPush m) = pullEvents X m"
  proof -
    have "dropPush m p = m p" if "p \<in> set (keysWith ''/pull'' m)" for p
      using that r(1) by (intro at) (auto simp: prefix_def)
    then show ?thesis by (simp add: pullEvents_def pull_keys_dropPush[OF r(1)])
  qed
  moreover have "pushOK n (dropPush m)"
    using r(2) at[of "''/sync/push''"] by (auto simp: pushOK_def intOf_def dropPush_def logOK_delete)
  moreover have "logOK ''pull'' (int (length base)) (dropPush m)"
    using r(5) by (simp add: dropPush_def logOK_delete)
  ultimately show ?thesis
    using r finite_dropPush[OF r(1)] cleanDirs_restrict[OF r(3)] at[of "''/sync/pull''"]
    by (simp add: syncRep_def intOf_def) (simp add: dropPush_def)
qed

section \<open>Saving a pulled event\<close>

definition savedPull :: "int \<Rightarrow> string list \<Rightarrow> string \<Rightarrow> string \<Rightarrow> (string \<rightharpoonup> string) \<Rightarrow> (string \<rightharpoonup> string)" where
  "savedPull n cs d eb m = (applyEvent (canon cs, d) m)(logPath ''pull'' n cs \<mapsto> eb)"

lemma userEvent_canon: "userPath cs \<Longrightarrow> userEvent (canon cs, d)"
  by (auto simp: userEvent_def)

text \<open>
  While a page is being saved the pull index lags behind the pull log: \<open>syncRepAt\<close> is
  \<open>syncRep\<close> without the pull index.
\<close>

definition syncRepAt :: "'z ext_scheme \<Rightarrow> int \<Rightarrow> event list \<Rightarrow> (string \<rightharpoonup> string) \<Rightarrow> bool" where
  "syncRepAt X n base m \<longleftrightarrow> syncRep X n base (putInt ''/sync/pull'' (int (length base)) m)"

lemma pullIndex_not_log: "\<not> prefix (canon [''push'']) ''/sync/pull''" "\<not> prefix (canon [''pull'']) ''/sync/pull''"
  by simp_all

lemma syncRep_putPull:
  assumes "finite (dom m)" "pushOK n m" "cleanDirs m" "logOK ''pull'' (int (length base)) m"
    "pullEvents X m = base" "list_all userEvent base" "int (length base) \<le> maxIndex"
  shows "syncRep X n base (putInt ''/sync/pull'' (int (length base)) m)"
proof -
  have "int64_ok (int (length base))" using assms(7) by (simp add: int64_ok_def)
  moreover have "finite (dom (putInt ''/sync/pull'' (int (length base)) m))"
    using assms(1) by (simp add: putInt_def)
  moreover have "pushOK n (putInt ''/sync/pull'' (int (length base)) m)"
    using assms(2) logOK_putInt[OF _ pullIndex_not_log(1)] by (simp add: pushOK_def)
  moreover have "cleanDirs (putInt ''/sync/pull'' (int (length base)) m)"
    unfolding putInt_def using tableDir_not_sync(2) by (intro cleanDirs_other assms(3))
  moreover have "logOK ''pull'' (int (length base)) (putInt ''/sync/pull'' (int (length base)) m)"
    using assms(4) logOK_putInt[OF _ pullIndex_not_log(2)] by simp
  moreover have "pullEvents X (putInt ''/sync/pull'' (int (length base)) m) = base"
    using assms(1,5) by (simp add: putInt_def pullEvents_other)
  ultimately show ?thesis using assms(6,7) unfolding syncRep_def by simp
qed

lemma savedPull_rep:
  assumes fin: "finite (dom m)" and rep: "pushOK n m" "cleanDirs m" "logOK ''pull'' (int (length base)) m"
      "pullEvents X m = base"
    and max: "int (length base) < maxIndex" and cs: "userPath cs" and eb: "xApiEventU X eb = Inr a" "bstr (aeData a) = d"
  defines "m' \<equiv> savedPull (int (length base) + 1) cs d eb m"
  shows "finite (dom m') \<and> pushOK n m' \<and> cleanDirs m' \<and> logOK ''pull'' (int (length base) + 1) m' \<and>
    pullEvents X m' = base @ [(canon cs, d)] \<and> pendEvents m' = pendEvents m"
proof -
  let ?e = "(canon cs, d)" and ?p = "logPath ''pull'' (int (length base) + 1) cs"
  let ?m = "applyEvent ?e m"
  have fin': "finite (dom ?m)" using finite_applyEvent[OF fin] .
  have ue: "userEvent ?e" using userEvent_canon[OF cs] .
  have log: "logOK ''pull'' (int (length base)) ?m"
    using rep(3) cs by (auto simp: applyEvent_def intro!: logOK_other)
  have "pushOK n ?m" using applyEvent_pushOK[OF rep(1) cs] .
  then have push: "pushOK n (?m(?p \<mapsto> eb))"
    by (auto simp: pushOK_def intro!: logOK_other)
  have clean: "cleanDirs (?m(?p \<mapsto> eb))"
    using tableDir_not_log(2) by (intro cleanDirs_other cleanDirs_apply[OF rep(2) ue])
  have "logOK ''pull'' (int (length base) + 1) (?m(?p \<mapsto> eb))"
    using logOK_add[OF log _ _ userPath_plains[OF cs]] by simp
  moreover have "pullEvents X (?m(?p \<mapsto> eb)) = base @ [(canon cs, d)]"
    using pullEvents_saved[OF fin' log _ max userPath_plains[OF cs] eb(1)] eb(2)
      pullEvents_apply[OF ue fin, of X] rep(4) by simp
  moreover have "pendEvents (?m(?p \<mapsto> eb)) = pendEvents m"
    using pendEvents_other[OF _ fin', of ?p] pendEvents_apply[OF ue fin] by simp
  ultimately show ?thesis
    using push clean fin' by (simp add: m'_def savedPull_def)
qed

lemma savedPull_data:
  assumes "dataIs m es" "userPath cs"
  shows "dataIs (savedPull n cs d eb m) (es @ [(canon cs, d)])"
  unfolding savedPull_def
  by (rule dataIs_cong[OF _ dataIs_apply[OF assms(1)]]) simp

lemma log_path_from:
  assumes "dstore_ok X" "pushOK n m" "n \<le> maxIndex" "p \<in> dom m" "prefix ''/push'' p"
  shows "xPathFrom X p 2 = unlog p"
proof -
  obtain i cs where "plains cs" "0 < i" "i \<le> n" "p = logPath ''push'' i cs"
    using assms(2,4,5) unfolding pushOK_def logOK_def by fastforce
  with logPath_from[OF assms(1), of "''push''" i cs] assms(3) show ?thesis by simp
qed

section \<open>Sending\<close>

lemma sendData_run:
  assumes "msgpack_ok X" "box_ok X" "evRemoteTime e = 0" "evRemoteIndex e = 0"
  shows "\<exists>d. sendData X k e v = (Inr (Some (Some d)), v\<lparr>vDraws := Suc (vDraws v)\<rparr>) \<and> blobEvent X k (Some d) = Some (evOf e) \<and>
    sealedAs X k (Some d) (evOf e) \<and> d \<noteq> []"
proof -
  obtain b e' where b: "xEventM X e = Inr b" "xEventU X b = Inr e'" "evPath e' = evPath e" "bstr (evData e') = bstr (evData e)"
    using msgpack_event[OF assms(1), of e] by blast
  have "xBoxOpen X (xBoxSeal X (vDraws v) b k) k = Inr b" using assms(2) by (simp add: box_ok_def)
  with b have "blobEvent X k (Some (xBoxSeal X (vDraws v) b k)) = Some (evOf e)"
    by (simp add: blobEvent_def evOf_def)
  moreover have "sendData X k e v = (Inr (Some (Some (xBoxSeal X (vDraws v) b k))), v\<lparr>vDraws := Suc (vDraws v)\<rparr>)"
    using assms(3,4) b(1) by (simp add: sendData_def vaultEncrypt_def op_simps bnd_def)
  moreover have "sealedAs X k (Some (xBoxSeal X (vDraws v) b k)) (evOf e)" using b(1) by (auto simp: sealedAs_def evOf_def)
  moreover have "xBoxSeal X (vDraws v) b k \<noteq> []" using assms(2) by (simp add: box_ok_def)
  ultimately show ?thesis by blast
qed

lemma collect_send:
  assumes "msgpack_ok X" "box_ok X"
  shows "\<forall>e \<in> set es. evRemoteTime e = 0 \<and> evRemoteIndex e = 0 \<Longrightarrow>
    \<exists>out dr. collect es (sendData X k) v = (Inr out, v\<lparr>vDraws := dr\<rparr>) \<and> serverLog X k out (map evOf es) \<and>
      list_all (\<lambda>d. bstr d \<noteq> []) out \<and> list_all2 (sealedAs X k) out (map evOf es)"
proof (induction es arbitrary: v)
  case Nil
  then show ?case by (intro exI[of _ "[]"] exI[of _ "vDraws v"]) (simp add: op_simps serverLog_def)
next
  case (Cons e es)
  obtain d where d: "sendData X k e v = (Inr (Some (Some d)), v\<lparr>vDraws := Suc (vDraws v)\<rparr>)" "blobEvent X k (Some d) = Some (evOf e)"
      "sealedAs X k (Some d) (evOf e)" "d \<noteq> []"
    using sendData_run[OF assms, of e k v] Cons.prems by auto
  obtain out dr where "collect es (sendData X k) (v\<lparr>vDraws := Suc (vDraws v)\<rparr>) = (Inr out, v\<lparr>vDraws := Suc (vDraws v), vDraws := dr\<rparr>)"
      "serverLog X k out (map evOf es)" "list_all (\<lambda>d. bstr d \<noteq> []) out" "list_all2 (sealedAs X k) out (map evOf es)"
    using Cons.IH[of "v\<lparr>vDraws := Suc (vDraws v)\<rparr>"] Cons.prems by auto
  with d show ?case
    by (intro exI[of _ "Some d # out"] exI[of _ dr]) (simp add: op_simps serverLog_def)
qed

section \<open>Decrypting a page\<close>

lemma decryptEvents_page:
  assumes "\<And>t. t \<in> set ts \<Longrightarrow> blobEvent X k (bs ! t) = Some (evs ! t)"
  shows "\<exists>out. decryptEvents X k (map (\<lambda>t. Some \<lparr>aeData = bs ! t, aeIndex = int t + 1, aeTs = f t\<rparr>) ts) = Inr out \<and>
    map evOf out = map (\<lambda>t. evs ! t) ts \<and> map evRemoteIndex out = map (\<lambda>t. int t + 1) ts"
  using assms
proof (induction ts)
  case (Cons t ts)
  obtain d e where de: "xBoxOpen X (bstr (bs ! t)) k = Inr d" "xEventU X d = Inr e" "evOf e = evs ! t"
    using Cons.prems[of t] by (auto simp: blobEvent_def evOf_def split: sum.splits)
  obtain out where "decryptEvents X k (map (\<lambda>t. Some \<lparr>aeData = bs ! t, aeIndex = int t + 1, aeTs = f t\<rparr>) ts) = Inr out"
    "map evOf out = map (\<lambda>t. evs ! t) ts" "map evRemoteIndex out = map (\<lambda>t. int t + 1) ts"
    using Cons.IH Cons.prems by auto
  moreover have "evOf (e\<lparr>evRemoteTime := a, evRemoteIndex := b\<rparr>) = evOf e" for a b
    by (simp add: evOf_def)
  ultimately show ?case using de by (simp add: vaultDecrypt_def)
qed simp

section \<open>A vault with its remote\<close>

locale synced_vault = store I contents ready + vault_server X R okKey up blobs gone
  for I :: "'s store_ops" and contents :: "'s \<Rightarrow> string \<Rightarrow> string option" and ready :: "'s \<Rightarrow> bool"
    and X :: "'z ext_scheme" and R :: "'n http_client" and okKey :: "edkey \<Rightarrow> bool" and up :: "'n \<Rightarrow> bool"
    and blobs :: "string \<Rightarrow> 'n \<Rightarrow> gobytes list" and gone :: "string \<Rightarrow> 'n \<Rightarrow> bool" +
  assumes libs: "libs_ok X" and box: "box_ok X" and json: "json_ok X"
begin

lemma dstore: "dstore_ok X" and msgpack: "msgpack_ok X"
  using libs_okD[OF libs] by simp_all

lemma vaultSend_ok:
  fixes v :: "('s, 'n) vault"
  assumes net: "up (vNet v)" "okKey k" "\<not> gone (xKeyID X k) (vNet v)" and es: "es \<noteq> []"
    and zero: "\<forall>e \<in> set es. evRemoteTime e = 0 \<and> evRemoteIndex e = 0"
    and size: "sendFits X k (map evOf es)" "int (length (blobs (xKeyID X k) (vNet v)) + length es) \<le> maxIndex"
  shows "\<exists>dr n' out. VaultSend X R k es v = (Inr (), v\<lparr>vDraws := dr, vNet := n'\<rparr>) \<and> up n' \<and>
    serverLog X k out (map evOf es) \<and> (\<forall>i. blobs i n' = (if i = xKeyID X k then blobs i (vNet v) @ out else blobs i (vNet v))) \<and>
    (\<forall>i. gone i n' = gone i (vNet v))"
proof -
  obtain out dr where out: "collect es (sendData X k) v = (Inr out, v\<lparr>vDraws := dr\<rparr>)" "serverLog X k out (map evOf es)"
      "list_all (\<lambda>d. bstr d \<noteq> []) out" "list_all2 (sealedAs X k) out (map evOf es)"
    using collect_send[OF msgpack box zero] by blast
  have len: "length out = length es" using serverLog_length[OF out(2)] by simp
  have "out \<noteq> []" "int (length (blobs (xKeyID X k) (vNet v)) + length out) \<le> maxIndex" "int64_ok (int (totalLen out))"
    using len es size out(4) by (auto simp: sendFits_def)
  then obtain resp n' where n': "R (vaultReq X ''POST'' k [] (xDatasM X out)) (vNet v) = (Inr resp, n')" "up n'"
      "\<forall>i. blobs i n' = (if i = xKeyID X k then blobs i (vNet v) @ out else blobs i (vNet v))"
      "\<forall>i. gone i n' = gone i (vNet v)"
    using post_ok[OF net _ out(3)] by blast
  have "VaultSend X R k es v = (Inr (), v\<lparr>vDraws := dr, vNet := n'\<rparr>)"
    using out(1) n'(1) by (simp add: VaultSend_def op_simps vaultReq_def)
  with n' out(2) show ?thesis by blast
qed

text \<open>Pushing: the pending events go to the end of the remote's list, and the log is emptied.\<close>

lemma vaultPush_ok:
  fixes v :: "('s, 'n) vault"
  assumes v: "ready (vStore v)" "vHasClient v" "vRemote v = Some r" "up (vNet v)" "okKey (rmKey r)"
      "\<not> gone (xKeyID X (rmKey r)) (vNet v)"
    and rep: "syncRep X n base (contents (vStore v))" "n \<le> maxIndex"
    and log: "serverLog X (rmKey r) (blobs (xKeyID X (rmKey r)) (vNet v)) evs"
    and size: "sendFits X (rmKey r) (pendEvents (contents (vStore v)))"
      "int (length evs + length (pendEvents (contents (vStore v)))) \<le> maxIndex"
  shows "\<exists>dr n' s'. vaultPush X I R v = (Inr (), v\<lparr>vDraws := dr, vNet := n', vStore := s'\<rparr>) \<and> ready s' \<and> up n' \<and>
    contents s' = dropPush (contents (vStore v)) \<and>
    serverLog X (rmKey r) (blobs (xKeyID X (rmKey r)) n') (evs @ pendEvents (contents (vStore v))) \<and>
    (\<forall>i. i \<noteq> xKeyID X (rmKey r) \<longrightarrow> blobs i n' = blobs i (vNet v)) \<and> (\<forall>i. gone i n' = gone i (vNet v))"
proof -
  let ?m = "contents (vStore v)"
  note c = syncRepD[OF rep(1)]
  have path: "xPath X [''push''] = ''/push''" using xPath_one[OF dstore, of "''push''"] by simp
  obtain ds where ds: "sList I (Some (withPrefix ''/push'')) (vStore v) = (Inr ds, vStore v)"
      "map ePath ds = keysWith ''/push'' ?m" "\<forall>e \<in> set ds. ?m (ePath e) = Some (bstr (eData e))"
    using list_prefix[OF v(1)] by blast
  define es where "es = map (\<lambda>doc. NewEvent (xPathFrom X (ePath doc) 2) (eData doc)) ds"
  have "map evOf es = map (\<lambda>d. (unlog (ePath d), the (?m (ePath d)))) ds"
  proof -
    have "evOf (NewEvent (xPathFrom X (ePath d) 2) (eData d)) = (unlog (ePath d), the (?m (ePath d)))" if d: "d \<in> set ds" for d
    proof -
      have "ePath d \<in> set (keysWith ''/push'' ?m)" using d unfolding ds(2)[symmetric] by simp
      then have "xPathFrom X (ePath d) 2 = unlog (ePath d)"
        using log_path_from[OF dstore c(2) rep(2)] c(1) by simp
      with ds(3) d show ?thesis by (simp add: evOf_def NewEvent_def)
    qed
    then show ?thesis by (simp add: es_def)
  qed
  also have "\<dots> = map (\<lambda>p. (unlog p, the (?m p))) (map ePath ds)" by simp
  finally have pend: "map evOf es = pendEvents ?m" by (simp add: ds(2) pendEvents_def)
  show ?thesis
  proof (cases "es = []")
    case True
    then have none: "keysWith ''/push'' ?m = []" using ds(2) by (simp add: es_def)
    then have "dropPush ?m = ?m" by (simp add: dropPush_def restrict_map_def)
    moreover have "vaultPush X I R v = (Inr (), v)"
      using v(2,3) ds(1) path True by (simp add: vaultPush_def op_simps Let_def es_def)
    moreover have "v = v\<lparr>vDraws := vDraws v, vNet := vNet v, vStore := vStore v\<rparr>" by simp
    ultimately show ?thesis using v log pend True
      by (intro exI[of _ "vDraws v"] exI[of _ "vNet v"] exI[of _ "vStore v"]) simp
  next
    case False
    have zero: "\<forall>e \<in> set es. evRemoteTime e = 0 \<and> evRemoteIndex e = 0" by (auto simp: es_def NewEvent_def)
    have len: "length es = length (pendEvents ?m)" using arg_cong[OF pend, of length] by simp
    obtain dr n' out where send: "VaultSend X R (rmKey r) es v = (Inr (), v\<lparr>vDraws := dr, vNet := n'\<rparr>)" "up n'"
        "serverLog X (rmKey r) out (map evOf es)"
        "\<forall>i. blobs i n' = (if i = xKeyID X (rmKey r) then blobs i (vNet v) @ out else blobs i (vNet v))"
        "\<forall>i. gone i n' = gone i (vNet v)"
      using vaultSend_ok[OF v(4-6) False zero] size serverLog_length[OF log] unfolding pend len by auto
    have "\<forall>p \<in> set (map ePath ds). p \<noteq> []"
      using ds(2) c(1) by auto
    then obtain s' where s': "deleteAll I (map ePath ds) (vStore v) = (Inr (), s')" "ready s'"
        "contents s' = ?m |` (- set (map ePath ds))"
      using deleteAll_ok[OF v(1)] by blast
    have "vaultPush X I R v = (Inr (), v\<lparr>vDraws := dr, vNet := n', vStore := s'\<rparr>)"
      using v(2,3) ds(1) path False send(1) s'(1)
      by (simp add: vaultPush_def op_simps Let_def es_def)
    moreover have "serverLog X (rmKey r) (blobs (xKeyID X (rmKey r)) n') (evs @ pendEvents ?m)"
      using serverLog_append[OF log send(3)] send(4) pend by simp
    ultimately show ?thesis using s' send(2,4,5) ds(2) unfolding dropPush_def
      by (intro exI[of _ dr] exI[of _ n'] exI[of _ s']) simp
  qed
qed

text \<open>Saving one pulled event.\<close>

lemma savePulled_ok:
  fixes v :: "('s, 'n) vault"
  assumes v: "ready (vStore v)" and rep: "pushOK n (contents (vStore v))" "cleanDirs (contents (vStore v))"
      "logOK ''pull'' (int (length base)) (contents (vStore v))" "pullEvents X (contents (vStore v)) = base"
    and max: "int (length base) < maxIndex" and e: "userEvent (evOf e)" "evRemoteIndex e = int (length base) + 1"
  shows "\<exists>s'. savePulled X I e v = (Inr (), v\<lparr>vStore := s'\<rparr>) \<and> ready s' \<and>
    pushOK n (contents s') \<and> cleanDirs (contents s') \<and> logOK ''pull'' (int (length base) + 1) (contents s') \<and>
    pullEvents X (contents s') = base @ [evOf e] \<and> pendEvents (contents s') = pendEvents (contents (vStore v)) \<and>
    (\<forall>W. dataIs (contents (vStore v)) W \<longrightarrow> dataIs (contents s') (W @ [evOf e])) \<and>
    (\<forall>p. prefix ''/sync'' p \<longrightarrow> contents s' p = contents (vStore v) p)"
proof -
  let ?m = "contents (vStore v)"
  obtain cs where cs: "userPath cs" "evPath e = canon cs" using e(1) by (auto simp: userEvent_def evOf_def)
  obtain b where b: "xEventM X e = Inr b" using msgpack_event[OF msgpack, of e] by blast
  obtain a where a: "xApiEventU X b = Inr a" "bstr (aeData a) = bstr (evData e)"
    using msgpack_event[OF msgpack, of e] b by auto
  let ?n = "int (length base) + 1"
  define m1 where "m1 = applyEvent (canon cs, bstr (evData e)) ?m"
  obtain t where t: "applyPulled I e v = (Inr (), v\<lparr>vStore := t\<rparr>)" "ready t" "contents t = m1"
  proof (cases "glen (evData e) = 0")
    case True
    obtain t where "sDelete I (canon cs) (vStore v) = (Inr (?m (canon cs) \<noteq> None), t)" "ready t" "contents t = ?m(canon cs := None)"
      using delete_ok[OF v userPath_nonempty[OF cs(1)]] by blast
    with True that show thesis by (auto simp: applyPulled_def cs(2) op_simps m1_def applyEvent_def)
  next
    case False
    obtain t where "sSet I (canon cs) (evData e) (vStore v) = (Inr (), t)" "ready t" "contents t = ?m(canon cs \<mapsto> bstr (evData e))"
      using set_ok[OF v userPath_nonempty[OF cs(1)], of "evData e"] by blast
    with False that show thesis by (auto simp: applyPulled_def cs(2) op_simps m1_def applyEvent_def)
  qed
  have path: "xPath X [''pull'', zeroPad 15 ?n, evPath e] = logPath ''pull'' ?n cs"
    unfolding cs(2) using max userPath_plains[OF cs(1)] by (intro xPath_logPath dstore) simp_all
  obtain s' where s': "sSet I (logPath ''pull'' ?n cs) (Some b) t = (Inr (), s')" "ready s'"
      "contents s' = m1(logPath ''pull'' ?n cs \<mapsto> b)"
    using set_ok[OF t(2), of "logPath ''pull'' ?n cs" "Some b"] t(3) by auto
  have c: "contents s' = savedPull ?n cs (bstr (evData e)) b ?m"
    using s'(3) by (simp add: savedPull_def m1_def)
  have "savePulled X I e v = (Inr (), v\<lparr>vStore := s'\<rparr>)"
    using t(1) s'(1) b max e(2) userPath_nonempty[OF cs(1)] cs(2) path
    by (simp add: savePulled_def op_simps pad_ok Let_def)
  moreover have ev: "evOf e = (canon cs, bstr (evData e))" using cs(2) by (simp add: evOf_def)
  moreover have "contents s' p = ?m p" if "prefix ''/sync'' p" for p
  proof -
    have "canon cs \<noteq> p" using that userPath_hd[OF cs(1)] by (cases cs) auto
    moreover have "logPath ''pull'' ?n cs \<noteq> p" using that by (auto simp: logPath_def)
    ultimately show ?thesis by (simp add: s'(3) m1_def applyEvent_def)
  qed
  ultimately show ?thesis
    using savedPull_rep[OF contents_finite[OF v] rep max cs(1) a] savedPull_data[OF _ cs(1)] s'(2) c by auto
qed

text \<open>Saving the events of a page, and the page's index.\<close>

lemma saveEvents_ok:
  fixes v :: "('s, 'n) vault"
  assumes "ready (vStore v)" "pushOK n (contents (vStore v))" "cleanDirs (contents (vStore v))"
      "logOK ''pull'' (int (length base)) (contents (vStore v))" "pullEvents X (contents (vStore v)) = base"
    and "int (length base + length es) \<le> maxIndex" "list_all userEvent (map evOf es)"
      "map evRemoteIndex es = map (\<lambda>t. int t + 1) [length base..<length base + length es]"
  shows "\<exists>s'. forEach es (savePulled X I) v = (Inr (), v\<lparr>vStore := s'\<rparr>) \<and> ready s' \<and>
    pushOK n (contents s') \<and> cleanDirs (contents s') \<and> logOK ''pull'' (int (length base + length es)) (contents s') \<and>
    pullEvents X (contents s') = base @ map evOf es \<and> pendEvents (contents s') = pendEvents (contents (vStore v)) \<and>
    (\<forall>W. dataIs (contents (vStore v)) W \<longrightarrow> dataIs (contents s') (W @ map evOf es)) \<and>
    (\<forall>p. prefix ''/sync'' p \<longrightarrow> contents s' p = contents (vStore v) p)"
  using assms
proof (induction es arbitrary: v base)
  case Nil
  then show ?case by (intro exI[of _ "vStore v"]) (simp add: op_simps)
next
  case (Cons e es)
  have idx: "evRemoteIndex e = int (length base) + 1"
      "map evRemoteIndex es = map (\<lambda>t. int t + 1) [Suc (length base)..<Suc (length base) + length es]"
    using Cons.prems(8) upt_conv_Cons[of "length base" "length base + length (e # es)"] by (simp_all del: upt_Suc)
  have max: "int (length base) < maxIndex" and ue: "userEvent (evOf e)"
    using Cons.prems(6,7) by simp_all
  obtain t where t: "savePulled X I e v = (Inr (), v\<lparr>vStore := t\<rparr>)" "ready t"
      "pushOK n (contents t)" "cleanDirs (contents t)" "logOK ''pull'' (int (length base) + 1) (contents t)"
      "pullEvents X (contents t) = base @ [evOf e]" "pendEvents (contents t) = pendEvents (contents (vStore v))"
      "\<forall>W. dataIs (contents (vStore v)) W \<longrightarrow> dataIs (contents t) (W @ [evOf e])"
      "\<forall>p. prefix ''/sync'' p \<longrightarrow> contents t p = contents (vStore v) p"
    using savePulled_ok[OF Cons.prems(1-5) max ue idx(1)] by blast
  have len: "length (base @ [evOf e]) = Suc (length base)" by simp
  obtain s' where s': "forEach es (savePulled X I) (v\<lparr>vStore := t\<rparr>) = (Inr (), v\<lparr>vStore := t, vStore := s'\<rparr>)" "ready s'"
    "pushOK n (contents s')" "cleanDirs (contents s')" "logOK ''pull'' (int (length (base @ [evOf e]) + length es)) (contents s')"
    "pullEvents X (contents s') = (base @ [evOf e]) @ map evOf es" "pendEvents (contents s') = pendEvents (contents t)"
    "\<forall>W. dataIs (contents t) W \<longrightarrow> dataIs (contents s') (W @ map evOf es)"
    "\<forall>p. prefix ''/sync'' p \<longrightarrow> contents s' p = contents t p"
    using Cons.IH[of "v\<lparr>vStore := t\<rparr>" "base @ [evOf e]"] t(2-6) Cons.prems(6,7) idx(2)
    by (auto simp: add.commute)
  have "forEach (e # es) (savePulled X I) v = (Inr (), v\<lparr>vStore := s'\<rparr>)"
    using t(1) s'(1) by (simp add: op_simps)
  moreover have "dataIs (contents s') (W @ map evOf (e # es))" if "dataIs (contents (vStore v)) W" for W
    using t(8) s'(8) that by fastforce
  ultimately show ?case using s' t(7,9) by (intro exI[of _ s']) simp
qed

text \<open>What holds before and after each page: the vault has pulled the first \<open>c\<close> events.\<close>

definition pulled :: "edkey \<Rightarrow> event list \<Rightarrow> nat \<Rightarrow> int \<Rightarrow> event list \<Rightarrow> ('s, 'n) vault \<Rightarrow> bool" where
  "pulled k evs c n W v \<longleftrightarrow>
     ready (vStore v) \<and> vHasClient v \<and> (\<exists>r. vRemote v = Some r \<and> rmKey r = k) \<and> up (vNet v) \<and>
     \<not> gone (xKeyID X k) (vNet v) \<and> serverLog X k (blobs (xKeyID X k) (vNet v)) evs \<and>
     c \<le> length evs \<and> syncRep X n (take c evs) (contents (vStore v)) \<and>
     pendEvents (contents (vStore v)) = [] \<and> dataIs (contents (vStore v)) W"

text \<open>The parts of a vault that pulling does not change.\<close>

definition frame :: "('s, 'n) vault \<Rightarrow> ('s, 'n) vault \<Rightarrow> bool" where
  "frame v v' \<longleftrightarrow> vHasClient v' = vHasClient v \<and> vRemote v' = vRemote v \<and> vMk v' = vMk v \<and>
     (\<forall>q. blobs q (vNet v') = blobs q (vNet v)) \<and> (\<forall>q. gone q (vNet v') = gone q (vNet v)) \<and>
     contents (vStore v') ''/sync/rsalt'' = contents (vStore v) ''/sync/rsalt''"

lemma pullNext_ok:
  assumes v: "pulled k evs c n W v" and k: "okKey k" and evs: "evs \<noteq> []" "list_all userEvent evs" "int (length evs) \<le> maxIndex"
  shows "\<exists>j trunc v'. pullNext X I R v = (Inr trunc, v') \<and> c \<le> j \<and> (trunc \<longrightarrow> c < j) \<and> (\<not> trunc \<longrightarrow> j = length evs) \<and>
    pulled k evs j n (W @ take (j - c) (drop c evs)) v' \<and> frame v v'"
proof -
  let ?m = "contents (vStore v)" and ?bs = "blobs (xKeyID X k) (vNet v)"
  obtain r where r: "vRemote v = Some r" "rmKey r = k" using v by (auto simp: pulled_def)
  have st: "ready (vStore v)" "vHasClient v" "up (vNet v)" "\<not> gone (xKeyID X k) (vNet v)"
    and log: "serverLog X k ?bs evs" and c: "c \<le> length evs" and rep: "syncRep X n (take c evs) ?m"
    and pend: "pendEvents ?m = []" and data: "dataIs ?m W"
    using v by (simp_all add: pulled_def)
  note s = syncRepD[OF rep]
  have len: "length ?bs = length evs" using serverLog_length[OF log] .
  have idx: "pullIndex I v = (Inr (int c), v)"
    using pullIndex_ok[OF st(1) s(4)] c by simp
  have ne: "?bs \<noteq> []" using len evs(1) by auto
  have cm: "int c \<le> maxIndex" using c evs(3) by linarith
  obtain resp rr j n' where net: "R (vaultReq X ''GET'' k (idxParams (int c)) []) (vNet v) = (Inr (Some resp), n')"
      "rsData resp = xRespM X rr" "isPage ?bs c j rr" "up n'" "\<forall>q. blobs q n' = blobs q (vNet v)" "\<forall>q. gone q n' = gone q (vNet v)"
    using get_page[OF st(3) k st(4) ne _ cm] c len by auto
  obtain ts where pg: "c \<le> j" "j \<le> length evs" "vrVault rr = map (\<lambda>t. Some \<lparr>aeData = ?bs ! t, aeIndex = int t + 1, aeTs = ts t\<rparr>) [c..<j]"
      "vrIndex rr = int j" "vrTruncated rr \<Longrightarrow> c < j" "\<not> vrTruncated rr \<Longrightarrow> j = length evs"
    using net(3) len by (auto simp: isPage_def)
  have blob: "blobEvent X k (?bs ! t) = Some (evs ! t)" if "t \<in> set [c..<j]" for t
    using serverLog_nth[OF log] that pg(2) len by simp
  obtain out where out: "decryptEvents X k (vrVault rr) = Inr out" "map evOf out = map (\<lambda>t. evs ! t) [c..<j]"
      "map evRemoteIndex out = map (\<lambda>t. int t + 1) [c..<j]"
    using decryptEvents_page[where ts = "[c..<j]" and bs = ?bs and evs = evs and f = ts, OF blob] pg(3) by auto
  have page: "map (\<lambda>t. evs ! t) [c..<j] = take (j - c) (drop c evs)"
    using pg(1,2) by (intro nth_equalityI) simp_all
  have lout: "length out = j - c" using arg_cong[OF out(2), of length] by simp
  define w where "w = v\<lparr>vNet := n'\<rparr>"
  let ?es = "\<lparr>vesEvents = out, vesIndex = int j, vesTruncated = vrTruncated rr\<rparr>"
  have client: "clientVault X R k (int c) v = (Inr (Some ?es), w)"
    using net(1,2) json out(1) pg(4)
    by (simp add: clientVault_def Let_def op_simps vaultReq_def idxParams_def json_ok_def vaultDecryptResponse_def w_def)
  have lb: "length (take c evs) = c" using c by simp
  obtain t where t: "forEach out (savePulled X I) w = (Inr (), w\<lparr>vStore := t\<rparr>)" "ready t"
      "pushOK n (contents t)" "cleanDirs (contents t)" "logOK ''pull'' (int (c + length out)) (contents t)"
      "pullEvents X (contents t) = take c evs @ map evOf out" "pendEvents (contents t) = pendEvents ?m"
      "\<forall>W. dataIs ?m W \<longrightarrow> dataIs (contents t) (W @ map evOf out)"
      "\<forall>p. prefix ''/sync'' p \<longrightarrow> contents t p = ?m p"
    using saveEvents_ok[where v = w and base = "take c evs" and es = out and n = n] st(1) s(2,3,5,6) lb out lout pg evs(2,3) page
    by (auto simp: w_def list_all_iff dest: in_set_takeD in_set_dropD)
  have base': "take c evs @ map evOf out = take j evs"
    using out(2) page pg(1) by (simp flip: take_add)
  obtain s' where s': "setPullIndex X I (int j) (w\<lparr>vStore := t\<rparr>) = (Inr (), w\<lparr>vStore := t, vStore := s'\<rparr>)" "ready s'"
      "contents s' = putInt ''/sync/pull'' (int j) (contents t)"
    using setPullIndex_ok[OF dstore, of "w\<lparr>vStore := t\<rparr>" "int j"] t(2) by auto
  have "syncRep X n (take j evs) (putInt ''/sync/pull'' (int (length (take j evs))) (contents t))"
    using t(3-6) base' pg(1,2) evs(2,3) lout contents_finite[OF t(2)]
    by (intro syncRep_putPull) (auto simp: list_all_iff dest: in_set_takeD)
  then have "syncRep X n (take j evs) (contents s')" using s'(3) pg(2) by (simp add: min_absorb2)
  moreover have "pendEvents (contents s') = []"
    using s'(3) t(7) pend contents_finite[OF t(2)] by (simp add: putInt_def pendEvents_other)
  moreover have "dataIs (contents s') (W @ take (j - c) (drop c evs))"
    using t(8) data out(2) page s'(3) by (auto intro: dataIs_cong[rotated])
  ultimately have "pulled k evs j n (W @ take (j - c) (drop c evs)) (w\<lparr>vStore := s'\<rparr>)"
    using s'(2) st r log pg(2) net(4-6) by (simp add: pulled_def w_def)
  moreover have "frame v (w\<lparr>vStore := s'\<rparr>)"
    using net(5,6) s'(3) t(9) by (simp add: frame_def w_def)
  moreover have "pullNext X I R v = (Inr (vrTruncated rr), w\<lparr>vStore := s'\<rparr>)"
    using st(2) r idx client t(1) s'(1) by (simp add: pullNext_def op_simps saveRemoteVault_def)
  ultimately show ?thesis using pg(1,5,6) by blast
qed

text \<open>The loop ends, because every truncated page moves the index forward.\<close>

lemma vaultPull_ok:
  assumes k: "okKey k" and evs: "evs \<noteq> []" "list_all userEvent evs" "int (length evs) \<le> maxIndex"
  shows "pulled k evs c n W v \<Longrightarrow>
    \<exists>v'. vaultPull X I R v = Some (Inr (), v') \<and> pulled k evs (length evs) n (W @ drop c evs) v' \<and> frame v v'"
proof (induction "length evs - c" arbitrary: c v W rule: less_induct)
  case less
  obtain j trunc u where u: "pullNext X I R v = (Inr trunc, u)" "c \<le> j" "trunc \<longrightarrow> c < j" "\<not> trunc \<longrightarrow> j = length evs"
      "pulled k evs j n (W @ take (j - c) (drop c evs)) u" "frame v u"
    using pullNext_ok[OF less.prems k evs] by blast
  have cl: "c \<le> length evs" using less.prems by (simp add: pulled_def)
  show ?case
  proof (cases trunc)
    case False
    then have j: "j = length evs" using u(4) by simp
    have "vaultPull X I R v = Some (Inr (), u)"
      using u(1) False by (subst vaultPull.simps) simp
    with u(5,6) j show ?thesis by simp
  next
    case True
    have jl: "j \<le> length evs" using u(5) by (simp add: pulled_def)
    have "length evs - j < length evs - c" using True u(3) jl by linarith
    from less.hyps[OF this u(5)] obtain v' where v': "vaultPull X I R u = Some (Inr (), v')"
        "pulled k evs (length evs) n ((W @ take (j - c) (drop c evs)) @ drop j evs) v'" "frame u v'"
      by blast
    have "vaultPull X I R v = Some (Inr (), v')"
      using u(1) v'(1) True by (subst vaultPull.simps) simp
    moreover have "take (j - c) (drop c evs) @ drop j evs = drop c evs"
      using u(2) append_take_drop_id[of "j - c" "drop c evs"] by simp
    moreover have "frame v v'" using u(6) v'(3) by (simp add: frame_def)
    ultimately show ?thesis using v'(2) by simp
  qed
qed

abbreviation canSync :: "edkey \<Rightarrow> int \<Rightarrow> event list \<Rightarrow> event list \<Rightarrow> ('s, 'n) vault \<Rightarrow> bool" where
  "canSync \<equiv> syncable X contents ready okKey up blobs gone"

lemma lastSync_keeps:
  assumes "syncRep X n base m" "dataIs m W"
  shows "syncRep X n base (putInt ''/sync/lastSync'' t m) \<and> dataIs (putInt ''/sync/lastSync'' t m) W \<and>
    pendEvents (putInt ''/sync/lastSync'' t m) = pendEvents m"
proof -
  note s = syncRepD[OF assms(1)]
  have nu: "canon cs \<noteq> ''/sync/lastSync''" if "userPath cs" for cs
    using userPath_neq_sync[OF that, of "[''sync'', ''lastSync'']"] by simp
  have "\<not> prefix (canon [''push'']) ''/sync/lastSync''" "\<not> prefix (canon [''pull'']) ''/sync/lastSync''" by simp_all
  then have "pushOK n (putInt ''/sync/lastSync'' t m)" "logOK ''pull'' (int (length base)) (putInt ''/sync/lastSync'' t m)"
    using s(2,5) by (auto simp: pushOK_def logOK_putInt simp del: canon.simps)
  moreover have "cleanDirs (putInt ''/sync/lastSync'' t m)"
    unfolding putInt_def using tableDir_not_sync(4) by (intro cleanDirs_other s(3))
  moreover have "pullEvents X (putInt ''/sync/lastSync'' t m) = base" "finite (dom (putInt ''/sync/lastSync'' t m))"
    "pendEvents (putInt ''/sync/lastSync'' t m) = pendEvents m"
    using s(1,6) by (simp_all add: putInt_def pullEvents_other pendEvents_other)
  moreover have "dataIs (putInt ''/sync/lastSync'' t m) W"
    using dataIs_cong[OF _ assms(2)] nu by simp
  ultimately show ?thesis using s(4,7,8) by (simp add: syncRep_def)
qed

text \<open>
  Synchronising: the remote's list becomes \<open>evs\<close> followed by the pending events, the vault has
  pulled all of it, nothing is pending, and the user data are what the list gives.
\<close>

lemma Sync_ok:
  fixes v :: "('s, 'n) vault"
  assumes v: "canSync k n base evs v" and ne: "evs @ pendEvents (contents (vStore v)) \<noteq> []"
  shows "\<exists>v'. Sync X I R None v = Some (Inr (), v') \<and>
    canSync k n (evs @ pendEvents (contents (vStore v))) (evs @ pendEvents (contents (vStore v))) v' \<and>
    pendEvents (contents (vStore v')) = [] \<and> vMk v' = vMk v \<and> vRemote v' = vRemote v \<and>
    (\<forall>q. q \<noteq> xKeyID X k \<longrightarrow> blobs q (vNet v') = blobs q (vNet v)) \<and> (\<forall>q. gone q (vNet v') = gone q (vNet v)) \<and>
    contents (vStore v') ''/sync/rsalt'' = contents (vStore v) ''/sync/rsalt''"
proof -
  let ?m = "contents (vStore v)" let ?all = "evs @ pendEvents ?m"
  obtain r rest where r: "vRemote v = Some r" "rmKey r = k" and rest: "evs = base @ rest"
    using v by (auto simp: syncable_def)
  have st: "ready (vStore v)" "vHasClient v" "okKey k" "up (vNet v)" "\<not> gone (xKeyID X k) (vNet v)"
    and log: "serverLog X k (blobs (xKeyID X k) (vNet v)) evs" and ue: "list_all userEvent evs"
    and rep: "syncRep X n base ?m" "logInv base ?m" "n \<le> maxIndex" "int (length ?all) \<le> maxIndex"
    and fits: "sendFits X k (pendEvents ?m)"
    using v by (simp_all add: syncable_def)
  have fin: "finite (dom ?m)" using syncRepD(1)[OF rep(1)] .
  obtain dr n' s1 where push: "vaultPush X I R v = (Inr (), v\<lparr>vDraws := dr, vNet := n', vStore := s1\<rparr>)" "ready s1" "up n'"
      "contents s1 = dropPush ?m" "serverLog X k (blobs (xKeyID X k) n') ?all"
      "\<forall>i. i \<noteq> xKeyID X k \<longrightarrow> blobs i n' = blobs i (vNet v)" "\<forall>i. gone i n' = gone i (vNet v)"
    using vaultPush_ok[OF st(1,2) r(1) st(4) _ _ rep(1,3), of evs] st(3,5) log r(2) fits rep(4) by auto
  define v1 where "v1 = v\<lparr>vDraws := dr, vNet := n', vStore := s1\<rparr>"
  have uall: "list_all userEvent ?all" using ue rep(2) by (simp add: logInv_dataIs)
  have "syncRep X n (take (length base) ?all) (dropPush ?m)" using syncRep_dropPush[OF rep(1)] rest by simp
  moreover have "dataIs (dropPush ?m) (base @ pendEvents ?m)"
    using dropPush_data[OF fin] rep(2) by (simp add: logInv_dataIs)
  ultimately have p1: "pulled k ?all (length base) n (base @ pendEvents ?m) v1"
    using push st r rest dropPush_pend[OF fin] by (simp add: pulled_def v1_def)
  obtain v2 where v2: "vaultPull X I R v1 = Some (Inr (), v2)"
      "pulled k ?all (length ?all) n ((base @ pendEvents ?m) @ drop (length base) ?all) v2" "frame v1 v2"
    using vaultPull_ok[OF st(3) ne uall rep(4) p1] by blast
  have "(base @ pendEvents ?m) @ drop (length base) ?all = base @ pendEvents ?m @ rest @ pendEvents ?m"
    using rest by simp
  then have d2: "dataIs (contents (vStore v2)) ?all"
    using v2(2) replay_again[of base "pendEvents ?m" rest Map.empty] rest
    unfolding pulled_def dataIs_def by simp
  have s2: "ready (vStore v2)" "syncRep X n ?all (contents (vStore v2))" "pendEvents (contents (vStore v2)) = []"
    using v2(2) by (simp_all add: pulled_def)
  obtain s3 where s3: "setLastSync X I (xNow X (vTicks v2)) (v2\<lparr>vTicks := Suc (vTicks v2)\<rparr>) =
        (Inr (), v2\<lparr>vTicks := Suc (vTicks v2), vStore := s3\<rparr>)" "ready s3"
      "contents s3 = putInt ''/sync/lastSync'' (xMillis X (xNow X (vTicks v2))) (contents (vStore v2))"
    using setLastSync_ok[OF dstore, of "v2\<lparr>vTicks := Suc (vTicks v2)\<rparr>" "xNow X (vTicks v2)"] s2(1) by auto
  define v3 where "v3 = v2\<lparr>vTicks := Suc (vTicks v2), vStore := s3\<rparr>"
  have "Sync X I R None v = Some (Inr (), v3)"
    using push(1) v2(1) s3(1)
    by (simp add: Sync_def wrapErr_run v1_def[symmetric] op_simps v3_def)
  moreover have m3: "syncRep X n ?all (contents s3)" "dataIs (contents s3) ?all" "pendEvents (contents s3) = []"
    using lastSync_keeps[OF s2(2) d2] s2(3) s3(3) by simp_all
  moreover have "canSync k n ?all ?all v3"
    using m3 v2(2) uall rep(3,4) s3(2) st(3) by (auto simp: syncable_def pulled_def v3_def logInv_dataIs)
  moreover have "vMk v3 = vMk v" "vRemote v3 = vRemote v" "\<forall>q. q \<noteq> xKeyID X k \<longrightarrow> blobs q (vNet v3) = blobs q (vNet v)"
    "\<forall>q. gone q (vNet v3) = gone q (vNet v)"
    using v2(3) push(6,7) by (simp_all add: frame_def v1_def v3_def)
  moreover have "contents (vStore v3) ''/sync/rsalt'' = ?m ''/sync/rsalt''"
    using v2(3) s3(3) dropPush_other[OF _ fin, of "''/sync/rsalt''"] push(4) by (simp add: frame_def v1_def v3_def)
  ultimately show ?thesis by (intro exI[of _ v3]) (simp add: v3_def)
qed

end

end
