(* ===== verification/VaultItems.thy ===== *)
theory VaultItems
  imports VaultSpec
begin

text \<open>
  The item operations refine the abstract vault: on a store that keeps its contract, \<^verbatim>\<open>Set\<close>,
  \<^verbatim>\<open>Get\<close>, \<^verbatim>\<open>Delete\<close> and \<^verbatim>\<open>Items\<close> return what the abstract operation returns, errors included,
  and keep the representation. \<open>sim\<close> is the simulation relation between one operation and its
  specification; \<open>c\<close> bounds the number of changes the operation logs.
\<close>

text \<open>The password salt stored.\<close>

abbreviation saltOf :: "('s \<Rightarrow> string \<Rightarrow> string option) \<Rightarrow> ('s, 'n) vault \<Rightarrow> string option" where
  "saltOf contents v \<equiv> contents (vStore v) ''/config/salt''"

definition sim ::
  "'z ext_scheme \<Rightarrow> ('s \<Rightarrow> string \<Rightarrow> string option) \<Rightarrow> ('s \<Rightarrow> bool) \<Rightarrow> event list \<Rightarrow> int \<Rightarrow> int \<Rightarrow>
   (('s, 'n) vault, 'a) op \<Rightarrow> (avault, 'a) op \<Rightarrow> ('s, 'n) vault \<Rightarrow> avault \<Rightarrow> bool" where
  "sim X contents ready base c n m am v A \<longleftrightarrow>
     (\<exists>r v' A' n'. m v = (r, v') \<and> am A = (r, A') \<and> n \<le> n' \<and> n' \<le> n + c \<and>
        vaultRep X contents ready n' base v' A' \<and> vNet v' = vNet v \<and> vHasClient v' = vHasClient v \<and>
    saltOf contents v' = saltOf contents v)"

lemma simI:
  assumes "m v = (r, v')" "am A = (r, A')" "n \<le> n'" "n' \<le> n + c" "vaultRep X contents ready n' base v' A'"
    "vNet v' = vNet v" "vHasClient v' = vHasClient v" "saltOf contents v' = saltOf contents v"
  shows "sim X contents ready base c n m am v A"
  using assms unfolding sim_def by blast

lemma sim_same:
  assumes "m v = (r, v)" "am A = (r, A)" "vaultRep X contents ready n base v A" "0 \<le> c"
  shows "sim X contents ready base c n m am v A"
  using assms by (intro simI) simp_all

lemma sim_mono: "sim X contents ready base c n m am v A \<Longrightarrow> c \<le> d \<Longrightarrow> sim X contents ready base d n m am v A"
  unfolding sim_def by (meson add_left_mono order_trans)

context store
begin

text \<open>Writing a user path: the representation after the change.\<close>

lemma write_path:
  assumes libs: "libs_ok X" and rep: "vaultRep X contents ready n base v A" and n: "n < maxIndex"
    and cs: "userPath cs" and b: "b \<noteq> []" and frame: "vStore u = vStore v"
    and B: "contRep X (n + 1) base (changed n cs b (contents (vStore v))) B"
  shows "\<exists>s'. vaultSetPath X I (canon cs) (Some b) True u = (Inr (), u\<lparr>vStore := s', vAuto := True\<rparr>) \<and>
    ready s' \<and> contents s' = changed n cs b (contents (vStore v))"
  using vaultSetPath_ok[OF libs_okD(1)[OF libs], of u n cs "Some b"] frame
    vaultRepD(1)[OF rep] contRepD(2)[OF vaultRepD(2)[OF rep]] n cs b by simp

lemma setItem_sim:
  assumes libs: "libs_ok X" and rep: "vaultRep X contents ready n base v A" and n: "n < maxIndex"
    and o': "aOpen A" and item: "itemOk item" "plain (iID item)"
  shows "\<exists>v'. setItem X I item True v = (Inr (), v') \<and>
    vaultRep X contents ready (n + 1) base v' (A\<lparr>aItems := (aItems A)(iID item \<mapsto> item)\<rparr>) \<and>
    vNet v' = vNet v \<and> vHasClient v' = vHasClient v \<and>
    saltOf contents v' = saltOf contents v"
proof -
  let ?m = "contents (vStore v)" and ?B = "A\<lparr>aItems := (aItems A)(iID item \<mapsto> item)\<rparr>"
  note c = contRepD[OF vaultRepD(2)[OF rep]]
  have mk: "vMk v = Some (aMk A)" using vaultRepD(3)[OF rep] o' by simp
  obtain enc where enc: "encryptItem X item (Some (aMk A)) v = (Inr (Some enc), v\<lparr>vDraws := Suc (vDraws v)\<rparr>)"
      "encOf X (aMk A) item enc"
    using encryptItem_run[OF libs_okD(2,3)[OF libs] item(1)] by blast
  have "itemRow X (aMk A) (iID item) item enc" using enc(2) item(1) by (simp add: itemRow_def itemOk_def)
  then have B: "contRep X (n + 1) base (changed n [''item'', iID item] enc ?m) ?B"
    using item(2) encOf_nonempty[OF enc(2)] c(4,6-8)
    by (intro contRep_changed[OF vaultRepD(2)[OF rep] n])
      (simp_all add: tableRep_changed_set tableRep_changed_other)
  obtain s' where s': "vaultSetPath X I (canon [''item'', iID item]) (Some enc) True (v\<lparr>vDraws := Suc (vDraws v)\<rparr>) =
      (Inr (), v\<lparr>vDraws := Suc (vDraws v), vStore := s', vAuto := True\<rparr>)" "ready s'"
      "contents s' = changed n [''item'', iID item] enc ?m"
    using write_path[OF libs rep n _ encOf_nonempty[OF enc(2)] _ B, of "v\<lparr>vDraws := Suc (vDraws v)\<rparr>"] item(2)
    by auto
  have "xPath X [''item'', iID item] = canon [''item'', iID item]"
    using xPath_two[OF libs_okD(1)[OF libs]] item(2) by simp
  then have "setItem X I item True v = (Inr (), v\<lparr>vDraws := Suc (vDraws v), vStore := s', vAuto := True\<rparr>)"
    using enc(1) mk s'(1) by (simp add: setItem_def op_simps)
  moreover have "remoteRep X (contents s') (vRemote v) ?B"
    using vaultRepD(4)[OF rep] s'(3) item(2) by (auto intro: remoteRep_cong)
  ultimately show ?thesis
    using s'(2,3) B mk o' item(2) by (auto simp: vaultRep_def)
qed

lemma refine_Set:
  assumes libs: "libs_ok X" and rep: "vaultRep X contents ready n base v A" and n: "n < maxIndex"
    and item: "iID item = [] \<or> plain (iID item)"
  shows "sim X contents ready base 1 n (vaultSet X I item) (absSet item) v A"
proof (cases "aOpen A \<and> itemOk item")
  case True
  with item have "plain (iID item)" by (auto simp: itemOk_def)
  then obtain v' where "setItem X I item True v = (Inr (), v')"
    "vaultRep X contents ready (n + 1) base v' (A\<lparr>aItems := (aItems A)(iID item \<mapsto> item)\<rparr>)"
    "vNet v' = vNet v" "vHasClient v' = vHasClient v" "saltOf contents v' = saltOf contents v"
    using setItem_sim[OF libs rep n] True by blast
  with True show ?thesis
    by (intro simI[where n' = "n + 1" and v' = v']) (auto simp: vaultSet_def absSet_def op_simps itemOk_def)
next
  case False
  have mk: "vMk v = (if aOpen A then Some (aMk A) else None)" using vaultRepD(3)[OF rep] .
  consider "\<not> aOpen A" | "aOpen A" "iID item = []" | "aOpen A" "iID item \<noteq> []" "glen (iData item) > 32 * 1024"
    using False by (force simp: itemOk_def)
  then show ?thesis
    using mk by cases (intro sim_same[OF _ _ rep]; simp add: vaultSet_def setItem_def absSet_def op_simps encryptItem_errors)+
qed

lemma refine_Get_run:
  assumes libs: "libs_ok X" and rep: "vaultRep X contents ready n base v A" and i: "i = [] \<or> plain i"
  shows "\<exists>r. vaultGet X I i v = (r, v) \<and> absGet i A = (r, A)"
proof (cases "i = []")
  case True
  then show ?thesis by (simp add: vaultGet_def absGet_def op_simps)
next
  case False
  with i have i: "plain i" by simp
  note r = vaultRepD[OF rep] and c = contRepD[OF vaultRepD(2)[OF rep]]
  have path: "xPath X [''item'', i] = rowPath ''item'' i"
    using xPath_row[OF libs_okD(1)[OF libs]] i by simp
  show ?thesis
  proof (cases "aItems A i")
    case None
    with table_get_absent[OF r(1) c(6) i] False path show ?thesis
      by (simp add: vaultGet_def absGet_def lookupLive_def op_simps)
  next
    case (Some item)
    obtain b where b: "sGet I (rowPath ''item'' i) (vStore v) = (Inr b, vStore v)" "itemRow X (aMk A) i item (bstr b)"
      using table_get_present[OF r(1) c(6) Some] by blast
    have nil: "b \<noteq> None" using b(2) encOf_nonempty[of X "aMk A" item "bstr b"] by (cases b) (auto simp: itemRow_def)
    show ?thesis
    proof (cases "aOpen A")
      case False
      with b nil r(3) path Some \<open>i \<noteq> []\<close> show ?thesis
        by (simp add: vaultGet_def absGet_def op_simps decryptItem_def)
    next
      case True
      obtain item' where d: "decryptItem X b (Some (aMk A)) i = Inr item'" "sameItem item' item"
        using decrypt_itemRow[OF libs c(4) b(2)] by blast
      have "iID item' = i" using d(2) b(2) by (simp add: sameItem_def itemRow_def)
      with True b nil r(3) path Some \<open>i \<noteq> []\<close> d sameItem_dead[OF d(2)] sameItem_live[OF d(2)] show ?thesis
        by (auto simp: vaultGet_def absGet_def op_simps lookupLive_def)
    qed
  qed
qed

lemma refine_Get:
  assumes "libs_ok X" "vaultRep X contents ready n base v A" "i = [] \<or> plain i"
  shows "sim X contents ready base 0 n (vaultGet X I i) (absGet i) v A"
  using refine_Get_run[OF assms] assms(2) by (auto intro: sim_same)

lemma refine_Delete:
  assumes libs: "libs_ok X" and rep: "vaultRep X contents ready n base v A" and n: "n < maxIndex"
    and i: "i = [] \<or> plain i"
  shows "sim X contents ready base 1 n (vaultDelete X I i) (absDelete i) v A"
proof -
  obtain r where get: "vaultGet X I i v = (r, v)" "absGet i A = (r, A)"
    using refine_Get_run[OF libs rep i] by blast
  show ?thesis
  proof (cases "\<exists>item. r = Inr (Some item)")
    case False
    then have "(\<exists>e. r = Inl e) \<or> r = Inr None" by (cases r) auto
    with get rep show ?thesis
      by (intro sim_same[where r = "map_sum id (\<lambda>_. False) r"])
        (auto simp: vaultDelete_def absDelete_def op_simps)
  next
    case True
    then obtain item where item: "r = Inr (Some item)" by blast
    then have its: "aItems A i = Some item" "aOpen A" "i \<noteq> []"
      using get(2) by (auto simp: absGet_def op_simps lookupLive_def split: if_splits option.splits)
    have "iID item = i"
      using tableRep_Some[OF contRepD(6)[OF vaultRepD(2)[OF rep]] its(1)] by (auto simp: itemRow_def)
    then have ok: "itemOk (item\<lparr>iData := None\<rparr>)" "plain (iID (item\<lparr>iData := None\<rparr>))"
      using its(3) i by (auto simp: itemOk_def)
    obtain v' where "setItem X I (item\<lparr>iData := None\<rparr>) True v = (Inr (), v')"
      "vaultRep X contents ready (n + 1) base v' (A\<lparr>aItems := (aItems A)(i \<mapsto> item\<lparr>iData := None\<rparr>)\<rparr>)"
      "vNet v' = vNet v" "vHasClient v' = vHasClient v" "saltOf contents v' = saltOf contents v"
      using setItem_sim[OF libs rep n its(2) ok] \<open>iID item = i\<close> by auto
    then show ?thesis
      using get item by (intro simI[where n' = "n + 1" and v' = v']) (simp_all add: vaultDelete_def absDelete_def op_simps)
  qed
qed

text \<open>Listing the items when the vault is open: one decryption per row, in id order.\<close>

lemma items_step:
  fixes v :: "('s, 'n) vault"
  assumes libs: "libs_ok X" and mk: "length mk = 32" and row: "itemRow X mk i item (bstr (eData e))"
    and e: "ePath e = rowPath ''item'' i" and i: "plain i" "its i = Some item"
  shows "bnd (lift (decryptItem X (eData e) (Some mk) (xPathLast X (ePath e))))
      (\<lambda>item. ret (if glen (iData item) = 0 then None else Some item)) v =
    (Inr (lookupLive (xPathLast X (ePath e)) its), v)"
proof -
  have l: "xPathLast X (ePath e) = i"
    using rowPath_last[OF libs_okD(1)[OF libs] _ i(1)] e by simp
  obtain item' where d: "decryptItem X (eData e) (Some mk) i = Inr item'" "sameItem item' item"
    using decrypt_itemRow[OF libs mk row] by blast
  from d i sameItem_dead[OF d(2)] sameItem_live[OF d(2)] show ?thesis
    by (auto simp: l op_simps lookupLive_def)
qed

lemma refine_Items:
  fixes v :: "('s, 'n) vault"
  assumes libs: "libs_ok X" and rep: "vaultRep X contents ready n base v A"
  shows "sim X contents ready base 0 n (vaultItems X I) absItems v A"
proof -
  note r = vaultRepD[OF rep] and c = contRepD[OF vaultRepD(2)[OF rep]]
  have path: "xPath X [''item''] = canon [''item'']"
    using xPath_one[OF libs_okD(1)[OF libs], of "''item''"] by simp
  obtain es where es: "sList I (Some (withPrefix (canon [''item'']))) (vStore v) = (Inr es, vStore v)"
      "map ePath es = map (rowPath ''item'') (rowIds (aItems A))"
      "\<forall>e \<in> set es. \<exists>i x. plain i \<and> aItems A i = Some x \<and> ePath e = rowPath ''item'' i \<and>
         itemRow X (aMk A) i x (bstr (eData e))"
    using table_list[OF r(1) c(6)] unfolding rowIds_def by blast
  have fin: "finite (dom (aItems A))" using tableRep_finite[OF c(6,1)] .
  define f where "f = (\<lambda>doc :: entry. bnd (lift (decryptItem X (eData doc) (vMk v) (xPathLast X (ePath doc))))
       (\<lambda>item. ret (if glen (iData item) = 0 then None else Some item)) :: (('s, 'n) vault, item option) op)"
  have run: "vaultItems X I v = collect es f v"
    using es(1) path by (simp add: vaultItems_def op_simps f_def del: canon.simps)
  show ?thesis
  proof (cases "aOpen A")
    case True
    have "f e v = (Inr (lookupLive (xPathLast X (ePath e)) (aItems A)), v)" if e: "e \<in> set es" for e
    proof -
      obtain i x where "plain i" "aItems A i = Some x" "ePath e = rowPath ''item'' i"
        "itemRow X (aMk A) i x (bstr (eData e))"
        using es(3) e by blast
      from items_step[where v = v and its = "aItems A", OF libs c(4) this(4,3,1,2)] r(3) True show ?thesis by (simp add: f_def)
    qed
    then have "collect es f v = (Inr (List.map_filter (\<lambda>e. lookupLive (xPathLast X (ePath e)) (aItems A)) es), v)"
      by (rule collect_pure)
    moreover have "map (\<lambda>e. lookupLive (xPathLast X (ePath e)) (aItems A)) es =
        map (\<lambda>i. lookupLive i (aItems A)) (rowIds (aItems A))"
    proof -
      have "map (\<lambda>e. lookupLive (xPathLast X (ePath e)) (aItems A)) es =
          map (\<lambda>p. lookupLive (xPathLast X p) (aItems A)) (map ePath es)" by simp
      also have "\<dots> = map (\<lambda>i. lookupLive (xPathLast X (rowPath ''item'' i)) (aItems A)) (rowIds (aItems A))"
        by (simp add: es(2))
      finally show ?thesis
        using tableRep_Some[OF c(6)] rowPath_last[OF libs_okD(1)[OF libs], of "''item''"] fin
        by (auto simp: rowIds_def)
    qed
    ultimately have "collect es f v = (Inr (List.map_filter (\<lambda>i. lookupLive i (aItems A)) (rowIds (aItems A))), v)"
      by (subst map_filter_map) (simp add: map_filter_map[of "\<lambda>e. lookupLive (xPathLast X (ePath e)) (aItems A)"])
    with True rep run show ?thesis
      by (intro sim_same) (simp_all add: absItems_def op_simps)
  next
    case False
    then have mk: "vMk v = None" using r(3) by simp
    show ?thesis
    proof (cases "aItems A = Map.empty")
      case True
      then have "es = []" using es(2) by (simp add: rowIds_def)
      with True rep run show ?thesis
        by (intro sim_same) (simp_all add: absItems_def op_simps rowIds_def map_filter_simps)
    next
      case ne: False
      then obtain e es' where "es = e # es'" using es(2) fin by (cases es) (auto simp: rowIds_def)
      then have "collect es f v = (Inl ErrLocked, v)"
        using mk by (simp add: op_simps f_def decryptItem_def)
      with ne False rep run show ?thesis
        by (intro sim_same) (simp_all add: absItems_def op_simps)
    qed
  qed
qed

end

end
