(* ===== verification/AuthRefine.thy ===== *)
theory AuthRefine
  imports VaultItems
begin

text \<open>
  The authentication operations refine the abstract vault: \<^verbatim>\<open>Status\<close>, \<^verbatim>\<open>Setup\<close>, \<^verbatim>\<open>Unlock\<close>,
  \<^verbatim>\<open>Lock\<close>, \<^verbatim>\<open>Provision\<close>, \<^verbatim>\<open>Provisions\<close> and \<^verbatim>\<open>Deprovision\<close>. In particular unlocking succeeds
  for exactly the keys that were provisioned and not removed, and always recovers the one
  master key.
\<close>

text \<open>An id an auth method may have: old ids are renamed when they are read.\<close>

definition authId :: "string \<Rightarrow> bool" where
  "authId i \<longleftrightarrow> plain i \<and> convertID i = i"

lemma authIdD: "authId i \<Longrightarrow> plain i" "authId i \<Longrightarrow> convertID i = i" "authId i \<Longrightarrow> i \<noteq> []"
  by (auto simp: authId_def plain_def)

text \<open>The settings of synchronisation are not part of what the vault stores for its user.\<close>

lemma contRep_sync:
  assumes rep: "contRep X n base m A" and p: "p = ''/sync/rsalt'' \<and> x \<noteq> Some [] \<or> p = ''/sync/lastSync''"
  shows "contRep X n base (m(p := x)) A"
proof -
  have pre: "\<not> prefix (canon [c]) p" if "tableDir c" for c
    using p that tableDir_not_sync by blast
  have user: "canon cs \<noteq> p" if "userPath cs" for cs
    using p userPath_neq_sync[OF that, of "[''sync'', ''rsalt'']"] userPath_neq_sync[OF that, of "[''sync'', ''lastSync'']"]
    by auto
  have push: "\<not> prefix (canon [''push'']) p" "p \<noteq> ''/sync/push''" using p by auto
  note c = contRepD[OF rep]
  have "pushOK n (m(p := x))"
    using c(2) push logOK_other[OF _ push(1)] by (simp add: pushOK_def)
  moreover have "logInv base (m(p := x))"
    using logInv_other[OF c(3,1) _ user] push(1) by simp
  moreover have "(m(p := x)) ''/sync/rsalt'' \<noteq> Some []" using p c(5) by auto
  moreover have "finite (dom (m(p := x)))" using c(1) by (simp add: dom_fun_upd)
  moreover note c(4) tableRep_other[OF c(6) pre[OF tableDir_simps(1)], of x]
    tableRep_other[OF c(7) pre[OF tableDir_simps(2)], of x]
    tableRep_other[OF c(8) pre[OF tableDir_simps(3)], of x]
  ultimately show ?thesis unfolding contRep_def by blast
qed

lemma tryAuths_rows:
  assumes "libs_ok X" "length mk = 32" "length key = 32"
    and "map ePath es = map (rowPath ''auth'') ids"
    and "\<forall>e \<in> set es. \<exists>i k. plain i \<and> auths i = Some k \<and> ePath e = rowPath ''auth'' i \<and> authRow X mk i k (bstr (eData e))"
  shows "tryAuths X (Some key) es =
    (case filter (\<lambda>i. auths i = Some key) ids of [] \<Rightarrow> ([], None) | i # _ \<Rightarrow> (i, Some mk))"
  using assms(4,5)
proof (induction es arbitrary: ids)
  case (Cons e es)
  then obtain i ids' where ids: "ids = i # ids'" "ePath e = rowPath ''auth'' i"
      "map ePath es = map (rowPath ''auth'') ids'"
    by (cases ids) auto
  obtain k where k: "auths i = Some k" "authRow X mk i k (bstr (eData e))"
    using Cons.prems(2) ids(2) by auto
  show ?case
  proof (cases "k = key")
    case True
    obtain item where "decryptItem X (eData e) (Some key) [] = Inr item" "bstr (iData item) = mk" "convertID (iID item) = i"
      using decrypt_authRow[OF assms(1,2) k(2)] True by blast
    with True k(1) ids(1) assms(2) show ?thesis by simp
  next
    case False
    then have "decryptItem X (eData e) (Some key) [] = Inl ErrInvalidAuth"
      using decrypt_authRow_other[OF assms(1) k(2) assms(3)] by simp
    moreover have "\<forall>e \<in> set es. \<exists>i k. plain i \<and> auths i = Some k \<and> ePath e = rowPath ''auth'' i \<and> authRow X mk i k (bstr (eData e))"
      using Cons.prems(2) by simp
    ultimately show ?thesis
      using Cons.IH[OF ids(3)] ids(1) k(1) False by simp
  qed
qed simp

context store
begin

lemma hasAuth_run:
  assumes "libs_ok X" "vaultRep X contents ready n base v A"
  shows "hasAuth X I v = (Inr (aAuths A \<noteq> Map.empty), v)"
proof -
  note r = vaultRepD[OF assms(2)] and c = contRepD[OF vaultRepD(2)[OF assms(2)]]
  have path: "xPath X [''auth''] = canon [''auth'']"
    using xPath_one[OF libs_okD(1)[OF assms(1)], of "''auth''"] by simp
  obtain es where es: "sList I (Some \<lparr>loPrefix = canon [''auth''], loNoData = True, loLimit = 1\<rparr>) (vStore v) = (Inr es, vStore v)"
      "map ePath es = take 1 (keysWith (canon [''auth'']) (contents (vStore v)))"
    using list_ok[OF r(1), of "Some \<lparr>loPrefix = canon [''auth''], loNoData = True, loLimit = 1\<rparr>"]
    by (auto simp: limitTo_one simp del: canon.simps)
  have "es \<noteq> [] \<longleftrightarrow> rowIds (aAuths A) \<noteq> []"
    using es(2) tableRep_keys[OF c(7,1)] by (cases es; cases "rowIds (aAuths A)") (auto simp: rowIds_def)
  also have "\<dots> \<longleftrightarrow> aAuths A \<noteq> Map.empty"
    using tableRep_finite[OF c(7,1)] by (simp add: rowIds_def)
  finally show ?thesis
    using es(1) path by (simp add: hasAuth_def op_simps del: canon.simps)
qed

lemma refine_Status_run:
  assumes "libs_ok X" "vaultRep X contents ready n base v A"
  shows "\<exists>st. Status X I v = (Inr st, v) \<and> absStatus A = (Inr st, A)"
  using hasAuth_run[OF assms] vaultRepD(3)[OF assms(2)]
  by (auto simp: Status_def absStatus_def op_simps)

lemma refine_Status:
  assumes "libs_ok X" "vaultRep X contents ready n base v A"
  shows "sim X contents ready base 0 n (Status X I) absStatus v A"
  using refine_Status_run[OF assms] assms(2) by (auto intro: sim_same)

lemma refine_Lock:
  assumes "vaultRep X contents ready n base v A"
  shows "sim X contents ready base 0 n Lock absLock v A"
  using assms by (intro simI[where n' = n and v' = "v\<lparr>vMk := None, vRemote := None\<rparr>" and A' = "A\<lparr>aOpen := False\<rparr>"])
    (auto simp: Lock_def absLock_def op_simps vaultRep_def contRep_def remoteRep_def)

lemma provisions_run:
  fixes v :: "('s, 'n) vault"
  assumes "libs_ok X" "vaultRep X contents ready n base v A"
  shows "Provisions X I v = (Inr (sort_key pvCreatedAt (List.map_filter (aProvs A) (rowIds (aProvs A)))), v)"
proof -
  note r = vaultRepD[OF assms(2)] and c = contRepD[OF vaultRepD(2)[OF assms(2)]]
  have path: "xPath X [''provision''] = canon [''provision'']"
    using xPath_one[OF libs_okD(1)[OF assms(1)], of "''provision''"] by simp
  obtain es where es: "sList I (Some (withPrefix (canon [''provision'']))) (vStore v) = (Inr es, vStore v)"
      "map ePath es = map (rowPath ''provision'') (rowIds (aProvs A))"
      "\<forall>e \<in> set es. \<exists>i x. plain i \<and> aProvs A i = Some x \<and> ePath e = rowPath ''provision'' i \<and> provRow X i x (bstr (eData e))"
    using table_list[OF r(1) c(8)] unfolding rowIds_def by blast
  define f where "f = (\<lambda>e :: entry. bnd (lift (xProvU X (bstr (eData e)))) (\<lambda>p. ret (Some p)) :: (('s, 'n) vault, provision option) op)"
  define g where "g = (\<lambda>e :: entry. aProvs A (drop 11 (ePath e)))"
  have row: "drop 11 (rowPath ''provision'' i) = i" for i
    by (simp add: rowPath_def)
  have "f e v = (Inr (g e), v)" if e: "e \<in> set es" for e
  proof -
    obtain i x where i: "aProvs A i = Some x" "ePath e = rowPath ''provision'' i" "provRow X i x (bstr (eData e))"
      using es(3) e by blast
    then show ?thesis unfolding f_def g_def i(2) row by (simp add: op_simps provRow_def)
  qed
  then have "collect es f v = (Inr (List.map_filter g es), v)" by (rule collect_pure)
  moreover have "map g es = map (aProvs A) (rowIds (aProvs A))"
  proof -
    have "map g es = map (\<lambda>p. aProvs A (drop 11 p)) (map ePath es)"
      by (simp add: g_def)
    then show ?thesis by (simp add: es(2) row del: canon.simps)
  qed
  ultimately have "collect es f v = (Inr (List.map_filter (aProvs A) (rowIds (aProvs A))), v)"
    by (subst map_filter_map) (simp add: map_filter_map[of g])
  then show ?thesis
    using es(1) path by (simp add: Provisions_def op_simps f_def del: canon.simps)
qed

lemma refine_Provisions:
  assumes "libs_ok X" "vaultRep X contents ready n base v A"
  shows "sim X contents ready base 0 n (Provisions X I) absProvisions v A"
  using provisions_run[OF assms] assms(2)
  by (intro sim_same) (auto simp: absProvisions_def op_simps)

text \<open>Setting the master key opens the vault and derives the remote; the salt is made on first use.\<close>

lemma setMasterKey_ok:
  assumes libs: "libs_ok X" and rep: "vaultRep X contents ready n base v A"
  shows "\<exists>v'. setMasterKey X I (aMk A) v = (Inr (), v') \<and>
    vaultRep X contents ready n base v' (A\<lparr>aOpen := True\<rparr>) \<and> vNet v' = vNet v \<and> vHasClient v' = vHasClient v \<and>
    saltOf contents v' = saltOf contents v"
proof -
  let ?m = "contents (vStore v)"
  note r = vaultRepD[OF rep] and c = contRepD[OF vaultRepD(2)[OF rep]]
  obtain b where b: "getValue I ''/sync/rsalt'' v = (Inr b, v)"
      "case ?m ''/sync/rsalt'' of None \<Rightarrow> b = None | Some s \<Rightarrow> bstr b = s"
    using getValue_ok[OF r(1), of "''/sync/rsalt''"] by auto
  have rem: "vRemote v = None \<or> ?m ''/sync/rsalt'' \<noteq> None \<and> vRemote v = Some (remoteFor X (aMk A) (?m ''/sync/rsalt''))"
    using r(4) by (auto simp: remoteRep_def)
  have open': "contRep X n base m (A\<lparr>aOpen := True\<rparr>) = contRep X n base m A" for m
    by (simp add: contRep_def)
  show ?thesis
  proof (cases "?m ''/sync/rsalt''")
    case (Some s)
    with b(2) c(5) have "b = Some s" using bstr_nonempty[of b] by auto
    with b(1) rem Some have "setMasterKey X I (aMk A) v =
        (Inr (), v\<lparr>vRemote := Some (remoteFor X (aMk A) (Some s)), vMk := Some (aMk A)\<rparr>)"
      by (auto simp: setMasterKey_def setAuthFromMasterKey_def getRemoteSalt_def op_simps)
    with Some r(1,2) show ?thesis
      by (auto simp: vaultRep_def open' remoteRep_def)
  next
    case None
    then have "b = None" "vRemote v = None" using b(2) rem by auto
    define s where "s = xRand X (vDraws v) 32"
    have s: "s \<noteq> []" using libs_okD(3)[OF libs] unfolding rand_ok_def s_def by (metis list.size(3) zero_neq_numeral)
    obtain t where t: "setRemoteSalt X I (Some s) (v\<lparr>vDraws := Suc (vDraws v)\<rparr>) =
        (Inr (), v\<lparr>vDraws := Suc (vDraws v), vStore := t\<rparr>)" "ready t" "contents t = ?m(''/sync/rsalt'' \<mapsto> s)"
      using setRemoteSalt_ok[OF libs_okD(1)[OF libs], of "v\<lparr>vDraws := Suc (vDraws v)\<rparr>" "Some s"] r(1) by auto
    have "setMasterKey X I (aMk A) v = (Inr (), v\<lparr>vDraws := Suc (vDraws v), vStore := t,
        vRemote := Some (remoteFor X (aMk A) (Some s)), vMk := Some (aMk A)\<rparr>)"
      using b(1) \<open>b = None\<close> \<open>vRemote v = None\<close> t(1)
      by (simp add: setMasterKey_def setAuthFromMasterKey_def getRemoteSalt_def op_simps s_def)
    moreover have "contRep X n base (contents t) A"
      using contRep_sync[OF r(2), of "''/sync/rsalt''" "Some s"] s t(3) by simp
    ultimately show ?thesis
      using t(2,3) by (auto simp: vaultRep_def open' remoteRep_def)
  qed
qed

lemma provisionGet_run:
  assumes "libs_ok X" "vaultRep X contents ready n base v A" "plain i"
  shows "provisionGet X I i v = (Inr (aProvs A i), v)"
proof -
  note r = vaultRepD[OF assms(2)] and c = contRepD[OF vaultRepD(2)[OF assms(2)]]
  have path: "xPath X [''provision'', i] = rowPath ''provision'' i"
    using xPath_row[OF libs_okD(1)[OF assms(1)]] assms(3) by simp
  show ?thesis
  proof (cases "aProvs A i")
    case None
    with table_get_absent[OF r(1) c(8) assms(3)] path show ?thesis
      by (simp add: provisionGet_def op_simps)
  next
    case (Some p)
    with table_get_present[OF r(1) c(8) Some] path show ?thesis
      by (auto simp: provisionGet_def op_simps provRow_def)
  qed
qed

lemma authUnlock_run:
  assumes libs: "libs_ok X" and rep: "vaultRep X contents ready n base v A" and key: "length key = 32"
  shows "authUnlock X I (Some key) v =
    (Inr (case opensWith key (aAuths A) of [] \<Rightarrow> ([], None) | i # _ \<Rightarrow> (i, Some (aMk A))), v)"
proof -
  note r = vaultRepD[OF rep] and c = contRepD[OF vaultRepD(2)[OF rep]]
  have path: "xPath X [''auth''] = canon [''auth'']"
    using xPath_one[OF libs_okD(1)[OF libs], of "''auth''"] by simp
  obtain es where es: "sList I (Some (withPrefix (canon [''auth'']))) (vStore v) = (Inr es, vStore v)"
      "map ePath es = map (rowPath ''auth'') (rowIds (aAuths A))"
      "\<forall>e \<in> set es. \<exists>i k. plain i \<and> aAuths A i = Some k \<and> ePath e = rowPath ''auth'' i \<and> authRow X (aMk A) i k (bstr (eData e))"
    using table_list[OF r(1) c(7)] unfolding rowIds_def by blast
  show ?thesis
    using es(1) path tryAuths_rows[OF libs c(4) key es(2,3)]
    by (simp add: authUnlock_def op_simps opensWith_def del: canon.simps)
qed

lemma refine_Unlock:
  assumes libs: "libs_ok X" and rep: "vaultRep X contents ready n base v A" and key: "length key = 32"
  shows "sim X contents ready base 0 n (Unlock X I (Some key)) (absUnlock key) v A"
proof -
  note c = contRepD[OF vaultRepD(2)[OF rep]] and try' = authUnlock_run[OF libs rep key]
  show ?thesis
  proof (cases "opensWith key (aAuths A)")
    case Nil
    with rep try' show ?thesis
      by (intro sim_same[where r = "Inl ErrInvalidAuth"]) (simp_all add: Unlock_def absUnlock_def op_simps)
  next
    case (Cons i ids)
    then have "i \<in> set (opensWith key (aAuths A))" by simp
    then have "aAuths A i = Some key" by (simp add: opensWith_def)
    then have i: "plain i" using tableRep_Some[OF c(7)] by blast
    obtain v' where v': "setMasterKey X I (aMk A) v = (Inr (), v')"
      "vaultRep X contents ready n base v' (A\<lparr>aOpen := True\<rparr>)" "vNet v' = vNet v" "vHasClient v' = vHasClient v" "saltOf contents v' = saltOf contents v"
      using setMasterKey_ok[OF libs rep] by blast
    with provisionGet_run[OF libs v'(2) i] try' Cons show ?thesis
      by (intro simI[where n' = n and v' = v' and A' = "A\<lparr>aOpen := True\<rparr>"])
        (auto simp: Unlock_def absUnlock_def op_simps bareProvision_def split: option.splits)
  qed
qed

text \<open>Adding an auth method and its provision.\<close>

lemma authCreate_ok:
  assumes libs: "libs_ok X" and rep: "vaultRep X contents ready n base v A" and n: "n < maxIndex"
    and i: "authId i" and key: "length key = 32"
  shows "\<exists>v'. authCreate X I i (Some key) (Some (aMk A)) v = (Inr (), v') \<and>
    vaultRep X contents ready (n + 1) base v' (A\<lparr>aAuths := (aAuths A)(i \<mapsto> key)\<rparr>) \<and>
    vNet v' = vNet v \<and> vHasClient v' = vHasClient v \<and>
    saltOf contents v' = saltOf contents v"
proof -
  let ?m = "contents (vStore v)" and ?B = "A\<lparr>aAuths := (aAuths A)(i \<mapsto> key)\<rparr>"
  note r = vaultRepD[OF rep] and c = contRepD[OF vaultRepD(2)[OF rep]]
  define u where "u = v\<lparr>vTicks := Suc (vTicks v)\<rparr>"
  define item where "item = NewItem i (Some (aMk A)) [] (xClock X (vTicks v))"
  have "itemOk item" using c(4) authIdD(3)[OF i] by (simp add: itemOk_def item_def NewItem_def)
  then obtain enc where enc: "encryptItem X item (Some key) u = (Inr (Some enc), u\<lparr>vDraws := Suc (vDraws u)\<rparr>)"
      "encOf X key item enc"
    using encryptItem_run[OF libs_okD(2,3)[OF libs], of item key u] by blast
  have "authRow X (aMk A) i key enc"
    unfolding authRow_def using key enc(2) authIdD(2)[OF i]
    by (intro conjI exI[of _ item]) (simp_all add: item_def NewItem_def)
  then have B: "contRep X (n + 1) base (changed n [''auth'', i] enc ?m) ?B"
    using authIdD(1)[OF i] encOf_nonempty[OF enc(2)] c(4,6-8)
    by (intro contRep_changed[OF r(2) n])
      (simp_all add: tableRep_changed_set tableRep_changed_other)
  obtain s' where s': "vaultSetPath X I (canon [''auth'', i]) (Some enc) True (u\<lparr>vDraws := Suc (vDraws u)\<rparr>) =
      (Inr (), u\<lparr>vDraws := Suc (vDraws u), vStore := s', vAuto := True\<rparr>)" "ready s'"
      "contents s' = changed n [''auth'', i] enc ?m"
    using write_path[OF libs rep n _ encOf_nonempty[OF enc(2)] _ B, of "u\<lparr>vDraws := Suc (vDraws u)\<rparr>"] authIdD(1)[OF i]
    by (auto simp: u_def)
  have "xPath X [''auth'', i] = canon [''auth'', i]"
    using xPath_two[OF libs_okD(1)[OF libs]] authIdD(1)[OF i] by simp
  then have "authCreate X I i (Some key) (Some (aMk A)) v =
      (Inr (), u\<lparr>vDraws := Suc (vDraws u), vStore := s', vAuto := True\<rparr>)"
    using enc(1) s'(1) authIdD(3)[OF i] by (simp add: authCreate_def op_simps u_def item_def)
  moreover have "remoteRep X (contents s') (vRemote v) ?B"
    using r(4) s'(3) authIdD(1)[OF i] by (auto intro: remoteRep_cong)
  ultimately show ?thesis
    using s'(2,3) B r(3) authIdD(1)[OF i] by (auto simp: vaultRep_def u_def)
qed

lemma provisionSave_ok:
  assumes libs: "libs_ok X" and rep: "vaultRep X contents ready n base v A" and n: "n < maxIndex"
    and i: "plain (pvID p)"
  shows "\<exists>v'. provisionSave X I p v = (Inr (), v') \<and>
    vaultRep X contents ready (n + 1) base v' (A\<lparr>aProvs := (aProvs A)(pvID p \<mapsto> p)\<rparr>) \<and>
    vNet v' = vNet v \<and> vHasClient v' = vHasClient v \<and>
    saltOf contents v' = saltOf contents v \<and> vRemote v' = vRemote v"
proof -
  let ?m = "contents (vStore v)" and ?B = "A\<lparr>aProvs := (aProvs A)(pvID p \<mapsto> p)\<rparr>"
  note r = vaultRepD[OF rep] and c = contRepD[OF vaultRepD(2)[OF rep]]
  obtain b where b: "xProvM X p = Inr b" "b \<noteq> []" "xProvU X b = Inr p"
    using msgpack_prov[OF libs_okD(2)[OF libs]] by blast
  have B: "contRep X (n + 1) base (changed n [''provision'', pvID p] b ?m) ?B"
    using i b c(4,6-8)
    by (intro contRep_changed[OF r(2) n])
      (simp_all add: tableRep_changed_set tableRep_changed_other provRow_def)
  obtain s' where s': "vaultSetPath X I (canon [''provision'', pvID p]) (Some b) True v =
      (Inr (), v\<lparr>vStore := s', vAuto := True\<rparr>)" "ready s'"
      "contents s' = changed n [''provision'', pvID p] b ?m"
    using write_path[OF libs rep n _ b(2) _ B, of v] i by auto
  have "xPath X [''provision'', pvID p] = canon [''provision'', pvID p]"
    using xPath_two[OF libs_okD(1)[OF libs]] i by simp
  then have "provisionSave X I p v = (Inr (), v\<lparr>vStore := s', vAuto := True\<rparr>)"
    using b(1) s'(1) by (simp add: provisionSave_def op_simps)
  moreover have "remoteRep X (contents s') (vRemote v) ?B"
    using r(4) s'(3) i by (auto intro: remoteRep_cong)
  ultimately show ?thesis
    using s'(2,3) B r(3) i by (auto simp: vaultRep_def)
qed

lemma refine_Provision:
  assumes libs: "libs_ok X" and rep: "vaultRep X contents ready n base v A" and n: "n + 1 < maxIndex"
    and i: "authId (pvID p)" and key: "length key = 32"
  shows "sim X contents ready base 2 n (Provision X I (Some key) (Some p)) (absProvision key p) v A"
proof (cases "aOpen A")
  case False
  with vaultRepD(3)[OF rep] rep show ?thesis
    by (intro sim_same[where r = "Inl ErrLocked"]) (simp_all add: Provision_def absProvision_def op_simps)
next
  case True
  let ?B = "A\<lparr>aAuths := (aAuths A)(pvID p \<mapsto> key)\<rparr>"
  obtain u where u: "authCreate X I (pvID p) (Some key) (Some (aMk A)) v = (Inr (), u)"
      "vaultRep X contents ready (n + 1) base u ?B" "vNet u = vNet v" "vHasClient u = vHasClient v" "saltOf contents u = saltOf contents v"
    using authCreate_ok[OF libs rep _ i key] n by auto
  obtain w where w: "provisionSave X I p u = (Inr (), w)"
      "vaultRep X contents ready (n + 1 + 1) base w (?B\<lparr>aProvs := (aProvs ?B)(pvID p \<mapsto> p)\<rparr>)"
      "vNet w = vNet u" "vHasClient w = vHasClient u" "saltOf contents w = saltOf contents u"
    using provisionSave_ok[OF libs u(2) n authIdD(1)[OF i]] by blast
  from u w vaultRepD(3)[OF rep] True show ?thesis
    by (intro simI[where n' = "n + 1 + 1" and v' = w])
      (simp_all add: Provision_def absProvision_def absAddAuth_def op_simps)
qed

text \<open>Removing an auth method: its provision first, then the auth.\<close>

lemma provisionDelete_ok:
  assumes libs: "libs_ok X" and rep: "vaultRep X contents ready n base v A" and n: "n < maxIndex" and i: "plain i"
  shows "\<exists>v' n'. provisionDelete X I i v = (Inr (aProvs A i \<noteq> None), v') \<and> n \<le> n' \<and> n' \<le> n + 1 \<and>
    vaultRep X contents ready n' base v' (A\<lparr>aProvs := (aProvs A)(i := None)\<rparr>) \<and>
    vNet v' = vNet v \<and> vHasClient v' = vHasClient v \<and>
    saltOf contents v' = saltOf contents v"
proof -
  let ?m = "contents (vStore v)" and ?B = "A\<lparr>aProvs := (aProvs A)(i := None)\<rparr>"
  note r = vaultRepD[OF rep] and c = contRepD[OF vaultRepD(2)[OF rep]]
  have path: "xPath X [''provision'', i] = canon [''provision'', i]"
    using xPath_two[OF libs_okD(1)[OF libs]] i by simp
  show ?thesis
  proof (cases "aProvs A i")
    case None
    then have m: "?m (canon [''provision'', i]) = None"
      using tableRep_None[OF c(8) None i] by (simp add: rowPath_def)
    then obtain t where t: "sDelete I (canon [''provision'', i]) (vStore v) = (Inr False, t)" "ready t" "contents t = ?m"
      using delete_ok[OF r(1), of "canon [''provision'', i]"] by (auto simp: fun_upd_idem)
    have "(aProvs A)(i := None) = aProvs A" using None by (rule fun_upd_idem)
    then have "?B = A" by simp
    with t r have "vaultRep X contents ready n base (v\<lparr>vStore := t\<rparr>) ?B"
      by (simp add: vaultRep_def)
    moreover have "provisionDelete X I i v = (Inr (aProvs A i \<noteq> None), v\<lparr>vStore := t\<rparr>)"
      using t(1) path None by (simp add: provisionDelete_def op_simps)
    ultimately show ?thesis using t(3) by (intro exI[of _ "v\<lparr>vStore := t\<rparr>"] exI[of _ n]) simp
  next
    case (Some p)
    then have m: "?m (canon [''provision'', i]) \<noteq> None"
      using tableRep_Some[OF c(8) Some] by (auto simp: rowPath_def)
    obtain s' t where s': "sDelete I (canon [''provision'', i]) (vStore v) = (Inr True, t)"
        "addToPush X I (canon [''provision'', i]) None (v\<lparr>vStore := t\<rparr>) = (Inr (), v\<lparr>vStore := s', vAuto := True\<rparr>)"
        "ready s'" "contents s' = changed n [''provision'', i] [] ?m"
      using deletePush_ok[OF libs_okD(1)[OF libs] r(1) c(2) n userPath_provision[OF i]] m by auto
    have B: "contRep X (n + 1) base (changed n [''provision'', i] [] ?m) ?B"
      using i c(4,6-8) by (intro contRep_changed[OF r(2) n])
        (simp_all add: tableRep_changed_del tableRep_changed_other)
    have "remoteRep X (contents s') (vRemote v) ?B"
      using r(4) s'(4) i by (auto intro: remoteRep_cong)
    then have "vaultRep X contents ready (n + 1) base (v\<lparr>vStore := s', vAuto := True\<rparr>) ?B"
      using s'(3,4) B r(3) by (simp add: vaultRep_def)
    moreover have "provisionDelete X I i v = (Inr (aProvs A i \<noteq> None), v\<lparr>vStore := s', vAuto := True\<rparr>)"
      using s'(1,2) path Some by (simp add: provisionDelete_def op_simps)
    ultimately show ?thesis
      using s'(4) i by (intro exI[of _ "v\<lparr>vStore := s', vAuto := True\<rparr>"] exI[of _ "n + 1"]) simp
  qed
qed

lemma authDelete_ok:
  assumes libs: "libs_ok X" and rep: "vaultRep X contents ready n base v A" and n: "n < maxIndex" and i: "plain i"
  shows "\<exists>v' n'. authDelete X I i v = (Inr (aAuths A i \<noteq> None), v') \<and> n \<le> n' \<and> n' \<le> n + 1 \<and>
    vaultRep X contents ready n' base v' (A\<lparr>aAuths := (aAuths A)(i := None)\<rparr>) \<and>
    vNet v' = vNet v \<and> vHasClient v' = vHasClient v \<and>
    saltOf contents v' = saltOf contents v"
proof -
  let ?m = "contents (vStore v)" and ?B = "A\<lparr>aAuths := (aAuths A)(i := None)\<rparr>"
  note r = vaultRepD[OF rep] and c = contRepD[OF vaultRepD(2)[OF rep]]
  have path: "xPath X [''auth'', i] = canon [''auth'', i]" and ne: "i \<noteq> []"
    using xPath_two[OF libs_okD(1)[OF libs]] i by (auto simp: plain_def)
  show ?thesis
  proof (cases "aAuths A i")
    case None
    have "(aAuths A)(i := None) = aAuths A" using None by (rule fun_upd_idem)
    then have B: "?B = A" by simp
    have "sGet I (canon [''auth'', i]) (vStore v) = (Inr None, vStore v)"
      using table_get_absent[OF r(1) c(7) i None] by (simp add: rowPath_def)
    with ne path None have "authDelete X I i v = (Inr (aAuths A i \<noteq> None), v)"
      by (simp add: authDelete_def op_simps Let_def)
    with rep B show ?thesis by (intro exI[of _ v] exI[of _ n]) simp
  next
    case (Some k)
    obtain b where b: "sGet I (canon [''auth'', i]) (vStore v) = (Inr b, vStore v)" "authRow X (aMk A) i k (bstr b)"
      using table_get_present[OF r(1) c(7) Some] by (auto simp: rowPath_def)
    have nil: "b \<noteq> None" using b(2) encOf_nonempty by (cases b) (fastforce simp: authRow_def)+
    have m: "?m (canon [''auth'', i]) \<noteq> None"
      using tableRep_Some[OF c(7) Some] by (auto simp: rowPath_def)
    obtain s' t where s': "sDelete I (canon [''auth'', i]) (vStore v) = (Inr True, t)"
        "addToPush X I (canon [''auth'', i]) None (v\<lparr>vStore := t\<rparr>) = (Inr (), v\<lparr>vStore := s', vAuto := True\<rparr>)"
        "ready s'" "contents s' = changed n [''auth'', i] [] ?m"
      using deletePush_ok[OF libs_okD(1)[OF libs] r(1) c(2) n userPath_auth[OF i]] m by auto
    have B: "contRep X (n + 1) base (changed n [''auth'', i] [] ?m) ?B"
      using i c(4,6-8) by (intro contRep_changed[OF r(2) n])
        (simp_all add: tableRep_changed_del tableRep_changed_other)
    have "remoteRep X (contents s') (vRemote v) ?B"
      using r(4) s'(4) i by (auto intro: remoteRep_cong)
    then have "vaultRep X contents ready (n + 1) base (v\<lparr>vStore := s', vAuto := True\<rparr>) ?B"
      using s'(3,4) B r(3) by (simp add: vaultRep_def)
    moreover have "authDelete X I i v = (Inr (aAuths A i \<noteq> None), v\<lparr>vStore := s', vAuto := True\<rparr>)"
      using s'(1,2) b(1) nil ne path Some by (simp add: authDelete_def op_simps Let_def)
    ultimately show ?thesis
      using s'(4) i by (intro exI[of _ "v\<lparr>vStore := s', vAuto := True\<rparr>"] exI[of _ "n + 1"]) simp
  qed
qed

lemma isLastAuth_run:
  assumes "libs_ok X" "vaultRep X contents ready n base v A"
  shows "isLastAuth X I i v = (Inr (rowIds (aProvs A) = [i]), v)"
proof -
  note c = contRepD[OF vaultRepD(2)[OF assms(2)]]
  have fin: "finite (dom (aProvs A))" using tableRep_finite[OF c(8,1)] .
  have row: "\<exists>p. aProvs A j = Some p \<and> pvID p = j" if "j \<in> set (rowIds (aProvs A))" for j
  proof -
    obtain p where "aProvs A j = Some p" using \<open>j \<in> set (rowIds (aProvs A))\<close> fin by (auto simp: rowIds_def)
    with tableRep_Some[OF c(8) this] show ?thesis by (auto simp: provRow_def)
  qed
  have all: "\<forall>j \<in> set js. \<exists>p. aProvs A j = Some p \<and> pvID p = j \<Longrightarrow>
      \<exists>ps. List.map_filter (aProvs A) js = ps \<and> map pvID ps = js" for js
    by (induction js) (auto simp: map_filter_simps)
  obtain ps where ps: "List.map_filter (aProvs A) (rowIds (aProvs A)) = ps" "map pvID ps = rowIds (aProvs A)"
    using all row by blast
  have "length (sort_key pvCreatedAt ps) = 1 \<and> pvID (hd (sort_key pvCreatedAt ps)) = i \<longleftrightarrow> rowIds (aProvs A) = [i]"
  proof (cases "length ps = 1")
    case True
    then obtain p where "ps = [p]" by (cases ps) auto
    with ps(2)[symmetric] show ?thesis by simp
  next
    case False
    with ps(2)[symmetric] show ?thesis by auto
  qed
  with provisions_run[OF assms] ps(1) show ?thesis by (simp add: isLastAuth_def op_simps)
qed

lemma refine_Deprovision:
  assumes libs: "libs_ok X" and rep: "vaultRep X contents ready n base v A" and n: "n + 1 < maxIndex" and i: "plain i"
  shows "sim X contents ready base 2 n (Deprovision X I i force) (absDeprovision i force) v A"
proof (cases "\<not> force \<and> rowIds (aProvs A) = [i]")
  case True
  with isLastAuth_run[OF libs rep] rep show ?thesis
    by (intro sim_same[where r = "Inl (Err ''failed to deprovision: last auth'')"])
      (simp_all add: Deprovision_def absDeprovision_def op_simps)
next
  case False
  let ?B = "A\<lparr>aProvs := (aProvs A)(i := None)\<rparr>"
  obtain u k where u: "provisionDelete X I i v = (Inr (aProvs A i \<noteq> None), u)" "n \<le> k" "k \<le> n + 1"
      "vaultRep X contents ready k base u ?B" "vNet u = vNet v" "vHasClient u = vHasClient v" "saltOf contents u = saltOf contents v"
    using provisionDelete_ok[OF libs rep _ i] n by auto
  have "k < maxIndex" using u(3) n by simp
  then obtain w l where w: "authDelete X I i u = (Inr (aAuths A i \<noteq> None), w)" "k \<le> l" "l \<le> k + 1"
      "vaultRep X contents ready l base w (?B\<lparr>aAuths := (aAuths A)(i := None)\<rparr>)" "vNet w = vNet u" "vHasClient w = vHasClient u" "saltOf contents w = saltOf contents u"
    using authDelete_ok[OF libs u(4) _ i] by auto
  from u w isLastAuth_run[OF libs rep, of i] False show ?thesis
    by (intro simI[where n' = l and v' = w]) (auto simp: Deprovision_def absDeprovision_def op_simps)
qed

end

text \<open>Setting up: a fresh master key \<open>mk\<close>, sealed for the first auth method.\<close>

definition absSetup :: "string \<Rightarrow> string \<Rightarrow> provision \<Rightarrow> (avault, unit) op" where
  "absSetup mk key p = bnd absStatus (\<lambda>st.
     bnd (failIf (st \<noteq> SetupNeeded) ErrAlreadySetup) (\<lambda>_.
     bnd (modify (\<lambda>A. A\<lparr>aMk := mk\<rparr>)) (\<lambda>_. absAddAuth key p)))"

text \<open>Nothing depends on the master key while there are no auths, no items and no remote.\<close>

lemma vaultRep_newMk:
  assumes rep: "vaultRep X contents ready n base v A" and fresh: "aAuths A = Map.empty" "aItems A = Map.empty"
    "vRemote v = None" "\<not> aOpen A" and mk: "length mk = 32"
  shows "vaultRep X contents ready n base v (A\<lparr>aMk := mk\<rparr>)"
proof -
  have t: "tableRep d P m Map.empty = tableRep d Q m Map.empty"
    for d m and P Q :: "string \<Rightarrow> 'x \<Rightarrow> string \<Rightarrow> bool"
    by (simp add: tableRep_def)
  have "contRep X n base (contents (vStore v)) (A\<lparr>aMk := mk\<rparr>)"
    using contRepD[OF vaultRepD(2)[OF rep]] fresh(1,2) mk
      t[of _ "itemRow X (aMk A)" _ "itemRow X mk"] t[of _ "authRow X (aMk A)" _ "authRow X mk"]
    by (simp add: contRep_def)
  with vaultRepD[OF rep] fresh(3,4) show ?thesis by (simp add: vaultRep_def remoteRep_def)
qed

lemma vaultRep_draws [simp]: "vaultRep X contents ready n base (v\<lparr>vDraws := d\<rparr>) A = vaultRep X contents ready n base v A"
  and vaultRep_ticks [simp]: "vaultRep X contents ready n base (v\<lparr>vTicks := d\<rparr>) A = vaultRep X contents ready n base v A"
  by (simp_all add: vaultRep_def)

context store
begin

lemma refine_Setup:
  assumes libs: "libs_ok X" and rep: "vaultRep X contents ready n base v A" and n: "n + 1 < maxIndex"
    and i: "authId (pvID p)" and key: "length key = 32"
    and fresh: "aAuths A = Map.empty \<Longrightarrow> aItems A = Map.empty \<and> vRemote v = None"
  shows "sim X contents ready base 2 n (Setup X I (Some key) (Some p)) (absSetup (xRand X (vDraws v) 32) key p) v A"
proof -
  obtain st where st: "Status X I v = (Inr st, v)" "absStatus A = (Inr st, A)"
    using refine_Status_run[OF libs rep] by blast
  show ?thesis
  proof (cases "st = SetupNeeded")
    case False
    with st rep show ?thesis
      by (intro sim_same[where r = "Inl ErrAlreadySetup"]) (simp_all add: Setup_def absSetup_def op_simps)
  next
    case True
    then have e: "aAuths A = Map.empty" "\<not> aOpen A"
      using st(2) by (auto simp: absStatus_def op_simps split: if_splits)
    let ?mk = "xRand X (vDraws v) 32" and ?u = "v\<lparr>vDraws := Suc (vDraws v)\<rparr>"
    let ?B = "A\<lparr>aMk := ?mk\<rparr>"
    have "length ?mk = 32" using libs_okD(3)[OF libs] by (simp add: rand_ok_def)
    then have rep': "vaultRep X contents ready n base ?u ?B"
      using vaultRep_newMk[OF rep e(1)] fresh e by simp
    obtain u where u: "authCreate X I (pvID p) (Some key) (Some ?mk) ?u = (Inr (), u)"
        "vaultRep X contents ready (n + 1) base u (?B\<lparr>aAuths := (aAuths ?B)(pvID p \<mapsto> key)\<rparr>)" "vNet u = vNet v"
        "vHasClient u = vHasClient v" "saltOf contents u = saltOf contents v"
      using authCreate_ok[OF libs rep' _ i key] n by auto
    obtain w where w: "provisionSave X I p u = (Inr (), w)"
        "vaultRep X contents ready (n + 1 + 1) base w (?B\<lparr>aAuths := (aAuths A)(pvID p \<mapsto> key), aProvs := (aProvs A)(pvID p \<mapsto> p)\<rparr>)"
        "vNet w = vNet u" "vHasClient w = vHasClient u" "saltOf contents w = saltOf contents u"
      using provisionSave_ok[OF libs u(2) n authIdD(1)[OF i]] by auto
    from u w st True authIdD(3)[OF i] show ?thesis
      by (intro simI[where n' = "n + 1 + 1" and v' = w])
        (simp_all add: Setup_def authSetup_def absSetup_def absAddAuth_def op_simps)
  qed
qed

end

end
