(* ===== verification/VaultMachine.thy ===== *)
theory VaultMachine
  imports AuthRefine Instance
begin

text \<open>
  The vault as a whole: sequences of calls, each with its reply, on the vault and on the
  abstract vault. \<open>runs_refine\<close> is the refinement of the two; \<open>demo\<dots>\<close> is a concrete vault
  in memory, set up with one auth method, that the theorems are applied to.
\<close>

datatype vcall =
    CSet item
  | CGet string
  | CDelete string
  | CItems
  | CStatus
  | CUnlock string
  | CLock
  | CProvision string provision
  | CProvisions
  | CDeprovision string bool

datatype reply =
    RUnit
  | RItem "item option"
  | RBool bool
  | RItems "item list"
  | RStatus status
  | RProv provision
  | RProvs "provision list"

fun runCall :: "'z ext_scheme \<Rightarrow> 's store_ops \<Rightarrow> vcall \<Rightarrow> (('s, 'n) vault, reply) op" where
  "runCall X I (CSet item) = bnd (vaultSet X I item) (\<lambda>_. ret RUnit)"
| "runCall X I (CGet i) = bnd (vaultGet X I i) (\<lambda>r. ret (RItem r))"
| "runCall X I (CDelete i) = bnd (vaultDelete X I i) (\<lambda>r. ret (RBool r))"
| "runCall X I CItems = bnd (vaultItems X I) (\<lambda>r. ret (RItems r))"
| "runCall X I CStatus = bnd (Status X I) (\<lambda>r. ret (RStatus r))"
| "runCall X I (CUnlock key) = bnd (Unlock X I (Some key)) (\<lambda>r. ret (RProv r))"
| "runCall X I CLock = bnd Lock (\<lambda>_. ret RUnit)"
| "runCall X I (CProvision key p) = bnd (Provision X I (Some key) (Some p)) (\<lambda>_. ret RUnit)"
| "runCall X I CProvisions = bnd (Provisions X I) (\<lambda>r. ret (RProvs r))"
| "runCall X I (CDeprovision i force) = bnd (Deprovision X I i force) (\<lambda>r. ret (RBool r))"

fun absCall :: "vcall \<Rightarrow> (avault, reply) op" where
  "absCall (CSet item) = bnd (absSet item) (\<lambda>_. ret RUnit)"
| "absCall (CGet i) = bnd (absGet i) (\<lambda>r. ret (RItem r))"
| "absCall (CDelete i) = bnd (absDelete i) (\<lambda>r. ret (RBool r))"
| "absCall CItems = bnd absItems (\<lambda>r. ret (RItems r))"
| "absCall CStatus = bnd absStatus (\<lambda>r. ret (RStatus r))"
| "absCall (CUnlock key) = bnd (absUnlock key) (\<lambda>r. ret (RProv r))"
| "absCall CLock = bnd absLock (\<lambda>_. ret RUnit)"
| "absCall (CProvision key p) = bnd (absProvision key p) (\<lambda>_. ret RUnit)"
| "absCall CProvisions = bnd absProvisions (\<lambda>r. ret (RProvs r))"
| "absCall (CDeprovision i force) = bnd (absDeprovision i force) (\<lambda>r. ret (RBool r))"

text \<open>A sequence of calls goes on after an error.\<close>

fun perform :: "('c \<Rightarrow> ('s, 'r) op) \<Rightarrow> 'c list \<Rightarrow> 's \<Rightarrow> (err + 'r) list \<times> 's" where
  "perform f [] s = ([], s)"
| "perform f (c # cs) s = (let (r, s') = f c s; (rs, t) = perform f cs s' in (r # rs, t))"

text \<open>Ids have no slash; auth keys have 32 bytes.\<close>

fun callOk :: "vcall \<Rightarrow> bool" where
  "callOk (CSet item) = (iID item = [] \<or> plain (iID item))"
| "callOk (CGet i) = (i = [] \<or> plain i)"
| "callOk (CDelete i) = (i = [] \<or> plain i)"
| "callOk (CUnlock key) = (length key = 32)"
| "callOk (CProvision key p) = (length key = 32 \<and> authId (pvID p))"
| "callOk (CDeprovision i force) = plain i"
| "callOk c = True"

lemma sim_reply:
  "sim X contents ready base c n m am v A \<Longrightarrow>
     sim X contents ready base c n (bnd m (\<lambda>x. ret (f x))) (bnd am (\<lambda>x. ret (f x))) v A"
proof -
  assume "sim X contents ready base c n m am v A"
  then obtain r v' A' n' where run: "m v = (r, v')" "am A = (r, A')" and
    rest: "n \<le> n'" "n' \<le> n + c" "vaultRep X contents ready n' base v' A'" "vNet v' = vNet v" "vHasClient v' = vHasClient v"
      "saltOf contents v' = saltOf contents v"
    unfolding sim_def by blast
  show ?thesis
  proof (cases r)
    case (Inl e)
    with run have "bnd m (\<lambda>x. ret (f x)) v = (Inl e, v')" "bnd am (\<lambda>x. ret (f x)) A = (Inl e, A')"
      by (simp_all add: op_simps)
    then show ?thesis by (rule simI[OF _ _ rest])
  next
    case (Inr x)
    with run have "bnd m (\<lambda>x. ret (f x)) v = (Inr (f x), v')" "bnd am (\<lambda>x. ret (f x)) A = (Inr (f x), A')"
      by (simp_all add: bnd_def ret_def)
    then show ?thesis by (rule simI[OF _ _ rest])
  qed
qed

lemma refine_call:
  assumes st: "store I contents ready" and libs: "libs_ok X" and rep: "vaultRep X contents ready n base v A"
    and n: "n + 1 < maxIndex" and ok: "callOk c"
  shows "sim X contents ready base 2 n (runCall X I c) (absCall c) v A"
proof -
  note m0 = sim_mono[where c = 0 and d = 2, simplified] and m1 = sim_mono[where c = 1 and d = 2, simplified]
  have n1: "n < maxIndex" using n by simp
  show ?thesis
    using ok n
    by (cases c)
      (auto intro!: sim_reply
        intro: m1[OF store.refine_Set[OF st libs rep n1]] m0[OF store.refine_Get[OF st libs rep]]
          m1[OF store.refine_Delete[OF st libs rep n1]] m0[OF store.refine_Items[OF st libs rep]]
          m0[OF store.refine_Status[OF st libs rep]] m0[OF store.refine_Unlock[OF st libs rep]]
          m0[OF store.refine_Lock[OF st rep]] store.refine_Provision[OF st libs rep n]
          m0[OF store.refine_Provisions[OF st libs rep]] store.refine_Deprovision[OF st libs rep n])
qed

lemma runs_refine:
  assumes st: "store I contents ready" and libs: "libs_ok X"
  shows "vaultRep X contents ready n base v A \<Longrightarrow> list_all callOk cs \<Longrightarrow> n + 2 * int (length cs) < maxIndex \<Longrightarrow>
    \<exists>rs v' A' n'. perform (runCall X I) cs v = (rs, v') \<and> perform absCall cs A = (rs, A') \<and>
      n' \<le> n + 2 * int (length cs) \<and> vaultRep X contents ready n' base v' A'"
proof (induction cs arbitrary: n v A)
  case (Cons c cs)
  have "sim X contents ready base 2 n (runCall X I c) (absCall c) v A"
    using Cons.prems by (intro refine_call[OF st libs]) simp_all
  then obtain r v1 A1 n1 where c: "runCall X I c v = (r, v1)" "absCall c A = (r, A1)" "n1 \<le> n + 2"
    "vaultRep X contents ready n1 base v1 A1"
    unfolding sim_def by blast
  have "n1 + 2 * int (length cs) < maxIndex" using Cons.prems(3) c(3) by simp
  then obtain rs v' A' n' where "perform (runCall X I) cs v1 = (rs, v')" "perform absCall cs A1 = (rs, A')"
    "n' \<le> n1 + 2 * int (length cs)" "vaultRep X contents ready n' base v' A'"
    using Cons.IH[OF c(4)] Cons.prems(2) by auto
  moreover from this c(3) have "n' \<le> n + 2 * int (length (c # cs))" by simp
  ultimately show ?case using c(1,2) by auto
qed auto

section \<open>A new vault\<close>

definition avaultNew :: "string \<Rightarrow> avault" where
  "avaultNew mk = \<lparr>aOpen = False, aMk = mk, aAuths = Map.empty, aProvs = Map.empty, aItems = Map.empty\<rparr>"

lemma vaultRep_new:
  assumes "ready s" "contents s = Map.empty" "length mk = 32"
  shows "vaultRep X contents ready 0 [] (vaultNew s net) (avaultNew mk)"
  using assms
  by (simp add: vaultRep_def contRep_def vaultNew_def avaultNew_def pushOK_empty remoteRep_def tableRep_empty
      logInv_def pendEvents_def keysWith_def)

lemma std_libs [simp]: "libs_ok stdX"
  by (simp add: libs_ok_def)

section \<open>A concrete vault\<close>

definition demoKey :: string where
  "demoKey = replicate 32 (CHR ''k'')"

definition demoProv :: provision where
  "demoProv = \<lparr>pvID = ''p1'', pvType = PasswordAuth, pvCreatedAt = 5, pvAAGUID = [], pvSalt = None, pvNoPin = False\<rparr>"

definition demoItem :: item where
  "demoItem = \<lparr>iID = ''note'', iData = Some ''secret'', iType = ''t'', iTime = 7\<rparr>"

definition demoNew :: "(mem, unit) vault" where
  "demoNew = vaultNew \<lparr>mOpen = True, mEntries = []\<rparr> ()"

definition demoAbs :: avault where
  "demoAbs = avaultNew (replicate 32 (CHR ''m''))"

lemma mem_new_ready [simp]:
  "memReady \<lparr>mOpen = True, mEntries = []\<rparr>" "memContents \<lparr>mOpen = True, mEntries = []\<rparr> = Map.empty"
  by (simp_all add: memReady_def memContents_def fun_eq_iff)

lemma demo_new: "vaultRep stdX memContents memReady 0 [] demoNew demoAbs"
  unfolding demoNew_def demoAbs_def by (rule vaultRep_new) simp_all

lemma demoKey_length [simp]: "length demoKey = 32"
  by (simp add: demoKey_def)

lemma demo_authId [simp]: "authId (pvID demoProv)" "authId ''p1''"
  by (simp_all add: authId_def demoProv_def plain_def convertID_def)

lemma demo_plain [simp]: "plain ''note''" "plain (iID demoItem)"
  by (simp_all add: demoItem_def plain_def)

text \<open>The same vault once it is set up.\<close>

definition demoVault :: "(mem, unit) vault" where
  "demoVault = snd (Setup stdX memOps (Some demoKey) (Some demoProv) demoNew)"

definition demoAbs1 :: avault where
  "demoAbs1 = \<lparr>aOpen = False, aMk = xRand stdX 0 32, aAuths = [''p1'' \<mapsto> demoKey], aProvs = [''p1'' \<mapsto> demoProv],
     aItems = Map.empty\<rparr>"

lemma demo_setup:
  "\<exists>n. n \<le> 2 \<and> vaultRep stdX memContents memReady n [] demoVault demoAbs1 \<and>
     Setup stdX memOps (Some demoKey) (Some demoProv) demoNew = (Inr (), demoVault)"
proof -
  have "sim stdX memContents memReady [] 2 0 (Setup stdX memOps (Some demoKey) (Some demoProv))
      (absSetup (xRand stdX (vDraws demoNew) 32) demoKey demoProv) demoNew demoAbs"
    by (rule memStore.refine_Setup[OF std_libs demo_new])
      (simp_all add: demoAbs_def avaultNew_def demoNew_def vaultNew_def)
  then obtain r v' A' n' where s: "Setup stdX memOps (Some demoKey) (Some demoProv) demoNew = (r, v')"
    "absSetup (xRand stdX 0 32) demoKey demoProv demoAbs = (r, A')" "n' \<le> 2"
    "vaultRep stdX memContents memReady n' [] v' A'"
    unfolding sim_def by (auto simp: demoNew_def vaultNew_def)
  have "r = Inr () \<and> A' = demoAbs1"
    using s(2) by (auto simp: absSetup_def absStatus_def absAddAuth_def op_simps demoAbs_def avaultNew_def demoAbs1_def
        demoProv_def fun_eq_iff)
  with s show ?thesis by (auto simp: demoVault_def)
qed

lemma rowIds_single [simp]: "rowIds [k \<mapsto> x] = [k]"
  by (simp add: rowIds_def)

section \<open>Properties\<close>

text \<open>C1. The vault refines its abstract specification: on a store that keeps its contract, every
  sequence of calls of \<^verbatim>\<open>Set\<close>, \<^verbatim>\<open>Get\<close>, \<^verbatim>\<open>Delete\<close>, \<^verbatim>\<open>Items\<close>, \<^verbatim>\<open>Status\<close>, \<^verbatim>\<open>Unlock\<close>, \<^verbatim>\<open>Lock\<close>, \<^verbatim>\<open>Provision\<close>,
  \<^verbatim>\<open>Provisions\<close> and \<^verbatim>\<open>Deprovision\<close> gives the replies, errors included, that the abstract vault gives,
  and ends in a vault that represents the abstract one.\<close>

theorem vault_refines:
  assumes "store I contents ready" "libs_ok X" "vaultRep X contents ready n base v A"
    and "list_all callOk cs" "n + 2 * int (length cs) < maxIndex"
  shows "\<exists>rs v' A' n'. perform (runCall X I) cs v = (rs, v') \<and> perform absCall cs A = (rs, A') \<and>
      n' \<le> n + 2 * int (length cs) \<and> vaultRep X contents ready n' base v' A'"
  using runs_refine[OF assms(1-5)] .

lemma vault_refines_witness:
  "\<exists>v'. perform (runCall stdX memOps) [CUnlock demoKey, CSet demoItem, CGet ''note''] demoVault =
     ([Inr (RProv demoProv), Inr RUnit, Inr (RItem (Some demoItem))], v')"
proof -
  let ?cs = "[CUnlock demoKey, CSet demoItem, CGet ''note'']"
  obtain n where n: "n \<le> 2" "vaultRep stdX memContents memReady n [] demoVault demoAbs1"
    using demo_setup by blast
  have "list_all callOk ?cs" by simp
  moreover have "n + 2 * int (length ?cs) < maxIndex" using n(1) by simp
  ultimately obtain rs v' A' where "perform (runCall stdX memOps) ?cs demoVault = (rs, v')"
      "perform absCall ?cs demoAbs1 = (rs, A')"
    using vault_refines[OF memStore.store_axioms std_libs n(2)] by blast
  moreover have "fst (perform absCall ?cs demoAbs1) =
      [Inr (RProv demoProv), Inr RUnit, Inr (RItem (Some demoItem))]"
    by (simp add: absUnlock_def absSet_def absGet_def op_simps demoAbs1_def opensWith_def demoItem_def
        lookupLive_def live_def)
  ultimately show ?thesis by simp
qed

end
