(* ===== verification/WebInstance.thy ===== *)
theory WebInstance
  imports Loopback MemCloud SyncProofs VaultMachine
begin

text \<open>
  Concrete third-party functions for the web API, \<open>stdW\<close>, with the documented behaviour: a
  signature is the list of what was signed and the key, and \<open>stdAuthorize\<close> compares it. With
  the memory cloud and the in-memory nonce service they make a whole server, \<open>stdEnv\<close>, on
  which the contracts of the server and of synchronisation are interpreted.
\<close>

section \<open>Signing\<close>

definition signParams :: "string \<Rightarrow> gotime \<Rightarrow> (string \<times> string) list \<Rightarrow> (string \<times> string) list" where
  "signParams nonce t ps = (''nonce'', nonce) # (''ts'', formatInt t) # filter (\<lambda>p. fst p \<noteq> ''nonce'' \<and> fst p \<noteq> ''ts'') ps"

definition stdSign :: "string \<Rightarrow> string \<Rightarrow> string \<Rightarrow> string \<Rightarrow> gotime \<Rightarrow> edkey \<Rightarrow> err + string \<times> string" where
  "stdSign nonce m url hash t k =
     (case cut (CHR ''?'') url of (a, q) \<Rightarrow>
       let u = a @ ''?'' @ joinWith (CHR ''&'') (map encodePair (signParams nonce t (parseQuery q)))
       in Inr (u, encStr nonce @ encStr m @ encStr u @ encStr hash @ encInt t @ encStr k))"

definition readAuth :: "string \<Rightarrow> (string \<times> string \<times> string \<times> string \<times> int \<times> string) option" where
  "readAuth h = (case decStr h of None \<Rightarrow> None | Some (nonce, h1) \<Rightarrow>
     (case decStr h1 of None \<Rightarrow> None | Some (m, h2) \<Rightarrow>
     (case decStr h2 of None \<Rightarrow> None | Some (u, h3) \<Rightarrow>
     (case decStr h3 of None \<Rightarrow> None | Some (hash, h4) \<Rightarrow>
     (case decInt h4 of None \<Rightarrow> None | Some (t, h5) \<Rightarrow>
     (case decStr h5 of None \<Rightarrow> None | Some (k, _) \<Rightarrow> Some (nonce, m, u, hash, t, k)))))))"

definition stdAuthorize :: "'s authorize" where
  "stdAuthorize r nc =
     (case readAuth (arAuth r) of None \<Rightarrow> fail (LibErr ''auth'')
      | Some (nonce, m, u, hash, t, k) \<Rightarrow>
          if arMethod r = m \<and> arURL r = u \<and> arContentHash r = hash \<and> arKID r = xKeyID stdX k \<and> \<bar>arNow r - t\<bar> \<le> minute
          then bnd (nc nonce) (\<lambda>_. ret (xKeyID stdX k))
          else fail (LibErr ''auth''))"

section \<open>Routing\<close>

definition stdRoute :: "(string \<times> string) list \<Rightarrow> string \<Rightarrow> string \<Rightarrow> (nat \<times> (string \<times> string) list) option" where
  "stdRoute t m p =
     (let cs = pattern p;
          ok = (\<lambda>lit i. fst (t ! i) = m \<and> literal (pattern (snd (t ! i))) = lit \<and> matchComps (pattern (snd (t ! i))) cs \<noteq> None)
      in case List.find (ok True) [0..<length t] of
           Some i \<Rightarrow> Some (i, the (matchComps (pattern (snd (t ! i))) cs))
         | None \<Rightarrow> map_option (\<lambda>i. (i, the (matchComps (pattern (snd (t ! i))) cs))) (List.find (ok False) [0..<length t]))"

section \<open>The instance\<close>

definition stdErrU :: "string \<Rightarrow> err + string option" where
  "stdErrU b = (case decInt b of None \<Rightarrow> stdErr | Some (_, r) \<Rightarrow>
     (case decStr r of None \<Rightarrow> stdErr | Some (m, _) \<Rightarrow> Inr (Some m)))"

definition stdW :: web where
  "stdW = \<lparr>
     wNonce = natStr,
     wSign = stdSign,
     wContentHash = (\<lambda>b. b),
     wParseID = (\<lambda>s. if s = [] then Inl (LibErr ''empty id'') else Inr s),
     wData = (\<lambda>b. [''data'' \<mapsto> FBytes (bstr b)]),
     wEventData = (\<lambda>f. case f ''data'' of Some (FBytes b) \<Rightarrow> Some b | _ \<Rightarrow> None),
     wVaultTo = (\<lambda>f. if f ''id'' = None \<and> f ''ts'' = None then None else Some (LibErr ''to'')),
     wErrM = (\<lambda>c m. encInt (int c) @ encStr m), wErrU = stdErrU,
     wParseTime = (\<lambda>s. Inl (LibErr ''time'')),
     wRoute = stdRoute\<rparr>"

lemma stdW_ok: "web_ok stdX stdW"
  by (auto simp: web_ok_def stdW_def headDoc_def stdErrU_def) (simp_all add: stdX_def)

lemma urlChar_noq: "list_all urlChar a \<Longrightarrow> CHR ''?'' \<notin> set a"
  by (auto simp: list_all_iff urlChar_def)

lemma queryGet_sign: "n \<noteq> ''nonce'' \<Longrightarrow> n \<noteq> ''ts'' \<Longrightarrow> queryGet (signParams nonce t ps) n = queryGet ps n"
proof -
  assume n: "n \<noteq> ''nonce''" "n \<noteq> ''ts''"
  have "map_of (filter (\<lambda>p. fst p \<noteq> ''nonce'' \<and> fst p \<noteq> ''ts'') ps) n = map_of ps n"
    using n by (induction ps) auto
  with n show ?thesis by (simp add: queryGet_def signParams_def)
qed

lemma stdW_sign: "sign_ok stdW"
  unfolding sign_ok_def
proof (intro allI impI)
  fix nonce m a ps hash t k
  assume a: "list_all urlChar a"
  define q where "q = joinWith (CHR ''&'') (map encodePair (signParams nonce t (parseQuery (encodeQuery ps))))"
  have cut: "cut (CHR ''?'') (withQuery a ps) = (a, encodeQuery ps)"
    using cut_at[OF urlChar_noq[OF a]] cut_none[OF urlChar_noq[OF a]] by (simp add: withQuery_def)
  have "wSign stdW nonce m (withQuery a ps) hash t k =
      Inr (a @ ''?'' @ q, encStr nonce @ encStr m @ encStr (a @ ''?'' @ q) @ encStr hash @ encInt t @ encStr k)"
    by (simp add: stdW_def stdSign_def cut q_def Let_def)
  moreover have "queryGet (parseQuery q) n = queryGet ps n" if "n \<noteq> ''nonce''" "n \<noteq> ''ts''" for n
    using queryGet_sign[OF that, of nonce t "parseQuery (encodeQuery ps)"] by (simp add: q_def parse_encodePairs)
  ultimately show "\<exists>h q. wSign stdW nonce m (withQuery a ps) hash t k = Inr (a @ ''?'' @ q, h) \<and> h \<noteq> [] \<and>
      (\<forall>n. n \<noteq> ''nonce'' \<longrightarrow> n \<noteq> ''ts'' \<longrightarrow> queryGet (parseQuery q) n = queryGet ps n)"
    by (intro exI conjI) (assumption | simp)+
qed

lemma stdAuthorize_ok: "auth_ok stdX stdW stdAuthorize"
  unfolding auth_ok_def
proof (intro allI impI)
  fix nonce m url hash t k u h now nc and s :: 's
  assume "wSign stdW nonce m url hash t k = Inr (u, h)" and t: "\<bar>now - t\<bar> \<le> minute"
  then have "h = encStr nonce @ encStr m @ encStr u @ encStr hash @ encInt t @ encStr k"
    by (auto simp: stdW_def stdSign_def Let_def split: prod.splits)
  then have "readAuth h = Some (nonce, m, u, hash, t, k)"
    by (simp add: readAuth_def)
  with t show "stdAuthorize \<lparr>arMethod = m, arURL = u, arKID = xKeyID stdX k, arAuth = h, arContentHash = hash, arNow = now\<rparr> nc s =
       (case nc nonce s of (Inl e, s') \<Rightarrow> (Inl e, s') | (Inr _, s') \<Rightarrow> (Inr (xKeyID stdX k), s'))"
    by (simp add: stdAuthorize_def bnd_def ret_def split: prod.splits sum.splits)
qed

lemma find_only:
  assumes "i < n" "P i" "\<And>j. j < n \<Longrightarrow> P j \<Longrightarrow> j = i"
  shows "List.find P [0..<n] = Some i"
proof -
  have "List.find P [0..<n] \<noteq> None" using assms(1,2) by (auto simp: find_None_iff)
  then obtain j where j: "List.find P [0..<n] = Some j" by blast
  then have "j < n" "P j" by (auto simp: find_Some_iff)
  with assms(3) j show ?thesis by auto
qed

lemma stdW_route: "route_ok stdW"
  unfolding route_ok_def
proof (intro allI impI)
  fix t :: "(string \<times> string) list" and i m p cs b
  assume i: "i < length t" "t ! i = (m, p)" and cs: "plains cs" and l: "literal (pattern p)" "matchComps (pattern p) cs = Some b"
    and u: "\<forall>j < length t. j \<noteq> i \<longrightarrow> fst (t ! j) = m \<longrightarrow> literal (pattern (snd (t ! j))) \<longrightarrow> matchComps (pattern (snd (t ! j))) cs = None"
  have pc: "pattern (canon cs) = cs" using cs by (simp add: pattern_def splitOn_canon plains_def)
  have "List.find (\<lambda>i. fst (t ! i) = m \<and> literal (pattern (snd (t ! i))) = True \<and> matchComps (pattern (snd (t ! i))) cs \<noteq> None)
      [0..<length t] = Some i"
    using i l u by (intro find_only) auto
  then show "wRoute stdW t m (canon cs) = Some (i, b)"
    using i(2) l(2) by (simp add: stdW_def stdRoute_def pc)
qed

definition stdClock :: "nat \<Rightarrow> gotime" where
  "stdClock i = 1000000000"

definition stdEnv :: "(memcloud, rdsTest) env" where
  "stdEnv = \<lparr>enFire = firestoreOps stdX memCloud, enRedis = NewRedisTest stdClock, enAuthorize = stdAuthorize,
     enClock = stdClock, enURL = ''http://localhost''\<rparr>"

definition noOther :: "route \<Rightarrow> (memcloud, rdsTest) handler" where
  "noOther r c = fail (Err ''not modelled'')"

lemma natStr_inj: "inj natStr"
  by (rule inj_on_inverseI[of _ digitsVal]) (simp add: digitsVal_natStr)

lemma stdEnv_net: "loopback stdEnv (fsLog memCloud) (fsDoc mcMap) (fsInv memCloud mcMap mcUp) rtUsed stdX stdW stdClock"
proof (intro loopback.intro vault_service.intro vault_service_axioms.intro loopback_axioms.intro)
  show "fire (enFire stdEnv) (fsLog memCloud) (fsDoc mcMap) (fsInv memCloud mcMap mcUp)"
    using memFire.fire_axioms by (simp add: stdEnv_def)
  show "redis (enRedis stdEnv) rtUsed"
    using rdsTest.redis_axioms by (simp add: stdEnv_def)
  show "auth_ok stdX stdW (enAuthorize stdEnv)" by (simp add: stdEnv_def stdAuthorize_ok)
  show "enClock stdEnv i \<noteq> 0" for i by (simp add: stdEnv_def stdClock_def)
  show "\<bar>enClock stdEnv i - stdClock j\<bar> \<le> minute" for i j
    by (simp add: stdEnv_def stdClock_def minute_def second_def)
  show "list_all urlChar (enURL stdEnv)" by (simp add: stdEnv_def urlChar_def unreserved_def)
  show "inj (wNonce stdW)" by (simp add: stdW_def natStr_inj)
qed (simp_all add: stdW_ok stdW_sign stdW_route)

interpretation memNet: loopback stdEnv "fsLog memCloud" "fsDoc mcMap" "fsInv memCloud mcMap mcUp" rtUsed stdX stdW noOther stdClock
  by (rule stdEnv_net)

text \<open>A server that has just started.\<close>

definition net0 :: "(memcloud, rdsTest) net" where
  "net0 = \<lparr>ntServer = \<lparr>srvFire = mcEmpty, srvRedis = newRedis, srvTicks = 0, srvDraws = 0\<rparr>, ntClock = 0, ntDraws = 0\<rparr>"

lemma mcEmpty_log: "fsLog memCloud mcEmpty p = []" "fsDoc mcMap mcEmpty p \<longleftrightarrow> False"
proof -
  have ids: "mcIdsAll col mcEmpty = []" for col by (simp add: mcIdsAll_def mcEmpty_def map_filter_simps)
  show "fsLog memCloud mcEmpty p = []" by (simp add: fsLog_def memCloud_def mcQuery_def mcQueryAll_def ids)
  show "fsDoc mcMap mcEmpty p \<longleftrightarrow> False" by (simp add: fsDoc_def mcMap_def mcEmpty_def)
qed

lemma net0_up: "memNet.netUp net0" "memNet.netBlobs k net0 = []" "\<not> memNet.netGone k net0"
  by (simp_all add: networkUp_def net0_def serverInv_def mcEmpty_inv mcEmpty_log newRedis_def rtUsed_def
      networkBlobs_def serverBlobs_def networkGone_def serverGone_def)

section \<open>A vault and its server\<close>

interpretation memSync: synced_vault memOps memContents memReady stdX "Request stdW memNet.C" memNet.okKey
  memNet.netUp memNet.netBlobs memNet.netGone
  by (intro synced_vault.intro synced_vault_axioms.intro memStore.store_axioms memNet.server.vault_server_axioms
      std_libs std_box std_json)

end
