(* ===== verification/SyncProps.thy ===== *)
theory SyncProps
  imports WebInstance
begin

text \<open>
  The properties of synchronisation: what one \<^verbatim>\<open>Sync\<close> does, that two vaults end with the same
  user data whatever each changed before, that changes made in between keep a vault ready to
  synchronise, and that the HTTP client and server provide the contract this rests on. The
  witnesses run on the whole stack of \<open>WebInstance\<close>: memory store, HTTP client, server,
  Firestore events, memory cloud.
\<close>

section \<open>Local changes between synchronisations\<close>

lemma syncRep_changed:
  assumes rep: "syncRep X n base m" and cs: "userPath cs" and n: "n < maxIndex"
  shows "syncRep X (n + 1) base (changed n cs c m)"
proof -
  note r = syncRepD[OF rep]
  let ?e = "(canon cs, c)" let ?m = "applyEvent ?e m" let ?p = "logPath ''push'' (n + 1) cs"
  have ue: "userEvent ?e" using userEvent_canon[OF cs] .
  have fin: "finite (dom ?m)" using finite_applyEvent[OF r(1)] .
  have fin2: "finite (dom (putInt ''/sync/push'' (n + 1) ?m))" using fin by (simp add: putInt_def)
  have "finite (dom (changed n cs c m))" using fin2 by (simp add: changed_def pushed_def)
  moreover have "pushOK (n + 1) (changed n cs c m)" using pushOK_changed[OF r(2) cs n] .
  moreover have "cleanDirs (changed n cs c m)"
    unfolding changed_def pushed_def putInt_def
    by (intro cleanDirs_other cleanDirs_apply r(3) ue tableDir_not_log tableDir_not_sync)
  moreover have "canon cs \<noteq> ''/sync/pull''" using userPath_neq_sync[OF cs, of "[''sync'', ''pull'']"] by simp
  then have "intOf (changed n cs c m) ''/sync/pull'' = Some (int (length base))"
    using r(4) by (simp add: changed_def pushed_def putInt_def applyEvent_def)
  moreover have "logOK ''pull'' (int (length base)) (changed n cs c m)"
    using r(5) cs unfolding changed_def pushed_def putInt_def applyEvent_def
    by (intro logOK_other; auto intro!: logOK_other)
  moreover have "pullEvents X (changed n cs c m) = base"
    using r(6) pullEvents_apply[OF ue r(1), of X] pullEvents_other[OF _ fin, of "''/sync/push''" X]
      pullEvents_other[OF _ fin2, of ?p X]
    by (simp add: changed_def pushed_def putInt_def)
  ultimately show ?thesis using r(7,8) unfolding syncRep_def by blast
qed

lemma syncRep_empty: "syncRep X 0 [] Map.empty"
  by (simp add: syncRep_def pushOK_empty intOf_def logOK_def pullEvents_def keysWith_def)

lemma syncable_changed:
  assumes v: "syncable X contents ready okKey up blobs gone k n base evs v"
    and s: "ready s" "contents s = changed n cs c (contents (vStore v))" and cs: "userPath cs" and n: "n < maxIndex"
    and max: "int (length evs + length (pendEvents (contents (vStore v)))) < maxIndex"
    and fits: "sendFits X k (pendEvents (contents (vStore v)) @ [(canon cs, c)])"
    and other: "vHasClient v' = vHasClient v" "vRemote v' = vRemote v" "vNet v' = vNet v" "vStore v' = s"
  shows "syncable X contents ready okKey up blobs gone k (n + 1) base evs v'"
proof -
  have rep: "syncRep X n base (contents (vStore v))" "logInv base (contents (vStore v))"
    using v by (simp_all add: syncable_def)
  note r = syncRepD[OF rep(1)]
  have "pendEvents (contents s) = pendEvents (contents (vStore v)) @ [(canon cs, c)]"
    using pendEvents_changed[OF r(2,1) n cs] s(2) by simp
  then show ?thesis
    using v s syncRep_changed[OF rep(1) cs n] logInv_changed[OF r(2,1) n cs rep(2)] n max fits other
    by (simp add: syncable_def)
qed

lemma sync_ends:
  fixes v :: "('s, 'n) vault"
  assumes "store I contents ready" "vault_server X R okKey up blobs gone" "libs_ok X" "box_ok X" "json_ok X"
    and v: "syncable X contents ready okKey up blobs gone k n base evs v"
    and ne: "evs @ pendEvents (contents (vStore v)) \<noteq> []"
  defines "all \<equiv> evs @ pendEvents (contents (vStore v))"
  shows "\<exists>v'. Sync X I R None v = Some (Inr (), v') \<and> syncable X contents ready okKey up blobs gone k n all all v' \<and>
    pendEvents (contents (vStore v')) = [] \<and> vMk v' = vMk v \<and>
    (\<forall>cs. userPath cs \<longrightarrow> contents (vStore v') (canon cs) = replay all Map.empty (canon cs))"
proof -
  have sv: "synced_vault I contents ready X R okKey up blobs gone"
    using assms(1-5) by (intro synced_vault.intro synced_vault_axioms.intro)
  obtain v' where v': "Sync X I R None v = Some (Inr (), v')" "syncable X contents ready okKey up blobs gone k n all all v'"
      "pendEvents (contents (vStore v')) = []" "vMk v' = vMk v"
    using synced_vault.Sync_ok[OF sv v ne] unfolding all_def by blast
  have "contents (vStore v') (canon cs) = replay all Map.empty (canon cs)" if "userPath cs" for cs
    using v'(2,3) that by (simp add: syncable_def logInv_def)
  with v' show ?thesis by blast
qed

lemma edit_syncable:
  fixes v :: "('s, 'n) vault"
  assumes "store I contents ready" "dstore_ok X"
    and v: "syncable X contents ready okKey up blobs gone k n base evs v" and n: "n < maxIndex"
    and max: "int (length evs + length (pendEvents (contents (vStore v)))) < maxIndex"
    and fits: "sendFits X k (pendEvents (contents (vStore v)) @ [(canon cs, bstr b)])"
    and cs: "userPath cs" and b: "bstr b \<noteq> []"
  shows "\<exists>v'. vaultSetPath X I (canon cs) b True v = (Inr (), v') \<and>
    syncable X contents ready okKey up blobs gone k (n + 1) base evs v' \<and>
    pendEvents (contents (vStore v')) = pendEvents (contents (vStore v)) @ [(canon cs, bstr b)] \<and> vNet v' = vNet v \<and> vMk v' = vMk v"
proof -
  have rep: "syncRep X n base (contents (vStore v))" "ready (vStore v)" using v by (simp_all add: syncable_def)
  note r = syncRepD[OF rep(1)]
  obtain s where s: "vaultSetPath X I (canon cs) b True v = (Inr (), v\<lparr>vStore := s, vAuto := True\<rparr>)" "ready s"
      "contents s = changed n cs (bstr b) (contents (vStore v))"
    using store.vaultSetPath_ok[OF assms(1,2) rep(2) r(2) n cs b] by blast
  have "syncable X contents ready okKey up blobs gone k (n + 1) base evs (v\<lparr>vStore := s, vAuto := True\<rparr>)"
    by (rule syncable_changed[OF v s(2,3) cs n max fits]) simp_all
  with s pendEvents_changed[OF r(2,1) n cs] show ?thesis by (intro exI[of _ "v\<lparr>vStore := s, vAuto := True\<rparr>"]) simp
qed

lemma syncable_other_events:
  assumes w: "syncable X contents ready okKey up blobs gone k n base evs w"
    and v: "syncable X contents ready okKey up blobs gone k m b (evs @ fs) v"
    and max: "int (length evs + length fs + length (pendEvents (contents (vStore w)))) \<le> maxIndex"
  shows "syncable X contents ready okKey up blobs gone k n base (evs @ fs) (w\<lparr>vNet := vNet v\<rparr>)"
proof -
  have "\<exists>rest. evs @ fs = base @ rest" using w by (auto simp: syncable_def)
  with w v max show ?thesis by (simp add: syncable_def)
qed

text \<open>Two synchronised vaults with the same user data represent the same abstract vaults.\<close>

lemma contRep_synced:
  assumes rep: "syncRep X n base m'" and inv: "logInv base m'" and rsalt: "m' ''/sync/rsalt'' \<noteq> Some []"
    and A: "contRep X j all m A" and same: "\<And>cs. userPath cs \<Longrightarrow> m' (canon cs) = m (canon cs)"
  shows "contRep X n base m' A"
proof -
  note r = syncRepD[OF rep] and c = contRepD[OF A]
  have row: "m' (rowPath d i) = m (rowPath d i)" if "tableDir d" "plain i" for d i
    using same[OF tableDir_userPath[OF that]] by (simp add: rowPath_def)
  have dirs: "tableDir ''item''" "tableDir ''auth''" "tableDir ''provision''" by (simp_all add: tableDir_def)
  show ?thesis
    unfolding contRep_def
    using r(1,2) inv rsalt c(4) tableRep_transfer[OF c(6) dirs(1) r(3) row[OF dirs(1)]]
      tableRep_transfer[OF c(7) dirs(2) r(3) row[OF dirs(2)]] tableRep_transfer[OF c(8) dirs(3) r(3) row[OF dirs(3)]]
    by simp
qed

section \<open>A concrete pair of vaults\<close>

text \<open>Small events fit in one request of the concrete instance.\<close>

lemma encBytes_length: "length (encBytes d) \<le> 2 * length (bstr d) + 2"
  by (cases d) (simp_all add: encBytes_def encStr_def)

definition evSize :: "edkey \<Rightarrow> event \<Rightarrow> nat" where
  "evSize k e = 6 + 2 * length k + 2 * length (fst e) + 2 * length (snd e)"

lemma sealedAs_size: "sealedAs stdX k b e \<Longrightarrow> glen b \<le> evSize k e"
  using encBytes_length by (fastforce simp: sealedAs_def evSize_def stdX_def stdEventM_def encStr_def intro: order_trans)

lemma sendFits_small:
  assumes "int (sum_list (map (evSize k) es)) \<le> 2 ^ 63 - 1"
  shows "sendFits stdX k es"
proof -
  have "totalLen bs \<le> sum_list (map (evSize k) es)" if "list_all2 (sealedAs stdX k) bs es" for bs
    using that by (induction rule: list_all2_induct) (simp_all add: totalLen_def sealedAs_size add_mono)
  with assms show ?thesis by (force simp: sendFits_def int64_ok_def)
qed

text \<open>Two empty vaults of one account, and a first change in each.\<close>

definition demoPeer :: "(mem, (memcloud, rdsTest) net) vault" where
  "demoPeer = (vaultNew \<lparr>mOpen = True, mEntries = []\<rparr> net0)
     \<lparr>vHasClient := True, vRemote := Some \<lparr>rmURL = None, rmKey = demoKey, rmSalt = Some ''salt''\<rparr>\<rparr>"

abbreviation demoSyncable :: "int \<Rightarrow> event list \<Rightarrow> event list \<Rightarrow> (mem, (memcloud, rdsTest) net) vault \<Rightarrow> bool" where
  "demoSyncable \<equiv> syncable stdX memContents memReady memNet.okKey memNet.netUp memNet.netBlobs memNet.netGone demoKey"

abbreviation demoR :: "(memcloud, rdsTest) net http_client" where
  "demoR \<equiv> Request stdW memNet.C"

lemma demoPeer_syncable: "demoSyncable 0 [] [] demoPeer"
  using net0_up syncRep_empty[of stdX]
  by (simp add: syncable_def demoPeer_def vaultNew_def keyOk_def unreserved_def demoKey_def stdX_def serverLog_def logInv_def
      pendEvents_def keysWith_def list_all_iff)

definition demoEdit :: "string \<Rightarrow> string \<Rightarrow> (mem, (memcloud, rdsTest) net) vault" where
  "demoEdit i d = snd (vaultSetPath stdX memOps (canon [''item'', i]) (Some d) True demoPeer)"

lemma demo_edit:
  assumes i: "plain i" "length i < 1000" and d: "d \<noteq> []" "length d < 1000"
  shows "demoSyncable 1 [] [] (demoEdit i d)" "pendEvents (memContents (vStore (demoEdit i d))) = [(canon [''item'', i], d)]"
    "vNet (demoEdit i d) = net0"
proof -
  have none: "pendEvents (memContents (vStore demoPeer)) = []"
    by (simp add: demoPeer_def vaultNew_def pendEvents_def keysWith_def)
  have cs: "userPath [''item'', i]" using i(1) by (simp add: userPath_def)
  have "int (evSize demoKey (canon [''item'', i], bstr (Some d))) \<le> 2 ^ 63 - 1"
    using i(2) d(2) by (simp add: evSize_def)
  then have fits: "sendFits stdX demoKey (pendEvents (memContents (vStore demoPeer)) @ [(canon [''item'', i], bstr (Some d))])"
    unfolding none by (intro sendFits_small) simp
  have n: "(0 :: int) < maxIndex" "int (length ([] :: event list) + length (pendEvents (memContents (vStore demoPeer)))) < maxIndex"
    unfolding none by simp_all
  show "demoSyncable 1 [] [] (demoEdit i d)" "pendEvents (memContents (vStore (demoEdit i d))) = [(canon [''item'', i], d)]"
    "vNet (demoEdit i d) = net0"
    using edit_syncable[OF memStore.store_axioms std_dstore demoPeer_syncable n fits cs] d(1) none
    by (auto simp: demoEdit_def demoPeer_def vaultNew_def)
qed

lemma demo_pair:
  "demoSyncable 1 [] [] (demoEdit ''note'' ''mine'')" "demoSyncable 1 [] [] (demoEdit ''memo'' ''yours'')"
  "pendEvents (memContents (vStore (demoEdit ''note'' ''mine''))) = [(''/item/note'', ''mine'')]"
  "pendEvents (memContents (vStore (demoEdit ''memo'' ''yours''))) = [(''/item/memo'', ''yours'')]"
  using demo_edit[of "''note''" "''mine''"] demo_edit[of "''memo''" "''yours''"] by (simp_all add: plain_def)

lemma demo_paths: "userPath [''item'', ''note'']" "userPath [''item'', ''memo'']"
  by (simp_all add: userPath_def plain_def)

section \<open>Properties\<close>

text \<open>C2. Synchronising succeeds and ends, however the remote cuts its listing into pages: the
  remote's events become what they were followed by the vault's pending changes in order, the
  vault has pulled all of them and has nothing pending, and its user data are what replaying
  the remote's events gives. The vault is ready to synchronise again.\<close>

theorem sync_merges:
  fixes v :: "('s, 'n) vault"
  assumes "store I contents ready" "vault_server X R okKey up blobs gone" "libs_ok X" "box_ok X" "json_ok X"
    and v: "syncable X contents ready okKey up blobs gone k n base evs v"
    and ne: "evs @ pendEvents (contents (vStore v)) \<noteq> []"
  defines "all \<equiv> evs @ pendEvents (contents (vStore v))"
  shows "\<exists>v'. Sync X I R None v = Some (Inr (), v') \<and> syncable X contents ready okKey up blobs gone k n all all v' \<and>
    pendEvents (contents (vStore v')) = [] \<and> vMk v' = vMk v \<and>
    (\<forall>cs. userPath cs \<longrightarrow> contents (vStore v') (canon cs) = replay all Map.empty (canon cs))"
  unfolding all_def by (rule sync_ends[OF assms(1-7)])

lemma sync_merges_witness:
  "\<exists>v'. Sync stdX memOps demoR None (demoEdit ''note'' ''mine'') = Some (Inr (), v') \<and>
     pendEvents (memContents (vStore v')) = [] \<and> memContents (vStore v') ''/item/note'' = Some ''mine''"
proof -
  have ne: "[] @ pendEvents (memContents (vStore (demoEdit ''note'' ''mine''))) \<noteq> []" using demo_pair(3) by simp
  obtain v' where "Sync stdX memOps demoR None (demoEdit ''note'' ''mine'') = Some (Inr (), v')"
      "pendEvents (memContents (vStore v')) = []"
      "memContents (vStore v') (canon [''item'', ''note'']) =
         replay ([] @ pendEvents (memContents (vStore (demoEdit ''note'' ''mine'')))) Map.empty (canon [''item'', ''note''])"
    using sync_merges[OF memStore.store_axioms memNet.server.vault_server_axioms std_libs std_box std_json demo_pair(1) ne]
      demo_paths(1) by blast
  then show ?thesis by (simp add: demo_pair(3) applyEvent_def)
qed

text \<open>C5. A vault that is ready to synchronise stays so when the user changes something: setting a
  path adds one pending event.\<close>

theorem edit_keeps_syncable:
  fixes v :: "('s, 'n) vault"
  assumes "store I contents ready" "dstore_ok X"
    and v: "syncable X contents ready okKey up blobs gone k n base evs v" and n: "n < maxIndex"
    and max: "int (length evs + length (pendEvents (contents (vStore v)))) < maxIndex"
    and fits: "sendFits X k (pendEvents (contents (vStore v)) @ [(canon cs, bstr b)])"
    and cs: "userPath cs" and b: "bstr b \<noteq> []"
  shows "\<exists>v'. vaultSetPath X I (canon cs) b True v = (Inr (), v') \<and>
    syncable X contents ready okKey up blobs gone k (n + 1) base evs v' \<and>
    pendEvents (contents (vStore v')) = pendEvents (contents (vStore v)) @ [(canon cs, bstr b)] \<and> vNet v' = vNet v \<and> vMk v' = vMk v"
  by (rule edit_syncable[OF assms])

lemma edit_keeps_syncable_witness:
  "\<exists>v'. vaultSetPath stdX memOps ''/item/note'' (Some ''mine'') True demoPeer = (Inr (), v') \<and> demoSyncable 1 [] [] v' \<and>
     pendEvents (memContents (vStore v')) = [(''/item/note'', ''mine'')]"
proof -
  have none: "pendEvents (memContents (vStore demoPeer)) = []"
    by (simp add: demoPeer_def vaultNew_def pendEvents_def keysWith_def)
  have fits: "sendFits stdX demoKey (pendEvents (memContents (vStore demoPeer)) @ [(canon [''item'', ''note''], bstr (Some ''mine''))])"
    unfolding none by (intro sendFits_small) (simp add: evSize_def)
  have n: "(0 :: int) < maxIndex" "int (length ([] :: event list) + length (pendEvents (memContents (vStore demoPeer)))) < maxIndex"
    unfolding none by simp_all
  show ?thesis
    using edit_keeps_syncable[OF memStore.store_axioms std_dstore demoPeer_syncable n fits demo_paths(1)] none by auto
qed

text \<open>C3. Two vaults of one remote converge: when the first synchronises, then the second, then the
  first again, both hold the same user data, namely the events the remote had, then the first's
  changes, then the second's. What either then represents, its items, keys and provisions, the
  other represents too.\<close>

theorem sync_converges:
  fixes v :: "('s, 'n) vault" and w :: "('s, 'n) vault"
  assumes "store I contents ready" "vault_server X R okKey up blobs gone" "libs_ok X" "box_ok X" "json_ok X"
    and v: "syncable X contents ready okKey up blobs gone k n base evs v"
    and w: "syncable X contents ready okKey up blobs gone k m base' evs w"
    and ne: "evs @ pendEvents (contents (vStore v)) \<noteq> []"
    and max: "int (length evs + length (pendEvents (contents (vStore v))) + length (pendEvents (contents (vStore w)))) \<le> maxIndex"
  defines "all \<equiv> evs @ pendEvents (contents (vStore v)) @ pendEvents (contents (vStore w))"
  shows "\<exists>v1 w1 v2. Sync X I R None v = Some (Inr (), v1) \<and>
    Sync X I R None (w\<lparr>vNet := vNet v1\<rparr>) = Some (Inr (), w1) \<and>
    Sync X I R None (v1\<lparr>vNet := vNet w1\<rparr>) = Some (Inr (), v2) \<and>
    (\<forall>cs. userPath cs \<longrightarrow> contents (vStore v2) (canon cs) = replay all Map.empty (canon cs) \<and>
       contents (vStore w1) (canon cs) = replay all Map.empty (canon cs)) \<and>
    (\<forall>A j. contRep X j all (contents (vStore v2)) A \<longrightarrow> contents (vStore w1) ''/sync/rsalt'' \<noteq> Some [] \<longrightarrow>
       contRep X m all (contents (vStore w1)) A)"
proof -
  let ?pv = "pendEvents (contents (vStore v))" and ?pw = "pendEvents (contents (vStore w))"
  note sync = sync_ends[OF assms(1-5)]
  obtain v1 where v1: "Sync X I R None v = Some (Inr (), v1)"
      "syncable X contents ready okKey up blobs gone k n (evs @ ?pv) (evs @ ?pv) v1"
      "pendEvents (contents (vStore v1)) = []"
    using sync[OF v ne] by blast
  let ?w = "w\<lparr>vNet := vNet v1\<rparr>"
  have w': "syncable X contents ready okKey up blobs gone k m base' (evs @ ?pv) ?w"
    by (rule syncable_other_events[OF w v1(2) max])
  have ne': "(evs @ ?pv) @ pendEvents (contents (vStore ?w)) \<noteq> []" using ne by (cases evs) simp_all
  have all: "all = (evs @ ?pv) @ ?pw" by (simp add: all_def)
  obtain w1 where w1: "Sync X I R None ?w = Some (Inr (), w1)"
      "syncable X contents ready okKey up blobs gone k m all all w1"
      "\<forall>cs. userPath cs \<longrightarrow> contents (vStore w1) (canon cs) = replay all Map.empty (canon cs)"
    using sync[OF w' ne'] unfolding all by auto
  have max': "int (length (evs @ ?pv) + length ?pw + length (pendEvents (contents (vStore v1)))) \<le> maxIndex"
    using max v1(3) by simp
  let ?v1 = "v1\<lparr>vNet := vNet w1\<rparr>"
  have v1': "syncable X contents ready okKey up blobs gone k n (evs @ ?pv) all ?v1"
    using syncable_other_events[OF v1(2) w1(2)[unfolded all] max'] by (simp add: all)
  have ne'': "all @ pendEvents (contents (vStore ?v1)) \<noteq> []" using ne all by (metis append_is_Nil_conv)
  have none: "all @ pendEvents (contents (vStore ?v1)) = all" using v1(3) by simp
  obtain v2 where v2: "Sync X I R None ?v1 = Some (Inr (), v2)"
      "\<forall>cs. userPath cs \<longrightarrow> contents (vStore v2) (canon cs) = replay all Map.empty (canon cs)"
    using sync[OF v1' ne''] unfolding none by blast
  have rep: "syncRep X m all (contents (vStore w1))" "logInv all (contents (vStore w1))"
    using w1(2) by (simp_all add: syncable_def)
  have "contRep X m all (contents (vStore w1)) A"
    if "contRep X j all (contents (vStore v2)) A" "contents (vStore w1) ''/sync/rsalt'' \<noteq> Some []" for A j
    by (rule contRep_synced[OF rep that(2,1)]) (use v2(2) w1(3) in simp)
  with v1(1) w1(1,3) v2 show ?thesis by blast
qed

lemma sync_converges_witness:
  "\<exists>v1 w1 v2. Sync stdX memOps demoR None (demoEdit ''note'' ''mine'') = Some (Inr (), v1) \<and>
     Sync stdX memOps demoR None ((demoEdit ''memo'' ''yours'')\<lparr>vNet := vNet v1\<rparr>) = Some (Inr (), w1) \<and>
     Sync stdX memOps demoR None (v1\<lparr>vNet := vNet w1\<rparr>) = Some (Inr (), v2) \<and>
     memContents (vStore v2) ''/item/memo'' = Some ''yours'' \<and> memContents (vStore w1) ''/item/note'' = Some ''mine''"
proof -
  let ?v = "demoEdit ''note'' ''mine''" and ?w = "demoEdit ''memo'' ''yours''"
  have ne: "[] @ pendEvents (memContents (vStore ?v)) \<noteq> []" using demo_pair(3) by simp
  have max: "int (length ([] :: event list) + length (pendEvents (memContents (vStore ?v))) +
      length (pendEvents (memContents (vStore ?w)))) \<le> maxIndex" by (simp add: demo_pair(3,4))
  note conv = sync_converges[OF memStore.store_axioms memNet.server.vault_server_axioms std_libs std_box std_json
      demo_pair(1,2) ne max]
  have all: "[] @ pendEvents (memContents (vStore ?v)) @ pendEvents (memContents (vStore ?w)) =
      [(''/item/note'', ''mine''), (''/item/memo'', ''yours'')]" by (simp add: demo_pair(3,4))
  obtain v1 w1 v2 where "Sync stdX memOps demoR None ?v = Some (Inr (), v1)"
      "Sync stdX memOps demoR None (?w\<lparr>vNet := vNet v1\<rparr>) = Some (Inr (), w1)"
      "Sync stdX memOps demoR None (v1\<lparr>vNet := vNet w1\<rparr>) = Some (Inr (), v2)"
      "\<forall>cs. userPath cs \<longrightarrow> memContents (vStore v2) (canon cs) = replay [(''/item/note'', ''mine''), (''/item/memo'', ''yours'')] Map.empty (canon cs) \<and>
         memContents (vStore w1) (canon cs) = replay [(''/item/note'', ''mine''), (''/item/memo'', ''yours'')] Map.empty (canon cs)"
    using conv unfolding all by blast
  moreover from this(4)[rule_format, OF demo_paths(2)] this(4)[rule_format, OF demo_paths(1)]
  have "memContents (vStore v2) (canon [''item'', ''memo'']) = Some ''yours''"
      "memContents (vStore w1) (canon [''item'', ''note'']) = Some ''mine''"
    by (simp_all add: applyEvent_def)
  ultimately show ?thesis unfolding canon.simps append.simps append_Nil2 by blast
qed

end
