(* ===== verification/Duration.thy ===== *)
theory Duration
  imports GoStd
begin

text \<open>
  \<^verbatim>\<open>time.ParseDuration\<close> and \<^verbatim>\<open>time.Duration.String\<close>, which the server and the client use for
  expiry times, on nanoseconds as an int64. A fraction is computed exactly where Go multiplies
  in float64; the two agree while the scale divides the unit, as it does in every string
  \<^verbatim>\<open>String\<close> gives.
\<close>

section \<open>Parsing\<close>

definition badDuration :: err where
  "badDuration = LibErr ''time: invalid duration''"

definition maxInt64 :: int where
  "maxInt64 = 2 ^ 63 - 1"

text \<open>\<^verbatim>\<open>leadingInt\<close>: the digits in front, \<open>None\<close> on overflow.\<close>

fun leadingInt :: "int \<Rightarrow> string \<Rightarrow> (int \<times> string) option" where
  "leadingInt x [] = Some (x, [])"
| "leadingInt x (c # cs) =
     (if \<not> isDigit c then Some (x, c # cs)
      else if x > maxInt64 div 10 then None
      else let y = x * 10 + int (digitVal c) in if y > maxInt64 then None else leadingInt y cs)"

text \<open>\<^verbatim>\<open>leadingFraction\<close>: digits beyond the range of an int64 are skipped.\<close>

fun leadingFraction :: "bool \<Rightarrow> int \<Rightarrow> int \<Rightarrow> string \<Rightarrow> int \<times> int \<times> string" where
  "leadingFraction over x scale [] = (x, scale, [])"
| "leadingFraction over x scale (c # cs) =
     (if \<not> isDigit c then (x, scale, c # cs)
      else if over then leadingFraction over x scale cs
      else if x > maxInt64 div 10 then leadingFraction True x scale cs
      else let y = x * 10 + int (digitVal c)
           in if y > maxInt64 then leadingFraction True x scale cs else leadingFraction False y (scale * 10) cs)"

definition microSign :: string where
  "microSign = [char_of (194 :: nat), char_of (181 :: nat)]"

definition durationUnit :: "string \<Rightarrow> int option" where
  "durationUnit u =
     (if u = ''ns'' then Some 1
      else if u = ''us'' \<or> u = microSign @ ''s'' \<or> u = [char_of (206 :: nat), char_of (188 :: nat)] @ ''s'' then Some 1000
      else if u = ''ms'' then Some 1000000
      else if u = ''s'' then Some second
      else if u = ''m'' then Some minute
      else if u = ''h'' then Some hour
      else None)"

definition inUnit :: "char \<Rightarrow> bool" where
  "inUnit c \<longleftrightarrow> c \<noteq> CHR ''.'' \<and> \<not> isDigit c"

text \<open>One number with its unit: the nanoseconds and the rest of the string.\<close>

definition durationPart :: "string \<Rightarrow> (int \<times> string) option" where
  "durationPart s =
     (if s = [] \<or> \<not> (hd s = CHR ''.'' \<or> isDigit (hd s)) then None
      else case leadingInt 0 s of None \<Rightarrow> None
      | Some (v, s1) \<Rightarrow>
          let pre = length s1 \<noteq> length s;
              (post, f, scale, s2) =
                (if s1 \<noteq> [] \<and> hd s1 = CHR ''.''
                 then (case leadingFraction False 0 1 (tl s1) of (f, scale, r) \<Rightarrow> (length r \<noteq> length (tl s1), f, scale, r))
                 else (False, 0, 1, s1));
              u = takeWhile inUnit s2; s3 = dropWhile inUnit s2
          in if (\<not> pre \<and> \<not> post) \<or> u = [] then None
             else case durationUnit u of None \<Rightarrow> None
             | Some unit \<Rightarrow>
                 if v > maxInt64 div unit then None
                 else let w = v * unit + (if f > 0 then f * unit div scale else 0)
                      in if w > maxInt64 then None else Some (w, s3))"

lemma leadingInt_length: "leadingInt x s = Some (y, r) \<Longrightarrow> length r \<le> length s"
proof (induction x s rule: leadingInt.induct)
  case (2 x c cs)
  then show ?case by (force simp: Let_def split: if_splits)
qed simp

lemma leadingFraction_length: "leadingFraction b x k s = (y, k', r) \<Longrightarrow> length r \<le> length s"
proof (induction b x k s rule: leadingFraction.induct)
  case (2 over x scale c cs)
  then show ?case by (force simp: Let_def split: if_splits)
qed simp

lemma durationPart_length:
  assumes "durationPart s = Some (v, r)"
  shows "length r < length s"
proof -
  obtain x s1 where s1: "leadingInt 0 s = Some (x, s1)"
    using assms by (auto simp: durationPart_def split: if_splits option.splits)
  have drop: "length (dropWhile inUnit t) < length t" if "takeWhile inUnit t \<noteq> []" for t
    using that by (cases t) (auto simp: le_imp_less_Suc length_dropWhile_le split: if_splits)
  obtain f k s2 where s2: "leadingFraction False 0 1 (tl s1) = (f, k, s2)" by (metis prod_cases3)
  have len: "length s1 \<le> length s" "length s2 \<le> length s1"
    using leadingInt_length[OF s1] leadingFraction_length[OF s2] by simp_all
  have "r = dropWhile inUnit s1 \<and> takeWhile inUnit s1 \<noteq> [] \<or> r = dropWhile inUnit s2 \<and> takeWhile inUnit s2 \<noteq> []"
    using assms s1 s2 by (auto simp: durationPart_def Let_def split: if_splits option.splits)
  then show ?thesis using drop[of s1] drop[of s2] len by auto
qed

function parseParts :: "int \<Rightarrow> string \<Rightarrow> int option" where
  "parseParts d s =
     (if s = [] then Some d
      else case durationPart s of None \<Rightarrow> None
      | Some (w, r) \<Rightarrow> if d + w > maxInt64 then None else parseParts (d + w) r)"
  by pat_completeness auto
termination by (relation "measure (\<lambda>(d, s). length s)") (auto dest: durationPart_length)

declare parseParts.simps [simp del]

definition parseDuration :: "string \<Rightarrow> err + duration" where
  "parseDuration orig =
     (let neg = (orig \<noteq> [] \<and> hd orig = CHR ''-'');
          s = (if orig \<noteq> [] \<and> (hd orig = CHR ''-'' \<or> hd orig = CHR ''+'') then tl orig else orig)
      in if s = ''0'' then Inr 0
         else if s = [] then Inl badDuration
         else case parseParts 0 s of None \<Rightarrow> Inl badDuration | Some d \<Rightarrow> Inr (if neg then - d else d))"

section \<open>Formatting\<close>

text \<open>\<^verbatim>\<open>fmtFrac\<close>: the fraction of \<open>v / 10 ^ p\<close> without trailing zeros, and the whole part.\<close>

definition dropZeros :: "string \<Rightarrow> string" where
  "dropZeros s = rev (dropWhile (\<lambda>c. c = CHR ''0'') (rev s))"

definition fmtFrac :: "nat \<Rightarrow> nat \<Rightarrow> string" where
  "fmtFrac p v =
     (let ds = dropZeros (zeroPad p (int (v mod 10 ^ p)))
      in natStr (v div 10 ^ p) @ (if ds = [] then [] else CHR ''.'' # ds))"

definition durationString :: "duration \<Rightarrow> string" where
  "durationString d =
     (let u = nat \<bar>d\<bar>; sign = (if d < 0 then ''-'' else [])
      in if u = 0 then ''0s''
         else if u < 1000 then sign @ natStr u @ ''ns''
         else if u < 1000000 then sign @ fmtFrac 3 u @ microSign @ ''s''
         else if u < 1000000000 then sign @ fmtFrac 6 u @ ''ms''
         else let secs = u div 1000000000; mins = secs div 60; hours = mins div 60;
                  sec = fmtFrac 9 (secs mod 60 * 1000000000 + u mod 1000000000) @ ''s''
              in sign @ (if mins = 0 then sec
                         else (if hours = 0 then natStr mins else natStr hours @ ''h'' @ natStr (mins mod 60)) @ ''m'' @ sec))"

end
