(* ===== verification/ServerApi.thy ===== *)
theory ServerApi
  imports Server Duration
begin

text \<open>
  The other handlers of the server that keep their data in the \<^verbatim>\<open>Redis\<close> interface: discovery
  messages (\<^verbatim>\<open>http/server/disco.go\<close>), invite codes (\<^verbatim>\<open>invitecode.go\<close>) and shared secrets
  (\<^verbatim>\<open>share.go\<close>), with the helpers of \<^verbatim>\<open>server.go\<close> and \<^verbatim>\<open>param.go\<close> they use. The record \<open>api\<close>
  has the server's settings and the third-party functions these handlers call beyond \<open>web\<close>.
\<close>

section \<open>Settings and third-party functions\<close>

text \<open>\<^verbatim>\<open>user.Result\<close> and \<^verbatim>\<open>users.SearchResult\<close> of \<^verbatim>\<open>keys/users\<close>, as far as the server reads them.\<close>

record userResult =
  urName :: string
  urService :: string
  urKID :: string
  urSeq :: int
  urURL :: string
  urStatus :: string
  urStatement :: string
  urVerifiedAt :: int
  urTimestamp :: int
  urProxied :: bool
  urErr :: string

record searchResult =
  sresResult :: "userResult option"
  sresField :: string

text \<open>\<^verbatim>\<open>api.User\<close>.\<close>

record apiUser =
  auID :: string
  auName :: string
  auKID :: string
  auSeq :: int
  auService :: string
  auURL :: string
  auStatus :: string
  auStatement :: string
  auVerifiedAt :: int
  auTimestamp :: int
  auMatchField :: string
  auErr :: string

type_synonym metadata = "gotime \<times> gotime"

text \<open>A task queue: method, URL, authorization, priority.\<close>

type_synonym ('f, 'r) tasks = "string \<Rightarrow> string \<Rightarrow> string \<Rightarrow> int \<Rightarrow> (('f, 'r) server, unit) op"

record ('f, 'r, 'st) api =
  apAdmins :: "string list"
  apInternalAuth :: string
  apTasks :: "('f, 'r) tasks"
  \<comment> \<open>keys.NewAddress(kid, rid).String(), keys.RandWords(3) by draw\<close>
  apAddress :: "string \<Rightarrow> string \<Rightarrow> err + string"
  apRandWords :: "nat \<Rightarrow> string"
  \<comment> \<open>JSON of an invite and of the responses\<close>
  apInviteM :: "string \<Rightarrow> string \<Rightarrow> string"
  apInviteU :: "string \<Rightarrow> err + string \<times> string"
  apCodeM :: "string \<Rightarrow> string"
  apInviteRespM :: "string \<Rightarrow> string \<Rightarrow> string"
  apUsersM :: "apiUser option list \<Rightarrow> string"
  apUserM :: "apiUser option \<Rightarrow> string"
  apSigchainM :: "string \<Rightarrow> (string \<rightharpoonup> metadata) option \<Rightarrow> 'st list \<Rightarrow> string"
  \<comment> \<open>keys/users, on the document store; user.StatusConnFailure, user.StatusContentNotFound\<close>
  apConnFailure :: string
  apContentNotFound :: string
  apUpdate :: "string \<Rightarrow> ('f, userResult option) op"
  apStatus :: "string \<Rightarrow> ('f, string list) op"
  apExpired :: "duration \<Rightarrow> duration \<Rightarrow> ('f, string list) op"
  apKIDs :: "('f, string list) op"
  apSearch :: "string \<Rightarrow> int \<Rightarrow> ('f, searchResult option list) op"
  apUser :: "string \<Rightarrow> ('f, userResult option) op"
  apFind :: "string \<Rightarrow> ('f, userResult option) op"
  apExisting :: "string \<Rightarrow> 'st list \<Rightarrow> ('f, string) op"
  apIndex :: "string \<Rightarrow> ('f, unit) op"
  \<comment> \<open>keys.Statement: JSON (null is a nil pointer), its fields and checks; keys.Sigchain\<close>
  apStU :: "string \<Rightarrow> err + 'st option"
  apStBytes :: "'st \<Rightarrow> err + string"
  apStVerify :: "'st \<Rightarrow> err option"
  apStKID :: "'st \<Rightarrow> string"
  apStSeq :: "'st \<Rightarrow> int"
  apStData :: "'st \<Rightarrow> gobytes"
  apStURL :: "'st \<Rightarrow> string"
  apStM :: "'st \<Rightarrow> string"
  apWithSeq :: "string \<Rightarrow> int \<Rightarrow> string"
  apAdd :: "string \<Rightarrow> 'st list \<Rightarrow> 'st option \<Rightarrow> err + 'st list"
  apVerify :: "string \<Rightarrow> 'st list \<Rightarrow> 'st \<Rightarrow> 'st option \<Rightarrow> err option"
  \<comment> \<open>dstore.NewStringSetSplit(s, ",").Contains(x), Time.Format\<close>
  apIncludes :: "string \<Rightarrow> string \<Rightarrow> bool"
  apTimeHTTP :: "gotime \<Rightarrow> string"
  apTimeMilli :: "gotime \<Rightarrow> string"

section \<open>Helpers\<close>

text \<open>\<^verbatim>\<open>c.Blob\<close> and \<^verbatim>\<open>c.String\<close>.\<close>

definition Blob :: "nat \<Rightarrow> string \<Rightarrow> string \<Rightarrow> hresp" where
  "Blob status typ b = \<lparr>hsStatus = status, hsHeaders = [(''Content-Type'', typ)], hsBody = b\<rparr>"

definition octetStream :: string where
  "octetStream = ''application/octet-stream''"

definition textPlain :: string where
  "textPlain = ''text/plain; charset=UTF-8''"

text \<open>
  A response written after another: the status and headers are sent with the first, and the
  body is appended.
\<close>

definition writeAfter :: "hresp option \<Rightarrow> hresp \<Rightarrow> hresp" where
  "writeAfter first r = (case first of None \<Rightarrow> r | Some r0 \<Rightarrow> r0\<lparr>hsBody := hsBody r0 @ hsBody r\<rparr>)"

text \<open>
  \<^verbatim>\<open>checkInternalAuth\<close> returns what \<^verbatim>\<open>ErrForbidden\<close> returns, the error of writing the response,
  which is nil: the result here is the response it has written, if any.
\<close>

definition checkInternalAuth :: "web \<Rightarrow> ('f, 'r, 'st) api \<Rightarrow> ctx \<Rightarrow> hresp option" where
  "checkInternalAuth W A c =
     (if apInternalAuth A = [] then Some (ErrForbidden W (Err ''no auth token set on server''))
      else let auth = headerGet (cxHeaders c) ''Authorization''
           in if auth = [] then Some (ErrForbidden W (Err ''no auth token specified''))
              else if auth \<noteq> apInternalAuth A then Some (ErrForbidden W (Err ''invalid auth token''))
              else None)"

text \<open>\<^verbatim>\<open>readBody\<close>; the request's body is read in full.\<close>

definition readBody :: "ctx \<Rightarrow> bool \<Rightarrow> nat \<Rightarrow> err + string" where
  "readBody c required maxLength =
     (case cxBody c of
        None \<Rightarrow> if \<not> required then Inr [] else Inl (newError 400 (Err ''missing body''))
      | Some b \<Rightarrow>
          if length b > maxLength then Inl (newError 413 (Err ''request too large''))
          else if length b = 0 \<and> required then Inl (newError 400 (Err ''no body data''))
          else Inr b)"

definition queryParamDuration :: "ctx \<Rightarrow> string \<Rightarrow> duration \<Rightarrow> err + duration" where
  "queryParamDuration c name dft =
     (let param = cxQueryParam c name
      in if param = [] then Inr dft
         else case parseDuration param of
                Inl e \<Rightarrow> Inl (Wrapped (''invalid '' @ name) e) | Inr d \<Rightarrow> Inr d)"

definition emptyJSON :: hresp where
  "emptyJSON = JSON 200 ''{}''"

text \<open>The result of a step, or the response the handler writes for its error.\<close>

abbreviation step ::
  "('s, 'a) op \<Rightarrow> (err \<Rightarrow> hresp) \<Rightarrow> ('a \<Rightarrow> ('s, hresp) op) \<Rightarrow> ('s, hresp) op" where
  "step m h k \<equiv> orElse m (\<lambda>e. ret (h e)) k"

section \<open>disco.go\<close>

definition shortType :: "string \<Rightarrow> err + string" where
  "shortType s = (if s = ''offer'' then Inr ''o'' else if s = ''answer'' then Inr ''a''
     else Inl (Panic ''invalid type''))"

definition discoKey :: "('f, 'r, 'st) api \<Rightarrow> string \<Rightarrow> string \<Rightarrow> string \<Rightarrow> err + string" where
  "discoKey A kid rid typ =
     (case (if kid \<noteq> rid
            then (case apAddress A kid rid of Inl e \<Rightarrow> Inl (Panic (errText e)) | Inr a \<Rightarrow> Inr a)
            else Inr kid) of
        Inl e \<Rightarrow> Inl e
      | Inr addr \<Rightarrow> (case shortType typ of Inl e \<Rightarrow> Inl e | Inr t \<Rightarrow> Inr (''d-'' @ addr @ ''-'' @ t)))"

definition discoTypeOk :: "web \<Rightarrow> string \<Rightarrow> hresp option" where
  "discoTypeOk W typ =
     (if typ = [] then Some (ErrBadRequest W (Err ''no type''))
      else if typ \<noteq> ''offer'' \<and> typ \<noteq> ''answer'' then Some (ErrBadRequest W (Err ''invalid type''))
      else None)"

definition putDisco :: "web \<Rightarrow> ('f, 'r) env \<Rightarrow> ('f, 'r, 'st) api \<Rightarrow> ('f, 'r) handler" where
  "putDisco W V A c =
     (case cxBody c of
        None \<Rightarrow> ret (ErrBadRequest W (Err ''missing body''))
      | Some b \<Rightarrow>
          if length b > 256 then ret (ErrBadRequest W (Err ''message too large (greater than 256 bytes)''))
          else
          step (srvAuth W V c (newAuthRequest ''Authorization'' ''kid'' (Some b))) (ErrForbidden W) (\<lambda>kid.
          let recipient = cxParam c ''rid''
          in if recipient = [] then ret (ErrBadRequest W (Err ''no recipient id specified''))
             else step (lift (wParseID W recipient)) (ErrBadRequest W) (\<lambda>rid.
             let typ = cxParam c ''type''
             in case discoTypeOk W typ of Some r \<Rightarrow> ret r
             | None \<Rightarrow>
                 step (lift (queryParamDuration c ''expire'' (15 * second))) (ErrBadRequest W) (\<lambda>expire.
                 if length (durationString expire) > 64 then ret (ErrBadRequest W (Err ''invalid expire''))
                 else if expire > minute then ret (ErrBadRequest W (Err ''max expire is 1m''))
                 else bnd (lift (discoKey A kid rid typ)) (\<lambda>key.
                   step (onRedis (rdSet (enRedis V) key b)) (ErrResponse W) (\<lambda>_.
                   step (onRedis (rdExpire (enRedis V) key expire)) (ErrResponse W) (\<lambda>_.
                   ret emptyJSON)))))))"

text \<open>The value of a key is given out once.\<close>

definition takeValue :: "web \<Rightarrow> ('f, 'r) env \<Rightarrow> string \<Rightarrow> (('f, 'r) server, hresp) op" where
  "takeValue W V key =
     step (onRedis (rdGet (enRedis V) key)) (ErrResponse W) (\<lambda>out.
     if out = [] then ret (errNotFound W None)
     else step (onRedis (rdDelete (enRedis V) key)) (ErrResponse W) (\<lambda>_.
          ret (Blob 200 octetStream out)))"

definition getDisco :: "web \<Rightarrow> ('f, 'r) env \<Rightarrow> ('f, 'r, 'st) api \<Rightarrow> ('f, 'r) handler" where
  "getDisco W V A c =
     step (srvAuth W V c (newAuthRequest ''Authorization'' ''rid'' None)) (ErrForbidden W) (\<lambda>auth.
     let sender = cxParam c ''kid''
     in if sender = [] then ret (ErrBadRequest W (Err ''no kid specified''))
        else step (lift (wParseID W sender)) (ErrBadRequest W) (\<lambda>kid.
        let typ = cxParam c ''type''
        in case discoTypeOk W typ of Some r \<Rightarrow> ret r
        | None \<Rightarrow> bnd (lift (discoKey A kid auth typ)) (\<lambda>key. takeValue W V key)))"

definition deleteDisco :: "web \<Rightarrow> ('f, 'r) env \<Rightarrow> ('f, 'r, 'st) api \<Rightarrow> ('f, 'r) handler" where
  "deleteDisco W V A c =
     step (srvAuth W V c (newAuthRequest ''Authorization'' ''kid'' None)) (ErrForbidden W) (\<lambda>kid.
     let recipient = cxParam c ''rid''
     in if recipient = [] then ret (ErrBadRequest W (Err ''no recipient id specified''))
        else step (lift (wParseID W recipient)) (ErrBadRequest W) (\<lambda>rid.
        bnd (lift (discoKey A kid rid ''offer'')) (\<lambda>okey.
        step (onRedis (rdDelete (enRedis V) okey)) (ErrResponse W) (\<lambda>_.
        bnd (lift (discoKey A kid rid ''answer'')) (\<lambda>akey.
        step (onRedis (rdDelete (enRedis V) akey)) (ErrResponse W) (\<lambda>_.
        ret emptyJSON))))))"

section \<open>invitecode.go\<close>

definition randWords :: "('f, 'r, 'st) api \<Rightarrow> (('f, 'r) server, string) op" where
  "randWords A = (\<lambda>s. (Inr (apRandWords A (srvDraws s)), s\<lparr>srvDraws := Suc (srvDraws s)\<rparr>))"

text \<open>The loop that picks a code, with the rounds left: it looks up \<open>code\<close>, which is still empty
  then.\<close>

primrec pickCode :: "('f, 'r) env \<Rightarrow> ('f, 'r, 'st) api \<Rightarrow> nat \<Rightarrow> string \<Rightarrow> (('f, 'r) server, string) op" where
  "pickCode V A 0 code = ret code"
| "pickCode V A (Suc n) code =
     bnd (randWords A) (\<lambda>words.
     bnd (onRedis (rdGet (enRedis V) code)) (\<lambda>existing.
     if existing \<noteq> [] then pickCode V A n code else ret words))"

definition codeKey :: "string \<Rightarrow> string" where
  "codeKey code = ''code '' @ code"

definition postInviteCode :: "web \<Rightarrow> ('f, 'r) env \<Rightarrow> ('f, 'r, 'st) api \<Rightarrow> ('f, 'r) handler" where
  "postInviteCode W V A c =
     step (srvAuth W V c (newAuthRequest ''Authorization'' ''kid'' None)) (ErrForbidden W) (\<lambda>kid.
     let recipient = cxParam c ''rid''
     in if recipient = [] then ret (ErrBadRequest W (Err ''no recipient id''))
        else step (lift (wParseID W recipient)) (ErrBadRequest W) (\<lambda>rid.
        let ib = apInviteM A kid rid
        in step (pickCode V A 3 []) (ErrResponse W) (\<lambda>code.
           if code = [] then ret (ErrResponse W (Err ''invite code conflict''))
           else step (onRedis (rdSet (enRedis V) (codeKey code) ib)) (ErrResponse W) (\<lambda>_.
                step (onRedis (rdExpire (enRedis V) (codeKey code) hour)) (ErrResponse W) (\<lambda>_.
                ret (JSON 200 (apCodeM A code)))))))"

text \<open>An error of \<^verbatim>\<open>url.QueryUnescape\<close>.\<close>

definition unescape :: "string \<Rightarrow> err + string" where
  "unescape s = (case queryUnescape s of None \<Rightarrow> Inl (LibErr ''invalid URL escape'') | Some t \<Rightarrow> Inr t)"

definition getInviteCode :: "web \<Rightarrow> ('f, 'r) env \<Rightarrow> ('f, 'r, 'st) api \<Rightarrow> ('f, 'r) handler" where
  "getInviteCode W V A c =
     step (srvAuth W V c (newAuthRequest ''Authorization'' [] None)) (ErrForbidden W) (\<lambda>auth.
     step (lift (unescape (cxParam c ''code''))) (ErrBadRequest W) (\<lambda>code.
     step (onRedis (rdGet (enRedis V) (codeKey code))) (ErrResponse W) (\<lambda>out.
     if out = [] then ret (errNotFound W (Some (Err ''code not found'')))
     else step (lift (apInviteU A out)) (ErrResponse W) (\<lambda>(sender, recipient).
          if recipient \<noteq> auth \<and> sender \<noteq> auth then ret (errNotFound W (Some (Err ''code not found'')))
          else ret (JSON 200 (apInviteRespM A sender recipient))))))"

section \<open>share.go\<close>

definition putShare :: "web \<Rightarrow> ('f, 'r) env \<Rightarrow> ('f, 'r) handler" where
  "putShare W V c =
     (case cxBody c of
        None \<Rightarrow> ret (ErrBadRequest W (Err ''missing body''))
      | Some b \<Rightarrow>
          if length b > 512 then ret (ErrBadRequest W (Err ''message too large (greater than 512 bytes)''))
          else
          step (srvAuth W V c (newAuthRequest ''Authorization'' ''kid'' (Some b))) (ErrForbidden W) (\<lambda>kid.
          step (lift (if cxQueryParam c ''expire'' = [] then Inr (5 * minute) else parseDuration (cxQueryParam c ''expire'')))
            (ErrBadRequest W) (\<lambda>expire.
          if length (durationString expire) > 64 then ret (ErrBadRequest W (Err ''invalid expire''))
          else if expire > 15 * minute then ret (ErrBadRequest W (Err ''max expire is 15m''))
          else let key = ''s-'' @ kid
               in step (onRedis (rdSet (enRedis V) key b)) (ErrResponse W) (\<lambda>_.
                  step (onRedis (rdExpire (enRedis V) key expire)) (ErrResponse W) (\<lambda>_.
                  ret emptyJSON)))))"

definition getShare :: "web \<Rightarrow> ('f, 'r) env \<Rightarrow> ('f, 'r) handler" where
  "getShare W V c =
     step (srvAuth W V c (newAuthRequest ''Authorization'' ''kid'' None)) (ErrForbidden W) (\<lambda>kid.
     takeValue W V (''s-'' @ kid))"

end
