(* ===== verification/ServerUsers.thy ===== *)
theory ServerUsers
  imports ServerApi
begin

text \<open>
  The handlers of the server for sigchains (\<^verbatim>\<open>http/server/sigchain.go\<close>), users (\<^verbatim>\<open>user.go\<close>,
  \<^verbatim>\<open>api/user.go\<close>), the tasks that check them (\<^verbatim>\<open>tasks.go\<close>, \<^verbatim>\<open>check.go\<close>, \<^verbatim>\<open>admin.go\<close>) and
  batches (\<^verbatim>\<open>batch.go\<close>, \<^verbatim>\<open>api/batch.go\<close>), tweets (\<^verbatim>\<open>twitter.go\<close>). Sigchains, statements and the index of users belong to the \<^verbatim>\<open>keys\<close>
  module: they are functions of the record \<open>api\<close>.
\<close>

section \<open>tasks.go and check.go\<close>

definition HighPriority :: int where "HighPriority = 1"
definition LowPriority :: int where "LowPriority = 100"

definition noTasks :: "('f, 'r) tasks" where
  "noTasks method url authToken priority = fail (Err ''no server tasks set'')"

text \<open>Tasks for tests are requests served at once; \<open>serve\<close> is the server's handler.\<close>

definition testTasks :: "(hreq \<Rightarrow> (('f, 'r) server, hresp) op) \<Rightarrow> ('f, 'r) tasks" where
  "testTasks serve method url authToken priority =
     bnd (serve \<lparr>hrMethod = method, hrURL = url, hrHeaders = [(''Authorization'', authToken)], hrBody = []\<rparr>) (\<lambda>rr.
     failIf (hsStatus rr \<noteq> 200) (Err (''task error '' @ natStr (hsStatus rr))))"

definition okString :: hresp where
  "okString = Blob 200 textPlain []"

text \<open>The handler goes on after a failed check of the internal authorization.\<close>

definition taskCheck :: "web \<Rightarrow> ('f, 'r, 'st) api \<Rightarrow> ('f, 'r) handler" where
  "taskCheck W A c =
     (let written = checkInternalAuth W A c
      in bnd (step (lift (wParseID W (cxParam c ''kid''))) (ErrBadRequest W) (\<lambda>kid.
              step (onFire (apUpdate A kid)) (ErrResponse W) (\<lambda>_. ret okString))) (\<lambda>r.
         ret (writeAfter written r)))"

definition checkKID :: "('f, 'r, 'st) api \<Rightarrow> string \<Rightarrow> int \<Rightarrow> (('f, 'r) server, unit) op" where
  "checkKID A kid priority = apTasks A ''POST'' (''/task/check/'' @ kid) (apInternalAuth A) priority"

definition queueKeyChecks :: "('f, 'r, 'st) api \<Rightarrow> string list \<Rightarrow> (('f, 'r) server, unit) op" where
  "queueKeyChecks A kids =
     forEach kids (\<lambda>kid. apTasks A ''POST'' (''/task/check/'' @ kid) (apInternalAuth A) LowPriority)"

definition queueByUserStatus :: "('f, 'r, 'st) api \<Rightarrow> string \<Rightarrow> (('f, 'r) server, unit) op" where
  "queueByUserStatus A status = bnd (onFire (apStatus A status)) (queueKeyChecks A)"

definition queueByExpired :: "('f, 'r, 'st) api \<Rightarrow> duration \<Rightarrow> duration \<Rightarrow> (('f, 'r) server, unit) op" where
  "queueByExpired A dt maxAge = bnd (onFire (apExpired A dt maxAge)) (queueKeyChecks A)"

definition cronCheck :: "web \<Rightarrow> ('f, 'r, 'st) api \<Rightarrow> ('f, 'r) handler" where
  "cronCheck W A c =
     step (queueByUserStatus A (apConnFailure A)) (ErrResponse W) (\<lambda>_.
     step (queueByExpired A (12 * hour) (24 * 60 * hour)) (ErrResponse W) (\<lambda>_.
     ret okString))"

definition check :: "web \<Rightarrow> ('f, 'r) env \<Rightarrow> ('f, 'r, 'st) api \<Rightarrow> ('f, 'r) handler" where
  "check W V A c =
     step (srvAuth W V c (newAuthRequest ''Authorization'' [] None)) (ErrForbidden W) (\<lambda>kid.
     step (checkKID A kid HighPriority) (ErrResponse W) (\<lambda>_.
     ret emptyJSON))"

section \<open>admin.go\<close>

definition isAdmin :: "('f, 'r, 'st) api \<Rightarrow> string \<Rightarrow> bool" where
  "isAdmin A kid \<longleftrightarrow> kid \<in> set (apAdmins A)"

definition adminCheck :: "web \<Rightarrow> ('f, 'r) env \<Rightarrow> ('f, 'r, 'st) api \<Rightarrow> ('f, 'r) handler" where
  "adminCheck W V A c =
     step (srvAuth W V c (newAuthRequest ''Authorization'' [] None)) (ErrForbidden W) (\<lambda>kid.
     if \<not> isAdmin A kid then ret (ErrForbidden W (Err ''not authorized''))
     else let what = cxParam c ''kid''
          in if what = ''all'' then
               step (onFire (apKIDs A)) (ErrResponse W) (\<lambda>kids.
               step (queueKeyChecks A kids) (ErrResponse W) (\<lambda>_. ret emptyJSON))
             else if what = ''content-not-found'' then
               step (queueByUserStatus A (apContentNotFound A)) (ErrResponse W) (\<lambda>_. ret emptyJSON)
             else if what = ''connection-fail'' then
               step (queueByUserStatus A (apConnFailure A)) (ErrResponse W) (\<lambda>_. ret emptyJSON)
             else if what = ''expired'' then
               step (queueByExpired A (6 * hour) (24 * 7 * hour)) (ErrResponse W) (\<lambda>_. ret emptyJSON)
             else
               step (lift (wParseID W what)) (\<lambda>e. errNotFound W (Some (Err ''invalid kid''))) (\<lambda>kid.
               step (checkKID A kid HighPriority) (ErrResponse W) (\<lambda>_. ret emptyJSON)))"

section \<open>sigchain.go\<close>

definition statementFromBytes :: "('f, 'r, 'st) api \<Rightarrow> string \<Rightarrow> err + 'st" where
  "statementFromBytes A b =
     (case apStU A b of Inl e \<Rightarrow> Inl e
      | Inr None \<Rightarrow> Inl (Panic ''nil pointer'')
      | Inr (Some st) \<Rightarrow>
          (case apStBytes A st of Inl e \<Rightarrow> Inl e
           | Inr bout \<Rightarrow>
               if b \<noteq> bout then Inl (Err ''invalid statement bytes'')
               else (case apStVerify A st of Some e \<Rightarrow> Inl e | None \<Rightarrow> Inr st)))"

text \<open>The statements of the documents listed, added to a chain one by one.\<close>

primrec addStatements ::
  "web \<Rightarrow> ('f, 'r, 'st) api \<Rightarrow> string \<Rightarrow> 'st list \<times> (string \<rightharpoonup> metadata) \<Rightarrow> document list \<Rightarrow> err + 'st list \<times> (string \<rightharpoonup> metadata)" where
  "addStatements W A kid acc [] = Inr acc"
| "addStatements W A kid acc (d # ds) =
     (case apStU A (bstr (wEventData W (doFields d))) of Inl e \<Rightarrow> Inl e
      | Inr st \<Rightarrow>
          (case apAdd A kid (fst acc) st of Inl e \<Rightarrow> Inl e
           | Inr sc \<Rightarrow>
               (case st of None \<Rightarrow> Inl (Panic ''nil pointer'')
                | Some s \<Rightarrow> addStatements W A kid (sc, (snd acc)(apStURL A s \<mapsto> (doCreatedAt d, doUpdatedAt d))) ds)))"

definition sigchain :: "web \<Rightarrow> ('f, 'r) env \<Rightarrow> ('f, 'r, 'st) api \<Rightarrow> string \<Rightarrow> (('f, 'r) server, 'st list \<times> (string \<rightharpoonup> metadata)) op" where
  "sigchain W V A kid =
     bnd (onFire (fDocs (enFire V) ''sigchain'' (prefixOpts kid))) (\<lambda>(ds, end).
     bnd (lift (addStatements W A kid ([], Map.empty) ds)) (\<lambda>r.
     case end of Some e \<Rightarrow> fail e | None \<Rightarrow> ret r))"

definition getSigchain :: "web \<Rightarrow> ('f, 'r) env \<Rightarrow> ('f, 'r, 'st) api \<Rightarrow> ('f, 'r) handler" where
  "getSigchain W V A c =
     step (lift (wParseID W (cxParam c ''kid''))) (\<lambda>e. errNotFound W None) (\<lambda>kid.
     step (sigchain W V A kid) (ErrResponse W) (\<lambda>(sc, md).
     if length sc = 0 then ret (errNotFound W (Some (Err ''sigchain not found'')))
     else ret (JSON 200 (apSigchainM A kid (if apIncludes A (cxQueryParam c ''include'') ''md'' then Some md else None) sc))))"

text \<open>\<open>statement\<close>: nil when there is no such document.\<close>

definition statement :: "web \<Rightarrow> ('f, 'r) env \<Rightarrow> ('f, 'r, 'st) api \<Rightarrow> string \<Rightarrow> (('f, 'r) server, ('st \<times> document) option) op" where
  "statement W V A path =
     bnd (onFire (fGet (enFire V) path)) (\<lambda>e.
     case e of None \<Rightarrow> ret None
     | Some d \<Rightarrow> bnd (lift (statementFromBytes A (bstr (wEventData W (doFields d))))) (\<lambda>st. ret (Some (st, d))))"

definition timeHeaders :: "('f, 'r, 'st) api \<Rightarrow> document \<Rightarrow> (string \<times> string) list" where
  "timeHeaders A d =
     (if isZeroTime (doCreatedAt d) then []
      else [(''CreatedAt'', apTimeHTTP A (doCreatedAt d)), (''CreatedAt-RFC3339M'', apTimeMilli A (doCreatedAt d))]) @
     (if isZeroTime (doUpdatedAt d) then []
      else [(''Last-Modified'', apTimeHTTP A (doUpdatedAt d)), (''Last-Modified-RFC3339M'', apTimeMilli A (doUpdatedAt d))])"

text \<open>The statement is nil whenever there is an error, and that is tested first: an error is a
  \<^verbatim>\<open>404\<close> too.\<close>

definition getSigchainStatement :: "'z ext_scheme \<Rightarrow> web \<Rightarrow> ('f, 'r) env \<Rightarrow> ('f, 'r, 'st) api \<Rightarrow> ('f, 'r) handler" where
  "getSigchainStatement X W V A c =
     step (lift (wParseID W (cxParam c ''kid''))) (\<lambda>e. errNotFound W (Some e)) (\<lambda>kid.
     step (lift (parseInt (cxParam c ''seq''))) (\<lambda>e. errNotFound W (Some e)) (\<lambda>i.
     let path = xPath X [''sigchain'', apWithSeq A kid i]
     in step (statement W V A path) (\<lambda>e. errNotFound W (Some (Err ''statement not found''))) (\<lambda>r.
        case r of None \<Rightarrow> ret (errNotFound W (Some (Err ''statement not found'')))
        | Some (st, d) \<Rightarrow>
            ret ((JSON 200 (apStM A st))\<lparr>hsHeaders := timeHeaders A d @ hsHeaders (JSON 200 (apStM A st))\<rparr>))))"

definition userExists :: "string \<Rightarrow> err" where
  "userExists kid = Err (''user already exists with key '' @ kid @
     '', if you removed or revoked the previous statement you may need to wait briefly for search to update'')"

definition putSigchainStatement :: "'z ext_scheme \<Rightarrow> web \<Rightarrow> ('f, 'r) env \<Rightarrow> ('f, 'r, 'st) api \<Rightarrow> ('f, 'r) handler" where
  "putSigchainStatement X W V A c =
     (case cxBody c of
        None \<Rightarrow> ret (ErrBadRequest W (Err ''missing body''))
      | Some b \<Rightarrow>
          step (lift (statementFromBytes A b)) (ErrBadRequest W) (\<lambda>st.
          let kid = apStKID A st; seq = apStSeq A st; path = xPath X [''sigchain'', apWithSeq A kid seq]
          in if glen (apStData A st) > 16 * 1024
               then ret (ErrBadRequest W (Err ''too much data for sigchain statement (greater than 16KiB)''))
             else if cxParam c ''kid'' \<noteq> kid then ret (ErrBadRequest W (Err ''invalid kid''))
             else if cxParam c ''seq'' \<noteq> formatInt seq then ret (ErrBadRequest W (Err ''invalid seq''))
             else if seq \<le> 0 then ret (ErrBadRequest W (Err ''invalid seq''))
             else
             step (onFire (fExists (enFire V) path)) (ErrResponse W) (\<lambda>exists.
             if exists then ret (ErrConflict W (Err ''statement already exists''))
             else step (sigchain W V A kid) (ErrResponse W) (\<lambda>(sc, _).
             if length sc \<ge> 1024
               then ret (ErrEntityTooLarge W (Err ''sigchain limit reached, contact gabriel@github to bump the limits''))
             else case apVerify A kid sc st (if sc = [] then None else Some (last sc)) of
               Some e \<Rightarrow> ret (ErrBadRequest W e)
             | None \<Rightarrow>
             step (lift (apAdd A kid sc (Some st))) (ErrBadRequest W) (\<lambda>sc'.
             step (onFire (apExisting A kid sc')) (ErrResponse W) (\<lambda>existing.
             if existing \<noteq> []
             then step (checkKID A existing HighPriority) (ErrResponse W) (\<lambda>_.
                  ret (ErrConflict W (userExists existing)))
             else
             step (onFire (fCreate (enFire V) path (wData W (Some b)))) (ErrResponse W) (\<lambda>_.
             step (onFire (apIndex A kid)) (ErrResponse W) (\<lambda>_.
             step (checkKID A kid HighPriority) (ErrResponse W) (\<lambda>_.
             ret emptyJSON))))))))) "

text \<open>The aliases answer for one host, which net/http takes from the Host header.\<close>

definition aliased :: "web \<Rightarrow> ('f, 'r) handler \<Rightarrow> ('f, 'r) handler" where
  "aliased W h c = (if headerGet (cxHeaders c) ''Host'' = ''sigcha.in'' then h c else ret (errNotFound W None))"

section \<open>user.go and api/user.go\<close>

definition UserFromResult :: "userResult option \<Rightarrow> apiUser option" where
  "UserFromResult result = map_option (\<lambda>r.
     \<lparr>auID = urName r @ ''@'' @ urService r, auName = urName r, auKID = urKID r, auSeq = urSeq r,
      auService = urService r, auURL = urURL r, auStatus = urStatus r, auStatement = urStatement r,
      auVerifiedAt = urVerifiedAt r, auTimestamp = urTimestamp r, auMatchField = [], auErr = urErr r\<rparr>) result"

definition UserFromSearchResult :: "searchResult option \<Rightarrow> apiUser option" where
  "UserFromSearchResult sr =
     (case sr of None \<Rightarrow> None
      | Some s \<Rightarrow> map_option (\<lambda>u. u\<lparr>auMatchField := sresField s\<rparr>) (UserFromResult (sresResult s)))"

definition getUserSearch :: "web \<Rightarrow> ('f, 'r, 'st) api \<Rightarrow> ('f, 'r) handler" where
  "getUserSearch W A c =
     (let q = cxQueryParam c ''q'';
          plimit = (if cxQueryParam c ''limit'' = [] then ''100'' else cxQueryParam c ''limit'')
      in step (lift (parseInt plimit)) (\<lambda>e. ErrBadRequest W (Wrapped ''invalid limit'' e)) (\<lambda>limit.
         step (onFire (apSearch A q limit)) (ErrResponse W) (\<lambda>results.
         ret (JSON 200 (apUsersM A (map UserFromSearchResult results))))))"

definition getUser :: "web \<Rightarrow> ('f, 'r, 'st) api \<Rightarrow> ('f, 'r) handler" where
  "getUser W A c =
     (let param = trimSpace (cxParam c ''user'');
          reply = (\<lambda>u. ret (if u = None then errNotFound W (Some (Err ''user not found''))
                            else JSON 200 (apUserM A (UserFromResult u))))
      in if CHR ''@'' \<in> set param
         then step (onFire (apUser A param)) (ErrResponse W) reply
         else step (lift (wParseID W param)) (\<lambda>e. errNotFound W (Some (Err ''user not found''))) (\<lambda>kid.
              step (onFire (apFind A kid)) (ErrResponse W) reply))"

section \<open>batch.go\<close>

definition batchEnabled :: bool where
  "batchEnabled = False"

record batchRequest =
  brID :: string
  brMethod :: string
  brURL :: string
  brHeaders :: "(string \<times> string) list"

record batchResponse =
  bsID :: string
  bsStatus :: nat
  bsBody :: "string option"

text \<open>One request of a batch, served by \<open>serve\<close>: the responses appended for it. \<open>bad\<close> is an error
  of \<^verbatim>\<open>http.NewRequest\<close>, \<open>isJSON\<close> whether a body decodes; a body that does not decode adds two
  responses.\<close>

definition batchOne ::
  "(batchRequest \<Rightarrow> bool) \<Rightarrow> (string \<Rightarrow> bool) \<Rightarrow> (hreq \<Rightarrow> (('f, 'r) server, hresp) op) \<Rightarrow> batchRequest \<Rightarrow>
   (('f, 'r) server, batchResponse list) op" where
  "batchOne bad isJSON serve req =
     (if bad req then ret [\<lparr>bsID = brID req, bsStatus = 400, bsBody = None\<rparr>]
      else bnd (serve \<lparr>hrMethod = brMethod req, hrURL = brURL req, hrHeaders = brHeaders req, hrBody = []\<rparr>) (\<lambda>resp.
           ret ((if isJSON (hsBody resp) then [] else [\<lparr>bsID = brID req, bsStatus = 400, bsBody = None\<rparr>]) @
                [\<lparr>bsID = brID req, bsStatus = hsStatus resp,
                  bsBody = (if isJSON (hsBody resp) then Some (hsBody resp) else None)\<rparr>])))"

primrec batchAll ::
  "(batchRequest \<Rightarrow> bool) \<Rightarrow> (string \<Rightarrow> bool) \<Rightarrow> (hreq \<Rightarrow> (('f, 'r) server, hresp) op) \<Rightarrow> batchRequest list \<Rightarrow>
   (('f, 'r) server, batchResponse list) op" where
  "batchAll bad isJSON serve [] = ret []"
| "batchAll bad isJSON serve (req # reqs) =
     bnd (batchOne bad isJSON serve req) (\<lambda>rs. bnd (batchAll bad isJSON serve reqs) (\<lambda>rest. ret (rs @ rest)))"

definition postBatch ::
  "web \<Rightarrow> (string \<Rightarrow> err + batchRequest list) \<Rightarrow> (batchResponse list \<Rightarrow> string) \<Rightarrow> (batchRequest \<Rightarrow> bool) \<Rightarrow>
   (string \<Rightarrow> bool) \<Rightarrow> (hreq \<Rightarrow> (('f, 'r) server, hresp) op) \<Rightarrow> ('f, 'r) handler" where
  "postBatch W reqsU respsM bad isJSON serve c =
     (if \<not> batchEnabled then ret (ErrBadRequest W (Err ''batch not enabled''))
      else step (lift (readBody c False (64 * 1024))) (ErrResponse W) (\<lambda>body.
           step (lift (reqsU body)) (\<lambda>e. ErrBadRequest W (Err ''invalid request'')) (\<lambda>reqs.
           if length reqs > 100 then ret (ErrBadRequest W (Err ''invalid request''))
           else bnd (batchAll bad isJSON serve reqs) (\<lambda>rs. ret (JSON 200 (respsM rs))))))"

section \<open>api/batch.go: the client's side of a batch\<close>

text \<open>\<open>newAuth\<close> is \<^verbatim>\<open>http.NewAuth\<close>: the URL with its nonce and the header that signs it.\<close>

definition NewBatchRequest ::
  "(string \<Rightarrow> string \<Rightarrow> string \<Rightarrow> gotime \<Rightarrow> 'k \<Rightarrow> err + string \<times> string) \<Rightarrow> string \<Rightarrow> string \<Rightarrow> string \<Rightarrow> string \<Rightarrow> gotime \<Rightarrow> 'k \<Rightarrow>
   err + batchRequest" where
  "NewBatchRequest newAuth id' method urs contentHash now key =
     (case newAuth method urs contentHash now key of Inl e \<Rightarrow> Inl e
      | Inr (url, header) \<Rightarrow>
          Inr \<lparr>brID = id', brMethod = method, brURL = url, brHeaders = [(''Authorization'', header)]\<rparr>)"

text \<open>The body is encoded again, \<^verbatim>\<open>null\<close> if there is none, and decoded as what is asked for.\<close>

definition batchAs :: "(string option \<Rightarrow> err + string) \<Rightarrow> (string \<Rightarrow> err + 'v) \<Rightarrow> batchResponse \<Rightarrow> err + 'v" where
  "batchAs M U r = (case M (bsBody r) of Inl e \<Rightarrow> Inl e | Inr b \<Rightarrow> U b)"

record batchError =
  beStatus :: nat
  beMessage :: string

definition batchResponseError ::
  "(string option \<Rightarrow> err + string) \<Rightarrow> (string \<Rightarrow> err + batchError) \<Rightarrow> batchResponse \<Rightarrow> batchError option" where
  "batchResponseError M U r =
     (if 200 \<le> bsStatus r \<and> bsStatus r < 300 then None
      else case batchAs M U r of Inl e \<Rightarrow> Some \<lparr>beStatus = bsStatus r, beMessage = []\<rparr> | Inr out \<Rightarrow> Some out)"

text \<open>Decoding \<^verbatim>\<open>null\<close> leaves the zero value and is no error, so that the status of an error without a body,
  which the server gives to a request it cannot make, is lost.\<close>

lemma batch_status_lost:
  assumes "M None = Inr ''null''" "U ''null'' = Inr \<lparr>beStatus = 0, beMessage = []\<rparr>"
  shows "batchResponseError M U \<lparr>bsID = i, bsStatus = 400, bsBody = None\<rparr> = Some \<lparr>beStatus = 0, beMessage = []\<rparr>"
  using assms by (simp add: batchResponseError_def batchAs_def)

section \<open>twitter.go\<close>

text \<open>The user statement of keys/user, and \<^verbatim>\<open>services.Twitter\<close>: the body of the request for a tweet, and its
  verification, a status with the statement and an error.\<close>

record ('f, 'r, 'u) twitter =
  twUser :: "string \<Rightarrow> string \<Rightarrow> string \<Rightarrow> string \<Rightarrow> int \<Rightarrow> err + 'u"
  twRequest :: "'u \<Rightarrow> (('f, 'r) server, gobytes) op"
  twVerify :: "string \<Rightarrow> 'u \<Rightarrow> string \<times> string option \<times> err option"
  twOK :: string

definition checkTwitter :: "web \<Rightarrow> ('f, 'r, 'u) twitter \<Rightarrow> ('f, 'r) handler" where
  "checkTwitter W T c =
     step (lift (wParseID W (cxParam c ''kid''))) (\<lambda>e. ErrBadRequest W (Err ''invalid kid'')) (\<lambda>kid.
     let name = cxParam c ''name''; id' = cxParam c ''id''
     in if name = [] then ret (ErrBadRequest W (Err ''invalid name''))
        else if id' = [] then ret (ErrBadRequest W (Err ''invalid id''))
        else step (lift (twUser T kid ''twitter'' name (''https://twitter.com/'' @ name @ ''/status/'' @ id') 1))
               (ErrBadRequest W) (\<lambda>usr.
             step (twRequest T usr) (\<lambda>e. ErrBadRequest W (Err ''twitter request failed'')) (\<lambda>body.
             case body of None \<Rightarrow> ret (ErrBadRequest W (Err ''tweet not found''))
             | Some b \<Rightarrow>
                 (case twVerify T b usr of (status, verified, e) \<Rightarrow>
                    if e \<noteq> None \<or> status \<noteq> twOK T then
                      ret (ErrBadRequest W (Err (''failed '' @ status @ '' ('' @
                        (case e of None \<Rightarrow> ''%!s(<nil>)'' | Some x \<Rightarrow> errText x) @ '')'')))
                    else (case verified of None \<Rightarrow> fail (Panic ''nil pointer'')
                          | Some t \<Rightarrow> ret (Blob 200 octetStream t))))))"

section \<open>The handlers of the other routes\<close>

definition apiHandler ::
  "'z ext_scheme \<Rightarrow> web \<Rightarrow> ('f, 'r) env \<Rightarrow> ('f, 'r, 'st) api \<Rightarrow> (route \<Rightarrow> ('f, 'r) handler) \<Rightarrow> route \<Rightarrow> ('f, 'r) handler" where
  "apiHandler X W V A rest r =
     (case r of
        GetSigchainStatement \<Rightarrow> getSigchainStatement X W V A
      | PutSigchainStatement \<Rightarrow> putSigchainStatement X W V A
      | GetSigchain \<Rightarrow> getSigchain W V A
      | Check \<Rightarrow> check W V A
      | GetUserSearch \<Rightarrow> getUserSearch W A
      | GetUser \<Rightarrow> getUser W A
      | TaskCheck \<Rightarrow> taskCheck W A
      | CronCheck \<Rightarrow> cronCheck W A
      | PutDisco \<Rightarrow> putDisco W V A
      | GetDisco \<Rightarrow> getDisco W V A
      | DeleteDisco \<Rightarrow> deleteDisco W V A
      | PostInviteCode \<Rightarrow> postInviteCode W V A
      | GetInviteCode \<Rightarrow> getInviteCode W V A
      | GetShare \<Rightarrow> getShare W V
      | PutShare \<Rightarrow> putShare W V
      | AdminCheck \<Rightarrow> adminCheck W V A
      | GetSigchainAliased \<Rightarrow> aliased W (getSigchain W V A)
      | GetSigchainStatementAliased \<Rightarrow> aliased W (getSigchainStatement X W V A)
      | PutSigchainStatementAliased \<Rightarrow> aliased W (putSigchainStatement X W V A)
      | _ \<Rightarrow> rest r)"

text \<open>The handler of every route; \<open>batch\<close> is \<open>postBatch\<close> over the server itself.\<close>

definition serverHandlers ::
  "'z ext_scheme \<Rightarrow> web \<Rightarrow> ('f, 'r) env \<Rightarrow> ('f, 'r, 'st) api \<Rightarrow> ('f, 'r, 'u) twitter \<Rightarrow> ('f, 'r) handler \<Rightarrow> route \<Rightarrow> ('f, 'r) handler" where
  "serverHandlers X W V A T batch =
     dispatch X W V (apiHandler X W V A (\<lambda>r. if r = CheckTwitter then checkTwitter W T else batch))"

end
