(* ===== verification/ClientApi.thy ===== *)
theory ClientApi
  imports HttpClient ServerUsers
begin

text \<open>
  The calls of the HTTP client other than the vault's: \<^verbatim>\<open>http/client/disco.go\<close>,
  \<^verbatim>\<open>invitecode.go\<close>, \<^verbatim>\<open>share.go\<close>, \<^verbatim>\<open>sigchain.go\<close>, \<^verbatim>\<open>user.go\<close>, \<^verbatim>\<open>check.go\<close> and \<^verbatim>\<open>admin.go\<close>, over
  \<open>Request\<close>, and the methods of \<^verbatim>\<open>http/api\<close> on a sigchain response. Public-key boxes and the
  JSON of the responses are functions of the record \<open>clientLib\<close>.
\<close>

record ('n, 'st) clientLib =
  \<comment> \<open>keys.NewX25519PublicKeyFromID, key.X25519Key().PublicKey(), a key as a path component\<close>
  cpPub :: "string \<Rightarrow> err + string"
  cpOwn :: "edkey \<Rightarrow> string"
  cpString :: "edkey \<Rightarrow> string"
  \<comment> \<open>keys.BoxSeal to a public key, with a random nonce; keys.BoxOpen from one\<close>
  cpSeal :: "string \<Rightarrow> string \<Rightarrow> edkey \<Rightarrow> ('n, string) op"
  cpOpen :: "string \<Rightarrow> string \<Rightarrow> edkey \<Rightarrow> err + string"
  \<comment> \<open>JSON of the responses\<close>
  cpCodeU :: "string \<Rightarrow> err + string"
  cpInviteU :: "string \<Rightarrow> err + string \<times> string"
  cpUsersU :: "string \<Rightarrow> err + apiUser option list"
  cpUserU :: "string \<Rightarrow> err + apiUser option"
  cpSigchainU :: "string \<Rightarrow> err + string \<times> (string \<rightharpoonup> metadata) \<times> 'st option list"

definition mkRequest :: "string \<Rightarrow> string \<Rightarrow> (string \<times> string) list \<Rightarrow> string \<Rightarrow> edkey option \<Rightarrow> request" where
  "mkRequest method path params body key =
     \<lparr>rqMethod = method, rqPath = path, rqParams = params, rqBody = body, rqKey = key, rqHeaders = []\<rparr>"

text \<open>The result decoded from a response; nil when there is none.\<close>

definition decoded :: "(string \<Rightarrow> err + 'a) \<Rightarrow> response option \<Rightarrow> ('n, 'a option) op" where
  "decoded u resp = (case resp of None \<Rightarrow> ret None | Some r \<Rightarrow> bnd (lift (u (rsData r))) (\<lambda>out. ret (Some out)))"

section \<open>disco.go\<close>

definition DiscoSave ::
  "'z ext_scheme \<Rightarrow> web \<Rightarrow> 'n client \<Rightarrow> ('n, 'st) clientLib \<Rightarrow> edkey \<Rightarrow> string \<Rightarrow> string \<Rightarrow> string \<Rightarrow> duration \<Rightarrow> ('n, unit) op" where
  "DiscoSave X W C L sender recipient typ data expire =
     bnd (lift (cpPub L recipient)) (\<lambda>recipientKey.
     bnd (failIf (expire = 0) (Err ''no expire specified'')) (\<lambda>_.
     bnd (cpSeal L data recipientKey sender) (\<lambda>encrypted.
     let path = xPath X [''disco'', xKeyID X sender, recipient, typ];
         vals = [(''expire'', durationString expire)]
     in bnd (Request W C (mkRequest ''PUT'' path vals encrypted (Some sender))) (\<lambda>_. ret ()))))"

definition Disco ::
  "'z ext_scheme \<Rightarrow> web \<Rightarrow> 'n client \<Rightarrow> ('n, 'st) clientLib \<Rightarrow> string \<Rightarrow> edkey \<Rightarrow> string \<Rightarrow> ('n, string) op" where
  "Disco X W C L sender recipient typ =
     bnd (lift (cpPub L sender)) (\<lambda>senderKey.
     let path = xPath X [''disco'', sender, cpString L recipient, typ]
     in bnd (Request W C (mkRequest ''GET'' path [] [] (Some recipient))) (\<lambda>resp.
        case resp of None \<Rightarrow> ret []
        | Some r \<Rightarrow> lift (cpOpen L (rsData r) senderKey recipient)))"

definition DiscoDelete ::
  "'z ext_scheme \<Rightarrow> web \<Rightarrow> 'n client \<Rightarrow> edkey \<Rightarrow> string \<Rightarrow> ('n, unit) op" where
  "DiscoDelete X W C sender recipient =
     (let path = xPath X [''disco'', xKeyID X sender, recipient]
      in bnd (Request W C (mkRequest ''DELETE'' path [] [] (Some sender))) (\<lambda>_. ret ()))"

section \<open>invitecode.go\<close>

definition InviteCodeCreate ::
  "'z ext_scheme \<Rightarrow> web \<Rightarrow> 'n client \<Rightarrow> ('n, 'st) clientLib \<Rightarrow> edkey \<Rightarrow> string \<Rightarrow> ('n, string option) op" where
  "InviteCodeCreate X W C L sender recipient =
     (let path = xPath X [''/invite/code'', xKeyID X sender, recipient]
      in bnd (Request W C (mkRequest ''POST'' path [] [] (Some sender))) (decoded (cpCodeU L)))"

definition InviteCode ::
  "'z ext_scheme \<Rightarrow> web \<Rightarrow> 'n client \<Rightarrow> ('n, 'st) clientLib \<Rightarrow> edkey \<Rightarrow> string \<Rightarrow> ('n, (string \<times> string) option) op" where
  "InviteCode X W C L sender code =
     (let path = xPath X [''/invite/code'', queryEscape code]
      in bnd (Request W C (mkRequest ''GET'' path [] [] (Some sender))) (decoded (cpInviteU L)))"

section \<open>share.go\<close>

definition ShareSeal ::
  "'z ext_scheme \<Rightarrow> web \<Rightarrow> 'n client \<Rightarrow> ('n, 'st) clientLib \<Rightarrow> edkey \<Rightarrow> string \<Rightarrow> duration \<Rightarrow> ('n, unit) op" where
  "ShareSeal X W C L key data expire =
     bnd (cpSeal L data (cpOwn L key) key) (\<lambda>encrypted.
     let path = xPath X [''share'', xKeyID X key]; vals = [(''expire'', durationString expire)]
     in bnd (Request W C (mkRequest ''PUT'' path vals encrypted (Some key))) (\<lambda>_. ret ()))"

definition ShareOpen ::
  "'z ext_scheme \<Rightarrow> web \<Rightarrow> 'n client \<Rightarrow> ('n, 'st) clientLib \<Rightarrow> edkey \<Rightarrow> ('n, gobytes) op" where
  "ShareOpen X W C L key =
     (let path = xPath X [''share'', xKeyID X key]
      in bnd (Request W C (mkRequest ''GET'' path [] [] (Some key))) (\<lambda>resp.
         case resp of None \<Rightarrow> ret None
         | Some r \<Rightarrow> bnd (lift (cpOpen L (rsData r) (cpOwn L key) key)) (\<lambda>d. ret (Some d))))"

section \<open>sigchain.go\<close>

text \<open>\<open>ctxErr\<close> as in \<open>retryOnConflict\<close>, which makes at most three attempts here.\<close>

definition SigchainSave ::
  "'z ext_scheme \<Rightarrow> web \<Rightarrow> 'n client \<Rightarrow> ('f, 'r, 'st) api \<Rightarrow> (nat \<Rightarrow> err option) \<Rightarrow> 'st \<Rightarrow> ('n, unit) op" where
  "SigchainSave X W C A ctxErr st =
     (let path = xPath X [''sigchain'', apStURL A st]
      in bnd (lift (apStBytes A st)) (\<lambda>b.
         bnd (retryOnConflict W C ctxErr (mkRequest ''PUT'' path [] b None) 1 3) (\<lambda>_. ret ())))"

definition Sigchain ::
  "'z ext_scheme \<Rightarrow> web \<Rightarrow> 'n client \<Rightarrow> ('n, 'st) clientLib \<Rightarrow> string \<Rightarrow>
   ('n, (string \<times> (string \<rightharpoonup> metadata) \<times> 'st option list) option) op" where
  "Sigchain X W C L kid =
     (let path = xPath X [''sigchain'', kid]
      in bnd (Request W C (mkRequest ''GET'' path [(''include'', ''md'')] [] None)) (\<lambda>resp.
         bnd (decoded (cpSigchainU L) resp) (\<lambda>out.
         case out of None \<Rightarrow> ret None
         | Some (k, md, sts) \<Rightarrow>
             bnd (failIf (k \<noteq> kid) (Err ''mismatched id in response'')) (\<lambda>_. ret (Some (k, md, sts))))))"

text \<open>\<^verbatim>\<open>SigchainResponse.MetadataFor\<close> and \<^verbatim>\<open>SigchainResponse.Sigchain\<close> of \<^verbatim>\<open>http/api\<close>.\<close>

definition MetadataFor :: "('f, 'r, 'st) api \<Rightarrow> (string \<rightharpoonup> metadata) \<Rightarrow> 'st \<Rightarrow> metadata" where
  "MetadataFor A md st = (case md (apStURL A st) of None \<Rightarrow> (0, 0) | Some m \<Rightarrow> m)"

primrec chainOf :: "('f, 'r, 'st) api \<Rightarrow> string \<Rightarrow> 'st list \<Rightarrow> 'st option list \<Rightarrow> err + 'st list" where
  "chainOf A kid sc [] = Inr sc"
| "chainOf A kid sc (st # sts) = (case apAdd A kid sc st of Inl e \<Rightarrow> Inl e | Inr sc' \<Rightarrow> chainOf A kid sc' sts)"

definition responseSigchain :: "('f, 'r, 'st) api \<Rightarrow> string \<Rightarrow> 'st option list \<Rightarrow> err + 'st list" where
  "responseSigchain A kid sts = chainOf A kid [] sts"

section \<open>user.go\<close>

definition UserSearch ::
  "web \<Rightarrow> 'n client \<Rightarrow> ('n, 'st) clientLib \<Rightarrow> string \<Rightarrow> int \<Rightarrow> ('n, apiUser option list) op" where
  "UserSearch W C L query limit =
     (let params = (''q'', query) # (if limit > 0 then [(''limit'', formatInt limit)] else [])
      in bnd (Request W C (mkRequest ''GET'' ''/user/search'' params [] None)) (\<lambda>resp.
         case resp of None \<Rightarrow> fail (Err ''/user/search not found'') | Some r \<Rightarrow> lift (cpUsersU L (rsData r))))"

definition User :: "web \<Rightarrow> 'n client \<Rightarrow> ('n, 'st) clientLib \<Rightarrow> string \<Rightarrow> ('n, apiUser option option) op" where
  "User W C L kid = bnd (Request W C (mkRequest ''GET'' (''/user/'' @ kid) [] [] None)) (decoded (cpUserU L))"

section \<open>check.go and admin.go\<close>

definition ClientCheck :: "web \<Rightarrow> 'n client \<Rightarrow> edkey \<Rightarrow> ('n, unit) op" where
  "ClientCheck W C key = bnd (Request W C (mkRequest ''POST'' ''/check'' [] [] (Some key))) (\<lambda>_. ret ())"

definition AdminCheckReq :: "web \<Rightarrow> 'n client \<Rightarrow> string \<Rightarrow> edkey \<Rightarrow> ('n, unit) op" where
  "AdminCheckReq W C what admin =
     bnd (Request W C (mkRequest ''POST'' (''/admin/check/'' @ what) [] [] (Some admin))) (\<lambda>_. ret ())"

end
