(* ===== verification/VaultTools.thy ===== *)
theory VaultTools
  imports VaultSync
begin

text \<open>
  The history of an item (\<^verbatim>\<open>vault/history.go\<close>), copying one store to another
  (\<^verbatim>\<open>vault/copy.go\<close>) and converting an old keyring (\<^verbatim>\<open>vault/convert.go\<close>). Two stores are a pair
  of states.
\<close>

section \<open>history.go\<close>

text \<open>The paths of the pull log under \<^verbatim>\<open>/item/<id>\<close>: by string prefix, as the code tests it.\<close>

definition historyPaths :: "'z ext_scheme \<Rightarrow> string \<Rightarrow> entry list \<Rightarrow> string list" where
  "historyPaths X id' ds =
     map ePath (filter (\<lambda>doc. prefix (xPath X [''item'', id']) (xPathFrom X (ePath doc) 2)) ds)"

definition historyItem :: "'z ext_scheme \<Rightarrow> 's store_ops \<Rightarrow> string \<Rightarrow> (('s, 'n) vault, item option) op" where
  "historyItem X I p =
     bnd (onStore (sGet I p)) (\<lambda>b.
     case b of None \<Rightarrow> ret None
     | Some c \<Rightarrow>
         bnd (lift (xApiEventU X c)) (\<lambda>event.
         bnd (gets vMk) (\<lambda>mk.
         bnd (lift (decryptItem X (aeData event) mk (xPathLast X p))) (\<lambda>item. ret (Some item)))))"

definition pendingItem :: "'z ext_scheme \<Rightarrow> string \<Rightarrow> entry \<Rightarrow> (('s, 'n) vault, item option) op" where
  "pendingItem X id' e =
     (let pc = xPathComponents X (ePath e)
      in bnd (failIf (length pc \<le> 2 \<or> (pc ! 2 = ''item'' \<and> length pc \<le> 3)) (Panic ''index out of range'')) (\<lambda>_.
         if pc ! 2 \<noteq> ''item'' \<or> pc ! 3 \<noteq> id' then ret None
         else bnd (gets vMk) (\<lambda>mk.
              bnd (lift (decryptItem X (eData e) mk id')) (\<lambda>item.
              ret (if iID item = id' then Some item else None)))))"

definition findPendingItems :: "'z ext_scheme \<Rightarrow> 's store_ops \<Rightarrow> string \<Rightarrow> (('s, 'n) vault, item list) op" where
  "findPendingItems X I id' =
     bnd (onStore (sList I (Some (withPrefix (xPath X [''push'']))))) (\<lambda>entries.
     collect entries (pendingItem X id'))"

definition ItemHistory :: "'z ext_scheme \<Rightarrow> 's store_ops \<Rightarrow> string \<Rightarrow> (('s, 'n) vault, item list) op" where
  "ItemHistory X I id' =
     bnd (onStore (sList I (Some \<lparr>loPrefix = xPath X [''pull''], loNoData = True, loLimit = 0\<rparr>))) (\<lambda>ds.
     bnd (collect (historyPaths X id' ds) (historyItem X I)) (\<lambda>items.
     bnd (findPendingItems X I id') (\<lambda>pending.
     ret (items @ pending))))"

section \<open>copy.go\<close>

record copyOpts =
  coSkipExisting :: bool
  coDryRun :: bool

definition onFrom :: "('s, 'a) op \<Rightarrow> ('s \<times> 't, 'a) op" where
  "onFrom m = zoom fst (\<lambda>s st. (s, snd st)) m"

definition onTo :: "('t, 'a) op \<Rightarrow> ('s \<times> 't, 'a) op" where
  "onTo m = zoom snd (\<lambda>t st. (fst st, t)) m"

lemma onFrom_run [op_simps]: "m s = (r, s') \<Longrightarrow> onFrom m (s, t) = (r, s', t)"
  by (simp add: onFrom_def op_simps)

lemma onTo_run [op_simps]: "m t = (r, t') \<Longrightarrow> onTo m (s, t) = (r, s, t')"
  by (simp add: onTo_def op_simps)

text \<open>One entry: the path if it was added.\<close>

definition copyEntry :: "'t store_ops \<Rightarrow> copyOpts \<Rightarrow> entry \<Rightarrow> ('s \<times> 't, string option) op" where
  "copyEntry J opts e =
     bnd (onTo (sGet J (ePath e))) (\<lambda>data.
     if data \<noteq> None
     then (if coSkipExisting opts then ret None else fail (Err (''failed to copy: already exists '' @ ePath e)))
     else bnd (if coDryRun opts then ret () else onTo (sSet J (ePath e) (eData e))) (\<lambda>_. ret (Some (ePath e))))"

definition Copy :: "'s store_ops \<Rightarrow> 't store_ops \<Rightarrow> copyOpts \<Rightarrow> ('s \<times> 't, string list) op" where
  "Copy I J opts = bnd (onFrom (sList I None)) (\<lambda>entries. collect entries (copyEntry J opts))"

section \<open>convert.go\<close>

definition convertItem :: "'z ext_scheme \<Rightarrow> 's store_ops \<Rightarrow> string \<times> gobytes \<Rightarrow> (('s, 'n) vault, unit) op" where
  "convertItem X I kv =
     (case kv of (i, data) \<Rightarrow>
        let spl = splitOn (CHR ''-'') i
        in if i = ''#salt'' then vaultSetPath X I (xPath X [''config'', ''salt'']) data True
           else if i = ''#auth'' then
             bnd (vaultSetPath X I (xPath X [''auth'', ''v0'']) data True) (\<lambda>_.
             bnd (lift (xProvM X \<lparr>pvID = ''v0'', pvType = PasswordAuth, pvCreatedAt = 0, pvAAGUID = [], pvSalt = None,
                                pvNoPin = False\<rparr>)) (\<lambda>b.
             vaultSetPath X I (xPath X [''provision'', ''v0'']) (Some b) True))
           else if hd spl = ''#auth'' then
             bnd (failIf (length spl < 2) (Err (''unsupported id '' @ i))) (\<lambda>_.
             vaultSetPath X I (xPath X [''auth'', spl ! 1]) data True)
           else if hd spl = ''#provision'' then
             bnd (failIf (length spl < 2) (Err (''unsupported id '' @ i))) (\<lambda>_.
             vaultSetPath X I (xPath X [''provision'', spl ! 1]) data True)
           else if prefix ''#'' i \<or> prefix ''.'' i then ret ()
           else vaultSetPath X I (xPath X [''item'', i]) data True)"

text \<open>\<open>items\<close> is what the keyring lists, ids with their data, or its error.\<close>

definition ConvertKeyring ::
  "'z ext_scheme \<Rightarrow> 's store_ops \<Rightarrow> err + (string \<times> gobytes) list \<Rightarrow> (('s, 'n) vault, bool) op" where
  "ConvertKeyring X I items =
     bnd (lift items) (\<lambda>its.
     if its = [] then ret False
     else bnd (forEach its (convertItem X I)) (\<lambda>_. ret True))"

section \<open>Copying gives the same contents\<close>

text \<open>What is left in the target after copying entries into it.\<close>

lemma collect_copy:
  assumes J: "store J d q" and t: "q t" and es: "\<forall>e \<in> set es. ePath e \<noteq> []" "distinct (map ePath es)"
    and ne: "\<forall>e \<in> set es. d t (ePath e) \<noteq> Some []"
    and ok: "coSkipExisting opts \<or> (\<forall>e \<in> set es. d t (ePath e) = None)"
  shows "\<exists>t'. collect es (copyEntry J opts) (s, t) =
      (Inr (map ePath (filter (\<lambda>e. d t (ePath e) = None) es)), (s, t')) \<and> q t' \<and>
    d t' = (if coDryRun opts then d t
            else (\<lambda>p. case map_of (map (\<lambda>e. (ePath e, bstr (eData e))) es) p of
                    Some b \<Rightarrow> (if d t p = None then Some b else d t p) | None \<Rightarrow> d t p))"
  using t es ne ok
proof (induction es arbitrary: t)
  case Nil
  then show ?case by (auto simp: op_simps)
next
  case (Cons e es)
  let ?p = "ePath e"
  have p: "?p \<noteq> []" "?p \<notin> ePath ` set es" using Cons.prems(2,3) by auto
  have none: "map_of (map (\<lambda>e. (ePath e, bstr (eData e))) es) ?p = None"
    using p(2) by (auto simp: map_of_eq_None_iff image_image)
  show ?case
  proof (cases "d t ?p")
    case (Some c)
    then have skip: "coSkipExisting opts" using Cons.prems(5) by auto
    obtain b where b: "sGet J ?p t = (Inr b, t)" "bstr b = c"
      using store.get_present[OF J Cons.prems(1) p(1) Some] by blast
    have "c \<noteq> []" using Cons.prems(4) Some by auto
    then have "b \<noteq> None" using b(2) by (cases b) auto
    then have one: "copyEntry J opts e (s, t) = (Inr None, (s, t))"
      using b(1) skip by (simp add: copyEntry_def op_simps)
    obtain t' where "collect es (copyEntry J opts) (s, t) =
        (Inr (map ePath (filter (\<lambda>e. d t (ePath e) = None) es)), (s, t'))" "q t'"
      "d t' = (if coDryRun opts then d t else (\<lambda>p. case map_of (map (\<lambda>e. (ePath e, bstr (eData e))) es) p of
                    Some b \<Rightarrow> (if d t p = None then Some b else d t p) | None \<Rightarrow> d t p))"
      using Cons.IH[OF Cons.prems(1)] Cons.prems skip by auto
    with one Some none show ?thesis by (intro exI[of _ t']) (auto simp: op_simps fun_eq_iff)
  next
    case None
    have get: "sGet J ?p t = (Inr None, t)" using store.get_absent[OF J Cons.prems(1) p(1) None] .
    show ?thesis
    proof (cases "coDryRun opts")
      case True
      with get have one: "copyEntry J opts e (s, t) = (Inr (Some ?p), (s, t))" by (simp add: copyEntry_def op_simps)
      obtain t' where "collect es (copyEntry J opts) (s, t) =
          (Inr (map ePath (filter (\<lambda>e. d t (ePath e) = None) es)), (s, t'))" "q t'" "d t' = d t"
        using Cons.IH[OF Cons.prems(1)] Cons.prems True by auto
      with one None True show ?thesis by (intro exI[of _ t']) (auto simp: op_simps)
    next
      case False
      obtain t1 where t1: "sSet J ?p (eData e) t = (Inr (), t1)" "q t1" "d t1 = (d t)(?p \<mapsto> bstr (eData e))"
        using store.set_ok[OF J Cons.prems(1) p(1)] by blast
      have one: "copyEntry J opts e (s, t) = (Inr (Some ?p), (s, t1))"
        using get False t1(1) by (simp add: copyEntry_def op_simps)
      have same: "d t1 (ePath e') = d t (ePath e')" if "e' \<in> set es" for e'
      proof -
        have "ePath e' \<noteq> ?p" using p(2) imageI[OF that, of ePath] by metis
        with t1(3) show ?thesis by simp
      qed
      have cond: "\<forall>e' \<in> set es. d t1 (ePath e') \<noteq> Some []"
        "coSkipExisting opts \<or> (\<forall>e' \<in> set es. d t1 (ePath e') = None)"
        using Cons.prems(4,5) same by auto
      have prems: "\<forall>e' \<in> set es. ePath e' \<noteq> []" "distinct (map ePath es)" using Cons.prems(2,3) by simp_all
      obtain t' where t': "collect es (copyEntry J opts) (s, t1) =
          (Inr (map ePath (filter (\<lambda>e. d t1 (ePath e) = None) es)), (s, t'))" "q t'"
        "d t' = (\<lambda>p. case map_of (map (\<lambda>e. (ePath e, bstr (eData e))) es) p of
                    Some b \<Rightarrow> (if d t1 p = None then Some b else d t1 p) | None \<Rightarrow> d t1 p)"
        using Cons.IH[OF t1(2) prems cond] False by auto
      have "filter (\<lambda>e. d t1 (ePath e) = None) es = filter (\<lambda>e. d t (ePath e) = None) es"
        using same by (intro filter_cong) simp_all
      with t' one None none t1(3) False show ?thesis
        by (intro exI[of _ t']) (auto simp: op_simps fun_eq_iff split: option.splits)
    qed
  qed
qed

lemma map_of_entries:
  assumes "map ePath es = keysWith [] m" "finite (dom m)" "\<forall>e \<in> set es. m (ePath e) = Some (bstr (eData e))"
  shows "map_of (map (\<lambda>e. (ePath e, bstr (eData e))) es) = m"
proof
  fix p
  let ?l = "map (\<lambda>e. (ePath e, bstr (eData e))) es"
  have keys: "map fst ?l = keysWith [] m" using assms(1) by (simp add: comp_def)
  then have dist: "distinct (map fst ?l)" by (simp only: keysWith_distinct)
  have dom: "fst ` set ?l = dom m"
    using arg_cong[OF keys, of set] assms(2) by (simp add: image_image)
  show "map_of ?l p = m p"
  proof (cases "m p")
    case None
    then have "p \<notin> fst ` set ?l" unfolding dom by auto
    then have "map_of ?l p = None" by (simp only: map_of_eq_None_iff not_False_eq_True)
    with None show ?thesis by simp
  next
    case (Some x)
    then have "p \<in> ePath ` set es" using dom by (auto simp: image_image)
    then obtain e where "e \<in> set es" "p = ePath e" by blast
    with assms(3) Some have "(p, x) \<in> set ?l" by auto
    with Some show ?thesis by (simp only: map_of_is_SomeI[OF dist])
  qed
qed

lemma Copy_ok:
  assumes I: "store I c r" and J: "store J d q" and st: "r s" "q t" and paths: "c s [] = None"
    and ok: "\<And>p. c s p \<noteq> None \<Longrightarrow> d t p = None \<or> (coSkipExisting opts \<and> d t p \<noteq> Some [])"
  shows "\<exists>t'. Copy I J opts (s, t) = (Inr (filter (\<lambda>p. d t p = None) (keysWith [] (c s))), (s, t')) \<and> q t' \<and>
    d t' = (if coDryRun opts then d t else c s ++ d t)"
proof -
  have fin: "finite (dom (c s))" using store.contents_finite[OF I st(1)] .
  obtain es where es: "sList I None s = (Inr es, s)" "map ePath es = keysWith [] (c s)"
      "\<forall>e \<in> set es. c s (ePath e) = Some (bstr (eData e))"
    using store.list_ok[OF I st(1), of None] by auto
  have some: "c s (ePath e) \<noteq> None" if "e \<in> set es" for e using es(3) that by auto
  have cond: "\<forall>e \<in> set es. ePath e \<noteq> []" "distinct (map ePath es)" "\<forall>e \<in> set es. d t (ePath e) \<noteq> Some []"
      "coSkipExisting opts \<or> (\<forall>e \<in> set es. d t (ePath e) = None)"
  proof -
    show "\<forall>e \<in> set es. ePath e \<noteq> []" using some paths by (metis (full_types))
    show "distinct (map ePath es)" unfolding es(2) by simp
    show "\<forall>e \<in> set es. d t (ePath e) \<noteq> Some []" using some ok by fastforce
    show "coSkipExisting opts \<or> (\<forall>e \<in> set es. d t (ePath e) = None)" using some ok by blast
  qed
  have added: "map ePath (filter (\<lambda>e. d t (ePath e) = None) es) = filter (\<lambda>p. d t p = None) (keysWith [] (c s))"
    unfolding es(2)[symmetric] by (simp add: filter_map comp_def)
  obtain t' where t': "collect es (copyEntry J opts) (s, t) =
      (Inr (map ePath (filter (\<lambda>e. d t (ePath e) = None) es)), (s, t'))" "q t'"
    "d t' = (if coDryRun opts then d t
            else (\<lambda>p. case map_of (map (\<lambda>e. (ePath e, bstr (eData e))) es) p of
                    Some b \<Rightarrow> (if d t p = None then Some b else d t p) | None \<Rightarrow> d t p))"
    using collect_copy[OF J st(2) cond, of s] by (elim exE conjE)
  have "d t' = (if coDryRun opts then d t else c s ++ d t)"
    unfolding t'(3) map_of_entries[OF es(2) fin es(3)] by (auto simp: fun_eq_iff map_add_def split: option.splits)
  with t'(1,2) es(1) show ?thesis unfolding added Copy_def by (simp add: op_simps)
qed

end
