(* ===== verification/Keyring.thy ===== *)
theory Keyring
  imports VaultAuth
begin

text \<open>
  Keys kept in the vault: \<^verbatim>\<open>vault/keyring/keyring.go\<close> and \<^verbatim>\<open>keysv1.go\<close>. An \<^verbatim>\<open>api.Key\<close> of the
  \<^verbatim>\<open>keys\<close> module is a value of the type \<open>'k\<close>, with the functions of the record \<open>keyLib\<close>.
\<close>

record 'k keyLib =
  kyID :: "'k \<Rightarrow> string"
  kyCreatedAt :: "'k \<Rightarrow> int"
  \<comment> \<open>msgpack, api.DecodeKey (message, password), api.EncodeKey (key, password)\<close>
  kyM :: "'k \<Rightarrow> err + string"
  kyU :: "string \<Rightarrow> err + 'k"
  kyDecode :: "string \<Rightarrow> string \<Rightarrow> err + 'k"
  kyEncode :: "'k option \<Rightarrow> string \<Rightarrow> err + string"
  \<comment> \<open>api.NewKey of an EdX25519 public key and of a private key\<close>
  kyFromPublic :: "string \<Rightarrow> 'k"
  kyFromPrivate :: "string \<Rightarrow> 'k"
  \<comment> \<open>AsEdX25519, AsX25519, AsEdX25519Public; the bytes of the X25519 key of a public key\<close>
  kyEd :: "'k \<Rightarrow> edkey option"
  kyX :: "'k \<Rightarrow> string option"
  kyEdPublic :: "'k \<Rightarrow> string option"
  kyToX :: "string \<Rightarrow> string"
  \<comment> \<open>ID.IsX25519, NewX25519PublicKeyFromID as bytes\<close>
  kyIsX :: "string \<Rightarrow> bool"
  kyXPublic :: "string \<Rightarrow> err + string"

definition keyItemType :: string where
  "keyItemType = ''key''"

section \<open>keysv1.go\<close>

text \<open>Items of the older types hold the key itself; the two X25519 types build EdX25519 keys.\<close>

definition keyV1ForItem :: "'k keyLib \<Rightarrow> item \<Rightarrow> err + 'k option" where
  "keyV1ForItem K i =
     (if iType i = ''ed25519-public'' then
        (if glen (iData i) \<noteq> 32 then Inl (Err ''invalid key data (ed25519-public)'')
         else Inr (Some (kyFromPublic K (bstr (iData i)))))
      else if iType i = ''edx25519'' then
        (if glen (iData i) \<noteq> 64 then Inl (Err ''invalid key data (edx25519)'')
         else Inr (Some (kyFromPrivate K (bstr (iData i)))))
      else if iType i = ''x25519-public'' then
        (if glen (iData i) \<noteq> 32 then Inl (Err ''invalid key data (x25519-public)'')
         else Inr (Some (kyFromPublic K (bstr (iData i)))))
      else if iType i = ''x25519'' then
        (if glen (iData i) \<noteq> 64 then Inl (Err ''invalid key data (x25519)'')
         else Inr (Some (kyFromPrivate K (bstr (iData i)))))
      else Inr None)"

section \<open>keyring.go\<close>

definition newItemForKey :: "'z ext_scheme \<Rightarrow> 'k keyLib \<Rightarrow> 'k \<Rightarrow> err + item" where
  "newItemForKey X K key =
     (if kyID K key = [] then Inl (Err ''no key id'')
      else case kyM K key of Inl e \<Rightarrow> Inl e
      | Inr b \<Rightarrow> Inr (NewItem (kyID K key) (Some b) keyItemType (xParseMillis X (kyCreatedAt K key))))"

definition unmarshalKey :: "'k keyLib \<Rightarrow> gobytes \<Rightarrow> err + 'k" where
  "unmarshalKey K b = kyU K (bstr b)"

definition keyForItem :: "'k keyLib \<Rightarrow> item \<Rightarrow> err + 'k option" where
  "keyForItem K i =
     (if iType i = keyItemType
      then (case unmarshalKey K (iData i) of Inl e \<Rightarrow> Inl e | Inr k \<Rightarrow> Inr (Some k))
      else keyV1ForItem K i)"

definition keyGet :: "'z ext_scheme \<Rightarrow> 's store_ops \<Rightarrow> 'k keyLib \<Rightarrow> string \<Rightarrow> (('s, 'n) vault, 'k option) op" where
  "keyGet X I K i =
     bnd (vaultGet X I i) (\<lambda>item.
     case item of None \<Rightarrow> ret None | Some it \<Rightarrow> lift (keyForItem K it))"

definition keySave :: "'z ext_scheme \<Rightarrow> 's store_ops \<Rightarrow> 'k keyLib \<Rightarrow> 'k option \<Rightarrow> (('s, 'n) vault, unit) op" where
  "keySave X I K key =
     (case key of None \<Rightarrow> fail (Err ''nil key'')
      | Some k \<Rightarrow>
          bnd (failIf (kyID K k = []) (Err ''no key id'')) (\<lambda>_.
          bnd (lift (newItemForKey X K k)) (\<lambda>item.
          vaultSet X I item)))"

text \<open>Items that do not give a key are left out.\<close>

definition keyOf :: "'k keyLib \<Rightarrow> item \<Rightarrow> 'k option" where
  "keyOf K i = (case keyForItem K i of Inl e \<Rightarrow> None | Inr k \<Rightarrow> k)"

definition keyList :: "'z ext_scheme \<Rightarrow> 's store_ops \<Rightarrow> 'k keyLib \<Rightarrow> (('s, 'n) vault, 'k list) op" where
  "keyList X I K = bnd (vaultItems X I) (\<lambda>items. ret (List.map_filter (keyOf K) items))"

definition ImportKey ::
  "'z ext_scheme \<Rightarrow> 's store_ops \<Rightarrow> 'k keyLib \<Rightarrow> string \<Rightarrow> string \<Rightarrow> (('s, 'n) vault, 'k) op" where
  "ImportKey X I K msg password =
     bnd (lift (kyDecode K msg password)) (\<lambda>key.
     bnd (keySave X I K (Some key)) (\<lambda>_. ret key))"

definition ExportKey ::
  "'z ext_scheme \<Rightarrow> 's store_ops \<Rightarrow> 'k keyLib \<Rightarrow> string \<Rightarrow> string \<Rightarrow> (('s, 'n) vault, string) op" where
  "ExportKey X I K i password =
     bnd (vaultGet X I i) (\<lambda>item.
     case item of None \<Rightarrow> fail (ErrNotFound i)
     | Some it \<Rightarrow> bnd (lift (keyForItem K it)) (\<lambda>key. lift (kyEncode K key password)))"

definition EdX25519Keys :: "'z ext_scheme \<Rightarrow> 's store_ops \<Rightarrow> 'k keyLib \<Rightarrow> (('s, 'n) vault, edkey list) op" where
  "EdX25519Keys X I K = bnd (keyList X I K) (\<lambda>ks. ret (List.map_filter (kyEd K) ks))"

definition X25519Keys :: "'z ext_scheme \<Rightarrow> 's store_ops \<Rightarrow> 'k keyLib \<Rightarrow> (('s, 'n) vault, string list) op" where
  "X25519Keys X I K = bnd (keyList X I K) (\<lambda>ks. ret (List.map_filter (kyX K) ks))"

definition EdX25519PublicKeys :: "'z ext_scheme \<Rightarrow> 's store_ops \<Rightarrow> 'k keyLib \<Rightarrow> (('s, 'n) vault, string list) op" where
  "EdX25519PublicKeys X I K = bnd (keyList X I K) (\<lambda>ks. ret (List.map_filter (kyEdPublic K) ks))"

definition FindEdX25519PublicKey ::
  "'z ext_scheme \<Rightarrow> 's store_ops \<Rightarrow> 'k keyLib \<Rightarrow> string \<Rightarrow> (('s, 'n) vault, string option) op" where
  "FindEdX25519PublicKey X I K kid =
     bnd (failIf (\<not> kyIsX K kid) (Err ''not an x25519 key'')) (\<lambda>_.
     bnd (lift (kyXPublic K kid)) (\<lambda>bpk.
     bnd (EdX25519PublicKeys X I K) (\<lambda>spks.
     ret (List.find (\<lambda>spk. kyToX K spk = bpk) spks))))"

definition EdX25519Key :: "'z ext_scheme \<Rightarrow> 's store_ops \<Rightarrow> 'k keyLib \<Rightarrow> string \<Rightarrow> (('s, 'n) vault, edkey option) op" where
  "EdX25519Key X I K kid =
     bnd (keyGet X I K kid) (\<lambda>key. ret (case key of None \<Rightarrow> None | Some k \<Rightarrow> kyEd K k))"

section \<open>Lemmas\<close>

text \<open>The msgpack round trip of a key, and that a key's encoding is not empty.\<close>

definition keys_ok :: "'k keyLib \<Rightarrow> bool" where
  "keys_ok K \<longleftrightarrow> (\<forall>k. \<exists>b. kyM K k = Inr b \<and> b \<noteq> [] \<and> kyU K b = Inr k)"

lemma newItemForKey_ok:
  assumes "keys_ok K" "kyID K k \<noteq> []"
  shows "\<exists>b. newItemForKey X K k = Inr (NewItem (kyID K k) (Some b) keyItemType (xParseMillis X (kyCreatedAt K k))) \<and>
    b \<noteq> [] \<and> kyM K k = Inr b \<and> kyU K b = Inr k"
proof -
  obtain b where "kyM K k = Inr b" "b \<noteq> []" "kyU K b = Inr k" using assms(1) unfolding keys_ok_def by blast
  with assms(2) show ?thesis by (simp add: newItemForKey_def)
qed

lemma keyForItem_same:
  "kyU K b = Inr k \<Longrightarrow> bstr (iData it) = b \<Longrightarrow> iType it = keyItemType \<Longrightarrow> keyForItem K it = Inr (Some k)"
  by (simp add: keyForItem_def unmarshalKey_def)

end
