(* ===== verification/Secrets.thy ===== *)
theory Secrets
  imports VaultAuth "HOL-Library.Product_Lexorder"
begin

text \<open>
  Passwords and notes kept in the vault, \<^verbatim>\<open>vault/secrets/secrets.go\<close>: saving, listing with a
  query and sorting. The order \<^verbatim>\<open>secretsSort\<close> gives is shown to be the lexicographic order on
  the sort field and the id.
\<close>

section \<open>Secrets\<close>

record secret =
  scID :: string
  scType :: string
  scName :: string
  scUsername :: string
  scPassword :: string
  scURL :: string
  scNotes :: string
  scCreatedAt :: gotime
  scUpdatedAt :: gotime

text \<open>JSON of a secret.\<close>

record secretLib =
  scM :: "secret \<Rightarrow> string"
  scU :: "string \<Rightarrow> err + secret"

definition secretItemType :: string where
  "secretItemType = ''secret''"

definition newSecretID :: "'z ext_scheme \<Rightarrow> (('s, 'n) vault, string) op" where
  "newSecretID X = bnd (randBytes X 32) (\<lambda>r. ret (xBase62 X r))"

definition newSecret :: "'z ext_scheme \<Rightarrow> (('s, 'n) vault, secret) op" where
  "newSecret X =
     bnd (newSecretID X) (\<lambda>i.
     bnd (timeNow X) (\<lambda>created.
     bnd (timeNow X) (\<lambda>updated.
     ret \<lparr>scID = i, scType = [], scName = [], scUsername = [], scPassword = [], scURL = [], scNotes = [],
          scCreatedAt = created, scUpdatedAt = updated\<rparr>)))"

definition NewPassword ::
  "'z ext_scheme \<Rightarrow> string \<Rightarrow> string \<Rightarrow> string \<Rightarrow> string \<Rightarrow> (('s, 'n) vault, secret) op" where
  "NewPassword X name username password url =
     bnd (newSecret X) (\<lambda>s.
     ret (s\<lparr>scType := ''password'', scName := name, scUsername := username, scPassword := password, scURL := url\<rparr>))"

definition newItemForSecret :: "secretLib \<Rightarrow> secret \<Rightarrow> err + item" where
  "newItemForSecret L s =
     (if scID s = [] then Inl (Err ''no secret id'')
      else Inr (NewItem (scID s) (Some (scM L s)) secretItemType (scUpdatedAt s)))"

definition asSecret :: "secretLib \<Rightarrow> item \<Rightarrow> err + secret" where
  "asSecret L item =
     (if iType item \<noteq> secretItemType then Inl (Err (''item type '' @ iType item @ '' != '' @ secretItemType))
      else case scU L (bstr (iData item)) of Inl e \<Rightarrow> Inl e
      | Inr s \<Rightarrow> if scID s \<noteq> iID item then Inl (Err ''secret id mismatch'') else Inr s)"

text \<open>\<^verbatim>\<open>Save\<close> fills in the id and the times of the secret it is given.\<close>

definition secretSave ::
  "'z ext_scheme \<Rightarrow> 's store_ops \<Rightarrow> secretLib \<Rightarrow> secret option \<Rightarrow> (('s, 'n) vault, secret \<times> bool) op" where
  "secretSave X I L secret' =
     (case secret' of None \<Rightarrow> fail (Err ''nil secret'')
      | Some s0 \<Rightarrow>
          bnd (if scID s0 = [] then bnd (newSecretID X) (\<lambda>i. ret (s0\<lparr>scID := i\<rparr>)) else ret s0) (\<lambda>s.
          bnd (vaultGet X I (scID s)) (\<lambda>item.
          case item of
            Some it \<Rightarrow>
              bnd (clockNow X) (\<lambda>now.
              let s' = s\<lparr>scUpdatedAt := now\<rparr>
              in bnd (vaultSet X I (it\<lparr>iData := Some (scM L s')\<rparr>)) (\<lambda>_. ret (s', True)))
          | None \<Rightarrow>
              bnd (clockNow X) (\<lambda>now.
              let s' = s\<lparr>scCreatedAt := now, scUpdatedAt := now\<rparr>
              in bnd (lift (newItemForSecret L s')) (\<lambda>it.
                 bnd (vaultSet X I it) (\<lambda>_. ret (s', False)))))))"

definition secretGet :: "'z ext_scheme \<Rightarrow> 's store_ops \<Rightarrow> secretLib \<Rightarrow> string \<Rightarrow> (('s, 'n) vault, secret option) op" where
  "secretGet X I L i =
     bnd (vaultGet X I i) (\<lambda>item.
     case item of None \<Rightarrow> ret None
     | Some it \<Rightarrow> bnd (lift (asSecret L it)) (\<lambda>s. ret (Some s)))"

section \<open>Listing\<close>

record listOptions =
  opQuery :: string
  opSort :: string
  opDirection :: string

text \<open>\<^verbatim>\<open>secretsSort\<close> on two secrets.\<close>

definition idSort :: "string \<Rightarrow> secret \<Rightarrow> secret \<Rightarrow> bool" where
  "idSort dir a b = (if dir = ''desc'' then scID a > scID b else scID a < scID b)"

definition fieldSort :: "(secret \<Rightarrow> string) \<Rightarrow> string \<Rightarrow> secret \<Rightarrow> secret \<Rightarrow> bool" where
  "fieldSort f dir a b =
     (if f a = f b then idSort dir a b
      else if dir = ''desc'' then f a > f b else f a < f b)"

definition secretsSort :: "string \<Rightarrow> string \<Rightarrow> secret \<Rightarrow> secret \<Rightarrow> bool" where
  "secretsSort field dir a b =
     (if field = ''id'' then idSort dir a b
      else if field = ''username'' then fieldSort scUsername dir a b
      else fieldSort scName dir a b)"

text \<open>\<^verbatim>\<open>sort.Slice\<close>: any order is right that never has a later element less than an earlier one;
  the model inserts one by one.\<close>

fun insertBy :: "('a \<Rightarrow> 'a \<Rightarrow> bool) \<Rightarrow> 'a \<Rightarrow> 'a list \<Rightarrow> 'a list" where
  "insertBy lt x [] = [x]"
| "insertBy lt x (y # ys) = (if lt y x then y # insertBy lt x ys else x # y # ys)"

definition sortSlice :: "('a \<Rightarrow> 'a \<Rightarrow> bool) \<Rightarrow> 'a list \<Rightarrow> 'a list" where
  "sortSlice lt xs = foldr (insertBy lt) xs []"

definition matchesQuery :: "string \<Rightarrow> secret \<Rightarrow> bool" where
  "matchesQuery q s \<longleftrightarrow> q = [] \<or> contains (scName s) q \<or> contains (scUsername s) q \<or> contains (scURL s) q \<or> contains (scNotes s) q"

definition secretList ::
  "'z ext_scheme \<Rightarrow> 's store_ops \<Rightarrow> secretLib \<Rightarrow> listOptions \<Rightarrow> (('s, 'n) vault, secret list) op" where
  "secretList X I L opts =
     bnd (vaultItems X I) (\<lambda>items.
     let query = trimSpace (opQuery opts)
     in bnd (collect items (\<lambda>item.
               if iType item \<noteq> secretItemType then ret None
               else bnd (lift (asSecret L item)) (\<lambda>s. ret (if matchesQuery query s then Some s else None)))) (\<lambda>out.
        let field = (if opSort opts = [] then ''name'' else opSort opts);
            dir = (if opDirection opts = [] then ''asc'' else opDirection opts)
        in bnd (failIf (field \<notin> {''id'', ''name'', ''username''}) (Err (''invalid sort field '' @ field))) (\<lambda>_.
           ret (sortSlice (secretsSort field dir) out))))"

section \<open>Sorting\<close>

lemma insertBy_mset [simp]: "mset (insertBy lt x xs) = add_mset x (mset xs)"
  by (induction xs) auto

lemma sortSlice_mset [simp]: "mset (sortSlice lt xs) = mset xs"
  by (induction xs) (simp_all add: sortSlice_def)

lemma sortSlice_set [simp]: "set (sortSlice lt xs) = set xs"
  using sortSlice_mset by (rule mset_eq_setD)

text \<open>With a comparison by a key in a linear order, the result is sorted by it.\<close>

lemma insertBy_key:
  fixes key :: "'a \<Rightarrow> 'b::linorder"
  assumes "\<And>a b. lt a b \<longleftrightarrow> key a < key b"
  shows "insertBy lt x xs = insort_key key x xs"
  using assms by (induction xs) auto

lemma sortSlice_key:
  fixes key :: "'a \<Rightarrow> 'b::linorder"
  assumes "\<And>a b. lt a b \<longleftrightarrow> key a < key b"
  shows "sortSlice lt xs = sort_key key xs"
  unfolding sortSlice_def sort_key_def using insertBy_key[of lt key] assms by (metis (no_types, lifting) ext)

definition sortField :: "string \<Rightarrow> secret \<Rightarrow> string" where
  "sortField field = (if field = ''id'' then scID else if field = ''username'' then scUsername else scName)"

definition sortOn :: "string \<Rightarrow> secret \<Rightarrow> string \<times> string" where
  "sortOn field s = (sortField field s, scID s)"

lemma secretsSort_asc: "dir \<noteq> ''desc'' \<Longrightarrow> secretsSort field dir a b \<longleftrightarrow> sortOn field a < sortOn field b"
  by (auto simp: secretsSort_def idSort_def fieldSort_def sortOn_def sortField_def less_prod_def)

lemma secretsSort_desc: "secretsSort field ''desc'' a b \<longleftrightarrow> sortOn field b < sortOn field a"
  by (auto simp: secretsSort_def idSort_def fieldSort_def sortOn_def sortField_def less_prod_def)

lemma insertBy_set [simp]: "set (insertBy lt x xs) = insert x (set xs)"
  by (induction xs) auto

text \<open>With the comparison the other way round, the result is in descending order.\<close>

lemma sortSlice_desc:
  fixes key :: "'a \<Rightarrow> 'b::linorder"
  assumes "\<And>a b. lt a b \<longleftrightarrow> key b < key a"
  shows "sorted_wrt (\<lambda>a b. key b \<le> key a) (sortSlice lt xs)"
proof -
  have ins: "sorted_wrt (\<lambda>a b. key b \<le> key a) (insertBy lt x ys)" if "sorted_wrt (\<lambda>a b. key b \<le> key a) ys" for x ys
    using that by (induction ys) (auto simp: assms dest: order_trans)
  show ?thesis by (induction xs) (simp_all add: sortSlice_def ins)
qed

text \<open>JSON keeps a secret.\<close>

definition secrets_ok :: "secretLib \<Rightarrow> bool" where
  "secrets_ok L \<longleftrightarrow> (\<forall>s. scU L (scM L s) = Inr s \<and> scM L s \<noteq> [])"

end
