(* ===== verification/Documents.thy ===== *)
theory Documents
  imports Fire
begin

text \<open>
  The document store of the local databases, \<^verbatim>\<open>dstore.Documents\<close>, as \<^verbatim>\<open>sdb\<close> and \<^verbatim>\<open>sqlcipher\<close>
  implement it: a map from paths to documents with their times. The locale \<open>documents\<close> is
  the contract of its operations; both implementations are shown to provide it, and two
  providers of it cannot be told apart by sequences of calls (\<open>documents_agree\<close>).
\<close>

record 'd docs_ops =
  dsExists :: "string \<Rightarrow> ('d, bool) op"
  dsCreate :: "string \<Rightarrow> fields \<Rightarrow> ('d, unit) op"
  \<comment> \<open>path, values, \<^verbatim>\<open>MergeAll\<close>\<close>
  dsSet :: "string \<Rightarrow> fields \<Rightarrow> bool \<Rightarrow> ('d, unit) op"
  dsGet :: "string \<Rightarrow> ('d, document option) op"
  dsDelete :: "string \<Rightarrow> ('d, bool) op"

definition newDoc :: "string \<Rightarrow> fields \<Rightarrow> gotime \<Rightarrow> document" where
  "newDoc p v now = \<lparr>doPath = p, doFields = v, doCreatedAt = now, doUpdatedAt = now\<rparr>"

text \<open>A document written over an existing one keeps its creation time.\<close>

definition overwrite :: "document option \<Rightarrow> string \<Rightarrow> fields \<Rightarrow> bool \<Rightarrow> gotime \<Rightarrow> document" where
  "overwrite old p v mergeAll now =
     (case old of None \<Rightarrow> newDoc p v now
      | Some d \<Rightarrow> d\<lparr>doFields := (if mergeAll then doFields d ++ v else v), doUpdatedAt := now\<rparr>)"

text \<open>\<open>now d\<close> is the next reading of the clock, \<open>tick d\<close> how often it has been read.\<close>

locale documents =
  fixes D :: "'d docs_ops"
    and docs :: "'d \<Rightarrow> string \<Rightarrow> document option"
    and tick :: "'d \<Rightarrow> nat"
    and clk :: "nat \<Rightarrow> gotime"
    and up :: "'d \<Rightarrow> bool"
  assumes dexists_ok: "up d \<Longrightarrow> plains cs \<Longrightarrow> dsExists D (canon cs) d = (Inr (docs d (canon cs) \<noteq> None), d)"
    and dget_ok: "up d \<Longrightarrow> plains cs \<Longrightarrow> dsGet D (canon cs) d = (Inr (docs d (canon cs)), d)"
    and dcreate_old: "up d \<Longrightarrow> plains cs \<Longrightarrow> docs d (canon cs) \<noteq> None \<Longrightarrow>
      dsCreate D (canon cs) v d = (Inl (LibErr (''path already exists '' @ canon cs)), d)"
    and dcreate_new: "up d \<Longrightarrow> plains cs \<Longrightarrow> finite (dom v) \<Longrightarrow> docs d (canon cs) = None \<Longrightarrow>
      \<exists>d'. dsCreate D (canon cs) v d = (Inr (), d') \<and> up d' \<and> tick d' = Suc (tick d) \<and>
        docs d' = (docs d)(canon cs \<mapsto> newDoc (canon cs) v (clk (tick d)))"
    and dset_ok: "up d \<Longrightarrow> plains cs \<Longrightarrow> finite (dom v) \<Longrightarrow>
      \<exists>d'. dsSet D (canon cs) v mg d = (Inr (), d') \<and> up d' \<and> tick d' = Suc (tick d) \<and>
        docs d' = (docs d)(canon cs \<mapsto> overwrite (docs d (canon cs)) (canon cs) v mg (clk (tick d)))"
    and ddelete_ok: "up d \<Longrightarrow> plains cs \<Longrightarrow>
      \<exists>d'. dsDelete D (canon cs) d = (Inr (docs d (canon cs) \<noteq> None), d') \<and> up d' \<and> tick d' = tick d \<and>
        docs d' = (docs d)(canon cs := None)"
begin

text \<open>What is set is read back; another path keeps its document.\<close>

lemma dset_get:
  assumes "up d" "plains cs" "finite (dom v)" "plains ds"
  shows "\<exists>d'. dsSet D (canon cs) v mg d = (Inr (), d') \<and> up d' \<and>
    dsGet D (canon ds) d' = (Inr (if canon ds = canon cs then Some (overwrite (docs d (canon cs)) (canon cs) v mg (clk (tick d)))
                             else docs d (canon ds)), d')"
  using dset_ok[OF assms(1,2,3), of mg] dget_ok[OF _ assms(4)] by auto

end

section \<open>Sequences of calls\<close>

datatype dcall =
    DExists "string list"
  | DCreate "string list" fields
  | DSet "string list" fields bool
  | DGet "string list"
  | DDelete "string list"

datatype dreply = DRBool bool | DRUnit | DRDoc "document option"

fun docCall :: "'d docs_ops \<Rightarrow> dcall \<Rightarrow> ('d, dreply) op" where
  "docCall D (DExists cs) = bnd (dsExists D (canon cs)) (\<lambda>b. ret (DRBool b))"
| "docCall D (DCreate cs v) = bnd (dsCreate D (canon cs) v) (\<lambda>_. ret DRUnit)"
| "docCall D (DSet cs v mg) = bnd (dsSet D (canon cs) v mg) (\<lambda>_. ret DRUnit)"
| "docCall D (DGet cs) = bnd (dsGet D (canon cs)) (\<lambda>d. ret (DRDoc d))"
| "docCall D (DDelete cs) = bnd (dsDelete D (canon cs)) (\<lambda>b. ret (DRBool b))"

fun callPath :: "dcall \<Rightarrow> string list" where
  "callPath (DExists cs) = cs"
| "callPath (DCreate cs v) = cs"
| "callPath (DSet cs v mg) = cs"
| "callPath (DGet cs) = cs"
| "callPath (DDelete cs) = cs"

fun callFields :: "dcall \<Rightarrow> fields" where
  "callFields (DCreate cs v) = v"
| "callFields (DSet cs v mg) = v"
| "callFields c = Map.empty"

definition dcallOk :: "dcall \<Rightarrow> bool" where
  "dcallOk c \<longleftrightarrow> plains (callPath c) \<and> finite (dom (callFields c))"

text \<open>The replies of a sequence of calls, going on after an error.\<close>

primrec docReplies :: "'d docs_ops \<Rightarrow> dcall list \<Rightarrow> 'd \<Rightarrow> (err + dreply) list" where
  "docReplies D [] d = []"
| "docReplies D (c # cs) d = (case docCall D c d of (r, d') \<Rightarrow> r # docReplies D cs d')"

text \<open>One call in two stores that hold the same documents.\<close>

lemma docCall_agree:
  assumes D: "documents D docs tick clk up" and E: "documents E docs' tick' clk up'"
    and st: "up d" "up' e" "docs d = docs' e" "tick d = tick' e" and p: "dcallOk c"
  shows "\<exists>r d' e'. docCall D c d = (r, d') \<and> docCall E c e = (r, e') \<and> up d' \<and> up' e' \<and>
    docs d' = docs' e' \<and> tick d' = tick' e'"
proof (cases c)
  case (DExists cs)
  with documents.dexists_ok[OF D st(1)] documents.dexists_ok[OF E st(2)] st p show ?thesis by (simp add: op_simps dcallOk_def)
next
  case (DGet cs)
  with documents.dget_ok[OF D st(1)] documents.dget_ok[OF E st(2)] st p show ?thesis by (simp add: op_simps dcallOk_def)
next
  case (DDelete cs)
  then have cs: "plains cs" using p by (simp add: dcallOk_def)
  obtain d' e' where "dsDelete D (canon cs) d = (Inr (docs d (canon cs) \<noteq> None), d')" "up d'" "tick d' = tick d"
      "docs d' = (docs d)(canon cs := None)" "dsDelete E (canon cs) e = (Inr (docs' e (canon cs) \<noteq> None), e')" "up' e'"
      "tick' e' = tick' e" "docs' e' = (docs' e)(canon cs := None)"
    using documents.ddelete_ok[OF D st(1) cs] documents.ddelete_ok[OF E st(2) cs] by blast
  with DDelete st show ?thesis by (simp add: op_simps)
next
  case (DSet cs v mg)
  then have cs: "plains cs" "finite (dom v)" using p by (simp_all add: dcallOk_def)
  obtain d' where d': "dsSet D (canon cs) v mg d = (Inr (), d')" "up d'" "tick d' = Suc (tick d)"
      "docs d' = (docs d)(canon cs \<mapsto> overwrite (docs d (canon cs)) (canon cs) v mg (clk (tick d)))"
    using documents.dset_ok[OF D st(1) cs] by blast
  obtain e' where e': "dsSet E (canon cs) v mg e = (Inr (), e')" "up' e'" "tick' e' = Suc (tick' e)"
      "docs' e' = (docs' e)(canon cs \<mapsto> overwrite (docs' e (canon cs)) (canon cs) v mg (clk (tick' e)))"
    using documents.dset_ok[OF E st(2) cs] by blast
  from DSet d' e' st show ?thesis by (simp add: op_simps)
next
  case (DCreate cs v)
  then have cs: "plains cs" "finite (dom v)" using p by (simp_all add: dcallOk_def)
  show ?thesis
  proof (cases "docs d (canon cs)")
    case None
    obtain d' where d': "dsCreate D (canon cs) v d = (Inr (), d')" "up d'" "tick d' = Suc (tick d)"
        "docs d' = (docs d)(canon cs \<mapsto> newDoc (canon cs) v (clk (tick d)))"
      using documents.dcreate_new[OF D st(1) cs None] by blast
    obtain e' where e': "dsCreate E (canon cs) v e = (Inr (), e')" "up' e'" "tick' e' = Suc (tick' e)"
        "docs' e' = (docs' e)(canon cs \<mapsto> newDoc (canon cs) v (clk (tick' e)))"
      using documents.dcreate_new[OF E st(2) cs] None st(3) by auto
    from DCreate d' e' st show ?thesis by (simp add: op_simps)
  next
    case (Some x)
    then have "docs d (canon cs) \<noteq> None" "docs' e (canon cs) \<noteq> None" using st(3) by simp_all
    with DCreate st documents.dcreate_old[OF D st(1) cs(1)] documents.dcreate_old[OF E st(2) cs(1)] show ?thesis
      by (simp add: op_simps)
  qed
qed

lemma docReplies_agree:
  assumes D: "documents D docs tick clk up" and E: "documents E docs' tick' clk up'"
  shows "up d \<Longrightarrow> up' e \<Longrightarrow> docs d = docs' e \<Longrightarrow> tick d = tick' e \<Longrightarrow> list_all dcallOk cs \<Longrightarrow>
    docReplies D cs d = docReplies E cs e"
proof (induction cs arbitrary: d e)
  case (Cons c cs)
  then have p: "dcallOk c" by simp
  obtain r d' e' where "docCall D c d = (r, d')" "docCall E c e = (r, e')" "up d'" "up' e'" "docs d' = docs' e'" "tick d' = tick' e'"
    using docCall_agree[OF D E Cons.prems(1-4) p] by blast
  with Cons show ?case by simp
qed simp

end
