(* ===== verification/LevelDB.thy ===== *)
theory LevelDB
  imports Store
begin

text \<open>
  The persistent store, \<^verbatim>\<open>vault/ldb.go\<close>, over \<^verbatim>\<open>goleveldb\<close>. The database library and
  \<^verbatim>\<open>os.RemoveAll\<close> are third-party code acting on a disk state \<open>'d\<close>: the record \<open>leveldb\<close> holds
  the functions the code calls, and \<open>leveldb_ok\<close> states their documented behaviour on a disk
  without I/O errors. Under it the file's methods provide the contract \<open>store\<close>
  (\<open>ldb_store\<close>).
\<close>

section \<open>The library\<close>

record 'd leveldb =
  ldOpenFile :: "string \<Rightarrow> ('d, unit) op"
  ldClose :: "('d, unit) op"
  ldPut :: "string \<Rightarrow> string \<Rightarrow> ('d, unit) op"
  ldDelete :: "string \<Rightarrow> ('d, unit) op"
  \<comment> \<open>\<^verbatim>\<open>Get\<close>: the value, or \<open>None\<close> for \<^verbatim>\<open>leveldb.ErrNotFound\<close>\<close>
  ldGet :: "string \<Rightarrow> 'd \<Rightarrow> err + string option"
  ldHas :: "string \<Rightarrow> 'd \<Rightarrow> err + bool"
  \<comment> \<open>the pairs an iterator over \<^verbatim>\<open>BytesPrefix(p)\<close> yields, and its final \<^verbatim>\<open>Error()\<close>\<close>
  ldIter :: "string \<Rightarrow> 'd \<Rightarrow> (string \<times> string) list \<times> err option"
  osRemoveAll :: "string \<Rightarrow> ('d, unit) op"

section \<open>The store\<close>

record 'd DB =
  dbOpen :: bool
  dbPath :: string
  dbDisk :: 'd

definition onDisk :: "('d, 'a) op \<Rightarrow> ('d DB, 'a) op" where
  "onDisk m = zoom dbDisk (\<lambda>d s. s\<lparr>dbDisk := d\<rparr>) m"

definition dbOpenM :: "'d leveldb \<Rightarrow> ('d DB, unit) op" where
  "dbOpenM L = bnd (gets dbOpen) (\<lambda>o'.
     bnd (failIf o' ErrAlreadyOpen) (\<lambda>_.
     bnd (gets dbPath) (\<lambda>path.
     bnd (failIf (path = [] \<or> path = ''/'' \<or> path = [char_of (92::nat)]) (Err ''invalid path'')) (\<lambda>_.
     bnd (onDisk (ldOpenFile L path)) (\<lambda>_.
     modify (\<lambda>s. s\<lparr>dbOpen := True\<rparr>))))))"

definition dbCloseM :: "'d leveldb \<Rightarrow> ('d DB, unit) op" where
  "dbCloseM L = bnd (gets dbOpen) (\<lambda>o'.
     if o' then bnd (onDisk (ldClose L)) (\<lambda>_. modify (\<lambda>s. s\<lparr>dbOpen := False\<rparr>))
     else ret ())"

definition dbReset :: "'d leveldb \<Rightarrow> ('d DB, unit) op" where
  "dbReset L = bnd (gets dbOpen) (\<lambda>wasOpen.
     bnd (if wasOpen then dbCloseM L else ret ()) (\<lambda>_.
     bnd (gets dbPath) (\<lambda>path.
     bnd (onDisk (osRemoveAll L path)) (\<lambda>_.
     if wasOpen then dbOpenM L else ret ()))))"

definition dbChecked :: "('d DB, unit) op" where
  "dbChecked = bnd (gets dbOpen) (\<lambda>o'. failIf (\<not> o') ErrNotOpen)"

text \<open>\<^verbatim>\<open>Put\<close> takes a nil value as an empty one.\<close>

definition dbSet :: "'d leveldb \<Rightarrow> string \<Rightarrow> gobytes \<Rightarrow> ('d DB, unit) op" where
  "dbSet L path b = bnd dbChecked (\<lambda>_. onDisk (ldPut L path (bstr b)))"

definition dbGet :: "'d leveldb \<Rightarrow> string \<Rightarrow> ('d DB, gobytes) op" where
  "dbGet L path = bnd dbChecked (\<lambda>_. bnd (gets (\<lambda>s. ldGet L path (dbDisk s))) lift)"

definition dbDelete :: "'d leveldb \<Rightarrow> string \<Rightarrow> ('d DB, bool) op" where
  "dbDelete L path = bnd dbChecked (\<lambda>_.
     bnd (bnd (gets (\<lambda>s. ldHas L path (dbDisk s))) lift) (\<lambda>exists.
     if \<not> exists then ret False
     else bnd (onDisk (ldDelete L path)) (\<lambda>_. ret True)))"

text \<open>
  The iteration stops at a positive limit; the data is copied unless \<^verbatim>\<open>NoData\<close>; the
  iterator's error is checked last, also after a stop at the limit.
\<close>

definition dbList :: "'d leveldb \<Rightarrow> listOpts option \<Rightarrow> ('d DB, entry list) op" where
  "dbList L o' = bnd dbChecked (\<lambda>_.
     bnd (gets (\<lambda>s. ldIter L (loPrefix (optsOf o')) (dbDisk s))) (\<lambda>(kvs, e).
     let opts = optsOf o';
         out = map (\<lambda>(k, v). \<lparr>ePath = k, eData = (if loNoData opts then None else Some v)\<rparr>)
                 (limitTo (loLimit opts) kvs)
     in (case e of Some err \<Rightarrow> fail err | None \<Rightarrow> ret out)))"

definition dbExists :: "'d leveldb \<Rightarrow> string \<Rightarrow> ('d DB, bool) op" where
  "dbExists L path = bnd dbChecked (\<lambda>_. bnd (gets (\<lambda>s. ldHas L path (dbDisk s))) lift)"

definition NewDB :: "string \<Rightarrow> 'd \<Rightarrow> 'd DB" where
  "NewDB path d = \<lparr>dbOpen = False, dbPath = path, dbDisk = d\<rparr>"

definition ldbOps :: "'d leveldb \<Rightarrow> 'd DB store_ops" where
  "ldbOps L = \<lparr>sName = ''vdb'', sGet = dbGet L, sSet = dbSet L, sDelete = dbDelete L, sList = dbList L,
     sOpen = dbOpenM L, sClose = dbCloseM L, sReset = dbReset L\<rparr>"

section \<open>Documented behaviour of the library\<close>

text \<open>
  \<open>cont\<close> is the map an open database holds; \<open>up\<close> says the disk holds an open database.
  The iterator yields the keys with the prefix in increasing byte order.
\<close>

definition leveldb_ok :: "'d leveldb \<Rightarrow> ('d \<Rightarrow> string \<Rightarrow> string option) \<Rightarrow> ('d \<Rightarrow> bool) \<Rightarrow> bool" where
  "leveldb_ok L cont up \<longleftrightarrow> (\<forall>d. up d \<longrightarrow>
     finite (dom (cont d)) \<and>
     (\<forall>k. ldGet L k d = Inr (cont d k)) \<and>
     (\<forall>k. ldHas L k d = Inr (cont d k \<noteq> None)) \<and>
     (\<forall>k v. \<exists>d'. ldPut L k v d = (Inr (), d') \<and> up d' \<and> cont d' = (cont d)(k \<mapsto> v)) \<and>
     (\<forall>k. \<exists>d'. ldDelete L k d = (Inr (), d') \<and> up d' \<and> cont d' = (cont d)(k := None)) \<and>
     (\<forall>p. ldIter L p d = (map (\<lambda>k. (k, the (cont d k))) (keysWith p (cont d)), None)))"

definition ldbContents :: "('d \<Rightarrow> string \<Rightarrow> string option) \<Rightarrow> 'd DB \<Rightarrow> string \<Rightarrow> string option" where
  "ldbContents cont s = cont (dbDisk s)"

definition ldbReady :: "('d \<Rightarrow> bool) \<Rightarrow> 'd DB \<Rightarrow> bool" where
  "ldbReady up s \<longleftrightarrow> dbOpen s \<and> up (dbDisk s)"

lemma dbChecked_run [op_simps]: "dbChecked s = (if dbOpen s then Inr () else Inl ErrNotOpen, s)"
  by (simp add: dbChecked_def op_simps)

lemma bnd_dbChecked [op_simps]: "dbOpen s \<Longrightarrow> bnd dbChecked f s = f () s"
  by (simp add: op_simps)

lemma onDisk_run [op_simps]: "m (dbDisk s) = (r, d) \<Longrightarrow> onDisk m s = (r, s\<lparr>dbDisk := d\<rparr>)"
  by (simp add: onDisk_def op_simps)

lemma ldb_closed_errors:
  assumes "\<not> dbOpen s"
  shows "dbGet L p s = (Inl ErrNotOpen, s)" "dbSet L p b s = (Inl ErrNotOpen, s)"
    "dbDelete L p s = (Inl ErrNotOpen, s)" "dbList L o' s = (Inl ErrNotOpen, s)"
    "dbExists L p s = (Inl ErrNotOpen, s)"
  using assms
  by (simp_all add: dbGet_def dbSet_def dbDelete_def dbList_def dbExists_def op_simps)

theorem ldb_store:
  assumes L: "leveldb_ok L cont up"
  shows "store (ldbOps L) (ldbContents cont) (ldbReady up)"
proof
  fix s :: "'a DB" assume r: "ldbReady up s"
  define d where "d = dbDisk s"
  have up: "up d" and o: "dbOpen s" using r by (simp_all add: ldbReady_def d_def)
  have fin: "finite (dom (cont d))" and get: "ldGet L k d = Inr (cont d k)"
    and has: "ldHas L k d = Inr (cont d k \<noteq> None)"
    and put: "\<exists>d'. ldPut L k v d = (Inr (), d') \<and> up d' \<and> cont d' = (cont d)(k \<mapsto> v)"
    and del: "\<exists>d'. ldDelete L k d = (Inr (), d') \<and> up d' \<and> cont d' = (cont d)(k := None)"
    and iter: "ldIter L pre d = (map (\<lambda>k. (k, the (cont d k))) (keysWith pre (cont d)), None)" for k v pre
    using L up unfolding leveldb_ok_def by simp_all
  show "finite (dom (ldbContents cont s))" using fin by (simp add: ldbContents_def d_def)
  show "\<exists>es. sList (ldbOps L) o' s = (Inr es, s) \<and>
        map ePath es = limitTo (loLimit (optsOf o')) (keysWith (loPrefix (optsOf o')) (ldbContents cont s)) \<and>
        (\<not> loNoData (optsOf o') \<longrightarrow> (\<forall>e \<in> set es. ldbContents cont s (ePath e) = Some (bstr (eData e))))" for o'
    using o iter fin
    by (auto simp: ldbOps_def dbList_def op_simps ldbContents_def d_def limitTo_map comp_def Let_def
        dest!: set_limitTo)
  fix p :: string assume p: "p \<noteq> []"
  show "\<exists>b. sGet (ldbOps L) p s = (Inr b, s) \<and>
      (case ldbContents cont s p of None \<Rightarrow> b = None | Some c \<Rightarrow> bstr b = c)"
    using o get by (auto simp: ldbOps_def dbGet_def op_simps ldbContents_def d_def split: option.splits)
  show "\<exists>s'. sSet (ldbOps L) p b s = (Inr (), s') \<and> ldbReady up s' \<and>
      ldbContents cont s' = (ldbContents cont s)(p \<mapsto> bstr b)" for b
    using o put[of p "bstr b"]
    by (auto simp: ldbOps_def dbSet_def op_simps ldbContents_def ldbReady_def d_def)
  show "\<exists>s'. sDelete (ldbOps L) p s = (Inr (ldbContents cont s p \<noteq> None), s') \<and> ldbReady up s' \<and>
      ldbContents cont s' = (ldbContents cont s)(p := None)"
  proof (cases "cont d p")
    case None
    then have "sDelete (ldbOps L) p s = (Inr False, s)"
      using o has[of p] by (simp add: ldbOps_def dbDelete_def op_simps d_def)
    with None r show ?thesis by (auto simp: ldbContents_def d_def fun_upd_idem)
  next
    case (Some c)
    obtain d' where d': "ldDelete L p d = (Inr (), d')" "up d'" "cont d' = (cont d)(p := None)"
      using del by blast
    then have "sDelete (ldbOps L) p s = (Inr True, s\<lparr>dbDisk := d'\<rparr>)"
      using o has[of p] Some by (simp add: ldbOps_def dbDelete_def op_simps d_def)
    with Some d' o show ?thesis by (simp add: ldbContents_def ldbReady_def d_def)
  qed
qed

end
