(* ===== verification/Sdb.thy ===== *)
theory Sdb
  imports Documents LevelDB
begin

text \<open>
  The encrypted document database over leveldb: \<^verbatim>\<open>sdb/sdb.go\<close>, \<^verbatim>\<open>sdb/db.go\<close> and
  \<^verbatim>\<open>sdb/iterator.go\<close>. Besides \<open>leveldb\<close>, the encryption of \<^verbatim>\<open>minio/sio\<close> and msgpack are
  third-party functions, the record \<open>sdbLib\<close>. Under their documented behaviour the database
  provides the contract \<open>documents\<close> (\<open>sdb_documents\<close>).
\<close>

section \<open>State\<close>

record sdbLib =
  \<comment> \<open>sio.Encrypt (draw, data, key) and sio.Decrypt\<close>
  slEncrypt :: "nat \<Rightarrow> string \<Rightarrow> string \<Rightarrow> err + string"
  slDecrypt :: "string \<Rightarrow> string \<Rightarrow> err + string"
  \<comment> \<open>msgpack of a document\<close>
  slM :: "document \<Rightarrow> err + string"
  slU :: "string \<Rightarrow> err + document"
  slClock :: "nat \<Rightarrow> gotime"

text \<open>A database is open when it has a key.\<close>

record 'd sdbState =
  sbKey :: "string option"
  sbPath :: string
  sbDisk :: 'd
  sbTick :: nat
  sbDraws :: nat

definition sdbNew :: "'d \<Rightarrow> 'd sdbState" where
  "sdbNew d = \<lparr>sbKey = None, sbPath = [], sbDisk = d, sbTick = 0, sbDraws = 0\<rparr>"

definition onSdisk :: "('d, 'a) op \<Rightarrow> ('d sdbState, 'a) op" where
  "onSdisk m = zoom sbDisk (\<lambda>d s. s\<lparr>sbDisk := d\<rparr>) m"

lemma onSdisk_run [op_simps]: "m (sbDisk s) = (r, d) \<Longrightarrow> onSdisk m s = (r, s\<lparr>sbDisk := d\<rparr>)"
  by (simp add: onSdisk_def op_simps)

definition sdbNow :: "sdbLib \<Rightarrow> ('d sdbState, gotime) op" where
  "sdbNow S = (\<lambda>s. (Inr (slClock S (sbTick s)), s\<lparr>sbTick := Suc (sbTick s)\<rparr>))"

section \<open>sdb.go\<close>

definition encryptS :: "sdbLib \<Rightarrow> string \<Rightarrow> string \<Rightarrow> ('d sdbState, string) op" where
  "encryptS S key b = (\<lambda>s. (slEncrypt S (sbDraws s) b key, s\<lparr>sbDraws := Suc (sbDraws s)\<rparr>))"

definition decryptS :: "sdbLib \<Rightarrow> string \<Rightarrow> string \<Rightarrow> err + string" where
  "decryptS S key b = (if length b = 0 then Inr b else slDecrypt S b key)"

definition sdbPut :: "'d leveldb \<Rightarrow> sdbLib \<Rightarrow> string \<Rightarrow> string \<Rightarrow> string \<Rightarrow> ('d sdbState, unit) op" where
  "sdbPut L S key path b = bnd (encryptS S key b) (\<lambda>encrypted. onSdisk (ldPut L path encrypted))"

definition sdbGetRaw :: "'d leveldb \<Rightarrow> sdbLib \<Rightarrow> string \<Rightarrow> string \<Rightarrow> ('d sdbState, gobytes) op" where
  "sdbGetRaw L S key path =
     bnd (bnd (gets (\<lambda>s. ldGet L path (sbDisk s))) lift) (\<lambda>b.
     case b of None \<Rightarrow> ret None
     | Some c \<Rightarrow> bnd (lift (decryptS S key c)) (\<lambda>d. ret (Some d)))"

text \<open>\<^verbatim>\<open>siter.Value\<close>: nil when the value does not decrypt.\<close>

definition siterValue :: "sdbLib \<Rightarrow> string \<Rightarrow> string \<Rightarrow> gobytes" where
  "siterValue S key b = (case decryptS S key b of Inl e \<Rightarrow> None | Inr d \<Rightarrow> Some d)"

section \<open>db.go\<close>

definition whenOpen :: "(string \<Rightarrow> ('d sdbState, 'a) op) \<Rightarrow> ('d sdbState, 'a) op" where
  "whenOpen f = bnd (gets sbKey) (\<lambda>k. case k of None \<Rightarrow> fail (Err ''db not open'') | Some key \<Rightarrow> f key)"

lemma whenOpen_run [op_simps]: "sbKey s = Some key \<Longrightarrow> whenOpen f s = f key s"
  "sbKey s = None \<Longrightarrow> whenOpen f s = (Inl (Err ''db not open''), s)"
  by (simp_all add: whenOpen_def op_simps)

definition OpenAtPath :: "'d leveldb \<Rightarrow> string \<Rightarrow> string \<Rightarrow> ('d sdbState, unit) op" where
  "OpenAtPath L path key =
     bnd (gets sbKey) (\<lambda>k.
     bnd (failIf (k \<noteq> None) (Err ''already open'')) (\<lambda>_.
     bnd (modify (\<lambda>s. s\<lparr>sbPath := path\<rparr>)) (\<lambda>_.
     bnd (onSdisk (ldOpenFile L path)) (\<lambda>_.
     modify (\<lambda>s. s\<lparr>sbKey := Some key\<rparr>)))))"

definition IsOpen :: "'d sdbState \<Rightarrow> bool" where
  "IsOpen s \<longleftrightarrow> sbKey s \<noteq> None"

text \<open>An error of closing is logged only.\<close>

definition sdbClose :: "'d leveldb \<Rightarrow> ('d sdbState, unit) op" where
  "sdbClose L =
     bnd (gets sbKey) (\<lambda>k.
     if k = None then ret ()
     else bnd (\<lambda>s. (Inr (), snd (onSdisk (ldClose L) s))) (\<lambda>_. modify (\<lambda>s. s\<lparr>sbKey := None\<rparr>)))"

definition sdbExists :: "'z ext_scheme \<Rightarrow> 'd leveldb \<Rightarrow> string \<Rightarrow> ('d sdbState, bool) op" where
  "sdbExists X L path =
     whenOpen (\<lambda>key. bnd (gets (\<lambda>s. ldHas L (xPath X [path]) (sbDisk s))) lift)"

definition sdbPutDoc :: "'d leveldb \<Rightarrow> sdbLib \<Rightarrow> string \<Rightarrow> string \<Rightarrow> document \<Rightarrow> ('d sdbState, unit) op" where
  "sdbPutDoc L S key path doc = bnd (lift (slM S doc)) (\<lambda>mb. sdbPut L S key path mb)"

definition sdbCreate :: "'z ext_scheme \<Rightarrow> 'd leveldb \<Rightarrow> sdbLib \<Rightarrow> string \<Rightarrow> fields \<Rightarrow> ('d sdbState, unit) op" where
  "sdbCreate X L S p values =
     whenOpen (\<lambda>key.
     let path = xPath X [p]
     in bnd (failIf (path = ''/'') (Err (''invalid path '' @ path))) (\<lambda>_.
        bnd (sdbExists X L path) (\<lambda>exists.
        bnd (failIf exists (LibErr (''path already exists '' @ path))) (\<lambda>_.
        bnd (sdbNow S) (\<lambda>now.
        sdbPutDoc L S key path \<lparr>doPath = path, doFields = values, doCreatedAt = now, doUpdatedAt = now\<rparr>)))))"

text \<open>The path in the decrypted document is checked against the one asked for.\<close>

definition sdbUnmarshal :: "sdbLib \<Rightarrow> string \<Rightarrow> gobytes \<Rightarrow> err + document" where
  "sdbUnmarshal S path b =
     (case slU S (bstr b) of Inl e \<Rightarrow> Inl e
      | Inr doc \<Rightarrow> if doPath doc \<noteq> path then Inl (Err (''document path mismatch '' @ doPath doc @ '' != '' @ path)) else Inr doc)"

definition sdbGetDoc :: "'d leveldb \<Rightarrow> sdbLib \<Rightarrow> string \<Rightarrow> ('d sdbState, document option) op" where
  "sdbGetDoc L S path =
     whenOpen (\<lambda>key.
     bnd (sdbGetRaw L S key path) (\<lambda>b.
     if b = None then ret None else bnd (lift (sdbUnmarshal S path b)) (\<lambda>d. ret (Some d))))"

definition sdbSetDoc :: "'d leveldb \<Rightarrow> sdbLib \<Rightarrow> string \<Rightarrow> fields \<Rightarrow> bool \<Rightarrow> ('d sdbState, unit) op" where
  "sdbSetDoc L S path values mergeAll =
     whenOpen (\<lambda>key.
     bnd (sdbGetDoc L S path) (\<lambda>doc.
     bnd (sdbNow S) (\<lambda>now.
     sdbPutDoc L S key path
       (case doc of
          None \<Rightarrow> \<lparr>doPath = path, doFields = values, doCreatedAt = now, doUpdatedAt = now\<rparr>
        | Some d \<Rightarrow> d\<lparr>doFields := (if mergeAll then doFields d ++ values else values), doUpdatedAt := now\<rparr>))))"

definition sdbSet :: "'z ext_scheme \<Rightarrow> 'd leveldb \<Rightarrow> sdbLib \<Rightarrow> string \<Rightarrow> fields \<Rightarrow> bool \<Rightarrow> ('d sdbState, unit) op" where
  "sdbSet X L S p values mergeAll =
     whenOpen (\<lambda>key.
     let path = xPath X [p]
     in bnd (failIf (path = ''/'') (Err (''invalid path '' @ path))) (\<lambda>_. sdbSetDoc L S path values mergeAll))"

definition sdbGet :: "'z ext_scheme \<Rightarrow> 'd leveldb \<Rightarrow> sdbLib \<Rightarrow> string \<Rightarrow> ('d sdbState, document option) op" where
  "sdbGet X L S p = sdbGetDoc L S (xPath X [p])"

definition sdbGetAll :: "'d leveldb \<Rightarrow> sdbLib \<Rightarrow> string list \<Rightarrow> ('d sdbState, document list) op" where
  "sdbGetAll L S paths = collect paths (sdbGetDoc L S)"

definition sdbDelete :: "'z ext_scheme \<Rightarrow> 'd leveldb \<Rightarrow> string \<Rightarrow> ('d sdbState, bool) op" where
  "sdbDelete X L p =
     whenOpen (\<lambda>key.
     let path = xPath X [p]
     in bnd (bnd (gets (\<lambda>s. ldHas L path (sbDisk s))) lift) (\<lambda>ok.
        if \<not> ok then ret False
        else bnd (onSdisk (ldDelete L path)) (\<lambda>_. ret True)))"

text \<open>\<^verbatim>\<open>DeleteAll\<close> uses the paths as they are and does not check that the database is open.\<close>

definition sdbDeleteAll :: "'d leveldb \<Rightarrow> string list \<Rightarrow> ('d sdbState, unit) op" where
  "sdbDeleteAll L paths = forEach paths (\<lambda>p.
     bnd (gets sbKey) (\<lambda>k. bnd (failIf (k = None) (Panic ''nil pointer'')) (\<lambda>_. onSdisk (ldDelete L p))))"

section \<open>Listing\<close>

text \<open>The iterator of \<^verbatim>\<open>iterator.go\<close>: the entries to come, the iterator's error, options, count.\<close>

record sdbIter =
  siKvs :: "(string \<times> string) list"
  siErr :: "err option"
  siIndex :: int
  siLimit :: int
  siCount :: int
  siNoData :: bool

primrec sdbSkip :: "sdbLib \<Rightarrow> string \<Rightarrow> sdbIter \<Rightarrow> (string \<times> string) list \<Rightarrow> (err + document option) \<times> sdbIter" where
  "sdbSkip S key i [] = (case siErr i of Some e \<Rightarrow> Inl e | None \<Rightarrow> Inr None, i\<lparr>siKvs := []\<rparr>)"
| "sdbSkip S key i (kv # kvs) =
     (let i' = i\<lparr>siCount := siCount i + 1, siKvs := kvs\<rparr>; path = fst kv
      in if siIndex i' > siCount i' - 1 then sdbSkip S key i' kvs
         else if siLimit i' \<noteq> 0 \<and> siCount i' > siLimit i' then (Inr None, i')
         else if siNoData i' then (Inr (Some (newDoc path Map.empty 0)), i')
         else (case sdbUnmarshal S path (siterValue S key (snd kv)) of
                 Inl e \<Rightarrow> (Inl e, i') | Inr d \<Rightarrow> (Inr (Some d), i')))"

definition sdbNext :: "sdbLib \<Rightarrow> string \<Rightarrow> (sdbIter, document option) op" where
  "sdbNext S key i = sdbSkip S key i (siKvs i)"

definition iterPrefix :: "'z ext_scheme \<Rightarrow> string \<Rightarrow> string \<Rightarrow> string" where
  "iterPrefix X parent pre =
     (if parent \<noteq> [] then (if pre \<noteq> [] then xPath X [parent, pre] else xPath X [parent] @ ''/'') else pre)"

definition sdbDocumentIterator ::
  "'z ext_scheme \<Rightarrow> 'd leveldb \<Rightarrow> string \<Rightarrow> iterOpts \<Rightarrow> ('d sdbState, sdbIter) op" where
  "sdbDocumentIterator X L parent opts =
     whenOpen (\<lambda>key.
     bnd (gets (\<lambda>s. ldIter L (iterPrefix X parent (ioPrefix opts)) (sbDisk s))) (\<lambda>(kvs, e).
     ret \<lparr>siKvs = kvs, siErr = e, siIndex = ioIndex opts, siLimit = ioLimit opts, siCount = 0, siNoData = ioNoData opts\<rparr>))"

text \<open>\<^verbatim>\<open>Documents\<close> runs over the entries itself: a positive limit ends it, every entry is read.\<close>

primrec readEntries :: "sdbLib \<Rightarrow> string \<Rightarrow> (string \<times> string) list \<Rightarrow> err + document list" where
  "readEntries S key [] = Inr []"
| "readEntries S key (kv # kvs) =
     (case sdbUnmarshal S (fst kv) (siterValue S key (snd kv)) of Inl e \<Rightarrow> Inl e
      | Inr d \<Rightarrow> (case readEntries S key kvs of Inl e \<Rightarrow> Inl e | Inr ds \<Rightarrow> Inr (d # ds)))"

definition sdbDocuments ::
  "'z ext_scheme \<Rightarrow> 'd leveldb \<Rightarrow> sdbLib \<Rightarrow> string \<Rightarrow> iterOpts \<Rightarrow> ('d sdbState, document list) op" where
  "sdbDocuments X L S parent opts =
     bnd (failIf (ioIndex opts \<noteq> 0) (Err ''index not implemented'')) (\<lambda>_.
     whenOpen (\<lambda>key.
     bnd (gets (\<lambda>s. ldIter L (iterPrefix X parent (ioPrefix opts)) (sbDisk s))) (\<lambda>(kvs, e).
     bnd (lift (readEntries S key (limitTo (ioLimit opts) kvs))) (\<lambda>docs.
     case e of Some err \<Rightarrow> fail err | None \<Rightarrow> ret docs))))"

definition sdbDeleteCollection ::
  "'z ext_scheme \<Rightarrow> 'd leveldb \<Rightarrow> sdbLib \<Rightarrow> string \<Rightarrow> ('d sdbState, unit) op" where
  "sdbDeleteCollection X L S parent =
     bnd (sdbDocuments X L S parent ((prefixOpts [])\<lparr>ioNoData := True\<rparr>)) (\<lambda>docs.
     sdbDeleteAll L (map doPath docs))"

text \<open>The collections of all the documents, in the order they are met.\<close>

primrec colsOf :: "'z ext_scheme \<Rightarrow> string list \<Rightarrow> string list \<Rightarrow> string list" where
  "colsOf X seen [] = []"
| "colsOf X seen (p # ps) =
     (let col = xPathFirst X p in if col \<in> set seen then colsOf X seen ps else xPath X [col] # colsOf X (col # seen) ps)"

definition sdbCollections :: "'z ext_scheme \<Rightarrow> 'd leveldb \<Rightarrow> sdbLib \<Rightarrow> string \<Rightarrow> ('d sdbState, string list) op" where
  "sdbCollections X L S parent =
     whenOpen (\<lambda>key.
     bnd (failIf (xPath X [parent] \<noteq> ''/'') (Err ''only root collections supported'')) (\<lambda>_.
     bnd (gets (\<lambda>s. ldIter L [] (sbDisk s))) (\<lambda>(kvs, e).
     bnd (lift (readEntries S key kvs)) (\<lambda>docs.
     case e of Some err \<Rightarrow> fail err | None \<Rightarrow> ret (colsOf X [] (map doPath docs))))))"

text \<open>\<^verbatim>\<open>Last\<close>: the document of the last key with a prefix.\<close>

definition sdbLast :: "'d leveldb \<Rightarrow> sdbLib \<Rightarrow> string \<Rightarrow> ('d sdbState, document option) op" where
  "sdbLast L S pre =
     whenOpen (\<lambda>key.
     bnd (gets (\<lambda>s. ldIter L pre (sbDisk s))) (\<lambda>(kvs, e).
     bnd (if kvs = [] then ret None else sdbGetDoc L S (fst (last kvs))) (\<lambda>doc.
     case e of Some err \<Rightarrow> fail (Wrapped ''failed to iterate db'' err) | None \<Rightarrow> ret doc)))"

definition sdbOps :: "'z ext_scheme \<Rightarrow> 'd leveldb \<Rightarrow> sdbLib \<Rightarrow> 'd sdbState docs_ops" where
  "sdbOps X L S = \<lparr>dsExists = sdbExists X L, dsCreate = sdbCreate X L S, dsSet = sdbSet X L S, dsGet = sdbGet X L S,
     dsDelete = sdbDelete X L\<rparr>"

section \<open>The contract\<close>

definition sdbLib_ok :: "sdbLib \<Rightarrow> bool" where
  "sdbLib_ok S \<longleftrightarrow>
     (\<forall>r b k. length k = 32 \<longrightarrow> (\<exists>c. slEncrypt S r b k = Inr c \<and> c \<noteq> [] \<and> slDecrypt S c k = Inr b)) \<and>
     (\<forall>d. finite (dom (doFields d)) \<longrightarrow> (\<exists>b. slM S d = Inr b \<and> slU S b = Inr d))"

text \<open>The document a stored value holds, and the documents of a database.\<close>

definition docIn :: "sdbLib \<Rightarrow> string \<Rightarrow> string \<Rightarrow> string \<Rightarrow> document option" where
  "docIn S key p c = (case decryptS S key c of Inl e \<Rightarrow> None
     | Inr b \<Rightarrow> (case sdbUnmarshal S p (Some b) of Inl e \<Rightarrow> None | Inr d \<Rightarrow> Some d))"

definition sdbDocs :: "sdbLib \<Rightarrow> ('d \<Rightarrow> string \<Rightarrow> string option) \<Rightarrow> 'd sdbState \<Rightarrow> string \<Rightarrow> document option" where
  "sdbDocs S cont s p = (case cont (sbDisk s) p of None \<Rightarrow> None | Some c \<Rightarrow> docIn S (the (sbKey s)) p c)"

definition sdbUp :: "sdbLib \<Rightarrow> ('d \<Rightarrow> string \<Rightarrow> string option) \<Rightarrow> ('d \<Rightarrow> bool) \<Rightarrow> 'd sdbState \<Rightarrow> bool" where
  "sdbUp S cont up s \<longleftrightarrow> (\<exists>key. sbKey s = Some key \<and> length key = 32 \<and> up (sbDisk s) \<and>
     (\<forall>p c. cont (sbDisk s) p = Some c \<longrightarrow> (\<exists>d. docIn S key p c = Some d \<and> finite (dom (doFields d)))))"

lemma docIn_read: "docIn S key p c = Some d \<longleftrightarrow> (\<exists>b. decryptS S key c = Inr b \<and> sdbUnmarshal S p (Some b) = Inr d)"
  by (auto simp: docIn_def split: sum.splits)

lemma canon_not_root: "plains cs \<Longrightarrow> canon cs \<noteq> ''/''"
  by (cases cs) (auto simp: plain_def)

lemma sdbGetDoc_ok:
  assumes L: "leveldb_ok L cont up" and u: "sdbUp S cont up s"
  shows "sdbGetDoc L S p s = (Inr (sdbDocs S cont s p), s)"
proof -
  obtain key where k: "sbKey s = Some key" "up (sbDisk s)" "\<forall>p c. cont (sbDisk s) p = Some c \<longrightarrow> (\<exists>d. docIn S key p c = Some d \<and> finite (dom (doFields d)))"
    using u unfolding sdbUp_def by blast
  have get: "ldGet L p (sbDisk s) = Inr (cont (sbDisk s) p)" using L k(2) unfolding leveldb_ok_def by blast
  show ?thesis
  proof (cases "cont (sbDisk s) p")
    case None
    with k get show ?thesis by (simp add: sdbGetDoc_def sdbGetRaw_def op_simps sdbDocs_def)
  next
    case (Some c)
    then obtain d where d: "docIn S key p c = Some d" using k(3) by blast
    then obtain b where "decryptS S key c = Inr b" "sdbUnmarshal S p (Some b) = Inr d" using docIn_read by metis
    with Some k(1) get d show ?thesis by (simp add: sdbGetDoc_def sdbGetRaw_def op_simps sdbDocs_def)
  qed
qed

lemma sdbPutDoc_ok:
  assumes L: "leveldb_ok L cont up" and S: "sdbLib_ok S" and u: "sdbUp S cont up s" and k: "sbKey s = Some key"
    and d: "doPath d = p" "finite (dom (doFields d))"
  shows "\<exists>s'. sdbPutDoc L S key p d s = (Inr (), s') \<and> sdbUp S cont up s' \<and> sbTick s' = sbTick s \<and>
    sdbDocs S cont s' = (sdbDocs S cont s)(p \<mapsto> d)"
proof -
  have k': "length key = 32" "up (sbDisk s)" "\<forall>p c. cont (sbDisk s) p = Some c \<longrightarrow> (\<exists>d. docIn S key p c = Some d \<and> finite (dom (doFields d)))"
    using u k unfolding sdbUp_def by auto
  obtain b where b: "slM S d = Inr b" "slU S b = Inr d" using S d(2) unfolding sdbLib_ok_def by blast
  obtain c where c: "slEncrypt S (sbDraws s) b key = Inr c" "c \<noteq> []" "slDecrypt S c key = Inr b"
    using S k'(1) unfolding sdbLib_ok_def by blast
  obtain e where e: "ldPut L p c (sbDisk s) = (Inr (), e)" "up e" "cont e = (cont (sbDisk s))(p \<mapsto> c)"
    using L k'(2) unfolding leveldb_ok_def by blast
  let ?s = "s\<lparr>sbDraws := Suc (sbDraws s), sbDisk := e\<rparr>"
  have run: "sdbPutDoc L S key p d s = (Inr (), ?s)"
    using b(1) c(1) e(1) by (simp add: sdbPutDoc_def sdbPut_def encryptS_def bnd_def lift_def onSdisk_def zoom_def)
  have new: "docIn S key p c = Some d"
    using c b(2) d(1) by (simp add: docIn_def decryptS_def sdbUnmarshal_def)
  have "sdbUp S cont up ?s" using k k' e(2,3) new d(2) by (auto simp: sdbUp_def)
  moreover have "sdbDocs S cont ?s = (sdbDocs S cont s)(p \<mapsto> d)"
    using k e(3) new by (auto simp: sdbDocs_def fun_eq_iff split: option.splits)
  ultimately show ?thesis using run by auto
qed

lemma sdbUp_tick: "sdbUp S cont up s \<Longrightarrow> sdbUp S cont up (s\<lparr>sbTick := t\<rparr>)"
  by (simp add: sdbUp_def)

lemma sdbDocs_tick [simp]: "sdbDocs S cont (s\<lparr>sbTick := t\<rparr>) = sdbDocs S cont s"
  by (auto simp: sdbDocs_def fun_eq_iff split: option.splits)

lemma sdbDocs_path:
  "sdbUp S cont up s \<Longrightarrow> sdbDocs S cont s p = Some d \<Longrightarrow> doPath d = p"
  by (auto simp: sdbDocs_def docIn_def sdbUnmarshal_def split: option.splits sum.splits if_splits)

lemma sdbDocs_finite:
  "sdbUp S cont up s \<Longrightarrow> sdbDocs S cont s p = Some d \<Longrightarrow> finite (dom (doFields d))"
  unfolding sdbUp_def sdbDocs_def by (fastforce split: option.splits)

lemma sdb_documents:
  assumes X: "dstore_ok X" and L: "leveldb_ok L cont up" and S: "sdbLib_ok S"
  shows "documents (sdbOps X L S) (sdbDocs S cont) sbTick (slClock S) (sdbUp S cont up)"
proof
  fix s cs v mg
  assume u: "sdbUp S cont up s" and cs: "plains cs"
  let ?p = "canon cs"
  have p: "xPath X [?p] = ?p" using xPath_canon[OF X cs] .
  obtain key where k: "sbKey s = Some key" "length key = 32" "up (sbDisk s)"
      "\<forall>p c. cont (sbDisk s) p = Some c \<longrightarrow> (\<exists>d. docIn S key p c = Some d \<and> finite (dom (doFields d)))"
    using u unfolding sdbUp_def by blast
  have has: "ldHas L ?p (sbDisk s) = Inr (cont (sbDisk s) ?p \<noteq> None)" using L k(3) unfolding leveldb_ok_def by blast
  have some: "cont (sbDisk s) ?p \<noteq> None \<longleftrightarrow> sdbDocs S cont s ?p \<noteq> None"
    using k(1,4) by (auto simp: sdbDocs_def split: option.splits)
  have ex: "sdbExists X L ?p s = (Inr (sdbDocs S cont s ?p \<noteq> None), s)"
    using k(1) has some p by (simp add: sdbExists_def op_simps)
  then show "dsExists (sdbOps X L S) ?p s = (Inr (sdbDocs S cont s ?p \<noteq> None), s)" by (simp add: sdbOps_def)
  show "dsGet (sdbOps X L S) ?p s = (Inr (sdbDocs S cont s ?p), s)"
    using sdbGetDoc_ok[OF L u] p by (simp add: sdbOps_def sdbGet_def)
  show "dsCreate (sdbOps X L S) ?p v s = (Inl (LibErr (''path already exists '' @ ?p)), s)"
    if "sdbDocs S cont s ?p \<noteq> None"
    using ex that k(1) p canon_not_root[OF cs] by (simp add: sdbOps_def sdbCreate_def op_simps Let_def)
  let ?now = "slClock S (sbTick s)" and ?t = "s\<lparr>sbTick := Suc (sbTick s)\<rparr>"
  have k': "sbKey ?t = Some key" using k(1) by simp
  note put = sdbPutDoc_ok[OF L S sdbUp_tick[OF u] k']
  show "\<exists>d'. dsCreate (sdbOps X L S) ?p v s = (Inr (), d') \<and> sdbUp S cont up d' \<and> sbTick d' = Suc (sbTick s) \<and>
      sdbDocs S cont d' = (sdbDocs S cont s)(?p \<mapsto> newDoc ?p v ?now)"
    if v: "finite (dom v)" and none: "sdbDocs S cont s ?p = None"
  proof -
    obtain s' where s': "sdbPutDoc L S key ?p (newDoc ?p v ?now) ?t = (Inr (), s')" "sdbUp S cont up s'" "sbTick s' = Suc (sbTick s)"
        "sdbDocs S cont s' = (sdbDocs S cont s)(?p \<mapsto> newDoc ?p v ?now)"
      using put[of "newDoc ?p v ?now" ?p] v by (auto simp: newDoc_def)
    have "sdbCreate X L S ?p v s = (Inr (), s')"
      using ex none k(1) p canon_not_root[OF cs] s'(1)
      by (simp add: sdbCreate_def op_simps Let_def sdbNow_def bnd_def newDoc_def)
    with s' show ?thesis by (simp add: sdbOps_def)
  qed
  show "\<exists>d'. dsSet (sdbOps X L S) ?p v mg s = (Inr (), d') \<and> sdbUp S cont up d' \<and> sbTick d' = Suc (sbTick s) \<and>
      sdbDocs S cont d' = (sdbDocs S cont s)(?p \<mapsto> overwrite (sdbDocs S cont s ?p) ?p v mg ?now)"
    if v: "finite (dom v)"
  proof -
    let ?d = "overwrite (sdbDocs S cont s ?p) ?p v mg ?now"
    have "doPath ?d = ?p" using sdbDocs_path[OF u, of ?p] by (auto simp: overwrite_def newDoc_def split: option.splits)
    moreover have "finite (dom (doFields ?d))"
      using v sdbDocs_finite[OF u, of ?p] by (auto simp: overwrite_def newDoc_def split: option.splits)
    ultimately obtain s' where s': "sdbPutDoc L S key ?p ?d ?t = (Inr (), s')" "sdbUp S cont up s'" "sbTick s' = Suc (sbTick s)"
        "sdbDocs S cont s' = (sdbDocs S cont s)(?p \<mapsto> ?d)"
      using put[of ?d ?p] by auto
    have "sdbSet X L S ?p v mg s = (Inr (), s')"
      using k(1) p canon_not_root[OF cs] s'(1)[unfolded overwrite_def newDoc_def] sdbGetDoc_ok[OF L u, of ?p]
      by (simp add: sdbSet_def sdbSetDoc_def op_simps Let_def sdbNow_def bnd_def)
    with s' show ?thesis by (simp add: sdbOps_def)
  qed
  show "\<exists>d'. dsDelete (sdbOps X L S) ?p s = (Inr (sdbDocs S cont s ?p \<noteq> None), d') \<and> sdbUp S cont up d' \<and>
      sbTick d' = sbTick s \<and> sdbDocs S cont d' = (sdbDocs S cont s)(?p := None)"
  proof (cases "sdbDocs S cont s ?p")
    case None
    then have "sdbDelete X L ?p s = (Inr False, s)"
      using k(1) has some p by (simp add: sdbDelete_def op_simps Let_def)
    with None u show ?thesis by (simp add: sdbOps_def fun_upd_idem)
  next
    case (Some d)
    obtain e where e: "ldDelete L ?p (sbDisk s) = (Inr (), e)" "up e" "cont e = (cont (sbDisk s))(?p := None)"
      using L k(3) unfolding leveldb_ok_def by blast
    have "sdbDelete X L ?p s = (Inr True, s\<lparr>sbDisk := e\<rparr>)"
      using k(1) has some p Some e(1) by (simp add: sdbDelete_def op_simps Let_def)
    moreover have "sdbUp S cont up (s\<lparr>sbDisk := e\<rparr>)" using k e by (auto simp: sdbUp_def)
    moreover have "sdbDocs S cont (s\<lparr>sbDisk := e\<rparr>) = (sdbDocs S cont s)(?p := None)"
      using k(1) e(3) by (auto simp: sdbDocs_def fun_eq_iff split: option.splits)
    ultimately show ?thesis using Some by (simp add: sdbOps_def)
  qed
qed

section \<open>Listing and deleting a collection\<close>

lemma sdbDocs_dom: "sdbUp S cont up s \<Longrightarrow> dom (sdbDocs S cont s) = dom (cont (sbDisk s))"
  unfolding sdbUp_def sdbDocs_def by (fastforce simp: dom_def split: option.splits)

text \<open>The stored entries of some of the documents, read back.\<close>

lemma readEntries_ok:
  assumes u: "sdbUp S cont up s" and k: "sbKey s = Some key"
  shows "set ks \<subseteq> dom (cont (sbDisk s)) \<Longrightarrow>
    readEntries S key (map (\<lambda>p. (p, the (cont (sbDisk s) p))) ks) = Inr (map (\<lambda>p. the (sdbDocs S cont s p)) ks)"
proof (induction ks)
  case (Cons p ks)
  then obtain c where c: "cont (sbDisk s) p = Some c" by auto
  obtain d where d: "docIn S key p c = Some d" using u k c unfolding sdbUp_def by fastforce
  then obtain b where b: "decryptS S key c = Inr b" "sdbUnmarshal S p (Some b) = Inr d" using docIn_read by metis
  with c d k Cons show ?case by (simp add: siterValue_def sdbDocs_def)
qed simp

text \<open>A listing below a path gives the documents under it, in path order, cut at a positive limit.\<close>

lemma sdbDocuments_ok:
  assumes X: "dstore_ok X" and L: "leveldb_ok L cont up" and u: "sdbUp S cont up s"
    and cs: "plains cs" and o: "ioPrefix opts = []" "ioIndex opts = 0"
  shows "sdbDocuments X L S (canon cs) opts s =
    (Inr (map (\<lambda>p. the (sdbDocs S cont s p)) (limitTo (ioLimit opts) (keysWith (canon cs @ ''/'') (sdbDocs S cont s)))), s)"
proof -
  obtain key where k: "sbKey s = Some key" "up (sbDisk s)" using u unfolding sdbUp_def by blast
  let ?c = "cont (sbDisk s)" and ?pre = "canon cs @ ''/''"
  have it: "ldIter L ?pre (sbDisk s) = (map (\<lambda>k. (k, the (?c k))) (keysWith ?pre ?c), None)" and fin: "finite (dom ?c)"
    using L k(2) unfolding leveldb_ok_def by blast+
  have dom: "keysWith ?pre ?c = keysWith ?pre (sdbDocs S cont s)" by (simp add: keysWith_def sdbDocs_dom[OF u])
  have ne: "canon cs \<noteq> []" using cs by (cases cs) (auto simp: plains_def)
  have "set (limitTo (ioLimit opts) (keysWith ?pre ?c)) \<subseteq> dom ?c" using fin by (auto dest!: set_limitTo simp: keysWith_def)
  from readEntries_ok[OF u k(1) this] show ?thesis
    using k(1) it o ne xPath_canon[OF X cs]
    by (simp add: sdbDocuments_def iterPrefix_def op_simps limitTo_map dom)
qed

lemma sdbDeleteAll_ok:
  assumes L: "leveldb_ok L cont up" and u: "sdbUp S cont up s"
  shows "\<exists>s'. sdbDeleteAll L ps s = (Inr (), s') \<and> sdbUp S cont up s' \<and> sbTick s' = sbTick s \<and>
    sdbDocs S cont s' = sdbDocs S cont s |` (- set ps)"
  using u
proof (induction ps arbitrary: s)
  case Nil
  then show ?case by (simp add: sdbDeleteAll_def op_simps)
next
  case (Cons p ps)
  obtain key where k: "sbKey s = Some key" "up (sbDisk s)" using Cons.prems unfolding sdbUp_def by blast
  obtain e where e: "ldDelete L p (sbDisk s) = (Inr (), e)" "up e" "cont e = (cont (sbDisk s))(p := None)"
    using L k(2) unfolding leveldb_ok_def by blast
  let ?s = "s\<lparr>sbDisk := e\<rparr>"
  have u': "sdbUp S cont up ?s" using Cons.prems e unfolding sdbUp_def by auto
  obtain s' where s': "sdbDeleteAll L ps ?s = (Inr (), s')" "sdbUp S cont up s'" "sbTick s' = sbTick s"
      "sdbDocs S cont s' = sdbDocs S cont ?s |` (- set ps)"
    using Cons.IH[OF u'] by auto
  have "sdbDocs S cont ?s = (sdbDocs S cont s)(p := None)"
    using e(3) by (auto simp: sdbDocs_def fun_eq_iff split: option.splits)
  then have "sdbDocs S cont s' = sdbDocs S cont s |` (- set (p # ps))"
    using s'(4) by (auto simp: restrict_map_def fun_eq_iff)
  moreover have "sdbDeleteAll L (p # ps) s = (Inr (), s')"
    using k(1) e(1) s'(1) by (simp add: sdbDeleteAll_def op_simps)
  ultimately show ?case using s'(2,3) by auto
qed

lemma sdbDeleteCollection_ok:
  assumes X: "dstore_ok X" and L: "leveldb_ok L cont up" and u: "sdbUp S cont up s" and cs: "plains cs"
  shows "\<exists>s'. sdbDeleteCollection X L S (canon cs) s = (Inr (), s') \<and> sdbUp S cont up s' \<and>
    sdbDocs S cont s' = sdbDocs S cont s |` {p. \<not> prefix (canon cs @ ''/'') p}"
proof -
  let ?ks = "keysWith (canon cs @ ''/'') (sdbDocs S cont s)" and ?D = "sdbDocs S cont s"
  have fin: "finite (dom ?D)" using L u sdbDocs_dom[OF u] unfolding leveldb_ok_def sdbUp_def by metis
  have path: "doPath (the (?D p)) = p" if "p \<in> set ?ks" for p
    using that fin sdbDocs_path[OF u] by (auto simp: keysWith_def)
  have map: "map doPath (map (\<lambda>p. the (?D p)) ?ks) = ?ks" using path by (simp add: map_idI)
  obtain s' where s': "sdbDeleteAll L ?ks s = (Inr (), s')" "sdbUp S cont up s'" "sdbDocs S cont s' = ?D |` (- set ?ks)"
    using sdbDeleteAll_ok[OF L u] by blast
  have "?D |` (- set ?ks) = ?D |` {p. \<not> prefix (canon cs @ ''/'') p}"
    using keysWith_set[OF fin] by (fastforce simp: restrict_map_def fun_eq_iff)
  moreover have "sdbDeleteCollection X L S (canon cs) s = (Inr (), s')"
    using sdbDocuments_ok[OF X L u cs, of "(prefixOpts [])\<lparr>ioNoData := True\<rparr>"] s'(1) map
    by (simp add: sdbDeleteCollection_def op_simps prefixOpts_def)
  ultimately show ?thesis using s'(2,3) by auto
qed

end
