(* ===== verification/Sqlcipher.thy ===== *)
theory Sqlcipher
  imports Sdb
begin

text \<open>
  The encrypted document database over SQLite: \<^verbatim>\<open>sqlcipher/db.go\<close>, \<^verbatim>\<open>sqlcipher/sql.go\<close> and
  \<^verbatim>\<open>sqlcipher/iterator.go\<close>. The database driver is third-party code, the record \<open>sqlite\<close>; the
  source hands it SQL text and arguments, and \<open>sqlite_ok\<close> states what those statements do.
  Under it the database provides the same contract \<open>documents\<close> as \<^verbatim>\<open>sdb\<close>
  (\<open>sqlcipher_documents\<close>).
\<close>

section \<open>The driver\<close>

datatype sqlval = SText string | SBlob string | STime gotime | SInt int

record 'd sqlite =
  sqOpen :: "string \<Rightarrow> ('d, unit) op"
  sqClose :: "('d, unit) op"
  sqIsEncrypted :: "string \<Rightarrow> 'd \<Rightarrow> err + bool"
  sqBegin :: "('d, unit) op"
  sqCommit :: "('d, unit) op"
  \<comment> \<open>does the statement prepare\<close>
  sqPrepare :: "string \<Rightarrow> 'd \<Rightarrow> err + unit"
  sqExec :: "string \<Rightarrow> sqlval list \<Rightarrow> ('d, unit) op"
  \<comment> \<open>the rows, and the error the rows end on\<close>
  sqQuery :: "string \<Rightarrow> sqlval list \<Rightarrow> 'd \<Rightarrow> err + sqlval list list \<times> err option"
  \<comment> \<open>msgpack of the values\<close>
  sqM :: "fields \<Rightarrow> err + string"
  sqU :: "string \<Rightarrow> err + fields"
  sqClock :: "nat \<Rightarrow> gotime"

text \<open>The statements of the source.\<close>

definition createStmt :: string where
  "createStmt = ''create table if not exists documents (path TEXT NOT NULL PRIMARY KEY, doc BLOB, createdAt TIMESTAMP NOT NULL, updatedAt TIMESTAMP NOT NULL);''"

definition insertStmt :: string where
  "insertStmt = ''insert or replace into documents (path, doc, createdAt, updatedAt) values (?, ?, ?, ?)''"

definition getStmt :: string where
  "getStmt = ''select path, doc, createdAt, updatedAt from documents where path = ?''"

definition deleteStmt :: string where
  "deleteStmt = ''delete from documents where path = ?''"

definition existsStmt :: string where
  "existsStmt = ''select 1 from documents where path = ?''"

definition likeStmt :: string where
  "likeStmt = ''select path, doc, createdAt, updatedAt from documents where path like ? order by path''"

text \<open>
  The operator \<^verbatim>\<open>LIKE\<close> of SQLite on ASCII text: a percent sign stands for any sequence, an
  underscore for any character, and letters match in either case.
\<close>

definition lowerC :: "char \<Rightarrow> char" where
  "lowerC c = (let n = (of_char c :: nat) in if 65 \<le> n \<and> n \<le> 90 then char_of (n + 32) else c)"

fun likeMatch :: "string \<Rightarrow> string \<Rightarrow> bool" where
  "likeMatch [] s = (s = [])"
| "likeMatch (c # p) [] = (c = CHR ''%'' \<and> likeMatch p [])"
| "likeMatch (c # p) (x # s) =
     (if c = CHR ''%'' then likeMatch p (x # s) \<or> likeMatch (c # p) s
      else (c = CHR ''_'' \<or> lowerC c = lowerC x) \<and> likeMatch p s)"

section \<open>sql.go\<close>

record sqlRecord =
  srPath :: string
  srValues :: fields
  srCreatedAt :: gotime
  srUpdatedAt :: gotime

text \<open>\<^verbatim>\<open>record.Document\<close>\<close>

definition sqlDoc :: "sqlRecord \<Rightarrow> document" where
  "sqlDoc r = \<lparr>doPath = srPath r, doFields = srValues r, doCreatedAt = srCreatedAt r, doUpdatedAt = srUpdatedAt r\<rparr>"

text \<open>A database: open when the handle is not nil.\<close>

record 'd sqlState =
  sqlDb :: bool
  sqlPath :: string
  sqlDisk :: 'd
  sqlTick :: nat

definition sqlNew :: "'d \<Rightarrow> 'd sqlState" where
  "sqlNew d = \<lparr>sqlDb = False, sqlPath = [], sqlDisk = d, sqlTick = 0\<rparr>"

definition onSql :: "('d, 'a) op \<Rightarrow> ('d sqlState, 'a) op" where
  "onSql m = zoom sqlDisk (\<lambda>d s. s\<lparr>sqlDisk := d\<rparr>) m"

lemma onSql_run [op_simps]: "m (sqlDisk s) = (r, d) \<Longrightarrow> onSql m s = (r, s\<lparr>sqlDisk := d\<rparr>)"
  by (simp add: onSql_def op_simps)

text \<open>\<^verbatim>\<open>hex.EncodeToString\<close>\<close>

definition hexLower :: "nat \<Rightarrow> char" where
  "hexLower n = (if n < 10 then char_of (48 + n) else char_of (87 + n))"

definition hexString :: "string \<Rightarrow> string" where
  "hexString b = concat (map (\<lambda>c. [hexLower (of_char c div 16), hexLower (of_char c mod 16)]) b)"

definition sqlOpen :: "'d sqlite \<Rightarrow> string \<Rightarrow> string \<Rightarrow> ('d, unit) op" where
  "sqlOpen Q path key =
     bnd (sqOpen Q (path @ (''?_pragma_key=x'' @ [char_of (39::nat)] @ hexString key @ [char_of (39::nat)] @ ''&_pragma_cipher_page_size=4096''))) (\<lambda>_.
     bnd (sqExec Q createStmt []) (\<lambda>_.
     bnd (wrapErr ''failed to check if encrypted'' (bnd (gets (sqIsEncrypted Q path)) lift)) (\<lambda>ok.
     failIf (\<not> ok) (Err ''not encrypted''))))"

text \<open>A call on a nil handle panics.\<close>

definition onHandle :: "('d sqlState, 'a) op \<Rightarrow> ('d sqlState, 'a) op" where
  "onHandle m = bnd (gets sqlDb) (\<lambda>o'. bnd (failIf (\<not> o') (Panic ''nil pointer'')) (\<lambda>_. m))"

lemma onHandle_run [op_simps]: "sqlDb s \<Longrightarrow> onHandle m s = m s"
  by (simp add: onHandle_def op_simps)

definition prepare :: "'d sqlite \<Rightarrow> string \<Rightarrow> ('d sqlState, unit) op" where
  "prepare Q stmt = onHandle (bnd (gets (\<lambda>s. sqPrepare Q stmt (sqlDisk s))) lift)"

text \<open>
  Nothing rolls the transaction back on the error paths after \<^verbatim>\<open>Begin\<close>.
\<close>

definition insertOrReplace :: "'d sqlite \<Rightarrow> string \<Rightarrow> sqlRecord \<Rightarrow> ('d sqlState, unit) op" where
  "insertOrReplace Q path r =
     onHandle (
     bnd (onSql (sqBegin Q)) (\<lambda>_.
     bnd (prepare Q insertStmt) (\<lambda>_.
     bnd (lift (sqM Q (srValues r))) (\<lambda>b.
     bnd (onSql (sqExec Q insertStmt [SText path, SBlob b, STime (srCreatedAt r), STime (srUpdatedAt r)])) (\<lambda>_.
     onSql (sqCommit Q))))))"

text \<open>\<^verbatim>\<open>Scan\<close> of a row into a path, a blob and two times.\<close>

fun scanRow :: "sqlval list \<Rightarrow> err + string \<times> string \<times> gotime \<times> gotime" where
  "scanRow [SText p, SBlob b, STime c, STime u] = Inr (p, b, c, u)"
| "scanRow row = Inl (LibErr ''sql: Scan error'')"

definition rowToRecord :: "'d sqlite \<Rightarrow> sqlval list \<Rightarrow> err + sqlRecord" where
  "rowToRecord Q row =
     (case scanRow row of Inl e \<Rightarrow> Inl e
      | Inr (p, b, c, u) \<Rightarrow>
          (case sqU Q b of Inl e \<Rightarrow> Inl e
           | Inr vals \<Rightarrow> Inr \<lparr>srPath = p, srValues = vals, srCreatedAt = c, srUpdatedAt = u\<rparr>))"

text \<open>\<^verbatim>\<open>QueryRow\<close>: the first row, or \<^verbatim>\<open>sql.ErrNoRows\<close> as \<open>None\<close>.\<close>

definition queryRow :: "'d sqlite \<Rightarrow> string \<Rightarrow> sqlval list \<Rightarrow> ('d sqlState, sqlval list option) op" where
  "queryRow Q stmt args =
     bnd (bnd (gets (\<lambda>s. sqQuery Q stmt args (sqlDisk s))) lift) (\<lambda>(rows, e).
     case rows of row # _ \<Rightarrow> ret (Some row)
     | [] \<Rightarrow> (case e of Some err \<Rightarrow> fail err | None \<Rightarrow> ret None))"

definition sqlGetRec :: "'d sqlite \<Rightarrow> string \<Rightarrow> ('d sqlState, sqlRecord option) op" where
  "sqlGetRec Q path =
     bnd (prepare Q getStmt) (\<lambda>_.
     bnd (queryRow Q getStmt [SText path]) (\<lambda>row.
     case row of None \<Rightarrow> ret None
     | Some r \<Rightarrow> bnd (lift (rowToRecord Q r)) (\<lambda>x. ret (Some x))))"

definition sqlExistsRow :: "'d sqlite \<Rightarrow> string \<Rightarrow> ('d sqlState, bool) op" where
  "sqlExistsRow Q path =
     bnd (prepare Q existsStmt) (\<lambda>_.
     bnd (queryRow Q existsStmt [SText path]) (\<lambda>row.
     case row of None \<Rightarrow> ret False
     | Some [SInt v] \<Rightarrow> ret (v = 1)
     | Some r \<Rightarrow> fail (LibErr ''sql: Scan error'')))"

definition sqlDeleteRow :: "'d sqlite \<Rightarrow> string \<Rightarrow> ('d sqlState, bool) op" where
  "sqlDeleteRow Q path =
     bnd (sqlExistsRow Q path) (\<lambda>exists.
     if \<not> exists then ret False
     else bnd (prepare Q deleteStmt) (\<lambda>_.
          bnd (onSql (sqExec Q deleteStmt [SText path])) (\<lambda>_. ret True)))"

section \<open>iterator.go\<close>

record sqlIter =
  qiRows :: "sqlval list list"
  qiErr :: "err option"
  qiIndex :: int
  qiLimit :: int
  qiCount :: int

primrec sqlSkip :: "'d sqlite \<Rightarrow> sqlIter \<Rightarrow> sqlval list list \<Rightarrow> (err + document option) \<times> sqlIter" where
  "sqlSkip Q i [] = (case qiErr i of Some e \<Rightarrow> Inl e | None \<Rightarrow> Inr None, i\<lparr>qiRows := []\<rparr>)"
| "sqlSkip Q i (row # rows) =
     (let i' = i\<lparr>qiCount := qiCount i + 1, qiRows := rows\<rparr>
      in if qiIndex i' > qiCount i' - 1 then sqlSkip Q i' rows
         else if qiLimit i' \<noteq> 0 \<and> qiCount i' > qiLimit i' then (Inr None, i')
         else (case rowToRecord Q row of Inl e \<Rightarrow> (Inl e, i') | Inr r \<Rightarrow> (Inr (Some (sqlDoc r)), i')))"

definition sqlNext :: "'d sqlite \<Rightarrow> (sqlIter, document option) op" where
  "sqlNext Q i = sqlSkip Q i (qiRows i)"

definition sqlIterator ::
  "'z ext_scheme \<Rightarrow> 'd sqlite \<Rightarrow> string \<Rightarrow> iterOpts \<Rightarrow> ('d sqlState, sqlIter) op" where
  "sqlIterator X Q parent opts =
     (let pre = (if parent \<noteq> ''/'' then (if ioPrefix opts \<noteq> [] then xPath X [parent, ioPrefix opts]
                                       else xPath X [parent] @ ''/'')
                 else ioPrefix opts)
      in bnd (failIf (ioWhere opts \<noteq> None) (Err ''unsupported option (where)'')) (\<lambda>_.
         bnd (onHandle (bnd (gets (\<lambda>s. sqQuery Q likeStmt [SText (pre @ ''%'')] (sqlDisk s))) lift)) (\<lambda>(rows, e).
         ret \<lparr>qiRows = rows, qiErr = e, qiIndex = ioIndex opts, qiLimit = ioLimit opts, qiCount = 0\<rparr>)))"

section \<open>db.go\<close>

definition whenSql :: "err \<Rightarrow> ('d sqlState, 'a) op \<Rightarrow> ('d sqlState, 'a) op" where
  "whenSql e m = bnd (gets sqlDb) (\<lambda>o'. bnd (failIf (\<not> o') e) (\<lambda>_. m))"

lemma whenSql_run [op_simps]: "whenSql e m s = (if sqlDb s then m s else (Inl e, s))"
  by (simp add: whenSql_def op_simps)

definition sqlOpenAtPath :: "'d sqlite \<Rightarrow> string \<Rightarrow> string \<Rightarrow> ('d sqlState, unit) op" where
  "sqlOpenAtPath Q path key =
     bnd (gets sqlDb) (\<lambda>o'.
     bnd (failIf o' ErrAlreadyOpen) (\<lambda>_.
     bnd (modify (\<lambda>s. s\<lparr>sqlPath := path\<rparr>)) (\<lambda>_.
     bnd (onSql (sqlOpen Q path key)) (\<lambda>_.
     modify (\<lambda>s. s\<lparr>sqlDb := True\<rparr>)))))"

definition sqlIsOpen :: "'d sqlState \<Rightarrow> bool" where
  "sqlIsOpen s = sqlDb s"

definition sqlCloseDb :: "'d sqlite \<Rightarrow> ('d sqlState, unit) op" where
  "sqlCloseDb Q =
     bnd (gets sqlDb) (\<lambda>o'.
     if \<not> o' then ret ()
     else bnd (\<lambda>s. (Inr (), snd (onSql (sqClose Q) s))) (\<lambda>_. modify (\<lambda>s. s\<lparr>sqlDb := False\<rparr>)))"

definition sqlExists :: "'z ext_scheme \<Rightarrow> 'd sqlite \<Rightarrow> string \<Rightarrow> ('d sqlState, bool) op" where
  "sqlExists X Q path = whenSql ErrNotOpen (sqlExistsRow Q (xPath X [path]))"

definition sqlNow :: "'d sqlite \<Rightarrow> ('d sqlState, gotime) op" where
  "sqlNow Q = (\<lambda>s. (Inr (sqClock Q (sqlTick s)), s\<lparr>sqlTick := Suc (sqlTick s)\<rparr>))"

definition sqlCreate :: "'z ext_scheme \<Rightarrow> 'd sqlite \<Rightarrow> string \<Rightarrow> fields \<Rightarrow> ('d sqlState, unit) op" where
  "sqlCreate X Q p values =
     whenSql ErrNotOpen (
     let path = xPath X [p]
     in bnd (failIf (path = ''/'') (Err (''invalid path '' @ path))) (\<lambda>_.
        bnd (sqlExists X Q path) (\<lambda>exists.
        bnd (failIf exists (LibErr (''path already exists '' @ path))) (\<lambda>_.
        bnd (sqlNow Q) (\<lambda>now.
        insertOrReplace Q path \<lparr>srPath = [], srValues = values, srCreatedAt = now, srUpdatedAt = now\<rparr>)))))"

definition sqlSetRow :: "'d sqlite \<Rightarrow> string \<Rightarrow> fields \<Rightarrow> bool \<Rightarrow> ('d sqlState, unit) op" where
  "sqlSetRow Q path values mergeAll =
     bnd (sqlGetRec Q path) (\<lambda>r.
     bnd (sqlNow Q) (\<lambda>now.
     insertOrReplace Q path
       (case r of None \<Rightarrow> \<lparr>srPath = [], srValues = values, srCreatedAt = now, srUpdatedAt = now\<rparr>
        | Some x \<Rightarrow> x\<lparr>srValues := (if mergeAll then srValues x ++ values else values), srUpdatedAt := now\<rparr>)))"

definition sqlSet :: "'z ext_scheme \<Rightarrow> 'd sqlite \<Rightarrow> string \<Rightarrow> fields \<Rightarrow> bool \<Rightarrow> ('d sqlState, unit) op" where
  "sqlSet X Q p values mergeAll =
     whenSql (Err ''db not open'') (
     let path = xPath X [p]
     in bnd (failIf (path = ''/'') (Err (''invalid path '' @ path))) (\<lambda>_. sqlSetRow Q path values mergeAll))"

definition sqlGet :: "'z ext_scheme \<Rightarrow> 'd sqlite \<Rightarrow> string \<Rightarrow> ('d sqlState, document option) op" where
  "sqlGet X Q p =
     (let path = xPath X [p]
      in bnd (sqlGetRec Q path) (\<lambda>r.
         ret (map_option (\<lambda>x. \<lparr>doPath = path, doFields = srValues x, doCreatedAt = srCreatedAt x, doUpdatedAt = srUpdatedAt x\<rparr>) r)))"

definition sqlGetAll :: "'d sqlite \<Rightarrow> string list \<Rightarrow> ('d sqlState, document list) op" where
  "sqlGetAll Q paths = collect paths (\<lambda>p. bnd (sqlGetRec Q p) (\<lambda>r. ret (map_option sqlDoc r)))"

definition sqlDocumentIterator ::
  "'z ext_scheme \<Rightarrow> 'd sqlite \<Rightarrow> string \<Rightarrow> iterOpts \<Rightarrow> ('d sqlState, sqlIter) op" where
  "sqlDocumentIterator X Q parent opts =
     whenSql (Err ''db not open'') (sqlIterator X Q (xPath X [parent]) opts)"

text \<open>
  The loop over \<^verbatim>\<open>iter.Next()\<close>: each call takes at least one of the rows left or ends the
  loop, so one more round than there are rows is enough.
\<close>

primrec sqlAll :: "'d sqlite \<Rightarrow> nat \<Rightarrow> sqlIter \<Rightarrow> err + document list" where
  "sqlAll Q 0 i = Inr []"
| "sqlAll Q (Suc n) i =
     (case sqlNext Q i of
        (Inl e, i') \<Rightarrow> Inl e
      | (Inr None, i') \<Rightarrow> Inr []
      | (Inr (Some d), i') \<Rightarrow> (case sqlAll Q n i' of Inl e \<Rightarrow> Inl e | Inr ds \<Rightarrow> Inr (d # ds)))"

definition sqlDrain :: "'d sqlite \<Rightarrow> sqlIter \<Rightarrow> err + document list" where
  "sqlDrain Q i = sqlAll Q (Suc (length (qiRows i))) i"

definition sqlDocuments ::
  "'z ext_scheme \<Rightarrow> 'd sqlite \<Rightarrow> string \<Rightarrow> iterOpts \<Rightarrow> ('d sqlState, document list) op" where
  "sqlDocuments X Q parent opts = bnd (sqlDocumentIterator X Q parent opts) (\<lambda>i. lift (sqlDrain Q i))"

definition sqlCollections :: "'z ext_scheme \<Rightarrow> 'd sqlite \<Rightarrow> string \<Rightarrow> ('d sqlState, string list) op" where
  "sqlCollections X Q p =
     whenSql (Err ''db not open'') (
     let parent = xPath X [p]
     in bnd (failIf (parent \<noteq> ''/'') (Err ''only root collections supported'')) (\<lambda>_.
        bnd (sqlIterator X Q parent (prefixOpts [])) (\<lambda>i.
        bnd (lift (sqlDrain Q i)) (\<lambda>docs. ret (colsOf X [] (map doPath docs))))))"

definition sqlDelete :: "'z ext_scheme \<Rightarrow> 'd sqlite \<Rightarrow> string \<Rightarrow> ('d sqlState, bool) op" where
  "sqlDelete X Q p = whenSql (Err ''db not open'') (sqlDeleteRow Q (xPath X [p]))"

definition sqlDeleteAll :: "'z ext_scheme \<Rightarrow> 'd sqlite \<Rightarrow> string list \<Rightarrow> ('d sqlState, unit) op" where
  "sqlDeleteAll X Q paths = forEach paths (\<lambda>p. bnd (sqlDelete X Q p) (\<lambda>_. ret ()))"

definition sqlDeleteCollection :: "'z ext_scheme \<Rightarrow> 'd sqlite \<Rightarrow> string \<Rightarrow> ('d sqlState, unit) op" where
  "sqlDeleteCollection X Q parent =
     bnd (sqlDocuments X Q parent ((prefixOpts [])\<lparr>ioNoData := True\<rparr>)) (\<lambda>docs.
     sqlDeleteAll X Q (map doPath docs))"

definition sqlOps :: "'z ext_scheme \<Rightarrow> 'd sqlite \<Rightarrow> 'd sqlState docs_ops" where
  "sqlOps X Q = \<lparr>dsExists = sqlExists X Q, dsCreate = sqlCreate X Q, dsSet = sqlSet X Q, dsGet = sqlGet X Q,
     dsDelete = sqlDelete X Q\<rparr>"

section \<open>Documented behaviour of the driver\<close>

text \<open>
  \<open>tab\<close> is the table of an open database without I/O errors: the path is its primary key. A
  query by path yields the row or none; the listing yields the rows whose path the pattern
  matches, in increasing byte order of the paths.
\<close>

type_synonym table = "string \<Rightarrow> (string \<times> gotime \<times> gotime) option"

definition tableRow :: "table \<Rightarrow> string \<Rightarrow> sqlval list" where
  "tableRow t p = (case t p of None \<Rightarrow> [] | Some (b, c, u) \<Rightarrow> [SText p, SBlob b, STime c, STime u])"

definition likeRows :: "table \<Rightarrow> string \<Rightarrow> sqlval list list" where
  "likeRows t pat = map (tableRow t) (sorted_list_of_set {p \<in> dom t. likeMatch pat p})"

definition sqlite_ok :: "'d sqlite \<Rightarrow> ('d \<Rightarrow> table) \<Rightarrow> ('d \<Rightarrow> bool) \<Rightarrow> bool" where
  "sqlite_ok Q tab up \<longleftrightarrow>
     (\<forall>f. finite (dom f) \<longrightarrow> (\<exists>b. sqM Q f = Inr b \<and> sqU Q b = Inr f)) \<and>
     (\<forall>d. up d \<longrightarrow>
       finite (dom (tab d)) \<and>
       (\<forall>stmt \<in> {getStmt, existsStmt, deleteStmt}. sqPrepare Q stmt d = Inr ()) \<and>
       (\<forall>p. sqQuery Q getStmt [SText p] d = Inr (if tab d p = None then [] else [tableRow (tab d) p], None)) \<and>
       (\<forall>p. sqQuery Q existsStmt [SText p] d = Inr (if tab d p = None then [] else [[SInt 1]], None)) \<and>
       (\<forall>pat. sqQuery Q likeStmt [SText pat] d = Inr (likeRows (tab d) pat, None)) \<and>
       (\<forall>p. \<exists>d'. sqExec Q deleteStmt [SText p] d = (Inr (), d') \<and> up d' \<and> tab d' = (tab d)(p := None)) \<and>
       (\<forall>p b c u. \<exists>d1 d2 d3. sqBegin Q d = (Inr (), d1) \<and> sqPrepare Q insertStmt d1 = Inr () \<and>
          sqExec Q insertStmt [SText p, SBlob b, STime c, STime u] d1 = (Inr (), d2) \<and>
          sqCommit Q d2 = (Inr (), d3) \<and> up d3 \<and> tab d3 = (tab d)(p \<mapsto> (b, c, u))))"

text \<open>The documents of the table.\<close>

definition docOfRow :: "'d sqlite \<Rightarrow> string \<Rightarrow> string \<times> gotime \<times> gotime \<Rightarrow> document option" where
  "docOfRow Q p x = (case x of (b, c, u) \<Rightarrow> (case sqU Q b of Inl e \<Rightarrow> None
     | Inr f \<Rightarrow> Some \<lparr>doPath = p, doFields = f, doCreatedAt = c, doUpdatedAt = u\<rparr>))"

definition sqlDocs :: "'d sqlite \<Rightarrow> ('d \<Rightarrow> table) \<Rightarrow> 'd sqlState \<Rightarrow> string \<Rightarrow> document option" where
  "sqlDocs Q tab s p = Option.bind (tab (sqlDisk s) p) (docOfRow Q p)"

definition sqlUp :: "'d sqlite \<Rightarrow> ('d \<Rightarrow> table) \<Rightarrow> ('d \<Rightarrow> bool) \<Rightarrow> 'd sqlState \<Rightarrow> bool" where
  "sqlUp Q tab up s \<longleftrightarrow> sqlDb s \<and> up (sqlDisk s) \<and>
     (\<forall>p x. tab (sqlDisk s) p = Some x \<longrightarrow> (\<exists>d. docOfRow Q p x = Some d \<and> finite (dom (doFields d))))"

lemma sqlDocs_disk [simp]: "sqlDocs Q tab (s\<lparr>sqlTick := t\<rparr>) = sqlDocs Q tab s"
  by (simp add: sqlDocs_def fun_eq_iff)

lemma sqlUp_tick: "sqlUp Q tab up s \<Longrightarrow> sqlUp Q tab up (s\<lparr>sqlTick := t\<rparr>)"
  by (simp add: sqlUp_def)

text \<open>A row of the table, read back as a record.\<close>

lemma rowToRecord_row:
  assumes "tab p = Some x" "docOfRow Q p x = Some d"
  shows "\<exists>r. rowToRecord Q (tableRow tab p) = Inr r \<and> sqlDoc r = d \<and> srPath r = p"
  using assms
  by (cases x) (auto simp: tableRow_def docOfRow_def rowToRecord_def sqlDoc_def split: sum.splits)

lemma sqlGetRec_ok:
  assumes Q: "sqlite_ok Q tab up" and u: "sqlUp Q tab up s"
  shows "\<exists>r. sqlGetRec Q p s = (Inr r, s) \<and> map_option sqlDoc r = sqlDocs Q tab s p \<and> (\<forall>x. r = Some x \<longrightarrow> srPath x = p)"
proof -
  have o: "sqlDb s" "up (sqlDisk s)" using u by (simp_all add: sqlUp_def)
  have q: "sqPrepare Q getStmt (sqlDisk s) = Inr ()"
    "sqQuery Q getStmt [SText p] (sqlDisk s) = Inr (if tab (sqlDisk s) p = None then [] else [tableRow (tab (sqlDisk s)) p], None)"
    using Q o(2) unfolding sqlite_ok_def by simp_all
  show ?thesis
  proof (cases "tab (sqlDisk s) p")
    case None
    with q o(1) show ?thesis
      by (simp add: sqlGetRec_def prepare_def queryRow_def op_simps sqlDocs_def)
  next
    case (Some x)
    then obtain d where d: "docOfRow Q p x = Some d" using u unfolding sqlUp_def by blast
    obtain r where "rowToRecord Q (tableRow (tab (sqlDisk s)) p) = Inr r" "sqlDoc r = d" "srPath r = p"
      using rowToRecord_row[where tab = "tab (sqlDisk s)", OF Some d] by blast
    with Some d q o(1) show ?thesis
      by (simp add: sqlGetRec_def prepare_def queryRow_def op_simps sqlDocs_def)
  qed
qed

lemma sqlExistsRow_ok:
  assumes Q: "sqlite_ok Q tab up" and u: "sqlUp Q tab up s"
  shows "sqlExistsRow Q p s = (Inr (sqlDocs Q tab s p \<noteq> None), s)"
proof -
  have o: "sqlDb s" "up (sqlDisk s)" using u by (simp_all add: sqlUp_def)
  have q: "sqPrepare Q existsStmt (sqlDisk s) = Inr ()"
    "sqQuery Q existsStmt [SText p] (sqlDisk s) = Inr (if tab (sqlDisk s) p = None then [] else [[SInt 1]], None)"
    using Q o(2) unfolding sqlite_ok_def by simp_all
  have "sqlDocs Q tab s p \<noteq> None \<longleftrightarrow> tab (sqlDisk s) p \<noteq> None"
    using u unfolding sqlUp_def sqlDocs_def by (fastforce split: bind_splits)
  with q o(1) show ?thesis
    by (cases "tab (sqlDisk s) p") (auto simp: sqlExistsRow_def prepare_def queryRow_def op_simps)
qed

lemma insertOrReplace_ok:
  assumes Q: "sqlite_ok Q tab up" and u: "sqlUp Q tab up s" and v: "finite (dom (srValues r))"
  shows "\<exists>s'. insertOrReplace Q p r s = (Inr (), s') \<and> sqlUp Q tab up s' \<and> sqlTick s' = sqlTick s \<and>
    sqlDocs Q tab s' = (sqlDocs Q tab s)(p \<mapsto> sqlDoc (r\<lparr>srPath := p\<rparr>))"
proof -
  have o: "sqlDb s" "up (sqlDisk s)" "\<forall>p x. tab (sqlDisk s) p = Some x \<longrightarrow> (\<exists>d. docOfRow Q p x = Some d \<and> finite (dom (doFields d)))"
    using u by (simp_all add: sqlUp_def)
  obtain b where b: "sqM Q (srValues r) = Inr b" "sqU Q b = Inr (srValues r)" using Q v unfolding sqlite_ok_def by blast
  let ?x = "(b, srCreatedAt r, srUpdatedAt r)"
  obtain d1 d2 d3 where d: "sqBegin Q (sqlDisk s) = (Inr (), d1)" "sqPrepare Q insertStmt d1 = Inr ()"
      "sqExec Q insertStmt [SText p, SBlob b, STime (srCreatedAt r), STime (srUpdatedAt r)] d1 = (Inr (), d2)"
      "sqCommit Q d2 = (Inr (), d3)" "up d3" "tab d3 = (tab (sqlDisk s))(p \<mapsto> ?x)"
    using Q o(2) unfolding sqlite_ok_def by meson
  have new: "docOfRow Q p ?x = Some (sqlDoc (r\<lparr>srPath := p\<rparr>))" using b(2) by (simp add: docOfRow_def sqlDoc_def)
  have "insertOrReplace Q p r s = (Inr (), s\<lparr>sqlDisk := d3\<rparr>)"
    using o(1) b(1) d by (simp add: insertOrReplace_def prepare_def op_simps)
  moreover have "sqlUp Q tab up (s\<lparr>sqlDisk := d3\<rparr>)" using o d(5,6) new v by (simp add: sqlUp_def sqlDoc_def)
  moreover have "sqlDocs Q tab (s\<lparr>sqlDisk := d3\<rparr>) = (sqlDocs Q tab s)(p \<mapsto> sqlDoc (r\<lparr>srPath := p\<rparr>))"
    using d(6) new by (auto simp: sqlDocs_def fun_eq_iff)
  ultimately show ?thesis by auto
qed

section \<open>The contract\<close>

lemma sqlcipher_documents:
  assumes X: "dstore_ok X" and Q: "sqlite_ok Q tab up"
  shows "documents (sqlOps X Q) (sqlDocs Q tab) sqlTick (sqClock Q) (sqlUp Q tab up)"
proof
  fix s cs v mg
  assume u: "sqlUp Q tab up s" and cs: "plains cs"
  let ?p = "canon cs" and ?now = "sqClock Q (sqlTick s)" and ?t = "s\<lparr>sqlTick := Suc (sqlTick s)\<rparr>"
  have p: "xPath X [?p] = ?p" using xPath_canon[OF X cs] .
  have o: "sqlDb s" using u by (simp add: sqlUp_def)
  have ex: "sqlExists X Q ?p s = (Inr (sqlDocs Q tab s ?p \<noteq> None), s)"
    using sqlExistsRow_ok[OF Q u] o p by (simp add: sqlExists_def op_simps)
  then show "dsExists (sqlOps X Q) ?p s = (Inr (sqlDocs Q tab s ?p \<noteq> None), s)" by (simp add: sqlOps_def)
  obtain r where r: "sqlGetRec Q ?p s = (Inr r, s)" "map_option sqlDoc r = sqlDocs Q tab s ?p" "\<forall>x. r = Some x \<longrightarrow> srPath x = ?p"
    using sqlGetRec_ok[OF Q u] by blast
  have "map_option (\<lambda>x. \<lparr>doPath = ?p, doFields = srValues x, doCreatedAt = srCreatedAt x, doUpdatedAt = srUpdatedAt x\<rparr>) r =
      sqlDocs Q tab s ?p"
    using r(2,3) by (cases r) (simp_all add: sqlDoc_def)
  with r(1) p show "dsGet (sqlOps X Q) ?p s = (Inr (sqlDocs Q tab s ?p), s)"
    by (simp add: sqlOps_def sqlGet_def op_simps Let_def)
  show "dsCreate (sqlOps X Q) ?p v s = (Inl (LibErr (''path already exists '' @ ?p)), s)"
    if "sqlDocs Q tab s ?p \<noteq> None"
    using ex that o p canon_not_root[OF cs] by (simp add: sqlOps_def sqlCreate_def op_simps Let_def)
  note put = insertOrReplace_ok[OF Q sqlUp_tick[OF u], where p = ?p]
  show "\<exists>d'. dsCreate (sqlOps X Q) ?p v s = (Inr (), d') \<and> sqlUp Q tab up d' \<and> sqlTick d' = Suc (sqlTick s) \<and>
      sqlDocs Q tab d' = (sqlDocs Q tab s)(?p \<mapsto> newDoc ?p v ?now)"
    if v: "finite (dom v)" and none: "sqlDocs Q tab s ?p = None"
  proof -
    let ?r = "\<lparr>srPath = [], srValues = v, srCreatedAt = ?now, srUpdatedAt = ?now\<rparr>"
    obtain s' where s': "insertOrReplace Q ?p ?r ?t = (Inr (), s')" "sqlUp Q tab up s'" "sqlTick s' = Suc (sqlTick s)"
        "sqlDocs Q tab s' = (sqlDocs Q tab s)(?p \<mapsto> newDoc ?p v ?now)"
      using put[where r = ?r] v by (auto simp: newDoc_def sqlDoc_def)
    have "sqlCreate X Q ?p v s = (Inr (), s')"
      using ex none o p canon_not_root[OF cs] s'(1)
      by (simp add: sqlCreate_def op_simps Let_def sqlNow_def bnd_def)
    with s' show ?thesis by (simp add: sqlOps_def)
  qed
  show "\<exists>d'. dsSet (sqlOps X Q) ?p v mg s = (Inr (), d') \<and> sqlUp Q tab up d' \<and> sqlTick d' = Suc (sqlTick s) \<and>
      sqlDocs Q tab d' = (sqlDocs Q tab s)(?p \<mapsto> overwrite (sqlDocs Q tab s ?p) ?p v mg ?now)"
    if v: "finite (dom v)"
  proof -
    define x where "x = (case r of None \<Rightarrow> \<lparr>srPath = [], srValues = v, srCreatedAt = ?now, srUpdatedAt = ?now\<rparr>
        | Some x \<Rightarrow> x\<lparr>srValues := (if mg then srValues x ++ v else v), srUpdatedAt := ?now\<rparr>)"
    have x: "sqlDoc (x\<lparr>srPath := ?p\<rparr>) = overwrite (sqlDocs Q tab s ?p) ?p v mg ?now"
      using r(2,3) by (cases r) (auto simp: x_def sqlDoc_def overwrite_def newDoc_def simp flip: r(2))
    have "finite (dom (doFields d))" if "sqlDocs Q tab s ?p = Some d" for d
      using u that unfolding sqlUp_def sqlDocs_def by (fastforce split: bind_splits)
    then have fin: "finite (dom (srValues x))"
      using v r(2)[symmetric] by (cases r) (auto simp: x_def sqlDoc_def)
    obtain s' where s': "insertOrReplace Q ?p x ?t = (Inr (), s')" "sqlUp Q tab up s'" "sqlTick s' = Suc (sqlTick s)"
        "sqlDocs Q tab s' = (sqlDocs Q tab s)(?p \<mapsto> overwrite (sqlDocs Q tab s ?p) ?p v mg ?now)"
      using put[OF fin] x by auto
    have "sqlSet X Q ?p v mg s = (Inr (), s')"
      using o p canon_not_root[OF cs] r(1) s'(1)[unfolded x_def]
      by (simp add: sqlSet_def sqlSetRow_def op_simps Let_def sqlNow_def bnd_def)
    with s' show ?thesis by (simp add: sqlOps_def)
  qed
  show "\<exists>d'. dsDelete (sqlOps X Q) ?p s = (Inr (sqlDocs Q tab s ?p \<noteq> None), d') \<and> sqlUp Q tab up d' \<and>
      sqlTick d' = sqlTick s \<and> sqlDocs Q tab d' = (sqlDocs Q tab s)(?p := None)"
  proof (cases "sqlDocs Q tab s ?p")
    case None
    then have "sqlDelete X Q ?p s = (Inr False, s)"
      using sqlExistsRow_ok[OF Q u, of ?p] o p by (simp add: sqlDelete_def sqlDeleteRow_def op_simps)
    with None u show ?thesis by (simp add: sqlOps_def fun_upd_idem)
  next
    case (Some y)
    have q: "sqPrepare Q deleteStmt (sqlDisk s) = Inr ()" using Q u unfolding sqlite_ok_def sqlUp_def by simp
    obtain e where e: "sqExec Q deleteStmt [SText ?p] (sqlDisk s) = (Inr (), e)" "up e" "tab e = (tab (sqlDisk s))(?p := None)"
      using Q u unfolding sqlite_ok_def sqlUp_def by blast
    have "sqlDelete X Q ?p s = (Inr True, s\<lparr>sqlDisk := e\<rparr>)"
      using sqlExistsRow_ok[OF Q u, of ?p] o p Some e(1) q
      by (simp add: sqlDelete_def sqlDeleteRow_def prepare_def op_simps)
    moreover have "sqlUp Q tab up (s\<lparr>sqlDisk := e\<rparr>)" using u e by (simp add: sqlUp_def)
    moreover have "sqlDocs Q tab (s\<lparr>sqlDisk := e\<rparr>) = (sqlDocs Q tab s)(?p := None)"
      using e(3) by (auto simp: sqlDocs_def fun_eq_iff)
    ultimately show ?thesis using Some by (simp add: sqlOps_def)
  qed
qed

section \<open>Listing\<close>

text \<open>Draining the iterator: the index and the limit both count from the first row.\<close>

primrec rowDocs :: "'d sqlite \<Rightarrow> sqlval list list \<Rightarrow> err + document list" where
  "rowDocs Q [] = Inr []"
| "rowDocs Q (row # rows) = (case rowToRecord Q row of Inl e \<Rightarrow> Inl e
     | Inr r \<Rightarrow> (case rowDocs Q rows of Inl e \<Rightarrow> Inl e | Inr ds \<Rightarrow> Inr (sqlDoc r # ds)))"

lemma sqlSkip_past:
  "qiErr k = None \<Longrightarrow> qiLimit k \<noteq> 0 \<Longrightarrow> qiLimit k \<le> qiCount k \<Longrightarrow> \<exists>j. sqlSkip Q k rows = (Inr None, j)"
  by (induction rows arbitrary: k) (auto simp: Let_def)

lemma sqlAll_rows:
  assumes "qiErr i = None" "length (qiRows i) < n" "qiLimit i = 0 \<or> qiCount i \<le> qiLimit i" "0 \<le> qiLimit i"
  shows "sqlAll Q n i = rowDocs Q (drop (nat (qiIndex i - qiCount i))
    (if qiLimit i = 0 then qiRows i else take (nat (qiLimit i - qiCount i)) (qiRows i)))"
  using assms
proof (induction "qiRows i" arbitrary: i n)
  case Nil
  then show ?case by (cases n) (simp_all add: sqlNext_def flip: Nil(1))
next
  case (Cons row rows)
  obtain m where n: "n = Suc m" using Cons.prems(2) by (cases n) auto
  note rows = Cons(2)[symmetric]
  let ?i = "i\<lparr>qiCount := qiCount i + 1, qiRows := rows\<rparr>"
  show ?case
  proof (cases "qiLimit i \<noteq> 0 \<and> qiCount i = qiLimit i")
    case True
    then have "sqlNext Q i = (if qiIndex i > qiCount i then sqlNext Q ?i else (Inr None, ?i))"
      by (simp add: sqlNext_def rows)
    moreover obtain j where "sqlSkip Q ?i rows = (Inr None, j)"
      using sqlSkip_past[of ?i Q rows] Cons.prems(1) True by auto
    ultimately show ?thesis using True n Cons.prems by (auto simp: sqlNext_def)
  next
    case False
    then have lim: "qiLimit ?i = 0 \<or> qiCount ?i \<le> qiLimit ?i" using Cons.prems(3) by auto
    have IH: "length rows < k \<Longrightarrow> sqlAll Q k ?i = rowDocs Q (drop (nat (qiIndex i - (qiCount i + 1)))
        (if qiLimit i = 0 then rows else take (nat (qiLimit i - (qiCount i + 1))) rows))" for k
      using Cons.hyps(1)[of ?i k] Cons.prems(1,4) lim by simp
    have tk: "nat (qiLimit i - qiCount i) = Suc (nat (qiLimit i - (qiCount i + 1)))" if "qiLimit i \<noteq> 0"
      using lim that by simp
    show ?thesis
    proof (cases "qiIndex i > qiCount i")
      case True
      then have "sqlAll Q n i = sqlAll Q n ?i" by (simp add: sqlNext_def rows n)
      moreover have "nat (qiIndex i - qiCount i) = Suc (nat (qiIndex i - (qiCount i + 1)))" using True by simp
      ultimately show ?thesis using IH[of n] Cons.prems(2) tk by (simp add: rows)
    next
      case below: False
      then have "sqlNext Q i = (case rowToRecord Q row of Inl e \<Rightarrow> (Inl e, ?i) | Inr r \<Rightarrow> (Inr (Some (sqlDoc r)), ?i))"
        using False lim by (auto simp: sqlNext_def rows Let_def split: sum.splits)
      moreover have "sqlAll Q m ?i = rowDocs Q (if qiLimit i = 0 then rows else take (nat (qiLimit i - (qiCount i + 1))) rows)"
        using IH[of m] Cons.prems(2) n below by (simp add: rows)
      ultimately show ?thesis using below tk n by (auto simp: rows split: sum.splits)
    qed
  qed
qed

text \<open>
  The pattern of a listing matches the paths that start with the prefix, up to the case of
  letters and with an underscore of the prefix matching anything.
\<close>

definition likeChar :: "char \<Rightarrow> char \<Rightarrow> bool" where
  "likeChar c x \<longleftrightarrow> c = CHR ''_'' \<or> lowerC c = lowerC x"

lemma likeMatch_any: "likeMatch ''%'' s"
  by (induction s) simp_all

lemma likeMatch_prefix:
  "CHR ''%'' \<notin> set pre \<Longrightarrow> likeMatch (pre @ ''%'') s \<longleftrightarrow> (\<exists>a b. s = a @ b \<and> list_all2 likeChar pre a)"
proof (induction pre arbitrary: s)
  case Nil
  then show ?case by (simp add: likeMatch_any)
next
  case (Cons c pre)
  then show ?case
    by (cases s) (auto simp: likeChar_def list_all2_Cons1 Cons_eq_append_conv)
qed

lemma sqlDocs_dom: "sqlUp Q tab up s \<Longrightarrow> dom (sqlDocs Q tab s) = dom (tab (sqlDisk s))"
  unfolding sqlUp_def sqlDocs_def by (fastforce simp: dom_def split: bind_splits)

lemma sqlDocs_path: "sqlDocs Q tab s p = Some d \<Longrightarrow> doPath d = p"
  by (auto simp: sqlDocs_def docOfRow_def split: bind_splits sum.splits)

lemma rowDocs_ok:
  assumes u: "sqlUp Q tab up s"
  shows "set ks \<subseteq> dom (tab (sqlDisk s)) \<Longrightarrow>
    rowDocs Q (map (tableRow (tab (sqlDisk s))) ks) = Inr (map (\<lambda>p. the (sqlDocs Q tab s p)) ks)"
proof (induction ks)
  case (Cons p ks)
  then obtain x where x: "tab (sqlDisk s) p = Some x" by auto
  obtain d where d: "docOfRow Q p x = Some d" using u x unfolding sqlUp_def by blast
  obtain r where "rowToRecord Q (tableRow (tab (sqlDisk s)) p) = Inr r" "sqlDoc r = d"
    using rowToRecord_row[where tab = "tab (sqlDisk s)", OF x d] by blast
  with x d Cons show ?case by (simp add: sqlDocs_def)
qed simp

text \<open>The paths a listing below a path meets, in order.\<close>

definition likeKeys :: "string \<Rightarrow> (string \<rightharpoonup> 'v) \<Rightarrow> string list" where
  "likeKeys pat m = sorted_list_of_set {p \<in> dom m. likeMatch pat p}"

lemma likeKeys_set: "finite (dom m) \<Longrightarrow> set (likeKeys pat m) = {p \<in> dom m. likeMatch pat p}"
  by (simp add: likeKeys_def)

text \<open>
  A listing below a path gives the documents whose path the pattern matches: the limit cuts the
  rows first, the index drops from what is left.
\<close>

lemma sqlDocuments_ok:
  assumes X: "dstore_ok X" and Q: "sqlite_ok Q tab up" and u: "sqlUp Q tab up s"
    and cs: "plains cs" and o: "ioPrefix opts = []" "ioWhere opts = None" "0 \<le> ioLimit opts"
  shows "sqlDocuments X Q (canon cs) opts s =
    (let keys = likeKeys (canon cs @ ''/%'') (sqlDocs Q tab s)
     in (Inr (map (\<lambda>p. the (sqlDocs Q tab s p)) (drop (nat (ioIndex opts))
          (if ioLimit opts = 0 then keys else take (nat (ioLimit opts)) keys))), s))"
proof -
  have s: "sqlDb s" "up (sqlDisk s)" using u by (simp_all add: sqlUp_def)
  let ?t = "tab (sqlDisk s)" and ?ks = "likeKeys (canon cs @ ''/%'') (sqlDocs Q tab s)"
  have q: "sqQuery Q likeStmt [SText (canon cs @ ''/%'')] (sqlDisk s) = Inr (map (tableRow ?t) ?ks, None)" and fin: "finite (dom ?t)"
    using Q s(2) unfolding sqlite_ok_def by (simp_all add: likeRows_def likeKeys_def sqlDocs_dom[OF u])
  have sub: "set (drop i (take n ?ks)) \<subseteq> dom ?t" "set (drop i ?ks) \<subseteq> dom ?t" for i n
    using fin by (auto simp: likeKeys_def sqlDocs_dom[OF u] dest!: in_set_dropD in_set_takeD)
  let ?i = "\<lparr>qiRows = map (tableRow ?t) ?ks, qiErr = None, qiIndex = ioIndex opts, qiLimit = ioLimit opts, qiCount = 0\<rparr>"
  have "sqlDrain Q ?i = rowDocs Q (map (tableRow ?t) (drop (nat (ioIndex opts))
      (if ioLimit opts = 0 then ?ks else take (nat (ioLimit opts)) ?ks)))"
    unfolding sqlDrain_def using sqlAll_rows[of ?i "Suc (length (qiRows ?i))" Q] o(3) by (simp add: take_map drop_map)
  moreover have "sqlDocumentIterator X Q (canon cs) opts s = (Inr ?i, s)"
    using s(1) q o(1,2) xPath_canon[OF X cs] canon_not_root[OF cs]
    by (simp add: sqlDocumentIterator_def sqlIterator_def op_simps Let_def)
  ultimately show ?thesis
    using rowDocs_ok[OF u sub(1)] rowDocs_ok[OF u sub(2)] by (simp add: sqlDocuments_def op_simps Let_def)
qed

lemma sqlDeleteAll_ok:
  assumes X: "dstore_ok X" and Q: "sqlite_ok Q tab up" and u: "sqlUp Q tab up s"
  shows "\<forall>p \<in> set ps. \<exists>ds. plains ds \<and> p = canon ds \<Longrightarrow>
    \<exists>s'. sqlDeleteAll X Q ps s = (Inr (), s') \<and> sqlUp Q tab up s' \<and> sqlTick s' = sqlTick s \<and>
      sqlDocs Q tab s' = sqlDocs Q tab s |` (- set ps)"
  using u
proof (induction ps arbitrary: s)
  case Nil
  then show ?case by (simp add: sqlDeleteAll_def op_simps)
next
  case (Cons p ps)
  obtain ds where ds: "plains ds" "p = canon ds" using Cons.prems(1) by auto
  obtain t where t: "sqlDelete X Q p s = (Inr (sqlDocs Q tab s p \<noteq> None), t)" "sqlUp Q tab up t" "sqlTick t = sqlTick s"
      "sqlDocs Q tab t = (sqlDocs Q tab s)(p := None)"
    using documents.ddelete_ok[OF sqlcipher_documents[OF X Q] Cons.prems(2) ds(1)] ds(2) by (auto simp: sqlOps_def)
  obtain s' where s': "sqlDeleteAll X Q ps t = (Inr (), s')" "sqlUp Q tab up s'" "sqlTick s' = sqlTick s"
      "sqlDocs Q tab s' = sqlDocs Q tab t |` (- set ps)"
    using Cons.IH[OF _ t(2)] Cons.prems(1) t(3) by auto
  have "sqlDocs Q tab s' = sqlDocs Q tab s |` (- set (p # ps))"
    using s'(4) t(4) by (auto simp: restrict_map_def fun_eq_iff)
  moreover have "sqlDeleteAll X Q (p # ps) s = (Inr (), s')"
    using t(1) s'(1) by (simp add: sqlDeleteAll_def op_simps)
  ultimately show ?case using s'(2,3) by auto
qed

lemma sqlDeleteCollection_ok:
  assumes X: "dstore_ok X" and Q: "sqlite_ok Q tab up" and u: "sqlUp Q tab up s" and cs: "plains cs"
    and paths: "\<forall>p \<in> dom (sqlDocs Q tab s). \<exists>ds. plains ds \<and> p = canon ds"
  shows "\<exists>s'. sqlDeleteCollection X Q (canon cs) s = (Inr (), s') \<and> sqlUp Q tab up s' \<and>
    sqlDocs Q tab s' = sqlDocs Q tab s |` {p. \<not> likeMatch (canon cs @ ''/%'') p}"
proof -
  let ?D = "sqlDocs Q tab s" and ?ks = "likeKeys (canon cs @ ''/%'') (sqlDocs Q tab s)"
  have fin: "finite (dom ?D)" using Q u sqlDocs_dom[OF u] unfolding sqlite_ok_def sqlUp_def by metis
  have "doPath (the (?D p)) = p" if "p \<in> set ?ks" for p
    using that fin sqlDocs_path by (fastforce simp: likeKeys_def)
  then have map: "map doPath (map (\<lambda>p. the (?D p)) ?ks) = ?ks" by (simp add: map_idI)
  have "\<forall>p \<in> set ?ks. \<exists>ds. plains ds \<and> p = canon ds" using paths fin by (auto simp: likeKeys_def)
  then obtain s' where s': "sqlDeleteAll X Q ?ks s = (Inr (), s')" "sqlUp Q tab up s'" "sqlDocs Q tab s' = ?D |` (- set ?ks)"
    using sqlDeleteAll_ok[OF X Q u] by blast
  have "?D |` (- set ?ks) = ?D |` {p. \<not> likeMatch (canon cs @ ''/%'') p}"
    using likeKeys_set[OF fin] by (fastforce simp: restrict_map_def fun_eq_iff)
  moreover have "sqlDeleteCollection X Q (canon cs) s = (Inr (), s')"
    using sqlDocuments_ok[OF X Q u cs, of "(prefixOpts [])\<lparr>ioNoData := True\<rparr>"] s'(1) map
    by (simp add: sqlDeleteCollection_def op_simps prefixOpts_def Let_def)
  ultimately show ?thesis using s'(2,3) by auto
qed

end
