(* ===== verification/LocalInstance.thy ===== *)
theory LocalInstance
  imports Sqlcipher Instance
begin

text \<open>
  Instances of the database libraries: a leveldb and a SQLite database kept as association
  lists, which meet the documented behaviour. The contracts \<open>store\<close> of the vault's leveldb
  store and \<open>documents\<close> of both document databases are interpreted on the program's
  operations over them.
\<close>

section \<open>leveldb\<close>

text \<open>The keys with a property, in order.\<close>

definition keysOf :: "(string \<Rightarrow> bool) \<Rightarrow> (string \<times> 'v) list \<Rightarrow> string list" where
  "keysOf P kvs = sort (remdups (filter P (map fst kvs)))"

lemma keysOf_set: "keysOf P kvs = sorted_list_of_set {p \<in> dom (map_of kvs). P p}"
proof -
  have "{p \<in> dom (map_of kvs). P p} = set (filter P (map fst kvs))" by (auto simp: dom_map_of_conv_image_fst)
  then show ?thesis by (simp only: keysOf_def sorted_list_of_set_sort_remdups)
qed

type_synonym kvdisk = "(string \<times> string) list"

definition stdLDB :: "kvdisk leveldb" where
  "stdLDB = \<lparr>ldOpenFile = (\<lambda>p. ret ()), ldClose = ret (),
     ldPut = (\<lambda>k v. modify (AList.update k v)), ldDelete = (\<lambda>k. modify (AList.delete k)),
     ldGet = (\<lambda>k d. Inr (map_of d k)), ldHas = (\<lambda>k d. Inr (map_of d k \<noteq> None)),
     ldIter = (\<lambda>p d. (map (\<lambda>k. (k, the (map_of d k))) (keysOf (prefix p) d), None)),
     osRemoveAll = (\<lambda>p. modify (\<lambda>_. []))\<rparr>"

lemma std_leveldb: "leveldb_ok stdLDB map_of (\<lambda>_. True)"
  unfolding leveldb_ok_def
  by (auto simp: stdLDB_def op_simps update_conv' delete_conv' keysOf_set keysWith_def finite_dom_map_of)

interpretation ldbStore: store "ldbOps stdLDB" "ldbContents map_of" "ldbReady (\<lambda>_. True)"
  by (rule ldb_store[OF std_leveldb])

section \<open>Documents\<close>

text \<open>Encodings of finite maps: the pairs in key order.\<close>

definition encVal :: "fval \<Rightarrow> string" where
  "encVal v = (case v of FInt n \<Rightarrow> CHR ''i'' # encInt n | FBytes b \<Rightarrow> CHR ''b'' # encStr b | FStr b \<Rightarrow> CHR ''s'' # encStr b)"

definition decVal :: "string \<Rightarrow> (fval \<times> string) option" where
  "decVal b = (case b of [] \<Rightarrow> None
     | c # r \<Rightarrow> if c = CHR ''i'' then map_option (map_prod FInt id) (decInt r)
                else if c = CHR ''b'' then map_option (map_prod FBytes id) (decStr r)
                else map_option (map_prod FStr id) (decStr r))"

definition encPair :: "string \<times> fval \<Rightarrow> string" where
  "encPair kv = encStr (fst kv) @ encVal (snd kv)"

definition decPair :: "string \<Rightarrow> ((string \<times> fval) \<times> string) option" where
  "decPair b = (case decStr b of None \<Rightarrow> None | Some (k, r) \<Rightarrow> map_option (map_prod (Pair k) id) (decVal r))"

definition encFields :: "fields \<Rightarrow> string" where
  "encFields f = encList encPair (map (\<lambda>k. (k, the (f k))) (sorted_list_of_set (dom f)))"

definition decFields :: "string \<Rightarrow> (fields \<times> string) option" where
  "decFields b = map_option (map_prod map_of id) (decList decPair b)"

lemma decVal_encVal [simp]: "decVal (encVal v @ r) = Some (v, r)"
  by (cases v) (simp_all add: decVal_def encVal_def)

lemma decPair_encPair: "decPair (encPair kv @ r) = Some (kv, r)"
  by (simp add: decPair_def encPair_def)

lemma map_of_pairs: "finite (dom f) \<Longrightarrow> map_of (map (\<lambda>k. (k, the (f k))) (sorted_list_of_set (dom f))) = f"
  by (rule ext) (auto simp: map_of_map_restrict restrict_map_def domIff)

lemma decFields_encFields [simp]: "finite (dom f) \<Longrightarrow> decFields (encFields f @ r) = Some (f, r)"
  using decList_encList[of decPair encPair id] decPair_encPair
  by (simp add: decFields_def encFields_def map_of_pairs)

definition encDoc :: "document \<Rightarrow> string" where
  "encDoc d = encStr (doPath d) @ encFields (doFields d) @ encInt (doCreatedAt d) @ encInt (doUpdatedAt d)"

definition decDoc :: "string \<Rightarrow> err + document" where
  "decDoc b = (case decStr b of None \<Rightarrow> stdErr | Some (p, b1) \<Rightarrow>
     (case decFields b1 of None \<Rightarrow> stdErr | Some (f, b2) \<Rightarrow>
     (case decInt b2 of None \<Rightarrow> stdErr | Some (c, b3) \<Rightarrow>
     (case decInt b3 of None \<Rightarrow> stdErr | Some (u, _) \<Rightarrow>
       Inr \<lparr>doPath = p, doFields = f, doCreatedAt = c, doUpdatedAt = u\<rparr>))))"

lemma decDoc_encDoc: "finite (dom (doFields d)) \<Longrightarrow> decDoc (encDoc d) = Inr d"
  using decInt_encInt[of _ "[]"] by (simp add: decDoc_def encDoc_def)

definition stdSdb :: sdbLib where
  "stdSdb = \<lparr>slEncrypt = (\<lambda>r b k. Inr (CHR ''e'' # k @ b)),
     slDecrypt = (\<lambda>c k. if prefix (CHR ''e'' # k) c then Inr (drop (Suc (length k)) c) else Inl (LibErr ''sio: authentication failed'')),
     slM = (\<lambda>d. Inr (encDoc d)), slU = decDoc, slClock = (\<lambda>t. 1000 * int t)\<rparr>"

lemma std_sdbLib: "sdbLib_ok stdSdb"
  by (auto simp: sdbLib_ok_def stdSdb_def decDoc_encDoc)

interpretation sdbStore: documents "sdbOps stdX stdLDB stdSdb" "sdbDocs stdSdb map_of" sbTick "slClock stdSdb"
  "sdbUp stdSdb map_of (\<lambda>_. True)"
  by (rule sdb_documents[OF std_dstore std_leveldb std_sdbLib])

section \<open>SQLite\<close>

type_synonym rowdisk = "(string \<times> string \<times> gotime \<times> gotime) list"

fun stdExec :: "string \<Rightarrow> sqlval list \<Rightarrow> (rowdisk, unit) op" where
  "stdExec stmt [SText p, SBlob b, STime c, STime u] = modify (AList.update p (b, c, u))"
| "stdExec stmt [SText p] = modify (AList.delete p)"
| "stdExec stmt args = ret ()"

definition stdSQL :: "rowdisk sqlite" where
  "stdSQL = \<lparr>sqOpen = (\<lambda>p. ret ()), sqClose = ret (), sqIsEncrypted = (\<lambda>p d. Inr True),
     sqBegin = ret (), sqCommit = ret (), sqPrepare = (\<lambda>stmt d. Inr ()), sqExec = stdExec,
     sqQuery = (\<lambda>stmt args d. case args of
         [SText p] \<Rightarrow> Inr (if stmt = likeStmt then map (tableRow (map_of d)) (keysOf (likeMatch p) d)
           else if map_of d p = None then []
           else if stmt = existsStmt then [[SInt 1]] else [tableRow (map_of d) p], None)
       | _ \<Rightarrow> Inl (LibErr ''sql: arguments'')),
     sqM = (\<lambda>f. Inr (encFields f)),
     sqU = (\<lambda>b. case decFields b of None \<Rightarrow> stdErr | Some (f, _) \<Rightarrow> Inr f),
     sqClock = (\<lambda>t. 1000 * int t)\<rparr>"

lemma stmts_differ: "getStmt \<noteq> likeStmt" "existsStmt \<noteq> likeStmt" "getStmt \<noteq> existsStmt"
  by (simp_all add: getStmt_def likeStmt_def existsStmt_def)

lemma std_sqlite: "sqlite_ok stdSQL map_of (\<lambda>_. True)"
proof -
  have enc: "sqU stdSQL (encFields f) = Inr f" if "finite (dom f)" for f
    using decFields_encFields[OF that, of "[]"] by (simp add: stdSQL_def)
  have "sqM stdSQL f = Inr (encFields f)" for f by (simp add: stdSQL_def)
  moreover have "likeRows (map_of d) pat = map (tableRow (map_of d)) (keysOf (likeMatch pat) d)" for d pat
    by (simp add: likeRows_def keysOf_set)
  ultimately show ?thesis using enc stmts_differ unfolding sqlite_ok_def
    by (auto simp: stdSQL_def op_simps update_conv' delete_conv' finite_dom_map_of)
qed

interpretation sqlStore: documents "sqlOps stdX stdSQL" "sqlDocs stdSQL map_of" sqlTick "sqClock stdSQL"
  "sqlUp stdSQL map_of (\<lambda>_. True)"
  by (rule sqlcipher_documents[OF std_dstore std_sqlite])

text \<open>Opened databases.\<close>

definition sdb0 :: "kvdisk sdbState" where
  "sdb0 = (sdbNew [])\<lparr>sbKey := Some (replicate 32 (CHR ''k''))\<rparr>"

definition sql0 :: "rowdisk sqlState" where
  "sql0 = (sqlNew [])\<lparr>sqlDb := True\<rparr>"

lemma sdb0_up: "sdbUp stdSdb map_of (\<lambda>_. True) sdb0"
  by (simp add: sdbUp_def sdb0_def sdbNew_def)

lemma sql0_up: "sqlUp stdSQL map_of (\<lambda>_. True) sql0"
  by (simp add: sqlUp_def sql0_def sqlNew_def)

end
