(* ===== verification/LocalProps.thy ===== *)
theory LocalProps
  imports LocalInstance
begin

text \<open>
  The properties of the two local document databases, each applied to the concrete instances.
\<close>

section \<open>Databases with documents\<close>

definition noFields :: fields where
  "noFields = Map.empty"

definition rowOf :: "string \<Rightarrow> string \<times> string \<times> gotime \<times> gotime" where
  "rowOf p = (p, encFields noFields, 0, 0)"

definition sealed :: "string \<Rightarrow> string \<times> string" where
  "sealed p = (p, CHR ''e'' # replicate 32 (CHR ''k'') @ encDoc \<lparr>doPath = p, doFields = noFields, doCreatedAt = 0, doUpdatedAt = 0\<rparr>)"

definition demoPaths :: "string list" where
  "demoPaths = [''/user_a/1'', ''/userxa/1'']"

definition sqlDemo :: "rowdisk sqlState" where
  "sqlDemo = sql0\<lparr>sqlDisk := map rowOf demoPaths\<rparr>"

definition sdbDemo :: "kvdisk sdbState" where
  "sdbDemo = sdb0\<lparr>sbDisk := map sealed demoPaths\<rparr>"

lemma decode_noFields: "decFields (encFields noFields) = Some (noFields, [])"
  using decFields_encFields[of noFields "[]"] by (simp add: noFields_def)

lemma map_of_rowOf: "map_of (map rowOf ps) p = (if p \<in> set ps then Some (encFields noFields, 0, 0) else None)"
  by (induction ps) (auto simp: rowOf_def)

lemma map_of_sealed: "map_of (map sealed ps) p = (if p \<in> set ps then Some (snd (sealed p)) else None)"
  by (induction ps) (auto simp: sealed_def)

lemma sqlDemo_docs: "sqlDocs stdSQL map_of sqlDemo p = (if p \<in> set demoPaths then Some (newDoc p noFields 0) else None)"
  by (simp add: sqlDocs_def sqlDemo_def map_of_rowOf docOfRow_def stdSQL_def decode_noFields newDoc_def)

lemma sqlDemo_up: "sqlUp stdSQL map_of (\<lambda>_. True) sqlDemo"
proof -
  have "docOfRow stdSQL p (encFields noFields, 0, 0) = Some (newDoc p noFields 0)" for p
    by (simp add: docOfRow_def stdSQL_def decode_noFields newDoc_def)
  then show ?thesis by (simp add: sqlUp_def sqlDemo_def sql0_def map_of_rowOf newDoc_def) (simp add: noFields_def)
qed

lemma sealed_doc: "docIn stdSdb (replicate 32 (CHR ''k'')) p (snd (sealed p)) = Some (newDoc p noFields 0)"
  by (simp add: docIn_def decryptS_def sealed_def stdSdb_def sdbUnmarshal_def decDoc_encDoc newDoc_def noFields_def)

lemma sdbDemo_docs: "sdbDocs stdSdb map_of sdbDemo p = (if p \<in> set demoPaths then Some (newDoc p noFields 0) else None)"
  by (simp add: sdbDocs_def sdbDemo_def sdb0_def map_of_sealed sealed_doc)

lemma sdbDemo_up: "sdbUp stdSdb map_of (\<lambda>_. True) sdbDemo"
  by (simp add: sdbUp_def sdbDemo_def sdb0_def map_of_sealed sealed_doc newDoc_def noFields_def)

lemma demo_plains: "plains [''user_a'']" "plains [''user_a'', ''1'']" "plains [''userxa'', ''1'']"
  by (simp_all add: plains_def plain_def)

section \<open>Properties\<close>

text \<open>C8. The two implementations of the document store cannot be told apart by sequences of
  \<^verbatim>\<open>Exists\<close>, \<^verbatim>\<open>Create\<close>, \<^verbatim>\<open>Set\<close>, \<^verbatim>\<open>Get\<close> and \<^verbatim>\<open>Delete\<close>: with the same documents and clock they give
  the same replies, errors included.\<close>

theorem documents_equivalent:
  assumes "dstore_ok X" "leveldb_ok L cont up" "sdbLib_ok S" "sqlite_ok Q tab up'" "slClock S = sqClock Q"
    and "sdbUp S cont up s" "sqlUp Q tab up' t" "sdbDocs S cont s = sqlDocs Q tab t" "sbTick s = sqlTick t"
    and "list_all dcallOk calls"
  shows "docReplies (sdbOps X L S) calls s = docReplies (sqlOps X Q) calls t"
  using docReplies_agree[OF sdb_documents[OF assms(1,2,3)] sqlcipher_documents[OF assms(1,4), folded assms(5)] assms(6-10)] .

lemma documents_equivalent_witness:
  "docReplies (sdbOps stdX stdLDB stdSdb) [DCreate [''user_a'', ''1''] noFields, DSet [''b''] (noFields(''n'' \<mapsto> FInt 3)) True, DGet [''b'']] sdbDemo =
   docReplies (sqlOps stdX stdSQL) [DCreate [''user_a'', ''1''] noFields, DSet [''b''] (noFields(''n'' \<mapsto> FInt 3)) True, DGet [''b'']] sqlDemo"
proof -
  have clk: "slClock stdSdb = sqClock stdSQL" by (simp add: stdSdb_def stdSQL_def)
  have docs: "sdbDocs stdSdb map_of sdbDemo = sqlDocs stdSQL map_of sqlDemo"
    by (simp add: fun_eq_iff sdbDemo_docs sqlDemo_docs)
  have tick: "sbTick sdbDemo = sqlTick sqlDemo" by (simp add: sdbDemo_def sdb0_def sdbNew_def sqlDemo_def sql0_def sqlNew_def)
  have ok: "list_all dcallOk [DCreate [''user_a'', ''1''] noFields, DSet [''b''] (noFields(''n'' \<mapsto> FInt 3)) True, DGet [''b'']]"
    by (simp add: dcallOk_def plains_def plain_def noFields_def)
  show ?thesis
    by (rule documents_equivalent[OF std_dstore std_leveldb std_sdbLib std_sqlite clk sdbDemo_up sqlDemo_up docs tick ok])
qed

text \<open>C32. Deleting a collection. \<^verbatim>\<open>sdb\<close> deletes the documents below the path. \<^verbatim>\<open>sqlcipher\<close>
  deletes the documents whose path matches the path as a \<^verbatim>\<open>LIKE\<close> pattern, where an underscore
  stands for any character and letters match in either case: it can delete documents of other
  collections.\<close>

theorem delete_collection:
  assumes "dstore_ok X" "leveldb_ok L cont up" "sqlite_ok Q tab up'" "sdbUp S cont up s" "sqlUp Q tab up' t"
    and "sdbDocs S cont s = sqlDocs Q tab t" and "plains cs"
    and "\<forall>p \<in> dom (sqlDocs Q tab t). \<exists>ds. plains ds \<and> p = canon ds"
  shows "\<exists>s' t'. sdbDeleteCollection X L S (canon cs) s = (Inr (), s') \<and> sqlDeleteCollection X Q (canon cs) t = (Inr (), t') \<and>
    sdbDocs S cont s' = sdbDocs S cont s |` {p. \<not> prefix (canon cs @ ''/'') p} \<and>
    sqlDocs Q tab t' = sqlDocs Q tab t |` {p. \<not> likeMatch (canon cs @ ''/%'') p}"
  using sdbDeleteCollection_ok[OF assms(1,2,4,7)] sqlDeleteCollection_ok[OF assms(1,3,5,7,8)] by blast

lemma delete_collection_witness:
  "\<exists>s' t'. sdbDeleteCollection stdX stdLDB stdSdb ''/user_a'' sdbDemo = (Inr (), s') \<and>
     sqlDeleteCollection stdX stdSQL ''/user_a'' sqlDemo = (Inr (), t') \<and>
     sdbDocs stdSdb map_of s' ''/userxa/1'' = Some (newDoc ''/userxa/1'' noFields 0) \<and> sqlDocs stdSQL map_of t' ''/userxa/1'' = None"
proof -
  have docs: "sdbDocs stdSdb map_of sdbDemo = sqlDocs stdSQL map_of sqlDemo"
    by (simp add: fun_eq_iff sdbDemo_docs sqlDemo_docs)
  have paths: "\<forall>p \<in> dom (sqlDocs stdSQL map_of sqlDemo). \<exists>ds. plains ds \<and> p = canon ds"
  proof
    fix p assume "p \<in> dom (sqlDocs stdSQL map_of sqlDemo)"
    then have "p = canon [''user_a'', ''1''] \<or> p = canon [''userxa'', ''1'']"
      by (auto simp: sqlDemo_docs demoPaths_def split: if_splits)
    then show "\<exists>ds. plains ds \<and> p = canon ds" using demo_plains(2,3) by blast
  qed
  have like: "likeMatch ''/user_a/%'' ''/userxa/1''" by (simp add: lowerC_def)
  have npre: "\<not> prefix ''/user_a/'' ''/userxa/1''" by simp
  obtain s' t' where run: "sdbDeleteCollection stdX stdLDB stdSdb (canon [''user_a'']) sdbDemo = (Inr (), s')"
      "sqlDeleteCollection stdX stdSQL (canon [''user_a'']) sqlDemo = (Inr (), t')"
      "sdbDocs stdSdb map_of s' = sdbDocs stdSdb map_of sdbDemo |` {p. \<not> prefix (canon [''user_a''] @ ''/'') p}"
      "sqlDocs stdSQL map_of t' = sqlDocs stdSQL map_of sqlDemo |` {p. \<not> likeMatch (canon [''user_a''] @ ''/%'') p}"
    using delete_collection[OF std_dstore std_leveldb std_sqlite sdbDemo_up sqlDemo_up docs demo_plains(1) paths] by blast
  have "sdbDocs stdSdb map_of s' ''/userxa/1'' = Some (newDoc ''/userxa/1'' noFields 0)"
    using npre by (simp add: run(3) sdbDemo_docs demoPaths_def restrict_map_def)
  moreover have "sqlDocs stdSQL map_of t' ''/userxa/1'' = None"
    using like by (simp add: run(4) restrict_map_def)
  ultimately show ?thesis using run(1,2) by simp
qed

text \<open>C33. A listing of the SQLite database below a path gives, in path order, the documents whose
  path matches; both the limit and the index count from the first of them, so a listing from
  index \<open>i\<close> with limit \<open>n\<close> has at most \<open>n - i\<close> documents.\<close>

theorem sql_listing:
  assumes "dstore_ok X" "sqlite_ok Q tab up" "sqlUp Q tab up s" "plains cs"
    and "ioPrefix opts = []" "ioWhere opts = None" "0 \<le> ioLimit opts"
  defines "keys \<equiv> likeKeys (canon cs @ ''/%'') (sqlDocs Q tab s)"
  shows "sqlDocuments X Q (canon cs) opts s =
    (Inr (map (\<lambda>p. the (sqlDocs Q tab s p)) (drop (nat (ioIndex opts))
       (if ioLimit opts = 0 then keys else take (nat (ioLimit opts)) keys))), s)"
  using sqlDocuments_ok[OF assms(1-7)] by (simp add: keys_def Let_def)

lemma sql_listing_witness:
  "sqlDocuments stdX stdSQL ''/user_a'' \<lparr>ioPrefix = [], ioWhere = None, ioIndex = 1, ioLimit = 1, ioNoData = False\<rparr> sqlDemo = (Inr [], sqlDemo)"
proof -
  let ?o = "\<lparr>ioPrefix = [], ioWhere = None, ioIndex = 1, ioLimit = 1, ioNoData = False\<rparr>"
  have o: "ioPrefix ?o = []" "ioWhere ?o = None" "0 \<le> ioLimit ?o" by simp_all
  show ?thesis using sql_listing[OF std_dstore std_sqlite sqlDemo_up demo_plains(1) o] by simp
qed

text \<open>What a closed database answers. \<^verbatim>\<open>sdb\<close> returns an error from every operation but
  \<^verbatim>\<open>DeleteAll\<close>, which panics on a non-empty list; \<^verbatim>\<open>sqlcipher\<close> returns an error from every operation but
  \<^verbatim>\<open>Get\<close> and \<^verbatim>\<open>GetAll\<close>, which call the nil handle and panic.\<close>

theorem closed_databases:
  "sbKey s = None \<and> \<not> sqlDb t \<longrightarrow>
     sdbExists X L p s = (Inl (Err ''db not open''), s) \<and> sdbCreate X L S p v s = (Inl (Err ''db not open''), s) \<and>
     sdbSet X L S p v mg s = (Inl (Err ''db not open''), s) \<and> sdbGet X L S p s = (Inl (Err ''db not open''), s) \<and>
     sdbDelete X L p s = (Inl (Err ''db not open''), s) \<and>
     sdbDeleteAll L (p # ps) s = (Inl (Panic ''nil pointer''), s) \<and>
     sqlExists X Q p t = (Inl ErrNotOpen, t) \<and> sqlCreate X Q p v t = (Inl ErrNotOpen, t) \<and>
     sqlSet X Q p v mg t = (Inl (Err ''db not open''), t) \<and> sqlDelete X Q p t = (Inl (Err ''db not open''), t) \<and>
     sqlGet X Q p t = (Inl (Panic ''nil pointer''), t) \<and> sqlGetAll Q (p # ps) t = (Inl (Panic ''nil pointer''), t)"
  by (simp add: sdbExists_def sdbCreate_def sdbSet_def sdbGet_def sdbGetDoc_def sdbDelete_def sdbDeleteAll_def
      sqlExists_def sqlCreate_def sqlSet_def sqlDelete_def sqlGet_def sqlGetAll_def sqlGetRec_def prepare_def onHandle_def
      op_simps Let_def)

lemma closed_databases_witness:
  "sqlGet stdX stdSQL ''/a'' (sqlNew []) = (Inl (Panic ''nil pointer''), sqlNew [])"
  using closed_databases[of "sdbNew [] :: kvdisk sdbState" "sqlNew []" stdX stdLDB "''/a''" stdSdb noFields True "[]" stdSQL]
  by (simp add: sdbNew_def sqlNew_def)

end
