(* ===== verification/StoreCalls.thy ===== *)
theory StoreCalls
  imports Mem LevelDB
begin

text \<open>
  Sequences of calls on a vault's store, with their replies as they are: nil data, empty data and a
  missing entry are told apart. The in-memory store keeps nil as nil and looks at no \<^verbatim>\<open>NoData\<close>;
  leveldb turns nil into empty data and leaves the data out.
\<close>

datatype scall =
    CallGet string
  | CallSet string gobytes
  | CallDelete string
  | CallList "listOpts option"

datatype sreply = RepData gobytes | RepUnit | RepBool bool | RepList "entry list"

fun storeCall :: "'s store_ops \<Rightarrow> scall \<Rightarrow> ('s, sreply) op" where
  "storeCall I (CallGet p) = bnd (sGet I p) (\<lambda>b. ret (RepData b))"
| "storeCall I (CallSet p b) = bnd (sSet I p b) (\<lambda>_. ret RepUnit)"
| "storeCall I (CallDelete p) = bnd (sDelete I p) (\<lambda>b. ret (RepBool b))"
| "storeCall I (CallList o') = bnd (sList I o') (\<lambda>es. ret (RepList es))"

fun scallPath :: "scall \<Rightarrow> string option" where
  "scallPath (CallGet p) = Some p"
| "scallPath (CallSet p b) = Some p"
| "scallPath (CallDelete p) = Some p"
| "scallPath (CallList o') = None"

definition scallOk :: "scall \<Rightarrow> bool" where
  "scallOk c \<longleftrightarrow> scallPath c \<noteq> Some []"

primrec storeReplies :: "'s store_ops \<Rightarrow> scall list \<Rightarrow> 's \<Rightarrow> (err + sreply) list" where
  "storeReplies I [] s = []"
| "storeReplies I (c # cs) s = (case storeCall I c s of (r, s') \<Rightarrow> r # storeReplies I cs s')"

text \<open>What leveldb makes of a call, and of the reply: nil is written as empty, and a listing with
  \<^verbatim>\<open>NoData\<close> has no data.\<close>

fun nilAsEmpty :: "scall \<Rightarrow> scall" where
  "nilAsEmpty (CallSet p b) = CallSet p (Some (bstr b))"
| "nilAsEmpty c = c"

fun withoutData :: "scall \<Rightarrow> err + sreply \<Rightarrow> err + sreply" where
  "withoutData (CallList o') (Inr (RepList es)) =
     Inr (RepList (if loNoData (optsOf o') then map (\<lambda>e. e\<lparr>eData := None\<rparr>) es else es))"
| "withoutData c r = r"

text \<open>The two stores hold the same entries.\<close>

definition sameEntries :: "('d \<Rightarrow> string \<Rightarrow> string option) \<Rightarrow> ('d \<Rightarrow> bool) \<Rightarrow> mem \<Rightarrow> 'd DB \<Rightarrow> bool" where
  "sameEntries cont up s t \<longleftrightarrow> memReady s \<and> ldbReady up t \<and>
     map_of (mEntries s) = map_option Some \<circ> ldbContents cont t"

lemma same_contents: "sameEntries cont up s t \<Longrightarrow> memContents s = ldbContents cont t"
  by (auto simp: sameEntries_def memContents_def fun_eq_iff option.map_comp comp_def option.map_ident)

lemma memList_exact:
  assumes "memReady m"
  shows "memList o' m = (Inr (map (\<lambda>p. \<lparr>ePath = p, eData = the (map_of (mEntries m) p)\<rparr>)
     (limitTo (loLimit (optsOf o')) (keysWith (loPrefix (optsOf o')) (memContents m)))), m)"
proof -
  let ?ks = "limitTo (loLimit (optsOf o')) (keysWith (loPrefix (optsOf o')) (memContents m))"
  obtain es where es: "memList o' m = (Inr es, m)" "map ePath es = ?ks"
      "\<forall>e \<in> set es. map_of (mEntries m) (ePath e) = Some (eData e)"
    using memList_run[OF assms, of o'] by blast
  have "map (\<lambda>p. \<lparr>ePath = p, eData = the (map_of (mEntries m) p)\<rparr>) (map ePath es) = es"
    unfolding map_map by (rule map_idI) (use es(3) in simp)
  with es(1,2) show ?thesis by simp
qed

lemma ldList_exact:
  assumes "leveldb_ok L cont up" "ldbReady up t"
  shows "dbList L o' t = (Inr (map (\<lambda>p. \<lparr>ePath = p, eData = (if loNoData (optsOf o') then None else Some (the (ldbContents cont t p)))\<rparr>)
     (limitTo (loLimit (optsOf o')) (keysWith (loPrefix (optsOf o')) (ldbContents cont t)))), t)"
  using assms by (simp add: leveldb_ok_def ldbReady_def ldbContents_def dbList_def op_simps limitTo_map comp_def Let_def)

lemma keysWith_dom: "finite (dom m) \<Longrightarrow> p \<in> set (keysWith pre m) \<Longrightarrow> m p \<noteq> None"
  by (auto simp: keysWith_set)

lemma reply_agrees:
  assumes L: "leveldb_ok L cont up" and same: "sameEntries cont up s t" and ok: "scallOk call"
  shows "\<exists>r s' t'. storeCall memOps (nilAsEmpty call) s = (r, s') \<and> storeCall (ldbOps L) call t = (withoutData call r, t') \<and>
     sameEntries cont up s' t'"
proof -
  let ?d = "dbDisk t"
  from same have r: "memReady s" "ldbReady up t" and m: "map_of (mEntries s) = map_option Some \<circ> cont ?d"
    by (auto simp: sameEntries_def ldbContents_def comp_def fun_eq_iff)
  from r have up: "up ?d" "dbOpen t" "mOpen s" "distinct (map fst (mEntries s))" by (simp_all add: ldbReady_def memReady_def)
  note lib = L[unfolded leveldb_ok_def, rule_format, OF up(1)]
  show ?thesis
  proof (cases call)
    case (CallGet p)
    with ok up lib m same show ?thesis
      by (auto simp: scallOk_def memGet_def memCheck_run ldbOps_def dbGet_def op_simps split: option.splits)
  next
    case (CallSet p b)
    obtain d where d: "ldPut L p (bstr b) ?d = (Inr (), d)" "up d" "cont d = (cont ?d)(p \<mapsto> bstr b)" using lib by blast
    with CallSet ok up m show ?thesis
      by (auto simp: scallOk_def memSet_def memCheck_run ldbOps_def dbSet_def op_simps sameEntries_def memReady_def
          ldbReady_def ldbContents_def distinct_update update_conv' fun_eq_iff)
  next
    case (CallDelete p)
    obtain d where d: "ldDelete L p ?d = (Inr (), d)" "up d" "cont d = (cont ?d)(p := None)" using lib by blast
    with CallDelete ok up m lib same show ?thesis
      by (cases "cont ?d p") (auto simp: scallOk_def memDelete_def memCheck_run ldbOps_def dbDelete_def op_simps sameEntries_def
          memReady_def ldbReady_def ldbContents_def distinct_delete delete_conv' fun_eq_iff)
  next
    case (CallList o')
    let ?ks = "limitTo (loLimit (optsOf o')) (keysWith (loPrefix (optsOf o')) (ldbContents cont t))"
    have "the (map_of (mEntries s) p) = Some (the (ldbContents cont t p))" if "p \<in> set ?ks" for p
    proof -
      have "finite (dom (ldbContents cont t))" using lib by (simp add: ldbContents_def)
      from keysWith_dom[OF this set_limitTo[OF that]] m show ?thesis by (auto simp: ldbContents_def)
    qed
    then have "map (\<lambda>p. \<lparr>ePath = p, eData = the (map_of (mEntries s) p)\<rparr>) ?ks =
      map (\<lambda>p. \<lparr>ePath = p, eData = Some (the (ldbContents cont t p))\<rparr>) ?ks" by simp
    with memList_exact[OF r(1), of o'] ldList_exact[OF L r(2), of o'] CallList same same_contents[OF same]
    show ?thesis by (simp add: ldbOps_def op_simps comp_def)
  qed
qed

lemma replies_agree:
  assumes L: "leveldb_ok L cont up"
  shows "sameEntries cont up s t \<Longrightarrow> list_all scallOk calls \<Longrightarrow>
    storeReplies (ldbOps L) calls t = map2 withoutData calls (storeReplies memOps (map nilAsEmpty calls) s)"
proof (induction calls arbitrary: s t)
  case (Cons call calls)
  then obtain r s' t' where "storeCall memOps (nilAsEmpty call) s = (r, s')"
      "storeCall (ldbOps L) call t = (withoutData call r, t')" "sameEntries cont up s' t'"
    using reply_agrees[OF L Cons.prems(1), of call] by auto
  with Cons.IH[OF this(3)] Cons.prems(2) show ?case by simp
qed simp

text \<open>Without nil data and \<^verbatim>\<open>NoData\<close> nothing is changed.\<close>

fun withData :: "scall \<Rightarrow> bool" where
  "withData (CallSet p b) \<longleftrightarrow> b \<noteq> None"
| "withData (CallList o') \<longleftrightarrow> \<not> loNoData (optsOf o')"
| "withData c \<longleftrightarrow> True"

lemma withData_same: "withData c \<Longrightarrow> nilAsEmpty c = c" "withData c \<Longrightarrow> withoutData c r = r"
  by (cases c; auto) (cases "(c, r)" rule: withoutData.cases; auto)

lemma replies_same:
  "list_all withData calls \<Longrightarrow> length rs = length calls \<Longrightarrow> map nilAsEmpty calls = calls \<and> map2 withoutData calls rs = rs"
  by (induction calls arbitrary: rs) (auto simp: withData_same length_Suc_conv)

lemma storeReplies_length [simp]: "length (storeReplies I calls s) = length calls"
  by (induction calls arbitrary: s) (simp_all split: prod.split)

end
