(* ===== verification/VaultProps.thy ===== *)
theory VaultProps
  imports VaultMachine VaultTools Keyring Secrets StoreCalls LocalInstance
begin

text \<open>
  Properties of the vault package beyond the refinement: its stores, its configuration values,
  item encryption, locked vaults, copying, history, keys and secrets.
\<close>

section \<open>Reading back an item\<close>

context store
begin

lemma set_then_get:
  assumes libs: "libs_ok X" and rep: "vaultRep X contents ready n base v A" and n: "n < maxIndex" and o': "aOpen A"
    and item: "itemOk item" "plain (iID item)" "bstr (iData item) \<noteq> []"
  shows "\<exists>v'. vaultSet X I item v = (Inr (), v') \<and> vaultGet X I (iID item) v' = (Inr (Some item), v')"
proof -
  obtain v' where v': "setItem X I item True v = (Inr (), v')"
      "vaultRep X contents ready (n + 1) base v' (A\<lparr>aItems := (aItems A)(iID item \<mapsto> item)\<rparr>)"
    using setItem_sim[OF libs rep n o' item(1,2)] by blast
  obtain r where r: "vaultGet X I (iID item) v' = (r, v')"
      "absGet (iID item) (A\<lparr>aItems := (aItems A)(iID item \<mapsto> item)\<rparr>) = (r, A\<lparr>aItems := (aItems A)(iID item \<mapsto> item)\<rparr>)"
    using refine_Get_run[OF libs v'(2), of "iID item"] item(2) by blast
  have "iID item \<noteq> []" using item(2) by (simp add: plain_def)
  with r(2) o' item(3) have "r = Inr (Some item)"
    by (auto simp: absGet_def op_simps lookupLive_def live_def)
  with v'(1) r(1) show ?thesis by (simp add: vaultSet_def)
qed

end

text \<open>The demonstration vault, unlocked.\<close>

definition demoOpen :: "(mem, unit) vault" where
  "demoOpen = snd (Unlock stdX memOps (Some demoKey) demoVault)"

definition demoAbs2 :: avault where
  "demoAbs2 = demoAbs1\<lparr>aOpen := True\<rparr>"

lemma demo_open: "\<exists>n. 0 \<le> n \<and> n \<le> 2 \<and> vaultRep stdX memContents memReady n [] demoOpen demoAbs2"
proof -
  obtain n where n: "n \<le> 2" "vaultRep stdX memContents memReady n [] demoVault demoAbs1" using demo_setup by blast
  have nn: "0 \<le> n" using contRepD(2)[OF vaultRepD(2)[OF n(2)]] by (simp add: pushOK_def)
  obtain r v' A' n' where s: "Unlock stdX memOps (Some demoKey) demoVault = (r, v')" "absUnlock demoKey demoAbs1 = (r, A')"
      "n \<le> n'" "n' \<le> n + 0" "vaultRep stdX memContents memReady n' [] v' A'"
    using memStore.refine_Unlock[OF std_libs n(2) demoKey_length] unfolding sim_def by blast
  have "A' = demoAbs2" using s(2) by (auto simp: absUnlock_def op_simps opensWith_def demoAbs1_def demoAbs2_def)
  with s n(1) nn show ?thesis by (auto simp: demoOpen_def)
qed

lemma demoAbs2_open: "aOpen demoAbs2" "aItems demoAbs2 = Map.empty"
  by (simp_all add: demoAbs2_def demoAbs1_def)

section \<open>Properties of the stores and the configuration\<close>

text \<open>C9. The leveldb store against the in-memory store, nil data, empty data and missing entries told
  apart. With the same entries, none of them nil, any sequence of \<^verbatim>\<open>Get\<close>, \<^verbatim>\<open>Set\<close>, \<^verbatim>\<open>Delete\<close> and \<^verbatim>\<open>List\<close> on
  non-empty paths gives from leveldb the replies that the in-memory store gives when nil is written as
  empty data, less the data of the listings with \<^verbatim>\<open>NoData\<close>; so without nil data and \<^verbatim>\<open>NoData\<close> the
  replies are the same. They differ on the empty path, which leveldb stores under and the in-memory
  store refuses.\<close>

theorem stores_agree:
  assumes "leveldb_ok L cont up" "memReady s" "ldbReady up t" "map_of (mEntries s) = map_option Some \<circ> ldbContents cont t"
    and "list_all scallOk calls"
  shows "storeReplies (ldbOps L) calls t = map2 withoutData calls (storeReplies memOps (map nilAsEmpty calls) s) \<and>
    (list_all withData calls \<longrightarrow> storeReplies (ldbOps L) calls t = storeReplies memOps calls s) \<and>
    storeReplies memOps [CallSet [] b] s = [Inl (Err ''invalid path'')] \<and>
    storeReplies (ldbOps L) [CallSet [] b] t = [Inr RepUnit]"
proof (intro conjI impI)
  have same: "sameEntries cont up s t" using assms(2-4) by (simp add: sameEntries_def)
  show agree: "storeReplies (ldbOps L) calls t = map2 withoutData calls (storeReplies memOps (map nilAsEmpty calls) s)"
    by (rule replies_agree[OF assms(1) same assms(5)])
  show "storeReplies (ldbOps L) calls t = storeReplies memOps calls s" if "list_all withData calls"
    using agree replies_same[OF that, of "storeReplies memOps calls s"] by simp
  show "storeReplies memOps [CallSet [] b] s = [Inl (Err ''invalid path'')]"
    using assms(2) by (simp add: memSet_def memCheck_def op_simps memReady_def)
  from assms(3) have up: "up (dbDisk t)" "dbOpen t" by (simp_all add: ldbReady_def)
  obtain d where "ldPut L [] (bstr b) (dbDisk t) = (Inr (), d)"
    using assms(1)[unfolded leveldb_ok_def, rule_format, OF up(1)] by blast
  with up(2) show "storeReplies (ldbOps L) [CallSet [] b] t = [Inr RepUnit]"
    by (auto simp: ldbOps_def dbSet_def op_simps)
qed

lemma stores_agree_witness:
  "storeReplies (ldbOps stdLDB) [CallSet ''/b'' (Some ''2''), CallSet ''/a'' (Some []), CallGet ''/c'', CallList (Some (withPrefix ''/'')), CallGet ''/a'']
     \<lparr>dbOpen = True, dbPath = ''db'', dbDisk = []\<rparr> =
   storeReplies memOps [CallSet ''/b'' (Some ''2''), CallSet ''/a'' (Some []), CallGet ''/c'', CallList (Some (withPrefix ''/'')), CallGet ''/a'']
     \<lparr>mOpen = True, mEntries = []\<rparr>"
proof -
  let ?t = "\<lparr>dbOpen = True, dbPath = ''db'', dbDisk = [] :: (string \<times> string) list\<rparr>" and ?s = "\<lparr>mOpen = True, mEntries = []\<rparr>"
  let ?calls = "[CallSet ''/b'' (Some ''2''), CallSet ''/a'' (Some []), CallGet ''/c'', CallList (Some (withPrefix ''/'')), CallGet ''/a'']"
  have "memReady ?s" "ldbReady (\<lambda>_. True) ?t" "map_of (mEntries ?s) = map_option Some \<circ> ldbContents map_of ?t"
    "list_all scallOk ?calls" "list_all withData ?calls"
    by (simp_all add: memReady_def ldbReady_def ldbContents_def scallOk_def fun_eq_iff)
  then show ?thesis using stores_agree[OF std_leveldb] by blast
qed

text \<open>A configuration number that is written is read back, for every int64; zero is stored by
  removing the key. Nothing else in the store changes.\<close>

theorem config_roundtrip:
  fixes v :: "('s, 'n) vault"
  assumes "store I contents ready" "ready (vStore v)" "xPath X [key] = key" "key \<noteq> []" "int64_ok n"
  shows "\<exists>v'. setInt64 X I key n v = (Inr (), v') \<and> getInt64 I key v' = (Inr n, v') \<and>
    (\<forall>p. p \<noteq> key \<longrightarrow> contents (vStore v') p = contents (vStore v) p) \<and>
    (n = 0 \<longrightarrow> contents (vStore v') key = None)"
proof -
  obtain s' where "setInt64 X I key n v = (Inr (), v\<lparr>vStore := s'\<rparr>)" "contents s' = putInt key n (contents (vStore v))"
    using store.setInt64_ok[OF assms(1-4)] by blast
  with store.setInt64_getInt64[OF assms] show ?thesis by (simp add: putInt_def)
qed

lemma config_roundtrip_witness:
  "\<exists>v'. setInt64 stdX memOps ''/sync/push'' (- 9223372036854775808) demoNew = (Inr (), v') \<and>
     getInt64 memOps ''/sync/push'' v' = (Inr (- 9223372036854775808), v')"
proof -
  have r: "memReady (vStore demoNew)" by (simp add: demoNew_def vaultNew_def memReady_def)
  have ok: "''/sync/push'' \<noteq> []" "int64_ok (- 9223372036854775808)" by (simp_all add: int64_ok_def)
  show ?thesis using config_roundtrip[OF memStore.store_axioms r xPath_sync(2)[OF std_dstore] ok] by blast
qed

text \<open>C21. The padded numbers that order the push and pull logs: up to the bound they have fifteen
  digits and their byte order is the order of the numbers; beyond it \<^verbatim>\<open>pad\<close> panics.\<close>

theorem pad_order:
  assumes "0 \<le> a" "a < b"
  shows "(if b \<le> maxIndex
     then (\<exists>s t. pad a = Inr s \<and> pad b = Inr t \<and> length s = 15 \<and> length t = 15 \<and> s < t)
     else pad b = Inl (Panic ''int too large for padding''))"
proof (cases "b \<le> maxIndex")
  case True
  with assms zeroPad_mono[of a b 15] zeroPad_length[of a 15] zeroPad_length[of b 15] show ?thesis
    by (simp add: pad_ok)
qed (simp add: pad_def)

lemma pad_order_witness: "(\<exists>s t. pad 9 = Inr s \<and> pad 10 = Inr t \<and> s < t) \<and> pad 1000000000000000 = Inl (Panic ''int too large for padding'')"
  using pad_order[of 9 10] pad_order[of 9 1000000000000000] by auto

section \<open>Properties of items\<close>

text \<open>C10. An item within the limits encrypts under the master key; it decrypts under that key to the
  same item (nil data may come back empty), under another key to \<^verbatim>\<open>ErrInvalidAuth\<close>, and under
  an id that is not its own to an error.\<close>

theorem item_sealed:
  fixes v :: "('s, 'n) vault"
  assumes "msgpack_ok X" "rand_ok X" "secretbox_ok X" "secretbox_auth X" "itemOk item" "length k = 32"
  shows "\<exists>enc. encryptItem X item (Some k) v = (Inr (Some enc), v\<lparr>vDraws := Suc (vDraws v)\<rparr>) \<and>
    (\<exists>i'. decryptItem X (Some enc) (Some k) (iID item) = Inr i' \<and> sameItem i' item) \<and>
    (\<forall>k' ad. length k' = 32 \<longrightarrow> k' \<noteq> k \<longrightarrow> decryptItem X (Some enc) (Some k') ad = Inl ErrInvalidAuth) \<and>
    (\<forall>ad. ad \<noteq> [] \<longrightarrow> ad \<noteq> iID item \<longrightarrow> decryptItem X (Some enc) (Some k) ad = Inl (Err ''invalid associated data''))"
proof -
  obtain enc where enc: "encryptItem X item (Some k) v = (Inr (Some enc), v\<lparr>vDraws := Suc (vDraws v)\<rparr>)" "encOf X k item enc"
    using encryptItem_run[OF assms(1,2,5)] by blast
  have "\<exists>i'. decryptItem X (Some enc) (Some k) (iID item) = Inr i' \<and> sameItem i' item"
    using decryptItem_encOf[OF assms(3,6) enc(2)] by simp
  moreover have "decryptItem X (Some enc) (Some k') ad = Inl ErrInvalidAuth" if "length k' = 32" "k' \<noteq> k" for k' ad
    using decryptItem_wrong_key[OF assms(4,6) that enc(2)] .
  moreover have "decryptItem X (Some enc) (Some k) ad = Inl (Err ''invalid associated data'')" if "ad \<noteq> []" "ad \<noteq> iID item" for ad
    using decryptItem_ad[OF assms(3,6) enc(2) that] .
  ultimately show ?thesis using enc(1) by blast
qed

lemma item_sealed_witness:
  "\<exists>enc. encryptItem stdX demoItem (Some demoKey) demoNew = (Inr (Some enc), demoNew\<lparr>vDraws := 1\<rparr>) \<and>
     (\<exists>i'. decryptItem stdX (Some enc) (Some demoKey) ''note'' = Inr i' \<and> sameItem i' demoItem) \<and>
     decryptItem stdX (Some enc) (Some (replicate 32 (CHR ''x''))) ''note'' = Inl ErrInvalidAuth \<and>
     decryptItem stdX (Some enc) (Some demoKey) ''memo'' = Inl (Err ''invalid associated data'')"
proof -
  note l = libs_okD[OF std_libs]
  have ok: "itemOk demoItem" by (simp add: itemOk_def demoItem_def)
  have new: "vDraws demoNew = 0" "iID demoItem = ''note''" by (simp_all add: demoNew_def vaultNew_def demoItem_def)
  have k: "length (replicate 32 (CHR ''x'')) = 32" "replicate 32 (CHR ''x'') \<noteq> demoKey" by (simp_all add: demoKey_def)
  obtain enc where enc: "encryptItem stdX demoItem (Some demoKey) demoNew = (Inr (Some enc), demoNew\<lparr>vDraws := Suc (vDraws demoNew)\<rparr>)"
      "\<exists>i'. decryptItem stdX (Some enc) (Some demoKey) (iID demoItem) = Inr i' \<and> sameItem i' demoItem"
      "\<forall>k' ad. length k' = 32 \<longrightarrow> k' \<noteq> demoKey \<longrightarrow> decryptItem stdX (Some enc) (Some k') ad = Inl ErrInvalidAuth"
      "\<forall>ad. ad \<noteq> [] \<longrightarrow> ad \<noteq> iID demoItem \<longrightarrow> decryptItem stdX (Some enc) (Some demoKey) ad = Inl (Err ''invalid associated data'')"
    using item_sealed[OF l(2-5) ok demoKey_length, of demoNew] by blast
  have "decryptItem stdX (Some enc) (Some (replicate 32 (CHR ''x''))) ''note'' = Inl ErrInvalidAuth" using enc(3) k by blast
  moreover have "decryptItem stdX (Some enc) (Some demoKey) ''memo'' = Inl (Err ''invalid associated data'')"
    using enc(4) new(2) by simp
  ultimately show ?thesis using enc(1,2) new by auto
qed

text \<open>C16. A locked vault gives nothing away and takes nothing in: \<^verbatim>\<open>Set\<close> fails with \<^verbatim>\<open>ErrLocked\<close> and
  changes nothing, and \<^verbatim>\<open>Get\<close>, \<^verbatim>\<open>Delete\<close> and \<^verbatim>\<open>Items\<close> never return an item, whatever the store
  holds.\<close>

theorem locked_vault:
  fixes v :: "('s, 'n) vault"
  assumes locked: "vMk v = None"
  shows "vaultSet X I item v = (Inl ErrLocked, v) \<and>
    (\<nexists>it v'. vaultGet X I i v = (Inr (Some it), v')) \<and> (\<nexists>v'. vaultDelete X I i v = (Inr True, v')) \<and>
    (\<forall>its v'. vaultItems X I v = (Inr its, v') \<longrightarrow> its = [])"
proof -
  have dec: "decryptItem X b None ad = Inl ErrLocked" for b ad by (simp add: decryptItem_def)
  have get: "\<nexists>it v'. vaultGet X I i v = (Inr (Some it), v')"
    using locked by (auto simp: vaultGet_def op_iff dec onStore_def split: if_splits)
  have del: "\<nexists>v'. vaultDelete X I i v = (Inr True, v')"
    using get by (auto simp: vaultDelete_def op_iff split: option.splits)
  have col: "its = []" if "collect ds (\<lambda>doc. bnd (lift (decryptItem X (eData doc) None (xPathLast X (ePath doc)))) (f doc)) u = (Inr its, u')"
    for ds its u u' and f :: "entry \<Rightarrow> item \<Rightarrow> (('s, 'n) vault, item option) op"
    using that by (cases ds) (auto simp: op_iff dec)
  have its: "its = []" if run: "vaultItems X I v = (Inr its, v')" for its v'
    using run locked by (auto simp: vaultItems_def op_iff onStore_def dest!: col)
  show ?thesis using get del its locked by (auto simp: vaultSet_def setItem_def encryptItem_def op_simps)
qed

lemma locked_vault_witness: "vaultSet stdX memOps demoItem demoNew = (Inl ErrLocked, demoNew)"
proof -
  have "vMk demoNew = None" by (simp add: demoNew_def vaultNew_def)
  from locked_vault[OF this] show ?thesis by blast
qed

section \<open>Properties of copies and histories\<close>

text \<open>C29. Copying a store to another: the source is unchanged, the paths the target did not have are
  returned in order, and (unless it is a dry run) the target then holds its own entries and, at
  the other paths, the source's.\<close>

theorem copy_contents:
  assumes "store I c r" "store J d q" "r s" "q t" "c s [] = None"
    and "\<And>p. c s p \<noteq> None \<Longrightarrow> d t p = None \<or> (coSkipExisting opts \<and> d t p \<noteq> Some [])"
  shows "\<exists>t'. Copy I J opts (s, t) = (Inr (filter (\<lambda>p. d t p = None) (keysWith [] (c s))), (s, t')) \<and> q t' \<and>
    d t' = (if coDryRun opts then d t else c s ++ d t)"
  by (rule Copy_ok[OF assms])

definition copySrc :: mem where
  "copySrc = \<lparr>mOpen = True, mEntries = [(''/a'', Some ''1''), (''/b'', Some ''2'')]\<rparr>"

definition copyDst :: "kvdisk DB" where
  "copyDst = \<lparr>dbOpen = True, dbPath = ''db'', dbDisk = [(''/b'', ''old'')]\<rparr>"

definition skipOpts :: copyOpts where
  "skipOpts = \<lparr>coSkipExisting = True, coDryRun = False\<rparr>"

lemma copy_demo:
  "memReady copySrc" "ldbReady (\<lambda>_. True) copyDst" "memContents copySrc = [''/a'' \<mapsto> ''1'', ''/b'' \<mapsto> ''2'']"
  "ldbContents map_of copyDst = [''/b'' \<mapsto> ''old'']"
  by (auto simp: copySrc_def copyDst_def memReady_def ldbReady_def memContents_def ldbContents_def fun_eq_iff)

lemma copy_demo_keys: "keysWith [] [''/a'' \<mapsto> ''1'', ''/b'' \<mapsto> ''2''] = [''/a'', ''/b'']"
proof -
  have "{p \<in> dom [''/a'' \<mapsto> ''1'', ''/b'' \<mapsto> ''2'']. prefix [] p} = set [''/a'', ''/b'']" by auto
  then show ?thesis unfolding keysWith_def by (simp only: sorted_list_of_set_sort_remdups) simp
qed

lemma copy_contents_witness:
  "\<exists>t'. Copy memOps (ldbOps stdLDB) skipOpts (copySrc, copyDst) = (Inr [''/a''], (copySrc, t')) \<and>
     ldbContents map_of t' = [''/a'' \<mapsto> ''1'', ''/b'' \<mapsto> ''old'']"
proof -
  have root: "memContents copySrc [] = None" unfolding copy_demo by simp
  have ok: "ldbContents map_of copyDst p = None \<or> (coSkipExisting skipOpts \<and> ldbContents map_of copyDst p \<noteq> Some [])" for p
    unfolding copy_demo skipOpts_def by simp
  have "\<exists>t'. Copy memOps (ldbOps stdLDB) skipOpts (copySrc, copyDst) =
      (Inr (filter (\<lambda>p. ldbContents map_of copyDst p = None) (keysWith [] (memContents copySrc))), (copySrc, t')) \<and>
      ldbReady (\<lambda>_. True) t' \<and>
      ldbContents map_of t' = (if coDryRun skipOpts then ldbContents map_of copyDst else memContents copySrc ++ ldbContents map_of copyDst)"
    by (rule copy_contents[OF memStore.store_axioms ldbStore.store_axioms copy_demo(1,2) root]) (rule ok)
  then obtain t' where "Copy memOps (ldbOps stdLDB) skipOpts (copySrc, copyDst) =
      (Inr (filter (\<lambda>p. ldbContents map_of copyDst p = None) (keysWith [] (memContents copySrc))), (copySrc, t'))"
      "ldbContents map_of t' = memContents copySrc ++ ldbContents map_of copyDst"
    by (auto simp: skipOpts_def)
  then show ?thesis unfolding copy_demo copy_demo_keys by (intro exI[of _ t']) auto
qed

text \<open>\<^verbatim>\<open>ItemHistory\<close> picks the log entries of an item by a string prefix of their path, so the
  history of an item takes in every item whose id starts with its id.\<close>

theorem history_prefix:
  assumes "dstore_ok X" "plain i" "plain j" "0 \<le> n" "n \<le> maxIndex"
  shows "historyPaths X i [\<lparr>ePath = logPath ''pull'' n [''item'', j], eData = b\<rparr>] =
    (if prefix i j then [logPath ''pull'' n [''item'', j]] else [])"
proof -
  have n: "plain (zeroPad 15 n)" using zeroPad_plain assms(4,5) by blast
  have "xPathFrom X (logPath ''pull'' n [''item'', j]) 2 = canon [''item'', j]"
    using xPathFrom_canon[OF assms(1), of "[''pull'', zeroPad 15 n, ''item'', j]" 2] n assms(3)
    by (simp add: logPath_def numeral_2_eq_2)
  moreover have "xPath X [''item'', i] = canon [''item'', i]" using xPath_two[OF assms(1)] assms(2) by simp
  ultimately show ?thesis by (simp add: historyPaths_def)
qed

lemma history_prefix_witness:
  "historyPaths stdX ''note'' [\<lparr>ePath = logPath ''pull'' 1 [''item'', ''notebook''], eData = None\<rparr>] =
     [logPath ''pull'' 1 [''item'', ''notebook'']]"
proof -
  have p: "plain ''note''" "plain ''notebook''" by (simp_all add: plain_def)
  show ?thesis using history_prefix[OF std_dstore p, of 1 None] by simp
qed

section \<open>Properties of keys and secrets\<close>

text \<open>A key saved in an unlocked vault is what \<^verbatim>\<open>Get\<close> returns for its id.\<close>

theorem key_saved:
  fixes v :: "('s, 'n) vault"
  assumes "store I contents ready" "libs_ok X" "vaultRep X contents ready n base v A" "n < maxIndex" "aOpen A"
    and "keys_ok K" "plain (kyID K k)" "\<forall>b. kyM K k = Inr b \<longrightarrow> length b \<le> 32 * 1024"
  shows "\<exists>v'. keySave X I K (Some k) v = (Inr (), v') \<and> keyGet X I K (kyID K k) v' = (Inr (Some k), v')"
proof -
  have ne: "kyID K k \<noteq> []" using assms(7) by (simp add: plain_def)
  obtain b where b: "newItemForKey X K k = Inr (NewItem (kyID K k) (Some b) keyItemType (xParseMillis X (kyCreatedAt K k)))"
      "b \<noteq> []" "kyM K k = Inr b" "kyU K b = Inr k"
    using newItemForKey_ok[OF assms(6) ne] by blast
  let ?it = "NewItem (kyID K k) (Some b) keyItemType (xParseMillis X (kyCreatedAt K k))"
  have it: "itemOk ?it" "plain (iID ?it)" "bstr (iData ?it) \<noteq> []"
    using ne b(2,3) assms(7,8) by (simp_all add: itemOk_def NewItem_def)
  obtain v' where v': "vaultSet X I ?it v = (Inr (), v')" "vaultGet X I (kyID K k) v' = (Inr (Some ?it), v')"
    using store.set_then_get[OF assms(1-5) it] by (auto simp: NewItem_def)
  have "keyForItem K ?it = Inr (Some k)" using b(4) by (intro keyForItem_same[of K b]) (simp_all add: NewItem_def)
  with v' b(1) ne show ?thesis by (simp add: keySave_def keyGet_def op_simps)
qed

text \<open>A key library: a key is its id, encoded with a tag.\<close>

definition demoKeys :: "string keyLib" where
  "demoKeys = \<lparr>kyID = (\<lambda>k. k), kyCreatedAt = (\<lambda>_. 1), kyM = (\<lambda>k. Inr (CHR ''k'' # k)), kyU = (\<lambda>b. Inr (tl b)),
     kyDecode = (\<lambda>m _. Inr m), kyEncode = (\<lambda>k _. Inr (case k of None \<Rightarrow> [] | Some x \<Rightarrow> x)),
     kyFromPublic = (\<lambda>b. b), kyFromPrivate = (\<lambda>b. b), kyEd = Some, kyX = (\<lambda>_. None), kyEdPublic = (\<lambda>_. None),
     kyToX = (\<lambda>b. b), kyIsX = (\<lambda>_. False), kyXPublic = Inr\<rparr>"

lemma key_saved_witness:
  "\<exists>v'. keySave stdX memOps demoKeys (Some ''kex1'') demoOpen = (Inr (), v') \<and>
     keyGet stdX memOps demoKeys ''kex1'' v' = (Inr (Some ''kex1''), v')"
proof -
  obtain n where n: "n \<le> 2" "vaultRep stdX memContents memReady n [] demoOpen demoAbs2" using demo_open by blast
  have nn: "n < maxIndex" using n(1) by simp
  have K: "keys_ok demoKeys" "plain (kyID demoKeys ''kex1'')" "\<forall>b. kyM demoKeys ''kex1'' = Inr b \<longrightarrow> length b \<le> 32 * 1024"
    by (simp_all add: keys_ok_def demoKeys_def plain_def)
  show ?thesis
    using key_saved[OF memStore.store_axioms std_libs n(2) nn demoAbs2_open(1) K] by (simp add: demoKeys_def)
qed

text \<open>C26. A secret saved under an id the vault does not have is returned by \<^verbatim>\<open>Get\<close>, with both times
  set to the time of the call, and reported as new.\<close>

theorem secret_saved:
  fixes v :: "('s, 'n) vault"
  assumes "store I contents ready" "libs_ok X" "vaultRep X contents ready n base v A" "n < maxIndex" "aOpen A"
    and "secrets_ok L" "plain (scID s)" "vaultGet X I (scID s) v = (Inr None, v)"
    and "t = xClock X (vTicks v)" "length (scM L (s\<lparr>scCreatedAt := t, scUpdatedAt := t\<rparr>)) \<le> 32 * 1024"
  shows "\<exists>v'. secretSave X I L (Some s) v = (Inr (s\<lparr>scCreatedAt := t, scUpdatedAt := t\<rparr>, False), v') \<and>
    secretGet X I L (scID s) v' = (Inr (Some (s\<lparr>scCreatedAt := t, scUpdatedAt := t\<rparr>)), v')"
proof -
  let ?v = "v\<lparr>vTicks := Suc (vTicks v)\<rparr>"
  let ?s = "s\<lparr>scCreatedAt := t, scUpdatedAt := t\<rparr>"
  let ?it = "NewItem (scID s) (Some (scM L ?s)) secretItemType t"
  have ne: "scID s \<noteq> []" using assms(7) by (simp add: plain_def)
  have L: "scU L (scM L ?s) = Inr ?s" "scM L ?s \<noteq> []" using assms(6) by (simp_all add: secrets_ok_def)
  have rep: "vaultRep X contents ready n base ?v A" using assms(3) by (simp add: vaultRep_def)
  have it: "itemOk ?it" "plain (iID ?it)" "bstr (iData ?it) \<noteq> []"
    using ne L(2) assms(7,10) by (simp_all add: itemOk_def NewItem_def)
  obtain v' where v': "vaultSet X I ?it ?v = (Inr (), v')" "vaultGet X I (scID s) v' = (Inr (Some ?it), v')"
    using store.set_then_get[OF assms(1,2) rep assms(4,5) it] by (auto simp: NewItem_def)
  have "asSecret L ?it = Inr ?s" using L(1) by (simp add: asSecret_def NewItem_def)
  with v' ne assms(8) show ?thesis
    using assms(9) by (intro exI[of _ v']) (simp add: secretSave_def secretGet_def op_simps Let_def newItemForSecret_def)
qed

text \<open>The encoding of a secret by its fields.\<close>

definition demoSecretM :: "secret \<Rightarrow> string" where
  "demoSecretM s = encStr (scID s) @ encStr (scType s) @ encStr (scName s) @ encStr (scUsername s) @ encStr (scPassword s) @
     encStr (scURL s) @ encStr (scNotes s) @ encInt (scCreatedAt s) @ encInt (scUpdatedAt s)"

definition demoSecretU :: "string \<Rightarrow> err + secret" where
  "demoSecretU b = (case decN decStr 7 b of None \<Rightarrow> stdErr
     | Some (fs, r) \<Rightarrow> (case decN decInt 2 r of None \<Rightarrow> stdErr
       | Some (ts, _) \<Rightarrow> Inr \<lparr>scID = fs ! 0, scType = fs ! 1, scName = fs ! 2, scUsername = fs ! 3, scPassword = fs ! 4,
           scURL = fs ! 5, scNotes = fs ! 6, scCreatedAt = ts ! 0, scUpdatedAt = ts ! 1\<rparr>))"

definition demoSecrets :: secretLib where
  "demoSecrets = \<lparr>scM = demoSecretM, scU = demoSecretU\<rparr>"

lemma demo_secrets: "secrets_ok demoSecrets"
  using decInt_encInt[of _ "[]"]
  by (simp add: secrets_ok_def demoSecrets_def demoSecretM_def demoSecretU_def eval_nat_numeral encStr_def
      flip: encStr_def)

definition demoSecret :: secret where
  "demoSecret = \<lparr>scID = ''s1'', scType = ''password'', scName = ''mail'', scUsername = ''me'', scPassword = ''pw'', scURL = [],
     scNotes = [], scCreatedAt = 0, scUpdatedAt = 0\<rparr>"

lemma demo_no_items:
  assumes "vaultRep stdX memContents memReady n [] v demoAbs2" "plain i"
  shows "vaultGet stdX memOps i v = (Inr None, v)"
proof -
  obtain r where r: "vaultGet stdX memOps i v = (r, v)" "absGet i demoAbs2 = (r, demoAbs2)"
    using memStore.refine_Get_run[OF std_libs assms(1)] assms(2) by blast
  from r(2) assms(2) have "r = Inr None" by (auto simp: absGet_def op_simps lookupLive_def demoAbs2_open plain_def)
  with r(1) show ?thesis by simp
qed

definition demoOpen0 :: "(mem, unit) vault" where
  "demoOpen0 = demoOpen\<lparr>vTicks := 0\<rparr>"

lemma demo_open0: "\<exists>n. n < maxIndex \<and> vaultRep stdX memContents memReady n [] demoOpen0 demoAbs2"
proof -
  obtain n where "n \<le> 2" "vaultRep stdX memContents memReady n [] demoOpen demoAbs2" using demo_open by blast
  then have "n < maxIndex" "vaultRep stdX memContents memReady n [] demoOpen0 demoAbs2"
    by (simp_all add: vaultRep_def demoOpen0_def)
  then show ?thesis by blast
qed

lemma secret_saved_witness:
  "\<exists>v'. secretSave stdX memOps demoSecrets (Some demoSecret) demoOpen0 = (Inr (demoSecret, False), v') \<and>
     secretGet stdX memOps demoSecrets ''s1'' v' = (Inr (Some demoSecret), v')"
proof -
  obtain n where n: "n < maxIndex" "vaultRep stdX memContents memReady n [] demoOpen0 demoAbs2" using demo_open0 by blast
  have p: "plain (scID demoSecret)" by (simp add: demoSecret_def plain_def)
  have t: "0 = xClock stdX (vTicks demoOpen0)" by (simp add: demoOpen0_def stdX_def)
  have same: "demoSecret\<lparr>scCreatedAt := 0, scUpdatedAt := 0\<rparr> = demoSecret" by (simp add: demoSecret_def)
  have len: "length (scM demoSecrets (demoSecret\<lparr>scCreatedAt := 0, scUpdatedAt := 0\<rparr>)) \<le> 32 * 1024"
    by (simp add: demoSecrets_def demoSecretM_def demoSecret_def encStr_def encInt_def natStr_small)
  show ?thesis
    using secret_saved[OF memStore.store_axioms std_libs n(2,1) demoAbs2_open(1) demo_secrets p demo_no_items[OF n(2) p] t len]
    unfolding same by (simp add: demoSecret_def)
qed

text \<open>C28. \<^verbatim>\<open>Save\<close> keeps the type of the item it finds under the secret's id: over an item of another
  type it reports an update, and the secret cannot be read back.\<close>

theorem secret_over_item:
  fixes v :: "('s, 'n) vault"
  assumes "store I contents ready" "libs_ok X" "vaultRep X contents ready n base v A" "n < maxIndex" "aOpen A"
    and "secrets_ok L" "plain (scID s)" "vaultGet X I (scID s) v = (Inr (Some it), v)" "iType it \<noteq> secretItemType"
    and "t = xClock X (vTicks v)" "length (scM L (s\<lparr>scUpdatedAt := t\<rparr>)) \<le> 32 * 1024"
  shows "\<exists>v'. secretSave X I L (Some s) v = (Inr (s\<lparr>scUpdatedAt := t\<rparr>, True), v') \<and>
    secretGet X I L (scID s) v' = (Inl (Err (''item type '' @ iType it @ '' != '' @ secretItemType)), v')"
proof -
  let ?v = "v\<lparr>vTicks := Suc (vTicks v)\<rparr>" and ?it = "it\<lparr>iData := Some (scM L (s\<lparr>scUpdatedAt := t\<rparr>))\<rparr>"
  have ne: "scID s \<noteq> []" using assms(7) by (simp add: plain_def)
  have id: "iID it = scID s" using assms(8) by (auto simp: vaultGet_def op_iff split: if_splits)
  have it: "itemOk ?it" "plain (iID ?it)" "bstr (iData ?it) \<noteq> []"
    using ne id assms(6,7,11) by (simp_all add: itemOk_def secrets_ok_def)
  have rep: "vaultRep X contents ready n base ?v A" using assms(3) by (simp add: vaultRep_def)
  obtain v' where v': "vaultSet X I ?it ?v = (Inr (), v')" "vaultGet X I (scID s) v' = (Inr (Some ?it), v')"
    using store.set_then_get[OF assms(1,2) rep assms(4,5) it] id by auto
  have "asSecret L ?it = Inl (Err (''item type '' @ iType it @ '' != '' @ secretItemType))"
    using assms(9) by (simp add: asSecret_def)
  with v' ne assms(8,10) show ?thesis
    by (intro exI[of _ v']) (simp add: secretSave_def secretGet_def op_simps Let_def)
qed

text \<open>A vault with an item of another type under the id of the demonstration secret.\<close>

definition otherItem :: item where
  "otherItem = \<lparr>iID = ''s1'', iData = Some ''x'', iType = ''t'', iTime = 7\<rparr>"

definition demoOther :: "(mem, unit) vault" where
  "demoOther = (snd (vaultSet stdX memOps otherItem demoOpen))\<lparr>vTicks := 0\<rparr>"

lemma demo_other:
  "\<exists>n. n < maxIndex \<and> vaultRep stdX memContents memReady n [] demoOther (demoAbs2\<lparr>aItems := [''s1'' \<mapsto> otherItem]\<rparr>)"
proof -
  obtain n where n: "n \<le> 2" "vaultRep stdX memContents memReady n [] demoOpen demoAbs2" using demo_open by blast
  have it: "itemOk otherItem" "plain (iID otherItem)" "n < maxIndex" using n(1) by (simp_all add: itemOk_def otherItem_def plain_def)
  obtain v' where v': "setItem stdX memOps otherItem True demoOpen = (Inr (), v')"
      "vaultRep stdX memContents memReady (n + 1) [] v' (demoAbs2\<lparr>aItems := (aItems demoAbs2)(iID otherItem \<mapsto> otherItem)\<rparr>)"
    using memStore.setItem_sim[OF std_libs n(2) it(3) demoAbs2_open(1) it(1,2)] by blast
  then have "vaultRep stdX memContents memReady (n + 1) [] demoOther (demoAbs2\<lparr>aItems := [''s1'' \<mapsto> otherItem]\<rparr>)"
    by (simp add: demoOther_def vaultSet_def vaultRep_def demoAbs2_open otherItem_def)
  moreover have "n + 1 < maxIndex" using n(1) by simp
  ultimately show ?thesis by blast
qed

lemma secret_over_item_witness:
  "\<exists>v'. secretSave stdX memOps demoSecrets (Some demoSecret) demoOther = (Inr (demoSecret, True), v') \<and>
     secretGet stdX memOps demoSecrets ''s1'' v' = (Inl (Err ''item type t != secret''), v')"
proof -
  let ?A = "demoAbs2\<lparr>aItems := [''s1'' \<mapsto> otherItem]\<rparr>"
  obtain n where n: "n < maxIndex" "vaultRep stdX memContents memReady n [] demoOther ?A" using demo_other by blast
  have p: "plain (scID demoSecret)" by (simp add: demoSecret_def plain_def)
  obtain r where r: "vaultGet stdX memOps (scID demoSecret) demoOther = (r, demoOther)" "absGet (scID demoSecret) ?A = (r, ?A)"
    using memStore.refine_Get_run[OF std_libs n(2)] p by blast
  have get: "vaultGet stdX memOps (scID demoSecret) demoOther = (Inr (Some otherItem), demoOther)"
    using r by (auto simp: absGet_def op_simps lookupLive_def live_def demoAbs2_open demoSecret_def otherItem_def)
  have o': "aOpen ?A" by (simp add: demoAbs2_open)
  have ty': "iType otherItem \<noteq> secretItemType" by (simp add: otherItem_def secretItemType_def)
  have t: "0 = xClock stdX (vTicks demoOther)" by (simp add: demoOther_def stdX_def)
  have same: "demoSecret\<lparr>scUpdatedAt := 0\<rparr> = demoSecret" by (simp add: demoSecret_def)
  have len: "length (scM demoSecrets (demoSecret\<lparr>scUpdatedAt := 0\<rparr>)) \<le> 32 * 1024"
    by (simp add: demoSecrets_def demoSecretM_def demoSecret_def encStr_def encInt_def natStr_small)
  show ?thesis
    using secret_over_item[OF memStore.store_axioms std_libs n(2,1) o' demo_secrets p get ty' t len]
    unfolding same by (simp add: demoSecret_def otherItem_def secretItemType_def)
qed

text \<open>The secrets a listing is about.\<close>

definition foundSecrets :: "secretLib \<Rightarrow> string \<Rightarrow> item list \<Rightarrow> secret list" where
  "foundSecrets L q items = List.map_filter (\<lambda>item.
     if iType item \<noteq> secretItemType then None
     else (case asSecret L item of Inl e \<Rightarrow> None | Inr s \<Rightarrow> if matchesQuery q s then Some s else None)) items"

lemma collect_secrets:
  "collect items (\<lambda>item. if iType item \<noteq> secretItemType then ret None
      else bnd (lift (asSecret L item)) (\<lambda>s. ret (if matchesQuery q s then Some s else None))) v = (Inr out, v') \<Longrightarrow>
   out = foundSecrets L q items"
  by (induction items arbitrary: out v)
    (auto simp: op_iff foundSecrets_def map_filter_simps split: if_splits option.splits)

lemma secretList_runs:
  assumes "secretList X I L opts v = (Inr out, v')"
  shows "\<exists>items u. vaultItems X I v = (Inr items, u) \<and>
    out = sortSlice (secretsSort (if opSort opts = [] then ''name'' else opSort opts) (if opDirection opts = [] then ''asc'' else opDirection opts))
      (foundSecrets L (trimSpace (opQuery opts)) items)"
  using assms by (auto simp: secretList_def op_iff Let_def dest!: collect_secrets)

text \<open>C27. \<^verbatim>\<open>List\<close> returns the secrets of the vault that match the query, each as often as it is in the
  vault, sorted by the sort field and the id, ascending or descending.\<close>

theorem secrets_listed:
  assumes "vaultItems X I v = (Inr items, u)" "secretList X I L opts v = (Inr out, v')"
  defines "field \<equiv> (if opSort opts = [] then ''name'' else opSort opts)"
  shows "mset out = mset (foundSecrets L (trimSpace (opQuery opts)) items) \<and>
    (if opDirection opts = ''desc'' then sorted_wrt (\<lambda>a b. sortOn field b \<le> sortOn field a) out
     else sorted_wrt (\<lambda>a b. sortOn field a \<le> sortOn field b) out)"
proof -
  define dir where "dir = (if opDirection opts = [] then ''asc'' else opDirection opts)"
  have out: "out = sortSlice (secretsSort field dir) (foundSecrets L (trimSpace (opQuery opts)) items)"
    using secretList_runs[OF assms(2)] assms(1) by (auto simp: field_def dir_def)
  show ?thesis
  proof (cases "opDirection opts = ''desc''")
    case True
    then have "dir = ''desc''" by (simp add: dir_def)
    then show ?thesis unfolding out using True sortSlice_desc[of "secretsSort field ''desc''" "sortOn field"] secretsSort_desc by auto
  next
    case False
    then have d: "dir \<noteq> ''desc''" by (simp add: dir_def)
    have "sortSlice (secretsSort field dir) xs = sort_key (sortOn field) xs" for xs
      using d by (intro sortSlice_key) (rule secretsSort_asc)
    then have srt: "out = sort_key (sortOn field) (foundSecrets L (trimSpace (opQuery opts)) items)" unfolding out .
    have "sorted (map (sortOn field) out)" unfolding srt by (rule sorted_sort_key)
    with False srt show ?thesis by (simp add: sorted_map)
  qed
qed

text \<open>Two secrets kept in the vault.\<close>

definition secretItem :: "secret \<Rightarrow> item" where
  "secretItem s = NewItem (scID s) (Some (demoSecretM s)) secretItemType 0"

definition demoSecret2 :: secret where
  "demoSecret2 = demoSecret\<lparr>scID := ''s2'', scName := ''bank''\<rparr>"

definition demoTwo :: "(mem, unit) vault" where
  "demoTwo = snd (vaultSet stdX memOps (secretItem demoSecret2) (snd (vaultSet stdX memOps (secretItem demoSecret) demoOpen)))"

lemma secretItem_ok:
  "itemOk (secretItem demoSecret)" "plain (iID (secretItem demoSecret))" "itemOk (secretItem demoSecret2)" "plain (iID (secretItem demoSecret2))"
  by (simp_all add: itemOk_def secretItem_def NewItem_def demoSecret_def demoSecret2_def demoSecretM_def encStr_def encInt_def
      natStr_small plain_def)

lemma demo_two: "\<exists>u. vaultItems stdX memOps demoTwo = (Inr [secretItem demoSecret, secretItem demoSecret2], u)"
proof -
  obtain n where n: "n \<le> 2" "vaultRep stdX memContents memReady n [] demoOpen demoAbs2" using demo_open by blast
  have b: "n < maxIndex" "n + 1 < maxIndex" using n(1) by simp_all
  obtain v1 where v1: "setItem stdX memOps (secretItem demoSecret) True demoOpen = (Inr (), v1)"
      "vaultRep stdX memContents memReady (n + 1) [] v1 (demoAbs2\<lparr>aItems := [''s1'' \<mapsto> secretItem demoSecret]\<rparr>)"
    using memStore.setItem_sim[OF std_libs n(2) b(1) demoAbs2_open(1) secretItem_ok(1,2)]
    by (auto simp: demoAbs2_open secretItem_def NewItem_def demoSecret_def)
  let ?A = "demoAbs2\<lparr>aItems := [''s1'' \<mapsto> secretItem demoSecret, ''s2'' \<mapsto> secretItem demoSecret2]\<rparr>"
  have o': "aOpen (demoAbs2\<lparr>aItems := [''s1'' \<mapsto> secretItem demoSecret]\<rparr>)" by (simp add: demoAbs2_open)
  obtain v2 where v2: "setItem stdX memOps (secretItem demoSecret2) True v1 = (Inr (), v2)"
      "vaultRep stdX memContents memReady (n + 1 + 1) [] v2 ?A"
    using memStore.setItem_sim[OF std_libs v1(2) b(2) o' secretItem_ok(3,4)]
    by (auto simp: secretItem_def NewItem_def demoSecret2_def)
  obtain r u A' where r: "vaultItems stdX memOps v2 = (r, u)" "absItems ?A = (r, A')"
    using memStore.refine_Items[OF std_libs v2(2)] unfolding sim_def by blast
  have "rowIds [''s1'' \<mapsto> secretItem demoSecret, ''s2'' \<mapsto> secretItem demoSecret2] = [''s1'', ''s2'']"
    by (simp add: rowIds_def)
  then have "r = Inr [secretItem demoSecret, secretItem demoSecret2]"
    using r(2) by (auto simp: absItems_def op_simps demoAbs2_open map_filter_simps lookupLive_def live_def secretItem_def
        NewItem_def demoSecretM_def encStr_def)
  moreover have "demoTwo = v2" using v1(1) v2(1) by (simp add: demoTwo_def vaultSet_def)
  ultimately show ?thesis using r(1) by blast
qed

definition byName :: listOptions where
  "byName = \<lparr>opQuery = '' '', opSort = [], opDirection = []\<rparr>"

lemma demo_found: "foundSecrets demoSecrets (trimSpace (opQuery byName)) [secretItem demoSecret, secretItem demoSecret2] = [demoSecret, demoSecret2]"
proof -
  have "asSecret demoSecrets (secretItem s) = Inr s" for s
    using demo_secrets by (simp add: asSecret_def secretItem_def NewItem_def demoSecrets_def secrets_ok_def)
  then show ?thesis
    by (simp add: foundSecrets_def map_filter_simps secretItem_def NewItem_def byName_def trimSpace_def isSpace_def matchesQuery_def)
qed

lemma demo_asSecret: "asSecret demoSecrets (secretItem s) = Inr s"
  using demo_secrets by (simp add: asSecret_def secretItem_def NewItem_def demoSecrets_def secrets_ok_def)

lemma demo_list: "\<exists>out v'. secretList stdX memOps demoSecrets byName demoTwo = (Inr out, v')"
proof -
  obtain u where u: "vaultItems stdX memOps demoTwo = (Inr [secretItem demoSecret, secretItem demoSecret2], u)" using demo_two by blast
  have ty': "iType (secretItem s) = secretItemType" for s by (simp add: secretItem_def NewItem_def)
  show ?thesis
    using u by (simp add: secretList_def op_simps Let_def demo_asSecret ty' byName_def)
qed

lemma secrets_listed_witness:
  "\<exists>out v'. secretList stdX memOps demoSecrets byName demoTwo = (Inr out, v') \<and> mset out = {#demoSecret, demoSecret2#} \<and>
     sorted_wrt (\<lambda>a b. sortOn ''name'' a \<le> sortOn ''name'' b) out"
proof -
  obtain u where u: "vaultItems stdX memOps demoTwo = (Inr [secretItem demoSecret, secretItem demoSecret2], u)" using demo_two by blast
  obtain out v' where out: "secretList stdX memOps demoSecrets byName demoTwo = (Inr out, v')" using demo_list by blast
  from secrets_listed[OF u out] have "mset out = {#demoSecret, demoSecret2#}" "sorted_wrt (\<lambda>a b. sortOn ''name'' a \<le> sortOn ''name'' b) out"
    unfolding demo_found by (simp_all add: byName_def)
  with out show ?thesis by blast
qed

end
