(* ===== verification/ServerProps.thy ===== *)
theory ServerProps
  imports WebInstance ServerUsers FirestoreProofs
begin

text \<open>
  Properties of the server and its client: the network of both provides what synchronisation
  relies on, deleted vaults stay deleted, requests without authorization change nothing,
  messages are given out once, retries are bounded.
\<close>

section \<open>Responses\<close>

lemma ErrForbidden_status [simp]: "hsStatus (ErrForbidden W e) = 403"
  by (simp add: ErrForbidden_def newError_def ErrResponse_def errJSON_def Let_def)

lemma errNotFound_status [simp]: "hsStatus (errNotFound W e) = 404"
  by (simp add: errNotFound_def newError_def ErrResponse_def errJSON_def Let_def)

lemma ErrBadRequest_status [simp]: "hsStatus (ErrBadRequest W e) = 400"
  by (simp add: ErrBadRequest_def newError_def ErrResponse_def errJSON_def Let_def)

lemma ErrConflict_status [simp]: "hsStatus (ErrConflict W e) = 409"
  by (simp add: ErrConflict_def newError_def ErrResponse_def errJSON_def Let_def)

section \<open>The vault API over the network\<close>

text \<open>C4. The HTTP client and the server, connected by a network that delivers requests, provide the
  contract of a vault server that synchronisation relies on: what is posted is appended once and
  listed in order, page by page, under the key's id, and a deleted vault refuses both.\<close>

theorem http_vault_server:
  assumes "loopback V fevents fdocs fready used X W clk"
  shows "vault_server X (Request W (netClient X W V other clk)) (keyOk X) (networkUp W fevents fdocs fready used)
    (networkBlobs W fevents) (networkGone fdocs)"
  by (rule loopback.server_contract[OF assms])

lemma http_vault_server_witness:
  "vault_server stdX (Request stdW (netClient stdX stdW stdEnv noOther stdClock)) (keyOk stdX)
     (networkUp stdW (fsLog memCloud) (fsDoc mcMap) (fsInv memCloud mcMap mcUp) rtUsed) (networkBlobs stdW (fsLog memCloud))
     (networkGone (fsDoc mcMap))"
  by (rule http_vault_server[OF stdEnv_net])

text \<open>C22. A vault that is deleted stays deleted: after a successful \<^verbatim>\<open>DELETE\<close>, every later \<^verbatim>\<open>POST\<close> to it
  fails, every later listing of it gives nothing, and neither changes what the server holds.\<close>

theorem deleted_stays_deleted:
  fixes V :: "('f, 'r) env" and other :: "route \<Rightarrow> ('f, 'r) handler"
  assumes net: "loopback V fevents fdocs fready used X W clk" and n: "networkUp W fevents fdocs fready used n" "keyOk X k"
    and had: "\<not> networkGone fdocs (xKeyID X k) n" "networkBlobs W fevents (xKeyID X k) n \<noteq> []"
  defines "R \<equiv> Request W (netClient X W V other clk)"
  shows "\<exists>resp n'. R (vaultReq X ''DELETE'' k [] []) n = (Inr resp, n') \<and>
    (\<forall>body. \<exists>e n''. R (vaultReq X ''POST'' k [] body) n' = (Inl e, n'') \<and>
       (\<forall>q. networkBlobs W fevents q n'' = networkBlobs W fevents q n') \<and> networkGone fdocs (xKeyID X k) n'') \<and>
    (\<forall>j. \<exists>n''. R (vaultReq X ''GET'' k (idxParams j) []) n' = (Inr None, n'') \<and>
       (\<forall>q. networkBlobs W fevents q n'' = networkBlobs W fevents q n') \<and> networkGone fdocs (xKeyID X k) n'')"
proof -
  note server = loopback.server_contract[OF net, of other, folded R_def]
  obtain resp n' where n': "R (vaultReq X ''DELETE'' k [] []) n = (Inr resp, n')" "networkUp W fevents fdocs fready used n'"
      "networkGone fdocs (xKeyID X k) n'"
    using vault_server.remove_ok[OF server n had] by blast
  from n'(1) vault_server.gone_post[OF server n'(2) n(2) n'(3)] vault_server.gone_get[OF server n'(2) n(2) n'(3)] n'(3)
  show ?thesis by metis
qed

lemma deleted_stays_deleted_witness:
  "\<exists>n resp n'. Request stdW memNet.C (vaultReq stdX ''DELETE'' ''k1'' [] []) n = (Inr resp, n') \<and>
     (\<exists>e n''. Request stdW memNet.C (vaultReq stdX ''POST'' ''k1'' [] (xDatasM stdX [Some ''x''])) n' = (Inl e, n''))"
proof -
  have k: "keyOk stdX ''k1''" by (simp add: keyOk_def stdX_def unreserved_def)
  have sz: "int (length (memNet.netBlobs (xKeyID stdX ''k1'') net0) + length [Some ''x'']) \<le> maxIndex"
      "int64_ok (int (totalLen [Some ''x'']))" "[Some ''x''] \<noteq> []" "list_all (\<lambda>d. bstr d \<noteq> []) [Some ''x'']"
    by (simp_all add: net0_up totalLen_def int64_ok_def)
  obtain resp n where n: "memNet.netUp n" "\<forall>i. memNet.netBlobs i n = (if i = xKeyID stdX ''k1'' then memNet.netBlobs i net0 @ [Some ''x''] else memNet.netBlobs i net0)"
      "\<forall>i. memNet.netGone i n = memNet.netGone i net0"
    using memNet.server.post_ok[OF net0_up(1) k _ sz(3,4,1,2)] net0_up(3) by blast
  have had: "\<not> memNet.netGone (xKeyID stdX ''k1'') n" "memNet.netBlobs (xKeyID stdX ''k1'') n \<noteq> []"
    using n(2,3) net0_up(2,3) by simp_all
  show ?thesis using deleted_stays_deleted[OF stdEnv_net n(1) k had, of noOther] by blast
qed

section \<open>Authorization\<close>

text \<open>An instance of the third-party functions of the other handlers.\<close>

definition demoApi :: "(memcloud, rdsTest, string) api" where
  "demoApi = \<lparr>apAdmins = [''kadm''], apInternalAuth = ''token'', apTasks = noTasks,
     apAddress = (\<lambda>k r. Inr (k @ '':'' @ r)), apRandWords = natStr,
     apInviteM = (\<lambda>k r. encStr k @ r), apInviteU = (\<lambda>b. case decStr b of None \<Rightarrow> stdErr | Some x \<Rightarrow> Inr x),
     apCodeM = (\<lambda>c. c), apInviteRespM = (\<lambda>k r. encStr k @ r), apUsersM = (\<lambda>us. natStr (length us)), apUserM = (\<lambda>u. []),
     apSigchainM = (\<lambda>k md sc. encStr k @ natStr (length sc)),
     apConnFailure = ''conn'', apContentNotFound = ''not-found'',
     apUpdate = (\<lambda>k. ret None), apStatus = (\<lambda>st. ret []), apExpired = (\<lambda>d m. ret []), apKIDs = ret [],
     apSearch = (\<lambda>q n. ret []), apUser = (\<lambda>n. ret None), apFind = (\<lambda>k. ret None), apExisting = (\<lambda>k sc. ret []), apIndex = (\<lambda>k. ret ()),
     apStU = (\<lambda>b. Inr (Some b)), apStBytes = Inr, apStVerify = (\<lambda>st. None), apStKID = (\<lambda>st. ''k1''), apStSeq = (\<lambda>st. 1),
     apStData = Some, apStURL = (\<lambda>st. ''/k1/1''), apStM = (\<lambda>st. st), apWithSeq = (\<lambda>k n. k @ ''-'' @ formatInt n),
     apAdd = (\<lambda>k sc st. case st of None \<Rightarrow> stdErr | Some x \<Rightarrow> Inr (sc @ [x])), apVerify = (\<lambda>k sc st prev. None),
     apIncludes = (\<lambda>s x. s = x), apTimeHTTP = formatInt, apTimeMilli = formatInt\<rparr>"

text \<open>Every handler that asks for authorization.\<close>

definition authHandlers ::
  "'z ext_scheme \<Rightarrow> web \<Rightarrow> ('f, 'r) env \<Rightarrow> ('f, 'r, 'st) api \<Rightarrow> ('f, 'r) handler list" where
  "authHandlers X W V A =
     [listVault X W V, postVault X W V, deleteVault X W V, headVault X W V, putDisco W V A, getDisco W V A, deleteDisco W V A,
      postInviteCode W V A, getInviteCode W V A, putShare W V, getShare W V, check W V A, adminCheck W V A]"

lemma newHTTPAuthRequest_missing:
  assumes "headerGet (cxHeaders c) ''Authorization'' = []" "auHeader a = ''Authorization''"
  shows "\<exists>e. newHTTPAuthRequest W c a = Inl e \<and> \<not> isPanic e"
proof (cases "authKID W c a")
  case (Inl e)
  then have "\<not> isPanic e" by (auto simp: authKID_def split: if_splits sum.splits)
  with Inl show ?thesis by (simp add: newHTTPAuthRequest_def Let_def)
next
  case (Inr kid)
  with assms show ?thesis by (simp add: newHTTPAuthRequest_def Let_def)
qed

lemma srvAuth_missing:
  assumes "headerGet (cxHeaders c) ''Authorization'' = []" "auHeader a = ''Authorization''" "auNow a = 0"
  shows "\<exists>e. srvAuth W V c a s = (Inl e, s\<lparr>srvTicks := Suc (srvTicks s)\<rparr>) \<and> \<not> isPanic e"
proof -
  let ?u = "if auBaseURL a = [] then enURL V else auBaseURL a"
  obtain e where "newHTTPAuthRequest W c (a\<lparr>auNow := enClock V (srvTicks s), auBaseURL := ?u\<rparr>) = Inl e" "\<not> isPanic e"
    using newHTTPAuthRequest_missing[OF assms(1), of "a\<lparr>auNow := enClock V (srvTicks s), auBaseURL := ?u\<rparr>"] assms(2) by auto
  with assms(3) show ?thesis
    by (simp add: srvAuth_def isZeroTime_def Let_def op_simps bnd_run_Inr[OF srvNow_run] del: if_split split del: if_split)
qed

lemma newAuthRequest_simps [simp]:
  "auHeader (newAuthRequest h p b) = h" "auNow (newAuthRequest h p b) = 0"
  by (simp_all add: newAuthRequest_def)

text \<open>C23. A request without an \<^verbatim>\<open>Authorization\<close> header is refused with status 403 by every handler
  that asks for authorization, and changes nothing in the document store or the key-value
  store. (The body, where one is read first, is present and within its limit.)\<close>

theorem unauthorized_refused:
  assumes auth: "headerGet (cxHeaders c) ''Authorization'' = []" and body: "cxBody c = Some b" "length b \<le> 256"
    and h: "h \<in> set (authHandlers X W V A)"
  shows "\<exists>e. h c s = (Inr (ErrForbidden W e), s\<lparr>srvTicks := Suc (srvTicks s)\<rparr>) \<and> hsStatus (ErrForbidden W e) = 403"
proof -
  have step: "\<exists>e. step (srvAuth W V c (newAuthRequest ''Authorization'' p x)) (ErrForbidden W) k s =
      (Inr (ErrForbidden W e), s\<lparr>srvTicks := Suc (srvTicks s)\<rparr>)" for p x k
    using srvAuth_missing[OF auth, of "newAuthRequest ''Authorization'' p x" W V s] by (auto simp: op_simps)
  from h body show ?thesis
    unfolding authHandlers_def
    by (auto simp: listVault_def postVault_def deleteVault_def headVault_def vaultAuth_def putDisco_def getDisco_def deleteDisco_def
        postInviteCode_def getInviteCode_def putShare_def getShare_def check_def adminCheck_def intro: step)
qed

lemma unauthorized_refused_witness:
  "\<exists>e. deleteVault stdX stdW stdEnv \<lparr>cxMethod = ''DELETE'', cxURL = ''/vault/k1'', cxParams = [(''vid'', ''k1'')], cxHeaders = [], cxBody = Some []\<rparr>
     (ntServer net0) = (Inr (ErrForbidden stdW e), (ntServer net0)\<lparr>srvTicks := 1\<rparr>)"
proof -
  let ?c = "\<lparr>cxMethod = ''DELETE'', cxURL = ''/vault/k1'', cxParams = [(''vid'', ''k1'')], cxHeaders = [], cxBody = Some []\<rparr>"
  have c: "headerGet (cxHeaders ?c) ''Authorization'' = []" "cxBody ?c = Some []" "length ([] :: string) \<le> 256"
    by (simp_all add: headerGet_def)
  have h: "deleteVault stdX stdW stdEnv \<in> set (authHandlers stdX stdW stdEnv demoApi)" by (simp add: authHandlers_def)
  have t: "srvTicks (ntServer net0) = 0" by (simp add: net0_def)
  show ?thesis using unauthorized_refused[OF c h, of "ntServer net0"] unfolding t by auto
qed

text \<open>C25. The internal authorization of the task handler does not protect it: after a missing or wrong
  token has been answered with 403, the handler goes on and updates the user of the key, as
  it does for the right token.\<close>

theorem task_check_unprotected:
  assumes kid: "wParseID W (cxParam c ''kid'') = Inr kid" and update: "apUpdate A kid (srvFire s) = (Inr r, f)"
  shows "\<exists>resp. taskCheck W A c s = (Inr resp, s\<lparr>srvFire := f\<rparr>) \<and>
    hsStatus resp = (if apInternalAuth A = [] \<or> headerGet (cxHeaders c) ''Authorization'' \<noteq> apInternalAuth A then 403 else 200)"
proof -
  have run: "taskCheck W A c s = (Inr (writeAfter (checkInternalAuth W A c) okString), s\<lparr>srvFire := f\<rparr>)"
    using kid update by (simp add: taskCheck_def op_simps Let_def)
  show ?thesis unfolding run by (auto simp: checkInternalAuth_def writeAfter_def okString_def Blob_def Let_def)
qed

lemma task_check_unprotected_witness:
  "\<exists>resp s'. taskCheck stdW demoApi \<lparr>cxMethod = ''POST'', cxURL = ''/task/check/k1'', cxParams = [(''kid'', ''k1'')], cxHeaders = [], cxBody = None\<rparr>
     (ntServer net0) = (Inr resp, s') \<and> hsStatus resp = 403"
proof -
  let ?c = "\<lparr>cxMethod = ''POST'', cxURL = ''/task/check/k1'', cxParams = [(''kid'', ''k1'')], cxHeaders = [], cxBody = None\<rparr>"
  have kid: "wParseID stdW (cxParam ?c ''kid'') = Inr ''k1''" by (simp add: stdW_def cxParam_def queryGet_def)
  have up: "apUpdate demoApi ''k1'' (srvFire (ntServer net0)) = (Inr None, srvFire (ntServer net0))"
    by (simp add: demoApi_def op_simps)
  have bad: "headerGet (cxHeaders ?c) ''Authorization'' \<noteq> apInternalAuth demoApi" by (simp add: headerGet_def demoApi_def)
  show ?thesis using task_check_unprotected[OF kid up] bad by auto
qed

section \<open>Values that are given out once\<close>

lemma rtGet_value:
  "rtGet clk k r = (Inr v, r') \<Longrightarrow> v \<noteq> [] \<Longrightarrow> rtKV r' = rtKV r \<and> (\<exists>e. rtKV r k = Some e \<and> reValue e = v)"
  by (auto simp: rtGet_def rtEntry_def rtNow_def op_simps bnd_def gets_def ret_def split: option.splits if_splits)

lemma rtGet_absent: "rtKV r k = None \<Longrightarrow> rtGet clk k r = (Inr [], r)"
  by (simp add: rtGet_def rtEntry_def op_simps)

lemma rtGet_total: "\<exists>v r'. rtGet clk k r = (Inr v, r') \<and> rtKV r' = rtKV r"
  by (auto simp: rtGet_def rtEntry_def rtNow_def op_simps bnd_def gets_def ret_def split: option.splits)

lemma takeValue_once:
  assumes V: "enRedis V = NewRedisTest clk" and get: "takeValue W V key s = (Inr r, s')" "hsStatus r = 200"
  shows "(\<exists>e. rtKV (srvRedis s) key = Some e \<and> r = Blob 200 octetStream (reValue e)) \<and>
    rtKV (srvRedis s') = (rtKV (srvRedis s))(key := None) \<and> srvFire s' = srvFire s"
proof -
  obtain v t where v: "rtGet clk key (srvRedis s) = (Inr v, t)" "rtKV t = rtKV (srvRedis s)" using rtGet_total by blast
  have D: "rdGet (enRedis V) = rtGet clk" "rdDelete (enRedis V) = rtDelete" using V by (simp_all add: NewRedisTest_def)
  show ?thesis
  proof (cases "v = []")
    case True
    with get v D have "r = errNotFound W None" by (simp add: takeValue_def op_simps)
    with get(2) show ?thesis by simp
  next
    case False
    let ?t = "t\<lparr>rtKV := (rtKV t)(key := None)\<rparr>"
    have "takeValue W V key s = (Inr (Blob 200 octetStream v), s\<lparr>srvRedis := ?t\<rparr>)"
      using v(1) D False by (simp add: takeValue_def op_simps rtDelete_def)
    then have "r = Blob 200 octetStream v" "s' = s\<lparr>srvRedis := ?t\<rparr>" using get(1) by simp_all
    then show ?thesis using rtGet_value[OF v(1) False] v(2) by auto
  qed
qed

lemma takeValue_gone:
  "enRedis V = NewRedisTest clk \<Longrightarrow> rtKV (srvRedis s) key = None \<Longrightarrow> takeValue W V key s = (Inr (errNotFound W None), s)"
  by (simp add: takeValue_def op_simps NewRedisTest_def rtGet_absent)

lemma getShare_takes:
  assumes "getShare W V c s = (Inr r, s')" "hsStatus r = 200"
  obtains kid t where "srvAuth W V c (newAuthRequest ''Authorization'' ''kid'' None) s = (Inr kid, t)"
    "takeValue W V (''s-'' @ kid) t = (Inr r, s')"
proof -
  obtain q t where q: "srvAuth W V c (newAuthRequest ''Authorization'' ''kid'' None) s = (q, t)" by fastforce
  show thesis
  proof (cases q)
    case (Inl e)
    with q assms show thesis by (cases "isPanic e") (auto simp: getShare_def orElse_def ret_def)
  next
    case (Inr kid)
    with q assms that show thesis by (simp add: getShare_def op_simps)
  qed
qed

text \<open>C24. A shared secret is given out once: when \<^verbatim>\<open>getShare\<close> answers with 200, it is with the value
  stored for the authorized key, and afterwards that key and no other is gone from the store;
  every later request authorized for it, as long as nothing is stored there again, is answered
  with 404.\<close>

theorem given_out_once:
  assumes V: "enRedis V = NewRedisTest clk" and get: "getShare W V c s = (Inr r, s')" "hsStatus r = 200"
  shows "\<exists>kid t e. srvAuth W V c (newAuthRequest ''Authorization'' ''kid'' None) s = (Inr kid, t) \<and>
    rtKV (srvRedis t) (''s-'' @ kid) = Some e \<and> r = Blob 200 octetStream (reValue e) \<and>
    rtKV (srvRedis s') = (rtKV (srvRedis t))(''s-'' @ kid := None) \<and> srvFire s' = srvFire t \<and>
    (\<forall>d u u'. srvAuth W V d (newAuthRequest ''Authorization'' ''kid'' None) u = (Inr kid, u') \<and>
       rtKV (srvRedis u') (''s-'' @ kid) = None \<longrightarrow> getShare W V d u = (Inr (errNotFound W None), u'))"
proof -
  obtain kid t where t: "srvAuth W V c (newAuthRequest ''Authorization'' ''kid'' None) s = (Inr kid, t)"
    "takeValue W V (''s-'' @ kid) t = (Inr r, s')" using getShare_takes[OF get] .
  have "getShare W V d u = (Inr (errNotFound W None), u')"
    if "srvAuth W V d (newAuthRequest ''Authorization'' ''kid'' None) u = (Inr kid, u')" "rtKV (srvRedis u') (''s-'' @ kid) = None" for d u u'
    using that takeValue_gone[OF V that(2)] by (simp add: getShare_def op_simps)
  with t takeValue_once[OF V t(2) get(2)] show ?thesis by blast
qed

definition sharing :: "(memcloud, rdsTest) server" where
  "sharing = (ntServer net0)\<lparr>srvRedis := \<lparr>rtKV = [''s-k1'' \<mapsto> \<lparr>reValue = ''secret'', reExpire = 0\<rparr>], rtTicks = 0\<rparr>\<rparr>"

definition shareEnv :: "(memcloud, rdsTest) env" where
  "shareEnv = stdEnv\<lparr>enAuthorize := (\<lambda>r nc. ret (arKID r))\<rparr>"

definition shareCtx :: ctx where
  "shareCtx = \<lparr>cxMethod = ''GET'', cxURL = ''/share/k1'', cxParams = [(''kid'', ''k1'')], cxHeaders = [(''Authorization'', ''x'')],
     cxBody = None\<rparr>"

lemma shareCtx_auth:
  "srvAuth stdW shareEnv shareCtx (newAuthRequest ''Authorization'' ''kid'' None) s = (Inr ''k1'', s\<lparr>srvTicks := Suc (srvTicks s)\<rparr>)"
  by (simp add: srvAuth_def newAuthRequest_def op_simps isZeroTime_def Let_def newHTTPAuthRequest_def authKID_def headerGet_def
      bnd_run_Inr[OF srvNow_run] shareCtx_def shareEnv_def stdW_def cxParam_def queryGet_def)

lemma given_out_once_witness:
  "\<exists>s' s''. getShare stdW shareEnv shareCtx sharing = (Inr (Blob 200 octetStream ''secret''), s') \<and>
     getShare stdW shareEnv shareCtx s' = (Inr (errNotFound stdW None), s'')"
proof -
  have V: "enRedis shareEnv = NewRedisTest stdClock" by (simp add: shareEnv_def stdEnv_def)
  have "rtGet stdClock ''s-k1'' (srvRedis sharing) = (Inr ''secret'', srvRedis sharing)"
    by (simp add: rtGet_def rtEntry_def op_simps sharing_def isZeroTime_def)
  then obtain s' where get: "getShare stdW shareEnv shareCtx sharing = (Inr (Blob 200 octetStream ''secret''), s')"
    by (simp add: getShare_def shareCtx_auth takeValue_def V NewRedisTest_def op_simps rtDelete_def)
  have st: "hsStatus (Blob 200 octetStream ''secret'') = 200" by (simp add: Blob_def)
  from given_out_once[OF V get st] have gone: "rtKV (srvRedis s') ''s-k1'' = None"
    and next': "srvAuth stdW shareEnv d (newAuthRequest ''Authorization'' ''kid'' None) u = (Inr ''k1'', u') \<Longrightarrow>
      rtKV (srvRedis u') ''s-k1'' = None \<Longrightarrow> getShare stdW shareEnv d u = (Inr (errNotFound stdW None), u')" for d u u'
    by (auto simp: shareCtx_auth)
  show ?thesis using get next'[OF shareCtx_auth] gone by auto
qed

text \<open>C31. The collision check of invite codes looks up the code before it is drawn, which is empty: as
  long as nothing is stored under the empty key, the first random words are taken, whether or not
  they are the code of another invitation.\<close>

theorem invite_code_unchecked:
  assumes V: "enRedis V = NewRedisTest clk" and empty: "rtKV (srvRedis s) [] = None"
  shows "pickCode V A 3 [] s = (Inr (apRandWords A (srvDraws s)), s\<lparr>srvDraws := Suc (srvDraws s)\<rparr>)"
proof -
  have "rdGet (enRedis V) [] (srvRedis s) = (Inr [], srvRedis s)" using V rtGet_absent[OF empty] by (simp add: NewRedisTest_def)
  then show ?thesis by (simp add: numeral_3_eq_3 randWords_def bnd_def onRedis_def zoom_def ret_def)
qed

definition inviting :: "(memcloud, rdsTest) server" where
  "inviting = (ntServer net0)\<lparr>srvRedis := \<lparr>rtKV = [codeKey ''0'' \<mapsto> \<lparr>reValue = ''invite'', reExpire = 0\<rparr>], rtTicks = 0\<rparr>\<rparr>"

lemma invite_code_unchecked_witness:
  "pickCode stdEnv demoApi 3 [] inviting = (Inr ''0'', inviting\<lparr>srvDraws := 1\<rparr>) \<and> rtKV (srvRedis inviting) (codeKey ''0'') \<noteq> None"
proof -
  have V: "enRedis stdEnv = NewRedisTest stdClock" by (simp add: stdEnv_def)
  have e: "rtKV (srvRedis inviting) [] = None" by (simp add: inviting_def codeKey_def)
  have d: "srvDraws inviting = 0" "apRandWords demoApi 0 = ''0''"
    by (simp_all add: inviting_def net0_def demoApi_def natStr_small digit_0)
  show ?thesis using invite_code_unchecked[OF V e, of demoApi] unfolding d by (simp add: inviting_def)
qed

text \<open>C30. An invitation is shown only to its sender and its recipient: to anybody else the answer is
  the one for a code that does not exist.\<close>

theorem invite_code_private:
  assumes auth: "srvAuth W V c (newAuthRequest ''Authorization'' [] None) s = (Inr auth, t)"
    and code: "unescape (cxParam c ''code'') = Inr code" and get: "rdGet (enRedis V) (codeKey code) (srvRedis t) = (Inr out, r)"
    and other: "out \<noteq> [] \<longrightarrow> (\<exists>sender recipient. apInviteU A out = Inr (sender, recipient) \<and> auth \<noteq> sender \<and> auth \<noteq> recipient)"
  shows "getInviteCode W V A c s = (Inr (errNotFound W (Some (Err ''code not found''))), t\<lparr>srvRedis := r\<rparr>)"
proof (cases "out = []")
  case True
  with auth code get show ?thesis by (simp add: getInviteCode_def op_simps)
next
  case False
  with other obtain a b where "apInviteU A out = Inr (a, b)" "auth \<noteq> a" "auth \<noteq> b" by blast
  with False auth code get show ?thesis by (simp add: getInviteCode_def op_simps)
qed

text \<open>A statement of a sigchain is taken only under the key and sequence number it names, with at
  most 16KiB of data, and never in place of an existing one: those requests are refused before
  anything is written.\<close>

theorem statement_refused:
  assumes body: "cxBody c = Some b" "statementFromBytes A b = Inr st"
  shows "(glen (apStData A st) > 16 * 1024 \<or> cxParam c ''kid'' \<noteq> apStKID A st \<or>
       cxParam c ''seq'' \<noteq> formatInt (apStSeq A st) \<or> apStSeq A st \<le> 0 \<longrightarrow>
       (\<exists>e. putSigchainStatement X W V A c s = (Inr (ErrBadRequest W e), s))) \<and>
    (glen (apStData A st) \<le> 16 * 1024 \<and> cxParam c ''kid'' = apStKID A st \<and>
       cxParam c ''seq'' = formatInt (apStSeq A st) \<and> apStSeq A st > 0 \<and> fExists (enFire V) (xPath X [''sigchain'', apWithSeq A (apStKID A st) (apStSeq A st)]) (srvFire s) = (Inr True, f) \<longrightarrow>
       putSigchainStatement X W V A c s = (Inr (ErrConflict W (Err ''statement already exists'')), s\<lparr>srvFire := f\<rparr>))"
  using body by (auto simp: putSigchainStatement_def op_simps Let_def)

section \<open>The client\<close>

text \<open>Parameters survive the way through the URL: whatever names and values the client encodes into
  the query, the server reads back for each name the first value given for it.\<close>

theorem params_roundtrip:
  assumes url: "urlFor C path params = Inr url" and q: "CHR ''?'' \<notin> set (clURL C @ path)"
    and c: "cxURL c = url"
  shows "cxQueryParam c name = queryGet params name"
proof -
  have url': "url = (if encodeQuery params \<noteq> [] then clURL C @ path @ ''?'' @ encodeQuery params else clURL C @ path)"
    using url by (auto simp: urlFor_def Let_def split: if_splits)
  have "urlQuery url = parseQuery (encodeQuery params)"
  proof (cases "encodeQuery params = []")
    case True
    then show ?thesis using url' q by (simp add: urlQuery_def cut_none)
  next
    case False
    then show ?thesis using url' q cut_at[of "CHR ''?''" "clURL C @ path" "encodeQuery params"] by (simp add: urlQuery_def)
  qed
  with c show ?thesis by (simp add: cxQueryParam_def)
qed

text \<open>A request is tried at most once more than there are attempts left, and so often if the server
  answers every attempt with a conflict. \<open>cnt\<close> counts the requests sent.\<close>

theorem retry_bound:
  assumes one: "\<And>n r n'. Request W C req n = (r, n') \<Longrightarrow> cnt n' = cnt n + 1"
  shows "(retryOnConflict W C ctxErr req attempt maxAttempts n = (r, n') \<longrightarrow> cnt n' \<le> cnt n + (maxAttempts - attempt) + (1 :: nat)) \<and>
    ((\<forall>n. \<exists>m n'. Request W C req n = (Inl (HTTPError 409 m), n')) \<and> (\<forall>i. ctxErr i = None) \<longrightarrow>
       (\<exists>m n'. retryOnConflict W C ctxErr req attempt maxAttempts n = (Inl (HTTPError 409 m), n') \<and>
          cnt n' = cnt n + (maxAttempts - attempt) + 1))"
proof -
  have bound: "retryOnConflict W C ctxErr req attempt maxAttempts n = (r, n') \<Longrightarrow> cnt n' \<le> cnt n + (maxAttempts - attempt) + 1"
    for n r n'
  proof (induction "maxAttempts - attempt" arbitrary: attempt n r n' rule: less_induct)
    case less
    obtain q t where q: "Request W C req n = (q, t)" by fastforce
    have t: "cnt t = cnt n + 1" using one[OF q] .
    show ?case
    proof (cases "n' = t \<or> n' = n")
      case True
      with t show ?thesis by auto
    next
      case False
      with less.prems q have rec: "attempt < maxAttempts" "retryOnConflict W C ctxErr req (attempt + 1) maxAttempts t = (r, n')"
        by (auto simp: retryOnConflict.simps[of W C ctxErr req attempt] orElse_def fail_def ret_def split: option.splits sum.splits if_splits)
      have "maxAttempts - (attempt + 1) < maxAttempts - attempt" using rec(1) by simp
      from less.hyps[OF this rec(2)] t rec(1) show ?thesis by simp
    qed
  qed
  have all: "\<exists>m n'. retryOnConflict W C ctxErr req attempt maxAttempts n = (Inl (HTTPError 409 m), n') \<and>
      cnt n' = cnt n + (maxAttempts - attempt) + 1"
    if conflict: "\<forall>n. \<exists>m n'. Request W C req n = (Inl (HTTPError 409 m), n')" and ctx: "\<forall>i. ctxErr i = None" for n
  proof (induction "maxAttempts - attempt" arbitrary: attempt n rule: less_induct)
    case less
    obtain m t where q: "Request W C req n = (Inl (HTTPError 409 m), t)" using conflict by blast
    have t: "cnt t = cnt n + 1" using one[OF q] .
    show ?case
    proof (cases "attempt < maxAttempts")
      case True
      then have "maxAttempts - (attempt + 1) < maxAttempts - attempt" by simp
      from less.hyps[OF this, of t] obtain m' n' where
        "retryOnConflict W C ctxErr req (attempt + 1) maxAttempts t = (Inl (HTTPError 409 m'), n')"
        "cnt n' = cnt t + (maxAttempts - (attempt + 1)) + 1" by blast
      with True q t ctx show ?thesis
        by (subst retryOnConflict.simps) (simp add: orElse_def)
    next
      case False
      with q t ctx show ?thesis by (subst retryOnConflict.simps) (simp add: orElse_def fail_def)
    qed
  qed
  show ?thesis using bound all by blast
qed

text \<open>A client of a server that answers every request with a conflict; its state counts them.\<close>

definition busyClient :: "nat client" where
  "busyClient = \<lparr>clURL = ''http://localhost'',
     clDo = (\<lambda>r n. (Inr \<lparr>hsStatus = 409, hsHeaders = [], hsBody = []\<rparr>, n + 1)), clNow = ret 0, clNonce = ret ''n''\<rparr>"

definition headReq :: request where
  "headReq = \<lparr>rqMethod = ''PUT'', rqPath = ''/share/k1'', rqParams = [], rqBody = [], rqKey = None, rqHeaders = []\<rparr>"

lemma busy_request: "Request stdW busyClient headReq n = (Inl (HTTPError 409 []), n + 1)"
  by (simp add: Request_def headReq_def busyClient_def urlFor_def newRequest_def op_simps Let_def encodeQuery_def checkResponse_def)

lemma retry_bound_witness:
  "\<exists>m n'. retryOnConflict stdW busyClient (\<lambda>_. None) headReq 1 10 0 = (Inl (HTTPError 409 m), n') \<and> n' = 10"
proof -
  have one: "Request stdW busyClient headReq n = (r, n') \<Longrightarrow> id n' = id n + 1" for n r n' by (simp add: busy_request)
  have all: "\<forall>n. \<exists>m n'. Request stdW busyClient headReq n = (Inl (HTTPError 409 m), n')" by (simp add: busy_request)
  show ?thesis using retry_bound[where cnt = id and ctxErr = "\<lambda>_. None" and attempt = 1 and maxAttempts = 10 and n = 0, OF one] all
    by auto
qed

lemma params_roundtrip_witness:
  "cxQueryParam \<lparr>cxMethod = ''PUT'', cxURL = ''http://localhost/share/k1?expire=15s%26x'', cxParams = [], cxHeaders = [], cxBody = None\<rparr> ''expire'' = ''15s&x''"
proof -
  have url: "urlFor busyClient ''/share/k1'' [(''expire'', ''15s&x'')] = Inr ''http://localhost/share/k1?expire=15s%26x''"
    by (simp add: urlFor_def busyClient_def encodeQuery_def encodePair_def Let_def unreserved_def Web.hexDigit_def char_of_def bit_0)
  have q: "CHR ''?'' \<notin> set (clURL busyClient @ ''/share/k1'')" by (simp add: busyClient_def)
  show ?thesis by (subst params_roundtrip[OF url q]) (simp_all add: queryGet_def)
qed

lemma invite_code_private_witness:
  "\<exists>t. getInviteCode stdW (stdEnv\<lparr>enAuthorize := (\<lambda>r nc. ret ''k9'')\<rparr>) demoApi
     \<lparr>cxMethod = ''GET'', cxURL = ''/invite/code/0'', cxParams = [(''code'', ''0'')], cxHeaders = [(''Authorization'', ''x'')], cxBody = None\<rparr>
     (sharing\<lparr>srvRedis := \<lparr>rtKV = [codeKey ''0'' \<mapsto> \<lparr>reValue = apInviteM demoApi ''k1'' ''k2'', reExpire = 0\<rparr>], rtTicks = 0\<rparr>\<rparr>) =
   (Inr (errNotFound stdW (Some (Err ''code not found''))), t)"
proof -
  let ?V = "stdEnv\<lparr>enAuthorize := (\<lambda>r nc. ret ''k9'')\<rparr>"
  let ?c = "\<lparr>cxMethod = ''GET'', cxURL = ''/invite/code/0'', cxParams = [(''code'', ''0'')], cxHeaders = [(''Authorization'', ''x'')], cxBody = None\<rparr>"
  let ?s = "sharing\<lparr>srvRedis := \<lparr>rtKV = [codeKey ''0'' \<mapsto> \<lparr>reValue = apInviteM demoApi ''k1'' ''k2'', reExpire = 0\<rparr>], rtTicks = 0\<rparr>\<rparr>"
  have ne: "apInviteM demoApi ''k1'' ''k2'' \<noteq> []" by (simp add: demoApi_def)
  have inv: "apInviteU demoApi (apInviteM demoApi ''k1'' ''k2'') = Inr (''k1'', ''k2'')" by (simp add: demoApi_def)
  have auth: "srvAuth stdW ?V ?c (newAuthRequest ''Authorization'' [] None) ?s = (Inr ''k9'', ?s\<lparr>srvTicks := Suc (srvTicks ?s)\<rparr>)"
    by (simp add: srvAuth_def newAuthRequest_def op_simps isZeroTime_def Let_def newHTTPAuthRequest_def authKID_def headerGet_def
        bnd_run_Inr[OF srvNow_run])
  have code: "unescape (cxParam ?c ''code'') = Inr ''0''" by (simp add: unescape_def cxParam_def queryGet_def)
  have get: "rdGet (enRedis ?V) (codeKey ''0'') (srvRedis (?s\<lparr>srvTicks := Suc (srvTicks ?s)\<rparr>)) = (Inr (apInviteM demoApi ''k1'' ''k2''), srvRedis ?s)"
    by (simp add: stdEnv_def NewRedisTest_def rtGet_def rtEntry_def op_simps isZeroTime_def)
  have other: "apInviteM demoApi ''k1'' ''k2'' \<noteq> [] \<longrightarrow>
      (\<exists>a b. apInviteU demoApi (apInviteM demoApi ''k1'' ''k2'') = Inr (a, b) \<and> ''k9'' \<noteq> a \<and> ''k9'' \<noteq> b)"
    unfolding inv by auto
  show ?thesis using invite_code_private[OF auth code get other] by blast
qed

lemma statement_refused_witness:
  "\<exists>e. putSigchainStatement stdX stdW stdEnv demoApi
     \<lparr>cxMethod = ''PUT'', cxURL = ''/sigchain/k2/1'', cxParams = [(''kid'', ''k2''), (''seq'', ''1'')], cxHeaders = [], cxBody = Some ''st''\<rparr>
     (ntServer net0) = (Inr (ErrBadRequest stdW e), ntServer net0)"
proof -
  let ?c = "\<lparr>cxMethod = ''PUT'', cxURL = ''/sigchain/k2/1'', cxParams = [(''kid'', ''k2''), (''seq'', ''1'')], cxHeaders = [], cxBody = Some ''st''\<rparr>"
  have c: "cxBody ?c = Some ''st''" "statementFromBytes demoApi ''st'' = Inr ''st''"
    by (simp_all add: statementFromBytes_def demoApi_def)
  have kid: "cxParam ?c ''kid'' \<noteq> apStKID demoApi ''st''" by (simp add: cxParam_def queryGet_def demoApi_def)
  show ?thesis using statement_refused[OF c, of stdX stdW stdEnv "ntServer net0"] kid by blast
qed

section \<open>The document store of the server\<close>

text \<open>C7. The Firestore document and event store, for any number of times the library runs a transaction
  again. Adding events to a path appends them under the numbers that follow the stored one, whatever the
  number of runs; on a path without a stored number they are numbered from the number of events that the
  runs of the first transaction before the last had counted, which the variable outside the function
  keeps: from 0 only when it is run once. The path's document and \<^verbatim>\<open>EventPositions\<close> then have the last
  number, listing gives the events after a number in order, and the other paths are untouched. A counter
  goes up by \<open>n\<close> from the stored value, or from what the runs before had counted; \<^verbatim>\<open>Create\<close> refuses an
  existing document and otherwise stores the values; \<^verbatim>\<open>Delete\<close> says whether there was a document and
  removes that one only. When no transaction is run again the store provides the contract \<open>fire\<close> of the
  server.\<close>

theorem firestore_store:
  assumes "dstore_ok X" "relative_ok X" "cloud_ok C cm up" "fsInvAt B C cm up s" "plain c" "plain i"
    and p: "p = canon [c, i]" and doc: "doc = relPath [c, i]" and log: "log = logOf C c i s"
  shows
    "(\<forall>ds x. ds \<noteq> [] \<longrightarrow> x = txStart (cm s) doc ''idx'' (int (cAborts C s * min 498 (length ds))) \<longrightarrow> int64_ok (x + int (length ds)) \<longrightarrow>
       (\<exists>s' new d. fsEventsAdd X C p ds s = (Inr (x + int (length ds)), s') \<and>
          fsInvAt (B((c, i) := x - int (length log))) C cm up s' \<and>
          logOf C c i s' = log @ new \<and> length new = length ds \<and> (\<forall>j < length ds. eventDoc (ds ! j) (x + int j) (new ! j)) \<and>
          othersSame C cm c i s s' \<and> cm s' doc = Some d \<and> idxOf d = x + int (length ds) \<and>
          fsEventPosition X C p s' = (Inr (Some \<lparr>poPath = p, poIndex = x + int (length ds), poTimestamp = xMillis X (cdUpdated d)\<rparr>), s'))) \<and>
     (\<forall>n limit. 0 \<le> n \<longrightarrow> 0 < limit \<longrightarrow> fsEvents X C p n limit True s =
       (Inr (map (\<lambda>t. \<lparr>feFields = cdFields (log ! t), feIndex = B (c, i) + int t + 1, feTs = xMillis X (cdCreated (log ! t))\<rparr>)
          (take (nat limit) [nat (n - B (c, i))..<length log]), None), s)) \<and>
     (\<forall>n x. 0 < n \<longrightarrow> x = txStart (cm s) doc ''usage'' (int (cAborts C s * nat n)) \<longrightarrow> 0 \<le> x \<longrightarrow> int64_ok (x + n) \<longrightarrow>
       (\<exists>s' d. fsIncrement X C p ''usage'' n s = (Inr (x + n, x + 1), s') \<and> fsInvAt B C cm up s' \<and> logOf C c i s' = log \<and>
          cm s' doc = Some d \<and>
          cdFields d = (case cm s doc of None \<Rightarrow> Map.empty | Some o' \<Rightarrow> cdFields o')(''usage'' \<mapsto> FInt (x + n)) \<and>
          othersSame C cm c i s s')) \<and>
     (\<forall>v. if cm s doc = None
       then \<exists>s' t. fsCreate X C p v s = (Inr (), s') \<and> cm s' = (cm s)(doc \<mapsto> \<lparr>cdFields = v, cdCreated = t, cdUpdated = t\<rparr>)
       else fsCreate X C p v s = (Inl (LibErr (''path already exists '' @ p)), s)) \<and>
     (\<exists>s'. fsDelete X C p s = (Inr (cm s doc \<noteq> None), s') \<and> cm s' = (cm s)(doc := None)) \<and>
     (calm C up \<longrightarrow> fire (firestoreOps X C) (fsLog C) (fsDoc cm) (fsInv C cm up))"
proof (intro conjI allI impI)
  note lib = assms(1,3)
  have up: "up s" using assms(4) by (simp add: fsInvAt_def)
  show "\<exists>s' new d. fsEventsAdd X C p ds s = (Inr (x + int (length ds)), s') \<and>
          fsInvAt (B((c, i) := x - int (length log))) C cm up s' \<and>
          logOf C c i s' = log @ new \<and> length new = length ds \<and> (\<forall>j < length ds. eventDoc (ds ! j) (x + int j) (new ! j)) \<and>
          othersSame C cm c i s s' \<and> cm s' doc = Some d \<and> idxOf d = x + int (length ds) \<and>
          fsEventPosition X C p s' = (Inr (Some \<lparr>poPath = p, poIndex = x + int (length ds), poTimestamp = xMillis X (cdUpdated d)\<rparr>), s')"
    if "ds \<noteq> []" "x = txStart (cm s) doc ''idx'' (int (cAborts C s * min 498 (length ds)))" "int64_ok (x + int (length ds))" for ds x
    using eventsAdd_ok[OF assms(1-6), of x ds] that unfolding p doc log addStart_def by blast
  show "fsEvents X C p n limit True s =
       (Inr (map (\<lambda>t. \<lparr>feFields = cdFields (log ! t), feIndex = B (c, i) + int t + 1, feTs = xMillis X (cdCreated (log ! t))\<rparr>)
          (take (nat limit) [nat (n - B (c, i))..<length log]), None), s)" if "0 \<le> n" "0 < limit" for n limit
    unfolding p log by (rule fsEvents_ok[OF lib assms(5,6,4) that(2,1)])
  show "\<exists>s' d. fsIncrement X C p ''usage'' n s = (Inr (x + n, x + 1), s') \<and> fsInvAt B C cm up s' \<and> logOf C c i s' = log \<and>
          cm s' doc = Some d \<and>
          cdFields d = (case cm s doc of None \<Rightarrow> Map.empty | Some o' \<Rightarrow> cdFields o')(''usage'' \<mapsto> FInt (x + n)) \<and>
          othersSame C cm c i s s'"
    if "0 < n" "x = txStart (cm s) doc ''usage'' (int (cAborts C s * nat n))" "0 \<le> x" "int64_ok (x + n)" for n x
    using fsIncrement_exact[OF lib assms(5,6,4) that(1) that(2)[unfolded doc] that(3,4)] unfolding p doc log .
  show "if cm s doc = None
       then \<exists>s' t. fsCreate X C p v s = (Inr (), s') \<and> cm s' = (cm s)(doc \<mapsto> \<lparr>cdFields = v, cdCreated = t, cdUpdated = t\<rparr>)
       else fsCreate X C p v s = (Inl (LibErr (''path already exists '' @ p)), s)" for v
    using fsCreate_ok[OF lib assms(5,6) up, of v] unfolding p doc by auto
  show "\<exists>s'. fsDelete X C p s = (Inr (cm s doc \<noteq> None), s') \<and> cm s' = (cm s)(doc := None)"
    using fsDelete_ok[OF assms(1-3,5,6) up] unfolding p doc by blast
  show "fire (firestoreOps X C) (fsLog C) (fsDoc cm) (fsInv C cm up)" if "calm C up"
    by (rule firestore_fire[OF lib that])
qed

text \<open>Two events on a new path, whose transaction is run twice, get the numbers 3 and 4.\<close>

lemma firestore_store_witness:
  "\<exists>s' new. fsEventsAdd stdX (restless 1) (canon [''msgs'', ''a'']) [Map.empty, Map.empty] mcEmpty = (Inr 4, s') \<and>
     logOf (restless 1) ''msgs'' ''a'' s' = new \<and> length new = 2 \<and> eventDoc Map.empty 2 (new ! 0) \<and> eventDoc Map.empty 3 (new ! 1)"
proof -
  have inv: "fsInvAt (\<lambda>_. 0) (restless 1) mcMap mcUp mcEmpty" using mcEmpty_inv by (simp add: fsInvAt_def restless_log)
  have log: "[] = logOf (restless 1) ''msgs'' ''a'' mcEmpty" by (simp add: restless_log mcEmpty_logOf)
  have x: "2 = txStart (mcMap mcEmpty) (relPath [''msgs'', ''a'']) ''idx'' (int (cAborts (restless 1) mcEmpty * min 498 (length [Map.empty :: fields, Map.empty])))"
    by (simp add: txStart_def mcMap_def mcEmpty_def restless_def)
  have c: "plain ''msgs''" "plain ''a''" by (simp_all add: plain_def)
  note added = firestore_store[OF std_dstore std_relative restless_ok inv c refl refl log, THEN conjunct1, rule_format, OF _ x]
  from added obtain s' new where "fsEventsAdd stdX (restless 1) (canon [''msgs'', ''a'']) [Map.empty, Map.empty] mcEmpty = (Inr (2 + int 2), s')"
      "logOf (restless 1) ''msgs'' ''a'' s' = [] @ new" "length new = 2"
      "\<forall>j < 2. eventDoc ([Map.empty, Map.empty] ! j) (2 + int j) (new ! j)"
    by (auto simp: int64_ok_def)
  then show ?thesis by (intro exI[of _ s'] exI[of _ new]) (auto dest: spec[of _ 0] spec[of _ 1])
qed

text \<open>A listing of a collection by prefix gives exactly the documents whose id starts with it, in
  the order of the ids, although the library is only asked for the ids from the prefix on.\<close>

theorem prefix_listing:
  assumes "dstore_ok X" "cloud_ok C cm up" "up c" "plain col" "pathArg p [col]"
  shows "fsIterate X C p (prefixOpts pre) c =
    (Inr (map (\<lambda>k. listed col k (the (cm c (col @ ''/'' @ k)))) (filter (prefix pre) (sorted_list_of_set (kids (cm c) col))), None), c)"
  by (rule fsIterate_ok[OF assms])

definition twoKeys :: memcloud where
  "twoKeys = \<lparr>mcDocs = [(''sigchain/k2-1'', \<lparr>cdFields = [''data'' \<mapsto> FBytes ''b''], cdCreated = 1, cdUpdated = 1\<rparr>),
     (''sigchain/k1-2'', \<lparr>cdFields = [''data'' \<mapsto> FBytes ''c''], cdCreated = 2, cdUpdated = 2\<rparr>),
     (''sigchain/k1-1'', \<lparr>cdFields = [''data'' \<mapsto> FBytes ''a''], cdCreated = 0, cdUpdated = 0\<rparr>)], mcTick = 3\<rparr>"

lemma prefix_listing_witness:
  "fsIterate stdX memCloud ''sigchain'' (prefixOpts ''k1-'') twoKeys =
    (Inr ([\<lparr>doPath = canon [''sigchain'', ''k1-1''], doFields = [''data'' \<mapsto> FBytes ''a''], doCreatedAt = 0, doUpdatedAt = 0\<rparr>,
      \<lparr>doPath = canon [''sigchain'', ''k1-2''], doFields = [''data'' \<mapsto> FBytes ''c''], doCreatedAt = 2, doUpdatedAt = 2\<rparr>], None), twoKeys)"
proof -
  have up: "mcUp twoKeys" by (simp add: mcUp_def twoKeys_def)
  have c: "plain ''sigchain''" "pathArg ''sigchain'' [''sigchain'']" by (simp_all add: plain_def pathArg_def plains_def)
  have ids: "set (mcIdsAll ''sigchain'' twoKeys) = set [''k1-1'', ''k1-2'', ''k2-1'']"
    by (auto simp: mcIdsAll_def twoKeys_def map_filter_simps idIn_def Let_def plain_def)
  have "sorted_list_of_set (set [''k1-1'', ''k1-2'', ''k2-1'']) = [''k1-1'', ''k1-2'', ''k2-1'']"
    by (rule sorted_list_of_set.idem_if_sorted_distinct) (simp_all add: less_eq_char_def)
  then have k: "filter (prefix ''k1-'') (sorted_list_of_set (kids (mcMap twoKeys) ''sigchain'')) = [''k1-1'', ''k1-2'']"
    unfolding mcIds_set[symmetric] ids by simp
  show ?thesis unfolding prefix_listing[OF std_dstore memCloud_ok up c] k by (simp add: listed_def mcMap_def twoKeys_def)
qed

end
