(* ===== verification/Paths.thy ===== *)
theory Paths
  imports GoStd
begin

text \<open>
  File names: what the service uses of \<^verbatim>\<open>path/filepath\<close> on Unix, and \<^verbatim>\<open>service/path.go\<close>, which
  finds a name for an output file that is not taken. The file system is the state \<open>'w\<close>, read
  through \<^verbatim>\<open>os.Stat\<close>.
\<close>

section \<open>path/filepath\<close>

definition slash :: char where "slash = CHR ''/''"

text \<open>\<^verbatim>\<open>filepath.Split\<close>: up to and including the last slash, and the rest.\<close>

definition splitFile :: "string \<Rightarrow> string \<times> string" where
  "splitFile p = (let f = rev (takeWhile (\<lambda>c. c \<noteq> slash) (rev p)) in (take (length p - length f) p, f))"

text \<open>\<^verbatim>\<open>path.Ext\<close>: from the last dot of the last element.\<close>

definition pathExt :: "string \<Rightarrow> string" where
  "pathExt p = (let f = snd (splitFile p); e = takeWhile (\<lambda>c. c \<noteq> CHR ''.'') (rev f)
     in if CHR ''.'' \<in> set f then CHR ''.'' # rev e else [])"

definition trimSuffix :: "string \<Rightarrow> string \<Rightarrow> string" where
  "trimSuffix s e = (if suffix e s then take (length s - length e) s else s)"

definition isAbs :: "string \<Rightarrow> bool" where
  "isAbs p \<longleftrightarrow> prefix [slash] p"

text \<open>\<^verbatim>\<open>filepath.Clean\<close>: the elements kept so far are in reverse.\<close>

fun cleanElems :: "bool \<Rightarrow> string list \<Rightarrow> string list \<Rightarrow> string list" where
  "cleanElems rooted out [] = rev out"
| "cleanElems rooted out (e # es) =
     (if e = [] \<or> e = ''.'' then cleanElems rooted out es
      else if e = ''..'' then
        (case out of
           [] \<Rightarrow> cleanElems rooted (if rooted then [] else [e]) es
         | d # ds \<Rightarrow> if d = ''..'' then cleanElems rooted (e # out) es else cleanElems rooted ds es)
      else cleanElems rooted (e # out) es)"

fun joinElems :: "string list \<Rightarrow> string" where
  "joinElems [] = []"
| "joinElems [e] = e"
| "joinElems (e # es) = e @ slash # joinElems es"

definition clean :: "string \<Rightarrow> string" where
  "clean p =
     (let body = joinElems (cleanElems (isAbs p) [] (splitOn slash p))
      in if isAbs p then slash # body else if body = [] then ''.'' else body)"

text \<open>\<^verbatim>\<open>filepath.Join\<close> of two elements; empty elements are left out.\<close>

definition joinPath :: "string \<Rightarrow> string \<Rightarrow> string" where
  "joinPath a b =
     (if a = [] \<and> b = [] then []
      else if a = [] then clean b
      else if b = [] then clean a
      else clean (a @ slash # b))"

section \<open>path.go\<close>

text \<open>The result of \<^verbatim>\<open>os.Stat\<close>.\<close>

datatype fileStat = StatDir | StatFile | StatOther | StatNotExist | StatErr err

type_synonym 'w stat = "string \<Rightarrow> 'w \<Rightarrow> fileStat"

definition pathExists :: "'w stat \<Rightarrow> string \<Rightarrow> ('w, bool) op" where
  "pathExists st path =
     bnd (gets (st path)) (\<lambda>r. case r of StatNotExist \<Rightarrow> ret False | StatErr e \<Rightarrow> fail e | _ \<Rightarrow> ret True)"

definition incPath :: "string \<Rightarrow> nat \<Rightarrow> string" where
  "incPath p n =
     (if n = 0 then p
      else let ext = pathExt p; base = trimSuffix p ext in base @ ''-'' @ natStr (n + 1) @ ext)"

text \<open>The loop over the numbers below 1000; \<open>k\<close> rounds are left.\<close>

primrec nextPathFrom :: "'w stat \<Rightarrow> string \<Rightarrow> nat \<Rightarrow> nat \<Rightarrow> ('w, string) op" where
  "nextPathFrom st p i 0 = fail (Err (''file exists '' @ p))"
| "nextPathFrom st p i (Suc k) =
     (let out = incPath p i
      in bnd (pathExists st out) (\<lambda>exists. if \<not> exists then ret out else nextPathFrom st p (Suc i) k))"

definition nextPathIfExists :: "'w stat \<Rightarrow> string \<Rightarrow> ('w, string) op" where
  "nextPathIfExists st p = nextPathFrom st p 0 1000"

definition isDir :: "'w stat \<Rightarrow> string \<Rightarrow> ('w, bool) op" where
  "isDir st path =
     (if path = [] then ret False
      else bnd (pathExists st path) (\<lambda>exists.
           if \<not> exists then ret False
           else bnd (gets (st path)) (\<lambda>r.
                case r of StatDir \<Rightarrow> ret True | StatNotExist \<Rightarrow> fail (LibErr ''not exist'') | StatErr e \<Rightarrow> fail e | _ \<Rightarrow> ret False)))"

definition resolveOutPath :: "'w stat \<Rightarrow> string \<Rightarrow> string \<Rightarrow> string \<Rightarrow> ('w, string) op" where
  "resolveOutPath st out0 inp inSuffix =
     bnd (isDir st out0) (\<lambda>dir.
     let out1 = (if dir then joinPath out0 (snd (splitFile inp)) else out0);
         out2 = (if out1 = [] then inp else out1);
         out3 = trimSuffix out2 inSuffix;
         out4 = (if \<not> isAbs out3 then joinPath (fst (splitFile inp)) out3 else out3)
     in bnd (pathExists st out4) (\<lambda>exists.
        if exists then nextPathIfExists st out4 else ret out4))"

section \<open>Lemmas\<close>

lemma pathExists_run: "pathExists st p w =
  (case st p w of StatNotExist \<Rightarrow> Inr False | StatErr e \<Rightarrow> Inl e | _ \<Rightarrow> Inr True, w)"
  by (simp add: pathExists_def op_simps split: fileStat.splits)

lemma pathExists_false [op_iff]: "pathExists st p w = (Inr False, w') \<longleftrightarrow> w' = w \<and> st p w = StatNotExist"
  by (auto simp: pathExists_run split: fileStat.splits)

lemma nextPathFrom_free:
  "nextPathFrom st p i k w = (Inr out, w') \<Longrightarrow>
     w' = w \<and> st out w = StatNotExist \<and> (\<exists>j. i \<le> j \<and> j < i + k \<and> out = incPath p j \<and>
       (\<forall>l. i \<le> l \<and> l < j \<longrightarrow> st (incPath p l) w \<noteq> StatNotExist))"
proof (induction k arbitrary: i)
  case 0
  then show ?case by (simp add: fail_def)
next
  case (Suc k)
  show ?case
  proof (cases "st (incPath p i) w = StatNotExist")
    case True
    with Suc.prems show ?thesis by (auto simp: Let_def bnd_def pathExists_run ret_def)
  next
    case False
    with Suc.prems have "nextPathFrom st p (Suc i) k w = (Inr out, w')"
      by (auto simp: Let_def bnd_def pathExists_run ret_def split: fileStat.splits)
    from Suc.IH[OF this] obtain j where j: "w' = w" "st out w = StatNotExist" "Suc i \<le> j" "j < Suc i + k"
      "out = incPath p j" "\<forall>l. Suc i \<le> l \<and> l < j \<longrightarrow> st (incPath p l) w \<noteq> StatNotExist" by blast
    have "st (incPath p l) w \<noteq> StatNotExist" if "i \<le> l" "l < j" for l
      using that j(6) False by (cases "l = i") auto
    with j show ?thesis by (intro conjI exI[of _ j]) auto
  qed
qed

text \<open>The loop ends with a free name within its rounds, if there is one and no call of \<^verbatim>\<open>os.Stat\<close> fails.\<close>

lemma nextPathFrom_finds:
  assumes "i \<le> j" "j < i + k" "st (incPath p j) w = StatNotExist" "\<forall>l e. st (incPath p l) w \<noteq> StatErr e"
  shows "\<exists>out. nextPathFrom st p i k w = (Inr out, w)"
  using assms(1,2)
proof (induction k arbitrary: i)
  case (Suc k)
  show ?case
  proof (cases "st (incPath p i) w = StatNotExist")
    case True
    then show ?thesis by (simp add: Let_def bnd_def pathExists_run ret_def)
  next
    case False
    then have "i \<noteq> j" using assms(3) by auto
    then obtain out where "nextPathFrom st p (Suc i) k w = (Inr out, w)" using Suc.IH[of "Suc i"] Suc.prems by auto
    moreover have "pathExists st (incPath p i) w = (Inr True, w)"
      using False assms(4) by (auto simp: pathExists_run split: fileStat.splits)
    ultimately show ?thesis by (simp add: Let_def bnd_def)
  qed
qed simp

end
