(* ===== verification/Env.thy ===== *)
theory Env
  imports Paths
begin

text \<open>
  The settings of the application, \<^verbatim>\<open>service/env.go\<close>: string values by key, kept in a JSON file
  in the application's directory. The directories, the file operations and JSON are parameters,
  the file system their state \<open>'w\<close>.
\<close>

record build =
  bdVersion :: string
  bdCommit :: string
  bdDate :: string
  bdDefaultAppName :: string
  bdDefaultPort :: int
  bdServiceName :: string
  bdCmdName :: string
  bdDescription :: string

record env =
  evAppName :: string
  evBuild :: build
  evValues :: "(string \<times> string) list"
  evLinkDir :: string

text \<open>
  \<^verbatim>\<open>keys/env\<close>'s \<^verbatim>\<open>AppPath\<close> and \<^verbatim>\<open>LogsPath\<close> (directory, file, create it), the files, and JSON
  of the values (\<open>None\<close> for \<^verbatim>\<open>null\<close>).
\<close>

record 'w envLib =
  elAppPath :: "string \<Rightarrow> string \<Rightarrow> bool \<Rightarrow> ('w, string) op"
  elLogsPath :: "string \<Rightarrow> string \<Rightarrow> bool \<Rightarrow> ('w, string) op"
  elStat :: "'w stat"
  elRead :: "string \<Rightarrow> ('w, string) op"
  elWrite :: "string \<Rightarrow> string \<Rightarrow> ('w, unit) op"
  elRemove :: "string \<Rightarrow> ('w, unit) op"
  elM :: "(string \<times> string) list \<Rightarrow> err + string"
  elMIndent :: "(string \<times> string) list \<Rightarrow> err + string"
  elU :: "string \<Rightarrow> err + (string \<times> string) list option"

section \<open>Paths and names\<close>

definition serverCfgKey :: string where "serverCfgKey = ''server''"
definition portCfgKey :: string where "portCfgKey = ''port''"
definition configKeys :: "string list" where "configKeys = [serverCfgKey, portCfgKey]"

definition IsKey :: "string \<Rightarrow> bool" where
  "IsKey s \<longleftrightarrow> s \<in> set configKeys"

definition buildString :: "build \<Rightarrow> string" where
  "buildString b = bdVersion b @ '' '' @ bdCommit b @ '' '' @ bdDate b"

definition linkPath :: "env \<Rightarrow> string" where
  "linkPath c = joinPath (evLinkDir c) (bdCmdName (evBuild c))"

definition AppPath :: "'w envLib \<Rightarrow> env \<Rightarrow> string \<Rightarrow> bool \<Rightarrow> ('w, string) op" where
  "AppPath L c file makeDir = elAppPath L (evAppName c) file makeDir"

definition LogsPath :: "'w envLib \<Rightarrow> env \<Rightarrow> string \<Rightarrow> bool \<Rightarrow> ('w, string) op" where
  "LogsPath L c file makeDir = elLogsPath L (evAppName c) file makeDir"

text \<open>\<^verbatim>\<open>AppDir\<close> and \<^verbatim>\<open>LogsDir\<close> panic with the error.\<close>

definition mustPath :: "('w, string) op \<Rightarrow> ('w, string) op" where
  "mustPath m = mapErr (\<lambda>_. Panic ''path'') m"

definition AppDir :: "'w envLib \<Rightarrow> env \<Rightarrow> ('w, string) op" where
  "AppDir L c = mustPath (AppPath L c [] False)"

definition LogsDir :: "'w envLib \<Rightarrow> env \<Rightarrow> ('w, string) op" where
  "LogsDir L c = mustPath (LogsPath L c [] False)"

definition certPath :: "'w envLib \<Rightarrow> env \<Rightarrow> bool \<Rightarrow> ('w, string) op" where
  "certPath L c makeDir = AppPath L c ''ca.pem'' makeDir"

definition envPath :: "'w envLib \<Rightarrow> env \<Rightarrow> bool \<Rightarrow> ('w, string) op" where
  "envPath L c makeDir = AppPath L c ''config.json'' makeDir"

section \<open>Values\<close>

definition envGet :: "env \<Rightarrow> string \<Rightarrow> string \<Rightarrow> string" where
  "envGet c key dflt = (case map_of (evValues c) key of None \<Rightarrow> dflt | Some v \<Rightarrow> v)"

definition truthy :: "string \<Rightarrow> err + bool" where
  "truthy s0 =
     (let s = trimSpace s0
      in if s \<in> {''1'', ''t'', ''true'', ''y'', ''yes''} then Inr True
         else if s \<in> {''0'', ''f'', ''false'', ''n'', ''no''} then Inr False
         else Inl (Err (''invalid value: '' @ s)))"

definition truthyString :: "bool \<Rightarrow> string" where
  "truthyString b = (if b then ''1'' else ''0'')"

text \<open>A value that is not a number counts as zero.\<close>

definition envGetInt :: "env \<Rightarrow> string \<Rightarrow> int \<Rightarrow> int" where
  "envGetInt c key dflt =
     (case map_of (evValues c) key of None \<Rightarrow> dflt
      | Some v \<Rightarrow> (case parseInt v of Inl e \<Rightarrow> 0 | Inr n \<Rightarrow> n))"

definition envGetBool :: "env \<Rightarrow> string \<Rightarrow> bool" where
  "envGetBool c key =
     (case map_of (evValues c) key of None \<Rightarrow> False
      | Some v \<Rightarrow> (case truthy v of Inl e \<Rightarrow> False | Inr b \<Rightarrow> b))"

definition envSet :: "string \<Rightarrow> string \<Rightarrow> env \<Rightarrow> env" where
  "envSet key value c = c\<lparr>evValues := AList.update key value (evValues c)\<rparr>"

definition SetBool :: "string \<Rightarrow> bool \<Rightarrow> env \<Rightarrow> env" where
  "SetBool key b c = envSet key (truthyString b) c"

definition SetInt :: "string \<Rightarrow> int \<Rightarrow> env \<Rightarrow> env" where
  "SetInt key n c = envSet key (formatInt n) c"

definition envPort :: "env \<Rightarrow> int" where
  "envPort c = envGetInt c portCfgKey (bdDefaultPort (evBuild c))"

definition envServer :: "env \<Rightarrow> string" where
  "envServer c = envGet c serverCfgKey ''https://keys.pub''"

section \<open>The file\<close>

text \<open>The state is the environment and the file system.\<close>

definition onFiles :: "('w, 'a) op \<Rightarrow> (env \<times> 'w, 'a) op" where
  "onFiles m = zoom snd (\<lambda>w (c, _). (c, w)) m"

definition envLoad :: "'w envLib \<Rightarrow> (env \<times> 'w, unit) op" where
  "envLoad L =
     bnd (gets fst) (\<lambda>c.
     bnd (onFiles (envPath L c False)) (\<lambda>path.
     bnd (onFiles (pathExists (elStat L) path)) (\<lambda>exists.
     bnd (if exists
          then bnd (onFiles (elRead L path)) (\<lambda>b. lift (elU L b))
          else ret None) (\<lambda>values.
     modify (\<lambda>(c, w). (c\<lparr>evValues := (case values of None \<Rightarrow> [] | Some v \<Rightarrow> v)\<rparr>, w))))))"

definition envSave :: "'w envLib \<Rightarrow> (env \<times> 'w, unit) op" where
  "envSave L =
     bnd (gets fst) (\<lambda>c.
     bnd (onFiles (envPath L c True)) (\<lambda>path.
     bnd (lift (elM L (evValues c))) (\<lambda>b.
     onFiles (elWrite L path b))))"

definition envReset :: "'w envLib \<Rightarrow> (env \<times> 'w, unit) op" where
  "envReset L =
     bnd (gets fst) (\<lambda>c.
     bnd (onFiles (envPath L c False)) (\<lambda>path.
     bnd (onFiles (pathExists (elStat L) path)) (\<lambda>exists.
     if \<not> exists then ret () else onFiles (elRemove L path))))"

definition envExport :: "'w envLib \<Rightarrow> env \<Rightarrow> err + string" where
  "envExport L c = elMIndent L (evValues c)"

definition NewEnv :: "'w envLib \<Rightarrow> string \<Rightarrow> build \<Rightarrow> ('w, env) op" where
  "NewEnv L appName b w =
     (if appName = [] then (Inl (Err ''no app name''), w)
      else let c = \<lparr>evAppName = appName, evBuild = b, evValues = [], evLinkDir = joinPath ''usr'' (joinPath ''local'' ''bin'')\<rparr>
           in case envLoad L (c, w) of (Inl e, (c', w')) \<Rightarrow> (Inl e, w') | (Inr _, (c', w')) \<Rightarrow> (Inr c', w'))"

definition savePortFlag :: "'w envLib \<Rightarrow> int \<Rightarrow> (env \<times> 'w, unit) op" where
  "savePortFlag L port =
     (if port = 0 then ret ()
      else bnd (modify (\<lambda>(c, w). (SetInt portCfgKey port c, w))) (\<lambda>_. envSave L))"

section \<open>Documented behaviour of files and JSON\<close>

text \<open>
  What is written to a file is read back from it, and nothing else changes it; JSON of a map
  keeps its entries. \<open>file w p\<close> is the content of the file \<open>p\<close>.
\<close>

definition envLib_ok :: "'w envLib \<Rightarrow> ('w \<Rightarrow> string \<Rightarrow> string option) \<Rightarrow> bool" where
  "envLib_ok L file \<longleftrightarrow>
     (\<forall>vs. distinct (map fst vs) \<longrightarrow> (\<exists>b us. elM L vs = Inr b \<and> elU L b = Inr (Some us) \<and> map_of us = map_of vs)) \<and>
     (\<forall>d f. \<exists>p. \<forall>mk w. \<exists>w'. elAppPath L d f mk w = (Inr p, w') \<and> file w' = file w) \<and>
     (\<forall>p b w. \<exists>w'. elWrite L p b w = (Inr (), w') \<and> file w' = (file w)(p \<mapsto> b)) \<and>
     (\<forall>p w. \<exists>w'. elRemove L p w = (Inr (), w') \<and> file w' = (file w)(p := None)) \<and>
     (\<forall>p w. elStat L p w = (if file w p = None then StatNotExist else StatFile)) \<and>
     (\<forall>p b w. file w p = Some b \<longrightarrow> elRead L p w = (Inr b, w))"

end
