(* ===== verification/Handshake.thy ===== *)
theory Handshake
  imports GoStd "HOL-Library.Multiset"
begin

text \<open>
  The handshake by which two peers find out that UDP packets pass between them in both directions,
  \<^verbatim>\<open>wormhole/sctp/handshake.go\<close>: on each side one goroutine writes the packet \<^verbatim>\<open>send\<close> again and
  again while another reads packets and changes \<^verbatim>\<open>send\<close>. A side is its shared variables and the
  place of its writer; the two sides with the packets in flight form a transition system, in
  which packets may be lost, duplicated and delivered in any order. (Packets of third parties,
  which the code does not tell apart, are left out.)
\<close>

section \<open>One side\<close>

text \<open>The packets.\<close>

definition syn :: string where "syn = ''syn''"
definition synAck :: string where "synAck = ''syn-ack''"
definition ack :: string where "ack = ''ack''"

lemma packets [simp]: "syn \<noteq> synAck" "synAck \<noteq> syn" "syn \<noteq> ack" "ack \<noteq> syn" "synAck \<noteq> ack" "ack \<noteq> synAck"
  by (simp_all add: syn_def synAck_def ack_def)

text \<open>The writer is about to write, or has written and is about to test what it sent, or is over.\<close>

datatype writerAt = AtWrite | AtCheck | Over

record side =
  hsSend :: string
  hsWriter :: writerAt
  hsReading :: bool
  hsWriteErr :: "err option"
  hsReadErr :: "err option"

definition hsNew :: side where
  "hsNew = \<lparr>hsSend = syn, hsWriter = AtWrite, hsReading = True, hsWriteErr = None, hsReadErr = None\<rparr>"

text \<open>The result of a write; then the test, which reads the variable again, and the pause.\<close>

definition hsWrite :: "err option \<Rightarrow> side \<Rightarrow> side" where
  "hsWrite r s = (case r of Some e \<Rightarrow> s\<lparr>hsWriter := Over, hsWriteErr := Some e\<rparr> | None \<Rightarrow> s\<lparr>hsWriter := AtCheck\<rparr>)"

definition hsCheck :: "side \<Rightarrow> side" where
  "hsCheck s = s\<lparr>hsWriter := (if hsSend s = ack then Over else AtWrite)\<rparr>"

text \<open>The result of a read. The initiator is established by \<^verbatim>\<open>syn-ack\<close>, either side by \<^verbatim>\<open>ack\<close>.\<close>

definition hsRead :: "bool \<Rightarrow> err + string \<Rightarrow> side \<Rightarrow> side" where
  "hsRead initiator r s =
     (case r of Inl e \<Rightarrow> s\<lparr>hsReading := False, hsReadErr := Some e\<rparr>
      | Inr b \<Rightarrow>
          if b = syn then s\<lparr>hsSend := synAck\<rparr>
          else if b = synAck then s\<lparr>hsSend := ack, hsReading := \<not> initiator\<rparr>
          else if b = ack then s\<lparr>hsSend := ack, hsReading := False\<rparr>
          else s)"

definition hsDone :: "side \<Rightarrow> bool" where
  "hsDone s \<longleftrightarrow> hsWriter s = Over \<and> \<not> hsReading s"

definition hsResult :: "side \<Rightarrow> err + unit" where
  "hsResult s =
     (case hsWriteErr s of Some e \<Rightarrow> Inl e
      | None \<Rightarrow> (case hsReadErr s of Some e \<Rightarrow> Inl e | None \<Rightarrow> Inr ()))"

text \<open>
  A call of \<^verbatim>\<open>handshake\<close> as what happens to it, in order: results of writes, tests, results of
  reads, the context's end; when nothing else happens the ten seconds pass.
\<close>

datatype hsEvent = HsWrote "err option" | HsTested | HsRead "err + string" | HsContext err

definition ErrHandshakeTimeout :: err where
  "ErrHandshakeTimeout = Err ''sctp handshake timed out''"

fun hsRun :: "bool \<Rightarrow> side \<Rightarrow> hsEvent list \<Rightarrow> err + unit" where
  "hsRun initiator s evs =
     (if hsDone s then hsResult s
      else case evs of [] \<Rightarrow> Inl ErrHandshakeTimeout
      | HsContext e # _ \<Rightarrow> Inl e
      | HsWrote r # rest \<Rightarrow> hsRun initiator (if hsWriter s = AtWrite then hsWrite r s else s) rest
      | HsTested # rest \<Rightarrow> hsRun initiator (if hsWriter s = AtCheck then hsCheck s else s) rest
      | HsRead r # rest \<Rightarrow> hsRun initiator (if hsReading s then hsRead initiator r s else s) rest)"

declare hsRun.simps [simp del]

section \<open>Two sides\<close>

text \<open>A step of one side, with its packets in and out.\<close>

inductive moves :: "bool \<Rightarrow> side \<times> string multiset \<times> string multiset \<Rightarrow> side \<times> string multiset \<times> string multiset \<Rightarrow> bool"
  for initiator where
  wrote: "hsWriter s = AtWrite \<Longrightarrow> moves initiator (s, i, out) (hsWrite None s, i, add_mset (hsSend s) out)"
| writeFailed: "hsWriter s = AtWrite \<Longrightarrow> moves initiator (s, i, out) (hsWrite (Some e) s, i, out)"
| tested: "hsWriter s = AtCheck \<Longrightarrow> moves initiator (s, i, out) (hsCheck s, i, out)"
| read: "hsReading s \<Longrightarrow> moves initiator (s, add_mset b i, out) (hsRead initiator (Inr b) s, i, out)"
| readFailed: "hsReading s \<Longrightarrow> moves initiator (s, i, out) (hsRead initiator (Inl e) s, i, out)"
| lost: "moves initiator (s, add_mset b i, out) (s, i, out)"
| doubled: "moves initiator (s, add_mset b i, out) (s, add_mset b (add_mset b i), out)"

text \<open>The initiator, the listener, the packets to the one and to the other.\<close>

type_synonym link = "side \<times> side \<times> string multiset \<times> string multiset"

inductive hs :: "link \<Rightarrow> link \<Rightarrow> bool" where
  initiator: "moves True (a, ia, ib) (a', ia', ib') \<Longrightarrow> hs (a, b, ia, ib) (a', b, ia', ib')"
| listener: "moves False (b, ib, ia) (b', ib', ia') \<Longrightarrow> hs (a, b, ia, ib) (a, b', ia', ib')"

definition hsStart :: link where
  "hsStart = (hsNew, hsNew, {#}, {#})"

definition succeeded :: "side \<Rightarrow> bool" where
  "succeeded s \<longleftrightarrow> hsDone s \<and> hsResult s = Inr ()"

lemma succeededD:
  "succeeded s \<Longrightarrow> hsWriter s = Over" "succeeded s \<Longrightarrow> \<not> hsReading s" "succeeded s \<Longrightarrow> hsReadErr s = None"
  by (auto simp: succeeded_def hsDone_def hsResult_def split: option.splits)

section \<open>Invariants\<close>

text \<open>A side whose reader has ended well is established.\<close>

definition established :: "side \<Rightarrow> bool" where
  "established s \<longleftrightarrow> \<not> hsReading s \<and> hsReadErr s = None"

definition sane :: "side \<Rightarrow> bool" where
  "sane s \<longleftrightarrow> (hsReading s \<longrightarrow> hsReadErr s = None) \<and> (hsSend s = syn \<or> hsSend s = synAck \<or> hsSend s = ack)"

lemma writer_parts [simp]:
  "hsSend (hsWrite r s) = hsSend s" "established (hsWrite r s) = established s" "sane (hsWrite r s) = sane s"
  "hsReading (hsWrite r s) = hsReading s"
  "hsSend (hsCheck s) = hsSend s" "established (hsCheck s) = established s" "sane (hsCheck s) = sane s"
  "hsReading (hsCheck s) = hsReading s"
  by (auto simp: hsWrite_def hsCheck_def established_def sane_def split: option.splits)

lemma reader_parts [simp]:
  "hsSend (hsRead i (Inl e) s) = hsSend s" "\<not> established (hsRead i (Inl e) s)" "sane s \<Longrightarrow> sane (hsRead i (Inl e) s)"
  "hsReading s \<Longrightarrow> sane s \<Longrightarrow> sane (hsRead i (Inr b) s)"
  "hsSend (hsRead i (Inr syn) s) = synAck" "hsSend (hsRead i (Inr synAck) s) = ack" "hsSend (hsRead i (Inr ack) s) = ack"
  "established (hsRead i (Inr syn) s) = established s"
  by (auto simp: hsRead_def established_def sane_def)

lemma not_reading: "established s \<Longrightarrow> \<not> hsReading s"
  by (simp add: established_def)

lemma reader_established:
  "hsReading s \<Longrightarrow> sane s \<Longrightarrow> established (hsRead i (Inr b) s) \<longleftrightarrow> b = ack \<or> b = synAck \<and> i"
  by (auto simp: hsRead_def established_def sane_def)

lemma reader_send:
  "hsSend (hsRead i (Inr b) s) = (if b = syn then synAck else if b = synAck \<or> b = ack then ack else hsSend s)"
  by (simp add: hsRead_def)

text \<open>What one side knows: a packet other than \<^verbatim>\<open>syn\<close>, or being established, tells that the
  other side has received something; an \<^verbatim>\<open>ack\<close> of the initiator that it is established.\<close>

definition heard :: "side \<Rightarrow> string multiset \<Rightarrow> side \<Rightarrow> bool" where
  "heard s i other \<longleftrightarrow> (\<forall>p \<in># i. p \<noteq> syn \<longrightarrow> hsSend other \<noteq> syn) \<and> (established s \<longrightarrow> hsSend other \<noteq> syn)"

definition acked :: "side \<Rightarrow> string multiset \<Rightarrow> side \<Rightarrow> bool" where
  "acked a ib b \<longleftrightarrow> (ack \<in># ib \<longrightarrow> hsSend a = ack) \<and> (hsSend a = ack \<longleftrightarrow> established a) \<and>
     (established b \<longrightarrow> hsSend a = ack \<and> hsSend b = ack)"

inductive_cases movesE: "moves initiator (s, i, out) (s', i', out')"

lemma moves_sane: "moves initiator (s, i, out) (s', i', out') \<Longrightarrow> sane s \<Longrightarrow> sane s'"
  by (erule movesE) simp_all

text \<open>A side never goes back to \<^verbatim>\<open>syn\<close>.\<close>

lemma moves_send: "moves initiator (s, i, out) (s', i', out') \<Longrightarrow> hsSend s \<noteq> syn \<Longrightarrow> hsSend s' \<noteq> syn"
  by (erule movesE) (auto simp: reader_send)

lemma moves_out: "moves initiator (s, i, out) (s', i', out') \<Longrightarrow> p \<in># out' \<Longrightarrow> p \<in># out \<or> p = hsSend s"
  by (erule movesE) auto

lemma moves_in: "moves initiator (s, i, out) (s', i', out') \<Longrightarrow> p \<in># i' \<Longrightarrow> p \<in># i"
  by (erule movesE) auto

lemma moves_established:
  "moves initiator (s, i, out) (s', i', out') \<Longrightarrow> sane s \<Longrightarrow> established s' \<Longrightarrow>
     established s \<or> ack \<in># i \<or> synAck \<in># i \<and> initiator"
  by (erule movesE) (auto simp: reader_established)

lemma moves_stay: "moves initiator (s, i, out) (s', i', out') \<Longrightarrow> established s \<Longrightarrow> established s' \<and> hsSend s' = hsSend s"
  by (erule movesE) (auto dest: not_reading)

lemma moves_new_send:
  "moves initiator (s, i, out) (s', i', out') \<Longrightarrow> hsSend s' = ack \<Longrightarrow> hsSend s = ack \<or> ack \<in># i \<or> synAck \<in># i"
  by (erule movesE) (auto simp: reader_send split: if_splits)

lemma heard_self: "moves initiator (s, i, out) (s', i', out') \<Longrightarrow> sane s \<Longrightarrow> heard s i other \<Longrightarrow> heard s' i' other"
  using moves_in moves_established unfolding heard_def by (metis packets(2,4))

lemma heard_other: "moves initiator (s, i, out) (s', i', out') \<Longrightarrow> heard other out s \<Longrightarrow> heard other out' s'"
  using moves_out moves_send unfolding heard_def by metis

lemma initiator_established:
  "moves True (a, ia, ib) (a', ia', ib') \<Longrightarrow> sane a \<Longrightarrow> (hsSend a = ack \<longleftrightarrow> established a) \<Longrightarrow> (hsSend a' = ack \<longleftrightarrow> established a')"
  by (erule movesE) (auto simp: reader_established reader_send dest: not_reading)

lemma acked_initiator:
  "moves True (a, ia, ib) (a', ia', ib') \<Longrightarrow> sane a \<Longrightarrow> acked a ib b \<Longrightarrow> acked a' ib' b"
  using initiator_established[of a ia ib a' ia' ib'] moves_out[of True a ia ib a' ia' ib' ack] moves_stay[of True a ia ib a' ia' ib']
  unfolding acked_def by metis

lemma listener_established:
  "moves False (b, ib, ia) (b', ib', ia') \<Longrightarrow> sane b \<Longrightarrow> established b' \<Longrightarrow> established b \<or> ack \<in># ib \<and> hsSend b' = ack"
  by (erule movesE) (auto simp: reader_established)

lemma acked_listener:
  "moves False (b, ib, ia) (b', ib', ia') \<Longrightarrow> sane b \<Longrightarrow> acked a ib b \<Longrightarrow> acked a ib' b'"
  using listener_established[of b ib ia b' ib' ia'] moves_in[of False b ib ia b' ib' ia' ack] moves_stay[of False b ib ia b' ib' ia']
  unfolding acked_def by metis

definition hsInv :: "link \<Rightarrow> bool" where
  "hsInv c = (case c of (a, b, ia, ib) \<Rightarrow> sane a \<and> sane b \<and> heard a ia b \<and> heard b ib a \<and> acked a ib b)"

lemma hs_invariant: "hs\<^sup>*\<^sup>* hsStart c \<Longrightarrow> hsInv c"
proof (induction rule: rtranclp_induct)
  case base
  show ?case by (simp add: hsInv_def hsStart_def heard_def acked_def hsNew_def sane_def established_def)
next
  case (step c d)
  from step(2) step.IH show ?case
    by cases (auto simp: hsInv_def intro: heard_self heard_other acked_initiator acked_listener moves_sane)
qed

lemma hs_invD:
  assumes "hs\<^sup>*\<^sup>* hsStart (a, b, ia, ib)"
  shows "sane a" "sane b" "heard a ia b" "heard b ib a" "acked a ib b"
  using hs_invariant[OF assms] by (simp_all add: hsInv_def)

lemma succeeded_established: "succeeded s \<Longrightarrow> established s"
  by (simp add: established_def succeededD)

section \<open>Runs\<close>

text \<open>A write with the test that follows, and a read, as rules for reachability.\<close>

definition sent :: "side \<Rightarrow> side" where
  "sent s = hsCheck (hsWrite None s)"

lemma sent_parts [simp]:
  "hsSend (sent s) = hsSend s" "hsReading (sent s) = hsReading s" "hsWriteErr (sent s) = hsWriteErr s"
  "hsReadErr (sent s) = hsReadErr s" "hsWriter (sent s) = (if hsSend s = ack then Over else AtWrite)"
  by (simp_all add: sent_def hsCheck_def hsWrite_def)

lemma read_parts [simp]:
  "hsWriter (hsRead i r s) = hsWriter s" "hsWriteErr (hsRead i r s) = hsWriteErr s"
  "hsReadErr (hsRead i (Inr b) s) = hsReadErr s"
  "hsReading (hsRead i (Inr b) s) = (if b = ack then False else if b = synAck then \<not> i else hsReading s)"
  by (simp_all add: hsRead_def split: sum.splits)

lemma run_steps:
  shows write_A: "hsWriter a = AtWrite \<Longrightarrow> hs\<^sup>*\<^sup>* (a, b, ia, ib) (sent a, b, ia, add_mset (hsSend a) ib)"
    and write_B: "hsWriter b = AtWrite \<Longrightarrow> hs\<^sup>*\<^sup>* (a, b, ia, ib) (a, sent b, add_mset (hsSend b) ia, ib)"
    and read_A: "hsReading a \<Longrightarrow> hs\<^sup>*\<^sup>* (a, b, add_mset p ia, ib) (hsRead True (Inr p) a, b, ia, ib)"
    and read_B: "hsReading b \<Longrightarrow> hs\<^sup>*\<^sup>* (a, b, ia, add_mset p ib) (a, hsRead False (Inr p) b, ia, ib)"
proof -
  show "hs\<^sup>*\<^sup>* (a, b, ia, ib) (sent a, b, ia, add_mset (hsSend a) ib)" if "hsWriter a = AtWrite"
    using hs.initiator[OF moves.wrote[of a True ia ib], of b]
      hs.initiator[OF moves.tested[of "hsWrite None a" True ia "add_mset (hsSend a) ib"], of b] that
    by (auto simp: hsWrite_def sent_def intro: rtranclp.intros)
  show "hs\<^sup>*\<^sup>* (a, b, ia, ib) (a, sent b, add_mset (hsSend b) ia, ib)" if "hsWriter b = AtWrite"
    using hs.listener[OF moves.wrote[of b False ib ia], of a]
      hs.listener[OF moves.tested[of "hsWrite None b" False ib "add_mset (hsSend b) ia"], of a] that
    by (auto simp: hsWrite_def sent_def intro: rtranclp.intros)
  show "hs\<^sup>*\<^sup>* (a, b, add_mset p ia, ib) (hsRead True (Inr p) a, b, ia, ib)" if "hsReading a"
    using hs.initiator[OF moves.read[of a True p ia ib], of b] that by auto
  show "hs\<^sup>*\<^sup>* (a, b, ia, add_mset p ib) (a, hsRead False (Inr p) b, ia, ib)" if "hsReading b"
    using hs.listener[OF moves.read[of b False p ib ia], of a] that by auto
qed

lemma succeededI: "hsWriter s = Over \<Longrightarrow> established s \<Longrightarrow> hsWriteErr s = None \<Longrightarrow> succeeded s"
  by (simp add: succeeded_def hsDone_def established_def hsResult_def)

text \<open>An established listener, whose initiator is established as well: both send their \<^verbatim>\<open>ack\<close>.\<close>

definition canFinish :: "link \<Rightarrow> bool" where
  "canFinish c \<longleftrightarrow> (\<exists>a b ia ib. hs\<^sup>*\<^sup>* c (a, b, ia, ib) \<and> succeeded a \<and> succeeded b)"

lemma canFinish_step: "hs\<^sup>*\<^sup>* c d \<Longrightarrow> canFinish d \<Longrightarrow> canFinish c"
  by (meson canFinish_def rtranclp_trans)

definition noErr :: "side \<Rightarrow> bool" where
  "noErr s \<longleftrightarrow> hsWriteErr s = None \<and> hsReadErr s = None"

lemma both_established:
  assumes "hsWriter a = AtWrite \<or> hsWriter a = Over" "hsWriter b = AtWrite \<or> hsWriter b = Over" "hsSend a = ack" "hsSend b = ack"
    and "established a" "established b" "noErr a" "noErr b"
  shows "canFinish (a, b, ia, ib)"
proof -
  have last: "canFinish (a', b, ia', ib')" if "succeeded a'" for a' ia' ib'
  proof (cases "hsWriter b = Over")
    case True
    then have "succeeded b" using assms by (auto intro: succeededI simp: noErr_def)
    with that show ?thesis unfolding canFinish_def by blast
  next
    case False
    then have w: "hsWriter b = AtWrite" using assms(2) by simp
    have "succeeded (sent b)" using assms by (auto intro!: succeededI simp: noErr_def established_def)
    with that write_B[OF w] show ?thesis unfolding canFinish_def by blast
  qed
  show ?thesis
  proof (cases "hsWriter a = Over")
    case True
    then have "succeeded a" using assms by (auto intro: succeededI simp: noErr_def)
    then show ?thesis by (rule last)
  next
    case False
    then have w: "hsWriter a = AtWrite" using assms(1) by simp
    have "succeeded (sent a)" using assms by (auto intro!: succeededI simp: noErr_def established_def)
    then show ?thesis by (intro canFinish_step[OF write_A[OF w]] last)
  qed
qed

text \<open>The initiator is established and its \<^verbatim>\<open>ack\<close> not yet sent: the listener gets it.\<close>

lemma initiator_first:
  assumes "hsWriter a = AtWrite" "hsWriter b = AtWrite \<or> hsWriter b = Over" "hsSend a = ack"
    and "established a" "hsReading b" "noErr a" "noErr b"
  shows "canFinish (a, b, ia, ib)"
proof (rule canFinish_step[OF write_A[OF assms(1)]], unfold assms(3), rule canFinish_step[OF read_B[OF assms(5)]])
  show "canFinish (sent a, hsRead False (Inr ack) b, ia, ib)"
    using assms by (intro both_established) (auto simp: noErr_def established_def)
qed

lemma can_finish:
  assumes "hsWriter a = AtWrite" "hsWriter b = AtWrite" "noErr a" "noErr b" "sane a" "sane b"
    and ack: "hsSend a = ack \<longleftrightarrow> established a" "established b \<Longrightarrow> hsSend a = ack \<and> hsSend b = ack"
  shows "canFinish (a, b, ia, ib)"
proof (cases "established a")
  case True
  show ?thesis
  proof (cases "established b")
    case True
    with \<open>established a\<close> assms show ?thesis by (intro both_established) auto
  next
    case False
    with \<open>established a\<close> assms show ?thesis by (intro initiator_first) (auto simp: established_def noErr_def)
  qed
next
  case False
  then have ra: "hsReading a" "hsSend a \<noteq> ack" using assms(3) ack(1) by (auto simp: established_def noErr_def)
  have rb: "hsReading b" using False ack assms(4) by (auto simp: established_def noErr_def)
  let ?a = "sent a" and ?b = "hsRead False (Inr (hsSend a)) b"
  have pa: "hsSend a = syn \<or> hsSend a = synAck" using assms(5) ra(2) by (simp add: sane_def)
  have b: "hsWriter ?b = AtWrite" "hsReading ?b" "hsSend ?b = synAck \<or> hsSend ?b = ack"
    using assms(2) rb pa by (auto simp: reader_send)
  let ?c = "hsRead True (Inr (hsSend ?b)) ?a"
  have run: "hs\<^sup>*\<^sup>* (a, b, ia, ib) (?c, sent ?b, ia, ib)"
  proof -
    have "hs\<^sup>*\<^sup>* (a, b, ia, ib) (?a, b, ia, add_mset (hsSend a) ib)" by (rule write_A[OF assms(1)])
    also have "hs\<^sup>*\<^sup>* \<dots> (?a, ?b, ia, ib)" by (rule read_B[OF rb])
    also have "hs\<^sup>*\<^sup>* \<dots> (?a, sent ?b, add_mset (hsSend ?b) ia, ib)" by (rule write_B[OF b(1)])
    also have "hs\<^sup>*\<^sup>* \<dots> (?c, sent ?b, ia, ib)" by (rule read_A) (simp add: ra)
    finally show ?thesis .
  qed
  have "canFinish (?c, sent ?b, ia, ib)"
    using assms(3,4) ra b by (intro initiator_first) (auto simp: established_def noErr_def reader_send)
  with run show ?thesis by (rule canFinish_step)
qed

section \<open>Half open\<close>

text \<open>A step in which no packet is lost or duplicated and no read or write fails.\<close>

inductive flawless :: "link \<Rightarrow> link \<Rightarrow> bool" where
  wrote_A: "hsWriter a = AtWrite \<Longrightarrow> flawless (a, b, ia, ib) (hsWrite None a, b, ia, add_mset (hsSend a) ib)"
| wrote_B: "hsWriter b = AtWrite \<Longrightarrow> flawless (a, b, ia, ib) (a, hsWrite None b, add_mset (hsSend b) ia, ib)"
| tested_A: "hsWriter a = AtCheck \<Longrightarrow> flawless (a, b, ia, ib) (hsCheck a, b, ia, ib)"
| tested_B: "hsWriter b = AtCheck \<Longrightarrow> flawless (a, b, ia, ib) (a, hsCheck b, ia, ib)"
| readA: "hsReading a \<Longrightarrow> flawless (a, b, add_mset p ia, ib) (hsRead True (Inr p) a, b, ia, ib)"
| readB: "hsReading b \<Longrightarrow> flawless (a, b, ia, add_mset p ib) (a, hsRead False (Inr p) b, ia, ib)"

lemma flawless_hs: "flawless c d \<Longrightarrow> hs c d"
  by (induction rule: flawless.induct) (auto intro: hs.intros moves.intros)

lemma flawless_reached: "flawless\<^sup>*\<^sup>* c d \<Longrightarrow> hs\<^sup>*\<^sup>* c d"
  by (rule mono_rtranclp[rule_format, of flawless hs]) (rule flawless_hs)

text \<open>The initiator's writer writes nothing any more: it is over, or about to find that it sends \<^verbatim>\<open>ack\<close>.\<close>

definition silent :: "side \<Rightarrow> bool" where
  "silent a \<longleftrightarrow> hsWriter a = Over \<or> hsWriter a = AtCheck \<and> hsSend a = ack \<and> established a"

lemma silent_step:
  "moves True (a, ia, ib) (a', ia', ib') \<Longrightarrow> silent a \<Longrightarrow> silent a' \<and> (p \<in># ib' \<longleftrightarrow> p \<in># ib)"
  by (erule movesE) (auto simp: silent_def hsCheck_def established_def)

text \<open>Until it has written its \<^verbatim>\<open>ack\<close> the listener cannot be established.\<close>

definition beforeAck :: "link \<Rightarrow> bool" where
  "beforeAck c = (case c of (a, b, ia, ib) \<Rightarrow> hsWriter a = AtWrite \<longrightarrow> ack \<notin># ib \<and> \<not> established b)"

lemma check_again: "hsWriter (hsCheck s) = AtWrite \<Longrightarrow> hsSend s \<noteq> ack"
  by (auto simp: hsCheck_def split: if_splits)

lemma before_ack: "hs\<^sup>*\<^sup>* hsStart c \<Longrightarrow> beforeAck c"
proof (induction rule: rtranclp_induct)
  case base
  show ?case by (simp add: beforeAck_def hsStart_def hsNew_def established_def)
next
  case (step c d)
  note inv = hs_invariant[OF step(1)]
  from step(2) show ?case
  proof cases
    case (initiator a ia ib a' ia' ib' b)
    from initiator(3) show ?thesis
      using step.IH inv unfolding initiator(1,2)
      by (cases rule: movesE) (auto simp: beforeAck_def hsInv_def acked_def hsWrite_def dest: check_again)
  next
    case (listener b ib ia b' ib' ia' a)
    then show ?thesis
      using step.IH inv listener_established[OF listener(3)] moves_in[OF listener(3), of ack]
      by (auto simp: beforeAck_def hsInv_def)
  qed
qed

text \<open>Without an \<^verbatim>\<open>ack\<close> in flight or to come the listener is never established.\<close>

definition halfOpen :: "link \<Rightarrow> bool" where
  "halfOpen c = (case c of (a, b, ia, ib) \<Rightarrow> silent a \<and> ack \<notin># ib \<and> \<not> established b \<and> sane b)"

lemma silent_forever:
  assumes "hs\<^sup>*\<^sup>* (a, b, ia, ib) (a', b', ia', ib')" "silent a"
  shows "silent a'"
  using assms(1) assms(2)
proof (induction "(a, b, ia, ib)" arbitrary: a b ia ib rule: converse_rtranclp_induct)
  case (step d)
  from step(1) show ?case
    by cases (use step silent_step in auto)
qed simp

lemma halfOpen_stays: "hs c d \<Longrightarrow> halfOpen c \<Longrightarrow> halfOpen d"
proof (induction rule: hs.induct)
  case (initiator a ia ib a' ia' ib' b)
  with silent_step[OF initiator(1)] show ?case by (auto simp: halfOpen_def)
next
  case (listener b ib ia b' ib' ia' a)
  with moves_in[OF listener(1)] moves_established[OF listener(1)] moves_sane[OF listener(1)]
  show ?case by (auto simp: halfOpen_def)
qed

lemma halfOpen_forever:
  assumes "hs\<^sup>*\<^sup>* c (a, b, ia, ib)" "halfOpen c"
  shows "\<not> succeeded b"
proof -
  have "halfOpen (a, b, ia, ib)"
    using assms by (induction rule: rtranclp_induct) (auto intro: halfOpen_stays)
  then show ?thesis using succeeded_established by (auto simp: halfOpen_def)
qed

text \<open>The race: \<^verbatim>\<open>syn-ack\<close> is read between the initiator's write of \<^verbatim>\<open>syn\<close> and the test.\<close>

definition raceInitiator :: side where
  "raceInitiator = hsCheck (hsRead True (Inr synAck) (hsWrite None hsNew))"

definition raceListener :: side where
  "raceListener = hsCheck (hsWrite None (hsRead False (Inr syn) hsNew))"

lemma race_run: "flawless\<^sup>*\<^sup>* hsStart (raceInitiator, raceListener, {#}, {#})"
proof -
  let ?a = "hsWrite None hsNew" and ?b = "hsRead False (Inr syn) hsNew"
  have new: "hsWriter hsNew = AtWrite" "hsReading hsNew" "hsSend hsNew = syn" by (simp_all add: hsNew_def)
  have w: "hsWriter (hsWrite None s) = AtCheck" for s by (simp add: hsWrite_def)
  have "flawless\<^sup>*\<^sup>* hsStart (?a, hsNew, {#}, {#syn#})"
    using flawless.wrote_A[OF new(1), of hsNew "{#}" "{#}"] new(3) by (auto simp: hsStart_def)
  also have "flawless \<dots> (?a, ?b, {#}, {#})" by (rule flawless.readB[OF new(2)])
  also have "flawless \<dots> (?a, hsWrite None ?b, {#synAck#}, {#})"
    using flawless.wrote_B[of ?b ?a "{#}" "{#}"] new by simp
  also have "flawless \<dots> (hsRead True (Inr synAck) ?a, hsWrite None ?b, {#}, {#})"
    by (rule flawless.readA) (simp add: new)
  also have "flawless \<dots> (raceInitiator, hsWrite None ?b, {#}, {#})"
    unfolding raceInitiator_def by (rule flawless.tested_A) (simp add: w)
  also have "flawless \<dots> (raceInitiator, raceListener, {#}, {#})"
    unfolding raceListener_def by (rule flawless.tested_B) (simp add: w)
  finally show ?thesis .
qed

lemma race_end:
  "succeeded raceInitiator" "hsReading raceListener" "halfOpen (raceInitiator, raceListener, {#}, {#})"
  using hs_invD(2)[OF flawless_reached[OF race_run]]
  by (simp_all add: halfOpen_def silent_def established_def raceInitiator_def raceListener_def
      hsCheck_def hsRead_def hsWrite_def hsNew_def succeeded_def hsDone_def hsResult_def)

section \<open>Properties\<close>

text \<open>C17. The handshake does not succeed alone: in every state reached over a network that loses,
  duplicates and reorders packets, a listener that has succeeded knows that the initiator's reader
  is established and sends \<^verbatim>\<open>ack\<close>, and an initiator that has succeeded that the listener has
  received one of its packets.\<close>

theorem handshake_agrees:
  assumes "hs\<^sup>*\<^sup>* hsStart (a, b, ia, ib)"
  shows "(succeeded b \<longrightarrow> established a \<and> hsSend a = ack) \<and> (succeeded a \<longrightarrow> hsSend b \<noteq> syn)"
  using hs_invD[OF assms] succeeded_established by (auto simp: acked_def heard_def)

text \<open>C35. The handshake can always be completed: from every state reached in which both writers are
  about to write and nothing has failed, whatever was lost until then, there is a continuation
  in which both sides succeed.\<close>

theorem handshake_completes:
  assumes "hs\<^sup>*\<^sup>* hsStart (a, b, ia, ib)" "hsWriter a = AtWrite" "hsWriter b = AtWrite" "noErr a" "noErr b"
  shows "\<exists>a' b' ia' ib'. hs\<^sup>*\<^sup>* (a, b, ia, ib) (a', b', ia', ib') \<and> succeeded a' \<and> succeeded b'"
proof -
  note i = hs_invD[OF assms(1)]
  have "hsSend a = ack \<longleftrightarrow> established a" "established b \<Longrightarrow> hsSend a = ack \<and> hsSend b = ack"
    using i(5) by (auto simp: acked_def)
  from can_finish[OF assms(2-5) i(1,2) this] show ?thesis by (simp add: canFinish_def)
qed

lemma handshake_completes_witness:
  "\<exists>a b ia ib. hs\<^sup>*\<^sup>* hsStart (a, b, ia, ib) \<and> succeeded a \<and> succeeded b"
  using handshake_completes[of hsNew hsNew "{#}" "{#}"] by (auto simp: hsStart_def hsNew_def noErr_def)

text \<open>One packet lost: the run after it.\<close>

lemma handshake_agrees_witness:
  "\<exists>a b ia ib. hs\<^sup>*\<^sup>* hsStart (a, b, ia, ib) \<and> succeeded b \<and> established a"
proof -
  obtain a b ia ib where r: "hs\<^sup>*\<^sup>* hsStart (a, b, ia, ib)" "succeeded b"
    using can_finish[of hsNew hsNew "{#}" "{#}"] unfolding canFinish_def hsStart_def[symmetric]
    by (auto simp: hsNew_def noErr_def sane_def established_def)
  with handshake_agrees[OF r(1)] show ?thesis by blast
qed

text \<open>C36. The handshake can end half open. Once the initiator has written its \<^verbatim>\<open>ack\<close> it never writes
  again, and when that packet is lost the listener succeeds in no continuation. The same end is
  reached by a run in which no packet is lost or duplicated, nothing fails and nothing is left in
  flight: \<^verbatim>\<open>syn-ack\<close> is read between the initiator's write of \<^verbatim>\<open>syn\<close> and its test of the shared
  variable, so that the initiator stops, and succeeds, as if it had sent \<^verbatim>\<open>ack\<close>.\<close>

theorem handshake_half_open:
  assumes "hs\<^sup>*\<^sup>* hsStart (a, b, ia, ib)" "hsWriter a = AtWrite" "hsSend a = ack"
  shows
    "(\<forall>a' b' ia' ib'. hs\<^sup>*\<^sup>* (hsWrite None a, b, ia, add_mset ack ib) (a', b', ia', ib') \<longrightarrow> hsWriter a' \<noteq> AtWrite) \<and>
     \<not> (\<exists>a' b' ia' ib'. hs\<^sup>*\<^sup>* (hsWrite None a, b, ia, ib) (a', b', ia', ib') \<and> succeeded b') \<and>
     (\<exists>c d. flawless\<^sup>*\<^sup>* hsStart (c, d, {#}, {#}) \<and> succeeded c \<and> hsReading d \<and>
        \<not> (\<exists>a' b' ia' ib'. hs\<^sup>*\<^sup>* (c, d, {#}, {#}) (a', b', ia', ib') \<and> succeeded b'))"
proof -
  note inv = hs_invD[OF assms(1)]
  have "established a" using inv(5) assms(3) by (simp add: acked_def)
  then have w: "silent (hsWrite None a)"
    using assms(3) by (simp add: silent_def established_def hsWrite_def)
  moreover have "halfOpen (hsWrite None a, b, ia, ib)"
    using before_ack[OF assms(1)] assms(2) w inv(2) by (simp add: beforeAck_def halfOpen_def)
  ultimately show ?thesis
    using silent_forever halfOpen_forever race_run race_end unfolding silent_def by (metis writerAt.distinct(1,3))
qed

text \<open>The initiator that has read \<^verbatim>\<open>syn-ack\<close> while its writer was pausing.\<close>

lemma handshake_half_open_witness:
  "\<not> (\<exists>a b ia ib. hs\<^sup>*\<^sup>* (hsWrite None (hsRead True (Inr synAck) (sent hsNew)), sent (hsRead False (Inr syn) hsNew), {#}, {#})
       (a, b, ia, ib) \<and> succeeded b)"
proof -
  let ?a = "hsRead True (Inr synAck) (sent hsNew)" and ?b = "hsRead False (Inr syn) hsNew"
  have new: "hsWriter hsNew = AtWrite" "hsReading hsNew" "hsSend hsNew = syn" by (simp_all add: hsNew_def)
  have "hs\<^sup>*\<^sup>* hsStart (sent hsNew, hsNew, {#}, {#syn#})"
    using write_A[OF new(1), of hsNew "{#}" "{#}"] new(3) by (simp add: hsStart_def)
  also have "hs\<^sup>*\<^sup>* \<dots> (sent hsNew, ?b, {#}, {#})" by (rule read_B[OF new(2)])
  also have "hs\<^sup>*\<^sup>* \<dots> (sent hsNew, sent ?b, {#synAck#}, {#})"
    using write_B[of ?b "sent hsNew" "{#}" "{#}"] new by simp
  also have "hs\<^sup>*\<^sup>* \<dots> (?a, sent ?b, {#}, {#})" by (rule read_A) (simp add: new)
  finally show ?thesis using handshake_half_open[of ?a "sent ?b" "{#}" "{#}"] new by simp
qed

end
