(* ===== verification/Sctp.thy ===== *)
theory Sctp
  imports Handshake
begin

text \<open>
  The connection below a wormhole, \<^verbatim>\<open>wormhole/sctp\<close>: addresses (\<^verbatim>\<open>client.go\<close>, \<^verbatim>\<open>conn.go\<close>), the
  client with its socket, association and stream (\<^verbatim>\<open>client.go\<close>), STUN requests (\<^verbatim>\<open>udp.go\<close>). UDP
  sockets, the SCTP and the STUN library are functions of the record \<open>sctpLib\<close> over a state \<open>'w\<close>
  of the outside.
\<close>

section \<open>Addresses\<close>

record addr =
  adIP :: string
  adPort :: int

definition addrString :: "addr \<Rightarrow> string" where
  "addrString a = adIP a @ '':'' @ formatInt (adPort a)"

text \<open>\<^verbatim>\<open>strings.SplitN(s, ":", 2)\<close>: the parts before and after the first colon.\<close>

definition ParseAddr :: "string \<Rightarrow> err + addr" where
  "ParseAddr s =
     (case dropWhile (\<lambda>c. c \<noteq> CHR '':'') s of [] \<Rightarrow> Inl (Err ''invalid addr'')
      | _ # rest \<Rightarrow>
          (case parseInt rest of Inl e \<Rightarrow> Inl e
           | Inr p \<Rightarrow> Inr \<lparr>adIP = takeWhile (\<lambda>c. c \<noteq> CHR '':'') s, adPort = p\<rparr>))"

text \<open>\<^verbatim>\<open>net.ParseIP\<close> of dotted decimal text: four numbers up to 255.\<close>

fun parseIPv4From :: "nat \<Rightarrow> string \<Rightarrow> nat list option" where
  "parseIPv4From k s =
     (let ds = takeWhile isDigit s; rest = dropWhile isDigit s
      in case parseUint ds of None \<Rightarrow> None
      | Some n \<Rightarrow>
          if 255 < n then None
          else if k = 0 then (if rest = [] then Some [n] else None)
          else (case rest of [] \<Rightarrow> None
                | c # r \<Rightarrow> if c = CHR ''.'' then map_option (Cons n) (parseIPv4From (k - 1) r) else None))"

declare parseIPv4From.simps [simp del]

definition parseIPv4 :: "string \<Rightarrow> nat list option" where
  "parseIPv4 s = parseIPv4From 3 s"

text \<open>\<open>to4\<close> gives the IPv4 address that an IPv6 text stands for, if any. The first dot or colon decides.\<close>

definition parseIP :: "(string \<Rightarrow> nat list option) \<Rightarrow> string \<Rightarrow> nat list option" where
  "parseIP to4 s =
     (case dropWhile (\<lambda>c. c \<noteq> CHR ''.'' \<and> c \<noteq> CHR '':'') s of [] \<Rightarrow> None
      | c # _ \<Rightarrow> if c = CHR ''.'' then parseIPv4 s else to4 s)"

definition ipNumber :: "nat list \<Rightarrow> nat" where
  "ipNumber ip = foldl (\<lambda>n b. 256 * n + b) 0 ip"

text \<open>Networks as the address and the number of leading bits.\<close>

definition privateCIDRs :: "(nat list \<times> nat) list" where
  "privateCIDRs = [([10, 0, 0, 0], 8), ([172, 16, 0, 0], 12), ([192, 168, 0, 0], 16)]"

definition cidrContains :: "nat list \<times> nat \<Rightarrow> nat list \<Rightarrow> bool" where
  "cidrContains cidr ip \<longleftrightarrow>
     ipNumber ip div 2 ^ (32 - snd cidr) = ipNumber (fst cidr) div 2 ^ (32 - snd cidr)"

definition IsPrivateIP :: "(string \<Rightarrow> nat list option) \<Rightarrow> string \<Rightarrow> bool" where
  "IsPrivateIP to4 ips =
     (case parseIP to4 ips of None \<Rightarrow> False | Some ip \<Rightarrow> list_ex (\<lambda>cidr. cidrContains cidr ip) privateCIDRs)"

text \<open>An address of an interface: whether it is a loopback, its IPv4 text; \<open>None\<close> is a nil IP.\<close>

record netIP =
  niLoopback :: bool
  ni4 :: "string option"

record netIface =
  nfUp :: bool
  nfLoopback :: bool
  nfAddrs :: "err + netIP option list"

fun firstIPv4 :: "netIP option list \<Rightarrow> string option" where
  "firstIPv4 [] = None"
| "firstIPv4 (None # as) = firstIPv4 as"
| "firstIPv4 (Some a # as) =
     (if niLoopback a then firstIPv4 as else case ni4 a of None \<Rightarrow> firstIPv4 as | Some s \<Rightarrow> Some s)"

primrec externalIP :: "netIface list \<Rightarrow> err + string" where
  "externalIP [] = Inl (Err ''no network connection found'')"
| "externalIP (f # fs) =
     (if \<not> nfUp f \<or> nfLoopback f then externalIP fs
      else case nfAddrs f of Inl e \<Rightarrow> Inl e
      | Inr as \<Rightarrow> (case firstIPv4 as of None \<Rightarrow> externalIP fs | Some ip \<Rightarrow> Inr ip))"

section \<open>The client\<close>

record ('c, 'h, 't, 'w) sctpClient =
  scConn :: "'c option"
  scAssoc :: "'h option"
  scStream :: "'t option"
  scOut :: 'w

text \<open>What happens while STUN is waited for; when nothing else does, the ten seconds pass.\<close>

datatype stunEvent = StunContext err | StunClosed | StunMessage string

record ('c, 'h, 't, 'w) sctpLib =
  \<comment> \<open>net: ListenUDP, the port of LocalAddr, ResolveUDPAddr as text, Interfaces, IPv6 to IPv4\<close>
  slListen :: "('w, 'c) op"
  slLocalPort :: "'c \<Rightarrow> err + int"
  slResolve :: "string \<Rightarrow> err + string"
  slInterfaces :: "err + netIface list"
  slTo4 :: "string \<Rightarrow> nat list option"
  \<comment> \<open>ReadFromUDP (limit): data and sender; WriteToUDP; what a handshake meets (peer)\<close>
  slReadFrom :: "'c \<Rightarrow> nat \<Rightarrow> ('w, string \<times> string) op"
  slWriteTo :: "'c \<Rightarrow> string \<Rightarrow> string \<Rightarrow> ('w, unit) op"
  slHandshake :: "'c \<Rightarrow> string \<Rightarrow> ('w, hsEvent list) op"
  \<comment> \<open>gortc.io/stun: MustBuild of a binding request, IsMessage, Decode, XORMappedAddress.GetFrom\<close>
  slBinding :: "('w, string) op"
  slStun :: "'c \<Rightarrow> ('w, stunEvent list) op"
  slIsMessage :: "string \<Rightarrow> bool"
  slDecode :: "string \<Rightarrow> err + unit"
  slXorAddr :: "string \<Rightarrow> err + addr"
  \<comment> \<open>pion/sctp: Client and Server (peer), OpenStream, AcceptStream, streams, closing\<close>
  slClient :: "'c \<Rightarrow> string \<Rightarrow> ('w, 'h) op"
  slServer :: "'c \<Rightarrow> string \<Rightarrow> ('w, 'h) op"
  slOpenStream :: "'h \<Rightarrow> ('w, 't) op"
  slAccept :: "'h \<Rightarrow> ('w, 't) op"
  slSend :: "'t \<Rightarrow> string \<Rightarrow> ('w, unit) op"
  slRecv :: "'t \<Rightarrow> nat \<Rightarrow> ('w, string) op"
  slCloseStream :: "'t \<Rightarrow> ('w, unit) op"
  slCloseAssoc :: "'h \<Rightarrow> ('w, unit) op"
  slCloseConn :: "'c \<Rightarrow> ('w, unit) op"

type_synonym ('c, 'h, 't, 'w, 'a) rtc = "(('c, 'h, 't, 'w) sctpClient, 'a) op"

definition onOut :: "('w, 'a) op \<Rightarrow> ('c, 'h, 't, 'w, 'a) rtc" where
  "onOut m = zoom scOut (\<lambda>w s. s\<lparr>scOut := w\<rparr>) m"

definition newRtc :: "'w \<Rightarrow> ('c, 'h, 't, 'w) sctpClient" where
  "newRtc w = \<lparr>scConn = None, scAssoc = None, scStream = None, scOut = w\<rparr>"

text \<open>Closing ignores the errors of what it closes, and may be repeated.\<close>

definition closing :: "('x \<Rightarrow> ('w, unit) op) \<Rightarrow> 'x option \<Rightarrow> ('c, 'h, 't, 'w, unit) rtc" where
  "closing close x = (case x of None \<Rightarrow> ret () | Some y \<Rightarrow> orElse (onOut (close y)) (\<lambda>_. ret ()) (\<lambda>_. ret ()))"

definition rtcClose :: "('c, 'h, 't, 'w) sctpLib \<Rightarrow> ('c, 'h, 't, 'w, unit) rtc" where
  "rtcClose S =
     bnd (gets (\<lambda>s. s)) (\<lambda>s.
     bnd (closing (slCloseStream S) (scStream s)) (\<lambda>_.
     bnd (closing (slCloseAssoc S) (scAssoc s)) (\<lambda>_.
     closing (slCloseConn S) (scConn s))))"

text \<open>\<open>ctxErr\<close> is the error of a context that has ended.\<close>

definition rtcWrite :: "('c, 'h, 't, 'w) sctpLib \<Rightarrow> err option \<Rightarrow> string \<Rightarrow> ('c, 'h, 't, 'w, unit) rtc" where
  "rtcWrite S ctxErr b =
     bnd (gets scStream) (\<lambda>st.
     case st of None \<Rightarrow> fail (Err ''no stream'')
     | Some t \<Rightarrow>
         (case ctxErr of Some e \<Rightarrow> fail e
          | None \<Rightarrow> wrapErr ''stream write error'' (onOut (slSend S t b))))"

definition rtcRead :: "('c, 'h, 't, 'w) sctpLib \<Rightarrow> err option \<Rightarrow> nat \<Rightarrow> ('c, 'h, 't, 'w, string) rtc" where
  "rtcRead S ctxErr n =
     bnd (gets scStream) (\<lambda>st.
     case st of None \<Rightarrow> fail (Err ''no stream'')
     | Some t \<Rightarrow> (case ctxErr of Some e \<Rightarrow> fail e | None \<Rightarrow> onOut (slRecv S t n)))"

text \<open>The socket is kept only when all of it succeeds.\<close>

definition rtcLocal :: "('c, 'h, 't, 'w) sctpLib \<Rightarrow> ('c, 'h, 't, 'w, addr) rtc" where
  "rtcLocal S =
     bnd (wrapErr ''failed to net.ListenUDP'' (onOut (slListen S))) (\<lambda>conn.
     bnd (lift (slLocalPort S conn)) (\<lambda>port.
     bnd (lift (slInterfaces S)) (\<lambda>ifs.
     bnd (lift (externalIP ifs)) (\<lambda>ip.
     bnd (modify (\<lambda>s. s\<lparr>scConn := Some conn\<rparr>)) (\<lambda>_.
     ret \<lparr>adIP = ip, adPort = port\<rparr>)))))"

section \<open>STUN\<close>

definition stunServer :: string where
  "stunServer = ''stun.l.google.com:19302''"

definition sendUDP :: "('c, 'h, 't, 'w) sctpLib \<Rightarrow> string \<Rightarrow> 'c \<Rightarrow> string \<Rightarrow> ('c, 'h, 't, 'w, unit) rtc" where
  "sendUDP S msg conn to = wrapErr ''failed to send'' (onOut (slWriteTo S conn msg to))"

definition sendBindingRequest :: "('c, 'h, 't, 'w) sctpLib \<Rightarrow> 'c \<Rightarrow> string \<Rightarrow> ('c, 'h, 't, 'w, unit) rtc" where
  "sendBindingRequest S conn to =
     bnd (onOut (slBinding S)) (\<lambda>m. wrapErr ''failed to bind'' (sendUDP S m conn to))"

definition stunBindingRequest :: "('c, 'h, 't, 'w) sctpLib \<Rightarrow> 'c \<Rightarrow> ('c, 'h, 't, 'w, unit) rtc" where
  "stunBindingRequest S conn =
     bnd (wrapErr ''failed to resolve addr'' (lift (slResolve S stunServer))) (\<lambda>a. sendBindingRequest S conn a)"

fun stunWait :: "('c, 'h, 't, 'w) sctpLib \<Rightarrow> stunEvent list \<Rightarrow> err + addr" where
  "stunWait S [] = Inl (Err ''stun timed out'')"
| "stunWait S (StunContext e # _) = Inl e"
| "stunWait S (StunClosed # _) = Inl (Err ''stun connection closed'')"
| "stunWait S (StunMessage m # evs) =
     (if \<not> slIsMessage S m then stunWait S evs
      else case slDecode S m of Inl e \<Rightarrow> Inl (Wrapped ''failed to decode stun message'' e)
      | Inr _ \<Rightarrow>
          (case slXorAddr S m of Inl e \<Rightarrow> Inl (Wrapped ''failed to get address from stun'' e) | Inr a \<Rightarrow> Inr a))"

definition rtcSTUN :: "('c, 'h, 't, 'w) sctpLib \<Rightarrow> ('c, 'h, 't, 'w, addr) rtc" where
  "rtcSTUN S =
     bnd (gets scConn) (\<lambda>c.
     bnd (failIf (c \<noteq> None) (Err ''stun already connected'')) (\<lambda>_.
     bnd (wrapErr ''failed to net.ListenUDP'' (rtcLocal S)) (\<lambda>_.
     bnd (gets scConn) (\<lambda>c'.
     case c' of None \<Rightarrow> fail (Panic ''nil pointer'')
     | Some conn \<Rightarrow>
         bnd (stunBindingRequest S conn) (\<lambda>_.
         bnd (onOut (slStun S conn)) (\<lambda>evs. lift (stunWait S evs)))))))"

section \<open>Connecting\<close>

definition rtcHandshake :: "('c, 'h, 't, 'w) sctpLib \<Rightarrow> 'c \<Rightarrow> addr \<Rightarrow> bool \<Rightarrow> ('c, 'h, 't, 'w, unit) rtc" where
  "rtcHandshake S conn a initiator =
     bnd (lift (slResolve S (addrString a))) (\<lambda>udp.
     bnd (onOut (slHandshake S conn udp)) (\<lambda>evs. lift (hsRun initiator hsNew evs)))"

definition readFromUDP :: "('c, 'h, 't, 'w) sctpLib \<Rightarrow> 'c \<Rightarrow> ('c, 'h, 't, 'w, string) rtc" where
  "readFromUDP S conn = bnd (onOut (slReadFrom S conn 1024)) (\<lambda>(b, _). ret b)"

text \<open>The connection that the SCTP library reads and writes through: to and from the peer only.\<close>

definition udpRead :: "('c, 'h, 't, 'w) sctpLib \<Rightarrow> 'c \<Rightarrow> string \<Rightarrow> nat \<Rightarrow> ('c, 'h, 't, 'w, string) rtc" where
  "udpRead S conn peer n =
     bnd (wrapErr ''udp read error'' (onOut (slReadFrom S conn n))) (\<lambda>(b, from').
     bnd (failIf (from' \<noteq> peer) (Err ''received data from an unexpected address'')) (\<lambda>_. ret b))"

definition udpWrite :: "('c, 'h, 't, 'w) sctpLib \<Rightarrow> 'c \<Rightarrow> string \<Rightarrow> string \<Rightarrow> ('c, 'h, 't, 'w, unit) rtc" where
  "udpWrite S conn peer b = wrapErr ''udp write error'' (onOut (slWriteTo S conn b peer))"

definition newUDPConn :: "('c, 'h, 't, 'w) sctpLib \<Rightarrow> addr \<Rightarrow> err + string" where
  "newUDPConn S a = slResolve S (addrString a)"

definition rtcConnect :: "('c, 'h, 't, 'w) sctpLib \<Rightarrow> addr \<Rightarrow> ('c, 'h, 't, 'w, unit) rtc" where
  "rtcConnect S peer =
     bnd (gets (\<lambda>s. s)) (\<lambda>s.
     case scConn s of None \<Rightarrow> fail (Err ''no stun connection, run STUN()'')
     | Some conn \<Rightarrow>
         bnd (failIf (scAssoc s \<noteq> None) (Err ''client already exists'')) (\<lambda>_.
         bnd (failIf (scStream s \<noteq> None) (Err ''stream already exists'')) (\<lambda>_.
         bnd (rtcHandshake S conn peer True) (\<lambda>_.
         bnd (lift (newUDPConn S peer)) (\<lambda>udp.
         bnd (onOut (slClient S conn udp)) (\<lambda>a.
         bnd (modify (\<lambda>s. s\<lparr>scAssoc := Some a\<rparr>)) (\<lambda>_.
         bnd (onOut (slOpenStream S a)) (\<lambda>st.
         modify (\<lambda>s. s\<lparr>scStream := Some st\<rparr>)))))))))"

text \<open>A listener that cannot accept the stream ends the process, \<^verbatim>\<open>log.Fatal\<close>.\<close>

definition rtcListen :: "('c, 'h, 't, 'w) sctpLib \<Rightarrow> addr \<Rightarrow> ('c, 'h, 't, 'w, unit) rtc" where
  "rtcListen S peer =
     bnd (gets (\<lambda>s. s)) (\<lambda>s.
     case scConn s of None \<Rightarrow> fail (Err ''no stun connection, run STUN()'')
     | Some conn \<Rightarrow>
         bnd (failIf (scAssoc s \<noteq> None) (Err ''server already exists'')) (\<lambda>_.
         bnd (failIf (scStream s \<noteq> None) (Err ''stream already exists'')) (\<lambda>_.
         bnd (rtcHandshake S conn peer False) (\<lambda>_.
         bnd (lift (newUDPConn S peer)) (\<lambda>udp.
         bnd (onOut (slServer S conn udp)) (\<lambda>a.
         bnd (modify (\<lambda>s. s\<lparr>scAssoc := Some a\<rparr>)) (\<lambda>_.
         bnd (mapErr (\<lambda>_. Panic ''log.Fatal'') (onOut (slAccept S a))) (\<lambda>st.
         modify (\<lambda>s. s\<lparr>scStream := Some st\<rparr>)))))))))"

section \<open>Round trip of addresses\<close>

lemma takeWhile_colon: "CHR '':'' \<notin> set ip \<Longrightarrow> takeWhile (\<lambda>c. c \<noteq> CHR '':'') (ip @ '':'' @ r) = ip"
  by (induction ip) auto

lemma dropWhile_colon: "CHR '':'' \<notin> set ip \<Longrightarrow> dropWhile (\<lambda>c. c \<noteq> CHR '':'') (ip @ '':'' @ r) = '':'' @ r"
  by (induction ip) auto

lemma parse_addrString:
  "CHR '':'' \<notin> set (adIP a) \<Longrightarrow> int64_ok (adPort a) \<Longrightarrow> ParseAddr (addrString a) = Inr a"
  unfolding ParseAddr_def addrString_def takeWhile_colon dropWhile_colon by simp

end
