(* ===== verification/Wormhole.thy ===== *)
theory Wormhole
  imports Sctp ClientApi
begin

text \<open>
  A wormhole, \<^verbatim>\<open>wormhole/wormhole.go\<close>, \<^verbatim>\<open>message.go\<close> and \<^verbatim>\<open>vault.go\<close>: two participants find each other
  by offers and answers on the discovery server, connect by SCTP, shake hands by the noise
  protocol and exchange messages, which are acknowledged. The state \<open>'e\<close> of the environment holds
  the keys and the network of the HTTP client; the noise protocol is a parameter. A goroutine
  that another step starts runs where it is started; the offers written while an answer is
  waited for come between the polls.
\<close>

section \<open>message.go\<close>

datatype messageType = Sent | Pending | Ack
datatype contentType = UTF8Content | BinaryContent

record message =
  msID :: string
  msSender :: string
  msRecipient :: string
  msData :: string
  msContent :: contentType
  msType :: messageType

section \<open>State\<close>

datatype whStatus = SCTPHandshake | NoiseHandshake | Connected | Closed

record ('e, 'c, 'h, 't, 'w, 'q) wormhole =
  whEnv :: 'e
  whHcl :: "'e client"
  whRtc :: "('c, 'h, 't, 'w) sctpClient"
  whCipher :: "'q option"
  whSender :: "edkey option"
  whRecipient :: string
  whOnStatus :: "whStatus \<Rightarrow> 'e \<Rightarrow> 'e"

type_synonym ('e, 'c, 'h, 't, 'w, 'q, 'a) whOp = "(('e, 'c, 'h, 't, 'w, 'q) wormhole, 'a) op"

record ('e, 'c, 'h, 't, 'w, 'q, 'p, 'st) whLib =
  wlX :: ext
  wlW :: web
  wlL :: "('e, 'st) clientLib"
  wlS :: "('c, 'h, 't, 'w) sctpLib"
  \<comment> \<open>httpclient.New; the keys of the interface Vault\<close>
  wlNew :: "string \<Rightarrow> err + 'e client"
  wlKey :: "string \<Rightarrow> ('e, edkey option) op"
  wlKeys :: "('e, edkey list) op"
  \<comment> \<open>NewEdX25519PublicKeyFromID (nil is None), encoding.Decode with Base62\<close>
  wlPub :: "string \<Rightarrow> err + string option"
  wlUnBase62 :: "string \<Rightarrow> err + string"
  \<comment> \<open>noise: NewHandshake (sender, recipient, initiator), Write of nil, Read, Cipher, Encrypt, Decrypt\<close>
  nzNew :: "edkey \<Rightarrow> string \<Rightarrow> bool \<Rightarrow> err + 'p"
  nzWrite :: "'p \<Rightarrow> err + string \<times> 'p"
  nzRead :: "'p \<Rightarrow> string \<Rightarrow> err + 'p"
  nzCipher :: "'p \<Rightarrow> err + 'q"
  nzEncrypt :: "'q \<Rightarrow> string \<Rightarrow> err + string \<times> 'q"
  nzDecrypt :: "'q \<Rightarrow> string \<Rightarrow> err + string \<times> 'q"

definition maxSize :: nat where
  "maxSize = 16 * 1024"

definition onEnv :: "('e, 'a) op \<Rightarrow> ('e, 'c, 'h, 't, 'w, 'q, 'a) whOp" where
  "onEnv m = zoom whEnv (\<lambda>e s. s\<lparr>whEnv := e\<rparr>) m"

definition onRtc :: "('c, 'h, 't, 'w, 'a) rtc \<Rightarrow> ('e, 'c, 'h, 't, 'w, 'q, 'a) whOp" where
  "onRtc m = zoom whRtc (\<lambda>r s. s\<lparr>whRtc := r\<rparr>) m"

definition whNotify :: "whStatus \<Rightarrow> ('e, 'c, 'h, 't, 'w, 'q, unit) whOp" where
  "whNotify st = modify (\<lambda>s. s\<lparr>whEnv := whOnStatus s st (whEnv s)\<rparr>)"

definition whNew ::
  "('e, 'c, 'h, 't, 'w, 'q, 'p, 'st) whLib \<Rightarrow> string \<Rightarrow> 'e \<Rightarrow> 'w \<Rightarrow> err + ('e, 'c, 'h, 't, 'w, 'q) wormhole" where
  "whNew E server e w =
     (case wlNew E (if server = [] then ''https://keys.pub'' else server) of Inl err \<Rightarrow> Inl err
      | Inr hcl \<Rightarrow>
          Inr \<lparr>whEnv = e, whHcl = hcl, whRtc = newRtc w, whCipher = None, whSender = None, whRecipient = [],
               whOnStatus = (\<lambda>_ e. e)\<rparr>)"

definition whSetOnStatus :: "(whStatus \<Rightarrow> 'e \<Rightarrow> 'e) \<Rightarrow> ('e, 'c, 'h, 't, 'w, 'q, unit) whOp" where
  "whSetOnStatus f = modify (\<lambda>s. s\<lparr>whOnStatus := f\<rparr>)"

text \<open>The vault of the tests: a list of keys.\<close>

definition testKey :: "'z ext_scheme \<Rightarrow> string \<Rightarrow> (edkey list, edkey option) op" where
  "testKey X kid = gets (List.find (\<lambda>k. xKeyID X k = kid))"

definition testKeys :: "(edkey list, edkey list) op" where
  "testKeys = gets (\<lambda>ks. ks)"

section \<open>Messages\<close>

definition whWrite ::
  "('e, 'c, 'h, 't, 'w, 'q, 'p, 'st) whLib \<Rightarrow> err option \<Rightarrow> string \<Rightarrow> ('e, 'c, 'h, 't, 'w, 'q, unit) whOp" where
  "whWrite E ctxErr b =
     bnd (gets whCipher) (\<lambda>c.
     case c of None \<Rightarrow> fail (Err ''no channel (noise)'')
     | Some q \<Rightarrow>
         bnd (failIf (length b > maxSize) (Err ''write exceeds max size'')) (\<lambda>_.
         bnd (lift (nzEncrypt E q b)) (\<lambda>(encrypted, q').
         bnd (modify (\<lambda>s. s\<lparr>whCipher := Some q'\<rparr>)) (\<lambda>_.
         onRtc (rtcWrite (wlS E) ctxErr encrypted)))))"

text \<open>The buffer holds \<open>maxSize\<close> bytes of what was encrypted. A nil cipher is a nil interface.\<close>

definition whRead ::
  "('e, 'c, 'h, 't, 'w, 'q, 'p, 'st) whLib \<Rightarrow> err option \<Rightarrow> ('e, 'c, 'h, 't, 'w, 'q, string) whOp" where
  "whRead E ctxErr =
     bnd (onRtc (rtcRead (wlS E) ctxErr maxSize)) (\<lambda>b.
     bnd (gets whCipher) (\<lambda>c.
     case c of None \<Rightarrow> fail (Panic ''nil pointer'')
     | Some q \<Rightarrow>
         bnd (lift (nzDecrypt E q b)) (\<lambda>(decrypted, q').
         bnd (modify (\<lambda>s. s\<lparr>whCipher := Some q'\<rparr>)) (\<lambda>_. ret decrypted))))"

definition whNewID :: "'z ext_scheme \<Rightarrow> nat \<Rightarrow> string" where
  "whNewID X d = xBase62 X (xRand X d 32)"

definition msgByte :: char where "msgByte = CHR 0x01"
definition ackByte :: char where "ackByte = CHR 0x02"
definition closedByte :: char where "closedByte = CHR 0xDE"

lemma frame_bytes [simp]: "ackByte \<noteq> msgByte" "closedByte \<noteq> msgByte" "closedByte \<noteq> ackByte" "msgByte \<noteq> ackByte"
  "msgByte \<noteq> closedByte" "ackByte \<noteq> closedByte"
  by (simp_all add: msgByte_def ackByte_def closedByte_def)

definition WriteMessage ::
  "('e, 'c, 'h, 't, 'w, 'q, 'p, 'st) whLib \<Rightarrow> err option \<Rightarrow> string \<Rightarrow> string \<Rightarrow> contentType \<Rightarrow>
   ('e, 'c, 'h, 't, 'w, 'q, message) whOp" where
  "WriteMessage E ctxErr id' b typ =
     bnd (failIf (int (length b) > int maxSize - 33) (Err ''write exceeds max size'')) (\<lambda>_.
     bnd (gets (\<lambda>s. (whSender s, whRecipient s))) (\<lambda>(sender, recipient).
     case sender of None \<Rightarrow> fail (Err ''no sender'')
     | Some key \<Rightarrow>
         bnd (lift (wlUnBase62 E id')) (\<lambda>decid.
         bnd (failIf (length decid \<noteq> 32) (Err ''invalid id for wormhole write'')) (\<lambda>_.
         bnd (whWrite E ctxErr (msgByte # decid @ b)) (\<lambda>_.
         ret \<lparr>msID = id', msSender = xKeyID (wlX E) key, msRecipient = recipient, msData = b, msContent = typ,
              msType = Pending\<rparr>)))))"

definition writeAck ::
  "('e, 'c, 'h, 't, 'w, 'q, 'p, 'st) whLib \<Rightarrow> err option \<Rightarrow> string \<Rightarrow> ('e, 'c, 'h, 't, 'w, 'q, unit) whOp" where
  "writeAck E ctxErr bid = whWrite E ctxErr (ackByte # bid)"

definition writeClosed ::
  "('e, 'c, 'h, 't, 'w, 'q, 'p, 'st) whLib \<Rightarrow> err option \<Rightarrow> ('e, 'c, 'h, 't, 'w, 'q, unit) whOp" where
  "writeClosed E ctxErr = whWrite E ctxErr [closedByte, CHR 0xAD, CHR 0xBE, CHR 0xEF]"

text \<open>The offer is removed with a context of its own, as is the closing message sent.\<close>

definition whClose :: "('e, 'c, 'h, 't, 'w, 'q, 'p, 'st) whLib \<Rightarrow> ('e, 'c, 'h, 't, 'w, 'q, unit) whOp" where
  "whClose E =
     bnd (whNotify Closed) (\<lambda>_.
     bnd (whSetOnStatus (\<lambda>_ e. e)) (\<lambda>_.
     bnd (gets (\<lambda>s. (whHcl s, whSender s, whRecipient s))) (\<lambda>(hcl, sender, recipient).
     bnd (case sender of None \<Rightarrow> ret ()
          | Some key \<Rightarrow> orElse (onEnv (DiscoDelete (wlX E) (wlW E) hcl key recipient)) (\<lambda>_. ret ()) (\<lambda>_. ret ())) (\<lambda>_.
     bnd (orElse (writeClosed E None) (\<lambda>_. ret ()) (\<lambda>_. ret ())) (\<lambda>_.
     onRtc (rtcClose (wlS E)))))))"

text \<open>The argument \<^verbatim>\<open>ack\<close> is not looked at.\<close>

definition ReadMessage ::
  "('e, 'c, 'h, 't, 'w, 'q, 'p, 'st) whLib \<Rightarrow> err option \<Rightarrow> bool \<Rightarrow> ('e, 'c, 'h, 't, 'w, 'q, message) whOp" where
  "ReadMessage E ctxErr ack' =
     bnd (gets (\<lambda>s. (whSender s, whRecipient s))) (\<lambda>(sender, recipient).
     case sender of None \<Rightarrow> fail (Err ''no sender'')
     | Some key \<Rightarrow>
         bnd (whRead E ctxErr) (\<lambda>b.
         case b of [] \<Rightarrow> fail (Panic ''index out of range'')
         | typ # body \<Rightarrow>
             if typ = closedByte then bnd (whClose E) (\<lambda>_. fail (Err ''closed''))
             else bnd (failIf (length b < 33) (Err ''not enough bytes for a message'')) (\<lambda>_.
                  let bid = take 32 body; payload = drop 32 body; mt = (if typ = ackByte then Ack else Sent);
                      msg = \<lparr>msID = xBase62 (wlX E) bid, msSender = recipient, msRecipient = xKeyID (wlX E) key,
                             msData = payload, msContent = (if utf8Valid payload then UTF8Content else BinaryContent),
                             msType = mt\<rparr>
                  in if mt \<noteq> Ack then bnd (wrapErr ''failed to ack'' (writeAck E ctxErr bid)) (\<lambda>_. ret msg)
                     else ret msg)))"

section \<open>Offers and answers\<close>

definition offerType :: string where "offerType = ''offer''"
definition answerType :: string where "answerType = ''answer''"

definition writeSession ::
  "('e, 'c, 'h, 't, 'w, 'q, 'p, 'st) whLib \<Rightarrow> addr \<Rightarrow> edkey \<Rightarrow> string \<Rightarrow> string \<Rightarrow> duration \<Rightarrow>
   ('e, 'c, 'h, 't, 'w, 'q, unit) whOp" where
  "writeSession E a sender recipient typ expire =
     bnd (gets whHcl) (\<lambda>hcl.
     onEnv (DiscoSave (wlX E) (wlW E) hcl (wlL E) sender recipient typ (addrString a) expire))"

definition writeOffer ::
  "('e, 'c, 'h, 't, 'w, 'q, 'p, 'st) whLib \<Rightarrow> addr \<Rightarrow> edkey \<Rightarrow> string \<Rightarrow> duration \<Rightarrow> ('e, 'c, 'h, 't, 'w, 'q, unit) whOp" where
  "writeOffer E offer sender recipient expire = writeSession E offer sender recipient offerType expire"

definition writeAnswer ::
  "('e, 'c, 'h, 't, 'w, 'q, 'p, 'st) whLib \<Rightarrow> addr \<Rightarrow> edkey \<Rightarrow> string \<Rightarrow> ('e, 'c, 'h, 't, 'w, 'q, unit) whOp" where
  "writeAnswer E answer sender recipient = writeSession E answer sender recipient answerType minute"

definition readOnce ::
  "('e, 'c, 'h, 't, 'w, 'q, 'p, 'st) whLib \<Rightarrow> string \<Rightarrow> edkey \<Rightarrow> string \<Rightarrow> ('e, 'c, 'h, 't, 'w, 'q, addr option) whOp" where
  "readOnce E recipient sender typ =
     bnd (gets whHcl) (\<lambda>hcl.
     bnd (onEnv (Disco (wlX E) (wlW E) hcl (wlL E) recipient sender typ)) (\<lambda>out.
     if out = [] then ret None else bnd (lift (ParseAddr out)) (\<lambda>a. ret (Some a))))"

text \<open>
  Polling until there is an answer or the context ends; \<open>ctxErr i\<close> is what it says after round
  \<open>i\<close>. \<open>meanwhile i alive\<close> is what another goroutine does before round \<open>i\<close>, if it still runs.
\<close>

partial_function (option) readSession ::
  "('e, 'c, 'h, 't, 'w, 'q, 'p, 'st) whLib \<Rightarrow> (nat \<Rightarrow> err option) \<Rightarrow> (nat \<Rightarrow> bool \<Rightarrow> ('e, 'c, 'h, 't, 'w, 'q, bool) whOp) \<Rightarrow>
   string \<Rightarrow> edkey \<Rightarrow> string \<Rightarrow> nat \<Rightarrow> bool \<Rightarrow> ('e, 'c, 'h, 't, 'w, 'q) wormhole \<Rightarrow>
   ((err + addr) \<times> ('e, 'c, 'h, 't, 'w, 'q) wormhole) option" where
  "readSession E ctxErr meanwhile recipient sender typ i alive s =
     (case bnd (meanwhile i alive) (\<lambda>alive'. bnd (readOnce E recipient sender typ) (\<lambda>a. ret (alive', a))) s of
        (Inl e, s') \<Rightarrow> Some (Inl e, s')
      | (Inr (alive', Some a), s') \<Rightarrow> Some (Inr a, s')
      | (Inr (alive', None), s') \<Rightarrow>
          (case ctxErr i of Some e \<Rightarrow> Some (Inl e, s')
           | None \<Rightarrow> readSession E ctxErr meanwhile recipient sender typ (Suc i) alive' s'))"

text \<open>The goroutine of \<^verbatim>\<open>Connect\<close>: \<open>offers i\<close> says whether its ten seconds have passed; it ends at
  the first error.\<close>

definition offerAgain ::
  "('e, 'c, 'h, 't, 'w, 'q, 'p, 'st) whLib \<Rightarrow> (nat \<Rightarrow> bool) \<Rightarrow> addr \<Rightarrow> edkey \<Rightarrow> string \<Rightarrow> nat \<Rightarrow> bool \<Rightarrow>
   ('e, 'c, 'h, 't, 'w, 'q, bool) whOp" where
  "offerAgain E offers offer sender recipient i alive =
     (if alive \<and> offers i
      then orElse (writeOffer E offer sender recipient (15 * second)) (\<lambda>_. ret False) (\<lambda>_. ret True)
      else ret alive)"

text \<open>The key of a participant.\<close>

definition whKeyOf ::
  "('e, 'c, 'h, 't, 'w, 'q, 'p, 'st) whLib \<Rightarrow> string \<Rightarrow> ('e, 'c, 'h, 't, 'w, 'q, edkey) whOp" where
  "whKeyOf E kid =
     bnd (onEnv (wlKey E kid)) (\<lambda>k. case k of None \<Rightarrow> fail (ErrNotFound kid) | Some key \<Rightarrow> ret key)"

section \<open>Connecting\<close>

definition noiseHandshake ::
  "('e, 'c, 'h, 't, 'w, 'q, 'p, 'st) whLib \<Rightarrow> err option \<Rightarrow> edkey \<Rightarrow> string \<Rightarrow> bool \<Rightarrow> ('e, 'c, 'h, 't, 'w, 'q, unit) whOp" where
  "noiseHandshake E ctxErr sender recipient initiator =
     bnd (whNotify NoiseHandshake) (\<lambda>_.
     bnd (gets whCipher) (\<lambda>c.
     bnd (failIf (c \<noteq> None) (Err ''wormhole already started'')) (\<lambda>_.
     bnd (lift (wlPub E recipient)) (\<lambda>pub.
     case pub of None \<Rightarrow> fail (Panic ''nil pointer'')
     | Some pk \<Rightarrow>
         bnd (lift (nzNew E sender pk initiator)) (\<lambda>h0.
         bnd (if initiator
              then bnd (lift (nzWrite E h0)) (\<lambda>(out, h1).
                   bnd (onRtc (rtcWrite (wlS E) ctxErr out)) (\<lambda>_.
                   bnd (onRtc (rtcRead (wlS E) ctxErr 1024)) (\<lambda>b. lift (nzRead E h1 b))))
              else bnd (onRtc (rtcRead (wlS E) ctxErr 1024)) (\<lambda>b.
                   bnd (lift (nzRead E h0 b)) (\<lambda>h1.
                   bnd (lift (nzWrite E h1)) (\<lambda>(out, h2).
                   bnd (onRtc (rtcWrite (wlS E) ctxErr out)) (\<lambda>_. ret h2))))) (\<lambda>h.
         bnd (lift (nzCipher E h)) (\<lambda>q.
         bnd (modify (\<lambda>s. s\<lparr>whCipher := Some q\<rparr>)) (\<lambda>_. whNotify Connected))))))))"

definition whConnect ::
  "('e, 'c, 'h, 't, 'w, 'q, 'p, 'st) whLib \<Rightarrow> err option \<Rightarrow> (nat \<Rightarrow> err option) \<Rightarrow> (nat \<Rightarrow> bool) \<Rightarrow> string \<Rightarrow> string \<Rightarrow> addr \<Rightarrow>
   ('e, 'c, 'h, 't, 'w, 'q) wormhole \<Rightarrow> ((err + unit) \<times> ('e, 'c, 'h, 't, 'w, 'q) wormhole) option" where
  "whConnect E ctxErr ctxConnect offers sender recipient offer =
     bndP (liftP (whKeyOf E sender)) (\<lambda>key.
     bndP (liftP (modify (\<lambda>s. s\<lparr>whSender := Some key, whRecipient := recipient\<rparr>))) (\<lambda>_.
     bndP (readSession E ctxConnect (offerAgain E offers offer key recipient) recipient key answerType 0 True) (\<lambda>answer.
     liftP (bnd (whNotify SCTPHandshake) (\<lambda>_.
            bnd (onRtc (rtcConnect (wlS E) answer)) (\<lambda>_.
            noiseHandshake E ctxErr key recipient True))))))"

definition whListen ::
  "('e, 'c, 'h, 't, 'w, 'q, 'p, 'st) whLib \<Rightarrow> err option \<Rightarrow> string \<Rightarrow> string \<Rightarrow> addr \<Rightarrow> ('e, 'c, 'h, 't, 'w, 'q, unit) whOp" where
  "whListen E ctxErr sender recipient offer =
     bnd (whKeyOf E sender) (\<lambda>key.
     bnd (onRtc (if IsPrivateIP (slTo4 (wlS E)) (adIP offer) then rtcLocal (wlS E) else rtcSTUN (wlS E))) (\<lambda>answer.
     bnd (modify (\<lambda>s. s\<lparr>whSender := Some key, whRecipient := recipient\<rparr>)) (\<lambda>_.
     bnd (writeAnswer E answer key recipient) (\<lambda>_.
     bnd (whNotify SCTPHandshake) (\<lambda>_.
     bnd (onRtc (rtcListen (wlS E) offer)) (\<lambda>_.
     noiseHandshake E ctxErr key recipient False))))))"

text \<open>The first key that the code invites; a failing request ends the search.\<close>

primrec firstInvite ::
  "('e, 'c, 'h, 't, 'w, 'q, 'p, 'st) whLib \<Rightarrow> 'e client \<Rightarrow> string \<Rightarrow> edkey list \<Rightarrow> ('e, (string \<times> string) option) op" where
  "firstInvite E hcl code [] = ret None"
| "firstInvite E hcl code (k # ks) =
     bnd (InviteCode (wlX E) (wlW E) hcl (wlL E) k code) (\<lambda>i.
     case i of None \<Rightarrow> firstInvite E hcl code ks | Some r \<Rightarrow> ret (Some r))"

definition FindInviteCode ::
  "('e, 'c, 'h, 't, 'w, 'q, 'p, 'st) whLib \<Rightarrow> string \<Rightarrow> ('e, 'c, 'h, 't, 'w, 'q, (string \<times> string) option) whOp" where
  "FindInviteCode E code =
     bnd (onEnv (wlKeys E)) (\<lambda>ks. bnd (gets whHcl) (\<lambda>hcl. onEnv (firstInvite E hcl code ks)))"

definition FindOffer ::
  "('e, 'c, 'h, 't, 'w, 'q, 'p, 'st) whLib \<Rightarrow> string \<Rightarrow> string \<Rightarrow> ('e, 'c, 'h, 't, 'w, 'q, addr option) whOp" where
  "FindOffer E recipient sender = bnd (whKeyOf E sender) (\<lambda>key. readOnce E recipient key offerType)"

definition CreateOffer :: "('e, 'c, 'h, 't, 'w, 'q, 'p, 'st) whLib \<Rightarrow> ('e, 'c, 'h, 't, 'w, 'q, addr) whOp" where
  "CreateOffer E = onRtc (rtcSTUN (wlS E))"

definition CreateLocalOffer :: "('e, 'c, 'h, 't, 'w, 'q, 'p, 'st) whLib \<Rightarrow> ('e, 'c, 'h, 't, 'w, 'q, addr) whOp" where
  "CreateLocalOffer E = onRtc (rtcLocal (wlS E))"

text \<open>The response of the server is dereferenced without a test.\<close>

definition CreateInvite ::
  "('e, 'c, 'h, 't, 'w, 'q, 'p, 'st) whLib \<Rightarrow> string \<Rightarrow> string \<Rightarrow> ('e, 'c, 'h, 't, 'w, 'q, string) whOp" where
  "CreateInvite E sender recipient =
     bnd (whKeyOf E sender) (\<lambda>key.
     bnd (gets whHcl) (\<lambda>hcl.
     bnd (onEnv (InviteCodeCreate (wlX E) (wlW E) hcl (wlL E) key recipient)) (\<lambda>invite.
     case invite of None \<Rightarrow> fail (Panic ''nil pointer'') | Some code \<Rightarrow> ret code)))"

end
