(* ===== verification/ServiceState.thy ===== *)
theory ServiceState
  imports ClientApi Keyring VaultSync Sdb Secrets
begin

text \<open>
  The state of the key service, \<^verbatim>\<open>service/service.go\<close>: the vault, the document database, the
  session tokens and whether it is unlocked; and what it calls: the store behind the vault, the
  HTTP client, the keys and users of the \<^verbatim>\<open>keys\<close> module, the environment. All are fields of one
  record, \<open>rpc\<close>. The users index and the sigchains of \<^verbatim>\<open>keys\<close> keep their data in the database of
  the service, and reach the outside (web pages, devices, files) through a state \<open>'w\<close>.
\<close>

section \<open>Data of the keys module\<close>

text \<open>\<^verbatim>\<open>keys.Statement\<close>.\<close>

record stmt =
  stSig :: gobytes
  stData :: gobytes
  stKID :: string
  stSeq :: int
  stPrev :: gobytes
  stRevoke :: int
  stType :: string
  stTimestamp :: gotime

text \<open>\<^verbatim>\<open>user.User\<close>.\<close>

record keyUser =
  usKID :: string
  usService :: string
  usName :: string
  usURL :: string
  usSeq :: int

text \<open>\<^verbatim>\<open>services.KeysPub\<close> and \<^verbatim>\<open>services.Proxy\<close>: whom to ask instead of the user's service.\<close>

datatype proxy = KeysPub | Proxy

section \<open>State\<close>

record ('s, 'n, 'd, 'w) service =
  svVault :: "('s, 'n) vault"
  svDb :: "'d sdbState"
  svWorld :: 'w
  svTokens :: "(string \<times> string) list"
  svUnlocked :: bool
  svChecking :: bool
  svDraws :: nat

type_synonym ('s, 'n, 'd, 'w, 'a) svc = "(('s, 'n, 'd, 'w) service, 'a) op"

type_synonym ('d, 'w, 'a) world = "('d sdbState \<times> 'w, 'a) op"

record ('s, 'n, 'd, 'w, 'k, 'f, 'r) rpc =
  rpX :: ext
  rpI :: "'s store_ops"
  rpW :: web
  rpC :: "'n client"
  rpL :: "('n, stmt) clientLib"
  rpA :: "('f, 'r, stmt) api"
  rpK :: "'k keyLib"
  \<comment> \<open>secrets of the vault, the database library\<close>
  rpSecrets :: secretLib
  rpLdb :: "'d leveldb"
  rpSdb :: sdbLib
  \<comment> \<open>keys.Sigchains: Sigchain (nil or its statements), Save, Delete, Index, Lookup\<close>
  scSigchain :: "string \<Rightarrow> ('d, 'w, stmt list option) world"
  scSave :: "string \<Rightarrow> stmt list \<Rightarrow> ('d, 'w, unit) world"
  scDelete :: "string \<Rightarrow> ('d, 'w, bool) world"
  scIndex :: "string \<Rightarrow> ('d, 'w, unit) world"
  scLookup :: "string \<Rightarrow> ('d, 'w, string) world"
  \<comment> \<open>keys.Sigchain: LastSeq, NewSigchainStatement (data, key, type, time), Revoke (seq, key)\<close>
  scLastSeq :: "stmt list \<Rightarrow> int"
  scStatement :: "string \<Rightarrow> stmt list option \<Rightarrow> gobytes \<Rightarrow> edkey \<Rightarrow> string \<Rightarrow> gotime \<Rightarrow> err + stmt"
  scRevoke :: "string \<Rightarrow> stmt list \<Rightarrow> int \<Rightarrow> edkey \<Rightarrow> err + stmt \<times> stmt list"
  scUserStatement :: "string \<Rightarrow> stmt list \<Rightarrow> keyUser \<Rightarrow> edkey \<Rightarrow> gotime \<Rightarrow> err + stmt"
  \<comment> \<open>users.Users: Get, Update (proxies), Search (query, limit), User, RequestVerify\<close>
  usGet :: "string \<Rightarrow> ('d, 'w, userResult option) world"
  usUpdate :: "(keyUser \<Rightarrow> proxy option) option \<Rightarrow> string \<Rightarrow> ('d, 'w, userResult option) world"
  usSearch :: "string \<Rightarrow> int \<Rightarrow> ('d, 'w, userResult option list) world"
  usUser :: "string \<Rightarrow> ('d, 'w, userResult option) world"
  usVerify :: "string \<Rightarrow> keyUser \<Rightarrow> ('d, 'w, userResult) world"
  \<comment> \<open>user.Status values, User.ID, IsTimestampExpired, IsVerifyExpired (now, age)\<close>
  usOK :: string
  usConnFailure :: string
  usResourceNotFound :: string
  usContentNotFound :: string
  usContentInvalid :: string
  usFailure :: string
  usID :: "userResult \<Rightarrow> string"
  usTsExpired :: "userResult \<Rightarrow> gotime \<Rightarrow> duration \<Rightarrow> bool"
  usVerifyExpired :: "userResult \<Rightarrow> gotime \<Rightarrow> duration \<Rightarrow> bool"
  \<comment> \<open>user.New (kid, service, name, URL, seq), NewForSigning, Sign; validate; LookupService\<close>
  usNew :: "string \<Rightarrow> string \<Rightarrow> string \<Rightarrow> string \<Rightarrow> int \<Rightarrow> err + keyUser"
  usForSigning :: "string \<Rightarrow> string \<Rightarrow> string \<Rightarrow> err + keyUser"
  usSign :: "keyUser \<Rightarrow> edkey \<Rightarrow> err + string"
  usLink :: "string \<Rightarrow> err + (string \<Rightarrow> string) \<times> (string \<Rightarrow> string \<Rightarrow> err + string)"
  usLookupService :: "keyUser \<Rightarrow> (keyUser \<Rightarrow> proxy option) \<Rightarrow> err + string"
  \<comment> \<open>api.Key: type, private part, NewKey of an ID, times; ParseKey (message, password)\<close>
  akType :: "'k \<Rightarrow> string"
  akPrivate :: "'k \<Rightarrow> gobytes"
  akUpdatedAt :: "'k \<Rightarrow> int"
  akNew :: "string \<Rightarrow> 'k"
  akTimes :: "int \<Rightarrow> int \<Rightarrow> 'k \<Rightarrow> 'k"
  akParse :: "string \<Rightarrow> string \<Rightarrow> err + 'k"
  akPublic :: "'k \<Rightarrow> 'k"
  \<comment> \<open>keys.EncodeSSHKey of a key as a public key or whole, with a password\<close>
  akSSH :: "'k \<Rightarrow> bool \<Rightarrow> string \<Rightarrow> err + string"
  \<comment> \<open>GenerateEdX25519Key and GenerateX25519Key by draw; ID.IsEdX25519, ID.Type\<close>
  akGenEd :: "nat \<Rightarrow> 'k"
  akGenX :: "nat \<Rightarrow> 'k"
  idIsEd :: "string \<Rightarrow> bool"
  idType :: "string \<Rightarrow> string"
  \<comment> \<open>the ID of an EdX25519 public key\<close>
  idPub :: "string \<Rightarrow> string"

text \<open>\<^verbatim>\<open>int32\<close> conversion.\<close>

definition i32 :: "int \<Rightarrow> int" where
  "i32 n = (n + 2 ^ 31) mod 2 ^ 32 - 2 ^ 31"

section \<open>Running the parts\<close>

definition onVault :: "(('s, 'n) vault, 'a) op \<Rightarrow> ('s, 'n, 'd, 'w, 'a) svc" where
  "onVault m = zoom svVault (\<lambda>v s. s\<lparr>svVault := v\<rparr>) m"

definition onDb :: "('d sdbState, 'a) op \<Rightarrow> ('s, 'n, 'd, 'w, 'a) svc" where
  "onDb m = zoom svDb (\<lambda>d s. s\<lparr>svDb := d\<rparr>) m"

definition onWorld :: "('d, 'w, 'a) world \<Rightarrow> ('s, 'n, 'd, 'w, 'a) svc" where
  "onWorld m = zoom (\<lambda>s. (svDb s, svWorld s)) (\<lambda>(d, w) s. s\<lparr>svDb := d, svWorld := w\<rparr>) m"

text \<open>Requests of the service's HTTP client, which the vault shares.\<close>

definition onClient :: "('n, 'a) op \<Rightarrow> ('s, 'n, 'd, 'w, 'a) svc" where
  "onClient m = onVault (onNet m)"

text \<open>The clock is shared as well.\<close>

definition svcNow :: "('s, 'n, 'd, 'w, 'k, 'f, 'r) rpc \<Rightarrow> ('s, 'n, 'd, 'w, gotime) svc" where
  "svcNow E = onVault (clockNow (rpX E))"

definition svcMillis :: "('s, 'n, 'd, 'w, 'k, 'f, 'r) rpc \<Rightarrow> ('s, 'n, 'd, 'w, int) svc" where
  "svcMillis E = bnd (svcNow E) (\<lambda>t. ret (xMillis (rpX E) t))"

definition svcDraw :: "('s, 'n, 'd, 'w, nat) svc" where
  "svcDraw = (\<lambda>s. (Inr (svDraws s), s\<lparr>svDraws := Suc (svDraws s)\<rparr>))"

lemma onVault_run [op_simps]: "m (svVault s) = (r, v) \<Longrightarrow> onVault m s = (r, s\<lparr>svVault := v\<rparr>)"
  by (simp add: onVault_def op_simps)

lemma onDb_run [op_simps]: "m (svDb s) = (r, d) \<Longrightarrow> onDb m s = (r, s\<lparr>svDb := d\<rparr>)"
  by (simp add: onDb_def op_simps)

lemma onWorld_run [op_simps]:
  "m (svDb s, svWorld s) = (r, (d, w)) \<Longrightarrow> onWorld m s = (r, s\<lparr>svDb := d, svWorld := w\<rparr>)"
  by (simp add: onWorld_def op_simps)

lemma svcNow_run [op_simps]:
  "svcNow E s = (Inr (xClock (rpX E) (vTicks (svVault s))),
     s\<lparr>svVault := (svVault s)\<lparr>vTicks := Suc (vTicks (svVault s))\<rparr>\<rparr>)"
  by (simp add: svcNow_def onVault_def zoom_def clockNow_def)

lemma svcDraw_run [op_simps]: "svcDraw s = (Inr (svDraws s), s\<lparr>svDraws := Suc (svDraws s)\<rparr>)"
  by (simp add: svcDraw_def)

end
