(* ===== verification/ServiceKeys.thy ===== *)
theory ServiceKeys
  imports ServiceState
begin

text \<open>
  Keys and users of the service: looking up a key by its id or its user
  (\<^verbatim>\<open>service/lookup.go\<close>, \<^verbatim>\<open>user.go\<close>, \<^verbatim>\<open>search.go\<close>), updating them from the server
  (\<^verbatim>\<open>update.go\<close>, \<^verbatim>\<open>pull.go\<close>, \<^verbatim>\<open>push.go\<close>), the keys of the vault as the service shows them
  (\<^verbatim>\<open>key.go\<close>, \<^verbatim>\<open>keys.go\<close>), importing and exporting (\<^verbatim>\<open>import.go\<close>, \<^verbatim>\<open>export.go\<close>), and sigchains
  (\<^verbatim>\<open>sigchain.go\<close>).
\<close>

section \<open>Messages of the service\<close>

datatype userStatus =
    UserStatusUnknown | UserStatusOK | UserStatusResourceNotFound | UserStatusContentNotFound
  | UserStatusConnFailure | UserStatusContentInvalid | UserStatusFailure

record rpcUser =
  ruID :: string
  ruKID :: string
  ruSeq :: int
  ruService :: string
  ruName :: string
  ruURL :: string
  ruStatus :: userStatus
  ruVerifiedAt :: int
  ruTimestamp :: int
  ruProxied :: bool
  ruErr :: string

record rpcKey =
  rkID :: string
  rkType :: string
  rkSaved :: bool
  rkPrivate :: bool
  rkUser :: "rpcUser option"
  rkLength :: int
  rkUpdatedAt :: int

record rpcStatement =
  rsSig :: gobytes
  rsSData :: gobytes
  rsKID :: string
  rsSeq :: int
  rsPrev :: gobytes
  rsRevoke :: int
  rsType :: string
  rsTimestamp :: int

section \<open>user.go: conversions\<close>

definition userStatusOf :: "('s, 'n, 'd, 'w, 'k, 'f, 'r) rpc \<Rightarrow> string \<Rightarrow> userStatus" where
  "userStatusOf E s =
     (if s = usOK E then UserStatusOK
      else if s = usResourceNotFound E then UserStatusResourceNotFound
      else if s = usContentNotFound E then UserStatusContentNotFound
      else if s = usConnFailure E then UserStatusConnFailure
      else if s = usContentInvalid E then UserStatusContentInvalid
      else if s = usFailure E then UserStatusFailure
      else UserStatusUnknown)"

definition userResultToRPC :: "('s, 'n, 'd, 'w, 'k, 'f, 'r) rpc \<Rightarrow> userResult option \<Rightarrow> rpcUser option" where
  "userResultToRPC E result =
     map_option (\<lambda>r. \<lparr>ruID = urName r @ ''@'' @ urService r, ruKID = urKID r, ruSeq = i32 (urSeq r), ruService = urService r,
       ruName = urName r, ruURL = urURL r, ruStatus = userStatusOf E (urStatus r), ruVerifiedAt = urVerifiedAt r,
       ruTimestamp = urTimestamp r, ruProxied = urProxied r, ruErr = urErr r\<rparr>) result"

definition apiUserToRPC :: "('s, 'n, 'd, 'w, 'k, 'f, 'r) rpc \<Rightarrow> apiUser option \<Rightarrow> rpcUser option" where
  "apiUserToRPC E u =
     map_option (\<lambda>r. \<lparr>ruID = auID r, ruKID = auKID r, ruSeq = i32 (auSeq r), ruService = auService r,
       ruName = auName r, ruURL = auURL r, ruStatus = userStatusOf E (auStatus r), ruVerifiedAt = auVerifiedAt r,
       ruTimestamp = auTimestamp r, ruProxied = False, ruErr = auErr r\<rparr>) u"

definition apiUsersToRPC :: "('s, 'n, 'd, 'w, 'k, 'f, 'r) rpc \<Rightarrow> apiUser option list \<Rightarrow> rpcUser option list" where
  "apiUsersToRPC E = map (apiUserToRPC E)"

definition userSearchResultsToRPC :: "('s, 'n, 'd, 'w, 'k, 'f, 'r) rpc \<Rightarrow> userResult option list \<Rightarrow> rpcUser option list" where
  "userSearchResultsToRPC E = map (userResultToRPC E)"

definition SigchainURL :: "rpcUser \<Rightarrow> string" where
  "SigchainURL u = (if ruSeq u = 0 then [] else ''https://keys.pub/sigchain/'' @ ruKID u @ ''/'' @ formatInt (ruSeq u))"

section \<open>update.go\<close>

text \<open>Users of Twitter are checked by the server; its cached result is enough for most updates.\<close>

definition updateService :: "bool \<Rightarrow> keyUser \<Rightarrow> proxy option" where
  "updateService allowProxyCache usr =
     (if usService usr = ''twitter'' then Some (if allowProxyCache then KeysPub else Proxy) else None)"

definition twitterProxy :: "keyUser \<Rightarrow> proxy option" where
  "twitterProxy usr = (if usService usr = ''twitter'' then Some Proxy else None)"

definition updateUser ::
  "('s, 'n, 'd, 'w, 'k, 'f, 'r) rpc \<Rightarrow> string \<Rightarrow> bool \<Rightarrow> ('s, 'n, 'd, 'w, userResult option) svc" where
  "updateUser E kid allowProxyCache =
     bnd (onClient (Sigchain (rpX E) (rpW E) (rpC E) (rpL E) kid)) (\<lambda>resp.
     bnd (case resp of None \<Rightarrow> ret ()
          | Some (_, _, sts) \<Rightarrow>
              bnd (lift (chainOf (rpA E) kid [] sts)) (\<lambda>sc. onWorld (scSave E kid sc))) (\<lambda>_.
     bnd (onWorld (scIndex E kid)) (\<lambda>_.
     onWorld (usUpdate E (Some (updateService allowProxyCache)) kid))))"

definition userCheckExpire :: duration where "userCheckExpire = hour * 24"
definition userCheckFailureExpire :: duration where "userCheckFailureExpire = hour * 4"
definition userVerifiedExpire :: duration where "userVerifiedExpire = hour * 24"

text \<open>A result is checked again after a day, or after four hours when it was not good.\<close>

definition checkDue :: "('s, 'n, 'd, 'w, 'k, 'f, 'r) rpc \<Rightarrow> userResult \<Rightarrow> gotime \<Rightarrow> bool" where
  "checkDue E res now \<longleftrightarrow>
     (urStatus res \<noteq> usOK E \<and> usTsExpired E res now userCheckFailureExpire) \<or> usTsExpired E res now userCheckExpire"

definition checkForExpiredKey :: "('s, 'n, 'd, 'w, 'k, 'f, 'r) rpc \<Rightarrow> string \<Rightarrow> ('s, 'n, 'd, 'w, unit) svc" where
  "checkForExpiredKey E kid =
     bnd (onWorld (usGet E kid)) (\<lambda>res.
     case res of None \<Rightarrow> ret ()
     | Some r \<Rightarrow>
         bnd (svcNow E) (\<lambda>now.
         if checkDue E r now then bnd (updateUser E kid True) (\<lambda>_. ret ()) else ret ()))"

text \<open>\<open>ctxErr i\<close> is \<^verbatim>\<open>ctx.Err()\<close> before the key number \<open>i\<close>.\<close>

primrec checkEach ::
  "('s, 'n, 'd, 'w, 'k, 'f, 'r) rpc \<Rightarrow> (nat \<Rightarrow> err option) \<Rightarrow> nat \<Rightarrow> string list \<Rightarrow> ('s, 'n, 'd, 'w, unit) svc" where
  "checkEach E ctxErr i [] = ret ()"
| "checkEach E ctxErr i (kid # kids) =
     (case ctxErr i of Some e \<Rightarrow> fail e
      | None \<Rightarrow>
          bnd (onWorld (scIndex E kid)) (\<lambda>_.
          bnd (checkForExpiredKey E kid) (\<lambda>_.
          checkEach E ctxErr (Suc i) kids)))"

definition publicKIDs :: "('s, 'n, 'd, 'w, 'k, 'f, 'r) rpc \<Rightarrow> ('s, 'n, 'd, 'w, string list) svc" where
  "publicKIDs E = bnd (onVault (EdX25519PublicKeys (rpX E) (rpI E) (rpK E))) (\<lambda>pks. ret (map (idPub E) pks))"

definition checkKeys :: "('s, 'n, 'd, 'w, 'k, 'f, 'r) rpc \<Rightarrow> (nat \<Rightarrow> err option) \<Rightarrow> ('s, 'n, 'd, 'w, unit) svc" where
  "checkKeys E ctxErr =
     bnd (wrapErr ''failed to list public keys'' (publicKIDs E)) (checkEach E ctxErr 0)"

definition updateAllKeys :: "('s, 'n, 'd, 'w, 'k, 'f, 'r) rpc \<Rightarrow> ('s, 'n, 'd, 'w, unit) svc" where
  "updateAllKeys E =
     bnd (publicKIDs E) (\<lambda>kids. forEach kids (\<lambda>kid. bnd (updateUser E kid True) (\<lambda>_. ret ())))"

section \<open>user.go and lookup.go: finding a key\<close>

definition searchUsersRemote ::
  "('s, 'n, 'd, 'w, 'k, 'f, 'r) rpc \<Rightarrow> string \<Rightarrow> int \<Rightarrow> ('s, 'n, 'd, 'w, apiUser option list) svc" where
  "searchUsersRemote E query limit = onClient (UserSearch (rpW E) (rpC E) (rpL E) (trimSpace query) limit)"

definition searchUsersLocal ::
  "('s, 'n, 'd, 'w, 'k, 'f, 'r) rpc \<Rightarrow> string \<Rightarrow> int \<Rightarrow> ('s, 'n, 'd, 'w, rpcUser option list) svc" where
  "searchUsersLocal E query limit =
     bnd (onWorld (usSearch E (trimSpace query) limit)) (\<lambda>res. ret (userSearchResultsToRPC E res))"

text \<open>The server's first match must be the user asked for; a null entry is a nil pointer.\<close>

definition searchRemoteCheckUser ::
  "('s, 'n, 'd, 'w, 'k, 'f, 'r) rpc \<Rightarrow> string \<Rightarrow> ('s, 'n, 'd, 'w, rpcUser option) svc" where
  "searchRemoteCheckUser E query =
     bnd (searchUsersRemote E query 1) (\<lambda>us.
     case us of [] \<Rightarrow> ret None
     | None # _ \<Rightarrow> fail (Panic ''nil pointer'')
     | Some u # _ \<Rightarrow>
         bnd (failIf (auID u \<noteq> query) (Err (''user search mismatch '' @ auID u @ '' != '' @ query))) (\<lambda>_.
         bnd (updateUser E (auKID u) True) (\<lambda>res. ret (userResultToRPC E res))))"

definition lookupUser ::
  "('s, 'n, 'd, 'w, 'k, 'f, 'r) rpc \<Rightarrow> string \<Rightarrow> bool \<Rightarrow> ('s, 'n, 'd, 'w, string) svc" where
  "lookupUser E user searchRemote =
     (if searchRemote
      then bnd (searchRemoteCheckUser E user) (\<lambda>result.
           case result of None \<Rightarrow> fail (ErrNotFound user) | Some u \<Rightarrow> ret (ruKID u))
      else bnd (onWorld (usUser E user)) (\<lambda>res.
           case res of None \<Rightarrow> fail (ErrNotFound user) | Some r \<Rightarrow> ret (urKID r)))"

definition lookupKID ::
  "('s, 'n, 'd, 'w, 'k, 'f, 'r) rpc \<Rightarrow> string \<Rightarrow> bool \<Rightarrow> ('s, 'n, 'd, 'w, string) svc" where
  "lookupKID E key searchRemote =
     (if CHR ''@'' \<in> set key then lookupUser E key searchRemote
      else bnd (mapErr (\<lambda>_. Err (''failed to parse '' @ key)) (lift (wParseID (rpW E) key))) (\<lambda>kid0.
           bnd (onWorld (scLookup E kid0)) (\<lambda>rkid.
           let kid = (if rkid \<noteq> [] then rkid else kid0)
           in if searchRemote
              then bnd (onClient (User (rpW E) (rpC E) (rpL E) kid)) (\<lambda>res.
                   case res of None \<Rightarrow> ret kid
                   | Some None \<Rightarrow> fail (Panic ''nil pointer'')
                   | Some (Some u) \<Rightarrow> ret (auKID u))
              else ret kid)))"

record lookupOpts =
  loVerifyUser :: bool
  loSearchRemote :: bool

definition noOpts :: lookupOpts where
  "noOpts = \<lparr>loVerifyUser = False, loSearchRemote = False\<rparr>"

definition lookupKey ::
  "('s, 'n, 'd, 'w, 'k, 'f, 'r) rpc \<Rightarrow> string \<Rightarrow> lookupOpts \<Rightarrow> ('s, 'n, 'd, 'w, string) svc" where
  "lookupKey E key opts =
     bnd (failIf (key = []) (Err ''no key specified'')) (\<lambda>_.
     bnd (lookupKID E key (loSearchRemote opts)) (\<lambda>kid.
     bnd (failIf (kid = []) (ErrNotFound key)) (\<lambda>_.
     if loVerifyUser opts
     then bnd (onWorld (usGet E kid)) (\<lambda>res.
          case res of None \<Rightarrow> ret kid
          | Some r \<Rightarrow>
              bnd (failIf (urStatus r \<noteq> usOK E) (Err (''user '' @ usID E r @ '' has failed status '' @ urStatus r))) (\<lambda>_.
              ret kid))
     else ret kid)))"

definition lookupAll ::
  "('s, 'n, 'd, 'w, 'k, 'f, 'r) rpc \<Rightarrow> string list \<Rightarrow> lookupOpts \<Rightarrow> ('s, 'n, 'd, 'w, string list) svc" where
  "lookupAll E ks opts = collect ks (\<lambda>key. bnd (lookupKey E key opts) (\<lambda>i. ret (Some i)))"

definition ensureUserVerified :: "('s, 'n, 'd, 'w, 'k, 'f, 'r) rpc \<Rightarrow> string \<Rightarrow> ('s, 'n, 'd, 'w, unit) svc" where
  "ensureUserVerified E kid =
     bnd (onWorld (usGet E kid)) (\<lambda>res.
     case res of None \<Rightarrow> ret ()
     | Some r \<Rightarrow>
         bnd (failIf (urStatus r \<noteq> usOK E \<and> urStatus r \<noteq> usConnFailure E)
           (Err (''user '' @ usID E r @ '' has failed status '' @ urStatus r))) (\<lambda>_.
         bnd (svcNow E) (\<lambda>now.
         if \<not> usVerifyExpired E r now userVerifiedExpire then ret ()
         else bnd (updateUser E (urKID r) True) (\<lambda>resNew.
              case resNew of None \<Rightarrow> fail (Err ''failed user update: not found'')
              | Some r' \<Rightarrow>
                  failIf (urStatus r' \<noteq> usOK E) (Err (''user '' @ usID E r' @ '' has failed status '' @ urStatus r'))))))"

section \<open>key.go\<close>

definition fillKey :: "('s, 'n, 'd, 'w, 'k, 'f, 'r) rpc \<Rightarrow> string \<Rightarrow> rpcKey \<Rightarrow> ('s, 'n, 'd, 'w, rpcKey) svc" where
  "fillKey E kid key =
     bnd (onWorld (usGet E kid)) (\<lambda>res.
     let key1 = key\<lparr>rkUser := userResultToRPC E res\<rparr>
     in bnd (onWorld (scSigchain E kid)) (\<lambda>sc.
        case sc of None \<Rightarrow> ret key1
        | Some sts \<Rightarrow>
            let key2 = key1\<lparr>rkLength := i32 (int (length sts))\<rparr>
            in ret (if sts = [] then key2 else key2\<lparr>rkUpdatedAt := xMillis (rpX E) (stTimestamp (last sts))\<rparr>)))"

definition keyToRPC ::
  "('s, 'n, 'd, 'w, 'k, 'f, 'r) rpc \<Rightarrow> 'k option \<Rightarrow> bool \<Rightarrow> ('s, 'n, 'd, 'w, rpcKey option) svc" where
  "keyToRPC E key saved =
     (case key of None \<Rightarrow> ret None
      | Some k \<Rightarrow>
          bnd (fillKey E (kyID (rpK E) k)
            \<lparr>rkID = kyID (rpK E) k, rkType = akType E k, rkSaved = saved, rkPrivate = glen (akPrivate E k) > 0,
             rkUser = None, rkLength = 0, rkUpdatedAt = 0\<rparr>) (\<lambda>out. ret (Some out)))"

definition vaultKey :: "('s, 'n, 'd, 'w, 'k, 'f, 'r) rpc \<Rightarrow> string \<Rightarrow> ('s, 'n, 'd, 'w, 'k option) svc" where
  "vaultKey E kid = onVault (keyGet (rpX E) (rpI E) (rpK E) kid)"

definition svcKey :: "('s, 'n, 'd, 'w, 'k, 'f, 'r) rpc \<Rightarrow> string \<Rightarrow> ('s, 'n, 'd, 'w, rpcKey option) svc" where
  "svcKey E kid =
     bnd (vaultKey E kid) (\<lambda>key.
     if key \<noteq> None then keyToRPC E key True else keyToRPC E (Some (akNew E kid)) False)"

definition verifyKey :: "('s, 'n, 'd, 'w, 'k, 'f, 'r) rpc \<Rightarrow> string \<Rightarrow> ('s, 'n, 'd, 'w, rpcKey option) svc" where
  "verifyKey E kid = bnd (ensureUserVerified E kid) (\<lambda>_. svcKey E kid)"

text \<open>\<^verbatim>\<open>service.Key\<close> (key, update, search).\<close>

definition rpcKeyOf ::
  "('s, 'n, 'd, 'w, 'k, 'f, 'r) rpc \<Rightarrow> string \<Rightarrow> bool \<Rightarrow> bool \<Rightarrow> ('s, 'n, 'd, 'w, rpcKey option) svc" where
  "rpcKeyOf E key update search =
     bnd (lookupKey E key \<lparr>loVerifyUser = False, loSearchRemote = search\<rparr>) (\<lambda>kid.
     bnd (if update then bnd (updateUser E kid False) (\<lambda>_. ret ()) else checkForExpiredKey E kid) (\<lambda>_.
     svcKey E kid))"

definition KeyRemove :: "('s, 'n, 'd, 'w, 'k, 'f, 'r) rpc \<Rightarrow> string \<Rightarrow> ('s, 'n, 'd, 'w, unit) svc" where
  "KeyRemove E k =
     bnd (failIf (k = []) (Err ''kid not specified'')) (\<lambda>_.
     bnd (lift (wParseID (rpW E) k)) (\<lambda>kid.
     bnd (onVault (vaultDelete (rpX E) (rpI E) kid)) (\<lambda>ok.
     bnd (failIf (\<not> ok) (ErrNotFound kid)) (\<lambda>_.
     if idIsEd E kid
     then bnd (onWorld (scDelete E kid)) (\<lambda>_.
          bnd (onWorld (usUpdate E None kid)) (\<lambda>_. ret ()))
     else ret ()))))"

definition KeyGenerate :: "('s, 'n, 'd, 'w, 'k, 'f, 'r) rpc \<Rightarrow> string \<Rightarrow> ('s, 'n, 'd, 'w, string) svc" where
  "KeyGenerate E typ =
     bnd (failIf (typ = []) (Err ''no key type specified'')) (\<lambda>_.
     bnd (if typ = ''edx25519'' then bnd svcDraw (\<lambda>d. ret (akGenEd E d))
          else if typ = ''x25519'' then bnd svcDraw (\<lambda>d. ret (akGenX E d))
          else fail (Err (''unknown key type '' @ typ))) (\<lambda>key.
     bnd (svcMillis E) (\<lambda>now.
     let vk = akTimes E now now key
     in bnd (onVault (keySave (rpX E) (rpI E) (rpK E) (Some vk))) (\<lambda>_.
        bnd (onWorld (scIndex E (kyID (rpK E) vk))) (\<lambda>_.
        ret (kyID (rpK E) vk))))))"

definition parseKID :: "('s, 'n, 'd, 'w, 'k, 'f, 'r) rpc \<Rightarrow> string \<Rightarrow> err + string" where
  "parseKID E kid = (if kid = [] then Inl (Err ''no kid specified'') else wParseID (rpW E) kid)"

definition convertIfX25519ID :: "('s, 'n, 'd, 'w, 'k, 'f, 'r) rpc \<Rightarrow> string \<Rightarrow> ('s, 'n, 'd, 'w, string) svc" where
  "convertIfX25519ID E kid =
     (if kid = [] then ret []
      else if kyIsX (rpK E) kid
      then bnd (onVault (FindEdX25519PublicKey (rpX E) (rpI E) (rpK E) kid)) (\<lambda>spk.
           case spk of None \<Rightarrow> ret kid | Some pk \<Rightarrow> ret (idPub E pk))
      else ret kid)"

text \<open>A key of the vault as a signing key and as an encryption key; nil for no id.\<close>

definition edx25519Key :: "('s, 'n, 'd, 'w, 'k, 'f, 'r) rpc \<Rightarrow> string \<Rightarrow> ('s, 'n, 'd, 'w, edkey option) svc" where
  "edx25519Key E kid =
     (if kid = [] then ret None
      else bnd (vaultKey E kid) (\<lambda>key.
           case key of None \<Rightarrow> fail (ErrNotFound kid)
           | Some k \<Rightarrow> (case kyEd (rpK E) k of None \<Rightarrow> fail (ErrNotFound kid) | Some sk \<Rightarrow> ret (Some sk))))"

definition x25519Key :: "('s, 'n, 'd, 'w, 'k, 'f, 'r) rpc \<Rightarrow> string \<Rightarrow> ('s, 'n, 'd, 'w, string option) svc" where
  "x25519Key E kid =
     (if kid = [] then ret None
      else bnd (vaultKey E kid) (\<lambda>key.
           case key of None \<Rightarrow> fail (ErrNotFound kid)
           | Some k \<Rightarrow> (case kyX (rpK E) k of None \<Rightarrow> fail (ErrNotFound kid) | Some bk \<Rightarrow> ret (Some bk))))"

end
