(* ===== verification/ServiceChains.thy ===== *)
theory ServiceChains
  imports ServiceKeys
begin

text \<open>
  What the service offers on keys, users and sigchains: importing, exporting and listing keys
  (\<^verbatim>\<open>service/import.go\<close>, \<^verbatim>\<open>export.go\<close>, \<^verbatim>\<open>keys.go\<close>), pulling and pushing them
  (\<^verbatim>\<open>pull.go\<close>, \<^verbatim>\<open>push.go\<close>), sigchains (\<^verbatim>\<open>sigchain.go\<close>), users (\<^verbatim>\<open>user.go\<close>, \<^verbatim>\<open>search.go\<close>) and the
  admin requests (\<^verbatim>\<open>admin.go\<close>).
\<close>

section \<open>import.go\<close>

definition saveKey :: "('s, 'n, 'd, 'w, 'k, 'f, 'r) rpc \<Rightarrow> 'k \<Rightarrow> ('s, 'n, 'd, 'w, unit) svc" where
  "saveKey E k = onVault (keySave (rpX E) (rpI E) (rpK E) (Some k))"

definition KeyImport ::
  "('s, 'n, 'd, 'w, 'k, 'f, 'r) rpc \<Rightarrow> string \<Rightarrow> string \<Rightarrow> bool \<Rightarrow> ('s, 'n, 'd, 'w, string) svc" where
  "KeyImport E input password update =
     bnd (lift (akParse E input password)) (\<lambda>key0.
     bnd (svcMillis E) (\<lambda>now.
     let key = akTimes E (if kyCreatedAt (rpK E) key0 = 0 then now else kyCreatedAt (rpK E) key0)
                 (if akUpdatedAt E key0 = 0 then now else akUpdatedAt E key0) key0;
         kid = kyID (rpK E) key
     in bnd (saveKey E key) (\<lambda>_.
        bnd (if update then bnd (updateUser E kid False) (\<lambda>_. ret ()) else onWorld (scIndex E kid)) (\<lambda>_.
        ret kid))))"

definition importID :: "('s, 'n, 'd, 'w, 'k, 'f, 'r) rpc \<Rightarrow> string \<Rightarrow> ('s, 'n, 'd, 'w, unit) svc" where
  "importID E i =
     bnd (vaultKey E i) (\<lambda>key.
     if key \<noteq> None then ret ()
     else bnd (svcMillis E) (\<lambda>now.
          bnd (saveKey E (akTimes E now now (akNew E i))) (\<lambda>_.
          onWorld (scIndex E i))))"

section \<open>export.go\<close>

datatype exportType = SSHExport | DefaultExport | OtherExport string

definition KeyExport ::
  "('s, 'n, 'd, 'w, 'k, 'f, 'r) rpc \<Rightarrow> string \<Rightarrow> exportType \<Rightarrow> bool \<Rightarrow> bool \<Rightarrow> string \<Rightarrow> ('s, 'n, 'd, 'w, string) svc" where
  "KeyExport E k typ public noPassword password =
     bnd (lift (wParseID (rpW E) k)) (\<lambda>i.
     bnd (vaultKey E i) (\<lambda>key0.
     case key0 of None \<Rightarrow> fail (ErrNotFound i)
     | Some key \<Rightarrow>
         bnd (failIf (noPassword \<and> password \<noteq> []) (Err ''no password option set with password'')) (\<lambda>_.
         bnd (failIf (\<not> noPassword \<and> \<not> public \<and> password = [])
                (Err ''password required for export (or set no password option)'')) (\<lambda>_.
         case typ of
           SSHExport \<Rightarrow> lift (akSSH E key public password)
         | DefaultExport \<Rightarrow> lift (kyEncode (rpK E) (Some (if public then akPublic E key else key)) password)
         | OtherExport t \<Rightarrow> fail (Err (''unknown export type '' @ t))))))"

section \<open>keys.go\<close>

datatype sortDirection = SortAsc | SortDesc

definition hasType :: "('s, 'n, 'd, 'w, 'k, 'f, 'r) rpc \<Rightarrow> 'k \<Rightarrow> string list \<Rightarrow> bool" where
  "hasType E k types \<longleftrightarrow> akType E k \<in> set types"

text \<open>
  The comparison given to \<^verbatim>\<open>sort.Slice\<close>. Keys without a user come last. The comparison of types
  is the other way round than those of users and ids.
\<close>

definition lessID :: "sortDirection \<Rightarrow> rpcKey \<Rightarrow> rpcKey \<Rightarrow> bool" where
  "lessID dir a b = (if dir = SortDesc then rkID a > rkID b else rkID a \<le> rkID b)"

definition lessUser :: "sortDirection \<Rightarrow> rpcKey \<Rightarrow> rpcKey \<Rightarrow> bool" where
  "lessUser dir a b =
     (case (rkUser a, rkUser b) of
        (None, None) \<Rightarrow> lessID dir a b
      | (None, Some _) \<Rightarrow> False
      | (Some _, None) \<Rightarrow> True
      | (Some u, Some v) \<Rightarrow> if dir = SortDesc then ruName u > ruName v else ruName u \<le> ruName v)"

definition keysSort :: "string \<Rightarrow> sortDirection \<Rightarrow> rpcKey \<Rightarrow> rpcKey \<Rightarrow> bool" where
  "keysSort field dir a b =
     (if field = ''type'' then
        (if rkType a = rkType b then lessUser dir a b
         else if dir = SortDesc then rkType a < rkType b else rkType a > rkType b)
      else if field = ''user'' then lessUser dir a b
      else lessID dir a b)"

text \<open>The key of a saved \<^verbatim>\<open>api.Key\<close> if its type and query match.\<close>

definition matchKey ::
  "('s, 'n, 'd, 'w, 'k, 'f, 'r) rpc \<Rightarrow> bool \<Rightarrow> string \<Rightarrow> string list \<Rightarrow> 'k \<Rightarrow> ('s, 'n, 'd, 'w, rpcKey option) svc" where
  "matchKey E saved query types k =
     (if types \<noteq> [] \<and> \<not> hasType E k types then ret None
      else bnd (keyToRPC E (Some k) saved) (\<lambda>key.
           ret (case key of None \<Rightarrow> None
                | Some r \<Rightarrow>
                    if query = [] \<or> (\<exists>u. rkUser r = Some u \<and> prefix query (ruID u)) \<or> prefix query (rkID r)
                    then Some r else None)))"

definition filterKeys ::
  "('s, 'n, 'd, 'w, 'k, 'f, 'r) rpc \<Rightarrow> 'k list \<Rightarrow> bool \<Rightarrow> string \<Rightarrow> string list \<Rightarrow> string \<Rightarrow> sortDirection \<Rightarrow>
   ('s, 'n, 'd, 'w, rpcKey list) svc" where
  "filterKeys E ks saved query types field dir =
     bnd (collect ks (matchKey E saved query types)) (\<lambda>out.
     bnd (failIf (field \<notin> {''kid'', ''user'', ''type''}) (Err ''invalid sort field'')) (\<lambda>_.
     ret (sortSlice (keysSort field dir) out)))"

definition Keys ::
  "('s, 'n, 'd, 'w, 'k, 'f, 'r) rpc \<Rightarrow> string \<Rightarrow> string list \<Rightarrow> string \<Rightarrow> sortDirection \<Rightarrow> ('s, 'n, 'd, 'w, rpcKey list \<times> string) svc" where
  "Keys E query types sortF dir =
     (let field = (if sortF = [] then ''user'' else sortF)
      in bnd (onVault (keyList (rpX E) (rpI E) (rpK E))) (\<lambda>vks.
         bnd (filterKeys E vks True (trimSpace query) types field dir) (\<lambda>out. ret (out, field))))"

section \<open>pull.go\<close>

definition pullUser :: "('s, 'n, 'd, 'w, 'k, 'f, 'r) rpc \<Rightarrow> string \<Rightarrow> ('s, 'n, 'd, 'w, userResult option) svc" where
  "pullUser E kid = bnd (importID E kid) (\<lambda>_. updateUser E kid False)"

definition rpcPull :: "('s, 'n, 'd, 'w, 'k, 'f, 'r) rpc \<Rightarrow> string \<Rightarrow> ('s, 'n, 'd, 'w, string list) svc" where
  "rpcPull E key =
     (if key \<noteq> [] then
        bnd (lookupKey E key \<lparr>loVerifyUser = False, loSearchRemote = True\<rparr>) (\<lambda>kid.
        bnd (pullUser E kid) (\<lambda>res.
        if res = None then fail (ErrNotFound kid) else ret [kid]))
      else bnd (wrapErr ''failed to load keys'' (publicKIDs E)) (\<lambda>kids.
           collect kids (\<lambda>kid. bnd (pullUser E kid) (\<lambda>res. ret (if res = None then None else Some kid)))))"

section \<open>push.go\<close>

text \<open>
  A nil sigchain has no statements to read. Statements the server already has must be the same,
  byte for byte; the others are sent in order. \<open>ctxErr\<close> is as in \<^verbatim>\<open>retryOnConflict\<close>.
\<close>

definition sameBytes :: "('s, 'n, 'd, 'w, 'k, 'f, 'r) rpc \<Rightarrow> stmt \<Rightarrow> stmt option \<Rightarrow> err + unit" where
  "sameBytes E st remote =
     (case apStBytes (rpA E) st of Inl e \<Rightarrow> Inl e
      | Inr b \<Rightarrow>
          (case remote of None \<Rightarrow> Inl (Panic ''nil pointer'')
           | Some rst \<Rightarrow>
               (case apStBytes (rpA E) rst of Inl e \<Rightarrow> Inl e
                | Inr b2 \<Rightarrow> if b \<noteq> b2 then Inl (Err ''remote and local sigchain statements differ'') else Inr ())))"

definition sendStatement ::
  "('s, 'n, 'd, 'w, 'k, 'f, 'r) rpc \<Rightarrow> (nat \<Rightarrow> err option) \<Rightarrow> stmt \<Rightarrow> ('s, 'n, 'd, 'w, unit) svc" where
  "sendStatement E ctxErr st = onClient (SigchainSave (rpX E) (rpW E) (rpC E) (rpA E) ctxErr st)"

primrec pushFrom ::
  "('s, 'n, 'd, 'w, 'k, 'f, 'r) rpc \<Rightarrow> (nat \<Rightarrow> err option) \<Rightarrow> stmt option list \<Rightarrow> stmt list \<Rightarrow> ('s, 'n, 'd, 'w, string list) svc" where
  "pushFrom E ctxErr rsts [] = ret []"
| "pushFrom E ctxErr rsts (st # sts) =
     bnd (case rsts of [] \<Rightarrow> sendStatement E ctxErr st | r # _ \<Rightarrow> lift (sameBytes E st r)) (\<lambda>_.
     bnd (pushFrom E ctxErr (tl rsts) sts) (\<lambda>urls.
     ret ((clURL (rpC E) @ apStURL (rpA E) st) # urls)))"

definition push ::
  "('s, 'n, 'd, 'w, 'k, 'f, 'r) rpc \<Rightarrow> (nat \<Rightarrow> err option) \<Rightarrow> string \<Rightarrow> ('s, 'n, 'd, 'w, string list) svc" where
  "push E ctxErr kid =
     bnd (onWorld (scSigchain E kid)) (\<lambda>sc.
     case sc of None \<Rightarrow> fail (Panic ''nil pointer'')
     | Some sts \<Rightarrow>
         if sts = [] then ret []
         else bnd (onClient (Sigchain (rpX E) (rpW E) (rpC E) (rpL E) kid)) (\<lambda>rsc.
              bnd (pushFrom E ctxErr (case rsc of None \<Rightarrow> [] | Some (_, _, rsts) \<Rightarrow> rsts) sts) (\<lambda>urls.
              bnd (pullUser E kid) (\<lambda>_. ret urls))))"

definition Push ::
  "('s, 'n, 'd, 'w, 'k, 'f, 'r) rpc \<Rightarrow> (nat \<Rightarrow> err option) \<Rightarrow> string \<Rightarrow> bool \<Rightarrow> ('s, 'n, 'd, 'w, string \<times> string list) svc" where
  "Push E ctxErr key remoteCheck =
     bnd (lookupKey E key \<lparr>loVerifyUser = True, loSearchRemote = False\<rparr>) (\<lambda>kid.
     bnd (push E ctxErr kid) (\<lambda>urls.
     bnd (failIf (urls = []) (Err ''nothing to push'')) (\<lambda>_.
     bnd (if \<not> remoteCheck then ret ()
          else bnd (vaultKey E kid) (\<lambda>key'.
               case key' of None \<Rightarrow> fail (ErrNotFound kid)
               | Some k \<Rightarrow> (case kyEd (rpK E) k of None \<Rightarrow> fail (Err ''invalid key'')
                           | Some sk \<Rightarrow> onClient (ClientCheck (rpW E) (rpC E) sk)))) (\<lambda>_.
     ret (kid, urls)))))"

section \<open>sigchain.go\<close>

definition statementFromRPC :: "('s, 'n, 'd, 'w, 'k, 'f, 'r) rpc \<Rightarrow> rpcStatement \<Rightarrow> err + stmt" where
  "statementFromRPC E st =
     (case wParseID (rpW E) (rsKID st) of Inl e \<Rightarrow> Inl e
      | Inr kid \<Rightarrow> Inr \<lparr>stSig = rsSig st, stData = rsSData st, stKID = kid, stSeq = rsSeq st, stPrev = rsPrev st,
          stRevoke = rsRevoke st, stType = rsType st, stTimestamp = xParseMillis (rpX E) (rsTimestamp st)\<rparr>)"

primrec statementsFromRPC :: "('s, 'n, 'd, 'w, 'k, 'f, 'r) rpc \<Rightarrow> rpcStatement list \<Rightarrow> err + stmt list" where
  "statementsFromRPC E [] = Inr []"
| "statementsFromRPC E (st # sts) =
     (case statementFromRPC E st of Inl e \<Rightarrow> Inl e
      | Inr x \<Rightarrow> (case statementsFromRPC E sts of Inl e \<Rightarrow> Inl e | Inr xs \<Rightarrow> Inr (x # xs)))"

definition statementToRPC :: "('s, 'n, 'd, 'w, 'k, 'f, 'r) rpc \<Rightarrow> stmt \<Rightarrow> rpcStatement" where
  "statementToRPC E st =
     \<lparr>rsSig = stSig st, rsSData = stData st, rsKID = stKID st, rsSeq = i32 (stSeq st), rsPrev = stPrev st,
      rsRevoke = i32 (stRevoke st), rsType = stType st, rsTimestamp = xMillis (rpX E) (stTimestamp st)\<rparr>"

definition statementsToRPC :: "('s, 'n, 'd, 'w, 'k, 'f, 'r) rpc \<Rightarrow> stmt list \<Rightarrow> rpcStatement list" where
  "statementsToRPC E = map (statementToRPC E)"

definition sigchainFromRPC ::
  "('s, 'n, 'd, 'w, 'k, 'f, 'r) rpc \<Rightarrow> string \<Rightarrow> rpcStatement list \<Rightarrow> err + stmt list" where
  "sigchainFromRPC E kid ssts =
     (case statementsFromRPC E ssts of Inl e \<Rightarrow> Inl e
      | Inr sts \<Rightarrow>
          (case chainOf (rpA E) kid [] (map Some sts) of
             Inl e \<Rightarrow> Inl (if isPanic e then e else Wrapped ''failed to resolve sigchain from statements'' e)
           | Inr sc \<Rightarrow> Inr sc))"

definition rpcSigchain ::
  "('s, 'n, 'd, 'w, 'k, 'f, 'r) rpc \<Rightarrow> string \<Rightarrow> ('s, 'n, 'd, 'w, rpcKey option \<times> rpcStatement list) svc" where
  "rpcSigchain E k =
     bnd (lift (parseKID E k)) (\<lambda>kid.
     bnd (svcKey E kid) (\<lambda>key.
     bnd (onWorld (scSigchain E kid)) (\<lambda>sc.
     case sc of None \<Rightarrow> fail (Panic ''nil pointer'')
     | Some sts \<Rightarrow> ret (key, statementsToRPC E sts))))"

text \<open>\<open>seq\<close> is an int32.\<close>

definition rpcStatementAt ::
  "('s, 'n, 'd, 'w, 'k, 'f, 'r) rpc \<Rightarrow> string \<Rightarrow> int \<Rightarrow> ('s, 'n, 'd, 'w, rpcStatement) svc" where
  "rpcStatementAt E k seq =
     bnd (lift (parseKID E k)) (\<lambda>kid.
     bnd (onWorld (scSigchain E kid)) (\<lambda>sc.
     case sc of None \<Rightarrow> fail (ErrNotFound kid)
     | Some sts \<Rightarrow>
         bnd (failIf (seq < 0) (Err ''invalid seq'')) (\<lambda>_.
         bnd (failIf (seq = 0) (Err ''no seq specified'')) (\<lambda>_.
         bnd (failIf (seq - 1 \<ge> int (length sts)) (Err ''seq too large'')) (\<lambda>_.
         ret (statementsToRPC E sts ! nat (seq - 1)))))))"

text \<open>A new statement is added to the chain, sent unless the call is local, and only then saved.\<close>

definition StatementCreate ::
  "('s, 'n, 'd, 'w, 'k, 'f, 'r) rpc \<Rightarrow> (nat \<Rightarrow> err option) \<Rightarrow> string \<Rightarrow> gobytes \<Rightarrow> bool \<Rightarrow> ('s, 'n, 'd, 'w, rpcStatement) svc" where
  "StatementCreate E ctxErr k b localOnly =
     bnd (failIf (k = []) (Err ''no kid specified'')) (\<lambda>_.
     bnd (lift (wParseID (rpW E) k)) (\<lambda>kid.
     bnd (edx25519Key E kid) (\<lambda>key.
     case key of None \<Rightarrow> fail (ErrNotFound k)
     | Some sk \<Rightarrow>
         let i = xKeyID (rpX E) sk
         in bnd (onWorld (scSigchain E i)) (\<lambda>sc'.
            bnd (svcNow E) (\<lambda>now.
            bnd (lift (scStatement E i sc' b sk [] now)) (\<lambda>st.
            case sc' of None \<Rightarrow> fail (Panic ''nil pointer'')
            | Some sc \<Rightarrow>
                bnd (lift (apAdd (rpA E) i sc (Some st))) (\<lambda>sc2.
                bnd (if localOnly then ret () else sendStatement E ctxErr st) (\<lambda>_.
                bnd (onWorld (scSave E i sc2)) (\<lambda>_.
                ret (statementToRPC E st))))))))))"

text \<open>A nil key, for an empty id, is dereferenced; an empty id does not parse.\<close>

definition StatementRevoke ::
  "('s, 'n, 'd, 'w, 'k, 'f, 'r) rpc \<Rightarrow> (nat \<Rightarrow> err option) \<Rightarrow> string \<Rightarrow> int \<Rightarrow> bool \<Rightarrow> ('s, 'n, 'd, 'w, rpcStatement) svc" where
  "StatementRevoke E ctxErr k seq localOnly =
     bnd (lift (wParseID (rpW E) k)) (\<lambda>kid.
     bnd (edx25519Key E kid) (\<lambda>key.
     case key of None \<Rightarrow> fail (Panic ''nil pointer'')
     | Some sk \<Rightarrow>
         let i = xKeyID (rpX E) sk
         in bnd (onWorld (scSigchain E i)) (\<lambda>sc'.
            case sc' of None \<Rightarrow> fail (Panic ''nil pointer'')
            | Some sc \<Rightarrow>
                bnd (lift (scRevoke E i sc seq sk)) (\<lambda>(st, sc2).
                bnd (if localOnly then ret () else sendStatement E ctxErr st) (\<lambda>_.
                bnd (onWorld (scSave E i sc2)) (\<lambda>_.
                bnd (onWorld (usUpdate E None i)) (\<lambda>_.
                ret (statementToRPC E st))))))))"

end
