(* ===== verification/ServiceUsers.thy ===== *)
theory ServiceUsers
  imports ServiceChains
begin

text \<open>
  Users and secrets as the service offers them: searching, looking up, signing and adding a user
  (\<^verbatim>\<open>service/user.go\<close>, \<^verbatim>\<open>search.go\<close>), the admin requests (\<^verbatim>\<open>admin.go\<close>), secrets
  (\<^verbatim>\<open>secrets.go\<close>), settings (\<^verbatim>\<open>config.go\<close>) and the documents of its two stores (\<^verbatim>\<open>db.go\<close>).
\<close>

section \<open>user.go and search.go\<close>

definition svcUserSearch ::
  "('s, 'n, 'd, 'w, 'k, 'f, 'r) rpc \<Rightarrow> string \<Rightarrow> int \<Rightarrow> bool \<Rightarrow> ('s, 'n, 'd, 'w, rpcUser option list) svc" where
  "svcUserSearch E query limit localOnly =
     (if localOnly then searchUsersLocal E query limit
      else bnd (searchUsersRemote E query limit) (\<lambda>u. ret (apiUsersToRPC E u)))"

definition svcUser ::
  "('s, 'n, 'd, 'w, 'k, 'f, 'r) rpc \<Rightarrow> string \<Rightarrow> bool \<Rightarrow> ('s, 'n, 'd, 'w, rpcUser option) svc" where
  "svcUser E k localOnly =
     bnd (failIf (k = []) (Err ''no kid specified'')) (\<lambda>_.
     bnd (lift (wParseID (rpW E) k)) (\<lambda>kid.
     bnd (onWorld (usGet E kid)) (\<lambda>res.
     if res \<noteq> None then ret (userResultToRPC E res)
     else if localOnly then ret None
     else bnd (onClient (User (rpW E) (rpC E) (rpL E) kid)) (\<lambda>resp.
          case resp of None \<Rightarrow> ret None
          | Some None \<Rightarrow> fail (Panic ''nil pointer'')
          | Some (Some u) \<Rightarrow> bnd (updateUser E (auKID u) True) (\<lambda>r. ret (userResultToRPC E r))))))"

text \<open>The signing key of a request; a nil key is dereferenced by its callers.\<close>

definition signingKey :: "('s, 'n, 'd, 'w, 'k, 'f, 'r) rpc \<Rightarrow> string \<Rightarrow> ('s, 'n, 'd, 'w, edkey) svc" where
  "signingKey E kid =
     bnd (edx25519Key E kid) (\<lambda>key. case key of None \<Rightarrow> fail (Panic ''nil pointer'') | Some sk \<Rightarrow> ret sk)"

definition UserService ::
  "('s, 'n, 'd, 'w, 'k, 'f, 'r) rpc \<Rightarrow> string \<Rightarrow> string \<Rightarrow> ('s, 'n, 'd, 'w, string) svc" where
  "UserService E k srv =
     bnd (failIf (k = []) (Err ''no kid specified'')) (\<lambda>_.
     bnd (failIf (srv = []) (Err ''no service specified'')) (\<lambda>_.
     bnd (lift (wParseID (rpW E) k)) (\<lambda>kid.
     bnd (signingKey E kid) (\<lambda>sk.
     bnd (lift (usForSigning E (xKeyID (rpX E) sk) srv ''test'')) (\<lambda>_.
     ret srv)))))"

definition UserSign ::
  "('s, 'n, 'd, 'w, 'k, 'f, 'r) rpc \<Rightarrow> string \<Rightarrow> string \<Rightarrow> string \<Rightarrow> ('s, 'n, 'd, 'w, string \<times> string) svc" where
  "UserSign E k srv name =
     bnd (failIf (k = []) (Err ''no kid specified'')) (\<lambda>_.
     bnd (failIf (name = []) (Err ''no username specified'')) (\<lambda>_.
     bnd (failIf (srv = []) (Err ''no service specified'')) (\<lambda>_.
     bnd (lift (wParseID (rpW E) k)) (\<lambda>kid.
     bnd (signingKey E kid) (\<lambda>sk.
     bnd (lift (usForSigning E (xKeyID (rpX E) sk) srv name)) (\<lambda>usr.
     bnd (lift (usSign E usr sk)) (\<lambda>msg.
     ret (msg, usName usr))))))))"

text \<open>A conflict reported by the server becomes the gRPC status \<^verbatim>\<open>AlreadyExists\<close>.\<close>

definition conflictErr :: "err \<Rightarrow> err" where
  "conflictErr e = (case cause e of HTTPError c m \<Rightarrow> if c = 409 then ErrStatus ''AlreadyExists'' m else e | _ \<Rightarrow> e)"

definition sigchainUserAdd ::
  "('s, 'n, 'd, 'w, 'k, 'f, 'r) rpc \<Rightarrow> (nat \<Rightarrow> err option) \<Rightarrow> edkey \<Rightarrow> string \<Rightarrow> string \<Rightarrow> string \<Rightarrow> bool \<Rightarrow>
   ('s, 'n, 'd, 'w, userResult \<times> stmt) svc" where
  "sigchainUserAdd E ctxErr key srv name0 urs0 localOnly =
     (let i = xKeyID (rpX E) key
      in bnd (onWorld (scSigchain E i)) (\<lambda>sc'.
         bnd (lift (usLink E srv)) (\<lambda>(normName, normURL).
         let name = normName name0
         in bnd (lift (normURL name urs0)) (\<lambda>urs.
            case sc' of None \<Rightarrow> fail (Panic ''nil pointer'')
            | Some sc \<Rightarrow>
                bnd (lift (usNew E i srv name urs (i64 (scLastSeq E sc + 1)))) (\<lambda>usr.
                bnd (lift (usLookupService E usr twitterProxy)) (\<lambda>userService.
                bnd (onWorld (usVerify E userService usr)) (\<lambda>result.
                bnd (failIf (urStatus result \<noteq> usOK E) (Err (''user check failed: '' @ urErr result))) (\<lambda>_.
                bnd (svcNow E) (\<lambda>now.
                bnd (wrapErr ''failed to generate user statement'' (lift (scUserStatement E i sc usr key now))) (\<lambda>st.
                bnd (lift (apAdd (rpA E) i sc (Some st))) (\<lambda>sc2.
                bnd (if localOnly then ret () else mapErr conflictErr (sendStatement E ctxErr st)) (\<lambda>_.
                bnd (onWorld (scSave E i sc2)) (\<lambda>_.
                bnd (onWorld (usUpdate E (Some twitterProxy) i)) (\<lambda>_.
                ret (result, st)))))))))))))))"

definition UserAdd ::
  "('s, 'n, 'd, 'w, 'k, 'f, 'r) rpc \<Rightarrow> (nat \<Rightarrow> err option) \<Rightarrow> string \<Rightarrow> string \<Rightarrow> string \<Rightarrow> string \<Rightarrow> bool \<Rightarrow>
   ('s, 'n, 'd, 'w, rpcUser option \<times> rpcStatement) svc" where
  "UserAdd E ctxErr k srv name url localOnly =
     bnd (failIf (k = []) (Err ''no kid specified'')) (\<lambda>_.
     bnd (failIf (name = []) (Err ''no name specified'')) (\<lambda>_.
     bnd (failIf (srv = []) (Err ''no service specified'')) (\<lambda>_.
     bnd (failIf (url = []) (Err ''no URL specified'')) (\<lambda>_.
     bnd (lift (wParseID (rpW E) k)) (\<lambda>kid.
     bnd (signingKey E kid) (\<lambda>sk.
     bnd (sigchainUserAdd E ctxErr sk srv name url localOnly) (\<lambda>(user, st).
     ret (userResultToRPC E (Some user), statementToRPC E st))))))))"

definition Search :: "('s, 'n, 'd, 'w, 'k, 'f, 'r) rpc \<Rightarrow> string \<Rightarrow> ('s, 'n, 'd, 'w, rpcKey list) svc" where
  "Search E query =
     bnd (searchUsersRemote E query 0) (\<lambda>res.
     collect res (\<lambda>u'. case u' of None \<Rightarrow> fail (Panic ''nil pointer'')
       | Some u \<Rightarrow> ret (Some \<lparr>rkID = auKID u, rkType = idType E (auKID u), rkSaved = False, rkPrivate = False,
                             rkUser = apiUserToRPC E u', rkLength = 0, rkUpdatedAt = 0\<rparr>)))"

section \<open>admin.go\<close>

text \<open>\<open>newAuth\<close> is \<^verbatim>\<open>http.NewAuth\<close> (method, URL, time, key): the header and the signed URL.\<close>

definition AdminSignURL ::
  "('s, 'n, 'd, 'w, 'k, 'f, 'r) rpc \<Rightarrow> (string \<Rightarrow> string \<Rightarrow> gotime \<Rightarrow> edkey \<Rightarrow> err + string \<times> string) \<Rightarrow>
   string \<Rightarrow> string \<Rightarrow> string \<Rightarrow> ('s, 'n, 'd, 'w, string \<times> string \<times> string) svc" where
  "AdminSignURL E newAuth signer method url =
     bnd (lookupKey E signer noOpts) (\<lambda>kid.
     bnd (signingKey E kid) (\<lambda>sk.
     bnd (onVault (timeNow (rpX E))) (\<lambda>now.
     bnd (lift (newAuth method url now sk)) (\<lambda>(header, signed).
     ret (header, signed, ''curl -X '' @ method @ '' -H \"Authorization: '' @ header @ ''\" '' @ signed)))))"

definition svcAdminCheck :: "('s, 'n, 'd, 'w, 'k, 'f, 'r) rpc \<Rightarrow> string \<Rightarrow> string \<Rightarrow> ('s, 'n, 'd, 'w, unit) svc" where
  "svcAdminCheck E signer what =
     bnd (lookupKey E signer noOpts) (\<lambda>kid.
     bnd (signingKey E kid) (\<lambda>sk.
     onClient (AdminCheckReq (rpW E) (rpC E) what sk)))"

text \<open>
  Secrets (\<^verbatim>\<open>service/secrets.go\<close>), settings (\<^verbatim>\<open>config.go\<close>), random data (\<^verbatim>\<open>rand.go\<close>,
  \<^verbatim>\<open>encode.go\<close>) and the documents of the database and of the vault's store (\<^verbatim>\<open>db.go\<close>).
\<close>

section \<open>secrets.go\<close>

datatype secretType = PasswordSecret | NoteSecret | UnknownSecret

record rpcSecret =
  rtID :: string
  rtName :: string
  rtType :: secretType
  rtUsername :: string
  rtPassword :: string
  rtURL :: string
  rtNotes :: string
  rtCreatedAt :: int
  rtUpdatedAt :: int

definition secretTypeToRPC :: "string \<Rightarrow> secretType" where
  "secretTypeToRPC t = (if t = ''password'' then PasswordSecret else if t = ''note'' then NoteSecret else UnknownSecret)"

definition secretTypeFromRPC :: "secretType \<Rightarrow> string" where
  "secretTypeFromRPC t = (case t of PasswordSecret \<Rightarrow> ''password'' | NoteSecret \<Rightarrow> ''note'' | UnknownSecret \<Rightarrow> [])"

definition secretToRPC :: "'z ext_scheme \<Rightarrow> secret \<Rightarrow> rpcSecret" where
  "secretToRPC X s =
     \<lparr>rtID = scID s, rtName = scName s, rtType = secretTypeToRPC (scType s), rtUsername = scUsername s,
      rtPassword = scPassword s, rtURL = scURL s, rtNotes = scNotes s, rtCreatedAt = xMillis X (scCreatedAt s),
      rtUpdatedAt = xMillis X (scUpdatedAt s)\<rparr>"

definition secretFromRPC :: "'z ext_scheme \<Rightarrow> rpcSecret \<Rightarrow> secret" where
  "secretFromRPC X s =
     \<lparr>scID = rtID s, scType = secretTypeFromRPC (rtType s), scName = rtName s, scUsername = rtUsername s,
      scPassword = rtPassword s, scURL = rtURL s, scNotes = rtNotes s, scCreatedAt = xParseMillis X (rtCreatedAt s),
      scUpdatedAt = xParseMillis X (rtUpdatedAt s)\<rparr>"

definition secretsToRPC :: "'z ext_scheme \<Rightarrow> secret list \<Rightarrow> rpcSecret list" where
  "secretsToRPC X = map (secretToRPC X)"

definition sortDirectionToVault :: "sortDirection \<Rightarrow> string" where
  "sortDirectionToVault d = (case d of SortAsc \<Rightarrow> ''asc'' | SortDesc \<Rightarrow> ''desc'')"

definition svcSecret :: "('s, 'n, 'd, 'w, 'k, 'f, 'r) rpc \<Rightarrow> string \<Rightarrow> ('s, 'n, 'd, 'w, rpcSecret) svc" where
  "svcSecret E i =
     bnd (onVault (secretGet (rpX E) (rpI E) (rpSecrets E) i)) (\<lambda>s.
     case s of None \<Rightarrow> fail (ErrNotFound i) | Some x \<Rightarrow> ret (secretToRPC (rpX E) x))"

definition SecretSave :: "('s, 'n, 'd, 'w, 'k, 'f, 'r) rpc \<Rightarrow> rpcSecret \<Rightarrow> ('s, 'n, 'd, 'w, rpcSecret) svc" where
  "SecretSave E req =
     (let s = secretFromRPC (rpX E) req
      in bnd (failIf (scType s = []) (Err ''unknown secret type'')) (\<lambda>_.
         bnd (failIf (trimSpace (scName s) = []) (Err ''no name specified'')) (\<lambda>_.
         bnd (onVault (secretSave (rpX E) (rpI E) (rpSecrets E) (Some s))) (\<lambda>(out, _).
         ret (secretToRPC (rpX E) out)))))"

definition SecretRemove :: "('s, 'n, 'd, 'w, 'k, 'f, 'r) rpc \<Rightarrow> string \<Rightarrow> ('s, 'n, 'd, 'w, unit) svc" where
  "SecretRemove E i =
     bnd (failIf (i = []) (Err ''id not specified'')) (\<lambda>_.
     bnd (onVault (vaultDelete (rpX E) (rpI E) i)) (\<lambda>ok.
     failIf (\<not> ok) (ErrNotFound i)))"

definition svcSecrets ::
  "('s, 'n, 'd, 'w, 'k, 'f, 'r) rpc \<Rightarrow> string \<Rightarrow> string \<Rightarrow> sortDirection \<Rightarrow> ('s, 'n, 'd, 'w, rpcSecret list \<times> string) svc" where
  "svcSecrets E query sortF dir =
     (let field = (if sortF = [] then ''name'' else sortF)
      in bnd (onVault (secretList (rpX E) (rpI E) (rpSecrets E)
                \<lparr>opQuery = query, opSort = field, opDirection = sortDirectionToVault dir\<rparr>)) (\<lambda>results.
         ret (secretsToRPC (rpX E) results, field)))"

section \<open>config.go\<close>

text \<open>A configuration as fields of a document and back; a missing one is the empty message.\<close>

record configLib =
  cgFrom :: "string \<Rightarrow> fields"
  cgTo :: "fields \<Rightarrow> err + string"

definition ConfigGet :: "('s, 'n, 'd, 'w, 'k, 'f, 'r) rpc \<Rightarrow> configLib \<Rightarrow> string \<Rightarrow> ('s, 'n, 'd, 'w, string) svc" where
  "ConfigGet E G name =
     bnd (onDb (sdbGet (rpX E) (rpLdb E) (rpSdb E) (xPath (rpX E) [''config'', name]))) (\<lambda>doc.
     case doc of None \<Rightarrow> ret [] | Some d \<Rightarrow> lift (cgTo G (doFields d)))"

definition ConfigSet :: "('s, 'n, 'd, 'w, 'k, 'f, 'r) rpc \<Rightarrow> configLib \<Rightarrow> string \<Rightarrow> string \<Rightarrow> ('s, 'n, 'd, 'w, unit) svc" where
  "ConfigSet E G name config =
     onDb (sdbSet (rpX E) (rpLdb E) (rpSdb E) (xPath (rpX E) [''config'', name]) (cgFrom G config) False)"

section \<open>rand.go and encode.go\<close>

datatype encoding = Base62 | Base58 | Base32 | Hex | Base64 | Saltpack | BIP39 | OtherEncoding int

text \<open>\<^verbatim>\<open>encodingFromRPC\<close> maps the values of the message to those of \<^verbatim>\<open>keys/encoding\<close>, here by name.\<close>

definition encodingFromRPC :: "encoding \<Rightarrow> err + string" where
  "encodingFromRPC enc =
     (case enc of Base62 \<Rightarrow> Inr ''base62'' | Base58 \<Rightarrow> Inr ''base58'' | Base32 \<Rightarrow> Inr ''base32'' | Hex \<Rightarrow> Inr ''hex''
      | Base64 \<Rightarrow> Inr ''base64'' | Saltpack \<Rightarrow> Inr ''saltpack'' | BIP39 \<Rightarrow> Inr ''bip39''
      | OtherEncoding n \<Rightarrow> Inl (Err ''invalid encoding''))"

definition encodingToRPC :: "string \<Rightarrow> err + encoding" where
  "encodingToRPC enc =
     (if enc = ''base62'' then Inr Base62 else if enc = ''base58'' then Inr Base58
      else if enc = ''base32'' then Inr Base32 else if enc = ''hex'' then Inr Hex
      else if enc = ''base64'' then Inr Base64 else if enc = ''saltpack'' then Inr Saltpack
      else if enc = ''bip39'' then Inr BIP39 else Inl (Err ''invalid encoding''))"

text \<open>\<open>enc b e noPadding lowercase\<close> is \<^verbatim>\<open>encoding.Encode\<close>; \<open>randPassword\<close> is \<^verbatim>\<open>keys.RandPassword\<close>.\<close>

definition Rand ::
  "('s, 'n, 'd, 'w, 'k, 'f, 'r) rpc \<Rightarrow> (string \<Rightarrow> string \<Rightarrow> bool \<Rightarrow> bool \<Rightarrow> err + string) \<Rightarrow>
   nat \<Rightarrow> encoding \<Rightarrow> bool \<Rightarrow> bool \<Rightarrow> ('s, 'n, 'd, 'w, string) svc" where
  "Rand E enc numBytes e noPadding lowercase =
     bnd svcDraw (\<lambda>d.
     let b = xRand (rpX E) d numBytes
     in bnd (lift (encodingFromRPC e)) (\<lambda>name.
        lift (enc b name noPadding lowercase)))"

definition RandPassword :: "(nat \<Rightarrow> int \<Rightarrow> string) \<Rightarrow> int \<Rightarrow> ('s, 'n, 'd, 'w, string) svc" where
  "RandPassword randPassword n = bnd svcDraw (\<lambda>d. ret (randPassword d n))"

section \<open>db.go\<close>

record rpcDocument =
  rdPath :: string
  rdValue :: string
  rdCreatedAt :: int
  rdUpdatedAt :: int

text \<open>\<^verbatim>\<open>spew.Sdump\<close> and \<^verbatim>\<open>Document.Data\<close> are parameters.\<close>

definition dataToString :: "(string \<Rightarrow> string) \<Rightarrow> string \<Rightarrow> string" where
  "dataToString dump b = (if utf8Valid b then b else dump b)"

definition svcCollections ::
  "('s, 'n, 'd, 'w, 'k, 'f, 'r) rpc \<Rightarrow> string \<Rightarrow> string \<Rightarrow> ('s, 'n, 'd, 'w, string list) svc" where
  "svcCollections E db parent =
     (if db = [] \<or> db = ''service'' then onDb (sdbCollections (rpX E) (rpLdb E) (rpSdb E) parent)
      else if db = ''vault'' then onVault (onStore (Collections (rpX E) (rpI E) []))
      else fail (Err (''invalid db '' @ db)))"

definition svcDocuments ::
  "('s, 'n, 'd, 'w, 'k, 'f, 'r) rpc \<Rightarrow> (string \<Rightarrow> string) \<Rightarrow> (document \<Rightarrow> gobytes) \<Rightarrow> string \<Rightarrow> string \<Rightarrow>
   ('s, 'n, 'd, 'w, rpcDocument list) svc" where
  "svcDocuments E dump docData db pre =
     (if db = [] \<or> db = ''service'' then
        bnd (onDb (sdbDocuments (rpX E) (rpLdb E) (rpSdb E) [] (prefixOpts pre))) (\<lambda>docs.
        ret (map (\<lambda>d. \<lparr>rdPath = doPath d, rdValue = dataToString dump (bstr (docData d)),
               rdCreatedAt = xMillis (rpX E) (doCreatedAt d), rdUpdatedAt = xMillis (rpX E) (doUpdatedAt d)\<rparr>) docs))
      else if db = ''vault'' then
        bnd (onVault (onStore (sList (rpI E) (Some (withPrefix pre))))) (\<lambda>es.
        ret (map (\<lambda>e. \<lparr>rdPath = ePath e, rdValue = dataToString dump (bstr (eData e)), rdCreatedAt = 0, rdUpdatedAt = 0\<rparr>) es))
      else fail (Err ''unrecognized db''))"

text \<open>An unknown database is not refused: nothing is deleted and the path is reported as missing.\<close>

definition DocumentDelete ::
  "('s, 'n, 'd, 'w, 'k, 'f, 'r) rpc \<Rightarrow> string \<Rightarrow> string \<Rightarrow> ('s, 'n, 'd, 'w, unit) svc" where
  "DocumentDelete E db path =
     bnd (failIf (path = []) (Err ''invalid path'')) (\<lambda>_.
     bnd (if db = [] \<or> db = ''service'' then onDb (sdbDelete (rpX E) (rpLdb E) path)
          else if db = ''vault'' then onVault (onStore (sDelete (rpI E) path))
          else ret False) (\<lambda>ok.
     failIf (\<not> ok) (Err (''path not found '' @ path))))"

end
