(* ===== verification/ServiceAuth.thy ===== *)
theory ServiceAuth
  imports ServiceUsers Paths
begin

text \<open>
  Sessions of the service: unlocking, locking and session tokens (\<^verbatim>\<open>service/auth.go\<close>,
  \<^verbatim>\<open>service.go\<close>, \<^verbatim>\<open>status.go\<close>), passwords, paper keys and FIDO2 devices as auth methods
  (\<^verbatim>\<open>auth_pw.go\<close>, \<^verbatim>\<open>auth_pk.go\<close>, \<^verbatim>\<open>auth_fido2.go\<close>, \<^verbatim>\<open>auth/fido2/device.go\<close>), and the calls on them
  (\<^verbatim>\<open>auth_rpc.go\<close>). Every call but a few needs a token that \<^verbatim>\<open>AuthUnlock\<close> gave out since the
  last \<^verbatim>\<open>AuthLock\<close>.
\<close>

section \<open>What the sessions call\<close>

record device =
  dvPath :: string
  dvProduct :: string

record deviceInfo =
  diAAGUID :: string
  diExtensions :: "string list"

text \<open>\<^verbatim>\<open>fido2.FIDO2Server\<close>: (device, pin, client data, relying party, user, name) and
  (device, pin, client data, relying party, credential, salt).\<close>

record 'w fido2 =
  fdDevices :: "('w, device list) op"
  fdInfo :: "string \<Rightarrow> ('w, deviceInfo) op"
  fdGenerate :: "string \<Rightarrow> string \<Rightarrow> string \<Rightarrow> string \<Rightarrow> string \<Rightarrow> string \<Rightarrow> ('w, string) op"
  fdSecret :: "string \<Rightarrow> string \<Rightarrow> string \<Rightarrow> string \<Rightarrow> string \<Rightarrow> gobytes \<Rightarrow> ('w, string) op"

record ('d, 'w) authLib =
  \<comment> \<open>the FIDO2 plugin, if any; the application's name and paths; files\<close>
  aeFido :: "'w fido2 option"
  aeAppName :: string
  aePath :: "string \<Rightarrow> bool \<Rightarrow> ('d, 'w, string) world"
  aeStat :: "('d sdbState \<times> 'w) stat"
  aeRemoveAll :: "string \<Rightarrow> ('d, 'w, unit) world"
  \<comment> \<open>PhraseToBytes, BIP39 of 32 bytes, Base62\<close>
  aePhrase :: "string \<Rightarrow> err + string"
  aeBIP39 :: "string \<Rightarrow> err + string"
  aeUnBIP39 :: "string \<Rightarrow> err + string"
  aeUnBase62 :: "string \<Rightarrow> err + string"
  \<comment> \<open>JSON of a remote (null is the zero value), GenerateEdX25519Key by draw, Seed\<close>
  aeRemoteM :: "remote \<Rightarrow> err + string"
  aeRemoteU :: "string \<Rightarrow> err + remote"
  aeGenKey :: "nat \<Rightarrow> edkey"
  aeSeed :: "edkey \<Rightarrow> string"

definition onDevice :: "('w, 'a) op \<Rightarrow> ('s, 'n, 'd, 'w, 'a) svc" where
  "onDevice m = zoom svWorld (\<lambda>w s. s\<lparr>svWorld := w\<rparr>) m"

definition HasExtension :: "deviceInfo \<Rightarrow> string \<Rightarrow> bool" where
  "HasExtension d ext \<longleftrightarrow> ext \<in> set (diExtensions d)"

section \<open>auth_pw.go and auth_pk.go\<close>

definition passwordKey :: "('s, 'n, 'd, 'w, 'k, 'f, 'r) rpc \<Rightarrow> string \<Rightarrow> ('s, 'n, 'd, 'w, string) svc" where
  "passwordKey E password =
     bnd (onVault (Salt (rpX E) (rpI E))) (\<lambda>salt. lift (xKeyForPassword (rpX E) password (bstr salt)))"

definition setupPassword :: "('s, 'n, 'd, 'w, 'k, 'f, 'r) rpc \<Rightarrow> string \<Rightarrow> ('s, 'n, 'd, 'w, unit) svc" where
  "setupPassword E password =
     bnd (passwordKey E password) (\<lambda>key.
     bnd (onVault (NewProvision (rpX E) PasswordAuth)) (\<lambda>p.
     onVault (Setup (rpX E) (rpI E) (Some key) (Some p))))"

definition unlockPassword :: "('s, 'n, 'd, 'w, 'k, 'f, 'r) rpc \<Rightarrow> string \<Rightarrow> ('s, 'n, 'd, 'w, provision) svc" where
  "unlockPassword E password =
     bnd (passwordKey E password) (\<lambda>key. onVault (Unlock (rpX E) (rpI E) (Some key)))"

definition provisionPassword :: "('s, 'n, 'd, 'w, 'k, 'f, 'r) rpc \<Rightarrow> string \<Rightarrow> ('s, 'n, 'd, 'w, provision) svc" where
  "provisionPassword E password =
     bnd (passwordKey E password) (\<lambda>key.
     bnd (onVault (NewProvision (rpX E) PasswordAuth)) (\<lambda>p.
     bnd (onVault (Provision (rpX E) (rpI E) (Some key) (Some p))) (\<lambda>_. ret p)))"

definition ErrInvalidPasswordRPC :: err where
  "ErrInvalidPasswordRPC = ErrStatus ''Unauthenticated'' ''invalid password''"

definition ErrInvalidAuthRPC :: err where
  "ErrInvalidAuthRPC = ErrStatus ''Unauthenticated'' ''invalid auth''"

definition AuthPasswordChange ::
  "('s, 'n, 'd, 'w, 'k, 'f, 'r) rpc \<Rightarrow> string \<Rightarrow> string \<Rightarrow> ('s, 'n, 'd, 'w, unit) svc" where
  "AuthPasswordChange E old new =
     bnd (mapErr (\<lambda>e. if cause e = ErrInvalidAuth then ErrInvalidPasswordRPC else e) (unlockPassword E old)) (\<lambda>p.
     bnd (provisionPassword E new) (\<lambda>_.
     bnd (wrapErr ''failed to deprovision old password (new password was provisioned)''
            (onVault (Deprovision (rpX E) (rpI E) (pvID p) False))) (\<lambda>ok.
     failIf (\<not> ok) (Err ''failed to deprovision, password not found (new password was provisioned)''))))"

definition provisionPaperKey ::
  "('s, 'n, 'd, 'w, 'k, 'f, 'r) rpc \<Rightarrow> ('d, 'w) authLib \<Rightarrow> string \<Rightarrow> ('s, 'n, 'd, 'w, provision) svc" where
  "provisionPaperKey E G paperKey =
     bnd (wrapErr ''failed to provision paper key'' (lift (aePhrase G paperKey))) (\<lambda>key.
     bnd (onVault (NewProvision (rpX E) PaperKeyAuth)) (\<lambda>p.
     bnd (onVault (Provision (rpX E) (rpI E) (Some key) (Some p))) (\<lambda>_. ret p)))"

definition unlockPaperKey ::
  "('s, 'n, 'd, 'w, 'k, 'f, 'r) rpc \<Rightarrow> ('d, 'w) authLib \<Rightarrow> string \<Rightarrow> ('s, 'n, 'd, 'w, provision) svc" where
  "unlockPaperKey E G paperKey =
     bnd (lift (aePhrase G paperKey)) (\<lambda>key. onVault (Unlock (rpX E) (rpI E) (Some key)))"

section \<open>auth_fido2.go\<close>

record authDevice =
  adDevice :: device
  adInfo :: deviceInfo
  adProvision :: "provision option"

definition matchAAGUID :: "provision list \<Rightarrow> string \<Rightarrow> provision option" where
  "matchAAGUID ps aaguid = List.find (\<lambda>p. pvAAGUID p = aaguid) ps"

text \<open>A device whose info cannot be read is passed over.\<close>

primrec tryDevices :: "'w fido2 \<Rightarrow> (device \<Rightarrow> bool) \<Rightarrow> (device \<Rightarrow> deviceInfo \<Rightarrow> authDevice option) \<Rightarrow>
   device list \<Rightarrow> ('w, authDevice option) op" where
  "tryDevices F want pick [] = ret None"
| "tryDevices F want pick (d # ds) =
     (if \<not> want d then tryDevices F want pick ds
      else orElse (fdInfo F (dvPath d)) (\<lambda>_. tryDevices F want pick ds) (\<lambda>info.
           case pick d info of None \<Rightarrow> tryDevices F want pick ds | Some a \<Rightarrow> ret (Some a)))"

definition findDevice :: "'w fido2 option \<Rightarrow> string \<Rightarrow> ('w, authDevice option) op" where
  "findDevice fas query =
     (case fas of None \<Rightarrow> fail (Err ''fido2 plugin not available'')
      | Some F \<Rightarrow>
          bnd (failIf (query = []) (Err ''no device specified'')) (\<lambda>_.
          bnd (fdDevices F) (\<lambda>ds.
          tryDevices F (\<lambda>d. dvPath d = query \<or> dvProduct d = query)
            (\<lambda>d info. Some \<lparr>adDevice = d, adInfo = info, adProvision = None\<rparr>) ds)))"

definition findDeviceProvision :: "'w fido2 option \<Rightarrow> provision list \<Rightarrow> ('w, authDevice) op" where
  "findDeviceProvision fas ps =
     (case fas of None \<Rightarrow> fail (Err ''fido2 plugin not available'')
      | Some F \<Rightarrow>
          bnd (failIf (ps = []) (Err ''no provisions specified'')) (\<lambda>_.
          bnd (fdDevices F) (\<lambda>ds.
          bnd (failIf (ds = []) (Err ''no devices found'')) (\<lambda>_.
          bnd (tryDevices F (\<lambda>_. True)
                (\<lambda>d info. if HasExtension info ''hmac-secret''
                   then (case matchAAGUID ps (diAAGUID info) of None \<Rightarrow> None
                         | Some p \<Rightarrow> Some \<lparr>adDevice = d, adInfo = info, adProvision = Some p\<rparr>)
                   else None) ds) (\<lambda>r.
          case r of None \<Rightarrow> fail (Err ''no devices found matching our credentials'') | Some a \<Rightarrow> ret a)))))"

definition clientData :: string where
  "clientData = replicate 32 (CHR 0x00)"

definition generateHMACSecret ::
  "('s, 'n, 'd, 'w, 'k, 'f, 'r) rpc \<Rightarrow> ('d, 'w) authLib \<Rightarrow> string \<Rightarrow> string \<Rightarrow> ('s, 'n, 'd, 'w, provision) svc" where
  "generateHMACSecret E G pin dev =
     (case aeFido G of None \<Rightarrow> fail (Err ''fido2 plugin not available'')
      | Some F \<Rightarrow>
          bnd (failIf (dev = []) (Err ''no device specified'')) (\<lambda>_.
          bnd (onDevice (findDevice (aeFido G) dev)) (\<lambda>found.
          case found of None \<Rightarrow> fail (Err (''device not found: '' @ dev))
          | Some a \<Rightarrow>
              bnd svcDraw (\<lambda>d1.
              bnd (onDevice (fdGenerate F (dvPath (adDevice a)) pin clientData ''keys.pub''
                     (xRand (rpX E) d1 16) (aeAppName G))) (\<lambda>credID.
              bnd svcDraw (\<lambda>d2.
              bnd (onVault (timeNow (rpX E))) (\<lambda>now.
              let p = \<lparr>pvID = xBase62 (rpX E) credID, pvType = FIDO2HMACSecretAuth, pvCreatedAt = now,
                       pvAAGUID = diAAGUID (adInfo a), pvSalt = Some (xRand (rpX E) d2 32), pvNoPin = (pin = [])\<rparr>
              in bnd (onVault (ProvisionSave (rpX E) (rpI E) p)) (\<lambda>_. ret p))))))))"

definition hmacSecret ::
  "('s, 'n, 'd, 'w, 'k, 'f, 'r) rpc \<Rightarrow> ('d, 'w) authLib \<Rightarrow> string \<Rightarrow> ('s, 'n, 'd, 'w, string \<times> provision) svc" where
  "hmacSecret E G pin =
     (case aeFido G of None \<Rightarrow> fail (Err ''fido2 plugin not available'')
      | Some F \<Rightarrow>
          bnd (onVault (Provisions (rpX E) (rpI E))) (\<lambda>ps.
          bnd (failIf (ps = []) (Err ''no provisions found for hmac-secret'')) (\<lambda>_.
          bnd (onDevice (findDeviceProvision (aeFido G) ps)) (\<lambda>a.
          case adProvision a of None \<Rightarrow> fail (Err ''device has no matching provision'')
          | Some p \<Rightarrow>
              bnd (wrapErr ''credential (provision) id was invalid'' (lift (aeUnBase62 G (pvID p)))) (\<lambda>credID.
              bnd (onDevice (fdSecret F (dvPath (adDevice a)) pin clientData ''keys.pub'' credID (pvSalt p))) (\<lambda>secret.
              ret (secret, p)))))))"

text \<open>The first unlock with a device finishes its setup.\<close>

definition unlockHMACSecret ::
  "('s, 'n, 'd, 'w, 'k, 'f, 'r) rpc \<Rightarrow> ('d, 'w) authLib \<Rightarrow> string \<Rightarrow> ('s, 'n, 'd, 'w, unit) svc" where
  "unlockHMACSecret E G pin =
     bnd (hmacSecret E G pin) (\<lambda>(secret, p).
     bnd (failIf (length secret \<noteq> 32) (Err ''invalid key length from hmac-secret'')) (\<lambda>_.
     bnd (onVault (Status (rpX E) (rpI E))) (\<lambda>st.
     bnd (if st = SetupNeeded then onVault (Setup (rpX E) (rpI E) (Some secret) (Some p)) else ret ()) (\<lambda>_.
     bnd (onVault (Unlock (rpX E) (rpI E) (Some secret))) (\<lambda>_. ret ())))))"

definition provisionHMACSecret ::
  "('s, 'n, 'd, 'w, 'k, 'f, 'r) rpc \<Rightarrow> ('d, 'w) authLib \<Rightarrow> string \<Rightarrow> ('s, 'n, 'd, 'w, provision) svc" where
  "provisionHMACSecret E G pin =
     bnd (hmacSecret E G pin) (\<lambda>(secret, p).
     bnd (failIf (length secret \<noteq> 32) (Err ''invalid key length for hmac secret'')) (\<lambda>_.
     bnd (onVault (Provision (rpX E) (rpI E) (Some secret) (Some p))) (\<lambda>_. ret p)))"

end
