(* ===== verification/ServiceSession.thy ===== *)
theory ServiceSession
  imports ServiceAuth
begin

text \<open>
  Sessions: \<^verbatim>\<open>service/auth.go\<close>, \<^verbatim>\<open>service.go\<close>, \<^verbatim>\<open>check.go\<close>, \<^verbatim>\<open>status.go\<close>, the calls of
  \<^verbatim>\<open>auth_rpc.go\<close> and those on the vault's synchronisation (\<^verbatim>\<open>service/vault.go\<close>). The background
  check is modelled as running or not; \<open>tryCheck\<close> is one round of it.
\<close>

section \<open>auth.go\<close>

datatype authType = PasswordType | PaperKeyType | FIDO2Type | UnknownType

definition allowlist :: "string list" where
  "allowlist = [''/service.RPC/AuthSetup'', ''/service.RPC/AuthUnlock'', ''/service.RPC/AuthLock'', ''/service.RPC/AuthVault'',
     ''/service.RPC/AuthReset'', ''/service.RPC/AuthRecover'', ''/service.RPC/Rand'', ''/service.RPC/RandPassword'',
     ''/service.RPC/RuntimeStatus'']"

definition authErr :: "authType \<Rightarrow> string \<Rightarrow> err \<Rightarrow> err" where
  "authErr typ wrap e =
     (if cause e = ErrInvalidAuth
      then (if typ = PasswordType then ErrInvalidPasswordRPC else ErrInvalidAuthRPC)
      else Wrapped wrap e)"

definition generateToken :: "('s, 'n, 'd, 'w, 'k, 'f, 'r) rpc \<Rightarrow> ('s, 'n, 'd, 'w, string) svc" where
  "generateToken E = bnd svcDraw (\<lambda>d. ret (xBase62 (rpX E) (xRand (rpX E) d 32)))"

definition registerToken :: "('s, 'n, 'd, 'w, 'k, 'f, 'r) rpc \<Rightarrow> string \<Rightarrow> ('s, 'n, 'd, 'w, string) svc" where
  "registerToken E cl =
     bnd (generateToken E) (\<lambda>token.
     bnd (modify (\<lambda>s. s\<lparr>svTokens := AList.update cl token (svTokens s)\<rparr>)) (\<lambda>_. ret token))"

definition authSetupCall ::
  "('s, 'n, 'd, 'w, 'k, 'f, 'r) rpc \<Rightarrow> ('d, 'w) authLib \<Rightarrow> authType \<Rightarrow> string \<Rightarrow> string \<Rightarrow> ('s, 'n, 'd, 'w, unit) svc" where
  "authSetupCall E G typ secret dev =
     (case typ of
        PasswordType \<Rightarrow> mapErr (authErr typ ''failed to setup'') (setupPassword E secret)
      | PaperKeyType \<Rightarrow> fail (Err ''setup with paper key not supported'')
      | FIDO2Type \<Rightarrow> bnd (mapErr (authErr typ ''failed to setup'') (generateHMACSecret E G secret dev)) (\<lambda>_. ret ())
      | UnknownType \<Rightarrow> fail (Err ''unsupported auth type''))"

text \<open>The vault is unlocked with the secret, then the client gets a new token.\<close>

definition unlockVault ::
  "('s, 'n, 'd, 'w, 'k, 'f, 'r) rpc \<Rightarrow> ('d, 'w) authLib \<Rightarrow> authType \<Rightarrow> string \<Rightarrow> ('s, 'n, 'd, 'w, unit) svc" where
  "unlockVault E G typ secret =
     (case typ of
        PasswordType \<Rightarrow> bnd (mapErr (authErr typ ''failed to unlock'') (unlockPassword E secret)) (\<lambda>_. ret ())
      | PaperKeyType \<Rightarrow> bnd (mapErr (authErr typ ''failed to unlock'') (unlockPaperKey E G secret)) (\<lambda>_. ret ())
      | FIDO2Type \<Rightarrow> mapErr (authErr typ ''failed to unlock'') (unlockHMACSecret E G secret)
      | UnknownType \<Rightarrow> fail (Err ''unsupported auth type''))"

definition authUnlockCall ::
  "('s, 'n, 'd, 'w, 'k, 'f, 'r) rpc \<Rightarrow> ('d, 'w) authLib \<Rightarrow> authType \<Rightarrow> string \<Rightarrow> string \<Rightarrow> ('s, 'n, 'd, 'w, string) svc" where
  "authUnlockCall E G typ secret cl = bnd (unlockVault E G typ secret) (\<lambda>_. registerToken E cl)"

definition authLock :: "('s, 'n, 'd, 'w, unit) svc" where
  "authLock = bnd (modify (\<lambda>s. s\<lparr>svTokens := []\<rparr>)) (\<lambda>_. onVault Lock)"

definition authProvision ::
  "('s, 'n, 'd, 'w, 'k, 'f, 'r) rpc \<Rightarrow> ('d, 'w) authLib \<Rightarrow> authType \<Rightarrow> string \<Rightarrow> string \<Rightarrow> bool \<Rightarrow> ('s, 'n, 'd, 'w, provision) svc" where
  "authProvision E G typ secret dev generate =
     (case typ of
        PasswordType \<Rightarrow> provisionPassword E secret
      | PaperKeyType \<Rightarrow> provisionPaperKey E G secret
      | FIDO2Type \<Rightarrow> (if generate then generateHMACSecret E G secret dev else provisionHMACSecret E G secret)
      | UnknownType \<Rightarrow> fail (Err ''unknown auth type''))"

definition checkToken :: "string \<Rightarrow> ('s, 'n, 'd, 'w, unit) svc" where
  "checkToken token =
     bnd (gets (\<lambda>s. token \<in> snd ` set (svTokens s))) (\<lambda>known.
     failIf (\<not> known) (ErrStatus ''Unauthenticated'' ''invalid token''))"

text \<open>\<open>md\<close> is the request's metadata: none, or the values of its \<^verbatim>\<open>authorization\<close>.\<close>

definition authorizeCall :: "string list option \<Rightarrow> string \<Rightarrow> ('s, 'n, 'd, 'w, unit) svc" where
  "authorizeCall md meth =
     (if meth \<in> set allowlist then ret ()
      else case md of None \<Rightarrow> fail (ErrStatus ''Unauthenticated'' ''no authorization in context'')
      | Some vs \<Rightarrow>
          if vs = [] then fail (ErrStatus ''Unauthenticated'' ''authorization missing'')
          else checkToken (hd vs))"

text \<open>\<^verbatim>\<open>unaryInterceptor\<close> and \<^verbatim>\<open>streamInterceptor\<close>: authorize, then handle.\<close>

definition intercept ::
  "string list option \<Rightarrow> string \<Rightarrow> ('s, 'n, 'd, 'w, 'a) svc \<Rightarrow> ('s, 'n, 'd, 'w, 'a) svc" where
  "intercept md meth handler = bnd (authorizeCall md meth) (\<lambda>_. handler)"

text \<open>\<^verbatim>\<open>clientAuth\<close>: the metadata a client sends for its token.\<close>

definition clientMetadata :: "string \<Rightarrow> (string \<times> string) list" where
  "clientMetadata token = (if token = [] then [] else [(''authorization'', token)])"

section \<open>check.go\<close>

definition startCheck :: "('s, 'n, 'd, 'w, unit) svc" where
  "startCheck = bnd (gets svChecking) (\<lambda>c. if c then ret () else modify (\<lambda>s. s\<lparr>svChecking := True\<rparr>))"

definition stopCheck :: "('s, 'n, 'd, 'w, unit) svc" where
  "stopCheck = modify (\<lambda>s. s\<lparr>svChecking := False\<rparr>)"

section \<open>service.go\<close>

definition cdbPath :: string where "cdbPath = ''cache.sdb''"

definition cacheKey :: "'z ext_scheme \<Rightarrow> string \<Rightarrow> string" where
  "cacheKey X mk = xHKDF X mk 32 [] ''keys.pub/cache''"

text \<open>Opening the database; the result says whether it is new.\<close>

definition openCache ::
  "('s, 'n, 'd, 'w, 'k, 'f, 'r) rpc \<Rightarrow> ('d, 'w) authLib \<Rightarrow> ('s, 'n, 'd, 'w, bool) svc" where
  "openCache E G =
     bnd (onWorld (aePath G cdbPath True)) (\<lambda>path.
     bnd (onWorld (pathExists (aeStat G) path)) (\<lambda>exists.
     bnd (gets (\<lambda>s. MasterKey (svVault s))) (\<lambda>mk'.
     case mk' of None \<Rightarrow> fail (Panic ''nil pointer'')
     | Some mk \<Rightarrow>
         bnd (onDb (OpenAtPath (rpLdb E) path (cacheKey (rpX E) mk))) (\<lambda>_. ret (\<not> exists)))))"

definition svcUnlock ::
  "('s, 'n, 'd, 'w, 'k, 'f, 'r) rpc \<Rightarrow> ('d, 'w) authLib \<Rightarrow> authType \<Rightarrow> string \<Rightarrow> string \<Rightarrow> ('s, 'n, 'd, 'w, string) svc" where
  "svcUnlock E G typ secret cl =
     bnd (authUnlockCall E G typ secret cl) (\<lambda>token.
     bnd (gets (\<lambda>s. IsOpen (svDb s))) (\<lambda>open'.
     bnd (if open' then ret False else openCache E G) (\<lambda>isNew.
     bnd (if isNew then orElse (updateAllKeys E) (\<lambda>_. ret ()) (\<lambda>_. ret ()) else ret ()) (\<lambda>_.
     bnd startCheck (\<lambda>_.
     bnd (modify (\<lambda>s. s\<lparr>svUnlocked := True\<rparr>)) (\<lambda>_. ret token))))))"

definition svcLock :: "('s, 'n, 'd, 'w, 'k, 'f, 'r) rpc \<Rightarrow> ('s, 'n, 'd, 'w, unit) svc" where
  "svcLock E =
     bnd (gets svUnlocked) (\<lambda>u.
     if \<not> u then ret ()
     else bnd stopCheck (\<lambda>_.
          bnd authLock (\<lambda>_.
          bnd (onDb (sdbClose (rpLdb E))) (\<lambda>_.
          modify (\<lambda>s. s\<lparr>svUnlocked := False\<rparr>)))))"

definition newService :: "'s \<Rightarrow> 'n \<Rightarrow> 'd \<Rightarrow> 'w \<Rightarrow> ('s, 'n, 'd, 'w) service" where
  "newService st net disk w =
     \<lparr>svVault = (vaultNew st net)\<lparr>vHasClient := True\<rparr>, svDb = sdbNew disk, svWorld = w, svTokens = [], svUnlocked = False,
      svChecking = False, svDraws = 0\<rparr>"

text \<open>\<open>convert\<close> is \<^verbatim>\<open>checkKeyringConvert\<close>. An error of closing the vault is logged only.\<close>

definition svcOpen ::
  "('s, 'n, 'd, 'w, 'k, 'f, 'r) rpc \<Rightarrow> ('s, 'n, 'd, 'w, unit) svc \<Rightarrow> ('s, 'n, 'd, 'w, unit) svc" where
  "svcOpen E convert = bnd (onVault (vaultOpen (rpI E))) (\<lambda>_. convert)"

definition svcClose :: "('s, 'n, 'd, 'w, 'k, 'f, 'r) rpc \<Rightarrow> ('s, 'n, 'd, 'w, unit) svc" where
  "svcClose E = bnd (svcLock E) (\<lambda>_. orElse (onVault (vaultClose (rpI E))) (\<lambda>_. ret ()) (\<lambda>_. ret ()))"

text \<open>
  Synchronising may not end, which is \<open>None\<close>. \<open>runs m f\<close> goes on with \<open>f\<close> when \<open>m\<close> ends.
\<close>

type_synonym ('s, 'n, 'd, 'w, 'a) svcp = "('s, 'n, 'd, 'w) service \<Rightarrow> ((err + 'a) \<times> ('s, 'n, 'd, 'w) service) option"

definition onVaultP ::
  "(('s, 'n) vault \<Rightarrow> ((err + 'a) \<times> ('s, 'n) vault) option) \<Rightarrow> ('s, 'n, 'd, 'w, 'a) svcp" where
  "onVaultP m s = (case m (svVault s) of None \<Rightarrow> None | Some (r, v) \<Rightarrow> Some (r, s\<lparr>svVault := v\<rparr>))"

definition runs ::
  "('s, 'n, 'd, 'w, 'a) svcp \<Rightarrow> (err + 'a \<Rightarrow> ('s, 'n, 'd, 'w, 'b) svc) \<Rightarrow> ('s, 'n, 'd, 'w, 'b) svcp" where
  "runs m f s = (case m s of None \<Rightarrow> None | Some (r, s') \<Rightarrow> Some (f r s'))"

definition client :: "('s, 'n, 'd, 'w, 'k, 'f, 'r) rpc \<Rightarrow> 'n http_client" where
  "client E = Request (rpW E) (rpC E)"

text \<open>Errors of a round of the check are logged; a panic is not caught.\<close>

definition tryCheck ::
  "('s, 'n, 'd, 'w, 'k, 'f, 'r) rpc \<Rightarrow> err option \<Rightarrow> (nat \<Rightarrow> err option) \<Rightarrow> ('s, 'n, 'd, 'w, unit) svcp" where
  "tryCheck E syncErr ctxErr =
     runs (onVaultP (CheckSync (rpX E) (rpI E) (client E) syncErr minute)) (\<lambda>r.
     case r of
       Inl e \<Rightarrow> if isPanic e then fail e
                else if ctxErr 0 \<noteq> None then ret () else orElse (checkKeys E (ctxErr \<circ> Suc)) (\<lambda>_. ret ()) ret
     | Inr _ \<Rightarrow> if ctxErr 0 \<noteq> None then ret () else orElse (checkKeys E (ctxErr \<circ> Suc)) (\<lambda>_. ret ()) ret)"

section \<open>status.go\<close>

datatype authStatus = AuthUnknown | AuthSetupNeeded | AuthUnlocked | AuthLocked

definition vaultStatusToRPC :: "status \<Rightarrow> authStatus" where
  "vaultStatusToRPC st =
     (case st of Locked \<Rightarrow> AuthLocked | Unlocked \<Rightarrow> AuthUnlocked | SetupNeeded \<Rightarrow> AuthSetupNeeded | Unknown \<Rightarrow> AuthUnknown)"

definition ensureUnlocked :: "('s, 'n, 'd, 'w, 'k, 'f, 'r) rpc \<Rightarrow> ('s, 'n, 'd, 'w, unit) svc" where
  "ensureUnlocked E = bnd (onVault (Status (rpX E) (rpI E))) (\<lambda>st. failIf (st \<noteq> Unlocked) ErrLocked)"

section \<open>service/vault.go\<close>

definition rpcVaultSync ::
  "('s, 'n, 'd, 'w, 'k, 'f, 'r) rpc \<Rightarrow> err option \<Rightarrow> (nat \<Rightarrow> err option) \<Rightarrow> ('s, 'n, 'd, 'w, unit) svcp" where
  "rpcVaultSync E syncErr ctxErr =
     runs (onVaultP (Sync (rpX E) (rpI E) (client E) syncErr)) (\<lambda>r.
     case r of Inl e \<Rightarrow> fail (if isPanic e then e else Wrapped ''failed to sync'' e)
     | Inr _ \<Rightarrow> wrapErr ''failed to check keys'' (checkKeys E ctxErr))"

definition vaultUpdate ::
  "('s, 'n, 'd, 'w, 'k, 'f, 'r) rpc \<Rightarrow> err option \<Rightarrow> (nat \<Rightarrow> err option) \<Rightarrow> duration \<Rightarrow> ('s, 'n, 'd, 'w, unit) svcp" where
  "vaultUpdate E syncErr ctxErr expire =
     runs (onVaultP (CheckSync (rpX E) (rpI E) (client E) syncErr expire)) (\<lambda>r.
     case r of Inl e \<Rightarrow> fail e | Inr synced \<Rightarrow> if synced then checkKeys E ctxErr else ret ())"

definition rpcVaultUpdate ::
  "('s, 'n, 'd, 'w, 'k, 'f, 'r) rpc \<Rightarrow> err option \<Rightarrow> (nat \<Rightarrow> err option) \<Rightarrow> ('s, 'n, 'd, 'w, unit) svcp" where
  "rpcVaultUpdate E syncErr ctxErr = vaultUpdate E syncErr ctxErr 0"

definition rpcVaultUnsync :: "('s, 'n, 'd, 'w, 'k, 'f, 'r) rpc \<Rightarrow> ('s, 'n, 'd, 'w, unit) svc" where
  "rpcVaultUnsync E = onVault (Unsync (rpX E) (rpI E) (client E))"

definition rpcVaultStatus :: "('s, 'n, 'd, 'w, 'k, 'f, 'r) rpc \<Rightarrow> ('s, 'n, 'd, 'w, string \<times> int) svc" where
  "rpcVaultStatus E =
     bnd (onVault (SyncStatus (rpX E) (rpI E))) (\<lambda>st.
     ret (case st of None \<Rightarrow> ([], 0) | Some x \<Rightarrow> (ssKID x, xMillis (rpX E) (ssSyncedAt x))))"

text \<open>The remote's key is shared under a one-time key for five minutes; the phrase is that key's seed.\<close>

definition VaultAuth ::
  "('s, 'n, 'd, 'w, 'k, 'f, 'r) rpc \<Rightarrow> ('d, 'w) authLib \<Rightarrow> ('s, 'n, 'd, 'w, string) svc" where
  "VaultAuth E G =
     bnd (gets (\<lambda>s. Remote (svVault s))) (\<lambda>rem.
     case rem of None \<Rightarrow> fail (Err ''no remote set'')
     | Some r \<Rightarrow>
         bnd (lift (aeRemoteM G r)) (\<lambda>b.
         bnd svcDraw (\<lambda>d.
         let otk = aeGenKey G d
         in bnd (onClient (ShareSeal (rpX E) (rpW E) (rpC E) (rpL E) otk b (5 * minute))) (\<lambda>_.
            lift (aeBIP39 G (aeSeed G otk))))))"

section \<open>auth_rpc.go\<close>

definition AuthSetup ::
  "('s, 'n, 'd, 'w, 'k, 'f, 'r) rpc \<Rightarrow> ('d, 'w) authLib \<Rightarrow> authType \<Rightarrow> string \<Rightarrow> string \<Rightarrow> ('s, 'n, 'd, 'w, unit) svc" where
  "AuthSetup E G typ secret dev =
     bnd (onVault (Status (rpX E) (rpI E))) (\<lambda>st.
     bnd (failIf (st \<noteq> SetupNeeded) (Err ''auth already setup'')) (\<lambda>_.
     bnd (authSetupCall E G typ secret dev) (\<lambda>_.
     bnd (onWorld (aePath G cdbPath False)) (\<lambda>path.
     bnd (onWorld (pathExists (aeStat G) path)) (\<lambda>exists.
     if exists then onWorld (aeRemoveAll G path) else ret ())))))"

definition AuthVault ::
  "('s, 'n, 'd, 'w, 'k, 'f, 'r) rpc \<Rightarrow> ('d, 'w) authLib \<Rightarrow> string \<Rightarrow> ('s, 'n, 'd, 'w, unit) svc" where
  "AuthVault E G phrase =
     bnd (onVault (Status (rpX E) (rpI E))) (\<lambda>st.
     bnd (failIf (st \<noteq> SetupNeeded) (Err ''auth already setup'')) (\<lambda>_.
     bnd (lift (aeUnBIP39 G phrase)) (\<lambda>seed.
     bnd (failIf (length seed \<noteq> 32) (Err ''invalid byte length for otk'')) (\<lambda>_.
     bnd (onClient (ShareOpen (rpX E) (rpW E) (rpC E) (rpL E) (xEdKeyFromSeed (rpX E) seed))) (\<lambda>b'.
     case b' of None \<Rightarrow> fail (Err ''vault not found'')
     | Some b \<Rightarrow>
         bnd (wrapErr ''invalid vault remote bytes'' (lift (aeRemoteU G b))) (\<lambda>r.
         onVault (Clone (rpX E) (rpI E) (client E) (Some r))))))))"

definition AuthUnlock ::
  "('s, 'n, 'd, 'w, 'k, 'f, 'r) rpc \<Rightarrow> ('d, 'w) authLib \<Rightarrow> authType \<Rightarrow> string \<Rightarrow> string \<Rightarrow> ('s, 'n, 'd, 'w, string) svc" where
  "AuthUnlock E G typ secret cl = svcUnlock E G typ secret cl"

definition AuthLock :: "('s, 'n, 'd, 'w, 'k, 'f, 'r) rpc \<Rightarrow> ('s, 'n, 'd, 'w, unit) svc" where
  "AuthLock E = svcLock E"

record rpcProvision =
  rvID :: string
  rvType :: authType
  rvAAGUID :: string
  rvNoPin :: bool
  rvCreatedAt :: int

definition authTypeToRPC :: "string \<Rightarrow> authType" where
  "authTypeToRPC t =
     (if t = PasswordAuth then PasswordType else if t = PaperKeyAuth then PaperKeyType
      else if t = FIDO2HMACSecretAuth then FIDO2Type else UnknownType)"

definition provisionToRPC :: "'z ext_scheme \<Rightarrow> provision \<Rightarrow> rpcProvision" where
  "provisionToRPC X p =
     \<lparr>rvID = pvID p, rvType = authTypeToRPC (pvType p), rvAAGUID = pvAAGUID p, rvNoPin = pvNoPin p,
      rvCreatedAt = xMillis X (pvCreatedAt p)\<rparr>"

definition AuthProvision ::
  "('s, 'n, 'd, 'w, 'k, 'f, 'r) rpc \<Rightarrow> ('d, 'w) authLib \<Rightarrow> authType \<Rightarrow> string \<Rightarrow> string \<Rightarrow> bool \<Rightarrow> ('s, 'n, 'd, 'w, rpcProvision) svc" where
  "AuthProvision E G typ secret dev generate =
     bnd (authProvision E G typ secret dev generate) (\<lambda>p. ret (provisionToRPC (rpX E) p))"

definition AuthDeprovision :: "('s, 'n, 'd, 'w, 'k, 'f, 'r) rpc \<Rightarrow> string \<Rightarrow> ('s, 'n, 'd, 'w, unit) svc" where
  "AuthDeprovision E i =
     bnd (onVault (Deprovision (rpX E) (rpI E) i False)) (\<lambda>ok. failIf (\<not> ok) (ErrNotFound i))"

definition AuthProvisions :: "('s, 'n, 'd, 'w, 'k, 'f, 'r) rpc \<Rightarrow> ('s, 'n, 'd, 'w, rpcProvision list) svc" where
  "AuthProvisions E = bnd (onVault (Provisions (rpX E) (rpI E))) (\<lambda>ps. ret (map (provisionToRPC (rpX E)) ps))"

definition AuthRecover ::
  "('s, 'n, 'd, 'w, 'k, 'f, 'r) rpc \<Rightarrow> ('d, 'w) authLib \<Rightarrow> string \<Rightarrow> string \<Rightarrow> ('s, 'n, 'd, 'w, string) svc" where
  "AuthRecover E G paperKey newPassword =
     bnd (failIf (paperKey = []) (Err ''no paper key specified'')) (\<lambda>_.
     bnd (failIf (newPassword = []) (Err ''no password specified'')) (\<lambda>_.
     bnd (AuthUnlock E G PaperKeyType paperKey []) (\<lambda>token.
     bnd (AuthProvision E G PasswordType newPassword [] False) (\<lambda>_. ret token))))"

definition AuthReset ::
  "('s, 'n, 'd, 'w, 'k, 'f, 'r) rpc \<Rightarrow> ('d, 'w) authLib \<Rightarrow> string \<Rightarrow> ('s, 'n, 'd, 'w, unit) svc" where
  "AuthReset E G appName =
     bnd (gets svUnlocked) (\<lambda>u.
     bnd (failIf u (Wrapped ''failed to reset'' (Err ''auth is unlocked''))) (\<lambda>_.
     bnd (failIf (appName \<noteq> aeAppName G) (Wrapped ''failed to reset'' (Err ''invalid app name''))) (\<lambda>_.
     bnd (onVault (vaultReset (rpX E) (rpI E))) (\<lambda>_.
     bnd (onWorld (aePath G cdbPath False)) (\<lambda>path.
     onWorld (aeRemoveAll G path))))))"

end
