(* ===== verification/ServiceCrypto.thy ===== *)
theory ServiceCrypto
  imports ServiceSession
begin

text \<open>
  Encrypting, signing, decrypting and verifying: \<^verbatim>\<open>service/encrypt.go\<close>, \<^verbatim>\<open>sign.go\<close>, \<^verbatim>\<open>decrypt.go\<close>,
  \<^verbatim>\<open>verify.go\<close>, \<^verbatim>\<open>stream.go\<close>. The formats of \<^verbatim>\<open>keys/saltpack\<close> are parameters. A stream of gRPC
  messages is the list of results of its \<^verbatim>\<open>Recv\<close> calls, whose end is \<^verbatim>\<open>io.EOF\<close>; what is sent is
  appended to a list. \<open>ctxErr i\<close> is the state of the context before message \<open>i\<close>, \<open>sendErr i\<close> the
  result of the \<open>i\<close>-th \<^verbatim>\<open>Send\<close>.
\<close>

section \<open>saltpack\<close>

datatype encryptMode = DefaultEncrypt | SaltpackEncrypt | SaltpackSigncrypt | OtherMode int

record ('s, 'n, 'd, 'w, 'x) crypt =
  \<comment> \<open>Sign, Encrypt and Signcrypt (data, armored, key, recipients), by draw\<close>
  cySign :: "nat \<Rightarrow> gobytes \<Rightarrow> bool \<Rightarrow> edkey \<Rightarrow> err + string"
  cyEncrypt :: "nat \<Rightarrow> gobytes \<Rightarrow> bool \<Rightarrow> string option \<Rightarrow> string list \<Rightarrow> err + string"
  cySigncrypt :: "nat \<Rightarrow> gobytes \<Rightarrow> bool \<Rightarrow> edkey option \<Rightarrow> string list \<Rightarrow> err + string"
  \<comment> \<open>Verify, VerifyDetached (signature, data), VerifyFile, VerifyFileDetached, SignFile\<close>
  cyVerify :: "gobytes \<Rightarrow> err + gobytes \<times> string"
  cyVerifyDetached :: "gobytes \<Rightarrow> gobytes \<Rightarrow> err + string"
  cyVerifyFile :: "string \<Rightarrow> string \<Rightarrow> ('d, 'w, string) world"
  cyVerifyFileDetached :: "gobytes \<Rightarrow> string \<Rightarrow> ('d, 'w, string) world"
  cySignFile :: "string \<Rightarrow> string \<Rightarrow> edkey \<Rightarrow> bool \<Rightarrow> bool \<Rightarrow> ('d, 'w, unit) world"
  \<comment> \<open>Open with the keys of the vault: the data, the sender's key id if any, the encoding\<close>
  cyOpen :: "gobytes \<Rightarrow> (('s, 'n) vault, gobytes \<times> string option \<times> string) op"
  \<comment> \<open>streams: what opening writes to the output; writing gives the bytes taken and the output\<close>
  cySignStream :: "nat \<Rightarrow> bool \<Rightarrow> bool \<Rightarrow> edkey \<Rightarrow> err + 'x \<times> string"
  cyEncryptStream :: "nat \<Rightarrow> bool \<Rightarrow> string option \<Rightarrow> string list \<Rightarrow> err + 'x \<times> string"
  cySigncryptStream :: "nat \<Rightarrow> bool \<Rightarrow> edkey \<Rightarrow> string list \<Rightarrow> err + 'x \<times> string"
  cyWrite :: "'x \<Rightarrow> string \<Rightarrow> err + nat \<times> string \<times> 'x"
  cyClose :: "'x \<Rightarrow> err + string"
  \<comment> \<open>saltpack.EncryptEncoding and SigncryptEncoding\<close>
  cyEncryptEnc :: string
  cySigncryptEnc :: string

section \<open>encrypt.go\<close>

record encryptOptions =
  eoArmored :: bool
  eoMode :: encryptMode
  eoNoSenderRecipient :: bool
  eoNoSign :: bool

definition noEncryptOptions :: encryptOptions where
  "noEncryptOptions = \<lparr>eoArmored = False, eoMode = DefaultEncrypt, eoNoSenderRecipient = False, eoNoSign = False\<rparr>"

record encrypt =
  enRecipients :: "string list"
  enSender :: string
  enMode :: encryptMode
  enArmored :: bool

text \<open>\<^verbatim>\<open>keys.NewIDSet\<close>, \<^verbatim>\<open>Add\<close>, \<^verbatim>\<open>IDs\<close>: a set kept in the order of insertion.\<close>

definition idSetAdd :: "string \<Rightarrow> string list \<Rightarrow> string list" where
  "idSetAdd i is = (if i \<in> set is then is else is @ [i])"

definition idSet :: "string list \<Rightarrow> string list" where
  "idSet is = fold idSetAdd is []"

definition encryptModeFor :: "encryptMode \<Rightarrow> string \<Rightarrow> encryptMode" where
  "encryptModeFor mode skid =
     (if mode = DefaultEncrypt then (if skid \<noteq> [] then SaltpackSigncrypt else SaltpackEncrypt) else mode)"

definition newEncrypt ::
  "('s, 'n, 'd, 'w, 'k, 'f, 'r) rpc \<Rightarrow> string list \<Rightarrow> string \<Rightarrow> encryptOptions option \<Rightarrow> ('s, 'n, 'd, 'w, encrypt) svc" where
  "newEncrypt E recipients sender options =
     (let opts = (case options of None \<Rightarrow> noEncryptOptions | Some x \<Rightarrow> x);
          verified = \<lparr>loVerifyUser = True, loSearchRemote = False\<rparr>
      in bnd (if sender \<noteq> [] then lookupKey E sender verified else ret []) (\<lambda>skid0.
         bnd (lookupAll E recipients verified) (\<lambda>recs.
         let recsSet = (if \<not> eoNoSenderRecipient opts \<and> skid0 \<noteq> [] then idSetAdd skid0 (idSet recs) else idSet recs)
         in bnd (failIf (recsSet = []) (Err ''no recipients specified'')) (\<lambda>_.
            bnd (failIf (skid0 \<noteq> [] \<and> eoNoSign opts \<and> eoNoSenderRecipient opts)
                   (Err ''sender specified without signing or adding as a recipient'')) (\<lambda>_.
            let skid = (if eoNoSign opts then [] else skid0)
            in ret \<lparr>enRecipients = recsSet, enSender = skid, enMode = encryptModeFor (eoMode opts) skid,
                    enArmored = eoArmored opts\<rparr>)))))"

definition Encrypt ::
  "('s, 'n, 'd, 'w, 'k, 'f, 'r) rpc \<Rightarrow> ('s, 'n, 'd, 'w, 'x) crypt \<Rightarrow> gobytes \<Rightarrow> string list \<Rightarrow> string \<Rightarrow> encryptOptions option \<Rightarrow>
   ('s, 'n, 'd, 'w, string) svc" where
  "Encrypt E Y b recipients sender options =
     bnd (newEncrypt E recipients sender options) (\<lambda>enc.
     case enMode enc of
       SaltpackEncrypt \<Rightarrow>
         bnd (x25519Key E (enSender enc)) (\<lambda>sbk.
         bnd svcDraw (\<lambda>d. lift (cyEncrypt Y d b (enArmored enc) sbk (enRecipients enc))))
     | SaltpackSigncrypt \<Rightarrow>
         bnd (edx25519Key E (enSender enc)) (\<lambda>sk.
         bnd svcDraw (\<lambda>d. lift (cySigncrypt Y d b (enArmored enc) sk (enRecipients enc))))
     | _ \<Rightarrow> fail (Err ''unsupported mode''))"

definition encryptWriter ::
  "('s, 'n, 'd, 'w, 'k, 'f, 'r) rpc \<Rightarrow> ('s, 'n, 'd, 'w, 'x) crypt \<Rightarrow> encrypt \<Rightarrow> ('s, 'n, 'd, 'w, 'x \<times> string) svc" where
  "encryptWriter E Y enc =
     (case enMode enc of
        SaltpackEncrypt \<Rightarrow>
          bnd (x25519Key E (enSender enc)) (\<lambda>sbk.
          bnd svcDraw (\<lambda>d. lift (cyEncryptStream Y d (enArmored enc) sbk (enRecipients enc))))
      | SaltpackSigncrypt \<Rightarrow>
          bnd (failIf (enSender enc = []) (Err ''no sender specified'')) (\<lambda>_.
          bnd (edx25519Key E (enSender enc)) (\<lambda>sk'.
          case sk' of None \<Rightarrow> fail (ErrNotFound (enSender enc))
          | Some sk \<Rightarrow> bnd svcDraw (\<lambda>d. lift (cySigncryptStream Y d (enArmored enc) sk (enRecipients enc)))))
      | _ \<Rightarrow> fail (Err ''unsupported mode''))"

section \<open>Streams of requests\<close>

text \<open>
  \<open>SignStream\<close> and \<open>EncryptStream\<close> share their loop: the first message opens the stream, the
  later ones may only carry data, and what the stream has put out is sent after each message
  with data. \<open>first\<close> opens the stream and gives a value sent with every output, \<open>later\<close> checks a
  message after the first.
\<close>

type_synonym ('s, 'n, 'd, 'w, 'o, 'a) streaming = "(('s, 'n, 'd, 'w) service \<times> 'o list, 'a) op"

definition inStream :: "('s, 'n, 'd, 'w, 'a) svc \<Rightarrow> ('s, 'n, 'd, 'w, 'o, 'a) streaming" where
  "inStream m = zoom fst (\<lambda>s (_, os). (s, os)) m"

definition sendOut :: "(nat \<Rightarrow> err option) \<Rightarrow> 'o \<Rightarrow> ('s, 'n, 'd, 'w, 'o, unit) streaming" where
  "sendOut sendErr out =
     bnd (gets (\<lambda>(s, os). sendErr (length os))) (\<lambda>e.
     case e of Some x \<Rightarrow> fail x | None \<Rightarrow> modify (\<lambda>(s, os). (s, os @ [out])))"

text \<open>What is in the buffer is sent, and the buffer is empty.\<close>

definition flush :: "(nat \<Rightarrow> err option) \<Rightarrow> 'i \<Rightarrow> string \<Rightarrow> ('s, 'n, 'd, 'w, string \<times> 'i, unit) streaming" where
  "flush sendErr info buf = (if buf \<noteq> [] then sendOut sendErr (buf, info) else ret ())"

definition writeData ::
  "('s, 'n, 'd, 'w, 'x) crypt \<Rightarrow> (nat \<Rightarrow> err option) \<Rightarrow> 'i \<Rightarrow> string \<Rightarrow> 'x \<times> string \<Rightarrow>
   ('s, 'n, 'd, 'w, string \<times> 'i, 'x \<times> string) streaming" where
  "writeData Y sendErr info b = (\<lambda>(x, buf).
     if b = [] then ret (x, buf)
     else bnd (lift (cyWrite Y x b)) (\<lambda>(n, out, x').
          bnd (failIf (n \<noteq> length b) (Err ''failed to write completely'')) (\<lambda>_.
          bnd (flush sendErr info (buf @ out)) (\<lambda>_. ret (x', [])))))"

primrec streamLoop ::
  "('s, 'n, 'd, 'w, 'x) crypt \<Rightarrow> (nat \<Rightarrow> err option) \<Rightarrow> (nat \<Rightarrow> err option) \<Rightarrow>
   ('q \<Rightarrow> ('s, 'n, 'd, 'w, ('x \<times> string) \<times> 'i) svc) \<Rightarrow> ('q \<Rightarrow> bool) \<Rightarrow> ('q \<Rightarrow> string) \<Rightarrow>
   (err + 'q) list \<Rightarrow> nat \<Rightarrow> (('x \<times> string) \<times> 'i) option \<Rightarrow> ('s, 'n, 'd, 'w, string \<times> 'i, unit) streaming" where
  "streamLoop Y ctxErr sendErr first later msg [] i st =
     (case ctxErr i of Some e \<Rightarrow> fail e
      | None \<Rightarrow>
          (case st of None \<Rightarrow> fail (Panic ''nil pointer'')
           | Some ((x, buf), info) \<Rightarrow>
               bnd (lift (cyClose Y x)) (\<lambda>out. flush sendErr info (buf @ out))))"
| "streamLoop Y ctxErr sendErr first later msg (r # rs) i st =
     (case ctxErr i of Some e \<Rightarrow> fail e
      | None \<Rightarrow>
          bnd (lift r) (\<lambda>req.
          bnd (case st of None \<Rightarrow> inStream (first req)
               | Some t \<Rightarrow>
                   bnd (failIf (\<not> later req) (Err ''after stream is initalized, only data should be sent'')) (\<lambda>_.
                   ret t)) (\<lambda>(xb, info).
          bnd (writeData Y sendErr info (msg req) xb) (\<lambda>xb'.
          streamLoop Y ctxErr sendErr first later msg rs (Suc i) (Some (xb', info))))))"

record encryptInput =
  eiRecipients :: "string list"
  eiSender :: string
  eiOptions :: "encryptOptions option"
  eiData :: string

definition EncryptStream ::
  "('s, 'n, 'd, 'w, 'k, 'f, 'r) rpc \<Rightarrow> ('s, 'n, 'd, 'w, 'x) crypt \<Rightarrow> (nat \<Rightarrow> err option) \<Rightarrow> (nat \<Rightarrow> err option) \<Rightarrow>
   (err + encryptInput) list \<Rightarrow> ('s, 'n, 'd, 'w, string \<times> unit, unit) streaming" where
  "EncryptStream E Y ctxErr sendErr ins =
     streamLoop Y ctxErr sendErr
       (\<lambda>req. bnd (newEncrypt E (eiRecipients req) (eiSender req) (eiOptions req)) (\<lambda>enc.
              bnd (encryptWriter E Y enc) (\<lambda>xb. ret (xb, ()))))
       (\<lambda>req. eiRecipients req = [] \<and> eiSender req = [] \<and> eiOptions req = None) eiData ins 0 None"

section \<open>sign.go\<close>

definition Sign ::
  "('s, 'n, 'd, 'w, 'k, 'f, 'r) rpc \<Rightarrow> ('s, 'n, 'd, 'w, 'x) crypt \<Rightarrow> gobytes \<Rightarrow> string \<Rightarrow> bool \<Rightarrow> ('s, 'n, 'd, 'w, string \<times> string) svc" where
  "Sign E Y b signer armored =
     bnd (ensureUnlocked E) (\<lambda>_.
     bnd (lookupKey E signer noOpts) (\<lambda>kid.
     bnd (signingKey E kid) (\<lambda>key.
     bnd svcDraw (\<lambda>d.
     bnd (lift (cySign Y d b armored key)) (\<lambda>signed.
     ret (signed, xKeyID (rpX E) key))))))"

definition SignFile ::
  "('s, 'n, 'd, 'w, 'k, 'f, 'r) rpc \<Rightarrow> ('s, 'n, 'd, 'w, 'x) crypt \<Rightarrow> string \<Rightarrow> string \<Rightarrow> string \<Rightarrow> bool \<Rightarrow> bool \<Rightarrow>
   ('s, 'n, 'd, 'w, string \<times> string) svc" where
  "SignFile E Y inp out0 signer armored detached =
     bnd (failIf (inp = []) (Err ''in not specified'')) (\<lambda>_.
     let out = (if out0 = [] then inp @ (if detached then ''.sig'' else ''.signed'') else out0)
     in bnd (lookupKey E signer noOpts) (\<lambda>kid.
        bnd (signingKey E kid) (\<lambda>key.
        bnd (onWorld (cySignFile Y inp out key armored detached)) (\<lambda>_.
        ret (xKeyID (rpX E) key, out)))))"

record signInput =
  siSigner :: string
  siArmored :: bool
  siDetached :: bool
  siData :: string

definition SignStream ::
  "('s, 'n, 'd, 'w, 'k, 'f, 'r) rpc \<Rightarrow> ('s, 'n, 'd, 'w, 'x) crypt \<Rightarrow> (nat \<Rightarrow> err option) \<Rightarrow> (nat \<Rightarrow> err option) \<Rightarrow>
   (err + signInput) list \<Rightarrow> ('s, 'n, 'd, 'w, string \<times> string, unit) streaming" where
  "SignStream E Y ctxErr sendErr ins =
     streamLoop Y ctxErr sendErr
       (\<lambda>req. bnd (lookupKey E (siSigner req) noOpts) (\<lambda>kid.
              bnd (signingKey E kid) (\<lambda>key.
              bnd svcDraw (\<lambda>d.
              bnd (lift (cySignStream Y d (siArmored req) (siDetached req) key)) (\<lambda>xb.
              ret (xb, xKeyID (rpX E) key))))))
       (\<lambda>req. siSigner req = [] \<and> \<not> siArmored req \<and> \<not> siDetached req) siData ins 0 None"

section \<open>decrypt.go\<close>

definition findSender :: "('s, 'n, 'd, 'w, 'k, 'f, 'r) rpc \<Rightarrow> string \<Rightarrow> ('s, 'n, 'd, 'w, rpcKey option) svc" where
  "findSender E kid = (if kid = [] then ret None else bnd (convertIfX25519ID E kid) (svcKey E))"

definition modeFromEncoding :: "('s, 'n, 'd, 'w, 'x) crypt \<Rightarrow> string \<Rightarrow> err + encryptMode" where
  "modeFromEncoding Y enc =
     (if enc = cyEncryptEnc Y then Inr SaltpackEncrypt else if enc = cySigncryptEnc Y then Inr SaltpackSigncrypt
      else Inl (Err ''invalid encoding''))"

text \<open>\<open>headerErr\<close> recognises saltpack's error for data that is too short.\<close>

definition Decrypt ::
  "('s, 'n, 'd, 'w, 'k, 'f, 'r) rpc \<Rightarrow> ('s, 'n, 'd, 'w, 'x) crypt \<Rightarrow> (err \<Rightarrow> bool) \<Rightarrow> gobytes \<Rightarrow>
   ('s, 'n, 'd, 'w, gobytes \<times> rpcKey option \<times> encryptMode) svc" where
  "Decrypt E Y headerErr b =
     bnd (mapErr (\<lambda>e. if headerErr e then Err ''invalid data'' else e) (onVault (cyOpen Y b))) (\<lambda>(out, key, enc).
     bnd (lift (modeFromEncoding Y enc)) (\<lambda>mode.
     bnd (case key of None \<Rightarrow> ret None | Some kid \<Rightarrow> findSender E kid) (\<lambda>sender.
     ret (out, sender, mode))))"

section \<open>verify.go\<close>

text \<open>The signer's key, verified, when the message has a signer.\<close>

definition signerOf :: "('s, 'n, 'd, 'w, 'k, 'f, 'r) rpc \<Rightarrow> string \<Rightarrow> ('s, 'n, 'd, 'w, rpcKey option) svc" where
  "signerOf E kid = (if kid \<noteq> [] then verifyKey E kid else ret None)"

text \<open>The user of a signer whose key is not saved is left out.\<close>

definition Verify ::
  "('s, 'n, 'd, 'w, 'k, 'f, 'r) rpc \<Rightarrow> ('s, 'n, 'd, 'w, 'x) crypt \<Rightarrow> gobytes \<Rightarrow> ('s, 'n, 'd, 'w, gobytes \<times> rpcKey option) svc" where
  "Verify E Y b =
     bnd (lift (cyVerify Y b)) (\<lambda>(verified, kid).
     bnd (signerOf E kid) (\<lambda>signer.
     ret (verified, map_option (\<lambda>k. if rkSaved k then k else k\<lparr>rkUser := None\<rparr>) signer)))"

definition VerifyDetached ::
  "('s, 'n, 'd, 'w, 'k, 'f, 'r) rpc \<Rightarrow> ('s, 'n, 'd, 'w, 'x) crypt \<Rightarrow> gobytes \<Rightarrow> gobytes \<Rightarrow> ('s, 'n, 'd, 'w, rpcKey option) svc" where
  "VerifyDetached E Y sig b = bnd (lift (cyVerifyDetached Y sig b)) (signerOf E)"

definition VerifyFile ::
  "('s, 'n, 'd, 'w, 'k, 'f, 'r) rpc \<Rightarrow> ('d, 'w) authLib \<Rightarrow> ('s, 'n, 'd, 'w, 'x) crypt \<Rightarrow> string \<Rightarrow> string \<Rightarrow>
   ('s, 'n, 'd, 'w, rpcKey option \<times> string) svc" where
  "VerifyFile E G Y inp out0 =
     bnd (failIf (inp = []) (Err ''in not specified'')) (\<lambda>_.
     bnd (onWorld (resolveOutPath (aeStat G) out0 inp ''.signed'')) (\<lambda>out.
     bnd (onWorld (cyVerifyFile Y inp out)) (\<lambda>kid.
     bnd (signerOf E kid) (\<lambda>signer. ret (signer, out)))))"

definition VerifyDetachedFile ::
  "('s, 'n, 'd, 'w, 'k, 'f, 'r) rpc \<Rightarrow> ('s, 'n, 'd, 'w, 'x) crypt \<Rightarrow> gobytes \<Rightarrow> string \<Rightarrow> ('s, 'n, 'd, 'w, rpcKey option) svc" where
  "VerifyDetachedFile E Y sig inp =
     bnd (failIf (inp = []) (Err ''in not specified'')) (\<lambda>_.
     bnd (onWorld (cyVerifyFileDetached Y sig inp)) (signerOf E))"

section \<open>stream.go\<close>

text \<open>
  The reader over a stream of messages: its buffer and the results of \<^verbatim>\<open>Recv\<close> to come.
  \<open>readStream n\<close> reads at most \<open>n\<close> bytes; \<open>EOF\<close> is \<^verbatim>\<open>io.EOF\<close>, which \<^verbatim>\<open>bytes.Buffer\<close> also returns
  when it is empty.
\<close>

definition EOF :: err where "EOF = LibErr ''EOF''"

record reader =
  rdBuf :: string
  rdQueue :: "(err + string) list"

definition newStreamReader :: "(err + string) list \<Rightarrow> reader" where
  "newStreamReader q = \<lparr>rdBuf = [], rdQueue = q\<rparr>"

definition writeReader :: "string \<Rightarrow> (reader, unit) op" where
  "writeReader b = modify (\<lambda>r. r\<lparr>rdBuf := rdBuf r @ b\<rparr>)"

definition recvReader :: "(reader, unit) op" where
  "recvReader =
     bnd (gets rdQueue) (\<lambda>q.
     case q of [] \<Rightarrow> fail EOF
     | x # q' \<Rightarrow> bnd (modify (\<lambda>r. r\<lparr>rdQueue := q'\<rparr>)) (\<lambda>_. bnd (lift x) writeReader))"

definition bufferRead :: "nat \<Rightarrow> (reader, string) op" where
  "bufferRead n =
     bnd (gets rdBuf) (\<lambda>b.
     if b = [] then (if n = 0 then ret [] else fail EOF)
     else bnd (modify (\<lambda>r. r\<lparr>rdBuf := drop n b\<rparr>)) (\<lambda>_. ret (take n b)))"

definition readStream :: "nat \<Rightarrow> (reader, string) op" where
  "readStream n =
     bnd (gets rdBuf) (\<lambda>b.
     bnd (if b = [] then recvReader else ret ()) (\<lambda>_. bufferRead n))"

end
