(* ===== verification/ServiceFiles.thy ===== *)
theory ServiceFiles
  imports ServiceCrypto Env VaultTools
begin

text \<open>
  Encrypting, decrypting and verifying files and streams: \<^verbatim>\<open>encryptWriteInOut\<close> and \<^verbatim>\<open>EncryptFile\<close>
  of \<^verbatim>\<open>service/encrypt.go\<close>, the file and stream calls of \<^verbatim>\<open>decrypt.go\<close> and \<^verbatim>\<open>verify.go\<close>;
  \<^verbatim>\<open>RuntimeStatus\<close> of \<^verbatim>\<open>status.go\<close>; and \<^verbatim>\<open>keyring.go\<close>, which converts the keyring of earlier versions.
  Loops over a reader need not end: their result is an option.
\<close>

section \<open>Deferred calls\<close>

text \<open>\<^verbatim>\<open>defer\<close>: the clean-up runs whatever the result, which it does not change.\<close>

definition deferring :: "('s, 'a) op \<Rightarrow> ('s, unit) op \<Rightarrow> ('s, 'a) op" where
  "deferring m c s = (case m s of (r, s') \<Rightarrow> (r, snd (c s')))"

definition deferringP ::
  "('s \<Rightarrow> ((err + 'a) \<times> 's) option) \<Rightarrow> ('s, unit) op \<Rightarrow> 's \<Rightarrow> ((err + 'a) \<times> 's) option" where
  "deferringP m c s = (case m s of None \<Rightarrow> None | Some (r, s') \<Rightarrow> Some (r, snd (c s')))"

lemmas optional_simps = liftP_def bndP_def wrapErrP_def deferringP_def

section \<open>Files\<close>

text \<open>
  \<^verbatim>\<open>os.Create\<close> (which empties the file), opening and reading to the end, writing to a created file
  and flushing, \<^verbatim>\<open>os.Rename\<close>, \<^verbatim>\<open>os.Remove\<close>. Output is buffered and taken to reach its file when
  the buffer is flushed.
\<close>

record 'w files =
  flCreate :: "string \<Rightarrow> ('w, unit) op"
  flOpen :: "string \<Rightarrow> ('w, string) op"
  flWrite :: "string \<Rightarrow> string \<Rightarrow> ('w, unit) op"
  flRename :: "string \<Rightarrow> string \<Rightarrow> ('w, unit) op"
  flRemove :: "string \<Rightarrow> ('w, unit) op"

definition tmpName :: "string \<Rightarrow> string" where
  "tmpName out = out @ ''.tmp''"

section \<open>encrypt.go: files\<close>

text \<open>\<^verbatim>\<open>bufio.Reader.WriteTo\<close>: the input in pieces of at most 4096 bytes.\<close>

fun writePieces :: "('s, 'n, 'd, 'w, 'x) crypt \<Rightarrow> 'x \<Rightarrow> string \<Rightarrow> err + string \<times> 'x" where
  "writePieces Y x b =
     (if b = [] then Inr ([], x)
      else case cyWrite Y x (take 4096 b) of Inl e \<Rightarrow> Inl e
        | Inr (_, out, x') \<Rightarrow>
            (case writePieces Y x' (drop 4096 b) of Inl e \<Rightarrow> Inl e | Inr (outs, x'') \<Rightarrow> Inr (out @ outs, x'')))"

declare writePieces.simps [simp del]

definition encryptWriteInOut ::
  "('s, 'n, 'd, 'w, 'k, 'f, 'r) rpc \<Rightarrow> ('s, 'n, 'd, 'w, 'x) crypt \<Rightarrow> 'w files \<Rightarrow> string \<Rightarrow> string \<Rightarrow> encrypt \<Rightarrow>
   ('s, 'n, 'd, 'w, unit) svc" where
  "encryptWriteInOut E Y F inp out enc =
     (let tmp = tmpName out
      in bnd (onDevice (flCreate F tmp)) (\<lambda>_.
         deferring
           (bnd (encryptWriter E Y enc) (\<lambda>(x, header).
            bnd (onDevice (flOpen F inp)) (\<lambda>b.
            bnd (lift (writePieces Y x b)) (\<lambda>(body, x').
            bnd (lift (cyClose Y x')) (\<lambda>final.
            bnd (onDevice (flWrite F tmp (header @ body @ final))) (\<lambda>_.
            onDevice (flRename F tmp out)))))))
           (onDevice (flRemove F tmp))))"

definition EncryptFile ::
  "('s, 'n, 'd, 'w, 'k, 'f, 'r) rpc \<Rightarrow> ('s, 'n, 'd, 'w, 'x) crypt \<Rightarrow> 'w files \<Rightarrow> string \<Rightarrow> string \<Rightarrow> string list \<Rightarrow> string \<Rightarrow>
   encryptOptions option \<Rightarrow> ('s, 'n, 'd, 'w, string) svc" where
  "EncryptFile E Y F inp out0 recipients sender options =
     bnd (failIf (inp = []) (Err ''in not specified'')) (\<lambda>_.
     let out = (if out0 = [] then inp @ ''.enc'' else out0)
     in bnd (newEncrypt E recipients sender options) (\<lambda>enc.
        bnd (encryptWriteInOut E Y F inp out enc) (\<lambda>_. ret out)))"

section \<open>Readers of messages\<close>

text \<open>
  What \<^verbatim>\<open>saltpack\<close> opens reads from the reader below it: \<^verbatim>\<open>NewReader\<close> (with the keys of the vault),
  \<^verbatim>\<open>NewVerifyStream\<close>, \<^verbatim>\<open>VerifyDetachedReader\<close>; \<open>opRead y n\<close> is one \<^verbatim>\<open>Read\<close> of at most \<open>n\<close> bytes, with
  the bytes read and the error, if any.
\<close>

record ('s, 'n, 'y) openers =
  opReader :: "(('s, 'n) vault \<times> reader, 'y \<times> string option \<times> string) op"
  opVerify :: "(reader, 'y \<times> string) op"
  opVerifyDetached :: "gobytes \<Rightarrow> (reader, string) op"
  opRead :: "'y \<Rightarrow> nat \<Rightarrow> (reader, string \<times> err option \<times> 'y) op"

definition openReader ::
  "('s, 'n, 'y) openers \<Rightarrow> (('s, 'n, 'd, 'w) service \<times> reader, 'y \<times> string option \<times> string) op" where
  "openReader V = zoom (\<lambda>(s, r). (svVault s, r)) (\<lambda>(v, r) (s, _). (s\<lparr>svVault := v\<rparr>, r)) (opReader V)"

definition withSvc :: "('s, 'n, 'd, 'w, 'a) svc \<Rightarrow> (('s, 'n, 'd, 'w) service \<times> 'z, 'a) op" where
  "withSvc m = zoom fst (\<lambda>s (_, z). (s, z)) m"

definition withReader :: "('z, 'a) op \<Rightarrow> ('t \<times> 'z, 'a) op" where
  "withReader m = zoom snd (\<lambda>z (t, _). (t, z)) m"

text \<open>\<^verbatim>\<open>io.ReadAll\<close> in pieces of \<open>n\<close> bytes, as \<^verbatim>\<open>bufio.Writer.ReadFrom\<close> does.\<close>

partial_function (option) readAll ::
  "('s, 'n, 'y) openers \<Rightarrow> nat \<Rightarrow> 'y \<Rightarrow> string \<Rightarrow> reader \<Rightarrow> ((err + string) \<times> reader) option" where
  "readAll V n y acc r =
     (case opRead V y n r of
        (Inl e, r') \<Rightarrow> Some (Inl e, r')
      | (Inr (b, err, y'), r') \<Rightarrow>
          (case err of
             None \<Rightarrow> readAll V n y' (acc @ b) r'
           | Some e \<Rightarrow> Some (if e = EOF then Inr (acc @ b) else Inl e, r')))"

section \<open>decrypt.go: files\<close>

definition writeFile ::
  "'w files \<Rightarrow> ('s, 'n, 'y) openers \<Rightarrow> string \<Rightarrow> 'y \<Rightarrow> reader \<Rightarrow> ('s, 'n, 'd, 'w, unit) svcp" where
  "writeFile F V out y r =
     (let tmp = tmpName out
      in bndP (liftP (onDevice (flCreate F tmp))) (\<lambda>_.
         deferringP
           (bndP (\<lambda>s. map_option (\<lambda>(b, _). (b, s)) (readAll V 4096 y [] r)) (\<lambda>b.
            liftP (bnd (onDevice (flWrite F tmp b)) (\<lambda>_. onDevice (flRename F tmp out)))))
           (onDevice (flRemove F tmp))))"

definition decryptWriteInOut ::
  "('s, 'n, 'd, 'w, 'k, 'f, 'r) rpc \<Rightarrow> ('s, 'n, 'd, 'w, 'x) crypt \<Rightarrow> 'w files \<Rightarrow> ('s, 'n, 'y) openers \<Rightarrow> string \<Rightarrow> string \<Rightarrow>
   ('s, 'n, 'd, 'w, rpcKey option \<times> encryptMode) svcp" where
  "decryptWriteInOut E Y F V inp out =
     bndP (liftP (wrapErr (''failed to open '' @ inp) (onDevice (flOpen F inp)))) (\<lambda>b.
     bndP (\<lambda>s. case openReader V (s, \<lparr>rdBuf = b, rdQueue = []\<rparr>) of
             (Inl e, (s', _)) \<Rightarrow> Some (Inl e, s') | (Inr x, (s', r)) \<Rightarrow> Some (Inr (x, r), s')) (\<lambda>((y, key, enc), r).
     bndP (liftP (lift (modeFromEncoding Y enc))) (\<lambda>mode.
     bndP (writeFile F V out y r) (\<lambda>_.
     liftP (bnd (case key of None \<Rightarrow> ret None | Some kid \<Rightarrow> findSender E kid) (\<lambda>sender.
            ret (sender, mode)))))))"

definition DecryptFile ::
  "('s, 'n, 'd, 'w, 'k, 'f, 'r) rpc \<Rightarrow> ('s, 'n, 'd, 'w, 'x) crypt \<Rightarrow> ('d, 'w) authLib \<Rightarrow> 'w files \<Rightarrow> ('s, 'n, 'y) openers \<Rightarrow>
   string \<Rightarrow> string \<Rightarrow> ('s, 'n, 'd, 'w, rpcKey option \<times> string \<times> encryptMode) svcp" where
  "DecryptFile E Y G F V inp out0 =
     bndP (liftP (failIf (inp = []) (Err ''in not specified''))) (\<lambda>_.
     bndP (liftP (onWorld (resolveOutPath (aeStat G) out0 inp ''.enc''))) (\<lambda>out.
     bndP (wrapErrP ''failed to decrypt'' (decryptWriteInOut E Y F V inp out)) (\<lambda>(sender, mode).
     liftP (ret (sender, out, mode)))))"

section \<open>Streams of output\<close>

text \<open>The state of a stream's handler: the service, the reader of its messages, what it has sent.\<close>

type_synonym ('s, 'n, 'd, 'w, 'o) session = "(('s, 'n, 'd, 'w) service \<times> reader) \<times> 'o list"

definition sendMsg :: "(nat \<Rightarrow> err option) \<Rightarrow> 'o \<Rightarrow> ('t \<times> 'o list, unit) op" where
  "sendMsg sendErr out =
     bnd (gets (\<lambda>(s, os). sendErr (length os))) (\<lambda>e.
     case e of Some x \<Rightarrow> fail x | None \<Rightarrow> modify (\<lambda>(s, os). (s, os @ [out])))"

text \<open>
  One round of \<^verbatim>\<open>readFromStream\<close>: read at most a megabyte, send it if it is not empty, and at the
  end send an empty message. The result is the reader to go on with, if any.
\<close>

definition streamRound ::
  "('s, 'n, 'y) openers \<Rightarrow> (nat \<Rightarrow> err option) \<Rightarrow> (string \<Rightarrow> 'o) \<Rightarrow> 'y \<Rightarrow> (('t \<times> reader) \<times> 'o list, 'y option) op" where
  "streamRound V sendErr msg y =
     bnd (zoom fst (\<lambda>s (_, os). (s, os)) (withReader (opRead V y (1024 * 1024)))) (\<lambda>(b, err, y').
     bnd (if b \<noteq> [] then sendMsg sendErr (msg b) else ret ()) (\<lambda>_.
     case err of None \<Rightarrow> ret (Some y')
     | Some e \<Rightarrow> if e = EOF then bnd (sendMsg sendErr (msg [])) (\<lambda>_. ret None) else fail e))"

partial_function (option) readFromStream ::
  "('s, 'n, 'y) openers \<Rightarrow> (nat \<Rightarrow> err option) \<Rightarrow> (nat \<Rightarrow> err option) \<Rightarrow> (string \<Rightarrow> 'o) \<Rightarrow> nat \<Rightarrow> 'y \<Rightarrow>
   (('t \<times> reader) \<times> 'o list) \<Rightarrow> ((err + unit) \<times> (('t \<times> reader) \<times> 'o list)) option" where
  "readFromStream V ctxErr sendErr msg i y s =
     (case ctxErr i of Some e \<Rightarrow> Some (Inl e, s)
      | None \<Rightarrow>
          (case streamRound V sendErr msg y s of
             (Inl e, s') \<Rightarrow> Some (Inl e, s')
           | (Inr None, s') \<Rightarrow> Some (Inr (), s')
           | (Inr (Some y'), s') \<Rightarrow> readFromStream V ctxErr sendErr msg (Suc i) y' s'))"

text \<open>Parts of a handler's state.\<close>

definition onSvcReader ::
  "(('s, 'n, 'd, 'w) service \<times> reader, 'a) op \<Rightarrow> (('s, 'n, 'd, 'w, 'o) session \<Rightarrow> ((err + 'a) \<times> ('s, 'n, 'd, 'w, 'o) session) option)" where
  "onSvcReader m = liftP (zoom fst (\<lambda>s (_, os). (s, os)) m)"

text \<open>\<^verbatim>\<open>DecryptStream\<close>: the messages are read by the \<open>reader\<close> of the state.\<close>

definition DecryptStream ::
  "('s, 'n, 'd, 'w, 'k, 'f, 'r) rpc \<Rightarrow> ('s, 'n, 'd, 'w, 'x) crypt \<Rightarrow> ('s, 'n, 'y) openers \<Rightarrow> (nat \<Rightarrow> err option) \<Rightarrow>
   (nat \<Rightarrow> err option) \<Rightarrow> ('s, 'n, 'd, 'w, string \<times> rpcKey option \<times> encryptMode) session \<Rightarrow>
   ((err + unit) \<times> ('s, 'n, 'd, 'w, string \<times> rpcKey option \<times> encryptMode) session) option" where
  "DecryptStream E Y V ctxErr sendErr =
     bndP (onSvcReader (openReader V)) (\<lambda>(y, key, enc).
     bndP (onSvcReader (lift (modeFromEncoding Y enc))) (\<lambda>mode.
     bndP (onSvcReader (case key of None \<Rightarrow> ret None | Some kid \<Rightarrow> withSvc (findSender E kid))) (\<lambda>sender.
     readFromStream V ctxErr sendErr (\<lambda>b. (b, sender, mode)) 0 y)))"

definition VerifyStream ::
  "('s, 'n, 'd, 'w, 'k, 'f, 'r) rpc \<Rightarrow> ('s, 'n, 'y) openers \<Rightarrow> (nat \<Rightarrow> err option) \<Rightarrow> (nat \<Rightarrow> err option) \<Rightarrow>
   ('s, 'n, 'd, 'w, string \<times> rpcKey option) session \<Rightarrow>
   ((err + unit) \<times> ('s, 'n, 'd, 'w, string \<times> rpcKey option) session) option" where
  "VerifyStream E V ctxErr sendErr =
     bndP (onSvcReader (wrapErr ''faild to verify stream'' (withReader (opVerify V)))) (\<lambda>(y, kid).
     bndP (onSvcReader (withSvc (signerOf E kid))) (\<lambda>signer.
     wrapErrP ''failed to read from verify stream''
       (readFromStream V ctxErr sendErr (\<lambda>b. (b, signer)) 0 y)))"

text \<open>The first message carries the signature and, like the later ones, data.\<close>

definition VerifyDetachedStream ::
  "('s, 'n, 'd, 'w, 'k, 'f, 'r) rpc \<Rightarrow> ('s, 'n, 'y) openers \<Rightarrow> err + gobytes \<times> string \<Rightarrow>
   (('s, 'n, 'd, 'w) service \<times> reader, rpcKey option) op" where
  "VerifyDetachedStream E V first =
     bnd (lift first) (\<lambda>(sig, b).
     bnd (withReader (writeReader b)) (\<lambda>_.
     bnd (withReader (opVerifyDetached V sig)) (\<lambda>kid.
     withSvc (signerOf E kid))))"

section \<open>status.go: the runtime status\<close>

record runtimeStatus =
  rnVersion :: string
  rnAppName :: string
  rnExe :: string
  rnAuthStatus :: authStatus
  rnSync :: bool
  rnFIDO2 :: bool

text \<open>
  An error of the executable's path is only logged. When the vault is unlocked the service also
  starts a round of \<open>vaultUpdate\<close> in the background, which the result does not depend on.
\<close>

definition RuntimeStatus ::
  "('s, 'n, 'd, 'w, 'k, 'f, 'r) rpc \<Rightarrow> ('d, 'w) authLib \<Rightarrow> build \<Rightarrow> err + string \<Rightarrow> ('s, 'n, 'd, 'w, runtimeStatus) svc" where
  "RuntimeStatus E G b exe =
     bnd (onVault (Status (rpX E) (rpI E))) (\<lambda>st.
     bnd (onVault (SyncEnabled (rpX E) (rpI E))) (\<lambda>sync.
     ret \<lparr>rnVersion = bdVersion b, rnAppName = aeAppName G, rnExe = (case exe of Inl e \<Rightarrow> [] | Inr p \<Rightarrow> p),
          rnAuthStatus = vaultStatusToRPC st, rnSync = sync, rnFIDO2 = (aeFido G \<noteq> None)\<rparr>))"

section \<open>keyring.go\<close>

text \<open>
  The keyrings of \<^verbatim>\<open>keys/keyring\<close>: a system keyring by service name, a directory, memory; each lists
  its items, is backed up to a file and reset.
\<close>

record 'w keyringOps =
  krItems :: "'w \<Rightarrow> err + (string \<times> gobytes) list"
  krBackup :: "string \<Rightarrow> ('w, unit) op"
  krReset :: "('w, unit) op"

record 'w keyrings =
  ksSystem :: "string \<Rightarrow> ('w, 'w keyringOps) op"
  ksFS :: "string \<Rightarrow> ('w, 'w keyringOps) op"
  ksMem :: "'w keyringOps"
  ksLinux :: bool
  ksCheckSystem :: "('w, unit) op"
  ksHome :: "('w, string) op"

definition keyringServiceName :: "env \<Rightarrow> string" where
  "keyringServiceName c = evAppName c @ ''.keyring''"

definition linuxFallbackFS :: "'w keyrings \<Rightarrow> string \<Rightarrow> ('w, 'w keyringOps) op" where
  "linuxFallbackFS K srv =
     bnd (ksHome K) (\<lambda>home. ksFS K (joinPath (joinPath home ''.keyring'') srv))"

definition fsDir :: "'w envLib \<Rightarrow> env \<Rightarrow> ('w, string) op" where
  "fsDir L c = bnd (AppPath L c ''keyring'' False) (\<lambda>dir. ret (joinPath dir (keyringServiceName c)))"

definition newKeyringOf :: "'w envLib \<Rightarrow> 'w keyrings \<Rightarrow> env \<Rightarrow> string \<Rightarrow> ('w, 'w keyringOps) op" where
  "newKeyringOf L K c typ =
     (if typ = ''sys'' then ksSystem K (keyringServiceName c)
      else if typ = ''fs'' then bnd (fsDir L c) (ksFS K)
      else if typ = ''mem'' then ret (ksMem K)
      else fail (Err (''unknown keyring type '' @ typ)))"

definition defaultKeyring :: "'w envLib \<Rightarrow> 'w keyrings \<Rightarrow> env \<Rightarrow> ('w, 'w keyringOps) op" where
  "defaultKeyring L K c =
     (if envGet c ''keyring'' [] = ''fs'' then newKeyringOf L K c ''fs''
      else if ksLinux K
      then orElse (ksCheckSystem K) (\<lambda>_. linuxFallbackFS K (keyringServiceName c)) (\<lambda>_. newKeyringOf L K c ''sys'')
      else newKeyringOf L K c ''sys'')"

text \<open>The recursion of \<^verbatim>\<open>newKeyring\<close> and \<^verbatim>\<open>defaultKeyring\<close> ends after one round.\<close>

definition newKeyring :: "'w envLib \<Rightarrow> 'w keyrings \<Rightarrow> env \<Rightarrow> string \<Rightarrow> ('w, 'w keyringOps) op" where
  "newKeyring L K c typ = (if typ = [] then defaultKeyring L K c else newKeyringOf L K c typ)"

text \<open>\<open>stamp\<close> is the current time in milliseconds as a string.\<close>

definition checkKeyringConvert ::
  "('s, 'n, 'd, 'w, 'k, 'f, 'r) rpc \<Rightarrow> 'w envLib \<Rightarrow> 'w keyrings \<Rightarrow> env \<Rightarrow> string \<Rightarrow> ('s, 'n, 'd, 'w, unit) svc" where
  "checkKeyringConvert E L K c stamp =
     bnd (onVault (vaultIsEmpty (rpI E))) (\<lambda>empty.
     if \<not> empty then ret ()
     else bnd (onDevice (newKeyring L K c [])) (\<lambda>kr.
          bnd (gets (\<lambda>s. krItems kr (svWorld s))) (\<lambda>items.
          bnd (wrapErr ''failed to convert keyring'' (onVault (ConvertKeyring (rpX E) (rpI E) items))) (\<lambda>converted.
          if \<not> converted then ret ()
          else bnd (onDevice (AppPath L c (''keyring-backup-'' @ stamp @ ''.tgz'') False)) (\<lambda>path.
               bnd (onDevice (krBackup kr path)) (\<lambda>_.
               onDevice (krReset kr)))))))"

end
