(* ===== verification/WormholeService.thy ===== *)
theory WormholeService
  imports Wormhole ServiceFiles
begin

text \<open>
  The call \<^verbatim>\<open>Wormhole\<close> of the service, \<^verbatim>\<open>service/wormhole.go\<close>: a stream of requests to a wormhole and
  of statuses and messages from it. The environment of the wormhole is the service, whose vault
  holds the keys, with what was sent to the client. After the first request the main loop takes
  requests while another goroutine reads messages; their interleaving is a list of events.
\<close>

datatype rpcWormholeStatus = WormholeDefault | WormholeStarting | WormholeOffering | WormholeAnswering | WormholeHandshake
  | WormholeConnected | WormholeClosed

datatype rpcMessageStatus = WormholeMessageSent | WormholeMessagePending | WormholeMessageAck

record rpcWormholeInput =
  wiSender :: string
  wiRecipient :: string
  wiInvite :: string
  wiID :: string
  wiText :: string

record rpcWormholeMessage =
  wmID :: string
  wmSender :: "rpcKey option"
  wmStatus :: rpcMessageStatus
  wmText :: string

record rpcWormholeOutput =
  woMessage :: "rpcWormholeMessage option"
  woStatus :: rpcWormholeStatus

definition statusOutput :: "rpcWormholeStatus \<Rightarrow> rpcWormholeOutput" where
  "statusOutput st = \<lparr>woMessage = None, woStatus = st\<rparr>"

type_synonym ('s, 'n, 'd, 'w) whEnv = "('s, 'n, 'd, 'w) service \<times> rpcWormholeOutput list"

type_synonym ('s, 'n, 'd, 'w, 'c, 'h, 't, 'u, 'q, 'a) svcWh =
  "((('s, 'n, 'd, 'w) whEnv, 'c, 'h, 't, 'u, 'q) wormhole, 'a) op"

type_synonym ('s, 'n, 'd, 'w, 'c, 'h, 't, 'u, 'q, 'p) svcWhLib =
  "(('s, 'n, 'd, 'w) whEnv, 'c, 'h, 't, 'u, 'q, 'p, stmt) whLib"

text \<open>The keyring of the vault as the wormhole's keys.\<close>

definition withKeyring ::
  "('s, 'n, 'd, 'w, 'k, 'f, 'r) rpc \<Rightarrow> ('s, 'n, 'd, 'w, 'c, 'h, 't, 'u, 'q, 'p) svcWhLib \<Rightarrow>
   ('s, 'n, 'd, 'w, 'c, 'h, 't, 'u, 'q, 'p) svcWhLib" where
  "withKeyring E H = H\<lparr>wlKey := (\<lambda>kid. inStream (onVault (EdX25519Key (rpX E) (rpI E) (rpK E) kid))),
     wlKeys := inStream (onVault (EdX25519Keys (rpX E) (rpI E) (rpK E)))\<rparr>"

definition wormholeStatusToRPC :: "whStatus \<Rightarrow> rpcWormholeStatus" where
  "wormholeStatusToRPC st =
     (case st of SCTPHandshake \<Rightarrow> WormholeHandshake | Connected \<Rightarrow> WormholeConnected | Closed \<Rightarrow> WormholeClosed
      | NoiseHandshake \<Rightarrow> WormholeDefault)"

definition wormholeMessageTypeToRPC :: "messageType \<Rightarrow> rpcMessageStatus" where
  "wormholeMessageTypeToRPC typ =
     (case typ of Sent \<Rightarrow> WormholeMessageSent | Pending \<Rightarrow> WormholeMessagePending | Ack \<Rightarrow> WormholeMessageAck)"

definition wormholeMessageToRPC ::
  "('s, 'n, 'd, 'w, 'k, 'f, 'r) rpc \<Rightarrow> message \<Rightarrow> ('s, 'n, 'd, 'w, rpcWormholeMessage) svc" where
  "wormholeMessageToRPC E msg =
     bnd (svcKey E (msSender msg)) (\<lambda>sender.
     ret \<lparr>wmID = msID msg, wmSender = sender, wmStatus = wormholeMessageTypeToRPC (msType msg),
          wmText = (if msContent msg = UTF8Content then msData msg else [])\<rparr>)"

definition DeadlineExceeded :: err where
  "DeadlineExceeded = LibErr ''context deadline exceeded''"

definition ErrWormholeTimedOut :: err where
  "ErrWormholeTimedOut = Err ''wormhole timed out''"

definition wormholeError :: "err \<Rightarrow> err" where
  "wormholeError e = (if cause e = DeadlineExceeded then ErrWormholeTimedOut else e)"

definition mapErrP :: "(err \<Rightarrow> err) \<Rightarrow> ('s \<Rightarrow> ((err + 'a) \<times> 's) option) \<Rightarrow> 's \<Rightarrow> ((err + 'a) \<times> 's) option" where
  "mapErrP h m s =
     (case m s of None \<Rightarrow> None
      | Some (Inl e, s') \<Rightarrow> Some (Inl (if isPanic e then e else h e), s')
      | Some (Inr x, s') \<Rightarrow> Some (Inr x, s'))"

text \<open>The participants: of the invite, whose absence is not tested, or looked up and verified.\<close>

definition participants ::
  "('s, 'n, 'd, 'w, 'k, 'f, 'r) rpc \<Rightarrow> ('s, 'n, 'd, 'w, 'c, 'h, 't, 'u, 'q, 'p) svcWhLib \<Rightarrow> rpcWormholeInput \<Rightarrow>
   ('s, 'n, 'd, 'w, 'c, 'h, 't, 'u, 'q, string \<times> string) svcWh" where
  "participants E H req =
     (if wiInvite req \<noteq> [] then
        bnd (failIf (wiSender req = [] \<or> wiRecipient req \<noteq> []) (Err ''specify invite or sender/recipient'')) (\<lambda>_.
        bnd (FindInviteCode H (wiInvite req)) (\<lambda>invite.
        case invite of None \<Rightarrow> fail (Panic ''nil pointer'') | Some p \<Rightarrow> ret p))
      else
        bnd (failIf (wiSender req = []) (Err ''no sender specified'')) (\<lambda>_.
        bnd (onEnv (inStream (lookupKey E (wiSender req) \<lparr>loVerifyUser = True, loSearchRemote = False\<rparr>))) (\<lambda>sid.
        bnd (failIf (wiRecipient req = []) (Err ''no recipient specified'')) (\<lambda>_.
        bnd (onEnv (inStream (lookupKey E (wiRecipient req) \<lparr>loVerifyUser = True, loSearchRemote = False\<rparr>))) (\<lambda>rid.
        ret (sid, rid))))))"

text \<open>An offer is answered; without one the service offers itself.\<close>

definition wormholeInit ::
  "('s, 'n, 'd, 'w, 'k, 'f, 'r) rpc \<Rightarrow> ('s, 'n, 'd, 'w, 'c, 'h, 't, 'u, 'q, 'p) svcWhLib \<Rightarrow>
   (nat \<Rightarrow> err option) \<Rightarrow> err option \<Rightarrow> (nat \<Rightarrow> err option) \<Rightarrow> (nat \<Rightarrow> bool) \<Rightarrow> rpcWormholeInput \<Rightarrow>
   (('s, 'n, 'd, 'w) whEnv, 'c, 'h, 't, 'u, 'q) wormhole \<Rightarrow>
   ((err + unit) \<times> (('s, 'n, 'd, 'w) whEnv, 'c, 'h, 't, 'u, 'q) wormhole) option" where
  "wormholeInit E H sendErr ctxErr ctxConnect offers req =
     bndP (liftP (bnd (failIf (wiID req \<noteq> [] \<or> length (wiText req) \<noteq> 0) (Err ''first request should not include a message'')) (\<lambda>_.
                  bnd (onEnv (sendOut sendErr (statusOutput WormholeStarting))) (\<lambda>_.
                  bnd (participants E H req) (\<lambda>(sender, recipient).
                  bnd (wrapErr ''failed to find offer'' (FindOffer H recipient sender)) (\<lambda>found.
                  ret (sender, recipient, found))))))) (\<lambda>(sender, recipient, found).
     case found of
       None \<Rightarrow>
         bndP (liftP (mapErr wormholeError (CreateOffer H))) (\<lambda>offer.
         bndP (liftP (wrapErr ''failed to offer'' (onEnv (sendOut sendErr (statusOutput WormholeOffering))))) (\<lambda>_.
         mapErrP wormholeError (whConnect H ctxErr ctxConnect offers sender recipient offer)))
     | Some offer \<Rightarrow>
         bndP (liftP (wrapErr ''failed to answer'' (onEnv (sendOut sendErr (statusOutput WormholeAnswering))))) (\<lambda>_.
         mapErrP wormholeError (liftP (whListen H ctxErr sender recipient offer))))"

definition wormholeInput ::
  "('s, 'n, 'd, 'w, 'c, 'h, 't, 'u, 'q, 'p) svcWhLib \<Rightarrow> err option \<Rightarrow> rpcWormholeInput \<Rightarrow>
   ('s, 'n, 'd, 'w, 'c, 'h, 't, 'u, 'q, unit) svcWh" where
  "wormholeInput H ctxErr req =
     bnd (failIf (wiID req = []) (Err ''no message'')) (\<lambda>_.
     bnd (WriteMessage H ctxErr (wiID req) (wiText req) UTF8Content) (\<lambda>_. ret ()))"

definition wormholeReadSend ::
  "('s, 'n, 'd, 'w, 'k, 'f, 'r) rpc \<Rightarrow> ('s, 'n, 'd, 'w, 'c, 'h, 't, 'u, 'q, 'p) svcWhLib \<Rightarrow>
   (nat \<Rightarrow> err option) \<Rightarrow> err option \<Rightarrow> ('s, 'n, 'd, 'w, 'c, 'h, 't, 'u, 'q, unit) svcWh" where
  "wormholeReadSend E H sendErr ctxErr =
     bnd (ReadMessage H ctxErr True) (\<lambda>msg.
     bnd (onEnv (inStream (wormholeMessageToRPC E msg))) (\<lambda>out.
     onEnv (sendOut sendErr \<lparr>woMessage = Some out, woStatus = WormholeDefault\<rparr>)))"

text \<open>After the first request: requests and reads in the order they happen, with what the context
  says then. The reading goroutine ends at its first error; a panic of it ends the process.\<close>

datatype whEvent = WhRequest rpcWormholeInput "err option" | WhReads "err option"

primrec whLoop ::
  "('s, 'n, 'd, 'w, 'k, 'f, 'r) rpc \<Rightarrow> ('s, 'n, 'd, 'w, 'c, 'h, 't, 'u, 'q, 'p) svcWhLib \<Rightarrow> (nat \<Rightarrow> err option) \<Rightarrow>
   err option \<Rightarrow> bool \<Rightarrow> whEvent list \<Rightarrow> ('s, 'n, 'd, 'w, 'c, 'h, 't, 'u, 'q, unit) svcWh" where
  "whLoop E H sendErr recvErr reading [] = (case recvErr of Some e \<Rightarrow> fail e | None \<Rightarrow> ret ())"
| "whLoop E H sendErr recvErr reading (ev # evs) =
     (case ev of
        WhRequest req ctxErr \<Rightarrow> bnd (wormholeInput H ctxErr req) (\<lambda>_. whLoop E H sendErr recvErr reading evs)
      | WhReads ctxErr \<Rightarrow>
          if reading
          then orElse (wormholeReadSend E H sendErr ctxErr) (\<lambda>_. whLoop E H sendErr recvErr False evs)
                 (\<lambda>_. whLoop E H sendErr recvErr True evs)
          else whLoop E H sendErr recvErr reading evs)"

text \<open>The status listener: a failure to send is logged only.\<close>

definition sendStatus :: "(nat \<Rightarrow> err option) \<Rightarrow> whStatus \<Rightarrow> ('s, 'n, 'd, 'w) whEnv \<Rightarrow> ('s, 'n, 'd, 'w) whEnv" where
  "sendStatus sendErr st env =
     (let rst = wormholeStatusToRPC st
      in if rst = WormholeDefault then env else snd (sendOut sendErr (statusOutput rst) env))"

text \<open>The whole call: without a request it only closes. \<open>first\<close> is the first request, if any.\<close>

definition svcWormhole ::
  "('s, 'n, 'd, 'w, 'k, 'f, 'r) rpc \<Rightarrow> ('s, 'n, 'd, 'w, 'c, 'h, 't, 'u, 'q, 'p) svcWhLib \<Rightarrow> string \<Rightarrow> 'u \<Rightarrow>
   (nat \<Rightarrow> err option) \<Rightarrow> err option \<Rightarrow> (nat \<Rightarrow> err option) \<Rightarrow> (nat \<Rightarrow> bool) \<Rightarrow> err option \<Rightarrow>
   rpcWormholeInput option \<Rightarrow> whEvent list \<Rightarrow> ('s, 'n, 'd, 'w) whEnv \<Rightarrow>
   ((err + unit) \<times> ('s, 'n, 'd, 'w) whEnv) option" where
  "svcWormhole E H0 server out sendErr ctxErr ctxConnect offers recvErr first evs env =
     (let H = withKeyring E H0
      in case whNew H server env out of
           Inl e \<Rightarrow> Some (Inl e, env)
         | Inr w0 \<Rightarrow>
             let w1 = w0\<lparr>whOnStatus := sendStatus sendErr\<rparr>;
                 body = (case first of None \<Rightarrow> liftP (whLoop E H sendErr recvErr False [])
                         | Some req \<Rightarrow> bndP (wormholeInit E H sendErr ctxErr ctxConnect offers req)
                             (\<lambda>_. liftP (whLoop E H sendErr recvErr True evs)))
             in case body w1 of None \<Rightarrow> None
                | Some (r, w2) \<Rightarrow> Some (r, whEnv (snd (whClose H w2))))"

end
