(* ===== verification/Frame.thy ===== *)
theory Frame
  imports VaultTools Keyring Secrets
begin

text \<open>
  What an operation leaves alone. \<open>keeps R m\<close> says that the state before a run of \<open>m\<close> and the one
  after it, with or without an error, are related by \<open>R\<close>. For a preorder the combinators respect
  this, which is the locale \<open>frame\<close>; its first interpretation is that of the vault, whose
  operations never drop a master key except to lock.
\<close>

named_theorems frame_intro \<open>operations that keep a relation of states\<close>

definition keeps :: "('s \<Rightarrow> 's \<Rightarrow> bool) \<Rightarrow> ('s, 'a) op \<Rightarrow> bool" where
  "keeps R m \<longleftrightarrow> (\<forall>s. R s (snd (m s)))"

text \<open>For operations that need not end.\<close>

definition keepsP :: "('s \<Rightarrow> 's \<Rightarrow> bool) \<Rightarrow> ('s \<Rightarrow> ((err + 'a) \<times> 's) option) \<Rightarrow> bool" where
  "keepsP R m \<longleftrightarrow> (\<forall>s r s'. m s = Some (r, s') \<longrightarrow> R s s')"

lemma keepsD: "keeps R m \<Longrightarrow> m s = (r, s') \<Longrightarrow> R s s'"
  unfolding keeps_def by (drule spec[of _ s]) simp

lemma keepsI: "(\<And>s r s'. m s = (r, s') \<Longrightarrow> R s s') \<Longrightarrow> keeps R m"
  by (simp add: keeps_def) (metis surjective_pairing)

lemma keepsPD: "keepsP R m \<Longrightarrow> m s = Some (r, s') \<Longrightarrow> R s s'"
  by (simp add: keepsP_def)

locale frame =
  fixes R :: "'s \<Rightarrow> 's \<Rightarrow> bool"
  assumes same: "R s s"
    and chain: "R s t \<Longrightarrow> R t u \<Longrightarrow> R s u"
begin

lemma keeps_basic [frame_intro]:
  "keeps R (ret x)" "keeps R (fail e)" "keeps R (gets f)" "keeps R (lift r)" "keeps R (failIf c e)"
  by (auto simp: keeps_def op_simps same)

lemma keeps_bnd [frame_intro]:
  assumes "keeps R m" "\<And>x. keeps R (f x)"
  shows "keeps R (bnd m f)"
proof (rule keepsI)
  fix s r s'
  assume run: "bnd m f s = (r, s')"
  obtain q t where q: "m s = (q, t)" by fastforce
  have "R s t" using keepsD[OF assms(1) q] .
  moreover have "R t s'"
    using run q same keepsD[OF assms(2)] by (cases q) (auto simp: op_simps)
  ultimately show "R s s'" by (rule chain)
qed

lemma keeps_handlers [frame_intro]:
  "keeps R m \<Longrightarrow> keeps R (wrapErr w m)" "keeps R m \<Longrightarrow> keeps R (mapErr h m)"
  by (auto intro!: keepsI dest: keepsD simp: wrapErr_def mapErr_def split: prod.splits sum.splits)

lemma keeps_orElse [frame_intro]:
  assumes "keeps R m" "\<And>e. keeps R (h e)" "\<And>x. keeps R (k x)"
  shows "keeps R (orElse m h k)"
proof (rule keepsI)
  fix s r s'
  assume run: "orElse m h k s = (r, s')"
  obtain q t where q: "m s = (q, t)" by fastforce
  have "R s t" using keepsD[OF assms(1) q] .
  moreover have "R t s'"
    using run q same keepsD[OF assms(2)] keepsD[OF assms(3)]
    by (cases q) (auto simp: orElse_def split: if_splits)
  ultimately show "R s s'" by (rule chain)
qed

lemma keeps_cases [frame_intro]:
  "keeps R a \<Longrightarrow> keeps R b \<Longrightarrow> keeps R (if c then a else b)"
  "keeps R a \<Longrightarrow> (\<And>x. keeps R (f x)) \<Longrightarrow> keeps R (case m of None \<Rightarrow> a | Some x \<Rightarrow> f x)"
  "(\<And>x y. keeps R (g x y)) \<Longrightarrow> keeps R (case p of (x, y) \<Rightarrow> g x y)"
  "(\<And>x. keeps R (u x)) \<Longrightarrow> (\<And>x. keeps R (f x)) \<Longrightarrow> keeps R (case q of Inl x \<Rightarrow> u x | Inr x \<Rightarrow> f x)"
  "keeps R a \<Longrightarrow> (\<And>x xs. keeps R (g' x xs)) \<Longrightarrow> keeps R (case l of [] \<Rightarrow> a | x # xs \<Rightarrow> g' x xs)"
  by (simp_all split: option.split prod.split sum.split list.split)

lemma keeps_Let [frame_intro]: "(\<And>x. keeps R (f x)) \<Longrightarrow> keeps R (let x = t in f x)"
  by simp

lemma keeps_loops [frame_intro]:
  assumes "\<And>x. keeps R (f x)"
  shows "keeps R (forEach xs f)"
  using assms by (induction xs) (simp_all add: keeps_basic keeps_bnd)

lemma keeps_collect [frame_intro]:
  assumes "\<And>x. keeps R (f x)"
  shows "keeps R (collect xs f)"
  using assms by (induction xs) (simp_all add: keeps_basic keeps_bnd keeps_cases)

lemma keepsP_wrap: "keepsP R (\<lambda>s. Some (m s)) \<longleftrightarrow> keeps R m"
  by (auto simp: keepsP_def intro: keepsI dest: keepsD)

end

section \<open>The master key of a vault\<close>

definition keyKept :: "('s, 'n) vault \<Rightarrow> ('s, 'n) vault \<Rightarrow> bool" where
  "keyKept v w \<longleftrightarrow> (vMk v \<noteq> None \<longrightarrow> vMk w \<noteq> None)"

interpretation vaultKey: frame keyKept
  by unfold_locales (auto simp: keyKept_def)

text \<open>A change of anything else.\<close>

lemma keeps_modify [frame_intro]:
  "(\<And>v. vMk v \<noteq> None \<Longrightarrow> vMk (h v) \<noteq> None) \<Longrightarrow> keeps keyKept (modify h)"
  by (simp add: keeps_def op_simps keyKept_def)

lemma keeps_parts [frame_intro]:
  "keeps keyKept (onStore m)" "keeps keyKept (onNet n)"
  "keeps keyKept (randBytes X k)" "keeps keyKept (clockNow X)" "keeps keyKept (timeNow X)"
  by (auto simp: keeps_def keyKept_def onStore_def onNet_def zoom_def randBytes_def clockNow_def timeNow_def
    split: prod.splits)

text \<open>Settings and the log.\<close>

lemma keeps_setValue [frame_intro]: "keeps keyKept (setValue X I p b)"
  unfolding setValue_def by (intro frame_intro)

lemma keeps_getValue [frame_intro]: "keeps keyKept (getValue I p)"
  unfolding getValue_def by (intro frame_intro)

lemma keeps_settings [frame_intro]:
  "keeps keyKept (setInt64 X I p n)" "keeps keyKept (setBool X I p c)" "keeps keyKept (setTime X I p t)"
  "keeps keyKept (getInt64 I p)"
  unfolding setInt64_def setBool_def setTime_def getInt64_def by (intro frame_intro)+

lemma keeps_getters [frame_intro]:
  "keeps keyKept (getTime X I p)" "keeps keyKept (getBool I p)"
  unfolding getTime_def getBool_def by (intro frame_intro)+

lemma keeps_indices [frame_intro]:
  "keeps keyKept (pullIndex I)" "keeps keyKept (setPullIndex X I n)" "keeps keyKept (pushIndex I)"
  "keeps keyKept (setPushIndex X I n)" "keeps keyKept (autoSyncDisabled I)" "keeps keyKept (lastSync X I)"
  "keeps keyKept (setLastSync X I t)" "keeps keyKept (setRemoteSalt X I b)"
  unfolding pullIndex_def setPullIndex_def pushIndex_def setPushIndex_def autoSyncDisabled_def lastSync_def
    setLastSync_def setRemoteSalt_def
  by (intro frame_intro)+

lemma keeps_getRemoteSalt [frame_intro]: "keeps keyKept (getRemoteSalt X I c)"
  unfolding getRemoteSalt_def by (intro frame_intro)

lemma keeps_pushIndexNext [frame_intro]: "keeps keyKept (pushIndexNext X I)"
  unfolding pushIndexNext_def by (intro frame_intro)

lemma keeps_addToPush [frame_intro]: "keeps keyKept (addToPush X I p b)"
  unfolding addToPush_def by (intro frame_intro) simp

lemma keeps_vaultSetPath [frame_intro]: "keeps keyKept (vaultSetPath X I p b c)"
  unfolding vaultSetPath_def by (intro frame_intro)

text \<open>Items.\<close>

lemma keeps_secretBoxSeal [frame_intro]: "keeps keyKept (secretBoxSeal X b k)"
  unfolding secretBoxSeal_def by (intro frame_intro)

lemma keeps_encryptItem [frame_intro]: "keeps keyKept (encryptItem X item k)"
  unfolding encryptItem_def by (intro frame_intro)

lemma keeps_setItem [frame_intro]: "keeps keyKept (setItem X I item c)"
  unfolding setItem_def by (intro frame_intro)

lemma keeps_vaultSet [frame_intro]: "keeps keyKept (vaultSet X I item)"
  unfolding vaultSet_def by (intro frame_intro)

lemma keeps_vaultGet [frame_intro]: "keeps keyKept (vaultGet X I i)"
  unfolding vaultGet_def by (intro frame_intro)

lemma keeps_items [frame_intro]:
  "keeps keyKept (vaultDelete X I i)" "keeps keyKept (vaultItems X I)" "keeps keyKept (vaultIsEmpty I)"
  "keeps keyKept (vaultOpen I)" "keeps keyKept (vaultClose I)"
  unfolding vaultDelete_def vaultItems_def vaultIsEmpty_def vaultOpen_def vaultClose_def
  by (intro frame_intro; simp)+

text \<open>Keys and secrets.\<close>

lemma keeps_keyGet [frame_intro]: "keeps keyKept (keyGet X I K i)"
  unfolding keyGet_def by (intro frame_intro)

lemma keeps_keySave [frame_intro]: "keeps keyKept (keySave X I K k)"
  unfolding keySave_def by (intro frame_intro)

lemma keeps_keyList [frame_intro]: "keeps keyKept (keyList X I K)"
  unfolding keyList_def by (intro frame_intro)

lemma keeps_keys [frame_intro]:
  "keeps keyKept (EdX25519Keys X I K)" "keeps keyKept (EdX25519PublicKeys X I K)"
  "keeps keyKept (EdX25519Key X I K i)"
  unfolding EdX25519Keys_def EdX25519PublicKeys_def EdX25519Key_def by (intro frame_intro)+

lemma keeps_FindEdX25519PublicKey [frame_intro]: "keeps keyKept (FindEdX25519PublicKey X I K i)"
  unfolding FindEdX25519PublicKey_def by (intro frame_intro)

lemma keeps_newSecretID [frame_intro]: "keeps keyKept (newSecretID X)"
  unfolding newSecretID_def by (intro frame_intro)

lemma keeps_secrets [frame_intro]:
  "keeps keyKept (secretSave X I L s)" "keeps keyKept (secretGet X I L i)" "keeps keyKept (secretList X I L opts)"
  unfolding secretSave_def secretGet_def secretList_def by (intro frame_intro)+

text \<open>Authentication. \<open>Unlock\<close> sets the master key.\<close>

lemma keeps_auth [frame_intro]:
  "keeps keyKept (Salt X I)" "keeps keyKept (hasAuth X I)" "keeps keyKept (authCreate X I i k mk)"
  unfolding Salt_def hasAuth_def authCreate_def by (intro frame_intro)+

lemma keeps_Status [frame_intro]: "keeps keyKept (Status X I)"
  unfolding Status_def by (intro frame_intro)

lemma keeps_setAuthFromMasterKey [frame_intro]: "keeps keyKept (setAuthFromMasterKey X I mk)"
  unfolding setAuthFromMasterKey_def by (intro frame_intro) (simp_all)

lemma keeps_setMasterKey [frame_intro]: "keeps keyKept (setMasterKey X I mk)"
  unfolding setMasterKey_def by (intro frame_intro) simp

lemma keeps_provisions [frame_intro]:
  "keeps keyKept (NewProvision X t)" "keeps keyKept (provisionSave X I p)"
  "keeps keyKept (provisionGet X I i)" "keeps keyKept (Provisions X I)"
  unfolding NewProvision_def provisionSave_def provisionGet_def Provisions_def by (intro frame_intro; simp)+

lemma keeps_deletes [frame_intro]:
  "keeps keyKept (provisionDelete X I i)" "keeps keyKept (authDelete X I i)" "keeps keyKept (ProvisionSave X I p)"
  unfolding provisionDelete_def authDelete_def ProvisionSave_def by (intro frame_intro; simp)+

lemma keeps_authUnlock [frame_intro]: "keeps keyKept (authUnlock X I k)"
  unfolding authUnlock_def by (intro frame_intro)

lemma keeps_isLastAuth [frame_intro]: "keeps keyKept (isLastAuth X I i)"
  unfolding isLastAuth_def by (intro frame_intro)

lemma keeps_authSetup [frame_intro]: "keeps keyKept (authSetup X I i k)"
  unfolding authSetup_def by (intro frame_intro)

lemma keeps_auth_calls [frame_intro]:
  "keeps keyKept (Unlock X I k)" "keeps keyKept (Setup X I k p)" "keeps keyKept (Provision X I k p)"
  "keeps keyKept (Deprovision X I i c)" "keeps keyKept (vaultReset X I)" "keeps keyKept (clearRemote X I)"
  unfolding Unlock_def Setup_def Provision_def Deprovision_def vaultReset_def clearRemote_def
  by (intro frame_intro; simp)+

text \<open>After a successful unlock the vault has its master key.\<close>

lemma setMasterKey_opens: "setMasterKey X I mk v = (Inr u, v') \<Longrightarrow> vMk v' = Some mk"
  by (auto simp: setMasterKey_def op_iff)

lemma Unlock_opens:
  assumes "Unlock X I k v = (Inr p, v')"
  shows "vMk v' \<noteq> None"
proof -
  obtain mk u v1 i q where set: "setMasterKey X I mk u = (Inr (), v1)" and get: "provisionGet X I i v1 = (Inr q, v')"
    using assms unfolding Unlock_def op_iff by (auto simp: op_iff split: option.splits)
  from setMasterKey_opens[OF set] keepsD[OF keeps_provisions(3) get] show ?thesis
    by (simp add: keyKept_def)
qed

text \<open>Synchronisation.\<close>

lemma keeps_vaultEncrypt [frame_intro]: "keeps keyKept (vaultEncrypt X b k)"
  by (simp add: keeps_def keyKept_def vaultEncrypt_def)

lemma keeps_sendData [frame_intro]: "keeps keyKept (sendData X k e)"
  unfolding sendData_def by (intro frame_intro)

lemma keeps_api [frame_intro]:
  "keeps keyKept (VaultSend X R k es)" "keeps keyKept (clientVault X R k n)" "keeps keyKept (VaultDelete X R k)"
  "keeps keyKept (VaultExists X R k)"
  unfolding VaultSend_def clientVault_def VaultDelete_def VaultExists_def by (intro frame_intro)+

lemma keeps_vaultPush [frame_intro]: "keeps keyKept (vaultPush X I R)"
  unfolding vaultPush_def by (intro frame_intro)

lemma keeps_savePulled [frame_intro]: "keeps keyKept (savePulled X I e)"
  unfolding savePulled_def applyPulled_def by (intro frame_intro)

lemma keeps_saveRemoteVault [frame_intro]: "keeps keyKept (saveRemoteVault X I es)"
  unfolding saveRemoteVault_def by (intro frame_intro)

lemma keeps_pullNext [frame_intro]: "keeps keyKept (pullNext X I R)"
  unfolding pullNext_def by (intro frame_intro)

lemma keeps_vaultPull: "keepsP keyKept (vaultPull X I R)"
proof -
  have "keyKept v (snd y)" if "vaultPull X I R v = Some y" for v y
    using that
  proof (rule vaultPull.raw_induct[rotated])
    fix pull X I R v y
    assume IH: "\<And>X I R v y. pull X I R v = Some y \<Longrightarrow> keyKept v (snd y)"
      and run: "(case pullNext X I R v of (Inl e, v') \<Rightarrow> Some (Inl e, v')
        | (Inr truncated, v') \<Rightarrow> if truncated then pull X I R v' else Some (Inr (), v')) = Some y"
    obtain q w where q: "pullNext X I R v = (q, w)" by fastforce
    have step: "keyKept v w" using keepsD[OF keeps_pullNext q] .
    have "keyKept w (snd y)"
      using run q IH vaultKey.same by (cases q) (auto split: if_splits)
    with step show "keyKept v (snd y)" by (rule vaultKey.chain)
  qed
  then show ?thesis by (force simp: keepsP_def)
qed

lemma keeps_Sync: "keepsP keyKept (Sync X I R c)"
  unfolding keepsP_def
proof (intro allI impI)
  fix v r v'
  assume run: "Sync X I R c v = Some (r, v')"
  obtain q w where q: "wrapErr ''failed to push vault'' (vaultPush X I R) v = (q, w)" by fastforce
  have one: "keyKept v w"
    by (rule keepsD[where m = "wrapErr ''failed to push vault'' (vaultPush X I R)" and s = v, OF _ q]) (intro frame_intro)
  have two: "keyKept w u" if "vaultPull X I R w = Some (p, u)" for p u
    using keepsPD[OF keeps_vaultPull that] .
  have three: "keyKept u u'" if "bnd (timeNow X) (setLastSync X I) u = (p, u')" for p u u'
    by (rule keepsD[where m = "bnd (timeNow X) (setLastSync X I)" and s = u, OF _ that]) (intro frame_intro)
  have "keyKept w v'"
    using run q vaultKey.same
    by (auto simp: Sync_def split: sum.splits option.splits prod.splits
      intro: two vaultKey.chain[OF two three])
  with one show "keyKept v v'" by (rule vaultKey.chain)
qed

lemma keeps_checks [frame_intro]:
  "keeps keyKept (SyncEnabled X I)" "keeps keyKept (SyncStatus X I)"
  unfolding SyncEnabled_def SyncStatus_def by (intro frame_intro)+

lemma keeps_shouldCheck [frame_intro]: "keeps keyKept (shouldCheck X I d)"
  unfolding shouldCheck_def by (intro frame_intro) simp

lemma keeps_CheckSync: "keepsP keyKept (CheckSync X I R c d)"
  unfolding keepsP_def
proof (intro allI impI)
  fix v r v'
  assume run: "CheckSync X I R c d v = Some (r, v')"
  obtain q w where q: "shouldCheck X I d v = (q, w)" by fastforce
  have "keyKept v w" using keepsD[OF keeps_shouldCheck q] .
  moreover have "keyKept w v'"
    using run q keepsPD[OF keeps_Sync] vaultKey.same
    by (auto simp: CheckSync_def split: sum.splits option.splits prod.splits if_splits)
  ultimately show "keyKept v v'" by (rule vaultKey.chain)
qed

lemma keeps_pushToEnd [frame_intro]: "keeps keyKept (pushToEnd X I n es)"
  by (induction es arbitrary: n) (simp_all add: keeps_parts vaultKey.keeps_basic vaultKey.keeps_bnd)

lemma keeps_pullToPush [frame_intro]: "keeps keyKept (pullToPush X I n es)"
  by (induction es arbitrary: n) (simp_all add: keeps_parts vaultKey.keeps_basic vaultKey.keeps_bnd)

lemma keeps_resetLog [frame_intro]: "keeps keyKept (resetLog X I)"
  unfolding resetLog_def by (intro frame_intro)

lemma keeps_remotes [frame_intro]: "keeps keyKept (Unsync X I R)" "keeps keyKept (Clone X I R r)"
  unfolding Unsync_def Clone_def by (intro frame_intro; simp)+

lemma keeps_convertItem [frame_intro]: "keeps keyKept (convertItem X I kv)"
  unfolding convertItem_def Let_def by (intro frame_intro)

lemma keeps_ConvertKeyring [frame_intro]: "keeps keyKept (ConvertKeyring X I items)"
  unfolding ConvertKeyring_def by (intro frame_intro)

end
