(* ===== verification/Session.thy ===== *)
theory Session
  imports Frame ServiceFiles
begin

text \<open>
  The calls of the service as steps: what each leaves alone, the gRPC server in front of them, and
  the states it can reach. No call but unlocking, recovering and locking touches the session
  tokens.
\<close>

definition sessionKept :: "('s, 'n, 'd, 'w) service \<Rightarrow> ('s, 'n, 'd, 'w) service \<Rightarrow> bool" where
  "sessionKept s t \<longleftrightarrow> svTokens t = svTokens s \<and> svUnlocked t = svUnlocked s \<and> keyKept (svVault s) (svVault t)"

interpretation session: frame sessionKept
  by unfold_locales (auto simp: sessionKept_def intro: vaultKey.same vaultKey.chain)

lemma keeps_onVault [frame_intro]: "keeps keyKept m \<Longrightarrow> keeps sessionKept (onVault m)"
  by (auto simp: keeps_def sessionKept_def onVault_def zoom_def split: prod.splits) (metis snd_conv)

lemma keeps_svc_parts [frame_intro]:
  "keeps sessionKept (onDb m1)" "keeps sessionKept (onWorld m2)" "keeps sessionKept (onDevice m3)"
  "keeps sessionKept svcDraw"
  by (auto simp: keeps_def sessionKept_def onDb_def onWorld_def onDevice_def zoom_def svcDraw_def
    vaultKey.same split: prod.splits)

lemma keeps_clients [frame_intro]: "keeps sessionKept (onClient m)" "keeps sessionKept (svcNow E)"
  unfolding onClient_def svcNow_def by (intro frame_intro)+

lemma keeps_svcMillis [frame_intro]: "keeps sessionKept (svcMillis E)"
  unfolding svcMillis_def by (intro frame_intro)

section \<open>Keys and users\<close>

lemma keeps_updateUser [frame_intro]: "keeps sessionKept (updateUser E kid c)"
  unfolding updateUser_def by (intro frame_intro)

lemma keeps_checkForExpiredKey [frame_intro]: "keeps sessionKept (checkForExpiredKey E kid)"
  unfolding checkForExpiredKey_def by (intro frame_intro)

lemma keeps_checkEach [frame_intro]: "keeps sessionKept (checkEach E c i kids)"
  by (induction kids arbitrary: i) (simp_all, (intro frame_intro; assumption)+)

lemma keeps_publicKIDs [frame_intro]: "keeps sessionKept (publicKIDs E)"
  unfolding publicKIDs_def by (intro frame_intro)

lemma keeps_checks_svc [frame_intro]: "keeps sessionKept (checkKeys E c)" "keeps sessionKept (updateAllKeys E)"
  unfolding checkKeys_def updateAllKeys_def by (intro frame_intro)+

lemma keeps_searches [frame_intro]:
  "keeps sessionKept (searchUsersRemote E q n)" "keeps sessionKept (searchUsersLocal E q n)"
  unfolding searchUsersRemote_def searchUsersLocal_def by (intro frame_intro)+

lemma keeps_searchRemoteCheckUser [frame_intro]: "keeps sessionKept (searchRemoteCheckUser E q)"
  unfolding searchRemoteCheckUser_def by (intro frame_intro)

lemma keeps_lookupUser [frame_intro]: "keeps sessionKept (lookupUser E u c)"
  unfolding lookupUser_def by (intro frame_intro)

lemma keeps_lookupKID [frame_intro]: "keeps sessionKept (lookupKID E k c)"
  unfolding lookupKID_def Let_def by (intro frame_intro)

lemma keeps_lookupKey [frame_intro]: "keeps sessionKept (lookupKey E k opts)"
  unfolding lookupKey_def by (intro frame_intro)

lemma keeps_lookupAll [frame_intro]: "keeps sessionKept (lookupAll E ks opts)"
  unfolding lookupAll_def by (intro frame_intro)

lemma keeps_ensureUserVerified [frame_intro]: "keeps sessionKept (ensureUserVerified E kid)"
  unfolding ensureUserVerified_def by (intro frame_intro)

lemma keeps_fillKey [frame_intro]: "keeps sessionKept (fillKey E kid k)"
  unfolding fillKey_def Let_def by (intro frame_intro)

lemma keeps_keyToRPC [frame_intro]: "keeps sessionKept (keyToRPC E k c)"
  unfolding keyToRPC_def by (intro frame_intro)

lemma keeps_vaultKey [frame_intro]: "keeps sessionKept (vaultKey E kid)"
  unfolding vaultKey_def by (intro frame_intro)

lemma keeps_svcKey [frame_intro]: "keeps sessionKept (svcKey E kid)"
  unfolding svcKey_def by (intro frame_intro)

lemma keeps_verifyKey [frame_intro]: "keeps sessionKept (verifyKey E kid)"
  unfolding verifyKey_def by (intro frame_intro)

lemma keeps_key_calls [frame_intro]:
  "keeps sessionKept (rpcKeyOf E k c1 c2)" "keeps sessionKept (KeyRemove E k)" "keeps sessionKept (KeyGenerate E t)"
  "keeps sessionKept (convertIfX25519ID E k)"
  unfolding rpcKeyOf_def KeyRemove_def KeyGenerate_def convertIfX25519ID_def Let_def by (intro frame_intro)+

lemma keeps_key_parts [frame_intro]: "keeps sessionKept (edx25519Key E kid)" "keeps sessionKept (x25519Key E kid)"
  unfolding edx25519Key_def x25519Key_def by (intro frame_intro)+

lemma keeps_saveKey [frame_intro]: "keeps sessionKept (saveKey E k)"
  unfolding saveKey_def by (intro frame_intro)

lemma keeps_imports [frame_intro]:
  "keeps sessionKept (KeyImport E i p c)" "keeps sessionKept (importID E i)"
  unfolding KeyImport_def importID_def Let_def by (intro frame_intro)+

lemma keeps_KeyExport [frame_intro]: "keeps sessionKept (KeyExport E k t c1 c2 p)"
  unfolding KeyExport_def by (cases t; simp only: authType.case exportType.case; intro frame_intro)

lemma keeps_matchKey [frame_intro]: "keeps sessionKept (matchKey E c q ts k)"
  unfolding matchKey_def by (intro frame_intro)

lemma keeps_filterKeys [frame_intro]: "keeps sessionKept (filterKeys E ks c q ts f d)"
  unfolding filterKeys_def by (intro frame_intro)

lemma keeps_Keys [frame_intro]: "keeps sessionKept (Keys E q ts f d)"
  unfolding Keys_def Let_def by (intro frame_intro)

lemma keeps_pullUser [frame_intro]: "keeps sessionKept (pullUser E kid)"
  unfolding pullUser_def by (intro frame_intro)

lemma keeps_rpcPull [frame_intro]: "keeps sessionKept (rpcPull E k)"
  unfolding rpcPull_def by (intro frame_intro)

lemma keeps_sendStatement [frame_intro]: "keeps sessionKept (sendStatement E c st)"
  unfolding sendStatement_def by (intro frame_intro)

lemma keeps_pushFrom [frame_intro]: "keeps sessionKept (pushFrom E c rsts sts)"
  by (induction sts arbitrary: rsts) (simp_all, (intro frame_intro; assumption)+)

lemma keeps_push [frame_intro]: "keeps sessionKept (push E c kid)"
  unfolding push_def by (intro frame_intro)

lemma keeps_Push [frame_intro]: "keeps sessionKept (Push E c k b)"
  unfolding Push_def by (intro frame_intro)

lemma keeps_sigchain_calls [frame_intro]:
  "keeps sessionKept (rpcSigchain E k)" "keeps sessionKept (rpcStatementAt E k n)"
  "keeps sessionKept (StatementCreate E c k b l)" "keeps sessionKept (StatementRevoke E c k n l)"
  unfolding rpcSigchain_def rpcStatementAt_def StatementCreate_def StatementRevoke_def Let_def
  by (intro frame_intro)+

lemma keeps_signingKey [frame_intro]: "keeps sessionKept (signingKey E kid)"
  unfolding signingKey_def by (intro frame_intro)

lemma keeps_sigchainUserAdd [frame_intro]: "keeps sessionKept (sigchainUserAdd E c k srv n u l)"
  unfolding sigchainUserAdd_def Let_def by (intro frame_intro)

lemma keeps_user_calls [frame_intro]:
  "keeps sessionKept (svcUserSearch E q n l)" "keeps sessionKept (svcUser E k l)" "keeps sessionKept (UserService E k srv)"
  "keeps sessionKept (UserSign E k srv name)" "keeps sessionKept (UserAdd E c k srv name url l)"
  "keeps sessionKept (Search E q)" "keeps sessionKept (AdminSignURL E newAuth sg mt url)"
  "keeps sessionKept (svcAdminCheck E sg what)"
  unfolding svcUserSearch_def svcUser_def UserService_def UserSign_def UserAdd_def Search_def AdminSignURL_def
    svcAdminCheck_def
  by (intro frame_intro)+

section \<open>Secrets, settings, documents\<close>

lemma keeps_store_calls [frame_intro]:
  "keeps sessionKept (svcSecret E i)" "keeps sessionKept (SecretSave E req)" "keeps sessionKept (SecretRemove E i)"
  "keeps sessionKept (svcSecrets E q f d)" "keeps sessionKept (ConfigGet E G name)" "keeps sessionKept (ConfigSet E G name c)"
  "keeps sessionKept (Rand E enc n e p l)" "keeps sessionKept (RandPassword rp k)"
  "keeps sessionKept (svcCollections E db parent)" "keeps sessionKept (svcDocuments E dump dd db pre)"
  "keeps sessionKept (DocumentDelete E db path)"
  unfolding svcSecret_def SecretSave_def SecretRemove_def svcSecrets_def ConfigGet_def ConfigSet_def Rand_def
    RandPassword_def svcCollections_def svcDocuments_def DocumentDelete_def Let_def
  by (intro frame_intro)+

section \<open>Auth methods\<close>

lemma keeps_passwordKey [frame_intro]: "keeps sessionKept (passwordKey E p)"
  unfolding passwordKey_def by (intro frame_intro)

lemma keeps_passwords [frame_intro]:
  "keeps sessionKept (setupPassword E p)" "keeps sessionKept (unlockPassword E p)" "keeps sessionKept (provisionPassword E p)"
  "keeps sessionKept (provisionPaperKey E G p)" "keeps sessionKept (unlockPaperKey E G p)"
  unfolding setupPassword_def unlockPassword_def provisionPassword_def provisionPaperKey_def unlockPaperKey_def
  by (intro frame_intro)+

lemma keeps_AuthPasswordChange [frame_intro]: "keeps sessionKept (AuthPasswordChange E old new)"
  unfolding AuthPasswordChange_def by (intro frame_intro)

lemma keeps_hmacSecret [frame_intro]: "keeps sessionKept (hmacSecret E G pin)"
  unfolding hmacSecret_def by (intro frame_intro)

lemma keeps_fido2 [frame_intro]:
  "keeps sessionKept (generateHMACSecret E G pin dev)" "keeps sessionKept (unlockHMACSecret E G pin)"
  "keeps sessionKept (provisionHMACSecret E G pin)"
  unfolding generateHMACSecret_def unlockHMACSecret_def provisionHMACSecret_def Let_def by (intro frame_intro)+

lemma keeps_authSetupCall [frame_intro]: "keeps sessionKept (authSetupCall E G t secret dev)"
  unfolding authSetupCall_def by (cases t; simp only: authType.case exportType.case; intro frame_intro)

lemma keeps_unlockVault [frame_intro]: "keeps sessionKept (unlockVault E G t secret)"
  unfolding unlockVault_def by (cases t; simp only: authType.case exportType.case; intro frame_intro)

lemma keeps_authProvision [frame_intro]: "keeps sessionKept (authProvision E G t secret dev c)"
  unfolding authProvision_def by (cases t; simp only: authType.case exportType.case; intro frame_intro)

lemma keeps_auth_rpc [frame_intro]:
  "keeps sessionKept (AuthSetup E G t secret dev)" "keeps sessionKept (AuthVault E G phrase)"
  "keeps sessionKept (AuthProvision E G t secret dev c)" "keeps sessionKept (AuthDeprovision E i)"
  "keeps sessionKept (AuthProvisions E)" "keeps sessionKept (AuthReset E G name)" "keeps sessionKept (VaultAuth E G)"
  "keeps sessionKept (rpcVaultUnsync E)" "keeps sessionKept (rpcVaultStatus E)" "keeps sessionKept (ensureUnlocked E)"
  "keeps sessionKept (RuntimeStatus E G b exe)"
  unfolding AuthSetup_def AuthVault_def AuthProvision_def AuthDeprovision_def AuthProvisions_def AuthReset_def
    VaultAuth_def rpcVaultUnsync_def rpcVaultStatus_def ensureUnlocked_def RuntimeStatus_def Let_def
  by (intro frame_intro)+

lemma keeps_openCache [frame_intro]: "keeps sessionKept (openCache E G)"
  unfolding openCache_def by (intro frame_intro)

text \<open>Synchronising.\<close>

lemma keeps_runs:
  assumes "keepsP keyKept m" "\<And>r. keeps sessionKept (f r)"
  shows "keepsP sessionKept (runs (onVaultP m) f)"
  unfolding keepsP_def
proof (intro allI impI)
  fix s r s'
  assume run: "runs (onVaultP m) f s = Some (r, s')"
  then obtain q v where q: "m (svVault s) = Some (q, v)" "f q (s\<lparr>svVault := v\<rparr>) = (r, s')"
    by (auto simp: runs_def onVaultP_def split: option.splits)
  have "sessionKept s (s\<lparr>svVault := v\<rparr>)"
    using keepsPD[OF assms(1) q(1)] by (simp add: sessionKept_def)
  then show "sessionKept s s'"
    using keepsD[OF assms(2) q(2)] by (rule session.chain)
qed

lemma keeps_sync_calls:
  "keepsP sessionKept (rpcVaultSync E c1 c)" "keepsP sessionKept (vaultUpdate E c1 c d)"
  "keepsP sessionKept (rpcVaultUpdate E c1 c)" "keepsP sessionKept (tryCheck E c1 c)"
  unfolding rpcVaultSync_def vaultUpdate_def rpcVaultUpdate_def tryCheck_def
  by (intro keeps_runs keeps_Sync keeps_CheckSync frame_intro)+

section \<open>Encryption and signing\<close>

text \<open>Opening a message looks up keys of the vault and does not lock it.\<close>

definition opens_ok :: "('s, 'n, 'd, 'w, 'x) crypt \<Rightarrow> ('s, 'n, 'y) openers \<Rightarrow> bool" where
  "opens_ok Y P \<longleftrightarrow> (\<forall>b. keeps keyKept (cyOpen Y b)) \<and> keeps (\<lambda>a b. keyKept (fst a) (fst b)) (opReader P)"

lemma keeps_newEncrypt [frame_intro]: "keeps sessionKept (newEncrypt E rs sn opts)"
  unfolding newEncrypt_def Let_def by (intro frame_intro)

lemma keeps_Encrypt [frame_intro]: "keeps sessionKept (Encrypt E Y b rs sn opts)"
  unfolding Encrypt_def by (intro frame_intro) (simp split: encryptMode.split, intro conjI allI impI frame_intro)

lemma keeps_encryptWriter [frame_intro]: "keeps sessionKept (encryptWriter E Y enc)"
  unfolding encryptWriter_def by (simp split: encryptMode.split) (intro conjI allI impI frame_intro)

lemma keeps_deferring [frame_intro]:
  assumes "keeps sessionKept m" "keeps sessionKept c"
  shows "keeps sessionKept (deferring m c)"
proof (rule keepsI)
  fix s r s'
  assume run: "deferring m c s = (r, s')"
  obtain q t where q: "m s = (q, t)" by fastforce
  obtain z u where z: "c t = (z, u)" by fastforce
  from session.chain[OF keepsD[OF assms(1) q] keepsD[OF assms(2) z]] run q z show "sessionKept s s'"
    by (simp add: deferring_def)
qed

lemma keeps_encryptWriteInOut [frame_intro]: "keeps sessionKept (encryptWriteInOut E Y F i o' enc)"
  unfolding encryptWriteInOut_def Let_def by (intro frame_intro)

lemma keeps_findSender [frame_intro]: "keeps sessionKept (findSender E kid)"
  unfolding findSender_def by (intro frame_intro)

lemma keeps_signerOf [frame_intro]: "keeps sessionKept (signerOf E kid)"
  unfolding signerOf_def by (intro frame_intro)

lemma keeps_crypt_calls [frame_intro]:
  "keeps sessionKept (EncryptFile E Y F i o' rs sn opts)" "keeps sessionKept (Sign E Y b sg c)"
  "keeps sessionKept (SignFile E Y i o' sg c1 c2)" "keeps sessionKept (Verify E Y b)"
  "keeps sessionKept (VerifyDetached E Y sig b)" "keeps sessionKept (VerifyFile E G Y i o')"
  "keeps sessionKept (VerifyDetachedFile E Y sig i)"
  unfolding EncryptFile_def Sign_def SignFile_def Verify_def VerifyDetached_def VerifyFile_def VerifyDetachedFile_def Let_def
  by (intro frame_intro)+

lemma keeps_Decrypt:
  assumes "opens_ok Y P"
  shows "keeps sessionKept (Decrypt E Y h b)"
proof -
  have [frame_intro]: "keeps keyKept (cyOpen Y b)" using assms by (simp add: opens_ok_def)
  show ?thesis unfolding Decrypt_def by (intro frame_intro)
qed

text \<open>Operations that need not end.\<close>

lemma keepsP_liftP: "keeps R m \<Longrightarrow> keepsP R (liftP m)"
  by (auto simp: keepsP_def liftP_def dest: keepsD)

lemma keepsP_bndP:
  assumes "frame R" "keepsP R m" "\<And>x. keepsP R (f x)"
  shows "keepsP R (bndP m f)"
  unfolding keepsP_def
proof (intro allI impI)
  fix s r s'
  assume "bndP m f s = Some (r, s')"
  then obtain q t where q: "m s = Some (q, t)" and
      rest: "(\<exists>e. q = Inl e \<and> s' = t) \<or> (\<exists>x. q = Inr x \<and> f x t = Some (r, s'))"
    by (auto simp: bndP_def split: option.splits sum.splits)
  have "R s t" using keepsPD[OF assms(2) q] .
  moreover have "R t s'" using rest keepsPD[OF assms(3)] frame.same[OF assms(1)] by auto
  ultimately show "R s s'" by (rule frame.chain[OF assms(1)])
qed

lemma keepsP_wrapErrP: "keepsP R m \<Longrightarrow> keepsP R (wrapErrP w m)"
  by (auto simp: keepsP_def wrapErrP_def split: option.splits sum.splits)

lemma keepsP_writeFile: "keepsP sessionKept (writeFile F P o' y q)"
proof -
  have [frame_intro]: "keepsP sessionKept (\<lambda>s. map_option (\<lambda>(b, _). (b, s)) (readAll P n y b q))" for n y b q
    by (auto simp: keepsP_def session.same)
  have inner: "keepsP sessionKept (bndP (\<lambda>s. map_option (\<lambda>(b, _). (b, s)) (readAll P 4096 y [] q)) (\<lambda>b.
      liftP (bnd (onDevice (flWrite F tmp b)) (\<lambda>_. onDevice (flRename F tmp o')))))" for tmp
    by (intro keepsP_bndP session.frame_axioms keepsP_liftP frame_intro)
  have "keepsP sessionKept (deferringP m c)" if m: "keepsP sessionKept m" and c: "keeps sessionKept c"
    for m :: "('a, 'b, 'c, 'd, unit) svcp" and c
    unfolding keepsP_def
  proof (intro allI impI)
    fix s r s'
    assume "deferringP m c s = Some (r, s')"
    then obtain t z where t: "m s = Some (r, t)" "c t = (z, s')"
      by (auto simp: deferringP_def split: option.splits prod.splits) (metis prod.collapse)
    show "sessionKept s s'" by (rule session.chain[OF keepsPD[OF m t(1)] keepsD[OF c t(2)]])
  qed
  note deferred = this
  show ?thesis
    unfolding writeFile_def Let_def
    by (intro keepsP_bndP session.frame_axioms keepsP_liftP deferred inner frame_intro)
qed

lemma keeps_opened:
  assumes "opens_ok Y P" "openReader P (s, q) = (r, (s', q'))"
  shows "sessionKept s s'"
proof -
  obtain x v q2 where v: "opReader P (svVault s, q) = (x, (v, q2))" by (metis prod.exhaust)
  have "keyKept (svVault s) v"
    using keepsD[where R = "\<lambda>a b. keyKept (fst a) (fst b)" and m = "opReader P" and s = "(svVault s, q)" and s' = "(v, q2)"]
      v assms(1) by (simp add: opens_ok_def)
  with assms(2) v show ?thesis
    by (auto simp: openReader_def zoom_def sessionKept_def)
qed

lemma keepsP_DecryptFile:
  assumes "opens_ok Y P"
  shows "keepsP sessionKept (DecryptFile E Y G F P i o')"
proof -
  have "keepsP sessionKept (\<lambda>s. case openReader P (s, q) of
      (Inl e, (s', _)) \<Rightarrow> Some (Inl e, s') | (Inr x, (s', r)) \<Rightarrow> Some (Inr (x, r), s'))" for q
    by (auto simp: keepsP_def dest: keeps_opened[OF assms] split: sum.splits prod.splits)
  then show ?thesis
    unfolding DecryptFile_def decryptWriteInOut_def case_prod_beta
    by (intro keepsP_bndP session.frame_axioms keepsP_liftP keepsP_wrapErrP keepsP_writeFile frame_intro)
qed

section \<open>Streams\<close>

text \<open>The state of a stream's handler holds the service first.\<close>

definition firstKept :: "('s, 'n, 'd, 'w) service \<times> 'z \<Rightarrow> ('s, 'n, 'd, 'w) service \<times> 'z \<Rightarrow> bool" where
  "firstKept a b \<longleftrightarrow> sessionKept (fst a) (fst b)"

interpretation stream: frame firstKept
  by unfold_locales (auto simp: firstKept_def intro: session.same session.chain)

lemma keeps_inStream [frame_intro]: "keeps sessionKept m \<Longrightarrow> keeps firstKept (inStream m)"
  by (auto intro!: keepsI dest: keepsD simp: inStream_def zoom_def firstKept_def split: prod.splits)

lemma keeps_modify_outs [frame_intro]: "keeps firstKept (modify (\<lambda>(s, os). (s, h s os)))"
  by (auto simp: keeps_def op_simps firstKept_def session.same)

lemma keeps_flush [frame_intro]: "keeps firstKept (flush se info buf)"
  unfolding flush_def sendOut_def by (intro frame_intro)

lemma keeps_writeData [frame_intro]: "keeps firstKept (writeData Y se info b xb)"
  unfolding writeData_def by (intro frame_intro)

lemma keeps_streamLoop [frame_intro]:
  assumes "\<And>q. keeps sessionKept (first q)"
  shows "keeps firstKept (streamLoop Y ce se first lt msg ins i st)"
proof (induction ins arbitrary: i st)
  case Nil
  show ?case unfolding streamLoop.simps by (intro frame_intro)
next
  case (Cons r ins)
  show ?case unfolding streamLoop.simps by (intro frame_intro Cons.IH assms)
qed

lemma keeps_streams [frame_intro]:
  "keeps firstKept (EncryptStream E Y ce se ins)" "keeps firstKept (SignStream E Y ce se ins')"
  unfolding EncryptStream_def SignStream_def by (intro frame_intro)+

text \<open>The same for a reader and the messages sent.\<close>

definition innerKept :: "('s, 'n, 'd, 'w, 'o) session \<Rightarrow> ('s, 'n, 'd, 'w, 'o) session \<Rightarrow> bool" where
  "innerKept a b \<longleftrightarrow> firstKept (fst a) (fst b)"

interpretation inner: frame innerKept
  by unfold_locales (auto simp: innerKept_def intro: stream.same stream.chain)

lemma keeps_withSvc [frame_intro]: "keeps sessionKept m \<Longrightarrow> keeps firstKept (withSvc m)"
  by (auto intro!: keepsI dest: keepsD simp: withSvc_def zoom_def firstKept_def split: prod.splits)

lemma keeps_withReader [frame_intro]: "keeps firstKept (withReader m)"
  by (auto intro!: keepsI simp: withReader_def zoom_def firstKept_def session.same split: prod.splits)

lemma keepsP_onSvcReader: "keeps firstKept m \<Longrightarrow> keepsP innerKept (onSvcReader m)"
  by (auto simp: keepsP_def onSvcReader_def liftP_def zoom_def innerKept_def dest: keepsD split: prod.splits)

lemma keeps_openReader: "opens_ok Y P \<Longrightarrow> keeps firstKept (openReader P)"
  by (auto intro!: keepsI simp: firstKept_def dest: keeps_opened)

lemma keeps_streamRound: "keeps innerKept (streamRound P se msg y)"
proof -
  have [frame_intro]: "keeps innerKept (zoom fst (\<lambda>s (_, os). (s, os)) m)" if "keeps firstKept m" for m
    using that by (auto intro!: keepsI dest: keepsD simp: zoom_def innerKept_def split: prod.splits)
  have [frame_intro]: "keeps innerKept (sendMsg se x)" for x
    unfolding sendMsg_def by (auto intro!: keepsI simp: op_simps innerKept_def stream.same split: option.splits)
  show ?thesis unfolding streamRound_def by (intro frame_intro)
qed

lemma keepsP_readFromStream: "keepsP innerKept (readFromStream P ce se msg i y)"
proof -
  have "innerKept s (snd z)" if "readFromStream P ce se msg i y s = Some z" for P ce se msg i y s z
    using that
  proof (rule readFromStream.raw_induct[rotated])
    fix loop P ce se msg i y s z
    assume IH: "\<And>P ce se msg i y s z. loop P ce se msg i y s = Some z \<Longrightarrow> innerKept s (snd z)"
      and run: "(case ce i of Some e \<Rightarrow> Some (Inl e, s)
        | None \<Rightarrow> (case streamRound P se msg y s of (Inl e, s') \<Rightarrow> Some (Inl e, s')
           | (Inr None, s') \<Rightarrow> Some (Inr (), s')
           | (Inr (Some y'), s') \<Rightarrow> loop P ce se msg (Suc i) y' s')) = Some z"
    obtain q t where q: "streamRound P se msg y s = (q, t)" by (metis prod.exhaust)
    have step: "innerKept s t" using keepsD[OF keeps_streamRound q] .
    have here: "innerKept s s" "innerKept t t" by (rule inner.same)+
    show "innerKept s (snd z)"
    proof (cases "ce i")
      case None
      have "innerKept t (snd z)"
        using run None q IH here(2) by (cases q) (auto split: option.splits)
      with step show ?thesis by (rule inner.chain)
    next
      case (Some e)
      with run here(1) show ?thesis by auto
    qed
  qed
  then show ?thesis by (force simp: keepsP_def)
qed

lemma keepsP_DecryptStream:
  assumes "opens_ok Y P"
  shows "keepsP innerKept (DecryptStream E Y P ce se)"
  unfolding DecryptStream_def case_prod_beta
  by (intro keepsP_bndP inner.frame_axioms keepsP_onSvcReader keeps_openReader[OF assms] keepsP_readFromStream frame_intro)

lemma keepsP_VerifyStream: "keepsP innerKept (VerifyStream E P ce se)"
  unfolding VerifyStream_def case_prod_beta
  by (intro keepsP_bndP inner.frame_axioms keepsP_onSvcReader keepsP_wrapErrP keepsP_readFromStream frame_intro)

lemma keeps_VerifyDetachedStream [frame_intro]: "keeps firstKept (VerifyDetachedStream E P first)"
  unfolding VerifyDetachedStream_def by (intro frame_intro)

end
