(* ===== verification/WormholeSession.thy ===== *)
theory WormholeSession
  imports WormholeService Session
begin

text \<open>
  The call \<^verbatim>\<open>Wormhole\<close> leaves the sessions of the service alone, for a HTTP client whose requests do:
  the frame lemmas of \<open>Session\<close> for the operations of a wormhole.
\<close>

section \<open>The HTTP client\<close>

definition clientKept :: "(('s, 'n, 'd, 'w) service \<times> 'z) client \<Rightarrow> bool" where
  "clientKept C \<longleftrightarrow> (\<forall>req. keeps firstKept (clDo C req)) \<and> keeps firstKept (clNow C) \<and> keeps firstKept (clNonce C)"

definition hole_ok :: "('s, 'n, 'd, 'w, 'c, 'h, 't, 'u, 'q, 'p) svcWhLib \<Rightarrow> bool" where
  "hole_ok H \<longleftrightarrow> (\<forall>server C. wlNew H server = Inr C \<longrightarrow> clientKept C) \<and>
     (\<forall>b k key. keeps firstKept (cpSeal (wlL H) b k key))"

lemma keeps_Request: "clientKept C \<Longrightarrow> keeps firstKept (Request W C req)"
  unfolding Request_def newRequest_def Let_def clientKept_def by (intro frame_intro) auto

text \<open>What the requests of a wormhole need of its libraries, apart from its client.\<close>

definition sealKept :: "('s, 'n, 'd, 'w, 'c, 'h, 't, 'u, 'q, 'p) svcWhLib \<Rightarrow> bool" where
  "sealKept H \<longleftrightarrow> (\<forall>b k key. keeps firstKept (cpSeal (wlL H) b k key)) \<and>
     (\<forall>kid. keeps firstKept (wlKey H kid)) \<and> keeps firstKept (wlKeys H)"

lemma keeps_calls:
  assumes "clientKept C" "sealKept H"
  shows "keeps firstKept (DiscoSave X W C (wlL H) sender recipient typ b expire)"
    and "keeps firstKept (Disco X W C (wlL H) kid key typ)"
    and "keeps firstKept (DiscoDelete X W C sender recipient)"
    and "keeps firstKept (InviteCode X W C (wlL H) sender code)"
    and "keeps firstKept (InviteCodeCreate X W C (wlL H) sender recipient)"
proof -
  note [frame_intro] = keeps_Request[OF assms(1)]
  have [frame_intro]: "keeps firstKept (cpSeal (wlL H) d k key')" for d k key' using assms(2) by (simp add: sealKept_def)
  show "keeps firstKept (DiscoSave X W C (wlL H) sender recipient typ b expire)" "keeps firstKept (Disco X W C (wlL H) kid key typ)"
    "keeps firstKept (DiscoDelete X W C sender recipient)" "keeps firstKept (InviteCode X W C (wlL H) sender code)"
    "keeps firstKept (InviteCodeCreate X W C (wlL H) sender recipient)"
    unfolding DiscoSave_def Disco_def DiscoDelete_def InviteCode_def InviteCodeCreate_def decoded_def Let_def
    by (intro frame_intro)+
qed

section \<open>The wormhole\<close>

definition holeGood :: "((('s, 'n, 'd, 'w) service \<times> 'z), 'c, 'h, 't, 'u, 'q) wormhole \<Rightarrow> bool" where
  "holeGood s \<longleftrightarrow> clientKept (whHcl s) \<and> (\<forall>st e. firstKept e (whOnStatus s st e))"

definition holeKept :: "((('s, 'n, 'd, 'w) service \<times> 'z), 'c, 'h, 't, 'u, 'q) wormhole \<Rightarrow>
   ((('s, 'n, 'd, 'w) service \<times> 'z), 'c, 'h, 't, 'u, 'q) wormhole \<Rightarrow> bool" where
  "holeKept s t \<longleftrightarrow> (holeGood s \<longrightarrow> holeGood t \<and> firstKept (whEnv s) (whEnv t))"

interpretation hole: frame holeKept
  by unfold_locales (auto simp: holeKept_def intro: stream.same stream.chain)

lemma keeps_onEnv [frame_intro]: "keeps firstKept m \<Longrightarrow> keeps holeKept (onEnv m)"
  unfolding keeps_def by (simp add: onEnv_def zoom_def holeKept_def holeGood_def split_def del: split_paired_All)

lemma keeps_onRtc [frame_intro]: "keeps holeKept (onRtc m)"
  by (auto intro!: keepsI simp: onRtc_def zoom_def holeKept_def holeGood_def stream.same split: prod.splits)

lemma keeps_whNotify [frame_intro]: "keeps holeKept (whNotify st)"
  by (simp add: keeps_def whNotify_def op_simps holeKept_def holeGood_def del: split_paired_All)

lemma keeps_hole_modify [frame_intro]:
  "keeps holeKept (modify (\<lambda>s. s\<lparr>whCipher := q\<rparr>))" "keeps holeKept (modify (\<lambda>s. s\<lparr>whSender := k, whRecipient := r\<rparr>))"
  "keeps holeKept (whSetOnStatus (\<lambda>_ e. e))"
  by (auto simp: keeps_def op_simps holeKept_def holeGood_def whSetOnStatus_def stream.same)

text \<open>What is read of a good state.\<close>

lemma keeps_getsGood:
  assumes "\<And>s. holeGood s \<Longrightarrow> keeps holeKept (g (f s))"
  shows "keeps holeKept (bnd (gets f) g)"
proof (rule keepsI)
  fix s r s'
  assume "bnd (gets f) g s = (r, s')"
  then have run: "g (f s) s = (r, s')" by (simp add: op_simps)
  show "holeKept s s'"
  proof (cases "holeGood s")
    case True
    from keepsD[OF assms[OF this] run] show ?thesis .
  qed (simp add: holeKept_def)
qed

lemma good_client: "holeGood s \<Longrightarrow> clientKept (whHcl s)"
  by (simp add: holeGood_def)

lemma keeps_frames [frame_intro]:
  "keeps holeKept (whWrite H c b)" "keeps holeKept (whRead H c)" "keeps holeKept (WriteMessage H c i b t)"
  "keeps holeKept (writeAck H c b)" "keeps holeKept (writeClosed H c)"
  unfolding writeAck_def writeClosed_def WriteMessage_def whWrite_def whRead_def by (intro frame_intro)+

lemma keeps_whClose:
  assumes "sealKept H"
  shows "keeps holeKept (whClose H)"
proof -
  note [frame_intro] = keeps_calls[OF good_client assms]
  have "keeps holeKept (bnd (gets (\<lambda>s. (whHcl s, whSender s, whRecipient s))) (\<lambda>(hcl, sender, recipient).
     bnd (case sender of None \<Rightarrow> ret ()
          | Some key \<Rightarrow> orElse (onEnv (DiscoDelete (wlX H) (wlW H) hcl key recipient)) (\<lambda>_. ret ()) (\<lambda>_. ret ())) (\<lambda>_.
     bnd (orElse (writeClosed H None) (\<lambda>_. ret ()) (\<lambda>_. ret ())) (\<lambda>_. onRtc (rtcClose (wlS H))))))"
    by (rule keeps_getsGood, simp only: prod.case) (intro frame_intro; assumption)
  then show ?thesis
    unfolding whClose_def
    by - (rule hole.keeps_bnd[OF keeps_whNotify], rule hole.keeps_bnd[OF keeps_hole_modify(3)])
qed

lemma keeps_ReadMessage:
  assumes "sealKept H"
  shows "keeps holeKept (ReadMessage H c a)"
  unfolding ReadMessage_def Let_def by (intro frame_intro keeps_whClose[OF assms])

lemma keeps_sessions:
  assumes "sealKept H"
  shows "keeps holeKept (writeSession H a k r t e)" "keeps holeKept (readOnce H r k t)"
    and "keeps holeKept (FindInviteCode H code)" "keeps holeKept (whKeyOf H kid)"
proof -
  note [frame_intro] = keeps_calls[OF good_client assms]
  have [frame_intro]: "keeps firstKept (wlKeys H)" "keeps firstKept (wlKey H kid)" for kid
    using assms by (simp_all add: sealKept_def)
  have [frame_intro]: "keeps firstKept (firstInvite H (whHcl s) code ks)" if "holeGood s" for s ks
    using that by (induction ks) (simp_all, (intro frame_intro; assumption)+)
  show "keeps holeKept (writeSession H a k r t e)"
    unfolding writeSession_def by (rule keeps_getsGood) (intro frame_intro; assumption)
  show "keeps holeKept (readOnce H r k t)"
    unfolding readOnce_def by (rule keeps_getsGood) (intro frame_intro; assumption)
  show "keeps holeKept (FindInviteCode H code)"
    unfolding FindInviteCode_def by (rule hole.keeps_bnd, intro frame_intro, rule keeps_getsGood) (intro frame_intro; assumption)
  show "keeps holeKept (whKeyOf H kid)"
    unfolding whKeyOf_def by (intro frame_intro)
qed

lemma keeps_noiseHandshake [frame_intro]: "keeps holeKept (noiseHandshake H c k r i)"
  unfolding noiseHandshake_def by (intro frame_intro)

lemma keeps_offers:
  assumes "sealKept H"
  shows "keeps holeKept (offerAgain H offers offer k r i alive)" "keeps holeKept (FindOffer H r k)"
    and "keeps holeKept (CreateOffer H)" "keeps holeKept (whListen H c k r a)"
  unfolding offerAgain_def writeOffer_def FindOffer_def CreateOffer_def whListen_def writeAnswer_def
  by (intro frame_intro keeps_sessions[OF assms])+

lemma keepsP_readSession:
  assumes "sealKept H" "\<And>i alive. keeps holeKept (meanwhile i alive)"
  shows "keepsP holeKept (readSession H c meanwhile r k t i alive)"
proof -
  have "sealKept H \<longrightarrow> (\<forall>i alive. keeps holeKept (meanwhile i alive)) \<longrightarrow> holeKept s (snd z)"
    if "readSession H c meanwhile r k t i alive s = Some z" for H c meanwhile r k t i alive s z
    using that
  proof (rule readSession.raw_induct[rotated])
    fix loop H c meanwhile r k t i alive s z
    assume IH: "\<And>H c meanwhile r k t i alive s z. loop H c meanwhile r k t i alive s = Some z \<Longrightarrow>
        sealKept H \<longrightarrow> (\<forall>i alive. keeps holeKept (meanwhile i alive)) \<longrightarrow> holeKept s (snd z)"
      and run: "(case bnd (meanwhile i alive) (\<lambda>alive'. bnd (readOnce H r k t) (\<lambda>a. ret (alive', a))) s of
        (Inl e, s') \<Rightarrow> Some (Inl e, s')
      | (Inr (alive', Some a), s') \<Rightarrow> Some (Inr a, s')
      | (Inr (alive', None), s') \<Rightarrow>
          (case c i of Some e \<Rightarrow> Some (Inl e, s')
           | None \<Rightarrow> loop H c meanwhile r k t (Suc i) alive' s')) = Some z"
    show "sealKept H \<longrightarrow> (\<forall>i alive. keeps holeKept (meanwhile i alive)) \<longrightarrow> holeKept s (snd z)"
    proof (intro impI)
      assume H: "sealKept H" and m: "\<forall>i alive. keeps holeKept (meanwhile i alive)"
      obtain q u where q: "bnd (meanwhile i alive) (\<lambda>alive'. bnd (readOnce H r k t) (\<lambda>a. ret (alive', a))) s = (q, u)"
        by (metis prod.exhaust)
      have "keeps holeKept (bnd (meanwhile i alive) (\<lambda>alive'. bnd (readOnce H r k t) (\<lambda>a. ret (alive', a))))"
        by (intro frame_intro keeps_sessions[OF H] m[rule_format])
      from keepsD[OF this q] have step: "holeKept s u" .
      have "holeKept u (snd z)"
      proof (cases "\<exists>alive'. q = Inr (alive', None) \<and> c i = None")
        case True
        then obtain alive' where "loop H c meanwhile r k t (Suc i) alive' u = Some z" using run q by auto
        from IH[OF this] H m show ?thesis by blast
      next
        case False
        then have "snd z = u" using run q by (auto split: sum.splits option.splits)
        then show ?thesis by (simp add: hole.same)
      qed
      with step show "holeKept s (snd z)" by (rule hole.chain)
    qed
  qed
  then show ?thesis using assms by (force simp: keepsP_def)
qed

lemma keepsP_whConnect:
  assumes "sealKept H"
  shows "keepsP holeKept (whConnect H c c' offers k r a)"
  unfolding whConnect_def
  by (intro keepsP_bndP hole.frame_axioms keepsP_liftP keepsP_readSession frame_intro keeps_sessions keeps_offers assms)

section \<open>The call\<close>

lemma keepsP_mapErrP: "keepsP R m \<Longrightarrow> keepsP R (mapErrP h m)"
  by (auto simp: keepsP_def mapErrP_def split: option.splits sum.splits)

lemma keeps_sendOut [frame_intro]: "keeps firstKept (sendOut se x)"
  unfolding sendOut_def by (intro frame_intro)

lemma keeps_participants:
  assumes "sealKept H"
  shows "keeps holeKept (participants E H req)"
  unfolding participants_def by (intro frame_intro keeps_sessions[OF assms])

lemma keepsP_cases:
  "keepsP R a \<Longrightarrow> (\<And>x. keepsP R (f x)) \<Longrightarrow> keepsP R (case m of None \<Rightarrow> a | Some x \<Rightarrow> f x)"
  "(\<And>x y. keepsP R (g x y)) \<Longrightarrow> keepsP R (case p of (x, y) \<Rightarrow> g x y)"
  by (simp_all split: option.split prod.split)

lemma keepsP_wormholeInit:
  assumes "sealKept H"
  shows "keepsP holeKept (wormholeInit E H se c c' offers req)"
  unfolding wormholeInit_def
  by (intro keepsP_bndP keepsP_cases hole.frame_axioms keepsP_mapErrP keepsP_liftP keepsP_whConnect frame_intro keeps_participants
      keeps_offers assms)

lemma keeps_whLoop:
  assumes "sealKept H"
  shows "keeps holeKept (whLoop E H se re reading evs)"
proof (induction evs arbitrary: reading)
  case Nil
  show ?case unfolding whLoop.simps by (intro frame_intro)
next
  case (Cons ev evs)
  have [frame_intro]: "keeps holeKept (wormholeInput H c req)" for c req
    unfolding wormholeInput_def by (intro frame_intro)
  have [frame_intro]: "keeps holeKept (wormholeReadSend E H se c)" for c
    unfolding wormholeReadSend_def wormholeMessageToRPC_def by (intro frame_intro keeps_ReadMessage[OF assms])
  show ?case
    by (cases ev) (simp_all only: whLoop.simps whEvent.case, (intro frame_intro Cons.IH)+)
qed

lemma keeps_keyring:
  "keeps firstKept (inStream (onVault (EdX25519Key (rpX E) (rpI E) (rpK E) kid)))"
  "keeps firstKept (inStream (onVault (EdX25519Keys (rpX E) (rpI E) (rpK E))))"
  by (intro frame_intro)+

lemma sealKept_withKeyring: "hole_ok H \<Longrightarrow> sealKept (withKeyring E H)"
  by (simp add: hole_ok_def sealKept_def withKeyring_def keeps_keyring)

lemma svcWormhole_kept:
  assumes "hole_ok H" "svcWormhole E H server out se c c' offers re first evs env = Some (r, env')"
  shows "firstKept env env'"
proof -
  let ?H = "withKeyring E H"
  have H: "sealKept ?H" by (rule sealKept_withKeyring[OF assms(1)])
  show ?thesis
  proof (cases "whNew ?H server env out")
    case (Inl e)
    with assms(2) stream.same[of env] show ?thesis by (simp add: svcWormhole_def Let_def)
  next
    case (Inr w0)
    let ?w1 = "w0\<lparr>whOnStatus := sendStatus se\<rparr>"
    let ?body = "case first of None \<Rightarrow> liftP (whLoop E ?H se re False [])
        | Some req \<Rightarrow> bndP (wormholeInit E ?H se c c' offers req) (\<lambda>_. liftP (whLoop E ?H se re True evs))"
    have env: "whEnv w0 = env" "clientKept (whHcl w0)"
      using Inr assms(1) by (auto simp: whNew_def hole_ok_def withKeyring_def split: sum.splits if_splits)
    have "\<forall>st e. firstKept e (sendStatus se st e)"
      by (simp add: sendStatus_def Let_def stream.same keeps_sendOut[unfolded keeps_def, rule_format] del: split_paired_All)
    then have good: "holeGood ?w1" using env(2) by (simp add: holeGood_def del: split_paired_All)
    have "keepsP holeKept ?body"
      by (intro keepsP_cases keepsP_bndP hole.frame_axioms keepsP_liftP keepsP_wormholeInit keeps_whLoop H)
    moreover obtain q w2 where w2: "?body ?w1 = Some (q, w2)" "env' = whEnv (snd (whClose ?H w2))"
      using assms(2) Inr by (auto simp: svcWormhole_def Let_def split: option.splits)
    ultimately have "holeKept ?w1 w2" by (blast dest: keepsPD)
    moreover have "holeKept w2 (snd (whClose ?H w2))" using keeps_whClose[OF H] by (simp add: keeps_def)
    ultimately have "holeKept ?w1 (snd (whClose ?H w2))" by (rule hole.chain)
    with good env(1) w2(2) show ?thesis by (simp add: holeKept_def)
  qed
qed

end
