(* ===== verification/Serving.thy ===== *)
theory Serving
  imports WormholeSession
begin

text \<open>
  The gRPC server of \<^verbatim>\<open>service/run.go\<close>: which handler serves which method of the interface in
  \<^verbatim>\<open>service/rpc.proto\<close>, behind the interceptors of \<^verbatim>\<open>auth.go\<close>, and the states the service reaches
  from \<^verbatim>\<open>newService\<close>.
\<close>

record ('s, 'n, 'd, 'w, 'k, 'f, 'r, 'x, 'y, 'c, 'h, 't, 'u, 'q, 'p) server =
  srE :: "('s, 'n, 'd, 'w, 'k, 'f, 'r) rpc"
  srG :: "('d, 'w) authLib"
  srCrypt :: "('s, 'n, 'd, 'w, 'x) crypt"
  srOpeners :: "('s, 'n, 'y) openers"
  srFiles :: "'w files"
  srEnvLib :: "'w envLib"
  srKeyrings :: "'w keyrings"
  srEnv :: env
  srConfig :: configLib
  srEncode :: "string \<Rightarrow> string \<Rightarrow> bool \<Rightarrow> bool \<Rightarrow> err + string"
  srPassword :: "nat \<Rightarrow> int \<Rightarrow> string"
  srDump :: "string \<Rightarrow> string"
  srDocData :: "document \<Rightarrow> gobytes"
  srHeaderErr :: "err \<Rightarrow> bool"
  srNewAuth :: "string \<Rightarrow> string \<Rightarrow> gotime \<Rightarrow> edkey \<Rightarrow> err + string \<times> string"
  srExe :: "err + string"
  srHole :: "('s, 'n, 'd, 'w, 'c, 'h, 't, 'u, 'q, 'p) svcWhLib"

text \<open>A run of the handler of a method, for some request and some result.\<close>

inductive handles :: "('s, 'n, 'd, 'w, 'k, 'f, 'r, 'x, 'y, 'c, 'h, 't, 'u, 'q, 'p) server \<Rightarrow> string \<Rightarrow>
   ('s, 'n, 'd, 'w) service \<Rightarrow> ('s, 'n, 'd, 'w) service \<Rightarrow> bool" where
  h_AuthSetup: "AuthSetup (srE V) (srG V) t secret dev s = (r, s') \<Longrightarrow> handles V ''AuthSetup'' s s'"
| h_AuthUnlock: "AuthUnlock (srE V) (srG V) t secret cl s = (r, s') \<Longrightarrow> handles V ''AuthUnlock'' s s'"
| h_AuthLock: "AuthLock (srE V) s = (r, s') \<Longrightarrow> handles V ''AuthLock'' s s'"
| h_AuthVault: "AuthVault (srE V) (srG V) phrase s = (r, s') \<Longrightarrow> handles V ''AuthVault'' s s'"
| h_AuthReset: "AuthReset (srE V) (srG V) name s = (r, s') \<Longrightarrow> handles V ''AuthReset'' s s'"
| h_AuthRecover: "AuthRecover (srE V) (srG V) paperKey password s = (r, s') \<Longrightarrow> handles V ''AuthRecover'' s s'"
| h_RuntimeStatus: "RuntimeStatus (srE V) (srG V) (evBuild (srEnv V)) (srExe V) s = (r, s') \<Longrightarrow> handles V ''RuntimeStatus'' s s'"
| h_Rand: "Rand (srE V) (srEncode V) n enc p l s = (r, s') \<Longrightarrow> handles V ''Rand'' s s'"
| h_RandPassword: "RandPassword (srPassword V) k s = (r, s') \<Longrightarrow> handles V ''RandPassword'' s s'"
| h_AuthProvision: "AuthProvision (srE V) (srG V) t secret dev gen s = (r, s') \<Longrightarrow> handles V ''AuthProvision'' s s'"
| h_AuthDeprovision: "AuthDeprovision (srE V) i s = (r, s') \<Longrightarrow> handles V ''AuthDeprovision'' s s'"
| h_AuthProvisions: "AuthProvisions (srE V) s = (r, s') \<Longrightarrow> handles V ''AuthProvisions'' s s'"
| h_AuthPasswordChange: "AuthPasswordChange (srE V) old new s = (r, s') \<Longrightarrow> handles V ''AuthPasswordChange'' s s'"
| h_VaultAuth: "VaultAuth (srE V) (srG V) s = (r, s') \<Longrightarrow> handles V ''VaultAuth'' s s'"
| h_VaultUnsync: "rpcVaultUnsync (srE V) s = (r, s') \<Longrightarrow> handles V ''VaultUnsync'' s s'"
| h_VaultStatus: "rpcVaultStatus (srE V) s = (r, s') \<Longrightarrow> handles V ''VaultStatus'' s s'"
| h_KeyGenerate: "KeyGenerate (srE V) typ s = (r, s') \<Longrightarrow> handles V ''KeyGenerate'' s s'"
| h_Keys: "Keys (srE V) query types field dir s = (r, s') \<Longrightarrow> handles V ''Keys'' s s'"
| h_Key: "rpcKeyOf (srE V) key update search s = (r, s') \<Longrightarrow> handles V ''Key'' s s'"
| h_KeyImport: "KeyImport (srE V) inp password update s = (r, s') \<Longrightarrow> handles V ''KeyImport'' s s'"
| h_KeyExport: "KeyExport (srE V) k et public noPassword password s = (r, s') \<Longrightarrow> handles V ''KeyExport'' s s'"
| h_KeyRemove: "KeyRemove (srE V) k s = (r, s') \<Longrightarrow> handles V ''KeyRemove'' s s'"
| h_Sign: "Sign (srE V) (srCrypt V) b signer armored s = (r, s') \<Longrightarrow> handles V ''Sign'' s s'"
| h_SignFile: "SignFile (srE V) (srCrypt V) inp out signer armored detached s = (r, s') \<Longrightarrow> handles V ''SignFile'' s s'"
| h_Verify: "Verify (srE V) (srCrypt V) b s = (r, s') \<Longrightarrow> handles V ''Verify'' s s'"
| h_VerifyFile: "VerifyFile (srE V) (srG V) (srCrypt V) inp out s = (r, s') \<Longrightarrow> handles V ''VerifyFile'' s s'"
| h_VerifyDetached: "VerifyDetached (srE V) (srCrypt V) sig b s = (r, s') \<Longrightarrow> handles V ''VerifyDetached'' s s'"
| h_VerifyDetachedFile: "VerifyDetachedFile (srE V) (srCrypt V) sig inp s = (r, s') \<Longrightarrow> handles V ''VerifyDetachedFile'' s s'"
| h_Encrypt: "Encrypt (srE V) (srCrypt V) b recipients sender opts s = (r, s') \<Longrightarrow> handles V ''Encrypt'' s s'"
| h_EncryptFile: "EncryptFile (srE V) (srCrypt V) (srFiles V) inp out recipients sender opts s = (r, s') \<Longrightarrow> handles V ''EncryptFile'' s s'"
| h_Decrypt: "Decrypt (srE V) (srCrypt V) (srHeaderErr V) b s = (r, s') \<Longrightarrow> handles V ''Decrypt'' s s'"
| h_Sigchain: "rpcSigchain (srE V) k s = (r, s') \<Longrightarrow> handles V ''Sigchain'' s s'"
| h_Statement: "rpcStatementAt (srE V) k seq s = (r, s') \<Longrightarrow> handles V ''Statement'' s s'"
| h_StatementCreate: "StatementCreate (srE V) ctxErr k b localOnly s = (r, s') \<Longrightarrow> handles V ''StatementCreate'' s s'"
| h_StatementRevoke: "StatementRevoke (srE V) ctxErr k seq localOnly s = (r, s') \<Longrightarrow> handles V ''StatementRevoke'' s s'"
| h_User: "svcUser (srE V) k localOnly s = (r, s') \<Longrightarrow> handles V ''User'' s s'"
| h_UserSearch: "svcUserSearch (srE V) query limit localOnly s = (r, s') \<Longrightarrow> handles V ''UserSearch'' s s'"
| h_UserService: "UserService (srE V) k srv s = (r, s') \<Longrightarrow> handles V ''UserService'' s s'"
| h_UserSign: "UserSign (srE V) k srv name s = (r, s') \<Longrightarrow> handles V ''UserSign'' s s'"
| h_UserAdd: "UserAdd (srE V) ctxErr k srv name url localOnly s = (r, s') \<Longrightarrow> handles V ''UserAdd'' s s'"
| h_Search: "Search (srE V) query s = (r, s') \<Longrightarrow> handles V ''Search'' s s'"
| h_Secret: "svcSecret (srE V) i s = (r, s') \<Longrightarrow> handles V ''Secret'' s s'"
| h_SecretSave: "SecretSave (srE V) secret s = (r, s') \<Longrightarrow> handles V ''SecretSave'' s s'"
| h_SecretRemove: "SecretRemove (srE V) i s = (r, s') \<Longrightarrow> handles V ''SecretRemove'' s s'"
| h_Secrets: "svcSecrets (srE V) query field dir s = (r, s') \<Longrightarrow> handles V ''Secrets'' s s'"
| h_Pull: "rpcPull (srE V) key s = (r, s') \<Longrightarrow> handles V ''Pull'' s s'"
| h_Push: "Push (srE V) ctxErr key remoteCheck s = (r, s') \<Longrightarrow> handles V ''Push'' s s'"
| h_Collections: "svcCollections (srE V) db parent s = (r, s') \<Longrightarrow> handles V ''Collections'' s s'"
| h_Documents: "svcDocuments (srE V) (srDump V) (srDocData V) db pre s = (r, s') \<Longrightarrow> handles V ''Documents'' s s'"
| h_DocumentDelete: "DocumentDelete (srE V) db path s = (r, s') \<Longrightarrow> handles V ''DocumentDelete'' s s'"
| h_ConfigGet: "ConfigGet (srE V) (srConfig V) name s = (r, s') \<Longrightarrow> handles V ''ConfigGet'' s s'"
| h_ConfigSet: "ConfigSet (srE V) (srConfig V) name config s = (r, s') \<Longrightarrow> handles V ''ConfigSet'' s s'"
| h_AdminSignURL: "AdminSignURL (srE V) (srNewAuth V) signer mt url s = (r, s') \<Longrightarrow> handles V ''AdminSignURL'' s s'"
| h_AdminCheck: "svcAdminCheck (srE V) signer what s = (r, s') \<Longrightarrow> handles V ''AdminCheck'' s s'"
| h_VaultSync: "rpcVaultSync (srE V) syncErr ctxErr s = Some (r, s') \<Longrightarrow> handles V ''VaultSync'' s s'"
| h_VaultUpdate: "rpcVaultUpdate (srE V) syncErr ctxErr s = Some (r, s') \<Longrightarrow> handles V ''VaultUpdate'' s s'"
| h_DecryptFile: "DecryptFile (srE V) (srCrypt V) (srG V) (srFiles V) (srOpeners V) inp out s = Some (r, s') \<Longrightarrow> handles V ''DecryptFile'' s s'"
| h_SignStream: "SignStream (srE V) (srCrypt V) ctxErr sendErr msgs (s, []) = (r, (s', outs)) \<Longrightarrow> handles V ''SignStream'' s s'"
| h_EncryptStream: "EncryptStream (srE V) (srCrypt V) ctxErr sendErr inps (s, []) = (r, (s', outs')) \<Longrightarrow> handles V ''EncryptStream'' s s'"
| h_VerifyStream: "VerifyStream (srE V) (srOpeners V) ctxErr sendErr ((s, newStreamReader q), []) = Some (r, ((s', q'), os)) \<Longrightarrow> handles V ''VerifyStream'' s s'"
| h_DecryptStream: "DecryptStream (srE V) (srCrypt V) (srOpeners V) ctxErr sendErr ((s, newStreamReader q), []) = Some (r, ((s', q'), os')) \<Longrightarrow> handles V ''DecryptStream'' s s'"
| h_VerifyDetachedStream: "VerifyDetachedStream (srE V) (srOpeners V) first (s, newStreamReader q) = (r, (s', q')) \<Longrightarrow> handles V ''VerifyDetachedStream'' s s'"
| h_Wormhole: "svcWormhole (srE V) (srHole V) (envServer (srEnv V)) out sendErr ctxErr ctxConnect offers recvErr first evs (s, []) =
     Some (r, (s', os'')) \<Longrightarrow> handles V ''Wormhole'' s s'"

text \<open>A request: its metadata and its method are checked, then it is handled.\<close>

definition rpcMethod :: "string \<Rightarrow> string" where
  "rpcMethod name = ''/service.RPC/'' @ name"

inductive served :: "('s, 'n, 'd, 'w, 'k, 'f, 'r, 'x, 'y, 'c, 'h, 't, 'u, 'q, 'p) server \<Rightarrow> string list option \<Rightarrow> string \<Rightarrow>
   ('s, 'n, 'd, 'w) service \<Rightarrow> ('s, 'n, 'd, 'w) service \<Rightarrow> bool" where
  refused: "authorizeCall md (rpcMethod name) s = (Inl e, s') \<Longrightarrow> served V md name s s'"
| allowed: "authorizeCall md (rpcMethod name) s = (Inr (), s1) \<Longrightarrow> handles V name s1 s' \<Longrightarrow> served V md name s s'"

inductive reached :: "('s, 'n, 'd, 'w, 'k, 'f, 'r, 'x, 'y, 'c, 'h, 't, 'u, 'q, 'p) server \<Rightarrow> ('s, 'n, 'd, 'w) service \<Rightarrow> bool" for V where
  new: "reached V (newService st net disk w)"
| opened: "reached V s \<Longrightarrow>
    svcOpen (srE V) (checkKeyringConvert (srE V) (srEnvLib V) (srKeyrings V) (srEnv V) stamp) s = (r, s') \<Longrightarrow> reached V s'"
| called: "reached V s \<Longrightarrow> served V md name s s' \<Longrightarrow> reached V s'"
| checked: "reached V s \<Longrightarrow> tryCheck (srE V) syncErr ctxErr s = Some (r, s') \<Longrightarrow> reached V s'"
| closed: "reached V s \<Longrightarrow> svcClose (srE V) s = (r, s') \<Longrightarrow> reached V s'"

section \<open>Authorization\<close>

lemma authorizeCall_state: "authorizeCall md m s = (r, s') \<Longrightarrow> s' = s"
  by (auto simp: authorizeCall_def checkToken_def op_simps split: if_splits option.splits)

lemma authorizeCall_ok:
  "authorizeCall md m s = (Inr (), s') \<longleftrightarrow>
     s' = s \<and> (m \<in> set allowlist \<or> (\<exists>t ts. md = Some (t # ts) \<and> t \<in> snd ` set (svTokens s)))"
proof (cases md)
  case (Some ts)
  then show ?thesis
    by (cases ts) (auto simp: authorizeCall_def checkToken_def op_simps simp del: image_iff)
qed (auto simp: authorizeCall_def op_simps)

lemma authorizeCall_refused:
  "m \<notin> set allowlist \<Longrightarrow> svTokens s = [] \<Longrightarrow>
     \<exists>msg. authorizeCall md m s = (Inl (ErrStatus ''Unauthenticated'' msg), s)"
  by (cases md) (auto simp: authorizeCall_def checkToken_def op_simps)

section \<open>Sessions\<close>

text \<open>While the vault is locked there is no session.\<close>

definition sessions_ok :: "('s, 'n, 'd, 'w) service \<Rightarrow> bool" where
  "sessions_ok s \<longleftrightarrow> (vMk (svVault s) = None \<longrightarrow> svTokens s = [])"

lemma sessions_kept: "sessionKept s s' \<Longrightarrow> sessions_ok s \<Longrightarrow> sessions_ok s'"
  by (auto simp: sessionKept_def keyKept_def sessions_ok_def)

lemma onVault_Inr_iff: "onVault m s = (Inr x, s') \<longleftrightarrow> (\<exists>v. m (svVault s) = (Inr x, v) \<and> s' = s\<lparr>svVault := v\<rparr>)"
  by (auto simp: onVault_def zoom_def split: prod.splits)

lemma mapErr_Inr_iff: "mapErr h m s = (Inr x, s') \<longleftrightarrow> m s = (Inr x, s')"
  by (auto simp: mapErr_def split: prod.splits sum.splits)

lemma unlockVault_opens:
  assumes "unlockVault E G t secret s = (Inr u, s')"
  shows "vMk (svVault s') \<noteq> None"
  using assms
  by (cases t) (auto simp: unlockVault_def unlockPassword_def unlockPaperKey_def unlockHMACSecret_def
    op_iff mapErr_Inr_iff onVault_Inr_iff dest: Unlock_opens)

text \<open>The flags and tokens may change.\<close>

definition vaultKept :: "('s, 'n, 'd, 'w) service \<Rightarrow> ('s, 'n, 'd, 'w) service \<Rightarrow> bool" where
  "vaultKept s t \<longleftrightarrow> keyKept (svVault s) (svVault t)"

interpretation anySession: frame vaultKept
  by unfold_locales (auto simp: vaultKept_def intro: vaultKey.same vaultKey.chain)

lemma keeps_vaultKept: "keeps sessionKept m \<Longrightarrow> keeps vaultKept m"
  by (auto simp: keeps_def sessionKept_def vaultKept_def)

lemma keeps_modify_vaultKept: "(\<And>s. vaultKept s (h s)) \<Longrightarrow> keeps vaultKept (modify h)"
  by (simp add: keeps_def op_simps)

text \<open>Unlocking may fail after the token was registered; then the vault is open.\<close>

lemma keeps_ok_unlock:
  assumes run: "svcUnlock E G t secret cl s = (r, s')" and ok: "sessions_ok s"
  shows "sessions_ok s'"
proof -
  obtain q s1 where q: "unlockVault E G t secret s = (q, s1)" by fastforce
  show ?thesis
  proof (cases q)
    case (Inl e)
    with q run have "s' = s1" by (simp add: svcUnlock_def authUnlockCall_def op_simps)
    with sessions_kept[OF keepsD[OF keeps_unlockVault q] ok] show ?thesis by simp
  next
    case (Inr u)
    with unlockVault_opens q have open': "vMk (svVault s1) \<noteq> None" by blast
    obtain token s2 where s2: "registerToken E cl s1 = (Inr token, s2)" "svVault s2 = svVault s1"
      by (auto simp: registerToken_def generateToken_def op_simps)
    define rest where "rest =
      bnd (gets (\<lambda>s. IsOpen (svDb s))) (\<lambda>open'.
      bnd (if open' then ret False else openCache E G) (\<lambda>isNew.
      bnd (if isNew then orElse (updateAllKeys E) (\<lambda>_. ret ()) (\<lambda>_. ret ()) else ret ()) (\<lambda>_.
      bnd startCheck (\<lambda>_.
      bnd (modify (\<lambda>s. s\<lparr>svUnlocked := True\<rparr>)) (\<lambda>_. ret token)))))"
    have "rest s2 = (r, s')"
      using run q Inr s2(1) by (simp add: svcUnlock_def authUnlockCall_def op_simps rest_def)
    moreover have "keeps vaultKept rest"
      unfolding rest_def startCheck_def by (intro frame_intro keeps_modify_vaultKept keeps_vaultKept[OF keeps_openCache]
        keeps_vaultKept[OF keeps_checks_svc(2)]) (simp_all add: vaultKept_def vaultKey.same)
    ultimately have "keyKept (svVault s2) (svVault s')" by (auto simp: vaultKept_def dest: keepsD)
    with open' s2(2) show ?thesis by (auto simp: sessions_ok_def keyKept_def)
  qed
qed

lemma keeps_ok_lock:
  assumes "svcLock E s = (r, s')" "sessions_ok s"
  shows "sessions_ok s'"
proof (cases "svUnlocked s")
  case True
  obtain q d where "sdbClose (rpLdb E) (svDb s) = (q, d)" by fastforce
  with assms True show ?thesis
    by (cases q) (auto simp: svcLock_def stopCheck_def authLock_def onVault_def onDb_def zoom_def Lock_def op_simps
      sessions_ok_def)
qed (use assms in \<open>simp add: svcLock_def op_simps\<close>)

text \<open>What the libraries are relied on for: opening a message or a stream, and a request of a wormhole,
  do not unlock or lock the vault behind the service's back.\<close>

definition quiet :: "('s, 'n, 'd, 'w, 'k, 'f, 'r, 'x, 'y, 'c, 'h, 't, 'u, 'q, 'p) server \<Rightarrow> bool" where
  "quiet V \<longleftrightarrow> opens_ok (srCrypt V) (srOpeners V) \<and> hole_ok (srHole V)"

text \<open>Every handler but \<open>AuthUnlock\<close>, \<open>AuthLock\<close> and \<open>AuthRecover\<close> leaves the sessions alone.\<close>

lemma keepsD_op: "m s = (r, s') \<Longrightarrow> keeps R m \<Longrightarrow> R s s'"
  by (rule keepsD)

lemma keepsD_P: "m s = Some (r, s') \<Longrightarrow> keepsP R m \<Longrightarrow> R s s'"
  by (rule keepsPD)

lemma keepsD_first: "m (s, z) = (r, (s', z')) \<Longrightarrow> keeps firstKept m \<Longrightarrow> sessionKept s s'"
  using keepsD[of firstKept m "(s, z)" r "(s', z')"] by (simp add: firstKept_def)

lemma keepsD_inner: "m ((s, q), os) = Some (r, ((s', q'), os')) \<Longrightarrow> keepsP innerKept m \<Longrightarrow> sessionKept s s'"
  using keepsPD[of innerKept m "((s, q), os)" r "((s', q'), os')"] by (simp add: innerKept_def firstKept_def)

lemma handles_kept:
  assumes "handles V name s s'" "name \<notin> {''AuthUnlock'', ''AuthLock'', ''AuthRecover''}"
    and "quiet V"
  shows "sessionKept s s'"
proof -
  from assms(3) have libs: "opens_ok (srCrypt V) (srOpeners V)" "hole_ok (srHole V)" by (simp_all add: quiet_def)
  note opened = keeps_Decrypt[OF libs(1)] keepsP_DecryptFile[OF libs(1)] keepsP_DecryptStream[OF libs(1)]
  from assms(1) show ?thesis
  proof cases
    case h_AuthUnlock with assms(2) show ?thesis by simp
  next
    case h_AuthLock with assms(2) show ?thesis by simp
  next
    case h_AuthRecover with assms(2) show ?thesis by simp
  next
    case h_SignStream from keepsD_first[OF h_SignStream(2) keeps_streams(2)] show ?thesis .
  next
    case h_EncryptStream from keepsD_first[OF h_EncryptStream(2) keeps_streams(1)] show ?thesis .
  next
    case h_VerifyStream from keepsD_inner[OF h_VerifyStream(2) keepsP_VerifyStream] show ?thesis .
  next
    case h_DecryptStream from keepsD_inner[OF h_DecryptStream(2) opened(3)] show ?thesis .
  next
    case h_VerifyDetachedStream from keepsD_first[OF h_VerifyDetachedStream(2) keeps_VerifyDetachedStream] show ?thesis .
  next
    case h_Wormhole from svcWormhole_kept[OF libs(2) h_Wormhole(2)] show ?thesis by (simp add: firstKept_def)
  qed ((erule keepsD_op | erule keepsD_P), (rule frame_intro opened keeps_sync_calls))+
qed

lemma handles_ok:
  assumes "handles V name s s'" "quiet V" "sessions_ok s"
  shows "sessions_ok s'"
proof (cases "name \<in> {''AuthUnlock'', ''AuthLock'', ''AuthRecover''}")
  case False
  from sessions_kept[OF handles_kept[OF assms(1) False assms(2)] assms(3)] show ?thesis .
next
  case True
  have recover: "sessions_ok s2"
    if "AuthRecover (srE V) (srG V) pk pw s = (r, s2)" for pk pw r s2
  proof -
    obtain q s1 where q: "svcUnlock (srE V) (srG V) PaperKeyType pk [] s = (q, s1)" by fastforce
    have "sessions_ok s1" using keeps_ok_unlock[OF q assms(3)] .
    moreover obtain z s3 where z: "AuthProvision (srE V) (srG V) PasswordType pw [] False s1 = (z, s3)" by fastforce
    moreover have "sessions_ok s3"
      using sessions_kept[OF keepsD[OF keeps_auth_rpc(3) z] \<open>sessions_ok s1\<close>] .
    ultimately show ?thesis
      using that q assms(3) by (cases q; cases z) (auto simp: AuthRecover_def AuthUnlock_def op_simps split: if_splits)
  qed
  from assms(1) True show ?thesis
  proof cases
    case h_AuthUnlock
    with keeps_ok_unlock[OF _ assms(3)] show ?thesis by (simp add: AuthUnlock_def)
  next
    case h_AuthLock
    with keeps_ok_lock[OF _ assms(3)] show ?thesis by (simp add: AuthLock_def)
  next
    case h_AuthRecover
    with recover show ?thesis by simp
  qed simp_all
qed

lemma served_ok:
  assumes "served V md name s s'" "quiet V" "sessions_ok s"
  shows "sessions_ok s'"
  using assms(1)
proof cases
  case refused
  with authorizeCall_state assms(3) show ?thesis by blast
next
  case (allowed s1)
  then have "s1 = s" using authorizeCall_state by blast
  with handles_ok[OF _ assms(2,3)] allowed show ?thesis by simp
qed

lemma keeps_newKeyring [frame_intro]: "keeps sessionKept (checkKeyringConvert E L K c stamp)"
  unfolding checkKeyringConvert_def by (intro frame_intro)

lemma reached_ok:
  assumes "reached V s" "quiet V"
  shows "sessions_ok s"
  using assms(1)
proof induction
  case (new st net disk w)
  show ?case by (simp add: sessions_ok_def newService_def)
next
  case (opened s stamp r s')
  have "keeps sessionKept (svcOpen (srE V) (checkKeyringConvert (srE V) (srEnvLib V) (srKeyrings V) (srEnv V) stamp))"
    unfolding svcOpen_def by (intro frame_intro)
  from sessions_kept[OF keepsD[OF this opened(2)] opened.IH] show ?case .
next
  case (called s md name s')
  from served_ok[OF called(2) assms(2) called.IH] show ?case .
next
  case (checked s syncErr ctxErr r s')
  from sessions_kept[OF keepsPD[OF keeps_sync_calls(4) checked(2)] checked.IH] show ?case .
next
  case (closed s r s')
  obtain q s1 where q: "svcLock (srE V) s = (q, s1)" by fastforce
  have s1: "sessions_ok s1" using keeps_ok_lock[OF q closed.IH] .
  have "keeps sessionKept (orElse (onVault (vaultClose (rpI (srE V)))) (\<lambda>_. ret ()) (\<lambda>_. ret ()))"
    by (intro frame_intro)
  from sessions_kept[OF keepsD[OF this] s1] closed(2) q s1 show ?case
    by (cases q) (auto simp: svcClose_def op_simps)
qed

end
