(* ===== verification/WormholeProps.thy ===== *)
theory WormholeProps
  imports Wormhole ServerProps
begin

text \<open>
  Messages through a connected wormhole: what one side writes the other reads and acknowledges.
  The SCTP streams and the noise ciphers are used by their documented behaviour, \<open>pipe_ok\<close> and
  \<open>noise_ok\<close>; both hold of the queues and the tagging cipher below.
\<close>

section \<open>What is relied on\<close>

text \<open>Two streams over one outside: what one sends is queued for the other, a read takes the
  oldest message if the buffer holds it and fails otherwise, and nothing else changes.\<close>

definition pipe_ok :: "('c, 'h, 't, 'w) sctpLib \<Rightarrow> 't \<Rightarrow> 't \<Rightarrow> ('w \<Rightarrow> string list) \<Rightarrow> ('w \<Rightarrow> string list) \<Rightarrow> bool" where
  "pipe_ok S s t toT toS \<longleftrightarrow>
     (\<forall>w e. \<exists>w'. slSend S s e w = (Inr (), w') \<and> toT w' = toT w @ [e] \<and> toS w' = toS w) \<and>
     (\<forall>w n e es. toT w = e # es \<longrightarrow> length e \<le> n \<longrightarrow>
        (\<exists>w'. slRecv S t n w = (Inr e, w') \<and> toT w' = es \<and> toS w' = toS w)) \<and>
     (\<forall>w n e es. toT w = e # es \<longrightarrow> n < length e \<longrightarrow> (\<exists>err w'. slRecv S t n w = (Inl err, w')))"

text \<open>The ciphers of the two ends: what one encrypts, the other decrypts, sixteen bytes longer.\<close>

definition noise_ok :: "('e, 'c, 'h, 't, 'w, 'q, 'p, 'st) whLib \<Rightarrow> ('q \<Rightarrow> 'q \<Rightarrow> bool) \<Rightarrow> bool" where
  "noise_ok E paired \<longleftrightarrow>
     (\<forall>p q b. paired p q \<longrightarrow> length b \<le> maxSize \<longrightarrow> (\<exists>e p' q'. nzEncrypt E p b = Inr (e, p') \<and>
        nzDecrypt E q e = Inr (b, q') \<and> length e = length b + 16 \<and> paired p' q')) \<and>
     (\<forall>p q. paired p q \<longrightarrow> paired q p)"

section \<open>Frames\<close>

lemma onRtc_run: "m (whRtc s) = (r, c) \<Longrightarrow> onRtc m s = (r, s\<lparr>whRtc := c\<rparr>)"
  by (simp add: onRtc_def zoom_def)

lemma onOut_run: "m (scOut s) = (r, w) \<Longrightarrow> onOut m s = (r, s\<lparr>scOut := w\<rparr>)"
  by (simp add: onOut_def zoom_def)

text \<open>The outside of a side's connection.\<close>

abbreviation whOut :: "('e, 'c, 'h, 't, 'w, 'q) wormhole \<Rightarrow> 'w" where
  "whOut s \<equiv> scOut (whRtc s)"

definition whWith :: "'w \<Rightarrow> ('e, 'c, 'h, 't, 'w, 'q) wormhole \<Rightarrow> ('e, 'c, 'h, 't, 'w, 'q) wormhole" where
  "whWith w s = s\<lparr>whRtc := (whRtc s)\<lparr>scOut := w\<rparr>\<rparr>"

text \<open>A side after a frame: its cipher and its outside have changed.\<close>

definition whAfter :: "'q \<Rightarrow> 'w \<Rightarrow> ('e, 'c, 'h, 't, 'w, 'q) wormhole \<Rightarrow> ('e, 'c, 'h, 't, 'w, 'q) wormhole" where
  "whAfter q w s = s\<lparr>whCipher := Some q, whRtc := (whRtc s)\<lparr>scOut := w\<rparr>\<rparr>"

lemma whAfter_parts [simp]:
  "whCipher (whAfter q w s) = Some q" "whOut (whAfter q w s) = w" "scStream (whRtc (whAfter q w s)) = scStream (whRtc s)"
  "whSender (whAfter q w s) = whSender s" "whRecipient (whAfter q w s) = whRecipient s"
  "whCipher (whWith w s) = whCipher s" "whOut (whWith w s) = w" "scStream (whRtc (whWith w s)) = scStream (whRtc s)"
  "whSender (whWith w s) = whSender s" "whRecipient (whWith w s) = whRecipient s"
  by (simp_all add: whAfter_def whWith_def)

text \<open>Writing a frame and reading it at the other end.\<close>

lemma frame_written:
  assumes pipe: "pipe_ok (wlS E) s t toT toS" and noise: "noise_ok E paired" "paired p q" "length b \<le> maxSize"
    and a: "whCipher a = Some p" "scStream (whRtc a) = Some s"
  obtains e p' q' w where "whWrite E None b a = (Inr (), whAfter p' w a)" "nzDecrypt E q e = Inr (b, q')" "paired p' q'"
    "length e = length b + 16" "toT w = toT (whOut a) @ [e]" "toS w = toS (whOut a)"
proof -
  obtain e p' q' where e: "nzEncrypt E p b = Inr (e, p')" "nzDecrypt E q e = Inr (b, q')" "length e = length b + 16" "paired p' q'"
    using noise unfolding noise_ok_def by blast
  obtain w where w: "slSend (wlS E) s e (whOut a) = (Inr (), w)" "toT w = toT (whOut a) @ [e]" "toS w = toS (whOut a)"
    using pipe unfolding pipe_ok_def by blast
  have "rtcWrite (wlS E) None e (whRtc a) = (Inr (), (whRtc a)\<lparr>scOut := w\<rparr>)"
    using a(2) w(1) by (simp add: rtcWrite_def op_simps onOut_run)
  then have "whWrite E None b a = (Inr (), whAfter p' w a)"
    using a(1) e(1) noise(3) by (simp add: whWrite_def op_simps onRtc_run whAfter_def)
  with that e w show thesis by blast
qed

lemma frame_read:
  assumes pipe: "pipe_ok (wlS E) s t toT toS" and e: "nzDecrypt E q e = Inr (b, q')" "length e \<le> maxSize"
    and a: "whCipher a = Some q" "scStream (whRtc a) = Some t" "toT (whOut a) = e # es"
  obtains w where "whRead E None a = (Inr b, whAfter q' w a)" "toT w = es" "toS w = toS (whOut a)"
proof -
  obtain w where w: "slRecv (wlS E) t maxSize (whOut a) = (Inr e, w)" "toT w = es" "toS w = toS (whOut a)"
    using pipe a(3) e(2) unfolding pipe_ok_def by blast
  have "rtcRead (wlS E) None maxSize (whRtc a) = (Inr e, (whRtc a)\<lparr>scOut := w\<rparr>)"
    using a(2) w(1) by (simp add: rtcRead_def op_simps onOut_run)
  then have "whRead E None a = (Inr b, whAfter q' w a)"
    using a(1) e(1) by (simp add: whRead_def op_simps onRtc_run whAfter_def)
  with that w show thesis by blast
qed

lemma frame_too_long:
  assumes pipe: "pipe_ok (wlS E) s t toT toS" and "maxSize < length e"
    and a: "scStream (whRtc a) = Some t" "toT (whOut a) = e # es"
  obtains err a' where "whRead E None a = (Inl err, a')"
proof -
  obtain err w where w: "slRecv (wlS E) t maxSize (whOut a) = (Inl err, w)"
    using pipe a(2) assms(2) unfolding pipe_ok_def by blast
  have "rtcRead (wlS E) None maxSize (whRtc a) = (Inl err, (whRtc a)\<lparr>scOut := w\<rparr>)"
    using a(1) w by (simp add: rtcRead_def op_simps onOut_run)
  with that show thesis by (auto simp: whRead_def op_simps onRtc_run)
qed

text \<open>The message that a side reads.\<close>

definition readMsg :: "('e, 'c, 'h, 't, 'w, 'q, 'p, 'st) whLib \<Rightarrow> ('e, 'c, 'h, 't, 'w, 'q) wormhole \<Rightarrow>
   string \<Rightarrow> string \<Rightarrow> messageType \<Rightarrow> message" where
  "readMsg E s bid b typ =
     \<lparr>msID = xBase62 (wlX E) bid, msSender = whRecipient s,
      msRecipient = (case whSender s of None \<Rightarrow> [] | Some k \<Rightarrow> xKeyID (wlX E) k), msData = b,
      msContent = (if utf8Valid b then UTF8Content else BinaryContent), msType = typ\<rparr>"

lemma message_written:
  assumes pipe: "pipe_ok (wlS E) s t toT toS" and noise: "noise_ok E paired" "paired p q" "length b \<le> maxSize - 33"
    and a: "whCipher a = Some p" "scStream (whRtc a) = Some s" "whSender a = Some k"
    and i: "wlUnBase62 E (xBase62 (wlX E) bid) = Inr bid" "length bid = 32"
  obtains e p' q' w where "WriteMessage E None (xBase62 (wlX E) bid) b typ a =
      (Inr \<lparr>msID = xBase62 (wlX E) bid, msSender = xKeyID (wlX E) k, msRecipient = whRecipient a, msData = b, msContent = typ,
            msType = Pending\<rparr>, whAfter p' w a)"
    "nzDecrypt E q e = Inr (msgByte # bid @ b, q')" "paired p' q'"
    "length e = length b + 49" "toT w = toT (whOut a) @ [e]" "toS w = toS (whOut a)"
proof -
  have "length (msgByte # bid @ b) \<le> maxSize" using noise(3) i(2) by (simp add: maxSize_def)
  from frame_written[OF pipe noise(1,2) this a(1,2)] obtain e p' q' w where
    e: "whWrite E None (msgByte # bid @ b) a = (Inr (), whAfter p' w a)" "nzDecrypt E q e = Inr (msgByte # bid @ b, q')"
    "paired p' q'" "length e = length (msgByte # bid @ b) + 16" "toT w = toT (whOut a) @ [e]" "toS w = toS (whOut a)" .
  have "\<not> int (length b) > int maxSize - 33" using noise(3) by (simp add: maxSize_def)
  with e(1) i a(3) have "WriteMessage E None (xBase62 (wlX E) bid) b typ a =
      (Inr \<lparr>msID = xBase62 (wlX E) bid, msSender = xKeyID (wlX E) k, msRecipient = whRecipient a, msData = b, msContent = typ,
            msType = Pending\<rparr>, whAfter p' w a)"
    by (simp add: WriteMessage_def op_simps)
  from that[OF this e(2,3) _ e(5,6)] e(4) i(2) show thesis by simp
qed

section \<open>Properties\<close>

text \<open>C18. A message is delivered and acknowledged: what a connected side writes, up to 49 bytes below the
  maximum, the other side reads with the id, the data and its kind, as sent; the acknowledgement
  that reading sends is what the first side reads next, with the same id, and no packet is left.\<close>

theorem message_delivered:
  assumes "pipe_ok (wlS E) s t toT toS" "pipe_ok (wlS E) t s toS toT" "noise_ok E paired" "paired p q"
    and "whCipher a = Some p" "scStream (whRtc a) = Some s" "whSender a = Some ka"
    and "whCipher b = Some q" "scStream (whRtc b) = Some t" "whSender b = Some kb"
    and "toT (whOut a) = []" "toS (whOut a) = []" "length data \<le> maxSize - 49"
    and "wlUnBase62 E (xBase62 (wlX E) bid) = Inr bid" "length bid = 32"
  shows "\<exists>m a' b' a''. WriteMessage E None (xBase62 (wlX E) bid) data typ a = (Inr m, a') \<and> msType m = Pending \<and>
     ReadMessage E None True (whWith (whOut a') b) = (Inr (readMsg E b bid data Sent), b') \<and>
     ReadMessage E None True (whWith (whOut b') a') = (Inr (readMsg E a bid [] Ack), a'') \<and>
     toT (whOut a'') = [] \<and> toS (whOut a'') = []"
proof -
  have "length data \<le> maxSize - 33" using assms(13) by (simp add: maxSize_def)
  from message_written[OF assms(1,3,4) this assms(5,6,7,14,15)] obtain e p' q' w where
    w: "WriteMessage E None (xBase62 (wlX E) bid) data typ a =
      (Inr \<lparr>msID = xBase62 (wlX E) bid, msSender = xKeyID (wlX E) ka, msRecipient = whRecipient a, msData = data, msContent = typ,
            msType = Pending\<rparr>, whAfter p' w a)"
    "nzDecrypt E q e = Inr (msgByte # bid @ data, q')" "paired p' q'" "length e = length data + 49"
    "toT w = toT (whOut a) @ [e]" "toS w = toS (whOut a)" .
  let ?b = "whWith w b"
  have "toT (whOut ?b) = e # []" "length e \<le> maxSize" using w(4,5) assms(11,13) by (simp_all add: maxSize_def)
  from frame_read[OF assms(1) w(2) this(2) _ _ this(1)] assms(8,9) obtain u where
    u: "whRead E None ?b = (Inr (msgByte # bid @ data), whAfter q' u ?b)" "toT u = []" "toS u = toS w" by auto
  have l: "length (ackByte # bid) \<le> maxSize" using assms(15) by (simp add: maxSize_def)
  have pq: "paired q' p'" using w(3) assms(3) unfolding noise_ok_def by blast
  have c: "whCipher (whAfter q' u ?b) = Some q'" "scStream (whRtc (whAfter q' u ?b)) = Some t" using assms(9) by simp_all
  from frame_written[OF assms(2,3) pq l c] obtain f q2 p2 v where
    v: "whWrite E None (ackByte # bid) (whAfter q' u ?b) = (Inr (), whAfter q2 v (whAfter q' u ?b))"
      "nzDecrypt E p' f = Inr (ackByte # bid, p2)" "paired q2 p2" "length f = length (ackByte # bid) + 16"
      "toS v = toS (whOut (whAfter q' u ?b)) @ [f]" "toT v = toT (whOut (whAfter q' u ?b))" .
  have br: "ReadMessage E None True ?b = (Inr (readMsg E b bid data Sent), whAfter q2 v (whAfter q' u ?b))"
    using u(1) v(1) assms(10,15)
    by (simp add: ReadMessage_def readMsg_def writeAck_def op_simps Let_def)
  let ?a = "whWith v (whAfter p' w a)"
  have "toS (whOut ?a) = f # []" "length f \<le> maxSize" using v(4,5) u(3) w(6) assms(12,15) by (simp_all add: maxSize_def)
  from frame_read[OF assms(2) v(2) this(2) _ _ this(1)] assms(6) obtain x where
    x: "whRead E None ?a = (Inr (ackByte # bid), whAfter p2 x ?a)" "toS x = []" "toT x = toT v" by auto
  have ar: "ReadMessage E None True ?a = (Inr (readMsg E a bid [] Ack), whAfter p2 x ?a)"
    using x(1) assms(7,15) by (simp add: ReadMessage_def readMsg_def op_simps Let_def)
  have left: "toT (whOut (whAfter p2 x ?a)) = []" "toS (whOut (whAfter p2 x ?a)) = []" using x v(6) u(2) by simp_all
  show ?thesis
    using w(1) br ar left by (intro exI[of _ "\<lparr>msID = xBase62 (wlX E) bid, msSender = xKeyID (wlX E) ka, msRecipient = whRecipient a,
        msData = data, msContent = typ, msType = Pending\<rparr>"] exI[of _ "whAfter p' w a"]
        exI[of _ "whAfter q2 v (whAfter q' u ?b)"] exI[of _ "whAfter p2 x ?a"]) simp
qed

text \<open>The largest messages are lost: \<^verbatim>\<open>WriteMessage\<close> accepts up to 33 bytes below the maximum, but
  encryption adds sixteen and the buffer of the reader has the maximum, so that the last sixteen
  sizes are written without an error and cannot be read.\<close>

theorem large_message_lost:
  assumes "pipe_ok (wlS E) s t toT toS" "noise_ok E paired" "paired p q"
    and "whCipher a = Some p" "scStream (whRtc a) = Some s" "whSender a = Some ka"
    and "whCipher b = Some q" "scStream (whRtc b) = Some t" "whSender b = Some kb"
    and "toT (whOut a) = []" "maxSize - 49 < length data" "length data \<le> maxSize - 33"
    and "wlUnBase62 E (xBase62 (wlX E) bid) = Inr bid" "length bid = 32"
  shows "\<exists>m a' e b'. WriteMessage E None (xBase62 (wlX E) bid) data typ a = (Inr m, a') \<and>
     ReadMessage E None True (whWith (whOut a') b) = (Inl e, b')"
proof -
  from message_written[OF assms(1-3,12,4-6,13,14)] obtain e p' q' w where
    w: "WriteMessage E None (xBase62 (wlX E) bid) data typ a =
      (Inr \<lparr>msID = xBase62 (wlX E) bid, msSender = xKeyID (wlX E) ka, msRecipient = whRecipient a, msData = data, msContent = typ,
            msType = Pending\<rparr>, whAfter p' w a)"
    "length e = length data + 49" "toT w = toT (whOut a) @ [e]" .
  have "maxSize < length e" using w(2) assms(11) by (simp add: maxSize_def)
  moreover have "toT (whOut (whWith w b)) = e # []" using w(3) assms(10) by simp
  ultimately obtain err b' where "whRead E None (whWith w b) = (Inl err, b')"
    using frame_too_long[OF assms(1)] assms(8) by (metis whAfter_parts(8))
  then have "ReadMessage E None True (whWith w b) = (Inl err, b')"
    using assms(9) by (simp add: ReadMessage_def op_simps)
  with w(1) show ?thesis by auto
qed

section \<open>Addresses\<close>

lemma parseDigits_colon: "CHR '':'' \<in> set s \<Longrightarrow> parseDigits n s = None"
  by (induction s arbitrary: n) (auto simp: isDigit_def)

lemma parseInt_colon:
  assumes "CHR '':'' \<in> set s"
  shows "\<exists>e. parseInt s = Inl e"
proof -
  let ?body = "if s \<noteq> [] \<and> (hd s = CHR ''-'' \<or> hd s = CHR ''+'') then tl s else s"
  have "CHR '':'' \<in> set ?body" using assms by (cases s) auto
  then have "parseUint ?body = None" by (simp only: parseUint_def parseDigits_colon if_cancel split: if_splits)
  then show ?thesis by (simp add: parseInt_def Let_def)
qed

lemma dropWhile_other: "CHR '':'' \<in> set ip \<Longrightarrow>
   \<exists>r. dropWhile (\<lambda>c. c \<noteq> CHR '':'') (ip @ '':'' @ p) = CHR '':'' # r @ '':'' @ p"
  by (induction ip) auto

text \<open>C37. Addresses on the wire: what \<^verbatim>\<open>addr.String\<close> prints, with a port that fits an integer,
  \<^verbatim>\<open>sctp.ParseAddr\<close> reads back, exactly if the IP has no colon; for every other, so for every IPv6
  address, it returns an error, because it splits at the first colon.\<close>

theorem address_roundtrip:
  assumes "int64_ok (adPort a)"
  shows "if CHR '':'' \<in> set (adIP a) then \<exists>e. ParseAddr (addrString a) = Inl e
         else ParseAddr (addrString a) = Inr a"
proof (cases "CHR '':'' \<in> set (adIP a)")
  case True
  from dropWhile_other[OF this, of "formatInt (adPort a)"] obtain r
    where r: "dropWhile (\<lambda>c. c \<noteq> CHR '':'') (adIP a @ '':'' @ formatInt (adPort a)) = CHR '':'' # r @ '':'' @ formatInt (adPort a)"
    by blast
  from parseInt_colon[of "r @ '':'' @ formatInt (adPort a)"] obtain e where "parseInt (r @ '':'' @ formatInt (adPort a)) = Inl e"
    by auto
  with True r show ?thesis by (simp add: ParseAddr_def addrString_def)
qed (use assms parse_addrString in simp)

section \<open>Connecting\<close>

lemma readSession_ends:
  assumes "ctxErr n = Some e" "i \<le> n"
  shows "\<exists>r s'. readSession E ctxErr meanwhile recipient sender typ i alive s = Some (r, s')"
  using assms(2)
proof (induction "n - i" arbitrary: i alive s)
  case 0
  with assms(1) show ?case
    by (subst readSession.simps) (simp split: prod.split sum.split option.split)
next
  case (Suc k)
  then have "\<exists>r s''. readSession E ctxErr meanwhile recipient sender typ (Suc i) alive' s' = Some (r, s'')" for alive' s'
    by simp
  then show ?case
    by (subst readSession.simps) (simp split: prod.split sum.split option.split)
qed

text \<open>C38. \<^verbatim>\<open>Connect\<close> ends: if the context is done after some round of the polling, it returns, with an
  error or connected; and only after a noise handshake with that recipient is it connected: then the
  cipher is set.\<close>

theorem connect_ends:
  assumes "ctxConnect n = Some e"
  shows "\<exists>r s'. whConnect E ctxErr ctxConnect offers sender recipient offer s = Some (r, s') \<and>
     (r = Inr () \<longrightarrow> whCipher s' \<noteq> None)"
proof -
  have set_cipher: "whCipher t' \<noteq> None" if "noiseHandshake E ctxErr key recipient True t = (Inr (), t')" for key t t'
    using that by (auto simp: noiseHandshake_def op_iff whNotify_def split: option.splits)
  obtain q1 s1 where q1: "whKeyOf E sender s = (q1, s1)" by fastforce
  show ?thesis
  proof (cases q1)
    case (Inl err)
    with q1 show ?thesis by (simp add: whConnect_def bndP_def liftP_def)
  next
    case (Inr key)
    let ?s2 = "s1\<lparr>whSender := Some key, whRecipient := recipient\<rparr>"
    obtain q3 s3 where q3: "readSession E ctxConnect (offerAgain E offers offer key recipient) recipient key answerType 0 True ?s2
        = Some (q3, s3)"
      using readSession_ends[where i = 0 and ctxErr = ctxConnect, OF assms] by blast
    show ?thesis
    proof (cases q3)
      case (Inl err)
      with q1 Inr q3 show ?thesis by (simp add: whConnect_def bndP_def liftP_def op_simps)
    next
      case answer: (Inr answer)
      obtain r s4 where "bnd (whNotify SCTPHandshake) (\<lambda>_. bnd (onRtc (rtcConnect (wlS E) answer)) (\<lambda>_.
          noiseHandshake E ctxErr key recipient True)) s3 = (r, s4)" by fastforce
      moreover from this have "r = Inr () \<Longrightarrow> whCipher s4 \<noteq> None"
        using set_cipher by (auto simp: op_iff)
      ultimately show ?thesis using q1 Inr q3 answer by (simp add: whConnect_def bndP_def liftP_def op_simps)
    qed
  qed
qed

section \<open>An instance\<close>

text \<open>Two queues between the streams False and True; sealing puts sixteen bytes before the data.\<close>

type_synonym queues = "string list \<times> string list"

definition demoSctp :: "(unit, unit, bool, queues) sctpLib" where
  "demoSctp = \<lparr>slListen = ret (), slLocalPort = (\<lambda>_. Inr 4000), slResolve = Inr,
     slInterfaces = Inr [\<lparr>nfUp = True, nfLoopback = False, nfAddrs = Inr [Some \<lparr>niLoopback = False, ni4 = Some ''192.168.1.2''\<rparr>]\<rparr>],
     slTo4 = (\<lambda>_. None), slReadFrom = (\<lambda>_ _. fail (LibErr ''read'')), slWriteTo = (\<lambda>_ _ _. ret ()),
     slHandshake = (\<lambda>_ _. ret []), slBinding = ret ''binding'', slStun = (\<lambda>_. ret []), slIsMessage = (\<lambda>_. False),
     slDecode = (\<lambda>_. Inr ()), slXorAddr = (\<lambda>_. stdErr), slClient = (\<lambda>_ _. ret ()), slServer = (\<lambda>_ _. ret ()),
     slOpenStream = (\<lambda>_. ret False), slAccept = (\<lambda>_. ret True),
     slSend = (\<lambda>s e. modify (\<lambda>(x, y). if s then (x @ [e], y) else (x, y @ [e]))),
     slRecv = (\<lambda>s n (x, y). case (if s then y else x) of [] \<Rightarrow> (Inl (LibErr ''EOF''), (x, y))
        | e # es \<Rightarrow> if n < length e then (Inl (LibErr ''short buffer''), (x, y))
                   else (Inr e, if s then (x, es) else (es, y))),
     slCloseStream = (\<lambda>_. ret ()), slCloseAssoc = (\<lambda>_. ret ()), slCloseConn = (\<lambda>_. ret ())\<rparr>"

definition sealTag :: string where "sealTag = replicate 16 (CHR ''x'')"

definition noClient :: "'e client" where
  "noClient = \<lparr>clURL = ''http://localhost'', clDo = (\<lambda>_. fail (LibErr ''offline'')), clNow = ret 1, clNonce = ret ''n1''\<rparr>"

definition queueHole :: "('e, unit, unit, bool, queues, unit, unit, 'st) whLib" where
  "queueHole = \<lparr>wlX = stdX, wlW = stdW,
     wlL = \<lparr>cpPub = Inr, cpOwn = (\<lambda>k. k), cpString = (\<lambda>k. k), cpSeal = (\<lambda>b _ _. ret b), cpOpen = (\<lambda>b _ _. Inr b),
       cpCodeU = Inr, cpInviteU = (\<lambda>_. stdErr), cpUsersU = (\<lambda>_. Inr []), cpUserU = (\<lambda>_. Inr None), cpSigchainU = (\<lambda>_. stdErr)\<rparr>,
     wlS = demoSctp, wlNew = (\<lambda>_. Inr noClient), wlKey = (\<lambda>k. ret (Some k)), wlKeys = ret [], wlPub = (\<lambda>k. Inr (Some k)),
     wlUnBase62 = Inr, nzNew = (\<lambda>_ _ _. Inr ()), nzWrite = (\<lambda>h. Inr (''hello'', h)), nzRead = (\<lambda>h _. Inr h), nzCipher = Inr,
     nzEncrypt = (\<lambda>q b. Inr (sealTag @ b, q)),
     nzDecrypt = (\<lambda>q e. if prefix sealTag e then Inr (drop 16 e, q) else stdErr)\<rparr>"

definition demoHole :: "(unit, unit, unit, bool, queues, unit, unit, unit) whLib" where
  "demoHole = queueHole"

definition demoEnd :: "bool \<Rightarrow> (unit, unit, unit, bool, queues, unit) wormhole" where
  "demoEnd s = \<lparr>whEnv = (), whHcl = noClient,
     whRtc = \<lparr>scConn = Some (), scAssoc = Some (), scStream = Some s, scOut = ([], [])\<rparr>, whCipher = Some (),
     whSender = Some (if s then ''bob'' else ''alice''), whRecipient = (if s then ''kexalice'' else ''kexbob''),
     whOnStatus = (\<lambda>_ e. e)\<rparr>"

lemma demo_pipes: "pipe_ok (wlS demoHole) False True snd fst" "pipe_ok (wlS demoHole) True False fst snd"
  by (auto simp: pipe_ok_def demoHole_def queueHole_def demoSctp_def op_simps split: list.splits)

lemma demo_noise: "noise_ok demoHole (\<lambda>_ _. True)"
proof -
  have "length sealTag = 16" by (simp add: sealTag_def)
  then show ?thesis by (simp add: noise_ok_def demoHole_def queueHole_def)
qed

lemma demo_ends:
  "whCipher (demoEnd s) = Some ()" "scStream (whRtc (demoEnd s)) = Some s"
  "whSender (demoEnd s) = Some (if s then ''bob'' else ''alice'')" "whOut (demoEnd s) = ([], [])"
  by (simp_all add: demoEnd_def)

lemma demo_id: "wlUnBase62 demoHole (xBase62 (wlX demoHole) bid) = Inr bid"
  by (simp add: demoHole_def queueHole_def stdX_def)

lemma message_delivered_witness:
  "\<exists>m a' b' r. WriteMessage demoHole None (xBase62 (wlX demoHole) (replicate 32 (CHR ''i''))) ''hi'' UTF8Content (demoEnd False) = (Inr m, a') \<and>
     ReadMessage demoHole None True (whWith (whOut a') (demoEnd True)) = (Inr r, b') \<and> msData r = ''hi'' \<and> msType r = Sent"
proof -
  have n: "length ''hi'' \<le> maxSize - 49" "length (replicate 32 (CHR ''i'')) = 32" by (simp_all add: maxSize_def)
  have e: "snd (whOut (demoEnd False)) = []" "fst (whOut (demoEnd False)) = []" by (simp_all add: demo_ends(4))
  obtain m a' b' where "WriteMessage demoHole None (xBase62 (wlX demoHole) (replicate 32 (CHR ''i''))) ''hi'' UTF8Content (demoEnd False) = (Inr m, a')"
      "ReadMessage demoHole None True (whWith (whOut a') (demoEnd True)) =
        (Inr (readMsg demoHole (demoEnd True) (replicate 32 (CHR ''i'')) ''hi'' Sent), b')"
    using message_delivered[OF demo_pipes demo_noise TrueI demo_ends(1-3) demo_ends(1-3) e n(1) demo_id n(2)] by blast
  then show ?thesis
    by (intro exI[of _ m] exI[of _ a'] exI[of _ b'] exI[of _ "readMsg demoHole (demoEnd True) (replicate 32 (CHR ''i'')) ''hi'' Sent"])
      (simp add: readMsg_def)
qed

lemma large_message_lost_witness:
  "\<exists>m a' e b'. WriteMessage demoHole None (xBase62 (wlX demoHole) (replicate 32 (CHR ''i''))) (replicate 16340 (CHR ''d'')) BinaryContent (demoEnd False)
       = (Inr m, a') \<and>
     ReadMessage demoHole None True (whWith (whOut a') (demoEnd True)) = (Inl e, b')"
proof -
  have n: "maxSize - 49 < length (replicate 16340 (CHR ''d''))" "length (replicate 16340 (CHR ''d'')) \<le> maxSize - 33"
    "length (replicate 32 (CHR ''i'')) = 32" unfolding length_replicate by (simp_all add: maxSize_def)
  have e: "snd (whOut (demoEnd False)) = []" by (simp add: demo_ends(4))
  show ?thesis
    by (rule large_message_lost[OF demo_pipes(1) demo_noise TrueI demo_ends(1-3) demo_ends(1-3) e n(1,2) demo_id n(3)])
qed

lemma address_roundtrip_witness:
  "ParseAddr (addrString \<lparr>adIP = ''192.168.1.2'', adPort = 4000\<rparr>) = Inr \<lparr>adIP = ''192.168.1.2'', adPort = 4000\<rparr> \<and>
   (\<exists>e. ParseAddr (addrString \<lparr>adIP = ''fe80::1'', adPort = 4000\<rparr>) = Inl e)"
  using address_roundtrip[of "\<lparr>adIP = ''192.168.1.2'', adPort = 4000\<rparr>"]
    address_roundtrip[of "\<lparr>adIP = ''fe80::1'', adPort = 4000\<rparr>"]
  by (simp add: int64_ok_def)

lemma connect_ends_witness:
  "\<exists>r s'. whConnect demoHole None (\<lambda>i. if 2 \<le> i then Some (LibErr ''context deadline exceeded'') else None) (\<lambda>_. True)
     ''kexalice'' ''kexbob'' \<lparr>adIP = ''192.168.1.2'', adPort = 4000\<rparr> (demoEnd False) = Some (r, s') \<and>
   (r = Inr () \<longrightarrow> whCipher s' \<noteq> None)"
  by (rule connect_ends[of _ 2]) simp

end
