(* ===== verification/ServiceInstance.thy ===== *)
theory ServiceInstance
  imports Serving WormholeProps VaultProps ServerProps LocalInstance
begin

text \<open>
  A concrete service, on which the properties of the service are applied: the vault in memory,
  the database over \<open>kvdisk\<close>, a client without a network, sigchains by key and files by name in
  the outside state, no users, and messages that are signed or sealed by a tag.
\<close>

record outside =
  ouChains :: "(string \<times> stmt list) list"
  ouFiles :: "(string \<times> string) list"

type_synonym 'a demoSvc = "(mem, unit, kvdisk, outside, 'a) svc"

definition offline :: "unit client" where
  "offline = \<lparr>clURL = ''http://localhost'', clDo = (\<lambda>_. fail (LibErr ''offline'')), clNow = ret 1, clNonce = ret ''n1''\<rparr>"

definition demoClientLib :: "(unit, stmt) clientLib" where
  "demoClientLib = \<lparr>cpPub = Inr, cpOwn = (\<lambda>k. k), cpString = (\<lambda>k. k), cpSeal = (\<lambda>b _ _. ret b), cpOpen = (\<lambda>b _ _. Inr b),
     cpCodeU = Inr, cpInviteU = (\<lambda>_. stdErr), cpUsersU = (\<lambda>_. Inr []), cpUserU = (\<lambda>_. Inr None), cpSigchainU = (\<lambda>_. stdErr)\<rparr>"

definition addStmt :: "string \<Rightarrow> stmt list \<Rightarrow> stmt option \<Rightarrow> err + stmt list" where
  "addStmt k sc st = (case st of None \<Rightarrow> stdErr | Some x \<Rightarrow> if stSeq x = int (length sc) + 1 then Inr (sc @ [x]) else stdErr)"

definition demoStmtApi :: "(memcloud, rdsTest, stmt) api" where
  "demoStmtApi = \<lparr>apAdmins = [], apInternalAuth = [], apTasks = noTasks,
     apAddress = (\<lambda>k r. Inr (k @ '':'' @ r)), apRandWords = natStr,
     apInviteM = (\<lambda>k r. encStr k @ r), apInviteU = (\<lambda>b. case decStr b of None \<Rightarrow> stdErr | Some x \<Rightarrow> Inr x),
     apCodeM = (\<lambda>c. c), apInviteRespM = (\<lambda>k r. encStr k @ r), apUsersM = (\<lambda>us. natStr (length us)), apUserM = (\<lambda>u. []),
     apSigchainM = (\<lambda>k md sc. encStr k @ natStr (length sc)),
     apConnFailure = ''conn'', apContentNotFound = ''not-found'',
     apUpdate = (\<lambda>k. ret None), apStatus = (\<lambda>st. ret []), apExpired = (\<lambda>d m. ret []), apKIDs = ret [],
     apSearch = (\<lambda>q n. ret []), apUser = (\<lambda>n. ret None), apFind = (\<lambda>k. ret None), apExisting = (\<lambda>k sc. ret []), apIndex = (\<lambda>k. ret ()),
     apStU = (\<lambda>b. stdErr), apStBytes = (\<lambda>st. Inr (encStr (stKID st) @ encInt (stSeq st) @ bstr (stData st))),
     apStVerify = (\<lambda>st. None), apStKID = stKID, apStSeq = stSeq, apStData = stData,
     apStURL = (\<lambda>st. CHR ''/'' # stKID st @ CHR ''/'' # formatInt (stSeq st)), apStM = (\<lambda>st. bstr (stData st)),
     apWithSeq = (\<lambda>k n. k @ ''-'' @ formatInt n), apAdd = addStmt, apVerify = (\<lambda>k sc st prev. None),
     apIncludes = (\<lambda>s x. s = x), apTimeHTTP = formatInt, apTimeMilli = formatInt\<rparr>"

definition chainOfKID :: "string \<Rightarrow> outside \<Rightarrow> stmt list" where
  "chainOfKID k w = (case map_of (ouChains w) k of None \<Rightarrow> [] | Some sc \<Rightarrow> sc)"

definition demoStmt :: "string \<Rightarrow> stmt list option \<Rightarrow> gobytes \<Rightarrow> edkey \<Rightarrow> string \<Rightarrow> gotime \<Rightarrow> err + stmt" where
  "demoStmt k sc b key typ t =
     Inr \<lparr>stSig = Some (key @ bstr b), stData = b, stKID = k, stSeq = (case sc of None \<Rightarrow> 1 | Some s \<Rightarrow> int (length s) + 1),
          stPrev = None, stRevoke = 0, stType = typ, stTimestamp = t\<rparr>"

definition demoRpc :: "(mem, unit, kvdisk, outside, string, memcloud, rdsTest) rpc" where
  "demoRpc = \<lparr>rpX = stdX, rpI = memOps, rpW = stdW, rpC = offline, rpL = demoClientLib, rpA = demoStmtApi, rpK = demoKeys,
     rpSecrets = demoSecrets, rpLdb = stdLDB, rpSdb = stdSdb,
     scSigchain = (\<lambda>k. gets (\<lambda>(d, w). Some (chainOfKID k w))),
     scSave = (\<lambda>k sc. modify (\<lambda>(d, w). (d, w\<lparr>ouChains := AList.update k sc (ouChains w)\<rparr>))),
     scDelete = (\<lambda>k. bnd (gets (\<lambda>(d, w). chainOfKID k w \<noteq> [])) (\<lambda>c.
        bnd (modify (\<lambda>(d, w). (d, w\<lparr>ouChains := AList.delete k (ouChains w)\<rparr>))) (\<lambda>_. ret c))),
     scIndex = (\<lambda>k. ret ()), scLookup = ret, scLastSeq = (\<lambda>sc. int (length sc)),
     scStatement = demoStmt, scRevoke = (\<lambda>_ _ _ _. stdErr), scUserStatement = (\<lambda>k sc u key t. demoStmt k (Some sc) None key ''user'' t),
     usGet = (\<lambda>_. ret None), usUpdate = (\<lambda>_ _. ret None), usSearch = (\<lambda>_ _. ret []), usUser = (\<lambda>_. ret None),
     usVerify = (\<lambda>_ _. fail (LibErr ''offline'')),
     usOK = ''ok'', usConnFailure = ''connection-fail'', usResourceNotFound = ''resource-not-found'',
     usContentNotFound = ''content-not-found'', usContentInvalid = ''content-invalid'', usFailure = ''fail'',
     usID = urName, usTsExpired = (\<lambda>_ _ _. False), usVerifyExpired = (\<lambda>_ _ _. False),
     usNew = (\<lambda>k sv n u i. Inr \<lparr>usKID = k, usService = sv, usName = n, usURL = u, usSeq = i\<rparr>),
     usForSigning = (\<lambda>k sv n. Inr \<lparr>usKID = k, usService = sv, usName = n, usURL = [], usSeq = 0\<rparr>),
     usSign = (\<lambda>u key. Inr (key @ usName u)), usLink = (\<lambda>_. Inr (\<lambda>n. n, \<lambda>_ u. Inr u)), usLookupService = (\<lambda>_ _. Inr ''https''),
     akType = (\<lambda>_. ''edx25519''), akPrivate = Some, akUpdatedAt = (\<lambda>_. 1), akNew = (\<lambda>k. k), akTimes = (\<lambda>_ _ k. k),
     akParse = (\<lambda>b _. Inr b), akPublic = (\<lambda>k. k), akSSH = (\<lambda>k _ _. Inr k), akGenEd = natStr, akGenX = natStr,
     idIsEd = (\<lambda>_. True), idType = (\<lambda>_. ''edx25519''), idPub = (\<lambda>k. k)\<rparr>"

definition demoStat :: "string \<Rightarrow> outside \<Rightarrow> fileStat" where
  "demoStat p w = (if map_of (ouFiles w) p = None then StatNotExist else StatFile)"

text \<open>The paths of the application; \<open>bad\<close> says that its directory cannot be created.\<close>

definition demoAuthLib :: "bool \<Rightarrow> (kvdisk, outside) authLib" where
  "demoAuthLib bad = \<lparr>aeFido = None, aeAppName = ''Keys'',
     aePath = (\<lambda>f mk. if bad \<and> mk then fail (LibErr ''mkdir'') else ret (''/app/'' @ f)),
     aeStat = (\<lambda>p (d, w). demoStat p w), aeRemoveAll = (\<lambda>p. modify (\<lambda>(d, w). (d, w\<lparr>ouFiles := AList.delete p (ouFiles w)\<rparr>))),
     aePhrase = (\<lambda>s. if length s = 32 then Inr s else stdErr), aeBIP39 = Inr, aeUnBIP39 = Inr, aeUnBase62 = Inr,
     aeRemoteM = (\<lambda>r. Inr (rmKey r)), aeRemoteU = (\<lambda>b. Inr \<lparr>rmURL = None, rmKey = b, rmSalt = None\<rparr>),
     aeGenKey = natStr, aeSeed = (\<lambda>k. k)\<rparr>"

text \<open>Sealing puts a tag before the data; a stream puts it before the first and closes with another.\<close>

definition demoCrypt :: "(mem, unit, kvdisk, outside, unit) crypt" where
  "demoCrypt = \<lparr>cySign = (\<lambda>_ b _ k. Inr (CHR ''S'' # bstr b)), cyEncrypt = (\<lambda>_ b _ _ _. Inr (CHR ''E'' # bstr b)),
     cySigncrypt = (\<lambda>_ b _ _ _. Inr (CHR ''C'' # bstr b)),
     cyVerify = (\<lambda>b. case bstr b of [] \<Rightarrow> stdErr | c # r \<Rightarrow> if c = CHR ''S'' then Inr (Some r, []) else stdErr),
     cyVerifyDetached = (\<lambda>_ _. stdErr), cyVerifyFile = (\<lambda>_ _. fail (LibErr ''verify'')), cyVerifyFileDetached = (\<lambda>_ _. fail (LibErr ''verify'')),
     cySignFile = (\<lambda>_ _ _ _ _. ret ()),
     cyOpen = (\<lambda>b. lift (case bstr b of [] \<Rightarrow> stdErr | c # r \<Rightarrow> if c = CHR ''E'' then Inr (Some r, None, ''encrypt'') else stdErr)),
     cySignStream = (\<lambda>_ _ _ _. Inr ((), ''S'')), cyEncryptStream = (\<lambda>_ _ _ _. Inr ((), ''E'')),
     cySigncryptStream = (\<lambda>_ _ _ _. Inr ((), ''C'')),
     cyWrite = (\<lambda>x b. Inr (length b, b, x)), cyClose = (\<lambda>_. Inr ''.''),
     cyEncryptEnc = ''encrypt'', cySigncryptEnc = ''signcrypt''\<rparr>"

text \<open>A reader that passes the bytes on.\<close>

definition demoOpeners :: "(mem, unit, unit) openers" where
  "demoOpeners = \<lparr>opReader = ret ((), None, ''encrypt''), opVerify = ret ((), []), opVerifyDetached = (\<lambda>_. ret []),
     opRead = (\<lambda>y n r. case readStream n r of (Inl e, r') \<Rightarrow> (Inr ([], Some e, y), r') | (Inr b, r') \<Rightarrow> (Inr (b, None, y), r'))\<rparr>"

definition demoFiles :: "outside files" where
  "demoFiles = \<lparr>flCreate = (\<lambda>p. modify (\<lambda>w. w\<lparr>ouFiles := AList.update p [] (ouFiles w)\<rparr>)),
     flOpen = (\<lambda>p. bnd (gets (\<lambda>w. map_of (ouFiles w) p)) (\<lambda>b. case b of None \<Rightarrow> fail (LibErr ''not exist'') | Some c \<Rightarrow> ret c)),
     flWrite = (\<lambda>p b. modify (\<lambda>w. w\<lparr>ouFiles := AList.update p b (ouFiles w)\<rparr>)),
     flRename = (\<lambda>p q. bnd (gets (\<lambda>w. map_of (ouFiles w) p)) (\<lambda>b. case b of None \<Rightarrow> fail (LibErr ''not exist'')
        | Some c \<Rightarrow> modify (\<lambda>w. w\<lparr>ouFiles := AList.update q c (AList.delete p (ouFiles w))\<rparr>))),
     flRemove = (\<lambda>p. modify (\<lambda>w. w\<lparr>ouFiles := AList.delete p (ouFiles w)\<rparr>))\<rparr>"

definition demoEnvLib :: "outside envLib" where
  "demoEnvLib = \<lparr>elAppPath = (\<lambda>d f _. ret (CHR ''/'' # d @ CHR ''/'' # f)), elLogsPath = (\<lambda>d f _. ret (''/log/'' @ d @ CHR ''/'' # f)),
     elStat = demoStat, elRead = flOpen demoFiles, elWrite = flWrite demoFiles, elRemove = flRemove demoFiles,
     elM = (\<lambda>vs. Inr (concat (map (\<lambda>(k, v). CHR ''m'' # encStr k @ encStr v) vs))),
     elMIndent = (\<lambda>vs. Inr (concat (map (\<lambda>(k, v). CHR ''m'' # encStr k @ encStr v) vs))),
     elU = (\<lambda>b. stdErr)\<rparr>"

definition noKeyring :: "outside keyringOps" where
  "noKeyring = \<lparr>krItems = (\<lambda>_. Inr []), krBackup = (\<lambda>_. ret ()), krReset = ret ()\<rparr>"

definition demoKeyrings :: "outside keyrings" where
  "demoKeyrings = \<lparr>ksSystem = (\<lambda>_. ret noKeyring), ksFS = (\<lambda>_. ret noKeyring), ksMem = noKeyring, ksLinux = True,
     ksCheckSystem = ret (), ksHome = ret ''/home''\<rparr>"

definition demoBuild :: build where
  "demoBuild = \<lparr>bdVersion = ''1'', bdCommit = ''c'', bdDate = ''d'', bdDefaultAppName = ''Keys'', bdDefaultPort = 22405,
     bdServiceName = ''keysd'', bdCmdName = ''keys'', bdDescription = ''keys.pub''\<rparr>"

definition demoEnv :: env where
  "demoEnv = \<lparr>evAppName = ''Keys'', evBuild = demoBuild, evValues = [], evLinkDir = ''/usr/local/bin''\<rparr>"

definition demoServer :: "(mem, unit, kvdisk, outside, string, memcloud, rdsTest, unit, unit, unit, unit, bool, queues, unit, unit) server" where
  "demoServer = \<lparr>srE = demoRpc, srG = demoAuthLib False, srCrypt = demoCrypt, srOpeners = demoOpeners, srFiles = demoFiles,
     srEnvLib = demoEnvLib, srKeyrings = demoKeyrings, srEnv = demoEnv,
     srConfig = \<lparr>cgFrom = (\<lambda>_. Map.empty), cgTo = (\<lambda>_. Inr [])\<rparr>, srEncode = (\<lambda>b _ _ _. Inr b), srPassword = (\<lambda>d _. natStr d),
     srDump = (\<lambda>b. b), srDocData = (\<lambda>_. None), srHeaderErr = (\<lambda>e. e = LibErr ''failed to read header bytes''),
     srNewAuth = (\<lambda>m u t k. Inr (k, u)), srExe = Inr ''/bin/keysd'', srHole = queueHole\<rparr>"

lemma demoServer_parts [simp]:
  "srE demoServer = demoRpc" "srG demoServer = demoAuthLib False" "srCrypt demoServer = demoCrypt"
  "srOpeners demoServer = demoOpeners" "srFiles demoServer = demoFiles" "srEnvLib demoServer = demoEnvLib"
  "rpX demoRpc = stdX" "rpI demoRpc = memOps" "rpLdb demoRpc = stdLDB"
  by (simp_all add: demoServer_def demoRpc_def)

lemma demo_opens: "opens_ok demoCrypt demoOpeners"
proof -
  have "keeps keyKept (cyOpen demoCrypt b)" for b
    unfolding demoCrypt_def by simp (intro frame_intro)
  moreover have "keeps (\<lambda>a b. keyKept (fst a) (fst b)) (opReader demoOpeners)"
    by (simp add: demoOpeners_def keeps_def op_simps vaultKey.same)
  ultimately show ?thesis by (simp add: opens_ok_def)
qed

lemma noClient_kept: "clientKept noClient"
  unfolding clientKept_def noClient_def by (simp, intro conjI frame_intro)

lemma demo_quiet: "quiet demoServer"
proof -
  have "hole_ok queueHole" by (simp add: hole_ok_def queueHole_def noClient_kept stream.keeps_basic)
  then show ?thesis by (simp add: quiet_def demo_opens) (simp add: demoServer_def)
qed

text \<open>A new service over an empty store and an empty database, and one whose vault is set up.\<close>

definition demoService :: "(mem, unit, kvdisk, outside) service" where
  "demoService = newService \<lparr>mOpen = True, mEntries = []\<rparr> () [] \<lparr>ouChains = [], ouFiles = []\<rparr>"

end
