(* ===== verification/SessionProps.thy ===== *)
theory SessionProps
  imports ServiceInstance
begin

text \<open>
  Properties of the service's sessions: who is let in, for how long, and what a failed unlock
  leaves behind.
\<close>

section \<open>Unlocking and locking\<close>

lemma registerToken_run:
  "registerToken E cl s = (Inr (xBase62 (rpX E) (xRand (rpX E) (svDraws s) 32)),
     s\<lparr>svDraws := Suc (svDraws s), svTokens := AList.update cl (xBase62 (rpX E) (xRand (rpX E) (svDraws s) 32)) (svTokens s)\<rparr>)"
  by (simp add: registerToken_def generateToken_def svcDraw_def op_simps)

text \<open>What unlocking does once the token is registered.\<close>

definition afterToken ::
  "('s, 'n, 'd, 'w, 'k, 'f, 'r) rpc \<Rightarrow> ('d, 'w) authLib \<Rightarrow> ('s, 'n, 'd, 'w, unit) svc" where
  "afterToken E G =
     bnd (gets (\<lambda>s. IsOpen (svDb s))) (\<lambda>open'.
     bnd (if open' then ret False else openCache E G) (\<lambda>isNew.
     bnd (if isNew then orElse (updateAllKeys E) (\<lambda>_. ret ()) (\<lambda>_. ret ()) else ret ()) (\<lambda>_. startCheck)))"

lemma keeps_startCheck [frame_intro]: "keeps sessionKept startCheck"
  by (simp add: startCheck_def keeps_def op_simps sessionKept_def vaultKey.same)

lemma keeps_afterToken: "keeps sessionKept (afterToken E G)"
  unfolding afterToken_def by (intro frame_intro)

lemma svcUnlock_afterToken:
  "svcUnlock E G t secret cl = bnd (authUnlockCall E G t secret cl) (\<lambda>token. bnd (afterToken E G) (\<lambda>_.
     bnd (modify (\<lambda>s. s\<lparr>svUnlocked := True\<rparr>)) (\<lambda>_. ret token)))"
  unfolding svcUnlock_def afterToken_def bnd_assoc ..

text \<open>A client's token, and that the service counts as unlocked.\<close>

definition holds :: "string \<Rightarrow> string \<Rightarrow> ('s, 'n, 'd, 'w) service \<Rightarrow> bool" where
  "holds cl token s \<longleftrightarrow> map_of (svTokens s) cl = Some token \<and> svUnlocked s"

lemma unlocked_holds:
  assumes "svcUnlock E G t secret cl s = (Inr token, s1)"
  shows "holds cl token s1" "vMk (svVault s1) \<noteq> None"
proof -
  from assms obtain s2 where s2: "authUnlockCall E G t secret cl s = (Inr token, s2)"
    and rest: "bnd (afterToken E G) (\<lambda>_. bnd (modify (\<lambda>s. s\<lparr>svUnlocked := True\<rparr>)) (\<lambda>_. ret token)) s2 = (Inr token, s1)"
    by (auto simp: svcUnlock_afterToken op_iff)
  from rest obtain s3 where s3: "afterToken E G s2 = (Inr (), s3)" "s1 = s3\<lparr>svUnlocked := True\<rparr>"
    by (auto simp: op_iff)
  have k: "sessionKept s2 s3" by (rule keepsD[OF keeps_afterToken s3(1)])
  from s2 obtain u s4 where s4: "unlockVault E G t secret s = (Inr u, s4)" "registerToken E cl s4 = (Inr token, s2)"
    by (auto simp: authUnlockCall_def op_iff)
  have "vMk (svVault s4) \<noteq> None" by (rule unlockVault_opens[OF s4(1)])
  moreover have "svVault s2 = svVault s4" "map_of (svTokens s2) cl = Some token"
    using s4(2) by (auto simp: registerToken_run update_conv')
  ultimately show "holds cl token s1" "vMk (svVault s1) \<noteq> None"
    using k s3(2) by (auto simp: sessionKept_def keyKept_def holds_def)
qed

lemma unlocked_session:
  assumes "svcUnlock E G t secret cl s = (Inr token, s1)"
  shows "token \<in> snd ` set (svTokens s1)" "svUnlocked s1" "vMk (svVault s1) \<noteq> None"
  using unlocked_holds[OF assms] by (force simp: holds_def dest: map_of_SomeD)+

lemma svcLock_run:
  assumes "svUnlocked s"
  obtains d where "svcLock E s = (Inr (), s\<lparr>svChecking := False, svTokens := [], svVault := (svVault s)\<lparr>vMk := None, vRemote := None\<rparr>,
      svDb := d, svUnlocked := False\<rparr>)" "\<not> IsOpen d"
proof -
  obtain q d where "sdbClose (rpLdb E) (svDb s) = (q, d)" by fastforce
  moreover from this have "q = Inr ()" "\<not> IsOpen d"
    by (auto simp: sdbClose_def IsOpen_def op_simps split: if_splits)
  ultimately show ?thesis using that assms
    by (simp add: svcLock_def stopCheck_def authLock_def onVault_def onDb_def zoom_def Lock_def op_simps)
qed

text \<open>The calls of an application while it is unlocked.\<close>

definition inSession :: "('s, 'n, 'd, 'w, 'k, 'f, 'r, 'x, 'y, 'c, 'h, 't, 'u, 'q, 'p) server \<Rightarrow>
   ('s, 'n, 'd, 'w) service \<Rightarrow> ('s, 'n, 'd, 'w) service \<Rightarrow> bool" where
  "inSession V s s' \<longleftrightarrow> (\<exists>md name. name \<notin> {''AuthUnlock'', ''AuthLock'', ''AuthRecover''} \<and> served V md name s s')"

lemma inSession_kept:
  assumes "(inSession V)\<^sup>*\<^sup>* s s'" "quiet V"
  shows "sessionKept s s'"
  using assms(1)
proof (induction rule: rtranclp_induct)
  case base
  show ?case by (rule session.same)
next
  case (step t u)
  from step(2) obtain md name where n: "name \<notin> {''AuthUnlock'', ''AuthLock'', ''AuthRecover''}" "served V md name t u"
    by (auto simp: inSession_def)
  from n(2) have "sessionKept t u"
  proof cases
    case refused
    with authorizeCall_state session.same show ?thesis by blast
  next
    case (allowed s1)
    with authorizeCall_state handles_kept[OF _ n(1) assms(2)] show ?thesis by blast
  qed
  with step.IH show ?case by (rule session.chain)
qed

text \<open>What may happen after a client has unlocked and before anyone locks: any calls of any clients, also
  unlocking and recovering (which unlocks for the client without a name), and the background check;
  only not another unlock of the same client, which replaces its token.\<close>

inductive whileUnlocked :: "('s, 'n, 'd, 'w, 'k, 'f, 'r, 'x, 'y, 'c, 'h, 't, 'u, 'q, 'p) server \<Rightarrow> string \<Rightarrow>
   ('s, 'n, 'd, 'w) service \<Rightarrow> ('s, 'n, 'd, 'w) service \<Rightarrow> bool" for V cl where
  u_call: "inSession V s s' \<Longrightarrow> whileUnlocked V cl s s'"
| u_unlock: "AuthUnlock (srE V) (srG V) t secret cl' s = (r, s') \<Longrightarrow> cl' \<noteq> cl \<Longrightarrow> whileUnlocked V cl s s'"
| u_recover: "AuthRecover (srE V) (srG V) paperKey password s = (r, s') \<Longrightarrow> cl \<noteq> [] \<Longrightarrow> whileUnlocked V cl s s'"
| u_check: "tryCheck (srE V) syncErr ctxErr s = Some (r, s') \<Longrightarrow> whileUnlocked V cl s s'"

text \<open>What may happen after a lock and before anyone unlocks.\<close>

inductive whileLocked :: "('s, 'n, 'd, 'w, 'k, 'f, 'r, 'x, 'y, 'c, 'h, 't, 'u, 'q, 'p) server \<Rightarrow>
   ('s, 'n, 'd, 'w) service \<Rightarrow> ('s, 'n, 'd, 'w) service \<Rightarrow> bool" for V where
  l_call: "served V md name s s' \<Longrightarrow> name \<notin> {''AuthUnlock'', ''AuthRecover''} \<Longrightarrow> whileLocked V s s'"
| l_check: "tryCheck (srE V) syncErr ctxErr s = Some (r, s') \<Longrightarrow> whileLocked V s s'"
| l_close: "svcClose (srE V) s = (r, s') \<Longrightarrow> whileLocked V s s'"

lemma holds_kept: "sessionKept s s' \<Longrightarrow> holds cl token s \<Longrightarrow> holds cl token s'"
  by (simp add: sessionKept_def holds_def)

lemma holds_registered:
  assumes "registerToken E cl' s = (r, s')" "cl' \<noteq> cl" "holds cl token s"
  shows "holds cl token s'"
  using assms by (auto simp: registerToken_run holds_def update_conv')

lemma unlock_splits:
  assumes "svcUnlock E G t secret cl s = (r, s')"
  obtains q s1 where "unlockVault E G t secret s = (q, s1)" "\<And>e. q = Inl e \<Longrightarrow> s' = s1"
    "\<And>u. q = Inr u \<Longrightarrow> \<exists>z s2 s3. registerToken E cl s1 = (Inr z, s2) \<and> sessionKept s2 s3 \<and>
       (s' = s3\<lparr>svUnlocked := True\<rparr> \<or> s' = s3)"
proof -
  obtain q s1 where q: "unlockVault E G t secret s = (q, s1)" by fastforce
  show ?thesis
  proof (rule that[OF q])
    show "s' = s1" if "q = Inl e" for e
      using that q assms by (simp add: svcUnlock_def authUnlockCall_def op_simps)
    show "\<exists>z s2 s3. registerToken E cl s1 = (Inr z, s2) \<and> sessionKept s2 s3 \<and> (s' = s3\<lparr>svUnlocked := True\<rparr> \<or> s' = s3)"
      if "q = Inr u" for u
    proof -
      obtain z s2 where z: "registerToken E cl s1 = (Inr z, s2)" by (simp add: registerToken_run)
      obtain q' s3 where a: "afterToken E G s2 = (q', s3)" by fastforce
      have "sessionKept s2 s3" by (rule keepsD[OF keeps_afterToken a])
      moreover have "s' = s3\<lparr>svUnlocked := True\<rparr> \<or> s' = s3"
        using assms q that z a by (cases q') (auto simp: svcUnlock_afterToken authUnlockCall_def op_simps)
      ultimately show ?thesis using z by blast
    qed
  qed
qed

lemma holds_unlock:
  assumes "svcUnlock E G t secret cl' s = (r, s')" "cl' \<noteq> cl" "holds cl token s"
  shows "holds cl token s'"
proof (rule unlock_splits[OF assms(1)])
  fix q s1
  assume q: "unlockVault E G t secret s = (q, s1)" "\<And>e. q = Inl e \<Longrightarrow> s' = s1"
    "\<And>u. q = Inr u \<Longrightarrow> \<exists>z s2 s3. registerToken E cl' s1 = (Inr z, s2) \<and> sessionKept s2 s3 \<and>
       (s' = s3\<lparr>svUnlocked := True\<rparr> \<or> s' = s3)"
  have h: "holds cl token s1" by (rule holds_kept[OF keepsD[OF keeps_unlockVault q(1)] assms(3)])
  show ?thesis
  proof (cases q)
    case (Inr u)
    from q(3)[OF this] obtain z s2 s3 where z: "registerToken E cl' s1 = (Inr z, s2)" "sessionKept s2 s3"
      "s' = s3\<lparr>svUnlocked := True\<rparr> \<or> s' = s3" by blast
    have "holds cl token s3" by (rule holds_kept[OF z(2) holds_registered[OF z(1) assms(2) h]])
    with z(3) show ?thesis by (auto simp: holds_def)
  qed (use q(2) h in blast)
qed

lemma inSession_step: "inSession V s s' \<Longrightarrow> quiet V \<Longrightarrow> sessionKept s s'"
  using inSession_kept[of V s s'] by blast

lemma holds_step:
  assumes "whileUnlocked V cl s s'" "quiet V" "holds cl token s"
  shows "holds cl token s'"
  using assms(1)
proof cases
  case u_call
  with holds_kept[OF inSession_step] assms show ?thesis by blast
next
  case (u_unlock t secret cl' r)
  with holds_unlock[OF _ u_unlock(2) assms(3)] show ?thesis by (simp add: AuthUnlock_def)
next
  case (u_recover paperKey password r)
  obtain q s1 where q: "svcUnlock (srE V) (srG V) PaperKeyType paperKey [] s = (q, s1)" by fastforce
  have h: "holds cl token s1" using holds_unlock[OF q _ assms(3)] u_recover(2) by simp
  obtain z s2 where z: "AuthProvision (srE V) (srG V) PasswordType password [] False s1 = (z, s2)" by fastforce
  have "holds cl token s2" by (rule holds_kept[OF keepsD[OF keeps_auth_rpc(3) z] h])
  with h q z u_recover(1) assms(3) show ?thesis
    by (cases q; cases z) (auto simp: AuthRecover_def AuthUnlock_def op_simps split: if_splits)
next
  case u_check
  from holds_kept[OF keepsPD[OF keeps_sync_calls(4) this] assms(3)] show ?thesis .
qed

lemma holds_session:
  assumes "(whileUnlocked V cl)\<^sup>*\<^sup>* s s'" "quiet V" "holds cl token s"
  shows "holds cl token s'"
  using assms(1,3) by (induction rule: rtranclp_induct) (auto intro: holds_step[OF _ assms(2)])

lemma svcLock_tokens: "svcLock E s = (r, s') \<Longrightarrow> svTokens s = [] \<Longrightarrow> svTokens s' = []"
proof (cases "svUnlocked s")
  case True
  from svcLock_run[OF True, where E = E] obtain d where "svcLock E s = (Inr (), s\<lparr>svChecking := False, svTokens := [],
      svVault := (svVault s)\<lparr>vMk := None, vRemote := None\<rparr>, svDb := d, svUnlocked := False\<rparr>)" by metis
  then show "svcLock E s = (r, s') \<Longrightarrow> svTokens s' = []" by auto
qed (simp add: svcLock_def op_simps)

lemma locked_step:
  assumes "whileLocked V s s'" "quiet V" "svTokens s = []"
  shows "svTokens s' = []"
  using assms(1)
proof cases
  case (l_call md name)
  from l_call(1) show ?thesis
  proof cases
    case refused
    with authorizeCall_state assms(3) show ?thesis by blast
  next
    case (allowed s1)
    then have s1: "s1 = s" using authorizeCall_state by blast
    show ?thesis
    proof (cases "name = ''AuthLock''")
      case True
      with allowed(2) s1 assms(3) show ?thesis by cases (auto simp: AuthLock_def dest: svcLock_tokens)
    next
      case False
      with l_call(2) handles_kept[OF allowed(2) _ assms(2)] s1 assms(3) show ?thesis by (simp add: sessionKept_def)
    qed
  qed
next
  case l_check
  from keepsPD[OF keeps_sync_calls(4) this] assms(3) show ?thesis by (simp add: sessionKept_def)
next
  case (l_close r)
  let ?close = "orElse (onVault (vaultClose (rpI (srE V)))) (\<lambda>_. ret ()) (\<lambda>_. ret ())"
  obtain q s1 where q: "svcLock (srE V) s = (q, s1)" by fastforce
  have s1: "svTokens s1 = []" by (rule svcLock_tokens[OF q assms(3)])
  have k: "keeps sessionKept ?close" by (intro frame_intro)
  from l_close q have "s' = s1 \<or> ?close s1 = (r, s')" by (cases q) (auto simp: svcClose_def op_simps)
  with s1 keepsD[OF k, of s1 r s'] show ?thesis by (auto simp: sessionKept_def)
qed

lemma locked_tokens:
  assumes "(whileLocked V)\<^sup>*\<^sup>* s s'" "quiet V" "svTokens s = []"
  shows "svTokens s' = []"
  using assms(1,3) by (induction rule: rtranclp_induct) (auto intro: locked_step[OF _ assms(2)])

section \<open>Properties\<close>

text \<open>C11. A locked service lets nobody in: in every state it can reach from its start, by any calls of
  any clients, background checks, openings and closings, while the vault is locked every call that
  is not on the allow list is refused as unauthenticated, whatever token it carries, and leaves
  the service as it was.\<close>

theorem locked_no_sessions:
  assumes "reached V s" "quiet V" "vMk (svVault s) = None"
    and "rpcMethod name \<notin> set allowlist"
  shows "(\<exists>msg. authorizeCall md (rpcMethod name) s = (Inl (ErrStatus ''Unauthenticated'' msg), s)) \<and>
     (served V md name s s' \<longleftrightarrow> s' = s)"
proof -
  have "svTokens s = []" using reached_ok[OF assms(1,2)] assms(3) by (simp add: sessions_ok_def)
  from authorizeCall_refused[OF assms(4) this] obtain msg
    where "authorizeCall md (rpcMethod name) s = (Inl (ErrStatus ''Unauthenticated'' msg), s)" by blast
  then show ?thesis by (auto simp: served.simps)
qed

lemma demo_reached: "reached demoServer demoService" "vMk (svVault demoService) = None"
  unfolding demoService_def by (rule reached.new) (simp add: newService_def vaultNew_def)

lemma locked_no_sessions_witness:
  "\<exists>msg. authorizeCall (Some [''token'']) ''/service.RPC/Keys'' demoService =
     (Inl (ErrStatus ''Unauthenticated'' msg), demoService)"
proof -
  have "rpcMethod ''Keys'' \<notin> set allowlist" by (simp add: allowlist_def rpcMethod_def)
  moreover have "quiet demoServer" by (rule demo_quiet)
  ultimately show ?thesis
    using locked_no_sessions[OF demo_reached(1) _ demo_reached(2), of "''Keys''" "Some [''token'']"]
    by (simp add: rpcMethod_def)
qed

text \<open>C15. A token lasts from the unlock to the lock: the token that \<^verbatim>\<open>Unlock\<close> returns authorizes
  every method in every state that calls of any clients, unlocking and recovering among them, and
  background checks lead to, until somebody locks or the same client unlocks again, which replaces its
  token. \<^verbatim>\<open>Lock\<close> succeeds there and leaves the vault locked and the database closed, and from then on,
  whatever is called until somebody unlocks or recovers, the token is refused for every method not on
  the allow list.\<close>

theorem session_token:
  assumes "svcUnlock (srE V) (srG V) typ secret cl s = (Inr token, s1)"
    and "quiet V" "(whileUnlocked V cl)\<^sup>*\<^sup>* s1 s2" "(whileLocked V)\<^sup>*\<^sup>* (snd (svcLock (srE V) s2)) s3"
  shows "authorizeCall (Some (token # ts)) m s2 = (Inr (), s2) \<and>
    (\<exists>u. svcLock (srE V) s2 = (Inr (), u) \<and> vMk (svVault u) = None \<and> \<not> IsOpen (svDb u)) \<and>
    (m \<notin> set allowlist \<longrightarrow>
       authorizeCall (Some (token # ts)) m s3 = (Inl (ErrStatus ''Unauthenticated'' ''invalid token''), s3))"
proof -
  have h: "holds cl token s2" by (rule holds_session[OF assms(3,2) unlocked_holds(1)[OF assms(1)]])
  then have ok: "svUnlocked s2" "token \<in> snd ` set (svTokens s2)"
    by (force simp: holds_def dest: map_of_SomeD)+
  obtain d where lock: "svcLock (srE V) s2 = (Inr (), s2\<lparr>svChecking := False, svTokens := [],
      svVault := (svVault s2)\<lparr>vMk := None, vRemote := None\<rparr>, svDb := d, svUnlocked := False\<rparr>)" "\<not> IsOpen d"
    using svcLock_run[OF ok(1)] by metis
  have "svTokens s3 = []" using locked_tokens[OF assms(4,2)] lock(1) by simp
  with ok(2) lock show ?thesis
    by (auto simp: authorizeCall_ok) (simp add: authorizeCall_def checkToken_def op_simps)
qed

text \<open>The set up vault behind the service, with a database that exists.\<close>

definition demoSetup :: "(mem, unit, kvdisk, outside) service" where
  "demoSetup = demoService\<lparr>svVault := demoVault, svWorld := \<lparr>ouChains = [], ouFiles = [(''/app/cache.sdb'', [])]\<rparr>\<rparr>"

definition demoToken :: string where
  "demoToken = xBase62 stdX (xRand stdX 0 32)"

definition demoSession :: "(mem, unit, kvdisk, outside) service" where
  "demoSession = demoSetup\<lparr>svVault := demoOpen, svDraws := 1, svTokens := [(''app'', demoToken)],
     svDb := (sdbNew [])\<lparr>sbPath := ''/app/cache.sdb'', sbKey := Some (cacheKey stdX (xRand stdX 0 32))\<rparr>,
     svChecking := True, svUnlocked := True\<rparr>"

lemma demo_unlocks:
  "Unlock stdX memOps (Some demoKey) demoVault = (Inr demoProv, demoOpen)" "vMk demoOpen = Some (xRand stdX 0 32)"
proof -
  obtain n where n: "n \<le> 2" "vaultRep stdX memContents memReady n [] demoVault demoAbs1" using demo_setup by blast
  obtain r v' A' n' where s: "Unlock stdX memOps (Some demoKey) demoVault = (r, v')" "absUnlock demoKey demoAbs1 = (r, A')"
      "vaultRep stdX memContents memReady n' [] v' A'"
    using memStore.refine_Unlock[OF std_libs n(2) demoKey_length] unfolding sim_def by blast
  have a: "r = Inr demoProv" "A' = demoAbs2"
    using s(2) by (auto simp: absUnlock_def op_simps opensWith_def demoAbs1_def demoAbs2_def)
  then show "Unlock stdX memOps (Some demoKey) demoVault = (Inr demoProv, demoOpen)"
    using s(1) by (simp add: demoOpen_def)
  with s(1) have "v' = demoOpen" by simp
  with vaultRepD(3)[OF s(3)] a show "vMk demoOpen = Some (xRand stdX 0 32)"
    by (simp add: demoAbs2_def demoAbs1_def)
qed

lemma demo_unlockVault:
  "svVault s = demoVault \<Longrightarrow>
     unlockVault (srE demoServer) G PaperKeyType demoKey s = (Inr (), s\<lparr>svVault := demoOpen\<rparr>)"
  if "aePhrase G demoKey = Inr demoKey" for G :: "(kvdisk, outside) authLib"
  using demo_unlocks(1) that
  by (simp add: unlockVault_def unlockPaperKey_def onVault_def zoom_def mapErr_def op_simps)

lemma demo_unlock:
  "svcUnlock (srE demoServer) (srG demoServer) PaperKeyType demoKey ''app'' demoSetup = (Inr demoToken, demoSession)"
proof -
  have p: "aePhrase (srG demoServer) demoKey = Inr demoKey"
    by (simp add: demoAuthLib_def demoKey_def)
  have v: "unlockVault (srE demoServer) (srG demoServer) PaperKeyType demoKey demoSetup = (Inr (), demoSetup\<lparr>svVault := demoOpen\<rparr>)"
    by (rule demo_unlockVault[OF p]) (simp add: demoSetup_def)
  have r: "svcUnlock (srE demoServer) (srG demoServer) PaperKeyType demoKey ''app'' demoSetup =
     bnd (afterToken (srE demoServer) (srG demoServer)) (\<lambda>_. bnd (modify (\<lambda>s. s\<lparr>svUnlocked := True\<rparr>)) (\<lambda>_. ret demoToken))
       (demoSetup\<lparr>svVault := demoOpen, svDraws := 1, svTokens := [(''app'', demoToken)]\<rparr>)"
    using v by (simp add: svcUnlock_afterToken authUnlockCall_def op_simps registerToken_run demoSetup_def demoService_def
        newService_def demoToken_def)
  show ?thesis
    unfolding r
    by (simp add: afterToken_def op_simps openCache_def startCheck_def onWorld_def onDb_def zoom_def pathExists_def
        demoAuthLib_def demoStat_def demoSetup_def demoSession_def demoService_def newService_def
        IsOpen_def MasterKey_def demo_unlocks(2) OpenAtPath_def onSdisk_def stdLDB_def sdbNew_def cdbPath_def)
qed

lemma demo_opens_server: "quiet demoServer"
  by (rule demo_quiet)

lemma session_token_witness:
  "authorizeCall (Some [demoToken]) ''/service.RPC/Keys'' demoSession = (Inr (), demoSession) \<and>
   (\<exists>s3. svcLock (srE demoServer) demoSession = (Inr (), s3) \<and> vMk (svVault s3) = None \<and>
      authorizeCall (Some [demoToken]) ''/service.RPC/Keys'' s3 = (Inl (ErrStatus ''Unauthenticated'' ''invalid token''), s3))"
proof -
  have "''/service.RPC/Keys'' \<notin> set allowlist" by (simp add: allowlist_def)
  then show ?thesis
    using session_token[OF demo_unlock demo_opens_server, of demoSession "snd (svcLock (srE demoServer) demoSession)" "[]" "''/service.RPC/Keys''"]
    by auto
qed

text \<open>C34. When the database cannot be opened, \<^verbatim>\<open>Unlock\<close> reports the error, but by then the vault is
  open and a token is registered; as the service is not marked unlocked, \<^verbatim>\<open>Lock\<close> then does
  nothing, and the vault stays open and the token valid.\<close>

theorem failed_unlock_stays_open:
  assumes "\<not> svUnlocked s" "unlockVault E G typ secret s = (Inr u, s1)"
    and "openCache E G (s1\<lparr>svDraws := Suc (svDraws s1), svTokens := AList.update cl token (svTokens s1)\<rparr>) = (Inl e, s2)"
    and "token = xBase62 (rpX E) (xRand (rpX E) (svDraws s1) 32)" "\<not> IsOpen (svDb s1)"
  shows "svcUnlock E G typ secret cl s = (Inl e, s2) \<and> svcLock E s2 = (Inr (), s2) \<and>
     vMk (svVault s2) \<noteq> None \<and> authorizeCall (Some [token]) m s2 = (Inr (), s2)"
proof -
  let ?t = "s1\<lparr>svDraws := Suc (svDraws s1), svTokens := AList.update cl token (svTokens s1)\<rparr>"
  have k: "sessionKept ?t s2" by (rule keepsD[OF keeps_openCache assms(3)])
  have "sessionKept s s1" by (rule keepsD[OF keeps_unlockVault assms(2)])
  moreover have "(cl, token) \<in> set (svTokens ?t)" by (auto simp: update_conv' intro: map_of_SomeD)
  ultimately have "\<not> svUnlocked s2" "token \<in> snd ` set (svTokens s2)"
    using k assms(1) by (force simp: sessionKept_def)+
  moreover have "vMk (svVault s2) \<noteq> None"
    using unlockVault_opens[OF assms(2)] k by (auto simp: sessionKept_def keyKept_def)
  moreover have "svcUnlock E G typ secret cl s = (Inl e, s2)"
    using assms(2,3,5) by (simp add: svcUnlock_afterToken authUnlockCall_def op_simps registerToken_run assms(4)[symmetric] afterToken_def)
  moreover have "svcLock E s2 = (Inr (), s2)"
    using \<open>\<not> svUnlocked s2\<close> by (simp add: svcLock_def op_simps)
  ultimately show ?thesis by (auto simp: authorizeCall_ok)
qed

lemma failed_unlock_stays_open_witness:
  "\<exists>s2. svcUnlock (srE demoServer) (demoAuthLib True) PaperKeyType demoKey ''app'' demoSetup = (Inl (LibErr ''mkdir''), s2) \<and>
     svcLock (srE demoServer) s2 = (Inr (), s2) \<and> vMk (svVault s2) \<noteq> None"
proof -
  let ?s1 = "demoSetup\<lparr>svVault := demoOpen\<rparr>"
  have p: "aePhrase (demoAuthLib True) demoKey = Inr demoKey" by (simp add: demoAuthLib_def demoKey_def)
  have s: "\<not> svUnlocked demoSetup" "svDraws ?s1 = 0" "svTokens ?s1 = []" "\<not> IsOpen (svDb ?s1)" "svVault demoSetup = demoVault"
    by (simp_all add: demoSetup_def demoService_def newService_def sdbNew_def IsOpen_def)
  let ?t = "?s1\<lparr>svDraws := Suc (svDraws ?s1), svTokens := AList.update ''app'' demoToken (svTokens ?s1)\<rparr>"
  have "openCache (srE demoServer) (demoAuthLib True) ?t = (Inl (LibErr ''mkdir''), ?t)"
    by (simp add: openCache_def onWorld_def zoom_def demoAuthLib_def op_simps)
  moreover have "demoToken = xBase62 (rpX (srE demoServer)) (xRand (rpX (srE demoServer)) (svDraws ?s1) 32)"
    by (simp only: demoToken_def demoServer_parts s(2))
  ultimately show ?thesis
    using failed_unlock_stays_open[OF s(1) demo_unlockVault[OF p s(5)] _ _ s(4)] by blast
qed

end
