(* ===== verification/PasswordProps.thy ===== *)
theory PasswordProps
  imports ServiceInstance
begin

text \<open>
  Changing the password: the calls of \<^verbatim>\<open>AuthPasswordChange\<close> on a vault that represents an abstract
  vault, composed from the refinements of \<open>AuthRefine\<close>.
\<close>

section \<open>The salt\<close>

context store
begin

text \<open>The salt is made on first use and stays.\<close>

lemma Salt_present:
  assumes "dstore_ok X" "ready (vStore v)" "contents (vStore v) ''/config/salt'' = Some salt" "salt \<noteq> []"
  shows "\<exists>b. Salt X I v = (Inr b, v) \<and> bstr b = salt"
proof -
  have "xPath X [''config'', ''salt''] = ''/config/salt''"
    using xPath_two[OF assms(1), of "''config''" "''salt''"] by simp
  moreover obtain b where "sGet I ''/config/salt'' (vStore v) = (Inr b, vStore v)" "bstr b = salt" "b \<noteq> None"
    using get_ok[OF assms(2), of "''/config/salt''"] assms(3,4) by fastforce
  ultimately show ?thesis by (auto simp: Salt_def op_simps Let_def)
qed

text \<open>Making the salt is a change like any other.\<close>

lemma Salt_made:
  assumes libs: "libs_ok X" and rep: "vaultRep X contents ready n base v A" and n: "n < maxIndex"
    and none: "contents (vStore v) ''/config/salt'' = None"
  shows "\<exists>v'. Salt X I v = (Inr (Some (xRand X (vDraws v) 32)), v') \<and>
    vaultRep X contents ready (n + 1) base v' A \<and> saltOf contents v' = Some (xRand X (vDraws v) 32) \<and>
    vRemote v' = vRemote v \<and> vDraws v' = Suc (vDraws v)"
proof -
  let ?m = "contents (vStore v)" and ?r = "xRand X (vDraws v) 32" and ?cs = "[''config'', ''salt'']"
  note r = vaultRepD[OF rep] and c = contRepD[OF vaultRepD(2)[OF rep]]
  have path: "xPath X ?cs = canon ?cs" using xPath_two[OF libs_okD(1)[OF libs], of "''config''" "''salt''"] by simp
  have user: "userPath ?cs" by (simp add: userPath_def)
  have rs: "?r \<noteq> []" using libs_okD(3)[OF libs] unfolding rand_ok_def by (metis list.size(3) zero_neq_numeral)
  have B: "contRep X (n + 1) base (changed n ?cs ?r ?m) A"
    by (rule contRep_changed[OF r(2) n user c(4)]) (use c(6-8) in \<open>simp_all add: tableRep_changed_config\<close>)
  obtain s' where s': "vaultSetPath X I (canon ?cs) (Some ?r) True (v\<lparr>vDraws := Suc (vDraws v)\<rparr>) =
      (Inr (), v\<lparr>vDraws := Suc (vDraws v), vStore := s', vAuto := True\<rparr>)" "ready s'" "contents s' = changed n ?cs ?r ?m"
    using write_path[OF libs rep n user rs _ B, of "v\<lparr>vDraws := Suc (vDraws v)\<rparr>"] by auto
  have "sGet I (canon ?cs) (vStore v) = (Inr None, vStore v)"
    using get_ok[OF r(1), of "canon ?cs"] none by auto
  then have "Salt X I v = (Inr (Some ?r), v\<lparr>vDraws := Suc (vDraws v), vStore := s', vAuto := True\<rparr>)"
    using path s'(1) by (simp add: Salt_def Let_def op_simps del: canon.simps)
  moreover have "remoteRep X (contents s') (vRemote v) A"
    using r(4) s'(3) user by (auto intro: remoteRep_cong)
  moreover have "contents s' ''/config/salt'' = Some ?r"
    using changed_at[OF user user, of n ?r ?m] s'(3) rs by (simp add: applyEvent_def)
  ultimately show ?thesis using s'(2,3) B r(3) by (auto simp: vaultRep_def)
qed

end

section \<open>Changing the password\<close>

lemma mem_opensWith: "finite (dom auths) \<Longrightarrow> i \<in> set (opensWith key auths) \<longleftrightarrow> auths i = Some key"
  by (auto simp: opensWith_def rowIds_def)

lemma pvID_opened:
  assumes "vaultRep X contents ready n base v A"
  shows "pvID (case aProvs A i of Some p \<Rightarrow> p | None \<Rightarrow> bareProvision i) = i"
proof (cases "aProvs A i")
  case (Some p)
  with tableRep_Some[OF contRepD(8)[OF vaultRepD(2)[OF assms]] Some] show ?thesis by (auto simp: provRow_def)
qed (simp add: bareProvision_def)

context store
begin

text \<open>The password is checked and its auth found, the new password's auth added, the old one removed.\<close>

lemma change_password:
  fixes X :: "'z ext_scheme" and v :: "('s, 'n) vault"
  assumes libs: "libs_ok X" and rep: "vaultRep X contents ready n base v A" and n: "n + 3 < maxIndex"
    and keys: "length ko = 32" "length kn = 32" and i: "opensWith ko (aAuths A) = [i]"
    and new: "\<And>d. authId (xBase62 X (xRand X d 32))" "\<And>d. xBase62 X (xRand X d 32) \<notin> dom (aAuths A) \<union> dom (aProvs A)"
  obtains p v1 q u v2 v3 n' j where "Unlock X I (Some ko) v = (Inr p, v1)" "ready (vStore v1)"
    "saltOf contents v1 = saltOf contents v" "NewProvision X PasswordAuth v1 = (Inr q, u)"
    "Provision X I (Some kn) (Some q) u = (Inr (), v2)"
    "Deprovision X I (pvID p) False v2 = (Inr True, v3)" "saltOf contents v3 = saltOf contents v" "n' \<le> n + 4"
    "j \<notin> dom (aAuths A) \<union> dom (aProvs A)" "pvID q = j" "pvType q = PasswordAuth"
    "vaultRep X contents ready n' base v3 (A\<lparr>aOpen := True, aAuths := (aAuths A)(j \<mapsto> kn, i := None),
        aProvs := (aProvs A)(j \<mapsto> q, i := None)\<rparr>)"
proof -
  let ?p = "case aProvs A i of Some p \<Rightarrow> p | None \<Rightarrow> bareProvision i" and ?O = "A\<lparr>aOpen := True\<rparr>"
  have p: "pvID ?p = i" by (rule pvID_opened[OF rep])
  have "i \<in> set (opensWith ko (aAuths A))" using i by simp
  then have Ai: "aAuths A i = Some ko" by (simp add: opensWith_def)
  then have plain: "plain i" using tableRep_Some[OF contRepD(7)[OF vaultRepD(2)[OF rep]]] by blast
  have "absUnlock ko A = (Inr ?p, ?O)" using i by (simp add: absUnlock_def op_simps)
  then obtain v1 n1 where v1: "Unlock X I (Some ko) v = (Inr ?p, v1)" "n1 \<le> n" "vaultRep X contents ready n1 base v1 ?O"
      "saltOf contents v1 = saltOf contents v"
    using refine_Unlock[OF libs rep keys(1)] unfolding sim_def by auto
  let ?u = "v1\<lparr>vDraws := Suc (vDraws v1), vTicks := Suc (vTicks v1)\<rparr>"
  define q where "q = \<lparr>pvID = xBase62 X (xRand X (vDraws v1) 32), pvType = PasswordAuth, pvCreatedAt = xNow X (vTicks v1),
    pvAAGUID = [], pvSalt = None, pvNoPin = False\<rparr>"
  have q: "NewProvision X PasswordAuth v1 = (Inr q, ?u)"
    by (simp add: NewProvision_def op_simps q_def)
  let ?j = "pvID q" and ?B = "?O\<lparr>aAuths := (aAuths A)(pvID q \<mapsto> kn), aProvs := (aProvs A)(pvID q \<mapsto> q)\<rparr>"
  have j: "authId ?j" "?j \<notin> dom (aAuths A) \<union> dom (aProvs A)" using new[of "vDraws v1"] by (simp_all add: q_def)
  have ji: "?j \<noteq> i" using j(2) Ai by auto
  have r1: "vaultRep X contents ready n1 base ?u ?O" using v1(3) by simp
  have n1: "n1 + 1 < maxIndex" using n v1(2) by linarith
  have "absProvision kn q ?O = (Inr (), ?B)" by (simp add: absProvision_def absAddAuth_def op_simps)
  then obtain v2 n2 where v2: "Provision X I (Some kn) (Some q) ?u = (Inr (), v2)" "n2 \<le> n1 + 2"
      "vaultRep X contents ready n2 base v2 ?B" "saltOf contents v2 = saltOf contents v1"
    using refine_Provision[OF libs r1 n1 j(1) keys(2)] unfolding sim_def by auto
  have last: "rowIds ((aProvs A)(?j \<mapsto> q)) \<noteq> [i]"
  proof
    assume one: "rowIds ((aProvs A)(?j \<mapsto> q)) = [i]"
    have "finite (dom (aProvs A))"
      using tableRep_finite[OF contRepD(8)[OF vaultRepD(2)[OF rep]] contents_finite[OF vaultRepD(1)[OF rep]]] .
    then have "?j \<in> set (rowIds ((aProvs A)(?j \<mapsto> q)))" by (simp add: rowIds_def set_insort_key)
    with one ji show False by simp
  qed
  let ?C = "?O\<lparr>aAuths := (aAuths A)(?j \<mapsto> kn, i := None), aProvs := (aProvs A)(?j \<mapsto> q, i := None)\<rparr>"
  have "absDeprovision i False ?B = (Inr True, ?C)" using last Ai ji by (simp add: absDeprovision_def op_simps)
  moreover have n2: "n2 + 1 < maxIndex" using n v1(2) v2(2) by linarith
  ultimately obtain v3 n3 where v3: "Deprovision X I i False v2 = (Inr True, v3)" "n3 \<le> n2 + 2"
      "vaultRep X contents ready n3 base v3 ?C" "saltOf contents v3 = saltOf contents v2"
    using refine_Deprovision[OF libs v2(3) n2 plain, of False] unfolding sim_def by auto
  show ?thesis
  proof (rule that[OF v1(1) vaultRepD(1)[OF v1(3)] v1(4) q v2(1) _ _ _ j(2) refl])
    show "pvType q = PasswordAuth" by (simp add: q_def)
    show "Deprovision X I (pvID ?p) False v2 = (Inr True, v3)" using v3(1) p by simp
    show "saltOf contents v3 = saltOf contents v" using v3(4) v2(4) v1(4) by simp
    show "n3 \<le> n + 4" using v1(2) v2(2) v3(2) by linarith
    show "vaultRep X contents ready n3 base v3 (A\<lparr>aOpen := True, aAuths := (aAuths A)(?j \<mapsto> kn, i := None), aProvs := (aProvs A)(?j \<mapsto> q, i := None)\<rparr>)"
      using v3(3) by simp
  qed
qed

lemma unlocks_iff:
  assumes "libs_ok X" "vaultRep X contents ready n base v A" "length key = 32"
  shows "(\<exists>i. aAuths A i = Some key) \<longleftrightarrow> (\<exists>p. fst (Unlock X I (Some key) v) = Inr p)"
    and "(\<nexists>i. aAuths A i = Some key) \<longleftrightarrow> fst (Unlock X I (Some key) v) = Inl ErrInvalidAuth"
proof -
  have f: "finite (dom (aAuths A))"
    using tableRep_finite[OF contRepD(7)[OF vaultRepD(2)[OF assms(2)]] contents_finite[OF vaultRepD(1)[OF assms(2)]]] .
  obtain r v' A' where "Unlock X I (Some key) v = (r, v')" "absUnlock key A = (r, A')"
    using refine_Unlock[OF assms] by (auto simp: sim_def)
  moreover have "(\<exists>i. aAuths A i = Some key) \<longleftrightarrow> opensWith key (aAuths A) \<noteq> []"
    unfolding mem_opensWith[OF f, symmetric] by (cases "opensWith key (aAuths A)") auto
  ultimately show "(\<exists>i. aAuths A i = Some key) \<longleftrightarrow> (\<exists>p. fst (Unlock X I (Some key) v) = Inr p)"
    and "(\<nexists>i. aAuths A i = Some key) \<longleftrightarrow> fst (Unlock X I (Some key) v) = Inl ErrInvalidAuth"
    by (auto simp: absUnlock_def op_simps split: list.splits)
qed

end

text \<open>With a salt, unlocking with a password is unlocking with its key.\<close>

lemma unlockPassword_run:
  assumes "Salt (rpX E) (rpI E) (svVault s) = (Inr b, svVault s)" "xKeyForPassword (rpX E) password (bstr b) = Inr key"
  shows "unlockPassword E password s = (case Unlock (rpX E) (rpI E) (Some key) (svVault s) of (r, v) \<Rightarrow> (r, s\<lparr>svVault := v\<rparr>))"
  using assms by (simp add: unlockPassword_def passwordKey_def onVault_def zoom_def op_simps split: prod.splits)

section \<open>Properties\<close>

text \<open>C19. Changing the password: when the old password opens exactly one auth of the vault,
  \<^verbatim>\<open>AuthPasswordChange\<close> succeeds and leaves a vault that represents the same items under the same
  master key, in which the new password unlocks and the old one is refused as invalid. The
  vault's auths are the old ones without the old password's and with a new password auth under an
  id that no auth had: no other auth is touched.\<close>

theorem password_changed:
  assumes "store (rpI E) contents ready" "libs_ok (rpX E)"
    and "vaultRep (rpX E) contents ready n base (svVault s) A" "n + 3 < maxIndex"
    and "saltOf contents (svVault s) = Some salt" "salt \<noteq> []"
    and "xKeyForPassword (rpX E) old salt = Inr ko" "xKeyForPassword (rpX E) new salt = Inr kn"
    and "length ko = 32" "length kn = 32" "ko \<noteq> kn" "opensWith ko (aAuths A) = [i]"
    and "\<And>d. authId (xBase62 (rpX E) (xRand (rpX E) d 32))"
      "\<And>d. xBase62 (rpX E) (xRand (rpX E) d 32) \<notin> dom (aAuths A) \<union> dom (aProvs A)"
  shows "\<exists>s' A' n'. AuthPasswordChange E old new s = (Inr (), s') \<and> n' \<le> n + 4 \<and>
     vaultRep (rpX E) contents ready n' base (svVault s') A' \<and> aMk A' = aMk A \<and> aItems A' = aItems A \<and>
     fst (unlockPassword E old s') = Inl ErrInvalidAuth \<and> (\<exists>p. fst (unlockPassword E new s') = Inr p) \<and>
     (\<exists>j q. j \<notin> dom (aAuths A) \<union> dom (aProvs A) \<and> pvID q = j \<and> pvType q = PasswordAuth \<and>
        aAuths A' = (aAuths A)(j \<mapsto> kn, i := None) \<and> aProvs A' = (aProvs A)(j \<mapsto> q, i := None))"
proof -
  note salt = store.Salt_present[OF assms(1) libs_okD(1)[OF assms(2)] _ _ assms(6)]
  obtain p v1 q u v2 v3 n' j where c: "Unlock (rpX E) (rpI E) (Some ko) (svVault s) = (Inr p, v1)" "ready (vStore v1)"
      "saltOf contents v1 = saltOf contents (svVault s)" "NewProvision (rpX E) PasswordAuth v1 = (Inr q, u)"
      "Provision (rpX E) (rpI E) (Some kn) (Some q) u = (Inr (), v2)"
      "Deprovision (rpX E) (rpI E) (pvID p) False v2 = (Inr True, v3)" "saltOf contents v3 = saltOf contents (svVault s)"
      "n' \<le> n + 4" "j \<notin> dom (aAuths A) \<union> dom (aProvs A)" "pvID q = j" "pvType q = PasswordAuth"
      "vaultRep (rpX E) contents ready n' base v3 (A\<lparr>aOpen := True, aAuths := (aAuths A)(j \<mapsto> kn, i := None),
        aProvs := (aProvs A)(j \<mapsto> q, i := None)\<rparr>)"
    by (rule store.change_password[OF assms(1,2,3,4,9,10,12,13,14)])
  let ?A = "A\<lparr>aOpen := True, aAuths := (aAuths A)(j \<mapsto> kn, i := None), aProvs := (aProvs A)(j \<mapsto> q, i := None)\<rparr>"
  from salt[OF vaultRepD(1)[OF assms(3)] assms(5)] obtain b where
    b: "Salt (rpX E) (rpI E) (svVault s) = (Inr b, svVault s)" "bstr b = salt" by blast
  from salt[OF c(2)] c(3) assms(5) obtain b1 where b1: "Salt (rpX E) (rpI E) v1 = (Inr b1, v1)" "bstr b1 = salt" by auto
  from salt[OF vaultRepD(1)[OF c(12)]] c(7) assms(5) obtain b3
    where b3: "Salt (rpX E) (rpI E) v3 = (Inr b3, v3)" "bstr b3 = salt" by auto
  have run: "AuthPasswordChange E old new s = (Inr (), s\<lparr>svVault := v3\<rparr>)"
    using b b1 c(1,4,5,6) assms(7,8)
    by (simp add: AuthPasswordChange_def unlockPassword_def provisionPassword_def passwordKey_def onVault_def zoom_def
        mapErr_def wrapErr_def op_simps)
  have "finite (dom (aAuths A))"
    using tableRep_finite[OF contRepD(7)[OF vaultRepD(2)[OF assms(3)]] store.contents_finite[OF assms(1) vaultRepD(1)[OF assms(3)]]] .
  then have only: "aAuths A k = Some ko \<longleftrightarrow> k = i" for k
    using mem_opensWith[of "aAuths A" k ko] assms(12) by simp
  have "\<nexists>k. aAuths ?A k = Some ko" using only assms(11) by auto
  then have old: "fst (unlockPassword E old (s\<lparr>svVault := v3\<rparr>)) = Inl ErrInvalidAuth"
    using store.unlocks_iff(2)[OF assms(1,2) c(12) assms(9)] unlockPassword_run[of E "s\<lparr>svVault := v3\<rparr>" b3 old ko] b3 assms(7)
    by (auto split: prod.splits)
  have "j \<noteq> i" using c(9) only by auto
  then have "\<exists>k. aAuths ?A k = Some kn" by auto
  then have "\<exists>p. fst (unlockPassword E new (s\<lparr>svVault := v3\<rparr>)) = Inr p"
    using store.unlocks_iff(1)[OF assms(1,2) c(12) assms(10)] unlockPassword_run[of E "s\<lparr>svVault := v3\<rparr>" b3 new kn] b3 assms(8)
    by (auto split: prod.splits)
  with old run c(8-12) show ?thesis
    by (intro exI[of _ "s\<lparr>svVault := v3\<rparr>"] exI[of _ ?A] exI[of _ n']) auto
qed

text \<open>A vault that was set up with a password.\<close>

definition demoSalted :: "(mem, unit) vault" where
  "demoSalted = snd (Salt stdX memOps demoNew)"

definition demoPassword :: "(mem, unit, kvdisk, outside) service" where
  "demoPassword = demoService\<lparr>svVault := snd (Setup stdX memOps (Some demoKey) (Some demoProv) demoSalted)\<rparr>"

definition demoAbs3 :: avault where
  "demoAbs3 = \<lparr>aOpen = False, aMk = xRand stdX 1 32, aAuths = [''p1'' \<mapsto> demoKey], aProvs = [''p1'' \<mapsto> demoProv],
     aItems = Map.empty\<rparr>"

lemma demo_password:
  "\<exists>n. n \<le> 3 \<and> vaultRep stdX memContents memReady n [] (svVault demoPassword) demoAbs3 \<and>
     saltOf memContents (svVault demoPassword) = Some (xRand stdX 0 32)"
proof -
  have new: "vRemote demoNew = None" "vDraws demoNew = 0" "memContents (vStore demoNew) ''/config/salt'' = None"
    by (simp_all add: demoNew_def vaultNew_def memContents_def)
  obtain v' where v': "Salt stdX memOps demoNew = (Inr (Some (xRand stdX 0 32)), v')"
      "vaultRep stdX memContents memReady 1 [] v' demoAbs" "saltOf memContents v' = Some (xRand stdX 0 32)"
      "vRemote v' = None" "vDraws v' = 1"
    using memStore.Salt_made[OF std_libs demo_new _ new(3)] new(1,2) by auto
  have s: "sim stdX memContents memReady [] 2 1 (Setup stdX memOps (Some demoKey) (Some demoProv))
      (absSetup (xRand stdX (vDraws v') 32) demoKey demoProv) v' demoAbs"
    by (rule memStore.refine_Setup[OF std_libs v'(2)]) (simp_all add: demoAbs_def avaultNew_def v'(4))
  have "absSetup (xRand stdX 1 32) demoKey demoProv demoAbs = (Inr (), demoAbs3)"
    by (auto simp: absSetup_def absStatus_def absAddAuth_def op_simps demoAbs_def avaultNew_def demoAbs3_def demoProv_def fun_eq_iff)
  with s v' obtain v2 n where "Setup stdX memOps (Some demoKey) (Some demoProv) v' = (Inr (), v2)" "n \<le> 3"
      "vaultRep stdX memContents memReady n [] v2 demoAbs3" "saltOf memContents v2 = Some (xRand stdX 0 32)"
    unfolding sim_def by auto
  then show ?thesis using v'(1) by (auto simp: demoPassword_def demoSalted_def)
qed

lemma std_password: "pw \<noteq> [] \<Longrightarrow> xKeyForPassword stdX pw salt = Inr (take 32 (pw @ salt @ replicate 32 (CHR ''.'')))"
  by (simp add: stdX_def)

lemma replicated_id:
  assumes "c \<noteq> CHR ''/''" "c \<noteq> CHR ''#''"
  shows "authId (replicate 32 c)" "replicate 32 c \<noteq> ''p1''"
proof -
  have ne: "replicate 32 c \<noteq> xs" if "length xs \<noteq> 32" for xs using that length_replicate[of 32 c] by metis
  have l: "length ''p1'' \<noteq> 32" "length ''#auth'' \<noteq> 32" by simp_all
  have "\<not> prefix ''#auth-'' (replicate 32 c)"
  proof
    assume "prefix ''#auth-'' (replicate 32 c)"
    then have "set ''#auth-'' \<subseteq> set (replicate 32 c)" by (rule set_mono_prefix)
    then show False using assms(2) by simp
  qed
  with assms(1) ne[OF l(2)] show "authId (replicate 32 c)" by (auto simp: authId_def plain_def convertID_def)
  show "replicate 32 c \<noteq> ''p1''" by (rule ne[OF l(1)])
qed

lemma std_newID:
  "authId (xBase62 stdX (xRand stdX d 32))" "xBase62 stdX (xRand stdX d 32) \<noteq> ''p1''"
proof -
  let ?c = "char_of (97 + d mod 26) :: char"
  have x: "xBase62 stdX (xRand stdX d 32) = replicate 32 ?c" by (simp add: stdX_def)
  have "of_char ?c = (97 + d mod 26 :: nat)" using mod_less_divisor[of 26 d] by simp
  then have big: "(97 :: nat) \<le> of_char ?c" by linarith
  have small: "of_char (CHR ''/'') = (47 :: nat)" "of_char (CHR ''#'') = (35 :: nat)" by simp_all
  have c: "?c \<noteq> CHR ''/''" "?c \<noteq> CHR ''#''"
  proof
    assume "?c = CHR ''/''"
    then show False using big small(1) by simp
  next
    show "?c \<noteq> CHR ''#''"
    proof
      assume "?c = CHR ''#''"
      then show False using big small(2) by simp
    qed
  qed
  show "authId (xBase62 stdX (xRand stdX d 32))" "xBase62 stdX (xRand stdX d 32) \<noteq> ''p1''"
    unfolding x using replicated_id[OF c] by blast+
qed

lemma password_changed_witness:
  "\<exists>s'. AuthPasswordChange demoRpc demoKey ''new password'' demoPassword = (Inr (), s') \<and>
     fst (unlockPassword demoRpc demoKey s') = Inl ErrInvalidAuth \<and>
     (\<exists>p. fst (unlockPassword demoRpc ''new password'' s') = Inr p)"
proof -
  obtain n where n: "n \<le> 3" "vaultRep (rpX demoRpc) memContents memReady n [] (svVault demoPassword) demoAbs3"
      "saltOf memContents (svVault demoPassword) = Some (xRand stdX 0 32)"
    using demo_password by auto
  have x: "xRand stdX 0 32 = replicate 32 (CHR ''a'')" by (simp add: stdX_def char_of_def bit_0)
  have k: "xKeyForPassword (rpX demoRpc) demoKey (xRand stdX 0 32) = Inr demoKey"
    "xKeyForPassword (rpX demoRpc) ''new password'' (xRand stdX 0 32) = Inr (''new password'' @ replicate 20 (CHR ''a''))"
    by (simp_all add: std_password x demoKey_def)
  have l: "store (rpI demoRpc) memContents memReady" "libs_ok (rpX demoRpc)" "n + 3 < maxIndex"
    using memStore.store_axioms n(1) by simp_all
  have w: "xRand stdX 0 32 \<noteq> []" "length demoKey = 32" "length (''new password'' @ replicate 20 (CHR ''a'')) = 32"
    by (simp_all add: x demoKey_def)
  have "hd demoKey \<noteq> hd (''new password'' @ replicate 20 (CHR ''a''))" by (simp add: demoKey_def hd_replicate)
  then have d: "demoKey \<noteq> ''new password'' @ replicate 20 (CHR ''a'')" by metis
  have a: "opensWith demoKey (aAuths demoAbs3) = [''p1'']" "dom (aAuths demoAbs3) \<union> dom (aProvs demoAbs3) = {''p1''}"
    by (simp_all add: opensWith_def demoAbs3_def)
  show ?thesis
    using password_changed[OF l(1,2) n(2) l(3) n(3) w(1) k w(2,3) d a(1)] std_newID a(2) by auto
qed

end
