(* ===== verification/FidoServer.thy ===== *)
theory FidoServer
  imports ServiceAuth
begin

text \<open>
  The FIDO2 plugin, \<^verbatim>\<open>auth/rpc/server.go\<close> and \<^verbatim>\<open>rpc.go\<close>: the calls of \<^verbatim>\<open>fido2.FIDO2Server\<close> over
  the library \<^verbatim>\<open>go-libfido2\<close>, which is a record of functions on a state \<open>'w\<close> with handles \<open>'v\<close> of
  devices, and the conversions between the two. The constants of the library are fields too.
  Requests of several fields are records, the others arguments.
\<close>

section \<open>Messages\<close>

datatype optionValue = OptDefault | OptTrue | OptFalse

datatype deviceKind = UnknownDevice | U2FDevice | FIDO2Device

record relyingParty =
  ryID :: string
  ryName :: string

record fidoUser =
  fuID :: gobytes
  fuName :: string
  fuDisplayName :: string
  fuIcon :: string

record fullDevice = device +
  dvProductID :: int
  dvVendorID :: int
  dvManufacturer :: string

record fullInfo = deviceInfo +
  diVersions :: "string list"
  diOptions :: "(string \<times> optionValue) list"

record attestation =
  atClientDataHash :: gobytes
  atAuthData :: gobytes
  atCredentialID :: gobytes
  atCredentialType :: string
  atPubKey :: gobytes
  atCert :: gobytes
  atSig :: gobytes
  atFormat :: string

record assertion =
  asAuthData :: gobytes
  asSig :: gobytes
  asHMACSecret :: gobytes

record fidoCredential =
  fcID :: gobytes
  fcType :: string
  fcRP :: "relyingParty option"
  fcUser :: "fidoUser option"

record makeRequest =
  mqDevice :: string
  mqClientDataHash :: gobytes
  mqRP :: "relyingParty option"
  mqUser :: "fidoUser option"
  mqType :: string
  mqPIN :: string
  mqExtensions :: "string list"
  mqRK :: string
  mqUV :: string

record assertionRequest =
  aqDevice :: string
  aqRPID :: string
  aqClientDataHash :: gobytes
  aqCredentialIDs :: "gobytes list"
  aqPIN :: string
  aqExtensions :: "string list"
  aqUV :: string
  aqUP :: string
  aqHMACSalt :: gobytes

record generateRequest =
  gqDevice :: string
  gqPIN :: string
  gqClientDataHash :: gobytes
  gqRP :: "relyingParty option"
  gqUser :: "fidoUser option"
  gqRK :: optionValue

record secretRequest =
  sqDevice :: string
  sqPIN :: string
  sqRPID :: string
  sqClientDataHash :: gobytes
  sqCredentialIDs :: "gobytes list"
  sqSalt :: gobytes

section \<open>The library\<close>

record libLocation =
  llPath :: string
  llProductID :: int
  llVendorID :: int
  llManufacturer :: string
  llProduct :: string

record libInfo =
  liVersions :: "string list"
  liExtensions :: "string list"
  liAAGUID :: gobytes
  liOptions :: "(string \<times> string) list"

record libAttestation =
  laClientDataHash :: gobytes
  laAuthData :: gobytes
  laCredentialID :: gobytes
  laCredentialType :: int
  laPubKey :: gobytes
  laCert :: gobytes
  laSig :: gobytes
  laFormat :: string

record libAssertion =
  lsAuthDataCBOR :: gobytes
  lsSig :: gobytes
  lsHMACSecret :: gobytes

record libCredential =
  lcID :: gobytes
  lcType :: int
  lcUser :: fidoUser

record makeOpts =
  moExtensions :: "string list"
  moRK :: string
  moUV :: string

record assertOpts =
  aoExtensions :: "string list"
  aoUV :: string
  aoUP :: string
  aoHMACSalt :: gobytes

text \<open>\<open>lfUUID\<close> is \<^verbatim>\<open>uuid.FromBytes\<close> with \<^verbatim>\<open>String\<close>.\<close>

record ('w, 'v) libfido2 =
  lfLocations :: "('w, libLocation list) op"
  lfNewDevice :: "string \<Rightarrow> ('w, 'v) op"
  lfType :: "'v \<Rightarrow> ('w, string) op"
  lfInfo :: "'v \<Rightarrow> ('w, libInfo) op"
  lfMake :: "'v \<Rightarrow> gobytes \<Rightarrow> relyingParty \<Rightarrow> fidoUser \<Rightarrow> int \<Rightarrow> string \<Rightarrow> makeOpts \<Rightarrow> ('w, libAttestation) op"
  lfSetPIN :: "'v \<Rightarrow> string \<Rightarrow> string \<Rightarrow> ('w, unit) op"
  lfReset :: "'v \<Rightarrow> ('w, unit) op"
  lfRetryCount :: "'v \<Rightarrow> ('w, int) op"
  lfAssertion :: "'v \<Rightarrow> string \<Rightarrow> gobytes \<Rightarrow> gobytes list \<Rightarrow> string \<Rightarrow> assertOpts \<Rightarrow> ('w, libAssertion) op"
  lfCredentialsInfo :: "'v \<Rightarrow> string \<Rightarrow> ('w, int \<times> int) op"
  lfCredentials :: "'v \<Rightarrow> string \<Rightarrow> string \<Rightarrow> ('w, libCredential list) op"
  lfRelyingParties :: "'v \<Rightarrow> string \<Rightarrow> ('w, relyingParty list) op"
  lfUUID :: "string \<Rightarrow> err + string"
  lfFIDO2 :: string
  lfU2F :: string
  lfES256 :: int
  lfEDDSA :: int
  lfRS256 :: int
  lfTrue :: string
  lfFalse :: string
  lfDefault :: string
  lfHMACSecretExtension :: string
  lfCredProtectExtension :: string
  lfErrPinInvalid :: err
  lfErrRXNotCBOR :: err

section \<open>Conversions\<close>

text \<open>\<^verbatim>\<open>int32(n)\<close> keeps the low 32 bits.\<close>

definition int32 :: "int \<Rightarrow> int" where
  "int32 n = (n + 2 ^ 31) mod 2 ^ 32 - 2 ^ 31"

definition devicesToRPC :: "libLocation list \<Rightarrow> fullDevice list" where
  "devicesToRPC ins = map (\<lambda>l. \<lparr>dvPath = llPath l, dvProduct = llProduct l, dvProductID = int32 (llProductID l),
     dvVendorID = int32 (llVendorID l), dvManufacturer = llManufacturer l\<rparr>) ins"

definition bytesToUUIDString :: "('w, 'v) libfido2 \<Rightarrow> gobytes \<Rightarrow> string" where
  "bytesToUUIDString L b = (case lfUUID L (bstr b) of Inl _ \<Rightarrow> [] | Inr u \<Rightarrow> u)"

definition optionValueToRPC :: "('w, 'v) libfido2 \<Rightarrow> string \<Rightarrow> optionValue" where
  "optionValueToRPC L v = (if v = lfTrue L then OptTrue else if v = lfFalse L then OptFalse else OptDefault)"

definition optionsToRPC :: "('w, 'v) libfido2 \<Rightarrow> (string \<times> string) list \<Rightarrow> (string \<times> optionValue) list" where
  "optionsToRPC L ins = map (\<lambda>(n, v). (n, optionValueToRPC L v)) ins"

definition deviceInfoToRPC :: "('w, 'v) libfido2 \<Rightarrow> libInfo \<Rightarrow> fullInfo" where
  "deviceInfoToRPC L i = \<lparr>diAAGUID = bytesToUUIDString L (liAAGUID i), diExtensions = liExtensions i,
     diVersions = liVersions i, diOptions = optionsToRPC L (liOptions i)\<rparr>"

definition optionValueFromString :: "('w, 'v) libfido2 \<Rightarrow> string \<Rightarrow> err + string" where
  "optionValueFromString L s =
     (if s = ''true'' then Inr (lfTrue L) else if s = ''false'' then Inr (lfFalse L)
      else if s = [] then Inr (lfDefault L) else Inl (Err ''invalid option value''))"

definition credentialTypeFromString :: "('w, 'v) libfido2 \<Rightarrow> string \<Rightarrow> err + int" where
  "credentialTypeFromString L s =
     (if s \<in> {''es256'', ''ES256''} then Inr (lfES256 L)
      else if s \<in> {''eddsa'', ''EDDSA''} then Inr (lfEDDSA L)
      else if s \<in> {''rs256'', ''RS256''} then Inr (lfRS256 L)
      else Inl (Err (''unknown credential type '' @ s)))"

definition credentialTypeToString :: "('w, 'v) libfido2 \<Rightarrow> int \<Rightarrow> string" where
  "credentialTypeToString L t =
     (if t = lfES256 L then ''es256'' else if t = lfEDDSA L then ''eddsa'' else if t = lfRS256 L then ''rs256'' else [])"

definition extensionFromString :: "('w, 'v) libfido2 \<Rightarrow> string \<Rightarrow> err + string" where
  "extensionFromString L s =
     (if s = ''hmac-secret'' then Inr (lfHMACSecretExtension L)
      else if s = ''credProtect'' then Inr (lfCredProtectExtension L)
      else Inl (Err (''invalid extension '' @ s)))"

primrec extensionsFromStrings :: "('w, 'v) libfido2 \<Rightarrow> string list \<Rightarrow> err + string list" where
  "extensionsFromStrings L [] = Inr []"
| "extensionsFromStrings L (s # ss) =
     (case extensionFromString L s of Inl e \<Rightarrow> Inl e
      | Inr x \<Rightarrow> (case extensionsFromStrings L ss of Inl e \<Rightarrow> Inl e | Inr xs \<Rightarrow> Inr (x # xs)))"

text \<open>The relying party and the user of a request are dereferenced without a test.\<close>

definition rpFromRPC :: "relyingParty option \<Rightarrow> err + relyingParty" where
  "rpFromRPC rp = (case rp of None \<Rightarrow> Inl (Panic ''nil pointer'') | Some r \<Rightarrow> Inr r)"

definition userFromRPC :: "fidoUser option \<Rightarrow> err + fidoUser" where
  "userFromRPC u = (case u of None \<Rightarrow> Inl (Panic ''nil pointer'') | Some x \<Rightarrow> Inr x)"

definition attestationToRPC :: "('w, 'v) libfido2 \<Rightarrow> libAttestation \<Rightarrow> attestation" where
  "attestationToRPC L a = \<lparr>atClientDataHash = laClientDataHash a, atAuthData = laAuthData a, atCredentialID = laCredentialID a,
     atCredentialType = credentialTypeToString L (laCredentialType a), atPubKey = laPubKey a, atCert = laCert a,
     atSig = laSig a, atFormat = laFormat a\<rparr>"

definition assertionToRPC :: "libAssertion \<Rightarrow> assertion" where
  "assertionToRPC a = \<lparr>asAuthData = lsAuthDataCBOR a, asSig = lsSig a, asHMACSecret = lsHMACSecret a\<rparr>"

definition credentialToRPC :: "('w, 'v) libfido2 \<Rightarrow> relyingParty \<Rightarrow> libCredential \<Rightarrow> fidoCredential" where
  "credentialToRPC L rp c = \<lparr>fcID = lcID c, fcType = credentialTypeToString L (lcType c), fcRP = Some rp, fcUser = Some (lcUser c)\<rparr>"

definition credentialsToRPC :: "('w, 'v) libfido2 \<Rightarrow> relyingParty \<Rightarrow> libCredential list \<Rightarrow> fidoCredential list" where
  "credentialsToRPC L rp ins = map (credentialToRPC L rp) ins"

definition credentialsInfoToRPC :: "int \<times> int \<Rightarrow> int \<times> int" where
  "credentialsInfoToRPC i = (int32 (fst i), int32 (snd i))"

section \<open>The calls\<close>

text \<open>\<^verbatim>\<open>sort.Slice\<close> by product.\<close>

definition fidoDevices :: "('w, 'v) libfido2 \<Rightarrow> ('w, fullDevice list) op" where
  "fidoDevices L = bnd (lfLocations L) (\<lambda>ls. ret (devicesToRPC (sort_key llProduct ls)))"

definition fidoDeviceType :: "('w, 'v) libfido2 \<Rightarrow> string \<Rightarrow> ('w, deviceKind) op" where
  "fidoDeviceType L dev =
     bnd (lfNewDevice L dev) (\<lambda>d.
     bnd (lfType L d) (\<lambda>ty.
     ret (if ty = lfFIDO2 L then FIDO2Device else if ty = lfU2F L then U2FDevice else UnknownDevice)))"

definition fidoDeviceInfo :: "('w, 'v) libfido2 \<Rightarrow> string \<Rightarrow> ('w, fullInfo) op" where
  "fidoDeviceInfo L dev =
     bnd (lfNewDevice L dev) (\<lambda>d. bnd (lfInfo L d) (\<lambda>i. ret (deviceInfoToRPC L i)))"

definition MakeCredential :: "('w, 'v) libfido2 \<Rightarrow> makeRequest \<Rightarrow> ('w, attestation) op" where
  "MakeCredential L req =
     bnd (lfNewDevice L (mqDevice req)) (\<lambda>d.
     bnd (lift (credentialTypeFromString L (mqType req))) (\<lambda>ty.
     bnd (lift (extensionsFromStrings L (mqExtensions req))) (\<lambda>exts.
     bnd (lift (optionValueFromString L (mqRK req))) (\<lambda>rk.
     bnd (lift (optionValueFromString L (mqUV req))) (\<lambda>uv.
     bnd (lift (rpFromRPC (mqRP req))) (\<lambda>rp.
     bnd (lift (userFromRPC (mqUser req))) (\<lambda>user.
     bnd (lfMake L d (mqClientDataHash req) rp user ty (mqPIN req) \<lparr>moExtensions = exts, moRK = rk, moUV = uv\<rparr>) (\<lambda>a.
     ret (attestationToRPC L a)))))))))"

definition SetPIN :: "('w, 'v) libfido2 \<Rightarrow> string \<Rightarrow> string \<Rightarrow> string \<Rightarrow> ('w, unit) op" where
  "SetPIN L dev pin oldPin = bnd (lfNewDevice L dev) (\<lambda>d. lfSetPIN L d pin oldPin)"

definition fidoReset :: "('w, 'v) libfido2 \<Rightarrow> string \<Rightarrow> ('w, unit) op" where
  "fidoReset L dev = bnd (lfNewDevice L dev) (\<lambda>d. lfReset L d)"

definition RetryCount :: "('w, 'v) libfido2 \<Rightarrow> string \<Rightarrow> ('w, int) op" where
  "RetryCount L dev = bnd (lfNewDevice L dev) (\<lambda>d. bnd (lfRetryCount L d) (\<lambda>n. ret (int32 n)))"

text \<open>The salt of the request is not passed on.\<close>

definition Assertion :: "('w, 'v) libfido2 \<Rightarrow> assertionRequest \<Rightarrow> ('w, assertion) op" where
  "Assertion L req =
     bnd (lfNewDevice L (aqDevice req)) (\<lambda>d.
     bnd (lift (extensionsFromStrings L (aqExtensions req))) (\<lambda>exts.
     bnd (lift (optionValueFromString L (aqUV req))) (\<lambda>uv.
     bnd (lift (optionValueFromString L (aqUP req))) (\<lambda>up.
     bnd (lfAssertion L d (aqRPID req) (aqClientDataHash req) (aqCredentialIDs req) (aqPIN req)
            \<lparr>aoExtensions = exts, aoUV = uv, aoUP = up, aoHMACSalt = None\<rparr>) (\<lambda>a.
     ret (assertionToRPC a))))))"

definition pinRequired :: err where
  "pinRequired = ErrStatus ''InvalidArgument'' ''pin required''"

definition fidoCredentialsInfo :: "('w, 'v) libfido2 \<Rightarrow> string \<Rightarrow> string \<Rightarrow> ('w, int \<times> int) op" where
  "fidoCredentialsInfo L dev pin =
     bnd (lfNewDevice L dev) (\<lambda>d.
     bnd (failIf (pin = []) pinRequired) (\<lambda>_.
     bnd (lfCredentialsInfo L d pin) (\<lambda>i. ret (credentialsInfoToRPC i))))"

text \<open>Without a relying party the credentials of all of them; the errors for no party and for a
  device without credentials are told apart by their cause.\<close>

definition fidoCredentials :: "('w, 'v) libfido2 \<Rightarrow> string \<Rightarrow> string \<Rightarrow> string \<Rightarrow> ('w, fidoCredential list) op" where
  "fidoCredentials L dev rpid pin =
     bnd (lfNewDevice L dev) (\<lambda>d.
     bnd (failIf (pin = []) pinRequired) (\<lambda>_.
     if rpid = [] then
       bnd (orElse (lfRelyingParties L d pin)
              (\<lambda>e. if cause e = lfErrPinInvalid L then fail (ErrStatus ''InvalidArgument'' ''pin invalid'')
                   else if cause e \<noteq> lfErrRXNotCBOR L then fail e else ret []) ret) (\<lambda>rps.
       bnd (collect rps (\<lambda>rp. bnd (lfCredentials L d (ryID rp) pin) (\<lambda>cs. ret (Some (credentialsToRPC L rp cs))))) (\<lambda>out.
       ret (concat out)))
     else bnd (lfCredentials L d rpid pin) (\<lambda>cs. ret (credentialsToRPC L \<lparr>ryID = rpid, ryName = []\<rparr> cs))))"

definition RelyingParties :: "('w, 'v) libfido2 \<Rightarrow> string \<Rightarrow> string \<Rightarrow> ('w, relyingParty list) op" where
  "RelyingParties L dev pin =
     bnd (lfNewDevice L dev) (\<lambda>d.
     bnd (failIf (pin = []) pinRequired) (\<lambda>_. lfRelyingParties L d pin))"

text \<open>What is tested of a request for a credential before it is made.\<close>

definition checkGenerate :: "generateRequest \<Rightarrow> err + relyingParty \<times> fidoUser" where
  "checkGenerate req =
     (if glen (gqClientDataHash req) \<noteq> 32 then Inl (Err ''invalid client data hash length'')
      else case gqRP req of None \<Rightarrow> Inl (Err ''no rp specified'')
      | Some rp \<Rightarrow>
          if ryID rp = [] then Inl (Err ''empty rp id'')
          else if ryName rp = [] then Inl (Err ''empty rp name'')
          else case gqUser req of None \<Rightarrow> Inl (Err ''no user specified'')
          | Some u \<Rightarrow>
              if glen (fuID u) = 0 then Inl (Err ''empty user id'')
              else if fuName u = [] then Inl (Err ''empty user name'')
              else Inr (rp, u))"

definition optionValueFromRPC :: "('w, 'v) libfido2 \<Rightarrow> optionValue \<Rightarrow> string" where
  "optionValueFromRPC L v = (case v of OptDefault \<Rightarrow> lfDefault L | OptTrue \<Rightarrow> lfTrue L | OptFalse \<Rightarrow> lfFalse L)"

definition fidoGenerate :: "('w, 'v) libfido2 \<Rightarrow> generateRequest \<Rightarrow> ('w, gobytes) op" where
  "fidoGenerate L req =
     bnd (lfNewDevice L (gqDevice req)) (\<lambda>d.
     bnd (lift (checkGenerate req)) (\<lambda>(rp, u).
     bnd (lfMake L d (gqClientDataHash req) rp u (lfES256 L) (gqPIN req)
            \<lparr>moExtensions = [lfHMACSecretExtension L], moRK = optionValueFromRPC L (gqRK req), moUV = []\<rparr>) (\<lambda>a.
     ret (laCredentialID a))))"

definition fidoSecret :: "('w, 'v) libfido2 \<Rightarrow> secretRequest \<Rightarrow> ('w, gobytes) op" where
  "fidoSecret L req =
     bnd (lfNewDevice L (sqDevice req)) (\<lambda>d.
     bnd (lfAssertion L d (sqRPID req) (sqClientDataHash req) (sqCredentialIDs req) (sqPIN req)
            \<lparr>aoExtensions = [lfHMACSecretExtension L], aoUV = [], aoUP = lfTrue L, aoHMACSalt = sqSalt req\<rparr>) (\<lambda>a.
     ret (lsHMACSecret a)))"

text \<open>The plugin as the service uses it.\<close>

definition generateFor :: "string \<Rightarrow> string \<Rightarrow> string \<Rightarrow> string \<Rightarrow> string \<Rightarrow> string \<Rightarrow> generateRequest" where
  "generateFor dev pin cdh rp user name = \<lparr>gqDevice = dev, gqPIN = pin, gqClientDataHash = Some cdh,
     gqRP = Some \<lparr>ryID = rp, ryName = rp\<rparr>,
     gqUser = Some \<lparr>fuID = Some user, fuName = name, fuDisplayName = [], fuIcon = []\<rparr>, gqRK = OptDefault\<rparr>"

definition secretFor :: "string \<Rightarrow> string \<Rightarrow> string \<Rightarrow> string \<Rightarrow> string \<Rightarrow> gobytes \<Rightarrow> secretRequest" where
  "secretFor dev pin cdh rp cred salt = \<lparr>sqDevice = dev, sqPIN = pin, sqRPID = rp, sqClientDataHash = Some cdh,
     sqCredentialIDs = [Some cred], sqSalt = salt\<rparr>"

definition pluginOf :: "('w, 'v) libfido2 \<Rightarrow> 'w fido2" where
  "pluginOf L = \<lparr>fdDevices = bnd (fidoDevices L) (\<lambda>ds. ret (map device.truncate ds)),
     fdInfo = (\<lambda>dev. bnd (fidoDeviceInfo L dev) (\<lambda>i. ret (deviceInfo.truncate i))),
     fdGenerate = (\<lambda>dev pin cdh rp user name. bnd (fidoGenerate L (generateFor dev pin cdh rp user name)) (\<lambda>c. ret (bstr c))),
     fdSecret = (\<lambda>dev pin cdh rp cred salt. bnd (fidoSecret L (secretFor dev pin cdh rp cred salt)) (\<lambda>b. ret (bstr b)))\<rparr>"

end
