(* ===== verification/FidoMock.thy ===== *)
theory FidoMock
  imports FidoServer
begin

text \<open>
  The mock of the FIDO2 plugin, and what the service relies on of a plugin as the locale
  \<open>authenticator\<close>, which the plugin and the mock provide. The mock is the second implementation of \<^verbatim>\<open>fido2.FIDO2Server\<close>, \<^verbatim>\<open>auth/mock\<close>: devices in memory. Its state
  holds the number of random draws; the HMAC is a parameter.
\<close>

record mockCredential =
  mcCred :: fidoCredential
  mcSecret :: string

record mockDevice =
  mdDev :: fullDevice
  mdInfo :: fullInfo
  mdPin :: string
  mdCredentials :: "(string \<times> mockCredential) list"

record mock =
  mkDevices :: "mockDevice list"
  mkDraws :: nat

record mockLib =
  mlX :: ext
  \<comment> \<open>hmac with SHA256: key and data\<close>
  mlHMAC :: "string \<Rightarrow> string \<Rightarrow> string"

definition mockNewDevice :: "string \<Rightarrow> string \<Rightarrow> mockDevice" where
  "mockNewDevice uuid path =
     \<lparr>mdDev = \<lparr>dvPath = path, dvProduct = ''Test Key'', dvProductID = 123, dvVendorID = 456, dvManufacturer = ''Test Co.''\<rparr>,
      mdInfo = \<lparr>diAAGUID = uuid, diExtensions = [''hmac-secret'', ''credMgmt''], diVersions = [], diOptions = []\<rparr>,
      mdPin = ''12345'', mdCredentials = []\<rparr>"

definition mockNew :: "string \<Rightarrow> mock" where
  "mockNew uuid = \<lparr>mkDevices = [mockNewDevice uuid ''/dev/test''], mkDraws = 0\<rparr>"

definition mockRand32 :: "mockLib \<Rightarrow> (mock, string) op" where
  "mockRand32 M = bnd (gets (\<lambda>s. xRand (mlX M) (mkDraws s) 32)) (\<lambda>b.
     bnd (modify (\<lambda>s. s\<lparr>mkDraws := Suc (mkDraws s)\<rparr>)) (\<lambda>_. ret b))"

definition mockDevices :: "(mock, fullDevice list) op" where
  "mockDevices = gets (\<lambda>s. map mdDev (mkDevices s))"

definition isAt :: "string \<Rightarrow> mockDevice \<Rightarrow> bool" where
  "isAt path d \<longleftrightarrow> dvPath (mdDev d) = path"

definition mockFind :: "string \<Rightarrow> mock \<Rightarrow> mockDevice option" where
  "mockFind path s = List.find (isAt path) (mkDevices s)"

text \<open>Writing through the pointer that the search returned.\<close>

fun updateFirst :: "('a \<Rightarrow> bool) \<Rightarrow> ('a \<Rightarrow> 'a) \<Rightarrow> 'a list \<Rightarrow> 'a list" where
  "updateFirst p f [] = []"
| "updateFirst p f (x # xs) = (if p x then f x # xs else x # updateFirst p f xs)"

definition mockUpdate :: "string \<Rightarrow> (mockDevice \<Rightarrow> mockDevice) \<Rightarrow> (mock, unit) op" where
  "mockUpdate path f = modify (\<lambda>s. s\<lparr>mkDevices := updateFirst (isAt path) f (mkDevices s)\<rparr>)"

definition mockNotFound :: "string \<Rightarrow> err" where
  "mockNotFound dev = Err (''device not found: '' @ dev)"

text \<open>For an unknown device the response is empty; its info is a nil pointer.\<close>

definition mockDeviceInfo :: "string \<Rightarrow> (mock, fullInfo option) op" where
  "mockDeviceInfo dev = gets (\<lambda>s. map_option mdInfo (mockFind dev s))"

definition mockSetPIN :: "string \<Rightarrow> string \<Rightarrow> string \<Rightarrow> (mock, unit) op" where
  "mockSetPIN dev pin oldPin =
     bnd (gets (mockFind dev)) (\<lambda>f.
     case f of None \<Rightarrow> fail (mockNotFound dev)
     | Some d \<Rightarrow>
         bnd (failIf (mdPin d \<noteq> [] \<and> oldPin \<noteq> mdPin d) (Err ''invalid old pin'')) (\<lambda>_.
         mockUpdate dev (\<lambda>d. d\<lparr>mdPin := pin\<rparr>)))"

text \<open>The calls that are not implemented.\<close>

definition mockUnimplemented :: "(mock, 'a) op" where
  "mockUnimplemented = fail (Err ''not implemented'')"

definition mockMake :: "makeRequest \<Rightarrow> (mock, attestation) op" where "mockMake req = mockUnimplemented"
definition mockReset :: "string \<Rightarrow> (mock, unit) op" where "mockReset dev = mockUnimplemented"
definition mockRetryCount :: "string \<Rightarrow> (mock, int) op" where "mockRetryCount dev = mockUnimplemented"
definition mockAssertion :: "assertionRequest \<Rightarrow> (mock, assertion) op" where "mockAssertion req = mockUnimplemented"
definition mockCredentialsInfo :: "string \<Rightarrow> string \<Rightarrow> (mock, int \<times> int) op" where "mockCredentialsInfo dev pin = mockUnimplemented"
definition mockCredentials :: "string \<Rightarrow> string \<Rightarrow> string \<Rightarrow> (mock, fidoCredential list) op" where "mockCredentials dev rpid pin = mockUnimplemented"
definition mockRelyingParties :: "string \<Rightarrow> string \<Rightarrow> (mock, relyingParty list) op" where "mockRelyingParties dev pin = mockUnimplemented"

text \<open>The pin is not looked at.\<close>

definition mockGenerate :: "mockLib \<Rightarrow> generateRequest \<Rightarrow> (mock, gobytes) op" where
  "mockGenerate M req =
     bnd (gets (mockFind (gqDevice req))) (\<lambda>f.
     case f of None \<Rightarrow> fail (mockNotFound (gqDevice req))
     | Some d \<Rightarrow>
         bnd (lift (checkGenerate req)) (\<lambda>(rp, u).
         bnd (mockRand32 M) (\<lambda>i.
         bnd (mockRand32 M) (\<lambda>secret.
         let cred = \<lparr>fcID = Some i, fcType = ''es256'', fcRP = Some rp, fcUser = Some u\<rparr>
         in bnd (mockUpdate (gqDevice req)
                   (\<lambda>d. d\<lparr>mdCredentials := AList.update (xBase62 (mlX M) i) \<lparr>mcCred = cred, mcSecret = secret\<rparr> (mdCredentials d)\<rparr>)) (\<lambda>_.
            ret (Some i))))))"

definition mockSecret :: "mockLib \<Rightarrow> secretRequest \<Rightarrow> (mock, gobytes) op" where
  "mockSecret M req =
     bnd (gets (mockFind (sqDevice req))) (\<lambda>f.
     case f of None \<Rightarrow> fail (mockNotFound (sqDevice req))
     | Some d \<Rightarrow>
         (case List.map_filter (\<lambda>i. map_of (mdCredentials d) (xBase62 (mlX M) (bstr i))) (sqCredentialIDs req) of
            [] \<Rightarrow> fail (Err ''credential not found'')
          | c # _ \<Rightarrow>
              bnd (failIf (glen (sqSalt req) \<noteq> 32) (Err ''invalid salt'')) (\<lambda>_.
              ret (Some (mlHMAC M (mcSecret c @ bstr (sqSalt req)) (bstr (sqClientDataHash req)))))))"

text \<open>The mock as the service uses it.\<close>

definition mockPlugin :: "mockLib \<Rightarrow> mock fido2" where
  "mockPlugin M = \<lparr>fdDevices = bnd mockDevices (\<lambda>ds. ret (map device.truncate ds)),
     fdInfo = (\<lambda>dev. bnd (mockDeviceInfo dev) (\<lambda>i.
        case i of None \<Rightarrow> fail (Panic ''nil pointer'') | Some x \<Rightarrow> ret (deviceInfo.truncate x))),
     fdGenerate = (\<lambda>dev pin cdh rp user name. bnd (mockGenerate M (generateFor dev pin cdh rp user name)) (\<lambda>c. ret (bstr c))),
     fdSecret = (\<lambda>dev pin cdh rp cred salt. bnd (mockSecret M (secretFor dev pin cdh rp cred salt)) (\<lambda>b. ret (bstr b)))\<rparr>"

section \<open>The contract of a plugin\<close>

text \<open>
  What the service relies on of a FIDO2 plugin, as the locale \<open>authenticator\<close>: a device gives
  for a credential it has made, and for a salt, always the same secret. The mock is one provider; the
  plugin over \<^verbatim>\<open>libfido2\<close> another when the library and its devices behave as documented
  (locale \<open>fido_library\<close>).
\<close>

section \<open>The contract\<close>

text \<open>\<open>devs\<close> are the devices in the order listed, \<open>inf\<close> the info of a path, \<open>pinok\<close> says which pin a
  device takes (and that its user is present), \<open>ids\<close> are the credential ids in use. \<open>secret w p c salt\<close>
  is the secret of credential \<open>c\<close> on device \<open>p\<close>.\<close>

locale authenticator =
  fixes F :: "'w fido2"
    and devs :: "'w \<Rightarrow> device list"
    and inf :: "'w \<Rightarrow> string \<Rightarrow> deviceInfo"
    and secret :: "'w \<Rightarrow> string \<Rightarrow> string \<Rightarrow> string \<Rightarrow> string option"
    and pinok :: "'w \<Rightarrow> string \<Rightarrow> string \<Rightarrow> bool"
    and ids :: "string set"
  assumes devices_law: "fdDevices F w = (Inr (devs w), w)"
    and info_law: "d \<in> set (devs w) \<Longrightarrow> fdInfo F (dvPath d) w = (Inr (inf w (dvPath d)), w)"
    and generate_law: "d \<in> set (devs w) \<Longrightarrow> pinok w (dvPath d) pin \<Longrightarrow> user \<noteq> [] \<Longrightarrow> name \<noteq> [] \<Longrightarrow>
      \<exists>c w'. fdGenerate F (dvPath d) pin clientData ''keys.pub'' user name w = (Inr c, w') \<and> c \<in> ids \<and>
        devs w' = devs w \<and> inf w' = inf w \<and> pinok w' = pinok w \<and>
        (\<forall>salt. length salt = 32 \<longrightarrow> secret w' (dvPath d) c salt \<noteq> None) \<and>
        (\<forall>p b salt. (p, b) \<noteq> (dvPath d, c) \<longrightarrow> secret w' p b salt = secret w p b salt)"
    and secret_law: "d \<in> set (devs w) \<Longrightarrow> pinok w (dvPath d) pin \<Longrightarrow> length salt = 32 \<Longrightarrow>
      secret w (dvPath d) c salt = Some k \<Longrightarrow> fdSecret F (dvPath d) pin clientData ''keys.pub'' c (Some salt) w = (Inr k, w)"
    and missing_law: "d \<in> set (devs w) \<Longrightarrow> length salt = 32 \<Longrightarrow> secret w (dvPath d) c salt = None \<Longrightarrow>
      \<exists>e. fdSecret F (dvPath d) pin clientData ''keys.pub'' c (Some salt) w = (Inl e, w)"
    and length_law: "secret w p c salt = Some k \<Longrightarrow> length k = 32"
begin

lemma tryDevices_find:
  assumes "set ds \<subseteq> set (devs w)"
  shows "tryDevices F want pick ds w =
    (Inr (case List.find (\<lambda>d. want d \<and> pick d (inf w (dvPath d)) \<noteq> None) ds of None \<Rightarrow> None
          | Some d \<Rightarrow> pick d (inf w (dvPath d))), w)"
  using assms
proof (induction ds)
  case (Cons d ds)
  then show ?case
    using info_law[of d w] by (auto simp: op_simps orElse_def split: option.splits)
qed (simp add: op_simps)

text \<open>The device that is found by its path or product, and by the model of one of the provisions.\<close>

lemma findDevice_run:
  assumes "q \<noteq> []" "List.find (\<lambda>d. dvPath d = q \<or> dvProduct d = q) (devs w) = Some d"
  shows "findDevice (Some F) q w = (Inr (Some \<lparr>adDevice = d, adInfo = inf w (dvPath d), adProvision = None\<rparr>), w)"
  using assms by (simp add: findDevice_def op_simps devices_law tryDevices_find)

definition deviceFor :: "provision list \<Rightarrow> 'w \<Rightarrow> device option" where
  "deviceFor ps w = List.find (\<lambda>d. HasExtension (inf w (dvPath d)) ''hmac-secret'' \<and>
     matchAAGUID ps (diAAGUID (inf w (dvPath d))) \<noteq> None) (devs w)"

lemma findDeviceProvision_run:
  assumes "deviceFor ps w = Some d" "matchAAGUID ps (diAAGUID (inf w (dvPath d))) = Some p"
  shows "findDeviceProvision (Some F) ps w =
    (Inr \<lparr>adDevice = d, adInfo = inf w (dvPath d), adProvision = Some p\<rparr>, w)"
proof -
  let ?pick = "\<lambda>d info. if HasExtension info ''hmac-secret''
     then (case matchAAGUID ps (diAAGUID info) of None \<Rightarrow> None | Some p \<Rightarrow> Some \<lparr>adDevice = d, adInfo = info, adProvision = Some p\<rparr>)
     else None"
  have "List.find (\<lambda>d. ?pick d (inf w (dvPath d)) \<noteq> None) (devs w) = Some d"
    using assms(1) unfolding deviceFor_def
    by (rule back_subst[of "\<lambda>g. List.find g (devs w) = Some d"]) (auto simp: fun_eq_iff split: option.splits)
  moreover have "HasExtension (inf w (dvPath d)) ''hmac-secret''" "devs w \<noteq> []" "ps \<noteq> []"
    using assms by (auto simp: deviceFor_def find_Some_iff matchAAGUID_def)
  ultimately show ?thesis
    using assms(2) by (simp add: findDeviceProvision_def op_simps devices_law tryDevices_find)
qed

end

section \<open>The mock\<close>

lemma mockFind_in: "mockFind p s = Some d \<Longrightarrow> d \<in> set (mkDevices s) \<and> dvPath (mdDev d) = p"
  by (auto simp: mockFind_def find_Some_iff isAt_def)

lemma find_updateFirst: "(\<And>x. p (f x) = p x) \<Longrightarrow> List.find p (updateFirst p f xs) = map_option f (List.find p xs)"
  by (induction xs) auto

lemma find_updateFirst_other:
  "(\<And>x. q (f x) = q x) \<Longrightarrow> (\<And>x. p x \<Longrightarrow> \<not> q x) \<Longrightarrow> List.find q (updateFirst p f xs) = List.find q xs"
  by (induction xs) auto

lemma map_updateFirst: "(\<And>x. g (f x) = g x) \<Longrightarrow> map g (updateFirst p f xs) = map g xs"
  by (induction xs) auto

definition mockSecretOf :: "mockLib \<Rightarrow> mock \<Rightarrow> string \<Rightarrow> string \<Rightarrow> string \<Rightarrow> string option" where
  "mockSecretOf M s p c salt =
     (case mockFind p s of None \<Rightarrow> None
      | Some d \<Rightarrow> (case map_of (mdCredentials d) (xBase62 (mlX M) c) of None \<Rightarrow> None
                  | Some m \<Rightarrow> Some (mlHMAC M (mcSecret m @ salt) clientData)))"

definition mockInfoOf :: "mock \<Rightarrow> string \<Rightarrow> deviceInfo" where
  "mockInfoOf s p = (case mockFind p s of None \<Rightarrow> \<lparr>diAAGUID = [], diExtensions = []\<rparr>
     | Some d \<Rightarrow> deviceInfo.truncate (mdInfo d))"

definition mock_ok :: "mockLib \<Rightarrow> bool" where
  "mock_ok M \<longleftrightarrow> inj (xBase62 (mlX M)) \<and> (\<forall>k b. length (mlHMAC M k b) = 32)"

lemma checkGenerate_for:
  "user \<noteq> [] \<Longrightarrow> name \<noteq> [] \<Longrightarrow> checkGenerate (generateFor dev pin clientData ''keys.pub'' user name) =
     Inr (\<lparr>ryID = ''keys.pub'', ryName = ''keys.pub''\<rparr>, \<lparr>fuID = Some user, fuName = name, fuDisplayName = [], fuIcon = []\<rparr>)"
  by (simp add: checkGenerate_def generateFor_def clientData_def)

lemma mock_device:
  assumes "d \<in> set (map (device.truncate \<circ> mdDev) (mkDevices s))"
  obtains m where "mockFind (dvPath d) s = Some m"
proof -
  from assms obtain m where "m \<in> set (mkDevices s)" "dvPath (mdDev m) = dvPath d"
    by (auto simp: device.truncate_def)
  then have "mockFind (dvPath d) s \<noteq> None" by (auto simp: mockFind_def find_None_iff isAt_def)
  with that show ?thesis by blast
qed

text \<open>The device after a credential was added, and the state.\<close>

definition mockAdd :: "mockLib \<Rightarrow> string \<Rightarrow> mockCredential \<Rightarrow> mockDevice \<Rightarrow> mockDevice" where
  "mockAdd M i m d = d\<lparr>mdCredentials := AList.update (xBase62 (mlX M) i) m (mdCredentials d)\<rparr>"

definition mockAdded :: "mockLib \<Rightarrow> string \<Rightarrow> string \<Rightarrow> mockCredential \<Rightarrow> nat \<Rightarrow> mock \<Rightarrow> mock" where
  "mockAdded M dev i m n s = s\<lparr>mkDraws := n, mkDevices := updateFirst (isAt dev) (mockAdd M i m) (mkDevices s)\<rparr>"

lemma mockGenerate_run:
  assumes "mockFind dev s = Some d" "user \<noteq> []" "name \<noteq> []"
  shows "\<exists>m n. mockGenerate M (generateFor dev pin clientData ''keys.pub'' user name) s =
    (Inr (Some (xRand (mlX M) (mkDraws s) 32)), mockAdded M dev (xRand (mlX M) (mkDraws s) 32) m n s)"
proof -
  have d: "gqDevice (generateFor dev pin clientData ''keys.pub'' user name) = dev" by (simp add: generateFor_def)
  show ?thesis
    using assms checkGenerate_for[OF assms(2,3), of dev pin]
    by (simp add: mockGenerate_def op_simps mockRand32_def mockUpdate_def Let_def d mockAdded_def mockAdd_def[abs_def]) blast
qed

lemma mock_found:
  "mockFind dev (mockAdded M dev i m n s) = map_option (mockAdd M i m) (mockFind dev s)"
  "q \<noteq> dev \<Longrightarrow> mockFind q (mockAdded M dev i m n s) = mockFind q s"
proof -
  have at: "isAt p (mockAdd M i m x) = isAt p x" for p x by (simp add: isAt_def mockAdd_def)
  show "mockFind dev (mockAdded M dev i m n s) = map_option (mockAdd M i m) (mockFind dev s)"
    by (simp add: mockFind_def mockAdded_def find_updateFirst at)
  show "mockFind q (mockAdded M dev i m n s) = mockFind q s" if "q \<noteq> dev"
    using find_updateFirst_other[of "isAt q" "mockAdd M i m" "isAt dev" "mkDevices s"] that
    by (simp add: mockFind_def mockAdded_def at) (simp add: isAt_def)
qed

lemma mock_added:
  "map (device.truncate \<circ> mdDev) (mkDevices (mockAdded M dev i m n s)) = map (device.truncate \<circ> mdDev) (mkDevices s)"
  "mockInfoOf (mockAdded M dev i m n s) = mockInfoOf s"
proof -
  show "map (device.truncate \<circ> mdDev) (mkDevices (mockAdded M dev i m n s)) = map (device.truncate \<circ> mdDev) (mkDevices s)"
    by (simp add: mockAdded_def map_updateFirst mockAdd_def)
  show "mockInfoOf (mockAdded M dev i m n s) = mockInfoOf s"
  proof
    fix q
    show "mockInfoOf (mockAdded M dev i m n s) q = mockInfoOf s q"
      by (cases "q = dev") (auto simp: mockInfoOf_def mock_found mockAdd_def split: option.splits)
  qed
qed

lemma mock_secrets:
  assumes "mock_ok M" "mockFind dev s = Some d"
  shows "mockSecretOf M (mockAdded M dev i m n s) dev i salt \<noteq> None"
    and "(p, b) \<noteq> (dev, i) \<Longrightarrow> mockSecretOf M (mockAdded M dev i m n s) p b salt = mockSecretOf M s p b salt"
proof -
  show "mockSecretOf M (mockAdded M dev i m n s) dev i salt \<noteq> None"
    using assms(2) by (simp add: mockSecretOf_def mock_found mockAdd_def update_conv')
  show "mockSecretOf M (mockAdded M dev i m n s) p b salt = mockSecretOf M s p b salt" if "(p, b) \<noteq> (dev, i)"
  proof (cases "p = dev")
    case True
    then have "xBase62 (mlX M) b \<noteq> xBase62 (mlX M) i" using that assms(1) by (auto simp: mock_ok_def dest: injD)
    with True assms(2) show ?thesis by (simp add: mockSecretOf_def mock_found mockAdd_def update_conv')
  qed (simp add: mockSecretOf_def mock_found)
qed

lemma mock_authenticator:
  assumes "mock_ok M"
  shows "authenticator (mockPlugin M) (\<lambda>s. map (device.truncate \<circ> mdDev) (mkDevices s)) mockInfoOf (mockSecretOf M) (\<lambda>_ _ _. True)
    (range (\<lambda>d. xRand (mlX M) d 32))"
proof
  show "fdDevices (mockPlugin M) w = (Inr (map (device.truncate \<circ> mdDev) (mkDevices w)), w)" for w
    by (simp add: mockPlugin_def mockDevices_def op_simps)
  show "fdInfo (mockPlugin M) (dvPath d) w = (Inr (mockInfoOf w (dvPath d)), w)"
    if "d \<in> set (map (device.truncate \<circ> mdDev) (mkDevices w))" for d w
    by (rule mock_device[OF that]) (simp add: mockPlugin_def mockDeviceInfo_def mockInfoOf_def op_simps)
  show "\<exists>c w'. fdGenerate (mockPlugin M) (dvPath d) pin clientData ''keys.pub'' user name w = (Inr c, w') \<and>
      c \<in> range (\<lambda>d. xRand (mlX M) d 32) \<and>
      map (device.truncate \<circ> mdDev) (mkDevices w') = map (device.truncate \<circ> mdDev) (mkDevices w) \<and>
      mockInfoOf w' = mockInfoOf w \<and> (\<lambda>_ _. True) = (\<lambda>_ _. True) \<and>
      (\<forall>salt. length salt = 32 \<longrightarrow> mockSecretOf M w' (dvPath d) c salt \<noteq> None) \<and>
      (\<forall>p b salt. (p, b) \<noteq> (dvPath d, c) \<longrightarrow> mockSecretOf M w' p b salt = mockSecretOf M w p b salt)"
    if dev: "d \<in> set (map (device.truncate \<circ> mdDev) (mkDevices w))" and req: "user \<noteq> []" "name \<noteq> []" for d w pin user name
  proof -
    obtain m where m: "mockFind (dvPath d) w = Some m" by (rule mock_device[OF dev])
    let ?i = "xRand (mlX M) (mkDraws w) 32"
    obtain c n where c: "mockGenerate M (generateFor (dvPath d) pin clientData ''keys.pub'' user name) w =
      (Inr (Some ?i), mockAdded M (dvPath d) ?i c n w)"
      using mockGenerate_run[OF m req] by blast
    then have "fdGenerate (mockPlugin M) (dvPath d) pin clientData ''keys.pub'' user name w =
        (Inr ?i, mockAdded M (dvPath d) ?i c n w)"
      by (simp add: mockPlugin_def op_simps)
    moreover have "?i \<in> range (\<lambda>d. xRand (mlX M) d 32)" by (rule rangeI)
    ultimately show ?thesis
      using mock_added[of M "dvPath d" ?i c n w] mock_secrets[OF assms m, where i = ?i and m = c and n = n]
      by (intro exI[of _ ?i] exI[of _ "mockAdded M (dvPath d) ?i c n w"] conjI allI impI) simp_all
  qed
  show "fdSecret (mockPlugin M) (dvPath d) pin clientData ''keys.pub'' c (Some salt) w = (Inr k, w)"
    if "length salt = 32" "mockSecretOf M w (dvPath d) c salt = Some k" for d w pin salt c k
    using that by (auto simp: mockPlugin_def mockSecretOf_def mockSecret_def secretFor_def op_simps map_filter_simps split: option.splits)
  show "\<exists>e. fdSecret (mockPlugin M) (dvPath d) pin clientData ''keys.pub'' c (Some salt) w = (Inl e, w)"
    if "mockSecretOf M w (dvPath d) c salt = None" for d w pin salt c
    using that by (auto simp: mockPlugin_def mockSecretOf_def mockSecret_def secretFor_def op_simps map_filter_simps split: option.splits)
  show "length k = 32" if "mockSecretOf M w p c salt = Some k" for w p c salt k
    using that assms by (auto simp: mockSecretOf_def mock_ok_def split: option.splits)
qed

section \<open>The plugin over the library\<close>

text \<open>The devices as the plugin lists them, and their infos.\<close>

definition listedAt :: "('w \<Rightarrow> libLocation list) \<Rightarrow> 'w \<Rightarrow> device list" where
  "listedAt locs w = map device.truncate (devicesToRPC (sort_key llProduct (locs w)))"

definition infoAt :: "('w, 'v) libfido2 \<Rightarrow> ('w \<Rightarrow> string \<Rightarrow> libInfo) \<Rightarrow> 'w \<Rightarrow> string \<Rightarrow> deviceInfo" where
  "infoAt L linf w p = deviceInfo.truncate (deviceInfoToRPC L (linf w p))"

text \<open>What the library and the devices are documented to do: a handle is opened by a path; a
  credential with the extension \<^verbatim>\<open>hmac-secret\<close> gives for a salt always the same secret.\<close>

locale fido_library =
  fixes L :: "('w, 'v) libfido2"
    and locs :: "'w \<Rightarrow> libLocation list"
    and handle :: "string \<Rightarrow> 'v"
    and linf :: "'w \<Rightarrow> string \<Rightarrow> libInfo"
    and secret :: "'w \<Rightarrow> string \<Rightarrow> string \<Rightarrow> string \<Rightarrow> string option"
    and pinok :: "'w \<Rightarrow> string \<Rightarrow> string \<Rightarrow> bool"
    and ids :: "string set"
  assumes locations: "lfLocations L w = (Inr (locs w), w)"
    and opened: "l \<in> set (locs w) \<Longrightarrow> lfNewDevice L (llPath l) w = (Inr (handle (llPath l)), w)"
    and info: "l \<in> set (locs w) \<Longrightarrow> lfInfo L (handle (llPath l)) w = (Inr (linf w (llPath l)), w)"
    and make: "l \<in> set (locs w) \<Longrightarrow> pinok w (llPath l) pin \<Longrightarrow> bstr (fuID user) \<noteq> [] \<Longrightarrow> moExtensions opts = [lfHMACSecretExtension L] \<Longrightarrow>
      \<exists>a w'. lfMake L (handle (llPath l)) (Some clientData) \<lparr>ryID = ''keys.pub'', ryName = ''keys.pub''\<rparr> user (lfES256 L) pin opts w
           = (Inr a, w') \<and> bstr (laCredentialID a) \<in> ids \<and>
        locs w' = locs w \<and> linf w' = linf w \<and> pinok w' = pinok w \<and>
        (\<forall>salt. length salt = 32 \<longrightarrow> secret w' (llPath l) (bstr (laCredentialID a)) salt \<noteq> None) \<and>
        (\<forall>p b salt. (p, b) \<noteq> (llPath l, bstr (laCredentialID a)) \<longrightarrow> secret w' p b salt = secret w p b salt)"
    and assertion: "l \<in> set (locs w) \<Longrightarrow> pinok w (llPath l) pin \<Longrightarrow> length salt = 32 \<Longrightarrow> secret w (llPath l) c salt = Some k \<Longrightarrow>
      aoExtensions aopts = [lfHMACSecretExtension L] \<Longrightarrow> aoHMACSalt aopts = Some salt \<Longrightarrow>
      \<exists>a. lfAssertion L (handle (llPath l)) ''keys.pub'' (Some clientData) [Some c] pin aopts w = (Inr a, w) \<and> lsHMACSecret a = Some k"
    and no_assertion: "l \<in> set (locs w) \<Longrightarrow> secret w (llPath l) c salt = None \<Longrightarrow> length salt = 32 \<Longrightarrow> aoHMACSalt aopts = Some salt \<Longrightarrow>
      \<exists>e. lfAssertion L (handle (llPath l)) ''keys.pub'' (Some clientData) [Some c] pin aopts w = (Inl e, w)"
    and size: "secret w p c salt = Some k \<Longrightarrow> length k = 32"
begin

lemma listed_location:
  assumes "d \<in> set (listedAt locs w)"
  obtains l where "l \<in> set (locs w)" "dvPath d = llPath l"
  using assms by (auto simp: listedAt_def devicesToRPC_def device.truncate_def)

end

sublocale fido_library \<subseteq> plugin: authenticator "pluginOf L" "listedAt locs" "infoAt L linf" secret pinok ids
proof
  show "fdDevices (pluginOf L) w = (Inr (listedAt locs w), w)" for w
    by (simp add: pluginOf_def fidoDevices_def op_simps locations listedAt_def)
  show "fdInfo (pluginOf L) (dvPath d) w = (Inr (infoAt L linf w (dvPath d)), w)" if "d \<in> set (listedAt locs w)" for d w
    by (rule listed_location[OF that]) (simp add: pluginOf_def fidoDeviceInfo_def op_simps opened info infoAt_def)
  show "\<exists>c w'. fdGenerate (pluginOf L) (dvPath d) pin clientData ''keys.pub'' user name w = (Inr c, w') \<and> c \<in> ids \<and>
      listedAt locs w' = listedAt locs w \<and> infoAt L linf w' = infoAt L linf w \<and> pinok w' = pinok w \<and>
      (\<forall>salt. length salt = 32 \<longrightarrow> secret w' (dvPath d) c salt \<noteq> None) \<and>
      (\<forall>p b salt. (p, b) \<noteq> (dvPath d, c) \<longrightarrow> secret w' p b salt = secret w p b salt)"
    if dev: "d \<in> set (listedAt locs w)" "pinok w (dvPath d) pin" and req: "user \<noteq> []" "name \<noteq> []" for d w pin user name
  proof -
    obtain l where l: "l \<in> set (locs w)" "dvPath d = llPath l" by (rule listed_location[OF dev(1)])
    let ?u = "\<lparr>fuID = Some user, fuName = name, fuDisplayName = [], fuIcon = []\<rparr>"
    let ?o = "\<lparr>moExtensions = [lfHMACSecretExtension L], moRK = optionValueFromRPC L OptDefault, moUV = []\<rparr>"
    have "pinok w (llPath l) pin" "bstr (fuID ?u) \<noteq> []" "moExtensions ?o = [lfHMACSecretExtension L]"
      using dev(2) l(2) req by simp_all
    from make[OF l(1) this] obtain a w' where a: "lfMake L (handle (llPath l)) (Some clientData)
        \<lparr>ryID = ''keys.pub'', ryName = ''keys.pub''\<rparr> ?u (lfES256 L) pin ?o w = (Inr a, w')"
      and rest: "bstr (laCredentialID a) \<in> ids" "locs w' = locs w" "linf w' = linf w" "pinok w' = pinok w"
        "\<forall>salt. length salt = 32 \<longrightarrow> secret w' (llPath l) (bstr (laCredentialID a)) salt \<noteq> None"
        "\<forall>p b salt. (p, b) \<noteq> (llPath l, bstr (laCredentialID a)) \<longrightarrow> secret w' p b salt = secret w p b salt"
      by blast
    have f: "gqDevice (generateFor q pin cdh rp u nm) = q" "gqClientDataHash (generateFor q pin cdh rp u nm) = Some cdh"
      "gqPIN (generateFor q pin cdh rp u nm) = pin" "gqRK (generateFor q pin cdh rp u nm) = OptDefault" for q cdh rp u nm
      by (simp_all add: generateFor_def)
    have "fdGenerate (pluginOf L) (dvPath d) pin clientData ''keys.pub'' user name w = (Inr (bstr (laCredentialID a)), w')"
      using a by (simp add: pluginOf_def fidoGenerate_def op_simps l(2) opened[OF l(1)] checkGenerate_for[OF req] f)
    with rest l(2) show ?thesis by (auto simp: listedAt_def infoAt_def fun_eq_iff)
  qed
  show "fdSecret (pluginOf L) (dvPath d) pin clientData ''keys.pub'' c (Some salt) w = (Inr k, w)"
    if "d \<in> set (listedAt locs w)" "pinok w (dvPath d) pin" "length salt = 32" "secret w (dvPath d) c salt = Some k" for d w pin salt c k
  proof -
    note dev = that
    obtain l where l: "l \<in> set (locs w)" "dvPath d = llPath l" by (rule listed_location[OF dev(1)])
    with assertion[OF l(1) _ dev(3), of pin c k "\<lparr>aoExtensions = [lfHMACSecretExtension L], aoUV = [], aoUP = lfTrue L, aoHMACSalt = Some salt\<rparr>"]
      dev(2,4) show ?thesis by (auto simp: pluginOf_def fidoSecret_def secretFor_def op_simps opened)
  qed
  show "\<exists>e. fdSecret (pluginOf L) (dvPath d) pin clientData ''keys.pub'' c (Some salt) w = (Inl e, w)"
    if "d \<in> set (listedAt locs w)" "length salt = 32" "secret w (dvPath d) c salt = None" for d w pin salt c
  proof -
    note dev = that
    obtain l where l: "l \<in> set (locs w)" "dvPath d = llPath l" by (rule listed_location[OF dev(1)])
    with no_assertion[OF l(1) _ dev(2), of c "\<lparr>aoExtensions = [lfHMACSecretExtension L], aoUV = [], aoUP = lfTrue L, aoHMACSalt = Some salt\<rparr>" pin]
      dev(3) show ?thesis by (auto simp: pluginOf_def fidoSecret_def secretFor_def op_simps opened)
  qed
  show "length k = 32" if "secret w p c salt = Some k" for w p c salt k by (rule size[OF that])
qed

context fido_library
begin

lemma is_authenticator: "authenticator (pluginOf L) (listedAt locs) (infoAt L linf) secret pinok ids"
  by (rule plugin.authenticator_axioms)

end

end
