(* ===== verification/FidoProps.thy ===== *)
theory FidoProps
  imports FidoMock PasswordProps
begin

text \<open>
  Unlocking the vault with a FIDO2 device: \<^verbatim>\<open>generateHMACSecret\<close> and \<^verbatim>\<open>unlockHMACSecret\<close> of
  \<^verbatim>\<open>service/auth_fido2.go\<close> over any authenticator and any store, composed from the refinements of
  the vault; the properties for the plugin over the library.
\<close>

section \<open>The calls of the service\<close>

lemma onVault_done: "m (svVault s) = (r, v) \<Longrightarrow> onVault m s = (r, s\<lparr>svVault := v\<rparr>)"
  by (simp add: onVault_def zoom_def)

lemma onDevice_run: "m (svWorld s) = (r, w) \<Longrightarrow> onDevice m s = (r, s\<lparr>svWorld := w\<rparr>)"
  by (simp add: onDevice_def zoom_def)

lemma service_same [simp]: "s\<lparr>svVault := svVault s\<rparr> = s" "s\<lparr>svWorld := svWorld s\<rparr> = s"
  by simp_all

context authenticator
begin

text \<open>The credential is made on the device that was asked for and saved as a provision.\<close>

lemma generateHMACSecret_run:
  fixes E :: "('s, 'n, 'd, 'w, 'k, 'f, 'r) rpc" and s :: "('s, 'n, 'd, 'w) service"
  assumes G: "aeFido G = Some F" "aeAppName G \<noteq> []" and st: "store (rpI E) contents ready" "libs_ok (rpX E)"
    and rep: "vaultRep (rpX E) contents ready n base (svVault s) A" and n: "n < maxIndex"
    and q: "q \<noteq> []" "List.find (\<lambda>d. dvPath d = q \<or> dvProduct d = q) (devs (svWorld s)) = Some d"
    and pin: "pinok (svWorld s) (dvPath d) pin" and ids: "\<And>c. c \<in> ids \<Longrightarrow> authId (xBase62 (rpX E) c)"
  obtains p s1 c salt where "generateHMACSecret E G pin q s = (Inr p, s1)"
    "vaultRep (rpX E) contents ready (n + 1) base (svVault s1) (A\<lparr>aProvs := (aProvs A)(pvID p \<mapsto> p)\<rparr>)"
    "vRemote (svVault s1) = vRemote (svVault s)"
    "pvID p = xBase62 (rpX E) c" "c \<in> ids" "pvSalt p = Some salt" "length salt = 32"
    "pvAAGUID p = diAAGUID (inf (svWorld s) (dvPath d))" "secret (svWorld s1) (dvPath d) c salt \<noteq> None"
    "devs (svWorld s1) = devs (svWorld s)" "inf (svWorld s1) = inf (svWorld s)" "pinok (svWorld s1) = pinok (svWorld s)"
proof -
  let ?X = "rpX E"
  have rand: "length (xRand ?X i k) = k" for i k using libs_okD(3)[OF st(2)] by (simp add: rand_ok_def)
  have d: "d \<in> set (devs (svWorld s))" using q(2) by (auto simp: find_Some_iff)
  have u: "xRand ?X (svDraws s) 16 \<noteq> []" using rand[of "svDraws s" 16] by force
  obtain c w where c: "fdGenerate F (dvPath d) pin clientData ''keys.pub'' (xRand ?X (svDraws s) 16) (aeAppName G) (svWorld s) = (Inr c, w)"
      "c \<in> ids" "devs w = devs (svWorld s)" "inf w = inf (svWorld s)" "pinok w = pinok (svWorld s)"
      "\<forall>salt. length salt = 32 \<longrightarrow> secret w (dvPath d) c salt \<noteq> None"
    using generate_law[OF d pin u G(2)] by blast
  let ?salt = "xRand ?X (Suc (svDraws s)) 32" and ?v = "(svVault s)\<lparr>vTicks := Suc (vTicks (svVault s))\<rparr>"
  define p where "p = \<lparr>pvID = xBase62 ?X c, pvType = FIDO2HMACSecretAuth, pvCreatedAt = xNow ?X (vTicks (svVault s)),
    pvAAGUID = diAAGUID (inf (svWorld s) (dvPath d)), pvSalt = Some ?salt, pvNoPin = (pin = [])\<rparr>"
  have "plain (pvID p)" using ids[OF c(2)] by (simp add: p_def authIdD)
  moreover have "vaultRep ?X contents ready n base ?v A" using rep by simp
  ultimately obtain v' where v': "ProvisionSave ?X (rpI E) p ?v = (Inr (), v')"
      "vaultRep ?X contents ready (n + 1) base v' (A\<lparr>aProvs := (aProvs A)(pvID p \<mapsto> p)\<rparr>)" "vRemote v' = vRemote ?v"
    using store.provisionSave_ok[OF st(1,2) _ n] by (metis ProvisionSave_def)
  let ?s1 = "s\<lparr>svWorld := w, svDraws := Suc (Suc (svDraws s)), svVault := v'\<rparr>"
  have "generateHMACSecret E G pin q s = (Inr p, ?s1)"
    using v'(1) findDevice_run[OF q] c(1) q(1)
    by (simp add: generateHMACSecret_def G(1) op_simps onDevice_def onVault_def zoom_def svcDraw_def timeNow_def p_def[symmetric] Let_def)
  with v' c rand show ?thesis
    by (intro that[of p ?s1 c ?salt]) (simp_all add: p_def)
qed

text \<open>The secret of the provision that the plugged in device is found by.\<close>

lemma hmacSecret_run:
  fixes E :: "('s, 'n, 'd, 'w, 'k, 'f, 'r) rpc" and s :: "('s, 'n, 'd, 'w) service"
  assumes "aeFido G = Some F" "store (rpI E) contents ready" "libs_ok (rpX E)"
    and "vaultRep (rpX E) contents ready n base (svVault s) A"
    and "sort_key pvCreatedAt (List.map_filter (aProvs A) (rowIds (aProvs A))) = ps" "deviceFor ps (svWorld s) = Some d"
    and "matchAAGUID ps (diAAGUID (inf (svWorld s) (dvPath d))) = Some p" "aeUnBase62 G (pvID p) = Inr c"
  shows "hmacSecret E G pin s = (case fdSecret F (dvPath d) pin clientData ''keys.pub'' c (pvSalt p) (svWorld s) of
     (Inl e, w) \<Rightarrow> (Inl e, s\<lparr>svWorld := w\<rparr>) | (Inr k, w) \<Rightarrow> (Inr (k, p), s\<lparr>svWorld := w\<rparr>))"
proof -
  have "Provisions (rpX E) (rpI E) (svVault s) = (Inr ps, svVault s)"
    using store.provisions_run[OF assms(2-4)] assms(5) by simp
  moreover have "ps \<noteq> []" using assms(7) by (auto simp: matchAAGUID_def)
  ultimately show ?thesis
    using findDeviceProvision_run[OF assms(6,7)] assms(8)
    by (simp add: hmacSecret_def assms(1) op_simps onDevice_def onVault_def zoom_def wrapErr_def split: prod.split sum.split)
qed

text \<open>Finishing the setup, and unlocking.\<close>

lemma first_unlock:
  fixes E :: "('s, 'n, 'd, 'w, 'k, 'f, 'r) rpc" and s :: "('s, 'n, 'd, 'w) service"
  assumes "aeFido G = Some F" and st: "store (rpI E) contents ready" "libs_ok (rpX E)"
    and rep: "vaultRep (rpX E) contents ready n base (svVault s) A" and n: "n + 1 < maxIndex"
    and A: "aAuths A = Map.empty" "aItems A = Map.empty" "\<not> aOpen A" "vRemote (svVault s) = None"
    and ps: "sort_key pvCreatedAt (List.map_filter (aProvs A) (rowIds (aProvs A))) = ps" "deviceFor ps (svWorld s) = Some d"
      "matchAAGUID ps (diAAGUID (inf (svWorld s) (dvPath d))) = Some p"
    and id: "aeUnBase62 G (pvID p) = Inr c" "authId (pvID p)" "pvSalt p = Some salt" "length salt = 32"
    and k: "pinok (svWorld s) (dvPath d) pin" "secret (svWorld s) (dvPath d) c salt = Some k"
  obtains v' n' mk where "unlockHMACSecret E G pin s = (Inr (), s\<lparr>svVault := v'\<rparr>)" "n' \<le> n + 2"
    "vaultRep (rpX E) contents ready n' base v' (A\<lparr>aMk := mk, aAuths := [pvID p \<mapsto> k], aProvs := (aProvs A)(pvID p \<mapsto> p), aOpen := True\<rparr>)"
proof -
  let ?mk = "xRand (rpX E) (vDraws (svVault s)) 32"
  let ?B = "A\<lparr>aMk := ?mk, aAuths := [pvID p \<mapsto> k], aProvs := (aProvs A)(pvID p \<mapsto> p)\<rparr>"
  have d: "d \<in> set (devs (svWorld s))" using ps(2) by (auto simp: deviceFor_def find_Some_iff)
  have len: "length k = 32" by (rule length_law[OF k(2)])
  have h: "hmacSecret E G pin s = (Inr (k, p), s)"
    using hmacSecret_run[OF assms(1) st rep ps id(1)] secret_law[OF d k(1) id(4) k(2)] id(3) by simp
  have stat: "Status (rpX E) (rpI E) (svVault s) = (Inr SetupNeeded, svVault s)"
    using store.refine_Status_run[OF st rep] A by (auto simp: absStatus_def op_simps)
  have "sim (rpX E) contents ready base 2 n (Setup (rpX E) (rpI E) (Some k) (Some p)) (absSetup ?mk k p) (svVault s) A"
    using A by (intro store.refine_Setup[OF st rep n id(2) len]) simp
  moreover have "absSetup ?mk k p A = (Inr (), ?B)"
    using A by (simp add: absSetup_def absStatus_def absAddAuth_def op_simps)
  ultimately obtain v1 n1 where v1: "Setup (rpX E) (rpI E) (Some k) (Some p) (svVault s) = (Inr (), v1)" "n1 \<le> n + 2"
      "vaultRep (rpX E) contents ready n1 base v1 ?B"
    unfolding sim_def by auto
  have "opensWith k (aAuths ?B) = [pvID p]" by (simp add: opensWith_def rowIds_def)
  then have "absUnlock k ?B = (Inr p, ?B\<lparr>aOpen := True\<rparr>)" by (simp add: absUnlock_def op_simps)
  then obtain v2 n2 where v2: "Unlock (rpX E) (rpI E) (Some k) v1 = (Inr p, v2)" "n2 \<le> n1"
      "vaultRep (rpX E) contents ready n2 base v2 (?B\<lparr>aOpen := True\<rparr>)"
    using store.refine_Unlock[OF st v1(3) len] unfolding sim_def by auto
  have "unlockHMACSecret E G pin s = (Inr (), s\<lparr>svVault := v2\<rparr>)"
    using h stat v1(1) v2(1) len by (simp add: unlockHMACSecret_def op_simps onVault_def zoom_def)
  with v1(2) v2(2,3) show ?thesis by (intro that[of v2 n2 ?mk]) simp_all
qed

lemma next_unlock:
  fixes E :: "('s, 'n, 'd, 'w, 'k, 'f, 'r) rpc" and s :: "('s, 'n, 'd, 'w) service"
  assumes "aeFido G = Some F" and st: "store (rpI E) contents ready" "libs_ok (rpX E)"
    and rep: "vaultRep (rpX E) contents ready n base (svVault s) A"
    and A: "aAuths A i = Some k"
    and ps: "sort_key pvCreatedAt (List.map_filter (aProvs A) (rowIds (aProvs A))) = ps" "deviceFor ps (svWorld s) = Some d"
      "matchAAGUID ps (diAAGUID (inf (svWorld s) (dvPath d))) = Some p"
    and id: "aeUnBase62 G (pvID p) = Inr c" "pvSalt p = Some salt" "length salt = 32"
    and k: "pinok (svWorld s) (dvPath d) pin" "secret (svWorld s) (dvPath d) c salt = Some k"
  obtains v' where "unlockHMACSecret E G pin s = (Inr (), s\<lparr>svVault := v'\<rparr>)" "vMk v' = Some (aMk A)"
proof -
  have d: "d \<in> set (devs (svWorld s))" using ps(2) by (auto simp: deviceFor_def find_Some_iff)
  have len: "length k = 32" by (rule length_law[OF k(2)])
  have h: "hmacSecret E G pin s = (Inr (k, p), s)"
    using hmacSecret_run[OF assms(1) st rep ps id(1)] secret_law[OF d k(1) id(3) k(2)] id(2) by simp
  have "finite (dom (aAuths A))"
    using tableRep_finite[OF contRepD(7)[OF vaultRepD(2)[OF rep]] store.contents_finite[OF st(1) vaultRepD(1)[OF rep]]] .
  then have "opensWith k (aAuths A) \<noteq> []" using mem_opensWith[of "aAuths A" i k] A by force
  then obtain j js where "opensWith k (aAuths A) = j # js" by (cases "opensWith k (aAuths A)") auto
  then obtain pr where "absUnlock k A = (Inr pr, A\<lparr>aOpen := True\<rparr>)" by (simp add: absUnlock_def op_simps)
  then obtain v' n' where v': "Unlock (rpX E) (rpI E) (Some k) (svVault s) = (Inr pr, v')"
      "vaultRep (rpX E) contents ready n' base v' (A\<lparr>aOpen := True\<rparr>)"
    using store.refine_Unlock[OF st rep len] unfolding sim_def by auto
  have stat: "\<exists>x. Status (rpX E) (rpI E) (svVault s) = (Inr x, svVault s) \<and> x \<noteq> SetupNeeded"
    using store.refine_Status_run[OF st rep] A by (auto simp: absStatus_def op_simps)
  have "unlockHMACSecret E G pin s = (Inr (), s\<lparr>svVault := v'\<rparr>)"
    using h stat v'(1) len by (auto simp: unlockHMACSecret_def op_simps onVault_def zoom_def)
  with vaultRepD(3)[OF v'(2)] show ?thesis by (intro that) simp_all
qed

text \<open>The whole way on a vault that was never set up: setup, first unlock, lock, unlock.\<close>

lemma set_up_and_unlock:
  fixes E :: "('s, 'n, 'd, 'w, 'k, 'f, 'r) rpc" and s :: "('s, 'n, 'd, 'w) service"
  assumes G: "aeFido G = Some F" "aeAppName G \<noteq> []" and st: "store (rpI E) contents ready" "libs_ok (rpX E)"
    and rep: "vaultRep (rpX E) contents ready n base (svVault s) A" and n: "n + 2 < maxIndex"
    and A: "aAuths A = Map.empty" "aProvs A = Map.empty" "aItems A = Map.empty" "\<not> aOpen A" "vRemote (svVault s) = None"
    and q: "q \<noteq> []" "List.find (\<lambda>d. dvPath d = q \<or> dvProduct d = q) (devs (svWorld s)) = Some d"
    and model: "List.find (\<lambda>x. HasExtension (inf (svWorld s) (dvPath x)) ''hmac-secret'' \<and>
      diAAGUID (inf (svWorld s) (dvPath x)) = diAAGUID (inf (svWorld s) (dvPath d))) (devs (svWorld s)) = Some d"
    and pin: "pinok (svWorld s) (dvPath d) pin"
    and ids: "\<And>c. c \<in> ids \<Longrightarrow> authId (xBase62 (rpX E) c) \<and> aeUnBase62 G (xBase62 (rpX E) c) = Inr c"
  shows "\<exists>p s1 s2 s3 mk. generateHMACSecret E G pin q s = (Inr p, s1) \<and>
    Status (rpX E) (rpI E) (svVault s1) = (Inr SetupNeeded, svVault s1) \<and>
    unlockHMACSecret E G pin s1 = (Inr (), s2) \<and> vMk (svVault s2) = Some mk \<and>
    unlockHMACSecret E G pin (s2\<lparr>svVault := snd (Lock (svVault s2))\<rparr>) = (Inr (), s3) \<and> vMk (svVault s3) = Some mk"
proof -
  have n1: "n < maxIndex" "n + 1 + 1 < maxIndex" using n by simp_all
  obtain p s1 c salt where g: "generateHMACSecret E G pin q s = (Inr p, s1)"
    "vaultRep (rpX E) contents ready (n + 1) base (svVault s1) (A\<lparr>aProvs := (aProvs A)(pvID p \<mapsto> p)\<rparr>)"
    "vRemote (svVault s1) = vRemote (svVault s)"
    "pvID p = xBase62 (rpX E) c" "c \<in> ids" "pvSalt p = Some salt" "length salt = 32"
    "pvAAGUID p = diAAGUID (inf (svWorld s) (dvPath d))" "secret (svWorld s1) (dvPath d) c salt \<noteq> None"
    "devs (svWorld s1) = devs (svWorld s)" "inf (svWorld s1) = inf (svWorld s)" "pinok (svWorld s1) = pinok (svWorld s)"
    using generateHMACSecret_run[OF G st rep n1(1) q pin] ids by metis
  from g(9) obtain k where k: "secret (svWorld s1) (dvPath d) c salt = Some k" by blast
  let ?A1 = "A\<lparr>aProvs := (aProvs A)(pvID p \<mapsto> p)\<rparr>"
  have provs: "sort_key pvCreatedAt (List.map_filter (aProvs B) (rowIds (aProvs B))) = [p]" if "aProvs B = [pvID p \<mapsto> p]" for B
    using that by (simp add: rowIds_def map_filter_simps)
  have match: "matchAAGUID [p] x \<noteq> None \<longleftrightarrow> x = diAAGUID (inf (svWorld s) (dvPath d))"
    "matchAAGUID [p] (diAAGUID (inf (svWorld s) (dvPath d))) = Some p" for x
    by (auto simp: matchAAGUID_def g(8))
  have dev: "deviceFor [p] w = Some d" if "devs w = devs (svWorld s)" "inf w = inf (svWorld s)" for w
    using model unfolding deviceFor_def that match(1) .
  have id: "aeUnBase62 G (pvID p) = Inr c" "authId (pvID p)" using ids[OF g(5)] g(4) by simp_all
  obtain v2 n2 mk where u: "unlockHMACSecret E G pin s1 = (Inr (), s1\<lparr>svVault := v2\<rparr>)" "n2 \<le> n + 1 + 2"
    "vaultRep (rpX E) contents ready n2 base v2 (?A1\<lparr>aMk := mk, aAuths := [pvID p \<mapsto> k], aProvs := (aProvs ?A1)(pvID p \<mapsto> p), aOpen := True\<rparr>)"
    by (rule first_unlock[OF G(1) st g(2) n1(2), of "[p]" d p c salt pin k])
      (use A g k provs[of ?A1] match(2) dev[of "svWorld s1"] id pin in simp_all)
  let ?A2 = "?A1\<lparr>aMk := mk, aAuths := [pvID p \<mapsto> k], aProvs := (aProvs ?A1)(pvID p \<mapsto> p), aOpen := True\<rparr>"
  let ?v3 = "snd (Lock v2)" and ?A3 = "?A2\<lparr>aOpen := False\<rparr>"
  have "sim (rpX E) contents ready base 0 n2 Lock absLock v2 ?A2" by (rule store.refine_Lock[OF st(1) u(3)])
  then obtain n3 where r3: "vaultRep (rpX E) contents ready n3 base ?v3 ?A3" by (auto simp: sim_def absLock_def op_simps)
  let ?s3 = "s1\<lparr>svVault := ?v3\<rparr>"
  obtain v4 where v4: "unlockHMACSecret E G pin ?s3 = (Inr (), ?s3\<lparr>svVault := v4\<rparr>)" "vMk v4 = Some (aMk ?A3)"
    by (rule next_unlock[OF G(1) st, of n3 base ?s3 ?A3 "pvID p" k "[p]" d p c salt pin])
      (use A g k r3 provs[of ?A3] match(2) dev[of "svWorld s1"] id pin in simp_all)
  have "Status (rpX E) (rpI E) (svVault s1) = (Inr SetupNeeded, svVault s1)"
    using store.refine_Status_run[OF st g(2)] A by (auto simp: absStatus_def op_simps)
  moreover have "vMk v2 = Some mk" using vaultRepD(3)[OF u(3)] by simp
  ultimately show ?thesis using g(1) u(1) v4
    by (intro exI[of _ p] exI[of _ s1] exI[of _ "s1\<lparr>svVault := v2\<rparr>"] exI[of _ "?s3\<lparr>svVault := v4\<rparr>"] exI[of _ mk]) simp
qed

end

section \<open>Properties\<close>

text \<open>C20. A device unlocks what it set up: on a vault without auths, items or provisions, for the plugin
  over any library that behaves as documented, setting up with a plugged in device, named by path
  or product and found again by its model, succeeds and leaves the vault to be set up; the first
  unlock with it sets the vault up and opens it; and after a lock it opens it again, with the same
  master key.\<close>

theorem device_unlocks:
  assumes "fido_library L locs handle linf secret pinok ids" "aeFido G = Some (pluginOf L)" "aeAppName G \<noteq> []"
    and "store (rpI E) contents ready" "libs_ok (rpX E)"
    and "vaultRep (rpX E) contents ready n base (svVault s) A" "n + 2 < maxIndex"
    and "aAuths A = Map.empty" "aProvs A = Map.empty" "aItems A = Map.empty" "\<not> aOpen A" "vRemote (svVault s) = None"
    and "q \<noteq> []" "List.find (\<lambda>d. dvPath d = q \<or> dvProduct d = q) (listedAt locs (svWorld s)) = Some d"
    and "List.find (\<lambda>x. HasExtension (infoAt L linf (svWorld s) (dvPath x)) ''hmac-secret'' \<and>
      diAAGUID (infoAt L linf (svWorld s) (dvPath x)) = diAAGUID (infoAt L linf (svWorld s) (dvPath d))) (listedAt locs (svWorld s)) = Some d"
    and "pinok (svWorld s) (dvPath d) pin"
    and "\<And>c. c \<in> ids \<Longrightarrow> authId (xBase62 (rpX E) c) \<and> aeUnBase62 G (xBase62 (rpX E) c) = Inr c"
  shows "\<exists>p s1 s2 s3 mk. generateHMACSecret E G pin q s = (Inr p, s1) \<and>
    Status (rpX E) (rpI E) (svVault s1) = (Inr SetupNeeded, svVault s1) \<and>
    unlockHMACSecret E G pin s1 = (Inr (), s2) \<and> vMk (svVault s2) = Some mk \<and>
    unlockHMACSecret E G pin (s2\<lparr>svVault := snd (Lock (svVault s2))\<rparr>) = (Inr (), s3) \<and> vMk (svVault s3) = Some mk"
proof -
  have a: "authenticator (pluginOf L) (listedAt locs) (infoAt L linf) secret pinok ids"
    using assms(1) by (rule fido_library.is_authenticator)
  show ?thesis
    by (rule authenticator.set_up_and_unlock[OF a assms(2-17)])
qed

text \<open>C39. One of two devices of a model is locked out: a device is found by its model, and of the
  provisions of that model the oldest is taken. When it is the other device's, unlocking fails, although
  the vault has an auth and a provision for which this device gives the key, with which the vault
  would open.\<close>

theorem same_model_refused:
  assumes "fido_library L locs handle linf secret pinok ids" "aeFido G = Some (pluginOf L)"
    and "store (rpI E) contents ready" "libs_ok (rpX E)" "vaultRep (rpX E) contents ready n base (svVault s) A"
    and "aProvs A i = Some p1" "aProvs A j = Some p2" "pvCreatedAt p1 < pvCreatedAt p2" "pvAAGUID p1 = pvAAGUID p2"
    and "dom (aProvs A) = {i, j}" "listedAt locs (svWorld s) = [d]"
    and "HasExtension (infoAt L linf (svWorld s) (dvPath d)) ''hmac-secret''"
      "diAAGUID (infoAt L linf (svWorld s) (dvPath d)) = pvAAGUID p2"
    and "pvSalt p1 = Some salt1" "length salt1 = 32" "aeUnBase62 G (pvID p1) = Inr c1" "secret (svWorld s) (dvPath d) c1 salt1 = None"
    and "pvSalt p2 = Some salt2" "aeUnBase62 G (pvID p2) = Inr c2" "secret (svWorld s) (dvPath d) c2 salt2 = Some k" "aAuths A j = Some k"
  shows "(\<exists>e. unlockHMACSecret E G pin s = (Inl e, s)) \<and>
    (\<exists>pr. fst (Unlock (rpX E) (rpI E) (Some k) (svVault s)) = Inr pr)"
proof -
  have a: "authenticator (pluginOf L) (listedAt locs) (infoAt L linf) secret pinok ids"
    using assms(1) by (rule fido_library.is_authenticator)
  let ?ps = "sort_key pvCreatedAt (List.map_filter (aProvs A) (rowIds (aProvs A)))"
  have ij: "i \<noteq> j" using assms(6-8) by auto
  have ids: "rowIds (aProvs A) = [i, j] \<or> rowIds (aProvs A) = [j, i]"
    using ij assms(10) by (auto simp: rowIds_def sorted_list_of_set_insert_remove)
  have ps: "?ps = [p1, p2]" using ids assms(6-8) by (auto simp: map_filter_simps)
  have m: "matchAAGUID [p1, p2] (diAAGUID (infoAt L linf (svWorld s) (dvPath d))) = Some p1"
    using assms(9,13) by (simp add: matchAAGUID_def)
  have "authenticator.deviceFor (listedAt locs) (infoAt L linf) [p1, p2] (svWorld s) = Some d"
    using m assms(11,12) by (simp add: authenticator.deviceFor_def[OF a])
  note h = authenticator.hmacSecret_run[OF a assms(2-5) ps this m assms(16)]
  obtain e where "fdSecret (pluginOf L) (dvPath d) pin clientData ''keys.pub'' c1 (Some salt1) (svWorld s) = (Inl e, svWorld s)"
    using authenticator.missing_law[OF a _ assms(15,17)] assms(11) by auto
  then have "unlockHMACSecret E G pin s = (Inl e, s)"
    using h assms(14) by (simp add: unlockHMACSecret_def op_simps)
  moreover have "length k = 32" by (rule authenticator.length_law[OF a assms(20)])
  ultimately show ?thesis using store.unlocks_iff(1)[OF assms(3-5)] assms(21) by blast
qed

section \<open>Instances\<close>

text \<open>The mock with a simple HMAC.\<close>

definition stdMock :: mockLib where
  "stdMock = \<lparr>mlX = stdX, mlHMAC = (\<lambda>k b. take 32 (k @ b @ replicate 32 (CHR ''.'')))\<rparr>"

interpretation mockKey: authenticator "mockPlugin stdMock" "\<lambda>s. map (device.truncate \<circ> mdDev) (mkDevices s)" mockInfoOf
  "mockSecretOf stdMock" "\<lambda>_ _ _. True" "range (\<lambda>d. xRand (mlX stdMock) d 32)"
  by (rule mock_authenticator) (auto simp: mock_ok_def stdMock_def stdX_def inj_def min_def)

text \<open>One device that keeps its credentials among the files and gives the salt as the secret.\<close>

definition tokenFile :: "string \<Rightarrow> string" where
  "tokenFile c = ''/key/'' @ c"

definition tokenLib :: "(outside, string) libfido2" where
  "tokenLib = \<lparr>
     lfLocations = ret [\<lparr>llPath = ''/dev/key'', llProductID = 1, llVendorID = 2, llManufacturer = ''Maker'', llProduct = ''Key''\<rparr>],
     lfNewDevice = ret, lfType = (\<lambda>_. ret ''fido2''),
     lfInfo = (\<lambda>_. ret \<lparr>liVersions = [], liExtensions = [''hmac-secret''], liAAGUID = Some ''model'', liOptions = []\<rparr>),
     lfMake = (\<lambda>_ cdh _ _ ty _ _. bnd (gets (\<lambda>w. natStr (length (ouFiles w)))) (\<lambda>i.
        bnd (modify (\<lambda>w. w\<lparr>ouFiles := AList.update (tokenFile i) [] (ouFiles w)\<rparr>)) (\<lambda>_.
        ret \<lparr>laClientDataHash = cdh, laAuthData = None, laCredentialID = Some i, laCredentialType = ty, laPubKey = None,
             laCert = None, laSig = None, laFormat = ''none''\<rparr>))),
     lfSetPIN = (\<lambda>_ _ _. ret ()), lfReset = (\<lambda>_. ret ()), lfRetryCount = (\<lambda>_. ret 8),
     lfAssertion = (\<lambda>_ _ _ cs _ opts. bnd (gets (\<lambda>w. map (map_of (ouFiles w) \<circ> tokenFile \<circ> bstr) cs)) (\<lambda>fs.
        bnd (failIf (list_all (\<lambda>f. f = None) fs) (LibErr ''no credentials'')) (\<lambda>_.
        ret \<lparr>lsAuthDataCBOR = None, lsSig = None, lsHMACSecret = aoHMACSalt opts\<rparr>))),
     lfCredentialsInfo = (\<lambda>_ _. ret (0, 8)), lfCredentials = (\<lambda>_ _ _. ret []), lfRelyingParties = (\<lambda>_ _. ret []), lfUUID = Inr,
     lfFIDO2 = ''fido2'', lfU2F = ''u2f'', lfES256 = -7, lfEDDSA = -8, lfRS256 = -257, lfTrue = ''true'', lfFalse = ''false'',
     lfDefault = [], lfHMACSecretExtension = ''hmac-secret'', lfCredProtectExtension = ''credProtect'',
     lfErrPinInvalid = LibErr ''pin invalid'', lfErrRXNotCBOR = LibErr ''rx not cbor''\<rparr>"

definition tokenLocs :: "outside \<Rightarrow> libLocation list" where
  "tokenLocs w = [\<lparr>llPath = ''/dev/key'', llProductID = 1, llVendorID = 2, llManufacturer = ''Maker'', llProduct = ''Key''\<rparr>]"

definition tokenInfo :: "outside \<Rightarrow> string \<Rightarrow> libInfo" where
  "tokenInfo w p = \<lparr>liVersions = [], liExtensions = [''hmac-secret''], liAAGUID = Some ''model'', liOptions = []\<rparr>"

definition tokenSecret :: "outside \<Rightarrow> string \<Rightarrow> string \<Rightarrow> string \<Rightarrow> string option" where
  "tokenSecret w p c salt = (if map_of (ouFiles w) (tokenFile c) \<noteq> None \<and> length salt = 32 \<and> p = ''/dev/key'' then Some salt else None)"

lemma token_paths: "l \<in> set (tokenLocs w) \<Longrightarrow> llPath l = ''/dev/key''"
  by (simp add: tokenLocs_def)

interpretation token: fido_library tokenLib tokenLocs "\<lambda>p. p" tokenInfo tokenSecret "\<lambda>_ _ _. True" "range natStr"
proof
  show "\<exists>a w'. lfMake tokenLib (llPath l) (Some clientData) \<lparr>ryID = ''keys.pub'', ryName = ''keys.pub''\<rparr> user (lfES256 tokenLib) pin opts w
           = (Inr a, w') \<and> bstr (laCredentialID a) \<in> range natStr \<and>
        tokenLocs w' = tokenLocs w \<and> tokenInfo w' = tokenInfo w \<and> (\<lambda>_ _. True) = (\<lambda>_ _. True) \<and>
        (\<forall>salt. length salt = 32 \<longrightarrow> tokenSecret w' (llPath l) (bstr (laCredentialID a)) salt \<noteq> None) \<and>
        (\<forall>p b salt. (p, b) \<noteq> (llPath l, bstr (laCredentialID a)) \<longrightarrow> tokenSecret w' p b salt = tokenSecret w p b salt)"
    if "l \<in> set (tokenLocs w)" for l w pin user opts
    using token_paths[OF that]
    by (auto simp: tokenLib_def op_simps tokenSecret_def update_conv' tokenFile_def tokenLocs_def tokenInfo_def[abs_def])
qed (auto simp: tokenLib_def op_simps tokenLocs_def tokenInfo_def tokenSecret_def split: if_splits)

definition tokenAuthLib :: "(kvdisk, outside) authLib" where
  "tokenAuthLib = (demoAuthLib False)\<lparr>aeFido := Some (pluginOf tokenLib)\<rparr>"

lemma natStr_id: "authId (natStr n)"
proof -
  have "CHR ''/'' \<notin> set (natStr n)" "CHR ''#'' \<notin> set (natStr n)" using natStr_digits[of "CHR ''/''" n] natStr_digits[of "CHR ''#''" n] by (auto simp: isDigit_def)
  moreover from this have "\<not> prefix ''#auth'' (natStr n)" using set_mono_prefix[of "''#auth''" "natStr n"] by auto
  ultimately show ?thesis by (auto simp: authId_def plain_def convertID_def prefix_def)
qed

definition freshService :: "(mem, unit, kvdisk, outside) service" where
  "freshService = demoService\<lparr>svVault := demoNew\<rparr>"

lemma device_unlocks_witness:
  "\<exists>p s1 s2 s3 mk. generateHMACSecret demoRpc tokenAuthLib ''1234'' ''/dev/key'' freshService = (Inr p, s1) \<and>
    unlockHMACSecret demoRpc tokenAuthLib ''1234'' s1 = (Inr (), s2) \<and> vMk (svVault s2) = Some mk \<and>
    unlockHMACSecret demoRpc tokenAuthLib ''1234'' (s2\<lparr>svVault := snd (Lock (svVault s2))\<rparr>) = (Inr (), s3) \<and>
    vMk (svVault s3) = Some mk"
proof -
  have G: "aeFido tokenAuthLib = Some (pluginOf tokenLib)" "aeAppName tokenAuthLib \<noteq> []"
    by (simp_all add: tokenAuthLib_def demoAuthLib_def)
  have E: "store (rpI demoRpc) memContents memReady" "libs_ok (rpX demoRpc)"
    "vaultRep (rpX demoRpc) memContents memReady 0 [] (svVault freshService) demoAbs"
    using memStore.store_axioms demo_new by (simp_all add: freshService_def)
  have A: "aAuths demoAbs = Map.empty" "aProvs demoAbs = Map.empty" "aItems demoAbs = Map.empty" "\<not> aOpen demoAbs"
    "vRemote (svVault freshService) = None"
    by (simp_all add: freshService_def demoAbs_def avaultNew_def demoNew_def vaultNew_def)
  let ?d = "\<lparr>dvPath = ''/dev/key'', dvProduct = ''Key''\<rparr>"
  have l: "listedAt tokenLocs w = [?d]" for w
    by (simp add: listedAt_def tokenLocs_def devicesToRPC_def device.truncate_def)
  have ext: "HasExtension (infoAt tokenLib tokenInfo w p) ''hmac-secret''" for w p
    by (simp add: HasExtension_def infoAt_def tokenInfo_def deviceInfoToRPC_def deviceInfo.truncate_def)
  have ids: "authId (xBase62 (rpX demoRpc) c) \<and> aeUnBase62 tokenAuthLib (xBase62 (rpX demoRpc) c) = Inr c" if "c \<in> range natStr" for c
    using that natStr_id by (auto simp: stdX_def tokenAuthLib_def demoAuthLib_def)
  show ?thesis
    using device_unlocks[OF token.fido_library_axioms G E _ A, of "''/dev/key''" ?d "''1234''"] ids
    by (simp add: l ext) blast
qed

text \<open>A vault with two devices of one model, of which the second is plugged in.\<close>

definition modelProv :: "string \<Rightarrow> int \<Rightarrow> char \<Rightarrow> provision" where
  "modelProv i t c = \<lparr>pvID = i, pvType = FIDO2HMACSecretAuth, pvCreatedAt = t, pvAAGUID = ''model'',
     pvSalt = Some (replicate 32 c), pvNoPin = True\<rparr>"

definition twoVault :: "(mem, unit) vault" where
  "twoVault = snd (Provision stdX memOps (Some (replicate 32 (CHR ''b''))) (Some (modelProv ''c2'' 2 (CHR ''b'')))
     (snd (Unlock stdX memOps (Some (replicate 32 (CHR ''k'')))
       (snd (Setup stdX memOps (Some (replicate 32 (CHR ''k''))) (Some (modelProv ''c1'' 1 (CHR ''a''))) demoNew)))))"

definition twoDevices :: "(mem, unit, kvdisk, outside) service" where
  "twoDevices = demoService\<lparr>svVault := twoVault, svWorld := \<lparr>ouChains = [], ouFiles = [(tokenFile ''c2'', [])]\<rparr>\<rparr>"

definition twoAbs :: avault where
  "twoAbs = \<lparr>aOpen = True, aMk = xRand stdX 0 32,
     aAuths = [''c1'' \<mapsto> replicate 32 (CHR ''k''), ''c2'' \<mapsto> replicate 32 (CHR ''b'')],
     aProvs = [''c1'' \<mapsto> modelProv ''c1'' 1 (CHR ''a''), ''c2'' \<mapsto> modelProv ''c2'' 2 (CHR ''b'')], aItems = Map.empty\<rparr>"

lemma two_vault: "\<exists>n. vaultRep stdX memContents memReady n [] twoVault twoAbs"
proof -
  let ?p1 = "modelProv ''c1'' 1 (CHR ''a'')" and ?p2 = "modelProv ''c2'' 2 (CHR ''b'')"
  let ?k1 = "replicate 32 (CHR ''k'')" and ?k2 = "replicate 32 (CHR ''b'')"
  let ?A1 = "\<lparr>aOpen = False, aMk = xRand stdX 0 32, aAuths = [''c1'' \<mapsto> ?k1], aProvs = [''c1'' \<mapsto> ?p1], aItems = Map.empty\<rparr>"
  have ids: "authId ''c1''" "authId ''c2''" "pvID ?p1 = ''c1''" "pvID ?p2 = ''c2''"
    by (simp_all add: authId_def plain_def convertID_def modelProv_def)
  have new: "vDraws demoNew = 0" "vRemote demoNew = None" by (simp_all add: demoNew_def vaultNew_def)
  have "sim stdX memContents memReady [] 2 0 (Setup stdX memOps (Some ?k1) (Some ?p1))
      (absSetup (xRand stdX (vDraws demoNew) 32) ?k1 ?p1) demoNew demoAbs"
    by (rule memStore.refine_Setup[OF std_libs demo_new]) (simp_all add: ids new demoAbs_def avaultNew_def)
  moreover have "absSetup (xRand stdX 0 32) ?k1 ?p1 demoAbs = (Inr (), ?A1)"
    by (simp add: absSetup_def absStatus_def absAddAuth_def op_simps demoAbs_def avaultNew_def ids)
  ultimately obtain v1 n1 where v1: "Setup stdX memOps (Some ?k1) (Some ?p1) demoNew = (Inr (), v1)" "n1 \<le> 2"
      "vaultRep stdX memContents memReady n1 [] v1 ?A1"
    unfolding sim_def new by auto
  have "opensWith ?k1 (aAuths ?A1) = [''c1'']" by (simp add: opensWith_def rowIds_def)
  then have "absUnlock ?k1 ?A1 = (Inr ?p1, ?A1\<lparr>aOpen := True\<rparr>)" by (simp add: absUnlock_def op_simps)
  then obtain v2 n2 where v2: "Unlock stdX memOps (Some ?k1) v1 = (Inr ?p1, v2)" "n2 \<le> n1"
      "vaultRep stdX memContents memReady n2 [] v2 (?A1\<lparr>aOpen := True\<rparr>)"
    using memStore.refine_Unlock[OF std_libs v1(3), of ?k1] unfolding sim_def by auto
  have "sim stdX memContents memReady [] 2 n2 (Provision stdX memOps (Some ?k2) (Some ?p2)) (absProvision ?k2 ?p2) v2 (?A1\<lparr>aOpen := True\<rparr>)"
    using v1(2) v2(2) by (intro memStore.refine_Provision[OF std_libs v2(3)]) (simp_all add: ids)
  moreover have "absProvision ?k2 ?p2 (?A1\<lparr>aOpen := True\<rparr>) = (Inr (), twoAbs)"
    by (simp add: absProvision_def absAddAuth_def op_simps ids twoAbs_def)
  ultimately show ?thesis using v1(1) v2(1) unfolding sim_def twoVault_def by auto
qed

lemma same_model_refused_witness:
  "(\<exists>e. unlockHMACSecret demoRpc tokenAuthLib ''1234'' twoDevices = (Inl e, twoDevices)) \<and>
   (\<exists>pr. fst (Unlock (rpX demoRpc) (rpI demoRpc) (Some (replicate 32 (CHR ''b''))) (svVault twoDevices)) = Inr pr)"
proof -
  obtain n where n: "vaultRep stdX memContents memReady n [] twoVault twoAbs" using two_vault by blast
  have w: "svVault twoDevices = twoVault" "svWorld twoDevices = \<lparr>ouChains = [], ouFiles = [(tokenFile ''c2'', [])]\<rparr>"
    by (simp_all add: twoDevices_def)
  have G: "aeFido tokenAuthLib = Some (pluginOf tokenLib)" by (simp add: tokenAuthLib_def)
  have E: "store (rpI demoRpc) memContents memReady" "libs_ok (rpX demoRpc)"
    "vaultRep (rpX demoRpc) memContents memReady n [] (svVault twoDevices) twoAbs"
    using memStore.store_axioms n w by simp_all
  let ?p1 = "modelProv ''c1'' 1 (CHR ''a'')" and ?p2 = "modelProv ''c2'' 2 (CHR ''b'')"
  have A: "aProvs twoAbs ''c1'' = Some ?p1" "aProvs twoAbs ''c2'' = Some ?p2" "pvCreatedAt ?p1 < pvCreatedAt ?p2"
    "pvAAGUID ?p1 = pvAAGUID ?p2" "dom (aProvs twoAbs) = {''c1'', ''c2''}"
    by (auto simp: twoAbs_def modelProv_def)
  let ?d = "\<lparr>dvPath = ''/dev/key'', dvProduct = ''Key''\<rparr>" and ?w = "svWorld twoDevices"
  have d: "listedAt tokenLocs ?w = [?d]" "HasExtension (infoAt tokenLib tokenInfo ?w (dvPath ?d)) ''hmac-secret''"
    "diAAGUID (infoAt tokenLib tokenInfo ?w (dvPath ?d)) = pvAAGUID ?p2"
    by (simp_all add: listedAt_def tokenLocs_def devicesToRPC_def device.truncate_def HasExtension_def infoAt_def tokenInfo_def
        deviceInfoToRPC_def deviceInfo.truncate_def bytesToUUIDString_def tokenLib_def modelProv_def)
  have c: "pvSalt ?p1 = Some (replicate 32 (CHR ''a''))" "length (replicate 32 (CHR ''a'')) = 32"
    "aeUnBase62 tokenAuthLib (pvID ?p1) = Inr ''c1''" "tokenSecret ?w (dvPath ?d) ''c1'' (replicate 32 (CHR ''a'')) = None"
    "pvSalt ?p2 = Some (replicate 32 (CHR ''b''))" "aeUnBase62 tokenAuthLib (pvID ?p2) = Inr ''c2''"
    "tokenSecret ?w (dvPath ?d) ''c2'' (replicate 32 (CHR ''b'')) = Some (replicate 32 (CHR ''b''))"
    "aAuths twoAbs ''c2'' = Some (replicate 32 (CHR ''b''))"
    by (simp_all add: modelProv_def tokenAuthLib_def demoAuthLib_def tokenSecret_def tokenFile_def w twoAbs_def)
  show ?thesis
    using same_model_refused[OF token.fido_library_axioms G E A d c] .
qed

end
