(* ===== verification/Cli.thy ===== *)
theory Cli
  imports ServiceFiles ServiceSession Env FidoServer
begin

text \<open>
  The command line client of \<^verbatim>\<open>src/service\<close>: what a run of a command reads and writes, the flags it
  is called with (as \<^verbatim>\<open>urfave/cli\<close> gives them to the action), the calls it makes
  (\<^verbatim>\<open>RPCClient\<close>, \<^verbatim>\<open>FIDO2Client\<close>), and the helpers of \<^verbatim>\<open>cmd.go\<close>, \<^verbatim>\<open>password.go\<close> and \<^verbatim>\<open>support.go\<close>.
\<close>

section \<open>A run of a command\<close>

text \<open>
  \<open>clStdin\<close> is what the reads of the standard input return, in order: the bytes that are there when it
  is read, or an error; then the end. \<open>clTyped\<close> is what is typed at the password prompts. \<open>clEnv\<close> is
  the rest: the connection to the service, files. A process that has exited has an exit code.
\<close>

record 'e cli =
  clEnv :: 'e
  clStdin :: "(err + string) list"
  clTerm :: bool
  clTermErr :: "err option"
  clTyped :: "(err + string) list"
  clOut :: string
  clErr :: string
  clExit :: "int option"

type_synonym ('e, 'a) run = "('e cli, 'a) op"

definition nl :: char where "nl = CHR 0x0A"

definition call :: "('e, 'a) op \<Rightarrow> ('e, 'a) run" where
  "call m = zoom clEnv (\<lambda>e s. s\<lparr>clEnv := e\<rparr>) m"

text \<open>\<^verbatim>\<open>fmt.Print\<close> and \<^verbatim>\<open>fmt.Println\<close>, and the same to the standard error.\<close>

definition print :: "string \<Rightarrow> ('e, unit) run" where
  "print t = modify (\<lambda>s. s\<lparr>clOut := clOut s @ t\<rparr>)"

definition println :: "string \<Rightarrow> ('e, unit) run" where
  "println t = print (t @ [nl])"

definition printErr :: "string \<Rightarrow> ('e, unit) run" where
  "printErr t = modify (\<lambda>s. s\<lparr>clErr := clErr s @ t\<rparr>)"

definition printlnErr :: "string \<Rightarrow> ('e, unit) run" where
  "printlnErr t = printErr (t @ [nl])"

text \<open>\<^verbatim>\<open>os.Exit\<close>: nothing runs after it, like a panic that is not recovered.\<close>

definition exit :: "int \<Rightarrow> ('e, 'a) run" where
  "exit code = (\<lambda>s. (Inl (Panic ''exit''), s\<lparr>clExit := Some code\<rparr>))"

text \<open>
  \<^verbatim>\<open>bufio.Reader.ReadString('\n')\<close>: the text (which is also returned with an error), what stays in the
  buffer of this reader, the error, and what is left to read. A reader takes all of a read into its
  buffer, so that the rest of it is lost with the reader.
\<close>

fun takeLine :: "string \<Rightarrow> (err + string) list \<Rightarrow> (string \<times> string \<times> err option) \<times> (err + string) list" where
  "takeLine buf [] = (if nl \<in> set buf
     then ((takeWhile (\<lambda>c. c \<noteq> nl) buf @ [nl], tl (dropWhile (\<lambda>c. c \<noteq> nl) buf), None), []) else ((buf, [], Some EOF), []))"
| "takeLine buf (r # rs) = (if nl \<in> set buf
     then ((takeWhile (\<lambda>c. c \<noteq> nl) buf @ [nl], tl (dropWhile (\<lambda>c. c \<noteq> nl) buf), None), r # rs)
     else case r of Inl e \<Rightarrow> ((buf, [], Some e), rs) | Inr b \<Rightarrow> takeLine (buf @ b) rs)"

definition readString :: "string \<Rightarrow> ('e, string \<times> string \<times> err option) run" where
  "readString buf = zoom clStdin (\<lambda>i s. s\<lparr>clStdin := i\<rparr>) (\<lambda>i. case takeLine buf i of (r, i') \<Rightarrow> (Inr r, i'))"

definition readLine :: "string \<Rightarrow> ('e, string \<times> string) run" where
  "readLine buf = bnd (readString buf) (\<lambda>(t, rest, e). case e of Some x \<Rightarrow> fail x | None \<Rightarrow> ret (t, rest))"

text \<open>\<^verbatim>\<open>ioutil.ReadAll\<close> of the standard input.\<close>

fun takeAll :: "string \<Rightarrow> (err + string) list \<Rightarrow> (err + string) \<times> (err + string) list" where
  "takeAll b [] = (Inr b, [])"
| "takeAll b (Inl e # rs) = (Inl e, rs)"
| "takeAll b (Inr c # rs) = takeAll (b @ c) rs"

definition readAllIn :: "('e, string) run" where
  "readAllIn = zoom clStdin (\<lambda>i s. s\<lparr>clStdin := i\<rparr>) (takeAll [])"

section \<open>Flags and commands\<close>

text \<open>
  The flags a command declares, with the names of each (separated by commas) and its default; the flags
  given on the command line; and what \<^verbatim>\<open>c.String\<close>, \<^verbatim>\<open>c.Bool\<close> and so on return. A flag that is not
  declared has no value.
\<close>

datatype flag = StringFlag string string | BoolFlag string | IntFlag string int | StringSliceFlag string

datatype givenValue = VString string | VBool bool | VInt int | VSlice "string list"

primrec flagName :: "flag \<Rightarrow> string" where
  "flagName (StringFlag n d) = n"
| "flagName (BoolFlag n) = n"
| "flagName (IntFlag n d) = n"
| "flagName (StringSliceFlag n) = n"

primrec flagDefault :: "flag \<Rightarrow> givenValue" where
  "flagDefault (StringFlag n d) = VString d"
| "flagDefault (BoolFlag n) = VBool False"
| "flagDefault (IntFlag n d) = VInt d"
| "flagDefault (StringSliceFlag n) = VSlice []"

definition flagNames :: "flag \<Rightarrow> string list" where
  "flagNames f = map trimSpace (splitOn (CHR '','') (flagName f))"

record cliContext =
  ctFlags :: "flag list"
  ctGiven :: "(string \<times> givenValue) list"
  ctGlobals :: "flag list"
  ctGlobalGiven :: "(string \<times> givenValue) list"
  ctArgs :: "string list"

definition flagValue :: "flag list \<Rightarrow> (string \<times> givenValue) list \<Rightarrow> string \<Rightarrow> givenValue option" where
  "flagValue fs given n =
     (case List.find (\<lambda>f. n \<in> set (flagNames f)) fs of None \<Rightarrow> None
      | Some f \<Rightarrow> (case List.find (\<lambda>(m, v). m \<in> set (flagNames f)) (rev given) of
           Some (m, v) \<Rightarrow> Some v | None \<Rightarrow> Some (flagDefault f)))"

definition cString :: "cliContext \<Rightarrow> string \<Rightarrow> string" where
  "cString c n = (case flagValue (ctFlags c) (ctGiven c) n of Some (VString s) \<Rightarrow> s | _ \<Rightarrow> [])"

definition cBool :: "cliContext \<Rightarrow> string \<Rightarrow> bool" where
  "cBool c n = (case flagValue (ctFlags c) (ctGiven c) n of Some (VBool b) \<Rightarrow> b | _ \<Rightarrow> False)"

definition cInt :: "cliContext \<Rightarrow> string \<Rightarrow> int" where
  "cInt c n = (case flagValue (ctFlags c) (ctGiven c) n of Some (VInt i) \<Rightarrow> i | _ \<Rightarrow> 0)"

definition cSlice :: "cliContext \<Rightarrow> string \<Rightarrow> string list" where
  "cSlice c n = (case flagValue (ctFlags c) (ctGiven c) n of Some (VSlice l) \<Rightarrow> l | _ \<Rightarrow> [])"

definition cGlobalString :: "cliContext \<Rightarrow> string \<Rightarrow> string" where
  "cGlobalString c n = (case flagValue (ctGlobals c) (ctGlobalGiven c) n of Some (VString s) \<Rightarrow> s | _ \<Rightarrow> [])"

definition cGlobalBool :: "cliContext \<Rightarrow> string \<Rightarrow> bool" where
  "cGlobalBool c n = (case flagValue (ctGlobals c) (ctGlobalGiven c) n of Some (VBool b) \<Rightarrow> b | _ \<Rightarrow> False)"

definition cArg :: "cliContext \<Rightarrow> nat \<Rightarrow> string" where
  "cArg c i = (if i < length (ctArgs c) then ctArgs c ! i else [])"

datatype 'e command =
  Command (cmName: string) (cmAliases: "string list") (cmFlags: "flag list") (cmSub: "'e command list")
    (cmAction: "(cliContext \<Rightarrow> 'e cli \<Rightarrow> ((err + unit) \<times> 'e cli) option) option")

text \<open>An action that ends; those that may still be running at the end of a schedule are \<open>None\<close> then.\<close>

definition act :: "(cliContext \<Rightarrow> ('e, unit) run) \<Rightarrow> (cliContext \<Rightarrow> 'e cli \<Rightarrow> ((err + unit) \<times> 'e cli) option) option" where
  "act f = Some (\<lambda>c. liftP (f c))"

section \<open>The clients of the service\<close>

text \<open>
  A stream of requests and responses: opening it, sending, closing its sending side, receiving
  (whose end is \<^verbatim>\<open>io.EOF\<close>), and closing it for the one response.
\<close>

record ('e, 'i, 'o) stream =
  smOpen :: "('e, unit) op"
  smSend :: "'i \<Rightarrow> ('e, unit) op"
  smCloseSend :: "('e, unit) op"
  smRecv :: "('e, 'o) op"

record verifyResponse =
  vrSigner :: "rpcKey option"
  vrData :: string

record decryptResponse =
  drSender :: "rpcKey option"
  drMode :: encryptMode
  drData :: string

record encryptFileInput =
  efIn :: string
  efOut :: string
  efRecipients :: "string list"
  efSender :: string
  efOptions :: encryptOptions

record signFileInput =
  sfSigner :: string
  sfArmored :: bool
  sfDetached :: bool
  sfIn :: string
  sfOut :: string

text \<open>\<^verbatim>\<open>RPCClient\<close>: the calls the commands make, with the fields of the requests they set.\<close>

record 'e rpcClient =
  cRuntimeStatus :: "('e, runtimeStatus) op"
  cAuthSetup :: "authType \<Rightarrow> string \<Rightarrow> string \<Rightarrow> ('e, unit) op"
  cAuthUnlock :: "authType \<Rightarrow> string \<Rightarrow> string \<Rightarrow> ('e, string) op"
  cAuthLock :: "('e, unit) op"
  cAuthVault :: "string \<Rightarrow> ('e, unit) op"
  cAuthProvision :: "authType \<Rightarrow> string \<Rightarrow> string \<Rightarrow> bool \<Rightarrow> ('e, rpcProvision) op"
  cAuthDeprovision :: "string \<Rightarrow> ('e, unit) op"
  cAuthProvisions :: "('e, rpcProvision list) op"
  cAuthPasswordChange :: "string \<Rightarrow> string \<Rightarrow> ('e, unit) op"
  cAuthReset :: "string \<Rightarrow> ('e, unit) op"
  cRand :: "int \<Rightarrow> encoding \<Rightarrow> bool \<Rightarrow> bool \<Rightarrow> ('e, string) op"
  cRandPassword :: "int \<Rightarrow> ('e, string) op"
  cKeyGenerate :: "string \<Rightarrow> ('e, string) op"
  cKeys :: "string list \<Rightarrow> ('e, rpcKey list) op"
  cKey :: "string \<Rightarrow> ('e, rpcKey option) op"
  cKeyImport :: "string \<Rightarrow> string \<Rightarrow> ('e, string) op"
  cKeyExport :: "string \<Rightarrow> exportType \<Rightarrow> bool \<Rightarrow> bool \<Rightarrow> string \<Rightarrow> ('e, string) op"
  cKeyRemove :: "string \<Rightarrow> ('e, unit) op"
  cSigchain :: "string \<Rightarrow> ('e, rpcKey option \<times> rpcStatement list) op"
  cStatement :: "string \<Rightarrow> int \<Rightarrow> ('e, rpcStatement) op"
  cStatementCreate :: "string \<Rightarrow> gobytes \<Rightarrow> bool \<Rightarrow> ('e, rpcStatement) op"
  cStatementRevoke :: "string \<Rightarrow> int \<Rightarrow> bool \<Rightarrow> ('e, rpcStatement) op"
  cUser :: "string \<Rightarrow> bool \<Rightarrow> ('e, rpcUser option) op"
  cUserSearch :: "string \<Rightarrow> int \<Rightarrow> bool \<Rightarrow> ('e, rpcUser option list) op"
  cUserSign :: "string \<Rightarrow> string \<Rightarrow> string \<Rightarrow> ('e, string) op"
  cUserAdd :: "string \<Rightarrow> string \<Rightarrow> string \<Rightarrow> string \<Rightarrow> bool \<Rightarrow> ('e, rpcStatement) op"
  cPull :: "string \<Rightarrow> ('e, string list) op"
  cPush :: "string \<Rightarrow> bool \<Rightarrow> ('e, string list) op"
  cCollections :: "string \<Rightarrow> string \<Rightarrow> ('e, string list) op"
  cDocuments :: "string \<Rightarrow> string \<Rightarrow> ('e, rpcDocument list) op"
  cDocumentDelete :: "string \<Rightarrow> string \<Rightarrow> ('e, unit) op"
  cAdminSignURL :: "string \<Rightarrow> string \<Rightarrow> string \<Rightarrow> ('e, string \<times> string) op"
  cAdminCheck :: "string \<Rightarrow> string \<Rightarrow> ('e, unit) op"
  cVaultSync :: "('e, unit) op"
  cVaultAuth :: "('e, string) op"
  cVerifyStream :: "('e, string, verifyResponse) stream"
  cDecryptStream :: "('e, string, decryptResponse) stream"
  cEncryptStream :: "('e, encryptInput, string) stream"
  cSignStream :: "('e, signInput, string) stream"
  cVerifyDetachedStream :: "('e, gobytes \<times> string, rpcKey option) stream"
  cVerifyDetachedFile :: "('e, string \<times> string, rpcKey option) stream"
  cVerifyFile :: "('e, string \<times> string, rpcKey option \<times> string) stream"
  cDecryptFile :: "('e, string \<times> string, rpcKey option \<times> string \<times> encryptMode) stream"
  cEncryptFile :: "('e, encryptFileInput, unit) stream"
  cSignFile :: "('e, signFileInput, string) stream"

text \<open>\<^verbatim>\<open>FIDO2Client\<close>.\<close>

record 'e fidoClient =
  fcDevices :: "('e, fullDevice list) op"
  fcDeviceType :: "string \<Rightarrow> ('e, deviceKind) op"
  fcDeviceInfo :: "string \<Rightarrow> ('e, fullInfo) op"
  fcCredentialsInfo :: "string \<Rightarrow> string \<Rightarrow> ('e, int \<times> int) op"
  fcCredentials :: "string \<Rightarrow> string \<Rightarrow> ('e, fidoCredential list) op"

record 'e cliClient =
  coRPC :: "'e rpcClient"
  coFIDO2 :: "'e fidoClient"

text \<open>
  What the commands use besides: JSON of a message, the conflict check of \<^verbatim>\<open>install.go\<close>, six random
  words, reading files and \<^verbatim>\<open>filepath.Abs\<close>.
\<close>

record 'e cliLib =
  cuProvisions :: "rpcProvision list \<Rightarrow> string"
  cuKey :: "rpcKey \<Rightarrow> string"
  cuDevices :: "fullDevice list \<Rightarrow> string"
  cuDeviceInfo :: "fullInfo \<Rightarrow> string"
  cuCredentialsInfo :: "int \<times> int \<Rightarrow> string"
  cuCredentials :: "fidoCredential list \<Rightarrow> string"
  cuDevice :: "fullDevice \<times> fullInfo \<Rightarrow> err + string"
  cuAppConflict :: "string \<Rightarrow> ('e, unit) op"
  cuWords :: "('e, string) op"
  \<comment> \<open>fmt.Fprintf of a format and no arguments, strconv.Quote, text of the sign-url response, wormhole.NewID\<close>
  cuFormat :: "string \<Rightarrow> string"
  cuQuote :: "string \<Rightarrow> string"
  cuSignURL :: "string \<times> string \<Rightarrow> string"
  cuNewID :: "('e, string) op"
  cuReadFile :: "string \<Rightarrow> ('e, string) op"
  cuAbs :: "string \<Rightarrow> ('e, string) op"

section \<open>password.go\<close>

text \<open>An interrupt while the password is typed ends the process.\<close>

definition readPassword :: "string \<Rightarrow> bool \<Rightarrow> ('e, string) run" where
  "readPassword prompt allowEmpty =
     bnd (gets clTerm) (\<lambda>t.
     bnd (failIf (\<not> t) (Err ''failed to read password from terminal: not a terminal or terminal not supported, use -password option'')) (\<lambda>_.
     bnd (gets clTermErr) (\<lambda>te.
     case te of Some e \<Rightarrow> fail e | None \<Rightarrow>
     bnd (printErr prompt) (\<lambda>_.
     bnd (zoom clTyped (\<lambda>t s. s\<lparr>clTyped := t\<rparr>) (\<lambda>t. case t of [] \<Rightarrow> (Inr (Inl EOF), []) | p # ps \<Rightarrow> (Inr p, ps))) (\<lambda>p.
     bnd (printErr [nl]) (\<lambda>_.
     bnd (lift p) (\<lambda>p.
     bnd (failIf (p = [] \<and> \<not> allowEmpty) (Err ''empty password'')) (\<lambda>_.
     ret p))))))))"

definition readVerifyPassword :: "string \<Rightarrow> ('e, string) run" where
  "readVerifyPassword prompt =
     bnd (readPassword prompt False) (\<lambda>password.
     bnd (readPassword ''Re-enter the password:'' False) (\<lambda>password2.
     bnd (failIf (password \<noteq> password2) (Err ''passwords don't match'')) (\<lambda>_.
     ret password)))"

section \<open>support.go and cmd.go\<close>

text \<open>
  \<^verbatim>\<open>readFrom\<close> on the standard input: what each read returns is processed, then an empty piece. The
  result is the number of bytes.
\<close>

primrec readPieces :: "(string \<Rightarrow> ('e, unit) run) \<Rightarrow> nat \<Rightarrow> (err + string) list \<Rightarrow> ('e, nat) run" where
  "readPieces process n [] = bnd (process []) (\<lambda>_. ret n)"
| "readPieces process n (r # rs) =
     bnd (modify (\<lambda>s. s\<lparr>clStdin := rs\<rparr>)) (\<lambda>_.
     case r of Inl e \<Rightarrow> fail e
     | Inr b \<Rightarrow>
         if b = [] then readPieces process n rs
         else bnd (process b) (\<lambda>_. readPieces process (n + length b) rs))"

definition readFrom :: "(string \<Rightarrow> ('e, unit) run) \<Rightarrow> ('e, nat) run" where
  "readFrom process = bnd (gets clStdin) (readPieces process 0)"

definition fmtUser :: "rpcUser option \<Rightarrow> string" where
  "fmtUser user =
     (case user of None \<Rightarrow> [] | Some u \<Rightarrow>
        let s = ruName u @ ''@'' @ ruService u
        in (case ruStatus u of UserStatusOK \<Rightarrow> s | UserStatusUnknown \<Rightarrow> ''unknown:'' @ s
            | UserStatusConnFailure \<Rightarrow> ''connfail:'' @ s | _ \<Rightarrow> ''failed:'' @ s))"

text \<open>The id of a key is used as a format, which it does not matter for ids without a percent sign.\<close>

definition fmtUserOf :: "rpcKey \<Rightarrow> string" where
  "fmtUserOf key = (if rkUser key = None then [] else '' '' @ fmtUser (rkUser key))"

definition fmtKey :: "(string \<Rightarrow> string) \<Rightarrow> rpcKey option \<Rightarrow> string" where
  "fmtKey fmt key = (case key of None \<Rightarrow> [] | Some k \<Rightarrow> fmt (rkID k) @ fmtUserOf k @ [nl])"

definition encryptModeToString :: "encryptMode \<Rightarrow> string" where
  "encryptModeToString m =
     (case m of SaltpackEncrypt \<Rightarrow> ''saltpack-encrypt'' | SaltpackSigncrypt \<Rightarrow> ''saltpack-signcrypt'' | _ \<Rightarrow> ''unknown'')"

definition fmtVerifiedEncrypt :: "(string \<Rightarrow> string) \<Rightarrow> rpcKey option \<Rightarrow> encryptMode \<Rightarrow> string" where
  "fmtVerifiedEncrypt fmt key mode =
     (case key of None \<Rightarrow> []
      | Some k \<Rightarrow> ''verified: '' @ fmt (rkID k) @ '' '' @ encryptModeToString mode @ fmtUserOf k @ [nl])"

definition fmtVerified :: "(string \<Rightarrow> string) \<Rightarrow> rpcKey option \<Rightarrow> string" where
  "fmtVerified fmt key = (case key of None \<Rightarrow> [] | Some k \<Rightarrow> ''verified: '' @ fmt (rkID k) @ fmtUserOf k @ [nl])"

definition identityForKey :: "rpcKey \<Rightarrow> string" where
  "identityForKey k = (case rkUser k of Some u \<Rightarrow> ruID u | None \<Rightarrow> rkID k)"

definition argString :: "cliContext \<Rightarrow> string \<Rightarrow> bool \<Rightarrow> err + string" where
  "argString c name optional =
     (let val = cString c name in
      if val \<noteq> [] then (if ctArgs c \<noteq> [] then Inl (Err ''too many arguments'') else Inr val)
      else let args = cArg c 0 in
        if args \<noteq> [] then Inr args
        else if optional then Inr [] else Inl (Err (''no '' @ name @ '' specified'')))"

section \<open>text/tabwriter\<close>

text \<open>
  \<^verbatim>\<open>tabwriter.Writer\<close> with the settings (0, 8, 1, ' ', 0): a cell that ends with a tab is filled up to one
  more than the longest of the cells above and below it, as far as those lines have a cell there. Lengths
  count characters of UTF-8.
\<close>

definition tab :: char where "tab = CHR 0x09"

definition runeCount :: "string \<Rightarrow> nat" where
  "runeCount s = length (filter (\<lambda>c. \<not> (128 \<le> (of_char c :: nat) \<and> (of_char c :: nat) < 192)) s)"

definition colWidth :: "string list list \<Rightarrow> nat \<Rightarrow> nat \<Rightarrow> nat" where
  "colWidth rows i j =
     (let has = (\<lambda>r. Suc j < length r);
          block = takeWhile has (rev (take i rows)) @ takeWhile has (drop i rows)
      in Suc (Max (set (map (\<lambda>r. runeCount (r ! j)) block))))"

definition tabLine :: "string list list \<Rightarrow> nat \<Rightarrow> string" where
  "tabLine rows i =
     concat (map (\<lambda>j. rows ! i ! j @ replicate (colWidth rows i j - runeCount (rows ! i ! j)) (CHR '' ''))
       [0..<length (rows ! i) - 1]) @ last (rows ! i)"

definition tabwriter :: "string \<Rightarrow> string" where
  "tabwriter text =
     (let ls = splitOn nl text; rows = map (splitOn tab) ls
      in concat (map (\<lambda>i. tabLine rows i @ (if Suc i < length ls then [nl] else [])) [0..<length ls]))"

definition fmtKeys :: "(string \<Rightarrow> string) \<Rightarrow> rpcKey list \<Rightarrow> string" where
  "fmtKeys fmt ks = tabwriter (concat (map (\<lambda>k. fmtKey fmt (Some k)) ks))"

section \<open>client.go: errors\<close>

text \<open>\<^verbatim>\<open>errDifferentVersions\<close> (service, client) and \<^verbatim>\<open>errServiceRuntime\<close> are types of their own.\<close>

datatype clientError = DifferentVersions string string | ServiceRuntime string | OtherError err

text \<open>The numbers of gRPC's status codes.\<close>

definition grpcCodes :: "string list" where
  "grpcCodes = [''OK'', ''Canceled'', ''Unknown'', ''InvalidArgument'', ''DeadlineExceeded'', ''NotFound'', ''AlreadyExists'',
     ''PermissionDenied'', ''ResourceExhausted'', ''FailedPrecondition'', ''Aborted'', ''OutOfRange'', ''Unimplemented'',
     ''Internal'', ''Unavailable'', ''DataLoss'', ''Unauthenticated'']"

definition codeNumber :: "string \<Rightarrow> int" where
  "codeNumber c = int (length (takeWhile (\<lambda>d. d \<noteq> c) grpcCodes))"

definition clientFatal :: "clientError \<Rightarrow> ('e, unit) run" where
  "clientFatal err =
     (case err of
        DifferentVersions sv cv \<Rightarrow>
          bnd (printlnErr (''The service and client are running different versions, '' @ sv @ '' != '' @ cv @ ''.'')) (\<lambda>_.
          bnd (printlnErr ''You may need to `keys restart`.'') (\<lambda>_. exit 1))
      | ServiceRuntime reason \<Rightarrow>
          bnd (printlnErr (''The service had a runtime error: '' @ reason @ ''.'')) (\<lambda>_.
          bnd (printlnErr ''You may need to `keys restart`.'') (\<lambda>_. exit 1))
      | OtherError e \<Rightarrow>
          (case e of
             ErrStatus c m \<Rightarrow>
               bnd (printlnErr
                 (if c = ''Unavailable'' then ''Service is unavailable, run `keys start`.''
                  else if c = ''PermissionDenied'' then ''Permission denied.''
                  else if c = ''Unauthenticated'' then
                    (if m = ''invalid password'' then ''Invalid password.''
                     else if m = ''invalid auth'' then ''Invalid auth.''
                     else ''Authorization required, run `keys auth`.'')
                  else if c = ''Unknown'' then m
                  else m @ '' ('' @ formatInt (codeNumber c) @ '')'')) (\<lambda>_. exit (codeNumber c))
           | _ \<Rightarrow> bnd (printlnErr (errText e)) (\<lambda>_. exit 1)))"

end
