(* ===== verification/CliAuth.thy ===== *)
theory CliAuth
  imports Cli
begin

text \<open>
  The commands that authorize: \<^verbatim>\<open>keys auth\<close> with its subcommands and \<^verbatim>\<open>keys lock\<close>
  (\<^verbatim>\<open>service/cmd_auth.go\<close>, \<^verbatim>\<open>cmd_auth_pw.go\<close>, \<^verbatim>\<open>cmd_auth_fido2.go\<close>), and \<^verbatim>\<open>keys fido2\<close>
  (\<^verbatim>\<open>cmd_fido2.go\<close>).
\<close>

section \<open>cmd_auth_pw.go\<close>

definition createPassword :: "string \<Rightarrow> ('e, string) run" where
  "createPassword password =
     (if password = [] then
        bnd (printlnErr ''OK, let's create a password.'') (\<lambda>_. readVerifyPassword ''Create a password:'')
      else ret password)"

definition passwordAuthSetup :: "'e cliClient \<Rightarrow> string \<Rightarrow> string \<Rightarrow> ('e, string) run" where
  "passwordAuthSetup C clientName password0 =
     bnd (createPassword password0) (\<lambda>password.
     bnd (call (cAuthSetup (coRPC C) PasswordType password [])) (\<lambda>_.
     call (cAuthUnlock (coRPC C) PasswordType password clientName)))"

definition passwordAuthUnlock :: "'e cliClient \<Rightarrow> string \<Rightarrow> string \<Rightarrow> ('e, string) run" where
  "passwordAuthUnlock C clientName password0 =
     bnd (if password0 = [] then readPassword ''Enter your password:'' False else ret password0) (\<lambda>password.
     call (cAuthUnlock (coRPC C) PasswordType password clientName))"

definition passwordAuthProvision :: "'e cliClient \<Rightarrow> string \<Rightarrow> ('e, unit) run" where
  "passwordAuthProvision C password0 =
     bnd (createPassword password0) (\<lambda>password.
     bnd (call (cAuthProvision (coRPC C) PasswordType password [] False)) (\<lambda>_. ret ()))"

section \<open>cmd_auth_fido2.go\<close>

definition trimRight :: "char set \<Rightarrow> string \<Rightarrow> string" where
  "trimRight cs s = rev (dropWhile (\<lambda>c. c \<in> cs) (rev s))"

definition trimBoth :: "char set \<Rightarrow> string \<Rightarrow> string" where
  "trimBoth cs s = trimRight cs (dropWhile (\<lambda>c. c \<in> cs) s)"

definition deviceLine :: "nat \<Rightarrow> fullDevice \<Rightarrow> string" where
  "deviceLine i d = ''('' @ natStr (Suc i) @ '') '' @ dvProduct d @ '' ('' @ dvManufacturer d @ '')'' @ [nl]"

definition selectDevice :: "'e cliClient \<Rightarrow> ('e, string) run" where
  "selectDevice C =
     bnd (call (fcDevices (coFIDO2 C))) (\<lambda>ds.
     bnd (failIf (ds = []) (Err ''no devices found'')) (\<lambda>_.
     if length ds = 1 then ret (dvPath (hd ds)) else
     bnd (printlnErr ''Choose a device:'') (\<lambda>_.
     bnd (forEach (enumerate 0 ds) (\<lambda>(i, d). printErr (deviceLine i d))) (\<lambda>_.
     bnd (readLine []) (\<lambda>(line, _).
     bnd (case parseInt (trimRight {CHR '' '', nl} line) of
            Inl e \<Rightarrow> fail (Err (''invalid input: '' @ line)) | Inr n \<Rightarrow> ret n) (\<lambda>n.
     bnd (failIf (n < 1 \<or> n > int (length ds)) (Err (''invalid input ('' @ formatInt n @ '')''))) (\<lambda>_.
     ret (dvPath (ds ! nat (n - 1))))))))))"

definition chosenDevice :: "'e cliClient \<Rightarrow> string \<Rightarrow> ('e, string) run" where
  "chosenDevice C device = (if device = [] then selectDevice C else ret device)"

definition enteredPIN :: "string \<Rightarrow> ('e, string) run" where
  "enteredPIN pin = (if pin = [] then readPassword ''Enter your PIN:'' True else ret pin)"

definition fido2AuthSetup :: "'e cliClient \<Rightarrow> string \<Rightarrow> string \<Rightarrow> string \<Rightarrow> ('e, string) run" where
  "fido2AuthSetup C clientName device0 pin0 =
     bnd (chosenDevice C device0) (\<lambda>device.
     bnd (enteredPIN pin0) (\<lambda>pin.
     bnd (printlnErr ''Let's create a credential, you may need to interact with the key...'') (\<lambda>_.
     bnd (call (cAuthSetup (coRPC C) FIDO2Type pin device)) (\<lambda>_.
     bnd (printlnErr ''Getting the credential, you may need to interact with the key...'') (\<lambda>_.
     call (cAuthUnlock (coRPC C) FIDO2Type pin clientName))))))"

definition fido2AuthUnlock :: "'e cliClient \<Rightarrow> string \<Rightarrow> string \<Rightarrow> ('e, string) run" where
  "fido2AuthUnlock C clientName pin0 =
     bnd (enteredPIN pin0) (\<lambda>pin.
     bnd (printlnErr ''Getting the credential, you may need to interact with the key...'') (\<lambda>_.
     call (cAuthUnlock (coRPC C) FIDO2Type pin clientName)))"

definition fido2AuthGenerate :: "'e cliClient \<Rightarrow> string \<Rightarrow> string \<Rightarrow> ('e, unit) run" where
  "fido2AuthGenerate C pin device =
     bnd (printlnErr ''Let's create a credential, you may need to interact with the key...'') (\<lambda>_.
     bnd (call (cAuthProvision (coRPC C) FIDO2Type pin device True)) (\<lambda>_. ret ()))"

definition fido2AuthCredential :: "'e cliClient \<Rightarrow> string \<Rightarrow> string \<Rightarrow> ('e, unit) run" where
  "fido2AuthCredential C pin device =
     bnd (printlnErr ''Getting the credential, you may need to interact with the key (again)...'') (\<lambda>_.
     bnd (call (cAuthProvision (coRPC C) FIDO2Type pin device False)) (\<lambda>_. ret ()))"

definition fido2AuthProvision :: "'e cliClient \<Rightarrow> string \<Rightarrow> string \<Rightarrow> ('e, unit) run" where
  "fido2AuthProvision C device0 pin0 =
     bnd (chosenDevice C device0) (\<lambda>device.
     bnd (enteredPIN pin0) (\<lambda>pin.
     bnd (fido2AuthGenerate C pin device) (\<lambda>_.
     bnd (fido2AuthCredential C pin device) (\<lambda>_.
     printlnErr ''Successfully provisioned (FIDO2 HMAC-Secret).''))))"

section \<open>cmd_auth.go\<close>

definition authTypeFromString :: "string \<Rightarrow> err + authType" where
  "authTypeFromString s =
     (let t = trimSpace (toLower s) in
      if t \<in> {''p'', ''password''} then Inr PasswordType
      else if t \<in> {''f'', ''fido2-hmac-secret''} then Inr FIDO2Type
      else Inl (Err (''unknown auth type: '' @ s)))"

text \<open>\<^verbatim>\<open>chooseAuth\<close>: a new reader in every round of the loop, each of which takes at least one read.\<close>

definition askAuth :: "string \<Rightarrow> ('e, string) run" where
  "askAuth title =
     bnd (printlnErr title) (\<lambda>_. bnd (printlnErr ''(p) Password'') (\<lambda>_. bnd (printlnErr ''(f) FIDO2 hmac-secret'') (\<lambda>_.
     bnd (readLine []) (\<lambda>(input, _). ret input))))"

lemma takeLine_shorter: "nl \<notin> set buf \<Longrightarrow> takeLine buf rs = ((t, rest, None), rs') \<Longrightarrow> length rs' < length rs"
proof (induction buf rs rule: takeLine.induct)
  case (2 buf r rs)
  show ?case
  proof (cases r)
    case (Inr b)
    with 2 show ?thesis by (cases "nl \<in> set b"; cases rs) (auto intro: less_SucI)
  qed (use 2 in auto)
qed auto

lemma askAuth_shorter: "askAuth title s = (Inr input, s') \<Longrightarrow> length (clStdin s') < length (clStdin s)"
  using takeLine_shorter[of "[]" "clStdin s"]
  by (auto simp: askAuth_def readLine_def readString_def zoom_def printlnErr_def printErr_def bnd_def modify_def ret_def fail_def
      split: prod.splits option.splits sum.splits)

function chooseLoop :: "string \<Rightarrow> 'e cli \<Rightarrow> (err + authType) \<times> 'e cli" where
  "chooseLoop title s =
     (case askAuth title s of
        (Inl e, s') \<Rightarrow> (Inl e, s')
      | (Inr input, s') \<Rightarrow>
          (case authTypeFromString input of
             Inl e \<Rightarrow> chooseLoop title (s'\<lparr>clErr := clErr s' @ errText e @ [nl]\<rparr>)
           | Inr t \<Rightarrow> (Inr t, s')))"
  by auto
termination
  by (relation "measure (\<lambda>(t, s). length (clStdin s))") (auto dest: askAuth_shorter askAuth_shorter[OF sym])

declare chooseLoop.simps [simp del]

definition chooseAuth :: "string \<Rightarrow> string \<Rightarrow> ('e, authType) run" where
  "chooseAuth title arg = (if arg \<noteq> [] then lift (authTypeFromString arg) else chooseLoop title)"

definition tokenHelp :: "string list" where
  "tokenHelp = [''# For shell:'', ''#  export KEYS_AUTH=`keys auth -token`'', ''#'', ''# or using eval:'', ''#  eval $(keys auth)'',
     ''#'', ''# For Powershell:'', ''#  $env:KEYS_AUTH = (keys auth -token)'']"

definition authFlags :: "flag list" where
  "authFlags =
     [StringFlag ''password, pin'' [], BoolFlag ''token'', StringFlag ''type, t'' ''password'',
      StringFlag ''client'' ''cli'', StringFlag ''device'' ''device path or product name (for FIDO2)'']"

definition authorizing :: "'e cliClient \<Rightarrow> cliContext \<Rightarrow> bool \<Rightarrow> authType \<Rightarrow> ('e, string) run" where
  "authorizing C c setupNeeded authType =
     (if setupNeeded then
        (case authType of
           PasswordType \<Rightarrow> passwordAuthSetup C (cString c ''client'') (cString c ''password'')
         | FIDO2Type \<Rightarrow> fido2AuthSetup C (cString c ''client'') (cString c ''device'') (cString c ''pin'')
         | _ \<Rightarrow> ret [])
      else
        (case authType of
           PasswordType \<Rightarrow> passwordAuthUnlock C (cString c ''client'') (cString c ''password'')
         | FIDO2Type \<Rightarrow> fido2AuthUnlock C (cString c ''client'') (cString c ''pin'')
         | _ \<Rightarrow> ret []))"

text \<open>A conflict is only logged.\<close>

definition conflictChecked :: "'e cliLib \<Rightarrow> cliContext \<Rightarrow> ('e, unit) run" where
  "conflictChecked L c =
     (if cGlobalBool c ''test'' then ret ()
      else orElse (call (cuAppConflict L (cGlobalString c ''app''))) (\<lambda>e. ret ()) ret)"

definition authAction :: "'e cliLib \<Rightarrow> 'e cliClient \<Rightarrow> cliContext \<Rightarrow> ('e, unit) run" where
  "authAction L C c =
     bnd (conflictChecked L c) (\<lambda>_.
     bnd (call (cRuntimeStatus (coRPC C))) (\<lambda>st.
     let setupNeeded = (rnAuthStatus st = AuthSetupNeeded) in
     bnd (failIf (cString c ''client'' = []) (Err ''no client name'')) (\<lambda>_.
     bnd (chooseAuth ''How do you want to authorize?'' (cString c ''type'')) (\<lambda>authType.
     bnd (authorizing C c setupNeeded authType) (\<lambda>authToken.
     if cBool c ''token'' then println authToken
     else bnd (println (''export KEYS_AUTH='' @ [CHR 0x22] @ authToken @ [CHR 0x22])) (\<lambda>_. forEach tokenHelp println))))))"

definition authVaultCommand :: "'e cliClient \<Rightarrow> 'e command" where
  "authVaultCommand C = Command ''vault'' [] [StringFlag ''phrase'' []] [] (act (\<lambda>c.
     bnd (printErr ''Vault phrase: '') (\<lambda>_.
     bnd (readLine []) (\<lambda>(phrase, _).
     call (cAuthVault (coRPC C) phrase)))))"

definition changePasswordCommand :: "'e cliClient \<Rightarrow> 'e command" where
  "changePasswordCommand C = Command ''change-password'' [] [] [] (act (\<lambda>c.
     bnd (readPassword ''Old password:'' False) (\<lambda>old.
     bnd (readVerifyPassword ''New password:'') (\<lambda>new.
     call (cAuthPasswordChange (coRPC C) old new)))))"

definition authProvisionCommand :: "'e cliClient \<Rightarrow> 'e command" where
  "authProvisionCommand C = Command ''provision'' []
     [StringFlag ''password, pin, p'' [], StringFlag ''type'' [], StringFlag ''device'' []] [] (act (\<lambda>c.
     bnd (call (cRuntimeStatus (coRPC C))) (\<lambda>rts.
     bnd (failIf (rnAuthStatus rts = AuthSetupNeeded) (ErrStatus ''Unauthenticated'' ''auth setup needed'')) (\<lambda>_.
     bnd (failIf (rnAuthStatus rts = AuthLocked) (ErrStatus ''Unauthenticated'' ''auth locked'')) (\<lambda>_.
     bnd (chooseAuth ''How do you want to provision?'' (cString c ''type'')) (\<lambda>authType.
     case authType of
       PasswordType \<Rightarrow> passwordAuthProvision C (cString c ''password'')
     | FIDO2Type \<Rightarrow> fido2AuthProvision C (cString c ''device'') (cString c ''pin'')
     | _ \<Rightarrow> ret ()))))))"

definition authDevicesCommand :: "'e cliLib \<Rightarrow> 'e cliClient \<Rightarrow> 'e command" where
  "authDevicesCommand L C = Command ''devices'' [] [] [] (act (\<lambda>c.
     bnd (call (fcDevices (coFIDO2 C))) (\<lambda>ds.
     forEach ds (\<lambda>d.
       bnd (call (fcDeviceType (coFIDO2 C) (dvPath d))) (\<lambda>t.
       if t \<noteq> FIDO2Device then ret ()
       else bnd (call (fcDeviceInfo (coFIDO2 C) (dvPath d))) (\<lambda>info.
            bnd (lift (cuDevice L (d, info))) println))))))"

text \<open>The phrase to be typed again before something is removed.\<close>

definition confirmed :: "'e cliLib \<Rightarrow> string \<Rightarrow> ('e, unit) run" where
  "confirmed L question =
     bnd (call (cuWords L)) (\<lambda>words.
     bnd (println question) (\<lambda>_.
     bnd (println (''If so enter this phrase: '' @ words @ [nl])) (\<lambda>_.
     bnd (readString []) (\<lambda>(text, _, _).
     bnd (println []) (\<lambda>_.
     if trimBoth {CHR 0x0D, nl} text \<noteq> words
     then bnd (println ''Phrase doesn't match.'') (\<lambda>_. exit 1)
     else ret ())))))"

definition authResetCommand :: "'e cliLib \<Rightarrow> 'e cliClient \<Rightarrow> 'e command" where
  "authResetCommand L C = Command ''reset'' [] [BoolFlag ''force'', StringFlag ''app'' ''Keys''] [] (act (\<lambda>c.
     bnd (if cBool c ''force'' then ret ()
          else confirmed L ''Are you sure you want to reset auth and remove your vault?'') (\<lambda>_.
     bnd (call (cAuthReset (coRPC C) (cString c ''app''))) (\<lambda>_.
     println ''Auth reset.''))))"

definition authProvisionsCommand :: "'e cliLib \<Rightarrow> 'e cliClient \<Rightarrow> 'e command" where
  "authProvisionsCommand L C = Command ''provisions'' [] [] [] (act (\<lambda>c.
     bnd (call (cAuthProvisions (coRPC C))) (\<lambda>ps. println (cuProvisions L ps))))"

definition authDeprovisionCommand :: "'e cliClient \<Rightarrow> 'e command" where
  "authDeprovisionCommand C = Command ''deprovision'' [] [] [] (act (\<lambda>c.
     let i = cArg c 0 in
     bnd (failIf (i = []) (Err ''specify a provision id'')) (\<lambda>_.
     call (cAuthDeprovision (coRPC C) i))))"

definition authCommands :: "'e cliLib \<Rightarrow> 'e cliClient \<Rightarrow> 'e command list" where
  "authCommands L C =
     [Command ''auth'' [''unlock''] authFlags
        [authProvisionCommand C, authProvisionsCommand L C, authDeprovisionCommand C, authVaultCommand C,
         changePasswordCommand C, authDevicesCommand L C, authResetCommand L C]
        (act (authAction L C)),
      Command ''lock'' [] [] [] (act (\<lambda>c. call (cAuthLock (coRPC C))))]"

section \<open>cmd_fido2.go\<close>

definition fido2Commands :: "'e cliLib \<Rightarrow> 'e cliClient \<Rightarrow> 'e command list" where
  "fido2Commands L C =
     [Command ''fido2'' [] []
        [Command ''devices'' [] [] [] (act (\<lambda>c.
           bnd (call (fcDevices (coFIDO2 C))) (\<lambda>ds. println (cuDevices L ds)))),
         Command ''device-info'' [] [StringFlag ''device, d'' []] [] (act (\<lambda>c.
           bnd (call (fcDeviceInfo (coFIDO2 C) (cString c ''device''))) (\<lambda>i. println (cuDeviceInfo L i)))),
         Command ''credentials-info'' [] [StringFlag ''device, d'' [], StringFlag ''pin'' []] [] (act (\<lambda>c.
           bnd (call (fcCredentialsInfo (coFIDO2 C) (cString c ''device'') (cString c ''pin''))) (\<lambda>i.
           println (cuCredentialsInfo L i)))),
         Command ''credentials'' [] [StringFlag ''device, d'' [], StringFlag ''pin'' []] [] (act (\<lambda>c.
           bnd (call (fcCredentials (coFIDO2 C) (cString c ''device'') (cString c ''pin''))) (\<lambda>cs.
           println (cuCredentials L cs))))]
        None]"

end
