(* ===== verification/CliFiles.thy ===== *)
theory CliFiles
  imports Cli
begin

text \<open>
  The commands on files and streams: \<^verbatim>\<open>keys verify\<close> (\<^verbatim>\<open>service/cmd_verify.go\<close>), \<^verbatim>\<open>keys encrypt\<close> and
  \<^verbatim>\<open>keys decrypt\<close> (\<^verbatim>\<open>cmd_encrypt.go\<close>), \<^verbatim>\<open>keys sign\<close> (\<^verbatim>\<open>cmd_sign.go\<close>). Without a file they send the
  standard input to the service and write what it sends back to the standard output, in two
  goroutines.
\<close>

section \<open>Sending and receiving at once\<close>

text \<open>
  One goroutine runs \<^verbatim>\<open>readFrom\<close> on the standard input with a function that sends; the other receives. They
  share an error variable. A schedule says whose round is completed next, \<open>True\<close> for the sender;
  the command is over when the receiver is, whose last round gives an error or leaves the variable as
  the result. \<^verbatim>\<open>keys verify\<close> puts the receiver's error in the variable too and reads it after that, so
  that the sender may come in between (\<open>shared\<close>); the other commands return the error at once.
\<close>

datatype 'x round = Again 'x | Finished "err option"

definition pump :: "(string \<Rightarrow> ('e, unit) run) \<Rightarrow> bool \<Rightarrow> err option \<Rightarrow> 'e cli \<Rightarrow> (bool \<times> err option) \<times> 'e cli" where
  "pump process running var s =
     (if \<not> running then ((False, var), s) else
      case clStdin s of
        [] \<Rightarrow> (case process [] s of (Inl e, s') \<Rightarrow> ((False, Some e), s') | (Inr _, s') \<Rightarrow> ((False, var), s'))
      | Inl e # rs \<Rightarrow> ((False, Some e), s\<lparr>clStdin := rs\<rparr>)
      | Inr b # rs \<Rightarrow>
          (if b = [] then ((True, var), s\<lparr>clStdin := rs\<rparr>)
           else case process b (s\<lparr>clStdin := rs\<rparr>) of
             (Inl e, s') \<Rightarrow> ((False, Some e), s') | (Inr _, s') \<Rightarrow> ((True, var), s')))"

primrec pumps :: "(string \<Rightarrow> ('e, unit) run) \<Rightarrow> bool list \<Rightarrow> bool \<Rightarrow> err option \<Rightarrow> 'e cli \<Rightarrow> err option \<times> 'e cli" where
  "pumps process [] running var s = (var, s)"
| "pumps process (b # sch) running var s =
     (case pump process running var s of ((running', var'), s') \<Rightarrow> pumps process sch running' var' s')"

definition readVar :: "err option \<times> 'e cli \<Rightarrow> (err + unit) \<times> 'e cli" where
  "readVar = (\<lambda>(var, s). (case var of Some e \<Rightarrow> Inl e | None \<Rightarrow> Inr (), s))"

primrec race :: "bool \<Rightarrow> (string \<Rightarrow> ('e, unit) run) \<Rightarrow> ('x \<Rightarrow> ('e, 'x round) run) \<Rightarrow> bool list \<Rightarrow> 'x \<Rightarrow> bool \<Rightarrow> err option \<Rightarrow>
   'e cli \<Rightarrow> ((err + unit) \<times> 'e cli) option" where
  "race shared process recv [] x running var s = None"
| "race shared process recv (b # sch) x running var s =
     (if b then (case pump process running var s of ((running', var'), s') \<Rightarrow> race shared process recv sch x running' var' s')
      else
        let late = (if shared then takeWhile (\<lambda>b. b) sch else []) in
        case recv x s of
          (Inl e, s') \<Rightarrow> Some (readVar (pumps process late running (Some e) s'))
        | (Inr (Again x'), s') \<Rightarrow> race shared process recv sch x' running var s'
        | (Inr (Finished (Some e)), s') \<Rightarrow> Some (readVar (pumps process late running (Some e) s'))
        | (Inr (Finished None), s') \<Rightarrow> Some (readVar (pumps process late running var s')))"

text \<open>What the sender does with a piece, the empty one being the end.\<close>

definition sendPiece :: "('e, 'i, 'o) stream \<Rightarrow> (string \<Rightarrow> 'i) \<Rightarrow> string \<Rightarrow> ('e, unit) run" where
  "sendPiece S msg b = (if b \<noteq> [] then call (smSend S (msg b)) else call (smCloseSend S))"

text \<open>The start of a round of the receiver: the end of the stream ends it without an error.\<close>

definition received :: "('e, 'i, 'o) stream \<Rightarrow> ('o \<Rightarrow> ('e, 'x round) run) \<Rightarrow> ('e, 'x round) run" where
  "received S k = orElse (call (smRecv S)) (\<lambda>e. ret (Finished (if e = EOF then None else Some e))) k"

definition absIf :: "'e cliLib \<Rightarrow> string \<Rightarrow> ('e, string) run" where
  "absIf L p = (if p = [] then ret [] else call (cuAbs L p))"

text \<open>A stream with one request and one response.\<close>

definition exchange :: "('e, 'i, 'o) stream \<Rightarrow> 'i \<Rightarrow> ('e, 'o) run" where
  "exchange S i = bnd (call (smOpen S)) (\<lambda>_. bnd (call (smSend S i)) (\<lambda>_. call (smRecv S)))"

section \<open>cmd_verify.go\<close>

text \<open>\<^verbatim>\<open>checkSigner\<close>: an error or what it writes to the standard error.\<close>

definition checkSigner :: "(string \<Rightarrow> string) \<Rightarrow> rpcKey option \<Rightarrow> string \<Rightarrow> err + string" where
  "checkSigner fmt signer expected =
     (case signer of None \<Rightarrow> Inl (Err ''no signer'')
      | Some k \<Rightarrow>
          if expected = [] then Inr (fmtVerified fmt signer)
          else if CHR ''@'' \<in> set expected then
            (case rkUser k of
               None \<Rightarrow> Inl (Err (''invalid signer, expected '' @ expected @ '', was '' @ rkID k))
             | Some u \<Rightarrow>
                 if ruID u \<noteq> expected then Inl (Err (''invalid signer, expected '' @ expected @ '', was '' @ ruID u))
                 else Inr [])
          else if rkID k \<noteq> expected then Inl (Err (''invalid signer, expected '' @ expected @ '', was '' @ rkID k))
          else Inr [])"

definition checked :: "'e cliLib \<Rightarrow> rpcKey option \<Rightarrow> string \<Rightarrow> ('e, unit) run" where
  "checked L signer expected = bnd (lift (checkSigner (cuFormat L) signer expected)) printErr"

definition verifyRound :: "'e cliLib \<Rightarrow> 'e cliClient \<Rightarrow> string \<Rightarrow> bool \<Rightarrow> ('e, bool round) run" where
  "verifyRound L C signer done =
     received (cVerifyStream (coRPC C)) (\<lambda>resp.
       orElse (if done then ret () else checked L (vrSigner resp) signer) (\<lambda>e. ret (Finished (Some e))) (\<lambda>_.
       if vrData resp = [] then ret (Finished None)
       else bnd (print (vrData resp)) (\<lambda>_. ret (Again True))))"

definition verifyStdin :: "'e cliLib \<Rightarrow> 'e cliClient \<Rightarrow> bool list \<Rightarrow> string \<Rightarrow> 'e cli \<Rightarrow> ((err + unit) \<times> 'e cli) option" where
  "verifyStdin L C sch signer =
     bndP (liftP (call (smOpen (cVerifyStream (coRPC C))))) (\<lambda>_.
     race True (sendPiece (cVerifyStream (coRPC C)) (\<lambda>b. b)) (verifyRound L C signer) sch False True None)"

definition verifyFile :: "'e cliLib \<Rightarrow> 'e cliClient \<Rightarrow> string \<Rightarrow> string \<Rightarrow> string \<Rightarrow> ('e, string) run" where
  "verifyFile L C inp out0 signer =
     bnd (failIf (inp = []) (Err ''in not specified'')) (\<lambda>_.
     bnd (call (cuAbs L inp)) (\<lambda>i.
     bnd (absIf L out0) (\<lambda>out.
     bnd (exchange (cVerifyFile (coRPC C)) (i, out)) (\<lambda>(k, o').
     bnd (checked L k signer) (\<lambda>_. ret o')))))"

text \<open>\<^verbatim>\<open>CloseAndRecv\<close> closes the sending side first.\<close>

definition closeAndRecv :: "('e, 'i, 'o) stream \<Rightarrow> ('e, 'o) run" where
  "closeAndRecv S = bnd (call (smCloseSend S)) (\<lambda>_. call (smRecv S))"

definition verifyDetachedFile :: "'e cliLib \<Rightarrow> 'e cliClient \<Rightarrow> string \<Rightarrow> string \<Rightarrow> string \<Rightarrow> ('e, unit) run" where
  "verifyDetachedFile L C inp sigFile signer =
     bnd (failIf (inp = []) (Err ''in not specified'')) (\<lambda>_.
     bnd (call (cuAbs L inp)) (\<lambda>i.
     bnd (call (cuReadFile L sigFile)) (\<lambda>sig.
     bnd (call (smOpen (cVerifyDetachedFile (coRPC C)))) (\<lambda>_.
     bnd (call (smSend (cVerifyDetachedFile (coRPC C)) (i, sig))) (\<lambda>_.
     bnd (closeAndRecv (cVerifyDetachedFile (coRPC C))) (\<lambda>k.
     checked L k signer))))))"

text \<open>
  The signature goes with the first piece. The response, kept in a variable of the function in the
  source, is what the last call of it, on the empty piece, receives.
\<close>

primrec verifyPieces :: "('e, gobytes \<times> string, 'o) stream \<Rightarrow> gobytes \<Rightarrow> (err + string) list \<Rightarrow> ('e, 'o) run" where
  "verifyPieces S sig [] = closeAndRecv S"
| "verifyPieces S sig (r # rs) =
     bnd (modify (\<lambda>s. s\<lparr>clStdin := rs\<rparr>)) (\<lambda>_.
     case r of Inl e \<Rightarrow> fail e
     | Inr b \<Rightarrow> if b = [] then verifyPieces S sig rs
                else bnd (call (smSend S (sig, b))) (\<lambda>_. verifyPieces S None rs))"

definition verifyDetachedStream :: "'e cliLib \<Rightarrow> 'e cliClient \<Rightarrow> string \<Rightarrow> string \<Rightarrow> ('e, unit) run" where
  "verifyDetachedStream L C sigFile signer =
     bnd (call (cuReadFile L sigFile)) (\<lambda>sig.
     bnd (call (smOpen (cVerifyDetachedStream (coRPC C)))) (\<lambda>_.
     bnd (gets clStdin) (\<lambda>i.
     bnd (verifyPieces (cVerifyDetachedStream (coRPC C)) (Some sig) i) (\<lambda>k.
     checked L k signer))))"

definition verifyFileForCLI :: "'e cliLib \<Rightarrow> 'e cliClient \<Rightarrow> cliContext \<Rightarrow> string \<Rightarrow> ('e, string) run" where
  "verifyFileForCLI L C c signer =
     (let sigFile = cString c ''sig''; i = cString c ''in'' in
      if sigFile \<noteq> [] then bnd (verifyDetachedFile L C i sigFile signer) (\<lambda>_. ret [])
      else verifyFile L C i (cString c ''out'') signer)"

definition verifyCommands :: "'e cliLib \<Rightarrow> 'e cliClient \<Rightarrow> bool list \<Rightarrow> 'e command list" where
  "verifyCommands L C sch =
     [Command ''verify'' []
       [StringFlag ''signer, s'' [], StringFlag ''sig, x'' [], StringFlag ''in, i'' [], StringFlag ''out, o'' []] []
       (Some (\<lambda>c.
          let signer = cString c ''signer'' in
          if cString c ''in'' \<noteq> [] then liftP (bnd (verifyFileForCLI L C c signer) (\<lambda>_. ret ()))
          else if cString c ''sig'' \<noteq> [] then liftP (verifyDetachedStream L C (cString c ''sig'') signer)
          else verifyStdin L C sch signer))]"

section \<open>cmd_encrypt.go\<close>

definition encryptModeFromString :: "(string \<Rightarrow> string) \<Rightarrow> string \<Rightarrow> err + encryptMode" where
  "encryptModeFromString quote s =
     (if s \<in> {[], ''default''} then Inr DefaultEncrypt
      else if s = ''encrypt'' then Inr SaltpackEncrypt
      else if s = ''signcrypt'' then Inr SaltpackSigncrypt
      else Inl (Err (''invalid mode '' @ quote s)))"

definition encryptFile :: "'e cliLib \<Rightarrow> 'e cliClient \<Rightarrow> string \<Rightarrow> string \<Rightarrow> string list \<Rightarrow> string \<Rightarrow> encryptOptions \<Rightarrow> ('e, unit) run" where
  "encryptFile L C inp out0 recipients sender options =
     bnd (call (cuAbs L inp)) (\<lambda>i.
     bnd (absIf L out0) (\<lambda>out.
     exchange (cEncryptFile (coRPC C))
       \<lparr>efIn = i, efOut = out, efRecipients = recipients, efSender = sender, efOptions = options\<rparr>))"

definition encryptFileForCLI :: "'e cliLib \<Rightarrow> 'e cliClient \<Rightarrow> cliContext \<Rightarrow> encryptOptions \<Rightarrow> ('e, unit) run" where
  "encryptFileForCLI L C c options =
     encryptFile L C (cString c ''in'') (cString c ''out'') (cSlice c ''recipient'') (cString c ''sender'') options"

text \<open>A round of the receiver that only writes what it receives.\<close>

definition writeRound :: "('e, 'i, string) stream \<Rightarrow> unit \<Rightarrow> ('e, unit round) run" where
  "writeRound S u = received S (\<lambda>b. bnd (print b) (\<lambda>_. ret (Again ())))"

definition encryptStdin :: "'e cliClient \<Rightarrow> bool list \<Rightarrow> cliContext \<Rightarrow> encryptOptions \<Rightarrow> 'e cli \<Rightarrow> ((err + unit) \<times> 'e cli) option" where
  "encryptStdin C sch c options =
     (let S = cEncryptStream (coRPC C) in
      bndP (liftP (call (smOpen S))) (\<lambda>_.
      bndP (liftP (call (smSend S \<lparr>eiRecipients = cSlice c ''recipient'', eiSender = cString c ''sender'',
                                   eiOptions = Some options, eiData = []\<rparr>))) (\<lambda>_.
      race False (sendPiece S (\<lambda>b. \<lparr>eiRecipients = [], eiSender = [], eiOptions = None, eiData = b\<rparr>))
        (writeRound S) sch () True None)))"

definition encryptAction :: "'e cliLib \<Rightarrow> 'e cliClient \<Rightarrow> bool list \<Rightarrow> cliContext \<Rightarrow> 'e cli \<Rightarrow> ((err + unit) \<times> 'e cli) option" where
  "encryptAction L C sch c =
     bndP (liftP (failIf (cString c ''in'' = [] \<and> cString c ''out'' \<noteq> []) (Err ''-out option is unsupported without -in''))) (\<lambda>_.
     bndP (liftP (lift (encryptModeFromString (cuQuote L) (cString c ''mode'')))) (\<lambda>mode.
     let options = \<lparr>eoArmored = cBool c ''armor'', eoMode = mode, eoNoSenderRecipient = cBool c ''no-sender-recipient'',
                    eoNoSign = False\<rparr> in
     if cString c ''in'' \<noteq> [] then liftP (encryptFileForCLI L C c options)
     else encryptStdin C sch c options))"

definition decryptFile :: "'e cliLib \<Rightarrow> 'e cliClient \<Rightarrow> string \<Rightarrow> string \<Rightarrow> ('e, rpcKey option \<times> string \<times> encryptMode) run" where
  "decryptFile L C inp out0 =
     bnd (failIf (inp = []) (Err ''in not specified'')) (\<lambda>_.
     bnd (call (cuAbs L inp)) (\<lambda>i.
     bnd (absIf L out0) (\<lambda>out.
     exchange (cDecryptFile (coRPC C)) (i, out))))"

definition decryptFileForCLI :: "'e cliLib \<Rightarrow> 'e cliClient \<Rightarrow> cliContext \<Rightarrow> ('e, rpcKey option \<times> string \<times> encryptMode) run" where
  "decryptFileForCLI L C c = decryptFile L C (cString c ''in'') (cString c ''out'')"

definition decryptRound :: "'e cliLib \<Rightarrow> 'e cliClient \<Rightarrow> bool \<Rightarrow> ('e, bool round) run" where
  "decryptRound L C showSender =
     received (cDecryptStream (coRPC C)) (\<lambda>resp.
       let now = showSender \<and> drSender resp \<noteq> None in
       bnd (if now then printErr (fmtVerifiedEncrypt (cuFormat L) (drSender resp) (drMode resp)) else ret ()) (\<lambda>_.
       if drData resp = [] then ret (Finished None)
       else bnd (print (drData resp)) (\<lambda>_. ret (Again (showSender \<and> \<not> now)))))"

definition decryptStdin :: "'e cliLib \<Rightarrow> 'e cliClient \<Rightarrow> bool list \<Rightarrow> 'e cli \<Rightarrow> ((err + unit) \<times> 'e cli) option" where
  "decryptStdin L C sch =
     bndP (liftP (call (smOpen (cDecryptStream (coRPC C))))) (\<lambda>_.
     race False (sendPiece (cDecryptStream (coRPC C)) (\<lambda>b. b)) (decryptRound L C) sch True True None)"

definition decryptAction :: "'e cliLib \<Rightarrow> 'e cliClient \<Rightarrow> bool list \<Rightarrow> cliContext \<Rightarrow> 'e cli \<Rightarrow> ((err + unit) \<times> 'e cli) option" where
  "decryptAction L C sch c =
     (if cString c ''in'' \<noteq> [] then liftP (
        bnd (decryptFileForCLI L C c) (\<lambda>(sender, out, mode).
        bnd (if sender \<noteq> None then printErr (fmtVerifiedEncrypt (cuFormat L) sender mode) else ret ()) (\<lambda>_.
        if out \<noteq> cString c ''out'' then printErr (''out: '' @ out @ [nl]) else ret ())))
      else decryptStdin L C sch)"

definition encryptCommands :: "'e cliLib \<Rightarrow> 'e cliClient \<Rightarrow> bool list \<Rightarrow> 'e command list" where
  "encryptCommands L C sch =
     [Command ''encrypt'' []
       [StringSliceFlag ''recipient, r'', StringFlag ''sender, signer, s'' [], BoolFlag ''armor, a'', StringFlag ''in, i'' [],
        StringFlag ''out, o'' [], StringFlag ''mode, m'' [], BoolFlag ''no-signer-recipient''] []
       (Some (encryptAction L C sch)),
      Command ''decrypt'' [] [StringFlag ''in, i'' [], StringFlag ''out, o'' []] [] (Some (decryptAction L C sch))]"

section \<open>cmd_sign.go\<close>

datatype signOption = DefaultOption | TrueOption | FalseOption

datatype inputType = StdIn | FileIn

record signMode =
  smArmored :: signOption
  smDetached :: signOption

definition isArmored :: "signMode \<Rightarrow> inputType \<Rightarrow> bool \<Rightarrow> bool" where
  "isArmored m it detached =
     (if smArmored m = DefaultOption then detached \<or> it = StdIn else smArmored m = TrueOption)"

definition isDetached :: "signMode \<Rightarrow> inputType \<Rightarrow> bool" where
  "isDetached m it =
     (if smDetached m = DefaultOption then (case it of FileIn \<Rightarrow> True | _ \<Rightarrow> False) else smDetached m = TrueOption)"

definition parseMode :: "cliContext \<Rightarrow> err + signMode" where
  "parseMode c =
     (let attached = cBool c ''attached''; detached = cBool c ''detached''; armor = cBool c ''armor''; binary = cBool c ''binary'';
          mode = \<lparr>smArmored = (if binary then FalseOption else if armor then TrueOption else DefaultOption),
                  smDetached = (if detached then TrueOption else if attached then FalseOption else DefaultOption)\<rparr>
      in if attached \<and> detached then Inl (Err ''conflicting attached and detached options'')
         else if armor \<and> binary then Inl (Err ''conflicting armor and binary options'')
         else Inr mode)"

definition signStdin :: "'e cliClient \<Rightarrow> bool list \<Rightarrow> cliContext \<Rightarrow> signMode \<Rightarrow> 'e cli \<Rightarrow> ((err + unit) \<times> 'e cli) option" where
  "signStdin C sch c mode =
     (let S = cSignStream (coRPC C); detached = isDetached mode StdIn in
      bndP (liftP (call (smOpen S))) (\<lambda>_.
      bndP (liftP (call (smSend S \<lparr>siSigner = cString c ''signer'', siArmored = isArmored mode StdIn detached,
                                   siDetached = detached, siData = []\<rparr>))) (\<lambda>_.
      race False (sendPiece S (\<lambda>b. \<lparr>siSigner = [], siArmored = False, siDetached = False, siData = b\<rparr>))
        (writeRound S) sch () True None)))"

definition signFile :: "'e cliLib \<Rightarrow> 'e cliClient \<Rightarrow> string \<Rightarrow> bool \<Rightarrow> bool \<Rightarrow> string \<Rightarrow> string \<Rightarrow> ('e, unit) run" where
  "signFile L C signer armored detached inp out0 =
     bnd (call (cuAbs L inp)) (\<lambda>i.
     bnd (absIf L out0) (\<lambda>out.
     bnd (exchange (cSignFile (coRPC C))
            \<lparr>sfSigner = signer, sfArmored = armored, sfDetached = detached, sfIn = i, sfOut = out\<rparr>) (\<lambda>o'.
     if o' \<noteq> [] then printErr (''out: '' @ o' @ [nl]) else ret ())))"

definition signFileForCLI :: "'e cliLib \<Rightarrow> 'e cliClient \<Rightarrow> cliContext \<Rightarrow> signMode \<Rightarrow> ('e, unit) run" where
  "signFileForCLI L C c mode =
     (let detached = isDetached mode FileIn in
      signFile L C (cString c ''signer'') (isArmored mode FileIn detached) detached (cString c ''in'') (cString c ''out''))"

definition signCommands :: "'e cliLib \<Rightarrow> 'e cliClient \<Rightarrow> bool list \<Rightarrow> 'e command list" where
  "signCommands L C sch =
     [Command ''sign'' []
       [StringFlag ''signer, s'' [], StringFlag ''in, i'' [], StringFlag ''out, o'' [], BoolFlag ''attached, t'',
        BoolFlag ''detached, d'', BoolFlag ''armor, a'', BoolFlag ''binary, b''] []
       (Some (\<lambda>c. bndP (liftP (lift (parseMode c))) (\<lambda>mode.
          if cString c ''in'' \<noteq> [] then liftP (signFileForCLI L C c mode) else signStdin C sch c mode)))]"

end
