(* ===== verification/CliCommands.thy ===== *)
theory CliCommands
  imports Cli WormholeService
begin

text \<open>
  The other commands, each of which makes one or two calls: \<^verbatim>\<open>keys user\<close> (\<^verbatim>\<open>service/cmd_user.go\<close>),
  \<^verbatim>\<open>keys sigchain\<close> (\<^verbatim>\<open>cmd_sigchain.go\<close>), keys (\<^verbatim>\<open>cmd_key.go\<close>, \<^verbatim>\<open>cmd_export.go\<close>,
  \<^verbatim>\<open>cmd_import.go\<close>), \<^verbatim>\<open>keys pull\<close> and \<^verbatim>\<open>push\<close> (\<^verbatim>\<open>cmd_pull.go\<close>), \<^verbatim>\<open>keys rand\<close>
  (\<^verbatim>\<open>cmd_other.go\<close>), \<^verbatim>\<open>keys vault\<close>, \<^verbatim>\<open>db\<close>, \<^verbatim>\<open>admin\<close>, and \<^verbatim>\<open>keys wormhole\<close>
  (\<^verbatim>\<open>cmd_wormhole.go\<close>).
\<close>

definition noAction :: "(cliContext \<Rightarrow> 'e cli \<Rightarrow> ((err + unit) \<times> 'e cli) option) option" where
  "noAction = None"

section \<open>cmd_user.go\<close>

definition userFind :: "'e cliClient \<Rightarrow> cliContext \<Rightarrow> ('e, unit) run" where
  "userFind C c =
     bnd (lift (argString c ''kid'' False)) (\<lambda>kid.
     bnd (call (cUser (coRPC C) kid (cBool c ''local''))) (\<lambda>u.
     if u = None then ret () else println (fmtUser u)))"

text \<open>A nil user in the list would be dereferenced.\<close>

definition userLine :: "rpcUser option \<Rightarrow> ('e, string) run" where
  "userLine u = (case u of None \<Rightarrow> fail (Panic ''nil user'') | Some x \<Rightarrow> ret (fmtUser u @ tab # ruKID x @ [nl]))"

definition userSearch :: "'e cliClient \<Rightarrow> cliContext \<Rightarrow> ('e, unit) run" where
  "userSearch C c =
     bnd (lift (argString c ''query'' True)) (\<lambda>query.
     bnd (call (cUserSearch (coRPC C) query (int32 (cInt c ''limit'')) (cBool c ''local''))) (\<lambda>us.
     bnd (collect us (\<lambda>u. bnd (userLine u) (\<lambda>l. ret (Some l)))) (\<lambda>ls.
     print (tabwriter (concat ls)))))"

definition userServiceOf :: "string \<Rightarrow> string \<times> string" where
  "userServiceOf input =
     (let t = trimSpace (toLower input) in
      if t \<in> {''g'', ''github''} then (''github'', ''What's your Github username?'')
      else if t \<in> {''t'', ''twitter''} then (''twitter'', ''What's your Twitter handle?'')
      else if t \<in> {''r'', ''reddit''} then (''reddit'', ''What's your Reddit username?'')
      else ([], []))"

text \<open>The instructions, the link and the question for the URL.\<close>

definition userHelp :: "string \<Rightarrow> string \<Rightarrow> string \<times> string \<times> string" where
  "userHelp service name =
     (if service = ''github'' then
        (''Create a new gist on your Github account, and paste the signed message there.'',
         ''https://gist.github.com/new'',
         ''What's the location (URL) on github.com where the signed message was saved?'')
      else if service = ''twitter'' then
        (''Save the following signed message as a tweet on your Twitter account.'',
         ''https://twitter.com/intent/tweet'',
         ''What's the location (URL) on twitter.com where the signed message tweet was saved?'')
      else if service = ''reddit'' then
        (''Save the following signed message as a post on your user subreddit.'',
         ''https://www.reddit.com/user/'' @ name @ ''/submit'',
         ''What's the location (URL) where the signed message was posted?'')
      else ([], [], []))"

definition userSetup :: "'e cliClient \<Rightarrow> cliContext \<Rightarrow> ('e, unit) run" where
  "userSetup C c =
     bnd (lift (argString c ''kid'' False)) (\<lambda>kid.
     bnd (forEach [''What's the service? '', ''(g) Github'', ''(t) Twitter'', ''(r) Reddit''] println) (\<lambda>_.
     bnd (readLine []) (\<lambda>(input, b1).
     let (service, question) = userServiceOf input in
     bnd (println []) (\<lambda>_. bnd (print (question @ '' '')) (\<lambda>_.
     bnd (readLine b1) (\<lambda>(uin, b2).
     let name = trimSpace (toLower uin) in
     bnd (call (cUserSign (coRPC C) kid service name)) (\<lambda>message.
     let (instructions, link, urlq) = userHelp service name in
     bnd (forEach [[], instructions, link, [], message, []] println) (\<lambda>_.
     bnd (print ''Have you posted the signed message (Y/n)? '') (\<lambda>_.
     bnd (readLine b2) (\<lambda>(proceed, b3).
     if trimSpace (toLower proceed) \<notin> {''y'', ''yes'', []} then ret () else
     bnd (print (urlq @ '' '')) (\<lambda>_.
     bnd (readLine b3) (\<lambda>(surl, _).
     let url = trimSpace (toLower surl) in
     bnd (call (cUserAdd (coRPC C) kid service name url False)) (\<lambda>_.
     println ''User successfully setup.'')))))))))))))"

text \<open>The bytes of a statement of a response, printed on a line.\<close>

definition printStatement :: "('s, 'n, 'd, 'w, 'k, 'f, 'r) rpc \<Rightarrow> rpcStatement \<Rightarrow> ('e, unit) run" where
  "printStatement E st =
     bnd (lift (statementFromRPC E st)) (\<lambda>s.
     bnd (lift (apStBytes (rpA E) s)) println)"

definition userCommands :: "('s, 'n, 'd, 'w, 'k, 'f, 'r) rpc \<Rightarrow> 'e cliClient \<Rightarrow> 'e command list" where
  "userCommands E C =
     [Command ''user'' [] []
        [Command ''find'' [] [StringFlag ''kid, k'' [], BoolFlag ''local''] [] (act (userFind C)),
         Command ''search'' [] [StringFlag ''query, q'' [], IntFlag ''limit, l'' 0, BoolFlag ''local''] [] (act (userSearch C)),
         Command ''setup'' [] [StringFlag ''kid, k'' []] [] (act (userSetup C)),
         Command ''sign'' [] [StringFlag ''kid, k'' [], StringFlag ''service'' [], StringFlag ''name'' []] [] (act (\<lambda>c.
           bnd (call (cUserSign (coRPC C) (cString c ''kid'') (cString c ''service'') (cString c ''name''))) println)),
         Command ''add'' [] [StringFlag ''kid, k'' [], StringFlag ''service'' [], StringFlag ''name'' [], StringFlag ''url'' [],
             BoolFlag ''local''] [] (act (\<lambda>c.
           bnd (call (cUserAdd (coRPC C) (cString c ''kid'') (cString c ''service'') (cString c ''name'') (cString c ''url'')
                  (cBool c ''local''))) (printStatement E)))]
        noAction]"

section \<open>cmd_sigchain.go\<close>

definition sigchainShow :: "('s, 'n, 'd, 'w, 'k, 'f, 'r) rpc \<Rightarrow> 'e cliClient \<Rightarrow> cliContext \<Rightarrow> ('e, unit) run" where
  "sigchainShow E C c =
     bnd (lift (argString c ''kid'' False)) (\<lambda>kida.
     let seq = cInt c ''seq'' in
     if seq \<noteq> 0 then bnd (call (cStatement (coRPC C) kida (int32 seq))) (printStatement E)
     else bnd (call (cSigchain (coRPC C) kida)) (\<lambda>(key, sts).
          case key of None \<Rightarrow> fail (Panic ''nil key'')
          | Some k \<Rightarrow>
              bnd (lift (wParseID (rpW E) (rkID k))) (\<lambda>kid.
              bnd (lift (sigchainFromRPC E kid sts)) (\<lambda>sc.
              forEach sc (\<lambda>st. bnd (lift (apStBytes (rpA E) st)) println)))))"

definition statementAdd :: "('s, 'n, 'd, 'w, 'k, 'f, 'r) rpc \<Rightarrow> 'e cliClient \<Rightarrow> cliContext \<Rightarrow> ('e, unit) run" where
  "statementAdd E C c =
     bnd (failIf (ctArgs c \<noteq> []) (Err ''input is from stdin, not as an argument'')) (\<lambda>_.
     bnd readAllIn (\<lambda>b.
     bnd (failIf (length b > 16 * 1024) (Err ''sigchain data restricted to 16KB'')) (\<lambda>_.
     bnd (call (cStatementCreate (coRPC C) (cString c ''kid'') (Some b) (cBool c ''local''))) (printStatement E))))"

definition statementRevoke :: "('s, 'n, 'd, 'w, 'k, 'f, 'r) rpc \<Rightarrow> 'e cliClient \<Rightarrow> cliContext \<Rightarrow> ('e, unit) run" where
  "statementRevoke E C c =
     bnd (lift (argString c ''kid'' False)) (\<lambda>kid.
     bnd (call (cStatementRevoke (coRPC C) kid (int32 (cInt c ''seq'')) (cBool c ''local''))) (printStatement E))"

definition sigchainCommands :: "('s, 'n, 'd, 'w, 'k, 'f, 'r) rpc \<Rightarrow> 'e cliClient \<Rightarrow> 'e command list" where
  "sigchainCommands E C =
     [Command ''sigchain'' [] []
        [Command ''show'' [] [StringFlag ''kid, k'' [], IntFlag ''seq, s'' 0] [] (act (sigchainShow E C)),
         Command ''statement'' [] []
           [Command ''add'' [] [StringFlag ''kid, k'' [], BoolFlag ''local''] [] (act (statementAdd E C)),
            Command ''revoke'' [] [StringFlag ''kid, k'' [], IntFlag ''seq, s'' 0, BoolFlag ''local''] []
              (act (statementRevoke E C))]
           noAction]
        noAction]"

section \<open>cmd_key.go, cmd_export.go, cmd_import.go, cmd_pull.go\<close>

definition keyCommands :: "'e cliLib \<Rightarrow> 'e cliClient \<Rightarrow> 'e command list" where
  "keyCommands L C =
     [Command ''list'' [] [StringSliceFlag ''type, t''] [] (act (\<lambda>c.
        bnd (call (cKeys (coRPC C) (cSlice c ''type''))) (\<lambda>ks. print (fmtKeys (cuFormat L) ks)))),
      Command ''key'' [] [] [] (act (\<lambda>c.
        let key = cArg c 0 in
        bnd (failIf (key = []) (Err ''specify kid or user@service'')) (\<lambda>_.
        bnd (call (cKey (coRPC C) key)) (\<lambda>k.
        case k of None \<Rightarrow> fail (Err ''key not found'') | Some x \<Rightarrow> println (cuKey L x))))),
      Command ''generate'' [] [StringFlag ''type, t'' ''edx25519''] [] (act (\<lambda>c.
        bnd (call (cKeyGenerate (coRPC C) (cString c ''type''))) println)),
      Command ''remove'' [] [StringFlag ''kid, k'' []] [] (act (\<lambda>c.
        bnd (lift (argString c ''kid'' False)) (\<lambda>kid. call (cKeyRemove (coRPC C) kid))))]"

definition exportTypeFromString :: "string \<Rightarrow> err + exportType" where
  "exportTypeFromString s =
     (if s \<in> {[], ''default''} then Inr DefaultExport
      else if s = ''ssh'' then Inr SSHExport
      else Inl (Err (''invalid type: '' @ s)))"

definition exportAction :: "'e cliClient \<Rightarrow> cliContext \<Rightarrow> ('e, unit) run" where
  "exportAction C c =
     bnd (lift (argString c ''kid'' False)) (\<lambda>kid.
     bnd (lift (exportTypeFromString (cString c ''type''))) (\<lambda>t.
     let public = cBool c ''public''; noPassword = cBool c ''no-password'' in
     bnd (if \<not> public \<and> \<not> noPassword \<and> cString c ''password'' = [] then readVerifyPassword ''Enter the password:''
          else ret (cString c ''password'')) (\<lambda>password.
     bnd (call (cKeyExport (coRPC C) kid t public noPassword password)) println)))"

definition exportCommands :: "'e cliClient \<Rightarrow> 'e command list" where
  "exportCommands C =
     [Command ''export'' [] [StringFlag ''kid, k'' [], StringFlag ''type, t'' ''default'', BoolFlag ''public'',
        StringFlag ''password, p'' [], BoolFlag ''no-password''] [] (act (exportAction C))]"

definition importAction :: "'e cliLib \<Rightarrow> 'e cliClient \<Rightarrow> cliContext \<Rightarrow> ('e, unit) run" where
  "importAction L C c =
     bnd (if cString c ''in'' \<noteq> [] then bnd (call (cuAbs L (cString c ''in''))) (\<lambda>p. call (cuReadFile L p)) else readAllIn) (\<lambda>b.
     bnd (if cString c ''password'' = [] \<and> \<not> cBool c ''no-password'' then readPassword ''Enter the password:'' False
          else ret (cString c ''password'')) (\<lambda>password.
     bnd (call (cKeyImport (coRPC C) b password)) println))"

definition importCommands :: "'e cliLib \<Rightarrow> 'e cliClient \<Rightarrow> 'e command list" where
  "importCommands L C =
     [Command ''import'' [] [StringFlag ''in, i'' [], StringFlag ''password, p'' [], BoolFlag ''no-password''] []
        (act (importAction L C))]"

definition pullCommands :: "'e cliClient \<Rightarrow> 'e command list" where
  "pullCommands C =
     [Command ''pull'' [] [] [] (act (\<lambda>c.
        bnd (call (cPull (coRPC C) (cArg c 0))) (\<lambda>kids. forEach kids println))),
      Command ''push'' [''publish''] [BoolFlag ''check''] [] (act (\<lambda>c.
        let key = cArg c 0 in
        bnd (failIf (key = []) (Err ''specify kid or user@service'')) (\<lambda>_.
        bnd (call (cPush (coRPC C) key (cBool c ''check''))) (\<lambda>urls. forEach urls println))))]"

section \<open>cmd_other.go, cmd_vault.go, cmd_db.go, cmd_admin.go\<close>

definition otherCommands :: "'e cliClient \<Rightarrow> 'e command list" where
  "otherCommands C =
     [Command ''rand'' []
        [IntFlag ''num-bytes, n'' 32, StringFlag ''encoding, enc, e'' ''base62'', BoolFlag ''no-padding'', BoolFlag ''lower'']
        [Command ''password'' [] [IntFlag ''length, l'' 20] [] (act (\<lambda>c.
           bnd (call (cRandPassword (coRPC C) (int32 (cInt c ''length'')))) println)),
         Command ''passphrase'' [] [] [] (act (\<lambda>c.
           bnd (call (cRand (coRPC C) 16 BIP39 False False)) println))]
        (act (\<lambda>c.
           bnd (lift (encodingToRPC (cString c ''enc''))) (\<lambda>enc.
           bnd (call (cRand (coRPC C) (int32 (cInt c ''num-bytes'')) enc (cBool c ''no-padding'') (cBool c ''lower''))) println)))]"

definition vaultCommands :: "'e cliClient \<Rightarrow> 'e command list" where
  "vaultCommands C =
     [Command ''vault'' [] []
        [Command ''sync'' [] [] [] (act (\<lambda>c. call (cVaultSync (coRPC C)))),
         Command ''auth'' [] [] [] (act (\<lambda>c. bnd (call (cVaultAuth (coRPC C))) println))]
        noAction]"

text \<open>The collections and documents of a response are never nil, so their formats have no such case.\<close>

definition fmtCollections :: "string list \<Rightarrow> string" where
  "fmtCollections cols = tabwriter (concat (map (\<lambda>p. p @ [nl]) cols))"

definition fmtDocument :: "rpcDocument \<Rightarrow> string" where
  "fmtDocument d = rdPath d @ tab # rdValue d @ [nl]"

definition fmtDocuments :: "rpcDocument list \<Rightarrow> string" where
  "fmtDocuments docs = tabwriter (concat (map fmtDocument docs))"

definition documentDeleteCommand :: "'e cliClient \<Rightarrow> 'e command" where
  "documentDeleteCommand C = Command ''rm'' [] [StringFlag ''db'' ''service''] [] (act (\<lambda>c.
     call (cDocumentDelete (coRPC C) (cString c ''db'') (cArg c 0))))"

definition dbCommands :: "'e cliClient \<Rightarrow> 'e command list" where
  "dbCommands C =
     [Command ''db'' [] []
        [Command ''collections'' [] [StringFlag ''db'' ''service''] [] (act (\<lambda>c.
           bnd (failIf (length (ctArgs c) > 1) (Err ''too many arguments'')) (\<lambda>_.
           bnd (call (cCollections (coRPC C) (cString c ''db'') (cArg c 0))) (\<lambda>cols. print (fmtCollections cols))))),
         Command ''documents'' [] [StringFlag ''db'' ''service''] [documentDeleteCommand C] (act (\<lambda>c.
           bnd (failIf (length (ctArgs c) > 1) (Err ''too many arguments'')) (\<lambda>_.
           let path = trimSpace (cArg c 0) in
           if path = [] then
             bnd (call (cCollections (coRPC C) (cString c ''db'') [])) (\<lambda>cols. print (fmtCollections cols))
           else
             bnd (call (cDocuments (coRPC C) (cString c ''db'') path)) (\<lambda>docs. print (fmtDocuments docs)))))]
        noAction]"

definition adminCommands :: "'e cliLib \<Rightarrow> 'e cliClient \<Rightarrow> 'e command list" where
  "adminCommands L C =
     [Command ''admin'' [] []
        [Command ''sign-url'' [] [StringFlag ''signer, s'' [], StringFlag ''method, m'' [], StringFlag ''url, u'' []] [] (act (\<lambda>c.
           bnd (call (cAdminSignURL (coRPC C) (cString c ''signer'') (cString c ''method'') (cString c ''url''))) (\<lambda>r.
           println (cuSignURL L r)))),
         Command ''check'' [] [StringFlag ''signer, s'' [], StringFlag ''check, c'' []] [] (act (\<lambda>c.
           bnd (call (cAdminCheck (coRPC C) (cString c ''signer'') (cString c ''check''))) (\<lambda>_. println [])))]
        noAction]"

section \<open>cmd_wormhole.go\<close>

definition fmtWormholeMessage :: "rpcWormholeMessage option \<Rightarrow> ('e, unit) run" where
  "fmtWormholeMessage msg =
     (case msg of None \<Rightarrow> ret ()
      | Some m \<Rightarrow>
          if wmText m = [] then ret ()
          else case wmSender m of None \<Rightarrow> fail (Panic ''nil key'')
               | Some k \<Rightarrow> print (identityForKey k @ '': '' @ wmText m @ [nl]))"

text \<open>
  \<^verbatim>\<open>bufio.Scanner\<close> by lines: a line without its end and a carriage return before it, or the reason why
  there is none (\<open>None\<close> at the end). A line of more than 64KiB is an error.
\<close>

definition dropCR :: "string \<Rightarrow> string" where
  "dropCR t = (if t \<noteq> [] \<and> last t = CHR 0x0D then butlast t else t)"

definition scanLine :: "string \<Rightarrow> ('e, (err option + string) \<times> string) run" where
  "scanLine buf =
     bnd (readString buf) (\<lambda>(t, rest, e).
     if length t > 64 * 1024 then ret (Inl (Some (LibErr ''bufio.Scanner: token too long'')), [])
     else case e of
       None \<Rightarrow> ret (Inr (dropCR (butlast t)), rest)
     | Some x \<Rightarrow> if t \<noteq> [] then ret (Inr (dropCR t), [])
                  else ret (Inl (if x = EOF then None else Some x), []))"

text \<open>
  The main goroutine sends the lines that are typed; a second one prints what is received and ends the
  process at the end of the stream, on an error, or a second after the wormhole has closed. The turns
  say whose round is completed next; the command is over when the main goroutine is.
\<close>

datatype turn = TypedLine | Received | Slept

definition statusText :: "rpcWormholeStatus \<Rightarrow> string" where
  "statusText st =
     (case st of WormholeHandshake \<Rightarrow> ''Trying handshake...'' @ [nl]
      | WormholeConnected \<Rightarrow> ''Wormhole connected, type a message.'' @ [nl]
      | WormholeClosed \<Rightarrow> ''Wormhole closed.'' @ [nl] | _ \<Rightarrow> [])"

definition receiveTurn :: "('e, rpcWormholeInput, rpcWormholeOutput) stream \<Rightarrow> rpcWormholeStatus \<Rightarrow> bool \<Rightarrow>
   ('e, rpcWormholeStatus \<times> bool) run" where
  "receiveTurn W st ending =
     orElse (call (smRecv W))
       (\<lambda>e. if e = EOF then exit 0 else bnd (clientFatal (OtherError e)) (\<lambda>_. ret (st, ending)))
       (\<lambda>resp.
          bnd (if woStatus resp \<noteq> st then print (statusText (woStatus resp)) else ret ()) (\<lambda>_.
          bnd (fmtWormholeMessage (woMessage resp)) (\<lambda>_.
          ret (woStatus resp, ending \<or> woStatus resp \<noteq> st \<and> woStatus resp = WormholeClosed))))"

definition typedTurn :: "'e cliLib \<Rightarrow> ('e, rpcWormholeInput, rpcWormholeOutput) stream \<Rightarrow> string \<Rightarrow> ('e, err option + string) run" where
  "typedTurn L W buf =
     bnd (scanLine buf) (\<lambda>(r, rest).
     case r of Inl e \<Rightarrow> ret (Inl e)
     | Inr text \<Rightarrow>
         bnd (call (cuNewID L)) (\<lambda>i.
         bnd (call (smSend W \<lparr>wiSender = [], wiRecipient = [], wiInvite = [], wiID = i, wiText = text\<rparr>)) (\<lambda>_.
         ret (Inr rest))))"

primrec wormholeTurns :: "'e cliLib \<Rightarrow> ('e, rpcWormholeInput, rpcWormholeOutput) stream \<Rightarrow> turn list \<Rightarrow> string \<Rightarrow>
   rpcWormholeStatus \<Rightarrow> bool \<Rightarrow> 'e cli \<Rightarrow> ((err + unit) \<times> 'e cli) option" where
  "wormholeTurns L W [] buf st ending s = None"
| "wormholeTurns L W (t # ts) buf st ending s =
     (case t of
        TypedLine \<Rightarrow>
          (case typedTurn L W buf s of
             (Inl e, s') \<Rightarrow> Some (Inl e, s')
           | (Inr (Inl (Some e)), s') \<Rightarrow> Some (Inl e, s')
           | (Inr (Inl None), s') \<Rightarrow> Some (Inr (), s')
           | (Inr (Inr rest), s') \<Rightarrow> wormholeTurns L W ts rest st ending s')
      | Received \<Rightarrow>
          (case receiveTurn W st ending s of
             (Inl e, s') \<Rightarrow> Some (Inl e, s')
           | (Inr (st', ending'), s') \<Rightarrow> wormholeTurns L W ts buf st' ending' s')
      | Slept \<Rightarrow> if ending then Some (exit 0 s) else wormholeTurns L W ts buf st ending s)"

definition wormholeAction :: "'e cliLib \<Rightarrow> ('e, rpcWormholeInput, rpcWormholeOutput) stream \<Rightarrow> turn list \<Rightarrow> cliContext \<Rightarrow>
   'e cli \<Rightarrow> ((err + unit) \<times> 'e cli) option" where
  "wormholeAction L W ts c =
     bndP (liftP (call (smOpen W))) (\<lambda>_.
     bndP (liftP (println ''Starting wormhole...'')) (\<lambda>_.
     bndP (liftP (call (smSend W \<lparr>wiSender = cString c ''sender'', wiRecipient = cString c ''recipient'',
                                 wiInvite = cString c ''invite'', wiID = [], wiText = []\<rparr>))) (\<lambda>_.
     wormholeTurns L W ts [] WormholeDefault False)))"

definition wormholeCommands :: "'e cliLib \<Rightarrow> ('e, rpcWormholeInput, rpcWormholeOutput) stream \<Rightarrow> turn list \<Rightarrow> 'e command list" where
  "wormholeCommands L W ts =
     [Command ''wormhole'' [] [StringFlag ''sender, s'' [], StringFlag ''recipient, r'' [], StringFlag ''invite'' []] []
        (Some (wormholeAction L W ts))]"

end
