(* ===== verification/Process.thy ===== *)
theory Process
  imports ServiceFiles ServiceSession Env
begin

text \<open>
  Process control: starting, stopping and waiting for the service's process (\<^verbatim>\<open>service/autostart.go\<close>,
  \<^verbatim>\<open>pid.go\<close>, \<^verbatim>\<open>install.go\<close>), its certificate (\<^verbatim>\<open>cert.go\<close>), and the start of the service in that
  process (\<^verbatim>\<open>run.go\<close>, \<^verbatim>\<open>log.go\<close>, \<^verbatim>\<open>support.go\<close>, \<^verbatim>\<open>exec.go\<close>). The operating system is a record of
  functions on a state \<open>'w\<close>.
\<close>

record 'w procs =
  pcEnv :: "'w envLib"
  pcGOOS :: string
  \<comment> \<open>os.Executable, filepath.EvalSymlinks, the home directory of user.Current, codesign -v\<close>
  pcExecutable :: "('w, string) op"
  pcEvalSymlinks :: "string \<Rightarrow> ('w, string) op"
  pcHome :: "('w, string) op"
  pcCodesign :: "string \<Rightarrow> ('w, unit) op"
  \<comment> \<open>ps.Processes and ps.FindProcess; os.FindProcess (whether it is not nil), Kill; exec.Command.Start; os.Getpid\<close>
  pcProcesses :: "('w, (int \<times> string) list) op"
  pcIsProcess :: "int \<Rightarrow> ('w, bool) op"
  pcFind :: "int \<Rightarrow> ('w, bool) op"
  pcKill :: "int \<Rightarrow> ('w, unit) op"
  pcStart :: "string \<Rightarrow> string list \<Rightarrow> ('w, unit) op"
  pcPID :: int
  \<comment> \<open>the ticks of a ticker that come before a timer fires, by their periods in milliseconds, and one of them\<close>
  pcTicks :: "nat \<Rightarrow> nat \<Rightarrow> nat"
  pcTick :: "nat \<Rightarrow> ('w, unit) op"
  \<comment> \<open>os.Symlink, os.Lstat (whether it is a link), os.Readlink, os.RemoveAll, env.AllDirs\<close>
  pcSymlink :: "string \<Rightarrow> string \<Rightarrow> ('w, unit) op"
  pcIsLink :: "string \<Rightarrow> ('w, bool) op"
  pcReadlink :: "string \<Rightarrow> ('w, string) op"
  pcRemoveAll :: "string \<Rightarrow> ('w, unit) op"
  pcAllDirs :: "string \<Rightarrow> ('w, string list) op"
  \<comment> \<open>GenerateCertificateKey of localhost (its public part); listening on a port (and closing again), serving\<close>
  pcGenCert :: "('w, string) op"
  pcProbe :: "int \<Rightarrow> ('w, unit) op"
  pcListen :: "int \<Rightarrow> ('w, unit) op"
  pcServe :: "('w, unit) op"

section \<open>exec.go and support.go\<close>

definition executablePath :: "'w procs \<Rightarrow> ('w, string) op" where
  "executablePath R =
     bnd (wrapErr ''os.Executable failed'' (pcExecutable R)) (\<lambda>exe.
     wrapErr ''eval symlinks failed'' (pcEvalSymlinks R exe))"

definition checkSupportedOS :: "'w procs \<Rightarrow> ('w, unit) op" where
  "checkSupportedOS R =
     (if pcGOOS R \<in> {''darwin'', ''windows'', ''linux''} then ret ()
      else fail (Err (pcGOOS R @ '' is not currently supported'')))"

definition checkCodesigned :: "'w procs \<Rightarrow> ('w, unit) op" where
  "checkCodesigned R =
     bnd (executablePath R) (\<lambda>exe. wrapErr (exe @ '' is not codesigned'') (pcCodesign R exe))"

section \<open>pid.go\<close>

text \<open>The process id in a file, -1 if there is none.\<close>

definition checkForPID :: "'w procs \<Rightarrow> string \<Rightarrow> ('w, int) op" where
  "checkForPID R path =
     bnd (pathExists (elStat (pcEnv R)) path) (\<lambda>exists.
     if \<not> exists then ret (- 1) else
     bnd (elRead (pcEnv R) path) (\<lambda>b.
     bnd (lift (parseInt b)) (\<lambda>n.
     bnd (failIf (n < 0) (Err ''negative pid'')) (\<lambda>_. ret n))))"

text \<open>
  The loop of \<^verbatim>\<open>waitForPID\<close> runs in a goroutine, one round per tick; the function returns its result or,
  when the timer fires first, an error. \<open>n\<close> ticks come before that.
\<close>

primrec pidRounds :: "'w procs \<Rightarrow> string \<Rightarrow> ('w, unit) op option \<Rightarrow> nat \<Rightarrow> nat \<Rightarrow> ('w, int) op" where
  "pidRounds R path checkFn delay 0 = fail (Err ''timed out waiting for pid'')"
| "pidRounds R path checkFn delay (Suc n) =
     bnd (pcTick R delay) (\<lambda>_.
     bnd (checkForPID R path) (\<lambda>pid.
     bnd (case checkFn of None \<Rightarrow> ret () | Some m \<Rightarrow> m) (\<lambda>_.
     if pid = - 1 then pidRounds R path checkFn delay n else ret pid)))"

definition waitForPID :: "'w procs \<Rightarrow> string \<Rightarrow> ('w, unit) op option \<Rightarrow> nat \<Rightarrow> nat \<Rightarrow> ('w, int) op" where
  "waitForPID R path checkFn delay wait = pidRounds R path checkFn delay (pcTicks R delay wait)"

primrec exitRounds :: "'w procs \<Rightarrow> int \<Rightarrow> nat \<Rightarrow> nat \<Rightarrow> ('w, unit) op" where
  "exitRounds R pid delay 0 = fail (Err ''timed out waiting for pid to exit'')"
| "exitRounds R pid delay (Suc n) =
     bnd (pcTick R delay) (\<lambda>_.
     bnd (pcIsProcess R pid) (\<lambda>found. if found then exitRounds R pid delay n else ret ()))"

definition waitForProcessExit :: "'w procs \<Rightarrow> int \<Rightarrow> nat \<Rightarrow> nat \<Rightarrow> ('w, unit) op" where
  "waitForProcessExit R pid delay wait = exitRounds R pid delay (pcTicks R delay wait)"

section \<open>install.go: paths\<close>

definition dirOf :: "string \<Rightarrow> string" where
  "dirOf p = clean (fst (splitFile p))"

definition exeDir :: "'w procs \<Rightarrow> ('w, string) op" where
  "exeDir R = bnd (mapErr (\<lambda>e. Panic (errText e)) (executablePath R)) (\<lambda>exe. ret (dirOf exe))"

definition withExe :: "'w procs \<Rightarrow> string \<Rightarrow> string" where
  "withExe R name = (if pcGOOS R = ''windows'' then name @ ''.exe'' else name)"

definition defaultBinPath :: "'w procs \<Rightarrow> string \<Rightarrow> ('w, string) op" where
  "defaultBinPath R name = bnd (exeDir R) (\<lambda>dir. ret (joinPath dir (withExe R name)))"

definition defaultServicePath :: "'w procs \<Rightarrow> string \<Rightarrow> ('w, string) op" where
  "defaultServicePath R name = bnd (exeDir R) (\<lambda>dir. ret (joinPath dir (withExe R name)))"

definition removeFile :: "'w procs \<Rightarrow> string \<Rightarrow> ('w, unit) op" where
  "removeFile R path =
     bnd (pathExists (elStat (pcEnv R)) path) (\<lambda>exists. if exists then elRemove (pcEnv R) path else ret ())"

section \<open>autostart.go\<close>

definition errNotRunning :: err where "errNotRunning = Err ''not running''"
definition errAlreadyRunning :: err where "errAlreadyRunning = Err ''already running''"

definition findProcessByName :: "'w procs \<Rightarrow> string \<Rightarrow> ('w, int option) op" where
  "findProcessByName R name =
     bnd (pcProcesses R) (\<lambda>ps.
     ret (map_option fst (List.find (\<lambda>(pid, exe). exe = name \<or> pcGOOS R = ''windows'' \<and> exe = name @ ''.exe'') ps)))"

definition clearPID :: "'w procs \<Rightarrow> env \<Rightarrow> ('w, unit) op" where
  "clearPID R c = bnd (AppPath (pcEnv R) c ''pid'' False) (removeFile R)"

definition waitForStart :: "'w procs \<Rightarrow> env \<Rightarrow> ('w, unit) op" where
  "waitForStart R c =
     bnd (AppPath (pcEnv R) c ''pid'' False) (\<lambda>path.
     bnd (waitForPID R path None 1000 20000) (\<lambda>_. ret ()))"

definition startProcess :: "'w procs \<Rightarrow> env \<Rightarrow> ('w, unit) op" where
  "startProcess R c =
     bnd (findProcessByName R (bdServiceName (evBuild c))) (\<lambda>ps.
     bnd (failIf (ps \<noteq> None) errAlreadyRunning) (\<lambda>_.
     bnd (defaultServicePath R (bdServiceName (evBuild c))) (\<lambda>bin.
     bnd (LogsPath (pcEnv R) c ''keysd.log'' True) (\<lambda>logPath.
     pcStart R bin [''-app'', evAppName c, ''-log-path'', logPath]))))"

definition stopProcess :: "'w procs \<Rightarrow> env \<Rightarrow> ('w, unit) op" where
  "stopProcess R c =
     bnd (findProcessByName R (bdServiceName (evBuild c))) (\<lambda>ps.
     case ps of None \<Rightarrow> fail errNotRunning
     | Some pid \<Rightarrow>
         bnd (pcFind R pid) (\<lambda>found.
         bnd (failIf (\<not> found) errNotRunning) (\<lambda>_.
         bnd (pcKill R pid) (\<lambda>_.
         waitForProcessExit R pid 500 10000))))"

definition autostart :: "'w procs \<Rightarrow> env \<Rightarrow> ('w, unit) op" where
  "autostart R c =
     orElse (startProcess R c) (\<lambda>e. if e = errAlreadyRunning then ret () else fail e) (\<lambda>_. waitForStart R c)"

section \<open>install.go\<close>

definition stop :: "'w procs \<Rightarrow> env \<Rightarrow> ('w, unit) op" where
  "stop R c = bnd (clearPID R c) (\<lambda>_. stopProcess R c)"

definition restart :: "'w procs \<Rightarrow> env \<Rightarrow> ('w, unit) op" where
  "restart R c = orElse (stop R c) (\<lambda>e. if e \<noteq> errNotRunning then fail e else autostart R c) (\<lambda>_. autostart R c)"

definition start :: "'w procs \<Rightarrow> env \<Rightarrow> bool \<Rightarrow> ('w, unit) op" where
  "start R c wait = bnd (startProcess R c) (\<lambda>_. if wait then waitForStart R c else ret ())"

definition installSymlink :: "'w procs \<Rightarrow> env \<Rightarrow> ('w, unit) op" where
  "installSymlink R c =
     bnd (failIf (pcGOOS R \<noteq> ''darwin'') (Err ''not implemented on this platform'')) (\<lambda>_.
     bnd (defaultBinPath R (bdCmdName (evBuild c))) (\<lambda>bin.
     bnd (failIf (prefix ''/Volumes/'' bin) (Err ''currently running from Volumes'')) (\<lambda>_.
     bnd (pathExists (elStat (pcEnv R)) (evLinkDir c)) (\<lambda>dirExists.
     bnd (failIf (\<not> dirExists) (Err (evLinkDir c @ '' does not exist''))) (\<lambda>_.
     bnd (pathExists (elStat (pcEnv R)) (linkPath c)) (\<lambda>linkExists.
     if linkExists then ret () else pcSymlink R bin (linkPath c)))))))"

definition removeSymlink :: "'w procs \<Rightarrow> env \<Rightarrow> ('w, bool) op" where
  "removeSymlink R c =
     (if pcGOOS R \<noteq> ''darwin'' then ret False
      else bnd (defaultBinPath R (bdCmdName (evBuild c))) (\<lambda>bin.
           bnd (pcIsLink R (linkPath c)) (\<lambda>isLink.
           if \<not> isLink then ret False
           else bnd (pcReadlink R (linkPath c)) (\<lambda>path.
                if path = bin then bnd (elRemove (pcEnv R) (linkPath c)) (\<lambda>_. ret True) else ret False))))"

text \<open>The state is the environment and the operating system.\<close>

definition startFromApp :: "'w procs \<Rightarrow> (env \<times> 'w, unit) op" where
  "startFromApp R =
     bnd (gets fst) (\<lambda>c.
     bnd (if envGetInt c ''disableSymlinkCheck'' 0 < 2
          then orElse (onFiles (installSymlink R c)) (\<lambda>e. ret ()) (\<lambda>_.
               bnd (modify (\<lambda>(c, w). (envSet ''disableSymlinkCheck'' ''2'' c, w))) (\<lambda>_. envSave (pcEnv R)))
          else ret ()) (\<lambda>_.
     bnd (gets fst) (\<lambda>c'. onFiles (restart R c'))))"

definition checkForAppConflict :: "'w procs \<Rightarrow> string \<Rightarrow> ('w, unit) op" where
  "checkForAppConflict R appName =
     bnd (executablePath R) (\<lambda>path.
     bnd (pcHome R) (\<lambda>home.
     forEach (if pcGOOS R = ''darwin''
              then [''/Applications/'' @ appName @ ''.app'', joinPath (joinPath home ''Applications'') (appName @ ''.app'')] else [])
       (\<lambda>c. if prefix c path then ret ()
            else bnd (pathExists (elStat (pcEnv R)) c) (\<lambda>exists.
                 failIf exists (Err (''You have the app installed ('' @ c @ ''), but this ('' @ path @
                   '') doesn't point there. You may have multiple installations?''))))))"

section \<open>cert.go\<close>

definition saveCertificate :: "'w procs \<Rightarrow> env \<Rightarrow> string \<Rightarrow> ('w, unit) op" where
  "saveCertificate R c cert = bnd (certPath (pcEnv R) c True) (\<lambda>path. elWrite (pcEnv R) path cert)"

definition GenerateCertificate :: "'w procs \<Rightarrow> env \<Rightarrow> bool \<Rightarrow> ('w, string) op" where
  "GenerateCertificate R c save =
     bnd (pcGenCert R) (\<lambda>cert.
     bnd (if save then wrapErr ''failed to save cert public key'' (saveCertificate R c cert) else ret ()) (\<lambda>_.
     ret cert))"

text \<open>Empty if there is no certificate.\<close>

definition loadCertificate :: "'w procs \<Rightarrow> env \<Rightarrow> ('w, string) op" where
  "loadCertificate R c =
     bnd (certPath (pcEnv R) c False) (\<lambda>path.
     bnd (pathExists (elStat (pcEnv R)) path) (\<lambda>exists.
     if \<not> exists then ret [] else
     bnd (elRead (pcEnv R) path) (\<lambda>b.
     bnd (failIf (\<not> utf8Valid b) (Err ''certificate is not valid utf8'')) (\<lambda>_. ret b))))"

definition DeleteCertificate :: "'w procs \<Rightarrow> env \<Rightarrow> ('w, unit) op" where
  "DeleteCertificate R c =
     bnd (certPath (pcEnv R) c False) (\<lambda>path.
     bnd (pathExists (elStat (pcEnv R)) path) (\<lambda>exists. if exists then elRemove (pcEnv R) path else ret ()))"

section \<open>run.go and log.go\<close>

datatype logLevel = ErrLevel | WarnLevel | InfoLevel | DebugLevel

definition parseLogLevel :: "string \<Rightarrow> logLevel option" where
  "parseLogLevel s =
     (if s = ''debug'' then Some DebugLevel else if s = ''info'' then Some InfoLevel else if s = ''warn'' then Some WarnLevel
      else if s = ''err'' then Some ErrLevel else if s = [] then Some InfoLevel else None)"

definition IsPortInUse :: "'w procs \<Rightarrow> int \<Rightarrow> ('w, bool) op" where
  "IsPortInUse R port = orElse (pcProbe R port) (\<lambda>e. ret True) (\<lambda>_. ret False)"

definition writePID :: "'w procs \<Rightarrow> env \<Rightarrow> ('w, unit) op" where
  "writePID R c = bnd (AppPath (pcEnv R) c ''pid'' False) (\<lambda>path. elWrite (pcEnv R) path (formatInt (pcPID R)))"

text \<open>
  \<^verbatim>\<open>NewServiceFn\<close> after \<^verbatim>\<open>newService\<close>: opening the service and the port; and the two functions it
  returns. \<open>convert\<close> is \<^verbatim>\<open>checkKeyringConvert\<close>. Interceptors are those of \<open>served\<close>; the plugin, which
  may be missing, is part of \<open>authLib\<close>.
\<close>

definition NewServiceFn ::
  "('s, 'n, 'd, 'w, 'k, 'f, 'r) rpc \<Rightarrow> 'w procs \<Rightarrow> env \<Rightarrow> ('s, 'n, 'd, 'w, unit) svc \<Rightarrow> string option \<Rightarrow> ('s, 'n, 'd, 'w, unit) svc" where
  "NewServiceFn E R c convert cert =
     (case cert of None \<Rightarrow> fail (Err ''no certificate was found'')
      | Some k \<Rightarrow>
          bnd (svcOpen E convert) (\<lambda>_.
          wrapErr ''failed to tcp listen'' (onDevice (pcListen R (envPort c)))))"

definition serveFn :: "'w procs \<Rightarrow> env \<Rightarrow> ('s, 'n, 'd, 'w, unit) svc" where
  "serveFn R c = onDevice (bnd (writePID R c) (\<lambda>_. pcServe R))"

definition runService ::
  "('s, 'n, 'd, 'w, 'k, 'f, 'r) rpc \<Rightarrow> 'w procs \<Rightarrow> env \<Rightarrow> ('s, 'n, 'd, 'w, unit) svc \<Rightarrow> ('s, 'n, 'd, 'w, unit) svc" where
  "runService E R c convert =
     bnd (onDevice (IsPortInUse R (envPort c))) (\<lambda>used.
     bnd (failIf used (Err (''port '' @ formatInt (envPort c) @ '' in use; is keysd already running?''))) (\<lambda>_.
     bnd (onDevice (GenerateCertificate R c True)) (\<lambda>cert.
     deferring
       (bnd (NewServiceFn E R c convert (Some cert)) (\<lambda>_.
        deferring (serveFn R c) (svcClose E)))
       (onDevice (DeleteCertificate R c)))))"

end
