(* ===== verification/CliMain.thy ===== *)
theory CliMain
  imports CliAuth CliFiles CliCommands Process
begin

text \<open>
  The command line client as a whole: connecting to the service and running a command
  (\<^verbatim>\<open>service/client.go\<close>), and the commands that work without the service: \<^verbatim>\<open>keys start\<close>, \<^verbatim>\<open>stop\<close>,
  \<^verbatim>\<open>restart\<close> and \<^verbatim>\<open>uninstall\<close> (\<^verbatim>\<open>cmd_start.go\<close>, \<^verbatim>\<open>install.go\<close>), \<^verbatim>\<open>env\<close> (\<^verbatim>\<open>cmd_env.go\<close>) and
  \<^verbatim>\<open>log\<close> (\<^verbatim>\<open>cmd_log.go\<close>). Log messages of the client are not part of the model. Also the main function
  of the service's process (\<^verbatim>\<open>run.go\<close>).
\<close>

section \<open>cmd_start.go, cmd_env.go, cmd_log.go\<close>

definition newClientEnv :: "'e procs \<Rightarrow> build \<Rightarrow> cliContext \<Rightarrow> ('e, env) run" where
  "newClientEnv R b c =
     (let appName = cGlobalString c ''app'' in
      bnd (failIf (appName = []) (Err ''no app name'')) (\<lambda>_. call (NewEnv (pcEnv R) appName b)))"

text \<open>An operation on the environment and the rest.\<close>

definition callEnv :: "env \<Rightarrow> (env \<times> 'e, 'a) op \<Rightarrow> ('e, env) run" where
  "callEnv v m = call (\<lambda>e. case m (v, e) of (Inl x, (_, e')) \<Rightarrow> (Inl x, e') | (Inr _, (v', e')) \<Rightarrow> (Inr v', e'))"

definition Uninstall :: "'e procs \<Rightarrow> (string \<Rightarrow> string) \<Rightarrow> env \<Rightarrow> ('e, unit) run" where
  "Uninstall R quote v =
     bnd (orElse (call (stopProcess R v)) (\<lambda>e. if e \<noteq> errNotRunning then fail e else ret ()) ret) (\<lambda>_.
     bnd (call (pcAllDirs R (evAppName v))) (\<lambda>dirs.
     bnd (forEach dirs (\<lambda>d.
       bnd (printlnErr (''Removing '' @ [CHR 0x22] @ d @ [CHR 0x22] @ ''.'')) (\<lambda>_. call (pcRemoveAll R d)))) (\<lambda>_.
     bnd (orElse (call (removeSymlink R v)) (\<lambda>e. ret False) ret) (\<lambda>ok.
     bnd (if ok then printlnErr (''Removed '' @ [CHR 0x22] @ linkPath v @ [CHR 0x22] @ ''.'') else ret ()) (\<lambda>_.
     printlnErr (''Uninstalled '' @ quote (evAppName v) @ ''.''))))))"

definition startAction :: "'e procs \<Rightarrow> build \<Rightarrow> cliContext \<Rightarrow> ('e, unit) run" where
  "startAction R b c =
     bnd (newClientEnv R b c) (\<lambda>v0.
     bnd (if cInt c ''port'' \<noteq> 0 then callEnv v0 (savePortFlag (pcEnv R) (cInt c ''port'')) else ret v0) (\<lambda>v.
     bnd (if cString c ''from'' = ''app'' then bnd (callEnv v (startFromApp R)) (\<lambda>_. ret ())
          else call (start R v True)) (\<lambda>_.
     println ''started'')))"

definition startCommands :: "'e procs \<Rightarrow> 'e cliLib \<Rightarrow> build \<Rightarrow> 'e command list" where
  "startCommands R L b =
     [Command ''restart'' [] [] [] (act (\<lambda>c.
        bnd (newClientEnv R b c) (\<lambda>v. bnd (call (restart R v)) (\<lambda>_. println ''restarted'')))),
      Command ''start'' [] [StringFlag ''from'' [], IntFlag ''port'' 0] [] (act (startAction R b)),
      Command ''stop'' [] [] [] (act (\<lambda>c.
        bnd (newClientEnv R b c) (\<lambda>v. bnd (call (stop R v)) (\<lambda>_. println ''stopped'')))),
      Command ''uninstall'' [] [BoolFlag ''force''] [] (act (\<lambda>c.
        bnd (newClientEnv R b c) (\<lambda>v.
        bnd (if cBool c ''force'' then ret ()
             else confirmed L ''Are you sure you want to uninstall and remove your vault?'') (\<lambda>_.
        Uninstall R (cuQuote L) v))))]"

definition envSetAction :: "'e procs \<Rightarrow> 'e cliLib \<Rightarrow> build \<Rightarrow> cliContext \<Rightarrow> ('e, unit) run" where
  "envSetAction R L b c =
     bnd (failIf (length (ctArgs c) \<noteq> 2) (Err ''not enough arguments'')) (\<lambda>_.
     let key = cArg c 0; val = cArg c 1 in
     bnd (newClientEnv R b c) (\<lambda>v0.
     bnd (failIf (\<not> IsKey key) (Err (''unrecognized env key '' @ cuQuote L key))) (\<lambda>_.
     bnd (println (''Setting '' @ key @ ''='' @ val)) (\<lambda>_.
     bnd (callEnv (envSet key val v0) (envSave (pcEnv R))) (\<lambda>v.
     bnd (call (envPath (pcEnv R) v False)) (\<lambda>path.
     bnd (println (''Saved env '' @ path @ ''.'')) (\<lambda>_.
     println ''You should restart the service.'')))))))"

definition envCommands :: "'e procs \<Rightarrow> 'e cliLib \<Rightarrow> build \<Rightarrow> 'e command list" where
  "envCommands R L b =
     [Command ''env'' [] [] [Command ''set'' [] [] [] (act (envSetAction R L b))] (act (\<lambda>c.
        bnd (newClientEnv R b c) (\<lambda>v. bnd (lift (envExport (pcEnv R) v)) println)))]"

definition logCommands :: "'e procs \<Rightarrow> build \<Rightarrow> 'e command list" where
  "logCommands R b =
     [Command ''log'' [] [] [] (act (\<lambda>c.
        bnd (newClientEnv R b c) (\<lambda>v. bnd (call (LogsPath (pcEnv R) v ''keysd.log'' False)) println)))]"

section \<open>client.go: connecting\<close>

text \<open>
  The connection: whether there is one, closing it, and dialing an address with the certificate's pool and
  a token. What \<^verbatim>\<open>urfave/cli\<close> makes of the arguments: the global flags, the names of the command and
  its subcommand, the flags and the remaining arguments.
\<close>

record invocation =
  ivGlobals :: "(string \<times> givenValue) list"
  ivPath :: "string list"
  ivGiven :: "(string \<times> givenValue) list"
  ivArgs :: "string list"

record 'e host =
  hoProcs :: "'e procs"
  hoOpen :: "'e \<Rightarrow> bool"
  hoClose :: "('e, unit) op"
  hoCertOk :: "string \<Rightarrow> bool"
  hoDial :: "string \<Rightarrow> string \<Rightarrow> ('e, unit) op"
  hoToken :: string
  hoParse :: "string list \<Rightarrow> err + invocation"

definition VersionDev :: string where "VersionDev = ''0.0.0-dev''"

definition connectLocal :: "'e host \<Rightarrow> env \<Rightarrow> string \<Rightarrow> ('e, unit) op" where
  "connectLocal H v token =
     bnd (loadCertificate (hoProcs H) v) (\<lambda>pem.
     bnd (failIf (pem = []) (Err ''no certificate was found'')) (\<lambda>_.
     bnd (failIf (\<not> hoCertOk H pem) (Err ''failed to add cert to pool'')) (\<lambda>_.
     hoDial H (''127.0.0.1:'' @ formatInt (envPort v)) token)))"

text \<open>An error of closing the connection before is only logged.\<close>

definition Connect :: "'e host \<Rightarrow> env \<Rightarrow> string \<Rightarrow> ('e, unit) op" where
  "Connect H v token =
     bnd (gets (hoOpen H)) (\<lambda>conn.
     bnd (if conn then orElse (hoClose H) (\<lambda>e. ret ()) ret else ret ()) (\<lambda>_.
     connectLocal H v token))"

text \<open>\<open>again\<close> is the call of \<^verbatim>\<open>connect\<close> after a restart, if that is to be tried.\<close>

definition connectTo :: "'e host \<Rightarrow> 'e cliClient \<Rightarrow> build \<Rightarrow> env \<Rightarrow> string \<Rightarrow> ('e, clientError option) run option \<Rightarrow>
   ('e, clientError option) run" where
  "connectTo H C b v token again =
     orElse (call (Connect H v token)) (\<lambda>e. ret (Some (OtherError e))) (\<lambda>_.
     orElse (call (cRuntimeStatus (coRPC C))) (\<lambda>e. ret (Some (OtherError e))) (\<lambda>st.
     if evAppName v \<noteq> rnAppName st then
       ret (Some (ServiceRuntime (''service and client have different app names '' @ evAppName v @ '' != '' @ rnAppName st)))
     else if bdVersion b = VersionDev then ret None
     else orElse (call (executablePath (hoProcs H)))
            (\<lambda>e. ret (Some (OtherError (Wrapped ''failed to get executable path'' e)))) (\<lambda>exe.
       if rnExe st = [] then ret (Some (ServiceRuntime ''service is running from a non-existent location''))
       else if rnVersion st \<noteq> bdVersion b then
         (case again of
            Some m \<Rightarrow>
              bnd (printlnErr ''The keysd (service) is a different version than the client, restarting it...'') (\<lambda>_.
              orElse (call (restart (hoProcs H) v)) (\<lambda>e. ret (Some (ServiceRuntime (errText e)))) (\<lambda>_. m))
          | None \<Rightarrow> ret (Some (DifferentVersions (rnVersion st) (bdVersion b))))
       else if dirOf exe \<noteq> dirOf (rnExe st) then
         ret (Some (ServiceRuntime (''service and client are running from different directories, '' @
           dirOf (rnExe st) @ '' != '' @ dirOf exe)))
       else ret None)))"

definition connect :: "'e host \<Rightarrow> 'e cliClient \<Rightarrow> build \<Rightarrow> env \<Rightarrow> string \<Rightarrow> bool \<Rightarrow> ('e, clientError option) run" where
  "connect H C b v token reconnect =
     connectTo H C b v token (if reconnect then Some (connectTo H C b v token None) else None)"

section \<open>client.go: running a command\<close>

definition logrusLevel :: "string \<Rightarrow> err + logLevel" where
  "logrusLevel s =
     (if s = ''debug'' then Inr DebugLevel else if s = ''info'' then Inr InfoLevel else if s = ''warn'' then Inr WarnLevel
      else if s = ''err'' then Inr ErrLevel else Inl (Err ''log should one of: debug, info, warn, err''))"

definition appFlags :: "build \<Rightarrow> flag list" where
  "appFlags b = [StringFlag ''log-level'' ''warn'', StringFlag ''app'' (bdDefaultAppName b)]"

definition commands ::
  "('s, 'n, 'd, 'w, 'k, 'f, 'r) rpc \<Rightarrow> 'e procs \<Rightarrow> 'e cliLib \<Rightarrow> 'e cliClient \<Rightarrow> build \<Rightarrow>
   ('e, rpcWormholeInput, rpcWormholeOutput) stream \<Rightarrow> bool list \<Rightarrow> turn list \<Rightarrow> 'e command list" where
  "commands E R L C b W sch ts =
     sort_key cmName
       (startCommands R L b @ authCommands L C @ signCommands L C sch @ verifyCommands L C sch @ sigchainCommands E C @
        encryptCommands L C sch @ pullCommands C @ importCommands L C @ exportCommands C @ dbCommands C @ otherCommands C @
        userCommands E C @ keyCommands L C @ envCommands R L b @ logCommands R b @ wormholeCommands L W ts @
        fido2Commands L C @ adminCommands L C @ vaultCommands C)"

text \<open>The command of a name or an alias, then its subcommand.\<close>

fun findCommand :: "'e command list \<Rightarrow> string list \<Rightarrow> 'e command option" where
  "findCommand cs [] = None"
| "findCommand cs (n # ns) =
     (case List.find (\<lambda>c. n = cmName c \<or> n \<in> set (cmAliases c)) cs of
        None \<Rightarrow> None
      | Some c \<Rightarrow> if ns = [] then Some c else findCommand (cmSub c) ns)"

text \<open>\<^verbatim>\<open>app.Before\<close>: the environment and the connection.\<close>

definition skipped :: "string list" where
  "skipped = [[], ''log'', ''uninstall'', ''restart'', ''start'', ''stop'', ''env'']"

definition before :: "'e host \<Rightarrow> 'e cliClient \<Rightarrow> build \<Rightarrow> cliContext \<Rightarrow> string \<Rightarrow> ('e, clientError option) run" where
  "before H C b c command =
     (case logrusLevel (cGlobalString c ''log-level'') of
        Inl e \<Rightarrow> ret (Some (OtherError e))
      | Inr level \<Rightarrow>
          orElse (newClientEnv (hoProcs H) b c) (\<lambda>e. ret (Some (OtherError e))) (\<lambda>v.
          if command \<in> set skipped then ret None
          else orElse (if bdVersion b \<noteq> VersionDev then call (autostart (hoProcs H) v) else ret ())
                 (\<lambda>e. ret (Some (OtherError e))) (\<lambda>_.
               connect H C b v (hoToken H) True)))"

definition contextFor :: "build \<Rightarrow> flag list \<Rightarrow> invocation \<Rightarrow> cliContext" where
  "contextFor b fs i =
     \<lparr>ctFlags = fs, ctGiven = ivGiven i, ctGlobals = appFlags b, ctGlobalGiven = ivGlobals i, ctArgs = ivArgs i\<rparr>"

text \<open>
  The errors of \<open>before\<close> and of the action go to \<^verbatim>\<open>clientFatal\<close>, which ends the process. Without a command,
  or with one that has no action, \<^verbatim>\<open>urfave/cli\<close> prints its help.
\<close>

definition runClient ::
  "('s, 'n, 'd, 'w, 'k, 'f, 'r) rpc \<Rightarrow> 'e host \<Rightarrow> 'e cliLib \<Rightarrow> 'e cliClient \<Rightarrow> build \<Rightarrow>
   ('e, rpcWormholeInput, rpcWormholeOutput) stream \<Rightarrow> bool list \<Rightarrow> turn list \<Rightarrow> string list \<Rightarrow>
   'e cli \<Rightarrow> ((err + unit) \<times> 'e cli) option" where
  "runClient E H L C b W sch ts args s =
     (case hoParse H args of
        Inl e \<Rightarrow> Some (clientFatal (OtherError e) s)
      | Inr i \<Rightarrow>
          (case before H C b (contextFor b [] i) (case ivPath i of [] \<Rightarrow> [] | n # ns \<Rightarrow> n) s of
             (Inl e, s') \<Rightarrow> Some (Inl e, s')
           | (Inr (Some e), s') \<Rightarrow> Some (clientFatal e s')
           | (Inr None, s') \<Rightarrow>
               (case findCommand (commands E (hoProcs H) L C b W sch ts) (ivPath i) of
                  None \<Rightarrow> Some (Inr (), s')
                | Some c \<Rightarrow>
                    (case cmAction c of
                       None \<Rightarrow> Some (Inr (), s')
                     | Some a \<Rightarrow>
                         (case a (contextFor b (cmFlags c) i) s' of
                            None \<Rightarrow> None
                          | Some (Inl e, s'') \<Rightarrow> Some (if isPanic e then (Inl e, s'') else clientFatal (OtherError e) s'')
                          | Some (Inr _, s'') \<Rightarrow> Some (Inr (), s''))))))"

text \<open>\<^verbatim>\<open>RunClient\<close>: the checks before. \<^verbatim>\<open>logger.Fatalf\<close> prints and exits.\<close>

definition RunClient ::
  "('s, 'n, 'd, 'w, 'k, 'f, 'r) rpc \<Rightarrow> 'e host \<Rightarrow> 'e cliLib \<Rightarrow> 'e cliClient \<Rightarrow> build \<Rightarrow>
   ('e, rpcWormholeInput, rpcWormholeOutput) stream \<Rightarrow> bool list \<Rightarrow> turn list \<Rightarrow> string list \<Rightarrow>
   'e cli \<Rightarrow> ((err + unit) \<times> 'e cli) option" where
  "RunClient E H L C b W sch ts args =
     (let checks = bnd (call (checkSupportedOS (hoProcs H))) (\<lambda>_.
                     if pcGOOS (hoProcs H) = ''darwin'' then call (checkCodesigned (hoProcs H)) else ret ())
      in bndP (liftP (orElse checks (\<lambda>e. bnd (printlnErr (errText e)) (\<lambda>_. exit 1)) ret)) (\<lambda>_.
         runClient E H L C b W sch ts args))"

section \<open>run.go: the service's process\<close>

record runArgs =
  raAppName :: string
  raLogPath :: string
  raVersion :: bool
  raPort :: int
  raLogLevel :: string
  raRest :: "string list"

definition logFatal :: "err \<Rightarrow> ('e, 'a) run" where
  "logFatal e = bnd (printlnErr (errText e)) (\<lambda>_. exit 1)"

definition orFatal :: "('e, 'a) run \<Rightarrow> ('e, 'a) run" where
  "orFatal m = orElse m logFatal ret"

text \<open>
  The world of the service is the rest of this process. Opening the log file may fail, like the other
  steps.
\<close>

definition Run ::
  "('s, 'n, 'd, 'w, 'k, 'f, 'r) rpc \<Rightarrow> 'w procs \<Rightarrow> build \<Rightarrow> (env \<Rightarrow> ('s, 'n, 'd, 'w, unit) svc) \<Rightarrow> (string \<Rightarrow> ('w, unit) op) \<Rightarrow>
   runArgs \<Rightarrow> (('s, 'n, 'd, 'w) service, unit) run" where
  "Run E R b convert openLog a =
     (if raVersion a then println (buildString b) else
      bnd (if parseLogLevel (raLogLevel a) = None then logFatal (Err ''invalid log level'') else ret ()) (\<lambda>_.
      bnd (orFatal (wrapErr ''failed to load config'' (call (onDevice (NewEnv (pcEnv R) (raAppName a) b))))) (\<lambda>v0.
      bnd (if raRest a \<noteq> [] then logFatal (Err ''Invalid arguments. Did you mean to run `keys`?'') else ret ()) (\<lambda>_.
      bnd (orFatal (call (onDevice (\<lambda>w. case savePortFlag (pcEnv R) (raPort a) (v0, w) of
             (Inl e, (_, w')) \<Rightarrow> (Inl e, w') | (Inr _, (v', w')) \<Rightarrow> (Inr v', w'))))) (\<lambda>v.
      bnd (if raLogPath a \<noteq> [] then orFatal (call (onDevice (openLog (raLogPath a)))) else ret ()) (\<lambda>_.
      bnd (orFatal (call (onDevice (checkSupportedOS R)))) (\<lambda>_.
      bnd (if pcGOOS R = ''darwin'' then orFatal (call (onDevice (checkCodesigned R))) else ret ()) (\<lambda>_.
      orFatal (call (runService E R v (convert v)))))))))))"

end
