(* ===== verification/CliService.thy ===== *)
theory CliService
  imports CliMain FidoProps SessionProps
begin

text \<open>
  The command line client connected to the service of \<open>Serving\<close>: every call is authorized by the token
  of the connection, handled, and its error sent back as a gRPC status. What the commands rely on is the
  locale \<open>session_issuer\<close>; its lemmas say what \<^verbatim>\<open>keys auth\<close> prints.
\<close>

section \<open>Calls over the wire\<close>

text \<open>
  An error that is not a status arrives as one of code Unknown, with its text; a panic is recovered by the
  interceptor of the server, whose status is \<open>recovered\<close>.
\<close>

definition onWire :: "(string \<Rightarrow> err) \<Rightarrow> err \<Rightarrow> err" where
  "onWire recovered e =
     (case e of ErrStatus c m \<Rightarrow> e | Panic m \<Rightarrow> recovered m | _ \<Rightarrow> ErrStatus ''Unknown'' (errText e))"

definition overWire :: "(string \<Rightarrow> err) \<Rightarrow> ('s, 'a) op \<Rightarrow> ('s, 'a) op" where
  "overWire recovered m s = (case m s of (Inl e, s') \<Rightarrow> (Inl (onWire recovered e), s') | (Inr x, s') \<Rightarrow> (Inr x, s'))"

definition remotely :: "(string \<Rightarrow> err) \<Rightarrow> string list option \<Rightarrow> string \<Rightarrow> ('s, 'n, 'd, 'w, 'a) svc \<Rightarrow> ('s, 'n, 'd, 'w, 'a) svc" where
  "remotely recovered md name m = overWire recovered (bnd (authorizeCall md (rpcMethod name)) (\<lambda>_. m))"

text \<open>The calls that always return; synchronising and the streams are those of \<open>C0\<close>.\<close>

definition serviceClient ::
  "('s, 'n, 'd, 'w, 'k, 'f, 'r, 'x, 'y, 'c, 'h, 't, 'u, 'q, 'p) server \<Rightarrow> (string \<Rightarrow> err) \<Rightarrow> string list option \<Rightarrow>
   ('s, 'n, 'd, 'w) service rpcClient \<Rightarrow> ('s, 'n, 'd, 'w) service rpcClient" where
  "serviceClient V rc md C0 = C0\<lparr>
     cRuntimeStatus := remotely rc md ''RuntimeStatus'' (RuntimeStatus (srE V) (srG V) (evBuild (srEnv V)) (srExe V)),
     cAuthSetup := (\<lambda>t secret dev. remotely rc md ''AuthSetup'' (AuthSetup (srE V) (srG V) t secret dev)),
     cAuthUnlock := (\<lambda>t secret cl. remotely rc md ''AuthUnlock'' (AuthUnlock (srE V) (srG V) t secret cl)),
     cAuthLock := remotely rc md ''AuthLock'' (AuthLock (srE V)),
     cAuthVault := (\<lambda>phrase. remotely rc md ''AuthVault'' (AuthVault (srE V) (srG V) phrase)),
     cAuthProvision := (\<lambda>t secret dev gen. remotely rc md ''AuthProvision'' (AuthProvision (srE V) (srG V) t secret dev gen)),
     cAuthDeprovision := (\<lambda>i. remotely rc md ''AuthDeprovision'' (AuthDeprovision (srE V) i)),
     cAuthProvisions := remotely rc md ''AuthProvisions'' (AuthProvisions (srE V)),
     cAuthPasswordChange := (\<lambda>old new. remotely rc md ''AuthPasswordChange'' (AuthPasswordChange (srE V) old new)),
     cAuthReset := (\<lambda>name. remotely rc md ''AuthReset'' (AuthReset (srE V) (srG V) name)),
     cRand := (\<lambda>n enc p l. remotely rc md ''Rand''
       (if n < 0 then fail (Panic ''makeslice: len out of range'') else Rand (srE V) (srEncode V) (nat n) enc p l)),
     cRandPassword := (\<lambda>n. remotely rc md ''RandPassword'' (RandPassword (srPassword V) n)),
     cKeyGenerate := (\<lambda>typ. remotely rc md ''KeyGenerate'' (KeyGenerate (srE V) typ)),
     cKeys := (\<lambda>types. remotely rc md ''Keys'' (bnd (Keys (srE V) [] types [] SortAsc) (\<lambda>(ks, _). ret ks))),
     cKey := (\<lambda>key. remotely rc md ''Key'' (rpcKeyOf (srE V) key False False)),
     cKeyImport := (\<lambda>b password. remotely rc md ''KeyImport'' (KeyImport (srE V) b password False)),
     cKeyExport := (\<lambda>kid t public noPassword password.
       remotely rc md ''KeyExport'' (KeyExport (srE V) kid t public noPassword password)),
     cKeyRemove := (\<lambda>kid. remotely rc md ''KeyRemove'' (KeyRemove (srE V) kid)),
     cSigchain := (\<lambda>kid. remotely rc md ''Sigchain'' (rpcSigchain (srE V) kid)),
     cStatement := (\<lambda>kid seq. remotely rc md ''Statement'' (rpcStatementAt (srE V) kid seq)),
     cStatementCreate := (\<lambda>kid b l. remotely rc md ''StatementCreate'' (StatementCreate (srE V) (\<lambda>_. None) kid b l)),
     cStatementRevoke := (\<lambda>kid seq l. remotely rc md ''StatementRevoke'' (StatementRevoke (srE V) (\<lambda>_. None) kid seq l)),
     cUser := (\<lambda>kid l. remotely rc md ''User'' (svcUser (srE V) kid l)),
     cUserSearch := (\<lambda>query limit l. remotely rc md ''UserSearch'' (svcUserSearch (srE V) query limit l)),
     cUserSign := (\<lambda>kid srv name. remotely rc md ''UserSign'' (bnd (UserSign (srE V) kid srv name) (\<lambda>(msg, _). ret msg))),
     cUserAdd := (\<lambda>kid srv name url l.
       remotely rc md ''UserAdd'' (bnd (UserAdd (srE V) (\<lambda>_. None) kid srv name url l) (\<lambda>(_, st). ret st))),
     cPull := (\<lambda>key. remotely rc md ''Pull'' (rpcPull (srE V) key)),
     cPush := (\<lambda>key ck. remotely rc md ''Push'' (bnd (Push (srE V) (\<lambda>_. None) key ck) (\<lambda>(_, urls). ret urls))),
     cCollections := (\<lambda>db parent. remotely rc md ''Collections'' (svcCollections (srE V) db parent)),
     cDocuments := (\<lambda>db pre. remotely rc md ''Documents'' (svcDocuments (srE V) (srDump V) (srDocData V) db pre)),
     cDocumentDelete := (\<lambda>db path. remotely rc md ''DocumentDelete'' (DocumentDelete (srE V) db path)),
     cAdminSignURL := (\<lambda>signer mt url. remotely rc md ''AdminSignURL''
       (bnd (AdminSignURL (srE V) (srNewAuth V) signer mt url) (\<lambda>(auth, _, curl). ret (auth, curl)))),
     cAdminCheck := (\<lambda>signer what. remotely rc md ''AdminCheck'' (svcAdminCheck (srE V) signer what)),
     cVaultAuth := remotely rc md ''VaultAuth'' (VaultAuth (srE V) (srG V))\<rparr>"

lemma overWire_Inr: "overWire rc m s = (Inr x, s') \<longleftrightarrow> m s = (Inr x, s')"
  by (auto simp: overWire_def split: prod.splits sum.splits)

lemma remotely_Inr: "remotely rc md name m s = (Inr x, s') \<Longrightarrow> \<exists>s1. authorizeCall md (rpcMethod name) s = (Inr (), s1) \<and> m s1 = (Inr x, s')"
  by (auto simp: remotely_def overWire_Inr op_iff)

section \<open>What keys auth prints\<close>

definition outKept :: "'e cli \<Rightarrow> 'e cli \<Rightarrow> bool" where
  "outKept s t \<longleftrightarrow> clOut t = clOut s"

interpretation silent: frame outKept
  by unfold_locales (auto simp: outKept_def)

lemma silent_calls [frame_intro]: "keeps outKept (call m)" "keeps outKept (printErr t)" "keeps outKept (printlnErr t)"
  by (auto simp: keeps_def outKept_def call_def zoom_def printErr_def printlnErr_def op_simps split: prod.splits)

lemma silent_input [frame_intro]: "keeps outKept (readString buf)" "keeps outKept (readLine buf)"
proof -
  show a: "keeps outKept (readString buf)" for buf :: string
    by (auto simp: keeps_def outKept_def readString_def zoom_def split: prod.splits)
  show "keeps outKept (readLine buf)" unfolding readLine_def by (intro frame_intro a)
qed

lemma silent_passwords [frame_intro]: "keeps outKept (readPassword prompt b)" "keeps outKept (readVerifyPassword prompt)"
proof -
  have z: "keeps outKept (zoom clTyped (\<lambda>t s. s\<lparr>clTyped := t\<rparr>) m)" for m :: "((err + string) list, err + string) op"
    by (auto simp: keeps_def outKept_def zoom_def split: prod.splits)
  show r: "keeps outKept (readPassword prompt b)" for prompt b unfolding readPassword_def by (intro frame_intro z)
  show "keeps outKept (readVerifyPassword prompt)" unfolding readVerifyPassword_def by (intro frame_intro r)
qed

lemma silent_chooseLoop [frame_intro]: "keeps outKept (chooseLoop title)"
proof -
  have a: "keeps outKept (askAuth title)" for title unfolding askAuth_def by (intro frame_intro)
  have "outKept s (snd (chooseLoop title s))" for s :: "'a cli"
  proof (induction title s rule: chooseLoop.induct)
    case (1 title s)
    obtain r s1 where r: "askAuth title s = (r, s1)" by fastforce
    have k: "outKept s s1" by (rule keepsD[OF a r])
    show ?case
    proof (cases r)
      case (Inl e)
      then show ?thesis using r k by (simp add: chooseLoop.simps)
    next
      case (Inr input)
      with 1 r k show ?thesis
        by (cases "authTypeFromString input") (auto simp: chooseLoop.simps[of title s] outKept_def)
    qed
  qed
  then show ?thesis by (simp add: keeps_def)
qed

lemma silent_selectDevice [frame_intro]: "keeps outKept (selectDevice C)"
  unfolding selectDevice_def by (intro frame_intro)

lemma silent_auth [frame_intro]:
  "keeps outKept (chooseAuth title arg)" "keeps outKept (createPassword pw)"
  "keeps outKept (chosenDevice C dev)" "keeps outKept (enteredPIN pin)"
  unfolding chooseAuth_def createPassword_def chosenDevice_def enteredPIN_def by (intro frame_intro)+

lemma silent_setups [frame_intro]:
  "keeps outKept (passwordAuthSetup C cl pw)" "keeps outKept (passwordAuthUnlock C cl pw)"
  "keeps outKept (fido2AuthSetup C cl dev pin)" "keeps outKept (fido2AuthUnlock C cl pin)"
  unfolding passwordAuthSetup_def passwordAuthUnlock_def fido2AuthSetup_def fido2AuthUnlock_def
  by (intro frame_intro)+

lemma chooseLoop_type: "chooseLoop title s = (Inr t, s') \<Longrightarrow> t = PasswordType \<or> t = FIDO2Type"
proof (induction title s rule: chooseLoop.induct)
  case (1 title s)
  then show ?case
    by (auto simp: chooseLoop.simps[of title s] authTypeFromString_def Let_def split: prod.splits sum.splits if_splits)
qed

lemma chooseAuth_type: "chooseAuth title arg s = (Inr t, s') \<Longrightarrow> t = PasswordType \<or> t = FIDO2Type"
  by (auto simp: chooseAuth_def authTypeFromString_def Let_def op_simps dest: chooseLoop_type split: if_splits)

lemma call_Inr [op_iff]: "call m s = (Inr x, s') \<longleftrightarrow> (\<exists>e. m (clEnv s) = (Inr x, e) \<and> s' = s\<lparr>clEnv := e\<rparr>)"
  by (auto simp: call_def zoom_def split: prod.splits)

lemma bnd_InrE:
  assumes "bnd m f s = (Inr y, s')"
  obtains x t where "m s = (Inr x, t)" "f x t = (Inr y, s')"
  using assms by (auto simp: bnd_def split: prod.splits sum.splits)

text \<open>Every way of authorizing ends with an unlock, whose token is the result.\<close>

lemma auth_unlocks:
  "passwordAuthSetup C cl pw s = (Inr tok, s') \<Longrightarrow> \<exists>t secret e. cAuthUnlock (coRPC C) t secret cl e = (Inr tok, clEnv s')"
  "passwordAuthUnlock C cl pw s = (Inr tok, s') \<Longrightarrow> \<exists>t secret e. cAuthUnlock (coRPC C) t secret cl e = (Inr tok, clEnv s')"
  "fido2AuthSetup C cl dev pw s = (Inr tok, s') \<Longrightarrow> \<exists>t secret e. cAuthUnlock (coRPC C) t secret cl e = (Inr tok, clEnv s')"
  "fido2AuthUnlock C cl pw s = (Inr tok, s') \<Longrightarrow> \<exists>t secret e. cAuthUnlock (coRPC C) t secret cl e = (Inr tok, clEnv s')"
  unfolding passwordAuthSetup_def passwordAuthUnlock_def fido2AuthSetup_def fido2AuthUnlock_def
  by (auto elim!: bnd_InrE simp: call_Inr) metis+

lemma authorizing_unlocks:
  assumes "authorizing C c b t s = (Inr tok, s')" "t = PasswordType \<or> t = FIDO2Type"
  shows "\<exists>t' secret e. cAuthUnlock (coRPC C) t' secret (cString c ''client'') e = (Inr tok, clEnv s')"
  using assms by (cases b) (auto simp: authorizing_def dest: auth_unlocks)

lemma silent_conflictChecked [frame_intro]: "keeps outKept (conflictChecked L c)"
  unfolding conflictChecked_def by (intro frame_intro)

lemma silent_authorizing [frame_intro]: "keeps outKept (authorizing C c b t)"
  unfolding authorizing_def by (cases t; cases b; simp; intro frame_intro)

text \<open>The token that an unlock returns is valid in the state after it.\<close>

locale session_issuer =
  fixes C :: "'e cliClient"
    and valid :: "'e \<Rightarrow> string \<Rightarrow> bool"
  assumes issued: "cAuthUnlock (coRPC C) t secret cl e = (Inr tok, e') \<Longrightarrow> valid e' tok"
begin

lemma auth_prints_token:
  assumes "authAction L C c s = (Inr (), s')" "cBool c ''token''"
  shows "\<exists>tok. clOut s' = clOut s @ tok @ [nl] \<and> valid (clEnv s') tok"
proof -
  obtain s1 where s1: "conflictChecked L c s = (Inr (), s1)"
    and r1: "bnd (call (cRuntimeStatus (coRPC C))) (\<lambda>st.
       bnd (failIf (cString c ''client'' = []) (Err ''no client name'')) (\<lambda>_.
       bnd (chooseAuth ''How do you want to authorize?'' (cString c ''type'')) (\<lambda>t.
       bnd (authorizing C c (rnAuthStatus st = AuthSetupNeeded) t) println))) s1 = (Inr (), s')"
    using assms unfolding authAction_def Let_def conflictChecked_def by (auto elim: bnd_InrE)
  obtain st s2 where s2: "call (cRuntimeStatus (coRPC C)) s1 = (Inr st, s2)"
    and r2: "bnd (chooseAuth ''How do you want to authorize?'' (cString c ''type'')) (\<lambda>t.
       bnd (authorizing C c (rnAuthStatus st = AuthSetupNeeded) t) println) s2 = (Inr (), s')"
    using r1 by (rule bnd_InrE) (auto simp: op_simps split: if_splits)
  obtain t s3 where s3: "chooseAuth ''How do you want to authorize?'' (cString c ''type'') s2 = (Inr t, s3)"
    and r3: "bnd (authorizing C c (rnAuthStatus st = AuthSetupNeeded) t) println s3 = (Inr (), s')"
    using r2 by (rule bnd_InrE)
  obtain tok s4 where s4: "authorizing C c (rnAuthStatus st = AuthSetupNeeded) t s3 = (Inr tok, s4)" and r4: "println tok s4 = (Inr (), s')"
    using r3 by (rule bnd_InrE)
  have "outKept s s1" by (rule keepsD[of outKept "conflictChecked L c", OF _ s1]) (intro frame_intro)
  moreover have "outKept s1 s2" by (rule keepsD[of outKept "call (cRuntimeStatus (coRPC C))", OF _ s2]) (intro frame_intro)
  moreover have "outKept s2 s3" by (rule keepsD[of outKept "chooseAuth _ _", OF _ s3]) (intro frame_intro)
  moreover have "outKept s3 s4" by (rule keepsD[of outKept "authorizing _ _ _ _", OF _ s4]) (intro frame_intro)
  ultimately have ka: "clOut s4 = clOut s" by (simp add: outKept_def)
  have "\<exists>t' secret e. cAuthUnlock (coRPC C) t' secret (cString c ''client'') e = (Inr tok, clEnv s4)"
    by (rule authorizing_unlocks[OF s4 chooseAuth_type[OF s3]])
  then have "valid (clEnv s4) tok" using issued by blast
  then show ?thesis using ka r4 by (auto simp: outKept_def println_def print_def op_simps)
qed

end

text \<open>A registered token; it authorizes every call.\<close>

definition registered :: "('s, 'n, 'd, 'w) service \<Rightarrow> string \<Rightarrow> bool" where
  "registered s tok \<longleftrightarrow> tok \<in> snd ` set (svTokens s)"

interpretation connected: session_issuer "\<lparr>coRPC = serviceClient V rc md C0, coFIDO2 = F\<rparr>" registered for V rc md C0 F
proof
  fix t :: authType and secret cl tok e e'
  assume "cAuthUnlock (coRPC \<lparr>coRPC = serviceClient V rc md C0, coFIDO2 = F\<rparr>) t secret cl e = (Inr tok, e')"
  then obtain s1 where "svcUnlock (srE V) (srG V) t secret cl s1 = (Inr tok, e')"
    by (auto simp: serviceClient_def AuthUnlock_def dest!: remotely_Inr)
  then show "registered e' tok" unfolding registered_def by (rule unlocked_session(1))
qed

section \<open>Commands by name\<close>

lemma find_unique:
  assumes "x \<in> set xs" "Q x" "\<And>y. y \<in> set xs \<Longrightarrow> Q y \<Longrightarrow> y = x"
  shows "List.find Q xs = Some x"
proof -
  have "List.find Q xs \<noteq> None" using assms(1,2) by (auto simp: find_None_iff)
  then obtain y where "List.find Q xs = Some y" by blast
  moreover from this have "y \<in> set xs" "Q y" by (auto simp: find_Some_iff)
  ultimately show ?thesis using assms(3) by simp
qed

lemmas tables = startCommands_def authCommands_def signCommands_def verifyCommands_def sigchainCommands_def encryptCommands_def
  pullCommands_def importCommands_def exportCommands_def dbCommands_def otherCommands_def userCommands_def keyCommands_def
  envCommands_def logCommands_def wormholeCommands_def fido2Commands_def adminCommands_def vaultCommands_def

text \<open>The names under which a list of commands answers.\<close>

definition names :: "'e command list \<Rightarrow> string list" where
  "names cs = concat (map (\<lambda>c. cmName c # cmAliases c) cs)"

lemma names_simps: "names [] = []" "names (Command n as fs sub a # cs) = n # as @ names cs" "names (cs @ ds) = names cs @ names ds"
  by (simp_all add: names_def)

lemma names_mem: "y \<in> set cs \<Longrightarrow> n = cmName y \<or> n \<in> set (cmAliases y) \<Longrightarrow> n \<in> set (names cs)"
  by (auto simp: names_def)

lemma names_tables:
  "names (startCommands R L b) = [''restart'', ''start'', ''stop'', ''uninstall'']"
  "names (authCommands L C) = [''auth'', ''unlock'', ''lock'']"
  "names (signCommands L C sch) = [''sign'']" "names (verifyCommands L C sch) = [''verify'']"
  "names (sigchainCommands E C) = [''sigchain'']" "names (encryptCommands L C sch) = [''encrypt'', ''decrypt'']"
  "names (pullCommands C) = [''pull'', ''push'', ''publish'']" "names (importCommands L C) = [''import'']"
  "names (exportCommands C) = [''export'']" "names (dbCommands C) = [''db'']" "names (otherCommands C) = [''rand'']"
  "names (userCommands E C) = [''user'']" "names (keyCommands L C) = [''list'', ''key'', ''generate'', ''remove'']"
  "names (envCommands R L b) = [''env'']" "names (logCommands R b) = [''log'']" "names (wormholeCommands L W ts) = [''wormhole'']"
  "names (fido2Commands L C) = [''fido2'']" "names (adminCommands L C) = [''admin'']" "names (vaultCommands C) = [''vault'']"
  by (simp_all only: tables names_simps append.simps)

lemma find_auth: "findCommand (commands E R L C b W sch ts) [''auth''] = Some (hd (authCommands L C))"
proof -
  let ?Q = "\<lambda>c. ''auth'' = cmName c \<or> ''auth'' \<in> set (cmAliases c)"
  obtain lockC where a: "authCommands L C = [hd (authCommands L C), lockC]" "?Q (hd (authCommands L C))" "\<not> ?Q lockC"
    by (simp add: authCommands_def)
  have "List.find ?Q (commands E R L C b W sch ts) = Some (hd (authCommands L C))"
  proof (rule find_unique)
    show "hd (authCommands L C) \<in> set (commands E R L C b W sch ts)"
      unfolding commands_def set_sort by (subst (2) a(1)) simp
  next
    fix y
    assume "y \<in> set (commands E R L C b W sch ts)" "?Q y"
    then have "y \<in> set (authCommands L C)"
      unfolding commands_def set_sort set_append by (elim UnE) (assumption | (drule (1) names_mem, simp only: names_tables, simp; fail))+
    then have "y = hd (authCommands L C) \<or> y = lockC" by (subst (asm) a(1)) simp
    with \<open>?Q y\<close> a(3) show "y = hd (authCommands L C)" by blast
  qed (rule a(2))
  then show ?thesis by simp
qed

lemma silent_before [frame_intro]: "keeps outKept (before H C b c command)"
proof -
  have e: "keeps outKept (newClientEnv R b c)" for R :: "'a procs" unfolding newClientEnv_def by (intro frame_intro)
  have once: "keeps outKept (connectTo H C b v token None)" for v token
    unfolding connectTo_def option.case by (intro frame_intro)
  have twice: "keeps outKept (connectTo H C b v token (Some m))" if "keeps outKept m" for v token m
    unfolding connectTo_def option.case by (intro frame_intro that)
  have n: "keeps outKept (connect H C b v token r)" for v token r
    unfolding connect_def by (cases r) (simp_all add: once twice)
  show ?thesis unfolding before_def by (intro frame_intro e n)
qed

lemma clientFatal_fails: "clientFatal e s \<noteq> (Inr (), s')"
  by (auto simp: clientFatal_def exit_def printlnErr_def printErr_def op_simps split: clientError.splits err.splits)

lemma runClient_found:
  assumes "hoParse H args = Inr i" "findCommand (commands E (hoProcs H) L C b W sch ts) (ivPath i) = Some cm"
    and "cmAction cm = Some a" "runClient E H L C b W sch ts args s = Some (Inr (), s')"
  shows "\<exists>s1. before H C b (contextFor b [] i) (case ivPath i of [] \<Rightarrow> [] | n # ns \<Rightarrow> n) s = (Inr None, s1) \<and>
    a (contextFor b (cmFlags cm) i) s1 = Some (Inr (), s')"
  using assms
  by (simp add: runClient_def clientFatal_fails split: prod.splits sum.splits option.splits if_splits del: findCommand.simps)

end
