(* ===== verification/CliProps.thy ===== *)
theory CliProps
  imports CliService
begin

text \<open>
  Properties of the command line client: what \<^verbatim>\<open>keys auth\<close> prints, what \<^verbatim>\<open>keys verify\<close> writes on the
  standard input, whatever the service sends and in whatever order the two goroutines run, and what is
  checked before something happens: the phrase that \<^verbatim>\<open>keys auth reset\<close> and \<^verbatim>\<open>keys uninstall\<close> ask for,
  the process id that \<^verbatim>\<open>keys start\<close> waits for, the flags that the commands read.
\<close>

section \<open>keys auth\<close>

text \<open>C12. The line that \<^verbatim>\<open>keys auth -token\<close> prints is a session of the service: when the command ends
  without an error, whatever way of authorizing was chosen and whether or not the vault had to be set
  up, the output is one line, a token that authorizes every method, then and after any calls but locking,
  unlocking and recovering.\<close>

theorem auth_command:
  assumes "C = \<lparr>coRPC = serviceClient V rc md C0, coFIDO2 = F\<rparr>" "quiet V"
    and "hoParse H args = Inr i" "ivPath i = [''auth'']" "cBool (contextFor b authFlags i) ''token''"
    and "runClient E H L C b W sch turns args s = Some (Inr (), s')" "(inSession V)\<^sup>*\<^sup>* (clEnv s') s2"
  shows "\<exists>tok. clOut s' = clOut s @ tok @ [nl] \<and> authorizeCall (Some (tok # ts)) m s2 = (Inr (), s2)"
proof -
  have cmd: "cmAction (hd (authCommands L C)) = act (authAction L C)" "cmFlags (hd (authCommands L C)) = authFlags"
    by (simp_all add: authCommands_def)
  obtain s1 where s1: "before H C b (contextFor b [] i) ''auth'' s = (Inr None, s1)"
    and run: "authAction L C (contextFor b authFlags i) s1 = (Inr (), s')"
    using runClient_found[OF assms(3) _ _ assms(6), unfolded assms(4), OF find_auth cmd(1)[unfolded act_def]] cmd(2)
    by (auto simp: liftP_def)
  have "outKept s s1" by (rule keepsD[OF silent_before s1])
  moreover obtain tok where "clOut s' = clOut s1 @ tok @ [nl]" "registered (clEnv s') tok"
    using connected.auth_prints_token[OF run[unfolded assms(1)]] assms(5) by blast
  moreover have "sessionKept (clEnv s') s2" by (rule inSession_kept[OF assms(7,2)])
  ultimately show ?thesis
    by (auto simp: outKept_def registered_def sessionKept_def authorizeCall_ok)
qed

text \<open>
  A terminal on which the password is typed, a development build, a service that was set up with this
  password.
\<close>

definition tinyEnvLib :: "'e envLib" where
  "tinyEnvLib = \<lparr>elAppPath = (\<lambda>d f _. ret (''/app/'' @ f)), elLogsPath = (\<lambda>d f _. ret (''/log/'' @ f)), elStat = (\<lambda>p w. StatFile),
     elRead = (\<lambda>p. ret ''cert''), elWrite = (\<lambda>p b. ret ()), elRemove = (\<lambda>p. ret ()), elM = (\<lambda>v. Inr []), elMIndent = (\<lambda>v. Inr []),
     elU = (\<lambda>b. Inr None)\<rparr>"

definition tinyProcs :: "'e procs" where
  "tinyProcs = \<lparr>pcEnv = tinyEnvLib, pcGOOS = ''linux'', pcExecutable = ret ''/bin/keys'', pcEvalSymlinks = ret, pcHome = ret ''/home'',
     pcCodesign = (\<lambda>_. ret ()), pcProcesses = ret [], pcIsProcess = (\<lambda>_. ret False), pcFind = (\<lambda>_. ret True),
     pcKill = (\<lambda>_. ret ()), pcStart = (\<lambda>_ _. ret ()), pcPID = 1, pcTicks = (\<lambda>d w. w div d), pcTick = (\<lambda>_. ret ()),
     pcSymlink = (\<lambda>_ _. ret ()), pcIsLink = (\<lambda>_. ret False), pcReadlink = ret, pcRemoveAll = (\<lambda>_. ret ()), pcAllDirs = (\<lambda>_. ret []),
     pcGenCert = ret ''cert'', pcProbe = (\<lambda>_. ret ()), pcListen = (\<lambda>_. ret ()), pcServe = ret ()\<rparr>"

definition tinyHost :: "invocation \<Rightarrow> 'e host" where
  "tinyHost i = \<lparr>hoProcs = tinyProcs, hoOpen = (\<lambda>_. False), hoClose = ret (), hoCertOk = (\<lambda>_. True), hoDial = (\<lambda>_ _. ret ()),
     hoToken = [], hoParse = (\<lambda>_. Inr i)\<rparr>"

definition devBuild :: build where
  "devBuild = demoBuild\<lparr>bdVersion := VersionDev\<rparr>"

definition typing :: "'e \<Rightarrow> string \<Rightarrow> 'e cli" where
  "typing e pw = \<lparr>clEnv = e, clStdin = [], clTerm = True, clTermErr = None, clTyped = [Inr pw], clOut = [], clErr = [], clExit = None\<rparr>"

text \<open>A service that is not set up, with its database open.\<close>

definition blankService :: "(mem, unit, kvdisk, outside) service" where
  "blankService = demoService\<lparr>svVault := demoNew,
     svDb := (sdbNew [])\<lparr>sbPath := ''/app/cache.sdb'', sbKey := Some (cacheKey stdX [])\<rparr>\<rparr>"

text \<open>Setting a password and unlocking with it.\<close>

lemma password_set_up:
  assumes st: "store (rpI E) contents ready" and libs: "libs_ok (rpX E)"
    and rep: "vaultRep (rpX E) contents ready n base (svVault s) A" and n: "n + 3 < maxIndex"
    and empty: "aAuths A = Map.empty" "aProvs A = Map.empty" "aItems A = Map.empty" "\<not> aOpen A" "vRemote (svVault s) = None"
    and salt: "contents (vStore (svVault s)) ''/config/salt'' = None" "r = xRand (rpX E) (vDraws (svVault s)) 32"
    and key: "xKeyForPassword (rpX E) pw r = Inr key" "length key = 32" "\<And>d. authId (xBase62 (rpX E) (xRand (rpX E) d 32))"
  shows "\<exists>v1 p v2. setupPassword E pw s = (Inr (), s\<lparr>svVault := v1\<rparr>) \<and>
    unlockPassword E pw (s\<lparr>svVault := v1\<rparr>) = (Inr p, s\<lparr>svVault := v2\<rparr>)"
proof -
  let ?X = "rpX E" and ?I = "rpI E" and ?v = "svVault s"
  obtain v0 where v0: "Salt ?X ?I ?v = (Inr (Some r), v0)" "vaultRep ?X contents ready (n + 1) base v0 A"
      "saltOf contents v0 = Some r" "vRemote v0 = None" "vDraws v0 = Suc (vDraws ?v)"
    using store.Salt_made[OF st libs rep _ salt(1)] n empty(5) salt(2) by auto
  let ?u = "v0\<lparr>vDraws := Suc (vDraws v0), vTicks := Suc (vTicks v0)\<rparr>"
  obtain q where q: "NewProvision ?X PasswordAuth v0 = (Inr q, ?u)" "authId (pvID q)"
    using key(3) by (simp add: NewProvision_def op_simps)
  have u: "vaultRep ?X contents ready (n + 1) base ?u A" "saltOf contents ?u = Some r" using v0(2,3) by simp_all
  have "absSetup (xRand ?X (vDraws ?u) 32) key q A = (Inr (), A\<lparr>aMk := xRand ?X (vDraws ?u) 32, aAuths := [pvID q \<mapsto> key], aProvs := [pvID q \<mapsto> q]\<rparr>)"
    using empty by (auto simp: absSetup_def absStatus_def absAddAuth_def op_simps)
  then obtain v1 n1 B where v1: "Setup ?X ?I (Some key) (Some q) ?u = (Inr (), v1)"
      "vaultRep ?X contents ready n1 base v1 B" "aAuths B (pvID q) = Some key" "saltOf contents v1 = Some r"
    using store.refine_Setup[OF st libs u(1) _ q(2) key(2)] n empty(3) v0(4) u(2) unfolding sim_def by fastforce
  obtain b where b: "Salt ?X ?I v1 = (Inr b, v1)" "bstr b = r"
    using store.Salt_present[OF st libs_okD(1)[OF libs] vaultRepD(1)[OF v1(2)], of r] v1(4) libs_okD(3)[OF libs] salt(2)
    unfolding rand_ok_def by (metis list.size(3) zero_neq_numeral)
  obtain p v2 where p: "Unlock ?X ?I (Some key) v1 = (Inr p, v2)"
    using store.unlocks_iff(1)[OF st libs v1(2) key(2)] v1(3) by (metis prod.collapse)
  have "setupPassword E pw s = (Inr (), s\<lparr>svVault := v1\<rparr>)"
    using v0(1) key(1) q(1) v1(1) by (simp add: setupPassword_def passwordKey_def onVault_def zoom_def op_simps)
  moreover have "unlockPassword E pw (s\<lparr>svVault := v1\<rparr>) = (Inr p, s\<lparr>svVault := v2\<rparr>)"
    using unlockPassword_run[of E "s\<lparr>svVault := v1\<rparr>" b pw key] b key(1) p by simp
  ultimately show ?thesis by blast
qed

lemma new_service_session:
  "\<exists>s1 tok s2. AuthSetup demoRpc (demoAuthLib False) PasswordType demoKey [] blankService = (Inr (), s1) \<and>
     AuthUnlock demoRpc (demoAuthLib False) PasswordType demoKey ''cli'' s1 = (Inr tok, s2)"
proof -
  have new: "vRemote demoNew = None" "vDraws demoNew = 0" "memContents (vStore demoNew) ''/config/salt'' = None"
    by (simp_all add: demoNew_def vaultNew_def memContents_def)
  have vlt: "svVault blankService = demoNew" by (simp add: blankService_def)
  have k: "xKeyForPassword (rpX demoRpc) demoKey (xRand stdX 0 32) = Inr demoKey"
    by (simp add: std_password demoKey_def)
  have e: "aAuths demoAbs = Map.empty" "aProvs demoAbs = Map.empty" "aItems demoAbs = Map.empty" "\<not> aOpen demoAbs"
    by (simp_all add: demoAbs_def avaultNew_def)
  obtain v1 p v2 where v: "setupPassword demoRpc demoKey blankService = (Inr (), blankService\<lparr>svVault := v1\<rparr>)"
      "unlockPassword demoRpc demoKey (blankService\<lparr>svVault := v1\<rparr>) = (Inr p, blankService\<lparr>svVault := v2\<rparr>)"
    using password_set_up[of demoRpc memContents memReady 0 "[]" blankService demoAbs "xRand stdX 0 32" demoKey demoKey]
      memStore.store_axioms demo_new new k e std_newID(1) by (auto simp: vlt)
  have st: "Status stdX memOps demoNew = (Inr SetupNeeded, demoNew)"
    using memStore.refine_Status_run[OF std_libs demo_new] e by (auto simp: absStatus_def op_simps)
  have "AuthSetup demoRpc (demoAuthLib False) PasswordType demoKey [] blankService = (Inr (), blankService\<lparr>svVault := v1\<rparr>)"
    using v(1) st
    by (simp add: AuthSetup_def authSetupCall_def mapErr_def onVault_def zoom_def vlt op_simps onWorld_def pathExists_def
        demoAuthLib_def demoStat_def blankService_def demoService_def newService_def)
  moreover obtain s2 where "AuthUnlock demoRpc (demoAuthLib False) PasswordType demoKey ''cli'' (blankService\<lparr>svVault := v1\<rparr>) =
      (Inr (xBase62 stdX (xRand stdX (svDraws blankService) 32)), s2)"
    using v(2)
    by (cases "svChecking blankService") (simp_all add: AuthUnlock_def svcUnlock_afterToken authUnlockCall_def unlockVault_def mapErr_def op_simps registerToken_run
        afterToken_def startCheck_def blankService_def IsOpen_def sdbNew_def)
  ultimately show ?thesis by blast
qed

lemma before_tiny:
  fixes C :: "'e cliClient"
  assumes "cRuntimeStatus (coRPC C) (clEnv s) = (Inr st, clEnv s)" "rnAppName st = ''Keys''"
  shows "before (tinyHost i) C devBuild (contextFor devBuild [] \<lparr>ivGlobals = [], ivPath = p, ivGiven = g, ivArgs = as\<rparr>) ''auth'' s = (Inr None, s)"
proof -
  let ?c = "contextFor devBuild [] \<lparr>ivGlobals = [], ivPath = p, ivGiven = g, ivArgs = as\<rparr>"
  have g: "cGlobalString ?c ''log-level'' = ''warn''" "cGlobalString ?c ''app'' = ''Keys''"
    by (simp_all add: cGlobalString_def flagValue_def contextFor_def appFlags_def flagNames_def devBuild_def demoBuild_def
        trimSpace_def isSpace_def)
  have l: "logrusLevel ''warn'' = Inr WarnLevel" by (simp add: logrusLevel_def)
  obtain v where v: "newClientEnv tinyProcs devBuild ?c s = (Inr v, s)" "evAppName v = ''Keys''"
    by (simp add: newClientEnv_def g op_simps call_def zoom_def NewEnv_def envLoad_def onFiles_def envPath_def AppPath_def
        pathExists_def tinyProcs_def tinyEnvLib_def Let_def)
  have k: "connect (tinyHost i) C devBuild v [] True s = (Inr None, s)"
    using assms v(2)
    by (simp add: connect_def connectTo_def orElse_def op_simps call_def zoom_def Connect_def connectLocal_def loadCertificate_def
        certPath_def AppPath_def pathExists_def tinyHost_def tinyProcs_def tinyEnvLib_def devBuild_def utf8Valid.simps Let_def)
  have h: "hoProcs (tinyHost i :: 'e host) = tinyProcs" "hoToken (tinyHost i :: 'e host) = []" "bdVersion devBuild = VersionDev" "''auth'' \<notin> set skipped"
    by (simp_all add: tinyHost_def devBuild_def skipped_def)
  show ?thesis using v(1) k h by (simp add: before_def g(1) l orElse_def op_simps)
qed

definition tokenFlag :: invocation where
  "tokenFlag = \<lparr>ivGlobals = [], ivPath = [''auth''], ivGiven = [(''token'', VBool True)], ivArgs = []\<rparr>"

definition twice :: "'e \<Rightarrow> string \<Rightarrow> 'e cli" where
  "twice e pw = (typing e pw)\<lparr>clTyped := [Inr pw, Inr pw]\<rparr>"

lemma typed_twice:
  assumes "pw \<noteq> []"
  shows "\<exists>t. createPassword [] (twice e pw) = (Inr pw, (typing e pw)\<lparr>clTyped := [], clErr := t\<rparr>)"
  using assms
  by (simp add: createPassword_def readVerifyPassword_def readPassword_def twice_def typing_def printlnErr_def printErr_def
      zoom_def op_simps)

lemma auth_action_typed:
  assumes "cRuntimeStatus (coRPC C) e = (Inr rs, e)" "rnAuthStatus rs = AuthSetupNeeded"
    and "cAuthSetup (coRPC C) PasswordType pw [] e = (Inr (), s1)" "cAuthUnlock (coRPC C) PasswordType pw ''cli'' s1 = (Inr tok, s2)"
    and "cString c ''client'' = ''cli''" "cString c ''type'' = ''password''" "cString c ''password'' = []" "cBool c ''token''" "pw \<noteq> []"
  shows "\<exists>s'. authAction (L\<lparr>cuAppConflict := \<lambda>_. ret ()\<rparr>) C c (twice e pw) = (Inr (), s') \<and> clOut s' = tok @ [nl] \<and> clEnv s' = s2"
proof -
  obtain t where t: "createPassword [] (twice e pw) = (Inr pw, (typing e pw)\<lparr>clTyped := [], clErr := t\<rparr>)"
    using typed_twice[OF assms(9), of e] ..
  have e: "clEnv (twice e pw) = e" "(twice e pw)\<lparr>clEnv := e\<rparr> = twice e pw" by (simp_all add: twice_def typing_def)
  have a: "authTypeFromString ''password'' = Inr PasswordType"
    by (simp add: authTypeFromString_def trimSpace_def isSpace_def toLower_def)
  have p: "passwordAuthSetup C ''cli'' [] (twice e pw) = (Inr tok, (typing e pw)\<lparr>clTyped := [], clErr := t, clEnv := s2\<rparr>)"
    using assms(3,4) by (simp add: passwordAuthSetup_def t op_simps call_def zoom_def typing_def)
  show ?thesis
    using assms(1,2)
    by (simp add: authAction_def conflictChecked_def assms(5-8) call_def zoom_def e op_simps orElse_def chooseAuth_def a
        authorizing_def p println_def print_def typing_def)
qed

lemma new_service_status:
  "\<exists>rs. cRuntimeStatus (serviceClient demoServer rc None C0) blankService = (Inr rs, blankService) \<and>
     rnAppName rs = ''Keys'' \<and> rnAuthStatus rs = AuthSetupNeeded"
proof -
  have vlt: "svVault blankService = demoNew" "blankService\<lparr>svVault := demoNew\<rparr> = blankService"
    by (simp_all add: blankService_def)
  have e: "aAuths demoAbs = Map.empty" "\<not> aOpen demoAbs" by (simp_all add: demoAbs_def avaultNew_def)
  have st: "Status stdX memOps demoNew = (Inr SetupNeeded, demoNew)"
    using memStore.refine_Status_run[OF std_libs demo_new] e by (auto simp: absStatus_def op_simps)
  have sync: "SyncEnabled stdX memOps demoNew = (Inr False, demoNew)"
    by (simp add: SyncEnabled_def autoSyncDisabled_def lastSync_def getBool_def getTime_def getInt64_def getValue_def onStore_def
        zoom_def bnd_def ret_def gets_def memGet_def memCheck_run demoNew_def vaultNew_def)
  show ?thesis
    by (simp add: serviceClient_def remotely_def overWire_Inr authorizeCall_def allowlist_def rpcMethod_def op_simps
        RuntimeStatus_def onVault_def zoom_def vlt st sync vaultStatusToRPC_def demoAuthLib_def)
qed

lemma auth_command_witness:
  "\<forall>rc C0 F L W m. \<exists>tok s'. runClient demoRpc (tinyHost tokenFlag) (L\<lparr>cuAppConflict := \<lambda>_. ret ()\<rparr>)
       \<lparr>coRPC = serviceClient demoServer rc None C0, coFIDO2 = F\<rparr> devBuild W [] [] [] (twice blankService demoKey) = Some (Inr (), s') \<and>
     clOut s' = tok @ [nl] \<and> authorizeCall (Some [tok]) m (clEnv s') = (Inr (), clEnv s')"
proof (intro allI)
  fix rc C0 F and L :: "(mem, unit, kvdisk, outside) service cliLib" and W m
  let ?L = "L\<lparr>cuAppConflict := \<lambda>_. ret ()\<rparr>"
  let ?C = "\<lparr>coRPC = serviceClient demoServer rc None C0, coFIDO2 = F\<rparr>" and ?s = "twice blankService demoKey"
  let ?c = "contextFor devBuild authFlags tokenFlag"
  obtain s1 tok s2 where s: "AuthSetup demoRpc (demoAuthLib False) PasswordType demoKey [] blankService = (Inr (), s1)"
      "AuthUnlock demoRpc (demoAuthLib False) PasswordType demoKey ''cli'' s1 = (Inr tok, s2)"
    using new_service_session by blast
  obtain rs where rs: "cRuntimeStatus (coRPC ?C) blankService = (Inr rs, blankService)" "rnAppName rs = ''Keys''" "rnAuthStatus rs = AuthSetupNeeded"
    using new_service_status[of rc C0] by auto
  have calls: "cAuthSetup (coRPC ?C) PasswordType demoKey [] blankService = (Inr (), s1)"
    "cAuthUnlock (coRPC ?C) PasswordType demoKey ''cli'' s1 = (Inr tok, s2)"
    using s by (simp_all add: serviceClient_def remotely_def overWire_Inr authorizeCall_def allowlist_def rpcMethod_def op_simps)
  have flags: "cString ?c ''client'' = ''cli''" "cString ?c ''type'' = ''password''" "cString ?c ''password'' = []" "cBool ?c ''token''"
    by (simp_all add: cString_def cBool_def flagValue_def contextFor_def authFlags_def flagNames_def tokenFlag_def trimSpace_def isSpace_def)
  have "demoKey \<noteq> []" by (simp add: demoKey_def)
  from auth_action_typed[OF rs(1,3) calls flags this] obtain s' where
    s': "authAction ?L ?C ?c ?s = (Inr (), s')" "clOut s' = tok @ [nl]" "clEnv s' = s2" by blast
  have e: "clEnv ?s = blankService" "clOut ?s = []" by (simp_all add: twice_def typing_def)
  with before_tiny[of ?C ?s rs tokenFlag "[''auth'']" "[(''token'', VBool True)]" "[]"] rs(1,2)
  have b: "before (tinyHost tokenFlag) ?C devBuild (contextFor devBuild [] tokenFlag) ''auth'' ?s = (Inr None, ?s)"
    by (simp add: tokenFlag_def)
  have i: "hoParse (tinyHost tokenFlag :: (mem, unit, kvdisk, outside) service host) [] = Inr tokenFlag" "ivPath tokenFlag = [''auth'']"
    by (simp_all add: tinyHost_def tokenFlag_def)
  have f: "cmAction (hd (authCommands ?L ?C)) = act (authAction ?L ?C)" "cmFlags (hd (authCommands ?L ?C)) = authFlags"
    by (simp_all add: authCommands_def)
  have run: "runClient demoRpc (tinyHost tokenFlag) ?L ?C devBuild W [] [] [] ?s = Some (Inr (), s')"
    unfolding runClient_def i find_auth by (simp add: i find_auth b f act_def liftP_def s'(1) del: findCommand.simps)
  show "\<exists>tok s'. runClient demoRpc (tinyHost tokenFlag) ?L ?C devBuild W [] [] [] ?s = Some (Inr (), s') \<and>
     clOut s' = tok @ [nl] \<and> authorizeCall (Some [tok]) m (clEnv s') = (Inr (), clEnv s')"
    using auth_command[OF refl demo_quiet i flags(4) run rtranclp.rtrancl_refl, of "[]" m] run s'(2) by (auto simp: e(2))
qed

section \<open>keys verify\<close>

text \<open>A stream together with what it has delivered since it was opened.\<close>

definition recorded :: "('e, 'i, 'o) stream \<Rightarrow> ('e \<times> 'o list, 'i, 'o) stream" where
  "recorded S = \<lparr>
     smOpen = (\<lambda>(e, got). case smOpen S e of (r, e') \<Rightarrow> (r, e', [])),
     smSend = (\<lambda>i (e, got). case smSend S i e of (r, e') \<Rightarrow> (r, e', got)),
     smCloseSend = (\<lambda>(e, got). case smCloseSend S e of (r, e') \<Rightarrow> (r, e', got)),
     smRecv = (\<lambda>(e, got). case smRecv S e of (Inl x, e') \<Rightarrow> (Inl x, e', got) | (Inr o', e') \<Rightarrow> (Inr o', e', got @ [o']))\<rparr>"

text \<open>What the receiver keeps between its rounds: nothing is written before the first response is checked.\<close>

definition verifying :: "('e \<times> verifyResponse list) cliLib \<Rightarrow> string \<Rightarrow> ('e \<times> verifyResponse list) cli \<Rightarrow> bool \<Rightarrow> ('e \<times> verifyResponse list) cli \<Rightarrow> bool" where
  "verifying L signer s0 done s =
     (let got = snd (clEnv s) in
      if done then got \<noteq> [] \<and> (\<exists>t. checkSigner (cuFormat L) (vrSigner (hd got)) signer = Inr t) \<and>
        clOut s = clOut s0 @ concat (map vrData got)
      else got = [] \<and> clOut s = clOut s0)"


text \<open>The errors of the sender: of the standard input, of sending and of closing.\<close>

definition senderFails :: "('e, string, 'o) stream \<Rightarrow> 'e cli \<Rightarrow> err \<Rightarrow> bool" where
  "senderFails S s e \<longleftrightarrow> Inl e \<in> set (clStdin s) \<or> (\<exists>b w w'. smSend S b w = (Inl e, w')) \<or> (\<exists>w w'. smCloseSend S w = (Inl e, w'))"

lemma senderFails_less: "senderFails S s' e \<Longrightarrow> set (clStdin s') \<subseteq> set (clStdin s) \<Longrightarrow> senderFails S s e"
  by (auto simp: senderFails_def)

lemma stdin_fails: "clStdin s = Inl e # rs \<Longrightarrow> senderFails S s e"
  by (simp add: senderFails_def)

lemma sendPiece_run:
  assumes "sendPiece S (\<lambda>b. b) b s = (r, s')"
  shows "clOut s' = clOut s" "clStdin s' = clStdin s"
  using assms by (auto simp: sendPiece_def call_def zoom_def split: if_splits prod.splits)

lemma sendPiece_fails: "sendPiece S (\<lambda>b. b) b s = (Inl e, s') \<Longrightarrow> senderFails S s0 e"
  by (auto simp: sendPiece_def call_def zoom_def senderFails_def split: if_splits prod.splits)

lemma sendPiece_recorded: "sendPiece (recorded S) (\<lambda>b. b) b s = (r, s') \<Longrightarrow> snd (clEnv s') = snd (clEnv s)"
  by (auto simp: sendPiece_def call_def zoom_def recorded_def split: if_splits prod.splits)

lemma pump_run:
  assumes "pump (sendPiece (recorded S) (\<lambda>b. b)) running var s = ((running', var'), s')"
  shows "clOut s' = clOut s" "snd (clEnv s') = snd (clEnv s)" "set (clStdin s') \<subseteq> set (clStdin s)"
    "var' = var \<or> (\<exists>e. var' = Some e \<and> senderFails (recorded S) s e)"
  using assms unfolding pump_def
  by (auto split: if_splits list.splits sum.splits prod.splits dest: sendPiece_run sendPiece_recorded sendPiece_fails intro: stdin_fails)

lemma pumps_run:
  "pumps (sendPiece (recorded S) (\<lambda>b. b)) sch running var s = (var', s') \<Longrightarrow>
     clOut s' = clOut s \<and> snd (clEnv s') = snd (clEnv s) \<and> (var' = var \<or> (\<exists>e. var' = Some e \<and> senderFails (recorded S) s e))"
proof (induction sch arbitrary: running var s)
  case (Cons b sch)
  obtain running1 var1 s1 where p: "pump (sendPiece (recorded S) (\<lambda>b. b)) running var s = ((running1, var1), s1)"
    by (metis prod.collapse)
  with Cons.prems Cons.IH[of running1 var1 s1] pump_run[OF p] senderFails_less[of "recorded S" s1 _ s] show ?case by auto
qed simp

text \<open>The result of a round, in each of its cases.\<close>

lemma verifyRound_cases:
  assumes "cVerifyStream (coRPC C) = recorded S" "verifyRound L C signer done s = (r, s')"
  obtains
    x where "snd (clEnv s') = snd (clEnv s)" "clOut s' = clOut s" "clStdin s' = clStdin s" "r = Inl x \<or> r = Inr (Finished (Some x)) \<or> r = Inr (Finished None)"
  | resp e where "snd (clEnv s') = snd (clEnv s) @ [resp]" "clOut s' = clOut s" "clStdin s' = clStdin s" "\<not> done"
      "checkSigner (cuFormat L) (vrSigner resp) signer = Inl e" "r = Inl e \<or> r = Inr (Finished (Some e))"
  | resp where "snd (clEnv s') = snd (clEnv s) @ [resp]" "clOut s' = clOut s @ vrData resp" "clStdin s' = clStdin s"
      "done \<or> (\<exists>t. checkSigner (cuFormat L) (vrSigner resp) signer = Inr t)" "r = Inr (Again True) \<or> r = Inr (Finished None)"
proof -
  obtain q e' where Pair: "smRecv (recorded S) (clEnv s) = (q, e')" by (metis prod.collapse)
  show ?thesis
  proof (cases q)
    case (Inl x)
    with Pair have "snd e' = snd (clEnv s)"
      by (auto simp: recorded_def split: prod.splits sum.splits)
    moreover from assms(2) have "s' = s\<lparr>clEnv := e'\<rparr>" "r = Inl x \<or> r = Inr (Finished (Some x)) \<or> r = Inr (Finished None)"
      using Pair Inl by (auto simp: verifyRound_def received_def assms(1) orElse_def call_def zoom_def op_simps split: if_splits)
    ultimately show ?thesis by - (rule that(1)[of x], simp_all)
  next
    case (Inr resp)
    with Pair have got: "snd e' = snd (clEnv s) @ [resp]"
      by (auto simp: recorded_def split: prod.splits sum.splits)
    have recv: "call (smRecv (recorded S)) s = (Inr resp, s\<lparr>clEnv := e'\<rparr>)"
      using Pair Inr by (simp add: call_def zoom_def)
    have run: "verifyRound L C signer done s = orElse (if done then ret () else checked L (vrSigner resp) signer) (\<lambda>e. ret (Finished (Some e)))
        (\<lambda>_. if vrData resp = [] then ret (Finished None) else bnd (print (vrData resp)) (\<lambda>_. ret (Again True))) (s\<lparr>clEnv := e'\<rparr>)"
      unfolding verifyRound_def received_def assms(1) by (rule trans[OF orElse_run(1)[where m = "call (smRecv (recorded S))", OF recv]]) simp
    show ?thesis
    proof (cases "done \<or> (\<exists>t. checkSigner (cuFormat L) (vrSigner resp) signer = Inr t)")
      case True
      with assms(2)[unfolded run] have "clEnv s' = e'" "clOut s' = clOut s @ vrData resp" "clStdin s' = clStdin s" "r = Inr (Again True) \<or> r = Inr (Finished None)"
        by (auto simp: checked_def printErr_def print_def orElse_def op_simps split: if_splits)
      with got True show ?thesis by - (rule that(3)[of resp], simp_all)
    next
      case False
      then obtain e where e: "\<not> done" "checkSigner (cuFormat L) (vrSigner resp) signer = Inl e"
        by (cases "checkSigner (cuFormat L) (vrSigner resp) signer") auto
      with assms(2)[unfolded run] have "s' = s\<lparr>clEnv := e'\<rparr>" "r = Inl e \<or> r = Inr (Finished (Some e))"
        by (auto simp: checked_def orElse_def op_simps split: if_splits)
      with got e show ?thesis by - (rule that(2)[of resp e], simp_all)
    qed
  qed
qed

lemma verifying_race:
  assumes "cVerifyStream (coRPC C) = recorded S"
  shows "race True (sendPiece (cVerifyStream (coRPC C)) (\<lambda>b. b)) (verifyRound L C signer) sch done running var s = Some (r, s') \<Longrightarrow>
    verifying L signer s0 done s \<Longrightarrow> set (clStdin s) \<subseteq> set (clStdin s0) \<Longrightarrow>
    verifying L signer s0 (snd (clEnv s') \<noteq> []) s' \<or>
    (\<exists>resp e e'. snd (clEnv s') = [resp] \<and> checkSigner (cuFormat L) (vrSigner resp) signer = Inl e \<and> clOut s' = clOut s0 \<and>
       r = Inl e' \<and> (e' = e \<or> senderFails (recorded S) s0 e'))"
proof (induction sch arbitrary: "done" running var s)
  case (Cons b sch)
  show ?case
  proof (cases b)
    case True
    obtain running' var' u where p: "pump (sendPiece (recorded S) (\<lambda>b. b)) running var s = ((running', var'), u)"
      by (metis prod.collapse)
    note q = pump_run[OF p]
    have "verifying L signer s0 done u" using Cons.prems(2) unfolding verifying_def q(1,2) .
    with Cons.IH[of "done" running' var' u] Cons.prems(1,3) p q(3) True assms show ?thesis by auto
  next
    case False
    obtain q u where v: "verifyRound L C signer done s = (q, u)" by (metis prod.collapse)
    show ?thesis
    proof (cases rule: verifyRound_cases[OF assms v])
      case (1 x)
      from 1(4) Cons.prems(1) False v assms obtain w var1 where
        w: "pumps (sendPiece (recorded S) (\<lambda>b. b)) (takeWhile (\<lambda>b. b) sch) running var1 u = (w, s')"
        by (auto simp: Let_def readVar_def split: prod.splits)
      from pumps_run[OF w] 1(1,2) Cons.prems(2) show ?thesis by (auto simp: verifying_def Let_def split: if_splits)
    next
      case (2 resp e)
      from 2(6) Cons.prems(1) False v assms obtain w where
        w: "pumps (sendPiece (recorded S) (\<lambda>b. b)) (takeWhile (\<lambda>b. b) sch) running (Some e) u = (w, s')" "readVar (w, s') = (r, s')"
        by (auto simp: Let_def readVar_def split: prod.splits)
      note p = pumps_run[OF w(1)]
      then obtain e' where "w = Some e'" "e' = e \<or> senderFails (recorded S) u e'" by auto
      with w(2) p 2 Cons.prems(2,3) senderFails_less[of "recorded S" u _ s0] show ?thesis
        by (auto simp: verifying_def Let_def readVar_def)
    next
      case (3 resp)
      have u: "verifying L signer s0 True u"
        using 3(1-4) Cons.prems(2) by (cases "snd (clEnv s)") (auto simp: verifying_def Let_def split: if_splits)
      from 3(5) show ?thesis
      proof
        assume "q = Inr (Again True)"
        then show ?thesis using u 3(3) Cons.prems(1,3) Cons.IH[of True running var u] False v by simp
      next
        assume "q = Inr (Finished None)"
        with Cons.prems(1) False v assms obtain w where
          w: "pumps (sendPiece (recorded S) (\<lambda>b. b)) (takeWhile (\<lambda>b. b) sch) running var u = (w, s')"
          by (auto simp: Let_def readVar_def split: prod.splits)
        from pumps_run[OF w] 3(1) u show ?thesis by (auto simp: verifying_def Let_def)
      qed
    qed
  qed
qed simp

text \<open>C13. \<^verbatim>\<open>keys verify\<close> on the standard input, for every service and every interleaving of the goroutine that
  sends with the one that receives: when the command ends, the standard output has the data of all the
  responses in their order, if the signer of the first response is the one that was asked for. If it is
  another, nothing is written, nothing more is received, and the result is an error: that of the check, or one of
  the sender that overwrote it. If the service sent no response, nothing is written; a stream that just
  ends is a success, without any signer.\<close>

theorem verify_stream:
  assumes "cVerifyStream (coRPC C) = recorded S" "verifyStdin L C sch signer s = Some (r, s')"
  shows "(case snd (clEnv s') of [] \<Rightarrow> clOut s' = clOut s
     | resp # rest \<Rightarrow> (case checkSigner (cuFormat L) (vrSigner resp) signer of
          Inl e \<Rightarrow> rest = [] \<and> clOut s' = clOut s \<and> (\<exists>e'. r = Inl e' \<and> (e' = e \<or> senderFails (recorded S) s e'))
        | Inr t \<Rightarrow> clOut s' = clOut s @ vrData resp @ concat (map vrData rest))) \<and>
    ((\<exists>w1 w2. smOpen S (fst (clEnv s)) = (Inr (), w1) \<and> smRecv S w1 = (Inl EOF, w2)) \<longrightarrow>
     (\<exists>u. verifyStdin L C [False] signer s = Some (Inr (), u) \<and> snd (clEnv u) = [] \<and> clOut u = clOut s))"
proof (intro conjI impI)
  obtain q u where o': "call (smOpen (cVerifyStream (coRPC C))) s = (q, u)" by (metis prod.collapse)
  then have u: "verifying L signer s False u" "clStdin u = clStdin s"
    by (auto simp: verifying_def call_def zoom_def assms(1) recorded_def split: prod.splits)
  have "verifying L signer s (snd (clEnv s') \<noteq> []) s' \<or>
    (\<exists>resp e e'. snd (clEnv s') = [resp] \<and> checkSigner (cuFormat L) (vrSigner resp) signer = Inl e \<and> clOut s' = clOut s \<and>
       r = Inl e' \<and> (e' = e \<or> senderFails (recorded S) s e'))"
  proof (cases q)
    case Inl
    with o' assms(2) u show ?thesis by (simp add: verifyStdin_def bndP_def liftP_def) (simp add: verifying_def)
  next
    case Inr
    with o' assms(2) show ?thesis
      by (intro verifying_race[OF assms(1) _ u(1)]) (simp_all add: verifyStdin_def bndP_def liftP_def u(2))
  qed
  then show "case snd (clEnv s') of [] \<Rightarrow> clOut s' = clOut s
     | resp # rest \<Rightarrow> (case checkSigner (cuFormat L) (vrSigner resp) signer of
          Inl e \<Rightarrow> rest = [] \<and> clOut s' = clOut s \<and> (\<exists>e'. r = Inl e' \<and> (e' = e \<or> senderFails (recorded S) s e'))
        | Inr t \<Rightarrow> clOut s' = clOut s @ vrData resp @ concat (map vrData rest))"
    by (auto simp: verifying_def Let_def split: list.splits)
next
  assume "\<exists>w1 w2. smOpen S (fst (clEnv s)) = (Inr (), w1) \<and> smRecv S w1 = (Inl EOF, w2)"
  then show "\<exists>u. verifyStdin L C [False] signer s = Some (Inr (), u) \<and> snd (clEnv u) = [] \<and> clOut u = clOut s"
    by (cases "clEnv s") (auto simp: verifyStdin_def bndP_def liftP_def call_def zoom_def assms(1) recorded_def verifyRound_def
        received_def orElse_def op_simps readVar_def EOF_def)
qed

text \<open>A service that sends what it has in its queue, then the end of the stream.\<close>

definition queued :: "('o list, string, 'o) stream" where
  "queued = \<lparr>smOpen = ret (), smSend = (\<lambda>i. ret ()), smCloseSend = ret (),
     smRecv = (\<lambda>q. case q of [] \<Rightarrow> (Inl EOF, []) | o' # q' \<Rightarrow> (Inr o', q'))\<rparr>"

definition signedBy :: "string \<Rightarrow> rpcKey" where
  "signedBy k = \<lparr>rkID = k, rkType = [], rkSaved = False, rkPrivate = False, rkUser = None, rkLength = 0, rkUpdatedAt = 0\<rparr>"

definition hearing :: "(verifyResponse list \<times> verifyResponse list) cli" where
  "hearing = \<lparr>clEnv = ([\<lparr>vrSigner = Some (signedBy ''kex''), vrData = ''he''\<rparr>, \<lparr>vrSigner = None, vrData = ''y''\<rparr>], []),
     clStdin = [Inr ''signed''], clTerm = False, clTermErr = None, clTyped = [], clOut = [], clErr = [], clExit = None\<rparr>"

lemma hearing_runs:
  fixes C :: "(verifyResponse list \<times> verifyResponse list) cliClient"
  assumes "cVerifyStream (coRPC C) = recorded queued"
  shows "\<exists>s'. verifyStdin L C [True, False, True, False, False] ''kex'' hearing = Some (Inr (), s') \<and>
      snd (clEnv s') = fst (clEnv hearing)"
    and "\<exists>s'. verifyStdin L C [False] ''other'' hearing =
      Some (Inl (Err ''invalid signer, expected other, was kex''), s') \<and> snd (clEnv s') = [hd (fst (clEnv hearing))]"
  by (simp_all add: verifyStdin_def assms bndP_def liftP_def call_def zoom_def recorded_def queued_def hearing_def op_simps
      pump_def sendPiece_def readVar_def verifyRound_def received_def orElse_def checked_def checkSigner_def signedBy_def print_def printErr_def EOF_def)

lemma verify_stream_witness:
  "\<forall>C L. let D = C\<lparr>coRPC := (coRPC C)\<lparr>cVerifyStream := recorded queued\<rparr>\<rparr> in
     (\<exists>s'. verifyStdin L D [True, False, True, False, False] ''kex'' hearing = Some (Inr (), s') \<and> clOut s' = ''hey'') \<and>
     (\<exists>s'. verifyStdin L D [False] ''other'' hearing = Some (Inl (Err ''invalid signer, expected other, was kex''), s') \<and> clOut s' = [])"
proof (intro allI)
  fix C :: "(verifyResponse list \<times> verifyResponse list) cliClient" and L :: "(verifyResponse list \<times> verifyResponse list) cliLib"
  let ?D = "C\<lparr>coRPC := (coRPC C)\<lparr>cVerifyStream := recorded queued\<rparr>\<rparr>"
  have D: "cVerifyStream (coRPC ?D) = recorded queued" by simp
  obtain s1 where s1: "verifyStdin L ?D [True, False, True, False, False] ''kex'' hearing = Some (Inr (), s1)"
      "snd (clEnv s1) = fst (clEnv hearing)"
    using hearing_runs(1)[OF D] by blast
  obtain s2 where s2: "verifyStdin L ?D [False] ''other'' hearing = Some (Inl (Err ''invalid signer, expected other, was kex''), s2)"
      "snd (clEnv s2) = [hd (fst (clEnv hearing))]"
    using hearing_runs(2)[OF D] by blast
  have "clOut s1 = ''hey''" using verify_stream[OF D s1(1)] s1(2) by (simp add: hearing_def checkSigner_def signedBy_def)
  moreover have "clOut s2 = []" using verify_stream[OF D s2(1)] s2(2) by (simp add: hearing_def checkSigner_def signedBy_def)
  ultimately show "let D = ?D in
     (\<exists>s'. verifyStdin L D [True, False, True, False, False] ''kex'' hearing = Some (Inr (), s') \<and> clOut s' = ''hey'') \<and>
     (\<exists>s'. verifyStdin L D [False] ''other'' hearing = Some (Inl (Err ''invalid signer, expected other, was kex''), s') \<and> clOut s' = [])"
    using s1(1) s2(1) unfolding Let_def by blast
qed

section \<open>A flag without effect\<close>

lemma flagValue_other:
  assumes "\<And>f. f \<in> set fs \<Longrightarrow> n \<in> set (flagNames f) \<Longrightarrow> m \<notin> set (flagNames f)"
  shows "flagValue fs (given @ (m, v) # given') n = flagValue fs (given @ given') n"
proof (cases "List.find (\<lambda>f. n \<in> set (flagNames f)) fs")
  case (Some f)
  then have "m \<notin> set (flagNames f)" using assms by (auto simp: find_Some_iff)
  moreover have "List.find Q (xs @ y # ys) = List.find Q (xs @ ys)" if "\<not> Q y" for Q and y :: "string \<times> givenValue" and xs ys
    using that by (induction xs) auto
  ultimately show ?thesis by (simp add: flagValue_def Some)
qed (simp add: flagValue_def)

text \<open>The flag that \<^verbatim>\<open>keys encrypt\<close> declares so that recipients stay anonymous is not the one it reads: giving
  it changes nothing.\<close>

lemma flag_without_effect:
  "encryptAction L C sch (contextFor b (cmFlags (hd (encryptCommands L C sch))) (i\<lparr>ivGiven := g @ (''no-signer-recipient'', v) # g'\<rparr>)) =
   encryptAction L C sch (contextFor b (cmFlags (hd (encryptCommands L C sch))) (i\<lparr>ivGiven := g @ g'\<rparr>))"
proof -
  let ?fs = "cmFlags (hd (encryptCommands L C sch))"
  let ?c = "contextFor b ?fs (i\<lparr>ivGiven := g @ (''no-signer-recipient'', v) # g'\<rparr>)" and ?d = "contextFor b ?fs (i\<lparr>ivGiven := g @ g'\<rparr>)"
  have fs: "map flagNames ?fs = [[''recipient'', ''r''], [''sender'', ''signer'', ''s''], [''armor'', ''a''], [''in'', ''i''], [''out'', ''o''],
      [''mode'', ''m''], [''no-signer-recipient'']]"
    by (simp add: encryptCommands_def flagNames_def trimSpace_def isSpace_def)
  have "flagValue ?fs (g @ (''no-signer-recipient'', v) # g') n = flagValue ?fs (g @ g') n" if "n \<noteq> ''no-signer-recipient''" for n
  proof (rule flagValue_other)
    fix f
    assume "f \<in> set ?fs" "n \<in> set (flagNames f)"
    then have "flagNames f \<in> set (map flagNames ?fs)" by simp
    then show "''no-signer-recipient'' \<notin> set (flagNames f)" unfolding fs using \<open>n \<in> set (flagNames f)\<close> that by auto
  qed
  then have "cString ?c n = cString ?d n" "cBool ?c n = cBool ?d n" "cSlice ?c n = cSlice ?d n" if "n \<noteq> ''no-signer-recipient''" for n
    using that by (simp_all add: cString_def cBool_def cSlice_def contextFor_def)
  then show ?thesis by (simp add: encryptAction_def encryptFileForCLI_def encryptStdin_def Let_def cong: if_cong)
qed

section \<open>Confirmation\<close>

text \<open>What a confirmation that fails leaves: no call but the one that makes the phrase, and the exit code 1.\<close>

lemma not_confirmed:
  assumes "cuWords L (clEnv s) = (Inr words, e)" "takeLine [] (clStdin s) = ((line, rest, err), inp)"
    and "trimBoth {CHR 0x0D, nl} line \<noteq> words"
  shows "\<exists>s'. confirmed L question s = (Inl (Panic ''exit''), s') \<and> clEnv s' = e \<and> clExit s' = Some 1"
  using assms by (simp add: confirmed_def call_def zoom_def op_simps println_def print_def readString_def exit_def)

text \<open>C40. The commands that remove the vault do nothing without the phrase: unless \<^verbatim>\<open>-force\<close> is given, when
  the line that is typed is not the phrase that was shown, \<^verbatim>\<open>keys auth reset\<close> does not call the service and
  \<^verbatim>\<open>keys uninstall\<close> stops no process and removes no file; both exit with code 1.\<close>

theorem unconfirmed_harmless:
  assumes "cuWords L (clEnv s1) = (Inr words, e)" "takeLine [] (clStdin s1) = ((line, rest, err), inp)"
    and "trimBoth {CHR 0x0D, nl} line \<noteq> words" "\<not> cBool c ''force''"
    and "cmAction cm = Some a" "a c s = Some (r, s')"
    and "cm = authResetCommand L C \<and> s1 = s \<or> cm = startCommands R L b ! 3 \<and> newClientEnv R b c s = (Inr v, s1)"
  shows "clEnv s' = e \<and> clExit s' = Some 1"
proof -
  note stopped = not_confirmed[OF assms(1-3)]
  from assms(7) show ?thesis
  proof (elim disjE conjE)
    assume "cm = authResetCommand L C" "s1 = s"
    then show ?thesis
      using stopped[of "''Are you sure you want to reset auth and remove your vault?''"] assms(4-6)
      by (auto simp: authResetCommand_def act_def liftP_def op_simps)
  next
    assume "cm = startCommands R L b ! 3" "newClientEnv R b c s = (Inr v, s1)"
    then show ?thesis
      using stopped[of "''Are you sure you want to uninstall and remove your vault?''"] assms(4-6)
      by (auto simp: startCommands_def act_def liftP_def op_simps)
  qed
qed


definition asking :: "string \<Rightarrow> nat cli" where
  "asking line = \<lparr>clEnv = 0, clStdin = [Inr (line @ [nl])], clTerm = True, clTermErr = None, clTyped = [], clOut = [], clErr = [], clExit = None\<rparr>"

definition noFlags :: "cliContext" where
  "noFlags = \<lparr>ctFlags = [], ctGiven = [], ctGlobals = appFlags demoBuild, ctGlobalGiven = [], ctArgs = []\<rparr>"

lemma asking_phrase:
  "takeLine [] (clStdin (asking ''no'')) = ((''no'' @ [nl], [], None), [])" "trimBoth {CHR 0x0D, nl} (''no'' @ [nl]) = ''no''"
  by (simp_all add: asking_def trimBoth_def trimRight_def nl_def)

lemma noFlags_env: "\<exists>v. newClientEnv tinyProcs demoBuild noFlags s = (Inr v, s)"
  by (simp add: newClientEnv_def cGlobalString_def flagValue_def noFlags_def appFlags_def flagNames_def demoBuild_def
      trimSpace_def isSpace_def op_simps call_def zoom_def NewEnv_def envLoad_def onFiles_def envPath_def AppPath_def
      pathExists_def tinyProcs_def tinyEnvLib_def Let_def)

lemma unconfirmed_harmless_witness:
  "\<forall>L C. \<exists>a b r1 r2 s1 s2. cmAction (authResetCommand (L\<lparr>cuWords := ret ''yes''\<rparr>) C) = Some a \<and>
     a noFlags (asking ''no'') = Some (r1, s1) \<and> clEnv s1 = 0 \<and> clExit s1 = Some 1 \<and>
     cmAction (startCommands tinyProcs (L\<lparr>cuWords := ret ''yes''\<rparr>) demoBuild ! 3) = Some b \<and>
     b noFlags (asking ''no'') = Some (r2, s2) \<and> clEnv s2 = 0 \<and> clExit s2 = Some 1"
proof (intro allI)
  fix L :: "nat cliLib" and C :: "nat cliClient"
  let ?L = "L\<lparr>cuWords := ret ''yes''\<rparr>"
  have w: "cuWords ?L (clEnv (asking ''no'')) = (Inr ''yes'', 0)" by (simp add: asking_def op_simps)
  have l: "trimBoth {CHR 0x0D, nl} (''no'' @ [nl]) \<noteq> ''yes''" "\<not> cBool noFlags ''force''"
    by (simp_all only: asking_phrase(2)) (simp_all add: cBool_def flagValue_def noFlags_def)
  obtain v where v: "newClientEnv tinyProcs demoBuild noFlags (asking ''no'') = (Inr v, asking ''no'')"
    using noFlags_env by blast
  obtain a where a: "cmAction (authResetCommand ?L C) = Some a" "\<exists>r s. a noFlags (asking ''no'') = Some (r, s)"
    by (simp add: authResetCommand_def act_def liftP_def)
  obtain b where b: "cmAction (startCommands tinyProcs ?L demoBuild ! 3) = Some b" "\<exists>r s. b noFlags (asking ''no'') = Some (r, s)"
    by (simp add: startCommands_def act_def liftP_def)
  from a(2) b(2) obtain r1 s1 r2 s2 where r: "a noFlags (asking ''no'') = Some (r1, s1)" "b noFlags (asking ''no'') = Some (r2, s2)"
    by blast
  show "\<exists>a b r1 r2 s1 s2. cmAction (authResetCommand ?L C) = Some a \<and>
     a noFlags (asking ''no'') = Some (r1, s1) \<and> clEnv s1 = 0 \<and> clExit s1 = Some 1 \<and>
     cmAction (startCommands tinyProcs ?L demoBuild ! 3) = Some b \<and>
     b noFlags (asking ''no'') = Some (r2, s2) \<and> clEnv s2 = 0 \<and> clExit s2 = Some 1"
    using unconfirmed_harmless[where L = ?L and C = C, OF w asking_phrase(1) l a(1) r(1)] a(1) r(1)
      unconfirmed_harmless[where L = ?L and R = tinyProcs and b = demoBuild and v = v, OF w asking_phrase(1) l b(1) r(2)] b(1) r(2) v
    by blast
qed

section \<open>Reading ahead, waiting, defaults\<close>

text \<open>Every prompt makes a reader of its own, whose buffer is gone with it: what was typed ahead is lost.\<close>

lemma typed_ahead_lost:
  assumes "clStdin s = Inr (''f'' @ [nl] @ ahead) # inp"
  shows "\<exists>s'. chooseAuth title [] s = (Inr FIDO2Type, s') \<and> clStdin s' = inp"
  using assms
  by (cases inp) (simp_all add: chooseAuth_def chooseLoop.simps[of title s] askAuth_def op_simps printlnErr_def printErr_def readLine_def
      readString_def zoom_def authTypeFromString_def toLower_def trimSpace_def isSpace_def nl_def)

text \<open>The default of \<^verbatim>\<open>-device\<close> is its description, so that setting up with FIDO2 never asks for a device but
  sends the description to the service.\<close>

lemma ret_bnd: "bnd (ret x) f = f x"
  by (simp add: fun_eq_iff op_simps)

lemma default_device:
  assumes "filter (\<lambda>(n, v). n = ''device'') (ivGiven i) = []" "cString (contextFor b authFlags i) ''pin'' = pin" "pin \<noteq> []"
  shows "authorizing C (contextFor b authFlags i) True FIDO2Type =
    bnd (printlnErr ''Let's create a credential, you may need to interact with the key...'') (\<lambda>_.
    bnd (call (cAuthSetup (coRPC C) FIDO2Type pin ''device path or product name (for FIDO2)'')) (\<lambda>_.
    bnd (printlnErr ''Getting the credential, you may need to interact with the key...'') (\<lambda>_.
    call (cAuthUnlock (coRPC C) FIDO2Type pin (cString (contextFor b authFlags i) ''client'')))))"
proof -
  have "List.find (\<lambda>(m, v). m = ''device'') (rev (ivGiven i)) = None"
    using assms(1) by (auto simp: find_None_iff filter_empty_conv)
  then have "cString (contextFor b authFlags i) ''device'' = ''device path or product name (for FIDO2)''"
    by (simp add: cString_def flagValue_def contextFor_def authFlags_def flagNames_def trimSpace_def isSpace_def)
  then show ?thesis
    using assms(2,3) by (simp add: authorizing_def fido2AuthSetup_def chosenDevice_def enteredPIN_def ret_bnd)
qed

text \<open>An old process id is taken for that of the process that was started: with the file of an earlier one,
  \<^verbatim>\<open>keys start\<close> ends after one tick, whether or not the new process ever gets to write its own.\<close>

lemma stale_pid:
  assumes "startProcess R c w = (Inr (), w1)" "AppPath (pcEnv R) c ''pid'' False w1 = (Inr path, w1)"
    and "pcTicks R 1000 20000 = Suc n" "pcTick R 1000 w1 = (Inr (), w2)" "checkForPID R path w2 = (Inr pid, w2)" "0 \<le> pid"
  shows "start R c True w = (Inr (), w2)"
  using assms by (simp add: start_def waitForStart_def waitForPID_def op_simps)

section \<open>Declared flags\<close>

primrec allSubs :: "'e command \<Rightarrow> 'e command list" where
  "allSubs (Command n as fs sub a) = Command n as fs sub a # concat (map allSubs sub)"

text \<open>Two contexts that give the same values to flags that are declared, read at the type they are declared with.\<close>

primrec sameFlag :: "cliContext \<Rightarrow> cliContext \<Rightarrow> string \<Rightarrow> flag \<Rightarrow> bool" where
  "sameFlag c d n (StringFlag ns v) \<longleftrightarrow> cString c n = cString d n"
| "sameFlag c d n (BoolFlag ns) \<longleftrightarrow> cBool c n = cBool d n"
| "sameFlag c d n (IntFlag ns v) \<longleftrightarrow> cInt c n = cInt d n"
| "sameFlag c d n (StringSliceFlag ns) \<longleftrightarrow> cSlice c n = cSlice d n"

definition sameInput :: "build \<Rightarrow> flag list \<Rightarrow> cliContext \<Rightarrow> cliContext \<Rightarrow> bool" where
  "sameInput b fs c d \<longleftrightarrow> ctArgs c = ctArgs d \<and>
     list_all (\<lambda>f. list_all (\<lambda>n. sameFlag c d n f) (flagNames f)) fs \<and>
     list_all (\<lambda>f. list_all (\<lambda>n. cGlobalString c n = cGlobalString d n) (flagNames f)) (appFlags b)"

definition declaredReads :: "build \<Rightarrow> 'e command \<Rightarrow> bool" where
  "declaredReads b cm \<longleftrightarrow> (\<forall>c d. sameInput b (cmFlags cm) c d \<longrightarrow> (\<forall>a. cmAction cm = Some a \<longrightarrow> a c = a d))"

lemma declared_act: "(\<And>c d. sameInput b fs c d \<Longrightarrow> f c = f d) \<Longrightarrow> declaredReads b (Command n as fs sub (act f))"
  by (auto simp: declaredReads_def act_def)

lemma declared_some: "(\<And>c d. sameInput b fs c d \<Longrightarrow> f c = f d) \<Longrightarrow> declaredReads b (Command n as fs sub (Some f))"
  by (auto simp: declaredReads_def)

lemma declared_none: "declaredReads b (Command n as fs sub noAction)" "declaredReads b (Command n as fs sub None)"
  by (auto simp: declaredReads_def noAction_def)

lemmas same_simps = sameInput_def flagNames_def trimSpace_def isSpace_def appFlags_def argString_def cArg_def Let_def

named_theorems declared

lemma declared_start [declared]: "list_all (declaredReads b) (concat (map allSubs (startCommands R L b)))"
  unfolding startCommands_def
  by (simp, intro conjI declared_act declared_none declared_some;
    simp add: same_simps newClientEnv_def startAction_def cong: if_cong)

lemma declared_sign [declared]: "list_all (declaredReads b) (concat (map allSubs (signCommands L C sch)))"
  unfolding signCommands_def
  by (simp, intro conjI declared_act declared_none declared_some;
    simp add: same_simps parseMode_def signFileForCLI_def signStdin_def cong: if_cong)

lemma declared_verify [declared]: "list_all (declaredReads b) (concat (map allSubs (verifyCommands L C sch)))"
  unfolding verifyCommands_def
  by (simp, intro conjI declared_act declared_none declared_some;
    simp add: same_simps verifyFileForCLI_def cong: if_cong)

lemma declared_sigchain [declared]: "list_all (declaredReads b) (concat (map allSubs (sigchainCommands E C)))"
  unfolding sigchainCommands_def
  by (simp, intro conjI declared_act declared_none declared_some;
    simp add: same_simps sigchainShow_def statementAdd_def statementRevoke_def cong: if_cong)

lemma declared_pull [declared]: "list_all (declaredReads b) (concat (map allSubs (pullCommands C)))"
  unfolding pullCommands_def
  by (simp, intro conjI declared_act declared_none declared_some;
    simp add: same_simps  cong: if_cong)

lemma declared_import [declared]: "list_all (declaredReads b) (concat (map allSubs (importCommands L C)))"
  unfolding importCommands_def
  by (simp, intro conjI declared_act declared_none declared_some;
    simp add: same_simps importAction_def cong: if_cong)

lemma declared_export [declared]: "list_all (declaredReads b) (concat (map allSubs (exportCommands C)))"
  unfolding exportCommands_def
  by (simp, intro conjI declared_act declared_none declared_some;
    simp add: same_simps exportAction_def cong: if_cong)

lemma declared_db [declared]: "list_all (declaredReads b) (concat (map allSubs (dbCommands C)))"
  unfolding dbCommands_def documentDeleteCommand_def
  by (simp, intro conjI declared_act declared_none declared_some;
    simp add: same_simps  cong: if_cong)

lemma declared_other [declared]: "list_all (declaredReads b) (concat (map allSubs (otherCommands C)))"
  unfolding otherCommands_def
  by (simp, intro conjI declared_act declared_none declared_some;
    simp add: same_simps)

lemma declared_user [declared]: "list_all (declaredReads b) (concat (map allSubs (userCommands E C)))"
  unfolding userCommands_def
  by (simp, intro conjI declared_act declared_none declared_some;
    simp add: same_simps userFind_def userSearch_def userSetup_def cong: if_cong)

lemma declared_key [declared]: "list_all (declaredReads b) (concat (map allSubs (keyCommands L C)))"
  unfolding keyCommands_def
  by (simp, intro conjI declared_act declared_none declared_some;
    simp add: same_simps  cong: if_cong)

lemma declared_env [declared]: "list_all (declaredReads b) (concat (map allSubs (envCommands R L b)))"
  unfolding envCommands_def
  by (simp, intro conjI declared_act declared_none declared_some;
    simp add: same_simps newClientEnv_def envSetAction_def cong: if_cong)

lemma declared_log [declared]: "list_all (declaredReads b) (concat (map allSubs (logCommands R b)))"
  unfolding logCommands_def
  by (simp, intro conjI declared_act declared_none declared_some;
    simp add: same_simps newClientEnv_def cong: if_cong)

lemma declared_wormhole [declared]: "list_all (declaredReads b) (concat (map allSubs (wormholeCommands L W ts)))"
  unfolding wormholeCommands_def
  by (simp, intro conjI declared_act declared_none declared_some;
    simp add: same_simps wormholeAction_def cong: if_cong)

lemma declared_fido2 [declared]: "list_all (declaredReads b) (concat (map allSubs (fido2Commands L C)))"
  unfolding fido2Commands_def
  by (simp, intro conjI declared_act declared_none declared_some;
    simp add: same_simps  cong: if_cong)

lemma declared_admin [declared]: "list_all (declaredReads b) (concat (map allSubs (adminCommands L C)))"
  unfolding adminCommands_def
  by (simp, intro conjI declared_act declared_none declared_some;
    simp add: same_simps  cong: if_cong)

lemma declared_vault [declared]: "list_all (declaredReads b) (concat (map allSubs (vaultCommands C)))"
  unfolding vaultCommands_def
  by (simp, intro conjI declared_act declared_none declared_some;
    simp add: same_simps  cong: if_cong)

lemma declared_encrypt [declared]: "list_all (declaredReads b) (concat (map allSubs (tl (encryptCommands L C sch))))"
  unfolding encryptCommands_def
  by (simp, intro conjI declared_act declared_none declared_some;
    simp add: same_simps decryptAction_def decryptFileForCLI_def cong: if_cong)


lemma declared_auth [declared]: "list_all (declaredReads b) (tl (concat (map allSubs (authCommands L C))))"
  unfolding authCommands_def authVaultCommand_def changePasswordCommand_def authProvisionCommand_def authDevicesCommand_def
    authResetCommand_def authProvisionsCommand_def authDeprovisionCommand_def
  by (simp, intro conjI declared_act declared_none declared_some; simp add: same_simps cong: authType.case_cong)

lemma declared_mem: "list_all (declaredReads b) cs \<Longrightarrow> cm \<in> set cs \<Longrightarrow> declaredReads b cm"
  by (simp add: list_all_iff)

lemma only_auth:
  assumes "cm \<in> set (concat (map allSubs (authCommands L C)))" "\<not> declaredReads b cm"
  shows "cm = hd (authCommands L C)"
proof -
  obtain rest where r: "concat (map allSubs (authCommands L C)) = hd (authCommands L C) # rest"
    by (simp add: authCommands_def)
  with declared_auth[of b L C] have "list_all (declaredReads b) rest" by (simp only: list.sel)
  with assms r declared_mem show ?thesis by fastforce
qed

lemma only_encrypt:
  assumes "cm \<in> set (concat (map allSubs (encryptCommands L C sch)))" "\<not> declaredReads b cm"
  shows "cm = hd (encryptCommands L C sch)"
proof -
  have "concat (map allSubs (encryptCommands L C sch)) = hd (encryptCommands L C sch) # concat (map allSubs (tl (encryptCommands L C sch)))"
    by (simp add: encryptCommands_def)
  with assms declared_mem[OF declared_encrypt] show ?thesis by fastforce
qed

text \<open>C14. The commands are well typed: every flag that a command's action reads is one the command (or the
  program, for the global ones) declares, and is read at the type it is declared with, since the action is the
  same for any two contexts in which the declared flags and the arguments are the same. There are two
  exceptions: \<^verbatim>\<open>keys auth\<close>, which reads the global flag \<^verbatim>\<open>test\<close>, and \<^verbatim>\<open>keys encrypt\<close>, which reads
  \<^verbatim>\<open>no-sender-recipient\<close>; no one declares them.\<close>

theorem flags_declared:
  "{cm \<in> set (concat (map allSubs (commands E R L C b W sch ts))). \<not> declaredReads b cm} \<subseteq>
   {hd (authCommands L C), hd (encryptCommands L C sch)}"
proof (intro subsetI, elim CollectE conjE)
  fix cm
  assume "cm \<in> set (concat (map allSubs (commands E R L C b W sch ts)))" and n: "\<not> declaredReads b cm"
  then have "\<exists>cs \<in> {startCommands R L b, authCommands L C, signCommands L C sch, verifyCommands L C sch, sigchainCommands E C,
      encryptCommands L C sch, pullCommands C, importCommands L C, exportCommands C, dbCommands C, otherCommands C,
      userCommands E C, keyCommands L C, envCommands R L b, logCommands R b, wormholeCommands L W ts,
      fido2Commands L C, adminCommands L C, vaultCommands C}. cm \<in> set (concat (map allSubs cs))"
    by (auto simp: commands_def)
  moreover have absent: "cm \<notin> set cs" if "list_all (declaredReads b) cs" for cs
    using declared_mem[OF that] n by blast
  ultimately have "cm \<in> set (concat (map allSubs (authCommands L C))) \<or> cm \<in> set (concat (map allSubs (encryptCommands L C sch)))"
    by (simp only: bex_simps bex_empty simp_thms declared[THEN absent])
  then show "cm \<in> {hd (authCommands L C), hd (encryptCommands L C sch)}"
    using only_auth[OF _ n] only_encrypt[OF _ n] by blast
qed

end
