(* ===== verification/Spec2Isabelle.thy ===== *)
theory Spec2Isabelle
  imports SyncProps ServerUsers ClientApi VaultTools Keyring Secrets LocalInstance LocalProps VaultProps ServerProps
    Env SessionProps PasswordProps FidoProps WormholeProps CliProps
begin

text \<open>
  A verification of the Go packages of the keys.pub extensions: the encrypted \<^bold>\<open>vault\<close> with
  its stores and its synchronisation (\<^verbatim>\<open>src/vault\<close>), the \<^bold>\<open>server\<close> it synchronises with
  and the client it uses (\<^verbatim>\<open>src/http/server\<close>, \<^verbatim>\<open>src/http/client\<close>, \<^verbatim>\<open>src/http/api\<close>), the
  \<^bold>\<open>document stores\<close> below them (\<^verbatim>\<open>src/firestore\<close>, \<^verbatim>\<open>src/sdb\<close>, \<^verbatim>\<open>src/sqlcipher\<close>), the \<^bold>\<open>wormhole\<close> that
  carries messages from peer to peer (\<^verbatim>\<open>src/wormhole\<close>), the gRPC \<^bold>\<open>service\<close> that offers all this
  to an application, and the \<^bold>\<open>command line client\<close> that calls it (\<^verbatim>\<open>src/service\<close>).

  \<^bold>\<open>How the parts interact.\<close> A vault keeps encrypted items, authentication methods and
  provisions as entries of a \<^verbatim>\<open>Store\<close> (in memory or in leveldb). Every change is also written to
  a log of pending changes below \<^verbatim>\<open>/push\<close>. \<^verbatim>\<open>Sync\<close> sends the pending changes, encrypted for
  the vault's key, to the server with \<^verbatim>\<open>POST /vault/:kid\<close>, fetches what it has not seen with
  \<^verbatim>\<open>GET /vault/:kid?idx=n\<close> page by page, and replays it into the store below \<^verbatim>\<open>/pull\<close> and the
  tables. The server authorizes every request with a signature and a nonce kept in a
  \<^verbatim>\<open>Redis\<close>, and keeps the events of a key in a document and event store, \<^verbatim>\<open>Fire\<close>, implemented
  over Cloud Firestore. The service keeps its own documents in an encrypted database, of which
  there are two implementations, over leveldb and over SQLite. The service unlocks the vault with
  a password, a paper key or a FIDO2 device, gives the application a session token, and answers
  its calls on keys, users, sigchains, secrets, files and streams until it is locked. Two services
  exchange their addresses over the server's discovery messages and then talk through a wormhole.
  The command line client starts the service's process when it has to, connects to it, and runs one
  command, which makes calls, asks at prompts and prints.

  \<^bold>\<open>Conventions.\<close> A method of a Go type is a definition that takes the libraries and interfaces
  it uses and returns a computation \<open>('s, 'a) op\<close>: a function from the state to an error or a
  value, and the new state. Errors are values of \<open>err\<close>; a run-time panic is the error \<open>Panic\<close>,
  which no handler of errors catches. Strings and byte slices are lists of 8-bit characters,
  nil-able slices are options, int64 values are integers with the wrap-around written out where
  arithmetic can overflow (\<open>GoStd\<close>), maps are association lists or partial functions. A Go
  interface is a record of operations and its contract a locale; every implementation in the
  repository is an interpretation of it. Third-party code is a record of functions (\<open>ext\<close>,
  \<open>web\<close>, \<open>cloud\<close>, \<open>leveldb\<close>, \<open>sqlite\<close>, \<open>sdbLib\<close>, \<open>api\<close> and others) with its documented
  behaviour as named predicates (\<open>dstore_ok\<close>, \<open>msgpack_ok\<close>, \<open>secretbox_ok\<close>, \<open>cloud_ok\<close>,
  \<open>leveldb_ok\<close>, \<open>sqlite_ok\<close> and others), each shown to hold of a concrete function
  (\<open>Instance\<close>, \<open>WebInstance\<close>, \<open>MemCloud\<close>, \<open>LocalInstance\<close>).

  \<^bold>\<open>The theories.\<close>

  \<^item> \<open>Prelude\<close>: byte strings, errors, the computations and their rules (\<open>op_simps\<close>, \<open>op_iff\<close>),
    lists and sorted key lists. \<open>GoStd\<close>: int64, strconv, times, string functions.
    \<open>Deps\<close>: the third-party functions of the vault, paths. \<open>Duration\<close>: \<^verbatim>\<open>time.ParseDuration\<close>
    and \<^verbatim>\<open>Duration.String\<close>. \<open>Web\<close>: HTTP messages, URL queries.
  \<^item> \<open>Store\<close>: \<^verbatim>\<open>vault/store.go\<close>, the interface as a record, its contract as the locale \<open>store\<close>.
    \<open>Mem\<close>: \<^verbatim>\<open>vault/mem.go\<close>, interpretation \<open>memStore\<close>. \<open>LevelDB\<close>: \<^verbatim>\<open>vault/ldb.go\<close>,
    interpretation \<open>ldbStore\<close> in \<open>LocalInstance\<close>. \<open>StoreCalls\<close>: calls on the two with
    their replies, and where they differ.
  \<^item> \<open>VaultState\<close>: the struct \<^verbatim>\<open>Vault\<close>, \<^verbatim>\<open>vault/item.go\<close>, \<^verbatim>\<open>secretbox.go\<close>,
    \<^verbatim>\<open>vault/cfg.go\<close>. \<open>VaultCore\<close>: \<^verbatim>\<open>vault/vault.go\<close>. \<open>VaultAuth\<close>: \<^verbatim>\<open>vault/auth.go\<close>,
    \<^verbatim>\<open>provision.go\<close>. \<open>VaultSync\<close>: \<^verbatim>\<open>vault/api.go\<close>, \<^verbatim>\<open>sync.go\<close>, \<^verbatim>\<open>remote.go\<close>. \<open>VaultTools\<close>:
    \<^verbatim>\<open>vault/history.go\<close>, \<^verbatim>\<open>copy.go\<close>, \<^verbatim>\<open>convert.go\<close>. \<open>Keyring\<close>: \<^verbatim>\<open>vault/keyring/*.go\<close>.
    \<open>Secrets\<close>: \<^verbatim>\<open>vault/secrets/secrets.go\<close>.
  \<^item> \<open>VaultSpec\<close>: the abstract vault (a master key, tables of items, auths and provisions, a list
    of pending events). \<open>Tables\<close>, \<open>Log\<close>: how the store's entries represent them (\<open>vaultRep\<close>).
    \<open>VaultItems\<close>, \<open>AuthRefine\<close>: every operation refines its abstract counterpart.
    \<open>VaultMachine\<close>: the refinement for sequences of calls.
  \<^item> \<open>Server\<close>: \<^verbatim>\<open>http/server/server.go\<close>, \<^verbatim>\<open>error.go\<close>, \<^verbatim>\<open>auth.go\<close>, \<^verbatim>\<open>events.go\<close>, \<^verbatim>\<open>param.go\<close>,
    \<^verbatim>\<open>vault.go\<close>. \<open>Redis\<close>: \<^verbatim>\<open>redis.go\<close>, the locale \<open>redis\<close> and its interpretation. \<open>Fire\<close>: the
    interface \<^verbatim>\<open>Fire\<close> and the locale \<open>fire\<close>. \<open>Firestore\<close>, \<open>FirestoreProofs\<close>: \<^verbatim>\<open>firestore/*.go\<close>,
    whose transactions the library may run again, and which provides the contract when it does not;
    \<open>MemCloud\<close> interprets it. \<open>ServerProofs\<close>: what the vault handlers do, per key
    an append-only list. \<open>ServerApi\<close>: \<^verbatim>\<open>disco.go\<close>, \<^verbatim>\<open>invitecode.go\<close>, \<^verbatim>\<open>share.go\<close>,
    \<^verbatim>\<open>tasks.go\<close>, \<^verbatim>\<open>check.go\<close>, \<^verbatim>\<open>admin.go\<close>. \<open>ServerUsers\<close>: \<^verbatim>\<open>sigchain.go\<close>, \<^verbatim>\<open>user.go\<close>,
    \<^verbatim>\<open>batch.go\<close>, \<^verbatim>\<open>twitter.go\<close>.
  \<^item> \<open>HttpClient\<close>, \<open>ClientApi\<close>: \<^verbatim>\<open>http/client/*.go\<close>. \<open>Loopback\<close>, \<open>WebInstance\<close>: client and
    server connected.
  \<^item> \<open>SyncSpec\<close>, \<open>SyncProofs\<close>: the contract of a vault server as the locale \<open>vault_server\<close>, and
    the proof of push, pull and sync over it; \<open>Loopback\<close> discharges it for the client and server
    of the repository.
  \<^item> \<open>Documents\<close>: the contract of a document store as the locale \<open>documents\<close>. \<open>Sdb\<close>:
    \<^verbatim>\<open>sdb/*.go\<close>. \<open>Sqlcipher\<close>: \<^verbatim>\<open>sqlcipher/*.go\<close>. \<open>LocalInstance\<close> interprets it for both.
  \<^item> \<open>ServiceState\<close>: the struct \<^verbatim>\<open>service\<close> and what it calls. \<open>ServiceKeys\<close>, \<open>ServiceChains\<close>,
    \<open>ServiceUsers\<close>: \<^verbatim>\<open>service/user.go\<close>, \<^verbatim>\<open>update.go\<close>, \<^verbatim>\<open>lookup.go\<close>, \<^verbatim>\<open>search.go\<close>, \<^verbatim>\<open>key.go\<close>,
    \<^verbatim>\<open>keys.go\<close>, \<^verbatim>\<open>import.go\<close>, \<^verbatim>\<open>export.go\<close>, \<^verbatim>\<open>pull.go\<close>, \<^verbatim>\<open>push.go\<close>, \<^verbatim>\<open>sigchain.go\<close>,
    \<^verbatim>\<open>admin.go\<close>, \<^verbatim>\<open>secrets.go\<close>, \<^verbatim>\<open>config.go\<close>, \<^verbatim>\<open>rand.go\<close>, \<^verbatim>\<open>encode.go\<close>,
    \<^verbatim>\<open>db.go\<close>. \<open>Paths\<close>, \<open>Env\<close>: \<^verbatim>\<open>path.go\<close>, \<^verbatim>\<open>env.go\<close>. \<open>ServiceAuth\<close>, \<open>ServiceSession\<close>:
    \<^verbatim>\<open>auth*.go\<close>, \<^verbatim>\<open>service.go\<close>, \<^verbatim>\<open>check.go\<close>, \<^verbatim>\<open>status.go\<close>, \<^verbatim>\<open>vault.go\<close>. \<open>ServiceCrypto\<close>,
    \<open>ServiceFiles\<close>: \<^verbatim>\<open>encrypt.go\<close>, \<^verbatim>\<open>sign.go\<close>, \<^verbatim>\<open>decrypt.go\<close>, \<^verbatim>\<open>verify.go\<close>, \<^verbatim>\<open>stream.go\<close>,
    \<^verbatim>\<open>keyring.go\<close>.
  \<^item> \<open>Handshake\<close>: \<^verbatim>\<open>wormhole/sctp/handshake.go\<close>, its two sides and the packets in flight as a
    transition system. \<open>Sctp\<close>: \<^verbatim>\<open>sctp/client.go\<close>, \<^verbatim>\<open>conn.go\<close>, \<^verbatim>\<open>udp.go\<close>. \<open>Wormhole\<close>:
    \<^verbatim>\<open>wormhole/wormhole.go\<close>, \<^verbatim>\<open>message.go\<close>, \<^verbatim>\<open>vault.go\<close>. \<open>WormholeService\<close>:
    \<^verbatim>\<open>service/wormhole.go\<close>.
  \<^item> \<open>FidoServer\<close>: \<^verbatim>\<open>auth/rpc/*.go\<close>, the FIDO2 plugin over libfido2. \<open>FidoMock\<close>: \<^verbatim>\<open>auth/mock/*.go\<close>,
    its mock, and what the service relies on as the locale \<open>authenticator\<close>, which plugin
    and mock provide.
  \<^item> \<open>Frame\<close>: what an operation leaves alone, as the locale \<open>frame\<close> of preorders that the combinators
    respect. \<open>Session\<close>, \<open>WormholeSession\<close>: no call of the service but three touches the session (the
    vault's key, the flag and the tokens). \<open>Serving\<close>: which handler serves which method, behind the
    authorization of \<^verbatim>\<open>service/auth.go\<close>, and the states the service reaches. \<open>ServiceInstance\<close>: a
    concrete service.
  \<^item> \<open>Cli\<close>: a run of a command (what is read, typed and printed), flags, the clients of the service,
    \<^verbatim>\<open>service/cmd.go\<close>, \<^verbatim>\<open>password.go\<close>. \<open>CliAuth\<close>: \<^verbatim>\<open>cmd_auth*.go\<close>, \<^verbatim>\<open>cmd_fido2.go\<close>. \<open>CliFiles\<close>:
    \<^verbatim>\<open>cmd_verify.go\<close>, \<^verbatim>\<open>cmd_encrypt.go\<close>, \<^verbatim>\<open>cmd_sign.go\<close>, whose two goroutines run under a schedule.
    \<open>CliCommands\<close>: the other commands. \<open>Process\<close>: \<^verbatim>\<open>autostart.go\<close>, \<^verbatim>\<open>pid.go\<close>, \<^verbatim>\<open>install.go\<close>,
    \<^verbatim>\<open>cert.go\<close>, \<^verbatim>\<open>run.go\<close>. \<open>CliMain\<close>: \<^verbatim>\<open>client.go\<close>, \<^verbatim>\<open>cmd_start.go\<close>, \<^verbatim>\<open>cmd_env.go\<close>,
    \<^verbatim>\<open>cmd_log.go\<close>. \<open>CliService\<close>: the client connected to the service, and the locale
    \<open>session_issuer\<close>, what \<^verbatim>\<open>keys auth\<close> needs of a service, which it provides.
  \<^item> \<open>VaultMachine\<close>, \<open>SyncProps\<close>, \<open>VaultProps\<close>, \<open>ServerProps\<close>, \<open>LocalProps\<close>, \<open>Redis\<close>,
    \<open>SessionProps\<close>, \<open>PasswordProps\<close>, \<open>FidoProps\<close>, \<open>Handshake\<close>, \<open>WormholeProps\<close>, \<open>CliProps\<close>
    state the properties, each with a concrete instance.

  \<^bold>\<open>What the lemmas show.\<close> A vault in any sequence of calls behaves as the abstract vault; locked
  vaults give nothing away; items are sealed for their key and id. Pushing and pulling end, lose
  nothing and duplicate nothing, and vaults of one remote end with the same data. The server
  keeps per key an append-only list, and deleted vaults stay deleted. Nonces are not accepted
  twice, messages are given out once, requests without authorization change nothing. While the
  service is locked it refuses every call; a token lasts from an unlock to the lock, unless its client
  unlocks again. The handshake of a wormhole does not succeed alone but can end half open, and what is
  written to a wormhole is read. What the client
  prints after authorizing is a session, what it verifies it only prints if the signer is right, and
  it removes nothing without a confirmation. The
  implementations of one interface agree up to stated differences. Where the code does something else
  than it means to, the property states what it does.

  \<^bold>\<open>Bounds and fuel.\<close> The log's index is limited to \<open>maxIndex\<close> = 999999999999999, the largest
  number of fifteen digits, above which \<^verbatim>\<open>pad\<close> panics. \<open>pickCode\<close> has the three rounds of the
  source. A transaction is run a number of times that the
  library chooses (\<open>cAborts\<close>), each on the documents as they are. The loops over rows, documents and events
  end because the results are finite lists;
  \<open>sqlAll\<close> runs with the number of rows plus one as fuel, and every call of the iterator uses up
  a row. \<open>vaultPull\<close>, \<open>deleteCollection\<close> and \<open>readSession\<close> are \<open>partial_function\<close>s, so that not ending
  is \<open>None\<close>, and are proved to end, the last when the context does.

  \<^bold>\<open>Not modelled.\<close> Generated code (\<^verbatim>\<open>*.pb.go\<close>, of which only the messages' fields are taken), logging
  (\<^verbatim>\<open>service/log.go\<close>, \<^verbatim>\<open>logrus.go\<close>), help texts, and installation scripts, which hold no state of
  their own. urfave/cli's parsing, the operating system, libfido2, SCTP, STUN and noise are
  parameters. Mutexes: every call is one atomic step, as the code's locks make it; calls of the service
  follow each other, and the FIDO2 server registered beside it, which has no state of the service, is
  \<open>FidoServer\<close>. Go's unstable \<^verbatim>\<open>sort.Slice\<close> is a stable sort. Goroutines are
  lists of events, schedules or steps of a relation; timers are armed or not.
\<close>

end
